(* ===== verification/Prelude.thy ===== *)
theory Prelude
  imports Complex_Main "HOL-Library.AList"
begin

text \<open>
  Shared vocabulary of the development: the exceptions of the Python code as a datatype, the
  result type that carries them, Python's list indexing and dictionaries, the enumeration
  generators of \<open>itertools\<close> the sweep uses, and the lemmas on them that the component
  theories share. Named collections: \<open>res_simps\<close> (evaluation of the result monad),
  \<open>res_dest\<close> (inversion of a successful bind) and \<open>dict_simps\<close> (dictionaries).
\<close>

named_theorems res_simps \<open>evaluation of the result monad\<close>
named_theorems res_dest \<open>inversion of successful results\<close>
named_theorems dict_simps \<open>lookup after update in dictionaries\<close>

section \<open>Exceptions and results\<close>

text \<open>
  One constructor per exception class the modelled code raises or lets escape. The text of a
  message is diagnostic only and is left out. \<open>SimulationError\<close> keeps the raise site, since
  the sweep raises it for different reasons. \<open>EngineRuntimeError\<close> is a \<open>RuntimeError\<close> that
  comes out of the C++ binding; its argument is the exception's text, which the code inspects.
\<close>

datatype sim_reason =
    NoSurvivors
  | AmbiguousLevelUp
  | AmbiguousRecipientSlot
  | UnknownAttackerSlot
  | UnknownRecordSpecies
  | AmbiguousRecordSpecies
  | StatBoostSideUnknown
  | StatBoostNameMissing
  | HitsWithoutMove
  | HealSideInvalid
  | SwitchInNotInTeam
  | ForcedSwitchNotInTeam
  | PostFaintSwitchMissing
  | SpreadMultiHit
  | CalledMoveUnknown
  | FlinchAttribution
  | ComboOverScalarTrue
  | BranchCapExceeded

datatype exn =
    IndexError
  | KeyError
  | ValueError
  | TypeError
  | AttributeError
  | AssertionError
  | UnboundLocalError
  | ZeroDivisionError
  | RuntimeError
  | IntegrityError
  | EngineRuntimeError string
  | UnportedTurn
  | SideHintMissingError
  | SideHintContradictionError
  | RosterAmbiguityError
  | ActorNotActiveError
  | UninjectedRNGError
  | UnexpectedOpponentActionError
  | UnreproducibleObservedMoveError
  | PostFaintMovePhaseError
  | SimulationError sim_reason

text \<open>A computation that may raise: \<open>Inl\<close> is the exception, \<open>Inr\<close> the value.\<close>

type_synonym 'a res = "exn + 'a"

definition rbind :: "'a res \<Rightarrow> ('a \<Rightarrow> 'b res) \<Rightarrow> 'b res" where
  "rbind m f = (case m of Inl e \<Rightarrow> Inl e | Inr x \<Rightarrow> f x)"

lemma rbind_Inr [simp, res_simps]: "rbind (Inr x) f = f x"
  and rbind_Inl [simp, res_simps]: "rbind (Inl e) f = Inl e"
  by (simp_all add: rbind_def)

lemma rbind_eq_Inr: "rbind m f = Inr y \<longleftrightarrow> (\<exists>x. m = Inr x \<and> f x = Inr y)"
  by (cases m) auto

lemma rbind_eq_Inl: "rbind m f = Inl e \<longleftrightarrow> m = Inl e \<or> (\<exists>x. m = Inr x \<and> f x = Inl e)"
  by (cases m) auto

lemma rbind_InrE:
  assumes "rbind m f = Inr y"
  obtains x where "m = Inr x" "f x = Inr y"
  using assms by (auto simp: rbind_eq_Inr)

lemma rbind_assoc: "rbind (rbind m f) g = rbind m (\<lambda>x. rbind (f x) g)"
  by (cases m) auto

lemma rbind_cong [fundef_cong]:
  "m = m' \<Longrightarrow> (\<And>x. m' = Inr x \<Longrightarrow> f x = f' x) \<Longrightarrow> rbind m f = rbind m' f'"
  by (cases m') auto

text \<open>The loop \<open>for x in xs: acc.append(f(x))\<close> where \<open>f\<close> may raise.\<close>

fun rmap :: "('a \<Rightarrow> 'b res) \<Rightarrow> 'a list \<Rightarrow> 'b list res" where
  "rmap f [] = Inr []"
| "rmap f (x # xs) = rbind (f x) (\<lambda>y. rbind (rmap f xs) (\<lambda>ys. Inr (y # ys)))"

text \<open>The loop \<open>for x in xs: s = f(s, x)\<close> where the body may raise.\<close>

fun rfold :: "('s \<Rightarrow> 'a \<Rightarrow> 's res) \<Rightarrow> 's \<Rightarrow> 'a list \<Rightarrow> 's res" where
  "rfold f s [] = Inr s"
| "rfold f s (x # xs) = rbind (f s x) (\<lambda>s'. rfold f s' xs)"

lemma rmap_cong [fundef_cong]:
  "xs = ys \<Longrightarrow> (\<And>x. x \<in> set ys \<Longrightarrow> f x = g x) \<Longrightarrow> rmap f xs = rmap g ys"
  by (induction ys arbitrary: xs) auto

lemma rmap_Inr_map: "(\<And>x. x \<in> set xs \<Longrightarrow> f x = Inr (g x)) \<Longrightarrow> rmap f xs = Inr (map g xs)"
  by (induction xs) auto

lemma rmap_length: "rmap f xs = Inr ys \<Longrightarrow> length ys = length xs"
  by (induction xs arbitrary: ys) (auto simp: rbind_eq_Inr)

lemma rmap_set: "rmap f xs = Inr ys \<Longrightarrow> y \<in> set ys \<Longrightarrow> \<exists>x \<in> set xs. f x = Inr y"
  by (induction xs arbitrary: ys) (auto simp: rbind_eq_Inr)

lemma rmap_nth: "rmap f xs = Inr ys \<Longrightarrow> i < length xs \<Longrightarrow> f (xs ! i) = Inr (ys ! i)"
proof (induction xs arbitrary: ys i)
  case (Cons x xs)
  then show ?case by (cases i) (auto simp: rbind_eq_Inr)
qed simp

lemma rmap_total: "(\<exists>ys. rmap f xs = Inr ys) \<longleftrightarrow> (\<forall>x \<in> set xs. \<exists>y. f x = Inr y)"
  by (induction xs) (auto simp: rbind_eq_Inr)

lemma rfold_append: "rfold f s (xs @ ys) = rbind (rfold f s xs) (\<lambda>s'. rfold f s' ys)"
  by (induction xs arbitrary: s) (auto simp: rbind_assoc)

text \<open>A loop invariant: what the body keeps, the whole loop keeps.\<close>

lemma rfold_invariant:
  assumes "rfold f s xs = Inr s'" and "P s"
    and "\<And>s x s'. x \<in> set xs \<Longrightarrow> P s \<Longrightarrow> f s x = Inr s' \<Longrightarrow> P s'"
  shows "P s'"
  using assms
proof (induction xs arbitrary: s)
  case Nil
  then show ?case by simp
next
  case (Cons x xs)
  from Cons.prems(1) obtain s1 where s1: "f s x = Inr s1" and rest: "rfold f s1 xs = Inr s'"
    by (auto simp: rbind_eq_Inr)
  from Cons.prems(2,3) s1 have "P s1" by auto
  with rest Cons.prems(3) Cons.IH[of s1] show ?case by auto
qed

text \<open>
  The loop \<open>for x in xs: if f(x): return True\<close> followed by \<open>return False\<close>: a test after the first
  success is not evaluated, so its exception does not escape.
\<close>

fun rany :: "('a \<Rightarrow> bool res) \<Rightarrow> 'a list \<Rightarrow> bool res" where
  "rany f [] = Inr False"
| "rany f (x # xs) = rbind (f x) (\<lambda>b. if b then Inr True else rany f xs)"

lemma rany_Inr:
  "(\<And>x. x \<in> set xs \<Longrightarrow> f x = Inr (g x)) \<Longrightarrow> rany f xs = Inr (\<exists>x \<in> set xs. g x)"
  by (induction xs) auto

text \<open>A loop that returns \<open>False\<close> at the first failing element, and two checks in sequence.\<close>

fun rall :: "('a \<Rightarrow> bool res) \<Rightarrow> 'a list \<Rightarrow> bool res" where
  "rall f [] = Inr True"
| "rall f (x # xs) = rbind (f x) (\<lambda>b. if b then rall f xs else Inr False)"

lemma rall_True: "rall f xs = Inr True \<longleftrightarrow> (\<forall>x \<in> set xs. f x = Inr True)"
proof (induction xs)
  case (Cons x xs)
  then show ?case by (cases "f x") auto
qed simp

lemma rall_Inr: "(\<And>x. x \<in> set xs \<Longrightarrow> f x = Inr (g x)) \<Longrightarrow> rall f xs = Inr (\<forall>x \<in> set xs. g x)"
  by (induction xs) auto

fun rall_checks :: "bool res list \<Rightarrow> bool res" where
  "rall_checks [] = Inr True"
| "rall_checks (c # cs) = rbind c (\<lambda>b. if b then rall_checks cs else Inr False)"

lemma rall_checks_True: "rall_checks cs = Inr True \<longleftrightarrow> (\<forall>c \<in> set cs. c = Inr True)"
proof (induction cs)
  case (Cons c cs)
  then show ?case by (cases c) auto
qed simp

section \<open>Sides\<close>

text \<open>
  A side index of the source is 0 (player) or 1 (opponent); \<open>1 - side\<close> is the other side.
\<close>

datatype sid = P0 | P1

fun opp :: "sid \<Rightarrow> sid" where
  "opp P0 = P1"
| "opp P1 = P0"

fun sid_int :: "sid \<Rightarrow> int" where
  "sid_int P0 = 0"
| "sid_int P1 = 1"

lemma opp_opp [simp]: "opp (opp s) = s"
  by (cases s) simp_all

lemma opp_neq [simp]: "opp s \<noteq> s" "s \<noteq> opp s"
  by (cases s; simp)+

lemma opp_eq_iff: "opp s = t \<longleftrightarrow> s = opp t"
  by (cases s; cases t) simp_all

lemma sid_neq_iff: "s \<noteq> t \<longleftrightarrow> s = opp t"
  by (cases s; cases t) simp_all

lemma sid_int_inj [simp]: "sid_int s = sid_int t \<longleftrightarrow> s = t"
  by (cases s; cases t) simp_all

section \<open>Python lists\<close>

text \<open>\<open>xs[i]\<close> for a non-negative index: out of range raises.\<close>

definition lk :: "'a list \<Rightarrow> nat \<Rightarrow> 'a res" where
  "lk xs i = (if i < length xs then Inr (xs ! i) else Inl IndexError)"

lemma lk_in_range [simp]: "i < length xs \<Longrightarrow> lk xs i = Inr (xs ! i)"
  by (simp add: lk_def)

lemma lk_out_of_range [simp]: "length xs \<le> i \<Longrightarrow> lk xs i = Inl IndexError"
  by (simp add: lk_def)

lemma lk_eq_Inr: "lk xs i = Inr x \<longleftrightarrow> i < length xs \<and> x = xs ! i"
  by (auto simp: lk_def)

text \<open>\<open>xs[i]\<close> for any integer: a negative index counts from the end.\<close>

definition lki :: "'a list \<Rightarrow> int \<Rightarrow> 'a res" where
  "lki xs i = (if 0 \<le> i \<and> i < int (length xs) then Inr (xs ! nat i)
               else if i < 0 \<and> - int (length xs) \<le> i then Inr (xs ! nat (int (length xs) + i))
               else Inl IndexError)"

lemma lki_of_nat: "lki xs (int n) = lk xs n"
  by (simp add: lki_def lk_def)

lemma lki_eq_Inr_mem: "lki xs i = Inr x \<Longrightarrow> x \<in> set xs"
  by (auto simp: lki_def split: if_splits)

text \<open>\<open>enumerate(xs)\<close>.\<close>

definition enumerated :: "'a list \<Rightarrow> (nat \<times> 'a) list" where
  "enumerated xs = zip [0..<length xs] xs"

lemma length_enumerated [simp]: "length (enumerated xs) = length xs"
  by (simp add: enumerated_def)

lemma set_enumerated: "(i, x) \<in> set (enumerated xs) \<longleftrightarrow> i < length xs \<and> x = xs ! i"
  by (force simp: enumerated_def set_zip)

lemma map_snd_enumerated [simp]: "map snd (enumerated xs) = xs"
  by (simp add: enumerated_def)

lemma ball_enumerated_snd: "(\<forall>x \<in> set (enumerated xs). P (snd x)) \<longleftrightarrow> (\<forall>y \<in> set xs. P y)"
proof -
  have "set xs = snd ` set (enumerated xs)" by (metis map_snd_enumerated set_map)
  then show ?thesis by auto
qed

lemma map_fst_enumerated [simp]: "map fst (enumerated xs) = [0..<length xs]"
  by (simp add: enumerated_def)

lemma mem_enumerated_filter:
  "k \<in> fst ` {x \<in> set (enumerated xs). P (snd x)} \<longleftrightarrow> k < length xs \<and> P (xs ! k)"
proof
  assume "k < length xs \<and> P (xs ! k)"
  then have "(k, xs ! k) \<in> {x \<in> set (enumerated xs). P (snd x)}" by (simp add: set_enumerated)
  then show "k \<in> fst ` {x \<in> set (enumerated xs). P (snd x)}" by (metis fst_conv imageI)
qed (auto simp: set_enumerated)

lemma distinct_enumerated_filter: "distinct (map fst (filter P (enumerated xs)))"
  by (simp add: distinct_map_filter)

text \<open>\<open>zip(xs, xs[1:])\<close>: the pairs of neighbours.\<close>

definition neighbours :: "'a list \<Rightarrow> ('a \<times> 'a) list" where
  "neighbours xs = zip xs (tl xs)"

lemma neighbours_simps [simp]:
  "neighbours [] = []" "neighbours [x] = []"
  "neighbours (x # y # zs) = (x, y) # neighbours (y # zs)"
  by (simp_all add: neighbours_def)

lemma length_neighbours [simp]: "length (neighbours xs) = length xs - 1"
  by (simp add: neighbours_def)

text \<open>
  Ceiling of the quotient \<open>a / b\<close> of integers, Python's \<open>math.ceil(a / b)\<close>. Python
  divides in double precision; for the magnitudes of this program (\<open>a\<close> below \<open>2^46\<close>,
  \<open>b = 48\<close>) a non-integral quotient is further than the rounding error from every integer, so
  the ceiling is the exact one.
\<close>

definition ceil_div :: "int \<Rightarrow> int \<Rightarrow> int" where
  "ceil_div a b = - ((- a) div b)"

lemma le_int_div_iff:
  fixes a b q :: int
  assumes "0 < b"
  shows "q \<le> a div b \<longleftrightarrow> q * b \<le> a"
proof -
  have "q \<le> a div b \<longleftrightarrow> q \<le> \<lfloor>rat_of_int a / rat_of_int b\<rfloor>"
    by (simp add: floor_divide_of_int_eq)
  also have "\<dots> \<longleftrightarrow> rat_of_int q * rat_of_int b \<le> rat_of_int a"
    using assms by (simp add: le_floor_iff pos_le_divide_eq)
  finally show ?thesis
    by (simp flip: of_int_mult)
qed

lemma ceil_div_le_iff: "0 < b \<Longrightarrow> ceil_div a b \<le> h \<longleftrightarrow> a \<le> h * b"
  using le_int_div_iff[of b "- h" "- a"] by (auto simp: ceil_div_def)

lemma le_ceil_div_iff: "0 < b \<Longrightarrow> h \<le> ceil_div a b \<longleftrightarrow> (h - 1) * b < a"
  using ceil_div_le_iff[of b a "h - 1"] by linarith

end
