(* ===== verification/SweepIO.thy ===== *)
theory SweepIO
  imports Prelude
begin

text \<open>
  The lossless JSON codec of the sweep's inputs and outputs (\<open>sweep_io.py\<close>). Python objects of the sweep's graph are values of
  \<open>pyobj\<close>: primitives, members of enums (a class and a value), instances of dataclasses (a class and its fields in order),
  tuples, frozensets (listed in the order of \<open>sorted(key=repr)\<close>), lists and dictionaries; anything else is an \<open>OOther\<close>.
  JSON values are \<open>json\<close>; the text written by \<open>json.dumps\<close> and read by \<open>json.loads\<close> is that value. Which
  values an enum class has, and the names of its members, are the argument \<open>members\<close>; keys of dictionaries are compared structurally.
\<close>

section \<open>Values\<close>

datatype enum_value = EInt int | EStr string

datatype pyobj =
    ONone | OBool bool | OInt int | OFloat rat | OStr string
  | OEnum string enum_value
  | OData string "(string \<times> pyobj) list"
  | OTuple "pyobj list" | OFrozen "pyobj list" | OList "pyobj list"
  | ODict "(pyobj \<times> pyobj) list"
  | OOther string

datatype json = JNull | JBool bool | JInt int | JFloat rat | JStr string | JList "json list" | JObj "(string \<times> json) list"

text \<open>The members of an enum class: for a valid value its name (a composite flag may have none).\<close>

type_synonym enum_members = "string \<Rightarrow> enum_value \<Rightarrow> string option option"

definition ENUM_REGISTRY :: "string list" where
  "ENUM_REGISTRY = [''Species'', ''Move'', ''Status'', ''Nature'', ''Stat'', ''Ability'', ''Item'', ''Type'', ''WeatherEnum'', ''TerrainEnum'',
     ''PseudoWeather'', ''FormatEnum'', ''SideCondition'', ''GenderEnum'', ''VolatileEffect'', ''Volatile'', ''ActionKind'', ''RNGEvent'', ''LuckGroup'']"

definition DATACLASS_REGISTRY :: "string list" where
  "DATACLASS_REGISTRY = [''Candidate'', ''PartialCandidate'', ''BattleState'', ''SideState'', ''PokemonState'', ''MatchResult'', ''ActionGroup'',
     ''HpReading'', ''Constraints'', ''HpDeltaSeq'', ''Action'']"

text \<open>The one field that is left out of comparisons and of the encoding.\<close>

definition skipped_field :: "string \<Rightarrow> string \<Rightarrow> bool" where
  "skipped_field cls f \<longleftrightarrow> cls = ''Candidate'' \<and> f = ''parent_candidate''"

section \<open>Encoding\<close>

fun enum_json :: "enum_value \<Rightarrow> json" where
  "enum_json (EInt n) = JInt n"
| "enum_json (EStr s) = JStr s"

definition enum_name_json :: "enum_members \<Rightarrow> string \<Rightarrow> enum_value \<Rightarrow> json" where
  "enum_name_json members cls v = (case members cls v of Some (Some n) \<Rightarrow> JStr n | _ \<Rightarrow> JNull)"

lemma pair_size [termination_simp]: "x \<in> set fs \<Longrightarrow> size (snd x) < Suc (size_list (size_prod (\<lambda>_. 0) size) fs)"
proof -
  assume "x \<in> set fs"
  then have "size (snd x) < size_list (size_prod (\<lambda>_. 0) size) fs"
    by (rule size_list_estimation) (cases x, simp)
  then show ?thesis by simp
qed

lemma dict_size [termination_simp]:
  assumes "x \<in> set kvs"
  shows "size (fst x) < Suc (size_list (size_prod size size) kvs)" "size (snd x) < Suc (size_list (size_prod size size) kvs)"
proof -
  have "size (fst x) < size_list (size_prod size size) kvs" "size (snd x) < size_list (size_prod size size) kvs"
    by (rule size_list_estimation[OF assms], cases x, simp)+
  then show "size (fst x) < Suc (size_list (size_prod size size) kvs)" "size (snd x) < Suc (size_list (size_prod size size) kvs)" by simp_all
qed

fun to_jsonable :: "enum_members \<Rightarrow> pyobj \<Rightarrow> json res" where
  "to_jsonable members (OEnum cls v) =
     Inr (JObj [(''__enum__'', JStr cls), (''name'', enum_name_json members cls v), (''value'', enum_json v)])"
| "to_jsonable members ONone = Inr JNull"
| "to_jsonable members (OBool b) = Inr (JBool b)"
| "to_jsonable members (OInt n) = Inr (JInt n)"
| "to_jsonable members (OFloat r) = Inr (JFloat r)"
| "to_jsonable members (OStr s) = Inr (JStr s)"
| "to_jsonable members (OData cls fields) =
     rbind (rmap (\<lambda>x. if skipped_field cls (fst x) then Inr (fst x, JNull)
                      else rbind (to_jsonable members (snd x)) (\<lambda>j. Inr (fst x, j))) fields)
       (\<lambda>fs. Inr (JObj [(''__type__'', JStr cls), (''fields'', JObj fs)]))"
| "to_jsonable members (OTuple xs) = rbind (rmap (to_jsonable members) xs) (\<lambda>js. Inr (JObj [(''__tuple__'', JList js)]))"
| "to_jsonable members (OFrozen xs) = rbind (rmap (to_jsonable members) xs) (\<lambda>js. Inr (JObj [(''__frozenset__'', JList js)]))"
| "to_jsonable members (OList xs) = rbind (rmap (to_jsonable members) xs) (\<lambda>js. Inr (JList js))"
| "to_jsonable members (ODict kvs) =
     rbind (rmap (\<lambda>x. rbind (to_jsonable members (fst x)) (\<lambda>k. rbind (to_jsonable members (snd x)) (\<lambda>v. Inr (JList [k, v])))) kvs)
       (\<lambda>js. Inr (JObj [(''__dict__'', JList js)]))"
| "to_jsonable members (OOther ty) = Inl TypeError"

section \<open>Decoding\<close>

text \<open>
  The constructor of a dataclass without special treatment: its fields in order, with their defaults. A wrong set of keyword arguments is a
  \<open>TypeError\<close>, which the code answers by setting the fields as they are.
\<close>

definition CONSTRUCTOR_FIELDS :: "(string \<times> (string \<times> pyobj option) list) list" where
  "CONSTRUCTOR_FIELDS = [
     (''Candidate'', [(''state'', None), (''rng_sequence'', Some (OList [])), (''unknown_actions'', Some (ODict [])), (''parent_candidate'', Some ONone)]),
     (''MatchResult'', [(''string_id'', None), (''id_value'', None), (''constant_name'', None), (''var_values'', None), (''score'', None),
        (''context_score'', Some (OInt 0)), (''matched_text'', Some (OStr [])), (''slot_labels'', Some (OList [])),
        (''literal_coverage'', Some (OFloat 1)), (''side_hint'', Some ONone), (''name_side_slots'', Some (ODict [])), (''metronome_called'', Some ONone)]),
     (''ActionGroup'', [(''primary'', None), (''secondaries'', Some (OList [])), (''hp_readings'', Some (OList []))]),
     (''HpReading'', [(''k'', None), (''hp_min'', None), (''hp_max'', None), (''hp_mid'', None)]),
     (''Constraints'', [(''valid_pokemon'', Some ONone), (''valid_moves'', Some ONone), (''valid_items'', Some ONone), (''valid_abilities'', Some ONone),
        (''trainer_name'', Some ONone), (''trainer_class'', Some ONone), (''unconstrained_moves'', Some (OBool False)), (''unconstrained_names'', Some (OBool False))]),
     (''Action'', [(''kind'', None), (''move_slot'', Some (OInt (-1))), (''target_slot'', Some (OInt 0)), (''switch_to_slot'', Some (OInt (-1))),
        (''mega'', Some (OBool False)), (''move_override'', Some ONone), (''source_slot'', Some (OInt 0)), (''target_side'', Some (OInt (-1)))])]"

definition call_constructor :: "(string \<times> pyobj option) list \<Rightarrow> (string \<times> pyobj) list \<Rightarrow> (string \<times> pyobj) list option" where
  "call_constructor sig fields =
     (if (\<forall>x \<in> set fields. fst x \<in> fst ` set sig) \<and> (\<forall>s \<in> set sig. snd s = None \<longrightarrow> fst s \<in> fst ` set fields)
      then Some (map (\<lambda>s. (fst s, case map_of fields (fst s) of Some v \<Rightarrow> v | None \<Rightarrow> the (snd s))) sig)
      else None)"

definition reconstruct_dataclass :: "string \<Rightarrow> (string \<times> pyobj) list \<Rightarrow> pyobj" where
  "reconstruct_dataclass cls fields = (case map_of CONSTRUCTOR_FIELDS cls of
       None \<Rightarrow> OData cls fields
     | Some sig \<Rightarrow> (case call_constructor sig fields of Some fs \<Rightarrow> OData cls fs | None \<Rightarrow> OData cls fields))"

text \<open>Values that can be keys of a dictionary or elements of a frozenset.\<close>

fun hashable :: "pyobj \<Rightarrow> bool" where
  "hashable (OTuple xs) = (\<forall>x \<in> set xs. hashable x)"
| "hashable (OData cls fs) \<longleftrightarrow> cls \<in> set [''BattleState'', ''SideState'', ''PokemonState'', ''PartialCandidate'', ''HpDeltaSeq'']"
| "hashable (OList xs) = False"
| "hashable (ODict kvs) = False"
| "hashable x = True"

definition key_value :: "json \<Rightarrow> enum_value option" where
  "key_value j = (case j of JInt n \<Rightarrow> Some (EInt n) | JStr s \<Rightarrow> Some (EStr s) | _ \<Rightarrow> None)"

text \<open>\<open>cls(obj["value"])\<close>: an unknown value raises.\<close>

definition decode_enum :: "enum_members \<Rightarrow> (string \<times> json) list \<Rightarrow> pyobj res" where
  "decode_enum members kvs = (case map_of kvs ''__enum__'' of
       Some (JStr cls) \<Rightarrow>
         if cls \<notin> set ENUM_REGISTRY then Inl ValueError
         else (case map_of kvs ''value'' of
             None \<Rightarrow> Inl KeyError
           | Some j \<Rightarrow> (case key_value j of
                 Some v \<Rightarrow> if members cls v = None then Inl ValueError else Inr (OEnum cls v)
               | None \<Rightarrow> Inl ValueError))
     | Some (JList _) \<Rightarrow> Inl TypeError
     | Some (JObj _) \<Rightarrow> Inl TypeError
     | _ \<Rightarrow> Inl ValueError)"

definition as_keys :: "pyobj list \<Rightarrow> pyobj list res" where
  "as_keys xs = (if \<forall>x \<in> set xs. hashable x then Inr (remdups xs) else Inl TypeError)"

definition as_dict :: "(pyobj \<times> pyobj) list \<Rightarrow> pyobj res" where
  "as_dict kvs = (if \<forall>x \<in> set kvs. hashable (fst x) then Inr (ODict (foldl (\<lambda>d x. AList.update (fst x) (snd x) d) [] kvs)) else Inl TypeError)"

definition has_key :: "string \<Rightarrow> (string \<times> json) list \<Rightarrow> bool" where
  "has_key k kvs \<longleftrightarrow> map_of kvs k \<noteq> None"

text \<open>Lists inside a tagged object are decoded item by item; a string or an object there is iterated by characters or keys.\<close>

lemma map_of_size: "map_of kvs k = Some j \<Longrightarrow> size j < size_list (\<lambda>x. Suc (size (snd x))) kvs"
  by (drule map_of_SomeD, erule size_list_estimation) simp

lemma json_list_size [termination_simp]:
  assumes "map_of kvs k = Some (JList js)" "x \<in> set js"
  shows "size x < Suc (size_list (\<lambda>x. Suc (size (snd x))) kvs)"
  using map_of_size[OF assms(1)] size_list_estimation'[OF assms(2) order_refl, of size] by simp

lemma json_obj_size [termination_simp]:
  assumes "map_of kvs k = Some (JObj fs)" "(a, b) \<in> set fs"
  shows "size b < Suc (size_list (\<lambda>x. Suc (size (snd x))) kvs)"
  using map_of_size[OF assms(1)] pair_size[OF assms(2)] by simp

lemma json_pair_size [termination_simp]:
  assumes "map_of kvs k = Some (JList js)" "JList [a, b] \<in> set js"
  shows "size a < Suc (size_list (\<lambda>x. Suc (size (snd x))) kvs)" "size b < Suc (size_list (\<lambda>x. Suc (size (snd x))) kvs)"
  using json_list_size[OF assms] by simp_all

fun from_jsonable :: "enum_members \<Rightarrow> json \<Rightarrow> pyobj res" where
  "from_jsonable members JNull = Inr ONone"
| "from_jsonable members (JBool b) = Inr (OBool b)"
| "from_jsonable members (JInt n) = Inr (OInt n)"
| "from_jsonable members (JFloat r) = Inr (OFloat r)"
| "from_jsonable members (JStr s) = Inr (OStr s)"
| "from_jsonable members (JList js) = rbind (rmap (from_jsonable members) js) (\<lambda>xs. Inr (OList xs))"
| "from_jsonable members (JObj kvs) =
     (if has_key ''__enum__'' kvs then decode_enum members kvs
      else if has_key ''__type__'' kvs then
        (case map_of kvs ''__type__'' of
           Some (JStr cls) \<Rightarrow>
             if cls \<notin> set DATACLASS_REGISTRY then Inl ValueError
             else (case map_of kvs ''fields'' of
                 None \<Rightarrow> Inl KeyError
               | Some (JObj fs) \<Rightarrow> rbind (rmap (\<lambda>x. rbind (from_jsonable members (snd x)) (\<lambda>v. Inr (fst x, v))) fs)
                   (\<lambda>fields. Inr (reconstruct_dataclass cls fields))
               | Some _ \<Rightarrow> Inl AttributeError)
         | Some (JList _) \<Rightarrow> Inl TypeError
         | Some (JObj _) \<Rightarrow> Inl TypeError
         | _ \<Rightarrow> Inl ValueError)
      else if has_key ''__tuple__'' kvs then
        (case map_of kvs ''__tuple__'' of
           Some (JList js) \<Rightarrow> rbind (rmap (from_jsonable members) js) (\<lambda>xs. Inr (OTuple xs))
         | Some (JStr s) \<Rightarrow> Inr (OTuple (map (\<lambda>c. OStr [c]) s))
         | Some (JObj fs) \<Rightarrow> Inr (OTuple (map (\<lambda>x. OStr (fst x)) fs))
         | _ \<Rightarrow> Inl TypeError)
      else if has_key ''__frozenset__'' kvs then
        (case map_of kvs ''__frozenset__'' of
           Some (JList js) \<Rightarrow> rbind (rmap (from_jsonable members) js) (\<lambda>xs. rbind (as_keys xs) (\<lambda>ks. Inr (OFrozen ks)))
         | Some (JStr s) \<Rightarrow> Inr (OFrozen (remdups (map (\<lambda>c. OStr [c]) s)))
         | Some (JObj fs) \<Rightarrow> Inr (OFrozen (remdups (map (\<lambda>x. OStr (fst x)) fs)))
         | _ \<Rightarrow> Inl TypeError)
      else if has_key ''__dict__'' kvs then
        (case map_of kvs ''__dict__'' of
           Some (JList js) \<Rightarrow> rbind (rmap (\<lambda>j. case j of
               JList [a, b] \<Rightarrow> rbind (from_jsonable members a) (\<lambda>k. rbind (from_jsonable members b) (\<lambda>v. Inr (k, v)))
             | JList _ \<Rightarrow> Inl ValueError
             | JStr [a, b] \<Rightarrow> Inr (OStr [a], OStr [b])
             | JStr _ \<Rightarrow> Inl ValueError
             | JObj [(a, _), (b, _)] \<Rightarrow> Inr (OStr a, OStr b)
             | JObj _ \<Rightarrow> Inl ValueError
             | _ \<Rightarrow> Inl TypeError) js) as_dict
         | Some (JStr []) \<Rightarrow> Inr (ODict [])
         | Some (JStr _) \<Rightarrow> Inl ValueError
         | Some (JObj []) \<Rightarrow> Inr (ODict [])
         | Some (JObj _) \<Rightarrow> Inl ValueError
         | _ \<Rightarrow> Inl TypeError)
      else rbind (rmap (\<lambda>x. rbind (from_jsonable members (snd x)) (\<lambda>v. Inr (fst x, v))) kvs)
        (\<lambda>d. Inr (ODict (map (\<lambda>x. (OStr (fst x), snd x)) d))))"

section \<open>What the codec keeps\<close>

text \<open>The object graph without the links to parent candidates.\<close>

fun strip_parents :: "pyobj \<Rightarrow> pyobj" where
  "strip_parents (OData cls fields) = OData cls (map (\<lambda>x. (fst x, if skipped_field cls (fst x) then ONone else strip_parents (snd x))) fields)"
| "strip_parents (OTuple xs) = OTuple (map strip_parents xs)"
| "strip_parents (OFrozen xs) = OFrozen (map strip_parents xs)"
| "strip_parents (OList xs) = OList (map strip_parents xs)"
| "strip_parents (ODict kvs) = ODict (map (\<lambda>x. (strip_parents (fst x), strip_parents (snd x))) kvs)"
| "strip_parents x = x"

text \<open>A value that can be a key survives the encoding as it is.\<close>

definition key_ok :: "pyobj \<Rightarrow> bool" where
  "key_ok k \<longleftrightarrow> hashable k \<and> strip_parents k = k"

text \<open>
  The objects of the sweep's graph: registered classes, valid enum values, instances with the fields of their class, and keys that are hashable
  and distinct.
\<close>

fun encodable :: "enum_members \<Rightarrow> pyobj \<Rightarrow> bool" where
  "encodable members (OEnum cls v) \<longleftrightarrow> cls \<in> set ENUM_REGISTRY \<and> members cls v \<noteq> None"
| "encodable members (OData cls fields) \<longleftrightarrow> cls \<in> set DATACLASS_REGISTRY \<and> distinct (map fst fields)
     \<and> (case map_of CONSTRUCTOR_FIELDS cls of None \<Rightarrow> True | Some sig \<Rightarrow> map fst fields = map fst sig)
     \<and> (\<forall>x \<in> set fields. skipped_field cls (fst x) \<or> encodable members (snd x))"
| "encodable members (OTuple xs) \<longleftrightarrow> (\<forall>x \<in> set xs. encodable members x)"
| "encodable members (OFrozen xs) \<longleftrightarrow> distinct xs \<and> (\<forall>x \<in> set xs. key_ok x \<and> encodable members x)"
| "encodable members (OList xs) \<longleftrightarrow> (\<forall>x \<in> set xs. encodable members x)"
| "encodable members (ODict kvs) \<longleftrightarrow> distinct (map fst kvs) \<and> (\<forall>x \<in> set kvs. key_ok (fst x) \<and> encodable members (fst x) \<and> encodable members (snd x))"
| "encodable members (OOther ty) \<longleftrightarrow> False"
| "encodable members x \<longleftrightarrow> True"

lemma rmap_roundtrip:
  "(\<And>x. x \<in> set xs \<Longrightarrow> \<exists>j. f x = Inr j \<and> g j = Inr (h x)) \<Longrightarrow> \<exists>js. rmap f xs = Inr js \<and> rmap g js = Inr (map h xs)"
proof (induction xs)
  case (Cons x xs)
  from Cons.prems[of x] obtain j where "f x = Inr j" "g j = Inr (h x)" by auto
  moreover from Cons obtain js where "rmap f xs = Inr js" "rmap g js = Inr (map h xs)" by auto
  ultimately show ?case by simp
qed simp

lemma call_constructor_exact:
  assumes "map fst fields = map fst sig" "distinct (map fst fields)"
  shows "call_constructor sig fields = Some fields"
proof -
  have names: "fst ` set fields = fst ` set sig" by (metis assms(1) list.set_map)
  have len: "length fields = length sig" by (metis assms(1) length_map)
  have m: "map (\<lambda>s. (fst s, case map_of fields (fst s) of Some v \<Rightarrow> v | None \<Rightarrow> the (snd s))) sig = fields"
  proof (rule nth_equalityI)
    fix i assume i: "i < length (map (\<lambda>s. (fst s, case map_of fields (fst s) of Some v \<Rightarrow> v | None \<Rightarrow> the (snd s))) sig)"
    from assms(1) have "map fst fields ! i = map fst sig ! i" by simp
    with i len have f: "fst (sig ! i) = fst (fields ! i)" by simp
    have "map_of fields (fst (fields ! i)) = Some (snd (fields ! i))"
      using i len assms(2) by (intro map_of_is_SomeI) (simp_all add: len)
    with i f show "map (\<lambda>s. (fst s, case map_of fields (fst s) of Some v \<Rightarrow> v | None \<Rightarrow> the (snd s))) sig ! i = fields ! i" by simp
  qed (simp add: len)
  have c: "(\<forall>x \<in> set fields. fst x \<in> fst ` set sig) \<and> (\<forall>s \<in> set sig. snd s = None \<longrightarrow> fst s \<in> fst ` set fields)"
    using names by auto
  show ?thesis unfolding call_constructor_def if_P[OF c] m ..
qed

lemma reconstruct_exact:
  assumes "case map_of CONSTRUCTOR_FIELDS cls of None \<Rightarrow> True | Some sig \<Rightarrow> map fst fields = map fst sig" "distinct (map fst fields)"
  shows "reconstruct_dataclass cls fields = OData cls fields"
  using assms by (auto simp: reconstruct_dataclass_def call_constructor_exact split: option.splits)

lemma as_dict_exact:
  assumes "distinct (map fst kvs)" "\<forall>x \<in> set kvs. hashable (fst x)"
  shows "as_dict kvs = Inr (ODict kvs)"
proof -
  have "foldl (\<lambda>d x. AList.update (fst x) (snd x) d) d kvs = d @ kvs" if "fst ` set d \<inter> fst ` set kvs = {}" for d
    using assms(1) that
  proof (induction kvs arbitrary: d)
    case (Cons x kvs)
    have "AList.update (fst x) (snd x) d = d @ [x]" using Cons.prems(2) by (induction d) auto
    with Cons.IH[of "d @ [x]"] Cons.prems show ?case by auto
  qed simp
  from this[of "[]"] assms(2) show ?thesis by (simp add: as_dict_def)
qed

lemma codec_roundtrip_obj:
  "encodable members x \<Longrightarrow> \<exists>j. to_jsonable members x = Inr j \<and> from_jsonable members j = Inr (strip_parents x)"
proof (induction members x rule: to_jsonable.induct)
  case (1 members cls v)
  then show ?case by (cases v) (auto simp: has_key_def decode_enum_def key_value_def)
next
  case (7 members cls fields)
  let ?f = "\<lambda>x. if skipped_field cls (fst x) then Inr (fst x, JNull) else rbind (to_jsonable members (snd x)) (\<lambda>j. Inr (fst x, j))"
  let ?h = "\<lambda>x. (fst x, if skipped_field cls (fst x) then ONone else strip_parents (snd x))"
  have "\<exists>fs. rmap ?f fields = Inr fs \<and> rmap (\<lambda>x. rbind (from_jsonable members (snd x)) (\<lambda>v. Inr (fst x, v))) fs = Inr (map ?h fields)"
  proof (rule rmap_roundtrip)
    fix x assume x: "x \<in> set fields"
    show "\<exists>j. ?f x = Inr j \<and> rbind (from_jsonable members (snd j)) (\<lambda>v. Inr (fst j, v)) = Inr (?h x)"
    proof (cases "skipped_field cls (fst x)")
      case False
      with 7(2) x have "encodable members (snd x)" by auto
      from 7(1)[OF x False this] obtain j where "to_jsonable members (snd x) = Inr j" "from_jsonable members j = Inr (strip_parents (snd x))" by blast
      with False show ?thesis by simp
    qed simp
  qed
  then obtain fs where fs: "rmap ?f fields = Inr fs" "rmap (\<lambda>x. rbind (from_jsonable members (snd x)) (\<lambda>v. Inr (fst x, v))) fs = Inr (map ?h fields)" by blast
  have "map fst (map ?h fields) = map fst fields" by simp
  then have "reconstruct_dataclass cls (map ?h fields) = OData cls (map ?h fields)"
    using 7(2) by (intro reconstruct_exact) (simp_all only: encodable.simps)
  with fs 7(2) show ?case by (simp add: has_key_def)
next
  case (8 members xs)
  have "\<exists>js. rmap (to_jsonable members) xs = Inr js \<and> rmap (from_jsonable members) js = Inr (map strip_parents xs)"
    by (rule rmap_roundtrip) (use 8 in auto)
  then show ?case by (auto simp: has_key_def)
next
  case (9 members xs)
  have "\<exists>js. rmap (to_jsonable members) xs = Inr js \<and> rmap (from_jsonable members) js = Inr (map strip_parents xs)"
    by (rule rmap_roundtrip) (use 9 in auto)
  moreover have "map strip_parents xs = xs" using 9(2) by (auto simp: key_ok_def intro: map_idI)
  ultimately show ?case using 9(2) by (auto simp: has_key_def as_keys_def key_ok_def distinct_remdups_id)
next
  case (10 members xs)
  have "\<exists>js. rmap (to_jsonable members) xs = Inr js \<and> rmap (from_jsonable members) js = Inr (map strip_parents xs)"
    by (rule rmap_roundtrip) (use 10 in auto)
  then show ?case by auto
next
  case (11 members kvs)
  let ?f = "\<lambda>x. rbind (to_jsonable members (fst x)) (\<lambda>k. rbind (to_jsonable members (snd x)) (\<lambda>v. Inr (JList [k, v])))"
  let ?g = "\<lambda>j. case j of
               JList [a, b] \<Rightarrow> rbind (from_jsonable members a) (\<lambda>k. rbind (from_jsonable members b) (\<lambda>v. Inr (k, v)))
             | JList _ \<Rightarrow> Inl ValueError
             | JStr [a, b] \<Rightarrow> Inr (OStr [a], OStr [b])
             | JStr _ \<Rightarrow> Inl ValueError
             | JObj [(a, _), (b, _)] \<Rightarrow> Inr (OStr a, OStr b)
             | JObj _ \<Rightarrow> Inl ValueError
             | _ \<Rightarrow> Inl TypeError"
  let ?h = "\<lambda>x. (strip_parents (fst x), strip_parents (snd x))"
  have "\<exists>js. rmap ?f kvs = Inr js \<and> rmap ?g js = Inr (map ?h kvs)"
    by (rule rmap_roundtrip) (use 11 in fastforce)
  then obtain js where js: "rmap ?f kvs = Inr js" "rmap ?g js = Inr (map ?h kvs)" by blast
  have "map fst (map ?h kvs) = map fst kvs" using 11(3) by (auto simp: key_ok_def)
  then have "as_dict (map ?h kvs) = Inr (ODict (map ?h kvs))"
    using 11(3) by (intro as_dict_exact) (auto simp: key_ok_def simp del: map_map)
  with js show ?case by (simp add: has_key_def)
qed auto

lemma rmap_map: "rmap f (map g xs) = rmap (\<lambda>x. f (g x)) xs"
  by (induction xs) auto

lemma strip_encodes: "to_jsonable members (strip_parents x) = to_jsonable members x"
proof (induction members x rule: to_jsonable.induct)
  case (7 members cls fields)
  have "rmap (\<lambda>x. if skipped_field cls (fst x) then Inr (fst x, JNull) else rbind (to_jsonable members (snd x)) (\<lambda>j. Inr (fst x, j)))
        (map (\<lambda>x. (fst x, if skipped_field cls (fst x) then ONone else strip_parents (snd x))) fields)
      = rmap (\<lambda>x. if skipped_field cls (fst x) then Inr (fst x, JNull) else rbind (to_jsonable members (snd x)) (\<lambda>j. Inr (fst x, j))) fields"
    unfolding rmap_map by (intro rmap_cong refl) (use 7 in auto)
  then show ?case by simp
next
  case (11 members kvs)
  have "rbind (to_jsonable members (strip_parents (fst x))) (\<lambda>k. rbind (to_jsonable members (strip_parents (snd x))) (\<lambda>v. Inr (JList [k, v])))
      = rbind (to_jsonable members (fst x)) (\<lambda>k. rbind (to_jsonable members (snd x)) (\<lambda>v. Inr (JList [k, v])))" if "x \<in> set kvs" for x
    using 11 that by (cases "to_jsonable members (fst x)") auto
  then show ?case by (simp add: rmap_map cong: rmap_cong)
qed (auto simp: rmap_map comp_def cong: rmap_cong)

section \<open>Files\<close>

text \<open>The payload of a sweep-input file, and a file of candidates.\<close>

definition encode_sweep_input :: "enum_members \<Rightarrow> pyobj \<Rightarrow> pyobj \<Rightarrow> pyobj \<Rightarrow> pyobj \<Rightarrow> json res" where
  "encode_sweep_input members messages hp_deltas initial_candidates action_groups =
     rbind (to_jsonable members messages) (\<lambda>m. rbind (to_jsonable members hp_deltas) (\<lambda>h.
     rbind (to_jsonable members initial_candidates) (\<lambda>c. rbind (to_jsonable members action_groups) (\<lambda>g.
       Inr (JObj [(''messages'', m), (''hp_deltas'', h), (''initial_candidates'', c), (''action_groups'', g)])))))"

definition payload_field :: "enum_members \<Rightarrow> string \<Rightarrow> json \<Rightarrow> pyobj res" where
  "payload_field members k payload = (case payload of
       JObj kvs \<Rightarrow> (case map_of kvs k of None \<Rightarrow> Inl KeyError | Some j \<Rightarrow> from_jsonable members j)
     | _ \<Rightarrow> Inl TypeError)"

definition load_sweep_input :: "enum_members \<Rightarrow> json \<Rightarrow> (pyobj \<times> pyobj \<times> pyobj \<times> pyobj) res" where
  "load_sweep_input members payload =
     rbind (payload_field members ''messages'' payload) (\<lambda>m. rbind (payload_field members ''hp_deltas'' payload) (\<lambda>h.
     rbind (payload_field members ''initial_candidates'' payload) (\<lambda>c. rbind (payload_field members ''action_groups'' payload) (\<lambda>g.
       Inr (m, h, c, g)))))"

definition dump_candidates :: "enum_members \<Rightarrow> pyobj \<Rightarrow> json res" where
  "dump_candidates members candidates = to_jsonable members candidates"

definition load_candidates :: "enum_members \<Rightarrow> json \<Rightarrow> pyobj res" where
  "load_candidates members payload = from_jsonable members payload"

section \<open>Properties\<close>

text \<open>
  C25: files of sweep inputs round-trip. For messages, HP records, candidates and groups built of the registered classes, \<open>dump_sweep_input\<close> writes a payload from which
  \<open>load_sweep_input\<close> reads back exactly those objects, with the links to parent candidates cut and nothing else changed; writing what was read gives the
  same payload again.
\<close>

theorem sweep_input_roundtrip:
  assumes "encodable members m" "encodable members h" "encodable members c" "encodable members g"
  shows "\<exists>payload. encode_sweep_input members m h c g = Inr payload
    \<and> load_sweep_input members payload = Inr (strip_parents m, strip_parents h, strip_parents c, strip_parents g)
    \<and> encode_sweep_input members (strip_parents m) (strip_parents h) (strip_parents c) (strip_parents g) = Inr payload"
proof -
  note rt = codec_roundtrip_obj[of members]
  from rt[OF assms(1)] rt[OF assms(2)] rt[OF assms(3)] rt[OF assms(4)] show ?thesis
    by (auto simp: encode_sweep_input_def load_sweep_input_def payload_field_def strip_encodes)
qed

definition int_members :: enum_members where
  "int_members cls v = (case v of EInt n \<Rightarrow> Some None | EStr s \<Rightarrow> None)"

definition sample_candidate_obj :: "pyobj \<Rightarrow> pyobj" where
  "sample_candidate_obj parent = OData ''Candidate'' [(''state'', ONone), (''rng_sequence'', OList [OTuple [OEnum ''Move'' (EInt 33), OFloat (1 / 2)]]),
     (''unknown_actions'', ODict [(OInt 0, ONone), (OInt 1, ONone)]), (''parent_candidate'', parent)]"

theorem sweep_input_roundtrip_witness:
  "\<exists>payload. encode_sweep_input int_members (OList []) (OList []) (OList [sample_candidate_obj (sample_candidate_obj ONone)]) ONone = Inr payload
    \<and> load_sweep_input int_members payload = Inr (OList [], OList [], OList [sample_candidate_obj ONone], ONone)"
proof -
  have c: "encodable int_members (OList [sample_candidate_obj (sample_candidate_obj ONone)])"
    "strip_parents (OList [sample_candidate_obj (sample_candidate_obj ONone)]) = OList [sample_candidate_obj ONone]"
    by code_simp+
  have e: "encodable int_members (OList [])" "encodable int_members ONone" by simp_all
  from sweep_input_roundtrip[OF e(1) e(1) c(1) e(2)] c(2) show ?thesis by auto
qed

fun reaches_other :: "pyobj \<Rightarrow> bool" where
  "reaches_other (OOther ty) = True"
| "reaches_other (OData cls fields) = (\<exists>x \<in> set fields. \<not> skipped_field cls (fst x) \<and> reaches_other (snd x))"
| "reaches_other (OTuple xs) = (\<exists>x \<in> set xs. reaches_other x)"
| "reaches_other (OFrozen xs) = (\<exists>x \<in> set xs. reaches_other x)"
| "reaches_other (OList xs) = (\<exists>x \<in> set xs. reaches_other x)"
| "reaches_other (ODict kvs) = (\<exists>x \<in> set kvs. reaches_other (fst x) \<or> reaches_other (snd x))"
| "reaches_other x = False"

lemma rmap_error: "(\<And>x e. x \<in> set xs \<Longrightarrow> f x = Inl e \<longleftrightarrow> e = err \<and> P x) \<Longrightarrow> rmap f xs = Inl e \<longleftrightarrow> e = err \<and> (\<exists>x \<in> set xs. P x)"
proof (induction xs)
  case (Cons x xs)
  from Cons.prems[of x] Cons show ?case by (cases "f x") (auto simp: rbind_eq_Inl)
qed simp

text \<open>
  The codec refuses exactly what it does not know. \<open>to_jsonable\<close> raises only \<open>TypeError\<close>, and it raises just when an object of an unsupported type is reachable
  outside the links to parent candidates.
\<close>

theorem to_jsonable_error: "to_jsonable members x = Inl e \<longleftrightarrow> e = TypeError \<and> reaches_other x"
proof (induction members x arbitrary: e rule: to_jsonable.induct)
  case (7 members cls fields)
  have "rmap (\<lambda>x. if skipped_field cls (fst x) then Inr (fst x, JNull) else rbind (to_jsonable members (snd x)) (\<lambda>j. Inr (fst x, j))) fields = Inl e
      \<longleftrightarrow> e = TypeError \<and> (\<exists>x \<in> set fields. \<not> skipped_field cls (fst x) \<and> reaches_other (snd x))"
    by (rule rmap_error) (use 7 in \<open>auto simp: rbind_eq_Inl\<close>)
  then show ?case by (auto simp: rbind_eq_Inl)
next
  case (11 members kvs)
  have pair: "rbind (to_jsonable members (fst x)) (\<lambda>k. rbind (to_jsonable members (snd x)) (\<lambda>v. Inr (JList [k, v]))) = Inl e'
      \<longleftrightarrow> e' = TypeError \<and> (reaches_other (fst x) \<or> reaches_other (snd x))" if "x \<in> set kvs" for x e'
    using 11(1)[OF that] 11(2)[OF that] by (cases "to_jsonable members (fst x)") (auto simp: rbind_eq_Inl)
  have "rmap (\<lambda>x. rbind (to_jsonable members (fst x)) (\<lambda>k. rbind (to_jsonable members (snd x)) (\<lambda>v. Inr (JList [k, v])))) kvs = Inl e
      \<longleftrightarrow> e = TypeError \<and> (\<exists>x \<in> set kvs. reaches_other (fst x) \<or> reaches_other (snd x))"
    by (rule rmap_error) (rule pair)
  then show ?case by (simp add: rbind_eq_Inl)
qed (auto simp: rbind_eq_Inl rmap_error)

end
