(* ===== verification/HpBar.thy ===== *)
theory HpBar
  imports Prelude
begin

text \<open>
  The HP observation layer: the pixel reader of the opponent's bar (\<open>vision/hp_bar.py\<close>), the
  stability filter and the pixel-to-HP interval (\<open>hp_stability.py\<close>), the identity-bound delta
  record (\<open>hp_delta.py\<close>) and the forward map from HP to pixels of the sweep
  (\<open>sweep_reconcile.py\<close>). The locale \<open>bar_reading\<close> states what the sweep relies on from
  the pair of maps; it is interpreted on \<open>hp_to_k\<close> and \<open>hp_range\<close>. Pixel counts and HP
  values are integers, as in Python.
\<close>

section \<open>Pixels to HP and back\<close>

definition hp_range :: "int \<Rightarrow> int \<Rightarrow> int \<times> int" where
  "hp_range k max_hp =
     (if k = 0 then (0, 0)
      else (ceil_div (k * max_hp) 48, min (ceil_div ((k + 1) * max_hp) 48 - 1) max_hp))"

definition hp_to_k :: "int \<Rightarrow> int \<Rightarrow> int" where
  "hp_to_k hp max_hp = (if hp \<le> 0 then 0 else max 1 ((hp * 48) div max_hp))"

text \<open>The pixel reader. A pixel is an RGB triple, the bar row a list of pixels.\<close>

type_synonym pixel = "int \<times> int \<times> int"

datatype pixel_kind = Green | Yellow | Red | Black | White | Invalid

definition classify_pixel :: "pixel \<Rightarrow> pixel_kind" where
  "classify_pixel px = (case px of (r, g, b) \<Rightarrow>
     if r = 115 \<and> g = 255 \<and> b = 173 then Green
     else if r = 255 \<and> g = 231 \<and> b = 57 then Yellow
     else if r = 255 \<and> g = 90 \<and> b = 57 then Red
     else if r = 82 \<and> g = 107 \<and> b = 90 then Black
     else if r = 255 \<and> g = 255 \<and> b = 255 then White
     else Invalid)"

record hp_reading =
  rd_k :: "int option"
  rd_hp_min :: "int option"
  rd_hp_max :: "int option"
  rd_hp_mid :: "int option"

definition no_reading :: hp_reading where
  "no_reading = \<lparr>rd_k = None, rd_hp_min = None, rd_hp_max = None, rd_hp_mid = None\<rparr>"

text \<open>The counting loop over the inner pixels: \<open>None\<close> is the early return of an animating bar.\<close>

fun count_bar :: "pixel_kind \<Rightarrow> pixel list \<Rightarrow> int \<Rightarrow> int option" where
  "count_bar HPKind [] k = Some k"
| "count_bar HPKind (px # pxs) k =
     (let kind = classify_pixel px in
      if kind \<noteq> HPKind \<and> kind \<noteq> Black then None
      else if kind = Invalid then None
      else count_bar HPKind pxs (if kind \<noteq> Black then k + 1 else k))"

text \<open>Python's \<open>round((a + b) / 2)\<close> for integers: halves go to the even neighbour.\<close>

definition round_half :: "int \<Rightarrow> int" where
  "round_half s = (if even s then s div 2 else if even (s div 2) then s div 2 else s div 2 + 1)"

definition read_opponent_hp_bar :: "pixel list \<Rightarrow> int option \<Rightarrow> hp_reading res" where
  "read_opponent_hp_bar pixels max_hp =
     rbind (lki pixels 0) (\<lambda>first.
     rbind (lki pixels (-1)) (\<lambda>last_px.
     if classify_pixel first \<noteq> White \<and> classify_pixel last_px \<noteq> White then Inr no_reading
     else rbind (lki pixels 1) (\<lambda>second.
       case count_bar (classify_pixel second) (butlast (tl pixels)) 0 of
         None \<Rightarrow> Inr no_reading
       | Some k \<Rightarrow>
          (case max_hp of
             None \<Rightarrow> Inr (no_reading\<lparr>rd_k := Some k\<rparr>)
           | Some m \<Rightarrow>
               let hp_min = ceil_div (k * m) 48;
                   hp_max = ((k + 1) * m - 1) div 48
               in Inr \<lparr>rd_k = Some k, rd_hp_min = Some hp_min, rd_hp_max = Some hp_max,
                       rd_hp_mid = Some (round_half (hp_min + hp_max))\<rparr>))))"

section \<open>The stability filter\<close>

record stability_buffer =
  sb_required :: nat
  sb_candidate :: "int option"
  sb_streak :: nat
  sb_confirmed :: "int option"

definition new_buffer :: "nat \<Rightarrow> stability_buffer" where
  "new_buffer required =
     \<lparr>sb_required = required, sb_candidate = None, sb_streak = 0, sb_confirmed = None\<rparr>"

definition OpponentHpBuffer :: stability_buffer where
  "OpponentHpBuffer = new_buffer 2"

definition PlayerHpBuffer :: stability_buffer where
  "PlayerHpBuffer = new_buffer 2"

text \<open>\<open>update\<close> returns the flag and the new buffer.\<close>

definition sb_update :: "stability_buffer \<Rightarrow> int option \<Rightarrow> bool \<times> stability_buffer" where
  "sb_update b v =
     (if v = None \<or> v \<noteq> sb_candidate b
      then (False, b\<lparr>sb_candidate := v, sb_streak := (if v \<noteq> None then 1 else 0)\<rparr>)
      else let b1 = b\<lparr>sb_streak := sb_streak b + 1\<rparr> in
        if sb_required b1 \<le> sb_streak b1 \<and> v \<noteq> sb_confirmed b1
        then (True, b1\<lparr>sb_confirmed := v\<rparr>)
        else (False, b1))"

definition sb_reset :: "stability_buffer \<Rightarrow> stability_buffer" where
  "sb_reset b = b\<lparr>sb_candidate := None, sb_streak := 0, sb_confirmed := None\<rparr>"

fun sb_feed :: "stability_buffer \<Rightarrow> int option list \<Rightarrow> stability_buffer" where
  "sb_feed b [] = b"
| "sb_feed b (v # vs) = sb_feed (snd (sb_update b v)) vs"

section \<open>Identity-bound delta records\<close>

type_synonym species = int

record hp_delta_seq =
  hd_side :: sid
  hd_species :: species
  hd_slot :: nat
  hd_deltas :: "(int \<times> int) list"
  hd_max_hp :: int

text \<open>\<open>klog[: klog.index(0) + 1]\<close> when 0 occurs: everything up to and including the first 0.\<close>

fun upto_first_zero :: "int list \<Rightarrow> int list" where
  "upto_first_zero [] = []"
| "upto_first_zero (k # ks) = (if k = 0 then [k] else k # upto_first_zero ks)"

definition build_faint_record_from_klog ::
  "int list \<Rightarrow> species \<Rightarrow> int \<Rightarrow> sid \<Rightarrow> nat \<Rightarrow> hp_delta_seq option" where
  "build_faint_record_from_klog klog sp max_hp side slot =
     (let readings = (if 0 \<in> set klog then upto_first_zero klog else klog) in
      if length readings < 2 then None
      else Some \<lparr>hd_side = side, hd_species = sp, hd_slot = slot,
                 hd_deltas = neighbours readings, hd_max_hp = max_hp\<rparr>)"

section \<open>The interval is exactly the pre-image of the pixel count\<close>

lemma hp_range_mem_iff:
  assumes "0 < m" "h \<le> m" "k \<noteq> 0"
  shows "fst (hp_range k m) \<le> h \<and> h \<le> snd (hp_range k m) \<longleftrightarrow> (h * 48) div m = k"
proof -
  have "fst (hp_range k m) \<le> h \<longleftrightarrow> k * m \<le> h * 48"
    using assms by (simp add: hp_range_def ceil_div_le_iff)
  also have "\<dots> \<longleftrightarrow> k \<le> (h * 48) div m"
    using assms(1) by (simp add: le_int_div_iff)
  finally have lo: "fst (hp_range k m) \<le> h \<longleftrightarrow> k \<le> (h * 48) div m" .
  have "h \<le> snd (hp_range k m) \<longleftrightarrow> h + 1 \<le> ceil_div ((k + 1) * m) 48"
    using assms by (auto simp: hp_range_def)
  also have "\<dots> \<longleftrightarrow> \<not> (k + 1) * m \<le> h * 48"
    by (simp add: le_ceil_div_iff not_le)
  also have "\<dots> \<longleftrightarrow> (h * 48) div m < k + 1"
    using le_int_div_iff[of m "k + 1" "h * 48"] assms(1) by (auto simp: not_le)
  finally show ?thesis using lo by auto
qed

text \<open>
  A bar reading is \<open>visible\<close> when the HP shows through the pixel formula itself: the bar is
  empty, or at least one full pixel's worth of HP is left.
\<close>

definition visible_hp :: "int \<Rightarrow> int \<Rightarrow> bool" where
  "visible_hp h m \<longleftrightarrow> h = 0 \<or> m \<le> h * 48"

lemma hp_to_k_visible:
  assumes "0 < m" "0 < h" "visible_hp h m"
  shows "hp_to_k h m = (h * 48) div m" "hp_to_k h m \<noteq> 0"
proof -
  have "1 \<le> (h * 48) div m"
    using assms by (auto simp: visible_hp_def le_int_div_iff)
  then show "hp_to_k h m = (h * 48) div m" "hp_to_k h m \<noteq> 0"
    using assms by (auto simp: hp_to_k_def)
qed

lemma hp_range_sound:
  assumes "0 < m" "0 \<le> h" "h \<le> m" "visible_hp h m"
  shows "fst (hp_range (hp_to_k h m) m) \<le> h" "h \<le> snd (hp_range (hp_to_k h m) m)"
proof -
  have "fst (hp_range (hp_to_k h m) m) \<le> h \<and> h \<le> snd (hp_range (hp_to_k h m) m)"
  proof (cases "h = 0")
    case True
    then show ?thesis by (simp add: hp_to_k_def hp_range_def)
  next
    case False
    with assms hp_to_k_visible[of m h] show ?thesis
      by (subst hp_range_mem_iff) auto
  qed
  then show "fst (hp_range (hp_to_k h m) m) \<le> h" "h \<le> snd (hp_range (hp_to_k h m) m)"
    by auto
qed

section \<open>What the sweep relies on: bar readings bound the damage\<close>

locale bar_reading =
  fixes to_pixels :: "int \<Rightarrow> int \<Rightarrow> int"
    and to_range :: "int \<Rightarrow> int \<Rightarrow> int \<times> int"
    and shows_on_bar :: "int \<Rightarrow> int \<Rightarrow> bool"
  assumes range_lower: "0 < m \<Longrightarrow> 0 \<le> h \<Longrightarrow> h \<le> m \<Longrightarrow> shows_on_bar h m \<Longrightarrow>
      fst (to_range (to_pixels h m) m) \<le> h"
    and range_upper: "0 < m \<Longrightarrow> 0 \<le> h \<Longrightarrow> h \<le> m \<Longrightarrow> shows_on_bar h m \<Longrightarrow>
      h \<le> snd (to_range (to_pixels h m) m)"
    and range_empty: "to_range 0 m = (0, 0)"
begin

text \<open>The true damage between two readings always lies inside the window of the intervals.\<close>

lemma damage_window:
  assumes "0 < m" "0 \<le> h'" "h' \<le> m" "0 \<le> h" "h \<le> m" "shows_on_bar h m" "shows_on_bar h' m"
  shows "fst (to_range (to_pixels h m) m) \<le> snd (to_range (to_pixels h' m) m) + (h - h')"
    and "fst (to_range (to_pixels h' m) m) + (h - h') \<le> snd (to_range (to_pixels h m) m)"
  using range_lower[of m h] range_upper[of m h] range_lower[of m h'] range_upper[of m h'] assms
  by auto

text \<open>A knock-out may overkill: any damage of at least the HP left is inside the lower bound.\<close>

lemma ko_window:
  assumes "0 < m" "0 \<le> h" "h \<le> m" "shows_on_bar h m" "h \<le> d"
  shows "fst (to_range (to_pixels h m) m) \<le> snd (to_range 0 m) + d"
  using range_lower[of m h] assms by (simp add: range_empty)

end

interpretation bar: bar_reading hp_to_k hp_range visible_hp
  by unfold_locales (auto simp: hp_range_sound, simp add: hp_range_def)

section \<open>Properties of the bar reader\<close>

lemma count_bar_Some:
  "count_bar K pxs k = Some k' \<Longrightarrow>
     k' = k + int (length (filter (\<lambda>p. classify_pixel p \<noteq> Black) pxs)) \<and>
     (\<forall>p \<in> set pxs. classify_pixel p = Black \<or> classify_pixel p = K)"
  by (induction K pxs k rule: count_bar.induct) (auto simp: Let_def split: if_splits)

lemma ceil_div_pred: "ceil_div a 48 - 1 = (a - 1) div 48"
proof -
  have "x \<le> ceil_div a 48 - 1 \<longleftrightarrow> x \<le> (a - 1) div 48" for x
    using le_ceil_div_iff[of 48 "x + 1" a] le_int_div_iff[of 48 x "a - 1"] by auto
  then show ?thesis by (meson order_antisym order_refl)
qed

lemma butlast_tl_length: "length (butlast (tl xs)) = length xs - 2"
  by simp

lemma hp_range_iff:
  assumes "0 < m" "0 \<le> h" "h \<le> m" "visible_hp h m"
  shows "fst (hp_range k m) \<le> h \<and> h \<le> snd (hp_range k m) \<longleftrightarrow> hp_to_k h m = k"
proof (cases "k = 0")
  case True
  with assms show ?thesis by (auto simp: hp_range_def hp_to_k_def)
next
  case False
  with assms have "fst (hp_range k m) \<le> h \<and> h \<le> snd (hp_range k m) \<longleftrightarrow> (h * 48) div m = k"
    by (simp add: hp_range_mem_iff)
  also have "\<dots> \<longleftrightarrow> hp_to_k h m = k"
    using assms False hp_to_k_visible[of m h] by (cases "h = 0") (auto simp: hp_to_k_def)
  finally show ?thesis .
qed

text \<open>
  C36: the HP interval of a pixel count holds exactly the HP values that show that count. For every
  HP value \<open>h\<close> that is visible on the bar (0, or at least one pixel's worth of HP), \<open>h\<close> lies in
  \<open>hp_range k max_hp\<close> if and only if the bar drawn for \<open>h\<close> has \<open>k\<close> pixels.
\<close>

theorem hp_range_exact:
  assumes "0 < m" "0 \<le> h" "h \<le> m" "visible_hp h m"
  shows "fst (hp_range k m) \<le> h \<and> h \<le> snd (hp_range k m) \<longleftrightarrow> hp_to_k h m = k"
  using assms by (rule hp_range_iff)

theorem hp_range_exact_witness:
  "visible_hp 60 100 \<and> (fst (hp_range 28 100) \<le> 60 \<and> 60 \<le> snd (hp_range 28 100))"
proof -
  have "visible_hp 60 100" by (simp add: visible_hp_def)
  moreover have "hp_to_k 60 100 = 28" by (simp add: hp_to_k_def)
  ultimately show ?thesis using hp_range_exact[of 100 60 28] by simp
qed

text \<open>
  The lowest band of HP is lost by the interval. When a foe has some HP left, but less than
  one pixel's worth, the game draws one pixel (the documented minimum of the bar formula), and the
  sweep's own forward map agrees; yet \<open>hp_range 1\<close> starts above that HP value, so the true state
  is outside the interval computed for its own reading.
\<close>

theorem hp_range_misses_low_hp:
  assumes "0 < h" "h * 48 < m"
  shows "hp_to_k h m = 1 \<and> \<not> fst (hp_range 1 m) \<le> h"
proof -
  have "(h * 48) div m = 0"
    using assms by (intro div_pos_pos_trivial) auto
  then show ?thesis
    using assms by (auto simp: hp_to_k_def hp_range_def ceil_div_le_iff)
qed

theorem hp_range_misses_low_hp_witness:
  "hp_to_k 2 100 = 1 \<and> \<not> fst (hp_range 1 100) \<le> 2"
  using hp_range_misses_low_hp[of 2 100] by simp

text \<open>
  What a successful bar reading means. On the 50-pixel row of the screen region, a reading
  with a pixel count has a count between 0 and 48, equal to the number of inner pixels that are not
  black; every inner pixel is black or of the bar's one colour; and for a bar that is not empty the
  reported interval, capped at the maximum HP, is the interval \<open>hp_range\<close> of the stability module.
\<close>

theorem read_opponent_hp_bar_sound:
  assumes "length px = 50" and "read_opponent_hp_bar px (Some m) = Inr r" and "rd_k r = Some k"
  shows "0 \<le> k \<and> k \<le> 48
    \<and> k = int (length (filter (\<lambda>p. classify_pixel p \<noteq> Black) (butlast (tl px))))
    \<and> (\<forall>p \<in> set (butlast (tl px)). classify_pixel p = Black \<or> classify_pixel p = classify_pixel (px ! 1))
    \<and> (k \<noteq> 0 \<longrightarrow> (\<exists>hi. rd_hp_min r = Some (fst (hp_range k m)) \<and> rd_hp_max r = Some hi
                      \<and> snd (hp_range k m) = min hi m))"
proof -
  have second: "lki px 1 = Inr (px ! 1)" using assms(1) by (simp add: lki_def)
  from assms(2,3) obtain k' where cb: "count_bar (classify_pixel (px ! 1)) (butlast (tl px)) 0 = Some k'"
    by (auto simp: read_opponent_hp_bar_def rbind_eq_Inr second no_reading_def split: if_splits option.splits)
  from assms(2,3) cb have k': "k' = k"
    and lo: "rd_hp_min r = Some (ceil_div (k * m) 48)"
    and hi: "rd_hp_max r = Some (((k + 1) * m - 1) div 48)"
    by (auto simp: read_opponent_hp_bar_def rbind_eq_Inr second no_reading_def Let_def
        split: if_splits option.splits)
  have len: "length (butlast (tl px)) = 48" using assms(1) by simp
  have cnt: "k = int (length (filter (\<lambda>p. classify_pixel p \<noteq> Black) (butlast (tl px))))"
    using count_bar_Some[OF cb] k' by simp
  have "length (filter (\<lambda>p. classify_pixel p \<noteq> Black) (butlast (tl px))) \<le> 48"
    using len length_filter_le[of _ "butlast (tl px)"] by metis
  with cnt have "0 \<le> k" "k \<le> 48" by linarith+
  moreover have "\<forall>p \<in> set (butlast (tl px)). classify_pixel p = Black \<or> classify_pixel p = classify_pixel (px ! 1)"
    using count_bar_Some[OF cb] by simp
  moreover have "k \<noteq> 0 \<Longrightarrow> snd (hp_range k m) = min (((k + 1) * m - 1) div 48) m"
    by (simp add: hp_range_def ceil_div_pred)
  moreover have "k \<noteq> 0 \<Longrightarrow> rd_hp_min r = Some (fst (hp_range k m))"
    using lo by (simp add: hp_range_def)
  ultimately show ?thesis using cnt hi by auto
qed

definition half_bar :: "pixel list" where
  "half_bar = (255, 255, 255) # replicate 24 (115, 255, 173) @ replicate 24 (82, 107, 90) @ [(255, 255, 255)]"

theorem read_opponent_hp_bar_sound_witness:
  "\<exists>r. read_opponent_hp_bar half_bar (Some 100) = Inr r \<and> rd_k r = Some 24
     \<and> rd_hp_min r = Some (fst (hp_range 24 100))"
proof -
  have run: "read_opponent_hp_bar half_bar (Some 100) =
      Inr \<lparr>rd_k = Some 24, rd_hp_min = Some 50, rd_hp_max = Some 52, rd_hp_mid = Some 51\<rparr>"
    by code_simp
  have "length half_bar = 50" by (simp add: half_bar_def)
  from read_opponent_hp_bar_sound[OF this run, of 24] run show ?thesis by auto
qed

section \<open>Properties of the stability filter\<close>

text \<open>
  The specification over the history of readings, newest first: the confirmed value is the value of
  the most recent run of \<open>n\<close> equal readings that are not \<open>None\<close>.
\<close>

fun confirmed_spec :: "nat \<Rightarrow> int option list \<Rightarrow> int option" where
  "confirmed_spec n [] = None"
| "confirmed_spec n (r # h) =
     (if r \<noteq> None \<and> take n (r # h) = replicate n r then r else confirmed_spec n h)"

fun run_length :: "int option list \<Rightarrow> nat" where
  "run_length [] = 0"
| "run_length (r # h) =
     (if r = None then 0 else if h \<noteq> [] \<and> hd h = r then Suc (run_length h) else 1)"

lemma run_length_take:
  "r \<noteq> None \<Longrightarrow> n \<le> run_length (r # h) \<longleftrightarrow> take n (r # h) = replicate n r"
proof (induction n arbitrary: h r)
  case 0
  then show ?case by simp
next
  case (Suc n)
  show ?case
  proof (cases "h \<noteq> [] \<and> hd h = r")
    case True
    then obtain h' where h: "h = r # h'" by (cases h) auto
    with Suc show ?thesis by auto
  next
    case False
    then have "run_length (r # h) = 1" using Suc.prems by auto
    moreover have "take (Suc n) (r # h) = replicate (Suc n) r \<longleftrightarrow> n = 0"
      using False by (cases n; cases h) auto
    ultimately show ?thesis by auto
  qed
qed

text \<open>The abstraction: what the buffer's fields are, in terms of the history.\<close>

definition sb_abs :: "nat \<Rightarrow> int option list \<Rightarrow> stability_buffer" where
  "sb_abs n h = \<lparr>sb_required = n, sb_candidate = (case h of [] \<Rightarrow> None | r # _ \<Rightarrow> r),
                 sb_streak = run_length h, sb_confirmed = confirmed_spec n h\<rparr>"

lemma confirmed_spec_fresh:
  assumes "2 \<le> n" "v \<noteq> None" "h = [] \<or> hd h \<noteq> v"
  shows "confirmed_spec n (v # h) = confirmed_spec n h"
proof -
  have "run_length (v # h) = 1" using assms by auto
  with assms run_length_take[of v n h] show ?thesis by auto
qed

lemma sb_update_abs:
  assumes "2 \<le> n"
  shows "sb_update (sb_abs n h) v =
    (v \<noteq> None \<and> confirmed_spec n (v # h) = v \<and> confirmed_spec n h \<noteq> v, sb_abs n (v # h))"
proof (cases "v = None \<or> h = [] \<or> hd h \<noteq> v")
  case True
  with assms confirmed_spec_fresh[OF assms, of v h] show ?thesis
    by (cases h) (auto simp: sb_update_def sb_abs_def Let_def)
next
  case False
  then obtain h' where h: "h = v # h'" and v: "v \<noteq> None" by (cases h) auto
  have "n \<le> Suc (run_length h) \<longleftrightarrow> take n (v # h) = replicate n v"
    using run_length_take[OF v, of n h] h v by auto
  with h v show ?thesis
    by (auto simp: sb_update_def sb_abs_def Let_def)
qed

lemma sb_feed_abs:
  "2 \<le> n \<Longrightarrow> sb_feed (sb_abs n h) vs = sb_abs n (rev vs @ h)"
  by (induction vs arbitrary: h) (simp_all add: sb_update_abs)

lemma new_buffer_abs: "new_buffer n = sb_abs n []"
  by (simp add: new_buffer_def sb_abs_def)

text \<open>
  C37: the stability filter implements its specification. After any sequence of readings fed to a
  fresh buffer that requires at least two readings, the confirmed value is the value of the most
  recent run of that many identical readings, the update reports True exactly when the next reading
  completes such a run for a value that was not the confirmed one, and a \<open>None\<close> reading never
  confirms anything.
\<close>

theorem stability_filter_refines:
  assumes "2 \<le> n"
  shows "sb_confirmed (sb_feed (new_buffer n) vs) = confirmed_spec n (rev vs)
    \<and> fst (sb_update (sb_feed (new_buffer n) vs) v) =
        (v \<noteq> None \<and> confirmed_spec n (v # rev vs) = v \<and> confirmed_spec n (rev vs) \<noteq> v)"
  using assms by (simp add: new_buffer_abs sb_feed_abs sb_update_abs) (simp add: sb_abs_def)

theorem stability_filter_refines_witness:
  "sb_confirmed (sb_feed OpponentHpBuffer [Some 40, Some 31, Some 31, None, Some 12]) = Some 31"
proof -
  have "confirmed_spec 2 (rev [Some 40, Some 31, Some 31, None, Some 12]) = Some 31"
    by code_simp
  then show ?thesis
    using stability_filter_refines[of 2 "[Some 40, Some 31, Some 31, None, Some 12]" None]
    by (simp only: OpponentHpBuffer_def)
qed

section \<open>Properties of the faint record\<close>

lemma upto_first_zero_prefix: "\<exists>ys. xs = upto_first_zero xs @ ys"
  by (induction xs) auto

lemma upto_first_zero_butlast: "0 \<notin> set (butlast (upto_first_zero xs))"
proof (induction xs)
  case Nil
  then show ?case by simp
next
  case (Cons x xs)
  then show ?case by (cases "upto_first_zero xs = []") auto
qed

lemma upto_first_zero_last: "0 \<in> set xs \<Longrightarrow> upto_first_zero xs \<noteq> [] \<and> last (upto_first_zero xs) = 0"
  by (induction xs) auto

lemma neighbours_fst: "map fst (neighbours xs) = butlast xs"
  by (induction xs rule: induct_list012) auto

lemma neighbours_snd: "map snd (neighbours xs) = tl xs"
  by (induction xs rule: induct_list012) auto

text \<open>
  A faint record is a trajectory of the fainted mon only. Its deltas are chained (each starts
  where the one before ended), they start from the readings of the log in order, no delta starts at an
  empty bar, so a replacement's full bar is never recorded as a heal, and when the log contains the
  faint the last delta ends at 0.
\<close>

theorem faint_record_trajectory:
  assumes "build_faint_record_from_klog klog sp m side slot = Some r"
  shows "map fst (tl (hd_deltas r)) = map snd (butlast (hd_deltas r))
    \<and> (\<exists>rest. klog = map fst (hd_deltas r) @ snd (last (hd_deltas r)) # rest)
    \<and> (0 \<in> set klog \<longrightarrow> 0 \<notin> fst ` set (hd_deltas r) \<and> snd (last (hd_deltas r)) = 0)
    \<and> hd_side r = side \<and> hd_species r = sp \<and> hd_slot r = slot \<and> hd_max_hp r = m"
proof -
  define rs where "rs = (if 0 \<in> set klog then upto_first_zero klog else klog)"
  from assms have d: "hd_deltas r = neighbours rs" and len: "2 \<le> length rs"
    and ids: "hd_side r = side" "hd_species r = sp" "hd_slot r = slot" "hd_max_hp r = m"
    by (auto simp: build_faint_record_from_klog_def rs_def Let_def split: if_splits)
  then obtain a b cs where rs: "rs = a # b # cs" by (cases rs; cases "tl rs") auto
  have ne: "hd_deltas r \<noteq> []" using d rs by simp
  have lst: "snd (last (hd_deltas r)) = last rs"
    using ne d rs neighbours_snd[of rs] last_map[of "neighbours rs" snd] by simp
  have fsts: "map fst (hd_deltas r) = butlast rs" using d by (simp add: neighbours_fst)
  have chain: "map fst (tl (hd_deltas r)) = map snd (butlast (hd_deltas r))"
    using neighbours_fst[of rs] neighbours_snd[of rs] d
    by (simp add: map_tl map_butlast butlast_tl)
  have "\<exists>rest. klog = rs @ rest"
    using upto_first_zero_prefix[of klog] by (auto simp: rs_def)
  moreover have "rs = butlast rs @ [last rs]" using rs by simp
  ultimately have "\<exists>rest. klog = butlast rs @ last rs # rest"
    by (metis append.assoc append_Cons append_Nil)
  moreover have "0 \<in> set klog \<Longrightarrow> 0 \<notin> set (butlast rs) \<and> last rs = 0"
    using upto_first_zero_butlast[of klog] upto_first_zero_last[of klog] by (simp add: rs_def)
  moreover have "fst ` set (hd_deltas r) = set (butlast rs)"
    using fsts by (metis set_map)
  ultimately show ?thesis using chain ids lst fsts by auto
qed

theorem faint_record_trajectory_witness:
  "\<exists>r. build_faint_record_from_klog [48, 20, 0, 48] 129 30 P1 0 = Some r
     \<and> hd_deltas r = [(48, 20), (20, 0)] \<and> 0 \<notin> fst ` set (hd_deltas r)"
proof -
  let ?r = "\<lparr>hd_side = P1, hd_species = 129, hd_slot = 0, hd_deltas = [(48, 20), (20, 0)], hd_max_hp = 30\<rparr>"
  have run: "build_faint_record_from_klog [48, 20, 0, 48] 129 30 P1 0 = Some ?r"
    by (simp add: build_faint_record_from_klog_def)
  from faint_record_trajectory[OF run] run show ?thesis by auto
qed

end
