(* ===== verification/StatData.thy ===== *)
theory StatData
  imports Prelude
begin

text \<open>
  The static rules of the game the state layer computes with: status conditions
  (\<open>data/status.py\<close>), natures and the stat formula (\<open>data/natures.py\<close>, \<open>compute_stat\<close> of
  \<open>state/pokemon.py\<close>), the type chart (\<open>data/types.py\<close>) and the experience curves with their
  inverse (\<open>data/growth_rate.py\<close>). Python floats are modelled as rationals; the quotients and
  products that are floored here are exact or further than a rounding error from an integer.
\<close>

section \<open>Status, stats and natures\<close>

datatype status = St_NONE | St_BURN | St_FREEZE | St_PARALYSIS | St_POISON | St_TOXIC | St_SLEEP

fun status_int :: "status \<Rightarrow> int" where
  "status_int St_NONE = 0"
| "status_int St_BURN = 1"
| "status_int St_FREEZE = 2"
| "status_int St_PARALYSIS = 3"
| "status_int St_POISON = 4"
| "status_int St_TOXIC = 5"
| "status_int St_SLEEP = 6"

datatype stat = Stat_HP | Stat_ATK | Stat_DEF | Stat_SPA | Stat_SPD | Stat_SPE

definition all_stats :: "stat list" where
  "all_stats = [Stat_HP, Stat_ATK, Stat_DEF, Stat_SPA, Stat_SPD, Stat_SPE]"

datatype nature =
    HARDY | LONELY | BRAVE | ADAMANT | NAUGHTY
  | BOLD | DOCILE | RELAXED | IMPISH | LAX
  | TIMID | HASTY | SERIOUS | JOLLY | NAIVE
  | MODEST | MILD | QUIET | BASHFUL | RASH
  | CALM | GENTLE | SASSY | CAREFUL | QUIRKY

record nature_data =
  boosted :: "stat option"
  lowered :: "stat option"

definition boost_multiplier :: "nature_data \<Rightarrow> rat" where
  "boost_multiplier nd = (if boosted nd \<noteq> None then 11 / 10 else 1)"

definition lower_multiplier :: "nature_data \<Rightarrow> rat" where
  "lower_multiplier nd = (if lowered nd \<noteq> None then 9 / 10 else 1)"

fun NATURE_DATA :: "nature \<Rightarrow> nature_data" where
  "NATURE_DATA HARDY = \<lparr>boosted = None, lowered = None\<rparr>"
| "NATURE_DATA LONELY = \<lparr>boosted = Some Stat_ATK, lowered = Some Stat_DEF\<rparr>"
| "NATURE_DATA BRAVE = \<lparr>boosted = Some Stat_ATK, lowered = Some Stat_SPE\<rparr>"
| "NATURE_DATA ADAMANT = \<lparr>boosted = Some Stat_ATK, lowered = Some Stat_SPA\<rparr>"
| "NATURE_DATA NAUGHTY = \<lparr>boosted = Some Stat_ATK, lowered = Some Stat_SPD\<rparr>"
| "NATURE_DATA BOLD = \<lparr>boosted = Some Stat_DEF, lowered = Some Stat_ATK\<rparr>"
| "NATURE_DATA DOCILE = \<lparr>boosted = None, lowered = None\<rparr>"
| "NATURE_DATA RELAXED = \<lparr>boosted = Some Stat_DEF, lowered = Some Stat_SPE\<rparr>"
| "NATURE_DATA IMPISH = \<lparr>boosted = Some Stat_DEF, lowered = Some Stat_SPA\<rparr>"
| "NATURE_DATA LAX = \<lparr>boosted = Some Stat_DEF, lowered = Some Stat_SPD\<rparr>"
| "NATURE_DATA TIMID = \<lparr>boosted = Some Stat_SPE, lowered = Some Stat_ATK\<rparr>"
| "NATURE_DATA HASTY = \<lparr>boosted = Some Stat_SPE, lowered = Some Stat_DEF\<rparr>"
| "NATURE_DATA SERIOUS = \<lparr>boosted = None, lowered = None\<rparr>"
| "NATURE_DATA JOLLY = \<lparr>boosted = Some Stat_SPE, lowered = Some Stat_SPA\<rparr>"
| "NATURE_DATA NAIVE = \<lparr>boosted = Some Stat_SPE, lowered = Some Stat_SPD\<rparr>"
| "NATURE_DATA MODEST = \<lparr>boosted = Some Stat_SPA, lowered = Some Stat_ATK\<rparr>"
| "NATURE_DATA MILD = \<lparr>boosted = Some Stat_SPA, lowered = Some Stat_DEF\<rparr>"
| "NATURE_DATA QUIET = \<lparr>boosted = Some Stat_SPA, lowered = Some Stat_SPE\<rparr>"
| "NATURE_DATA BASHFUL = \<lparr>boosted = None, lowered = None\<rparr>"
| "NATURE_DATA RASH = \<lparr>boosted = Some Stat_SPA, lowered = Some Stat_SPD\<rparr>"
| "NATURE_DATA CALM = \<lparr>boosted = Some Stat_SPD, lowered = Some Stat_ATK\<rparr>"
| "NATURE_DATA GENTLE = \<lparr>boosted = Some Stat_SPD, lowered = Some Stat_DEF\<rparr>"
| "NATURE_DATA SASSY = \<lparr>boosted = Some Stat_SPD, lowered = Some Stat_SPE\<rparr>"
| "NATURE_DATA CAREFUL = \<lparr>boosted = Some Stat_SPD, lowered = Some Stat_SPA\<rparr>"
| "NATURE_DATA QUIRKY = \<lparr>boosted = None, lowered = None\<rparr>"

definition compute_stat :: "stat \<Rightarrow> int \<Rightarrow> int \<Rightarrow> nature \<Rightarrow> int \<Rightarrow> int" where
  "compute_stat stat base iv nature level =
     (if stat = Stat_HP then (2 * base + iv) * level div 100 + level + 10
      else let intermediate = (2 * base + iv) * level div 100 + 5;
               nd = NATURE_DATA nature
           in if boosted nd = Some stat then \<lfloor>rat_of_int intermediate * boost_multiplier nd\<rfloor>
              else if lowered nd = Some stat then \<lfloor>rat_of_int intermediate * lower_multiplier nd\<rfloor>
              else intermediate)"

section \<open>The type chart\<close>

datatype ptype =
    T_NORMAL | T_FIRE | T_WATER | T_ELECTRIC | T_GRASS
  | T_ICE | T_FIGHTING | T_POISON | T_GROUND | T_FLYING
  | T_PSYCHIC | T_BUG | T_ROCK | T_GHOST | T_DRAGON
  | T_DARK | T_STEEL | T_FAIRY | T_TYPELESS

definition all_types :: "ptype list" where
  "all_types = [T_NORMAL, T_FIRE, T_WATER, T_ELECTRIC, T_GRASS, T_ICE, T_FIGHTING, T_POISON, T_GROUND, T_FLYING, T_PSYCHIC, T_BUG, T_ROCK, T_GHOST, T_DRAGON, T_DARK, T_STEEL, T_FAIRY]"

text \<open>\<open>type_idx\<close> is the enum's value.\<close>

fun type_idx :: "ptype \<Rightarrow> nat" where
  "type_idx T_NORMAL = 0"
| "type_idx T_FIRE = 1"
| "type_idx T_WATER = 2"
| "type_idx T_ELECTRIC = 3"
| "type_idx T_GRASS = 4"
| "type_idx T_ICE = 5"
| "type_idx T_FIGHTING = 6"
| "type_idx T_POISON = 7"
| "type_idx T_GROUND = 8"
| "type_idx T_FLYING = 9"
| "type_idx T_PSYCHIC = 10"
| "type_idx T_BUG = 11"
| "type_idx T_ROCK = 12"
| "type_idx T_GHOST = 13"
| "type_idx T_DRAGON = 14"
| "type_idx T_DARK = 15"
| "type_idx T_STEEL = 16"
| "type_idx T_FAIRY = 17"
| "type_idx T_TYPELESS = 18"

definition DT_MULT :: "nat \<Rightarrow> rat" where
  "DT_MULT v = (if v = 1 then 2 else if v = 2 then 1 / 2 else if v = 3 then 0 else 1)"

text \<open>
  \<open>DT_RAW\<close>: for each defending type, the damage-taken codes by attacking type. Every inner
  dictionary of the source lists the attacking types in the order of the enum.
\<close>

definition DT_RAW :: "(ptype \<times> nat list) list" where
  "DT_RAW = [
    (T_NORMAL, [0, 0, 0, 0, 0, 0, 1, 0, 0, 0, 0, 0, 0, 3, 0, 0, 0, 0]),
    (T_FIRE, [0, 2, 1, 0, 2, 2, 0, 0, 1, 0, 0, 2, 1, 0, 0, 0, 2, 2]),
    (T_WATER, [0, 2, 2, 1, 1, 2, 0, 0, 0, 0, 0, 0, 0, 0, 0, 0, 2, 0]),
    (T_ELECTRIC, [0, 0, 0, 2, 0, 0, 0, 0, 1, 2, 0, 0, 0, 0, 0, 0, 2, 0]),
    (T_GRASS, [0, 1, 2, 2, 2, 1, 0, 1, 2, 1, 0, 1, 0, 0, 0, 0, 0, 0]),
    (T_ICE, [0, 1, 0, 0, 0, 2, 1, 0, 0, 0, 0, 0, 1, 0, 0, 0, 1, 0]),
    (T_FIGHTING, [0, 0, 0, 0, 0, 0, 0, 0, 0, 1, 1, 2, 2, 0, 0, 2, 0, 1]),
    (T_POISON, [0, 0, 0, 0, 2, 0, 2, 2, 1, 0, 1, 2, 0, 0, 0, 0, 0, 2]),
    (T_GROUND, [0, 0, 1, 3, 1, 1, 0, 2, 0, 0, 0, 0, 2, 0, 0, 0, 0, 0]),
    (T_FLYING, [0, 0, 0, 1, 2, 1, 2, 0, 3, 0, 0, 2, 1, 0, 0, 0, 0, 0]),
    (T_PSYCHIC, [0, 0, 0, 0, 0, 0, 2, 0, 0, 0, 2, 1, 0, 1, 0, 1, 0, 0]),
    (T_BUG, [0, 1, 0, 0, 2, 0, 2, 0, 2, 1, 0, 0, 1, 0, 0, 0, 0, 0]),
    (T_ROCK, [2, 2, 1, 0, 1, 0, 1, 2, 1, 2, 0, 0, 0, 0, 0, 0, 1, 0]),
    (T_GHOST, [3, 0, 0, 0, 0, 0, 3, 2, 0, 0, 0, 2, 0, 1, 0, 1, 0, 0]),
    (T_DRAGON, [0, 2, 2, 2, 2, 1, 0, 0, 0, 0, 0, 0, 0, 0, 1, 0, 0, 1]),
    (T_DARK, [0, 0, 0, 0, 0, 0, 1, 0, 0, 0, 3, 1, 0, 2, 0, 2, 0, 1]),
    (T_STEEL, [2, 1, 0, 0, 2, 2, 1, 3, 1, 2, 2, 2, 2, 0, 2, 0, 2, 2]),
    (T_FAIRY, [0, 0, 0, 0, 0, 0, 2, 1, 0, 0, 0, 2, 0, 0, 3, 2, 1, 0])]"

definition chart_set :: "rat list list \<Rightarrow> nat \<Rightarrow> nat \<Rightarrow> rat \<Rightarrow> rat list list" where
  "chart_set ch i j x = ch[i := (ch ! i)[j := x]]"

definition fill_row :: "rat list list \<Rightarrow> ptype \<times> nat list \<Rightarrow> rat list list" where
  "fill_row ch row = (case row of (d, codes) \<Rightarrow>
     foldl (\<lambda>c (a, v). chart_set c (type_idx a) (type_idx d) (DT_MULT v)) ch (zip all_types codes))"

definition TYPE_CHART :: "rat list list" where
  "TYPE_CHART = foldl fill_row (replicate 19 (replicate 19 1)) DT_RAW"

definition type_effectiveness :: "ptype \<Rightarrow> ptype \<Rightarrow> rat" where
  "type_effectiveness attacking defending = TYPE_CHART ! type_idx attacking ! type_idx defending"

section \<open>Experience curves\<close>

datatype growth_rate = MEDIUM_FAST | ERRATIC | FLUCTUATING | MEDIUM_SLOW | FAST | SLOW

definition exp_for_level :: "growth_rate \<Rightarrow> int \<Rightarrow> int" where
  "exp_for_level growth n = max 0 (case growth of
      MEDIUM_FAST \<Rightarrow> n ^ 3
    | ERRATIC \<Rightarrow>
        (if n \<le> 50 then (100 - n) * n ^ 3 div 50
         else if n \<le> 68 then (150 - n) * n ^ 3 div 100
         else if n \<le> 98 then ((1911 - 10 * n) div 3) * n ^ 3 div 500
         else (160 - n) * n ^ 3 div 100)
    | FLUCTUATING \<Rightarrow>
        (if n < 15 then ((n + 1) div 3 + 24) * n ^ 3 div 50
         else if n \<le> 36 then (n + 14) * n ^ 3 div 50
         else (n div 2 + 32) * n ^ 3 div 50)
    | MEDIUM_SLOW \<Rightarrow> 6 * n ^ 3 div 5 - 15 * n ^ 2 + 100 * n - 140
    | FAST \<Rightarrow> 4 * n ^ 3 div 5
    | SLOW \<Rightarrow> 5 * n ^ 3 div 4)"

text \<open>The loop of \<open>level_from_exp\<close> over the candidate levels, with its \<open>break\<close>.\<close>

fun level_loop :: "growth_rate \<Rightarrow> int \<Rightarrow> int list \<Rightarrow> int \<Rightarrow> int" where
  "level_loop g experience [] level = level"
| "level_loop g experience (c # cs) level =
     (if exp_for_level g c > experience then level else level_loop g experience cs c)"

definition level_from_exp :: "growth_rate \<Rightarrow> int \<Rightarrow> int res" where
  "level_from_exp g experience =
     (if experience < 0 then Inl ValueError
      else Inr (level_loop g experience [2..100] 1))"

section \<open>Properties\<close>

lemma NATURE_DATA_distinct:
  "boosted (NATURE_DATA n) = Some s \<Longrightarrow> lowered (NATURE_DATA n) \<noteq> Some s"
  "boosted (NATURE_DATA n) \<noteq> Some Stat_HP" "lowered (NATURE_DATA n) \<noteq> Some Stat_HP"
  by (cases n; auto)+

lemma floor_tenths: "\<lfloor>rat_of_int x * (rat_of_int k / 10)\<rfloor> = x * k div 10"
proof -
  have "rat_of_int x * (rat_of_int k / 10) = rat_of_int (x * k) / rat_of_int 10" by simp
  then show ?thesis by (simp only: floor_divide_of_int_eq)
qed

lemma compute_stat_cases:
  assumes "s \<noteq> Stat_HP"
  shows "compute_stat s b iv n l =
    (let i = (2 * b + iv) * l div 100 + 5 in
      if boosted (NATURE_DATA n) = Some s then i * 11 div 10
      else if lowered (NATURE_DATA n) = Some s then i * 9 div 10 else i)"
proof -
  obtain i where i: "i = (2 * b + iv) * l div 100 + 5" by blast
  show ?thesis
    unfolding compute_stat_def Let_def i[symmetric]
    using assms floor_tenths[of i 11] floor_tenths[of i 9]
    by (auto simp: boost_multiplier_def lower_multiplier_def)
qed

definition all_growth :: "growth_rate list" where
  "all_growth = [MEDIUM_FAST, ERRATIC, FLUCTUATING, MEDIUM_SLOW, FAST, SLOW]"

lemma all_growth_complete: "g \<in> set all_growth"
  by (cases g) (simp_all add: all_growth_def)

lemma exp_table_increasing:
  "list_all (\<lambda>g. list_all (\<lambda>n. exp_for_level g n < exp_for_level g (n + 1)) [1..99]) all_growth"
  by code_simp

lemma exp_for_level_step:
  "1 \<le> n \<Longrightarrow> n < 100 \<Longrightarrow> exp_for_level g n < exp_for_level g (n + 1)"
  using exp_table_increasing all_growth_complete[of g] by (auto simp: list_all_iff)

lemma exp_for_level_less:
  assumes "1 \<le> a" "a < b" "b \<le> 100"
  shows "exp_for_level g a < exp_for_level g b"
  using assms(2,1,3)
proof (induction b rule: int_gr_induct)
  case base
  then show ?case using exp_for_level_step[of a g] by simp
next
  case (step i)
  then show ?case using exp_for_level_step[of i g] by force
qed

lemma exp_for_level_le_iff:
  assumes "1 \<le> a" "a \<le> 100" "1 \<le> b" "b \<le> 100"
  shows "exp_for_level g a \<le> exp_for_level g b \<longleftrightarrow> a \<le> b"
  using assms exp_for_level_less[of a b g] exp_for_level_less[of b a g]
  by (metis linorder_not_less order_le_less order_less_irrefl)

lemma level_loop_spec:
  assumes "1 \<le> lo" "lo \<le> 100"
  shows "lo \<le> level_loop g e [lo + 1..100] lo \<and> level_loop g e [lo + 1..100] lo \<le> 100
    \<and> (\<forall>c. lo < c \<and> c \<le> 100 \<longrightarrow> (exp_for_level g c \<le> e \<longleftrightarrow> c \<le> level_loop g e [lo + 1..100] lo))"
  using assms
proof (induction "nat (100 - lo)" arbitrary: lo)
  case 0
  then show ?case by simp
next
  case (Suc k)
  then have lo: "lo + 1 \<le> 100" by simp
  then have range: "[lo + 1..100] = (lo + 1) # [lo + 1 + 1..100]" by (simp add: upto_rec1)
  show ?case
  proof (cases "exp_for_level g (lo + 1) > e")
    case True
    have "e < exp_for_level g c" if "lo < c" "c \<le> 100" for c
      using True that Suc.prems exp_for_level_le_iff[of "lo + 1" c g] by auto
    then have "\<forall>c. lo < c \<and> c \<le> 100 \<longrightarrow> \<not> exp_for_level g c \<le> e" by (simp add: not_le)
    with True Suc.prems lo show ?thesis unfolding range by auto
  next
    case False
    have "k = nat (100 - (lo + 1))" using Suc.hyps(2) by simp
    from Suc.hyps(1)[OF this] Suc.prems lo
    have IH: "lo + 1 \<le> level_loop g e [lo + 1 + 1..100] (lo + 1)"
      "level_loop g e [lo + 1 + 1..100] (lo + 1) \<le> 100"
      "\<And>c. lo + 1 < c \<Longrightarrow> c \<le> 100 \<Longrightarrow>
         exp_for_level g c \<le> e \<longleftrightarrow> c \<le> level_loop g e [lo + 1 + 1..100] (lo + 1)"
      by auto
    have step: "level_loop g e [lo + 1..100] lo = level_loop g e [lo + 1 + 1..100] (lo + 1)"
      using False unfolding range by simp
    have "exp_for_level g c \<le> e \<longleftrightarrow> c \<le> level_loop g e [lo + 1 + 1..100] (lo + 1)"
      if "lo < c" "c \<le> 100" for c
    proof (cases "c = lo + 1")
      case True
      then show ?thesis using False IH(1) by simp
    next
      case False
      then show ?thesis using IH(3)[of c] that by simp
    qed
    then show ?thesis using IH(1,2) unfolding step by auto
  qed
qed

text \<open>
  The level computed from experience inverts the experience curve. For every growth rate
  and every non-negative amount of experience the result is a level between 1 and 100, a level
  above 1 is reached by the experience if and only if it is at most the result, and the threshold
  of a level gives back that level.
\<close>

theorem level_from_exp_inverse:
  assumes "0 \<le> experience"
  shows "\<exists>L. level_from_exp g experience = Inr L \<and> 1 \<le> L \<and> L \<le> 100
    \<and> (\<forall>c. 2 \<le> c \<and> c \<le> 100 \<longrightarrow> (exp_for_level g c \<le> experience \<longleftrightarrow> c \<le> L))
    \<and> (\<forall>l. 1 \<le> l \<and> l \<le> 100 \<and> experience = exp_for_level g l \<longrightarrow> L = l)"
proof -
  define L where "L = level_loop g experience [2..100] 1"
  have spec: "1 \<le> L" "L \<le> 100"
    "\<And>c. 1 < c \<Longrightarrow> c \<le> 100 \<Longrightarrow> exp_for_level g c \<le> experience \<longleftrightarrow> c \<le> L"
    using level_loop_spec[of 1 g experience] by (auto simp: L_def)
  have "L = l" if l: "1 \<le> l" "l \<le> 100" "experience = exp_for_level g l" for l
  proof -
    have "l \<le> L" using spec(3)[of l] spec(1) l by (cases "l = 1") auto
    moreover have "L \<le> l"
      using spec l exp_for_level_le_iff[of L l g] by (cases "L = 1") auto
    ultimately show ?thesis by simp
  qed
  moreover have "level_from_exp g experience = Inr L"
    using assms unfolding level_from_exp_def L_def by (simp only: if_False not_less[symmetric] simp_thms)
  moreover have "\<forall>c. 2 \<le> c \<and> c \<le> 100 \<longrightarrow> (exp_for_level g c \<le> experience \<longleftrightarrow> c \<le> L)"
    using spec(3) by simp
  ultimately show ?thesis using spec(1,2) by blast
qed

theorem level_from_exp_inverse_witness:
  "level_from_exp MEDIUM_SLOW (exp_for_level MEDIUM_SLOW 36) = Inr 36"
proof -
  define e where "e = exp_for_level MEDIUM_SLOW 36"
  have "0 \<le> e" unfolding e_def by code_simp
  from level_from_exp_inverse[OF this, of MEDIUM_SLOW] obtain L where
    L: "level_from_exp MEDIUM_SLOW e = Inr L"
      "\<forall>l. 1 \<le> l \<and> l \<le> 100 \<and> e = exp_for_level MEDIUM_SLOW l \<longrightarrow> L = l"
    by blast
  from L(2)[rule_format, of 36] have "L = 36" by (simp add: e_def)
  with L(1) show ?thesis by (simp add: e_def)
qed

definition raw_multiplier :: "ptype \<Rightarrow> ptype \<Rightarrow> rat" where
  "raw_multiplier a d = (case map_of DT_RAW d of
     Some codes \<Rightarrow> (if type_idx a < length codes then DT_MULT (codes ! type_idx a) else 1)
   | None \<Rightarrow> 1)"

definition ptypes :: "ptype list" where
  "ptypes = all_types @ [T_TYPELESS]"

lemma ptypes_idx: "type_idx t < length ptypes" "ptypes ! type_idx t = t"
  by (cases t; simp add: ptypes_def all_types_def)+

lemma TYPE_CHART_table: "TYPE_CHART = map (\<lambda>a. map (raw_multiplier a) ptypes) ptypes"
  by code_simp

lemma type_effectiveness_raw: "type_effectiveness a d = raw_multiplier a d"
  using ptypes_idx[of a] ptypes_idx[of d] by (simp add: type_effectiveness_def TYPE_CHART_table)

lemma raw_multiplier_range: "raw_multiplier a d \<in> {0, 1 / 2, 1, 2}"
  by (auto simp: raw_multiplier_def DT_MULT_def split: option.splits)

text \<open>
  The transposed chart built from the raw per-defender rows looks up the right entry. The
  effectiveness of an attacking type against a defending type is the multiplier coded in the
  defender's row at the attacker's column; it is one of 0, 1/2, 1 and 2, and typeless is neutral
  both ways.
\<close>

theorem type_effectiveness_correct:
  "type_effectiveness a d = raw_multiplier a d
    \<and> type_effectiveness a d \<in> {0, 1 / 2, 1, 2}
    \<and> type_effectiveness T_TYPELESS d = 1 \<and> type_effectiveness a T_TYPELESS = 1"
proof -
  have "raw_multiplier T_TYPELESS d = 1"
    by (cases d) (simp_all add: raw_multiplier_def DT_RAW_def)
  moreover have "raw_multiplier a T_TYPELESS = 1"
    by (simp add: raw_multiplier_def DT_RAW_def)
  ultimately show ?thesis using raw_multiplier_range[of a d] unfolding type_effectiveness_raw by blast
qed

text \<open>
  A stat never drops when the level, the base stat or the individual value rises, and the
  boosted stat of a nature is at least, the lowered one at most, the value of the same stat under
  the neutral nature.
\<close>

theorem compute_stat_monotone:
  assumes "0 \<le> b" "b \<le> b'" "0 \<le> iv" "iv \<le> iv'" "0 \<le> l" "l \<le> l'"
  shows "compute_stat s b iv n l \<le> compute_stat s b' iv' n l'
    \<and> (boosted (NATURE_DATA n) = Some s \<longrightarrow> compute_stat s b iv HARDY l \<le> compute_stat s b iv n l)
    \<and> (lowered (NATURE_DATA n) = Some s \<longrightarrow> compute_stat s b iv n l \<le> compute_stat s b iv HARDY l)"
proof -
  define i where "i = (2 * b + iv) * l div 100"
  define i' where "i' = (2 * b' + iv') * l' div 100"
  have "(2 * b + iv) * l \<le> (2 * b' + iv') * l'"
    using assms by (intro mult_mono) auto
  then have i: "i \<le> i'" "0 \<le> i"
    using assms by (simp_all add: i_def i'_def zdiv_mono1 pos_imp_zdiv_nonneg_iff)
  show ?thesis
  proof (cases "s = Stat_HP")
    case True
    with i assms NATURE_DATA_distinct show ?thesis
      by (simp add: compute_stat_def flip: i_def i'_def)
  next
    case False
    have "(i + 5) * 11 div 10 \<le> (i' + 5) * 11 div 10" "(i + 5) * 9 div 10 \<le> (i' + 5) * 9 div 10"
      "i + 5 \<le> (i + 5) * 11 div 10" "(i + 5) * 9 div 10 \<le> i + 5"
      using i by (auto intro!: zdiv_mono1)
    with False i NATURE_DATA_distinct(1)[of n s] show ?thesis
      by (auto simp: compute_stat_cases Let_def simp flip: i_def i'_def)
  qed
qed

theorem compute_stat_monotone_witness:
  "compute_stat Stat_ATK 75 31 ADAMANT 50 \<le> compute_stat Stat_ATK 75 31 ADAMANT 51
    \<and> compute_stat Stat_ATK 75 31 ADAMANT 50 = 104"
proof -
  have "compute_stat Stat_ATK 75 31 ADAMANT 50 = 104" by code_simp
  then show ?thesis using compute_stat_monotone[of 75 75 31 31 50 51 Stat_ATK ADAMANT] by simp
qed

end
