(* ===== verification/BattleState.thy ===== *)
theory BattleState
  imports HpBar StatData
begin

unbundle bit_operations_syntax

text \<open>
  The battle state: \<open>state/pokemon.py\<close>, \<open>state/side.py\<close> and \<open>state/battle.py\<close> field by field,
  with the constructors' completion of the optional fields, and the parts of the game data
  (\<open>data/moves.py\<close>, \<open>data/species.py\<close>, \<open>data/mega.py\<close>) the sweep reads. Python objects
  are values here: every \<open>copy.copy\<close> of the source is followed by assignments to the copy only, so
  a record update models it. The members of the enums \<open>Species\<close>, \<open>Move\<close>, \<open>Ability\<close> and
  \<open>Item\<close> are their integer values; the two large tables \<open>MOVE_DATA\<close> and \<open>SPECIES_DATA\<close> are
  the fields of a record \<open>game_data\<close> that the operations take as an argument.
\<close>

section \<open>Enum members the code names\<close>

type_synonym move = int
type_synonym ability = int
type_synonym item = int

abbreviation "Move_NONE \<equiv> (0::move)"
abbreviation "Move_STRUGGLE \<equiv> (165::move)"
abbreviation "Ability_NONE \<equiv> (0::ability)"
abbreviation "Ability_SHADOW_TAG \<equiv> (23::ability)"
abbreviation "Ability_WONDER_GUARD \<equiv> (25::ability)"
abbreviation "Ability_LEVITATE \<equiv> (26::ability)"
abbreviation "Ability_MAGNET_PULL \<equiv> (42::ability)"
abbreviation "Ability_ARENA_TRAP \<equiv> (71::ability)"
abbreviation "Item_NONE \<equiv> (0::item)"
abbreviation "Item_IRON_BALL \<equiv> (278::item)"
abbreviation "Item_SHED_SHELL \<equiv> (295::item)"
abbreviation "Item_AIR_BALLOON \<equiv> (541::item)"
abbreviation "Item_ASSAULT_VEST \<equiv> (640::item)"
abbreviation "Species_SHEDINJA \<equiv> (292::species)"

datatype gender = MALE | FEMALE | GENDERLESS

text \<open>The flags of the class \<open>Volatile\<close>, as their bit.\<close>

abbreviation "Volatile_CONFUSED \<equiv> (1::int)"
abbreviation "Volatile_ENCORE_ACTIVE \<equiv> (8::int)"
abbreviation "Volatile_TAUNT_ACTIVE \<equiv> (16::int)"
abbreviation "Volatile_FLINCHED \<equiv> (64::int)"
abbreviation "Volatile_CHARGING \<equiv> (128::int)"
abbreviation "Volatile_RECHARGING \<equiv> (256::int)"
abbreviation "Volatile_LOCKED_MOVE \<equiv> (512::int)"
abbreviation "Volatile_SUBSTITUTE \<equiv> (4096::int)"
abbreviation "Volatile_CHOICE_LOCKED \<equiv> (262144::int)"

definition has_volatile :: "int \<Rightarrow> int \<Rightarrow> bool" where
  "has_volatile vs f \<longleftrightarrow> vs AND f \<noteq> 0"

datatype volatile_effect =
    VE_ENCORE | VE_TAUNT | VE_PERISH_SONG | VE_BOUND | VE_DISABLE | VE_EMBARGO | VE_MAGNET_RISE
  | VE_TELEKINESIS | VE_SLOW_START | VE_STOCKPILE | VE_ROOST | VE_RAMPAGING | VE_DROWSY
  | VE_THROAT_CHOPPED | VE_TRAPPED | VE_OCTOLOCK | VE_GROUNDED | VE_LASER_FOCUS | VE_NIGHTMARE
  | VE_SEMI_INVULNERABLE | VE_NO_RETREAT | VE_LEECH_SEED_SOURCE_SLOT | VE_BOUND_SOURCE_SLOT
  | VE_BOUND_SOURCE_ID | VE_TRAPPED_SOURCE_ID | VE_CHARGING_MOVE

section \<open>Game data\<close>

datatype move_category = Cat_PHYSICAL | Cat_SPECIAL | Cat_STATUS

datatype move_target =
    MT_NORMAL | MT_SELF | MT_ALL_ADJACENT_FOES | MT_ALL_ADJACENT | MT_ALLY | MT_ANY
  | MT_ALLY_SIDE | MT_FOE_SIDE | MT_ALL | MT_RANDOM_NORMAL

record secondary_effect =
  se_chance :: int
  se_status :: "status option"
  se_flinch :: bool
  se_stat_changes :: "(nat \<times> int \<times> bool) list"
  se_volatile :: "string option"

record move_data =
  md_move_type :: ptype
  md_category :: move_category
  md_base_power :: int
  md_accuracy :: "int option"
  md_pp :: int
  md_priority :: int
  md_target :: move_target
  md_tags :: int
  md_secondary :: "secondary_effect option"
  md_drain :: "(int \<times> int) option"
  md_recoil :: "(int \<times> int) option"
  md_flags :: int
  md_min_hits :: nat
  md_max_hits :: nat
  md_crit_boost :: int
  md_secondary2 :: "secondary_effect option"
  md_self_stat_changes :: "(nat \<times> int) list"

record species_data =
  sp_types :: "ptype list"
  sp_base_hp :: int
  sp_base_atk :: int
  sp_base_def :: int
  sp_base_spa :: int
  sp_base_spd :: int
  sp_base_spe :: int
  sp_male_ratio :: "rat option"
  sp_weight_kg :: rat
  sp_growth_rate :: growth_rate
  sp_exp_yield :: int

text \<open>
  The tables: \<open>gd_moves\<close> and \<open>gd_species\<close> are the dictionaries \<open>MOVE_DATA\<close> and
  \<open>SPECIES_DATA\<close>; \<open>gd_move_names\<close> and \<open>gd_species_names\<close> are the members of the enums
  in definition order, the canonical ones flagged \<open>True\<close> and the aliases \<open>False\<close>.
\<close>

record game_data =
  gd_moves :: "move \<Rightarrow> move_data option"
  gd_species :: "species \<Rightarrow> species_data option"
  gd_move_names :: "(string \<times> move \<times> bool) list"
  gd_species_names :: "(string \<times> species \<times> bool) list"

definition MEGA_DATA :: "(item \<times> species \<times> ability) list" where
  "MEGA_DATA = [
    (575, (949, 117)), (576, (940, 156)), (577, (918, 181)), (578, (933, 111)), (579, (912, 36)),
    (615, (938, 182)), (580, (921, 104)), (617, (951, 131)), (582, (939, 158)), (628, (910, 91)),
    (583, (909, 178)), (584, (928, 3)), (41, (954, 189)), (40, (955, 190)), (625, (937, 125)),
    (585, (907, 181)), (586, (908, 70)), (616, (950, 39)), (573, (947, 159)), (587, (930, 182)),
    (588, (914, 23)), (623, (941, 174)), (589, (917, 104)), (590, (924, 92)), (591, (925, 94)),
    (592, (915, 185)), (629, (944, 26)), (630, (945, 26)), (626, (946, 113)), (594, (948, 91)),
    (596, (935, 22)), (598, (932, 37)), (599, (934, 74)), (618, (943, 181)), (622, (911, 99)),
    (602, (916, 184)), (614, (931, 156)), (627, (942, 184)), (613, (927, 31)), (605, (923, 101)),
    (619, (936, 173)), (620, (913, 75)), (621, (922, 159)), (612, (929, 33)), (607, (926, 45)),
    (608, (906, 47))]"

definition MEGA_PRE_SPECIES :: "(item \<times> species) list" where
  "MEGA_PRE_SPECIES = [
    (575, 460), (576, 359), (577, 142), (578, 306), (579, 65), (615, 334), (580, 181), (617, 531),
    (582, 354), (628, 15), (583, 9), (584, 257), (41, 382), (40, 383), (625, 323), (585, 6),
    (586, 6), (616, 475), (573, 445), (587, 282), (588, 94), (623, 362), (589, 130), (590, 214),
    (591, 229), (592, 115), (629, 380), (630, 381), (626, 428), (594, 448), (596, 310), (598, 303),
    (599, 308), (618, 376), (622, 18), (602, 127), (614, 302), (627, 373), (613, 254), (605, 212),
    (619, 319), (620, 80), (621, 208), (612, 260), (607, 248), (608, 3)]"

definition MOLD_BREAKER_ABILITIES :: "ability list" where
  "MOLD_BREAKER_ABILITIES = [104, 163, 164]"

definition GRAVITY_BLOCKED_MOVES :: "move list" where
  "GRAVITY_BLOCKED_MOVES = [19, 340, 136, 26, 393, 150, 477, 507]"

section \<open>One Pokemon\<close>

record pokemon_state =
  pk_species :: species
  pk_nature :: nature
  pk_ivs :: "int list"
  pk_gender :: gender
  pk_level :: int
  pk_exp :: int
  pk_ability :: ability
  pk_item :: item
  pk_status :: status
  pk_move_ids :: "move list"
  pk_move_pp :: "int list"
  pk_stats :: "int list"
  pk_max_hp :: int
  pk_hp :: int
  pk_types :: "ptype list"
  pk_stat_stages :: "int list"
  pk_volatiles :: int
  pk_timed_volatiles :: "(volatile_effect \<times> int) list"
  pk_turns_in_battle :: int
  pk_toxic_turns :: int
  pk_sleep_turns :: int
  pk_confusion_turns :: int
  pk_is_rest_sleep :: bool
  pk_locked_slot :: int
  pk_charging_move_slot :: int
  pk_sub_hp :: int
  pk_last_used_slot :: int
  pk_fainted :: bool
  pk_has_acted :: bool
  pk_crit_stage :: int
  pk_metronome_count :: int
  pk_metronome_last_move :: int
  pk_mirror_move_last_move :: int
  pk_consumed_berry :: item
  pk_took_damage_this_turn :: bool
  pk_had_stat_lowered_this_turn :: bool
  pk_had_stat_raised_this_turn :: bool
  pk_last_move_failed :: bool
  pk_last_physical_damage_taken :: int
  pk_last_special_damage_taken :: int
  pk_last_damage_taken :: int
  pk_sucker_punch_last_turn :: bool
  pk_base_ability :: ability
  pk_saved_ability :: ability
  pk_is_mega :: bool
  pk_moves_used :: int
  pk_rollout_hits :: int
  pk_defense_curl_used :: bool
  pk_weight_kg_reduced :: rat
  pk_protect_counter :: int
  pk_stockpile_count :: int
  pk_stockpile_def_boost :: int
  pk_stockpile_spd_boost :: int

text \<open>
  The dataclass with its defaults, for the four required arguments. The fields \<open>stats\<close>,
  \<open>max_hp\<close>, \<open>hp\<close> and \<open>types\<close> are optional arguments of the constructor and are passed to
  \<open>pokemon_post_init\<close> as such; their entries here are placeholders it overwrites.
\<close>

definition pokemon_defaults :: "species \<Rightarrow> nature \<Rightarrow> int list \<Rightarrow> gender \<Rightarrow> pokemon_state" where
  "pokemon_defaults sp nt ivs g = \<lparr>
     pk_species = sp, pk_nature = nt, pk_ivs = ivs, pk_gender = g,
     pk_level = 50, pk_exp = 0, pk_ability = Ability_NONE, pk_item = Item_NONE, pk_status = St_NONE,
     pk_move_ids = [0, 0, 0, 0], pk_move_pp = [0, 0, 0, 0],
     pk_stats = [], pk_max_hp = 0, pk_hp = 0, pk_types = [],
     pk_stat_stages = [0, 0, 0, 0, 0, 0, 0], pk_volatiles = 0, pk_timed_volatiles = [],
     pk_turns_in_battle = 0, pk_toxic_turns = 0, pk_sleep_turns = 0, pk_confusion_turns = 0,
     pk_is_rest_sleep = False, pk_locked_slot = -1, pk_charging_move_slot = -1, pk_sub_hp = 0,
     pk_last_used_slot = -1, pk_fainted = False, pk_has_acted = False, pk_crit_stage = 0,
     pk_metronome_count = 0, pk_metronome_last_move = -1, pk_mirror_move_last_move = -1,
     pk_consumed_berry = Item_NONE, pk_took_damage_this_turn = False,
     pk_had_stat_lowered_this_turn = False, pk_had_stat_raised_this_turn = False,
     pk_last_move_failed = False, pk_last_physical_damage_taken = 0,
     pk_last_special_damage_taken = 0, pk_last_damage_taken = 0, pk_sucker_punch_last_turn = False,
     pk_base_ability = Ability_NONE, pk_saved_ability = Ability_NONE, pk_is_mega = False,
     pk_moves_used = 0, pk_rollout_hits = 0, pk_defense_curl_used = False,
     pk_weight_kg_reduced = 0, pk_protect_counter = 0, pk_stockpile_count = 0,
     pk_stockpile_def_boost = 0, pk_stockpile_spd_boost = 0\<rparr>"

definition all_stats :: "stat list" where
  "all_stats = [Stat_HP, Stat_ATK, Stat_DEF, Stat_SPA, Stat_SPD, Stat_SPE]"

definition dict_get :: "('a \<Rightarrow> 'b option) \<Rightarrow> 'a \<Rightarrow> 'b res" where
  "dict_get d k = (case d k of None \<Rightarrow> Inl KeyError | Some v \<Rightarrow> Inr v)"

text \<open>The computed stats of \<open>__post_init__\<close>, with Shedinja's single hit point.\<close>

definition species_stats :: "game_data \<Rightarrow> pokemon_state \<Rightarrow> int list res" where
  "species_stats gd p =
     rbind (dict_get (gd_species gd) (pk_species p)) (\<lambda>sp.
     let bases = [sp_base_hp sp, sp_base_atk sp, sp_base_def sp, sp_base_spa sp, sp_base_spd sp, sp_base_spe sp]
     in rbind (rmap (\<lambda>i. rbind (lk (pk_ivs p) i) (\<lambda>iv.
           Inr (compute_stat (all_stats ! i) (bases ! i) iv (pk_nature p) (pk_level p)))) [0..<6]) (\<lambda>stats.
        Inr (if pk_species p = Species_SHEDINJA then 1 # tl stats else stats)))"

definition pokemon_post_init ::
  "game_data \<Rightarrow> int list option \<Rightarrow> int option \<Rightarrow> int option \<Rightarrow> ptype list option
   \<Rightarrow> pokemon_state \<Rightarrow> pokemon_state res" where
  "pokemon_post_init gd stats max_hp hp types p =
     rbind (case stats of Some st \<Rightarrow> Inr st | None \<Rightarrow> species_stats gd p) (\<lambda>st.
     let ab = (if pk_species p = Species_SHEDINJA \<and> pk_ability p = Ability_NONE
               then Ability_WONDER_GUARD else pk_ability p)
     in rbind (case max_hp of Some m \<Rightarrow> Inr m | None \<Rightarrow> lk st 0) (\<lambda>m.
        rbind (case types of Some ts \<Rightarrow> Inr ts
               | None \<Rightarrow> rbind (dict_get (gd_species gd) (pk_species p)) (\<lambda>sp. Inr (sp_types sp))) (\<lambda>ts.
        Inr (p\<lparr>pk_stats := st, pk_ability := ab, pk_max_hp := m,
               pk_hp := (case hp of Some h \<Rightarrow> h | None \<Rightarrow> m), pk_types := ts,
               pk_base_ability := (if pk_base_ability p = Ability_NONE \<and> ab \<noteq> Ability_NONE
                                   then ab else pk_base_ability p)\<rparr>))))"

section \<open>One side\<close>

datatype battle_format = SINGLES | DOUBLES

datatype side_condition =
    REFLECT | LIGHT_SCREEN | AURORA_VEIL | STEALTH_ROCK | SPIKES_1 | SPIKES_2 | SPIKES_3
  | TOXIC_SPIKES_1 | TOXIC_SPIKES_2 | STICKY_WEB | TAILWIND | LUCKY_CHANT | SAFEGUARD

record side_state =
  sd_team :: "pokemon_state list"
  sd_format :: battle_format
  sd_active_indices :: "nat list"
  sd_side_conditions :: "(side_condition \<times> int) list"
  sd_mega_used :: bool
  sd_baton_pass_data :: "(int list \<times> int \<times> (volatile_effect \<times> int) list \<times> int \<times> int) option"
  sd_ally_fainted_last_turn :: bool
  sd_wish_pending :: "(int \<times> int \<times> nat) option"
  sd_future_sight_pending :: "(int \<times> int \<times> move \<times> nat) option"
  sd_imprisoned_moves :: "move set"
  sd_redirect_target :: int
  sd_redirect_is_rage_powder :: bool

definition side_post_init :: "side_state \<Rightarrow> side_state" where
  "side_post_init s =
     (if sd_active_indices s = []
      then s\<lparr>sd_active_indices := (if sd_format s = SINGLES then [0] else [0, 1])\<rparr>
      else s)"

definition mk_side :: "pokemon_state list \<Rightarrow> battle_format \<Rightarrow> nat list \<Rightarrow> side_state" where
  "mk_side team fmt act = side_post_init \<lparr>
     sd_team = team, sd_format = fmt, sd_active_indices = act, sd_side_conditions = [],
     sd_mega_used = False, sd_baton_pass_data = None, sd_ally_fainted_last_turn = False,
     sd_wish_pending = None, sd_future_sight_pending = None, sd_imprisoned_moves = {},
     sd_redirect_target = -1, sd_redirect_is_rage_powder = False\<rparr>"

definition spikes_count :: "side_state \<Rightarrow> nat" where
  "spikes_count s =
     (let active = map fst (sd_side_conditions s) in
      if SPIKES_3 \<in> set active then 3
      else if SPIKES_2 \<in> set active then 2
      else if SPIKES_1 \<in> set active then 1 else 0)"

definition toxic_spikes_count :: "side_state \<Rightarrow> nat" where
  "toxic_spikes_count s =
     (let active = map fst (sd_side_conditions s) in
      if TOXIC_SPIKES_2 \<in> set active then 2
      else if TOXIC_SPIKES_1 \<in> set active then 1 else 0)"

section \<open>The battle\<close>

datatype weather =
    W_NONE | W_SUNNY | W_RAINY | W_SANDSTORM | W_HAIL | W_HEAVY_RAIN | W_HARSH_SUN | W_STRONG_WIND

datatype terrain = Tr_NONE | Tr_ELECTRIC | Tr_GRASSY | Tr_PSYCHIC | Tr_MISTY

datatype pseudo_weather = TRICK_ROOM | GRAVITY | MAGIC_ROOM | WONDER_ROOM | TAILWIND_FIELD

record battle_state =
  bs_sides :: "side_state \<times> side_state"
  bs_weather :: weather
  bs_weather_turns :: int
  bs_terrain :: terrain
  bs_terrain_turns :: int
  bs_pseudo_weather :: "(pseudo_weather \<times> int) list"
  bs_turn_number :: int
  bs_echoed_voice_multiplier :: int
  bs_echoed_voice_used_this_turn :: bool
  bs_battle_last_move :: int
  bs_format :: battle_format
  bs_turn_order :: "nat list"
  bs_prev_turn_order :: "nat list"
  bs_is_trainer_battle :: bool
  bs_level_cap :: "int option"
  bs_exp_participants :: "nat set list"

definition mk_battle :: "side_state \<Rightarrow> side_state \<Rightarrow> battle_format \<Rightarrow> battle_state" where
  "mk_battle s0 s1 fmt = \<lparr>
     bs_sides = (s0, s1), bs_weather = W_NONE, bs_weather_turns = 0, bs_terrain = Tr_NONE,
     bs_terrain_turns = 0, bs_pseudo_weather = [], bs_turn_number = 1,
     bs_echoed_voice_multiplier = 0, bs_echoed_voice_used_this_turn = False,
     bs_battle_last_move = -1, bs_format = fmt, bs_turn_order = [], bs_prev_turn_order = [],
     bs_is_trainer_battle = True, bs_level_cap = None, bs_exp_participants = []\<rparr>"

text \<open>\<open>state.sides[i]\<close>, and the state with one side replaced.\<close>

definition side_of :: "battle_state \<Rightarrow> sid \<Rightarrow> side_state" where
  "side_of st i = (case i of P0 \<Rightarrow> fst (bs_sides st) | P1 \<Rightarrow> snd (bs_sides st))"

definition with_side :: "battle_state \<Rightarrow> sid \<Rightarrow> side_state \<Rightarrow> battle_state" where
  "with_side st i s = st\<lparr>bs_sides :=
     (case i of P0 \<Rightarrow> (s, snd (bs_sides st)) | P1 \<Rightarrow> (fst (bs_sides st), s))\<rparr>"

text \<open>\<open>side.team[side.active_indices[slot]]\<close>, with both indexings checked.\<close>

definition active_idx :: "side_state \<Rightarrow> nat \<Rightarrow> nat res" where
  "active_idx s slot = lk (sd_active_indices s) slot"

definition active_mon :: "side_state \<Rightarrow> nat \<Rightarrow> pokemon_state res" where
  "active_mon s slot = rbind (active_idx s slot) (lk (sd_team s))"

text \<open>A mon of a team replaced in place.\<close>

definition with_mon :: "side_state \<Rightarrow> nat \<Rightarrow> pokemon_state \<Rightarrow> side_state" where
  "with_mon s i p = s\<lparr>sd_team := (sd_team s)[i := p]\<rparr>"

section \<open>Lemmas\<close>

lemma side_of_with_side [simp]:
  "side_of (with_side st i s) j = (if i = j then s else side_of st j)"
  by (cases i; cases j) (simp_all add: side_of_def with_side_def)

lemma with_side_same [simp]: "with_side st i (side_of st i) = st"
  by (cases i) (simp_all add: side_of_def with_side_def)

lemma with_side_twice [simp]: "with_side (with_side st i s) i t = with_side st i t"
  by (cases i) (simp_all add: with_side_def)

text \<open>
  Well-formed sides: every active index points into the team, and no two slots hold the same mon.
\<close>

definition side_wf :: "side_state \<Rightarrow> bool" where
  "side_wf s \<longleftrightarrow> (\<forall>i \<in> set (sd_active_indices s). i < length (sd_team s))
     \<and> distinct (sd_active_indices s)"

definition battle_wf :: "battle_state \<Rightarrow> bool" where
  "battle_wf st \<longleftrightarrow> side_wf (side_of st P0) \<and> side_wf (side_of st P1)"

lemma battle_wf_side: "battle_wf st \<Longrightarrow> side_wf (side_of st i)"
  by (cases i) (simp_all add: battle_wf_def)

lemma active_mon_wf:
  assumes "side_wf s" "slot < length (sd_active_indices s)"
  shows "active_mon s slot = Inr (sd_team s ! (sd_active_indices s ! slot))"
  using assms by (simp add: active_mon_def active_idx_def side_wf_def)

lemma with_mon_active [simp]: "sd_active_indices (with_mon s i p) = sd_active_indices s"
  and with_mon_length [simp]: "length (sd_team (with_mon s i p)) = length (sd_team s)"
  by (simp_all add: with_mon_def)

lemma side_wf_with_mon [simp]: "side_wf (with_mon s i p) = side_wf s"
  by (simp add: side_wf_def)

lemma species_stats_length: "species_stats gd p = Inr st \<Longrightarrow> length st = 6"
proof -
  assume a: "species_stats gd p = Inr st"
  from a obtain xs where "length xs = 6" "st = (if pk_species p = Species_SHEDINJA then 1 # tl xs else xs)"
    by (auto simp: species_stats_def Let_def rbind_eq_Inr dest!: rmap_length simp del: upt_rec_numeral)
  then show ?thesis by (cases xs) auto
qed

text \<open>
  The constructor of a Pokemon completes it consistently. When the stats are left out it has six
  of them, its maximum HP is the first stat, its HP the maximum, and its types those of its species;
  a Shedinja always has one hit point and, unless an ability is given, Wonder Guard; the fields the
  caller fixed are kept.
\<close>

theorem pokemon_post_init_complete:
  assumes "pokemon_post_init gd None None None None p = Inr q"
  shows "length (pk_stats q) = 6 \<and> pk_max_hp q = pk_stats q ! 0 \<and> pk_hp q = pk_max_hp q
    \<and> (\<exists>sp. gd_species gd (pk_species p) = Some sp \<and> pk_types q = sp_types sp)
    \<and> (pk_species p = Species_SHEDINJA \<longrightarrow>
         pk_hp q = 1 \<and> pk_ability q = (if pk_ability p = Ability_NONE then Ability_WONDER_GUARD else pk_ability p))
    \<and> (pk_species p \<noteq> Species_SHEDINJA \<longrightarrow> pk_ability q = pk_ability p)
    \<and> pk_species q = pk_species p \<and> pk_level q = pk_level p \<and> pk_move_ids q = pk_move_ids p
    \<and> (pk_base_ability p = Ability_NONE \<longrightarrow> pk_base_ability q = pk_ability q)"
proof -
  from assms obtain st m sp where st: "species_stats gd p = Inr st" and m: "lk st 0 = Inr m"
    and sp: "gd_species gd (pk_species p) = Some sp"
    by (auto simp: pokemon_post_init_def Let_def rbind_eq_Inr dict_get_def split: option.splits)
  have len: "length st = 6" using st by (rule species_stats_length)
  have shed: "pk_species p = Species_SHEDINJA \<Longrightarrow> st ! 0 = 1"
    using st by (auto simp: species_stats_def Let_def rbind_eq_Inr)
  from assms st m sp len shed show ?thesis
    by (auto simp: pokemon_post_init_def Let_def dict_get_def lk_eq_Inr)
qed

text \<open>A small game table used by the witnesses of this and later theories.\<close>

definition shedinja_data :: species_data where
  "shedinja_data = \<lparr>sp_types = [T_BUG, T_GHOST], sp_base_hp = 1, sp_base_atk = 90, sp_base_def = 45,
     sp_base_spa = 30, sp_base_spd = 30, sp_base_spe = 40, sp_male_ratio = None, sp_weight_kg = 12 / 10,
     sp_growth_rate = ERRATIC, sp_exp_yield = 83\<rparr>"

definition tackle_data :: move_data where
  "tackle_data = \<lparr>md_move_type = T_NORMAL, md_category = Cat_PHYSICAL, md_base_power = 40,
     md_accuracy = Some 100, md_pp = 35, md_priority = 0, md_target = MT_NORMAL, md_tags = 1,
     md_secondary = None, md_drain = None, md_recoil = None, md_flags = 0, md_min_hits = 1,
     md_max_hits = 1, md_crit_boost = 0, md_secondary2 = None, md_self_stat_changes = []\<rparr>"

definition sample_data :: game_data where
  "sample_data = \<lparr>gd_moves = (\<lambda>m. if m = 33 then Some tackle_data else None),
     gd_species = (\<lambda>s. if s = Species_SHEDINJA then Some shedinja_data else None),
     gd_move_names = [(''NONE'', 0, True), (''TACKLE'', 33, True), (''STRUGGLE'', 165, True)],
     gd_species_names = [(''SHEDINJA'', 292, True)]\<rparr>"

theorem pokemon_post_init_complete_witness:
  "\<exists>q. pokemon_post_init sample_data None None None None
         (pokemon_defaults Species_SHEDINJA HARDY [31, 31, 31, 31, 31, 31] GENDERLESS) = Inr q
     \<and> pk_hp q = 1 \<and> pk_ability q = Ability_WONDER_GUARD"
proof -
  let ?p = "pokemon_defaults Species_SHEDINJA HARDY [31, 31, 31, 31, 31, 31] GENDERLESS"
  obtain q where q: "pokemon_post_init sample_data None None None None ?p = Inr q"
    by (auto simp: pokemon_post_init_def species_stats_def sample_data_def dict_get_def Let_def
        pokemon_defaults_def shedinja_data_def upt_rec numeral_nat)
  then show ?thesis
    using pokemon_post_init_complete[OF q] by (simp add: pokemon_defaults_def)
qed

end
