(* ===== verification/Actions.thy ===== *)
theory Actions
  imports BattleState
begin

text \<open>
  Legal actions of one active slot (\<open>actions.py\<close>) and the random battle policy built on them
  (\<open>battle_policy.py\<close>). The policy relies on the enumerator only through the locale
  \<open>action_enumerator\<close>, which is interpreted on \<open>enumerate_legal_actions\<close>. A draw of the
  policy's random generator is an explicit argument: a number for \<open>random()\<close> and a natural number
  for \<open>choice\<close>, reduced modulo the length of the sequence, so that every element can be drawn.
\<close>

section \<open>Actions\<close>

datatype action_kind = MOVE | SWITCH

record action =
  ac_kind :: action_kind
  ac_move_slot :: int
  ac_target_slot :: nat
  ac_switch_to_slot :: int
  ac_mega :: bool
  ac_move_override :: "move option"
  ac_source_slot :: nat
  ac_target_side :: int

text \<open>The constructor with its default arguments.\<close>

definition mk_action :: "action_kind \<Rightarrow> action" where
  "mk_action k = \<lparr>ac_kind = k, ac_move_slot = -1, ac_target_slot = 0, ac_switch_to_slot = -1,
     ac_mega = False, ac_move_override = None, ac_source_slot = 0, ac_target_side = -1\<rparr>"

definition STRUGGLE_SLOT :: int where
  "STRUGGLE_SLOT = -2"

definition move_action :: "int \<Rightarrow> action" where
  "move_action k = (mk_action MOVE)\<lparr>ac_move_slot := k\<rparr>"

definition switch_action :: "nat \<Rightarrow> action" where
  "switch_action i = (mk_action SWITCH)\<lparr>ac_switch_to_slot := int i\<rparr>"

definition struggle_action :: action where
  "struggle_action = (mk_action MOVE)\<lparr>ac_move_slot := STRUGGLE_SLOT, ac_move_override := Some Move_STRUGGLE\<rparr>"

definition has_effect :: "volatile_effect \<Rightarrow> pokemon_state \<Rightarrow> bool" where
  "has_effect e p \<longleftrightarrow> (\<exists>x \<in> set (pk_timed_volatiles p). fst x = e)"

definition gravity_active :: "battle_state \<Rightarrow> bool" where
  "gravity_active st \<longleftrightarrow> (\<exists>x \<in> set (bs_pseudo_weather st). fst x = GRAVITY)"

definition is_grounded :: "pokemon_state \<Rightarrow> battle_state \<Rightarrow> bool" where
  "is_grounded p st =
     (if gravity_active st then True
      else if pk_item p = Item_IRON_BALL then True
      else if has_effect VE_GROUNDED p then True
      else if T_FLYING \<in> set (pk_types p) then False
      else if pk_ability p = Ability_LEVITATE then False
      else if pk_item p = Item_AIR_BALLOON then False
      else if has_effect VE_MAGNET_RISE p then False
      else if has_effect VE_TELEKINESIS p then False
      else True)"

section \<open>Enumeration\<close>

text \<open>\<open>move in MOVE_DATA and MOVE_DATA[move].category == MoveCategory.STATUS\<close>.\<close>

definition status_category :: "game_data \<Rightarrow> move \<Rightarrow> bool" where
  "status_category gd m = (case gd_moves gd m of None \<Rightarrow> False | Some md \<Rightarrow> md_category md = Cat_STATUS)"

text \<open>The \<open>continue\<close> conditions of the loop over the move slots.\<close>

definition usable_move :: "game_data \<Rightarrow> battle_state \<Rightarrow> pokemon_state \<Rightarrow> move \<times> int \<Rightarrow> bool" where
  "usable_move gd st p mp = (case mp of (m, pp) \<Rightarrow>
     if pp \<le> 0 then False
     else if gravity_active st \<and> m \<in> set GRAVITY_BLOCKED_MOVES then False
     else if has_volatile (pk_volatiles p) Volatile_TAUNT_ACTIVE \<and> status_category gd m then False
     else if pk_item p = Item_ASSAULT_VEST \<and> status_category gd m then False
     else True)"

definition free_move_actions :: "game_data \<Rightarrow> battle_state \<Rightarrow> pokemon_state \<Rightarrow> action list" where
  "free_move_actions gd st p =
     map (\<lambda>x. move_action (int (fst x)))
       (filter (\<lambda>x. usable_move gd st p (snd x)) (enumerated (zip (pk_move_ids p) (pk_move_pp p))))"

definition bench_switches :: "side_state \<Rightarrow> nat \<Rightarrow> action list" where
  "bench_switches s active =
     map (\<lambda>x. switch_action (fst x))
       (filter (\<lambda>x. fst x \<noteq> active \<and> \<not> pk_fainted (snd x)) (enumerated (sd_team s)))"

text \<open>\<open>[opp_side.team[i] for i in opp_side.active_indices if not opp_side.team[i].fainted]\<close>.\<close>

definition active_alive :: "side_state \<Rightarrow> pokemon_state list res" where
  "active_alive s = rbind (rmap (lk (sd_team s)) (sd_active_indices s)) (\<lambda>ms.
     Inr (filter (\<lambda>m. \<not> pk_fainted m) ms))"

definition ability_trapped :: "battle_state \<Rightarrow> pokemon_state \<Rightarrow> pokemon_state list \<Rightarrow> bool" where
  "ability_trapped st p foes =
     (let mold_breaker = pk_ability p \<in> set MOLD_BREAKER_ABILITIES;
          shed_shell = pk_item p = Item_SHED_SHELL;
          is_steel = T_STEEL \<in> set (pk_types p);
          shadow_tag = (\<exists>m \<in> set foes. pk_ability m = Ability_SHADOW_TAG \<and> T_GHOST \<notin> set (pk_types p)
             \<and> \<not> shed_shell \<and> pk_ability p \<noteq> Ability_SHADOW_TAG \<and> \<not> mold_breaker);
          magnet_pull = (\<exists>m \<in> set foes. pk_ability m = Ability_MAGNET_PULL \<and> is_steel
             \<and> \<not> shed_shell \<and> \<not> mold_breaker);
          arena_trap = (\<exists>m \<in> set foes. pk_ability m = Ability_ARENA_TRAP \<and> is_grounded p st
             \<and> T_GHOST \<notin> set (pk_types p) \<and> \<not> shed_shell \<and> \<not> mold_breaker)
      in shadow_tag \<or> magnet_pull \<or> arena_trap)"

definition can_switch :: "battle_state \<Rightarrow> pokemon_state \<Rightarrow> pokemon_state list \<Rightarrow> bool" where
  "can_switch st p foes \<longleftrightarrow>
     (\<not> has_effect VE_TRAPPED p \<and> \<not> ability_trapped st p foes)
     \<and> (\<not> has_effect VE_BOUND p \<or> pk_item p = Item_SHED_SHELL)"

definition can_mega :: "side_state \<Rightarrow> pokemon_state \<Rightarrow> bool" where
  "can_mega s p \<longleftrightarrow> pk_item p \<in> fst ` set MEGA_DATA \<and> \<not> pk_is_mega p \<and> \<not> sd_mega_used s"

definition mega_variants :: "action list \<Rightarrow> action list" where
  "mega_variants acts =
     map (\<lambda>a. (mk_action MOVE)\<lparr>ac_move_slot := ac_move_slot a, ac_mega := True\<rparr>)
       (filter (\<lambda>a. ac_kind a = MOVE) acts)"

text \<open>The tail of the function, once no lock forces the action.\<close>

definition free_actions :: "game_data \<Rightarrow> battle_state \<Rightarrow> side_state \<Rightarrow> nat \<Rightarrow> pokemon_state
    \<Rightarrow> pokemon_state list \<Rightarrow> action list" where
  "free_actions gd st s active p foes =
     (let acts1 = free_move_actions gd st p @ (if can_switch st p foes then bench_switches s active else []);
          acts2 = acts1 @ (if can_mega s p then mega_variants acts1 else [])
      in if \<exists>a \<in> set acts2. ac_kind a = MOVE then acts2 else acts2 @ [struggle_action])"

definition enumerate_legal_actions :: "game_data \<Rightarrow> battle_state \<Rightarrow> sid \<Rightarrow> nat \<Rightarrow> action list res" where
  "enumerate_legal_actions gd st side_idx slot =
     (let s = side_of st side_idx in
      rbind (active_idx s slot) (\<lambda>active.
      rbind (lk (sd_team s) active) (\<lambda>p.
      if has_volatile (pk_volatiles p) Volatile_RECHARGING then Inr [move_action (-1)]
      else if pk_charging_move_slot p \<ge> 0 then Inr [move_action (pk_charging_move_slot p)]
      else if has_volatile (pk_volatiles p) Volatile_LOCKED_MOVE then Inr [move_action (pk_locked_slot p)]
      else if has_volatile (pk_volatiles p) Volatile_ENCORE_ACTIVE then Inr [move_action (pk_locked_slot p)]
      else if has_volatile (pk_volatiles p) Volatile_CHOICE_LOCKED then
        rbind (lki (pk_move_pp p) (pk_locked_slot p)) (\<lambda>pp.
          Inr ((if pp > 0 then [move_action (pk_locked_slot p)] else [struggle_action])
               @ bench_switches s active))
      else rbind (active_alive (side_of st (opp side_idx))) (\<lambda>foes.
        Inr (free_actions gd st s active p foes)))))"

section \<open>The random policy\<close>

definition eligible_switch_targets :: "battle_state \<Rightarrow> pokemon_state list res" where
  "eligible_switch_targets st =
     (let s = side_of st P0 in
      rbind (active_idx s 0) (\<lambda>active.
        Inr (map snd (filter (\<lambda>x. fst x \<noteq> active \<and> \<not> pk_fainted (snd x) \<and> pk_hp (snd x) > 0)
                        (enumerated (sd_team s))))))"

definition can_switch_out :: "game_data \<Rightarrow> battle_state \<Rightarrow> bool res" where
  "can_switch_out gd st =
     rbind (enumerate_legal_actions gd st P0 0) (\<lambda>acts. Inr (\<exists>a \<in> set acts. ac_kind a = SWITCH))"

definition available_moves :: "battle_state \<Rightarrow> move list res" where
  "available_moves st = rbind (active_mon (side_of st P0) 0) (\<lambda>p.
     Inr (map fst (filter (\<lambda>x. fst x \<noteq> Move_NONE \<and> snd x > 0) (zip (pk_move_ids p) (pk_move_pp p)))))"

definition choice :: "nat \<Rightarrow> 'a list \<Rightarrow> 'a" where
  "choice k xs = xs ! (k mod length xs)"

datatype decision = Use move | SwitchTo species

definition choose_battle_action :: "game_data \<Rightarrow> rat \<Rightarrow> nat \<Rightarrow> battle_state \<Rightarrow> decision res" where
  "choose_battle_action gd u k st =
     rbind (can_switch_out gd st) (\<lambda>ok.
     rbind (if ok then eligible_switch_targets st else Inr []) (\<lambda>targets.
     rbind (available_moves st) (\<lambda>moves.
       if targets = [] \<and> moves = [] then Inl RuntimeError
       else if targets = [] then Inr (Use (choice k moves))
       else if moves = [] then Inr (SwitchTo (pk_species (choice k targets)))
       else if u < 2 / 10 then Inr (SwitchTo (pk_species (choice k targets)))
       else Inr (Use (choice k moves)))))"

definition choose_forced_switch :: "nat \<Rightarrow> battle_state \<Rightarrow> decision res" where
  "choose_forced_switch k st =
     rbind (eligible_switch_targets st) (\<lambda>targets.
       if targets = [] then Inl RuntimeError else Inr (SwitchTo (pk_species (choice k targets))))"

section \<open>Properties of the enumeration\<close>

lemma move_action_sel [simp]:
  "ac_kind (move_action k) = MOVE" "ac_move_slot (move_action k) = k"
  "ac_mega (move_action k) = False" "ac_source_slot (move_action k) = 0"
  "ac_move_override (move_action k) = None"
  by (simp_all add: move_action_def mk_action_def)

lemma switch_action_sel [simp]:
  "ac_kind (switch_action i) = SWITCH" "ac_switch_to_slot (switch_action i) = int i"
  "ac_source_slot (switch_action i) = 0" "ac_mega (switch_action i) = False"
  by (simp_all add: switch_action_def mk_action_def)

lemma struggle_action_sel [simp]:
  "ac_kind struggle_action = MOVE" "ac_move_slot struggle_action = STRUGGLE_SLOT"
  "ac_mega struggle_action = False" "ac_source_slot struggle_action = 0"
  "ac_move_override struggle_action = Some Move_STRUGGLE"
  by (simp_all add: struggle_action_def mk_action_def)

lemma move_action_inj [simp]: "move_action i = move_action j \<longleftrightarrow> i = j"
  by (metis move_action_sel(2))

lemma switch_action_inj [simp]: "switch_action i = switch_action j \<longleftrightarrow> i = j"
  by (metis of_nat_eq_iff switch_action_sel(2))

lemma action_shapes_distinct [simp]:
  "move_action k \<noteq> switch_action i" "switch_action i \<noteq> move_action k"
  "struggle_action \<noteq> switch_action i" "switch_action i \<noteq> struggle_action"
  "move_action k \<noteq> struggle_action" "struggle_action \<noteq> move_action k"
  by (metis action_kind.distinct(1) move_action_sel(1) switch_action_sel(1),
      metis action_kind.distinct(1) move_action_sel(1) switch_action_sel(1),
      metis action_kind.distinct(1) struggle_action_sel(1) switch_action_sel(1),
      metis action_kind.distinct(1) struggle_action_sel(1) switch_action_sel(1),
      metis move_action_sel(5) option.distinct(1) struggle_action_sel(5),
      metis move_action_sel(5) option.distinct(1) struggle_action_sel(5))

definition bench_member :: "side_state \<Rightarrow> nat \<Rightarrow> nat \<Rightarrow> bool" where
  "bench_member s active i \<longleftrightarrow> i < length (sd_team s) \<and> i \<noteq> active \<and> \<not> pk_fainted (sd_team s ! i)"

lemma mem_bench_switches:
  "a \<in> set (bench_switches s active) \<longleftrightarrow> (\<exists>i. a = switch_action i \<and> bench_member s active i)"
  by (force simp: bench_switches_def bench_member_def set_enumerated image_iff)

lemma mem_free_move_actions:
  "a \<in> set (free_move_actions gd st p) \<longleftrightarrow>
     (\<exists>k. a = move_action (int k) \<and> k < length (zip (pk_move_ids p) (pk_move_pp p))
        \<and> usable_move gd st p (zip (pk_move_ids p) (pk_move_pp p) ! k))"
  by (force simp: free_move_actions_def set_enumerated image_iff simp del: length_zip)

lemma mega_variant_shape:
  "a \<in> set (mega_variants acts) \<Longrightarrow>
     ac_kind a = MOVE \<and> ac_mega a \<and> ac_move_override a = None
     \<and> (\<exists>b \<in> set acts. ac_kind b = MOVE \<and> ac_move_slot a = ac_move_slot b)"
  by (auto simp: mega_variants_def mk_action_def)

lemma free_actions_cases:
  "a \<in> set (free_actions gd st s active p foes) \<longleftrightarrow>
     a \<in> set (free_move_actions gd st p)
   \<or> (can_switch st p foes \<and> a \<in> set (bench_switches s active))
   \<or> (can_mega s p \<and> a \<in> set (mega_variants (free_move_actions gd st p)))
   \<or> (free_move_actions gd st p = [] \<and> a = struggle_action)"
proof -
  have sw: "ac_kind x = SWITCH" if "x \<in> set (bench_switches s active)" for x
    using that by (auto simp: mem_bench_switches)
  have mv: "ac_kind x = MOVE" if "x \<in> set (free_move_actions gd st p)" for x
    using that by (auto simp: mem_free_move_actions)
  have mega: "mega_variants (xs @ ys) = mega_variants xs" if "\<forall>y \<in> set ys. ac_kind y = SWITCH" for xs ys
    using that by (simp add: mega_variants_def filter_empty_conv)
  let ?sw = "if can_switch st p foes then bench_switches s active else []"
  have m1: "mega_variants (free_move_actions gd st p @ ?sw) = mega_variants (free_move_actions gd st p)"
    using sw by (intro mega) auto
  have ex: "(\<exists>x \<in> set (free_move_actions gd st p @ ?sw
          @ (if can_mega s p then mega_variants (free_move_actions gd st p) else [])). ac_kind x = MOVE)
      \<longleftrightarrow> free_move_actions gd st p \<noteq> []"
  proof (cases "free_move_actions gd st p")
    case Nil
    then show ?thesis using sw by (auto simp: mega_variants_def)
  next
    case (Cons x xs)
    then show ?thesis using mv[of x] by simp
  qed
  show ?thesis
    unfolding free_actions_def Let_def m1 append_assoc ex
    by (auto simp: mega_variants_def)
qed

text \<open>No lock forces the action of the mon: the choice is free.\<close>

definition free_choice :: "pokemon_state \<Rightarrow> bool" where
  "free_choice p \<longleftrightarrow> \<not> has_volatile (pk_volatiles p) Volatile_RECHARGING \<and> pk_charging_move_slot p < 0
     \<and> \<not> has_volatile (pk_volatiles p) Volatile_LOCKED_MOVE
     \<and> \<not> has_volatile (pk_volatiles p) Volatile_ENCORE_ACTIVE
     \<and> \<not> has_volatile (pk_volatiles p) Volatile_CHOICE_LOCKED"

section \<open>The rules of selection\<close>

text \<open>
  What a mon may do in a turn, stated on its own: nothing in this section uses the tests of the
  enumerator. A slot may be selected when it exists, has PP left, holds no move that Gravity blocks
  while Gravity is up, and no status move while the mon is taunted or holds an Assault Vest.
\<close>

definition selectable :: "game_data \<Rightarrow> battle_state \<Rightarrow> pokemon_state \<Rightarrow> nat \<Rightarrow> bool" where
  "selectable gd st p k \<longleftrightarrow>
     k < length (pk_move_ids p) \<and> k < length (pk_move_pp p) \<and> 0 < pk_move_pp p ! k
     \<and> \<not> (GRAVITY \<in> fst ` set (bs_pseudo_weather st) \<and> pk_move_ids p ! k \<in> set GRAVITY_BLOCKED_MOVES)
     \<and> \<not> (map_option md_category (gd_moves gd (pk_move_ids p ! k)) = Some Cat_STATUS
          \<and> (has_volatile (pk_volatiles p) Volatile_TAUNT_ACTIVE \<or> pk_item p = Item_ASSAULT_VEST))"

text \<open>Gravity, an Iron Ball and Smack Down bring any mon to the ground.\<close>

definition on_ground :: "battle_state \<Rightarrow> pokemon_state \<Rightarrow> bool" where
  "on_ground st p \<longleftrightarrow>
     GRAVITY \<in> fst ` set (bs_pseudo_weather st) \<or> pk_item p = Item_IRON_BALL
     \<or> VE_GROUNDED \<in> fst ` set (pk_timed_volatiles p)
     \<or> \<not> (T_FLYING \<in> set (pk_types p) \<or> pk_ability p = Ability_LEVITATE \<or> pk_item p = Item_AIR_BALLOON
          \<or> VE_MAGNET_RISE \<in> fst ` set (pk_timed_volatiles p)
          \<or> VE_TELEKINESIS \<in> fst ` set (pk_timed_volatiles p))"

text \<open>
  A foe whose ability holds the mon on the field. A Shed Shell and the abilities of the Mold Breaker
  family free the mon from all three.
\<close>

inductive holds_in :: "battle_state \<Rightarrow> pokemon_state \<Rightarrow> pokemon_state \<Rightarrow> bool" for st p where
  shadow_tag: "\<lbrakk>pk_ability f = Ability_SHADOW_TAG; T_GHOST \<notin> set (pk_types p);
     pk_ability p \<noteq> Ability_SHADOW_TAG; pk_item p \<noteq> Item_SHED_SHELL;
     pk_ability p \<notin> set MOLD_BREAKER_ABILITIES\<rbrakk> \<Longrightarrow> holds_in st p f"
| magnet_pull: "\<lbrakk>pk_ability f = Ability_MAGNET_PULL; T_STEEL \<in> set (pk_types p);
     pk_item p \<noteq> Item_SHED_SHELL; pk_ability p \<notin> set MOLD_BREAKER_ABILITIES\<rbrakk> \<Longrightarrow> holds_in st p f"
| arena_trap: "\<lbrakk>pk_ability f = Ability_ARENA_TRAP; on_ground st p; T_GHOST \<notin> set (pk_types p);
     pk_item p \<noteq> Item_SHED_SHELL; pk_ability p \<notin> set MOLD_BREAKER_ABILITIES\<rbrakk> \<Longrightarrow> holds_in st p f"

text \<open>
  The mon may leave when no move traps it, when it is not bound or holds a Shed Shell, and when no foe
  that is active and has not fainted holds it in.
\<close>

definition may_leave :: "battle_state \<Rightarrow> side_state \<Rightarrow> pokemon_state \<Rightarrow> bool" where
  "may_leave st foe_side p \<longleftrightarrow>
     VE_TRAPPED \<notin> fst ` set (pk_timed_volatiles p)
     \<and> (VE_BOUND \<in> fst ` set (pk_timed_volatiles p) \<longrightarrow> pk_item p = Item_SHED_SHELL)
     \<and> \<not> (\<exists>i \<in> set (sd_active_indices foe_side). \<not> pk_fainted (sd_team foe_side ! i)
            \<and> holds_in st p (sd_team foe_side ! i))"

text \<open>The side's one mega evolution of the battle, for a mon that holds a Mega stone.\<close>

definition may_mega :: "side_state \<Rightarrow> pokemon_state \<Rightarrow> bool" where
  "may_mega s p \<longleftrightarrow> (\<exists>sp ab. (pk_item p, sp, ab) \<in> set MEGA_DATA) \<and> \<not> pk_is_mega p \<and> \<not> sd_mega_used s"

definition mega_action :: "int \<Rightarrow> action" where
  "mega_action k = (mk_action MOVE)\<lparr>ac_move_slot := k, ac_mega := True\<rparr>"

text \<open>
  A mon that recharges, that is in the middle of a move of two turns, that rampages or that is under
  Encore has one slot to use, the first of these that applies.
\<close>

inductive obliged :: "pokemon_state \<Rightarrow> int \<Rightarrow> bool" for p where
  recharge: "has_volatile (pk_volatiles p) Volatile_RECHARGING \<Longrightarrow> obliged p (-1)"
| charging: "\<lbrakk>\<not> has_volatile (pk_volatiles p) Volatile_RECHARGING; 0 \<le> pk_charging_move_slot p\<rbrakk>
    \<Longrightarrow> obliged p (pk_charging_move_slot p)"
| locked: "\<lbrakk>\<not> has_volatile (pk_volatiles p) Volatile_RECHARGING; pk_charging_move_slot p < 0;
     has_volatile (pk_volatiles p) Volatile_LOCKED_MOVE \<or> has_volatile (pk_volatiles p) Volatile_ENCORE_ACTIVE\<rbrakk>
    \<Longrightarrow> obliged p (pk_locked_slot p)"

definition choice_bound :: "pokemon_state \<Rightarrow> bool" where
  "choice_bound p \<longleftrightarrow> has_volatile (pk_volatiles p) Volatile_CHOICE_LOCKED \<and> \<not> (\<exists>k. obliged p k)"

text \<open>
  The legal actions of the mon in an active slot of a side: \<open>s\<close> is the side, \<open>foe_side\<close> the
  other one, \<open>active\<close> the index of the mon and \<open>p\<close> the mon. A choice-locked mon is bound to
  its slot and may always switch; when the slot has no PP left it has to Struggle.
\<close>

inductive legal_action :: "game_data \<Rightarrow> battle_state \<Rightarrow> side_state \<Rightarrow> side_state \<Rightarrow> nat \<Rightarrow> pokemon_state
    \<Rightarrow> action \<Rightarrow> bool" for gd st s foe_side active p where
  obliged_move: "obliged p k \<Longrightarrow> legal_action gd st s foe_side active p (move_action k)"
| choice_move: "\<lbrakk>choice_bound p; lki (pk_move_pp p) (pk_locked_slot p) = Inr pp; 0 < pp\<rbrakk>
    \<Longrightarrow> legal_action gd st s foe_side active p (move_action (pk_locked_slot p))"
| choice_struggle: "\<lbrakk>choice_bound p; lki (pk_move_pp p) (pk_locked_slot p) = Inr pp; pp \<le> 0\<rbrakk>
    \<Longrightarrow> legal_action gd st s foe_side active p struggle_action"
| choice_switch: "\<lbrakk>choice_bound p; bench_member s active j\<rbrakk>
    \<Longrightarrow> legal_action gd st s foe_side active p (switch_action j)"
| free_move: "\<lbrakk>free_choice p; selectable gd st p k\<rbrakk>
    \<Longrightarrow> legal_action gd st s foe_side active p (move_action (int k))"
| free_mega: "\<lbrakk>free_choice p; selectable gd st p k; may_mega s p\<rbrakk>
    \<Longrightarrow> legal_action gd st s foe_side active p (mega_action (int k))"
| free_struggle: "\<lbrakk>free_choice p; \<forall>k. \<not> selectable gd st p k\<rbrakk>
    \<Longrightarrow> legal_action gd st s foe_side active p struggle_action"
| free_switch: "\<lbrakk>free_choice p; may_leave st foe_side p; bench_member s active j\<rbrakk>
    \<Longrightarrow> legal_action gd st s foe_side active p (switch_action j)"

lemma choice_bound_iff:
  "choice_bound p \<longleftrightarrow> has_volatile (pk_volatiles p) Volatile_CHOICE_LOCKED
     \<and> \<not> has_volatile (pk_volatiles p) Volatile_RECHARGING \<and> pk_charging_move_slot p < 0
     \<and> \<not> has_volatile (pk_volatiles p) Volatile_LOCKED_MOVE
     \<and> \<not> has_volatile (pk_volatiles p) Volatile_ENCORE_ACTIVE"
  by (auto simp: choice_bound_def obliged.simps not_le)

text \<open>The enumerator's tests are these rules.\<close>

lemma ex_fst_iff: "(\<exists>x \<in> set xs. fst x = v) \<longleftrightarrow> v \<in> fst ` set xs"
  by force

lemma status_category_iff: "status_category gd m \<longleftrightarrow> map_option md_category (gd_moves gd m) = Some Cat_STATUS"
  by (simp add: status_category_def split: option.split)

lemma usable_move_pair:
  "usable_move gd st p (m, pp) \<longleftrightarrow> 0 < pp
     \<and> \<not> (GRAVITY \<in> fst ` set (bs_pseudo_weather st) \<and> m \<in> set GRAVITY_BLOCKED_MOVES)
     \<and> \<not> (map_option md_category (gd_moves gd m) = Some Cat_STATUS
          \<and> (has_volatile (pk_volatiles p) Volatile_TAUNT_ACTIVE \<or> pk_item p = Item_ASSAULT_VEST))"
  unfolding usable_move_def gravity_active_def status_category_iff ex_fst_iff by (simp add: not_le) blast

lemma usable_move_iff:
  "k < length (zip (pk_move_ids p) (pk_move_pp p)) \<and> usable_move gd st p (zip (pk_move_ids p) (pk_move_pp p) ! k)
     \<longleftrightarrow> selectable gd st p k"
  by (cases "k < length (pk_move_ids p) \<and> k < length (pk_move_pp p)")
    (auto simp only: length_zip min_less_iff_conj nth_zip usable_move_pair selectable_def)

lemma is_grounded_iff: "is_grounded p st \<longleftrightarrow> on_ground st p"
  unfolding is_grounded_def on_ground_def gravity_active_def has_effect_def ex_fst_iff by simp

lemma ability_trapped_iff: "ability_trapped st p foes \<longleftrightarrow> (\<exists>f \<in> set foes. holds_in st p f)"
  unfolding ability_trapped_def Let_def holds_in.simps is_grounded_iff by blast

lemma active_alive_set:
  assumes "active_alive s = Inr ms"
  shows "set ms = {f \<in> (!) (sd_team s) ` set (sd_active_indices s). \<not> pk_fainted f}"
proof -
  from assms obtain fs where fs: "rmap (lk (sd_team s)) (sd_active_indices s) = Inr fs"
    and ms: "ms = filter (\<lambda>m. \<not> pk_fainted m) fs"
    by (auto simp: active_alive_def rbind_eq_Inr)
  have "fs = map ((!) (sd_team s)) (sd_active_indices s)"
    using rmap_length[OF fs] rmap_nth[OF fs] by (auto simp: list_eq_iff_nth_eq lk_eq_Inr)
  then show ?thesis unfolding ms by auto
qed

lemma can_switch_iff:
  assumes "active_alive foe_side = Inr foes"
  shows "can_switch st p foes \<longleftrightarrow> may_leave st foe_side p"
  unfolding can_switch_def may_leave_def ability_trapped_iff has_effect_def ex_fst_iff active_alive_set[OF assms]
  by blast

lemma can_mega_iff: "can_mega s p \<longleftrightarrow> may_mega s p"
  unfolding can_mega_def may_mega_def ex_fst_iff[symmetric] by force

lemma mem_mega_variants:
  "a \<in> set (mega_variants (free_move_actions gd st p)) \<longleftrightarrow> (\<exists>k. a = mega_action (int k) \<and> selectable gd st p k)"
  unfolding usable_move_iff[symmetric]
  by (force simp: mega_variants_def mega_action_def mem_free_move_actions image_iff)

lemma enumerate_split:
  assumes "enumerate_legal_actions gd st i slot = Inr acts"
  obtains active p where "slot < length (sd_active_indices (side_of st i))"
    "active = sd_active_indices (side_of st i) ! slot" "active < length (sd_team (side_of st i))"
    "p = sd_team (side_of st i) ! active"
    "(\<exists>k. acts = [move_action k] \<and> \<not> free_choice p)
     \<or> (\<exists>k. acts = move_action k # bench_switches (side_of st i) active \<and> \<not> free_choice p)
     \<or> (acts = struggle_action # bench_switches (side_of st i) active \<and> \<not> free_choice p)
     \<or> (\<exists>foes. active_alive (side_of st (opp i)) = Inr foes \<and> free_choice p
          \<and> acts = free_actions gd st (side_of st i) active p foes)"
  using assms
  by (auto simp: enumerate_legal_actions_def Let_def rbind_eq_Inr active_idx_def lk_eq_Inr
      free_choice_def not_le split: if_splits)

lemma enumerate_kinds:
  assumes "enumerate_legal_actions gd st i slot = Inr acts"
  shows "(\<exists>a \<in> set acts. ac_kind a = MOVE)
    \<and> (\<forall>a \<in> set acts. ac_kind a = SWITCH \<longrightarrow>
         (\<exists>j. ac_switch_to_slot a = int j
            \<and> bench_member (side_of st i) (sd_active_indices (side_of st i) ! slot) j))"
  using assms
proof (rule enumerate_split)
  fix active p
  assume act: "active = sd_active_indices (side_of st i) ! slot"
    and shape: "(\<exists>k. acts = [move_action k] \<and> \<not> free_choice p)
     \<or> (\<exists>k. acts = move_action k # bench_switches (side_of st i) active \<and> \<not> free_choice p)
     \<or> (acts = struggle_action # bench_switches (side_of st i) active \<and> \<not> free_choice p)
     \<or> (\<exists>foes. active_alive (side_of st (opp i)) = Inr foes \<and> free_choice p
          \<and> acts = free_actions gd st (side_of st i) active p foes)"
  have free: "(\<exists>a \<in> set (free_actions gd st s ac p foes). ac_kind a = MOVE)
      \<and> (\<forall>a \<in> set (free_actions gd st s ac p foes). ac_kind a = SWITCH \<longrightarrow> a \<in> set (bench_switches s ac))"
    for s ac foes
  proof -
    have "\<exists>a \<in> set (free_actions gd st s ac p foes). ac_kind a = MOVE"
    proof (cases "free_move_actions gd st p")
      case Nil
      then have "struggle_action \<in> set (free_actions gd st s ac p foes)" by (simp add: free_actions_cases)
      then show ?thesis using struggle_action_sel(1) by blast
    next
      case (Cons x xs)
      then have "x \<in> set (free_move_actions gd st p)" by simp
      moreover then have "ac_kind x = MOVE" by (auto simp: mem_free_move_actions)
      ultimately show ?thesis by (auto simp: free_actions_cases)
    qed
    moreover have "ac_kind a = MOVE" if "a \<in> set (mega_variants xs)" for a xs
      using mega_variant_shape[OF that] by simp
    ultimately show ?thesis by (fastforce simp: free_actions_cases mem_free_move_actions)
  qed
  from shape show ?thesis
    using free[of "side_of st i" active] unfolding act by (fastforce simp: mem_bench_switches)
qed

lemma ex_obliged: "(\<exists>k. obliged p k) \<longleftrightarrow> has_volatile (pk_volatiles p) Volatile_RECHARGING
    \<or> 0 \<le> pk_charging_move_slot p \<or> has_volatile (pk_volatiles p) Volatile_LOCKED_MOVE
    \<or> has_volatile (pk_volatiles p) Volatile_ENCORE_ACTIVE"
  unfolding obliged.simps by (metis not_le)

lemma obliged_cases:
  assumes "obliged p k"
  shows "\<not> choice_bound p" "\<not> free_choice p" "obliged p j \<longleftrightarrow> j = k"
  using assms by (auto simp: choice_bound_def free_choice_def obliged.simps)

lemma choice_bound_not_free: "choice_bound p \<Longrightarrow> \<not> free_choice p"
  by (simp add: choice_bound_iff free_choice_def)

lemma free_not_bound: "free_choice p \<Longrightarrow> \<not> choice_bound p" "free_choice p \<Longrightarrow> \<not> obliged p k"
  using obliged_cases(2) choice_bound_not_free by blast+

lemma legal_obliged:
  "obliged p k \<Longrightarrow> legal_action gd st s foe_side active p a \<longleftrightarrow> a = move_action k"
  using obliged_cases[of p k] by (auto simp: legal_action.simps)

lemma legal_choice:
  assumes "choice_bound p" "lki (pk_move_pp p) (pk_locked_slot p) = Inr pp"
  shows "legal_action gd st s foe_side active p a \<longleftrightarrow>
     a \<in> set ((if pp > 0 then [move_action (pk_locked_slot p)] else [struggle_action]) @ bench_switches s active)"
  using assms choice_bound_not_free[OF assms(1)] assms(1)[unfolded choice_bound_def]
  by (auto simp: legal_action.simps mem_bench_switches)

lemma free_actions_set:
  assumes "active_alive foe_side = Inr foes"
  shows "a \<in> set (free_actions gd st s active p foes) \<longleftrightarrow>
     (\<exists>k. selectable gd st p k \<and> (a = move_action (int k) \<or> may_mega s p \<and> a = mega_action (int k)))
     \<or> (may_leave st foe_side p \<and> (\<exists>j. bench_member s active j \<and> a = switch_action j))
     \<or> ((\<forall>k. \<not> selectable gd st p k) \<and> a = struggle_action)"
proof -
  have mv: "x \<in> set (free_move_actions gd st p) \<longleftrightarrow> (\<exists>k. x = move_action (int k) \<and> selectable gd st p k)" for x
    unfolding mem_free_move_actions usable_move_iff by blast
  then have "free_move_actions gd st p = [] \<longleftrightarrow> (\<forall>k. \<not> selectable gd st p k)"
    by (metis list.set_intros(1) neq_Nil_conv empty_iff empty_set)
  then show ?thesis
    unfolding free_actions_cases mv mem_mega_variants mem_bench_switches can_mega_iff can_switch_iff[OF assms] by blast
qed

lemma legal_free:
  assumes "free_choice p" "active_alive foe_side = Inr foes"
  shows "legal_action gd st s foe_side active p a \<longleftrightarrow> a \<in> set (free_actions gd st s active p foes)"
  unfolding free_actions_set[OF assms(2)] legal_action.simps
  using assms(1) free_not_bound[OF assms(1)] by auto

lemma enumerate_exact:
  assumes "enumerate_legal_actions gd st i slot = Inr acts"
    and "s = side_of st i" "active = sd_active_indices s ! slot" "p = sd_team s ! active"
  shows "a \<in> set acts \<longleftrightarrow> legal_action gd st s (side_of st (opp i)) active p a"
proof -
  have run: "lk (sd_active_indices s) slot = Inr active" "lk (sd_team s) active = Inr p"
    using assms by (auto simp: enumerate_legal_actions_def Let_def rbind_eq_Inr active_idx_def lk_eq_Inr)
  have "(\<exists>k. obliged p k) \<or> choice_bound p \<or> free_choice p"
    unfolding choice_bound_def free_choice_def ex_obliged not_le[symmetric] by blast
  then consider (obliged) k where "obliged p k" | (choice) "choice_bound p" | (free) "free_choice p" by blast
  then show ?thesis
  proof cases
    case obliged
    then have "acts = [move_action k]"
      using assms(1) run by (cases rule: obliged.cases)
        (auto simp: enumerate_legal_actions_def Let_def active_idx_def assms(2)[symmetric] split: if_splits)
    then show ?thesis using legal_obliged[OF obliged] by simp
  next
    case choice
    then obtain pp where pp: "lki (pk_move_pp p) (pk_locked_slot p) = Inr pp"
      and acts: "acts = (if pp > 0 then [move_action (pk_locked_slot p)] else [struggle_action]) @ bench_switches s active"
      using assms(1) run
      by (auto simp: enumerate_legal_actions_def Let_def active_idx_def assms(2)[symmetric] choice_bound_iff
          rbind_eq_Inr not_le)
    show ?thesis unfolding legal_choice[OF choice pp] acts ..
  next
    case free
    then obtain foes where foes: "active_alive (side_of st (opp i)) = Inr foes"
      and acts: "acts = free_actions gd st s active p foes"
      using assms(1) run
      by (auto simp: enumerate_legal_actions_def Let_def active_idx_def assms(2)[symmetric] free_choice_def
          rbind_eq_Inr not_le)
    show ?thesis unfolding legal_free[OF free foes] acts ..
  qed
qed

lemma distinct_free_actions: "distinct (free_actions gd st s active p foes)"
proof -
  let ?f = "free_move_actions gd st p" and ?b = "bench_switches s active"
  have idx: "distinct (map f (filter P (enumerated xs)))"
    if "\<And>x y. f x = f y \<Longrightarrow> fst x = fst y" for f :: "nat \<times> 'z \<Rightarrow> action" and P and xs :: "'z list"
    using distinct_enumerated_filter[of P xs] that unfolding distinct_map inj_on_def by blast
  have d: "distinct ?f" "distinct ?b"
    unfolding free_move_actions_def bench_switches_def by (rule idx; simp)+
  have v: "mega_variants (?f @ ?b) = mega_variants ?f" "mega_variants (?f @ []) = mega_variants ?f"
    by (auto simp: mega_variants_def filter_empty_conv mem_bench_switches)
  have inj: "inj_on (\<lambda>a. (mk_action MOVE)\<lparr>ac_move_slot := ac_move_slot a, ac_mega := True\<rparr>) (set ?f)"
    by (auto simp: inj_on_def mem_free_move_actions mk_action_def)
  have m: "distinct (mega_variants ?f)"
    unfolding mega_variants_def distinct_map using d(1) inj by (auto intro: inj_on_subset)
  have k: "ac_kind x = MOVE \<and> \<not> ac_mega x" if "x \<in> set ?f" for x using that by (auto simp: mem_free_move_actions)
  have kb: "ac_kind x = SWITCH" if "x \<in> set ?b" for x using that by (auto simp: mem_bench_switches)
  have km: "ac_kind x = MOVE \<and> ac_mega x" if "x \<in> set (mega_variants ?f)" for x using mega_variant_shape[OF that] by simp
  have ms: "set ?f \<inter> set ?b = {}" "set ?f \<inter> set (mega_variants ?f) = {}" "set ?b \<inter> set (mega_variants ?f) = {}"
    using k kb km by fastforce+
  have st: "struggle_action \<notin> set xs" if "\<not> (\<exists>x \<in> set xs. ac_kind x = MOVE)" for xs
    using that struggle_action_sel(1) by blast
  show ?thesis
    unfolding free_actions_def Let_def using d m ms v st by (simp add: Int_Un_distrib Int_Un_distrib2)
qed



text \<open>A choice-locked mon is offered its bench also when a foe's ability or a move holds it in.\<close>

lemma choice_lock_ignores_trapping:
  assumes "enumerate_legal_actions gd st i slot = Inr acts" "active = sd_active_indices (side_of st i) ! slot"
    and "choice_bound (sd_team (side_of st i) ! active)" "bench_member (side_of st i) active j"
  shows "switch_action j \<in> set acts"
  unfolding enumerate_exact[OF assms(1) refl assms(2) refl] using assms(3,4) by (rule legal_action.choice_switch)

section \<open>Properties of the policy\<close>

text \<open>
  What the policy relies on: an enumerator whose switch actions name bench members. Then an answer
  that allows a switch comes with a bench member to switch to.
\<close>

locale action_enumerator =
  fixes enum :: "battle_state \<Rightarrow> sid \<Rightarrow> nat \<Rightarrow> action list res"
  assumes enum_move: "enum st i slot = Inr acts \<Longrightarrow> \<exists>a \<in> set acts. ac_kind a = MOVE"
    and enum_switch: "enum st i slot = Inr acts \<Longrightarrow> a \<in> set acts \<Longrightarrow> ac_kind a = SWITCH \<Longrightarrow>
      \<exists>j. ac_switch_to_slot a = int j \<and> bench_member (side_of st i) (sd_active_indices (side_of st i) ! slot) j"
begin

lemma enum_nonempty: "enum st i slot = Inr acts \<Longrightarrow> acts \<noteq> []"
  using enum_move by fastforce

lemma switch_has_target:
  assumes "enum st i slot = Inr acts" "\<exists>a \<in> set acts. ac_kind a = SWITCH"
  shows "\<exists>j. bench_member (side_of st i) (sd_active_indices (side_of st i) ! slot) j"
  using assms enum_switch by blast

end

interpretation legal: action_enumerator "enumerate_legal_actions gd" for gd
proof
  show "\<exists>a \<in> set acts. ac_kind a = MOVE" if "enumerate_legal_actions gd st i slot = Inr acts" for st i slot acts
    using enumerate_kinds[OF that] by blast
  show "\<exists>j. ac_switch_to_slot a = int j \<and> bench_member (side_of st i) (sd_active_indices (side_of st i) ! slot) j"
    if "enumerate_legal_actions gd st i slot = Inr acts" "a \<in> set acts" "ac_kind a = SWITCH" for st i slot acts a
    using enumerate_kinds[OF that(1)] that(2,3) by blast
qed

lemma choice_mem: "xs \<noteq> [] \<Longrightarrow> choice k xs \<in> set xs"
  by (simp add: choice_def)

lemma mem_eligible:
  assumes "eligible_switch_targets st = Inr ts"
  shows "m \<in> set ts \<longleftrightarrow> (\<exists>j. m = sd_team (side_of st P0) ! j \<and> pk_hp m > 0
    \<and> bench_member (side_of st P0) (sd_active_indices (side_of st P0) ! 0) j)"
  using assms
  by (force simp: eligible_switch_targets_def Let_def rbind_eq_Inr active_idx_def lk_eq_Inr bench_member_def
      set_enumerated image_iff)

lemma mem_available:
  assumes "available_moves st = Inr ms"
  shows "\<exists>p. active_mon (side_of st P0) 0 = Inr p \<and>
    (\<forall>m. m \<in> set ms \<longleftrightarrow> m \<noteq> Move_NONE \<and> (\<exists>pp. (m, pp) \<in> set (zip (pk_move_ids p) (pk_move_pp p)) \<and> pp > 0))"
  using assms by (force simp: available_moves_def rbind_eq_Inr image_iff)

text \<open>
  A side whose mons are marked as fainted when their HP is gone: then the bench the enumerator offers
  is the bench the policy draws from.
\<close>

definition faint_marked :: "side_state \<Rightarrow> bool" where
  "faint_marked s \<longleftrightarrow> (\<forall>p \<in> set (sd_team s). pk_hp p \<le> 0 \<longrightarrow> pk_fainted p)"

text \<open>
  The random policy only takes legal decisions. A move it returns is one of the active mon's
  moves with PP left; a switch it returns goes to a member of the bench with HP left, and only when
  the enumeration allows a switch (so a trapped mon never switches). The policy fails only when
  there is no move with PP and no switch is possible.
\<close>

theorem policy_decision_legal:
  assumes "choose_battle_action gd u k st = Inr d"
  shows "case d of
      Use m \<Rightarrow> (\<exists>p pp. active_mon (side_of st P0) 0 = Inr p \<and> m \<noteq> Move_NONE
                 \<and> (m, pp) \<in> set (zip (pk_move_ids p) (pk_move_pp p)) \<and> pp > 0)
    | SwitchTo sp \<Rightarrow> can_switch_out gd st = Inr True \<and>
        (\<exists>j. bench_member (side_of st P0) (sd_active_indices (side_of st P0) ! 0) j
           \<and> pk_hp (sd_team (side_of st P0) ! j) > 0 \<and> pk_species (sd_team (side_of st P0) ! j) = sp)"
proof -
  from assms obtain ok ts ms where ok: "can_switch_out gd st = Inr ok"
    and ts: "(if ok then eligible_switch_targets st else Inr []) = Inr ts"
    and ms: "available_moves st = Inr ms"
    and d: "(ms \<noteq> [] \<and> d = Use (choice k ms)) \<or> (ts \<noteq> [] \<and> d = SwitchTo (pk_species (choice k ts)))"
    by (auto simp: choose_battle_action_def rbind_eq_Inr split: if_splits)
  from d show ?thesis
  proof
    assume "ms \<noteq> [] \<and> d = Use (choice k ms)"
    then show ?thesis using mem_available[OF ms] choice_mem[of ms k] by auto
  next
    assume a: "ts \<noteq> [] \<and> d = SwitchTo (pk_species (choice k ts))"
    with ts have "ok" "eligible_switch_targets st = Inr ts" by (auto split: if_splits)
    then show ?thesis using a ok mem_eligible choice_mem[of ts k] by fastforce
  qed
qed

text \<open>
  C40: whenever the enumeration offers a switch, the forced-switch choice and the voluntary choice
  have a target: on a side whose fainted mons are marked, a possible switch means that the forced switch
  succeeds and that the policy's decision does not fail for want of an action.
\<close>

theorem policy_switch_available:
  assumes "can_switch_out gd st = Inr True" "faint_marked (side_of st P0)"
  shows "(\<exists>sp. choose_forced_switch k st = Inr (SwitchTo sp)) \<and> choose_battle_action gd u k st \<noteq> Inl RuntimeError"
proof -
  from assms(1) obtain acts where acts: "enumerate_legal_actions gd st P0 0 = Inr acts"
    and sw: "\<exists>a \<in> set acts. ac_kind a = SWITCH"
    by (auto simp: can_switch_out_def rbind_eq_Inr)
  from legal.switch_has_target[OF acts sw] obtain j where
    j: "bench_member (side_of st P0) (sd_active_indices (side_of st P0) ! 0) j" by blast
  obtain p where mon: "active_mon (side_of st P0) 0 = Inr p"
    using acts by (rule enumerate_split) (auto simp: active_mon_def active_idx_def)
  then obtain ts where ts: "eligible_switch_targets st = Inr ts"
    by (auto simp: eligible_switch_targets_def active_mon_def rbind_eq_Inr Let_def)
  have "pk_hp (sd_team (side_of st P0) ! j) > 0"
    using assms(2) j by (force simp: faint_marked_def bench_member_def)
  with j mem_eligible[OF ts] have "ts \<noteq> []" by force
  then show ?thesis
    using assms(1) ts mon
    by (auto simp: choose_forced_switch_def choose_battle_action_def available_moves_def)
qed

section \<open>Witnesses\<close>

definition sample_mon :: "species \<Rightarrow> int \<Rightarrow> pokemon_state" where
  "sample_mon sp h = (pokemon_defaults sp HARDY [31, 31, 31, 31, 31, 31] MALE)\<lparr>
     pk_max_hp := 100, pk_hp := h, pk_types := [T_NORMAL], pk_stats := [100, 50, 50, 50, 50, 50],
     pk_move_ids := [33, 0, 0, 0], pk_move_pp := [35, 0, 0, 0], pk_fainted := h \<le> 0\<rparr>"

definition sample_battle :: battle_state where
  "sample_battle = mk_battle (mk_side [sample_mon 1 100, sample_mon 4 80, sample_mon 7 0] SINGLES [])
     (mk_side [sample_mon 25 100, sample_mon 26 90] SINGLES []) SINGLES"

lemmas sample_battle_simps =
  sample_battle_def sample_mon_def mk_battle_def mk_side_def side_post_init_def side_of_def
  pokemon_defaults_def enumerated_def active_mon_def active_idx_def

lemma sample_actions:
  "enumerate_legal_actions sample_data sample_battle P0 0 = Inr [move_action 0, switch_action 1]"
  by code_simp


text \<open>
  A flying mon that knows Fly and has no PP left for Tackle, under Gravity and against a foe with
  Shadow Tag: no slot may be selected, the bench is out of reach, and Struggle is all that is left.
\<close>

definition cornered_mon :: pokemon_state where
  "cornered_mon = (sample_mon 6 100)\<lparr>pk_move_ids := [19, 33, 0, 0], pk_move_pp := [15, 0, 0, 0],
     pk_types := [T_FIRE, T_FLYING]\<rparr>"

definition cornered_battle :: battle_state where
  "cornered_battle = (mk_battle (mk_side [cornered_mon, sample_mon 4 80] SINGLES [])
     (mk_side [(sample_mon 202 100)\<lparr>pk_ability := Ability_SHADOW_TAG\<rparr>] SINGLES []) SINGLES)
       \<lparr>bs_pseudo_weather := [(GRAVITY, 5)]\<rparr>"


theorem policy_decision_legal_witness:
  "choose_battle_action sample_data (1 / 10) 0 sample_battle = Inr (SwitchTo 4)
    \<and> can_switch_out sample_data sample_battle = Inr True"
proof -
  have run: "choose_battle_action sample_data (1 / 10) 0 sample_battle = Inr (SwitchTo 4)" by code_simp
  from policy_decision_legal[OF run] run show ?thesis by simp
qed

theorem policy_switch_available_witness:
  "\<exists>sp. choose_forced_switch 0 sample_battle = Inr (SwitchTo sp)"
proof -
  have "can_switch_out sample_data sample_battle = Inr True" by code_simp
  moreover have "faint_marked (side_of sample_battle P0)" by code_simp
  ultimately show ?thesis using policy_switch_available by blast
qed

end
