(* ===== verification/Names.thy ===== *)
theory Names
  imports Actions
begin

text \<open>
  Names: edit distance and move-name lookup (the functions of \<open>data/moves.py\<close>), the emulator's
  display names (\<open>data/name_aliases.py\<close>) and the resolution of sides, team slots and move slots
  from names read off the screen (\<open>state_transition.py\<close>). The resolution uses the distance of the
  package \<open>rapidfuzz\<close>, an argument \<open>lev\<close> here; the locale \<open>string_metric\<close> states what is relied on, and
  is interpreted on the program's own \<open>levenshtein\<close>. Upper-casing is that of ASCII letters.
\<close>

section \<open>Strings\<close>

definition upper_char :: "char \<Rightarrow> char" where
  "upper_char c = (let n = (of_char c :: nat) in if 97 \<le> n \<and> n \<le> 122 then char_of (n - 32) else c)"

definition upper :: "string \<Rightarrow> string" where
  "upper = map upper_char"

definition is_space :: "char \<Rightarrow> bool" where
  "is_space c = (let n = (of_char c :: nat) in
     (9 \<le> n \<and> n \<le> 13) \<or> (28 \<le> n \<and> n \<le> 32) \<or> n = 133 \<or> n = 160)"

definition strip :: "string \<Rightarrow> string" where
  "strip s = rev (dropWhile is_space (rev (dropWhile is_space s)))"

definition replace_char :: "char \<Rightarrow> char \<Rightarrow> string \<Rightarrow> string" where
  "replace_char a b = map (\<lambda>c. if c = a then b else c)"

section \<open>Edit distance\<close>

text \<open>One row of the table: the inner loop, given the value to the left.\<close>

fun lev_row :: "char \<Rightarrow> string \<Rightarrow> nat list \<Rightarrow> nat \<Rightarrow> nat list" where
  "lev_row ca (cb # bs) (p0 # p1 # ps) left =
     (let v = min (p1 + 1) (min (left + 1) (p0 + (if ca \<noteq> cb then 1 else 0)))
      in v # lev_row ca bs (p1 # ps) v)"
| "lev_row ca _ _ left = []"

fun lev_rows :: "nat \<Rightarrow> string \<Rightarrow> string \<Rightarrow> nat list \<Rightarrow> nat list" where
  "lev_rows i [] b prev = prev"
| "lev_rows i (ca # as) b prev = lev_rows (i + 1) as b ((i + 1) # lev_row ca b prev (i + 1))"

definition levenshtein :: "string \<Rightarrow> string \<Rightarrow> nat" where
  "levenshtein a b =
     (let (a, b) = (if length a < length b then (b, a) else (a, b))
      in last (lev_rows 0 a b [0..<length b + 1]))"

section \<open>Move names\<close>

definition safe_move :: "game_data \<Rightarrow> string \<Rightarrow> move option" where
  "safe_move gd name = map_option (\<lambda>x. fst (snd x)) (find (\<lambda>x. fst x = name) (gd_move_names gd))"

definition move_members :: "game_data \<Rightarrow> (string \<times> move) list" where
  "move_members gd = map (\<lambda>x. (fst x, fst (snd x))) (filter (\<lambda>x. snd (snd x)) (gd_move_names gd))"

text \<open>
  A scan that keeps the first element of least distance; \<open>None\<close> for the best distance is infinity.
\<close>

definition better :: "nat \<Rightarrow> nat option \<Rightarrow> bool" where
  "better d bd = (case bd of None \<Rightarrow> True | Some b \<Rightarrow> d < b)"

fun scan_best :: "('a \<Rightarrow> nat) \<Rightarrow> 'a list \<Rightarrow> 'a option \<Rightarrow> nat option \<Rightarrow> 'a option \<times> nat option" where
  "scan_best f [] best bd = (best, bd)"
| "scan_best f (x # xs) best bd =
     (if better (f x) bd then scan_best f xs (Some x) (Some (f x)) else scan_best f xs best bd)"

definition normalise_move_name :: "string \<Rightarrow> string" where
  "normalise_move_name s = replace_char (CHR ''-'') (CHR ''_'') (replace_char (CHR '' '') (CHR ''_'') (upper (strip s)))"

definition move_name_to_enum :: "game_data \<Rightarrow> string \<Rightarrow> move option" where
  "move_name_to_enum gd name =
     (let n = normalise_move_name name in
      case safe_move gd n of
        Some m \<Rightarrow> Some m
      | None \<Rightarrow> map_option snd (fst (scan_best (\<lambda>x. levenshtein n (fst x)) (move_members gd) None (Some 3))))"

definition METRONOME_EXCLUDED :: "game_data \<Rightarrow> move list" where
  "METRONOME_EXCLUDED gd = List.map_filter (safe_move gd) [
    ''AFTER_YOU'', ''APPLE_ACID'', ''ARMOR_CANNON'', ''ASSIST'', ''AURA_WHEEL'', ''BANEFUL_BUNKER'',
    ''BEAK_BLAST'', ''BELCH'', ''BESTOW'', ''BODY_PRESS'', ''BOUNCE'', ''CELEBRATE'',
    ''CHATTER'', ''CLANGOROUS_SOUL'', ''COPYCAT'', ''COUNTER'', ''COVET'', ''DESTINY_BOND'',
    ''DETECT'', ''DIG'', ''DIVE'', ''DYNAMAX_CANNON'', ''ENDURE'', ''FEINT'',
    ''FISSURE'', ''FLY'', ''FOCUS_PUNCH'', ''FOLLOW_ME'', ''FREEZE_SHOCK'', ''GEOMANCY'',
    ''GRAV_APPLE'', ''GUILLOTINE'', ''HEAL_PULSE'', ''HELPING_HAND'', ''HORN_DRILL'', ''ICE_BURN'',
    ''INSTRUCT'', ''KINGS_SHIELD'', ''KING_S_SHIELD'', ''LIGHT_OF_RUIN'', ''LOVE_SONG'', ''MAKE_IT_RAIN'',
    ''MAT_BLOCK'', ''ME_FIRST'', ''METRONOME'', ''MIMIC'', ''MIRROR_COAT'', ''MIRROR_MOVE'',
    ''MOONGEIST_BEAM'', ''NATURE_POWER'', ''PHOTON_GEYSER'', ''PLASMA_FISTS'', ''PROTECT'', ''RAGE_FIST'',
    ''RAGE_POWDER'', ''RECYCLE'', ''REVIVAL_BLESSING'', ''SHELL_TRAP'', ''SKETCH'', ''SKULL_BASH'',
    ''SKY_ATTACK'', ''SKY_DROP'', ''SLEEP_TALK'', ''SNATCH'', ''SNAP_TRAP'', ''SPIT_UP'',
    ''SPLISHY_SPLASH'', ''STEAL_FIRE'', ''STRUGGLE'', ''SUNSTEEL_STRIKE'', ''TRANSFORM'', ''TRICK_OR_TREAT'',
    ''UPROAR'', ''WHIRLPOOL'']"

definition SLEEP_TALK_EXCLUDED :: "game_data \<Rightarrow> move list" where
  "SLEEP_TALK_EXCLUDED gd = List.map_filter (safe_move gd) [
    ''BELCH'', ''BOUNCE'', ''COPYCAT'', ''DIG'', ''DIVE'', ''FOCUS_PUNCH'',
    ''FLY'', ''INSTRUCT'', ''ME_FIRST'', ''MIMIC'', ''MIRROR_MOVE'', ''SHELL_TRAP'',
    ''SKETCH'', ''SKY_DROP'', ''SLEEP_TALK'', ''SNATCH'', ''UPROAR'', ''BEAK_BLAST'',
    ''GEOMANCY'', ''SKULL_BASH'', ''SKY_ATTACK'', ''SOLAR_BEAM'', ''SOLAR_BLADE'', ''PHANTOM_FORCE'',
    ''RAZOR_WIND'', ''ASSIST'', ''ELECTRO_SHOT'', ''METEOR_BEAM'']"

definition COPYCAT_EXCLUDED :: "game_data \<Rightarrow> move list" where
  "COPYCAT_EXCLUDED gd = List.map_filter (safe_move gd) [
    ''AFTER_YOU'', ''ASSIST'', ''BEAK_BLAST'', ''BELCH'', ''BESTOW'', ''CELEBRATE'',
    ''CHATTER'', ''CIRCLE_THROW'', ''COPYCAT'', ''COUNTER'', ''COVET'', ''DESTINY_BOND'',
    ''DETECT'', ''DIG'', ''DIVE'', ''DRAGON_TAIL'', ''ENDURE'', ''FEINT'',
    ''FLY'', ''FOCUS_PUNCH'', ''FOLLOW_ME'', ''HELPING_HAND'', ''INSTRUCT'', ''ME_FIRST'',
    ''METRONOME'', ''MIMIC'', ''MIRROR_COAT'', ''MIRROR_MOVE'', ''PROTECT'', ''RAGE_POWDER'',
    ''SHELL_TRAP'', ''SKETCH'', ''SLEEP_TALK'', ''SNATCH'', ''SPIKY_SHIELD'', ''STRUGGLE'',
    ''THIEF'', ''TRANSFORM'']"

definition MIRROR_MOVE_EXCLUDED :: "game_data \<Rightarrow> move list" where
  "MIRROR_MOVE_EXCLUDED gd = List.map_filter (safe_move gd) [
    ''MIRROR_MOVE'', ''COPYCAT'', ''ASSIST'', ''METRONOME'', ''SLEEP_TALK'', ''BEAK_BLAST'',
    ''FOCUS_PUNCH'', ''SHELL_TRAP'', ''STRUGGLE'']"

definition copycat_valid :: "game_data \<Rightarrow> move \<Rightarrow> bool" where
  "copycat_valid gd m \<longleftrightarrow> m \<notin> set (COPYCAT_EXCLUDED gd)"

definition mirror_move_valid :: "game_data \<Rightarrow> move \<Rightarrow> bool" where
  "mirror_move_valid gd m \<longleftrightarrow> m \<notin> set (MIRROR_MOVE_EXCLUDED gd)"

definition metronome_options :: "game_data \<Rightarrow> move list" where
  "metronome_options gd =
     filter (\<lambda>m. m \<noteq> Move_NONE \<and> m \<noteq> Move_STRUGGLE \<and> m \<notin> set (METRONOME_EXCLUDED gd) \<and> gd_moves gd m \<noteq> None)
       (map snd (move_members gd))"

definition sleep_talk_options :: "game_data \<Rightarrow> pokemon_state \<Rightarrow> move list" where
  "sleep_talk_options gd p =
     map fst (filter (\<lambda>x. fst x \<noteq> Move_NONE \<and> fst x \<notin> set (SLEEP_TALK_EXCLUDED gd))
       (zip (pk_move_ids p) (pk_move_pp p)))"

definition semi_invuln_interaction :: "move \<Rightarrow> move \<Rightarrow> bool \<times> bool" where
  "semi_invuln_interaction charging attacking =
     (if charging \<in> {19, 340, 507}
      then (attacking \<in> {16, 239, 87, 542, 327, 479, 614}, attacking \<in> {16, 239})
      else if charging \<in> {91}
      then (attacking \<in> {89, 222, 90}, attacking \<in> {89, 222})
      else if charging \<in> {291}
      then (attacking \<in> {57, 250}, attacking \<in> {57, 250})
      else (False, False))"

section \<open>Display names\<close>

text \<open>\<open>species.name\<close> and \<open>move.name\<close>: the first member with the value.\<close>

definition species_name :: "game_data \<Rightarrow> species \<Rightarrow> string" where
  "species_name gd sp = (case find (\<lambda>x. fst (snd x) = sp) (gd_species_names gd) of Some x \<Rightarrow> fst x | None \<Rightarrow> [])"

definition move_enum_name :: "game_data \<Rightarrow> move \<Rightarrow> string" where
  "move_enum_name gd m = (case find (\<lambda>x. fst (snd x) = m) (gd_move_names gd) of Some x \<Rightarrow> fst x | None \<Rightarrow> [])"

text \<open>\<open>SPECIES_TO_EMULATOR_NAME\<close>, each form with the base species whose name it shows.\<close>

definition SPECIES_TO_EMULATOR_NAME :: "(species \<times> species) list" where
  "SPECIES_TO_EMULATOR_NAME = [
    (979, 83), (988, 264), (987, 263), (964, 51), (968, 75), (969, 76), (966, 53),
    (958, 26), (978, 80), (985, 199), (976, 78), (972, 103), (971, 89), (980, 110),
    (973, 105), (962, 38), (960, 28), (957, 20), (981, 122), (982, 144), (983, 145),
    (984, 146), (986, 222), (1155, 678), (1225, 876), (1141, 670), (1060, 413), (1059, 413),
    (1112, 658), (1170, 741), (1230, 892), (1007, 713), (994, 59), (1000, 503), (1008, 724),
    (997, 157), (1003, 571), (996, 101), (1006, 706), (1004, 628), (1001, 549), (990, 555),
    (1232, 898), (1022, 25)]"

definition emulator_species_name :: "game_data \<Rightarrow> species \<Rightarrow> string" where
  "emulator_species_name gd sp = (case map_of SPECIES_TO_EMULATOR_NAME sp of
     Some base \<Rightarrow> species_name gd base | None \<Rightarrow> species_name gd sp)"

section \<open>Sides, team slots and move slots\<close>

type_synonym distance = "string \<Rightarrow> string \<Rightarrow> nat"

definition TRAINER_SIDE_CONSTANT_NAMES :: "string list" where
  "TRAINER_SIDE_CONSTANT_NAMES = [''sText_Trainer1SentOutPkmn'', ''sText_Trainer1SentOutTwoPkmn'',
     ''sText_TwoTrainersSentPkmn'', ''sText_Trainer1WithdrewPkmn'', ''sText_Trainer1SentOutPkmn2'']"

definition side_from_constant_name :: "string \<Rightarrow> sid" where
  "side_from_constant_name c = (if c \<in> set TRAINER_SIDE_CONSTANT_NAMES then P1 else P0)"

definition species_match_threshold :: "string \<Rightarrow> nat" where
  "species_match_threshold name = max 1 (length name div 5)"

text \<open>The test the three loops share: the name read is close to the display name of a mon's species.\<close>

definition name_matches :: "distance \<Rightarrow> game_data \<Rightarrow> string \<Rightarrow> pokemon_state \<Rightarrow> bool" where
  "name_matches lev gd upper_name p =
     (let sn = emulator_species_name gd (pk_species p) in lev upper_name sn \<le> species_match_threshold sn)"

definition recognizable_anywhere :: "distance \<Rightarrow> game_data \<Rightarrow> string \<Rightarrow> battle_state \<Rightarrow> bool" where
  "recognizable_anywhere lev gd upper_name st =
     (\<exists>p \<in> set (sd_team (side_of st P0)) \<union> set (sd_team (side_of st P1)). name_matches lev gd upper_name p)"

definition active_matches :: "distance \<Rightarrow> game_data \<Rightarrow> string \<Rightarrow> battle_state \<Rightarrow> sid \<Rightarrow> bool res" where
  "active_matches lev gd upper_name st i =
     rany (\<lambda>ti. rbind (lk (sd_team (side_of st i)) ti) (\<lambda>p. Inr (name_matches lev gd upper_name p)))
       (sd_active_indices (side_of st i))"

datatype reference_kind = Actor | Benched

definition fuzzy_find_side :: "distance \<Rightarrow> game_data \<Rightarrow> string \<Rightarrow> battle_state \<Rightarrow> sid option
    \<Rightarrow> reference_kind \<Rightarrow> sid res" where
  "fuzzy_find_side lev gd bare_name st side_hint kind =
     (case side_hint of
        None \<Rightarrow> Inl SideHintMissingError
      | Some h \<Rightarrow>
          let un = upper bare_name in
          rbind (active_matches lev gd un st h) (\<lambda>hint_matches.
          rbind (active_matches lev gd un st (opp h)) (\<lambda>other_matches.
            if \<not> hint_matches \<and> other_matches then Inl SideHintContradictionError
            else if \<not> hint_matches \<and> \<not> other_matches \<and> kind = Actor \<and> recognizable_anywhere lev gd un st
            then Inl ActorNotActiveError
            else Inr h)))"

definition fuzzy_find_team_slots :: "distance \<Rightarrow> game_data \<Rightarrow> string \<Rightarrow> sid \<Rightarrow> battle_state \<Rightarrow> nat list" where
  "fuzzy_find_team_slots lev gd name i st =
     (let un = upper name;
          s = side_of st i;
          matching = map fst (filter (\<lambda>x. name_matches lev gd un (snd x)) (enumerated (sd_team s)))
      in if length matching \<le> 1 then matching
         else let eligible = filter (\<lambda>k. k \<notin> set (sd_active_indices s) \<and> \<not> pk_fainted (sd_team s ! k)) matching
              in if eligible \<noteq> [] then eligible else matching)"

definition fuzzy_find_team_slot :: "distance \<Rightarrow> game_data \<Rightarrow> string \<Rightarrow> sid \<Rightarrow> battle_state \<Rightarrow> nat option res" where
  "fuzzy_find_team_slot lev gd name i st =
     (case fuzzy_find_team_slots lev gd name i st of
        [] \<Rightarrow> Inr None
      | [k] \<Rightarrow> Inr (Some k)
      | _ \<Rightarrow> Inl RosterAmbiguityError)"

definition fuzzy_find_move_slot :: "distance \<Rightarrow> game_data \<Rightarrow> string \<Rightarrow> pokemon_state \<Rightarrow> int" where
  "fuzzy_find_move_slot lev gd move_name p =
     (case scan_best (\<lambda>x. lev (upper move_name)
             (upper (replace_char (CHR ''_'') (CHR '' '') (move_enum_name gd (snd x)))))
           (enumerated (pk_move_ids p)) None None of
        (Some x, Some d) \<Rightarrow> if d > 4 then -1 else int (fst x)
      | _ \<Rightarrow> -1)"

section \<open>The specification of the distance\<close>

text \<open>
  \<open>edits n xs ys\<close>: \<open>ys\<close> arises from \<open>xs\<close> by \<open>n\<close> insertions, deletions and substitutions, left
  to right.
\<close>

inductive edits :: "nat \<Rightarrow> 'a list \<Rightarrow> 'a list \<Rightarrow> bool" where
  ed_nil: "edits 0 [] []"
| ed_keep: "edits n xs ys \<Longrightarrow> edits n (x # xs) (x # ys)"
| ed_subst: "edits n xs ys \<Longrightarrow> edits (Suc n) (x # xs) (y # ys)"
| ed_del: "edits n xs ys \<Longrightarrow> edits (Suc n) (x # xs) ys"
| ed_ins: "edits n xs ys \<Longrightarrow> edits (Suc n) xs (y # ys)"

inductive_cases edits_NilE: "edits n [] ys"
inductive_cases edits_ConsE: "edits n (x # xs) ys"
inductive_cases edits_Cons_NilE: "edits n (x # xs) []"
inductive_cases edits_Cons_ConsE: "edits n (x # xs) (y # ys)"

fun edit_distance :: "'a list \<Rightarrow> 'a list \<Rightarrow> nat" where
  "edit_distance [] ys = length ys"
| "edit_distance (x # xs) [] = Suc (length xs)"
| "edit_distance (x # xs) (y # ys) =
     min (Suc (edit_distance xs (y # ys)))
       (min (Suc (edit_distance (x # xs) ys)) (edit_distance xs ys + (if x \<noteq> y then 1 else 0)))"

lemma edits_Nil: "edits (length ys) [] ys"
  by (induction ys) (auto intro: edits.intros)

lemma edits_to_Nil: "edits (length xs) xs []"
  by (induction xs) (auto intro: edits.intros)

lemma edits_distance: "edits (edit_distance xs ys) xs ys"
proof (induction xs ys rule: edit_distance.induct)
  case (3 x xs y ys)
  have "edits (Suc (edit_distance xs (y # ys))) (x # xs) (y # ys)"
    "edits (Suc (edit_distance (x # xs) ys)) (x # xs) (y # ys)"
    "edits (edit_distance xs ys + (if x \<noteq> y then 1 else 0)) (x # xs) (y # ys)"
    using 3 by (auto intro: edits.intros)
  then show ?case by (simp only: edit_distance.simps min_def split: if_split) blast
qed (use edits_Nil edits_to_Nil[of "_ # _"] in auto)

lemma edit_distance_Nil2 [simp]: "edit_distance xs [] = length xs"
  by (cases xs) auto

lemma edits_least: "edits n xs ys \<Longrightarrow> edit_distance xs ys \<le> n"
proof (induction rule: edits.induct)
  case (ed_del n xs ys x)
  then show ?case by (cases ys) auto
next
  case (ed_ins n xs ys y)
  then show ?case by (cases xs) auto
qed auto

lemma edits_append: "edits n xs ys \<Longrightarrow> edits m us vs \<Longrightarrow> edits (n + m) (xs @ us) (ys @ vs)"
  by (induction rule: edits.induct) (auto intro: edits.intros)

lemma edits_rev: "edits n xs ys \<Longrightarrow> edits n (rev xs) (rev ys)"
proof (induction rule: edits.induct)
  case (ed_keep n xs ys x)
  then show ?case using edits_append[of n _ _ 0 "[x]" "[x]"] by (auto intro: edits.intros)
next
  case (ed_subst n xs ys x y)
  then show ?case using edits_append[of n _ _ "Suc 0" "[x]" "[y]"] by (auto intro: edits.intros)
next
  case (ed_del n xs ys x)
  then show ?case using edits_append[of n _ _ "Suc 0" "[x]" "[]"] by (auto intro: edits.intros)
next
  case (ed_ins n xs ys y)
  then show ?case using edits_append[of n _ _ "Suc 0" "[]" "[y]"] by (auto intro: edits.intros)
qed (auto intro: edits.intros)

lemma edits_sym: "edits n xs ys \<Longrightarrow> edits n ys xs"
  by (induction rule: edits.induct) (auto intro: edits.intros)

lemma edits_0: "edits 0 xs ys \<longleftrightarrow> xs = ys"
proof
  show "edits 0 xs ys \<Longrightarrow> xs = ys"
    by (induction "0::nat" xs ys rule: edits.induct) auto
  show "xs = ys \<Longrightarrow> edits 0 xs ys"
    by (induction xs arbitrary: ys) (auto intro: edits.intros)
qed

lemma edit_distance_rev: "edit_distance (rev xs) (rev ys) = edit_distance xs ys"
proof (rule antisym)
  show "edit_distance (rev xs) (rev ys) \<le> edit_distance xs ys"
    by (intro edits_least edits_rev edits_distance)
  show "edit_distance xs ys \<le> edit_distance (rev xs) (rev ys)"
    using edits_rev[OF edits_distance[of "rev xs" "rev ys"]] by (intro edits_least) simp
qed

lemma edit_distance_sym: "edit_distance xs ys = edit_distance ys xs"
  using edits_least[OF edits_sym[OF edits_distance[of xs ys]]]
    edits_least[OF edits_sym[OF edits_distance[of ys xs]]] by simp

section \<open>The table computes the distance\<close>

lemma lev_row_correct:
  "lev_row ca bs (map (\<lambda>k. edit_distance u (rev (take k bs) @ w)) [0..<length bs + 1]) (edit_distance (ca # u) w)
   = map (\<lambda>k. edit_distance (ca # u) (rev (take k bs) @ w)) [1..<length bs + 1]"
proof (induction bs arbitrary: w)
  case Nil
  then show ?case by simp
next
  case (Cons b bs)
  define row where "row = map (\<lambda>k. edit_distance u (rev (take k bs) @ b # w)) [0..<length bs + 1]"
  have old: "map (\<lambda>k. edit_distance u (rev (take k (b # bs)) @ w)) [0..<length (b # bs) + 1] = edit_distance u w # row"
    by (simp add: row_def upt_conv_Cons map_Suc_upt[symmetric] del: upt_Suc)
  obtain ps where row: "row = edit_distance u (b # w) # ps"
    by (simp add: row_def upt_conv_Cons del: upt_Suc)
  have new: "map (\<lambda>k. edit_distance (ca # u) (rev (take k (b # bs)) @ w)) [1..<length (b # bs) + 1] =
      edit_distance (ca # u) (b # w) # map (\<lambda>k. edit_distance (ca # u) (rev (take k bs) @ b # w)) [1..<length bs + 1]"
    by (simp add: upt_conv_Cons map_Suc_upt[symmetric] del: upt_Suc)
  have v: "min (edit_distance u (b # w) + 1)
      (min (edit_distance (ca # u) w + 1) (edit_distance u w + (if ca \<noteq> b then 1 else 0))) = edit_distance (ca # u) (b # w)"
    by simp
  have "lev_row ca (b # bs) (edit_distance u w # row) (edit_distance (ca # u) w) =
      edit_distance (ca # u) (b # w) # lev_row ca bs row (edit_distance (ca # u) (b # w))"
    unfolding row lev_row.simps Let_def v ..
  then show ?case unfolding old new using Cons.IH[of "b # w"] by (simp add: row_def)
qed

lemma lev_rows_correct:
  "lev_rows (length u) as b (map (\<lambda>k. edit_distance u (rev (take k b))) [0..<length b + 1]) =
   map (\<lambda>k. edit_distance (rev as @ u) (rev (take k b))) [0..<length b + 1]"
proof (induction as arbitrary: u)
  case Nil
  then show ?case by simp
next
  case (Cons ca as)
  have "lev_row ca b (map (\<lambda>k. edit_distance u (rev (take k b))) [0..<length b + 1]) (length u + 1) =
      map (\<lambda>k. edit_distance (ca # u) (rev (take k b))) [1..<length b + 1]"
    using lev_row_correct[of ca b u "[]"] by simp
  then have "(length u + 1) # lev_row ca b (map (\<lambda>k. edit_distance u (rev (take k b))) [0..<length b + 1]) (length u + 1) =
      map (\<lambda>k. edit_distance (ca # u) (rev (take k b))) [0..<length b + 1]"
    by (simp add: upt_conv_Cons del: upt_Suc)
  then show ?case using Cons.IH[of "ca # u"] by simp
qed

lemma levenshtein_edit_distance: "levenshtein a b = edit_distance a b"
proof -
  have "last (lev_rows 0 a b [0..<length b + 1]) = edit_distance a b" for a b :: string
  proof -
    have "map (\<lambda>k. edit_distance [] (rev (take k b))) [0..<length b + 1] = [0..<length b + 1]"
      by (intro nth_equalityI) (auto simp del: upt_Suc)
    then have "lev_rows 0 a b [0..<length b + 1] = map (\<lambda>k. edit_distance (rev a) (rev (take k b))) [0..<length b + 1]"
      using lev_rows_correct[of "[]" a b] by simp
    then show ?thesis by (simp add: edit_distance_rev)
  qed
  then show ?thesis by (simp add: levenshtein_def edit_distance_sym)
qed

text \<open>
  The table computes the edit distance. The value of \<open>levenshtein\<close> is the least number of
  insertions, deletions and substitutions that turn one string into the other.
\<close>

theorem levenshtein_correct:
  "edits (levenshtein a b) a b \<and> levenshtein a b = (LEAST n. edits n a b)"
  using edits_distance[of a b] edits_least[of _ a b]
  by (auto simp: levenshtein_edit_distance intro!: Least_equality[symmetric])

section \<open>What the name matching relies on\<close>

lemma scan_best_spec:
  assumes "scan_best f xs best bd = (r, rd)"
  shows "(r = best \<and> rd = bd \<and> (\<forall>x \<in> set xs. \<not> better (f x) bd))
    \<or> (\<exists>us x vs. xs = us @ x # vs \<and> r = Some x \<and> rd = Some (f x) \<and> better (f x) bd
        \<and> (\<forall>y \<in> set us. f x < f y) \<and> (\<forall>y \<in> set vs. f x \<le> f y))"
  using assms
proof (induction f xs best bd rule: scan_best.induct)
  case (1 f best bd)
  then show ?case by simp
next
  case (2 f x xs best bd)
  show ?case
  proof (cases "better (f x) bd")
    case True
    with 2 have "(r = Some x \<and> rd = Some (f x) \<and> (\<forall>y \<in> set xs. \<not> better (f y) (Some (f x))))
      \<or> (\<exists>us z vs. xs = us @ z # vs \<and> r = Some z \<and> rd = Some (f z) \<and> better (f z) (Some (f x))
        \<and> (\<forall>y \<in> set us. f z < f y) \<and> (\<forall>y \<in> set vs. f z \<le> f y))"
      by simp
    then show ?thesis
    proof
      assume "r = Some x \<and> rd = Some (f x) \<and> (\<forall>y \<in> set xs. \<not> better (f y) (Some (f x)))"
      then show ?thesis using True
        by (intro disjI2 exI[of _ "[]"] exI[of _ x] exI[of _ xs]) (auto simp: better_def not_less)
    next
      assume "\<exists>us z vs. xs = us @ z # vs \<and> r = Some z \<and> rd = Some (f z) \<and> better (f z) (Some (f x))
        \<and> (\<forall>y \<in> set us. f z < f y) \<and> (\<forall>y \<in> set vs. f z \<le> f y)"
      then obtain us z vs where "xs = us @ z # vs" "r = Some z" "rd = Some (f z)" "f z < f x"
        "\<forall>y \<in> set us. f z < f y" "\<forall>y \<in> set vs. f z \<le> f y" by (auto simp: better_def)
      then show ?thesis using True
        by (intro disjI2 exI[of _ "x # us"] exI[of _ z] exI[of _ vs]) (auto simp: better_def split: option.splits)
    qed
  next
    case False
    with 2 have "(r = best \<and> rd = bd \<and> (\<forall>y \<in> set xs. \<not> better (f y) bd))
      \<or> (\<exists>us z vs. xs = us @ z # vs \<and> r = Some z \<and> rd = Some (f z) \<and> better (f z) bd
        \<and> (\<forall>y \<in> set us. f z < f y) \<and> (\<forall>y \<in> set vs. f z \<le> f y))"
      by simp
    then show ?thesis
    proof
      assume "\<exists>us z vs. xs = us @ z # vs \<and> r = Some z \<and> rd = Some (f z) \<and> better (f z) bd
        \<and> (\<forall>y \<in> set us. f z < f y) \<and> (\<forall>y \<in> set vs. f z \<le> f y)"
      then obtain us z vs where "xs = us @ z # vs" "r = Some z" "rd = Some (f z)" "better (f z) bd"
        "\<forall>y \<in> set us. f z < f y" "\<forall>y \<in> set vs. f z \<le> f y" by blast
      then show ?thesis using False
        by (intro disjI2 exI[of _ "x # us"] exI[of _ z] exI[of _ vs]) (auto simp: better_def split: option.splits)
    qed (use False in auto)
  qed
qed

text \<open>
  The contract of the distance: it is zero for equal strings only and it is symmetric. Then a name
  that is read without an error matches.
\<close>

locale string_metric =
  fixes dist :: distance
  assumes dist_zero: "dist a b = 0 \<longleftrightarrow> a = b" and dist_sym: "dist a b = dist b a"
begin

lemma exact_name_matches:
  "upper bare_name = emulator_species_name gd (pk_species p) \<Longrightarrow> name_matches dist gd (upper bare_name) p"
  using dist_zero[of "upper bare_name" "upper bare_name"] by (simp add: name_matches_def Let_def)

end

interpretation lev: string_metric levenshtein
proof
  show "levenshtein a b = 0 \<longleftrightarrow> a = b" for a b
    using edits_distance[of a b] edits_least[of 0 a b] edits_0[of a b] by (auto simp: levenshtein_edit_distance)
  show "levenshtein a b = levenshtein b a" for a b
    by (simp add: levenshtein_edit_distance edit_distance_sym)
qed

definition some_active_matches :: "distance \<Rightarrow> game_data \<Rightarrow> string \<Rightarrow> battle_state \<Rightarrow> sid \<Rightarrow> bool" where
  "some_active_matches lev gd un st i =
     (\<exists>ti \<in> set (sd_active_indices (side_of st i)). name_matches lev gd un (sd_team (side_of st i) ! ti))"

lemma active_matches_wf:
  assumes "battle_wf st"
  shows "active_matches lev gd un st i = Inr (some_active_matches lev gd un st i)"
  unfolding active_matches_def some_active_matches_def
  using battle_wf_side[OF assms, of i] by (intro rany_Inr) (simp add: side_wf_def)

section \<open>Properties\<close>

text \<open>
  The lookup of a move by name. A name that normalises to a member's name (or to an alias) gives
  that member. Otherwise the result is a member at the least distance, which is at most two, the
  first such in the order of the enum; and there is no result only when every member is
  at a distance of three or more.
\<close>

theorem move_name_to_enum_spec:
  fixes gd name
  defines "n \<equiv> normalise_move_name name"
  shows "(\<forall>m. safe_move gd n = Some m \<longrightarrow> move_name_to_enum gd name = Some m)
    \<and> (safe_move gd n = None \<longrightarrow>
        (case move_name_to_enum gd name of
           None \<Rightarrow> \<forall>x \<in> set (move_members gd). 3 \<le> levenshtein n (fst x)
         | Some m \<Rightarrow> \<exists>us s vs. move_members gd = us @ (s, m) # vs \<and> levenshtein n s \<le> 2
              \<and> (\<forall>x \<in> set us. levenshtein n s < levenshtein n (fst x))
              \<and> (\<forall>x \<in> set vs. levenshtein n s \<le> levenshtein n (fst x))))"
proof (cases "safe_move gd n")
  case None
  obtain r rd where sb: "scan_best (\<lambda>x. levenshtein n (fst x)) (move_members gd) None (Some 3) = (r, rd)"
    by force
  have res: "move_name_to_enum gd name = map_option snd r"
    using None sb by (simp add: move_name_to_enum_def n_def)
  from scan_best_spec[OF sb] show ?thesis
  proof
    assume "r = None \<and> rd = Some 3 \<and> (\<forall>x \<in> set (move_members gd). \<not> better (levenshtein n (fst x)) (Some 3))"
    then show ?thesis using None res by (auto simp: better_def)
  next
    assume "\<exists>us x vs. move_members gd = us @ x # vs \<and> r = Some x \<and> rd = Some (levenshtein n (fst x))
      \<and> better (levenshtein n (fst x)) (Some 3) \<and> (\<forall>y \<in> set us. levenshtein n (fst x) < levenshtein n (fst y))
      \<and> (\<forall>y \<in> set vs. levenshtein n (fst x) \<le> levenshtein n (fst y))"
    then obtain us x vs where x: "move_members gd = us @ x # vs" "r = Some x" "levenshtein n (fst x) < 3"
      "\<forall>y \<in> set us. levenshtein n (fst x) < levenshtein n (fst y)"
      "\<forall>y \<in> set vs. levenshtein n (fst x) \<le> levenshtein n (fst y)"
      by (auto simp: better_def)
    then have "\<exists>us s vs. move_members gd = us @ (s, snd x) # vs \<and> levenshtein n s \<le> 2
        \<and> (\<forall>y \<in> set us. levenshtein n s < levenshtein n (fst y))
        \<and> (\<forall>y \<in> set vs. levenshtein n s \<le> levenshtein n (fst y))"
      by (intro exI[of _ us] exI[of _ "fst x"] exI[of _ vs]) auto
    with None res x(2) show ?thesis by simp
  qed
qed (simp add: move_name_to_enum_def n_def)

theorem move_name_to_enum_spec_witness:
  "move_name_to_enum sample_data '' Tackle'' = Some 33 \<and> move_name_to_enum sample_data ''Tackel'' = Some 33"
proof -
  have exact: "safe_move sample_data (normalise_move_name '' Tackle'') = Some 33" by code_simp
  have none: "safe_move sample_data (normalise_move_name ''Tackel'') = None" by code_simp
  have mem: "move_members sample_data = [(''NONE'', 0), (''TACKLE'', 33), (''STRUGGLE'', 165)]" by code_simp
  have d: "\<not> levenshtein (normalise_move_name ''Tackel'') ''NONE'' \<le> 2"
    "\<not> 3 \<le> levenshtein (normalise_move_name ''Tackel'') ''TACKLE''"
    "\<not> levenshtein (normalise_move_name ''Tackel'') ''STRUGGLE'' \<le> 2" by code_simp+
  have "move_name_to_enum sample_data ''Tackel'' = Some 33"
  proof (cases "move_name_to_enum sample_data ''Tackel''")
    case None
    then show ?thesis using move_name_to_enum_spec[of sample_data "''Tackel''"] none mem d by auto
  next
    case (Some m)
    then obtain us s vs where "move_members sample_data = us @ (s, m) # vs"
      "levenshtein (normalise_move_name ''Tackel'') s \<le> 2"
      using move_name_to_enum_spec[of sample_data "''Tackel''"] none by auto
    then have "(s, m) \<in> set [(''NONE'', 0), (''TACKLE'', 33), (''STRUGGLE'', 165)]"
      "levenshtein (normalise_move_name ''Tackel'') s \<le> 2" unfolding mem by (metis in_set_conv_decomp, simp)
    then have "m = 33" using d by auto
    then show ?thesis using Some by simp
  qed
  then show ?thesis using move_name_to_enum_spec[of sample_data "'' Tackle''"] exact by simp
qed

text \<open>
  The resolution of the side a message names. On a well-formed battle it never answers with
  the other side than the hint. Without a hint it is an error; when the name fits an active mon of the other
  side only, it is the contradiction error; when it fits no active mon, an actor that fits a
  team member anywhere is the desynchronisation error; in every other case, which includes every name that fits
  an active mon of the hinted side, the answer is the hint.
\<close>

theorem fuzzy_find_side_resolution:
  assumes "battle_wf st"
  shows "fuzzy_find_side lev gd name st None kind = Inl SideHintMissingError
    \<and> fuzzy_find_side lev gd name st (Some h) kind =
       (if some_active_matches lev gd (upper name) st h then Inr h
        else if some_active_matches lev gd (upper name) st (opp h) then Inl SideHintContradictionError
        else if kind = Actor \<and> recognizable_anywhere lev gd (upper name) st then Inl ActorNotActiveError
        else Inr h)"
  using assms by (simp add: fuzzy_find_side_def active_matches_wf Let_def)

theorem fuzzy_find_side_resolution_witness:
  "fuzzy_find_side levenshtein sample_data ''Shedinja'' (with_side sample_battle P1
       (mk_side [sample_mon 292 100] SINGLES [])) (Some P0) Actor = Inl SideHintContradictionError"
proof -
  let ?st = "with_side sample_battle P1 (mk_side [sample_mon 292 100] SINGLES [])"
  have "battle_wf ?st" by (simp add: battle_wf_def side_wf_def sample_battle_simps with_side_def)
  moreover have "\<not> some_active_matches levenshtein sample_data (upper ''Shedinja'') ?st P0" by code_simp
  moreover have "some_active_matches levenshtein sample_data (upper ''Shedinja'') ?st (opp P0)"
  proof -
    have "upper ''Shedinja'' = emulator_species_name sample_data (pk_species (sample_mon 292 100))" by code_simp
    from lev.exact_name_matches[OF this] show ?thesis
      by (simp add: some_active_matches_def mk_side_def side_post_init_def)
  qed
  ultimately show ?thesis using fuzzy_find_side_resolution by simp
qed

lemma fuzzy_slots_mem:
  "set (fuzzy_find_team_slots lev gd name i st) \<subseteq>
     {k. k < length (sd_team (side_of st i)) \<and> name_matches lev gd (upper name) (sd_team (side_of st i) ! k)}"
  by (auto simp: fuzzy_find_team_slots_def Let_def set_enumerated split: if_splits)

lemma fuzzy_slots_distinct: "distinct (fuzzy_find_team_slots lev gd name i st)"
  by (simp add: fuzzy_find_team_slots_def Let_def distinct_enumerated_filter)

text \<open>
  The resolution of a team slot. The slots found are slots of the team whose species name fits;
  a single slot is returned only when it is the only one that fits or the only one of them that can be switched in;
  if several remain it is an error, never a guess; and no slot is returned only when no member fits.
\<close>

theorem fuzzy_find_team_slot_sound:
  fixes lev gd name i st
  defines "fits \<equiv> \<lambda>k. k < length (sd_team (side_of st i)) \<and> name_matches lev gd (upper name) (sd_team (side_of st i) ! k)"
    and "ready \<equiv> \<lambda>k. k \<notin> set (sd_active_indices (side_of st i)) \<and> \<not> pk_fainted (sd_team (side_of st i) ! k)"
  shows "case fuzzy_find_team_slot lev gd name i st of
      Inr (Some k) \<Rightarrow> fits k \<and> (\<forall>j. fits j \<and> j \<noteq> k \<longrightarrow> ready k \<and> \<not> ready j)
    | Inr None \<Rightarrow> \<forall>k. \<not> fits k
    | Inl e \<Rightarrow> e = RosterAmbiguityError \<and> (\<exists>j k. j \<noteq> k \<and> fits j \<and> fits k)"
proof -
  define ms where "ms = map fst (filter (\<lambda>x. name_matches lev gd (upper name) (snd x)) (enumerated (sd_team (side_of st i))))"
  have mem: "k \<in> set ms \<longleftrightarrow> fits k" for k
    using mem_enumerated_filter[of k _ "\<lambda>p. name_matches lev gd (upper name) p"] by (simp add: ms_def fits_def)
  have slots: "fuzzy_find_team_slots lev gd name i st =
      (if length ms \<le> 1 then ms else if filter ready ms \<noteq> [] then filter ready ms else ms)"
    by (simp add: fuzzy_find_team_slots_def Let_def ms_def ready_def)
  have dist: "distinct (fuzzy_find_team_slots lev gd name i st)" by (rule fuzzy_slots_distinct)
  consider (none) "ms = []" | (one) k where "ms = [k]" | (many) a b cs where "ms = a # b # cs"
    by (cases ms; cases "tl ms") auto
  then show ?thesis
  proof cases
    case none
    then show ?thesis using mem slots by (auto simp: fuzzy_find_team_slot_def)
  next
    case (one k)
    then show ?thesis using mem slots by (auto simp: fuzzy_find_team_slot_def)
  next
    case (many a b cs)
    then have many_slots: "fuzzy_find_team_slots lev gd name i st = (if filter ready ms \<noteq> [] then filter ready ms else ms)"
      using slots by simp
    show ?thesis
    proof (cases "fuzzy_find_team_slots lev gd name i st" rule: remdups_adj.cases)
      case 1
      then show ?thesis using many_slots many by (auto split: if_splits)
    next
      case (2 k)
      then have "filter ready ms = [k]" using many_slots many by (auto split: if_splits)
      then have "set (filter ready ms) = {k}" by simp
      then have "k \<in> set ms" "ready k" "\<And>j. j \<in> set ms \<Longrightarrow> ready j \<Longrightarrow> j = k" by auto
      then have "fits k" "\<forall>j. fits j \<and> j \<noteq> k \<longrightarrow> ready k \<and> \<not> ready j" using mem by blast+
      moreover have "fuzzy_find_team_slot lev gd name i st = Inr (Some k)"
        using 2 by (simp add: fuzzy_find_team_slot_def)
      ultimately show ?thesis by simp
    next
      case (3 j k js)
      then have "j \<noteq> k" "fits j" "fits k"
        using dist fuzzy_slots_mem[of lev gd name i st] by (auto simp: fits_def)
      moreover have "fuzzy_find_team_slot lev gd name i st = Inl RosterAmbiguityError"
        using 3 by (simp add: fuzzy_find_team_slot_def)
      ultimately show ?thesis by auto
    qed
  qed
qed

theorem fuzzy_find_team_slot_sound_witness:
  "fuzzy_find_team_slot levenshtein sample_data ''Shedinja'' P1 (with_side sample_battle P1
       (mk_side [sample_mon 25 100, sample_mon 292 100] SINGLES [])) = Inr (Some 1)
   \<and> name_matches levenshtein sample_data (upper ''Shedinja'') (sample_mon 292 100)"
proof -
  let ?s = "mk_side [sample_mon 25 100, sample_mon 292 100] SINGLES []"
  have run: "fuzzy_find_team_slot levenshtein sample_data ''Shedinja'' P1 (with_side sample_battle P1 ?s) = Inr (Some 1)"
    by code_simp
  from fuzzy_find_team_slot_sound[where lev = levenshtein and gd = sample_data and name = "''Shedinja''"
      and i = P1 and st = "with_side sample_battle P1 ?s"]
  have "name_matches levenshtein sample_data (upper ''Shedinja'') (sd_team ?s ! 1)"
    unfolding run by simp
  then show ?thesis using run by (simp add: mk_side_def side_post_init_def)
qed

end
