(* ===== verification/RngTrace.thy ===== *)
theory RngTrace
  imports Prelude
begin

text \<open>
  The recorder of resolved random outcomes (\<open>rng_trace.py\<close>): its state as a record, one function
  per operation, and a step relation for its use with nested checkpoints. The invariant by rule induction is
  that the key (turn, event, occurrence) identifies a record, which is what the replay of forced
  outcomes relies on.
\<close>

section \<open>The recorder\<close>

record ('e, 'o) trace_record =
  tr_turn :: int
  tr_seq :: nat
  tr_event :: 'e
  tr_occurrence :: nat
  tr_outcome :: 'o
  tr_phase :: "string option"
  tr_side :: "int option"
  tr_slot :: "int option"

record 'e checkpoint =
  cp_length :: nat
  cp_counters :: "'e \<Rightarrow> nat option"
  cp_seq :: nat
  cp_turn :: "int option"

record ('e, 'o) trace_recorder =
  rc_turn :: "int option"
  rc_seq :: nat
  rc_counters :: "'e \<Rightarrow> nat option"
  rc_context_phase :: "string option"
  rc_context_side :: "int option"
  rc_context_slot :: "int option"
  rc_records :: "('e, 'o) trace_record list"

definition new_recorder :: "('e, 'o) trace_recorder" where
  "new_recorder = \<lparr>rc_turn = None, rc_seq = 0, rc_counters = Map.empty, rc_context_phase = None,
     rc_context_side = None, rc_context_slot = None, rc_records = []\<rparr>"

definition set_turn :: "int \<Rightarrow> ('e, 'o) trace_recorder \<Rightarrow> ('e, 'o) trace_recorder res" where
  "set_turn n r = (case rc_turn r of
       Some t \<Rightarrow> if n < t then Inl RuntimeError
                 else if n = t then Inr r
                 else Inr (r\<lparr>rc_turn := Some n, rc_counters := Map.empty\<rparr>)
     | None \<Rightarrow> Inr (r\<lparr>rc_turn := Some n, rc_counters := Map.empty\<rparr>))"

definition set_context :: "string option \<Rightarrow> int option \<Rightarrow> int option \<Rightarrow> ('e, 'o) trace_recorder
    \<Rightarrow> ('e, 'o) trace_recorder" where
  "set_context ph si sl r = r\<lparr>rc_context_phase := ph, rc_context_side := si, rc_context_slot := sl\<rparr>"

definition next_occurrence :: "'e \<Rightarrow> ('e, 'o) trace_recorder \<Rightarrow> nat" where
  "next_occurrence e r = (case rc_counters r e of None \<Rightarrow> 0 | Some k \<Rightarrow> k)"

definition record_outcome :: "'e \<Rightarrow> 'o \<Rightarrow> ('e, 'o) trace_recorder \<Rightarrow> ('e, 'o) trace_recorder res" where
  "record_outcome e out r = (case rc_turn r of
       None \<Rightarrow> Inl RuntimeError
     | Some t \<Rightarrow>
         let k = next_occurrence e r in
         Inr (r\<lparr>rc_counters := (rc_counters r)(e \<mapsto> k + 1),
                rc_records := rc_records r @ [\<lparr>tr_turn = t, tr_seq = rc_seq r, tr_event = e,
                  tr_occurrence = k, tr_outcome = out, tr_phase = rc_context_phase r,
                  tr_side = rc_context_side r, tr_slot = rc_context_slot r\<rparr>],
                rc_seq := rc_seq r + 1\<rparr>))"

definition trace_mark :: "('e, 'o) trace_recorder \<Rightarrow> 'e checkpoint" where
  "trace_mark r = \<lparr>cp_length = length (rc_records r), cp_counters = rc_counters r,
     cp_seq = rc_seq r, cp_turn = rc_turn r\<rparr>"

definition rollback :: "'e checkpoint \<Rightarrow> ('e, 'o) trace_recorder \<Rightarrow> ('e, 'o) trace_recorder res" where
  "rollback m r =
     (if cp_turn m \<noteq> rc_turn r then Inl RuntimeError
      else Inr (r\<lparr>rc_records := take (cp_length m) (rc_records r), rc_counters := cp_counters m,
                  rc_seq := cp_seq m\<rparr>))"

text \<open>The module's singleton.\<close>

definition start_recording :: "('e, 'o) trace_recorder option \<Rightarrow> ('e, 'o) trace_recorder option res" where
  "start_recording g = (case g of Some _ \<Rightarrow> Inl RuntimeError | None \<Rightarrow> Inr (Some new_recorder))"

definition stop_recording :: "('e, 'o) trace_recorder option
    \<Rightarrow> (('e, 'o) trace_record list \<times> ('e, 'o) trace_recorder option) res" where
  "stop_recording g = (case g of None \<Rightarrow> Inl RuntimeError | Some r \<Rightarrow> Inr (rc_records r, None))"

definition recording_active :: "('e, 'o) trace_recorder option \<Rightarrow> bool" where
  "recording_active g \<longleftrightarrow> g \<noteq> None"

section \<open>Use of the recorder\<close>

text \<open>
  One step of a recorder together with the stack of checkpoints taken so far, newest first. A
  rollback goes to a checkpoint of the stack and forgets the newer ones, as the nested snapshots of
  a simulation do.
\<close>

inductive trace_step ::
  "('e, 'o) trace_recorder \<times> 'e checkpoint list \<Rightarrow> ('e, 'o) trace_recorder \<times> 'e checkpoint list \<Rightarrow> bool" where
  ts_turn: "set_turn n r = Inr r' \<Longrightarrow> trace_step (r, ms) (r', ms)"
| ts_context: "trace_step (r, ms) (set_context ph si sl r, ms)"
| ts_record: "record_outcome e out r = Inr r' \<Longrightarrow> trace_step (r, ms) (r', ms)"
| ts_mark: "trace_step (r, ms) (r, trace_mark r # ms)"
| ts_rollback: "rollback m r = Inr r' \<Longrightarrow> trace_step (r, ms1 @ m # ms2) (r', m # ms2)"

inductive_cases trace_stepE: "trace_step s s'"

abbreviation trace_run where "trace_run \<equiv> trace_step\<^sup>*\<^sup>*"

definition same_event :: "int \<Rightarrow> 'e \<Rightarrow> ('e, 'o) trace_record \<Rightarrow> bool" where
  "same_event t e x \<longleftrightarrow> tr_turn x = t \<and> tr_event x = e"

definition occurrences :: "int \<Rightarrow> 'e \<Rightarrow> ('e, 'o) trace_record list \<Rightarrow> nat" where
  "occurrences t e xs = length (filter (same_event t e) xs)"

text \<open>
  The invariant of the record list: sequence numbers are positions, turns do not decrease, and the
  occurrence of a record counts the earlier records of its event in its turn.
\<close>

definition records_inv :: "('e, 'o) trace_record list \<Rightarrow> bool" where
  "records_inv xs \<longleftrightarrow> sorted (map tr_turn xs) \<and>
     (\<forall>i < length xs. tr_seq (xs ! i) = i \<and>
        tr_occurrence (xs ! i) = occurrences (tr_turn (xs ! i)) (tr_event (xs ! i)) (take i xs))"

text \<open>What the counters, the sequence number and the turn say of a list of records.\<close>

definition state_matches :: "int option \<Rightarrow> nat \<Rightarrow> ('e \<Rightarrow> nat option) \<Rightarrow> ('e, 'o) trace_record list \<Rightarrow> bool" where
  "state_matches t n cs xs \<longleftrightarrow> n = length xs \<and>
     (case t of
        None \<Rightarrow> xs = []
      | Some u \<Rightarrow> (\<forall>x \<in> set xs. tr_turn x \<le> u) \<and>
          (\<forall>e. (case cs e of None \<Rightarrow> 0 | Some k \<Rightarrow> k) = occurrences u e xs))"

definition recorder_inv :: "('e, 'o) trace_recorder \<Rightarrow> bool" where
  "recorder_inv r \<longleftrightarrow> records_inv (rc_records r)
     \<and> state_matches (rc_turn r) (rc_seq r) (rc_counters r) (rc_records r)"

text \<open>A checkpoint of the current turn is that of a prefix of the records.\<close>

definition mark_ok :: "('e, 'o) trace_recorder \<Rightarrow> 'e checkpoint \<Rightarrow> bool" where
  "mark_ok r m \<longleftrightarrow> cp_turn m = rc_turn r \<longrightarrow>
     cp_length m \<le> length (rc_records r)
     \<and> state_matches (cp_turn m) (cp_seq m) (cp_counters m) (take (cp_length m) (rc_records r))"

definition turn_le :: "int option \<Rightarrow> int option \<Rightarrow> bool" where
  "turn_le a b \<longleftrightarrow> (case a of None \<Rightarrow> True | Some x \<Rightarrow> (case b of None \<Rightarrow> False | Some y \<Rightarrow> x \<le> y))"

fun marks_inv :: "('e, 'o) trace_recorder \<Rightarrow> 'e checkpoint list \<Rightarrow> bool" where
  "marks_inv r [] \<longleftrightarrow> True"
| "marks_inv r (m # ms) \<longleftrightarrow> mark_ok r m \<and> turn_le (cp_turn m) (rc_turn r)
     \<and> (\<forall>m' \<in> set ms. cp_turn m' = cp_turn m \<longrightarrow> cp_length m' \<le> cp_length m) \<and> marks_inv r ms"

section \<open>Lemmas\<close>

lemma occurrences_simps [simp]:
  "occurrences t e [] = 0"
  "occurrences t e (xs @ ys) = occurrences t e xs + occurrences t e ys"
  "occurrences t e [x] = (if same_event t e x then 1 else 0)"
  by (simp_all add: occurrences_def)

lemma occurrences_future: "\<forall>x \<in> set xs. tr_turn x < t \<Longrightarrow> occurrences t e xs = 0"
  by (auto simp: occurrences_def same_event_def filter_empty_conv)

lemma records_inv_snoc:
  "records_inv (xs @ [x]) \<longleftrightarrow> records_inv xs \<and> (\<forall>y \<in> set xs. tr_turn y \<le> tr_turn x)
     \<and> tr_seq x = length xs \<and> tr_occurrence x = occurrences (tr_turn x) (tr_event x) xs"
  by (auto simp: records_inv_def sorted_append nth_append less_Suc_eq)

lemma records_inv_take: "records_inv xs \<Longrightarrow> records_inv (take n xs)"
  by (auto simp: records_inv_def sorted_wrt_take take_map[symmetric] min_def)

lemma marks_inv_mem: "marks_inv r ms \<Longrightarrow> m \<in> set ms \<Longrightarrow> mark_ok r m \<and> turn_le (cp_turn m) (rc_turn r)"
  by (induction ms) auto

lemma marks_inv_tail: "marks_inv r (ms1 @ ms2) \<Longrightarrow> marks_inv r ms2"
  by (induction ms1) auto

lemma marks_inv_transfer:
  assumes "marks_inv r ms" "\<And>m. m \<in> set ms \<Longrightarrow> mark_ok r m \<Longrightarrow> turn_le (cp_turn m) (rc_turn r)
      \<Longrightarrow> mark_ok r' m \<and> turn_le (cp_turn m) (rc_turn r')"
  shows "marks_inv r' ms"
  using assms by (induction ms) auto

lemma record_outcome_inv:
  assumes "recorder_inv r" "record_outcome e out r = Inr r'"
  shows "recorder_inv r'"
proof -
  obtain t where t: "rc_turn r = Some t" using assms(2) by (auto simp: record_outcome_def split: option.splits)
  define x where "x = \<lparr>tr_turn = t, tr_seq = rc_seq r, tr_event = e, tr_occurrence = next_occurrence e r,
    tr_outcome = out, tr_phase = rc_context_phase r, tr_side = rc_context_side r, tr_slot = rc_context_slot r\<rparr>"
  have r': "rc_records r' = rc_records r @ [x]" "rc_seq r' = rc_seq r + 1" "rc_turn r' = Some t"
    "rc_counters r' = (rc_counters r)(e \<mapsto> next_occurrence e r + 1)"
    using assms(2) t by (auto simp: record_outcome_def Let_def x_def)
  have cnt: "next_occurrence e' r = occurrences t e' (rc_records r)" for e'
    using assms(1) t by (simp add: recorder_inv_def state_matches_def next_occurrence_def)
  have "records_inv (rc_records r')"
    using assms(1) t cnt by (auto simp: r' records_inv_snoc recorder_inv_def state_matches_def x_def)
  moreover have "state_matches (rc_turn r') (rc_seq r') (rc_counters r') (rc_records r')"
    using assms(1) t cnt
    by (auto simp: r' recorder_inv_def state_matches_def x_def same_event_def next_occurrence_def)
  ultimately show ?thesis by (simp add: recorder_inv_def)
qed

lemma set_turn_inv:
  assumes "recorder_inv r" "set_turn n r = Inr r'"
  shows "recorder_inv r'"
proof (cases "r' = r")
  case False
  then have r': "r' = r\<lparr>rc_turn := Some n, rc_counters := Map.empty\<rparr>"
    and lt: "\<forall>t. rc_turn r = Some t \<longrightarrow> t < n"
    using assms(2) by (auto simp: set_turn_def split: option.splits if_splits)
  have "\<forall>x \<in> set (rc_records r). tr_turn x < n"
    using assms(1) lt by (cases "rc_turn r") (force simp: recorder_inv_def state_matches_def)+
  then show ?thesis
    using assms(1) occurrences_future[of "rc_records r" n]
    by (auto simp: r' recorder_inv_def state_matches_def)
qed (use assms in simp)

lemma rollback_inv:
  assumes "recorder_inv r" "mark_ok r m" "rollback m r = Inr r'"
  shows "recorder_inv r'"
proof -
  have eq: "cp_turn m = rc_turn r" and
    r': "r' = r\<lparr>rc_records := take (cp_length m) (rc_records r), rc_counters := cp_counters m, rc_seq := cp_seq m\<rparr>"
    using assms(3) by (auto simp: rollback_def split: if_splits)
  with assms(1,2) show ?thesis by (auto simp: recorder_inv_def mark_ok_def records_inv_take)
qed

lemma marks_after_record:
  assumes "marks_inv r ms" "record_outcome e out r = Inr r'"
  shows "marks_inv r' ms"
  using assms(1)
proof (rule marks_inv_transfer)
  fix m assume "mark_ok r m" "turn_le (cp_turn m) (rc_turn r)"
  with assms(2) show "mark_ok r' m \<and> turn_le (cp_turn m) (rc_turn r')"
    by (auto simp: mark_ok_def record_outcome_def Let_def split: option.splits)
qed

lemma marks_after_turn:
  assumes "marks_inv r ms" "set_turn n r = Inr r'"
  shows "marks_inv r' ms"
  using assms(1)
proof (rule marks_inv_transfer)
  fix m assume "mark_ok r m" "turn_le (cp_turn m) (rc_turn r)"
  with assms(2) show "mark_ok r' m \<and> turn_le (cp_turn m) (rc_turn r')"
    by (auto simp: mark_ok_def set_turn_def turn_le_def split: option.splits if_splits)
qed

lemma marks_after_context:
  assumes "marks_inv r ms"
  shows "marks_inv (set_context ph si sl r) ms"
  using assms by (rule marks_inv_transfer) (simp add: mark_ok_def set_context_def)

lemma marks_after_mark:
  assumes "recorder_inv r" "marks_inv r ms"
  shows "marks_inv r (trace_mark r # ms)"
  using assms marks_inv_mem[OF assms(2)]
  by (auto simp: trace_mark_def mark_ok_def recorder_inv_def turn_le_def split: option.splits)

lemma marks_after_rollback:
  assumes "marks_inv r (ms1 @ m # ms2)" "rollback m r = Inr r'"
  shows "marks_inv r' (m # ms2)"
proof -
  have inv: "marks_inv r (m # ms2)" using assms(1) by (rule marks_inv_tail)
  have eq: "cp_turn m = rc_turn r" and
    r': "r' = r\<lparr>rc_records := take (cp_length m) (rc_records r), rc_counters := cp_counters m, rc_seq := cp_seq m\<rparr>"
    using assms(2) by (auto simp: rollback_def split: if_splits)
  from inv show ?thesis
  proof (rule marks_inv_transfer)
    fix m' assume "m' \<in> set (m # ms2)" "mark_ok r m'" "turn_le (cp_turn m') (rc_turn r)"
    with inv eq show "mark_ok r' m' \<and> turn_le (cp_turn m') (rc_turn r')"
      by (auto simp: r' mark_ok_def min_def)
  qed
qed

lemma trace_step_inv:
  assumes "trace_step (r, ms) (r', ms')" "recorder_inv r" "marks_inv r ms"
  shows "recorder_inv r' \<and> marks_inv r' ms'"
  using assms(1)
proof (cases rule: trace_step.cases)
  case (ts_turn n)
  then show ?thesis by (auto intro: set_turn_inv[OF assms(2)] marks_after_turn[OF assms(3)])
next
  case (ts_context ph si sl)
  moreover have "recorder_inv (set_context ph si sl r)"
    using assms(2) by (simp add: recorder_inv_def set_context_def)
  ultimately show ?thesis using marks_after_context[OF assms(3)] by simp
next
  case (ts_record e out)
  then show ?thesis by (auto intro: record_outcome_inv[OF assms(2)] marks_after_record[OF assms(3)])
next
  case ts_mark
  then show ?thesis using assms marks_after_mark by blast
next
  case (ts_rollback m ms1 ms2)
  then have "mark_ok r m" using assms(3) marks_inv_mem by fastforce
  then show ?thesis using ts_rollback assms rollback_inv marks_after_rollback by blast
qed

lemma trace_run_inv:
  assumes "trace_run (new_recorder, []) (r, ms)"
  shows "recorder_inv r \<and> marks_inv r ms"
proof -
  have "recorder_inv (fst s) \<and> marks_inv (fst s) (snd s)" if "trace_run (new_recorder, []) s" for s
    using that
  proof (induction rule: rtranclp_induct)
    case base
    show ?case by (simp add: recorder_inv_def records_inv_def state_matches_def new_recorder_def)
  next
    case (step y z)
    then show ?case using trace_step_inv[of "fst y" "snd y" "fst z" "snd z"] by simp
  qed
  from this[OF assms] show ?thesis by simp
qed

section \<open>Properties\<close>

definition record_key :: "('e, 'o) trace_record \<Rightarrow> int \<times> 'e \<times> nat" where
  "record_key x = (tr_turn x, tr_event x, tr_occurrence x)"

lemma occurrences_less:
  assumes "j < i" "i < length xs" "same_event t e (xs ! j)"
  shows "occurrences t e (take j xs) < occurrences t e (take i xs)"
proof -
  have "take i xs = take j xs @ xs ! j # take (i - Suc j) (drop (Suc j) xs)"
    using assms(1,2) by (metis Suc_leI add_diff_inverse_nat append.assoc append_Cons append_Nil
        linorder_not_less order_less_trans take_Suc_conv_app_nth take_add)
  then show ?thesis using assms(3) by (simp add: occurrences_def)
qed

lemma records_key_distinct: "records_inv xs \<Longrightarrow> distinct (map record_key xs)"
proof -
  assume inv: "records_inv xs"
  have "record_key (xs ! j) \<noteq> record_key (xs ! i)" if "j < i" "i < length xs" for i j
  proof
    assume eq: "record_key (xs ! j) = record_key (xs ! i)"
    then have "same_event (tr_turn (xs ! i)) (tr_event (xs ! i)) (xs ! j)"
      by (simp add: record_key_def same_event_def)
    from occurrences_less[OF that this] inv that eq show False
      by (auto simp: records_inv_def record_key_def)
  qed
  then show ?thesis by (auto simp: distinct_conv_nth) (metis nat_neq_iff)
qed

text \<open>
  A trace identifies every outcome. In every state the recorder can reach, through turns,
  contexts, recordings, checkpoints and rollbacks to a checkpoint still on the stack, the sequence
  numbers are 0, 1, 2, and so on, the turns do not decrease, and no two records share turn, event
  and occurrence, so that a replay can look an outcome up by that key.
\<close>

theorem trace_keys_unique:
  assumes "trace_run (new_recorder, []) (r, ms)"
  shows "map tr_seq (rc_records r) = [0..<length (rc_records r)]
    \<and> sorted (map tr_turn (rc_records r))
    \<and> distinct (map record_key (rc_records r))"
proof -
  have inv: "records_inv (rc_records r)"
    using trace_run_inv[OF assms] by (simp add: recorder_inv_def)
  then show ?thesis
    by (auto simp: records_key_distinct) (auto simp: records_inv_def intro: nth_equalityI)
qed

text \<open>A step of a recorder whose stack of checkpoints keeps \<open>m\<close> at its bottom.\<close>

definition step_above :: "'e checkpoint \<Rightarrow> ('e, 'o) trace_recorder \<times> 'e checkpoint list
    \<Rightarrow> ('e, 'o) trace_recorder \<times> 'e checkpoint list \<Rightarrow> bool" where
  "step_above m s s' \<longleftrightarrow> trace_step (fst s, snd s @ [m]) (fst s', snd s' @ [m])"

definition above_inv :: "'e checkpoint \<Rightarrow> ('e, 'o) trace_record list \<Rightarrow> ('e, 'o) trace_recorder
    \<Rightarrow> 'e checkpoint list \<Rightarrow> bool" where
  "above_inv m rs r ms \<longleftrightarrow> cp_length m \<le> length (rc_records r) \<and> take (cp_length m) (rc_records r) = rs
     \<and> (\<forall>m' \<in> set ms. cp_length m \<le> cp_length m')"

lemma step_above_inv:
  assumes "trace_step (r, ms @ [m]) (r', ms' @ [m])" "above_inv m rs r ms"
  shows "above_inv m rs r' ms'"
  using assms(1)
proof (cases rule: trace_step.cases)
  case (ts_turn n)
  then show ?thesis
    using assms(2) by (auto simp: above_inv_def set_turn_def split: option.splits if_splits)
next
  case (ts_context ph si sl)
  then show ?thesis using assms(2) by (auto simp: above_inv_def set_context_def)
next
  case (ts_record e out)
  then show ?thesis
    using assms(2) by (auto simp: above_inv_def record_outcome_def Let_def split: option.splits)
next
  case ts_mark
  then have "ms' = trace_mark r # ms"
    by (metis append_Cons append_same_eq)
  then show ?thesis using assms(2) ts_mark by (auto simp: above_inv_def trace_mark_def)
next
  case (ts_rollback m' ms1 ms2)
  have "(m' = m \<and> ms' = []) \<or> (m' \<in> set ms \<and> set ms' \<subseteq> set ms)"
  proof (cases ms2 rule: rev_cases)
    case Nil
    then show ?thesis using ts_rollback(2,3) by simp
  next
    case (snoc ys y)
    have "ms @ [m] = (ms1 @ m' # ys) @ [y]" "ms' @ [m] = (m' # ys) @ [y]"
      using ts_rollback snoc by simp_all
    then have "ms = ms1 @ m' # ys" "ms' = m' # ys" by (simp_all only: append1_eq_conv)
    then show ?thesis by auto
  qed
  moreover have "rc_records r' = take (cp_length m') (rc_records r)"
    using ts_rollback by (auto simp: rollback_def split: if_splits)
  ultimately show ?thesis using assms(2) by (auto simp: above_inv_def min_def)
qed

text \<open>
  A rollback restores the recorder. Take a checkpoint, then go on with any steps, nested
  checkpoints and rollbacks to them included, that keep the checkpoint on the stack; as long as the
  turn has not changed, rolling back to it succeeds and gives the records, the sequence number, the turn and
  the counters of the moment it was taken.
\<close>

theorem rollback_restores:
  assumes "(step_above (trace_mark r))\<^sup>*\<^sup>* (r, []) (r', ms)" "rc_turn r' = rc_turn r"
  shows "\<exists>r2. rollback (trace_mark r) r' = Inr r2 \<and> rc_records r2 = rc_records r
    \<and> rc_seq r2 = rc_seq r \<and> rc_turn r2 = rc_turn r \<and> rc_counters r2 = rc_counters r"
proof -
  let ?m = "trace_mark r"
  have "above_inv ?m (rc_records r) (fst s) (snd s)" if "(step_above ?m)\<^sup>*\<^sup>* (r, []) s" for s
    using that
  proof (induction rule: rtranclp_induct)
    case base
    show ?case by (simp add: above_inv_def trace_mark_def)
  next
    case (step y z)
    then show ?case using step_above_inv unfolding step_above_def by blast
  qed
  from this[OF assms(1)] have "take (cp_length ?m) (rc_records r') = rc_records r"
    by (simp add: above_inv_def)
  then show ?thesis using assms(2) by (auto simp: rollback_def trace_mark_def)
qed

definition sample_recorder :: "(nat, bool) trace_recorder" where
  "sample_recorder = new_recorder\<lparr>rc_turn := Some 1\<rparr>"

definition sample_recorder2 :: "(nat, bool) trace_recorder" where
  "sample_recorder2 = (case record_outcome 7 True sample_recorder of Inr r \<Rightarrow> r | Inl _ \<Rightarrow> sample_recorder)"

lemma sample_record: "record_outcome 7 True sample_recorder = Inr sample_recorder2"
  by (simp add: sample_recorder2_def record_outcome_def sample_recorder_def Let_def)

theorem trace_keys_unique_witness:
  "rc_records sample_recorder2 \<noteq> [] \<and> distinct (map record_key (rc_records sample_recorder2))"
proof -
  have "set_turn 1 new_recorder = Inr sample_recorder"
    by (simp add: set_turn_def sample_recorder_def new_recorder_def)
  then have "trace_run (new_recorder, []) (sample_recorder, [])"
    by (meson r_into_rtranclp ts_turn)
  also have "trace_step (sample_recorder, []) (sample_recorder2, [])"
    using sample_record by (rule ts_record)
  finally have "trace_run (new_recorder, []) (sample_recorder2, [])" .
  from trace_keys_unique[OF this] have "distinct (map record_key (rc_records sample_recorder2))" by simp
  moreover have "rc_records sample_recorder2 \<noteq> []"
    by (simp add: sample_recorder2_def record_outcome_def sample_recorder_def Let_def)
  ultimately show ?thesis by simp
qed

theorem rollback_restores_witness:
  "\<exists>r2. rollback (trace_mark sample_recorder) sample_recorder2 = Inr r2 \<and> rc_records r2 = []"
proof -
  have "step_above (trace_mark sample_recorder) (sample_recorder, []) (sample_recorder2, [])"
    using sample_record by (auto simp: step_above_def intro: ts_record)
  then have "(step_above (trace_mark sample_recorder))\<^sup>*\<^sup>* (sample_recorder, []) (sample_recorder2, [])"
    by blast
  moreover have "rc_turn sample_recorder2 = rc_turn sample_recorder"
    by (simp add: sample_recorder2_def record_outcome_def sample_recorder_def Let_def)
  ultimately have "\<exists>r2. rollback (trace_mark sample_recorder) sample_recorder2 = Inr r2
      \<and> rc_records r2 = rc_records sample_recorder"
    using rollback_restores by blast
  then show ?thesis by (simp add: sample_recorder_def new_recorder_def)
qed

end
