(* ===== verification/Rng.thy ===== *)
theory Rng
  imports RngTrace BattleState
begin

text \<open>
  The random-number control layer (\<open>rng.py\<close>): luck profiles, their presets, the guard for events
  that were not injected, and the resolution of every kind of event. A resolution is a function on an
  environment \<open>rng_env\<close> that holds what the module keeps globally (the flattening \<open>\<epsilon>\<close>, the stack
  of warning counters, the warning log, the active recorder) and the stream of draws of Python's
  generator: \<open>re_unit n\<close> is the value of the \<open>n\<close>-th draw of \<open>random()\<close>, \<open>re_below n k\<close> the
  index that the \<open>n\<close>-th draw gives to \<open>choice\<close> among \<open>k\<close> options. Floats are rationals. The
  locale \<open>threshold_event\<close> states the contract the sweep's injection relies on.
\<close>

section \<open>Events and profiles\<close>

datatype rng_event =
    ACCURACY | CRIT | SECONDARY_FIRES | PROC_FIRES | DAMAGE_ROLL | PSYWAVE_ROLL | MULTI_HIT_COUNT
  | WAKE | CONFUSION_SNAP | DEFROST | CONFUSION_SELF_HIT | ATTRACT_IMMOBILIZE | FULL_PARALYSIS
  | FLINCH | QUICK_CLAW | ANCIENT_POWER_BOOST | BINDING_DURATION | RAMPAGE_DURATION
  | ACTION_SELECT | FORCED_SWITCH | POST_FAINT_SWITCH | METRONOME_MOVE | SLEEP_TALK_MOVE
  | ASSIST_MOVE | ACUPRESSURE_STAT | ROAR_TARGET | EFFECT_SPORE_WHICH | TRI_ATTACK_STATUS
  | MOODY_STATS | STARF_BERRY_STAT | SPEED_TIE | SPEED_TIEBREAKER | RANDOM_TARGET

datatype luck_group = LG_GOOD | LG_BAD | LG_AVERAGE | LG_RANDOM

record luck_profile =
  accuracy_threshold :: rat
  crit_threshold :: rat
  secondary_threshold :: rat
  proc_threshold :: rat
  damage_roll :: rat
  psywave_roll :: rat
  damage_rolls_per_hit :: "rat list option"
  crits_per_hit :: "rat list option"
  multi_hit_roll :: rat
  luck_tier :: int
  wake_threshold :: rat
  confusion_snap_threshold :: rat
  defrost_threshold :: rat
  confusion_self_hit_threshold :: rat
  attract_threshold :: rat
  paralysis_threshold :: rat
  binding_duration_roll :: rat
  rampage_duration_roll :: rat
  flinch_threshold :: rat
  quick_claw_threshold :: rat
  ancient_power_boost_threshold :: rat
  random_mode :: bool
  strict :: bool
  warn_uninjected :: bool
  injected :: "rng_event set"
  lp_side :: "sid option"

text \<open>The dataclass defaults.\<close>

definition default_luck :: luck_profile where
  "default_luck = \<lparr>
     accuracy_threshold = 50, crit_threshold = 50, secondary_threshold = 50, proc_threshold = 50,
     damage_roll = 1 / 2, psywave_roll = 1 / 2, damage_rolls_per_hit = None, crits_per_hit = None,
     multi_hit_roll = 1 / 2, luck_tier = 1, wake_threshold = 50, confusion_snap_threshold = 50,
     defrost_threshold = 20, confusion_self_hit_threshold = 50, attract_threshold = 50,
     paralysis_threshold = 50, binding_duration_roll = 1 / 2, rampage_duration_roll = 1 / 2,
     flinch_threshold = 50, quick_claw_threshold = 50, ancient_power_boost_threshold = 50,
     random_mode = False, strict = False, warn_uninjected = False, injected = {}, lp_side = None\<rparr>"

definition GOOD_LUCK :: luck_profile where
  "GOOD_LUCK = default_luck\<lparr>
     accuracy_threshold := 0, crit_threshold := 0, secondary_threshold := 0, proc_threshold := 0,
     damage_roll := 1, psywave_roll := 1, multi_hit_roll := 1, luck_tier := 2,
     wake_threshold := 0, confusion_snap_threshold := 0, defrost_threshold := 0,
     confusion_self_hit_threshold := 0, attract_threshold := 0, paralysis_threshold := 0,
     binding_duration_roll := 1, rampage_duration_roll := 1,
     flinch_threshold := 0, quick_claw_threshold := 0, ancient_power_boost_threshold := 0\<rparr>"

definition BAD_LUCK :: luck_profile where
  "BAD_LUCK = default_luck\<lparr>
     accuracy_threshold := 101, crit_threshold := 100, secondary_threshold := 101, proc_threshold := 101,
     damage_roll := 0, psywave_roll := 0, multi_hit_roll := 0, luck_tier := 0,
     wake_threshold := 101, confusion_snap_threshold := 101, defrost_threshold := 101,
     confusion_self_hit_threshold := 101, attract_threshold := 101, paralysis_threshold := 101,
     binding_duration_roll := 0, rampage_duration_roll := 0,
     flinch_threshold := 101, quick_claw_threshold := 101, ancient_power_boost_threshold := 101\<rparr>"

definition AVERAGE_LUCK :: luck_profile where
  "AVERAGE_LUCK = default_luck\<lparr>
     accuracy_threshold := 50, crit_threshold := 50, secondary_threshold := 50, proc_threshold := 50,
     damage_roll := 1, psywave_roll := 1 / 2, multi_hit_roll := 1 / 2, luck_tier := 1,
     wake_threshold := 50, confusion_snap_threshold := 50, defrost_threshold := 50,
     confusion_self_hit_threshold := 50, attract_threshold := 50, paralysis_threshold := 50,
     binding_duration_roll := 1 / 2, rampage_duration_roll := 1 / 2,
     flinch_threshold := 50, quick_claw_threshold := 50, ancient_power_boost_threshold := 50\<rparr>"

definition STRICT_LUCK :: luck_profile where
  "STRICT_LUCK = default_luck\<lparr>strict := True\<rparr>"

definition SWEEP_LUCK :: luck_profile where
  "SWEEP_LUCK = BAD_LUCK\<lparr>
     warn_uninjected := True, accuracy_threshold := 0, paralysis_threshold := 0,
     attract_threshold := 0, confusion_self_hit_threshold := 0,
     binding_duration_roll := 1, rampage_duration_roll := 1\<rparr>"

fun luck_group_to_profile :: "luck_group \<Rightarrow> luck_profile" where
  "luck_group_to_profile LG_GOOD = GOOD_LUCK"
| "luck_group_to_profile LG_BAD = BAD_LUCK"
| "luck_group_to_profile LG_AVERAGE = AVERAGE_LUCK"
| "luck_group_to_profile LG_RANDOM = default_luck\<lparr>random_mode := True\<rparr>"

section \<open>The environment\<close>

datatype outcome = OBool bool | OInt int | OFloat rat

text \<open>The rendered warning text is determined by the event and the side.\<close>

type_synonym warning = "rng_event \<times> sid option"

record rng_env =
  re_eps :: rat
  re_warn_stack :: "(warning \<times> nat) list list"
  re_warn_log :: "(warning \<times> nat option) list"
  re_recorder :: "(rng_event, outcome) trace_recorder option"
  re_unit :: "nat \<Rightarrow> rat"
  re_below :: "nat \<Rightarrow> nat \<Rightarrow> nat"
  re_pos :: nat

type_synonym 'a rng = "rng_env \<Rightarrow> ('a \<times> rng_env) res"

definition rng_return :: "'a \<Rightarrow> 'a rng" where
  "rng_return x env = Inr (x, env)"

definition rng_bind :: "'a rng \<Rightarrow> ('a \<Rightarrow> 'b rng) \<Rightarrow> 'b rng" where
  "rng_bind m f env = rbind (m env) (\<lambda>r. f (fst r) (snd r))"

definition set_flatten_eps :: "rat \<Rightarrow> unit rng" where
  "set_flatten_eps eps env =
     (if \<not> (0 \<le> eps \<and> eps \<le> 1) then Inl ValueError else Inr ((), env\<lparr>re_eps := eps\<rparr>))"

definition draw_unit :: "rat rng" where
  "draw_unit env = Inr (re_unit env (re_pos env), env\<lparr>re_pos := re_pos env + 1\<rparr>)"

definition draw_choice :: "'a list \<Rightarrow> 'a rng" where
  "draw_choice options env =
     rbind (lk options (re_below env (re_pos env) (length options))) (\<lambda>x.
       Inr (x, env\<lparr>re_pos := re_pos env + 1\<rparr>))"

text \<open>
  \<open>random.choices(options, weights=weights)[0]\<close>: the first option whose cumulative weight exceeds
  the drawn fraction of the total weight.
\<close>

fun pick_cumulative :: "'a list \<Rightarrow> rat list \<Rightarrow> rat \<Rightarrow> rat \<Rightarrow> 'a res" where
  "pick_cumulative [] ws acc u = Inl IndexError"
| "pick_cumulative [x] ws acc u = Inr x"
| "pick_cumulative (x # y # xs) [] acc u = Inl ValueError"
| "pick_cumulative (x # y # xs) (w # ws) acc u =
     (if u < acc + w then Inr x else pick_cumulative (y # xs) ws (acc + w) u)"

definition draw_weighted :: "'a list \<Rightarrow> rat list \<Rightarrow> 'a rng" where
  "draw_weighted options weights =
     rng_bind draw_unit (\<lambda>u env. rbind (pick_cumulative options weights 0 (u * sum_list weights)) (\<lambda>x. Inr (x, env)))"

definition maybe_record :: "rng_event \<Rightarrow> outcome \<Rightarrow> unit rng" where
  "maybe_record e out env = (case re_recorder env of
       None \<Rightarrow> Inr ((), env)
     | Some r \<Rightarrow> rbind (record_outcome e out r) (\<lambda>r'. Inr ((), env\<lparr>re_recorder := Some r'\<rparr>)))"

definition roll_bernoulli :: "rng_event \<Rightarrow> rat \<Rightarrow> bool rng" where
  "roll_bernoulli e chance env =
     (let flat = (\<lambda>env. if re_eps env > 0 \<and> 0 < chance \<and> chance < 100
                   then rbind (draw_unit env) (\<lambda>r. Inr (fst r < re_eps env, snd r))
                   else Inr (False, env))
      in rng_bind flat (\<lambda>b.
         rng_bind draw_unit (\<lambda>u.
           let out = (if b then u < 1 / 2 else u * 100 < chance)
           in rng_bind (maybe_record e (OBool out)) (\<lambda>_. rng_return out))) env)"

definition roll_categorical :: "rng_event \<Rightarrow> int list \<Rightarrow> rat list option \<Rightarrow> int rng" where
  "roll_categorical e options weights env =
     (if length options < 2 then Inl ValueError
      else let flat = (\<lambda>env. if re_eps env > 0
                        then rbind (draw_unit env) (\<lambda>r. Inr (fst r < re_eps env, snd r))
                        else Inr (False, env))
      in rng_bind flat (\<lambda>b.
         rng_bind (if b then draw_choice options
                   else case weights of Some ws \<Rightarrow> draw_weighted options ws | None \<Rightarrow> draw_choice options) (\<lambda>out.
         rng_bind (maybe_record e (OInt out)) (\<lambda>_. rng_return out))) env)"

definition roll_uniform :: "rng_event \<Rightarrow> rat rng" where
  "roll_uniform e = rng_bind draw_unit (\<lambda>u.
     rng_bind (maybe_record e (OFloat u)) (\<lambda>_. rng_return u))"

definition saturated :: "rat \<Rightarrow> bool \<Rightarrow> bool \<Rightarrow> bool option" where
  "saturated chance high low =
     (if chance \<ge> 100 then Some high else if chance \<le> 0 then Some low else None)"

section \<open>The guard for events that were not injected\<close>

text \<open>Counting a warning in the innermost counter: \<open>stack[-1][text] += 1\<close>.\<close>

fun bump :: "'k \<Rightarrow> ('k \<times> nat) list \<Rightarrow> ('k \<times> nat) list" where
  "bump k [] = [(k, 1)]"
| "bump k ((k', n) # c) = (if k = k' then (k', n + 1) # c else (k', n) # bump k c)"

definition strict_check :: "rng_event \<Rightarrow> luck_profile \<Rightarrow> bool rng" where
  "strict_check e p env =
     (if e \<in> injected p then Inr (False, env)
      else if strict p then Inl UninjectedRNGError
      else if warn_uninjected p then
        let w = (e, lp_side p) in
        (case re_warn_stack env of
           c # cs \<Rightarrow> Inr (True, env\<lparr>re_warn_stack := bump w c # cs\<rparr>)
         | [] \<Rightarrow> Inr (True, env\<lparr>re_warn_log := re_warn_log env @ [(w, None)]\<rparr>))
      else Inr (False, env))"

text \<open>
  The context manager \<open>aggregate_uninjected_warnings\<close>: it pushes an empty counter, runs the block,
  pops the counter and logs one line per text with its count. When the block raises, the exception
  goes on after the same flush; the environment of a failed computation is not modelled.
\<close>

definition flush_warnings :: "rng_env \<Rightarrow> rng_env" where
  "flush_warnings env = (case re_warn_stack env of
       [] \<Rightarrow> env
     | c # cs \<Rightarrow> env\<lparr>re_warn_stack := cs,
                    re_warn_log := re_warn_log env @ map (\<lambda>x. (fst x, Some (snd x))) c\<rparr>)"

definition aggregate_uninjected_warnings :: "'a rng \<Rightarrow> 'a rng" where
  "aggregate_uninjected_warnings block env =
     rbind (block (env\<lparr>re_warn_stack := [] # re_warn_stack env\<rparr>)) (\<lambda>r.
       Inr (fst r, flush_warnings (snd r)))"

section \<open>Resolution\<close>

text \<open>
  The tail that the resolutions share: the guard, then a draw in random mode, else the comparison
  of the chance with the profile's threshold.
\<close>

definition check_then :: "rng_event \<Rightarrow> luck_profile \<Rightarrow> 'a rng \<Rightarrow> 'a rng \<Rightarrow> 'a rng" where
  "check_then e p on_random otherwise =
     rng_bind (strict_check e p) (\<lambda>_. if random_mode p then on_random else otherwise)"

definition resolve_accuracy :: "rat option \<Rightarrow> luck_profile \<Rightarrow> bool rng" where
  "resolve_accuracy acc p = (case acc of
       None \<Rightarrow> rng_return True
     | Some a \<Rightarrow> if a \<ge> 100 then rng_return True
                 else if a \<le> 0 then rng_return False
                 else check_then ACCURACY p (roll_bernoulli ACCURACY a) (rng_return (a \<ge> accuracy_threshold p)))"

definition resolve_crit :: "rat \<Rightarrow> luck_profile \<Rightarrow> bool rng" where
  "resolve_crit chance p =
     (if chance \<le> 0 then rng_return False
      else if chance = 1 \<and> crit_threshold p \<le> 100 then rng_return True
      else check_then CRIT p (roll_bernoulli CRIT chance) (rng_return (chance \<ge> crit_threshold p)))"

definition resolve_secondary :: "rng_event option \<Rightarrow> rat \<Rightarrow> luck_profile \<Rightarrow> bool rng" where
  "resolve_secondary event chance p =
     (let e = (case event of None \<Rightarrow> SECONDARY_FIRES | Some e \<Rightarrow> e) in
      case saturated chance True False of
        Some b \<Rightarrow> rng_return b
      | None \<Rightarrow> check_then e p (roll_bernoulli e chance) (rng_return (chance \<ge> secondary_threshold p)))"

definition resolve_proc :: "rat \<Rightarrow> luck_profile \<Rightarrow> bool rng" where
  "resolve_proc chance p = (case saturated chance True False of
       Some b \<Rightarrow> rng_return b
     | None \<Rightarrow> check_then PROC_FIRES p (roll_bernoulli PROC_FIRES chance) (rng_return (chance \<ge> proc_threshold p)))"

definition resolve_damage_roll :: "luck_profile \<Rightarrow> rat rng" where
  "resolve_damage_roll p = check_then DAMAGE_ROLL p (roll_uniform DAMAGE_ROLL) (rng_return (damage_roll p))"

definition resolve_psywave_roll :: "luck_profile \<Rightarrow> rat rng" where
  "resolve_psywave_roll p = check_then PSYWAVE_ROLL p (roll_uniform PSYWAVE_ROLL) (rng_return (psywave_roll p))"

definition resolve_multi_hit :: "int \<Rightarrow> int \<Rightarrow> luck_profile \<Rightarrow> int rng" where
  "resolve_multi_hit min_hits max_hits p =
     (if min_hits = max_hits then rng_return min_hits
      else if min_hits = 2 \<and> max_hits = 5 then
        check_then MULTI_HIT_COUNT p
          (roll_categorical MULTI_HIT_COUNT [2, 3, 4, 5] (Some [35, 35, 15, 15]))
          (let r = multi_hit_roll p in
           rng_return (if r < 35 / 100 then 2 else if r < 70 / 100 then 3 else if r < 85 / 100 then 4 else 5))
      else check_then MULTI_HIT_COUNT p
          (roll_categorical MULTI_HIT_COUNT [min_hits..max_hits] None)
          (rng_return \<lfloor>of_int min_hits + multi_hit_roll p * of_int (max_hits - min_hits) + 1 / 2\<rfloor>))"

definition resolve_speed_tie_between :: "luck_profile \<Rightarrow> luck_profile \<Rightarrow> bool \<Rightarrow> bool rng" where
  "resolve_speed_tie_between a b a_is_player =
     (if random_mode a \<or> random_mode b then roll_bernoulli SPEED_TIE 50
      else if luck_tier a \<noteq> luck_tier b then rng_return (luck_tier a > luck_tier b)
      else rng_return a_is_player)"

definition resolve_wake :: "rat \<Rightarrow> luck_profile \<Rightarrow> bool rng" where
  "resolve_wake chance p = (case saturated chance True False of
       Some b \<Rightarrow> rng_return b
     | None \<Rightarrow> check_then WAKE p (roll_bernoulli WAKE chance) (rng_return (chance \<ge> wake_threshold p)))"

definition resolve_confusion_snap :: "rat \<Rightarrow> luck_profile \<Rightarrow> bool rng" where
  "resolve_confusion_snap chance p = (case saturated chance True False of
       Some b \<Rightarrow> rng_return b
     | None \<Rightarrow> check_then CONFUSION_SNAP p (roll_bernoulli CONFUSION_SNAP chance)
         (rng_return (chance \<ge> confusion_snap_threshold p)))"

definition resolve_defrost :: "rat \<Rightarrow> luck_profile \<Rightarrow> bool rng" where
  "resolve_defrost chance p = (case saturated chance True False of
       Some b \<Rightarrow> rng_return b
     | None \<Rightarrow> check_then DEFROST p (roll_bernoulli DEFROST chance) (rng_return (chance \<ge> defrost_threshold p)))"

definition CONFUSION_NO_SELF_HIT_CHANCE :: rat where
  "CONFUSION_NO_SELF_HIT_CHANCE = 667 / 10"

definition resolve_confusion_self_hit :: "luck_profile \<Rightarrow> bool rng" where
  "resolve_confusion_self_hit p =
     check_then CONFUSION_SELF_HIT p (roll_bernoulli CONFUSION_SELF_HIT CONFUSION_NO_SELF_HIT_CHANCE)
       (rng_return (CONFUSION_NO_SELF_HIT_CHANCE \<ge> confusion_self_hit_threshold p))"

text \<open>The negation of a draw, for the events whose chance is that of being blocked.\<close>

definition rng_not :: "bool rng \<Rightarrow> bool rng" where
  "rng_not m = rng_bind m (\<lambda>b. rng_return (\<not> b))"

definition resolve_attract :: "rat \<Rightarrow> luck_profile \<Rightarrow> bool rng" where
  "resolve_attract chance p = (case saturated chance False True of
       Some b \<Rightarrow> rng_return b
     | None \<Rightarrow> check_then ATTRACT_IMMOBILIZE p (rng_not (roll_bernoulli ATTRACT_IMMOBILIZE chance))
         (rng_return (chance \<ge> attract_threshold p)))"

definition resolve_paralysis :: "rat \<Rightarrow> luck_profile \<Rightarrow> bool rng" where
  "resolve_paralysis chance p = (case saturated chance False True of
       Some b \<Rightarrow> rng_return b
     | None \<Rightarrow> check_then FULL_PARALYSIS p (rng_not (roll_bernoulli FULL_PARALYSIS chance))
         (rng_return (chance \<ge> paralysis_threshold p)))"

abbreviation "Item_GRIP_CLAW \<equiv> (286::item)"

definition resolve_binding_duration :: "luck_profile \<Rightarrow> item option \<Rightarrow> int rng" where
  "resolve_binding_duration p attacker_item =
     (if attacker_item = Some Item_GRIP_CLAW then rng_return 7
      else check_then BINDING_DURATION p (roll_categorical BINDING_DURATION [4, 5] None)
        (rng_return (if binding_duration_roll p \<ge> 1 / 2 then 5 else 4)))"

definition resolve_rampage_duration :: "luck_profile \<Rightarrow> int rng" where
  "resolve_rampage_duration p =
     check_then RAMPAGE_DURATION p (roll_categorical RAMPAGE_DURATION [2, 3] None)
       (rng_return (if rampage_duration_roll p \<ge> 1 / 2 then 3 else 2))"

definition resolve_flinch :: "rat \<Rightarrow> luck_profile \<Rightarrow> bool rng" where
  "resolve_flinch chance p = (case saturated chance True False of
       Some b \<Rightarrow> rng_return b
     | None \<Rightarrow> check_then FLINCH p (roll_bernoulli FLINCH chance) (rng_return (chance \<ge> flinch_threshold p)))"

definition resolve_quick_claw :: "luck_profile \<Rightarrow> bool rng" where
  "resolve_quick_claw p =
     check_then QUICK_CLAW p (roll_bernoulli QUICK_CLAW 20) (rng_return (quick_claw_threshold p \<le> 20))"

definition resolve_ancient_power_boost :: "rat \<Rightarrow> luck_profile \<Rightarrow> bool rng" where
  "resolve_ancient_power_boost chance p = (case saturated chance True False of
       Some b \<Rightarrow> rng_return b
     | None \<Rightarrow> check_then ANCIENT_POWER_BOOST p (roll_bernoulli ANCIENT_POWER_BOOST chance)
         (rng_return (chance \<ge> ancient_power_boost_threshold p)))"

definition resolve_speed_tiebreaker :: "luck_profile \<Rightarrow> rat rng" where
  "resolve_speed_tiebreaker p =
     (if random_mode p then roll_uniform SPEED_TIEBREAKER else rng_return (of_int (luck_tier p)))"

definition resolve_random_target :: "int list \<Rightarrow> int rng" where
  "resolve_random_target foe_slots env =
     (case foe_slots of
        [] \<Rightarrow> Inl ValueError
      | [s] \<Rightarrow> Inr (s, env)
      | _ \<Rightarrow> roll_categorical RANDOM_TARGET foe_slots None env)"

section \<open>Lemmas\<close>

lemmas rng_simps = rng_return_def rng_bind_def check_then_def saturated_def

text \<open>What a resolution without a draw may change: the warnings only.\<close>

definition only_warns :: "rng_env \<Rightarrow> rng_env \<Rightarrow> bool" where
  "only_warns env env' \<longleftrightarrow> re_pos env' = re_pos env \<and> re_recorder env' = re_recorder env
     \<and> re_eps env' = re_eps env \<and> re_unit env' = re_unit env \<and> re_below env' = re_below env"

lemma only_warns_refl [simp]: "only_warns env env"
  by (simp add: only_warns_def)

lemma strict_check_cases:
  assumes "\<not> strict p"
  obtains b env' where "strict_check e p env = Inr (b, env')" "only_warns env env'"
proof -
  have "\<exists>b env'. strict_check e p env = Inr (b, env') \<and> only_warns env env'"
    using assms by (cases "re_warn_stack env") (auto simp: strict_check_def Let_def only_warns_def)
  then show thesis using that by blast
qed

lemma strict_check_strict: "strict p \<Longrightarrow> e \<notin> injected p \<Longrightarrow> strict_check e p env = Inl UninjectedRNGError"
  by (simp add: strict_check_def)

lemma check_then_plain:
  assumes "\<not> strict p" "\<not> random_mode p"
  shows "\<exists>env'. check_then e p m (rng_return x) env = Inr (x, env') \<and> only_warns env env'"
  using assms by (elim strict_check_cases[of p e env]) (auto simp: rng_simps)

lemma roll_bernoulli_recorded:
  assumes "re_recorder env = Some r" "rc_turn r \<noteq> None"
  shows "\<exists>b env' r'. roll_bernoulli e c env = Inr (b, env') \<and> re_recorder env' = Some r'
    \<and> record_outcome e (OBool b) r = Inr r'"
  using assms
  by (auto simp: roll_bernoulli_def rng_simps Let_def draw_unit_def maybe_record_def record_outcome_def)

lemma check_then_recorded:
  assumes "\<not> strict p" "random_mode p" "re_recorder env = Some r" "rc_turn r = Some t"
  shows "\<exists>b env'. check_then e p (roll_bernoulli e c) m env = Inr (b, env')
    \<and> (\<exists>r'. re_recorder env' = Some r' \<and> record_outcome e (OBool b) r = Inr r')"
proof -
  obtain x env1 where "strict_check e p env = Inr (x, env1)" "only_warns env env1"
    using assms(1) by (rule strict_check_cases)
  with assms roll_bernoulli_recorded[of env1 r e c] show ?thesis
    by (auto simp: rng_simps only_warns_def)
qed

lemma check_then_recorded_not:
  assumes "\<not> strict p" "random_mode p" "re_recorder env = Some r" "rc_turn r = Some t"
  shows "\<exists>b env'. check_then e p (rng_not (roll_bernoulli e c)) m env = Inr (b, env')
    \<and> (\<exists>r'. re_recorder env' = Some r' \<and> record_outcome e (OBool (\<not> b)) r = Inr r')"
proof -
  obtain x env1 where "strict_check e p env = Inr (x, env1)" "only_warns env env1"
    using assms(1) by (rule strict_check_cases)
  with assms roll_bernoulli_recorded[of env1 r e c] show ?thesis
    by (fastforce simp: rng_simps only_warns_def rng_not_def)
qed

section \<open>The contract of a threshold event\<close>

text \<open>
  What a caller that forces an outcome relies on: a threshold of 0 makes the event true, a threshold
  of 101 makes it false, without a draw.
\<close>

locale injectable_event =
  fixes resolve :: "rat \<Rightarrow> luck_profile \<Rightarrow> bool rng" and thr :: "luck_profile \<Rightarrow> rat"
  assumes force_true: "0 < c \<Longrightarrow> c < 100 \<Longrightarrow> \<not> strict p \<Longrightarrow> \<not> random_mode p \<Longrightarrow> thr p = 0
      \<Longrightarrow> \<exists>env'. resolve c p env = Inr (True, env') \<and> only_warns env env'"
    and force_false: "0 < c \<Longrightarrow> c < 100 \<Longrightarrow> \<not> strict p \<Longrightarrow> \<not> random_mode p \<Longrightarrow> thr p = 101
      \<Longrightarrow> \<exists>env'. resolve c p env = Inr (False, env') \<and> only_warns env env'"
begin

lemma force:
  assumes "0 < c" "c < 100" "\<not> strict p" "\<not> random_mode p" "thr p = (if b then 0 else 101)"
  shows "\<exists>env'. resolve c p env = Inr (b, env') \<and> only_warns env env'"
  using assms force_true[of c p env] force_false[of c p env] by (cases b) auto

end

text \<open>
  The full contract: the outcome is the comparison of the chance with the threshold, a strict
  profile refuses an event that was not injected, and in random mode exactly one record is made, of
  the draw, which is the outcome itself or (for the events whose chance is that of being blocked) its
  negation.
\<close>

locale threshold_event =
  fixes resolve :: "rat \<Rightarrow> luck_profile \<Rightarrow> bool rng" and thr :: "luck_profile \<Rightarrow> rat"
    and ev :: rng_event and blocks :: bool
  assumes compare: "0 < c \<Longrightarrow> c < 100 \<Longrightarrow> \<not> strict p \<Longrightarrow> \<not> random_mode p
      \<Longrightarrow> \<exists>env'. resolve c p env = Inr (thr p \<le> c, env') \<and> only_warns env env'"
    and refused: "0 < c \<Longrightarrow> c < 100 \<Longrightarrow> strict p \<Longrightarrow> ev \<notin> injected p
      \<Longrightarrow> resolve c p env = Inl UninjectedRNGError"
    and recorded: "0 < c \<Longrightarrow> c < 100 \<Longrightarrow> \<not> strict p \<Longrightarrow> random_mode p
      \<Longrightarrow> re_recorder env = Some r \<Longrightarrow> rc_turn r \<noteq> None
      \<Longrightarrow> \<exists>b env' r'. resolve c p env = Inr (b, env') \<and> re_recorder env' = Some r'
            \<and> record_outcome ev (OBool (b \<noteq> blocks)) r = Inr r'"

sublocale threshold_event \<subseteq> injectable_event resolve thr
  by unfold_locales (use compare in fastforce)+

lemma saturated_mid: "0 < c \<Longrightarrow> c < 100 \<Longrightarrow> saturated c h l = None"
  by (simp add: saturated_def)

lemma check_then_refused:
  "strict p \<Longrightarrow> e \<notin> injected p \<Longrightarrow> check_then e p m m' env = Inl UninjectedRNGError"
  by (simp add: rng_simps strict_check_strict)

interpretation accuracy: threshold_event "\<lambda>c. resolve_accuracy (Some c)" accuracy_threshold ACCURACY False
  by unfold_locales (auto simp: resolve_accuracy_def check_then_plain check_then_refused check_then_recorded)

interpretation secondary: threshold_event "resolve_secondary None" secondary_threshold SECONDARY_FIRES False
  by unfold_locales (auto simp: resolve_secondary_def saturated_mid check_then_plain check_then_refused check_then_recorded)

interpretation proc: threshold_event resolve_proc proc_threshold PROC_FIRES False
  by unfold_locales (auto simp: resolve_proc_def saturated_mid check_then_plain check_then_refused check_then_recorded)

interpretation wake: threshold_event resolve_wake wake_threshold WAKE False
  by unfold_locales (auto simp: resolve_wake_def saturated_mid check_then_plain check_then_refused check_then_recorded)

interpretation snap: threshold_event resolve_confusion_snap confusion_snap_threshold CONFUSION_SNAP False
  by unfold_locales (auto simp: resolve_confusion_snap_def saturated_mid check_then_plain check_then_refused check_then_recorded)

interpretation defrost: threshold_event resolve_defrost defrost_threshold DEFROST False
  by unfold_locales (auto simp: resolve_defrost_def saturated_mid check_then_plain check_then_refused check_then_recorded)

interpretation attract: threshold_event resolve_attract attract_threshold ATTRACT_IMMOBILIZE True
  by unfold_locales (auto simp: resolve_attract_def saturated_mid check_then_plain check_then_refused check_then_recorded_not)

interpretation paralysis: threshold_event resolve_paralysis paralysis_threshold FULL_PARALYSIS True
  by unfold_locales (auto simp: resolve_paralysis_def saturated_mid check_then_plain check_then_refused check_then_recorded_not)

interpretation flinch: threshold_event resolve_flinch flinch_threshold FLINCH False
  by unfold_locales (auto simp: resolve_flinch_def saturated_mid check_then_plain check_then_refused check_then_recorded)

interpretation ancient: threshold_event resolve_ancient_power_boost ancient_power_boost_threshold ANCIENT_POWER_BOOST False
  by unfold_locales (auto simp: resolve_ancient_power_boost_def saturated_mid check_then_plain check_then_refused check_then_recorded)

lemma resolve_crit_forced:
  assumes "0 < c" "\<not> strict p" "\<not> random_mode p" "crit_threshold p = (if b then 0 else 101)" "c < 100"
  shows "\<exists>env'. resolve_crit c p env = Inr (b, env') \<and> only_warns env env'"
proof (cases "c = 1 \<and> b")
  case True
  then show ?thesis using assms by (auto simp: resolve_crit_def rng_return_def)
next
  case False
  with assms have "resolve_crit c p = check_then CRIT p (roll_bernoulli CRIT c) (rng_return b)"
    by (auto simp: resolve_crit_def)
  with check_then_plain[OF assms(2,3)] show ?thesis by simp
qed

interpretation crit: injectable_event resolve_crit crit_threshold
  by unfold_locales (use resolve_crit_forced[of _ _ True] resolve_crit_forced[of _ _ False] in simp)+

interpretation self_hit: injectable_event "\<lambda>_. resolve_confusion_self_hit" confusion_self_hit_threshold
  by unfold_locales
    (use check_then_plain in \<open>fastforce simp: resolve_confusion_self_hit_def CONFUSION_NO_SELF_HIT_CHANCE_def\<close>)+

interpretation claw: injectable_event "\<lambda>_. resolve_quick_claw" quick_claw_threshold
  by unfold_locales (use check_then_plain in \<open>fastforce simp: resolve_quick_claw_def\<close>)+

text \<open>The resolution of each event with a yes-or-no outcome.\<close>

fun bool_resolver :: "rng_event \<Rightarrow> (rat \<Rightarrow> luck_profile \<Rightarrow> bool rng) option" where
  "bool_resolver ACCURACY = Some (\<lambda>c. resolve_accuracy (Some c))"
| "bool_resolver CRIT = Some resolve_crit"
| "bool_resolver SECONDARY_FIRES = Some (resolve_secondary None)"
| "bool_resolver PROC_FIRES = Some resolve_proc"
| "bool_resolver WAKE = Some resolve_wake"
| "bool_resolver CONFUSION_SNAP = Some resolve_confusion_snap"
| "bool_resolver DEFROST = Some resolve_defrost"
| "bool_resolver CONFUSION_SELF_HIT = Some (\<lambda>_. resolve_confusion_self_hit)"
| "bool_resolver ATTRACT_IMMOBILIZE = Some resolve_attract"
| "bool_resolver FULL_PARALYSIS = Some resolve_paralysis"
| "bool_resolver FLINCH = Some resolve_flinch"
| "bool_resolver QUICK_CLAW = Some (\<lambda>_. resolve_quick_claw)"
| "bool_resolver _ = None"

text \<open>The field of the profile that decides each of them.\<close>

fun event_threshold :: "rng_event \<Rightarrow> luck_profile \<Rightarrow> rat" where
  "event_threshold ACCURACY = accuracy_threshold"
| "event_threshold CRIT = crit_threshold"
| "event_threshold SECONDARY_FIRES = secondary_threshold"
| "event_threshold PROC_FIRES = proc_threshold"
| "event_threshold WAKE = wake_threshold"
| "event_threshold CONFUSION_SNAP = confusion_snap_threshold"
| "event_threshold DEFROST = defrost_threshold"
| "event_threshold CONFUSION_SELF_HIT = confusion_self_hit_threshold"
| "event_threshold ATTRACT_IMMOBILIZE = attract_threshold"
| "event_threshold FULL_PARALYSIS = paralysis_threshold"
| "event_threshold FLINCH = flinch_threshold"
| "event_threshold QUICK_CLAW = quick_claw_threshold"
| "event_threshold _ = (\<lambda>_. 0)"

lemma forced_resolution:
  assumes "bool_resolver e = Some f" "0 < c" "c < 100" "\<not> strict p" "\<not> random_mode p"
    and "event_threshold e p = (if b then 0 else 101)"
  shows "\<exists>env'. f c p env = Inr (b, env') \<and> only_warns env env'"
  using assms(1,6)
  by (cases e)
    (auto intro!: accuracy.force[OF assms(2-5)] crit.force[OF assms(2-5)] secondary.force[OF assms(2-5)]
      proc.force[OF assms(2-5)] wake.force[OF assms(2-5)] snap.force[OF assms(2-5)]
      defrost.force[OF assms(2-5)] self_hit.force[OF assms(2-5)] attract.force[OF assms(2-5)]
      paralysis.force[OF assms(2-5)] flinch.force[OF assms(2-5)] claw.force[OF assms(2-5)])

section \<open>Properties\<close>

text \<open>
  The sweep's base profile is silent. Under \<open>SWEEP_LUCK\<close> every event with a chance strictly
  between 0 and 100 resolves to the outcome that the game shows no message for: the move hits, there is no
  critical hit (a chance of exactly 1 is the engine's marker of a guaranteed one), no secondary effect, proc, flinch or quick claw
  fires, no mon wakes, thaws or snaps out, and a paralysed, infatuated or confused mon acts; binding and rampage get their longest duration.
  Nothing is drawn and nothing is recorded.
\<close>

theorem sweep_luck_silent:
  assumes "0 < c" "c < 100" "bool_resolver e = Some f" "e = CRIT \<longrightarrow> c \<noteq> 1"
  shows "(\<exists>env'. f c SWEEP_LUCK env =
        Inr (e \<in> {ACCURACY, FULL_PARALYSIS, ATTRACT_IMMOBILIZE, CONFUSION_SELF_HIT}, env') \<and> only_warns env env')
    \<and> (\<exists>env'. resolve_binding_duration SWEEP_LUCK None env = Inr (5, env') \<and> only_warns env env')
    \<and> (\<exists>env'. resolve_rampage_duration SWEEP_LUCK env = Inr (3, env') \<and> only_warns env env')"
proof -
  have sw: "\<not> strict SWEEP_LUCK" "\<not> random_mode SWEEP_LUCK"
    by (simp_all add: SWEEP_LUCK_def BAD_LUCK_def default_luck_def)
  have dur: "\<exists>env'. resolve_binding_duration SWEEP_LUCK None env = Inr (5, env') \<and> only_warns env env'"
    "\<exists>env'. resolve_rampage_duration SWEEP_LUCK env = Inr (3, env') \<and> only_warns env env'"
    using check_then_plain[OF sw]
    by (simp_all add: resolve_binding_duration_def resolve_rampage_duration_def)
      (simp_all add: SWEEP_LUCK_def)
  have "\<exists>env'. f c SWEEP_LUCK env =
        Inr (e \<in> {ACCURACY, FULL_PARALYSIS, ATTRACT_IMMOBILIZE, CONFUSION_SELF_HIT}, env') \<and> only_warns env env'"
  proof (cases "e = CRIT")
    case True
    with assms have "resolve_crit c SWEEP_LUCK = check_then CRIT SWEEP_LUCK (roll_bernoulli CRIT c) (rng_return False)"
      by (simp add: resolve_crit_def) (simp add: SWEEP_LUCK_def BAD_LUCK_def)
    with True assms check_then_plain[OF sw] show ?thesis by auto
  next
    case False
    then have "event_threshold e SWEEP_LUCK =
        (if e \<in> {ACCURACY, FULL_PARALYSIS, ATTRACT_IMMOBILIZE, CONFUSION_SELF_HIT} then 0 else 101)"
      using assms(3) by (cases e) (simp_all add: SWEEP_LUCK_def BAD_LUCK_def)
    with forced_resolution[OF assms(3,1,2) sw] show ?thesis by blast
  qed
  with dur show ?thesis by blast
qed

definition quiet_env :: rng_env where
  "quiet_env = \<lparr>re_eps = 0, re_warn_stack = [], re_warn_log = [], re_recorder = None,
     re_unit = (\<lambda>_. 1 / 2), re_below = (\<lambda>_ _. 0), re_pos = 0\<rparr>"

theorem sweep_luck_silent_witness:
  "\<exists>env'. resolve_flinch 30 SWEEP_LUCK quiet_env = Inr (False, env') \<and> re_pos env' = 0"
  using sweep_luck_silent[of 30 FLINCH resolve_flinch quiet_env]
  by (auto simp: only_warns_def quiet_env_def)

text \<open>
  A random draw is recorded exactly once, under the name of its event. In random mode with a
  recording active, each yes-or-no resolution with a chance strictly between 0 and 100 extends the
  trace by one record of the event, whose outcome is the draw: the result itself, or its negation
  for the two events whose chance is that of being blocked.
\<close>

theorem random_resolution_recorded:
  assumes "bool_resolver e = Some f" "e \<notin> {CRIT, CONFUSION_SELF_HIT, QUICK_CLAW}" "0 < c" "c < 100"
    and "\<not> strict p" "random_mode p" "re_recorder env = Some r" "rc_turn r \<noteq> None"
  shows "\<exists>b env' r'. f c p env = Inr (b, env') \<and> re_recorder env' = Some r'
    \<and> record_outcome e (OBool (b \<noteq> (e \<in> {ATTRACT_IMMOBILIZE, FULL_PARALYSIS}))) r = Inr r'
    \<and> length (rc_records r') = length (rc_records r) + 1"
proof -
  have len: "length (rc_records r') = length (rc_records r) + 1" if "record_outcome e x r = Inr r'" for x r'
    using that by (auto simp: record_outcome_def Let_def split: option.splits)
  have "\<exists>b env' r'. f c p env = Inr (b, env') \<and> re_recorder env' = Some r'
      \<and> record_outcome e (OBool (b \<noteq> (e \<in> {ATTRACT_IMMOBILIZE, FULL_PARALYSIS}))) r = Inr r'"
    using assms(1,2)
      accuracy.recorded[OF assms(3-8)] secondary.recorded[OF assms(3-8)] proc.recorded[OF assms(3-8)]
      wake.recorded[OF assms(3-8)] snap.recorded[OF assms(3-8)] defrost.recorded[OF assms(3-8)]
      attract.recorded[OF assms(3-8)] paralysis.recorded[OF assms(3-8)] flinch.recorded[OF assms(3-8)]
    by (cases e) (simp_all, blast+)
  with len show ?thesis by blast
qed

definition recording_env :: rng_env where
  "recording_env = quiet_env\<lparr>re_recorder := Some (new_recorder\<lparr>rc_turn := Some 1\<rparr>)\<rparr>"

theorem random_resolution_recorded_witness:
  "\<exists>b env' r'. resolve_wake 30 (luck_group_to_profile LG_RANDOM) recording_env = Inr (b, env')
     \<and> re_recorder env' = Some r' \<and> length (rc_records r') = 1"
proof -
  let ?r = "new_recorder\<lparr>rc_turn := Some 1\<rparr> :: (rng_event, outcome) trace_recorder"
  have p: "\<not> strict (luck_group_to_profile LG_RANDOM)" "random_mode (luck_group_to_profile LG_RANDOM)"
    by (simp_all add: default_luck_def)
  have r: "re_recorder recording_env = Some ?r" "rc_turn ?r \<noteq> None" "rc_records ?r = []"
    by (simp_all add: recording_env_def new_recorder_def)
  from random_resolution_recorded[of WAKE resolve_wake 30 "luck_group_to_profile LG_RANDOM" recording_env ?r] p r
  show ?thesis by (auto simp del: luck_group_to_profile.simps)
qed

definition hits_of :: "int \<Rightarrow> int \<Rightarrow> rat \<Rightarrow> int" where
  "hits_of lo hi r =
     (if lo = hi then lo
      else if lo = 2 \<and> hi = 5 then (if r < 35 / 100 then 2 else if r < 70 / 100 then 3 else if r < 85 / 100 then 4 else 5)
      else \<lfloor>of_int lo + r * of_int (hi - lo) + 1 / 2\<rfloor>)"

lemma resolve_multi_hit_plain:
  assumes "\<not> strict p" "\<not> random_mode p"
  shows "\<exists>env'. resolve_multi_hit lo hi p env = Inr (hits_of lo hi (multi_hit_roll p), env') \<and> only_warns env env'"
  using check_then_plain[OF assms]
  by (auto simp: resolve_multi_hit_def hits_of_def Let_def rng_return_def only_warns_def)

lemma hits_of_mono:
  assumes "lo \<le> hi" "r \<le> r'"
  shows "hits_of lo hi r \<le> hits_of lo hi r'"
proof -
  have "r * of_int (hi - lo) \<le> r' * of_int (hi - lo)"
    using assms by (intro mult_right_mono) auto
  then have "\<lfloor>of_int lo + r * of_int (hi - lo) + 1 / 2\<rfloor> \<le> \<lfloor>of_int lo + r' * of_int (hi - lo) + 1 / 2\<rfloor>"
    by (intro floor_mono) simp
  with assms show ?thesis by (auto simp: hits_of_def)
qed

lemma hits_of_ends: "hits_of lo hi 0 = lo" "hits_of lo hi 1 = hi"
  by (auto simp: hits_of_def floor_eq_iff)

text \<open>
  The number of hits of a multi-hit move is within its range. For a roll between 0 and 1 the
  result lies between the minimum and the maximum; in the standard range 2 to 5 the four outcomes
  are the intervals of the roll with the lengths 35, 35, 15 and 15 percent; a roll of 0 gives the
  minimum and a roll of 1 the maximum; and a larger roll never gives fewer hits.
\<close>

theorem multi_hit_in_range:
  assumes "\<not> strict p" "\<not> random_mode p" "lo \<le> hi" "0 \<le> multi_hit_roll p" "multi_hit_roll p \<le> 1"
  shows "\<exists>n env'. resolve_multi_hit lo hi p env = Inr (n, env') \<and> lo \<le> n \<and> n \<le> hi
    \<and> (multi_hit_roll p = 0 \<longrightarrow> n = lo) \<and> (multi_hit_roll p = 1 \<longrightarrow> n = hi)
    \<and> (\<forall>r. multi_hit_roll p \<le> r \<longrightarrow> (\<exists>m env''. resolve_multi_hit lo hi (p\<lparr>multi_hit_roll := r\<rparr>) env = Inr (m, env'') \<and> n \<le> m))"
proof -
  let ?n = "hits_of lo hi (multi_hit_roll p)"
  obtain env' where run: "resolve_multi_hit lo hi p env = Inr (?n, env')"
    using resolve_multi_hit_plain[OF assms(1,2)] by blast
  have "lo \<le> ?n" "?n \<le> hi"
    using hits_of_mono[OF assms(3,4)] hits_of_mono[OF assms(3,5)] hits_of_ends[of lo hi] by simp_all
  moreover have "\<exists>m env''. resolve_multi_hit lo hi (p\<lparr>multi_hit_roll := r\<rparr>) env = Inr (m, env'') \<and> ?n \<le> m"
    if "multi_hit_roll p \<le> r" for r
    using resolve_multi_hit_plain[of "p\<lparr>multi_hit_roll := r\<rparr>" lo hi env] assms(1,2)
      hits_of_mono[OF assms(3) that] by auto
  ultimately show ?thesis using run hits_of_ends[of lo hi] by auto
qed

theorem multi_hit_in_range_witness:
  "\<exists>n env'. resolve_multi_hit 2 5 AVERAGE_LUCK quiet_env = Inr (n, env') \<and> 2 \<le> n \<and> n \<le> 5"
proof -
  have "\<not> strict AVERAGE_LUCK" "\<not> random_mode AVERAGE_LUCK" "0 \<le> multi_hit_roll AVERAGE_LUCK"
    "multi_hit_roll AVERAGE_LUCK \<le> 1"
    by (simp_all add: AVERAGE_LUCK_def default_luck_def)
  from multi_hit_in_range[OF this(1,2) _ this(3,4), of 2 5 quiet_env] show ?thesis by auto
qed

fun warn_all :: "rng_event list \<Rightarrow> luck_profile \<Rightarrow> unit rng" where
  "warn_all [] p = rng_return ()"
| "warn_all (e # es) p = rng_bind (strict_check e p) (\<lambda>_. warn_all es p)"

lemma bump_keys: "fst ` set (bump k c) = insert k (fst ` set c)"
  by (induction k c rule: bump.induct) auto

lemma bump_distinct: "distinct (map fst c) \<Longrightarrow> distinct (map fst (bump k c))"
  by (induction k c rule: bump.induct) (auto simp: bump_keys)

lemma bump_sum: "sum_list (map snd (bump k c)) = sum_list (map snd c) + 1"
  by (induction k c rule: bump.induct) auto

lemma warn_all_counts:
  assumes "\<not> strict p" "warn_uninjected p" "\<forall>e \<in> set es. e \<notin> injected p" "re_warn_stack env = c # cs"
    and "distinct (map fst c)"
  shows "\<exists>env' c'. warn_all es p env = Inr ((), env') \<and> re_warn_stack env' = c' # cs \<and> re_warn_log env' = re_warn_log env
    \<and> distinct (map fst c') \<and> sum_list (map snd c') = sum_list (map snd c) + length es
    \<and> set (map fst c') = set (map fst c) \<union> (\<lambda>e. (e, lp_side p)) ` set es"
  using assms(3-5)
proof (induction es arbitrary: env c)
  case Nil
  then show ?case by (simp add: rng_return_def)
next
  case (Cons e es)
  let ?c = "bump (e, lp_side p) c" and ?env = "env\<lparr>re_warn_stack := bump (e, lp_side p) c # cs\<rparr>"
  have step: "strict_check e p env = Inr (True, ?env)"
    using Cons.prems assms(1,2) by (simp add: strict_check_def)
  have "\<exists>env' c'. warn_all es p ?env = Inr ((), env') \<and> re_warn_stack env' = c' # cs \<and> re_warn_log env' = re_warn_log ?env
    \<and> distinct (map fst c') \<and> sum_list (map snd c') = sum_list (map snd ?c) + length es
    \<and> set (map fst c') = set (map fst ?c) \<union> (\<lambda>e. (e, lp_side p)) ` set es"
    using Cons.prems bump_distinct by (intro Cons.IH) auto
  then show ?case using step bump_keys[of "(e, lp_side p)" c] by (auto simp: rng_bind_def bump_sum)
qed

text \<open>
  The aggregation of warnings loses none. A block that only counts warnings in the innermost
  counter leaves, after the context is closed, the stack of counters as it was, and the log grows
  by one line per distinct warning, whose counts add up to the number of warnings of the block.
\<close>

theorem warnings_aggregated:
  assumes "\<not> strict p" "warn_uninjected p" "\<forall>e \<in> set es. e \<notin> injected p"
  shows "\<exists>env' lines. aggregate_uninjected_warnings (warn_all es p) env = Inr ((), env')
    \<and> re_warn_stack env' = re_warn_stack env
    \<and> re_warn_log env' = re_warn_log env @ map (\<lambda>x. (fst x, Some (snd x))) lines
    \<and> distinct (map fst lines) \<and> set (map fst lines) = (\<lambda>e. (e, lp_side p)) ` set es
    \<and> sum_list (map snd lines) = length es"
proof -
  let ?env = "env\<lparr>re_warn_stack := [] # re_warn_stack env\<rparr>"
  obtain env' c' where "warn_all es p ?env = Inr ((), env')" "re_warn_stack env' = c' # re_warn_stack env"
    "re_warn_log env' = re_warn_log env" "distinct (map fst c')" "sum_list (map snd c') = length es"
    "set (map fst c') = (\<lambda>e. (e, lp_side p)) ` set es"
    using warn_all_counts[OF assms, of ?env "[]" "re_warn_stack env"] by auto
  then show ?thesis
    by (auto simp: aggregate_uninjected_warnings_def flush_warnings_def)
qed

theorem warnings_aggregated_witness:
  "\<exists>env' lines. aggregate_uninjected_warnings (warn_all [WAKE, FLINCH, WAKE] SWEEP_LUCK) quiet_env = Inr ((), env')
    \<and> sum_list (map snd lines) = 3 \<and> re_warn_log env' = map (\<lambda>x. (fst x, Some (snd x))) lines"
proof -
  have "\<not> strict SWEEP_LUCK" "warn_uninjected SWEEP_LUCK" "\<forall>e \<in> set [WAKE, FLINCH, WAKE]. e \<notin> injected SWEEP_LUCK"
    by (simp_all add: SWEEP_LUCK_def BAD_LUCK_def default_luck_def)
  from warnings_aggregated[OF this, of quiet_env] obtain env' ls where
    "aggregate_uninjected_warnings (warn_all [WAKE, FLINCH, WAKE] SWEEP_LUCK) quiet_env = Inr ((), env')"
    "re_warn_log env' = re_warn_log quiet_env @ map (\<lambda>x. (fst x, Some (snd x))) ls"
    "sum_list (map snd ls) = length [WAKE, FLINCH, WAKE]"
    by blast
  moreover from this(3) have "sum_list (map snd ls) = 3" by simp
  ultimately show ?thesis by (intro exI[of _ env'] exI[of _ ls]) (simp add: quiet_env_def)
qed

end
