(* ===== verification/Candidates.thy ===== *)
theory Candidates
  imports Names Rng "HOL-Library.Sublist"
begin

text \<open>
  The data that flows through the sweep: matched messages (\<open>battle_types.py\<close>), the predicates on
  them that the sweep modules share (\<open>sweep_common.py\<close>), candidates (\<open>candidate.py\<close>) and the
  pool that keeps them across turns (\<open>candidate_tracker.py\<close>). Where the code compares objects by
  identity (\<open>id(msg)\<close>, \<open>id(candidate)\<close>), the object carries an explicit identity field; equality
  with \<open>==\<close> is that of the contents.
\<close>

section \<open>Messages\<close>

record match_result =
  mr_oid :: nat
  mr_string_id :: string
  mr_id_value :: int
  mr_constant_name :: string
  mr_var_values :: "string list"
  mr_score :: int
  mr_context_score :: int
  mr_matched_text :: string
  mr_slot_labels :: "string list"
  mr_literal_coverage :: rat
  mr_side_hint :: "sid option"
  mr_name_side_slots :: "(nat \<times> sid) list"
  mr_metronome_called :: "move option"

text \<open>\<open>a == b\<close> on messages: every field but the identity.\<close>

definition mr_same :: "match_result \<Rightarrow> match_result \<Rightarrow> bool" where
  "mr_same a b \<longleftrightarrow> a\<lparr>mr_oid := 0\<rparr> = b\<lparr>mr_oid := 0\<rparr>"

definition side_of_name_slot :: "match_result \<Rightarrow> nat \<Rightarrow> sid option" where
  "side_of_name_slot m k = map_of (mr_name_side_slots m) k"

record constraints =
  cn_valid_pokemon :: "string list option"
  cn_valid_moves :: "string list option"
  cn_valid_items :: "string list option"
  cn_valid_abilities :: "string list option"
  cn_trainer_name :: "string option"
  cn_trainer_class :: "string option"
  cn_unconstrained_moves :: bool
  cn_unconstrained_names :: bool

record action_group =
  ag_primary :: match_result
  ag_secondaries :: "match_result list"
  ag_hp_readings :: "hp_reading list"

definition plain_message :: "string \<Rightarrow> string list \<Rightarrow> string \<Rightarrow> sid option \<Rightarrow> match_result" where
  "plain_message s vars text hint = \<lparr>mr_oid = 0, mr_string_id = s, mr_id_value = 0, mr_constant_name = [],
     mr_var_values = vars, mr_score = 0, mr_context_score = 0, mr_matched_text = text,
     mr_slot_labels = [], mr_literal_coverage = 1, mr_side_hint = hint, mr_name_side_slots = [],
     mr_metronome_called = None\<rparr>"

text \<open>\<open>s.lower()\<close> of ASCII letters, and \<open>s.startswith(p)\<close>.\<close>

definition lower_char :: "char \<Rightarrow> char" where
  "lower_char c = (let n = (of_char c :: nat) in if 65 \<le> n \<and> n \<le> 90 then char_of (n + 32) else c)"

definition lower :: "string \<Rightarrow> string" where
  "lower = map lower_char"

definition starts_with :: "string \<Rightarrow> string \<Rightarrow> bool" where
  "starts_with s p \<longleftrightarrow> take (length p) s = p"

definition msg_is_foe :: "match_result \<Rightarrow> bool" where
  "msg_is_foe m = starts_with (lower (strip (mr_matched_text m))) ''foe ''"

text \<open>\<open>1 if _msg_is_foe(msg) else 0\<close>.\<close>

definition msg_side :: "match_result \<Rightarrow> sid" where
  "msg_side m = (if msg_is_foe m then P1 else P0)"

definition SPREAD_TARGETS :: "move_target list" where
  "SPREAD_TARGETS = [MT_ALL_ADJACENT_FOES, MT_ALL_ADJACENT, MT_ALL]"

definition move_is_spread :: "game_data \<Rightarrow> move option \<Rightarrow> bool" where
  "move_is_spread gd mv = (case mv of
       None \<Rightarrow> False
     | Some m \<Rightarrow> (case gd_moves gd m of None \<Rightarrow> False | Some md \<Rightarrow> md_target md \<in> set SPREAD_TARGETS))"

text \<open>
  \<open>int(s)\<close>: surrounding blanks are dropped, a sign is allowed, and single underscores may stand
  between digits; anything else is an error.
\<close>

definition digit_value :: "char \<Rightarrow> int option" where
  "digit_value c = (let n = (of_char c :: nat) in if 48 \<le> n \<and> n \<le> 57 then Some (int n - 48) else None)"

fun parse_digits :: "string \<Rightarrow> int \<Rightarrow> int option" where
  "parse_digits [] acc = Some acc"
| "parse_digits (c # cs) acc = (case digit_value c of
       Some d \<Rightarrow> parse_digits cs (acc * 10 + d)
     | None \<Rightarrow> if c = CHR ''_'' then
           (case cs of [] \<Rightarrow> None
            | d # ds \<Rightarrow> (case digit_value d of None \<Rightarrow> None | Some v \<Rightarrow> parse_digits ds (acc * 10 + v)))
         else None)"

fun parse_unsigned :: "string \<Rightarrow> int option" where
  "parse_unsigned [] = None"
| "parse_unsigned (c # cs) = (case digit_value c of None \<Rightarrow> None | Some d \<Rightarrow> parse_digits cs d)"

definition parse_int :: "string \<Rightarrow> int res" where
  "parse_int s = (case (case strip s of
         [] \<Rightarrow> None
       | c # cs \<Rightarrow> if c = CHR ''-'' then map_option uminus (parse_unsigned cs)
                   else if c = CHR ''+'' then parse_unsigned cs
                   else parse_unsigned (c # cs)) of
     None \<Rightarrow> Inl ValueError | Some n \<Rightarrow> Inr n)"

section \<open>Candidates\<close>

text \<open>
  The roll and the crit decided for one mover: a scalar for a single hit, one entry per hit for a
  multi-hit move (crits per hit are thresholds).
\<close>

datatype roll_entry = Roll rat | Rolls "rat list"
datatype crit_entry = Crit bool | Crits "rat list"

datatype rng_value = RV_roll roll_entry | RV_crit crit_entry | RV_side sid

text \<open>What a side does in a turn: nothing, one action, or one entry per active slot.\<close>

datatype side_action = NoAct | One action | Many "action option list"

record candidate =
  ca_id :: nat
  ca_state :: battle_state
  ca_rng_sequence :: "(rng_event \<times> rng_value) list"
  ca_unknown_actions :: "(sid \<times> side_action) list"
  ca_parent :: "nat option"

record partial_candidate =
  pc_rolls :: "roll_entry list"
  pc_crits :: "crit_entry list"
  pc_mover_iteration :: nat

section \<open>The tracker\<close>

type_synonym tracker = "candidate list"

definition new_tracker :: "candidate list \<Rightarrow> tracker" where
  "new_tracker initial = initial"

definition tk_candidates :: "tracker \<Rightarrow> candidate list" where
  "tk_candidates t = t"

definition is_resolved :: "tracker \<Rightarrow> bool" where
  "is_resolved t \<longleftrightarrow> length t = 1"

definition tk_update :: "tracker \<Rightarrow> candidate list \<Rightarrow> tracker" where
  "tk_update t new = new"

fun dedup_loop :: "candidate list \<Rightarrow> battle_state list \<Rightarrow> candidate list" where
  "dedup_loop [] seen = []"
| "dedup_loop (c # cs) seen =
     (if ca_state c \<in> set seen then dedup_loop cs seen
      else c # dedup_loop cs (ca_state c # seen))"

definition deduplicate :: "tracker \<Rightarrow> tracker" where
  "deduplicate t = dedup_loop t []"

definition prune_empty :: "tracker \<Rightarrow> candidate list \<Rightarrow> candidate list \<times> tracker" where
  "prune_empty t new =
     (let parent_ids = map ca_parent new
      in (filter (\<lambda>c. Some (ca_id c) \<notin> set parent_ids) t,
          filter (\<lambda>c. Some (ca_id c) \<in> set parent_ids) t))"

section \<open>Lemmas\<close>

lemma mr_same_refl [simp]: "mr_same m m"
  by (simp add: mr_same_def)

lemma mr_same_sym: "mr_same a b \<longleftrightarrow> mr_same b a"
  by (auto simp: mr_same_def)

lemma mr_same_fields:
  assumes "mr_same a b"
  shows "mr_string_id a = mr_string_id b" "mr_var_values a = mr_var_values b"
    "mr_matched_text a = mr_matched_text b" "mr_side_hint a = mr_side_hint b"
    "mr_metronome_called a = mr_metronome_called b"
  using assms[unfolded mr_same_def, THEN arg_cong, of mr_string_id]
    assms[unfolded mr_same_def, THEN arg_cong, of mr_var_values]
    assms[unfolded mr_same_def, THEN arg_cong, of mr_matched_text]
    assms[unfolded mr_same_def, THEN arg_cong, of mr_side_hint]
    assms[unfolded mr_same_def, THEN arg_cong, of mr_metronome_called]
  by simp_all

lemma msg_side_eq: "msg_side m = P1 \<longleftrightarrow> msg_is_foe m"
  by (simp add: msg_side_def)

lemma dedup_loop_spec:
  "distinct (map ca_state (dedup_loop cs seen))
   \<and> ca_state ` set (dedup_loop cs seen) = ca_state ` set cs - set seen
   \<and> subseq (dedup_loop cs seen) cs"
proof (induction cs seen rule: dedup_loop.induct)
  case (2 c cs seen)
  show ?case
  proof (cases "ca_state c \<in> set seen")
    case True
    with 2 show ?thesis by auto
  next
    case False
    with 2(2) have IH: "distinct (map ca_state (dedup_loop cs (ca_state c # seen)))"
      "ca_state ` set (dedup_loop cs (ca_state c # seen)) = ca_state ` set cs - set (ca_state c # seen)"
      "subseq (dedup_loop cs (ca_state c # seen)) cs" by auto
    then show ?thesis using False by auto
  qed
qed simp

lemma dedup_loop_first:
  assumes "c \<in> set (dedup_loop cs seen)"
  shows "\<exists>us vs. cs = us @ c # vs \<and> ca_state c \<notin> ca_state ` set us"
  using assms
proof (induction cs seen rule: dedup_loop.induct)
  case (2 d ds seen)
  show ?case
  proof (cases "c = d")
    case True
    then show ?thesis by (intro exI[of _ "[]"] exI[of _ ds]) auto
  next
    case False
    define seen' where "seen' = (if ca_state d \<in> set seen then seen else ca_state d # seen)"
    have "c \<in> set (dedup_loop ds seen')" using 2(3) False by (auto simp: seen'_def split: if_splits)
    then have "ca_state c \<in> ca_state ` set ds - set seen'" using dedup_loop_spec[of ds seen'] by blast
    then have ne: "ca_state c \<noteq> ca_state d" by (auto simp: seen'_def split: if_splits)
    have "\<exists>us vs. ds = us @ c # vs \<and> ca_state c \<notin> ca_state ` set us"
      using 2 False by (auto split: if_splits)
    then obtain us vs where "ds = us @ c # vs" "ca_state c \<notin> ca_state ` set us" by blast
    with ne show ?thesis by (intro exI[of _ "d # us"] exI[of _ vs]) auto
  qed
qed simp

text \<open>
  The candidate pool keeps exactly what it should. After deduplication the states are pairwise
  different, no state is lost, the order is kept, and each kept candidate is the first with its
  state. Pruning splits the pool, in order, into the candidates that some new candidate names as its
  parent, which stay, and the rest, which are returned.
\<close>

theorem tracker_dedup_and_prune:
  "distinct (map ca_state (deduplicate t))
   \<and> ca_state ` set (deduplicate t) = ca_state ` set t
   \<and> subseq (deduplicate t) t
   \<and> (\<forall>c \<in> set (deduplicate t). \<exists>us vs. t = us @ c # vs \<and> ca_state c \<notin> ca_state ` set us)
   \<and> set (fst (prune_empty t new)) \<union> set (snd (prune_empty t new)) = set t
   \<and> (\<forall>c \<in> set (snd (prune_empty t new)). \<exists>n \<in> set new. ca_parent n = Some (ca_id c))
   \<and> (\<forall>c \<in> set (fst (prune_empty t new)). \<forall>n \<in> set new. ca_parent n \<noteq> Some (ca_id c))
   \<and> subseq (snd (prune_empty t new)) t"
  using dedup_loop_spec[of t "[]"] dedup_loop_first[of _ t "[]"]
  by (auto simp: deduplicate_def prune_empty_def Let_def image_iff)

definition sample_candidate :: "nat \<Rightarrow> nat option \<Rightarrow> candidate" where
  "sample_candidate i parent = \<lparr>ca_id = i, ca_state = sample_battle, ca_rng_sequence = [],
     ca_unknown_actions = [(P0, NoAct), (P1, NoAct)], ca_parent = parent\<rparr>"

theorem tracker_dedup_and_prune_witness:
  "ca_state ` set (deduplicate [sample_candidate 1 None, sample_candidate 2 None]) = {sample_battle}
   \<and> distinct (map ca_state (deduplicate [sample_candidate 1 None, sample_candidate 2 None]))
   \<and> (\<exists>n \<in> set [sample_candidate 3 (Some 2)]. ca_parent n = Some (ca_id (sample_candidate 2 None)))"
proof -
  let ?t = "[sample_candidate 1 None, sample_candidate 2 None]" and ?new = "[sample_candidate 3 (Some 2)]"
  have "sample_candidate 2 None \<in> set (snd (prune_empty ?t ?new))"
    by (simp add: prune_empty_def sample_candidate_def)
  moreover note tracker_dedup_and_prune[of ?t ?new]
  ultimately show ?thesis by (auto simp: sample_candidate_def)
qed

end
