(* ===== verification/Alignment.thy ===== *)
theory Alignment
  imports Prelude
begin

text \<open>
  The dynamic programming of \<open>Template.try_align\<close> (\<open>battle_message_matcher.py\<close>), apart from what a transition costs. A
  cell \<open>(i, s)\<close> stands for \<open>i\<close> words and \<open>s\<close> segments consumed; \<open>edges i s\<close> lists the cells that consuming segment \<open>s\<close>
  can reach, as the number of words consumed then and the cost, in the order in which the loop tries them. The table
  holds the cost of a cell and its parent. The laws of the transitions are a locale, in which the table is proved to
  hold the least cost of a path to every cell and the parents to lead back along such a path.
\<close>

section \<open>The table\<close>

definition INF_COST :: int where
  "INF_COST = 1000000000"

type_synonym cell = "nat \<times> nat"
type_synonym table = "cell \<Rightarrow> int \<times> cell option"
type_synonym edge_list = "nat \<Rightarrow> nat \<Rightarrow> (nat \<times> nat) list"

definition init_table :: table where
  "init_table = (\<lambda>_. (INF_COST, None))((0, 0) := (0, None))"

definition relax :: "cell \<Rightarrow> int \<Rightarrow> table \<Rightarrow> nat \<times> nat \<Rightarrow> table" where
  "relax c cost t e =
     (let target = (fst e, Suc (snd c)); new_cost = cost + int (snd e) in
      if new_cost < fst (t target) then t(target := (new_cost, Some c)) else t)"

definition process_cell :: "edge_list \<Rightarrow> nat \<Rightarrow> table \<Rightarrow> cell \<Rightarrow> table" where
  "process_cell edges n_segs t c =
     (let cost = fst (t c) in
      if cost = INF_COST \<or> snd c = n_segs then t else foldl (relax c cost) t (edges (fst c) (snd c)))"

definition fill_table :: "edge_list \<Rightarrow> nat \<Rightarrow> nat \<Rightarrow> table" where
  "fill_table edges n n_segs = foldl (process_cell edges n_segs) init_table (List.product [0..<Suc n] [0..<Suc n_segs])"

text \<open>The walk along the parents, which the code runs until there is none; the steps in the order of the words.\<close>

partial_function (option) walk_back :: "table \<Rightarrow> cell \<Rightarrow> (cell \<times> cell) list option" where
  "walk_back t c = (case snd (t c) of
       None \<Rightarrow> Some []
     | Some p \<Rightarrow> Option.bind (walk_back t p) (\<lambda>steps. Some (steps @ [(p, c)])))"

lemmas [code] = walk_back.simps

section \<open>Paths\<close>

text \<open>A way to consume words and segments up to a cell, with its cost.\<close>

inductive align_path :: "edge_list \<Rightarrow> nat \<Rightarrow> (cell \<times> cell) list \<Rightarrow> cell \<Rightarrow> nat \<Rightarrow> bool" for edges n_segs where
  start: "align_path edges n_segs [] (0, 0) 0"
| step: "align_path edges n_segs ps (i, s) c \<Longrightarrow> s < n_segs \<Longrightarrow> (j, w) \<in> set (edges i s) \<Longrightarrow>
    align_path edges n_segs (ps @ [((i, s), (j, Suc s))]) (j, Suc s) (c + w)"

section \<open>One cell\<close>

lemma relax_cases:
  "relax c cost t e x = t x \<or>
     x = (fst e, Suc (snd c)) \<and> relax c cost t e x = (cost + int (snd e), Some c) \<and> cost + int (snd e) < fst (t x)"
  by (auto simp: relax_def Let_def)

lemma relax_le: "fst (relax c cost t e x) \<le> fst (t x)"
  by (auto simp: relax_def Let_def)

lemma relax_bound: "fst (relax c cost t e (fst e, Suc (snd c))) \<le> cost + int (snd e)"
  by (auto simp: relax_def Let_def)

lemma relax_all_le: "fst (foldl (relax c cost) t es x) \<le> fst (t x)"
proof (induction es arbitrary: t)
  case (Cons e es)
  from Cons.IH[of "relax c cost t e"] relax_le[of c cost t e x] show ?case by simp
qed simp

lemma relax_all_bound: "e \<in> set es \<Longrightarrow> fst (foldl (relax c cost) t es (fst e, Suc (snd c))) \<le> cost + int (snd e)"
proof (induction es arbitrary: t)
  case (Cons d es)
  show ?case
  proof (cases "e = d")
    case True
    have "fst (foldl (relax c cost) (relax c cost t d) es (fst e, Suc (snd c))) \<le> fst (relax c cost t d (fst e, Suc (snd c)))"
      by (rule relax_all_le)
    also have "\<dots> \<le> cost + int (snd e)" using relax_bound[of c cost t d] by (simp add: True)
    finally show ?thesis by simp
  qed (use Cons in simp)
qed simp

lemma relax_all_cases:
  "foldl (relax c cost) t es x = t x \<or>
     (\<exists>e \<in> set es. x = (fst e, Suc (snd c)) \<and> foldl (relax c cost) t es x = (cost + int (snd e), Some c) \<and> cost + int (snd e) < fst (t x))"
proof (induction es arbitrary: t)
  case (Cons e es)
  from Cons.IH[of "relax c cost t e"] relax_cases[of c cost t e x] relax_le[of c cost t e x]
  show ?case by simp (smt (verit))
qed simp

section \<open>Least costs\<close>

text \<open>The laws of the transitions: they never give words back, and never consume more than there are.\<close>

locale layered =
  fixes edges :: edge_list and n n_segs :: nat
  assumes edge_forward: "e \<in> set (edges i s) \<Longrightarrow> i \<le> fst e"
    and edge_bounded: "e \<in> set (edges i s) \<Longrightarrow> i \<le> n \<Longrightarrow> fst e \<le> n"
begin

text \<open>
  After the cells of \<open>P\<close> are processed: their transitions are relaxed, and every cost below infinity comes from the
  parent, which is a processed cell.
\<close>

definition relaxed :: "cell set \<Rightarrow> table \<Rightarrow> bool" where
  "relaxed P t \<longleftrightarrow> (\<forall>c \<in> P. fst (t c) < INF_COST \<longrightarrow> snd c < n_segs \<longrightarrow>
     (\<forall>e \<in> set (edges (fst c) (snd c)). fst (t (fst e, Suc (snd c))) \<le> fst (t c) + int (snd e)))"

definition from_parent :: "cell set \<Rightarrow> table \<Rightarrow> cell \<Rightarrow> bool" where
  "from_parent P t c \<longleftrightarrow> (\<exists>p w. snd (t c) = Some p \<and> p \<in> P \<and> snd c = Suc (snd p) \<and> snd p < n_segs \<and>
     (fst c, w) \<in> set (edges (fst p) (snd p)) \<and> fst (t c) = fst (t p) + int w \<and> fst (t p) < INF_COST)"

definition cell_ok :: "cell set \<Rightarrow> table \<Rightarrow> cell \<Rightarrow> bool" where
  "cell_ok P t c \<longleftrightarrow> t c = (INF_COST, None) \<or> c = (0, 0) \<and> t c = (0, None) \<or> 0 \<le> fst (t c) \<and> fst (t c) < INF_COST \<and> from_parent P t c"

definition holds :: "cell set \<Rightarrow> table \<Rightarrow> bool" where
  "holds P t \<longleftrightarrow> relaxed P t \<and> All (cell_ok P t) \<and> t (0, 0) = (0, None)"

lemma holds_cell: "holds P t \<Longrightarrow> cell_ok P t c"
  unfolding holds_def by blast

lemma holds_cost: "holds P t \<Longrightarrow> 0 \<le> fst (t c) \<and> fst (t c) \<le> INF_COST"
  using holds_cell[of P t c] by (auto simp: cell_ok_def INF_COST_def)

lemma holds_init: "holds {} init_table"
  by (simp add: holds_def relaxed_def cell_ok_def init_table_def)

lemma from_parent_mono:
  assumes "from_parent P t c" "P \<subseteq> Q" "t' c = t c" "\<And>p. p \<in> P \<Longrightarrow> t' p = t p"
  shows "from_parent Q t' c"
proof -
  from assms(1) obtain p w where "snd (t c) = Some p" "p \<in> P" "snd c = Suc (snd p)" "snd p < n_segs"
    "(fst c, w) \<in> set (edges (fst p) (snd p))" "fst (t c) = fst (t p) + int w" "fst (t p) < INF_COST"
    by (auto simp: from_parent_def)
  with assms(2,3) assms(4)[of p] show ?thesis unfolding from_parent_def by fastforce
qed

text \<open>Processing a cell whose transitions leave the processed cells alone.\<close>

lemma process_holds:
  assumes h: "holds P t" and seg: "snd c \<le> n_segs" and fresh: "\<And>e. e \<in> set (edges (fst c) (snd c)) \<Longrightarrow> (fst e, Suc (snd c)) \<notin> P"
  shows "holds (insert c P) (process_cell edges n_segs t c)"
proof (cases "fst (t c) = INF_COST \<or> snd c = n_segs")
  case True
  have "relaxed (insert c P) t" using h True by (auto simp: holds_def relaxed_def)
  moreover have "cell_ok (insert c P) t x" for x
    using holds_cell[OF h, of x] from_parent_mono[of P t x "insert c P" t] by (auto simp: cell_ok_def)
  ultimately show ?thesis using h True by (simp add: process_cell_def Let_def holds_def)
next
  case False
  let ?es = "edges (fst c) (snd c)" and ?cost = "fst (t c)"
  define t' where "t' = foldl (relax c ?cost) t ?es"
  have run: "process_cell edges n_segs t c = t'" using False by (simp add: process_cell_def Let_def t'_def)
  have upd: "t' x = t x \<or> (\<exists>e \<in> set ?es. x = (fst e, Suc (snd c)) \<and> t' x = (?cost + int (snd e), Some c) \<and> ?cost + int (snd e) < fst (t x))" for x
    unfolding t'_def by (rule relax_all_cases)
  have keep: "t' p = t p" if "p \<in> insert c P" for p
  proof -
    have "p \<noteq> (fst e, Suc (snd c))" if "e \<in> set ?es" for e
      using fresh[OF that] \<open>p \<in> insert c P\<close> by (cases c) auto
    with upd[of p] show ?thesis by blast
  qed
  have le: "fst (t' x) \<le> fst (t x)" for x unfolding t'_def by (rule relax_all_le)
  have "relaxed (insert c P) t'"
    unfolding relaxed_def
  proof (intro ballI impI)
    fix d e
    assume d: "d \<in> insert c P" "fst (t' d) < INF_COST" "snd d < n_segs" and e: "e \<in> set (edges (fst d) (snd d))"
    show "fst (t' (fst e, Suc (snd d))) \<le> fst (t' d) + int (snd e)"
    proof (cases "d = c")
      case True
      with e have "e \<in> set ?es" by simp
      from relax_all_bound[OF this, of c ?cost t] show ?thesis by (simp add: True t'_def[symmetric] keep)
    next
      case other: False
      with d h e keep[of d] have "fst (t (fst e, Suc (snd d))) \<le> fst (t d) + int (snd e)" by (simp add: holds_def relaxed_def)
      with le[of "(fst e, Suc (snd d))"] keep[OF d(1)] show ?thesis by simp
    qed
  qed
  moreover have "cell_ok (insert c P) t' x" for x
  proof (cases "t' x = t x")
    case True
    then show ?thesis
      using holds_cell[OF h, of x] from_parent_mono[of P t x "insert c P" t'] keep by (auto simp: cell_ok_def)
  next
    case changed: False
    with upd[of x] obtain e where e: "e \<in> set ?es" "x = (fst e, Suc (snd c))" "t' x = (?cost + int (snd e), Some c)" "?cost + int (snd e) < fst (t x)"
      by blast
    have c: "t' c = t c" by (simp add: keep)
    from holds_cost[OF h, of c] holds_cost[OF h, of x] False e(4) have "0 \<le> ?cost" "?cost + int (snd e) < INF_COST" by auto
    moreover have "snd c < n_segs" using seg False by simp
    ultimately have "from_parent (insert c P) t' x" using e c False
      unfolding from_parent_def by (intro exI[of _ c] exI[of _ "snd e"]) auto
    with e \<open>0 \<le> ?cost\<close> \<open>?cost + int (snd e) < INF_COST\<close> show ?thesis by (simp add: cell_ok_def)
  qed
  moreover have "t' (0, 0) = (0, None)" using upd[of "(0, 0)"] h by (auto simp: holds_def)
  ultimately show ?thesis by (simp add: run holds_def)
qed

text \<open>The cells in the order of the loop: what is processed later is never a source of an earlier cell.\<close>

lemma row_major_fresh:
  assumes "List.product [0..<Suc n] [0..<Suc n_segs] = done @ c # rest" "e \<in> set (edges (fst c) (snd c))"
  shows "(fst e, Suc (snd c)) \<notin> set done"
proof
  let ?L = "List.product [0..<Suc n] [0..<Suc n_segs]"
  have srt: "sorted_wrt (\<lambda>(i, s) (j, u). i < j \<or> i = j \<and> s < u) ?L"
  proof -
    have "sorted_wrt (\<lambda>(i, s) (j, u). i < j \<or> i = j \<and> s < u) (List.product xs ys)"
      if "sorted_wrt (<) xs" "sorted_wrt (<) ys" for xs ys :: "nat list"
      using that by (induction xs) (auto simp: sorted_wrt_append sorted_wrt_map)
    from this[OF sorted_wrt_upt sorted_wrt_upt] show ?thesis .
  qed
  assume "(fst e, Suc (snd c)) \<in> set done"
  with srt assms(1) have "fst e < fst c \<or> fst e = fst c \<and> Suc (snd c) < snd c" by (cases c) (auto simp: sorted_wrt_append)
  with edge_forward[OF assms(2)] show False by simp
qed

lemma fill_holds: "holds (set (List.product [0..<Suc n] [0..<Suc n_segs])) (fill_table edges n n_segs)"
proof -
  have "holds (set done) (foldl (process_cell edges n_segs) init_table done)"
    if "List.product [0..<Suc n] [0..<Suc n_segs] = done @ rest" for "done" rest
    using that
  proof (induction "done" arbitrary: rest rule: rev_induct)
    case Nil
    show ?case by (simp add: holds_init)
  next
    case (snoc c "done")
    from snoc.prems have L: "List.product [0..<Suc n] [0..<Suc n_segs] = done @ c # rest" by simp
    then have "c \<in> set (List.product [0..<Suc n] [0..<Suc n_segs])" by (simp only:) simp
    then have "snd c \<le> n_segs" by auto
    from process_holds[OF snoc.IH[OF L] this row_major_fresh[OF L]] show ?case by simp
  qed
  from this[of _ "[]"] show ?thesis by (simp add: fill_table_def)
qed

lemma walk_back_path:
  assumes "holds P t"
  shows "\<exists>ps. walk_back t c = Some ps \<and> (fst (t c) < INF_COST \<longrightarrow> align_path edges n_segs ps c (nat (fst (t c))))"
proof (induction "snd c" arbitrary: c rule: less_induct)
  case less
  from holds_cell[OF assms, of c] consider "t c = (INF_COST, None)" | "c = (0, 0)" "t c = (0, None)"
    | "0 \<le> fst (t c)" "fst (t c) < INF_COST" "from_parent P t c" by (auto simp: cell_ok_def)
  then show ?case
  proof cases
    case 3
    then obtain p w where p: "snd (t c) = Some p" "snd c = Suc (snd p)" "snd p < n_segs" "(fst c, w) \<in> set (edges (fst p) (snd p))"
      "fst (t c) = fst (t p) + int w" "fst (t p) < INF_COST" by (auto simp: from_parent_def)
    from less[of p] p obtain ps where ps: "walk_back t p = Some ps" "align_path edges n_segs ps p (nat (fst (t p)))" by auto
    from holds_cost[OF assms, of p] p(5) have cost: "nat (fst (t c)) = nat (fst (t p)) + w" by linarith
    obtain i s j where eq: "p = (i, s)" "c = (j, Suc s)" using p(2) by (cases p; cases c) auto
    with ps p have "align_path edges n_segs (ps @ [(p, c)]) c (nat (fst (t p)) + w)"
      by (auto intro: align_path.step)
    with ps p cost show ?thesis by (subst walk_back.simps) simp
  qed (auto simp: walk_back.simps intro: align_path.start)
qed

lemma path_in_range: "align_path edges n_segs ps c k \<Longrightarrow> fst c \<le> n \<and> snd c \<le> n_segs"
  by (induction rule: align_path.induct) (auto dest: edge_bounded)

lemma path_bound:
  assumes "align_path edges n_segs ps c k" "int k < INF_COST"
  shows "fst (fill_table edges n n_segs c) \<le> int k"
  using assms
proof (induction rule: align_path.induct)
  case start
  show ?case using fill_holds by (simp add: holds_def)
next
  case (step ps i s c j w)
  let ?T = "fill_table edges n n_segs"
  from step.IH step.prems have le: "fst (?T (i, s)) \<le> int c" by simp
  from path_in_range[OF step.hyps(1)] have "(i, s) \<in> set (List.product [0..<Suc n] [0..<Suc n_segs])" by auto
  moreover have "relaxed (set (List.product [0..<Suc n] [0..<Suc n_segs])) ?T" using fill_holds by (simp only: holds_def)
  moreover have "fst (?T (i, s)) < INF_COST" using le step.prems by simp
  ultimately have "fst (?T (j, Suc s)) \<le> fst (?T (i, s)) + int w"
    using step.hyps(2,3) unfolding relaxed_def by fastforce
  with le show ?case by simp
qed

text \<open>The table holds least costs, and the walk along the parents ends and gives a path of that cost.\<close>

lemma fill_table_optimal:
  "(\<exists>ps. walk_back (fill_table edges n n_segs) c = Some ps \<and>
      (fst (fill_table edges n n_segs c) < INF_COST \<longrightarrow> align_path edges n_segs ps c (nat (fst (fill_table edges n n_segs c)))))
   \<and> (\<forall>ps k. align_path edges n_segs ps c k \<longrightarrow> int k < INF_COST \<longrightarrow> fst (fill_table edges n n_segs c) \<le> int k)"
  using walk_back_path[OF fill_holds] path_bound by blast

end

end
