(* ===== verification/Matcher.thy ===== *)
theory Matcher
  imports Candidates Alignment
begin

text \<open>
  The matcher of battle messages (\<open>battle_message_matcher.py\<close>): templates with literal words, variables and small
  enumerations, the alignment of the words of a capture with a template by dynamic programming, the choice among the
  templates and the stateful matcher that waits for a message to be complete. The lists of known names are an argument
  (\<open>known_names\<close>), in the order in which the sets are iterated; so is the edit distance. A string is a list of 8-bit
  characters: those of Latin-1, with the code points 128, 129 and 130 standing for the ellipsis and the two gender signs
  of the program's tables. The identity of a result is given by its consumer and is 0 here. The file that
  \<open>_save_error_context\<close> writes is not modelled.
\<close>

section \<open>Words\<close>

fun split_from :: "string \<Rightarrow> string \<Rightarrow> string list" where
  "split_from cur [] = (if cur = [] then [] else [cur])"
| "split_from cur (c # cs) =
     (if is_space c then (if cur = [] then split_from [] cs else cur # split_from [] cs) else split_from (cur @ [c]) cs)"

definition split_words :: "string \<Rightarrow> string list" where
  "split_words s = split_from [] s"

fun join_words :: "string list \<Rightarrow> string" where
  "join_words [] = []"
| "join_words [w] = w"
| "join_words (w # ws) = w @ '' '' @ join_words ws"

definition ends_with :: "string \<Rightarrow> string \<Rightarrow> bool" where
  "ends_with s p \<longleftrightarrow> starts_with (rev s) (rev p)"

text \<open>\<open>p in s\<close>.\<close>

fun has_substring :: "string \<Rightarrow> string \<Rightarrow> bool" where
  "has_substring p [] \<longleftrightarrow> p = []"
| "has_substring p (c # cs) \<longleftrightarrow> starts_with (c # cs) p \<or> has_substring p cs"

definition FOE_PREFIX :: string where
  "FOE_PREFIX = ''Foe''"

section \<open>Fuzzy matching of words\<close>

datatype var_category =
    VC_POKEMON_NAME | VC_MOVE_NAME | VC_ITEM_NAME | VC_ABILITY_NAME | VC_STAT_NAME | VC_TYPE_NAME
  | VC_TRAINER_CLASS | VC_TRAINER_NAME | VC_NUMBER | VC_TEXT

datatype screen_kind = OPTION_SELECT | MOVE_SELECT | PARTY_MENU

definition MIN_LITERAL_COVERAGE :: rat where
  "MIN_LITERAL_COVERAGE = 3 / 10"

definition max_edits :: "nat \<Rightarrow> nat" where
  "max_edits word_len = (if word_len \<le> 3 then 1 else if word_len \<le> 6 then 2 else max 3 (word_len div 5))"

definition word_cost :: "distance \<Rightarrow> string \<Rightarrow> string \<Rightarrow> nat" where
  "word_cost lev ocr tmpl = lev (lower ocr) (lower tmpl)"

text \<open>The closest known name within the budget, the first of several.\<close>

definition best_match :: "distance \<Rightarrow> string \<Rightarrow> string list \<Rightarrow> string option" where
  "best_match lev candidate known =
     snd (foldl (\<lambda>best v. let d = word_cost lev candidate v in if d < fst best then (d, Some v) else best)
       (max_edits (length candidate) + 1, None) known)"

definition matches_any_constraint :: "distance \<Rightarrow> string \<Rightarrow> string list \<Rightarrow> bool" where
  "matches_any_constraint lev v candidates = list_ex (\<lambda>c. word_cost lev v c \<le> max_edits (length c)) candidates"

definition STRUGGLE_CANON :: string where
  "STRUGGLE_CANON = ''STRUGGLE''"

definition is_struggle_span :: "distance \<Rightarrow> string \<Rightarrow> bool" where
  "is_struggle_span lev w \<longleftrightarrow> word_cost lev w STRUGGLE_CANON \<le> max_edits (length STRUGGLE_CANON)"

definition value_has_foe_prefix :: "string \<Rightarrow> bool" where
  "value_has_foe_prefix v = (case split_words v of [] \<Rightarrow> False | w # _ \<Rightarrow> lower w = lower FOE_PREFIX)"

record known_names =
  kn_pokemon :: "string list"
  kn_moves :: "string list"
  kn_items :: "string list"
  kn_abilities :: "string list"
  kn_trainer_classes :: "string list"
  kn_trainers :: "string list"

definition STAT_NAMES :: "string list" where
  "STAT_NAMES = [''HP'', ''ATTACK'', ''DEFENSE'', ''SPEED'', ''SP. ATK'', ''SP. DEF'', ''accuracy'', ''evasiveness'']"

definition TYPE_NAMES :: "string list" where
  "TYPE_NAMES = [''NORMAL'', ''FIGHT'', ''FLYING'', ''POISON'', ''GROUND'', ''ROCK'', ''BUG'', ''GHOST'', ''STEEL'', ''???'',
     ''FIRE'', ''WATER'', ''GRASS'', ''ELECTR'', ''PSYCHC'', ''ICE'', ''DRAGON'', ''DARK'']"

text \<open>
  The words of a name without its "Foe" prefix. The prefix is recognised within the edit budget, and only in front of
  another word; \<open>None\<close> when there is no such prefix.
\<close>

definition strip_foe :: "distance \<Rightarrow> string \<Rightarrow> string option" where
  "strip_foe lev v =
     (let ws = split_words v in
      if length ws \<ge> 2 \<and> word_cost lev (hd ws) FOE_PREFIX \<le> max_edits (length FOE_PREFIX) then Some (join_words (tl ws)) else None)"

definition validate_pokemon_name :: "distance \<Rightarrow> known_names \<Rightarrow> string \<Rightarrow> bool" where
  "validate_pokemon_name lev kn v =
     (case strip_foe lev v of
        Some bare \<Rightarrow> best_match lev bare (kn_pokemon kn) \<noteq> None
      | None \<Rightarrow> length (split_words v) = 1 \<and> best_match lev v (kn_pokemon kn) \<noteq> None)"

section \<open>Tokens and segments\<close>

record template_token =
  tk_is_var :: bool
  tk_word :: string
  tk_category :: var_category
  tk_placeholder :: string
  tk_choices :: "string list"

definition literal_token :: "string \<Rightarrow> template_token" where
  "literal_token w = \<lparr>tk_is_var = False, tk_word = w, tk_category = VC_TEXT, tk_placeholder = [], tk_choices = []\<rparr>"

definition var_token :: "var_category \<Rightarrow> string \<Rightarrow> template_token" where
  "var_token cat ph = \<lparr>tk_is_var = True, tk_word = [], tk_category = cat, tk_placeholder = ph, tk_choices = []\<rparr>"

definition enum_token :: "string list \<Rightarrow> string \<Rightarrow> template_token" where
  "enum_token choices ph = \<lparr>tk_is_var = False, tk_word = [], tk_category = VC_TEXT, tk_placeholder = ph, tk_choices = choices\<rparr>"

definition is_enum :: "template_token \<Rightarrow> bool" where
  "is_enum t \<longleftrightarrow> \<not> tk_is_var t \<and> tk_choices t \<noteq> []"

definition is_literal :: "template_token \<Rightarrow> bool" where
  "is_literal t \<longleftrightarrow> \<not> tk_is_var t \<and> \<not> is_enum t"

definition token_max_words :: "template_token \<Rightarrow> nat" where
  "token_max_words t = (if is_enum t then Max (set (map (\<lambda>c. length (split_words c)) (tk_choices t))) else 1)"

type_synonym segment = "template_token list"

definition seg_is_phrase :: "segment \<Rightarrow> bool" where
  "seg_is_phrase g = is_literal (hd g)"

definition seg_is_var :: "segment \<Rightarrow> bool" where
  "seg_is_var g \<longleftrightarrow> length g = 1 \<and> tk_is_var (hd g)"

definition seg_is_enum :: "segment \<Rightarrow> bool" where
  "seg_is_enum g \<longleftrightarrow> length g = 1 \<and> is_enum (hd g)"

definition phrase_text :: "segment \<Rightarrow> string" where
  "phrase_text g = join_words (map tk_word g)"

lemma dropWhile_shorter [termination_simp]: "length (dropWhile p xs) < Suc (length xs)"
  using length_dropWhile_le[of p xs] by simp

text \<open>Consecutive literals form one phrase; a variable or an enumeration is a segment of its own.\<close>

fun build_segments :: "template_token list \<Rightarrow> segment list" where
  "build_segments [] = []"
| "build_segments (t # ts) =
     (if is_literal t then (t # takeWhile is_literal ts) # build_segments (dropWhile is_literal ts)
      else [t] # build_segments ts)"

section \<open>Messages and templates\<close>

record battle_message =
  bm_string_id :: string
  bm_id_value :: int
  bm_raw :: string
  bm_normalized :: string
  bm_placeholders :: "string list"
  bm_slot_categories :: "string list"
  bm_constant_name :: string

definition STAT_NAMES_ENUM :: "string list" where
  "STAT_NAMES_ENUM = [''HP'', ''ATTACK'', ''DEFENSE'', ''SPEED'', ''SP. ATK'', ''SP. DEF'', ''accuracy'', ''evasiveness'']"

definition RISE_DIRS :: "string list" where
  "RISE_DIRS = [''rose!'', ''sharply rose!'']"

definition FALL_DIRS :: "string list" where
  "FALL_DIRS = [''fell!'', ''harshly fell!'']"

definition ENUM_OVERRIDES :: "(string \<times> (string \<times> string list) list) list" where
  "ENUM_OVERRIDES = [
     (''STRINGID_ATTACKERSSTATROSE'', [(''B_BUFF1'', STAT_NAMES_ENUM)]),
     (''STRINGID_DEFENDERSSTATROSE'', [(''B_BUFF1'', STAT_NAMES_ENUM)]),
     (''STRINGID_ATTACKERSSTATFELL'', [(''B_BUFF1'', STAT_NAMES_ENUM)]),
     (''STRINGID_DEFENDERSSTATFELL'', [(''B_BUFF1'', STAT_NAMES_ENUM)]),
     (''STRINGID_STATSWONTINCREASE'', [(''B_BUFF1'', STAT_NAMES_ENUM)]),
     (''STRINGID_STATSWONTDECREASE'', [(''B_BUFF1'', STAT_NAMES_ENUM)]),
     (''STRINGID_PKMNCHANGEDTYPE'', [(''B_BUFF1'', TYPE_NAMES)]),
     (''STRINGID_UNNERVESTART'', [(''B_EFF_TEAM'', [''The opposing team'', ''Your team''])])]"

text \<open>The phrases of an entry in the order of \<open>sorted\<close>.\<close>

definition LITERAL_DIRECTION_OVERRIDES :: "(string \<times> (string \<times> string list) list) list" where
  "LITERAL_DIRECTION_OVERRIDES = [
     (''STRINGID_ATTACKERSSTATROSE'', [(''B_BUFF2'', RISE_DIRS)]),
     (''STRINGID_DEFENDERSSTATROSE'', [(''B_BUFF2'', RISE_DIRS)]),
     (''STRINGID_ATTACKERSSTATFELL'', [(''B_BUFF2'', FALL_DIRS)]),
     (''STRINGID_DEFENDERSSTATFELL'', [(''B_BUFF2'', FALL_DIRS)]),
     (''STRINGID_USINGITEMSTATOFPKMNROSE'', [(''B_BUFF2'', RISE_DIRS)])]"

definition BUDGET_BONUS :: "(string \<times> nat) list" where
  "BUDGET_BONUS = [(''STRINGID_ATTACKERFAINTED'', 2), (''STRINGID_TARGETFAINTED'', 2)]"

definition ANY_PREFIX_PH :: "string list" where
  "ANY_PREFIX_PH = [''B_DEF_NAME_WITH_PREFIX'', ''B_ATK_NAME_WITH_PREFIX'', ''B_EFF_NAME_WITH_PREFIX'',
     ''B_SCR_ACTIVE_NAME_WITH_PREFIX'', ''B_OPPONENT_MON1_NAME'', ''B_OPPONENT_MON2_NAME'',
     ''B_LINK_OPPONENT_MON1_NAME'', ''B_LINK_OPPONENT_MON2_NAME'', ''B_PLAYER_MON1_NAME'', ''B_PLAYER_MON2_NAME'']"

definition cat_from_str :: "string \<Rightarrow> var_category" where
  "cat_from_str s = (case map_of [
     (''pokemon_name'', VC_POKEMON_NAME), (''move_name'', VC_MOVE_NAME), (''item_name'', VC_ITEM_NAME),
     (''ability_name'', VC_ABILITY_NAME), (''stat_name'', VC_STAT_NAME), (''type_name'', VC_TYPE_NAME),
     (''trainer_class'', VC_TRAINER_CLASS), (''trainer_name'', VC_TRAINER_NAME), (''number'', VC_NUMBER),
     (''text'', VC_TEXT)] s of None \<Rightarrow> VC_TEXT | Some c \<Rightarrow> c)"

record template =
  tp_string_id :: string
  tp_id_value :: int
  tp_constant_name :: string
  tp_tokens :: "template_token list"

definition ELLIPSIS :: char where
  "ELLIPSIS = char_of (128::nat)"

text \<open>\<open>re.sub(r"\.{2,}", "", w)\<close>: a run of two or more dots is dropped.\<close>

fun drop_dots :: "string \<Rightarrow> string" where
  "drop_dots [] = []"
| "drop_dots (c # cs) =
     (if c = CHR ''.'' then
        (if takeWhile (\<lambda>x. x = CHR ''.'') cs = [] then [c] else []) @ drop_dots (dropWhile (\<lambda>x. x = CHR ''.'') cs)
      else c # drop_dots cs)"

definition clean_word :: "string \<Rightarrow> string" where
  "clean_word w = drop_dots (filter (\<lambda>c. c \<noteq> ELLIPSIS) w)"

definition split_bang :: "string \<Rightarrow> string list" where
  "split_bang w = (if w = [] then [] else if last w = CHR ''!'' \<and> length w > 1 then [butlast w, ''!''] else [w])"

definition preprocess_ocr :: "string list \<Rightarrow> string list" where
  "preprocess_ocr ws = concat (map (\<lambda>w. split_bang (clean_word w)) ws)"

definition literal_word_tokens :: "string \<Rightarrow> template_token list" where
  "literal_word_tokens phrase = map literal_token (concat (map (\<lambda>w. split_bang (clean_word w)) (split_words phrase)))"

text \<open>\<open>re.split(r'(\{VAR\})', s)\<close>: \<open>None\<close> stands for the separator.\<close>

function split_vars :: "string \<Rightarrow> string \<Rightarrow> string option list" where
  "split_vars cur s =
     (if s = [] then [Some cur]
      else if starts_with s ''{VAR}'' then Some cur # None # split_vars [] (drop 5 s)
      else split_vars (cur @ [hd s]) (tl s))"
  by pat_completeness auto
termination
  by (relation "measure (\<lambda>(cur, s). length s)") auto

declare split_vars.simps [simp del]

definition nth_or :: "'a \<Rightarrow> 'a list \<Rightarrow> nat \<Rightarrow> 'a" where
  "nth_or d xs i = (if i < length xs then xs ! i else d)"

fun parse_parts :: "var_category list \<Rightarrow> string list \<Rightarrow> nat \<Rightarrow> string option list \<Rightarrow> template_token list" where
  "parse_parts cats phs k [] = []"
| "parse_parts cats phs k (None # ps) = var_token (nth_or VC_TEXT cats k) (nth_or [] phs k) # parse_parts cats phs (Suc k) ps"
| "parse_parts cats phs k (Some s # ps) = literal_word_tokens s @ parse_parts cats phs k ps"

definition parse_template :: "battle_message \<Rightarrow> template_token list" where
  "parse_template m = parse_parts (map cat_from_str (bm_slot_categories m)) (bm_placeholders m) 0 (split_vars [] (bm_normalized m))"

definition template_of :: "battle_message \<Rightarrow> template_token list \<Rightarrow> template" where
  "template_of m toks = \<lparr>tp_string_id = bm_string_id m, tp_id_value = bm_id_value m, tp_constant_name = bm_constant_name m, tp_tokens = toks\<rparr>"

definition literal_count :: "template \<Rightarrow> nat" where
  "literal_count t = length (filter is_literal (tp_tokens t))"

definition enum_count :: "template \<Rightarrow> nat" where
  "enum_count t = length (filter is_enum (tp_tokens t))"

definition var_count :: "template \<Rightarrow> nat" where
  "var_count t = length (filter tk_is_var (tp_tokens t))"

definition segments :: "template \<Rightarrow> segment list" where
  "segments t = build_segments (tp_tokens t)"

definition min_words :: "template \<Rightarrow> nat" where
  "min_words t = length (filter seg_is_phrase (segments t)) + enum_count t + var_count t"

definition seg_budget :: "segment \<Rightarrow> nat" where
  "seg_budget g = (if seg_is_phrase g then max_edits (length (phrase_text g))
     else if seg_is_enum g then max_edits (Max (set (map length (tk_choices (hd g))))) else 0)"

definition compute_budget :: "template \<Rightarrow> nat" where
  "compute_budget t = sum_list (map seg_budget (segments t)) + (case map_of BUDGET_BONUS (tp_string_id t) of None \<Rightarrow> 0 | Some b \<Rightarrow> b)"

section \<open>Canonical values of variables\<close>

definition OCR_DIGIT_MAP :: "(char \<times> char) list" where
  "OCR_DIGIT_MAP = [(CHR ''O'', CHR ''0''), (CHR ''o'', CHR ''0''), (CHR ''Q'', CHR ''0''), (CHR ''D'', CHR ''0''),
     (CHR ''I'', CHR ''1''), (CHR ''l'', CHR ''1''), (CHR 0x7C, CHR ''1''), (CHR ''i'', CHR ''1''),
     (CHR ''Z'', CHR ''2''), (CHR ''S'', CHR ''5''), (CHR ''G'', CHR ''6''), (CHR ''T'', CHR ''7''), (CHR ''B'', CHR ''8'')]"

definition normalize_ocr_digits :: "string \<Rightarrow> string" where
  "normalize_ocr_digits v = map (\<lambda>c. case map_of OCR_DIGIT_MAP c of None \<Rightarrow> c | Some d \<Rightarrow> d) v"

text \<open>\<open>x or y\<close> for an optional string: the empty string counts as absent.\<close>

definition or_else :: "string option \<Rightarrow> string \<Rightarrow> string" where
  "or_else x d = (case x of None \<Rightarrow> d | Some v \<Rightarrow> if v = [] then d else v)"

text \<open>The list a category is looked up in: the constraint when there is one, all known names otherwise.\<close>

definition known_or :: "constraints option \<Rightarrow> (constraints \<Rightarrow> string list option) \<Rightarrow> string list \<Rightarrow> string list" where
  "known_or cn field everything = (case cn of None \<Rightarrow> everything | Some c \<Rightarrow> (case field c of None \<Rightarrow> everything | Some xs \<Rightarrow> xs))"

definition close_to :: "distance \<Rightarrow> string \<Rightarrow> string \<Rightarrow> bool" where
  "close_to lev v target \<longleftrightarrow> word_cost lev v target \<le> max_edits (length target)"

definition canonical_trainer :: "distance \<Rightarrow> string \<Rightarrow> string option \<Rightarrow> string list \<Rightarrow> string" where
  "canonical_trainer lev w constrained everything = (case constrained of
       Some v \<Rightarrow> if close_to lev w v then v else w
     | None \<Rightarrow> or_else (best_match lev w everything) w)"

definition canonical_var_value :: "distance \<Rightarrow> known_names \<Rightarrow> string \<Rightarrow> var_category \<Rightarrow> constraints option \<Rightarrow> string" where
  "canonical_var_value lev kn w cat cn = (case cat of
       VC_NUMBER \<Rightarrow> normalize_ocr_digits w
     | VC_MOVE_NAME \<Rightarrow>
         if is_struggle_span lev w then STRUGGLE_CANON
         else or_else (best_match lev w (case cn of
                  None \<Rightarrow> kn_moves kn
                | Some c \<Rightarrow> if cn_unconstrained_moves c then kn_moves kn else (case cn_valid_moves c of None \<Rightarrow> kn_moves kn | Some xs \<Rightarrow> xs))) w
     | VC_POKEMON_NAME \<Rightarrow>
         (let known = known_or cn cn_valid_pokemon (kn_pokemon kn) in
          case strip_foe lev w of
            Some bare \<Rightarrow> FOE_PREFIX @ '' '' @ or_else (best_match lev bare known) bare
          | None \<Rightarrow> or_else (best_match lev w known) w)
     | VC_ITEM_NAME \<Rightarrow> or_else (best_match lev w (known_or cn cn_valid_items (kn_items kn))) w
     | VC_ABILITY_NAME \<Rightarrow> or_else (best_match lev w (known_or cn cn_valid_abilities (kn_abilities kn))) w
     | VC_TRAINER_CLASS \<Rightarrow> canonical_trainer lev w (Option.bind cn cn_trainer_class) (kn_trainer_classes kn)
     | VC_TRAINER_NAME \<Rightarrow> canonical_trainer lev w (Option.bind cn cn_trainer_name) (kn_trainers kn)
     | _ \<Rightarrow> w)"

section \<open>Validation of variables\<close>

definition is_digit :: "char \<Rightarrow> bool" where
  "is_digit c = (let n = (of_char c :: nat) in 48 \<le> n \<and> n \<le> 57)"

definition is_number :: "string \<Rightarrow> bool" where
  "is_number v \<longleftrightarrow> v \<noteq> [] \<and> list_all (\<lambda>c. is_digit c \<or> c = CHR '','' \<or> c = CHR 0xA5) v"

definition valid_or :: "distance \<Rightarrow> string \<Rightarrow> string list option \<Rightarrow> string list \<Rightarrow> bool" where
  "valid_or lev v constrained everything = (case constrained of
       Some xs \<Rightarrow> matches_any_constraint lev v xs | None \<Rightarrow> best_match lev v everything \<noteq> None)"

definition validate_one :: "distance \<Rightarrow> known_names \<Rightarrow> string \<Rightarrow> var_category \<Rightarrow> constraints option \<Rightarrow> bool" where
  "validate_one lev kn v cat cn =
     (if cat = VC_TEXT then True else if v = [] then False
      else case cat of
        VC_POKEMON_NAME \<Rightarrow>
          (case cn of
             None \<Rightarrow> validate_pokemon_name lev kn v
           | Some c \<Rightarrow> if cn_unconstrained_names c then validate_pokemon_name lev kn v
               else (case cn_valid_pokemon c of
                   None \<Rightarrow> validate_pokemon_name lev kn v
                 | Some xs \<Rightarrow> matches_any_constraint lev (case strip_foe lev v of Some bare \<Rightarrow> bare | None \<Rightarrow> v) xs))
      | VC_MOVE_NAME \<Rightarrow>
          v = STRUGGLE_CANON \<or> is_struggle_span lev v \<or>
          (case cn of
             None \<Rightarrow> best_match lev v (kn_moves kn) \<noteq> None
           | Some c \<Rightarrow> if cn_unconstrained_moves c then best_match lev v (kn_moves kn) \<noteq> None
               else valid_or lev v (cn_valid_moves c) (kn_moves kn))
      | VC_ITEM_NAME \<Rightarrow> valid_or lev v (Option.bind cn cn_valid_items) (kn_items kn)
      | VC_ABILITY_NAME \<Rightarrow> valid_or lev v (Option.bind cn cn_valid_abilities) (kn_abilities kn)
      | VC_STAT_NAME \<Rightarrow> best_match lev v STAT_NAMES \<noteq> None
      | VC_TYPE_NAME \<Rightarrow> best_match lev v TYPE_NAMES \<noteq> None
      | VC_TRAINER_CLASS \<Rightarrow>
          (case Option.bind cn cn_trainer_class of Some x \<Rightarrow> close_to lev v x | None \<Rightarrow> best_match lev v (kn_trainer_classes kn) \<noteq> None)
      | VC_TRAINER_NAME \<Rightarrow>
          (case Option.bind cn cn_trainer_name of Some x \<Rightarrow> close_to lev v x | None \<Rightarrow> best_match lev v (kn_trainers kn) \<noteq> None)
      | VC_NUMBER \<Rightarrow> is_number (normalize_ocr_digits v)
      | VC_TEXT \<Rightarrow> True)"

definition validate_trainer_pair :: "distance \<Rightarrow> known_names \<Rightarrow> string \<Rightarrow> constraints option \<Rightarrow> bool" where
  "validate_trainer_pair lev kn combined cn = (case Option.bind cn cn_trainer_class of
       Some cls \<Rightarrow> close_to lev combined (strip (cls @ '' '' @ (case Option.bind cn cn_trainer_name of None \<Rightarrow> [] | Some x \<Rightarrow> x)))
     | None \<Rightarrow> best_match lev combined (kn_trainers kn) \<noteq> None)"

definition extracting_tokens :: "template \<Rightarrow> template_token list" where
  "extracting_tokens t = filter (\<lambda>x. tk_is_var x \<or> is_enum x) (tp_tokens t)"

text \<open>The positions \<open>k\<close> where a trainer class is followed by a trainer name.\<close>

definition trainer_pairs :: "template_token list \<Rightarrow> nat list" where
  "trainer_pairs toks = filter (\<lambda>k. tk_is_var (toks ! k) \<and> tk_category (toks ! k) = VC_TRAINER_CLASS \<and>
     tk_is_var (toks ! Suc k) \<and> tk_category (toks ! Suc k) = VC_TRAINER_NAME) [0..<length toks - 1]"

definition validate_vars :: "distance \<Rightarrow> known_names \<Rightarrow> template \<Rightarrow> string list \<Rightarrow> constraints option \<Rightarrow> bool" where
  "validate_vars lev kn t vals cn =
     (let toks = extracting_tokens t; ks = trainer_pairs toks; skip = ks @ map Suc ks in
      list_all (\<lambda>k. Suc k < length vals \<and> validate_trainer_pair lev kn (strip (vals ! k @ '' '' @ vals ! Suc k)) cn) ks \<and>
      list_all (\<lambda>i. i \<in> set skip \<or> is_enum (toks ! i) \<or> validate_one lev kn (vals ! i) (tk_category (toks ! i)) cn)
        [0..<min (length toks) (length vals)])"

section \<open>Aligning the words of a capture with a template\<close>

text \<open>The words \<open>i\<close> to \<open>j - 1\<close>, joined.\<close>

definition span_text :: "string list \<Rightarrow> nat \<Rightarrow> nat \<Rightarrow> string" where
  "span_text ws i j = join_words (take (j - i) (drop i ws))"

definition enum_dist :: "distance \<Rightarrow> template_token \<Rightarrow> string \<Rightarrow> nat" where
  "enum_dist lev t w = Min (set (map (word_cost lev w) (tk_choices t)))"

definition phrase_edges :: "distance \<Rightarrow> string list \<Rightarrow> nat \<Rightarrow> string \<Rightarrow> nat \<Rightarrow> (nat \<times> nat) list" where
  "phrase_edges lev ws i text max_w =
     map (\<lambda>j. (j, word_cost lev (span_text ws i j) text)) [Suc i..<min (i + max_w + 1) (Suc (length ws))]"

text \<open>A phrase that starts with an apostrophe, when the word before already ends with its first token.\<close>

definition fused_edges :: "distance \<Rightarrow> known_names \<Rightarrow> string list \<Rightarrow> nat \<Rightarrow> segment \<Rightarrow> (nat \<times> nat) list" where
  "fused_edges lev kn ws i g =
     (let suffix = tk_word (hd g) in
      if \<not> (starts_with suffix [CHR 0x27] \<and> i > 0) then []
      else let prev = ws ! (i - 1); base = take (length prev - length suffix) prev in
        if \<not> (ends_with (lower prev) (lower suffix) \<and> length base \<ge> 3 \<and> validate_pokemon_name lev kn base) then []
        else if tl g = [] then [(i, 0)]
        else phrase_edges lev ws i (phrase_text (tl g)) (length (tl g)))"

definition seg_edges :: "distance \<Rightarrow> known_names \<Rightarrow> string list \<Rightarrow> nat \<Rightarrow> segment \<Rightarrow> (nat \<times> nat) list" where
  "seg_edges lev kn ws i g =
     (if seg_is_var g then map (\<lambda>j. (j, 0)) [Suc i..<Suc (length ws)]
      else if seg_is_enum g then
        map (\<lambda>j. (j, enum_dist lev (hd g) (span_text ws i j))) [Suc i..<min (i + token_max_words (hd g) + 1) (Suc (length ws))]
      else phrase_edges lev ws i (phrase_text g) (Suc (length g)) @ fused_edges lev kn ws i g)"

text \<open>The transitions of a cell; beyond the words there is none.\<close>

definition align_edges :: "distance \<Rightarrow> known_names \<Rightarrow> template \<Rightarrow> string list \<Rightarrow> edge_list" where
  "align_edges lev kn t ws i s = seg_edges lev kn ws i (segments t ! s)"

definition align_table :: "distance \<Rightarrow> known_names \<Rightarrow> template \<Rightarrow> string list \<Rightarrow> table" where
  "align_table lev kn t ws = fill_table (align_edges lev kn t ws) (length ws) (length (segments t))"

definition terminal_segment :: "bool \<Rightarrow> table \<Rightarrow> nat \<Rightarrow> nat \<Rightarrow> nat option" where
  "terminal_segment partially tb n n_segs =
     (if partially then
        (let ss = filter (\<lambda>s. fst (tb (n, s)) < INF_COST) [1..<Suc n_segs]
         in if ss = [] then None else Some (arg_min_list (\<lambda>s. fst (tb (n, s))) ss))
      else if fst (tb (n, n_segs)) \<ge> INF_COST then None else Some n_segs)"

text \<open>The steps of the walk along the parents, which always ends (\<open>align_table_optimal\<close> below).\<close>

definition walk_steps :: "table \<Rightarrow> cell \<Rightarrow> (cell \<times> cell) list" where
  "walk_steps tb c = (case walk_back tb c of None \<Rightarrow> [] | Some steps \<Rightarrow> steps)"

definition step_value :: "distance \<Rightarrow> known_names \<Rightarrow> constraints option \<Rightarrow> template \<Rightarrow> string list \<Rightarrow> cell \<times> cell \<Rightarrow> string list" where
  "step_value lev kn cn t ws st =
     (let g = segments t ! snd (fst st); w = span_text ws (fst (fst st)) (fst (snd st)) in
      if seg_is_enum g then [arg_min_list (word_cost lev w) (tk_choices (hd g))]
      else if seg_is_var g then [canonical_var_value lev kn w (tk_category (hd g)) cn] else [])"

definition step_var_words :: "template \<Rightarrow> cell \<times> cell \<Rightarrow> nat" where
  "step_var_words t st = (if seg_is_var (segments t ! snd (fst st)) then fst (snd st) - fst (fst st) else 0)"

text \<open>"Foe" as a literal just before the token \<open>i\<close>.\<close>

definition foe_before :: "template_token list \<Rightarrow> nat \<Rightarrow> bool" where
  "foe_before toks i \<longleftrightarrow> i > 0 \<and> is_literal (toks ! (i - 1)) \<and> lower (tk_word (toks ! (i - 1))) = lower FOE_PREFIX"

text \<open>\<open>pos\<close> is the index of the segment's first token, \<open>k\<close> the index of the slot.\<close>

fun name_side_slots_from :: "template_token list \<Rightarrow> string list \<Rightarrow> nat \<Rightarrow> nat \<Rightarrow> segment list \<Rightarrow> (nat \<times> sid) list" where
  "name_side_slots_from toks vals pos k [] = []"
| "name_side_slots_from toks vals pos k (g # gs) =
     (if seg_is_phrase g then name_side_slots_from toks vals (pos + length g) k gs
      else (if tk_is_var (hd g) \<and> tk_category (hd g) = VC_POKEMON_NAME
            then [(k, if foe_before toks pos \<or> value_has_foe_prefix (nth_or [] vals k) then P1 else P0)] else [])
           @ name_side_slots_from toks vals (pos + length g) (Suc k) gs)"

definition name_side_slots :: "template \<Rightarrow> string list \<Rightarrow> (nat \<times> sid) list" where
  "name_side_slots t vals = name_side_slots_from (tp_tokens t) vals 0 0 (segments t)"

definition subject_side_hint :: "template \<Rightarrow> string list \<Rightarrow> sid option" where
  "subject_side_hint t vals =
     (case (filter (\<lambda>g. \<not> seg_is_phrase g) (segments t), vals) of
        (g # _, v # _) \<Rightarrow>
          if \<not> tk_is_var (hd g) \<or> tk_category (hd g) \<noteq> VC_POKEMON_NAME then None
          else Some (if foe_before (tp_tokens t) (length (takeWhile is_literal (tp_tokens t))) \<or> value_has_foe_prefix v then P1 else P0)
      | _ \<Rightarrow> None)"

definition ATK_PLACEHOLDERS :: "string list" where
  "ATK_PLACEHOLDERS = [''B_ATK_NAME_WITH_PREFIX'', ''B_PLAYER_MON1_NAME'', ''B_PLAYER_MON2_NAME'']"

definition DEF_PLACEHOLDERS :: "string list" where
  "DEF_PLACEHOLDERS = [''B_DEF_NAME_WITH_PREFIX'', ''B_OPPONENT_MON1_NAME'', ''B_OPPONENT_MON2_NAME'',
     ''B_LINK_OPPONENT_MON1_NAME'', ''B_LINK_OPPONENT_MON2_NAME'']"

definition slot_penalty :: "template_token list \<Rightarrow> nat \<times> string \<Rightarrow> int" where
  "slot_penalty toks x =
     (let tok = toks ! fst x;
          has_foe = (fst x > 0 \<and> \<not> tk_is_var (toks ! (fst x - 1)) \<and> lower (tk_word (toks ! (fst x - 1))) = lower FOE_PREFIX
            \<or> value_has_foe_prefix (snd x)) in
      if tk_category tok \<noteq> VC_POKEMON_NAME then 0
      else if has_foe \<and> tk_placeholder tok \<in> set ATK_PLACEHOLDERS then 1
      else if \<not> has_foe \<and> tk_placeholder tok \<in> set DEF_PLACEHOLDERS then 1 else 0)"

definition context_score :: "template \<Rightarrow> string list \<Rightarrow> int" where
  "context_score t vals =
     sum_list (map (slot_penalty (tp_tokens t)) (zip (filter (\<lambda>i. tk_is_var (tp_tokens t ! i)) [0..<length (tp_tokens t)]) vals))"

fun reconstruct_parts :: "string list \<Rightarrow> string list \<Rightarrow> template_token list \<Rightarrow> string list" where
  "reconstruct_parts parts vals [] = parts"
| "reconstruct_parts parts vals (t # ts) =
     (if tk_is_var t \<or> is_enum t then
        (case vals of [] \<Rightarrow> reconstruct_parts parts vals ts | v # vs \<Rightarrow> reconstruct_parts (parts @ [v]) vs ts)
      else if starts_with (tk_word t) [CHR 0x27] \<and> parts \<noteq> [] \<and> ends_with (last parts) (tk_word t) then reconstruct_parts parts vals ts
      else reconstruct_parts (parts @ [tk_word t]) vals ts)"

definition join_part :: "string \<Rightarrow> string \<Rightarrow> string" where
  "join_part acc part =
     (let p = strip part in
      if p = [] then acc
      else acc @ (if acc \<noteq> [] \<and> \<not> starts_with p ''!'' \<and> \<not> starts_with p [CHR 0x27] then '' '' else []) @ p)"

definition reconstruct :: "template \<Rightarrow> string list \<Rightarrow> string" where
  "reconstruct t vals = foldl join_part [] (reconstruct_parts [] vals (tp_tokens t))"

definition try_align :: "distance \<Rightarrow> known_names \<Rightarrow> template \<Rightarrow> string list \<Rightarrow> bool \<Rightarrow> constraints option \<Rightarrow> match_result option" where
  "try_align lev kn t ws partially cn =
     (let n = length ws; tb = align_table lev kn t ws in
      case terminal_segment partially tb n (length (segments t)) of
        None \<Rightarrow> None
      | Some final_s \<Rightarrow>
          if fst (tb (n, final_s)) > int (compute_budget t) then None
          else let steps = walk_steps tb (n, final_s); vals = concat (map (step_value lev kn cn t ws) steps) in
            if \<not> partially \<and> \<not> validate_vars lev kn t vals cn then None
            else Some \<lparr>mr_oid = 0, mr_string_id = tp_string_id t, mr_id_value = tp_id_value t, mr_constant_name = tp_constant_name t,
              mr_var_values = vals, mr_score = fst (tb (n, final_s)), mr_context_score = context_score t vals,
              mr_matched_text = reconstruct t vals,
              mr_slot_labels = map (\<lambda>g. tk_placeholder (hd g)) (filter (\<lambda>g. \<not> seg_is_phrase g) (segments t)),
              mr_literal_coverage = (if n = 0 then 1 else of_nat (n - sum_list (map (step_var_words t) steps)) / of_nat n),
              mr_side_hint = subject_side_hint t vals, mr_name_side_slots = name_side_slots t vals, mr_metronome_called = None\<rparr>)"

section \<open>Expanding a message into templates\<close>

fun override_tokens :: "(string \<times> string list) list \<Rightarrow> string list \<Rightarrow> template_token list \<Rightarrow> template_token list" where
  "override_tokens ov phs [] = []"
| "override_tokens ov phs (t # ts) =
     (if tk_is_var t then
        (let ph = (case phs of [] \<Rightarrow> [] | p # _ \<Rightarrow> p) in
         (case map_of ov ph of None \<Rightarrow> t | Some choices \<Rightarrow> enum_token choices ph) # override_tokens ov (tl phs) ts)
      else t # override_tokens ov phs ts)"

definition dict_or_empty :: "(string \<times> (string \<times> string list) list) list \<Rightarrow> string \<Rightarrow> (string \<times> string list) list" where
  "dict_or_empty d k = (case map_of d k of None \<Rightarrow> [] | Some x \<Rightarrow> x)"

definition expand_direction :: "template_token list list \<Rightarrow> string \<times> string list \<Rightarrow> template_token list list" where
  "expand_direction variants x = concat (map (\<lambda>toks.
     (let pos = length (takeWhile (\<lambda>t. \<not> (tk_is_var t \<and> tk_placeholder t = fst x)) toks) in
      if pos = length toks then [toks]
      else map (\<lambda>phrase. take pos toks @ literal_word_tokens phrase @ drop (Suc pos) toks) (snd x))) variants)"

definition foe_positions :: "template_token list \<Rightarrow> nat list" where
  "foe_positions toks = filter (\<lambda>i. tk_is_var (toks ! i) \<and> tk_placeholder (toks ! i) \<in> set ANY_PREFIX_PH) [0..<length toks]"

text \<open>The insertions run from right to left.\<close>

definition insert_foe :: "template_token list \<Rightarrow> nat \<times> bool \<Rightarrow> template_token list" where
  "insert_foe toks x = (if snd x then take (fst x) toks @ literal_token ''Foe'' # drop (fst x) toks else toks)"

definition foe_split :: "battle_message \<Rightarrow> template_token list \<Rightarrow> template list" where
  "foe_split m toks =
     (let positions = foe_positions toks in
      if positions = [] then [template_of m toks]
      else map (\<lambda>combo. template_of m (foldl insert_foe toks (rev (zip positions combo))))
             (product_lists (map (\<lambda>_. [False, True]) positions)))"

definition build_templates :: "battle_message \<Rightarrow> template list" where
  "build_templates m =
     (let toks = parse_template m;
          ov = dict_or_empty ENUM_OVERRIDES (bm_string_id m);
          toks = (if ov = [] then toks else override_tokens ov (bm_placeholders m) toks);
          toks = (if bm_string_id m = ''STRINGID_USEDMOVE'' then toks @ [literal_token ''!''] else toks);
          variants = foldl expand_direction [toks] (dict_or_empty LITERAL_DIRECTION_OVERRIDES (bm_string_id m))
      in concat (map (foe_split m) variants))"

section \<open>Menus\<close>

definition OPTION_SELECT_WORDS :: "string list" where
  "OPTION_SELECT_WORDS = [''fight'', ''bag'', ''pokemon'', ''run'']"

definition is_party_menu :: "distance \<Rightarrow> string list \<Rightarrow> bool" where
  "is_party_menu lev ws \<longleftrightarrow> has_substring ''pokemon'' (join_words ws) \<and> list_ex (\<lambda>w. lev w ''cancel'' \<le> 1) ws"

definition is_choose_pokemon_prompt :: "distance \<Rightarrow> string list \<Rightarrow> bool" where
  "is_choose_pokemon_prompt lev ws \<longleftrightarrow> ws \<noteq> [] \<and> \<not> lev (hd ws) ''choose'' > 1 \<and> list_ex (\<lambda>w. starts_with w ''pok'') ws"

definition rstrip_char :: "char \<Rightarrow> string \<Rightarrow> string" where
  "rstrip_char c s = rev (dropWhile (\<lambda>x. x = c) (rev s))"

definition is_action_prompt :: "distance \<Rightarrow> string list \<Rightarrow> bool" where
  "is_action_prompt lev ws \<longleftrightarrow> length ws \<ge> 3 \<and> lev (ws ! 0) ''what'' \<le> 1 \<and> lev (ws ! 1) ''will'' \<le> 1
     \<and> lev (rstrip_char (CHR ''?'') (last ws)) ''do'' \<le> 1"

text \<open>\<open>re.fullmatch(r'\d+/\d+', w)\<close>.\<close>

definition is_fraction :: "string \<Rightarrow> bool" where
  "is_fraction w =
     (let a = takeWhile is_digit w; rest = dropWhile is_digit w in
      a \<noteq> [] \<and> rest \<noteq> [] \<and> hd rest = CHR ''/'' \<and> tl rest \<noteq> [] \<and> list_all is_digit (tl rest))"

definition detect_screen_type :: "distance \<Rightarrow> string list \<Rightarrow> screen_kind option" where
  "detect_screen_type lev ws =
     (let lows = map lower ws in
      if length (filter (\<lambda>w. w \<in> set OPTION_SELECT_WORDS) lows) \<ge> 3 then Some OPTION_SELECT
      else if is_action_prompt lev lows then Some OPTION_SELECT
      else if list_ex (\<lambda>w. w = ''pp'') lows \<and> list_ex is_fraction ws then Some MOVE_SELECT
      else if is_party_menu lev lows then Some PARTY_MENU
      else if is_choose_pokemon_prompt lev lows then Some PARTY_MENU
      else None)"

section \<open>Choosing a template\<close>

definition filter_candidates :: "template list \<Rightarrow> string list \<Rightarrow> template list" where
  "filter_candidates ts ws =
     filter (\<lambda>t. min_words t \<le> length ws \<and> length ws \<le> literal_count t + enum_count t * 3 + var_count t * 3 + 1) ts"

text \<open>The results of the templates that align, each with its number of literals, in the order of the templates.\<close>

definition full_results :: "distance \<Rightarrow> known_names \<Rightarrow> template list \<Rightarrow> string list \<Rightarrow> constraints option \<Rightarrow> (match_result \<times> nat) list" where
  "full_results lev kn ts ws cn =
     concat (map (\<lambda>t. if literal_count t = 0 \<and> enum_count t = 0 then []
                      else case try_align lev kn t ws False cn of None \<Rightarrow> [] | Some r \<Rightarrow> [(r, literal_count t)])
       (filter_candidates ts ws))"

definition ranks_better :: "match_result \<times> nat \<Rightarrow> match_result \<times> nat \<Rightarrow> bool" where
  "ranks_better a b \<longleftrightarrow> mr_score (fst a) < mr_score (fst b)
     \<or> mr_score (fst a) = mr_score (fst b) \<and> snd a > snd b
     \<or> mr_score (fst a) = mr_score (fst b) \<and> snd a = snd b \<and> mr_context_score (fst a) < mr_context_score (fst b)"

text \<open>The comparison of the keys of the fallback: \<open>a\<close> is strictly greater than \<open>b\<close>.\<close>

definition covers_better :: "match_result \<times> nat \<Rightarrow> match_result \<times> nat \<Rightarrow> bool" where
  "covers_better a b \<longleftrightarrow> mr_literal_coverage (fst a) > mr_literal_coverage (fst b)
     \<or> mr_literal_coverage (fst a) = mr_literal_coverage (fst b) \<and> ranks_better a b"

text \<open>The first of the best elements.\<close>

definition first_best :: "('a \<Rightarrow> 'a \<Rightarrow> bool) \<Rightarrow> 'a list \<Rightarrow> 'a option" where
  "first_best gt xs = foldl (\<lambda>best x. case best of None \<Rightarrow> Some x | Some b \<Rightarrow> if gt x b then Some x else best) None xs"

definition try_full_match :: "distance \<Rightarrow> known_names \<Rightarrow> template list \<Rightarrow> string list \<Rightarrow> constraints option \<Rightarrow> match_result option" where
  "try_full_match lev kn ts ws cn =
     (let results = full_results lev kn ts ws cn in
      case first_best ranks_better results of
        None \<Rightarrow> None
      | Some best \<Rightarrow> if mr_literal_coverage (fst best) < MIN_LITERAL_COVERAGE then map_option fst (first_best covers_better results)
          else Some (fst best))"

section \<open>The stream of captures\<close>

record matcher =
  mt_templates :: "template list"
  mt_pending_words :: "string list option"
  mt_pending_raw :: "string option"
  mt_pending_constraints :: "constraints option"

datatype matcher_error = UnknownMessageError "string list" | MatcherTypeError

datatype frame_result = NothingYet | Signal screen_kind | Finalized match_result

definition new_matcher :: "battle_message list \<Rightarrow> matcher" where
  "new_matcher msgs = \<lparr>mt_templates = concat (map build_templates msgs), mt_pending_words = None, mt_pending_raw = None,
     mt_pending_constraints = None\<rparr>"

definition finalize_frame :: "distance \<Rightarrow> known_names \<Rightarrow> matcher \<Rightarrow> string list \<Rightarrow> constraints option \<Rightarrow> matcher_error + frame_result" where
  "finalize_frame lev kn m ws cn = (case try_full_match lev kn (mt_templates m) ws cn of
       Some r \<Rightarrow> Inr (Finalized r) | None \<Rightarrow> Inl (UnknownMessageError ws))"

definition set_pending :: "string list \<Rightarrow> constraints option \<Rightarrow> matcher \<Rightarrow> matcher" where
  "set_pending ws cn m = m\<lparr>mt_pending_words := Some ws, mt_pending_raw := Some (join_words ws), mt_pending_constraints := cn\<rparr>"

definition reset_matcher :: "matcher \<Rightarrow> matcher" where
  "reset_matcher m = m\<lparr>mt_pending_words := None, mt_pending_raw := None, mt_pending_constraints := None\<rparr>"

definition process_frame :: "distance \<Rightarrow> known_names \<Rightarrow> matcher \<Rightarrow> string list \<Rightarrow> constraints option \<Rightarrow> matcher \<times> (matcher_error + frame_result)" where
  "process_frame lev kn m ws cn =
     (if ws = [] then (m, Inr NothingYet)
      else case detect_screen_type lev ws of
        Some k \<Rightarrow> (m, Inr (Signal k))
      | None \<Rightarrow>
          (case mt_pending_raw m of
             None \<Rightarrow> (set_pending ws cn m, Inr NothingYet)
           | Some raw \<Rightarrow>
               if starts_with (join_words ws) raw then (set_pending ws cn m, Inr NothingYet)
               else (set_pending ws cn m,
                     case mt_pending_words m of
                       None \<Rightarrow> Inl MatcherTypeError
                     | Some old \<Rightarrow> finalize_frame lev kn m (preprocess_ocr old) (mt_pending_constraints m))))"

definition flush_frame :: "distance \<Rightarrow> known_names \<Rightarrow> matcher \<Rightarrow> matcher \<times> (matcher_error + frame_result)" where
  "flush_frame lev kn m = (case mt_pending_words m of
       None \<Rightarrow> (m, Inr NothingYet)
     | Some ws \<Rightarrow> (reset_matcher m, finalize_frame lev kn m (preprocess_ocr ws) (mt_pending_constraints m)))"

end
