(* ===== verification/MatcherLaws.thy ===== *)
theory MatcherLaws
  imports Matcher
begin

text \<open>
  What the matcher of battle messages guarantees: the alignment has least cost, the stream of captures is cut into
  complete messages, the variants of a template are all the placements of the "Foe" prefix, and the winner among the
  templates is the best of the ranking.
\<close>

section \<open>The alignment\<close>

lemma phrase_edges_range: "e \<in> set (phrase_edges lev ws i text k) \<Longrightarrow> i < fst e \<and> fst e \<le> length ws"
  by (auto simp: phrase_edges_def)

lemma fused_edges_range: "e \<in> set (fused_edges lev kn ws i g) \<Longrightarrow> i \<le> length ws \<Longrightarrow> i \<le> fst e \<and> fst e \<le> length ws"
  by (auto simp: fused_edges_def Let_def split: if_splits dest: phrase_edges_range)

lemma fused_edges_forward: "e \<in> set (fused_edges lev kn ws i g) \<Longrightarrow> i \<le> fst e"
  by (auto simp: fused_edges_def Let_def split: if_splits dest: phrase_edges_range)

interpretation al: layered "align_edges lev kn t ws" "length ws" "length (segments t)" for lev kn t ws
proof
  fix e i s
  assume "e \<in> set (align_edges lev kn t ws i s)"
  then show "i \<le> fst e"
    by (auto simp: align_edges_def seg_edges_def split: if_splits dest: phrase_edges_range fused_edges_forward)
next
  fix e i s
  assume "e \<in> set (align_edges lev kn t ws i s)" "i \<le> length ws"
  then show "fst e \<le> length ws"
    by (auto simp: align_edges_def seg_edges_def split: if_splits dest: phrase_edges_range fused_edges_range)
qed

text \<open>A way to consume all the words with all the segments.\<close>

abbreviation alignment :: "distance \<Rightarrow> known_names \<Rightarrow> template \<Rightarrow> string list \<Rightarrow> (cell \<times> cell) list \<Rightarrow> nat \<Rightarrow> bool" where
  "alignment lev kn t ws steps k \<equiv> align_path (align_edges lev kn t ws) (length (segments t)) steps (length ws, length (segments t)) k"

definition affordable :: "template \<Rightarrow> nat \<Rightarrow> bool" where
  "affordable t k \<longleftrightarrow> k \<le> compute_budget t \<and> int k < INF_COST"

lemma align_least:
  assumes "alignment lev kn t ws steps k" "affordable t k"
  obtains ps c where "walk_back (align_table lev kn t ws) (length ws, length (segments t)) = Some ps" "alignment lev kn t ws ps c"
    "fst (align_table lev kn t ws (length ws, length (segments t))) = int c" "affordable t c"
    "\<And>ps' k'. alignment lev kn t ws ps' k' \<Longrightarrow> c \<le> k'"
proof -
  let ?c = "(length ws, length (segments t))" and ?T = "align_table lev kn t ws"
  note opt = al.fill_table_optimal[of lev kn t ws ?c, folded align_table_def]
  have "0 \<le> fst (?T ?c)" using al.holds_cost[OF al.fill_holds] by (simp add: align_table_def)
  moreover have le: "fst (?T ?c) \<le> int k" using opt assms by (simp add: affordable_def)
  ultimately obtain c where c: "fst (?T ?c) = int c" "c \<le> k" using nonneg_int_cases[of "fst (?T ?c)"] by auto
  with assms(2) have aff: "affordable t c" by (simp add: affordable_def)
  from opt c aff obtain ps where "walk_back ?T ?c = Some ps" "alignment lev kn t ws ps c" by (auto simp: affordable_def)
  moreover have "c \<le> k'" if "alignment lev kn t ws ps' k'" for ps' k'
  proof (cases "int k' < INF_COST")
    case True
    with opt that have "fst (?T ?c) \<le> int k'" by blast
    then show ?thesis by (simp add: c)
  qed (use aff in \<open>simp add: affordable_def\<close>)
  ultimately show thesis using that c aff by blast
qed

lemma align_unaffordable:
  assumes "\<And>steps k. alignment lev kn t ws steps k \<Longrightarrow> \<not> affordable t k"
  shows "try_align lev kn t ws False cn = None"
proof -
  let ?c = "(length ws, length (segments t))" and ?T = "align_table lev kn t ws"
  note opt = al.fill_table_optimal[of lev kn t ws ?c, folded align_table_def]
  have "0 \<le> fst (?T ?c)" using al.holds_cost[OF al.fill_holds] by (simp add: align_table_def)
  with opt assms have "fst (?T ?c) \<ge> INF_COST \<or> fst (?T ?c) > int (compute_budget t)" by (fastforce simp: affordable_def)
  then show ?thesis by (auto simp: try_align_def Let_def terminal_segment_def)
qed

definition values_of :: "distance \<Rightarrow> known_names \<Rightarrow> constraints option \<Rightarrow> template \<Rightarrow> string list \<Rightarrow> (cell \<times> cell) list \<Rightarrow> string list" where
  "values_of lev kn cn t ws steps = concat (map (step_value lev kn cn t ws) steps)"

text \<open>
  C9: A template aligns with a capture at the least possible cost. When no way to distribute the words over the
  segments stays within the template's budget, \<open>try_align\<close> answers \<open>None\<close>. Otherwise the walk along the parents of
  the table ends, and there is one distribution, of least cost among all of them, whose cost is the score and whose
  values are the values of the result; the answer is \<open>None\<close> only when these values fail the validation.
\<close>

theorem try_align_exact:
  "(if \<exists>steps k. alignment lev kn t ws steps k \<and> affordable t k
    then \<exists>steps k. walk_back (align_table lev kn t ws) (length ws, length (segments t)) = Some steps \<and>
           alignment lev kn t ws steps k \<and> affordable t k \<and> (\<forall>steps' k'. alignment lev kn t ws steps' k' \<longrightarrow> k \<le> k') \<and>
           map_option (\<lambda>r. (mr_score r, mr_var_values r)) (try_align lev kn t ws False cn) =
             (if validate_vars lev kn t (values_of lev kn cn t ws steps) cn then Some (int k, values_of lev kn cn t ws steps) else None)
    else try_align lev kn t ws False cn = None)"
proof (cases "\<exists>steps k. alignment lev kn t ws steps k \<and> affordable t k")
  case True
  then obtain steps0 k0 where "alignment lev kn t ws steps0 k0" "affordable t k0" by blast
  then obtain ps c where ps: "walk_back (align_table lev kn t ws) (length ws, length (segments t)) = Some ps" "alignment lev kn t ws ps c"
    "fst (align_table lev kn t ws (length ws, length (segments t))) = int c" "affordable t c"
    and least: "\<And>ps' k'. alignment lev kn t ws ps' k' \<Longrightarrow> c \<le> k'"
    by (rule align_least) blast
  have "map_option (\<lambda>r. (mr_score r, mr_var_values r)) (try_align lev kn t ws False cn) =
     (if validate_vars lev kn t (values_of lev kn cn t ws ps) cn then Some (int c, values_of lev kn cn t ws ps) else None)"
    using ps by (simp add: try_align_def Let_def terminal_segment_def walk_steps_def affordable_def values_of_def)
  with ps least have "\<exists>steps k. walk_back (align_table lev kn t ws) (length ws, length (segments t)) = Some steps \<and>
           alignment lev kn t ws steps k \<and> affordable t k \<and> (\<forall>steps' k'. alignment lev kn t ws steps' k' \<longrightarrow> k \<le> k') \<and>
           map_option (\<lambda>r. (mr_score r, mr_var_values r)) (try_align lev kn t ws False cn) =
             (if validate_vars lev kn t (values_of lev kn cn t ws steps) cn then Some (int k, values_of lev kn cn t ws steps) else None)"
    by (intro exI[of _ ps] exI[of _ c] conjI allI impI)
  with True show ?thesis by (simp only: if_True)
next
  case False
  then have "try_align lev kn t ws False cn = None" by (intro align_unaffordable) blast
  with False show ?thesis by (simp only: if_False)
qed

lemma path_length: "align_path edges n ps c k \<Longrightarrow> length ps = snd c"
  by (induction rule: align_path.induct) auto

text \<open>
  The walk along the parents of the alignment table, a loop that ends only when a cell has no parent, ends from
  every cell of every table that \<open>try_align\<close> fills, after at most as many steps as the cell counts segments.
\<close>

theorem traceback_terminates:
  "\<exists>steps. walk_back (align_table lev kn t ws) c = Some steps \<and> length steps \<le> snd c"
proof -
  obtain steps where w: "walk_back (align_table lev kn t ws) c = Some steps"
    and p: "fst (align_table lev kn t ws c) < INF_COST \<Longrightarrow> length steps = snd c"
    using al.fill_table_optimal[of lev kn t ws c, folded align_table_def] path_length by blast
  show ?thesis
  proof (cases "fst (align_table lev kn t ws c) < INF_COST")
    case False
    moreover have "al.cell_ok lev kn t ws (set (List.product [0..<Suc (length ws)] [0..<Suc (length (segments t))])) (align_table lev kn t ws) c"
      using al.holds_cell[OF al.fill_holds] by (simp only: align_table_def)
    ultimately have "snd (align_table lev kn t ws c) = None" by (auto simp: al.cell_ok_def INF_COST_def)
    with w have "steps = []" by (simp add: walk_back.simps)
    with w show ?thesis by simp
  qed (use w p in simp)
qed

section \<open>The stream of captures\<close>

type_synonym frame = "string list \<times> constraints option"

fun run_stream :: "distance \<Rightarrow> known_names \<Rightarrow> matcher \<Rightarrow> frame list \<Rightarrow> matcher \<times> (matcher_error + frame_result) list" where
  "run_stream lev kn m [] = (m, [])"
| "run_stream lev kn m (f # fs) =
     (let (m', r) = process_frame lev kn m (fst f) (snd f); (m'', rs) = run_stream lev kn m' fs in (m'', r # rs))"

text \<open>The captures that show a message, and among successive captures of one growing message the last.\<close>

definition text_frame :: "distance \<Rightarrow> frame \<Rightarrow> bool" where
  "text_frame lev f \<longleftrightarrow> fst f \<noteq> [] \<and> detect_screen_type lev (fst f) = None"

fun complete_frames :: "frame list \<Rightarrow> frame list" where
  "complete_frames (f # g # fs) =
     (if starts_with (join_words (fst g)) (join_words (fst f)) then complete_frames (g # fs) else f # complete_frames (g # fs))"
| "complete_frames fs = fs"

definition is_outcome :: "matcher_error + frame_result \<Rightarrow> bool" where
  "is_outcome r = (case r of Inl e \<Rightarrow> True | Inr NothingYet \<Rightarrow> False | Inr (Signal k) \<Rightarrow> False | Inr (Finalized x) \<Rightarrow> True)"

definition outcome_of :: "distance \<Rightarrow> known_names \<Rightarrow> matcher \<Rightarrow> frame \<Rightarrow> matcher_error + frame_result" where
  "outcome_of lev kn m f = finalize_frame lev kn m (preprocess_ocr (fst f)) (snd f)"

definition pends :: "frame option \<Rightarrow> matcher \<Rightarrow> bool" where
  "pends p m \<longleftrightarrow> mt_pending_words m = map_option fst p \<and> mt_pending_raw m = map_option (\<lambda>f. join_words (fst f)) p
     \<and> mt_pending_constraints m = Option.bind p snd"

lemma outcome_is_outcome [simp]: "is_outcome (outcome_of lev kn m f)"
  by (simp add: is_outcome_def outcome_of_def finalize_frame_def split: option.splits)

lemma not_outcome [simp]: "\<not> is_outcome (Inr NothingYet)" "\<not> is_outcome (Inr (Signal k))"
  by (simp_all add: is_outcome_def)

lemma outcome_of_templates: "mt_templates m = mt_templates m' \<Longrightarrow> outcome_of lev kn m f = outcome_of lev kn m' f"
  by (simp add: outcome_of_def finalize_frame_def)

lemma set_pending_simps [simp]: "mt_templates (set_pending ws cn m) = mt_templates m" "pends (Some (ws, cn)) (set_pending ws cn m)"
  by (simp_all add: set_pending_def pends_def)

lemma stream_outcomes:
  assumes "pends p m" "run_stream lev kn m fs = (m', rs)"
  shows "filter is_outcome (rs @ [snd (flush_frame lev kn m')])
     = map (outcome_of lev kn m) (complete_frames ((case p of None \<Rightarrow> [] | Some f \<Rightarrow> [f]) @ filter (text_frame lev) fs))"
  using assms
proof (induction fs arbitrary: p m m' rs)
  case Nil
  then show ?case
  proof (cases p)
    case (Some f)
    with Nil show ?thesis
      by (cases f) (simp add: pends_def flush_frame_def is_outcome_def outcome_of_def finalize_frame_def split: option.splits)
  qed (auto simp: pends_def flush_frame_def is_outcome_def)
next
  case (Cons f fs)
  obtain ws cn where f: "f = (ws, cn)" by (cases f)
  obtain m1 r where pf: "process_frame lev kn m ws cn = (m1, r)" by fastforce
  obtain rs1 where rs: "run_stream lev kn m1 fs = (m', rs1)" "rs = r # rs1"
    using Cons.prems(2) by (auto simp: f pf split: prod.splits)
  show ?case
  proof (cases "text_frame lev f")
    case False
    then have "m1 = m" "\<not> is_outcome r" using pf by (auto simp: text_frame_def f process_frame_def is_outcome_def split: if_splits option.splits)
    with Cons.IH[OF Cons.prems(1), of m' rs1] rs False show ?thesis by simp
  next
    case True
    then have shows_text: "ws \<noteq> []" "detect_screen_type lev ws = None" by (simp_all add: text_frame_def f)
    have m1: "m1 = set_pending ws cn m"
      using pf shows_text by (auto simp: process_frame_def split: option.splits if_splits)
    have r: "r = (case p of None \<Rightarrow> Inr NothingYet | Some g \<Rightarrow>
        if starts_with (join_words ws) (join_words (fst g)) then Inr NothingYet else outcome_of lev kn m g)"
      using pf shows_text Cons.prems(1)
      by (cases p) (auto simp: process_frame_def pends_def outcome_of_def split: option.splits if_splits)
    have "filter is_outcome (rs1 @ [snd (flush_frame lev kn m')]) = map (outcome_of lev kn m) (complete_frames (f # filter (text_frame lev) fs))"
      using Cons.IH[of "Some f" m1 m' rs1] rs m1 outcome_of_templates[of m1 m lev kn] by (simp add: f)
    with rs r True show ?thesis by (cases p) (auto simp: f)
  qed
qed

text \<open>
  C10: The stateful matcher cuts the stream of captures into complete messages. From a matcher with nothing pending,
  feed any captures and flush: the messages and the errors it reports are, in order, exactly the outcomes of matching
  the captures that show a message and are not continued by the next one; menus and empty captures in between change
  nothing, no message is reported twice or lost, an unknown message does not disturb the ones after it, and the pending
  fields stay consistent (the \<open>TypeError\<close> of a missing pending capture never occurs).
\<close>

theorem stream_exact:
  "(let (m', rs) = run_stream lev kn (reset_matcher m) fs in filter is_outcome (rs @ [snd (flush_frame lev kn m')]))
     = map (\<lambda>f. case try_full_match lev kn (mt_templates m) (preprocess_ocr (fst f)) (snd f) of
           Some r \<Rightarrow> Inr (Finalized r) | None \<Rightarrow> Inl (UnknownMessageError (preprocess_ocr (fst f))))
         (complete_frames (filter (text_frame lev) fs))"
proof -
  obtain m' rs where run: "run_stream lev kn (reset_matcher m) fs = (m', rs)" by fastforce
  have "pends None (reset_matcher m)" by (simp add: pends_def reset_matcher_def)
  from stream_outcomes[OF this run] run show ?thesis
    by (simp add: outcome_of_def finalize_frame_def reset_matcher_def cong: map_cong option.case_cong)
qed

section \<open>The winner among the templates\<close>

text \<open>A strict comparison that orders all elements up to ties.\<close>

locale strict_ranking =
  fixes gt :: "'a \<Rightarrow> 'a \<Rightarrow> bool"
  assumes gt_irrefl: "\<not> gt x x" and gt_trans: "gt x y \<Longrightarrow> gt y z \<Longrightarrow> gt x z" and gt_total: "gt x z \<Longrightarrow> gt x y \<or> gt y z"
begin

lemma first_best_from:
  "\<exists>b. foldl (\<lambda>best x. case best of None \<Rightarrow> Some x | Some b \<Rightarrow> if gt x b then Some x else best) (Some a) xs = Some b
     \<and> b \<in> set (a # xs) \<and> (\<forall>x \<in> set (a # xs). \<not> gt x b)"
proof (induction xs arbitrary: a)
  case Nil
  show ?case by (simp add: gt_irrefl)
next
  case (Cons x xs)
  show ?case
  proof (cases "gt x a")
    case True
    from Cons.IH[of x] obtain b where b: "foldl (\<lambda>best x. case best of None \<Rightarrow> Some x | Some b \<Rightarrow> if gt x b then Some x else best) (Some x) xs = Some b"
      "b \<in> set (x # xs)" "\<forall>y \<in> set (x # xs). \<not> gt y b" by blast
    then have "\<not> gt a b" using gt_trans[OF True, of b] by auto
    with b True show ?thesis by auto
  next
    case False
    from Cons.IH[of a] obtain b where b: "foldl (\<lambda>best x. case best of None \<Rightarrow> Some x | Some b \<Rightarrow> if gt x b then Some x else best) (Some a) xs = Some b"
      "b \<in> set (a # xs)" "\<forall>y \<in> set (a # xs). \<not> gt y b" by blast
    then have "\<not> gt x b" using gt_total[of x b a] False by auto
    with b False show ?thesis by auto
  qed
qed

lemma first_best_spec:
  "first_best gt xs = None \<longleftrightarrow> xs = []"
  "first_best gt xs = Some b \<Longrightarrow> b \<in> set xs \<and> (\<forall>x \<in> set xs. \<not> gt x b)"
proof -
  have step: "first_best gt (a # ys) = foldl (\<lambda>best x. case best of None \<Rightarrow> Some x | Some b \<Rightarrow> if gt x b then Some x else best) (Some a) ys" for a ys
    by (simp add: first_best_def)
  show "first_best gt xs = None \<longleftrightarrow> xs = []"
    using step first_best_from by (cases xs) (auto simp: first_best_def, metis option.distinct(1))
  assume "first_best gt xs = Some b"
  then show "b \<in> set xs \<and> (\<forall>x \<in> set xs. \<not> gt x b)"
    using step first_best_from by (cases xs) (auto simp: first_best_def, (metis option.inject set_ConsD list.set_intros)+)
qed

end

interpretation rank: strict_ranking ranks_better
  by unfold_locales (auto simp: ranks_better_def)

interpretation cover: strict_ranking covers_better
  by unfold_locales (auto simp: covers_better_def ranks_better_def)

text \<open>
  The winner among the templates. \<open>_try_full_match\<close> fails exactly when no template with a literal or an enumeration
  aligns. Otherwise it takes a result that none beats in the ranking (lower score, then more literals, then fewer
  misplaced prefixes) when that result explains enough of the words, and one of the highest literal coverage, ties by the
  same ranking, when the ranking's winner explains less than three tenths of them.
\<close>

theorem full_match_best:
  "(try_full_match lev kn ts ws cn = None \<longleftrightarrow> full_results lev kn ts ws cn = []) \<and>
   (try_full_match lev kn ts ws cn = Some r \<longrightarrow>
      (\<exists>b \<in> set (full_results lev kn ts ws cn). (\<forall>x \<in> set (full_results lev kn ts ws cn). \<not> ranks_better x b) \<and>
         (if mr_literal_coverage (fst b) \<ge> MIN_LITERAL_COVERAGE then r = fst b
          else \<exists>c \<in> set (full_results lev kn ts ws cn). r = fst c \<and> (\<forall>x \<in> set (full_results lev kn ts ws cn). \<not> covers_better x c))))"
proof (cases "first_best ranks_better (full_results lev kn ts ws cn)")
  case None
  then have "full_results lev kn ts ws cn = []" using rank.first_best_spec(1) by blast
  moreover have "try_full_match lev kn ts ws cn = None" using None by (simp add: try_full_match_def)
  ultimately show ?thesis by simp
next
  case (Some b)
  note b = rank.first_best_spec(2)[OF Some]
  then have ne: "full_results lev kn ts ws cn \<noteq> []" by auto
  show ?thesis
  proof (cases "mr_literal_coverage (fst b) \<ge> MIN_LITERAL_COVERAGE")
    case True
    with Some b ne show ?thesis by (auto simp: try_full_match_def Let_def)
  next
    case False
    obtain c where c: "first_best covers_better (full_results lev kn ts ws cn) = Some c"
      using cover.first_best_spec(1)[of "full_results lev kn ts ws cn"] ne by (cases "first_best covers_better (full_results lev kn ts ws cn)") auto
    have "try_full_match lev kn ts ws cn = Some (fst c)" using Some c False by (simp add: try_full_match_def Let_def)
    with b ne cover.first_best_spec(2)[OF c] False show ?thesis by auto
  qed
qed

section \<open>The variants of a template\<close>

definition named_token :: "template_token \<Rightarrow> bool" where
  "named_token t \<longleftrightarrow> tk_is_var t \<and> tk_placeholder t \<in> set ANY_PREFIX_PH"

text \<open>Every name with and without the prefix.\<close>

fun foe_variants :: "template_token list \<Rightarrow> template_token list list" where
  "foe_variants [] = [[]]"
| "foe_variants (t # ts) =
     (if named_token t then map (Cons t) (foe_variants ts) @ map (\<lambda>v. literal_token ''Foe'' # t # v) (foe_variants ts)
      else map (Cons t) (foe_variants ts))"

lemma foe_positions_Cons: "foe_positions (t # ts) = (if named_token t then [0] else []) @ map Suc (foe_positions ts)"
proof -
  have "[0..<length (t # ts)] = 0 # map Suc [0..<length ts]" by (simp add: map_Suc_upt upt_conv_Cons del: upt_Suc)
  then show ?thesis by (simp add: foe_positions_def filter_map o_def named_token_def)
qed

lemma insert_foe_head: "insert_foe toks (0, b) = (if b then literal_token ''Foe'' # toks else toks)"
  by (simp add: insert_foe_def)

lemma insert_shifted:
  "foldr (\<lambda>x toks. insert_foe toks x) (zip (map Suc ps) bs) (t # ts) = t # foldr (\<lambda>x toks. insert_foe toks x) (zip ps bs) ts"
  by (induction ps bs rule: list_induct2') (auto simp: insert_foe_def)

lemma foe_variants_combos:
  "map (\<lambda>combo. foldl insert_foe toks (rev (zip (foe_positions toks) combo))) (product_lists (map (\<lambda>_. [False, True]) (foe_positions toks)))
     = foe_variants toks"
proof (induction toks)
  case Nil
  show ?case by (simp add: foe_positions_def)
next
  case (Cons t ts)
  let ?combos = "\<lambda>ps. product_lists (map (\<lambda>_. [False, True]) ps)" and ?put = "foldr (\<lambda>x toks. insert_foe toks x)"
  have IH: "map (\<lambda>combo. ?put (zip (foe_positions ts) combo) ts) (?combos (foe_positions ts)) = foe_variants ts"
    using Cons by (simp add: foldl_conv_foldr)
  have shift: "?combos (map Suc ps) = ?combos ps" for ps :: "nat list" by (simp add: o_def)
  have rest: "map (\<lambda>combo. f (t # ?put (zip (foe_positions ts) combo) ts)) (?combos (foe_positions ts)) = map (\<lambda>v. f (t # v)) (foe_variants ts)"
    for f :: "template_token list \<Rightarrow> template_token list" unfolding IH[symmetric] by (simp add: o_def)
  show ?case
  proof (cases "named_token t")
    case True
    have "map (\<lambda>combo. ?put (zip (0 # map Suc (foe_positions ts)) combo) (t # ts)) (?combos (0 # map Suc (foe_positions ts))) = foe_variants (t # ts)"
      using rest[of id] rest[of "Cons (literal_token ''Foe'')"] True
      by (simp add: shift o_def insert_shifted insert_foe_head)
    then show ?thesis using True by (simp add: foe_positions_Cons foldl_conv_foldr)
  next
    case False
    then show ?thesis using rest[of id] by (simp add: foe_positions_Cons foldl_conv_foldr insert_shifted shift del: map_map)
  qed
qed

lemma length_foe_variants: "length (foe_variants toks) = 2 ^ length (filter named_token toks)"
  by (induction toks) auto

text \<open>
  The "Foe" expansion covers every reading. The templates that \<open>_foe_split\<close> makes of a message are, in order, all
  the ways to put the literal "Foe" in front of its prefixed names: for each name one half without and one half with the
  prefix, two to the number of names in all, the other tokens unchanged.
\<close>

theorem foe_split_exact:
  "foe_split m toks = map (template_of m) (foe_variants toks) \<and> length (foe_split m toks) = 2 ^ length (filter named_token toks)"
proof -
  have "foe_split m toks = map (template_of m) (foe_variants toks)"
  proof (cases "foe_positions toks = []")
    case True
    with foe_variants_combos[of toks] have "foe_variants toks = [toks]" by simp
    with True show ?thesis by (simp add: foe_split_def)
  next
    case False
    then show ?thesis unfolding foe_variants_combos[symmetric] by (simp add: foe_split_def Let_def)
  qed
  then show ?thesis by (simp add: length_foe_variants)
qed

section \<open>Samples\<close>

definition hit_message :: battle_message where
  "hit_message = \<lparr>bm_string_id = ''STRINGID_CRITICALHIT'', bm_id_value = 217, bm_raw = ''A critical hit!'', bm_normalized = ''A critical hit!'',
     bm_placeholders = [], bm_slot_categories = [], bm_constant_name = ''sText_CriticalHit''\<rparr>"

definition hit_template :: template where
  "hit_template = template_of hit_message (parse_template hit_message)"

definition no_names :: known_names where
  "no_names = \<lparr>kn_pokemon = [], kn_moves = [], kn_items = [], kn_abilities = [], kn_trainer_classes = [], kn_trainers = []\<rparr>"

definition hit_words :: "string list" where
  "hit_words = [''A'', ''critical'', ''hit'', ''!'']"

lemma hit_aligns: "alignment levenshtein no_names hit_template hit_words [((0, 0), (4, 1))] 0"
proof -
  have "length (segments hit_template) = 1 \<and> length hit_words = 4 \<and> (4, 0) \<in> set (align_edges levenshtein no_names hit_template hit_words 0 0)"
    by code_simp
  then show ?thesis
    using align_path.step[OF align_path.start, of 1 4 0 "align_edges levenshtein no_names hit_template hit_words"] by simp
qed

theorem try_align_exact_witness:
  "\<exists>r. try_align levenshtein no_names hit_template hit_words False None = Some r \<and> mr_score r = 0"
proof -
  have aff: "affordable hit_template 0" by (simp add: affordable_def INF_COST_def)
  have valid: "validate_vars levenshtein no_names hit_template vals None" for vals
  proof -
    have "extracting_tokens hit_template = []" by code_simp
    then show ?thesis by (simp add: validate_vars_def trainer_pairs_def Let_def)
  qed
  have ex: "\<exists>steps k. alignment levenshtein no_names hit_template hit_words steps k \<and> affordable hit_template k"
    using hit_aligns aff by blast
  from try_align_exact[of levenshtein no_names hit_template hit_words None, unfolded if_P[OF ex]]
  obtain steps k where k: "\<forall>steps' k'. alignment levenshtein no_names hit_template hit_words steps' k' \<longrightarrow> k \<le> k'"
    and r: "map_option (\<lambda>r. (mr_score r, mr_var_values r)) (try_align levenshtein no_names hit_template hit_words False None) =
      Some (int k, values_of levenshtein no_names None hit_template hit_words steps)" using valid by auto
  from k hit_aligns have "k = 0" by blast
  with r show ?thesis by auto
qed

theorem full_match_best_witness:
  "\<exists>r. try_full_match levenshtein no_names [hit_template] hit_words None = Some r
     \<and> r \<in> fst ` set (full_results levenshtein no_names [hit_template] hit_words None)"
proof -
  have "(try_full_match levenshtein no_names [hit_template] hit_words None = None) = False" by code_simp
  then obtain r where r: "try_full_match levenshtein no_names [hit_template] hit_words None = Some r" by auto
  with full_match_best[of levenshtein no_names "[hit_template]" hit_words None r] show ?thesis
    by (auto split: if_splits)
qed

section \<open>Limits of the matcher\<close>

text \<open>The filter by word counts drops a template that aligns at no cost when a variable takes more than three words.\<close>

definition long_var_template :: template where
  "long_var_template = template_of hit_message [var_token VC_TEXT [], literal_token ''fled'']"

definition long_var_words :: "string list" where
  "long_var_words = [''a'', ''b'', ''c'', ''d'', ''e'', ''fled'']"

lemma filter_rejects_alignable:
  "filter_candidates [long_var_template] long_var_words = []"
  "alignment levenshtein no_names long_var_template long_var_words [((0, 0), (5, 1)), ((5, 1), (6, 2))] 0"
proof -
  show "filter_candidates [long_var_template] long_var_words = []" by code_simp
  have e: "length (segments long_var_template) = 2 \<and> length long_var_words = 6
      \<and> (5, 0) \<in> set (align_edges levenshtein no_names long_var_template long_var_words 0 0)
      \<and> (6, 0) \<in> set (align_edges levenshtein no_names long_var_template long_var_words 5 1)" by code_simp
  let ?E = "align_edges levenshtein no_names long_var_template long_var_words"
  from align_path.step[OF align_path.start, of 2 5 0 ?E] e have "align_path ?E 2 [((0, 0), (5, 1))] (5, 1) 0" by simp
  from align_path.step[OF this, of 6 0] e
  show "alignment levenshtein no_names long_var_template long_var_words [((0, 0), (5, 1)), ((5, 1), (6, 2))] 0" by (simp add: numeral_2_eq_2)
qed

text \<open>The same capture twice is still pending: no result comes before another message or a flush.\<close>

lemma starts_with_refl [simp]: "starts_with s s"
  by (simp add: starts_with_def)

lemma repeated_capture_pending:
  assumes "text_frame lev (ws, cn)" "mt_pending_raw m = None"
  shows "snd (process_frame lev kn (fst (process_frame lev kn m ws cn)) ws cn) = Inr NothingYet"
  using assms by (simp add: process_frame_def text_frame_def set_pending_def)

end
