(* ===== verification/MessageTable.thy ===== *)
theory MessageTable
  imports MatcherLaws
begin

text \<open>
  The table of battle messages (\<open>battle_messages.py\<close>): 530 entries in the order of the source, in chunks, and what makes
  the table fit the matcher that expands it into templates.
\<close>

section \<open>The table\<close>

text \<open>The escapes for a line break, a scroll and a page break that the raw strings of the game contain.\<close>

definition NL_CODE :: string where
  "NL_CODE = [CHR 0x5C, CHR ''n'']"

definition SCROLL_CODE :: string where
  "SCROLL_CODE = [CHR 0x5C, CHR ''l'']"

definition PAGE_CODE :: string where
  "PAGE_CODE = [CHR 0x5C, CHR ''p'']"

definition battle_msg :: "string \<Rightarrow> int \<Rightarrow> string \<Rightarrow> string \<Rightarrow> string list \<Rightarrow> string list \<Rightarrow> string \<Rightarrow> battle_message" where
  "battle_msg string_id id_value raw normalized placeholders slot_categories constant_name = \<lparr>bm_string_id = string_id,
     bm_id_value = id_value, bm_raw = raw, bm_normalized = normalized, bm_placeholders = placeholders,
     bm_slot_categories = slot_categories, bm_constant_name = constant_name\<rparr>"

definition BATTLE_MESSAGES_1 :: "battle_message list" where
  "BATTLE_MESSAGES_1 = [
     battle_msg ''STRINGID_INTROMSG'' 0 (''{B_TRAINER1_CLASS} {B_TRAINER1_NAME}'' @ NL_CODE @ ''would like to battle!'') ''{VAR} {VAR} would like to battle!''
       [''B_TRAINER1_CLASS'', ''B_TRAINER1_NAME''] [''trainer_class'', ''trainer_name''] ''sText_Trainer1WantsToBattle'',
     battle_msg ''STRINGID_INTROMSG'' 0 (''{B_TRAINER1_CLASS} {B_TRAINER1_NAME} and'' @ NL_CODE @ ''{B_TRAINER2_CLASS} {B_TRAINER2_NAME}'' @ SCROLL_CODE @ ''want to battle!'') ''{VAR} {VAR} and {VAR} {VAR} want to battle!''
       [''B_TRAINER1_CLASS'', ''B_TRAINER1_NAME'', ''B_TRAINER2_CLASS'', ''B_TRAINER2_NAME''] [''trainer_class'', ''trainer_name'', ''trainer_class'', ''trainer_name''] ''sText_TwoTrainersWantToBattle'',
     battle_msg ''STRINGID_PLAYER_INTROSENDOUT'' 1 ''Go! {B_PLAYER_MON1_NAME}!'' ''Go! {VAR}!''
       [''B_PLAYER_MON1_NAME''] [''pokemon_name''] ''sText_GoPkmn'',
     battle_msg ''STRINGID_PLAYER_INTROSENDOUT'' 1 (''Go! {B_PLAYER_MON1_NAME} and'' @ NL_CODE @ ''{B_PLAYER_MON2_NAME}!'') ''Go! {VAR} and {VAR}!''
       [''B_PLAYER_MON1_NAME'', ''B_PLAYER_MON2_NAME''] [''pokemon_name'', ''pokemon_name''] ''sText_GoTwoPkmn'',
     battle_msg ''STRINGID_INTROSENDOUT'' 1 (''{B_TRAINER1_CLASS} {B_TRAINER1_NAME} sent'' @ NL_CODE @ ''out {B_OPPONENT_MON1_NAME}!'') ''{VAR} {VAR} sent out {VAR}!''
       [''B_TRAINER1_CLASS'', ''B_TRAINER1_NAME'', ''B_OPPONENT_MON1_NAME''] [''trainer_class'', ''trainer_name'', ''pokemon_name''] ''sText_Trainer1SentOutPkmn'',
     battle_msg ''STRINGID_INTROSENDOUT'' 1 (''{B_TRAINER1_CLASS} {B_TRAINER1_NAME} sent'' @ NL_CODE @ ''out {B_OPPONENT_MON1_NAME} and {B_OPPONENT_MON2_NAME}!'') ''{VAR} {VAR} sent out {VAR} and {VAR}!''
       [''B_TRAINER1_CLASS'', ''B_TRAINER1_NAME'', ''B_OPPONENT_MON1_NAME'', ''B_OPPONENT_MON2_NAME''] [''trainer_class'', ''trainer_name'', ''pokemon_name'', ''pokemon_name''] ''sText_Trainer1SentOutTwoPkmn'',
     battle_msg ''STRINGID_INTROSENDOUT'' 1 (''{B_TRAINER1_CLASS} {B_TRAINER1_NAME} sent'' @ NL_CODE @ ''out {B_OPPONENT_MON1_NAME}!'' @ PAGE_CODE @ ''{B_TRAINER2_CLASS} {B_TRAINER2_NAME} sent'' @ NL_CODE @ ''out {B_OPPONENT_MON2_NAME}!'') ''{VAR} {VAR} sent out {VAR}! {VAR} {VAR} sent out {VAR}!''
       [''B_TRAINER1_CLASS'', ''B_TRAINER1_NAME'', ''B_OPPONENT_MON1_NAME'', ''B_TRAINER2_CLASS'', ''B_TRAINER2_NAME'', ''B_OPPONENT_MON2_NAME''] [''trainer_class'', ''trainer_name'', ''pokemon_name'', ''trainer_class'', ''trainer_name'', ''pokemon_name''] ''sText_TwoTrainersSentPkmn'',
     battle_msg ''STRINGID_RETURNMON'' 2 (''{B_BUFF1}, that's enough!'' @ NL_CODE @ ''Come back!'') ''{VAR}, that's enough! Come back!''
       [''B_BUFF1''] [''pokemon_name''] ''sText_PkmnThatsEnough'',
     battle_msg ''STRINGID_RETURNMON'' 2 ''{B_BUFF1}, come back!'' ''{VAR}, come back!''
       [''B_BUFF1''] [''pokemon_name''] ''sText_PkmnComeBack'',
     battle_msg ''STRINGID_RETURNMON'' 2 (''{B_BUFF1}, OK!'' @ NL_CODE @ ''Come back!'') ''{VAR}, OK! Come back!''
       [''B_BUFF1''] [''pokemon_name''] ''sText_PkmnOkComeBack'',
     battle_msg ''STRINGID_RETURNMON'' 2 (''{B_BUFF1}, good!'' @ NL_CODE @ ''Come back!'') ''{VAR}, good! Come back!''
       [''B_BUFF1''] [''pokemon_name''] ''sText_PkmnGoodComeBack'',
     battle_msg ''STRINGID_RETURNMON'' 2 (''{B_TRAINER1_CLASS} {B_TRAINER1_NAME}'' @ NL_CODE @ ''withdrew {B_BUFF1}!'') ''{VAR} {VAR} withdrew {VAR}!''
       [''B_TRAINER1_CLASS'', ''B_TRAINER1_NAME'', ''B_BUFF1''] [''trainer_class'', ''trainer_name'', ''pokemon_name''] ''sText_Trainer1WithdrewPkmn'',
     battle_msg ''STRINGID_PLAYER_SWITCHINMON'' 3 ''Go! {B_BUFF1}!'' ''Go! {VAR}!''
       [''B_BUFF1''] [''pokemon_name''] ''sText_GoPkmn2'',
     battle_msg ''STRINGID_PLAYER_SWITCHINMON'' 3 ''Do it! {B_BUFF1}!'' ''Do it! {VAR}!''
       [''B_BUFF1''] [''pokemon_name''] ''sText_DoItPkmn'',
     battle_msg ''STRINGID_PLAYER_SWITCHINMON'' 3 ''Go for it, {B_BUFF1}!'' ''Go for it, {VAR}!''
       [''B_BUFF1''] [''pokemon_name''] ''sText_GoForItPkmn'',
     battle_msg ''STRINGID_PLAYER_SWITCHINMON'' 3 (''Your foe's weak!'' @ NL_CODE @ ''Get 'em, {B_BUFF1}!'') ''Your foe's weak! Get 'em, {VAR}!''
       [''B_BUFF1''] [''pokemon_name''] ''sText_YourFoesWeakGetEmPkmn'']"

definition BATTLE_MESSAGES_2 :: "battle_message list" where
  "BATTLE_MESSAGES_2 = [
     battle_msg ''STRINGID_SWITCHINMON'' 3 (''{B_TRAINER1_CLASS} {B_TRAINER1_NAME} sent'' @ NL_CODE @ ''out {B_BUFF1}!'') ''{VAR} {VAR} sent out {VAR}!''
       [''B_TRAINER1_CLASS'', ''B_TRAINER1_NAME'', ''B_BUFF1''] [''trainer_class'', ''trainer_name'', ''pokemon_name''] ''sText_Trainer1SentOutPkmn2'',
     battle_msg ''STRINGID_USEDMOVE'' 4 (''{B_ATK_NAME_WITH_PREFIX} used'' @ NL_CODE @ ''{B_BUFF2}'') ''{VAR} used {VAR}''
       [''B_ATK_NAME_WITH_PREFIX'', ''B_BUFF2''] [''pokemon_name'', ''move_name''] ''sText_AttackerUsedX'',
     battle_msg ''STRINGID_BATTLEEND'' 5 (''Player defeated'' @ NL_CODE @ ''{B_TRAINER1_CLASS} {B_TRAINER1_NAME}!'') ''Player defeated {VAR} {VAR}!''
       [''B_TRAINER1_CLASS'', ''B_TRAINER1_NAME''] [''trainer_class'', ''trainer_name''] ''sText_PlayerDefeatedLinkTrainerTrainer1'',
     battle_msg ''STRINGID_BATTLEEND'' 5 (''{B_TRAINER1_CLASS} {B_TRAINER1_NAME} and'' @ NL_CODE @ ''{B_TRAINER2_CLASS} {B_TRAINER2_NAME}'' @ SCROLL_CODE @ ''were defeated!'') ''{VAR} {VAR} and {VAR} {VAR} were defeated!''
       [''B_TRAINER1_CLASS'', ''B_TRAINER1_NAME'', ''B_TRAINER2_CLASS'', ''B_TRAINER2_NAME''] [''trainer_class'', ''trainer_name'', ''trainer_class'', ''trainer_name''] ''sText_TwoInGameTrainersDefeated'',
     battle_msg ''STRINGID_BATTLEEND'' 5 (''Player lost against'' @ NL_CODE @ ''{B_TRAINER1_CLASS} {B_TRAINER1_NAME}!'') ''Player lost against {VAR} {VAR}!''
       [''B_TRAINER1_CLASS'', ''B_TRAINER1_NAME''] [''trainer_class'', ''trainer_name''] ''sText_PlayerLostAgainstTrainer1'',
     battle_msg ''STRINGID_BATTLEEND'' 5 (''Player battled to a draw against'' @ NL_CODE @ ''{B_TRAINER1_CLASS} {B_TRAINER1_NAME}!'') ''Player battled to a draw against {VAR} {VAR}!''
       [''B_TRAINER1_CLASS'', ''B_TRAINER1_NAME''] [''trainer_class'', ''trainer_name''] ''sText_PlayerBattledToDrawTrainer1'',
     battle_msg ''STRINGID_TRAINER1LOSETEXT'' 12 ''{B_TRAINER1_LOSE_TEXT}'' ''{VAR}''
       [''B_TRAINER1_LOSE_TEXT''] [''text''] ''sText_Trainer1LoseText'',
     battle_msg ''STRINGID_PKMNGAINEDEXP'' 13 (''{B_BUFF1} gained'' @ NL_CODE @ ''{B_BUFF2} Exp. Points!'' @ PAGE_CODE) ''{VAR} gained {VAR} Exp. Points!''
       [''B_BUFF1'', ''B_BUFF2''] [''pokemon_name'', ''number''] ''sText_PkmnGainedEXP'',
     battle_msg ''STRINGID_PKMNGREWTOLV'' 14 (''{B_BUFF1} grew to'' @ NL_CODE @ ''LV. {B_BUFF2}!{WAIT_SE}'' @ PAGE_CODE) ''{VAR} grew to LV. {VAR}!''
       [''B_BUFF1'', ''B_BUFF2''] [''pokemon_name'', ''number''] ''sText_PkmnGrewToLv'',
     battle_msg ''STRINGID_PKMNLEARNEDMOVE'' 15 (''{B_BUFF1} learned'' @ NL_CODE @ ''{B_BUFF2}!{WAIT_SE}'' @ PAGE_CODE) ''{VAR} learned {VAR}!''
       [''B_BUFF1'', ''B_BUFF2''] [''pokemon_name'', ''move_name''] ''sText_PkmnLearnedMove'',
     battle_msg ''STRINGID_TRYTOLEARNMOVE1'' 16 (''{B_BUFF1} is trying to'' @ NL_CODE @ ''learn {B_BUFF2}.'' @ PAGE_CODE) ''{VAR} is trying to learn {VAR}.''
       [''B_BUFF1'', ''B_BUFF2''] [''pokemon_name'', ''move_name''] ''sText_TryToLearnMove1'',
     battle_msg ''STRINGID_TRYTOLEARNMOVE2'' 17 (''But, {B_BUFF1} can't learn'' @ NL_CODE @ ''more than four moves.'' @ PAGE_CODE) ''But, {VAR} can't learn more than four moves.''
       [''B_BUFF1''] [''pokemon_name''] ''sText_TryToLearnMove2'',
     battle_msg ''STRINGID_TRYTOLEARNMOVE3'' 18 (''Delete a move to make'' @ NL_CODE @ ''room for {B_BUFF2}?'') ''Delete a move to make room for {VAR}?''
       [''B_BUFF2''] [''move_name''] ''sText_TryToLearnMove3'',
     battle_msg ''STRINGID_PKMNFORGOTMOVE'' 19 (''{B_BUFF1} forgot'' @ NL_CODE @ ''{B_BUFF2}.'' @ PAGE_CODE) ''{VAR} forgot {VAR}.''
       [''B_BUFF1'', ''B_BUFF2''] [''pokemon_name'', ''move_name''] ''sText_PkmnForgotMove'',
     battle_msg ''STRINGID_STOPLEARNINGMOVE'' 20 (''{PAUSE 32}Stop learning'' @ NL_CODE @ ''{B_BUFF2}?'') ''Stop learning {VAR}?''
       [''B_BUFF2''] [''move_name''] ''sText_StopLearningMove'',
     battle_msg ''STRINGID_DIDNOTLEARNMOVE'' 21 (''{B_BUFF1} did not learn'' @ NL_CODE @ ''{B_BUFF2}.'' @ PAGE_CODE) ''{VAR} did not learn {VAR}.''
       [''B_BUFF1'', ''B_BUFF2''] [''pokemon_name'', ''move_name''] ''sText_DidNotLearnMove'']"

definition BATTLE_MESSAGES_3 :: "battle_message list" where
  "BATTLE_MESSAGES_3 = [
     battle_msg ''STRINGID_PKMNLEARNEDMOVE2'' 22 (''{B_ATK_NAME_WITH_PREFIX} learned'' @ NL_CODE @ ''{B_BUFF1}!'') ''{VAR} learned {VAR}!''
       [''B_ATK_NAME_WITH_PREFIX'', ''B_BUFF1''] [''pokemon_name'', ''pokemon_name''] ''sText_PkmnLearnedMove2'',
     battle_msg ''STRINGID_ATTACKMISSED'' 23 (''{B_ATK_NAME_WITH_PREFIX}'s'' @ NL_CODE @ ''attack missed!'') ''{VAR}'s attack missed!''
       [''B_ATK_NAME_WITH_PREFIX''] [''pokemon_name''] ''sText_AttackMissed'',
     battle_msg ''STRINGID_PKMNPROTECTEDITSELF'' 24 (''{B_DEF_NAME_WITH_PREFIX}'' @ NL_CODE @ ''protected itself!'') ''{VAR} protected itself!''
       [''B_DEF_NAME_WITH_PREFIX''] [''pokemon_name''] ''sText_PkmnProtectedItself'',
     battle_msg ''STRINGID_STATSWONTINCREASE2'' 25 (''{B_ATK_NAME_WITH_PREFIX}'s stats won't'' @ NL_CODE @ ''go any higher!'') ''{VAR}'s stats won't go any higher!''
       [''B_ATK_NAME_WITH_PREFIX''] [''pokemon_name''] ''sText_StatsWontIncrease2'',
     battle_msg ''STRINGID_AVOIDEDDAMAGE'' 26 (''{B_DEF_NAME_WITH_PREFIX} avoided'' @ NL_CODE @ ''damage with {B_DEF_ABILITY}!'') ''{VAR} avoided damage with {VAR}!''
       [''B_DEF_NAME_WITH_PREFIX'', ''B_DEF_ABILITY''] [''pokemon_name'', ''ability_name''] ''sText_AvoidedDamage'',
     battle_msg ''STRINGID_ITDOESNTAFFECT'' 27 (''It doesn't affect'' @ NL_CODE @ ''{B_DEF_NAME_WITH_PREFIX}'' @ [CHR 0x80]) (''It doesn't affect {VAR}'' @ [CHR 0x80])
       [''B_DEF_NAME_WITH_PREFIX''] [''pokemon_name''] ''sText_ItDoesntAffect'',
     battle_msg ''STRINGID_ATTACKERFAINTED'' 28 (''{B_ATK_NAME_WITH_PREFIX}'' @ NL_CODE @ ''fainted!'' @ PAGE_CODE) ''{VAR} fainted!''
       [''B_ATK_NAME_WITH_PREFIX''] [''pokemon_name''] ''sText_AttackerFainted'',
     battle_msg ''STRINGID_TARGETFAINTED'' 29 (''{B_DEF_NAME_WITH_PREFIX}'' @ NL_CODE @ ''fainted!'' @ PAGE_CODE) ''{VAR} fainted!''
       [''B_DEF_NAME_WITH_PREFIX''] [''pokemon_name''] ''sText_TargetFainted'',
     battle_msg ''STRINGID_PLAYERGOTMONEY'' 30 (''{B_PLAYER_NAME} got '' @ [CHR 0xA5] @ ''{B_BUFF1}'' @ NL_CODE @ ''for winning!'' @ PAGE_CODE) (''{VAR} got '' @ [CHR 0xA5] @ ''{VAR} for winning!'')
       [''B_PLAYER_NAME'', ''B_BUFF1''] [''text'', ''number''] ''sText_PlayerGotMoney'',
     battle_msg ''STRINGID_PLAYERWHITEOUT'' 31 (''{B_PLAYER_NAME} is out of'' @ NL_CODE @ ''usable POK'' @ [CHR 0xE9] @ ''MON!'' @ PAGE_CODE) (''{VAR} is out of usable POK'' @ [CHR 0xE9] @ ''MON!'')
       [''B_PLAYER_NAME''] [''text''] ''sText_PlayerWhiteout'',
     battle_msg ''STRINGID_PLAYERWHITEOUT2'' 32 ''{B_PLAYER_NAME} whited out!{PAUSE_UNTIL_PRESS}'' ''{VAR} whited out!''
       [''B_PLAYER_NAME''] [''text''] ''sText_PlayerWhiteout2'',
     battle_msg ''STRINGID_PREVENTSESCAPE'' 33 (''{B_SCR_ACTIVE_NAME_WITH_PREFIX} prevents'' @ NL_CODE @ ''escape with {B_SCR_ACTIVE_ABILITY}!'' @ PAGE_CODE) ''{VAR} prevents escape with {VAR}!''
       [''B_SCR_ACTIVE_NAME_WITH_PREFIX'', ''B_SCR_ACTIVE_ABILITY''] [''pokemon_name'', ''text''] ''sText_PreventsEscape'',
     battle_msg ''STRINGID_HITXTIMES'' 34 ''Hit {B_BUFF1} time(s)!'' ''Hit {VAR} time(s)!''
       [''B_BUFF1''] [''number''] ''sText_HitXTimes'',
     battle_msg ''STRINGID_PKMNFELLASLEEP'' 35 (''{B_EFF_NAME_WITH_PREFIX}'' @ NL_CODE @ ''fell asleep!'') ''{VAR} fell asleep!''
       [''B_EFF_NAME_WITH_PREFIX''] [''pokemon_name''] ''sText_PkmnFellAsleep'',
     battle_msg ''STRINGID_PKMNMADESLEEP'' 36 (''{B_SCR_ACTIVE_NAME_WITH_PREFIX}'s {B_SCR_ACTIVE_ABILITY}'' @ NL_CODE @ ''made {B_EFF_NAME_WITH_PREFIX} sleep!'') ''{VAR}'s {VAR} made {VAR} sleep!''
       [''B_SCR_ACTIVE_NAME_WITH_PREFIX'', ''B_SCR_ACTIVE_ABILITY'', ''B_EFF_NAME_WITH_PREFIX''] [''pokemon_name'', ''text'', ''pokemon_name''] ''sText_PkmnMadeSleep'',
     battle_msg ''STRINGID_PKMNALREADYASLEEP'' 37 (''{B_DEF_NAME_WITH_PREFIX} is'' @ NL_CODE @ ''already asleep!'') ''{VAR} is already asleep!''
       [''B_DEF_NAME_WITH_PREFIX''] [''pokemon_name''] ''sText_PkmnAlreadyAsleep'']"

definition BATTLE_MESSAGES_4 :: "battle_message list" where
  "BATTLE_MESSAGES_4 = [
     battle_msg ''STRINGID_PKMNALREADYASLEEP2'' 38 (''{B_ATK_NAME_WITH_PREFIX} is'' @ NL_CODE @ ''already asleep!'') ''{VAR} is already asleep!''
       [''B_ATK_NAME_WITH_PREFIX''] [''pokemon_name''] ''sText_PkmnAlreadyAsleep2'',
     battle_msg ''STRINGID_PKMNWASNTAFFECTED'' 39 (''{B_DEF_NAME_WITH_PREFIX}'' @ NL_CODE @ ''wasn't affected!'') ''{VAR} wasn't affected!''
       [''B_DEF_NAME_WITH_PREFIX''] [''pokemon_name''] ''sText_PkmnWasntAffected'',
     battle_msg ''STRINGID_PKMNWASPOISONED'' 40 (''{B_EFF_NAME_WITH_PREFIX}'' @ NL_CODE @ ''was poisoned!'') ''{VAR} was poisoned!''
       [''B_EFF_NAME_WITH_PREFIX''] [''pokemon_name''] ''sText_PkmnWasPoisoned'',
     battle_msg ''STRINGID_PKMNPOISONEDBY'' 41 (''{B_EFF_NAME_WITH_PREFIX} was poisoned by'' @ NL_CODE @ ''{B_SCR_ACTIVE_NAME_WITH_PREFIX}'s {B_SCR_ACTIVE_ABILITY}!'') ''{VAR} was poisoned by {VAR}'s {VAR}!''
       [''B_EFF_NAME_WITH_PREFIX'', ''B_SCR_ACTIVE_NAME_WITH_PREFIX'', ''B_SCR_ACTIVE_ABILITY''] [''pokemon_name'', ''pokemon_name'', ''text''] ''sText_PkmnPoisonedBy'',
     battle_msg ''STRINGID_PKMNHURTBYPOISON'' 42 (''{B_ATK_NAME_WITH_PREFIX} is hurt'' @ NL_CODE @ ''by poison!'') ''{VAR} is hurt by poison!''
       [''B_ATK_NAME_WITH_PREFIX''] [''pokemon_name''] ''sText_PkmnHurtByPoison'',
     battle_msg ''STRINGID_PKMNALREADYPOISONED'' 43 (''{B_DEF_NAME_WITH_PREFIX} is already'' @ NL_CODE @ ''poisoned.'') ''{VAR} is already poisoned.''
       [''B_DEF_NAME_WITH_PREFIX''] [''pokemon_name''] ''sText_PkmnAlreadyPoisoned'',
     battle_msg ''STRINGID_PKMNBADLYPOISONED'' 44 (''{B_EFF_NAME_WITH_PREFIX} is badly'' @ NL_CODE @ ''poisoned!'') ''{VAR} is badly poisoned!''
       [''B_EFF_NAME_WITH_PREFIX''] [''pokemon_name''] ''sText_PkmnBadlyPoisoned'',
     battle_msg ''STRINGID_PKMNENERGYDRAINED'' 45 (''{B_DEF_NAME_WITH_PREFIX} had its'' @ NL_CODE @ ''energy drained!'') ''{VAR} had its energy drained!''
       [''B_DEF_NAME_WITH_PREFIX''] [''pokemon_name''] ''sText_PkmnEnergyDrained'',
     battle_msg ''STRINGID_PKMNWASBURNED'' 46 ''{B_EFF_NAME_WITH_PREFIX} was burned!'' ''{VAR} was burned!''
       [''B_EFF_NAME_WITH_PREFIX''] [''pokemon_name''] ''sText_PkmnWasBurned'',
     battle_msg ''STRINGID_PKMNBURNEDBY'' 47 (''{B_SCR_ACTIVE_NAME_WITH_PREFIX}'s {B_SCR_ACTIVE_ABILITY}'' @ NL_CODE @ ''burned {B_EFF_NAME_WITH_PREFIX}!'') ''{VAR}'s {VAR} burned {VAR}!''
       [''B_SCR_ACTIVE_NAME_WITH_PREFIX'', ''B_SCR_ACTIVE_ABILITY'', ''B_EFF_NAME_WITH_PREFIX''] [''pokemon_name'', ''text'', ''pokemon_name''] ''sText_PkmnBurnedBy'',
     battle_msg ''STRINGID_PKMNHURTBYBURN'' 48 (''{B_ATK_NAME_WITH_PREFIX} is hurt'' @ NL_CODE @ ''by its burn!'') ''{VAR} is hurt by its burn!''
       [''B_ATK_NAME_WITH_PREFIX''] [''pokemon_name''] ''sText_PkmnHurtByBurn'',
     battle_msg ''STRINGID_PKMNWASFROZEN'' 49 (''{B_EFF_NAME_WITH_PREFIX} was'' @ NL_CODE @ ''frozen solid!'') ''{VAR} was frozen solid!''
       [''B_EFF_NAME_WITH_PREFIX''] [''pokemon_name''] ''sText_PkmnWasFrozen'',
     battle_msg ''STRINGID_PKMNFROZENBY'' 50 (''{B_SCR_ACTIVE_NAME_WITH_PREFIX}'s {B_SCR_ACTIVE_ABILITY}'' @ NL_CODE @ ''froze {B_EFF_NAME_WITH_PREFIX} solid!'') ''{VAR}'s {VAR} froze {VAR} solid!''
       [''B_SCR_ACTIVE_NAME_WITH_PREFIX'', ''B_SCR_ACTIVE_ABILITY'', ''B_EFF_NAME_WITH_PREFIX''] [''pokemon_name'', ''text'', ''pokemon_name''] ''sText_PkmnFrozenBy'',
     battle_msg ''STRINGID_PKMNISFROZEN'' 51 (''{B_ATK_NAME_WITH_PREFIX} is'' @ NL_CODE @ ''frozen solid!'') ''{VAR} is frozen solid!''
       [''B_ATK_NAME_WITH_PREFIX''] [''pokemon_name''] ''sText_PkmnIsFrozen'',
     battle_msg ''STRINGID_PKMNWASDEFROSTED'' 52 (''{B_DEF_NAME_WITH_PREFIX} was'' @ NL_CODE @ ''defrosted!'') ''{VAR} was defrosted!''
       [''B_DEF_NAME_WITH_PREFIX''] [''pokemon_name''] ''sText_PkmnWasDefrosted'',
     battle_msg ''STRINGID_PKMNWASDEFROSTED2'' 53 (''{B_ATK_NAME_WITH_PREFIX} was'' @ NL_CODE @ ''defrosted!'') ''{VAR} was defrosted!''
       [''B_ATK_NAME_WITH_PREFIX''] [''pokemon_name''] ''sText_PkmnWasDefrosted2'']"

definition BATTLE_MESSAGES_5 :: "battle_message list" where
  "BATTLE_MESSAGES_5 = [
     battle_msg ''STRINGID_PKMNWASDEFROSTEDBY'' 54 (''{B_ATK_NAME_WITH_PREFIX} was'' @ NL_CODE @ ''defrosted by {B_CURRENT_MOVE}!'') ''{VAR} was defrosted by {VAR}!''
       [''B_ATK_NAME_WITH_PREFIX'', ''B_CURRENT_MOVE''] [''pokemon_name'', ''move_name''] ''sText_PkmnWasDefrostedBy'',
     battle_msg ''STRINGID_PKMNWASPARALYZED'' 55 (''{B_EFF_NAME_WITH_PREFIX} is paralyzed!'' @ NL_CODE @ ''It may be unable to move!'') ''{VAR} is paralyzed! It may be unable to move!''
       [''B_EFF_NAME_WITH_PREFIX''] [''pokemon_name''] ''sText_PkmnWasParalyzed'',
     battle_msg ''STRINGID_PKMNWASPARALYZEDBY'' 56 (''{B_SCR_ACTIVE_NAME_WITH_PREFIX}'s {B_SCR_ACTIVE_ABILITY}'' @ NL_CODE @ ''paralyzed {B_EFF_NAME_WITH_PREFIX}!'' @ SCROLL_CODE @ ''It may be unable to move!'') ''{VAR}'s {VAR} paralyzed {VAR}! It may be unable to move!''
       [''B_SCR_ACTIVE_NAME_WITH_PREFIX'', ''B_SCR_ACTIVE_ABILITY'', ''B_EFF_NAME_WITH_PREFIX''] [''pokemon_name'', ''text'', ''pokemon_name''] ''sText_PkmnWasParalyzedBy'',
     battle_msg ''STRINGID_PKMNISPARALYZED'' 57 (''{B_ATK_NAME_WITH_PREFIX} is paralyzed!'' @ NL_CODE @ ''It can't move!'') ''{VAR} is paralyzed! It can't move!''
       [''B_ATK_NAME_WITH_PREFIX''] [''pokemon_name''] ''sText_PkmnIsParalyzed'',
     battle_msg ''STRINGID_PKMNISALREADYPARALYZED'' 58 (''{B_DEF_NAME_WITH_PREFIX} is'' @ NL_CODE @ ''already paralyzed!'') ''{VAR} is already paralyzed!''
       [''B_DEF_NAME_WITH_PREFIX''] [''pokemon_name''] ''sText_PkmnIsAlreadyParalyzed'',
     battle_msg ''STRINGID_PKMNHEALEDPARALYSIS'' 59 (''{B_DEF_NAME_WITH_PREFIX} was'' @ NL_CODE @ ''healed of paralysis!'') ''{VAR} was healed of paralysis!''
       [''B_DEF_NAME_WITH_PREFIX''] [''pokemon_name''] ''sText_PkmnHealedParalysis'',
     battle_msg ''STRINGID_PKMNDREAMEATEN'' 60 (''{B_DEF_NAME_WITH_PREFIX}'s'' @ NL_CODE @ ''dream was eaten!'') ''{VAR}'s dream was eaten!''
       [''B_DEF_NAME_WITH_PREFIX''] [''pokemon_name''] ''sText_PkmnDreamEaten'',
     battle_msg ''STRINGID_STATSWONTINCREASE'' 61 (''{B_ATK_NAME_WITH_PREFIX}'s {B_BUFF1}'' @ NL_CODE @ ''won't go higher!'') ''{VAR}'s {VAR} won't go higher!''
       [''B_ATK_NAME_WITH_PREFIX'', ''B_BUFF1''] [''pokemon_name'', ''stat_name''] ''sText_StatsWontIncrease'',
     battle_msg ''STRINGID_STATSWONTDECREASE'' 62 (''{B_DEF_NAME_WITH_PREFIX}'s {B_BUFF1}'' @ NL_CODE @ ''won't go lower!'') ''{VAR}'s {VAR} won't go lower!''
       [''B_DEF_NAME_WITH_PREFIX'', ''B_BUFF1''] [''pokemon_name'', ''stat_name''] ''sText_StatsWontDecrease'',
     battle_msg ''STRINGID_TEAMSTOPPEDWORKING'' 63 (''Your team's {B_BUFF1}'' @ NL_CODE @ ''stopped working!'') ''Your team's {VAR} stopped working!''
       [''B_BUFF1''] [''text''] ''sText_TeamStoppedWorking'',
     battle_msg ''STRINGID_FOESTOPPEDWORKING'' 64 (''The foe's {B_BUFF1}'' @ NL_CODE @ ''stopped working!'') ''The foe's {VAR} stopped working!''
       [''B_BUFF1''] [''text''] ''sText_FoeStoppedWorking'',
     battle_msg ''STRINGID_PKMNISCONFUSED'' 65 (''{B_ATK_NAME_WITH_PREFIX} is'' @ NL_CODE @ ''confused!'') ''{VAR} is confused!''
       [''B_ATK_NAME_WITH_PREFIX''] [''pokemon_name''] ''sText_PkmnIsConfused'',
     battle_msg ''STRINGID_PKMNHEALEDCONFUSION'' 66 (''{B_ATK_NAME_WITH_PREFIX} snapped'' @ NL_CODE @ ''out of confusion!'') ''{VAR} snapped out of confusion!''
       [''B_ATK_NAME_WITH_PREFIX''] [''pokemon_name''] ''sText_PkmnHealedConfusion'',
     battle_msg ''STRINGID_PKMNWASCONFUSED'' 67 (''{B_EFF_NAME_WITH_PREFIX} became'' @ NL_CODE @ ''confused!'') ''{VAR} became confused!''
       [''B_EFF_NAME_WITH_PREFIX''] [''pokemon_name''] ''sText_PkmnWasConfused'',
     battle_msg ''STRINGID_PKMNALREADYCONFUSED'' 68 (''{B_DEF_NAME_WITH_PREFIX} is'' @ NL_CODE @ ''already confused!'') ''{VAR} is already confused!''
       [''B_DEF_NAME_WITH_PREFIX''] [''pokemon_name''] ''sText_PkmnAlreadyConfused'',
     battle_msg ''STRINGID_PKMNFELLINLOVE'' 69 (''{B_DEF_NAME_WITH_PREFIX}'' @ NL_CODE @ ''fell in love!'') ''{VAR} fell in love!''
       [''B_DEF_NAME_WITH_PREFIX''] [''pokemon_name''] ''sText_PkmnFellInLove'']"

definition BATTLE_MESSAGES_6 :: "battle_message list" where
  "BATTLE_MESSAGES_6 = [
     battle_msg ''STRINGID_PKMNINLOVE'' 70 (''{B_ATK_NAME_WITH_PREFIX} is in love'' @ NL_CODE @ ''with {B_SCR_ACTIVE_NAME_WITH_PREFIX}!'') ''{VAR} is in love with {VAR}!''
       [''B_ATK_NAME_WITH_PREFIX'', ''B_SCR_ACTIVE_NAME_WITH_PREFIX''] [''pokemon_name'', ''pokemon_name''] ''sText_PkmnInLove'',
     battle_msg ''STRINGID_PKMNIMMOBILIZEDBYLOVE'' 71 (''{B_ATK_NAME_WITH_PREFIX} is'' @ NL_CODE @ ''immobilized by love!'') ''{VAR} is immobilized by love!''
       [''B_ATK_NAME_WITH_PREFIX''] [''pokemon_name''] ''sText_PkmnImmobilizedByLove'',
     battle_msg ''STRINGID_PKMNBLOWNAWAY'' 72 (''{B_DEF_NAME_WITH_PREFIX} was'' @ NL_CODE @ ''blown away!'') ''{VAR} was blown away!''
       [''B_DEF_NAME_WITH_PREFIX''] [''pokemon_name''] ''sText_PkmnBlownAway'',
     battle_msg ''STRINGID_PKMNCHANGEDTYPE'' 73 (''{B_ATK_NAME_WITH_PREFIX} transformed'' @ NL_CODE @ ''into the {B_BUFF1} type!'') ''{VAR} transformed into the {VAR} type!''
       [''B_ATK_NAME_WITH_PREFIX'', ''B_BUFF1''] [''pokemon_name'', ''type_name''] ''sText_PkmnChangedType'',
     battle_msg ''STRINGID_PKMNFLINCHED'' 74 ''{B_ATK_NAME_WITH_PREFIX} flinched!'' ''{VAR} flinched!''
       [''B_ATK_NAME_WITH_PREFIX''] [''pokemon_name''] ''sText_PkmnFlinched'',
     battle_msg ''STRINGID_PKMNREGAINEDHEALTH'' 75 (''{B_DEF_NAME_WITH_PREFIX} regained'' @ NL_CODE @ ''health!'') ''{VAR} regained health!''
       [''B_DEF_NAME_WITH_PREFIX''] [''pokemon_name''] ''sText_PkmnRegainedHealth'',
     battle_msg ''STRINGID_PKMNHPFULL'' 76 (''{B_DEF_NAME_WITH_PREFIX}'s'' @ NL_CODE @ ''HP is full!'') ''{VAR}'s HP is full!''
       [''B_DEF_NAME_WITH_PREFIX''] [''pokemon_name''] ''sText_PkmnHPFull'',
     battle_msg ''STRINGID_PKMNRAISEDSPDEF'' 77 (''{B_ATK_PREFIX2}'s {B_CURRENT_MOVE}'' @ NL_CODE @ ''raised SP. DEF!'') ''{VAR}'s {VAR} raised SP. DEF!''
       [''B_ATK_PREFIX2'', ''B_CURRENT_MOVE''] [''text'', ''move_name''] ''sText_PkmnRaisedSpDef'',
     battle_msg ''STRINGID_PKMNRAISEDDEF'' 78 (''{B_ATK_PREFIX2}'s {B_CURRENT_MOVE}'' @ NL_CODE @ ''raised DEFENSE!'') ''{VAR}'s {VAR} raised DEFENSE!''
       [''B_ATK_PREFIX2'', ''B_CURRENT_MOVE''] [''text'', ''move_name''] ''sText_PkmnRaisedDef'',
     battle_msg ''STRINGID_PKMNCOVEREDBYVEIL'' 79 (''{B_ATK_PREFIX2}'s party is covered'' @ NL_CODE @ ''by a veil!'') ''{VAR}'s party is covered by a veil!''
       [''B_ATK_PREFIX2''] [''text''] ''sText_PkmnCoveredByVeil'',
     battle_msg ''STRINGID_PKMNUSEDSAFEGUARD'' 80 (''{B_DEF_NAME_WITH_PREFIX}'s party is protected'' @ NL_CODE @ ''by SAFEGUARD!'') ''{VAR}'s party is protected by SAFEGUARD!''
       [''B_DEF_NAME_WITH_PREFIX''] [''pokemon_name''] ''sText_PkmnUsedSafeguard'',
     battle_msg ''STRINGID_PKMNSAFEGUARDEXPIRED'' 81 (''{B_ATK_PREFIX3}'s party is no longer'' @ NL_CODE @ ''protected by SAFEGUARD!'') ''{VAR}'s party is no longer protected by SAFEGUARD!''
       [''B_ATK_PREFIX3''] [''text''] ''sText_PkmnSafeguardExpired'',
     battle_msg ''STRINGID_PKMNWENTTOSLEEP'' 82 (''{B_ATK_NAME_WITH_PREFIX} went'' @ NL_CODE @ ''to sleep!'') ''{VAR} went to sleep!''
       [''B_ATK_NAME_WITH_PREFIX''] [''pokemon_name''] ''sText_PkmnWentToSleep'',
     battle_msg ''STRINGID_PKMNSLEPTHEALTHY'' 83 (''{B_ATK_NAME_WITH_PREFIX} slept and'' @ NL_CODE @ ''became healthy!'') ''{VAR} slept and became healthy!''
       [''B_ATK_NAME_WITH_PREFIX''] [''pokemon_name''] ''sText_PkmnSleptHealthy'',
     battle_msg ''STRINGID_PKMNWHIPPEDWHIRLWIND'' 84 (''{B_ATK_NAME_WITH_PREFIX} whipped'' @ NL_CODE @ ''up a whirlwind!'') ''{VAR} whipped up a whirlwind!''
       [''B_ATK_NAME_WITH_PREFIX''] [''pokemon_name''] ''sText_PkmnWhippedWhirlwind'',
     battle_msg ''STRINGID_PKMNTOOKSUNLIGHT'' 85 (''{B_ATK_NAME_WITH_PREFIX} took'' @ NL_CODE @ ''in sunlight!'') ''{VAR} took in sunlight!''
       [''B_ATK_NAME_WITH_PREFIX''] [''pokemon_name''] ''sText_PkmnTookSunlight'']"

definition BATTLE_MESSAGES_7 :: "battle_message list" where
  "BATTLE_MESSAGES_7 = [
     battle_msg ''STRINGID_PKMNLOWEREDHEAD'' 86 (''{B_ATK_NAME_WITH_PREFIX} lowered'' @ NL_CODE @ ''its head!'') ''{VAR} lowered its head!''
       [''B_ATK_NAME_WITH_PREFIX''] [''pokemon_name''] ''sText_PkmnLoweredHead'',
     battle_msg ''STRINGID_PKMNISGLOWING'' 87 ''{B_ATK_NAME_WITH_PREFIX} is glowing!'' ''{VAR} is glowing!''
       [''B_ATK_NAME_WITH_PREFIX''] [''pokemon_name''] ''sText_PkmnIsGlowing'',
     battle_msg ''STRINGID_PKMNFLEWHIGH'' 88 (''{B_ATK_NAME_WITH_PREFIX} flew'' @ NL_CODE @ ''up high!'') ''{VAR} flew up high!''
       [''B_ATK_NAME_WITH_PREFIX''] [''pokemon_name''] ''sText_PkmnFlewHigh'',
     battle_msg ''STRINGID_PKMNDUGHOLE'' 89 ''{B_ATK_NAME_WITH_PREFIX} dug a hole!'' ''{VAR} dug a hole!''
       [''B_ATK_NAME_WITH_PREFIX''] [''pokemon_name''] ''sText_PkmnDugHole'',
     battle_msg ''STRINGID_PKMNSQUEEZEDBYBIND'' 90 (''{B_DEF_NAME_WITH_PREFIX} was squeezed by'' @ NL_CODE @ ''{B_ATK_NAME_WITH_PREFIX}'s BIND!'') ''{VAR} was squeezed by {VAR}'s BIND!''
       [''B_DEF_NAME_WITH_PREFIX'', ''B_ATK_NAME_WITH_PREFIX''] [''pokemon_name'', ''pokemon_name''] ''sText_PkmnSqueezedByBind'',
     battle_msg ''STRINGID_PKMNTRAPPEDINVORTEX'' 91 (''{B_DEF_NAME_WITH_PREFIX} was trapped'' @ NL_CODE @ ''in the vortex!'') ''{VAR} was trapped in the vortex!''
       [''B_DEF_NAME_WITH_PREFIX''] [''pokemon_name''] ''sText_PkmnTrappedInVortex'',
     battle_msg ''STRINGID_PKMNWRAPPEDBY'' 92 (''{B_DEF_NAME_WITH_PREFIX} was WRAPPED by'' @ NL_CODE @ ''{B_ATK_NAME_WITH_PREFIX}!'') ''{VAR} was WRAPPED by {VAR}!''
       [''B_DEF_NAME_WITH_PREFIX'', ''B_ATK_NAME_WITH_PREFIX''] [''pokemon_name'', ''pokemon_name''] ''sText_PkmnWrappedBy'',
     battle_msg ''STRINGID_PKMNCLAMPED'' 93 (''{B_ATK_NAME_WITH_PREFIX} CLAMPED'' @ NL_CODE @ ''{B_DEF_NAME_WITH_PREFIX}!'') ''{VAR} CLAMPED {VAR}!''
       [''B_ATK_NAME_WITH_PREFIX'', ''B_DEF_NAME_WITH_PREFIX''] [''pokemon_name'', ''pokemon_name''] ''sText_PkmnClamped'',
     battle_msg ''STRINGID_PKMNHURTBY'' 94 (''{B_ATK_NAME_WITH_PREFIX} is hurt'' @ NL_CODE @ ''by {B_BUFF1}!'') ''{VAR} is hurt by {VAR}!''
       [''B_ATK_NAME_WITH_PREFIX'', ''B_BUFF1''] [''pokemon_name'', ''text''] ''sText_PkmnHurtBy'',
     battle_msg ''STRINGID_PKMNFREEDFROM'' 95 (''{B_ATK_NAME_WITH_PREFIX} was freed'' @ NL_CODE @ ''from {B_BUFF1}!'') ''{VAR} was freed from {VAR}!''
       [''B_ATK_NAME_WITH_PREFIX'', ''B_BUFF1''] [''pokemon_name'', ''text''] ''sText_PkmnFreedFrom'',
     battle_msg ''STRINGID_PKMNCRASHED'' 96 (''{B_ATK_NAME_WITH_PREFIX} kept going'' @ NL_CODE @ ''and crashed!'') ''{VAR} kept going and crashed!''
       [''B_ATK_NAME_WITH_PREFIX''] [''pokemon_name''] ''sText_PkmnCrashed'',
     battle_msg ''STRINGID_PKMNSHROUDEDINMIST'' 97 (''{B_ATK_PREFIX2} became'' @ NL_CODE @ ''shrouded in MIST!'') ''{VAR} became shrouded in MIST!''
       [''B_ATK_PREFIX2''] [''text''] ''gText_PkmnShroudedInMist'',
     battle_msg ''STRINGID_PKMNPROTECTEDBYMIST'' 98 (''{B_SCR_ACTIVE_NAME_WITH_PREFIX} is protected'' @ NL_CODE @ ''by MIST!'') ''{VAR} is protected by MIST!''
       [''B_SCR_ACTIVE_NAME_WITH_PREFIX''] [''pokemon_name''] ''sText_PkmnProtectedByMist'',
     battle_msg ''STRINGID_PKMNGETTINGPUMPED'' 99 (''{B_ATK_NAME_WITH_PREFIX} is getting'' @ NL_CODE @ ''pumped!'') ''{VAR} is getting pumped!''
       [''B_ATK_NAME_WITH_PREFIX''] [''pokemon_name''] ''gText_PkmnGettingPumped'',
     battle_msg ''STRINGID_PKMNHITWITHRECOIL'' 100 (''{B_ATK_NAME_WITH_PREFIX} is hit'' @ NL_CODE @ ''with recoil!'') ''{VAR} is hit with recoil!''
       [''B_ATK_NAME_WITH_PREFIX''] [''pokemon_name''] ''sText_PkmnHitWithRecoil'',
     battle_msg ''STRINGID_PKMNPROTECTEDITSELF2'' 101 (''{B_ATK_NAME_WITH_PREFIX} protected'' @ NL_CODE @ ''itself!'') ''{VAR} protected itself!''
       [''B_ATK_NAME_WITH_PREFIX''] [''pokemon_name''] ''sText_PkmnProtectedItself2'']"

definition BATTLE_MESSAGES_8 :: "battle_message list" where
  "BATTLE_MESSAGES_8 = [
     battle_msg ''STRINGID_PKMNBUFFETEDBYSANDSTORM'' 102 (''{B_ATK_NAME_WITH_PREFIX} is buffeted'' @ NL_CODE @ ''by the sandstorm!'') ''{VAR} is buffeted by the sandstorm!''
       [''B_ATK_NAME_WITH_PREFIX''] [''pokemon_name''] ''sText_PkmnBuffetedBySandstorm'',
     battle_msg ''STRINGID_PKMNPELTEDBYHAIL'' 103 (''{B_ATK_NAME_WITH_PREFIX} is pelted'' @ NL_CODE @ ''by HAIL!'') ''{VAR} is pelted by HAIL!''
       [''B_ATK_NAME_WITH_PREFIX''] [''pokemon_name''] ''sText_PkmnPeltedByHail'',
     battle_msg ''STRINGID_PKMNSEEDED'' 104 ''{B_DEF_NAME_WITH_PREFIX} was seeded!'' ''{VAR} was seeded!''
       [''B_DEF_NAME_WITH_PREFIX''] [''pokemon_name''] ''sText_PkmnSeeded'',
     battle_msg ''STRINGID_PKMNEVADEDATTACK'' 105 (''{B_DEF_NAME_WITH_PREFIX} evaded'' @ NL_CODE @ ''the attack!'') ''{VAR} evaded the attack!''
       [''B_DEF_NAME_WITH_PREFIX''] [''pokemon_name''] ''sText_PkmnEvadedAttack'',
     battle_msg ''STRINGID_PKMNSAPPEDBYLEECHSEED'' 106 (''{B_ATK_NAME_WITH_PREFIX}'s health is'' @ NL_CODE @ ''sapped by LEECH SEED!'') ''{VAR}'s health is sapped by LEECH SEED!''
       [''B_ATK_NAME_WITH_PREFIX''] [''pokemon_name''] ''sText_PkmnSappedByLeechSeed'',
     battle_msg ''STRINGID_PKMNFASTASLEEP'' 107 (''{B_ATK_NAME_WITH_PREFIX} is fast'' @ NL_CODE @ ''asleep.'') ''{VAR} is fast asleep.''
       [''B_ATK_NAME_WITH_PREFIX''] [''pokemon_name''] ''sText_PkmnFastAsleep'',
     battle_msg ''STRINGID_PKMNWOKEUP'' 108 ''{B_ATK_NAME_WITH_PREFIX} woke up!'' ''{VAR} woke up!''
       [''B_ATK_NAME_WITH_PREFIX''] [''pokemon_name''] ''sText_PkmnWokeUp'',
     battle_msg ''STRINGID_PKMNUPROARKEPTAWAKE'' 109 (''But {B_SCR_ACTIVE_NAME_WITH_PREFIX}'s UPROAR'' @ NL_CODE @ ''kept it awake!'') ''But {VAR}'s UPROAR kept it awake!''
       [''B_SCR_ACTIVE_NAME_WITH_PREFIX''] [''pokemon_name''] ''sText_PkmnUproarKeptAwake'',
     battle_msg ''STRINGID_PKMNWOKEUPINUPROAR'' 110 (''{B_ATK_NAME_WITH_PREFIX} woke up'' @ NL_CODE @ ''in the UPROAR!'') ''{VAR} woke up in the UPROAR!''
       [''B_ATK_NAME_WITH_PREFIX''] [''pokemon_name''] ''sText_PkmnWokeUpInUproar'',
     battle_msg ''STRINGID_PKMNCAUSEDUPROAR'' 111 (''{B_ATK_NAME_WITH_PREFIX} caused'' @ NL_CODE @ ''an UPROAR!'') ''{VAR} caused an UPROAR!''
       [''B_ATK_NAME_WITH_PREFIX''] [''pokemon_name''] ''sText_PkmnCausedUproar'',
     battle_msg ''STRINGID_PKMNMAKINGUPROAR'' 112 (''{B_ATK_NAME_WITH_PREFIX} is making'' @ NL_CODE @ ''an UPROAR!'') ''{VAR} is making an UPROAR!''
       [''B_ATK_NAME_WITH_PREFIX''] [''pokemon_name''] ''sText_PkmnMakingUproar'',
     battle_msg ''STRINGID_PKMNCALMEDDOWN'' 113 ''{B_ATK_NAME_WITH_PREFIX} calmed down.'' ''{VAR} calmed down.''
       [''B_ATK_NAME_WITH_PREFIX''] [''pokemon_name''] ''sText_PkmnCalmedDown'',
     battle_msg ''STRINGID_PKMNCANTSLEEPINUPROAR'' 114 (''But {B_DEF_NAME_WITH_PREFIX} can't'' @ NL_CODE @ ''sleep in an UPROAR!'') ''But {VAR} can't sleep in an UPROAR!''
       [''B_DEF_NAME_WITH_PREFIX''] [''pokemon_name''] ''sText_PkmnCantSleepInUproar'',
     battle_msg ''STRINGID_PKMNSTOCKPILED'' 115 (''{B_ATK_NAME_WITH_PREFIX} STOCKPILED'' @ NL_CODE @ ''{B_BUFF1}!'') ''{VAR} STOCKPILED {VAR}!''
       [''B_ATK_NAME_WITH_PREFIX'', ''B_BUFF1''] [''pokemon_name'', ''number''] ''sText_PkmnStockpiled'',
     battle_msg ''STRINGID_PKMNCANTSTOCKPILE'' 116 (''{B_ATK_NAME_WITH_PREFIX} can't'' @ NL_CODE @ ''STOCKPILE any more!'') ''{VAR} can't STOCKPILE any more!''
       [''B_ATK_NAME_WITH_PREFIX''] [''pokemon_name''] ''sText_PkmnCantStockpile'',
     battle_msg ''STRINGID_PKMNCANTSLEEPINUPROAR2'' 117 (''But {B_DEF_NAME_WITH_PREFIX} can't'' @ NL_CODE @ ''sleep in an UPROAR!'') ''But {VAR} can't sleep in an UPROAR!''
       [''B_DEF_NAME_WITH_PREFIX''] [''pokemon_name''] ''sText_PkmnCantSleepInUproar2'']"

definition BATTLE_MESSAGES_9 :: "battle_message list" where
  "BATTLE_MESSAGES_9 = [
     battle_msg ''STRINGID_UPROARKEPTPKMNAWAKE'' 118 (''But the UPROAR kept'' @ NL_CODE @ ''{B_DEF_NAME_WITH_PREFIX} awake!'') ''But the UPROAR kept {VAR} awake!''
       [''B_DEF_NAME_WITH_PREFIX''] [''pokemon_name''] ''sText_UproarKeptPkmnAwake'',
     battle_msg ''STRINGID_PKMNSTAYEDAWAKEUSING'' 119 (''{B_DEF_NAME_WITH_PREFIX} stayed awake'' @ NL_CODE @ ''using its {B_DEF_ABILITY}!'') ''{VAR} stayed awake using its {VAR}!''
       [''B_DEF_NAME_WITH_PREFIX'', ''B_DEF_ABILITY''] [''pokemon_name'', ''ability_name''] ''sText_PkmnStayedAwakeUsing'',
     battle_msg ''STRINGID_PKMNSTORINGENERGY'' 120 (''{B_ATK_NAME_WITH_PREFIX} is storing'' @ NL_CODE @ ''energy!'') ''{VAR} is storing energy!''
       [''B_ATK_NAME_WITH_PREFIX''] [''pokemon_name''] ''sText_PkmnStoringEnergy'',
     battle_msg ''STRINGID_PKMNUNLEASHEDENERGY'' 121 (''{B_ATK_NAME_WITH_PREFIX} unleashed'' @ NL_CODE @ ''energy!'') ''{VAR} unleashed energy!''
       [''B_ATK_NAME_WITH_PREFIX''] [''pokemon_name''] ''sText_PkmnUnleashedEnergy'',
     battle_msg ''STRINGID_PKMNFATIGUECONFUSION'' 122 (''{B_ATK_NAME_WITH_PREFIX} became'' @ NL_CODE @ ''confused due to fatigue!'') ''{VAR} became confused due to fatigue!''
       [''B_ATK_NAME_WITH_PREFIX''] [''pokemon_name''] ''sText_PkmnFatigueConfusion'',
     battle_msg ''STRINGID_PLAYERPICKEDUPMONEY'' 123 (''{B_PLAYER_NAME} picked up'' @ NL_CODE @ [CHR 0xA5] @ ''{B_BUFF1}!'' @ PAGE_CODE) (''{VAR} picked up '' @ [CHR 0xA5] @ ''{VAR}!'')
       [''B_PLAYER_NAME'', ''B_BUFF1''] [''text'', ''text''] ''sText_PlayerPickedUpMoney'',
     battle_msg ''STRINGID_PKMNUNAFFECTED'' 124 (''{B_DEF_NAME_WITH_PREFIX} is'' @ NL_CODE @ ''unaffected!'') ''{VAR} is unaffected!''
       [''B_DEF_NAME_WITH_PREFIX''] [''pokemon_name''] ''sText_PkmnUnaffected'',
     battle_msg ''STRINGID_PKMNTRANSFORMEDINTO'' 125 (''{B_ATK_NAME_WITH_PREFIX} transformed'' @ NL_CODE @ ''into {B_BUFF1}!'') ''{VAR} transformed into {VAR}!''
       [''B_ATK_NAME_WITH_PREFIX'', ''B_BUFF1''] [''pokemon_name'', ''text''] ''sText_PkmnTransformedInto'',
     battle_msg ''STRINGID_PKMNMADESUBSTITUTE'' 126 (''{B_ATK_NAME_WITH_PREFIX} made'' @ NL_CODE @ ''a SUBSTITUTE!'') ''{VAR} made a SUBSTITUTE!''
       [''B_ATK_NAME_WITH_PREFIX''] [''pokemon_name''] ''sText_PkmnMadeSubstitute'',
     battle_msg ''STRINGID_PKMNHASSUBSTITUTE'' 127 (''{B_ATK_NAME_WITH_PREFIX} already'' @ NL_CODE @ ''has a SUBSTITUTE!'') ''{VAR} already has a SUBSTITUTE!''
       [''B_ATK_NAME_WITH_PREFIX''] [''pokemon_name''] ''sText_PkmnHasSubstitute'',
     battle_msg ''STRINGID_SUBSTITUTEDAMAGED'' 128 (''The SUBSTITUTE took damage'' @ NL_CODE @ ''for {B_DEF_NAME_WITH_PREFIX}!'' @ PAGE_CODE) ''The SUBSTITUTE took damage for {VAR}!''
       [''B_DEF_NAME_WITH_PREFIX''] [''pokemon_name''] ''sText_SubstituteDamaged'',
     battle_msg ''STRINGID_PKMNSUBSTITUTEFADED'' 129 (''{B_DEF_NAME_WITH_PREFIX}'s'' @ NL_CODE @ ''SUBSTITUTE faded!'' @ PAGE_CODE) ''{VAR}'s SUBSTITUTE faded!''
       [''B_DEF_NAME_WITH_PREFIX''] [''pokemon_name''] ''sText_PkmnSubstituteFaded'',
     battle_msg ''STRINGID_PKMNMUSTRECHARGE'' 130 (''{B_ATK_NAME_WITH_PREFIX} must'' @ NL_CODE @ ''recharge!'') ''{VAR} must recharge!''
       [''B_ATK_NAME_WITH_PREFIX''] [''pokemon_name''] ''sText_PkmnMustRecharge'',
     battle_msg ''STRINGID_PKMNRAGEBUILDING'' 131 (''{B_DEF_NAME_WITH_PREFIX}'s RAGE'' @ NL_CODE @ ''is building!'') ''{VAR}'s RAGE is building!''
       [''B_DEF_NAME_WITH_PREFIX''] [''pokemon_name''] ''sText_PkmnRageBuilding'',
     battle_msg ''STRINGID_PKMNMOVEWASDISABLED'' 132 (''{B_DEF_NAME_WITH_PREFIX}'s {B_BUFF1}'' @ NL_CODE @ ''was disabled!'') ''{VAR}'s {VAR} was disabled!''
       [''B_DEF_NAME_WITH_PREFIX'', ''B_BUFF1''] [''pokemon_name'', ''text''] ''sText_PkmnMoveWasDisabled'',
     battle_msg ''STRINGID_PKMNMOVEISDISABLED'' 133 (''{B_ACTIVE_NAME_WITH_PREFIX}'s {B_CURRENT_MOVE}'' @ NL_CODE @ ''is disabled!'' @ PAGE_CODE) ''{VAR}'s {VAR} is disabled!''
       [''B_ACTIVE_NAME_WITH_PREFIX'', ''B_CURRENT_MOVE''] [''pokemon_name'', ''move_name''] ''sText_PkmnMoveIsDisabled'']"

definition BATTLE_MESSAGES_10 :: "battle_message list" where
  "BATTLE_MESSAGES_10 = [
     battle_msg ''STRINGID_PKMNMOVEDISABLEDNOMORE'' 134 (''{B_ATK_NAME_WITH_PREFIX} is disabled'' @ NL_CODE @ ''no more!'') ''{VAR} is disabled no more!''
       [''B_ATK_NAME_WITH_PREFIX''] [''pokemon_name''] ''sText_PkmnMoveDisabledNoMore'',
     battle_msg ''STRINGID_PKMNGOTENCORE'' 135 (''{B_DEF_NAME_WITH_PREFIX} got'' @ NL_CODE @ ''an ENCORE!'') ''{VAR} got an ENCORE!''
       [''B_DEF_NAME_WITH_PREFIX''] [''pokemon_name''] ''sText_PkmnGotEncore'',
     battle_msg ''STRINGID_PKMNENCOREENDED'' 136 (''{B_ATK_NAME_WITH_PREFIX}'s ENCORE'' @ NL_CODE @ ''ended!'') ''{VAR}'s ENCORE ended!''
       [''B_ATK_NAME_WITH_PREFIX''] [''pokemon_name''] ''sText_PkmnEncoreEnded'',
     battle_msg ''STRINGID_PKMNTOOKAIM'' 137 (''{B_ATK_NAME_WITH_PREFIX} took aim'' @ NL_CODE @ ''at {B_DEF_NAME_WITH_PREFIX}!'') ''{VAR} took aim at {VAR}!''
       [''B_ATK_NAME_WITH_PREFIX'', ''B_DEF_NAME_WITH_PREFIX''] [''pokemon_name'', ''pokemon_name''] ''sText_PkmnTookAim'',
     battle_msg ''STRINGID_PKMNSKETCHEDMOVE'' 138 (''{B_ATK_NAME_WITH_PREFIX} SKETCHED'' @ NL_CODE @ ''{B_BUFF1}!'') ''{VAR} SKETCHED {VAR}!''
       [''B_ATK_NAME_WITH_PREFIX'', ''B_BUFF1''] [''pokemon_name'', ''move_name''] ''sText_PkmnSketchedMove'',
     battle_msg ''STRINGID_PKMNTRYINGTOTAKEFOE'' 139 (''{B_ATK_NAME_WITH_PREFIX} is trying'' @ NL_CODE @ ''to take its foe with it!'') ''{VAR} is trying to take its foe with it!''
       [''B_ATK_NAME_WITH_PREFIX''] [''pokemon_name''] ''sText_PkmnTryingToTakeFoe'',
     battle_msg ''STRINGID_PKMNTOOKFOE'' 140 (''{B_DEF_NAME_WITH_PREFIX} took'' @ NL_CODE @ ''{B_ATK_NAME_WITH_PREFIX} with it!'') ''{VAR} took {VAR} with it!''
       [''B_DEF_NAME_WITH_PREFIX'', ''B_ATK_NAME_WITH_PREFIX''] [''pokemon_name'', ''pokemon_name''] ''sText_PkmnTookFoe'',
     battle_msg ''STRINGID_PKMNREDUCEDPP'' 141 (''Reduced {B_DEF_NAME_WITH_PREFIX}'s'' @ NL_CODE @ ''{B_BUFF1} by {B_BUFF2}!'') ''Reduced {VAR}'s {VAR} by {VAR}!''
       [''B_DEF_NAME_WITH_PREFIX'', ''B_BUFF1'', ''B_BUFF2''] [''pokemon_name'', ''move_name'', ''number''] ''sText_PkmnReducedPP'',
     battle_msg ''STRINGID_PKMNSTOLEITEM'' 142 (''{B_ATK_NAME_WITH_PREFIX} stole'' @ NL_CODE @ ''{B_DEF_NAME_WITH_PREFIX}'s {B_LAST_ITEM}!'') ''{VAR} stole {VAR}'s {VAR}!''
       [''B_ATK_NAME_WITH_PREFIX'', ''B_DEF_NAME_WITH_PREFIX'', ''B_LAST_ITEM''] [''pokemon_name'', ''pokemon_name'', ''text''] ''sText_PkmnStoleItem'',
     battle_msg ''STRINGID_TARGETCANTESCAPENOW'' 143 (''{B_DEF_NAME_WITH_PREFIX} can't'' @ NL_CODE @ ''escape now!'') ''{VAR} can't escape now!''
       [''B_DEF_NAME_WITH_PREFIX''] [''pokemon_name''] ''sText_TargetCantEscapeNow'',
     battle_msg ''STRINGID_PKMNFELLINTONIGHTMARE'' 144 (''{B_DEF_NAME_WITH_PREFIX} fell into'' @ NL_CODE @ ''a NIGHTMARE!'') ''{VAR} fell into a NIGHTMARE!''
       [''B_DEF_NAME_WITH_PREFIX''] [''pokemon_name''] ''sText_PkmnFellIntoNightmare'',
     battle_msg ''STRINGID_PKMNLOCKEDINNIGHTMARE'' 145 (''{B_ATK_NAME_WITH_PREFIX} is locked'' @ NL_CODE @ ''in a NIGHTMARE!'') ''{VAR} is locked in a NIGHTMARE!''
       [''B_ATK_NAME_WITH_PREFIX''] [''pokemon_name''] ''sText_PkmnLockedInNightmare'',
     battle_msg ''STRINGID_PKMNLAIDCURSE'' 146 (''{B_ATK_NAME_WITH_PREFIX} cut its own HP and'' @ NL_CODE @ ''laid a CURSE on {B_DEF_NAME_WITH_PREFIX}!'') ''{VAR} cut its own HP and laid a CURSE on {VAR}!''
       [''B_ATK_NAME_WITH_PREFIX'', ''B_DEF_NAME_WITH_PREFIX''] [''pokemon_name'', ''pokemon_name''] ''sText_PkmnLaidCurse'',
     battle_msg ''STRINGID_PKMNAFFLICTEDBYCURSE'' 147 (''{B_ATK_NAME_WITH_PREFIX} is afflicted'' @ NL_CODE @ ''by the CURSE!'') ''{VAR} is afflicted by the CURSE!''
       [''B_ATK_NAME_WITH_PREFIX''] [''pokemon_name''] ''sText_PkmnAfflictedByCurse'',
     battle_msg ''STRINGID_SPIKESSCATTERED'' 148 (''SPIKES were scattered all around'' @ NL_CODE @ ''the opponent's side!'') ''SPIKES were scattered all around the opponent's side!''
       [] [] ''sText_SpikesScattered'',
     battle_msg ''STRINGID_PKMNHURTBYSPIKES'' 149 (''{B_SCR_ACTIVE_NAME_WITH_PREFIX} is hurt'' @ NL_CODE @ ''by SPIKES!'') ''{VAR} is hurt by SPIKES!''
       [''B_SCR_ACTIVE_NAME_WITH_PREFIX''] [''pokemon_name''] ''sText_PkmnHurtBySpikes'']"

definition BATTLE_MESSAGES_11 :: "battle_message list" where
  "BATTLE_MESSAGES_11 = [
     battle_msg ''STRINGID_PKMNIDENTIFIED'' 150 (''{B_ATK_NAME_WITH_PREFIX} identified'' @ NL_CODE @ ''{B_DEF_NAME_WITH_PREFIX}!'') ''{VAR} identified {VAR}!''
       [''B_ATK_NAME_WITH_PREFIX'', ''B_DEF_NAME_WITH_PREFIX''] [''pokemon_name'', ''pokemon_name''] ''sText_PkmnIdentified'',
     battle_msg ''STRINGID_PKMNPERISHCOUNTFELL'' 151 (''{B_ATK_NAME_WITH_PREFIX}'s PERISH count'' @ NL_CODE @ ''fell to {B_BUFF1}!'') ''{VAR}'s PERISH count fell to {VAR}!''
       [''B_ATK_NAME_WITH_PREFIX'', ''B_BUFF1''] [''pokemon_name'', ''text''] ''sText_PkmnPerishCountFell'',
     battle_msg ''STRINGID_PKMNBRACEDITSELF'' 152 (''{B_ATK_NAME_WITH_PREFIX} braced'' @ NL_CODE @ ''itself!'') ''{VAR} braced itself!''
       [''B_ATK_NAME_WITH_PREFIX''] [''pokemon_name''] ''sText_PkmnBracedItself'',
     battle_msg ''STRINGID_PKMNENDUREDHIT'' 153 (''{B_DEF_NAME_WITH_PREFIX} ENDURED'' @ NL_CODE @ ''the hit!'') ''{VAR} ENDURED the hit!''
       [''B_DEF_NAME_WITH_PREFIX''] [''pokemon_name''] ''sText_PkmnEnduredHit'',
     battle_msg ''STRINGID_MAGNITUDESTRENGTH'' 154 ''MAGNITUDE {B_BUFF1}!'' ''MAGNITUDE {VAR}!''
       [''B_BUFF1''] [''number''] ''sText_MagnitudeStrength'',
     battle_msg ''STRINGID_PKMNCUTHPMAXEDATTACK'' 155 (''{B_ATK_NAME_WITH_PREFIX} cut its own HP'' @ NL_CODE @ ''and maximized ATTACK!'') ''{VAR} cut its own HP and maximized ATTACK!''
       [''B_ATK_NAME_WITH_PREFIX''] [''pokemon_name''] ''sText_PkmnCutHPMaxedAttack'',
     battle_msg ''STRINGID_PKMNCOPIEDSTATCHANGES'' 156 (''{B_ATK_NAME_WITH_PREFIX} copied'' @ NL_CODE @ ''{B_DEF_NAME_WITH_PREFIX}'s stat changes!'') ''{VAR} copied {VAR}'s stat changes!''
       [''B_ATK_NAME_WITH_PREFIX'', ''B_DEF_NAME_WITH_PREFIX''] [''pokemon_name'', ''pokemon_name''] ''sText_PkmnCopiedStatChanges'',
     battle_msg ''STRINGID_PKMNGOTFREE'' 157 (''{B_ATK_NAME_WITH_PREFIX} got free of'' @ NL_CODE @ ''{B_DEF_NAME_WITH_PREFIX}'s {B_BUFF1}!'') ''{VAR} got free of {VAR}'s {VAR}!''
       [''B_ATK_NAME_WITH_PREFIX'', ''B_DEF_NAME_WITH_PREFIX'', ''B_BUFF1''] [''pokemon_name'', ''pokemon_name'', ''text''] ''sText_PkmnGotFree'',
     battle_msg ''STRINGID_PKMNSHEDLEECHSEED'' 158 (''{B_ATK_NAME_WITH_PREFIX} shed'' @ NL_CODE @ ''LEECH SEED!'') ''{VAR} shed LEECH SEED!''
       [''B_ATK_NAME_WITH_PREFIX''] [''pokemon_name''] ''sText_PkmnShedLeechSeed'',
     battle_msg ''STRINGID_PKMNBLEWAWAYSPIKES'' 159 (''{B_ATK_NAME_WITH_PREFIX} blew away'' @ NL_CODE @ ''SPIKES!'') ''{VAR} blew away SPIKES!''
       [''B_ATK_NAME_WITH_PREFIX''] [''pokemon_name''] ''sText_PkmnBlewAwaySpikes'',
     battle_msg ''STRINGID_PKMNFORESAWATTACK'' 161 (''{B_ATK_NAME_WITH_PREFIX} foresaw'' @ NL_CODE @ ''an attack!'') ''{VAR} foresaw an attack!''
       [''B_ATK_NAME_WITH_PREFIX''] [''pokemon_name''] ''sText_PkmnForesawAttack'',
     battle_msg ''STRINGID_PKMNTOOKATTACK'' 162 (''{B_DEF_NAME_WITH_PREFIX} took the'' @ NL_CODE @ ''{B_BUFF1} attack!'') ''{VAR} took the {VAR} attack!''
       [''B_DEF_NAME_WITH_PREFIX'', ''B_BUFF1''] [''pokemon_name'', ''text''] ''sText_PkmnTookAttack'',
     battle_msg ''STRINGID_PKMNATTACK'' 163 ''{B_BUFF1}'s attack!'' ''{VAR}'s attack!''
       [''B_BUFF1''] [''text''] ''sText_PkmnAttack'',
     battle_msg ''STRINGID_PKMNCENTERATTENTION'' 164 (''{B_ATK_NAME_WITH_PREFIX} became the'' @ NL_CODE @ ''center of attention!'') ''{VAR} became the center of attention!''
       [''B_ATK_NAME_WITH_PREFIX''] [''pokemon_name''] ''sText_PkmnCenterAttention'',
     battle_msg ''STRINGID_PKMNCHARGINGPOWER'' 165 (''{B_ATK_NAME_WITH_PREFIX} began'' @ NL_CODE @ ''charging power!'') ''{VAR} began charging power!''
       [''B_ATK_NAME_WITH_PREFIX''] [''pokemon_name''] ''sText_PkmnChargingPower'',
     battle_msg ''STRINGID_NATUREPOWERTURNEDINTO'' 166 (''NATURE POWER turned into'' @ NL_CODE @ ''{B_CURRENT_MOVE}!'') ''NATURE POWER turned into {VAR}!''
       [''B_CURRENT_MOVE''] [''move_name''] ''sText_NaturePowerTurnedInto'']"

definition BATTLE_MESSAGES_12 :: "battle_message list" where
  "BATTLE_MESSAGES_12 = [
     battle_msg ''STRINGID_PKMNSTATUSNORMAL'' 167 (''{B_ATK_NAME_WITH_PREFIX}'s status'' @ NL_CODE @ ''returned to normal!'') ''{VAR}'s status returned to normal!''
       [''B_ATK_NAME_WITH_PREFIX''] [''pokemon_name''] ''sText_PkmnStatusNormal'',
     battle_msg ''STRINGID_PKMNHASNOMOVESLEFT'' 168 (''{B_ACTIVE_NAME_WITH_PREFIX} has no'' @ NL_CODE @ ''moves left!'' @ PAGE_CODE) ''{VAR} has no moves left!''
       [''B_ACTIVE_NAME_WITH_PREFIX''] [''pokemon_name''] ''sText_PkmnHasNoMovesLeft'',
     battle_msg ''STRINGID_PKMNSUBJECTEDTOTORMENT'' 169 (''{B_DEF_NAME_WITH_PREFIX} was subjected'' @ NL_CODE @ ''to TORMENT!'') ''{VAR} was subjected to TORMENT!''
       [''B_DEF_NAME_WITH_PREFIX''] [''pokemon_name''] ''sText_PkmnSubjectedToTorment'',
     battle_msg ''STRINGID_PKMNCANTUSEMOVETORMENT'' 170 (''{B_ACTIVE_NAME_WITH_PREFIX} can't use the same'' @ NL_CODE @ ''move in a row due to the TORMENT!'' @ PAGE_CODE) ''{VAR} can't use the same move in a row due to the TORMENT!''
       [''B_ACTIVE_NAME_WITH_PREFIX''] [''pokemon_name''] ''sText_PkmnCantUseMoveTorment'',
     battle_msg ''STRINGID_PKMNTIGHTENINGFOCUS'' 171 (''{B_ATK_NAME_WITH_PREFIX} is tightening'' @ NL_CODE @ ''its focus!'') ''{VAR} is tightening its focus!''
       [''B_ATK_NAME_WITH_PREFIX''] [''pokemon_name''] ''sText_PkmnTighteningFocus'',
     battle_msg ''STRINGID_PKMNFELLFORTAUNT'' 172 (''{B_DEF_NAME_WITH_PREFIX} fell for'' @ NL_CODE @ ''the TAUNT!'') ''{VAR} fell for the TAUNT!''
       [''B_DEF_NAME_WITH_PREFIX''] [''pokemon_name''] ''sText_PkmnFellForTaunt'',
     battle_msg ''STRINGID_PKMNCANTUSEMOVETAUNT'' 173 (''{B_ACTIVE_NAME_WITH_PREFIX} can't use'' @ NL_CODE @ ''{B_CURRENT_MOVE} after the TAUNT!'' @ PAGE_CODE) ''{VAR} can't use {VAR} after the TAUNT!''
       [''B_ACTIVE_NAME_WITH_PREFIX'', ''B_CURRENT_MOVE''] [''pokemon_name'', ''move_name''] ''sText_PkmnCantUseMoveTaunt'',
     battle_msg ''STRINGID_PKMNREADYTOHELP'' 174 (''{B_ATK_NAME_WITH_PREFIX} is ready to'' @ NL_CODE @ ''help {B_DEF_NAME_WITH_PREFIX}!'') ''{VAR} is ready to help {VAR}!''
       [''B_ATK_NAME_WITH_PREFIX'', ''B_DEF_NAME_WITH_PREFIX''] [''pokemon_name'', ''pokemon_name''] ''sText_PkmnReadyToHelp'',
     battle_msg ''STRINGID_PKMNSWITCHEDITEMS'' 175 (''{B_ATK_NAME_WITH_PREFIX} switched'' @ NL_CODE @ ''items with its opponent!'') ''{VAR} switched items with its opponent!''
       [''B_ATK_NAME_WITH_PREFIX''] [''pokemon_name''] ''sText_PkmnSwitchedItems'',
     battle_msg ''STRINGID_PKMNCOPIEDFOE'' 176 (''{B_ATK_NAME_WITH_PREFIX} copied'' @ NL_CODE @ ''{B_DEF_NAME_WITH_PREFIX}'s {B_DEF_ABILITY}!'') ''{VAR} copied {VAR}'s {VAR}!''
       [''B_ATK_NAME_WITH_PREFIX'', ''B_DEF_NAME_WITH_PREFIX'', ''B_DEF_ABILITY''] [''pokemon_name'', ''pokemon_name'', ''ability_name''] ''sText_PkmnCopiedFoe'',
     battle_msg ''STRINGID_PKMNMADEWISH'' 177 ''{B_ATK_NAME_WITH_PREFIX} made a WISH!'' ''{VAR} made a WISH!''
       [''B_ATK_NAME_WITH_PREFIX''] [''pokemon_name''] ''sText_PkmnMadeWish'',
     battle_msg ''STRINGID_PKMNWISHCAMETRUE'' 178 (''{B_BUFF1}'s WISH'' @ NL_CODE @ ''came true!'') ''{VAR}'s WISH came true!''
       [''B_BUFF1''] [''pokemon_name''] ''sText_PkmnWishCameTrue'',
     battle_msg ''STRINGID_PKMNPLANTEDROOTS'' 179 ''{B_ATK_NAME_WITH_PREFIX} planted its roots!'' ''{VAR} planted its roots!''
       [''B_ATK_NAME_WITH_PREFIX''] [''pokemon_name''] ''sText_PkmnPlantedRoots'',
     battle_msg ''STRINGID_PKMNABSORBEDNUTRIENTS'' 180 (''{B_ATK_NAME_WITH_PREFIX} absorbed'' @ NL_CODE @ ''nutrients with its roots!'') ''{VAR} absorbed nutrients with its roots!''
       [''B_ATK_NAME_WITH_PREFIX''] [''pokemon_name''] ''sText_PkmnAbsorbedNutrients'',
     battle_msg ''STRINGID_PKMNANCHOREDITSELF'' 181 (''{B_DEF_NAME_WITH_PREFIX} anchored'' @ NL_CODE @ ''itself with its roots!'') ''{VAR} anchored itself with its roots!''
       [''B_DEF_NAME_WITH_PREFIX''] [''pokemon_name''] ''sText_PkmnAnchoredItself'',
     battle_msg ''STRINGID_PKMNWASMADEDROWSY'' 182 (''{B_ATK_NAME_WITH_PREFIX} made'' @ NL_CODE @ ''{B_DEF_NAME_WITH_PREFIX} drowsy!'') ''{VAR} made {VAR} drowsy!''
       [''B_ATK_NAME_WITH_PREFIX'', ''B_DEF_NAME_WITH_PREFIX''] [''pokemon_name'', ''pokemon_name''] ''sText_PkmnWasMadeDrowsy'']"

definition BATTLE_MESSAGES_13 :: "battle_message list" where
  "BATTLE_MESSAGES_13 = [
     battle_msg ''STRINGID_PKMNKNOCKEDOFF'' 183 (''{B_ATK_NAME_WITH_PREFIX} knocked off'' @ NL_CODE @ ''{B_DEF_NAME_WITH_PREFIX}'s {B_LAST_ITEM}!'') ''{VAR} knocked off {VAR}'s {VAR}!''
       [''B_ATK_NAME_WITH_PREFIX'', ''B_DEF_NAME_WITH_PREFIX'', ''B_LAST_ITEM''] [''pokemon_name'', ''pokemon_name'', ''text''] ''sText_PkmnKnockedOff'',
     battle_msg ''STRINGID_PKMNSWAPPEDABILITIES'' 184 (''{B_ATK_NAME_WITH_PREFIX} swapped abilities'' @ NL_CODE @ ''with its opponent!'') ''{VAR} swapped abilities with its opponent!''
       [''B_ATK_NAME_WITH_PREFIX''] [''pokemon_name''] ''sText_PkmnSwappedAbilities'',
     battle_msg ''STRINGID_PKMNSEALEDOPPONENTMOVE'' 185 (''{B_ATK_NAME_WITH_PREFIX} sealed the'' @ NL_CODE @ ''opponent's move(s)!'') ''{VAR} sealed the opponent's move(s)!''
       [''B_ATK_NAME_WITH_PREFIX''] [''pokemon_name''] ''sText_PkmnSealedOpponentMove'',
     battle_msg ''STRINGID_PKMNCANTUSEMOVESEALED'' 186 (''{B_ACTIVE_NAME_WITH_PREFIX} can't use the'' @ NL_CODE @ ''sealed {B_CURRENT_MOVE}!'' @ PAGE_CODE) ''{VAR} can't use the sealed {VAR}!''
       [''B_ACTIVE_NAME_WITH_PREFIX'', ''B_CURRENT_MOVE''] [''pokemon_name'', ''move_name''] ''sText_PkmnCantUseMoveSealed'',
     battle_msg ''STRINGID_PKMNWANTSGRUDGE'' 187 (''{B_ATK_NAME_WITH_PREFIX} wants the'' @ NL_CODE @ ''opponent to bear a GRUDGE!'') ''{VAR} wants the opponent to bear a GRUDGE!''
       [''B_ATK_NAME_WITH_PREFIX''] [''pokemon_name''] ''sText_PkmnWantsGrudge'',
     battle_msg ''STRINGID_PKMNLOSTPPGRUDGE'' 188 (''{B_ATK_NAME_WITH_PREFIX}'s {B_BUFF1} lost'' @ NL_CODE @ ''all its PP due to the GRUDGE!'') ''{VAR}'s {VAR} lost all its PP due to the GRUDGE!''
       [''B_ATK_NAME_WITH_PREFIX'', ''B_BUFF1''] [''pokemon_name'', ''text''] ''sText_PkmnLostPPGrudge'',
     battle_msg ''STRINGID_PKMNSHROUDEDITSELF'' 189 (''{B_ATK_NAME_WITH_PREFIX} shrouded'' @ NL_CODE @ ''itself in {B_CURRENT_MOVE}!'') ''{VAR} shrouded itself in {VAR}!''
       [''B_ATK_NAME_WITH_PREFIX'', ''B_CURRENT_MOVE''] [''pokemon_name'', ''move_name''] ''sText_PkmnShroudedItself'',
     battle_msg ''STRINGID_PKMNMOVEBOUNCED'' 190 (''{B_ATK_NAME_WITH_PREFIX}'s {B_CURRENT_MOVE}'' @ NL_CODE @ ''was bounced back by MAGIC COAT!'') ''{VAR}'s {VAR} was bounced back by MAGIC COAT!''
       [''B_ATK_NAME_WITH_PREFIX'', ''B_CURRENT_MOVE''] [''pokemon_name'', ''move_name''] ''sText_PkmnMoveBounced'',
     battle_msg ''STRINGID_PKMNWAITSFORTARGET'' 191 (''{B_ATK_NAME_WITH_PREFIX} waits for a target'' @ NL_CODE @ ''to make a move!'') ''{VAR} waits for a target to make a move!''
       [''B_ATK_NAME_WITH_PREFIX''] [''pokemon_name''] ''sText_PkmnWaitsForTarget'',
     battle_msg ''STRINGID_PKMNSNATCHEDMOVE'' 192 (''{B_DEF_NAME_WITH_PREFIX} SNATCHED'' @ NL_CODE @ ''{B_SCR_ACTIVE_NAME_WITH_PREFIX}'s move!'') ''{VAR} SNATCHED {VAR}'s move!''
       [''B_DEF_NAME_WITH_PREFIX'', ''B_SCR_ACTIVE_NAME_WITH_PREFIX''] [''pokemon_name'', ''pokemon_name''] ''sText_PkmnSnatchedMove'',
     battle_msg ''STRINGID_PKMNMADEITRAIN'' 193 (''{B_SCR_ACTIVE_NAME_WITH_PREFIX}'s {B_SCR_ACTIVE_ABILITY}'' @ NL_CODE @ ''made it rain!'') ''{VAR}'s {VAR} made it rain!''
       [''B_SCR_ACTIVE_NAME_WITH_PREFIX'', ''B_SCR_ACTIVE_ABILITY''] [''pokemon_name'', ''text''] ''sText_PkmnMadeItRain'',
     battle_msg ''STRINGID_PKMNRAISEDSPEED'' 194 (''{B_SCR_ACTIVE_NAME_WITH_PREFIX}'s {B_SCR_ACTIVE_ABILITY}'' @ NL_CODE @ ''raised its SPEED!'') ''{VAR}'s {VAR} raised its SPEED!''
       [''B_SCR_ACTIVE_NAME_WITH_PREFIX'', ''B_SCR_ACTIVE_ABILITY''] [''pokemon_name'', ''text''] ''sText_PkmnRaisedSpeed'',
     battle_msg ''STRINGID_PKMNPROTECTEDBY'' 195 (''{B_DEF_NAME_WITH_PREFIX} was protected'' @ NL_CODE @ ''by {B_DEF_ABILITY}!'') ''{VAR} was protected by {VAR}!''
       [''B_DEF_NAME_WITH_PREFIX'', ''B_DEF_ABILITY''] [''pokemon_name'', ''ability_name''] ''sText_PkmnProtectedBy'',
     battle_msg ''STRINGID_PKMNPREVENTSUSAGE'' 196 (''{B_DEF_NAME_WITH_PREFIX}'s {B_DEF_ABILITY}'' @ NL_CODE @ ''prevents {B_ATK_NAME_WITH_PREFIX}'' @ SCROLL_CODE @ ''from using {B_CURRENT_MOVE}!'') ''{VAR}'s {VAR} prevents {VAR} from using {VAR}!''
       [''B_DEF_NAME_WITH_PREFIX'', ''B_DEF_ABILITY'', ''B_ATK_NAME_WITH_PREFIX'', ''B_CURRENT_MOVE''] [''pokemon_name'', ''ability_name'', ''pokemon_name'', ''move_name''] ''sText_PkmnPreventsUsage'',
     battle_msg ''STRINGID_PKMNRESTOREDHPUSING'' 197 (''{B_DEF_NAME_WITH_PREFIX} restored HP'' @ NL_CODE @ ''using its {B_DEF_ABILITY}!'') ''{VAR} restored HP using its {VAR}!''
       [''B_DEF_NAME_WITH_PREFIX'', ''B_DEF_ABILITY''] [''pokemon_name'', ''ability_name''] ''sText_PkmnRestoredHPUsing'',
     battle_msg ''STRINGID_PKMNCHANGEDTYPEWITH'' 198 (''{B_DEF_NAME_WITH_PREFIX}'s {B_DEF_ABILITY}'' @ NL_CODE @ ''made it the {B_BUFF1} type!'') ''{VAR}'s {VAR} made it the {VAR} type!''
       [''B_DEF_NAME_WITH_PREFIX'', ''B_DEF_ABILITY'', ''B_BUFF1''] [''pokemon_name'', ''ability_name'', ''text''] ''sText_PkmnChangedTypeWith'']"

definition BATTLE_MESSAGES_14 :: "battle_message list" where
  "BATTLE_MESSAGES_14 = [
     battle_msg ''STRINGID_PKMNPREVENTSPARALYSISWITH'' 199 (''{B_EFF_NAME_WITH_PREFIX}'s {B_DEF_ABILITY}'' @ NL_CODE @ ''prevents paralysis!'') ''{VAR}'s {VAR} prevents paralysis!''
       [''B_EFF_NAME_WITH_PREFIX'', ''B_DEF_ABILITY''] [''pokemon_name'', ''ability_name''] ''sText_PkmnPreventsParalysisWith'',
     battle_msg ''STRINGID_PKMNPREVENTSROMANCEWITH'' 200 (''{B_DEF_NAME_WITH_PREFIX}'s {B_DEF_ABILITY}'' @ NL_CODE @ ''prevents romance!'') ''{VAR}'s {VAR} prevents romance!''
       [''B_DEF_NAME_WITH_PREFIX'', ''B_DEF_ABILITY''] [''pokemon_name'', ''ability_name''] ''sText_PkmnPreventsRomanceWith'',
     battle_msg ''STRINGID_PKMNPREVENTSPOISONINGWITH'' 201 (''{B_EFF_NAME_WITH_PREFIX}'s {B_DEF_ABILITY}'' @ NL_CODE @ ''prevents poisoning!'') ''{VAR}'s {VAR} prevents poisoning!''
       [''B_EFF_NAME_WITH_PREFIX'', ''B_DEF_ABILITY''] [''pokemon_name'', ''ability_name''] ''sText_PkmnPreventsPoisoningWith'',
     battle_msg ''STRINGID_PKMNPREVENTSCONFUSIONWITH'' 202 (''{B_DEF_NAME_WITH_PREFIX}'s {B_DEF_ABILITY}'' @ NL_CODE @ ''prevents confusion!'') ''{VAR}'s {VAR} prevents confusion!''
       [''B_DEF_NAME_WITH_PREFIX'', ''B_DEF_ABILITY''] [''pokemon_name'', ''ability_name''] ''sText_PkmnPreventsConfusionWith'',
     battle_msg ''STRINGID_PKMNRAISEDFIREPOWERWITH'' 203 (''{B_DEF_NAME_WITH_PREFIX}'s {B_DEF_ABILITY}'' @ NL_CODE @ ''raised its FIRE power!'') ''{VAR}'s {VAR} raised its FIRE power!''
       [''B_DEF_NAME_WITH_PREFIX'', ''B_DEF_ABILITY''] [''pokemon_name'', ''ability_name''] ''sText_PkmnRaisedFirePowerWith'',
     battle_msg ''STRINGID_PKMNANCHORSITSELFWITH'' 204 (''{B_DEF_NAME_WITH_PREFIX} anchors'' @ NL_CODE @ ''itself with {B_DEF_ABILITY}!'') ''{VAR} anchors itself with {VAR}!''
       [''B_DEF_NAME_WITH_PREFIX'', ''B_DEF_ABILITY''] [''pokemon_name'', ''ability_name''] ''sText_PkmnAnchorsItselfWith'',
     battle_msg ''STRINGID_PKMNCUTSATTACKWITH'' 205 (''{B_SCR_ACTIVE_NAME_WITH_PREFIX}'s {B_SCR_ACTIVE_ABILITY}'' @ NL_CODE @ ''cuts {B_DEF_NAME_WITH_PREFIX}'s ATTACK!'') ''{VAR}'s {VAR} cuts {VAR}'s ATTACK!''
       [''B_SCR_ACTIVE_NAME_WITH_PREFIX'', ''B_SCR_ACTIVE_ABILITY'', ''B_DEF_NAME_WITH_PREFIX''] [''pokemon_name'', ''text'', ''pokemon_name''] ''sText_PkmnCutsAttackWith'',
     battle_msg ''STRINGID_PKMNPREVENTSSTATLOSSWITH'' 206 (''{B_SCR_ACTIVE_NAME_WITH_PREFIX}'s {B_SCR_ACTIVE_ABILITY}'' @ NL_CODE @ ''prevents stat loss!'') ''{VAR}'s {VAR} prevents stat loss!''
       [''B_SCR_ACTIVE_NAME_WITH_PREFIX'', ''B_SCR_ACTIVE_ABILITY''] [''pokemon_name'', ''text''] ''sText_PkmnPreventsStatLossWith'',
     battle_msg ''STRINGID_PKMNHURTSWITH'' 207 (''{B_DEF_NAME_WITH_PREFIX}'s {B_DEF_ABILITY}'' @ NL_CODE @ ''hurt {B_ATK_NAME_WITH_PREFIX}!'') ''{VAR}'s {VAR} hurt {VAR}!''
       [''B_DEF_NAME_WITH_PREFIX'', ''B_DEF_ABILITY'', ''B_ATK_NAME_WITH_PREFIX''] [''pokemon_name'', ''ability_name'', ''pokemon_name''] ''sText_PkmnHurtsWith'',
     battle_msg ''STRINGID_PKMNTRACED'' 208 (''{B_SCR_ACTIVE_NAME_WITH_PREFIX} TRACED'' @ NL_CODE @ ''{B_BUFF1}'s {B_BUFF2}!'') ''{VAR} TRACED {VAR}'s {VAR}!''
       [''B_SCR_ACTIVE_NAME_WITH_PREFIX'', ''B_BUFF1'', ''B_BUFF2''] [''pokemon_name'', ''pokemon_name'', ''ability_name''] ''sText_PkmnTraced'',
     battle_msg ''STRINGID_STATSHARPLY'' 209 ''sharply '' ''sharply''
       [] [] ''sText_StatSharply'',
     battle_msg ''STRINGID_STATROSE'' 210 ''rose!'' ''rose!''
       [] [] ''gText_StatRose'',
     battle_msg ''STRINGID_STATHARSHLY'' 211 ''harshly '' ''harshly''
       [] [] ''sText_StatHarshly'',
     battle_msg ''STRINGID_STATFELL'' 212 ''fell!'' ''fell!''
       [] [] ''sText_StatFell'',
     battle_msg ''STRINGID_ATTACKERSSTATROSE'' 213 (''{B_ATK_NAME_WITH_PREFIX}'s {B_BUFF1}'' @ NL_CODE @ ''{B_BUFF2}'') ''{VAR}'s {VAR} {VAR}''
       [''B_ATK_NAME_WITH_PREFIX'', ''B_BUFF1'', ''B_BUFF2''] [''pokemon_name'', ''text'', ''text''] ''sText_AttackersStatRose'',
     battle_msg ''STRINGID_DEFENDERSSTATROSE'' 214 (''{B_DEF_NAME_WITH_PREFIX}'s {B_BUFF1}'' @ NL_CODE @ ''{B_BUFF2}'') ''{VAR}'s {VAR} {VAR}''
       [''B_DEF_NAME_WITH_PREFIX'', ''B_BUFF1'', ''B_BUFF2''] [''pokemon_name'', ''text'', ''text''] ''gText_DefendersStatRose'']"

definition BATTLE_MESSAGES_15 :: "battle_message list" where
  "BATTLE_MESSAGES_15 = [
     battle_msg ''STRINGID_ATTACKERSSTATFELL'' 215 (''{B_ATK_NAME_WITH_PREFIX}'s {B_BUFF1}'' @ NL_CODE @ ''{B_BUFF2}'') ''{VAR}'s {VAR} {VAR}''
       [''B_ATK_NAME_WITH_PREFIX'', ''B_BUFF1'', ''B_BUFF2''] [''pokemon_name'', ''text'', ''text''] ''sText_AttackersStatFell'',
     battle_msg ''STRINGID_DEFENDERSSTATFELL'' 216 (''{B_DEF_NAME_WITH_PREFIX}'s {B_BUFF1}'' @ NL_CODE @ ''{B_BUFF2}'') ''{VAR}'s {VAR} {VAR}''
       [''B_DEF_NAME_WITH_PREFIX'', ''B_BUFF1'', ''B_BUFF2''] [''pokemon_name'', ''text'', ''text''] ''sText_DefendersStatFell'',
     battle_msg ''STRINGID_CRITICALHIT'' 217 ''A critical hit!'' ''A critical hit!''
       [] [] ''sText_CriticalHit'',
     battle_msg ''STRINGID_ONEHITKO'' 218 ''It's a one-hit KO!'' ''It's a one-hit KO!''
       [] [] ''sText_OneHitKO'',
     battle_msg ''STRINGID_123POOF'' 219 (''{PAUSE 32}1, {PAUSE 15}2, and{PAUSE 15}'' @ [CHR 0x80] @ '' {PAUSE 15}'' @ [CHR 0x80] @ '' {PAUSE 15}'' @ [CHR 0x80] @ '' {PAUSE 15}{PLAY_SE SE_BALL_BOUNCE_1}Poof!'' @ PAGE_CODE) (''1, 2, and'' @ [CHR 0x80] @ '' '' @ [CHR 0x80] @ '' '' @ [CHR 0x80] @ '' Poof!'')
       [] [] ''sText_123Poof'',
     battle_msg ''STRINGID_ANDELLIPSIS'' 220 (''And'' @ [CHR 0x80] @ PAGE_CODE) (''And'' @ [CHR 0x80])
       [] [] ''sText_AndEllipsis'',
     battle_msg ''STRINGID_NOTVERYEFFECTIVE'' 221 (''It's not very effective'' @ [CHR 0x80]) (''It's not very effective'' @ [CHR 0x80])
       [] [] ''sText_NotVeryEffective'',
     battle_msg ''STRINGID_SUPEREFFECTIVE'' 222 ''It's super effective!'' ''It's super effective!''
       [] [] ''sText_SuperEffective'',
     battle_msg ''STRINGID_NORUNNINGFROMTRAINERS'' 225 (''No! There's no running'' @ NL_CODE @ ''from a TRAINER battle!'' @ PAGE_CODE) ''No! There's no running from a TRAINER battle!''
       [] [] ''sText_NoRunningFromTrainers'',
     battle_msg ''STRINGID_CANTESCAPE'' 226 (''Can't escape!'' @ PAGE_CODE) ''Can't escape!''
       [] [] ''sText_CantEscape'',
     battle_msg ''STRINGID_DONTLEAVEBIRCH'' 227 (''PROF. BIRCH: Don't leave me like this!'' @ PAGE_CODE) ''PROF. BIRCH: Don't leave me like this!''
       [] [] ''sText_DontLeaveBirch'',
     battle_msg ''STRINGID_BUTNOTHINGHAPPENED'' 228 ''But nothing happened!'' ''But nothing happened!''
       [] [] ''sText_ButNothingHappened'',
     battle_msg ''STRINGID_BUTITFAILED'' 229 ''But it failed!'' ''But it failed!''
       [] [] ''sText_ButItFailed'',
     battle_msg ''STRINGID_ITHURTCONFUSION'' 230 (''It hurt itself in its'' @ NL_CODE @ ''confusion!'') ''It hurt itself in its confusion!''
       [] [] ''sText_ItHurtConfusion'',
     battle_msg ''STRINGID_MIRRORMOVEFAILED'' 231 ''The MIRROR MOVE failed!'' ''The MIRROR MOVE failed!''
       [] [] ''sText_MirrorMoveFailed'',
     battle_msg ''STRINGID_STARTEDTORAIN'' 232 ''It started to rain!'' ''It started to rain!''
       [] [] ''sText_StartedToRain'']"

definition BATTLE_MESSAGES_16 :: "battle_message list" where
  "BATTLE_MESSAGES_16 = [
     battle_msg ''STRINGID_DOWNPOURSTARTED'' 233 ''A downpour started!'' ''A downpour started!''
       [] [] ''sText_DownpourStarted'',
     battle_msg ''STRINGID_RAINCONTINUES'' 234 ''Rain continues to fall.'' ''Rain continues to fall.''
       [] [] ''sText_RainContinues'',
     battle_msg ''STRINGID_DOWNPOURCONTINUES'' 235 ''The downpour continues.'' ''The downpour continues.''
       [] [] ''sText_DownpourContinues'',
     battle_msg ''STRINGID_RAINSTOPPED'' 236 ''The rain stopped.'' ''The rain stopped.''
       [] [] ''sText_RainStopped'',
     battle_msg ''STRINGID_SANDSTORMBREWED'' 237 ''A sandstorm brewed!'' ''A sandstorm brewed!''
       [] [] ''sText_SandstormBrewed'',
     battle_msg ''STRINGID_SANDSTORMRAGES'' 238 ''The sandstorm rages.'' ''The sandstorm rages.''
       [] [] ''sText_SandstormRages'',
     battle_msg ''STRINGID_SANDSTORMSUBSIDED'' 239 ''The sandstorm subsided.'' ''The sandstorm subsided.''
       [] [] ''sText_SandstormSubsided'',
     battle_msg ''STRINGID_SUNLIGHTGOTBRIGHT'' 240 ''The sunlight got bright!'' ''The sunlight got bright!''
       [] [] ''sText_SunlightGotBright'',
     battle_msg ''STRINGID_SUNLIGHTSTRONG'' 241 ''The sunlight is strong.'' ''The sunlight is strong.''
       [] [] ''sText_SunlightStrong'',
     battle_msg ''STRINGID_SUNLIGHTFADED'' 242 ''The sunlight faded.'' ''The sunlight faded.''
       [] [] ''sText_SunlightFaded'',
     battle_msg ''STRINGID_STARTEDHAIL'' 243 ''It started to hail!'' ''It started to hail!''
       [] [] ''sText_StartedHail'',
     battle_msg ''STRINGID_HAILCONTINUES'' 244 ''Hail continues to fall.'' ''Hail continues to fall.''
       [] [] ''sText_HailContinues'',
     battle_msg ''STRINGID_HAILSTOPPED'' 245 ''The hail stopped.'' ''The hail stopped.''
       [] [] ''sText_HailStopped'',
     battle_msg ''STRINGID_FAILEDTOSPITUP'' 246 (''But it failed to SPIT UP'' @ NL_CODE @ ''a thing!'') ''But it failed to SPIT UP a thing!''
       [] [] ''sText_FailedToSpitUp'',
     battle_msg ''STRINGID_FAILEDTOSWALLOW'' 247 (''But it failed to SWALLOW'' @ NL_CODE @ ''a thing!'') ''But it failed to SWALLOW a thing!''
       [] [] ''sText_FailedToSwallow'',
     battle_msg ''STRINGID_WINDBECAMEHEATWAVE'' 248 (''The wind turned into a'' @ NL_CODE @ ''HEAT WAVE!'') ''The wind turned into a HEAT WAVE!''
       [] [] ''sText_WindBecameHeatWave'']"

definition BATTLE_MESSAGES_17 :: "battle_message list" where
  "BATTLE_MESSAGES_17 = [
     battle_msg ''STRINGID_STATCHANGESGONE'' 249 (''All stat changes were'' @ NL_CODE @ ''eliminated!'') ''All stat changes were eliminated!''
       [] [] ''sText_StatChangesGone'',
     battle_msg ''STRINGID_COINSSCATTERED'' 250 ''Coins scattered everywhere!'' ''Coins scattered everywhere!''
       [] [] ''sText_CoinsScattered'',
     battle_msg ''STRINGID_TOOWEAKFORSUBSTITUTE'' 251 (''It was too weak to make'' @ NL_CODE @ ''a SUBSTITUTE!'') ''It was too weak to make a SUBSTITUTE!''
       [] [] ''sText_TooWeakForSubstitute'',
     battle_msg ''STRINGID_SHAREDPAIN'' 252 (''The battlers shared'' @ NL_CODE @ ''their pain!'') ''The battlers shared their pain!''
       [] [] ''sText_SharedPain'',
     battle_msg ''STRINGID_BELLCHIMED'' 253 ''A bell chimed!'' ''A bell chimed!''
       [] [] ''sText_BellChimed'',
     battle_msg ''STRINGID_FAINTINTHREE'' 254 (''All affected POK'' @ [CHR 0xE9] @ ''MON will'' @ NL_CODE @ ''faint in three turns!'') (''All affected POK'' @ [CHR 0xE9] @ ''MON will faint in three turns!'')
       [] [] ''sText_FaintInThree'',
     battle_msg ''STRINGID_NOPPLEFT'' 255 (''There's no PP left for'' @ NL_CODE @ ''this move!'' @ PAGE_CODE) ''There's no PP left for this move!''
       [] [] ''sText_NoPPLeft'',
     battle_msg ''STRINGID_BUTNOPPLEFT'' 256 (''But there was no PP left'' @ NL_CODE @ ''for the move!'') ''But there was no PP left for the move!''
       [] [] ''sText_ButNoPPLeft'',
     battle_msg ''STRINGID_DONTBEATHIEF'' 260 ''Don't be a thief!'' ''Don't be a thief!''
       [] [] ''sText_DontBeAThief'',
     battle_msg ''STRINGID_YOUMISSEDPKMN'' 262 (''You missed the POK'' @ [CHR 0xE9] @ ''MON!'') (''You missed the POK'' @ [CHR 0xE9] @ ''MON!'')
       [] [] ''sText_YouMissedPkmn'',
     battle_msg ''STRINGID_PKMNBROKEFREE'' 263 (''Oh, no!'' @ NL_CODE @ ''The POK'' @ [CHR 0xE9] @ ''MON broke free!'') (''Oh, no! The POK'' @ [CHR 0xE9] @ ''MON broke free!'')
       [] [] ''sText_PkmnBrokeFree'',
     battle_msg ''STRINGID_AARGHALMOSTHADIT'' 265 (''Aargh!'' @ NL_CODE @ ''Almost had it!'') ''Aargh! Almost had it!''
       [] [] ''sText_AarghAlmostHadIt'',
     battle_msg ''STRINGID_SHOOTSOCLOSE'' 266 (''Shoot!'' @ NL_CODE @ ''It was so close, too!'') ''Shoot! It was so close, too!''
       [] [] ''sText_ShootSoClose'',
     battle_msg ''STRINGID_GIVENICKNAMECAPTURED'' 269 (''Give a nickname to the'' @ NL_CODE @ ''captured {B_OPPONENT_MON1_NAME}?'') ''Give a nickname to the captured {VAR}?''
       [''B_OPPONENT_MON1_NAME''] [''pokemon_name''] ''sText_GiveNicknameCaptured'',
     battle_msg ''STRINGID_PKMNSENTTOPC'' 270 (''{B_OPPONENT_MON1_NAME} was sent to'' @ NL_CODE @ ''{B_PC_CREATOR_NAME} PC.'') ''{VAR} was sent to {VAR} PC.''
       [''B_OPPONENT_MON1_NAME'', ''B_PC_CREATOR_NAME''] [''pokemon_name'', ''text''] ''sText_PkmnSentToPC'',
     battle_msg ''STRINGID_PKMNDATAADDEDTODEX'' 271 (''{B_OPPONENT_MON1_NAME}'s data was'' @ NL_CODE @ ''added to the POK'' @ [CHR 0xE9] @ ''DEX.'' @ PAGE_CODE) (''{VAR}'s data was added to the POK'' @ [CHR 0xE9] @ ''DEX.'')
       [''B_OPPONENT_MON1_NAME''] [''pokemon_name''] ''sText_PkmnDataAddedToDex'']"

definition BATTLE_MESSAGES_18 :: "battle_message list" where
  "BATTLE_MESSAGES_18 = [
     battle_msg ''STRINGID_ITISRAINING'' 272 ''It is raining.'' ''It is raining.''
       [] [] ''sText_ItIsRaining'',
     battle_msg ''STRINGID_SANDSTORMISRAGING'' 273 ''A sandstorm is raging.'' ''A sandstorm is raging.''
       [] [] ''sText_SandstormIsRaging'',
     battle_msg ''STRINGID_CANTESCAPE2'' 274 (''Can't escape!'' @ PAGE_CODE) ''Can't escape!''
       [] [] ''sText_CantEscape2'',
     battle_msg ''STRINGID_PKMNIGNORESASLEEP'' 275 (''{B_ATK_NAME_WITH_PREFIX} ignored'' @ NL_CODE @ ''orders while asleep!'') ''{VAR} ignored orders while asleep!''
       [''B_ATK_NAME_WITH_PREFIX''] [''pokemon_name''] ''sText_PkmnIgnoresAsleep'',
     battle_msg ''STRINGID_PKMNIGNOREDORDERS'' 276 (''{B_ATK_NAME_WITH_PREFIX} ignored'' @ NL_CODE @ ''orders!'') ''{VAR} ignored orders!''
       [''B_ATK_NAME_WITH_PREFIX''] [''pokemon_name''] ''sText_PkmnIgnoredOrders'',
     battle_msg ''STRINGID_PKMNBEGANTONAP'' 277 ''{B_ATK_NAME_WITH_PREFIX} began to nap!'' ''{VAR} began to nap!''
       [''B_ATK_NAME_WITH_PREFIX''] [''pokemon_name''] ''sText_PkmnBeganToNap'',
     battle_msg ''STRINGID_PKMNLOAFING'' 278 (''{B_ATK_NAME_WITH_PREFIX} is'' @ NL_CODE @ ''loafing around!'') ''{VAR} is loafing around!''
       [''B_ATK_NAME_WITH_PREFIX''] [''pokemon_name''] ''sText_PkmnLoafing'',
     battle_msg ''STRINGID_PKMNWONTOBEY'' 279 (''{B_ATK_NAME_WITH_PREFIX} won't'' @ NL_CODE @ ''obey!'') ''{VAR} won't obey!''
       [''B_ATK_NAME_WITH_PREFIX''] [''pokemon_name''] ''sText_PkmnWontObey'',
     battle_msg ''STRINGID_PKMNTURNEDAWAY'' 280 ''{B_ATK_NAME_WITH_PREFIX} turned away!'' ''{VAR} turned away!''
       [''B_ATK_NAME_WITH_PREFIX''] [''pokemon_name''] ''sText_PkmnTurnedAway'',
     battle_msg ''STRINGID_PKMNPRETENDNOTNOTICE'' 281 (''{B_ATK_NAME_WITH_PREFIX} pretended'' @ NL_CODE @ ''not to notice!'') ''{VAR} pretended not to notice!''
       [''B_ATK_NAME_WITH_PREFIX''] [''pokemon_name''] ''sText_PkmnPretendNotNotice'',
     battle_msg ''STRINGID_ENEMYABOUTTOSWITCHPKMN'' 282 (''{B_TRAINER1_CLASS} {B_TRAINER1_NAME} is'' @ NL_CODE @ ''about to use {B_BUFF2}.'' @ PAGE_CODE @ ''Will {B_PLAYER_NAME} change'' @ NL_CODE @ ''POK'' @ [CHR 0xE9] @ ''MON?'') (''{VAR} {VAR} is about to use {VAR}. Will {VAR} change POK'' @ [CHR 0xE9] @ ''MON?'')
       [''B_TRAINER1_CLASS'', ''B_TRAINER1_NAME'', ''B_BUFF2'', ''B_PLAYER_NAME''] [''trainer_class'', ''trainer_name'', ''text'', ''text''] ''sText_EnemyAboutToSwitchPkmn'',
     battle_msg ''STRINGID_CREPTCLOSER'' 283 (''{B_PLAYER_NAME} crept closer to'' @ NL_CODE @ ''{B_OPPONENT_MON1_NAME}!'') ''{VAR} crept closer to {VAR}!''
       [''B_PLAYER_NAME'', ''B_OPPONENT_MON1_NAME''] [''text'', ''pokemon_name''] ''sText_CreptCloser'',
     battle_msg ''STRINGID_CANTGETCLOSER'' 284 ''{B_PLAYER_NAME} can't get any closer!'' ''{VAR} can't get any closer!''
       [''B_PLAYER_NAME''] [''text''] ''sText_CantGetCloser'',
     battle_msg ''STRINGID_PKMNWATCHINGCAREFULLY'' 285 (''{B_OPPONENT_MON1_NAME} is watching'' @ NL_CODE @ ''carefully!'') ''{VAR} is watching carefully!''
       [''B_OPPONENT_MON1_NAME''] [''pokemon_name''] ''sText_PkmnWatchingCarefully'',
     battle_msg ''STRINGID_PKMNCURIOUSABOUTX'' 286 (''{B_OPPONENT_MON1_NAME} is curious about'' @ NL_CODE @ ''the {B_BUFF1}!'') ''{VAR} is curious about the {VAR}!''
       [''B_OPPONENT_MON1_NAME'', ''B_BUFF1''] [''pokemon_name'', ''text''] ''sText_PkmnCuriousAboutX'',
     battle_msg ''STRINGID_PKMNENTHRALLEDBYX'' 287 (''{B_OPPONENT_MON1_NAME} is enthralled by'' @ NL_CODE @ ''the {B_BUFF1}!'') ''{VAR} is enthralled by the {VAR}!''
       [''B_OPPONENT_MON1_NAME'', ''B_BUFF1''] [''pokemon_name'', ''text''] ''sText_PkmnEnthralledByX'']"

definition BATTLE_MESSAGES_19 :: "battle_message list" where
  "BATTLE_MESSAGES_19 = [
     battle_msg ''STRINGID_PKMNIGNOREDX'' 288 (''{B_OPPONENT_MON1_NAME} completely ignored'' @ NL_CODE @ ''the {B_BUFF1}!'') ''{VAR} completely ignored the {VAR}!''
       [''B_OPPONENT_MON1_NAME'', ''B_BUFF1''] [''pokemon_name'', ''text''] ''sText_PkmnIgnoredX'',
     battle_msg ''STRINGID_PKMNSITEMCUREDPARALYSIS'' 291 (''{B_SCR_ACTIVE_NAME_WITH_PREFIX}'s {B_LAST_ITEM}'' @ NL_CODE @ ''cured paralysis!'') ''{VAR}'s {VAR} cured paralysis!''
       [''B_SCR_ACTIVE_NAME_WITH_PREFIX'', ''B_LAST_ITEM''] [''pokemon_name'', ''text''] ''sText_PkmnsItemCuredParalysis'',
     battle_msg ''STRINGID_PKMNSITEMCUREDPOISON'' 292 (''{B_SCR_ACTIVE_NAME_WITH_PREFIX}'s {B_LAST_ITEM}'' @ NL_CODE @ ''cured poison!'') ''{VAR}'s {VAR} cured poison!''
       [''B_SCR_ACTIVE_NAME_WITH_PREFIX'', ''B_LAST_ITEM''] [''pokemon_name'', ''text''] ''sText_PkmnsItemCuredPoison'',
     battle_msg ''STRINGID_PKMNSITEMHEALEDBURN'' 293 (''{B_SCR_ACTIVE_NAME_WITH_PREFIX}'s {B_LAST_ITEM}'' @ NL_CODE @ ''healed its burn!'') ''{VAR}'s {VAR} healed its burn!''
       [''B_SCR_ACTIVE_NAME_WITH_PREFIX'', ''B_LAST_ITEM''] [''pokemon_name'', ''text''] ''sText_PkmnsItemHealedBurn'',
     battle_msg ''STRINGID_PKMNSITEMDEFROSTEDIT'' 294 (''{B_SCR_ACTIVE_NAME_WITH_PREFIX}'s {B_LAST_ITEM}'' @ NL_CODE @ ''defrosted it!'') ''{VAR}'s {VAR} defrosted it!''
       [''B_SCR_ACTIVE_NAME_WITH_PREFIX'', ''B_LAST_ITEM''] [''pokemon_name'', ''text''] ''sText_PkmnsItemDefrostedIt'',
     battle_msg ''STRINGID_PKMNSITEMWOKEIT'' 295 (''{B_SCR_ACTIVE_NAME_WITH_PREFIX}'s {B_LAST_ITEM}'' @ NL_CODE @ ''woke it from its sleep!'') ''{VAR}'s {VAR} woke it from its sleep!''
       [''B_SCR_ACTIVE_NAME_WITH_PREFIX'', ''B_LAST_ITEM''] [''pokemon_name'', ''text''] ''sText_PkmnsItemWokeIt'',
     battle_msg ''STRINGID_PKMNSITEMSNAPPEDOUT'' 296 (''{B_SCR_ACTIVE_NAME_WITH_PREFIX}'s {B_LAST_ITEM}'' @ NL_CODE @ ''snapped it out of confusion!'') ''{VAR}'s {VAR} snapped it out of confusion!''
       [''B_SCR_ACTIVE_NAME_WITH_PREFIX'', ''B_LAST_ITEM''] [''pokemon_name'', ''text''] ''sText_PkmnsItemSnappedOut'',
     battle_msg ''STRINGID_PKMNSITEMCUREDPROBLEM'' 297 (''{B_SCR_ACTIVE_NAME_WITH_PREFIX}'s {B_LAST_ITEM}'' @ NL_CODE @ ''cured its {B_BUFF1} problem!'') ''{VAR}'s {VAR} cured its {VAR} problem!''
       [''B_SCR_ACTIVE_NAME_WITH_PREFIX'', ''B_LAST_ITEM'', ''B_BUFF1''] [''pokemon_name'', ''text'', ''text''] ''sText_PkmnsItemCuredProblem'',
     battle_msg ''STRINGID_PKMNSITEMRESTOREDHEALTH'' 298 (''{B_SCR_ACTIVE_NAME_WITH_PREFIX}'s {B_LAST_ITEM}'' @ NL_CODE @ ''restored health!'') ''{VAR}'s {VAR} restored health!''
       [''B_SCR_ACTIVE_NAME_WITH_PREFIX'', ''B_LAST_ITEM''] [''pokemon_name'', ''text''] ''sText_PkmnsItemRestoredHealth'',
     battle_msg ''STRINGID_PKMNSITEMRESTOREDPP'' 299 (''{B_SCR_ACTIVE_NAME_WITH_PREFIX}'s {B_LAST_ITEM}'' @ NL_CODE @ ''restored {B_BUFF1}'s PP!'') ''{VAR}'s {VAR} restored {VAR}'s PP!''
       [''B_SCR_ACTIVE_NAME_WITH_PREFIX'', ''B_LAST_ITEM'', ''B_BUFF1''] [''pokemon_name'', ''text'', ''text''] ''sText_PkmnsItemRestoredPP'',
     battle_msg ''STRINGID_PKMNSITEMRESTOREDSTATUS'' 300 (''{B_SCR_ACTIVE_NAME_WITH_PREFIX}'s {B_LAST_ITEM}'' @ NL_CODE @ ''restored its status!'') ''{VAR}'s {VAR} restored its status!''
       [''B_SCR_ACTIVE_NAME_WITH_PREFIX'', ''B_LAST_ITEM''] [''pokemon_name'', ''text''] ''sText_PkmnsItemRestoredStatus'',
     battle_msg ''STRINGID_PKMNSITEMRESTOREDHPALITTLE'' 301 (''{B_SCR_ACTIVE_NAME_WITH_PREFIX}'s {B_LAST_ITEM}'' @ NL_CODE @ ''restored its HP a little!'') ''{VAR}'s {VAR} restored its HP a little!''
       [''B_SCR_ACTIVE_NAME_WITH_PREFIX'', ''B_LAST_ITEM''] [''pokemon_name'', ''text''] ''sText_PkmnsItemRestoredHPALittle'',
     battle_msg ''STRINGID_ITEMALLOWSONLYYMOVE'' 302 (''{B_LAST_ITEM} allows the'' @ NL_CODE @ ''use of only {B_CURRENT_MOVE}!'' @ PAGE_CODE) ''{VAR} allows the use of only {VAR}!''
       [''B_LAST_ITEM'', ''B_CURRENT_MOVE''] [''text'', ''move_name''] ''sText_ItemAllowsOnlyYMove'',
     battle_msg ''STRINGID_PKMNHUNGONWITHX'' 303 (''{B_DEF_NAME_WITH_PREFIX} hung on'' @ NL_CODE @ ''using its {B_LAST_ITEM}!'') ''{VAR} hung on using its {VAR}!''
       [''B_DEF_NAME_WITH_PREFIX'', ''B_LAST_ITEM''] [''pokemon_name'', ''text''] ''sText_PkmnHungOnWithX'',
     battle_msg ''STRINGID_EMPTYSTRING3'' 304 [] []
       [] [] ''gText_EmptyString3'',
     battle_msg ''STRINGID_PKMNSXPREVENTSBURNS'' 305 (''{B_EFF_NAME_WITH_PREFIX}'s {B_EFF_ABILITY}'' @ NL_CODE @ ''prevents burns!'') ''{VAR}'s {VAR} prevents burns!''
       [''B_EFF_NAME_WITH_PREFIX'', ''B_EFF_ABILITY''] [''pokemon_name'', ''text''] ''sText_PkmnsXPreventsBurns'']"

definition BATTLE_MESSAGES_20 :: "battle_message list" where
  "BATTLE_MESSAGES_20 = [
     battle_msg ''STRINGID_PKMNSXBLOCKSY'' 306 (''{B_DEF_NAME_WITH_PREFIX}'s {B_DEF_ABILITY}'' @ NL_CODE @ ''blocks {B_CURRENT_MOVE}!'') ''{VAR}'s {VAR} blocks {VAR}!''
       [''B_DEF_NAME_WITH_PREFIX'', ''B_DEF_ABILITY'', ''B_CURRENT_MOVE''] [''pokemon_name'', ''ability_name'', ''move_name''] ''sText_PkmnsXBlocksY'',
     battle_msg ''STRINGID_PKMNSXRESTOREDHPALITTLE2'' 307 (''{B_ATK_NAME_WITH_PREFIX}'s {B_ATK_ABILITY}'' @ NL_CODE @ ''restored its HP a little!'') ''{VAR}'s {VAR} restored its HP a little!''
       [''B_ATK_NAME_WITH_PREFIX'', ''B_ATK_ABILITY''] [''pokemon_name'', ''ability_name''] ''sText_PkmnsXRestoredHPALittle2'',
     battle_msg ''STRINGID_PKMNSXWHIPPEDUPSANDSTORM'' 308 (''{B_SCR_ACTIVE_NAME_WITH_PREFIX}'s {B_SCR_ACTIVE_ABILITY}'' @ NL_CODE @ ''whipped up a sandstorm!'') ''{VAR}'s {VAR} whipped up a sandstorm!''
       [''B_SCR_ACTIVE_NAME_WITH_PREFIX'', ''B_SCR_ACTIVE_ABILITY''] [''pokemon_name'', ''text''] ''sText_PkmnsXWhippedUpSandstorm'',
     battle_msg ''STRINGID_PKMNSXPREVENTSYLOSS'' 309 (''{B_SCR_ACTIVE_NAME_WITH_PREFIX}'s {B_SCR_ACTIVE_ABILITY}'' @ NL_CODE @ ''prevents {B_BUFF1} loss!'') ''{VAR}'s {VAR} prevents {VAR} loss!''
       [''B_SCR_ACTIVE_NAME_WITH_PREFIX'', ''B_SCR_ACTIVE_ABILITY'', ''B_BUFF1''] [''pokemon_name'', ''text'', ''text''] ''sText_PkmnsXPreventsYLoss'',
     battle_msg ''STRINGID_PKMNSXINFATUATEDY'' 310 (''{B_DEF_NAME_WITH_PREFIX}'s {B_DEF_ABILITY}'' @ NL_CODE @ ''infatuated {B_ATK_NAME_WITH_PREFIX}!'') ''{VAR}'s {VAR} infatuated {VAR}!''
       [''B_DEF_NAME_WITH_PREFIX'', ''B_DEF_ABILITY'', ''B_ATK_NAME_WITH_PREFIX''] [''pokemon_name'', ''ability_name'', ''pokemon_name''] ''sText_PkmnsXInfatuatedY'',
     battle_msg ''STRINGID_PKMNSXMADEYINEFFECTIVE'' 311 (''{B_DEF_NAME_WITH_PREFIX}'s {B_DEF_ABILITY}'' @ NL_CODE @ ''made {B_CURRENT_MOVE} ineffective!'') ''{VAR}'s {VAR} made {VAR} ineffective!''
       [''B_DEF_NAME_WITH_PREFIX'', ''B_DEF_ABILITY'', ''B_CURRENT_MOVE''] [''pokemon_name'', ''ability_name'', ''move_name''] ''sText_PkmnsXMadeYIneffective'',
     battle_msg ''STRINGID_PKMNSXCUREDYPROBLEM'' 312 (''{B_SCR_ACTIVE_NAME_WITH_PREFIX}'s {B_SCR_ACTIVE_ABILITY}'' @ NL_CODE @ ''cured its {B_BUFF1} problem!'') ''{VAR}'s {VAR} cured its {VAR} problem!''
       [''B_SCR_ACTIVE_NAME_WITH_PREFIX'', ''B_SCR_ACTIVE_ABILITY'', ''B_BUFF1''] [''pokemon_name'', ''text'', ''text''] ''sText_PkmnsXCuredYProblem'',
     battle_msg ''STRINGID_ITSUCKEDLIQUIDOOZE'' 313 (''It sucked up the'' @ NL_CODE @ ''LIQUID OOZE!'') ''It sucked up the LIQUID OOZE!''
       [] [] ''sText_ItSuckedLiquidOoze'',
     battle_msg ''STRINGID_PKMNTRANSFORMED'' 314 ''{B_SCR_ACTIVE_NAME_WITH_PREFIX} transformed!'' ''{VAR} transformed!''
       [''B_SCR_ACTIVE_NAME_WITH_PREFIX''] [''pokemon_name''] ''sText_PkmnTransformed'',
     battle_msg ''STRINGID_ELECTRICITYWEAKENED'' 315 (''Electricity's power was'' @ NL_CODE @ ''weakened!'') ''Electricity's power was weakened!''
       [] [] ''sText_ElectricityWeakened'',
     battle_msg ''STRINGID_FIREWEAKENED'' 316 (''Fire's power was'' @ NL_CODE @ ''weakened!'') ''Fire's power was weakened!''
       [] [] ''sText_FireWeakened'',
     battle_msg ''STRINGID_PKMNHIDUNDERWATER'' 317 (''{B_ATK_NAME_WITH_PREFIX} hid'' @ NL_CODE @ ''underwater!'') ''{VAR} hid underwater!''
       [''B_ATK_NAME_WITH_PREFIX''] [''pokemon_name''] ''sText_PkmnHidUnderwater'',
     battle_msg ''STRINGID_PKMNSPRANGUP'' 318 ''{B_ATK_NAME_WITH_PREFIX} sprang up!'' ''{VAR} sprang up!''
       [''B_ATK_NAME_WITH_PREFIX''] [''pokemon_name''] ''sText_PkmnSprangUp'',
     battle_msg ''STRINGID_HMMOVESCANTBEFORGOTTEN'' 319 (''HM moves can't be'' @ NL_CODE @ ''forgotten now.'' @ PAGE_CODE) ''HM moves can't be forgotten now.''
       [] [] ''sText_HMMovesCantBeForgotten'',
     battle_msg ''STRINGID_XFOUNDONEY'' 320 (''{B_ATK_NAME_WITH_PREFIX} found'' @ NL_CODE @ ''one {B_LAST_ITEM}!'') ''{VAR} found one {VAR}!''
       [''B_ATK_NAME_WITH_PREFIX'', ''B_LAST_ITEM''] [''pokemon_name'', ''text''] ''sText_XFoundOneY'',
     battle_msg ''STRINGID_PLAYERDEFEATEDTRAINER1'' 321 (''Player defeated'' @ NL_CODE @ ''{B_TRAINER1_CLASS} {B_TRAINER1_NAME}!'' @ PAGE_CODE) ''Player defeated {VAR} {VAR}!''
       [''B_TRAINER1_CLASS'', ''B_TRAINER1_NAME''] [''trainer_class'', ''trainer_name''] ''sText_PlayerDefeatedLinkTrainerTrainer1'']"

definition BATTLE_MESSAGES_21 :: "battle_message list" where
  "BATTLE_MESSAGES_21 = [
     battle_msg ''STRINGID_SOOTHINGAROMA'' 322 (''A soothing aroma wafted'' @ NL_CODE @ ''through the area!'') ''A soothing aroma wafted through the area!''
       [] [] ''sText_SoothingAroma'',
     battle_msg ''STRINGID_FORXCOMMAYZ'' 324 (''For {B_SCR_ACTIVE_NAME_WITH_PREFIX},'' @ NL_CODE @ ''{B_LAST_ITEM} {B_BUFF1}'') ''For {VAR}, {VAR} {VAR}''
       [''B_SCR_ACTIVE_NAME_WITH_PREFIX'', ''B_LAST_ITEM'', ''B_BUFF1''] [''pokemon_name'', ''text'', ''text''] ''sText_ForXCommaYZ'',
     battle_msg ''STRINGID_PKMNUSEDXTOGETPUMPED'' 326 (''{B_SCR_ACTIVE_NAME_WITH_PREFIX} used'' @ NL_CODE @ ''{B_LAST_ITEM} to get pumped!'') ''{VAR} used {VAR} to get pumped!''
       [''B_SCR_ACTIVE_NAME_WITH_PREFIX'', ''B_LAST_ITEM''] [''pokemon_name'', ''text''] ''sText_PkmnUsedXToGetPumped'',
     battle_msg ''STRINGID_PKMNSXMADEYUSELESS'' 327 (''{B_DEF_NAME_WITH_PREFIX}'s {B_DEF_ABILITY}'' @ NL_CODE @ ''made {B_CURRENT_MOVE} useless!'') ''{VAR}'s {VAR} made {VAR} useless!''
       [''B_DEF_NAME_WITH_PREFIX'', ''B_DEF_ABILITY'', ''B_CURRENT_MOVE''] [''pokemon_name'', ''ability_name'', ''move_name''] ''sText_PkmnsXMadeYUseless'',
     battle_msg ''STRINGID_PKMNTRAPPEDBYSANDTOMB'' 328 (''{B_DEF_NAME_WITH_PREFIX} was trapped'' @ NL_CODE @ ''by SAND TOMB!'') ''{VAR} was trapped by SAND TOMB!''
       [''B_DEF_NAME_WITH_PREFIX''] [''pokemon_name''] ''sText_PkmnTrappedBySandTomb'',
     battle_msg ''STRINGID_EMPTYSTRING4'' 329 [] []
       [] [] ''sText_EmptyString4'',
     battle_msg ''STRINGID_ABOOSTED'' 330 '' a boosted'' ''a boosted''
       [] [] ''sText_ABoosted'',
     battle_msg ''STRINGID_PKMNSXINTENSIFIEDSUN'' 331 (''{B_SCR_ACTIVE_NAME_WITH_PREFIX}'s {B_SCR_ACTIVE_ABILITY}'' @ NL_CODE @ ''intensified the sun's rays!'') ''{VAR}'s {VAR} intensified the sun's rays!''
       [''B_SCR_ACTIVE_NAME_WITH_PREFIX'', ''B_SCR_ACTIVE_ABILITY''] [''pokemon_name'', ''text''] ''sText_PkmnsXIntensifiedSun'',
     battle_msg ''STRINGID_PKMNMAKESGROUNDMISS'' 332 (''{B_DEF_NAME_WITH_PREFIX} makes GROUND'' @ NL_CODE @ ''moves miss with {B_DEF_ABILITY}!'') ''{VAR} makes GROUND moves miss with {VAR}!''
       [''B_DEF_NAME_WITH_PREFIX'', ''B_DEF_ABILITY''] [''pokemon_name'', ''ability_name''] ''sText_PkmnMakesGroundMiss'',
     battle_msg ''STRINGID_PKMNSXTOOKATTACK'' 334 (''{B_DEF_NAME_WITH_PREFIX}'s {B_DEF_ABILITY}'' @ NL_CODE @ ''took the attack!'') ''{VAR}'s {VAR} took the attack!''
       [''B_DEF_NAME_WITH_PREFIX'', ''B_DEF_ABILITY''] [''pokemon_name'', ''ability_name''] ''sText_PkmnsXTookAttack'',
     battle_msg ''STRINGID_PKMNCHOSEXASDESTINY'' 335 (''{B_ATK_NAME_WITH_PREFIX} chose'' @ NL_CODE @ ''{B_CURRENT_MOVE} as its destiny!'') ''{VAR} chose {VAR} as its destiny!''
       [''B_ATK_NAME_WITH_PREFIX'', ''B_CURRENT_MOVE''] [''pokemon_name'', ''move_name''] ''sText_PkmnChoseXAsDestiny'',
     battle_msg ''STRINGID_PKMNLOSTFOCUS'' 336 (''{B_ATK_NAME_WITH_PREFIX} lost its'' @ NL_CODE @ ''focus and couldn't move!'') ''{VAR} lost its focus and couldn't move!''
       [''B_ATK_NAME_WITH_PREFIX''] [''pokemon_name''] ''sText_PkmnLostFocus'',
     battle_msg ''STRINGID_USENEXTPKMN'' 337 (''Use next POK'' @ [CHR 0xE9] @ ''MON?'') (''Use next POK'' @ [CHR 0xE9] @ ''MON?'')
       [] [] ''sText_UseNextPkmn'',
     battle_msg ''STRINGID_PKMNWASDRAGGEDOUT'' 340 (''{B_DEF_NAME_WITH_PREFIX} was'' @ NL_CODE @ ''dragged out!'' @ PAGE_CODE) ''{VAR} was dragged out!''
       [''B_DEF_NAME_WITH_PREFIX''] [''pokemon_name''] ''sText_PkmnWasDraggedOut'',
     battle_msg ''STRINGID_PREVENTEDFROMWORKING'' 341 (''{B_DEF_NAME_WITH_PREFIX}'s {B_DEF_ABILITY}'' @ NL_CODE @ ''prevented {B_SCR_ACTIVE_NAME_WITH_PREFIX}'s'' @ SCROLL_CODE @ ''{B_BUFF1} from working!'') ''{VAR}'s {VAR} prevented {VAR}'s {VAR} from working!''
       [''B_DEF_NAME_WITH_PREFIX'', ''B_DEF_ABILITY'', ''B_SCR_ACTIVE_NAME_WITH_PREFIX'', ''B_BUFF1''] [''pokemon_name'', ''ability_name'', ''pokemon_name'', ''text''] ''sText_PreventedFromWorking'',
     battle_msg ''STRINGID_PKMNSITEMNORMALIZEDSTATUS'' 342 (''{B_SCR_ACTIVE_NAME_WITH_PREFIX}'s {B_LAST_ITEM}'' @ NL_CODE @ ''normalized its status!'') ''{VAR}'s {VAR} normalized its status!''
       [''B_SCR_ACTIVE_NAME_WITH_PREFIX'', ''B_LAST_ITEM''] [''pokemon_name'', ''text''] ''sText_PkmnsItemNormalizedStatus'']"

definition BATTLE_MESSAGES_22 :: "battle_message list" where
  "BATTLE_MESSAGES_22 = [
     battle_msg ''STRINGID_BOXISFULL'' 344 (''The BOX is full!'' @ NL_CODE @ ''You can't catch any more!'' @ PAGE_CODE) ''The BOX is full! You can't catch any more!''
       [] [] ''sText_BoxIsFull'',
     battle_msg ''STRINGID_PKMNAVOIDEDATTACK'' 345 (''{B_DEF_NAME_WITH_PREFIX} avoided'' @ NL_CODE @ ''the attack!'') ''{VAR} avoided the attack!''
       [''B_DEF_NAME_WITH_PREFIX''] [''pokemon_name''] ''sText_PkmnAvoidedAttack'',
     battle_msg ''STRINGID_PKMNSXMADEITINEFFECTIVE'' 346 (''{B_SCR_ACTIVE_NAME_WITH_PREFIX}'s {B_SCR_ACTIVE_ABILITY}'' @ NL_CODE @ ''made it ineffective!'') ''{VAR}'s {VAR} made it ineffective!''
       [''B_SCR_ACTIVE_NAME_WITH_PREFIX'', ''B_SCR_ACTIVE_ABILITY''] [''pokemon_name'', ''text''] ''sText_PkmnsXMadeItIneffective'',
     battle_msg ''STRINGID_PKMNSXPREVENTSFLINCHING'' 347 (''{B_EFF_NAME_WITH_PREFIX}'s {B_EFF_ABILITY}'' @ NL_CODE @ ''prevents flinching!'') ''{VAR}'s {VAR} prevents flinching!''
       [''B_EFF_NAME_WITH_PREFIX'', ''B_EFF_ABILITY''] [''pokemon_name'', ''text''] ''sText_PkmnsXPreventsFlinching'',
     battle_msg ''STRINGID_PKMNALREADYHASBURN'' 348 (''{B_DEF_NAME_WITH_PREFIX} already'' @ NL_CODE @ ''has a burn.'') ''{VAR} already has a burn.''
       [''B_DEF_NAME_WITH_PREFIX''] [''pokemon_name''] ''sText_PkmnAlreadyHasBurn'',
     battle_msg ''STRINGID_STATSWONTDECREASE2'' 349 (''{B_DEF_NAME_WITH_PREFIX}'s stats won't'' @ NL_CODE @ ''go any lower!'') ''{VAR}'s stats won't go any lower!''
       [''B_DEF_NAME_WITH_PREFIX''] [''pokemon_name''] ''sText_StatsWontDecrease2'',
     battle_msg ''STRINGID_PKMNSXBLOCKSY2'' 350 (''{B_SCR_ACTIVE_NAME_WITH_PREFIX}'s {B_SCR_ACTIVE_ABILITY}'' @ NL_CODE @ ''blocks {B_CURRENT_MOVE}!'') ''{VAR}'s {VAR} blocks {VAR}!''
       [''B_SCR_ACTIVE_NAME_WITH_PREFIX'', ''B_SCR_ACTIVE_ABILITY'', ''B_CURRENT_MOVE''] [''pokemon_name'', ''text'', ''move_name''] ''sText_PkmnsXBlocksY2'',
     battle_msg ''STRINGID_PKMNSXWOREOFF'' 351 (''{B_ATK_PREFIX1}'s {B_BUFF1}'' @ NL_CODE @ ''wore off!'') ''{VAR}'s {VAR} wore off!''
       [''B_ATK_PREFIX1'', ''B_BUFF1''] [''text'', ''text''] ''sText_PkmnsXWoreOff'',
     battle_msg ''STRINGID_PKMNRAISEDDEFALITTLE'' 352 (''{B_ATK_PREFIX2}'s {B_CURRENT_MOVE}'' @ NL_CODE @ ''raised DEFENSE a little!'') ''{VAR}'s {VAR} raised DEFENSE a little!''
       [''B_ATK_PREFIX2'', ''B_CURRENT_MOVE''] [''text'', ''move_name''] ''sText_PkmnRaisedDefALittle'',
     battle_msg ''STRINGID_PKMNRAISEDSPDEFALITTLE'' 353 (''{B_ATK_PREFIX2}'s {B_CURRENT_MOVE}'' @ NL_CODE @ ''raised SP. DEF a little!'') ''{VAR}'s {VAR} raised SP. DEF a little!''
       [''B_ATK_PREFIX2'', ''B_CURRENT_MOVE''] [''text'', ''move_name''] ''sText_PkmnRaisedSpDefALittle'',
     battle_msg ''STRINGID_THEWALLSHATTERED'' 354 ''The wall shattered!'' ''The wall shattered!''
       [] [] ''sText_TheWallShattered'',
     battle_msg ''STRINGID_PKMNSXPREVENTSYSZ'' 355 (''{B_ATK_NAME_WITH_PREFIX}'s {B_ATK_ABILITY}'' @ NL_CODE @ ''prevents {B_DEF_NAME_WITH_PREFIX}'s'' @ SCROLL_CODE @ ''{B_DEF_ABILITY} from working!'') ''{VAR}'s {VAR} prevents {VAR}'s {VAR} from working!''
       [''B_ATK_NAME_WITH_PREFIX'', ''B_ATK_ABILITY'', ''B_DEF_NAME_WITH_PREFIX'', ''B_DEF_ABILITY''] [''pokemon_name'', ''ability_name'', ''pokemon_name'', ''ability_name''] ''sText_PkmnsXPreventsYsZ'',
     battle_msg ''STRINGID_PKMNSXCUREDITSYPROBLEM'' 356 (''{B_SCR_ACTIVE_NAME_WITH_PREFIX}'s {B_SCR_ACTIVE_ABILITY}'' @ NL_CODE @ ''cured its {B_BUFF1} problem!'') ''{VAR}'s {VAR} cured its {VAR} problem!''
       [''B_SCR_ACTIVE_NAME_WITH_PREFIX'', ''B_SCR_ACTIVE_ABILITY'', ''B_BUFF1''] [''pokemon_name'', ''text'', ''text''] ''sText_PkmnsXCuredItsYProblem'',
     battle_msg ''STRINGID_ATTACKERCANTESCAPE'' 357 ''{B_ATK_NAME_WITH_PREFIX} can't escape!'' ''{VAR} can't escape!''
       [''B_ATK_NAME_WITH_PREFIX''] [''pokemon_name''] ''sText_AttackerCantEscape'',
     battle_msg ''STRINGID_PKMNOBTAINEDX'' 358 (''{B_ATK_NAME_WITH_PREFIX} obtained'' @ NL_CODE @ ''{B_BUFF1}.'') ''{VAR} obtained {VAR}.''
       [''B_ATK_NAME_WITH_PREFIX'', ''B_BUFF1''] [''pokemon_name'', ''item_name''] ''sText_PkmnObtainedX'',
     battle_msg ''STRINGID_PKMNOBTAINEDX2'' 359 (''{B_DEF_NAME_WITH_PREFIX} obtained'' @ NL_CODE @ ''{B_BUFF2}.'') ''{VAR} obtained {VAR}.''
       [''B_DEF_NAME_WITH_PREFIX'', ''B_BUFF2''] [''pokemon_name'', ''item_name''] ''sText_PkmnObtainedX2'']"

definition BATTLE_MESSAGES_23 :: "battle_message list" where
  "BATTLE_MESSAGES_23 = [
     battle_msg ''STRINGID_PKMNOBTAINEDXYOBTAINEDZ'' 360 (''{B_ATK_NAME_WITH_PREFIX} obtained'' @ NL_CODE @ ''{B_BUFF1}.'' @ PAGE_CODE @ ''{B_DEF_NAME_WITH_PREFIX} obtained'' @ NL_CODE @ ''{B_BUFF2}.'') ''{VAR} obtained {VAR}. {VAR} obtained {VAR}.''
       [''B_ATK_NAME_WITH_PREFIX'', ''B_BUFF1'', ''B_DEF_NAME_WITH_PREFIX'', ''B_BUFF2''] [''pokemon_name'', ''text'', ''pokemon_name'', ''text''] ''sText_PkmnObtainedXYObtainedZ'',
     battle_msg ''STRINGID_BUTNOEFFECT'' 361 ''But it had no effect!'' ''But it had no effect!''
       [] [] ''sText_ButNoEffect'',
     battle_msg ''STRINGID_PKMNSXHADNOEFFECTONY'' 362 (''{B_SCR_ACTIVE_NAME_WITH_PREFIX}'s {B_SCR_ACTIVE_ABILITY}'' @ NL_CODE @ ''had no effect on {B_EFF_NAME_WITH_PREFIX}!'') ''{VAR}'s {VAR} had no effect on {VAR}!''
       [''B_SCR_ACTIVE_NAME_WITH_PREFIX'', ''B_SCR_ACTIVE_ABILITY'', ''B_EFF_NAME_WITH_PREFIX''] [''pokemon_name'', ''text'', ''pokemon_name''] ''sText_PkmnsXHadNoEffectOnY'',
     battle_msg ''STRINGID_TWOENEMIESDEFEATED'' 363 (''{B_TRAINER1_CLASS} {B_TRAINER1_NAME} and'' @ NL_CODE @ ''{B_TRAINER2_CLASS} {B_TRAINER2_NAME}'' @ SCROLL_CODE @ ''were defeated!'' @ PAGE_CODE) ''{VAR} {VAR} and {VAR} {VAR} were defeated!''
       [''B_TRAINER1_CLASS'', ''B_TRAINER1_NAME'', ''B_TRAINER2_CLASS'', ''B_TRAINER2_NAME''] [''trainer_class'', ''trainer_name'', ''trainer_class'', ''trainer_name''] ''sText_TwoInGameTrainersDefeated'',
     battle_msg ''STRINGID_TRAINER2LOSETEXT'' 364 ''{B_TRAINER2_LOSE_TEXT}'' ''{VAR}''
       [''B_TRAINER2_LOSE_TEXT''] [''text''] ''sText_Trainer2LoseText'',
     battle_msg ''STRINGID_PKMNINCAPABLEOFPOWER'' 365 (''{B_ATK_NAME_WITH_PREFIX} appears incapable'' @ NL_CODE @ ''of using its power!'') ''{VAR} appears incapable of using its power!''
       [''B_ATK_NAME_WITH_PREFIX''] [''pokemon_name''] ''sText_PkmnIncapableOfPower'',
     battle_msg ''STRINGID_GLINTAPPEARSINEYE'' 366 (''A glint appears in'' @ NL_CODE @ ''{B_SCR_ACTIVE_NAME_WITH_PREFIX}'s eyes!'') ''A glint appears in {VAR}'s eyes!''
       [''B_SCR_ACTIVE_NAME_WITH_PREFIX''] [''pokemon_name''] ''sText_GlintAppearsInEye'',
     battle_msg ''STRINGID_PKMNGETTINGINTOPOSITION'' 367 (''{B_SCR_ACTIVE_NAME_WITH_PREFIX} is getting into'' @ NL_CODE @ ''position!'') ''{VAR} is getting into position!''
       [''B_SCR_ACTIVE_NAME_WITH_PREFIX''] [''pokemon_name''] ''sText_PkmnGettingIntoPosition'',
     battle_msg ''STRINGID_PKMNBEGANGROWLINGDEEPLY'' 368 ''{B_SCR_ACTIVE_NAME_WITH_PREFIX} began growling deeply!'' ''{VAR} began growling deeply!''
       [''B_SCR_ACTIVE_NAME_WITH_PREFIX''] [''pokemon_name''] ''sText_PkmnBeganGrowlingDeeply'',
     battle_msg ''STRINGID_PKMNEAGERFORMORE'' 369 ''{B_SCR_ACTIVE_NAME_WITH_PREFIX} is eager for more!'' ''{VAR} is eager for more!''
       [''B_SCR_ACTIVE_NAME_WITH_PREFIX''] [''pokemon_name''] ''sText_PkmnEagerForMore'',
     battle_msg ''STRINGID_DEFEATEDOPPONENTBYREFEREE'' 370 (''{B_PLAYER_MON1_NAME} defeated the opponent'' @ NL_CODE @ ''{B_OPPONENT_MON1_NAME} in a REFEREE's decision!'') ''{VAR} defeated the opponent {VAR} in a REFEREE's decision!''
       [''B_PLAYER_MON1_NAME'', ''B_OPPONENT_MON1_NAME''] [''pokemon_name'', ''pokemon_name''] ''sText_DefeatedOpponentByReferee'',
     battle_msg ''STRINGID_LOSTTOOPPONENTBYREFEREE'' 371 (''{B_PLAYER_MON1_NAME} lost to the opponent'' @ NL_CODE @ ''{B_OPPONENT_MON1_NAME} in a REFEREE's decision!'') ''{VAR} lost to the opponent {VAR} in a REFEREE's decision!''
       [''B_PLAYER_MON1_NAME'', ''B_OPPONENT_MON1_NAME''] [''pokemon_name'', ''pokemon_name''] ''sText_LostToOpponentByReferee'',
     battle_msg ''STRINGID_TIEDOPPONENTBYREFEREE'' 372 (''{B_PLAYER_MON1_NAME} tied the opponent'' @ NL_CODE @ ''{B_OPPONENT_MON1_NAME} in a REFEREE's decision!'') ''{VAR} tied the opponent {VAR} in a REFEREE's decision!''
       [''B_PLAYER_MON1_NAME'', ''B_OPPONENT_MON1_NAME''] [''pokemon_name'', ''pokemon_name''] ''sText_TiedOpponentByReferee'',
     battle_msg ''STRINGID_QUESTIONFORFEITMATCH'' 373 (''Would you like to forfeit the match'' @ NL_CODE @ ''and quit now?'') ''Would you like to forfeit the match and quit now?''
       [] [] ''sText_QuestionForfeitMatch'',
     battle_msg ''STRINGID_FORFEITEDMATCH'' 374 ''{B_PLAYER_NAME} forfeited the match!'' ''{VAR} forfeited the match!''
       [''B_PLAYER_NAME''] [''text''] ''sText_ForfeitedMatch'',
     battle_msg ''STRINGID_TRAINER1WINTEXT'' 379 ''{B_TRAINER1_WIN_TEXT}'' ''{VAR}''
       [''B_TRAINER1_WIN_TEXT''] [''text''] ''sText_Trainer1WinText'']"

definition BATTLE_MESSAGES_24 :: "battle_message list" where
  "BATTLE_MESSAGES_24 = [
     battle_msg ''STRINGID_TRAINER2WINTEXT'' 380 ''{B_TRAINER2_WIN_TEXT}'' ''{VAR}''
       [''B_TRAINER2_WIN_TEXT''] [''text''] ''sText_Trainer2WinText'',
     battle_msg ''STRINGID_MEGAEVOLUTION'' 381 (''{B_ATK_NAME_WITH_PREFIX}'s {B_HELD_ITEM} is reacting to'' @ NL_CODE @ ''the Key Stone!'') ''{VAR}'s {VAR} is reacting to the Key Stone!''
       [''B_ATK_NAME_WITH_PREFIX'', ''B_HELD_ITEM''] [''pokemon_name'', ''item_name''] ''sText_MegaEvolution'',
     battle_msg ''STRINGID_MEGAEVOLUTION_NOITEM'' 382 (''{B_ATK_NAME_WITH_PREFIX} is reacting to'' @ NL_CODE @ ''{B_TRAINER1_CLASS} {B_TRAINER1_NAME}'s Key Stone!'') ''{VAR} is reacting to {VAR} {VAR}'s Key Stone!''
       [''B_ATK_NAME_WITH_PREFIX'', ''B_TRAINER1_CLASS'', ''B_TRAINER1_NAME''] [''pokemon_name'', ''trainer_class'', ''trainer_name''] ''sText_MegaEvolutionNoItem'',
     battle_msg ''STRINGID_MEGAEVOLUTION_GEN6'' 383 (''{B_ATK_NAME_WITH_PREFIX}'s {B_HELD_ITEM} is reacting to'' @ NL_CODE @ ''{B_TRAINER1_CLASS} {B_TRAINER1_NAME}'s Mega Bracelet!'') ''{VAR}'s {VAR} is reacting to {VAR} {VAR}'s Mega Bracelet!''
       [''B_ATK_NAME_WITH_PREFIX'', ''B_HELD_ITEM'', ''B_TRAINER1_CLASS'', ''B_TRAINER1_NAME''] [''pokemon_name'', ''item_name'', ''trainer_class'', ''trainer_name''] ''sText_MegaEvolutionGen6'',
     battle_msg ''STRINGID_TRANSFORMMEGA'' 384 (''{B_ATK_NAME_WITH_PREFIX} has Mega Evolved'' @ NL_CODE @ ''into Mega {B_ATK_NAME_WITH_PREFIX}!'') ''{VAR} has Mega Evolved into Mega {VAR}!''
       [''B_ATK_NAME_WITH_PREFIX'', ''B_ATK_NAME_WITH_PREFIX''] [''pokemon_name'', ''pokemon_name''] ''sText_TransformMega'',
     battle_msg ''STRINGID_PRIMALREVERSION'' 385 (''{B_ATK_NAME_WITH_PREFIX}'s Primal Reversion!'' @ NL_CODE @ ''It reverted to its primal state!'') ''{VAR}'s Primal Reversion! It reverted to its primal state!''
       [''B_ATK_NAME_WITH_PREFIX''] [''pokemon_name''] ''sText_PrimalReversion'',
     battle_msg ''STRINGID_ATTACKERSTATROSTEDRASTICALLY'' 386 (''{B_ATK_NAME_WITH_PREFIX}'s {B_BUFF1}'' @ NL_CODE @ ''drastically rose!'') ''{VAR}'s {VAR} drastically rose!''
       [''B_ATK_NAME_WITH_PREFIX'', ''B_BUFF1''] [''pokemon_name'', ''text''] ''sText_AttackerStatRoseDrastically'',
     battle_msg ''STRINGID_DEFENDERSTATROSTEDRASTICALLY'' 387 (''{B_DEF_NAME_WITH_PREFIX}'s {B_BUFF1}'' @ NL_CODE @ ''drastically rose!'') ''{VAR}'s {VAR} drastically rose!''
       [''B_DEF_NAME_WITH_PREFIX'', ''B_BUFF1''] [''pokemon_name'', ''text''] ''sText_DefenderStatRoseDrastically'',
     battle_msg ''STRINGID_ATTACKERSTATFELLSEVERELY'' 388 (''{B_ATK_NAME_WITH_PREFIX}'s {B_BUFF1}'' @ NL_CODE @ ''fell severely!'') ''{VAR}'s {VAR} fell severely!''
       [''B_ATK_NAME_WITH_PREFIX'', ''B_BUFF1''] [''pokemon_name'', ''text''] ''sText_AttackerStatFellSeverely'',
     battle_msg ''STRINGID_DEFENDERSTATFELLSEVERELY'' 389 (''{B_DEF_NAME_WITH_PREFIX}'s {B_BUFF1}'' @ NL_CODE @ ''fell severely!'') ''{VAR}'s {VAR} fell severely!''
       [''B_DEF_NAME_WITH_PREFIX'', ''B_BUFF1''] [''pokemon_name'', ''text''] ''sText_DefenderStatFellSeverely'',
     battle_msg ''STRINGID_STATROSEFROMITEM'' 390 (''{B_EFF_NAME_WITH_PREFIX}'s {B_BUFF1} rose'' @ NL_CODE @ ''because of its {B_HELD_ITEM}!'') ''{VAR}'s {VAR} rose because of its {VAR}!''
       [''B_EFF_NAME_WITH_PREFIX'', ''B_BUFF1'', ''B_HELD_ITEM''] [''pokemon_name'', ''text'', ''item_name''] ''sText_StatRoseFromItem'',
     battle_msg ''STRINGID_STATSHARPLYROSEFROMITEM'' 391 (''{B_EFF_NAME_WITH_PREFIX}'s {B_BUFF1} sharply rose'' @ NL_CODE @ ''because of its {B_HELD_ITEM}!'') ''{VAR}'s {VAR} sharply rose because of its {VAR}!''
       [''B_EFF_NAME_WITH_PREFIX'', ''B_BUFF1'', ''B_HELD_ITEM''] [''pokemon_name'', ''text'', ''item_name''] ''sText_StatSharplyRoseFromItem'',
     battle_msg ''STRINGID_STATFELLFROMITEM'' 392 (''{B_EFF_NAME_WITH_PREFIX}'s {B_BUFF1} fell'' @ NL_CODE @ ''because of its {B_HELD_ITEM}!'') ''{VAR}'s {VAR} fell because of its {VAR}!''
       [''B_EFF_NAME_WITH_PREFIX'', ''B_BUFF1'', ''B_HELD_ITEM''] [''pokemon_name'', ''text'', ''item_name''] ''sText_StatFellFromItem'',
     battle_msg ''STRINGID_STATHARSHLYFELLFROMIITEM'' 393 (''{B_EFF_NAME_WITH_PREFIX}'s {B_BUFF1} harshly fell'' @ NL_CODE @ ''because of its {B_HELD_ITEM}!'') ''{VAR}'s {VAR} harshly fell because of its {VAR}!''
       [''B_EFF_NAME_WITH_PREFIX'', ''B_BUFF1'', ''B_HELD_ITEM''] [''pokemon_name'', ''text'', ''item_name''] ''sText_StatHarshlyFellFromItem'',
     battle_msg ''STRINGID_USINGITEMSTATOFPKMNROSE'' 325 (''Using {B_LAST_ITEM}, the {B_BUFF1}'' @ NL_CODE @ ''of {B_SCR_ACTIVE_NAME_WITH_PREFIX} {B_BUFF2}'') ''Using {VAR} the {VAR} of {VAR} {VAR}''
       [''B_LAST_ITEM'', ''B_BUFF1'', ''B_SCR_ACTIVE_NAME_WITH_PREFIX'', ''B_BUFF2''] [''item_name'', ''text'', ''pokemon_name'', ''text''] ''sText_UsingItemTheStatOfPkmnRose'']"

definition BATTLE_MESSAGES_25 :: "battle_message list" where
  "BATTLE_MESSAGES_25 = [
     battle_msg ''STRINGID_SWAPSTAT'' 394 (''{B_ATK_NAME_WITH_PREFIX} switched all'' @ NL_CODE @ ''stat changes with {B_DEF_NAME_WITH_PREFIX}!'') ''{VAR} switched all stat changes with {VAR}!''
       [''B_ATK_NAME_WITH_PREFIX'', ''B_DEF_NAME_WITH_PREFIX''] [''pokemon_name'', ''pokemon_name''] ''sText_SwapStat'',
     battle_msg ''STRINGID_COPYSTAT'' 395 (''{B_ATK_NAME_WITH_PREFIX} copied {B_DEF_NAME_WITH_PREFIX}'s'' @ NL_CODE @ ''stat changes!'') ''{VAR} copied {VAR}'s stat changes!''
       [''B_ATK_NAME_WITH_PREFIX'', ''B_DEF_NAME_WITH_PREFIX''] [''pokemon_name'', ''pokemon_name''] ''sText_CopyStat'',
     battle_msg ''STRINGID_CLEARSTAT'' 396 (''{B_EFF_NAME_WITH_PREFIX}'s stat changes'' @ NL_CODE @ ''were all reset!'') ''{VAR}'s stat changes were all reset!''
       [''B_EFF_NAME_WITH_PREFIX''] [''pokemon_name''] ''sText_ClearStat'',
     battle_msg ''STRINGID_INVERTSTAT'' 397 (''{B_EFF_NAME_WITH_PREFIX}'s stat changes'' @ NL_CODE @ ''were inverted!'') ''{VAR}'s stat changes were inverted!''
       [''B_EFF_NAME_WITH_PREFIX''] [''pokemon_name''] ''sText_InvertStat'',
     battle_msg ''STRINGID_EXTREMELYEFFECTIVE'' 398 ''It's extremely effective!'' ''It's extremely effective!''
       [] [] ''sText_ExtremelyEffective'',
     battle_msg ''STRINGID_MOSTLYINEFFECTIVE'' 399 ''It's mostly ineffective!'' ''It's mostly ineffective!''
       [] [] ''sText_MostlyIneffective'',
     battle_msg ''STRINGID_HITCOUNT'' 400 ''Hit {B_BUFF1} time(s)!'' ''Hit {VAR} time(s)!''
       [''B_BUFF1''] [''number''] ''sText_HitCount'',
     battle_msg ''STRINGID_ABILITYAFTERMATHAFTERHURT'' 401 ''{B_ATK_NAME_WITH_PREFIX} was hurt!'' ''{VAR} was hurt!''
       [''B_ATK_NAME_WITH_PREFIX''] [''pokemon_name''] ''sText_AbilityAftermathAfterHurt'',
     battle_msg ''STRINGID_AIRLOCKSUPPRESSES'' 402 (''The effects of weather'' @ NL_CODE @ ''disappeared!'') ''The effects of weather disappeared!''
       [] [] ''sText_AirlockSuppresses'',
     battle_msg ''STRINGID_ANGERPOINTMAXATTACK'' 403 (''{B_DEF_NAME_WITH_PREFIX}'s Anger Point'' @ NL_CODE @ ''maxxed its Attack!'') ''{VAR}'s Anger Point maxxed its Attack!''
       [''B_DEF_NAME_WITH_PREFIX''] [''pokemon_name''] ''sText_AngerPointMaxAttack'',
     battle_msg ''STRINGID_ANTICIPATIONACTIVATE'' 404 ''{B_DEF_NAME_WITH_PREFIX} shuddered!'' ''{VAR} shuddered!''
       [''B_DEF_NAME_WITH_PREFIX''] [''pokemon_name''] ''sText_AnticipationActivate'',
     battle_msg ''STRINGID_AROMAVEILBLOCKS'' 405 (''{B_DEF_NAME_WITH_PREFIX}'s Aroma Veil'' @ NL_CODE @ ''protected it!'') ''{VAR}'s Aroma Veil protected it!''
       [''B_DEF_NAME_WITH_PREFIX''] [''pokemon_name''] ''sText_AromaVeilBlocks'',
     battle_msg ''STRINGID_AURABREAKSTART'' 406 (''{B_EFF_NAME_WITH_PREFIX}'s Aura Break'' @ NL_CODE @ ''changed Aura's effect!'') ''{VAR}'s Aura Break changed Aura's effect!''
       [''B_EFF_NAME_WITH_PREFIX''] [''pokemon_name''] ''sText_AuraBreakStart'',
     battle_msg ''STRINGID_BADDREAMSDAMAGE'' 407 (''{B_DEF_NAME_WITH_PREFIX} is having'' @ NL_CODE @ ''a bad dream!'') ''{VAR} is having a bad dream!''
       [''B_DEF_NAME_WITH_PREFIX''] [''pokemon_name''] ''sText_BadDreamsDamage'',
     battle_msg ''STRINGID_BATTLEBONDACTIVATE'' 408 (''{B_ATK_NAME_WITH_PREFIX} became fully'' @ NL_CODE @ ''evolved!'') ''{VAR} became fully evolved!''
       [''B_ATK_NAME_WITH_PREFIX''] [''pokemon_name''] ''sText_BattleBondActivate'']"

definition BATTLE_MESSAGES_26 :: "battle_message list" where
  "BATTLE_MESSAGES_26 = [
     battle_msg ''STRINGID_BATTLEBONDTRANSFORM'' 409 (''{B_ATK_NAME_WITH_PREFIX} became'' @ NL_CODE @ ''Ash-Greninja!'') ''{VAR} became Ash-Greninja!''
       [''B_ATK_NAME_WITH_PREFIX''] [''pokemon_name''] ''sText_BattleBondTransform'',
     battle_msg ''STRINGID_COMATOSEACTIVATE'' 410 ''{B_EFF_NAME_WITH_PREFIX} is drowsing!'' ''{VAR} is drowsing!''
       [''B_EFF_NAME_WITH_PREFIX''] [''pokemon_name''] ''sText_ComatoseActivate'',
     battle_msg ''STRINGID_DARKAURASTART'' 411 (''{B_EFF_NAME_WITH_PREFIX} is radiating'' @ NL_CODE @ ''a dark aura!'') ''{VAR} is radiating a dark aura!''
       [''B_EFF_NAME_WITH_PREFIX''] [''pokemon_name''] ''sText_DarkAuraStart'',
     battle_msg ''STRINGID_FAIRYAURASTART'' 412 (''{B_EFF_NAME_WITH_PREFIX} is radiating'' @ NL_CODE @ ''a fairy aura!'') ''{VAR} is radiating a fairy aura!''
       [''B_EFF_NAME_WITH_PREFIX''] [''pokemon_name''] ''sText_FairyAuraStart'',
     battle_msg ''STRINGID_DISGUISEBLOCK'' 413 (''{B_DEF_NAME_WITH_PREFIX}'s disguise'' @ NL_CODE @ ''was busted!'') ''{VAR}'s disguise was busted!''
       [''B_DEF_NAME_WITH_PREFIX''] [''pokemon_name''] ''sText_DisguiseBlock'',
     battle_msg ''STRINGID_DRYSKINABSORB'' 414 (''{B_DEF_NAME_WITH_PREFIX}'s Dry Skin'' @ NL_CODE @ ''restored its HP a little!'') ''{VAR}'s Dry Skin restored its HP a little!''
       [''B_DEF_NAME_WITH_PREFIX''] [''pokemon_name''] ''sText_DrySkinAbsorb'',
     battle_msg ''STRINGID_ELECTROMORPHOSISCHARGE'' 415 (''{B_EFF_NAME_WITH_PREFIX} became'' @ NL_CODE @ ''charged due to the move!'') ''{VAR} became charged due to the move!''
       [''B_EFF_NAME_WITH_PREFIX''] [''pokemon_name''] ''sText_ElectromorphosisCharge'',
     battle_msg ''STRINGID_FLASHFIREACTIVATE'' 416 (''{B_DEF_NAME_WITH_PREFIX}'s Flash Fire'' @ NL_CODE @ ''powered up Fire-type moves!'') ''{VAR}'s Flash Fire powered up Fire-type moves!''
       [''B_DEF_NAME_WITH_PREFIX''] [''pokemon_name''] ''sText_FlashFireActivate'',
     battle_msg ''STRINGID_FLOWERVEILPROTECT'' 417 (''{B_DEF_NAME_WITH_PREFIX}'s Flower Veil'' @ NL_CODE @ ''protected it!'') ''{VAR}'s Flower Veil protected it!''
       [''B_DEF_NAME_WITH_PREFIX''] [''pokemon_name''] ''sText_FlowerVeilProtect'',
     battle_msg ''STRINGID_FOREWARNACTIVATE'' 418 (''{B_DEF_NAME_WITH_PREFIX}'s Forewarn'' @ NL_CODE @ ''alerted it to {B_ATK_NAME_WITH_PREFIX}'s'' @ NL_CODE @ ''{B_BUFF2}!'') ''{VAR}'s Forewarn alerted it to {VAR}'s {VAR}!''
       [''B_DEF_NAME_WITH_PREFIX'', ''B_ATK_NAME_WITH_PREFIX'', ''B_BUFF2''] [''pokemon_name'', ''pokemon_name'', ''move_name''] ''sText_ForewarnActivate'',
     battle_msg ''STRINGID_FRISKACTIVATE'' 419 (''{B_DEF_NAME_WITH_PREFIX} frisked {B_ATK_NAME_WITH_PREFIX}'' @ NL_CODE @ ''and found one {B_LAST_ITEM}!'') ''{VAR} frisked {VAR} and found one {VAR}!''
       [''B_DEF_NAME_WITH_PREFIX'', ''B_ATK_NAME_WITH_PREFIX'', ''B_LAST_ITEM''] [''pokemon_name'', ''pokemon_name'', ''item_name''] ''sText_FriskActivate'',
     battle_msg ''STRINGID_HARVESTADDITEM'' 420 (''{B_EFF_NAME_WITH_PREFIX} harvested'' @ NL_CODE @ ''one {B_LAST_ITEM}!'') ''{VAR} harvested one {VAR}!''
       [''B_EFF_NAME_WITH_PREFIX'', ''B_LAST_ITEM''] [''pokemon_name'', ''item_name''] ''sText_HarvestAddItem'',
     battle_msg ''STRINGID_ILLUSIONEND'' 421 (''{B_DEF_NAME_WITH_PREFIX}'s illusion'' @ NL_CODE @ ''wore off!'') ''{VAR}'s illusion wore off!''
       [''B_DEF_NAME_WITH_PREFIX''] [''pokemon_name''] ''sText_IllusionEnd'',
     battle_msg ''STRINGID_LINGERINGAROMACHANGEABILITY'' 422 (''{B_ATK_NAME_WITH_PREFIX}'s Lingering Aroma'' @ NL_CODE @ ''changed {B_DEF_NAME_WITH_PREFIX}'s Ability!'') ''{VAR}'s Lingering Aroma changed {VAR}'s Ability!''
       [''B_ATK_NAME_WITH_PREFIX'', ''B_DEF_NAME_WITH_PREFIX''] [''pokemon_name'', ''pokemon_name''] ''sText_LingeringAromaChangeAbility'',
     battle_msg ''STRINGID_LIQUIDOOZEABILITYDAMAGE'' 423 (''{B_ATK_NAME_WITH_PREFIX} sucked up'' @ NL_CODE @ ''the liquid ooze!'') ''{VAR} sucked up the liquid ooze!''
       [''B_ATK_NAME_WITH_PREFIX''] [''pokemon_name''] ''sText_LiquidOozeAbilityDamage'',
     battle_msg ''STRINGID_MIMICRYACTIVATE'' 424 (''{B_EFF_NAME_WITH_PREFIX}'s type'' @ NL_CODE @ ''changed to match the terrain!'') ''{VAR}'s type changed to match the terrain!''
       [''B_EFF_NAME_WITH_PREFIX''] [''pokemon_name''] ''sText_MimicryActivate'']"

definition BATTLE_MESSAGES_27 :: "battle_message list" where
  "BATTLE_MESSAGES_27 = [
     battle_msg ''STRINGID_MOLDBREAKERSUPPRESSES'' 425 ''{B_ATK_NAME_WITH_PREFIX} breaks the mold!'' ''{VAR} breaks the mold!''
       [''B_ATK_NAME_WITH_PREFIX''] [''pokemon_name''] ''sText_MoldBreakerSuppresses'',
     battle_msg ''STRINGID_MUMMYCHANGEABILITY'' 426 (''{B_ATK_NAME_WITH_PREFIX}'s Mummy changed'' @ NL_CODE @ ''{B_DEF_NAME_WITH_PREFIX}'s Ability!'') ''{VAR}'s Mummy changed {VAR}'s Ability!''
       [''B_ATK_NAME_WITH_PREFIX'', ''B_DEF_NAME_WITH_PREFIX''] [''pokemon_name'', ''pokemon_name''] ''sText_MummyChangeAbility'',
     battle_msg ''STRINGID_NATURALCUREACTIVATE'' 427 (''{B_EFF_NAME_WITH_PREFIX}'s {B_BUFF1} was'' @ NL_CODE @ ''cured!'') ''{VAR}'s {VAR} was cured!''
       [''B_EFF_NAME_WITH_PREFIX'', ''B_BUFF1''] [''pokemon_name'', ''text''] ''sText_NaturalCureActivate'',
     battle_msg ''STRINGID_NEUTRALIZINGGASSTART'' 428 (''The effects of the Pok'' @ [CHR 0xE9] @ ''mon's'' @ NL_CODE @ ''Abilities are suppressed!'') (''The effects of the Pok'' @ [CHR 0xE9] @ ''mon's Abilities are suppressed!'')
       [] [] ''sText_NeutralizingGasStart'',
     battle_msg ''STRINGID_NEUTRALIZINGGASEND'' 429 (''The effects of the Pok'' @ [CHR 0xE9] @ ''mon's'' @ NL_CODE @ ''Abilities are no longer suppressed!'') (''The effects of the Pok'' @ [CHR 0xE9] @ ''mon's Abilities are no longer suppressed!'')
       [] [] ''sText_NeutralizingGasEnd'',
     battle_msg ''STRINGID_PERISHBODYFAINT'' 430 (''Both Pok'' @ [CHR 0xE9] @ ''mon will faint'' @ NL_CODE @ ''in three turns!'') (''Both Pok'' @ [CHR 0xE9] @ ''mon will faint in three turns!'')
       [] [] ''sText_PerishBodyFaint'',
     battle_msg ''STRINGID_POWERCONSTRUCT50'' 431 (''{B_ATK_NAME_WITH_PREFIX} is assembling'' @ NL_CODE @ ''its cells!'') ''{VAR} is assembling its cells!''
       [''B_ATK_NAME_WITH_PREFIX''] [''pokemon_name''] ''sText_PowerConstruct50'',
     battle_msg ''STRINGID_POWERCONSTRUCTTRANSFORM'' 432 ''It became the Power Construct Forme!'' ''It became the Power Construct Forme!''
       [] [] ''sText_PowerConstructTransform'',
     battle_msg ''STRINGID_PRESSUREACTIVATE'' 433 (''{B_EFF_NAME_WITH_PREFIX} is exerting'' @ NL_CODE @ ''its Pressure!'') ''{VAR} is exerting its Pressure!''
       [''B_EFF_NAME_WITH_PREFIX''] [''pokemon_name''] ''sText_PressureActivate'',
     battle_msg ''STRINGID_QUICKDRAWACTIVATE'' 434 (''{B_ATK_NAME_WITH_PREFIX} used Quick Draw'' @ NL_CODE @ ''to get the first move!'') ''{VAR} used Quick Draw to get the first move!''
       [''B_ATK_NAME_WITH_PREFIX''] [''pokemon_name''] ''sText_QuickDrawActivate'',
     battle_msg ''STRINGID_RECEIVERCHANGEABILITY'' 435 (''{B_EFF_NAME_WITH_PREFIX} absorbed'' @ NL_CODE @ ''{B_ATK_NAME_WITH_PREFIX}'s Ability!'') ''{VAR} absorbed {VAR}'s Ability!''
       [''B_EFF_NAME_WITH_PREFIX'', ''B_ATK_NAME_WITH_PREFIX''] [''pokemon_name'', ''pokemon_name''] ''sText_ReceiverChangeAbility'',
     battle_msg ''STRINGID_SCHOOLINGSTART'' 436 (''{B_EFF_NAME_WITH_PREFIX} formed a powerful'' @ NL_CODE @ ''school!'') ''{VAR} formed a powerful school!''
       [''B_EFF_NAME_WITH_PREFIX''] [''pokemon_name''] ''sText_SchoolingStart'',
     battle_msg ''STRINGID_SCHOOLINGEND'' 437 (''{B_EFF_NAME_WITH_PREFIX} left the powerful'' @ NL_CODE @ ''school!'') ''{VAR} left the powerful school!''
       [''B_EFF_NAME_WITH_PREFIX''] [''pokemon_name''] ''sText_SchoolingEnd'',
     battle_msg ''STRINGID_SLOWSTARTSTART'' 438 (''{B_EFF_NAME_WITH_PREFIX}'s slow start'' @ NL_CODE @ ''cut its Speed and Attack!'') ''{VAR}'s slow start cut its Speed and Attack!''
       [''B_EFF_NAME_WITH_PREFIX''] [''pokemon_name''] ''sText_SlowStartStart'',
     battle_msg ''STRINGID_SLOWSTARTEND'' 439 (''{B_EFF_NAME_WITH_PREFIX} finally got'' @ NL_CODE @ ''its act together!'') ''{VAR} finally got its act together!''
       [''B_EFF_NAME_WITH_PREFIX''] [''pokemon_name''] ''sText_SlowStartEnd'',
     battle_msg ''STRINGID_STANCECHANGEATTACK'' 440 (''{B_ATK_NAME_WITH_PREFIX} changed to'' @ NL_CODE @ ''Blade Forme!'') ''{VAR} changed to Blade Forme!''
       [''B_ATK_NAME_WITH_PREFIX''] [''pokemon_name''] ''sText_StanceChangeAttack'']"

definition BATTLE_MESSAGES_28 :: "battle_message list" where
  "BATTLE_MESSAGES_28 = [
     battle_msg ''STRINGID_STANCECHANGESHIELD'' 441 (''{B_ATK_NAME_WITH_PREFIX} changed to'' @ NL_CODE @ ''Shield Forme!'') ''{VAR} changed to Shield Forme!''
       [''B_ATK_NAME_WITH_PREFIX''] [''pokemon_name''] ''sText_StanceChangeShield'',
     battle_msg ''STRINGID_STICKYHOLDBLOCKS'' 442 (''{B_DEF_NAME_WITH_PREFIX}'s Sticky Hold'' @ NL_CODE @ ''kept its item!'') ''{VAR}'s Sticky Hold kept its item!''
       [''B_DEF_NAME_WITH_PREFIX''] [''pokemon_name''] ''sText_StickyHoldBlocks'',
     battle_msg ''STRINGID_SUCTIONCUPSBLOCKS'' 443 (''{B_DEF_NAME_WITH_PREFIX}'s Suction Cups'' @ NL_CODE @ ''anchored it!'') ''{VAR}'s Suction Cups anchored it!''
       [''B_DEF_NAME_WITH_PREFIX''] [''pokemon_name''] ''sText_SuctionCupsBlocks'',
     battle_msg ''STRINGID_SUPERSWEETSYRUPSTART'' 444 (''{B_EFF_NAME_WITH_PREFIX} was attracted'' @ NL_CODE @ ''by the sweet scent!'') ''{VAR} was attracted by the sweet scent!''
       [''B_EFF_NAME_WITH_PREFIX''] [''pokemon_name''] ''sText_SuperSweetSyrupStart'',
     battle_msg ''STRINGID_SUPREMEOVERLORDACTIVATE'' 445 (''Drawing from the strength of the'' @ NL_CODE @ ''fallen Pok'' @ [CHR 0xE9] @ ''mon!'') (''Drawing from the strength of the fallen Pok'' @ [CHR 0xE9] @ ''mon!'')
       [] [] ''sText_SupremeOverlordActivate'',
     battle_msg ''STRINGID_SWEETVEILBLOCKS'' 446 (''{B_DEF_NAME_WITH_PREFIX}'s Sweet Veil'' @ NL_CODE @ ''protected it from falling asleep!'') ''{VAR}'s Sweet Veil protected it from falling asleep!''
       [''B_DEF_NAME_WITH_PREFIX''] [''pokemon_name''] ''sText_SweetVeilBlocks'',
     battle_msg ''STRINGID_SYMBIOSISACTIVATE'' 447 (''{B_ATK_NAME_WITH_PREFIX} shared its'' @ NL_CODE @ ''{B_LAST_ITEM} with {B_DEF_NAME_WITH_PREFIX}!'') ''{VAR} shared its {VAR} with {VAR}!''
       [''B_ATK_NAME_WITH_PREFIX'', ''B_LAST_ITEM'', ''B_DEF_NAME_WITH_PREFIX''] [''pokemon_name'', ''item_name'', ''pokemon_name''] ''sText_SymbiosisActivate'',
     battle_msg ''STRINGID_TELEPATHYBLOCKS'' 448 (''{B_DEF_NAME_WITH_PREFIX}'s Telepathy'' @ NL_CODE @ ''avoided damage!'') ''{VAR}'s Telepathy avoided damage!''
       [''B_DEF_NAME_WITH_PREFIX''] [''pokemon_name''] ''sText_TelepathyBlocks'',
     battle_msg ''STRINGID_TERAVOLTSTART'' 449 ''{B_ATK_NAME_WITH_PREFIX} breaks the mold!'' ''{VAR} breaks the mold!''
       [''B_ATK_NAME_WITH_PREFIX''] [''pokemon_name''] ''sText_TeravoltStart'',
     battle_msg ''STRINGID_TURBOBLAZESTART'' 450 (''{B_ATK_NAME_WITH_PREFIX} is radiating'' @ NL_CODE @ ''a blazing aura!'') ''{VAR} is radiating a blazing aura!''
       [''B_ATK_NAME_WITH_PREFIX''] [''pokemon_name''] ''sText_TurboBlazStart'',
     battle_msg ''STRINGID_TRACECHANGEABILITY'' 451 (''{B_EFF_NAME_WITH_PREFIX} traced {B_ATK_NAME_WITH_PREFIX}'s'' @ NL_CODE @ ''{B_BUFF1}!'') ''{VAR} traced {VAR}'s {VAR}!''
       [''B_EFF_NAME_WITH_PREFIX'', ''B_ATK_NAME_WITH_PREFIX'', ''B_BUFF1''] [''pokemon_name'', ''pokemon_name'', ''ability_name''] ''sText_TraceChangeAbility'',
     battle_msg ''STRINGID_UNNERVESTART'' 452 (''{B_ATK_NAME_WITH_PREFIX} is too nervous'' @ NL_CODE @ ''to eat Berries!'') ''{VAR} is too nervous to eat Berries!''
       [''B_EFF_TEAM''] [''text''] ''sText_UnnerveStart'',
     battle_msg ''STRINGID_ZENMODETRANSFORM'' 453 (''{B_EFF_NAME_WITH_PREFIX} changed to'' @ NL_CODE @ ''Zen Mode!'') ''{VAR} changed to Zen Mode!''
       [''B_EFF_NAME_WITH_PREFIX''] [''pokemon_name''] ''sText_ZenModeTransform'',
     battle_msg ''STRINGID_ZENMODETRANSFORMEND'' 454 (''{B_EFF_NAME_WITH_PREFIX} returned to'' @ NL_CODE @ ''its original Forme!'') ''{VAR} returned to its original Forme!''
       [''B_EFF_NAME_WITH_PREFIX''] [''pokemon_name''] ''sText_ZenModeTransformEnd'',
     battle_msg ''STRINGID_FORESIGHTSTART'' 455 ''{B_DEF_NAME_WITH_PREFIX} was identified!'' ''{VAR} was identified!''
       [''B_DEF_NAME_WITH_PREFIX''] [''pokemon_name''] ''sText_ForesightStart'',
     battle_msg ''STRINGID_AQUARINGSTART'' 456 (''{B_ATK_NAME_WITH_PREFIX} surrounded itself'' @ NL_CODE @ ''with a veil of water!'') ''{VAR} surrounded itself with a veil of water!''
       [''B_ATK_NAME_WITH_PREFIX''] [''pokemon_name''] ''sText_AquaRingStart'']"

definition BATTLE_MESSAGES_29 :: "battle_message list" where
  "BATTLE_MESSAGES_29 = [
     battle_msg ''STRINGID_AQUARINGHEAL'' 457 (''{B_EFF_NAME_WITH_PREFIX}'s Aqua Ring'' @ NL_CODE @ ''restored its HP a little!'') ''{VAR}'s Aqua Ring restored its HP a little!''
       [''B_EFF_NAME_WITH_PREFIX''] [''pokemon_name''] ''sText_AquaRingHeal'',
     battle_msg ''STRINGID_AURORAVEILSTART'' 458 (''Aurora Veil made {B_ATK_NAME_WITH_PREFIX}'' @ NL_CODE @ ''and its allies stronger!'') ''Aurora Veil made {VAR} and its allies stronger!''
       [''B_ATK_NAME_WITH_PREFIX''] [''pokemon_name''] ''sText_AuroraVeilStart'',
     battle_msg ''STRINGID_AURORAVEILEND'' 459 (''{B_EFF_NAME_WITH_PREFIX}'s side's'' @ NL_CODE @ ''Aurora Veil wore off!'') ''{VAR}'s side's Aurora Veil wore off!''
       [''B_EFF_NAME_WITH_PREFIX''] [''pokemon_name''] ''sText_AuroraVeilEnd'',
     battle_msg ''STRINGID_BEAKBLASTSTART'' 460 (''{B_ATK_NAME_WITH_PREFIX} started'' @ NL_CODE @ ''heating up its beak!'') ''{VAR} started heating up its beak!''
       [''B_ATK_NAME_WITH_PREFIX''] [''pokemon_name''] ''sText_BeakBlastStart'',
     battle_msg ''STRINGID_BRICKBREAKSCREENS'' 461 (''{B_ATK_NAME_WITH_PREFIX} shattered'' @ NL_CODE @ ''{B_DEF_NAME_WITH_PREFIX}'s party's reflect'' @ NL_CODE @ ''and barriers!'') ''{VAR} shattered {VAR}'s party's reflect and barriers!''
       [''B_ATK_NAME_WITH_PREFIX'', ''B_DEF_NAME_WITH_PREFIX''] [''pokemon_name'', ''pokemon_name''] ''sText_BrickBreakScreens'',
     battle_msg ''STRINGID_ELECTRIFYSTART'' 462 (''{B_DEF_NAME_WITH_PREFIX}'s moves'' @ NL_CODE @ ''have been electrified!'') ''{VAR}'s moves have been electrified!''
       [''B_DEF_NAME_WITH_PREFIX''] [''pokemon_name''] ''sText_ElectrifyStart'',
     battle_msg ''STRINGID_EMBARGOSTART'' 463 (''{B_DEF_NAME_WITH_PREFIX} can't use'' @ NL_CODE @ ''any items anymore!'') ''{VAR} can't use any items anymore!''
       [''B_DEF_NAME_WITH_PREFIX''] [''pokemon_name''] ''sText_EmbargoStart'',
     battle_msg ''STRINGID_EMBARGOEND'' 464 (''{B_EFF_NAME_WITH_PREFIX} can use'' @ NL_CODE @ ''items again!'') ''{VAR} can use items again!''
       [''B_EFF_NAME_WITH_PREFIX''] [''pokemon_name''] ''sText_EmbargoEnd'',
     battle_msg ''STRINGID_FLINGITEM'' 465 (''{B_ATK_NAME_WITH_PREFIX} flung its'' @ NL_CODE @ ''{B_LAST_ITEM} at {B_DEF_NAME_WITH_PREFIX}!'') ''{VAR} flung its {VAR} at {VAR}!''
       [''B_ATK_NAME_WITH_PREFIX'', ''B_LAST_ITEM'', ''B_DEF_NAME_WITH_PREFIX''] [''pokemon_name'', ''item_name'', ''pokemon_name''] ''sText_FlingItem'',
     battle_msg ''STRINGID_HEALBLOCKSTART'' 466 (''{B_DEF_NAME_WITH_PREFIX} was prevented'' @ NL_CODE @ ''from healing!'') ''{VAR} was prevented from healing!''
       [''B_DEF_NAME_WITH_PREFIX''] [''pokemon_name''] ''sText_HealBlockStart'',
     battle_msg ''STRINGID_HEALBLOCKEND'' 467 (''{B_EFF_NAME_WITH_PREFIX}'s Heal Block'' @ NL_CODE @ ''wore off!'') ''{VAR}'s Heal Block wore off!''
       [''B_EFF_NAME_WITH_PREFIX''] [''pokemon_name''] ''sText_HealBlockEnd'',
     battle_msg ''STRINGID_HEALBLOCKCANT'' 468 (''{B_ATK_NAME_WITH_PREFIX} is prevented'' @ NL_CODE @ ''from healing!'') ''{VAR} is prevented from healing!''
       [''B_ATK_NAME_WITH_PREFIX''] [''pokemon_name''] ''sText_HealBlockCant'',
     battle_msg ''STRINGID_IMPRISONSTART'' 469 (''{B_ATK_NAME_WITH_PREFIX} sealed the'' @ NL_CODE @ ''opponent's move(s)!'') ''{VAR} sealed the opponent's move(s)!''
       [''B_ATK_NAME_WITH_PREFIX''] [''pokemon_name''] ''sText_ImprisonStart'',
     battle_msg ''STRINGID_IMPRISONCANT'' 470 (''{B_ATK_NAME_WITH_PREFIX} can't use'' @ NL_CODE @ ''{B_BUFF2}!'') ''{VAR} can't use {VAR}!''
       [''B_ATK_NAME_WITH_PREFIX'', ''B_BUFF2''] [''pokemon_name'', ''move_name''] ''sText_ImprisonCant'',
     battle_msg ''STRINGID_INFESTATIONSTART'' 471 (''{B_DEF_NAME_WITH_PREFIX} has been'' @ NL_CODE @ ''bound by {B_ATK_NAME_WITH_PREFIX}!'') ''{VAR} has been bound by {VAR}!''
       [''B_DEF_NAME_WITH_PREFIX'', ''B_ATK_NAME_WITH_PREFIX''] [''pokemon_name'', ''pokemon_name''] ''sText_InfestationStart'',
     battle_msg ''STRINGID_IONDELUGEACTIVATE'' 472 (''Normal-type moves'' @ NL_CODE @ ''became Electric-type!'') ''Normal-type moves became Electric-type!''
       [] [] ''sText_IonDelugeActivate'']"

definition BATTLE_MESSAGES_30 :: "battle_message list" where
  "BATTLE_MESSAGES_30 = [
     battle_msg ''STRINGID_LUCKYCHANTSTART'' 473 (''{B_ATK_NAME_WITH_PREFIX}'s Lucky Chant'' @ NL_CODE @ ''shielded its team!'') ''{VAR}'s Lucky Chant shielded its team!''
       [''B_ATK_NAME_WITH_PREFIX''] [''pokemon_name''] ''sText_LuckyChantStart'',
     battle_msg ''STRINGID_LUCKYCHANTEND'' 474 (''{B_EFF_NAME_WITH_PREFIX}'s team's'' @ NL_CODE @ ''Lucky Chant wore off!'') ''{VAR}'s team's Lucky Chant wore off!''
       [''B_EFF_NAME_WITH_PREFIX''] [''pokemon_name''] ''sText_LuckyChantEnd'',
     battle_msg ''STRINGID_MAGNETRISESTART'' 475 (''{B_EFF_NAME_WITH_PREFIX} levitated on'' @ NL_CODE @ ''electromagnetism!'') ''{VAR} levitated on electromagnetism!''
       [''B_EFF_NAME_WITH_PREFIX''] [''pokemon_name''] ''sText_MagnetRiseStart'',
     battle_msg ''STRINGID_MAGNETRISEEND'' 476 (''{B_EFF_NAME_WITH_PREFIX}'s electromagnetism'' @ NL_CODE @ ''wore off!'') ''{VAR}'s electromagnetism wore off!''
       [''B_EFF_NAME_WITH_PREFIX''] [''pokemon_name''] ''sText_MagnetRiseEnd'',
     battle_msg ''STRINGID_MATBLOCKSTART'' 477 (''{B_ATK_NAME_WITH_PREFIX} intends to flip'' @ NL_CODE @ ''up a mat to block the incoming attacks!'') ''{VAR} intends to flip up a mat to block the incoming attacks!''
       [''B_ATK_NAME_WITH_PREFIX''] [''pokemon_name''] ''sText_MatBlockStart'',
     battle_msg ''STRINGID_MATBLOCKBLOCKS'' 478 (''{B_ATK_NAME_WITH_PREFIX} flipped up a mat'' @ NL_CODE @ ''and blocked the attack!'') ''{VAR} flipped up a mat and blocked the attack!''
       [''B_ATK_NAME_WITH_PREFIX''] [''pokemon_name''] ''sText_MatBlockBlocks'',
     battle_msg ''STRINGID_MINDBLOWNDAMAGE'' 479 (''{B_ATK_NAME_WITH_PREFIX} lost HP due to'' @ NL_CODE @ ''Mind Blown!'') ''{VAR} lost HP due to Mind Blown!''
       [''B_ATK_NAME_WITH_PREFIX''] [''pokemon_name''] ''sText_MindBlownDamage'',
     battle_msg ''STRINGID_NORETREATSTART'' 480 (''{B_ATK_NAME_WITH_PREFIX}'s No Retreat!'' @ NL_CODE @ ''It won't be able to switch!'') ''{VAR}'s No Retreat! It won't be able to switch!''
       [''B_ATK_NAME_WITH_PREFIX''] [''pokemon_name''] ''sText_NoRetreatStart'',
     battle_msg ''STRINGID_OCTOLOCKSTART'' 481 (''{B_DEF_NAME_WITH_PREFIX}'s stats are'' @ NL_CODE @ ''being locked!'') ''{VAR}'s stats are being locked!''
       [''B_DEF_NAME_WITH_PREFIX''] [''pokemon_name''] ''sText_OctoLockStart'',
     battle_msg ''STRINGID_POWDERSTART'' 482 (''{B_DEF_NAME_WITH_PREFIX} was covered'' @ NL_CODE @ ''in powder!'') ''{VAR} was covered in powder!''
       [''B_DEF_NAME_WITH_PREFIX''] [''pokemon_name''] ''sText_PowderStart'',
     battle_msg ''STRINGID_POWDERACTIVATE'' 483 (''The powder exploded and'' @ NL_CODE @ ''hurt {B_ATK_NAME_WITH_PREFIX}!'') ''The powder exploded and hurt {VAR}!''
       [''B_ATK_NAME_WITH_PREFIX''] [''pokemon_name''] ''sText_PowderActivate'',
     battle_msg ''STRINGID_QUICKGUARDSTART'' 484 ''{B_ATK_NAME_WITH_PREFIX} braced itself!'' ''{VAR} braced itself!''
       [''B_ATK_NAME_WITH_PREFIX''] [''pokemon_name''] ''sText_QuickGuardStart'',
     battle_msg ''STRINGID_QUICKGUARDBLOCKS'' 485 (''{B_ATK_NAME_WITH_PREFIX} was protected'' @ NL_CODE @ ''by Quick Guard!'') ''{VAR} was protected by Quick Guard!''
       [''B_ATK_NAME_WITH_PREFIX''] [''pokemon_name''] ''sText_QuickGuardBlocks'',
     battle_msg ''STRINGID_SALTCURESTART'' 486 (''{B_DEF_NAME_WITH_PREFIX} is being'' @ NL_CODE @ ''cured with salt!'') ''{VAR} is being cured with salt!''
       [''B_DEF_NAME_WITH_PREFIX''] [''pokemon_name''] ''sText_SaltCureStart'',
     battle_msg ''STRINGID_SALTCUREDAMAGE'' 487 (''{B_EFF_NAME_WITH_PREFIX} is hurt'' @ NL_CODE @ ''by Salt Cure!'') ''{VAR} is hurt by Salt Cure!''
       [''B_EFF_NAME_WITH_PREFIX''] [''pokemon_name''] ''sText_SaltCureDamage'',
     battle_msg ''STRINGID_SHADOWFORCEPREPARE'' 488 (''{B_ATK_NAME_WITH_PREFIX} vanished'' @ NL_CODE @ ''instantly!'') ''{VAR} vanished instantly!''
       [''B_ATK_NAME_WITH_PREFIX''] [''pokemon_name''] ''sText_ShadowForcePrepare'']"

definition BATTLE_MESSAGES_31 :: "battle_message list" where
  "BATTLE_MESSAGES_31 = [
     battle_msg ''STRINGID_SHEDTAILSTART'' 489 (''{B_ATK_NAME_WITH_PREFIX} shed its'' @ NL_CODE @ ''body to make a substitute!'') ''{VAR} shed its body to make a substitute!''
       [''B_ATK_NAME_WITH_PREFIX''] [''pokemon_name''] ''sText_ShedTailStart'',
     battle_msg ''STRINGID_SKYDROPSTART'' 490 (''{B_ATK_NAME_WITH_PREFIX} took'' @ NL_CODE @ ''{B_DEF_NAME_WITH_PREFIX} into the sky!'') ''{VAR} took {VAR} into the sky!''
       [''B_ATK_NAME_WITH_PREFIX'', ''B_DEF_NAME_WITH_PREFIX''] [''pokemon_name'', ''pokemon_name''] ''sText_SkyDropStart'',
     battle_msg ''STRINGID_SKYDROPEND'' 491 (''{B_ATK_NAME_WITH_PREFIX} was freed'' @ NL_CODE @ ''from the sky drop!'') ''{VAR} was freed from the sky drop!''
       [''B_ATK_NAME_WITH_PREFIX''] [''pokemon_name''] ''sText_SkyDropEnd'',
     battle_msg ''STRINGID_SKYDROPFAIL'' 492 (''{B_ATK_NAME_WITH_PREFIX} is too heavy'' @ NL_CODE @ ''to be lifted!'') ''{VAR} is too heavy to be lifted!''
       [''B_ATK_NAME_WITH_PREFIX''] [''pokemon_name''] ''sText_SkyDropFail'',
     battle_msg ''STRINGID_SMACKDOWNSTART'' 493 (''{B_DEF_NAME_WITH_PREFIX} fell'' @ NL_CODE @ ''straight down!'') ''{VAR} fell straight down!''
       [''B_DEF_NAME_WITH_PREFIX''] [''pokemon_name''] ''sText_SmackDownStart'',
     battle_msg ''STRINGID_SNAPTRAPSTART'' 494 (''{B_DEF_NAME_WITH_PREFIX} got caught'' @ NL_CODE @ ''in a snap trap!'') ''{VAR} got caught in a snap trap!''
       [''B_DEF_NAME_WITH_PREFIX''] [''pokemon_name''] ''sText_SnapTrapStart'',
     battle_msg ''STRINGID_SPEEDSWAPACTIVATE'' 495 (''{B_ATK_NAME_WITH_PREFIX} switched Speed'' @ NL_CODE @ ''with {B_DEF_NAME_WITH_PREFIX}!'') ''{VAR} switched Speed with {VAR}!''
       [''B_ATK_NAME_WITH_PREFIX'', ''B_DEF_NAME_WITH_PREFIX''] [''pokemon_name'', ''pokemon_name''] ''sText_SpeedSwapActivate'',
     battle_msg ''STRINGID_STEALTHROCKSTART'' 496 (''Pointed stones float in the air'' @ NL_CODE @ ''around {B_EFF_NAME_WITH_PREFIX}!'') ''Pointed stones float in the air around {VAR}!''
       [''B_EFF_NAME_WITH_PREFIX''] [''pokemon_name''] ''sText_StealthRockStart'',
     battle_msg ''STRINGID_STEALTHROCKEND'' 497 (''The pointed stones around'' @ NL_CODE @ ''{B_EFF_NAME_WITH_PREFIX} disappeared!'') ''The pointed stones around {VAR} disappeared!''
       [''B_EFF_NAME_WITH_PREFIX''] [''pokemon_name''] ''sText_StealthRockEnd'',
     battle_msg ''STRINGID_STEALTHROCKDAMAGE'' 498 (''Pointed stones dug into'' @ NL_CODE @ ''{B_EFF_NAME_WITH_PREFIX}!'') ''Pointed stones dug into {VAR}!''
       [''B_EFF_NAME_WITH_PREFIX''] [''pokemon_name''] ''sText_StealthRockDamage'',
     battle_msg ''STRINGID_STICKYWEBSTART'' 499 (''{B_ATK_NAME_WITH_PREFIX} spread its'' @ NL_CODE @ ''sticky web on the opposing side!'') ''{VAR} spread its sticky web on the opposing side!''
       [''B_ATK_NAME_WITH_PREFIX''] [''pokemon_name''] ''sText_StickyWebStart'',
     battle_msg ''STRINGID_STICKYWEBEND'' 500 (''The {B_EFF_NAME_WITH_PREFIX}'s side's'' @ NL_CODE @ ''sticky web was swept away!'') ''The {VAR}'s side's sticky web was swept away!''
       [''B_EFF_NAME_WITH_PREFIX''] [''pokemon_name''] ''sText_StickyWebEnd'',
     battle_msg ''STRINGID_STICKYWEBACTIVATE'' 501 (''{B_EFF_NAME_WITH_PREFIX}'s Speed'' @ NL_CODE @ ''fell due to the sticky web!'') ''{VAR}'s Speed fell due to the sticky web!''
       [''B_EFF_NAME_WITH_PREFIX''] [''pokemon_name''] ''sText_StickyWebActivate'',
     battle_msg ''STRINGID_TAILWINDSTART'' 502 (''The tailwind blew from behind'' @ NL_CODE @ ''{B_ATK_NAME_WITH_PREFIX}'s team!'') ''{VAR}'s team's tailwind blew from behind!''
       [''B_ATK_NAME_WITH_PREFIX''] [''pokemon_name''] ''sText_TailwindStart'',
     battle_msg ''STRINGID_TAILWINDEND'' 503 (''{B_EFF_NAME_WITH_PREFIX}'s team's'' @ NL_CODE @ ''tailwind petered out!'') ''{VAR}'s team's tailwind petered out!''
       [''B_EFF_NAME_WITH_PREFIX''] [''pokemon_name''] ''sText_TailwindEnd'',
     battle_msg ''STRINGID_TARSHOTSTART'' 504 (''{B_DEF_NAME_WITH_PREFIX} got'' @ NL_CODE @ ''covered in tar!'') ''{VAR} got covered in tar!''
       [''B_DEF_NAME_WITH_PREFIX''] [''pokemon_name''] ''sText_TarShotStart'']"

definition BATTLE_MESSAGES_32 :: "battle_message list" where
  "BATTLE_MESSAGES_32 = [
     battle_msg ''STRINGID_TEATIMEACTIVATE'' 505 (''It's time for tea!'' @ NL_CODE @ ''All Pok'' @ [CHR 0xE9] @ ''mon eat their Berries!'') (''It's time for tea! All Pok'' @ [CHR 0xE9] @ ''mon eat their Berries!'')
       [] [] ''sText_TeaTimeActivate'',
     battle_msg ''STRINGID_TELEKINESISSTART'' 506 (''{B_DEF_NAME_WITH_PREFIX} was hurled'' @ NL_CODE @ ''into the air!'') ''{VAR} was hurled into the air!''
       [''B_DEF_NAME_WITH_PREFIX''] [''pokemon_name''] ''sText_TelekinesisStart'',
     battle_msg ''STRINGID_TELEKINESISEND'' 507 (''{B_EFF_NAME_WITH_PREFIX} was freed'' @ NL_CODE @ ''from the telekinesis!'') ''{VAR} was freed from the telekinesis!''
       [''B_EFF_NAME_WITH_PREFIX''] [''pokemon_name''] ''sText_TelekinesisEnd'',
     battle_msg ''STRINGID_THROATCHOPCANT'' 508 (''{B_ATK_NAME_WITH_PREFIX} can't use'' @ NL_CODE @ ''sound-based moves!'') ''{VAR} can't use sound-based moves!''
       [''B_ATK_NAME_WITH_PREFIX''] [''pokemon_name''] ''sText_ThroatChopCant'',
     battle_msg ''STRINGID_TORMENTEND'' 509 (''{B_EFF_NAME_WITH_PREFIX}'s torment'' @ NL_CODE @ ''wore off!'') ''{VAR}'s torment wore off!''
       [''B_EFF_NAME_WITH_PREFIX''] [''pokemon_name''] ''sText_TormentEnd'',
     battle_msg ''STRINGID_TOXICSPIKESSTART'' 510 (''Toxic spikes were scattered'' @ NL_CODE @ ''around {B_EFF_NAME_WITH_PREFIX}!'') ''Toxic spikes were scattered around {VAR}!''
       [''B_EFF_NAME_WITH_PREFIX''] [''pokemon_name''] ''sText_ToxicSpikesStart'',
     battle_msg ''STRINGID_TOXICSPIKESEND'' 511 (''The toxic spikes around'' @ NL_CODE @ ''{B_EFF_NAME_WITH_PREFIX}'s team'' @ NL_CODE @ ''disappeared!'') ''The toxic spikes around {VAR}'s team disappeared!''
       [''B_EFF_NAME_WITH_PREFIX''] [''pokemon_name''] ''sText_ToxicSpikesEnd'',
     battle_msg ''STRINGID_TRANSFORMSPECIES'' 512 (''{B_ATK_NAME_WITH_PREFIX} transformed'' @ NL_CODE @ ''into {B_DEF_NAME_WITH_PREFIX}!'') ''{VAR} transformed into {VAR}!''
       [''B_ATK_NAME_WITH_PREFIX'', ''B_DEF_NAME_WITH_PREFIX''] [''pokemon_name'', ''pokemon_name''] ''sText_TransformSpecies'',
     battle_msg ''STRINGID_YAWNSTART'' 513 ''{B_DEF_NAME_WITH_PREFIX} grew drowsy!'' ''{VAR} grew drowsy!''
       [''B_DEF_NAME_WITH_PREFIX''] [''pokemon_name''] ''sText_YawnStart'',
     battle_msg ''STRINGID_CRAFTYSHIELDSTART'' 514 (''A crafty shield has protected'' @ NL_CODE @ ''{B_ATK_NAME_WITH_PREFIX}!'') ''A crafty shield has protected {VAR}!''
       [''B_ATK_NAME_WITH_PREFIX''] [''pokemon_name''] ''sText_CraftyShieldStart'',
     battle_msg ''STRINGID_CRAFTYSHIELDBLOCKS'' 515 (''{B_ATK_NAME_WITH_PREFIX}'s Crafty Shield'' @ NL_CODE @ ''blocked the status move!'') ''{VAR}'s Crafty Shield blocked the status move!''
       [''B_ATK_NAME_WITH_PREFIX''] [''pokemon_name''] ''sText_CraftyShieldBlocks'',
     battle_msg ''STRINGID_ABILITYSHIELDBLOCKS'' 516 (''{B_EFF_NAME_WITH_PREFIX}'s Ability Shield'' @ NL_CODE @ ''protected its Ability!'') ''{VAR}'s Ability Shield protected its Ability!''
       [''B_EFF_NAME_WITH_PREFIX''] [''pokemon_name''] ''sText_AbilityShieldBlocks'',
     battle_msg ''STRINGID_AIRBALLOONSTART'' 517 (''{B_EFF_NAME_WITH_PREFIX}'s Air Balloon'' @ NL_CODE @ ''keeps it from being hit by Ground-type moves!'') ''{VAR}'s Air Balloon keeps it from being hit by Ground-type moves!''
       [''B_EFF_NAME_WITH_PREFIX''] [''pokemon_name''] ''sText_AirBalloonStart'',
     battle_msg ''STRINGID_AIRBALLOONEND'' 518 (''{B_EFF_NAME_WITH_PREFIX}'s Air Balloon'' @ NL_CODE @ ''popped!'') ''{VAR}'s Air Balloon popped!''
       [''B_EFF_NAME_WITH_PREFIX''] [''pokemon_name''] ''sText_AirBalloonEnd'',
     battle_msg ''STRINGID_BLACKSLUDGEHEAL'' 519 (''{B_EFF_NAME_WITH_PREFIX}'s Black Sludge'' @ NL_CODE @ ''restored its HP a little!'') ''{VAR}'s Black Sludge restored its HP a little!''
       [''B_EFF_NAME_WITH_PREFIX''] [''pokemon_name''] ''sText_BlackSludgeHeal'',
     battle_msg ''STRINGID_CLEARAMULETBLOCKS'' 520 (''{B_EFF_NAME_WITH_PREFIX}'s Clear Amulet'' @ NL_CODE @ ''blocked the stat loss!'') ''{VAR}'s Clear Amulet blocked the stat loss!''
       [''B_EFF_NAME_WITH_PREFIX''] [''pokemon_name''] ''sText_ClearAmuletBlocks'']"

definition BATTLE_MESSAGES_33 :: "battle_message list" where
  "BATTLE_MESSAGES_33 = [
     battle_msg ''STRINGID_CUSTAPBERRYACTIVATE'' 521 (''{B_EFF_NAME_WITH_PREFIX}'s Custap Berry'' @ NL_CODE @ ''made it move first!'') ''{VAR}'s Custap Berry made it move first!''
       [''B_EFF_NAME_WITH_PREFIX''] [''pokemon_name''] ''sText_CustapBerryActivate'',
     battle_msg ''STRINGID_EJECTBUTTONEND'' 522 (''{B_EFF_NAME_WITH_PREFIX} was blown away'' @ NL_CODE @ ''by the Eject Button!'') ''{VAR} was blown away by the Eject Button!''
       [''B_EFF_NAME_WITH_PREFIX''] [''pokemon_name''] ''sText_EjectButtonEnd'',
     battle_msg ''STRINGID_EJECTPACKEND'' 523 (''{B_EFF_NAME_WITH_PREFIX} was blown away'' @ NL_CODE @ ''by the Eject Pack!'') ''{VAR} was blown away by the Eject Pack!''
       [''B_EFF_NAME_WITH_PREFIX''] [''pokemon_name''] ''sText_EjectPackEnd'',
     battle_msg ''STRINGID_FOCUSBANDACTIVATE'' 524 (''{B_EFF_NAME_WITH_PREFIX}'s Focus Band'' @ NL_CODE @ ''kept it going!'') ''{VAR}'s Focus Band kept it going!''
       [''B_EFF_NAME_WITH_PREFIX''] [''pokemon_name''] ''sText_FocusBandActivate'',
     battle_msg ''STRINGID_FOCUSSASHEND'' 525 (''{B_EFF_NAME_WITH_PREFIX}'s Focus Sash'' @ NL_CODE @ ''kept it from fainting!'') ''{VAR}'s Focus Sash kept it from fainting!''
       [''B_EFF_NAME_WITH_PREFIX''] [''pokemon_name''] ''sText_FocusSashEnd'',
     battle_msg ''STRINGID_LEFTOVERSHEAL'' 526 (''{B_EFF_NAME_WITH_PREFIX}'s Leftovers'' @ NL_CODE @ ''restored its HP a little!'') ''{VAR}'s Leftovers restored its HP a little!''
       [''B_EFF_NAME_WITH_PREFIX''] [''pokemon_name''] ''sText_LeftoversHeal'',
     battle_msg ''STRINGID_LEPPABERRYHEAL'' 527 (''{B_EFF_NAME_WITH_PREFIX}'s Leppa Berry'' @ NL_CODE @ ''restored {B_BUFF1}'s PP!'') ''{VAR}'s Leppa Berry restored {VAR}'s PP!''
       [''B_EFF_NAME_WITH_PREFIX'', ''B_BUFF1''] [''pokemon_name'', ''move_name''] ''sText_LeppaBerryHeal'',
     battle_msg ''STRINGID_LIFEORBDAMAGE'' 528 (''{B_ATK_NAME_WITH_PREFIX} is hurt'' @ NL_CODE @ ''by its Life Orb!'') ''{VAR} is hurt by its Life Orb!''
       [''B_ATK_NAME_WITH_PREFIX''] [''pokemon_name''] ''sText_LifeOrbDamage'',
     battle_msg ''STRINGID_MIRRORHERBACTIVATE'' 529 (''{B_EFF_NAME_WITH_PREFIX}'s Mirror Herb'' @ NL_CODE @ ''copied the stat changes!'') ''{VAR}'s Mirror Herb copied the stat changes!''
       [''B_EFF_NAME_WITH_PREFIX''] [''pokemon_name''] ''sText_MirrorHerbActivate'',
     battle_msg ''STRINGID_POWERHERBEND'' 530 (''{B_ATK_NAME_WITH_PREFIX}'s Power Herb'' @ NL_CODE @ ''restored its energy!'') ''{VAR}'s Power Herb restored its energy!''
       [''B_ATK_NAME_WITH_PREFIX''] [''pokemon_name''] ''sText_PowerHerbEnd'',
     battle_msg ''STRINGID_PROTECTIVEPADSBLOCKS'' 531 (''{B_ATK_NAME_WITH_PREFIX}'s Protective Pads'' @ NL_CODE @ ''protected {B_ATK_NAME_WITH_PREFIX}!'') ''{VAR}'s Protective Pads protected {VAR}!''
       [''B_ATK_NAME_WITH_PREFIX'', ''B_ATK_NAME_WITH_PREFIX''] [''pokemon_name'', ''pokemon_name''] ''sText_ProtectivePadsBlocks'',
     battle_msg ''STRINGID_QUICKCLAWACTIVATE'' 532 (''{B_ATK_NAME_WITH_PREFIX}'s Quick Claw'' @ NL_CODE @ ''let it move first!'') ''{VAR}'s Quick Claw let it move first!''
       [''B_ATK_NAME_WITH_PREFIX''] [''pokemon_name''] ''sText_QuickClawActivate'',
     battle_msg ''STRINGID_REDCARDEND'' 533 (''{B_DEF_NAME_WITH_PREFIX}'s Red Card'' @ NL_CODE @ ''forced {B_ATK_NAME_WITH_PREFIX} to switch out!'') ''{VAR}'s Red Card forced {VAR} to switch out!''
       [''B_DEF_NAME_WITH_PREFIX'', ''B_ATK_NAME_WITH_PREFIX''] [''pokemon_name'', ''pokemon_name''] ''sText_RedCardEnd'',
     battle_msg ''STRINGID_ROCKYHELMETDAMAGE'' 534 (''{B_ATK_NAME_WITH_PREFIX} was hurt'' @ NL_CODE @ ''by {B_DEF_NAME_WITH_PREFIX}'s Rocky Helmet!'') ''{VAR} was hurt by {VAR}'s Rocky Helmet!''
       [''B_ATK_NAME_WITH_PREFIX'', ''B_DEF_NAME_WITH_PREFIX''] [''pokemon_name'', ''pokemon_name''] ''sText_RockyHelmetDamage'',
     battle_msg ''STRINGID_SAFETYGOGGLESBLOCKS'' 535 (''{B_EFF_NAME_WITH_PREFIX}'s Safety Goggles'' @ NL_CODE @ ''protected it!'') ''{VAR}'s Safety Goggles protected it!''
       [''B_EFF_NAME_WITH_PREFIX''] [''pokemon_name''] ''sText_SafetyGogglesBlocks'',
     battle_msg ''STRINGID_SHELLBELLHEAL'' 536 (''{B_ATK_NAME_WITH_PREFIX}'s Shell Bell'' @ NL_CODE @ ''restored its HP a little!'') ''{VAR}'s Shell Bell restored its HP a little!''
       [''B_ATK_NAME_WITH_PREFIX''] [''pokemon_name''] ''sText_ShellBellHeal'']"

definition BATTLE_MESSAGES_34 :: "battle_message list" where
  "BATTLE_MESSAGES_34 = [
     battle_msg ''STRINGID_WHITEHERBEND'' 537 (''{B_EFF_NAME_WITH_PREFIX}'s White Herb'' @ NL_CODE @ ''restored its status!'') ''{VAR}'s White Herb restored its status!''
       [''B_EFF_NAME_WITH_PREFIX''] [''pokemon_name''] ''sText_WhiteHerbEnd'',
     battle_msg ''STRINGID_DOWHATWITHMON'' 9000 ''Do what with this {PKMN}?'' ''Do what with this ?''
       [] [] ''sText_DoWhatWithMon'',
     battle_msg ''STRINGID_PKMNENDUREDHITUSING'' 9001 (''{B_DEF_NAME_WITH_PREFIX} Endured the hit'' @ NL_CODE @ ''using {B_DEF_ABILITY}!'') ''{VAR} Endured the hit using {VAR}!''
       [''B_DEF_NAME_WITH_PREFIX'', ''B_DEF_ABILITY''] [''pokemon_name'', ''ability_name''] ''sText_PkmnEnduredHitUsing'',
     battle_msg ''STRINGID_PKMNBECAMENIMBLE'' 9002 (''{B_ATK_NAME_WITH_PREFIX} became'' @ NL_CODE @ ''nimble!'') ''{VAR} became nimble!''
       [''B_ATK_NAME_WITH_PREFIX''] [''pokemon_name''] ''sText_PkmnBecameNimble'']"

definition BATTLE_MESSAGES :: "battle_message list" where
  "BATTLE_MESSAGES = concat [BATTLE_MESSAGES_1, BATTLE_MESSAGES_2, BATTLE_MESSAGES_3, BATTLE_MESSAGES_4, BATTLE_MESSAGES_5,
     BATTLE_MESSAGES_6, BATTLE_MESSAGES_7, BATTLE_MESSAGES_8, BATTLE_MESSAGES_9, BATTLE_MESSAGES_10,
     BATTLE_MESSAGES_11, BATTLE_MESSAGES_12, BATTLE_MESSAGES_13, BATTLE_MESSAGES_14, BATTLE_MESSAGES_15,
     BATTLE_MESSAGES_16, BATTLE_MESSAGES_17, BATTLE_MESSAGES_18, BATTLE_MESSAGES_19, BATTLE_MESSAGES_20,
     BATTLE_MESSAGES_21, BATTLE_MESSAGES_22, BATTLE_MESSAGES_23, BATTLE_MESSAGES_24, BATTLE_MESSAGES_25,
     BATTLE_MESSAGES_26, BATTLE_MESSAGES_27, BATTLE_MESSAGES_28, BATTLE_MESSAGES_29, BATTLE_MESSAGES_30,
     BATTLE_MESSAGES_31, BATTLE_MESSAGES_32, BATTLE_MESSAGES_33, BATTLE_MESSAGES_34]"

section \<open>What the entries agree on\<close>

text \<open>
  The documented normal form of a raw string: an escape becomes a space, a placeholder of the game becomes \<open>{VAR}\<close>, any
  other control code is dropped, and blanks at the ends are stripped.
\<close>

definition is_placeholder :: "string \<Rightarrow> bool" where
  "is_placeholder s \<longleftrightarrow> starts_with s ''B_'' \<or> starts_with s ''STR_VAR''"

fun normal_form :: "string \<Rightarrow> string" where
  "normal_form [] = []"
| "normal_form (c # cs) =
     (if c = CHR 0x5C then CHR '' '' # normal_form (drop 1 cs)
      else if c = CHR ''{'' then
        (let name = takeWhile (\<lambda>x. x \<noteq> CHR ''}'') cs; rest = drop (Suc (length name)) cs in
         (if is_placeholder name then ''{VAR}'' else []) @ normal_form rest)
      else c # normal_form cs)"

fun placeholders_in :: "string \<Rightarrow> string list" where
  "placeholders_in [] = []"
| "placeholders_in (c # cs) =
     (if c = CHR ''{'' then
        (let name = takeWhile (\<lambda>x. x \<noteq> CHR ''}'') cs; rest = drop (Suc (length name)) cs in
         (if is_placeholder name then [name] else []) @ placeholders_in rest)
      else placeholders_in cs)"

definition slot_count :: "battle_message \<Rightarrow> nat" where
  "slot_count m = length (filter (\<lambda>p. p = None) (split_vars [] (bm_normalized m)))"

text \<open>The entries whose normal form or placeholders were adapted by hand to what the game shows.\<close>

definition ADAPTED :: "string list" where
  "ADAPTED = [''sText_UsingItemTheStatOfPkmnRose'', ''sText_UnnerveStart'', ''sText_TailwindStart'']"

definition message_ok :: "battle_message \<Rightarrow> bool" where
  "message_ok m \<longleftrightarrow> slot_count m = length (bm_placeholders m) \<and> slot_count m = length (bm_slot_categories m)
     \<and> list_all (\<lambda>c. cat_from_str c \<noteq> VC_TEXT \<or> c = ''text'') (bm_slot_categories m)
     \<and> (bm_constant_name m \<in> set ADAPTED
        \<or> strip (normal_form (bm_raw m)) = bm_normalized m \<and> placeholders_in (bm_raw m) = bm_placeholders m)"

lemma battle_messages_1_ok: "list_all message_ok BATTLE_MESSAGES_1"
  by code_simp

lemma battle_messages_2_ok: "list_all message_ok BATTLE_MESSAGES_2"
  by code_simp

lemma battle_messages_3_ok: "list_all message_ok BATTLE_MESSAGES_3"
  by code_simp

lemma battle_messages_4_ok: "list_all message_ok BATTLE_MESSAGES_4"
  by code_simp

lemma battle_messages_5_ok: "list_all message_ok BATTLE_MESSAGES_5"
  by code_simp

lemma battle_messages_6_ok: "list_all message_ok BATTLE_MESSAGES_6"
  by code_simp

lemma battle_messages_7_ok: "list_all message_ok BATTLE_MESSAGES_7"
  by code_simp

lemma battle_messages_8_ok: "list_all message_ok BATTLE_MESSAGES_8"
  by code_simp

lemma battle_messages_9_ok: "list_all message_ok BATTLE_MESSAGES_9"
  by code_simp

lemma battle_messages_10_ok: "list_all message_ok BATTLE_MESSAGES_10"
  by code_simp

lemma battle_messages_11_ok: "list_all message_ok BATTLE_MESSAGES_11"
  by code_simp

lemma battle_messages_12_ok: "list_all message_ok BATTLE_MESSAGES_12"
  by code_simp

lemma battle_messages_13_ok: "list_all message_ok BATTLE_MESSAGES_13"
  by code_simp

lemma battle_messages_14_ok: "list_all message_ok BATTLE_MESSAGES_14"
  by code_simp

lemma battle_messages_15_ok: "list_all message_ok BATTLE_MESSAGES_15"
  by code_simp

lemma battle_messages_16_ok: "list_all message_ok BATTLE_MESSAGES_16"
  by code_simp

lemma battle_messages_17_ok: "list_all message_ok BATTLE_MESSAGES_17"
  by code_simp

lemma battle_messages_18_ok: "list_all message_ok BATTLE_MESSAGES_18"
  by code_simp

lemma battle_messages_19_ok: "list_all message_ok BATTLE_MESSAGES_19"
  by code_simp

lemma battle_messages_20_ok: "list_all message_ok BATTLE_MESSAGES_20"
  by code_simp

lemma battle_messages_21_ok: "list_all message_ok BATTLE_MESSAGES_21"
  by code_simp

lemma battle_messages_22_ok: "list_all message_ok BATTLE_MESSAGES_22"
  by code_simp

lemma battle_messages_23_ok: "list_all message_ok BATTLE_MESSAGES_23"
  by code_simp

lemma battle_messages_24_ok: "list_all message_ok BATTLE_MESSAGES_24"
  by code_simp

lemma battle_messages_25_ok: "list_all message_ok BATTLE_MESSAGES_25"
  by code_simp

lemma battle_messages_26_ok: "list_all message_ok BATTLE_MESSAGES_26"
  by code_simp

lemma battle_messages_27_ok: "list_all message_ok BATTLE_MESSAGES_27"
  by code_simp

lemma battle_messages_28_ok: "list_all message_ok BATTLE_MESSAGES_28"
  by code_simp

lemma battle_messages_29_ok: "list_all message_ok BATTLE_MESSAGES_29"
  by code_simp

lemma battle_messages_30_ok: "list_all message_ok BATTLE_MESSAGES_30"
  by code_simp

lemma battle_messages_31_ok: "list_all message_ok BATTLE_MESSAGES_31"
  by code_simp

lemma battle_messages_32_ok: "list_all message_ok BATTLE_MESSAGES_32"
  by code_simp

lemma battle_messages_33_ok: "list_all message_ok BATTLE_MESSAGES_33"
  by code_simp

lemma battle_messages_34_ok: "list_all message_ok BATTLE_MESSAGES_34"
  by code_simp

lemmas message_chunks_ok = battle_messages_1_ok
  battle_messages_2_ok
  battle_messages_3_ok
  battle_messages_4_ok
  battle_messages_5_ok
  battle_messages_6_ok
  battle_messages_7_ok
  battle_messages_8_ok
  battle_messages_9_ok
  battle_messages_10_ok
  battle_messages_11_ok
  battle_messages_12_ok
  battle_messages_13_ok
  battle_messages_14_ok
  battle_messages_15_ok
  battle_messages_16_ok
  battle_messages_17_ok
  battle_messages_18_ok
  battle_messages_19_ok
  battle_messages_20_ok
  battle_messages_21_ok
  battle_messages_22_ok
  battle_messages_23_ok
  battle_messages_24_ok
  battle_messages_25_ok
  battle_messages_26_ok
  battle_messages_27_ok
  battle_messages_28_ok
  battle_messages_29_ok
  battle_messages_30_ok
  battle_messages_31_ok
  battle_messages_32_ok
  battle_messages_33_ok
  battle_messages_34_ok

section \<open>The templates of the table\<close>

lemma literals_no_vars [simp]: "filter tk_is_var (literal_word_tokens s) = []"
  by (auto simp: literal_word_tokens_def literal_token_def filter_empty_conv)

lemma parse_parts_vars:
  "map (\<lambda>t. (tk_category t, tk_placeholder t)) (filter tk_is_var (parse_parts cats phs k ps))
     = map (\<lambda>i. (nth_or VC_TEXT cats i, nth_or [] phs i)) [k..<k + length (filter (\<lambda>p. p = None) ps)]"
  by (induction cats phs k ps rule: parse_parts.induct) (simp_all add: var_token_def upt_conv_Cons del: upt_Suc)

lemma template_slots:
  assumes "message_ok m"
  shows "map (\<lambda>t. (tk_category t, tk_placeholder t)) (filter tk_is_var (parse_template m))
     = zip (map cat_from_str (bm_slot_categories m)) (bm_placeholders m)"
proof -
  have n: "slot_count m = length (bm_placeholders m)" "slot_count m = length (bm_slot_categories m)"
    using assms by (simp_all add: message_ok_def)
  show ?thesis
    unfolding parse_template_def parse_parts_vars by (rule nth_equalityI) (use n in \<open>simp_all add: nth_or_def flip: slot_count_def\<close>)
qed

text \<open>
  The message table fits the matcher. In each of the 530 entries the normalized text has exactly as many slots as it
  has placeholders and categories, every category is a known one, and, but for the three entries adapted by hand, the
  normalized text and the placeholders are those of the raw string of the game; so the variables of the template that
  the matcher parses from an entry are, in order, the declared categories and placeholders.
\<close>

theorem message_table_sound:
  "list_all (\<lambda>m. message_ok m \<and> map (\<lambda>t. (tk_category t, tk_placeholder t)) (filter tk_is_var (parse_template m))
     = zip (map cat_from_str (bm_slot_categories m)) (bm_placeholders m)) BATTLE_MESSAGES"
proof -
  have "list_all message_ok BATTLE_MESSAGES"
    unfolding BATTLE_MESSAGES_def by (simp only: concat.simps list_all_append message_chunks_ok list.pred_inject simp_thms)
  then show ?thesis by (rule list.pred_mono_strong) (simp add: template_slots)
qed

end
