(* ===== verification/LogEvents.thy ===== *)
theory LogEvents
  imports BattleState
begin

text \<open>
  The capturing logger (\<open>logger.py\<close>): the rebuilding of the engine's native event log into a
  list of events with keyword arguments, and the queries over it. A keyword dictionary is a record of
  options, one field per key the handlers build; a missing key is \<open>None\<close>, which is what
  \<open>kw.get\<close> returns for it. A filter of \<open>all_of\<close> is a predicate on that record. The events the
  rebuilding knows are constructors; every other member of the enum is \<open>LE_OTHER\<close> with its number.
\<close>

section \<open>Events\<close>

datatype log_event =
    LE_CHARGE_TURN | LE_SEMI_INVULNERABLE_ENTER | LE_SEMI_INVULNERABLE_EXIT | LE_BATON_PASS_TRANSFER
  | LE_STAT_COPY | LE_MOVE_USE | LE_CRIT | LE_CANT_FLINCH | LE_CANT_PARALYSIS | LE_CANT_SLEEP
  | LE_CANT_FROZEN | LE_CANT_INFATUATION | LE_HIT_SELF_CONFUSION | LE_MOVE_MISS | LE_STATUS_APPLY
  | LE_STAT_BOOST | LE_VOLATILE_APPLY | LE_HITCOUNT | LE_DAMAGE | LE_HEAL | LE_FAINT | LE_EXP_GAIN
  | LE_LEVEL_UP | LE_OTHER int

text \<open>The numbers of the enum.\<close>

definition LogEvent_codes :: "(int \<times> log_event) list" where
  "LogEvent_codes = [
     (5, LE_CANT_SLEEP), (8, LE_CANT_FROZEN), (10, LE_CANT_PARALYSIS), (11, LE_CANT_FLINCH),
     (13, LE_HIT_SELF_CONFUSION), (14, LE_CANT_INFATUATION), (27, LE_MOVE_USE), (33, LE_MOVE_MISS),
     (38, LE_CHARGE_TURN), (39, LE_SEMI_INVULNERABLE_ENTER), (40, LE_SEMI_INVULNERABLE_EXIT),
     (45, LE_DAMAGE), (46, LE_CRIT), (48, LE_HITCOUNT), (51, LE_HEAL), (53, LE_STAT_BOOST),
     (55, LE_STAT_COPY), (61, LE_STATUS_APPLY), (64, LE_VOLATILE_APPLY), (92, LE_BATON_PASS_TRANSFER),
     (123, LE_FAINT), (132, LE_EXP_GAIN), (133, LE_LEVEL_UP)]"

definition log_event_of_int :: "int \<Rightarrow> log_event res" where
  "log_event_of_int n =
     (if n < 1 \<or> 133 < n then Inl ValueError
      else case map_of LogEvent_codes n of Some e \<Rightarrow> Inr e | None \<Rightarrow> Inr (LE_OTHER n))"

record kwargs =
  kw_target :: "species option"
  kw_user :: "species option"
  kw_pokemon :: "species option"
  kw_source_species :: "species option"
  kw_move :: "move option"
  kw_side :: "int option"
  kw_amount :: "int option"
  kw_damage :: "int option"
  kw_hp_after :: "int option"
  kw_attacker_side :: "int option"
  kw_attacker_slot :: "int option"
  kw_defender_side :: "int option"
  kw_source :: "string option"
  kw_status :: "status option"
  kw_stat :: "int option"
  kw_stages :: "int option"
  kw_volatile :: "string option"
  kw_new_level :: "int option"

definition no_kwargs :: kwargs where
  "no_kwargs = \<lparr>kw_target = None, kw_user = None, kw_pokemon = None, kw_source_species = None,
     kw_move = None, kw_side = None, kw_amount = None, kw_damage = None, kw_hp_after = None,
     kw_attacker_side = None, kw_attacker_slot = None, kw_defender_side = None, kw_source = None,
     kw_status = None, kw_stat = None, kw_stages = None, kw_volatile = None, kw_new_level = None\<rparr>"

section \<open>The capturing logger\<close>

type_synonym capture = "(log_event \<times> kwargs) list"

definition cap_handle :: "capture \<Rightarrow> log_event \<Rightarrow> kwargs \<Rightarrow> capture" where
  "cap_handle cap ev kw = cap @ [(ev, kw)]"

definition of_event :: "capture \<Rightarrow> log_event \<Rightarrow> kwargs list" where
  "of_event cap ev = map snd (filter (\<lambda>x. fst x = ev) cap)"

definition all_of :: "capture \<Rightarrow> log_event \<Rightarrow> (kwargs \<Rightarrow> bool) \<Rightarrow> kwargs list" where
  "all_of cap ev flt = filter flt (of_event cap ev)"

definition first_of :: "capture \<Rightarrow> log_event \<Rightarrow> (kwargs \<Rightarrow> bool) \<Rightarrow> kwargs option" where
  "first_of cap ev flt = (case all_of cap ev flt of [] \<Rightarrow> None | kw # _ \<Rightarrow> Some kw)"

definition fired :: "capture \<Rightarrow> log_event \<Rightarrow> (kwargs \<Rightarrow> bool) \<Rightarrow> bool" where
  "fired cap ev flt \<longleftrightarrow> all_of cap ev flt \<noteq> []"

definition count_of :: "capture \<Rightarrow> log_event \<Rightarrow> (kwargs \<Rightarrow> bool) \<Rightarrow> nat" where
  "count_of cap ev flt = length (all_of cap ev flt)"

section \<open>Rebuilding the engine's log\<close>

text \<open>One entry of the native log, a plain structure of integers.\<close>

record rich_entry =
  en_event :: int
  en_species :: int
  en_move :: int
  en_side :: int
  en_amount :: int
  en_hp_after :: int
  en_attacker_side :: int
  en_attacker_slot :: int
  en_defender_side :: int
  en_source_tag :: int
  en_volatile_tag :: int
  en_status :: int
  en_stat :: int
  en_stages :: int
  en_aux0 :: int
  en_new_level :: int

definition RICH_UNSET :: int where
  "RICH_UNSET = -2147483648"

definition present :: "int \<Rightarrow> bool" where
  "present v \<longleftrightarrow> v \<noteq> RICH_UNSET"

definition present_opt :: "int \<Rightarrow> int option" where
  "present_opt v = (if present v then Some v else None)"

definition SOURCE_TAG_STRINGS :: "(int \<times> string) list" where
  "SOURCE_TAG_STRINGS = [(1, ''move''), (2, ''berry''), (3, ''cheek_pouch''), (4, ''ability''),
     (5, ''item''), (6, ''residual''), (7, ''recoil'')]"

definition VOLATILE_TAG_STRINGS :: "(int \<times> string) list" where
  "VOLATILE_TAG_STRINGS = [(1, ''confused''), (2, ''taunt''), (3, ''encore''), (4, ''leech_seeded'')]"

definition tag_str :: "(int \<times> string) list \<Rightarrow> int \<Rightarrow> string option res" where
  "tag_str table tag =
     (if tag = 0 then Inr None
      else case map_of table tag of None \<Rightarrow> Inl ValueError | Some s \<Rightarrow> Inr (Some s))"

definition source_tag_str :: "int \<Rightarrow> string option res" where
  "source_tag_str = tag_str SOURCE_TAG_STRINGS"

definition volatile_tag_str :: "int \<Rightarrow> string option res" where
  "volatile_tag_str = tag_str VOLATILE_TAG_STRINGS"

text \<open>\<open>Species(n)\<close>, \<open>Move(n)\<close> and \<open>Status(n)\<close>: the member with that value, else an error.\<close>

definition to_species :: "game_data \<Rightarrow> int \<Rightarrow> species res" where
  "to_species gd n = (if \<exists>x \<in> set (gd_species_names gd). fst (snd x) = n then Inr n else Inl ValueError)"

definition to_move :: "game_data \<Rightarrow> int \<Rightarrow> move res" where
  "to_move gd n = (if \<exists>x \<in> set (gd_move_names gd). fst (snd x) = n then Inr n else Inl ValueError)"

definition all_status :: "status list" where
  "all_status = [St_NONE, St_BURN, St_FREEZE, St_PARALYSIS, St_POISON, St_TOXIC, St_SLEEP]"

definition to_status :: "int \<Rightarrow> status res" where
  "to_status n = (case find (\<lambda>s. status_int s = n) all_status of None \<Rightarrow> Inl ValueError | Some s \<Rightarrow> Inr s)"

definition kw_charge_entry :: "game_data \<Rightarrow> rich_entry \<Rightarrow> kwargs res" where
  "kw_charge_entry gd en = rbind (to_species gd (en_species en)) (\<lambda>sp.
     rbind (to_move gd (en_aux0 en)) (\<lambda>mv.
     Inr (no_kwargs\<lparr>kw_user := Some sp, kw_move := Some mv\<rparr>)))"

definition kw_baton_pass_entry :: "game_data \<Rightarrow> rich_entry \<Rightarrow> kwargs res" where
  "kw_baton_pass_entry gd en = rbind (to_species gd (en_species en)) (\<lambda>sp.
     Inr (no_kwargs\<lparr>kw_side := Some (en_side en), kw_pokemon := Some sp\<rparr>))"

definition kw_stat_copy_entry :: "game_data \<Rightarrow> rich_entry \<Rightarrow> kwargs res" where
  "kw_stat_copy_entry gd en = rbind (to_species gd (en_species en)) (\<lambda>sp.
     rbind (to_species gd (en_aux0 en)) (\<lambda>src.
     Inr (no_kwargs\<lparr>kw_side := Some (en_side en), kw_target := Some sp, kw_source_species := Some src\<rparr>)))"

definition kw_move_use_entry :: "game_data \<Rightarrow> rich_entry \<Rightarrow> kwargs res" where
  "kw_move_use_entry gd en = rbind (to_species gd (en_species en)) (\<lambda>sp.
     rbind (to_move gd (en_move en)) (\<lambda>mv.
     Inr (no_kwargs\<lparr>kw_user := Some sp, kw_move := Some mv, kw_side := Some (en_side en)\<rparr>)))"

definition kw_crit_entry :: "game_data \<Rightarrow> rich_entry \<Rightarrow> kwargs res" where
  "kw_crit_entry gd en = rbind (to_species gd (en_species en)) (\<lambda>sp.
     Inr (no_kwargs\<lparr>kw_target := Some sp\<rparr>))"

definition kw_pokemon_entry :: "game_data \<Rightarrow> rich_entry \<Rightarrow> kwargs res" where
  "kw_pokemon_entry gd en = rbind (to_species gd (en_species en)) (\<lambda>sp.
     Inr (no_kwargs\<lparr>kw_pokemon := Some sp\<rparr>))"

definition kw_hit_self_confusion_entry :: "game_data \<Rightarrow> rich_entry \<Rightarrow> kwargs res" where
  "kw_hit_self_confusion_entry gd en = rbind (to_species gd (en_species en)) (\<lambda>sp.
     Inr (no_kwargs\<lparr>kw_pokemon := Some sp, kw_damage := Some (en_amount en), kw_side := Some (en_side en)\<rparr>))"

definition kw_move_miss_entry :: "game_data \<Rightarrow> rich_entry \<Rightarrow> kwargs res" where
  "kw_move_miss_entry gd en = rbind (to_species gd (en_species en)) (\<lambda>sp.
     Inr (no_kwargs\<lparr>kw_user := Some sp\<rparr>))"

definition kw_status_apply_entry :: "game_data \<Rightarrow> rich_entry \<Rightarrow> kwargs res" where
  "kw_status_apply_entry gd en = rbind (to_species gd (en_species en)) (\<lambda>sp.
     rbind (to_status (en_status en)) (\<lambda>st.
     rbind (source_tag_str (en_source_tag en)) (\<lambda>src.
     Inr (no_kwargs\<lparr>kw_target := Some sp, kw_status := Some st, kw_side := Some (en_side en), kw_source := src\<rparr>))))"

definition kw_stat_boost_entry :: "game_data \<Rightarrow> rich_entry \<Rightarrow> kwargs res" where
  "kw_stat_boost_entry gd en = rbind (to_species gd (en_species en)) (\<lambda>sp.
     rbind (source_tag_str (en_source_tag en)) (\<lambda>src.
     Inr (no_kwargs\<lparr>kw_target := Some sp, kw_stat := Some (en_stat en), kw_stages := Some (en_stages en),
          kw_side := Some (en_side en), kw_source := src\<rparr>)))"

definition kw_volatile_apply_entry :: "game_data \<Rightarrow> rich_entry \<Rightarrow> kwargs res" where
  "kw_volatile_apply_entry gd en = rbind (to_species gd (en_species en)) (\<lambda>sp.
     rbind (volatile_tag_str (en_volatile_tag en)) (\<lambda>vol.
     rbind (source_tag_str (en_source_tag en)) (\<lambda>src.
     Inr (no_kwargs\<lparr>kw_target := Some sp, kw_side := Some (en_side en), kw_volatile := vol, kw_source := src\<rparr>))))"

definition kw_hitcount_entry :: "game_data \<Rightarrow> rich_entry \<Rightarrow> kwargs res" where
  "kw_hitcount_entry gd en = rbind (to_species gd (en_species en)) (\<lambda>sp.
     Inr (no_kwargs\<lparr>kw_user := Some sp, kw_side := Some (en_side en)\<rparr>))"

definition kw_damage_entry :: "game_data \<Rightarrow> rich_entry \<Rightarrow> kwargs res" where
  "kw_damage_entry gd en = rbind (to_species gd (en_species en)) (\<lambda>sp.
     rbind (source_tag_str (en_source_tag en)) (\<lambda>src.
     Inr (no_kwargs\<lparr>kw_target := Some sp, kw_amount := Some (en_amount en), kw_source := src,
          kw_hp_after := present_opt (en_hp_after en),
          kw_attacker_side := present_opt (en_attacker_side en),
          kw_attacker_slot := present_opt (en_attacker_slot en),
          kw_defender_side := present_opt (en_defender_side en)\<rparr>)))"

definition kw_heal_entry :: "game_data \<Rightarrow> rich_entry \<Rightarrow> kwargs res" where
  "kw_heal_entry gd en = rbind (to_species gd (en_species en)) (\<lambda>sp.
     rbind (source_tag_str (en_source_tag en)) (\<lambda>src.
     Inr (no_kwargs\<lparr>kw_target := Some sp, kw_amount := Some (en_amount en), kw_side := Some (en_side en),
          kw_source := src, kw_hp_after := present_opt (en_hp_after en)\<rparr>)))"

definition kw_faint_entry :: "game_data \<Rightarrow> rich_entry \<Rightarrow> kwargs res" where
  "kw_faint_entry gd en = rbind (to_species gd (en_species en)) (\<lambda>sp.
     Inr (no_kwargs\<lparr>kw_pokemon := Some sp, kw_side := Some (en_side en)\<rparr>))"

definition kw_exp_gain_entry :: "game_data \<Rightarrow> rich_entry \<Rightarrow> kwargs res" where
  "kw_exp_gain_entry gd en = rbind (to_species gd (en_species en)) (\<lambda>sp.
     Inr (no_kwargs\<lparr>kw_pokemon := Some sp, kw_amount := Some (en_amount en)\<rparr>))"

definition kw_level_up_entry :: "game_data \<Rightarrow> rich_entry \<Rightarrow> kwargs res" where
  "kw_level_up_entry gd en = rbind (to_species gd (en_species en)) (\<lambda>sp.
     Inr (no_kwargs\<lparr>kw_pokemon := Some sp, kw_new_level := Some (en_new_level en)\<rparr>))"

fun rich_kwargs :: "game_data \<Rightarrow> log_event \<Rightarrow> rich_entry \<Rightarrow> kwargs res" where
  "rich_kwargs gd LE_CHARGE_TURN en = kw_charge_entry gd en"
| "rich_kwargs gd LE_SEMI_INVULNERABLE_ENTER en = kw_charge_entry gd en"
| "rich_kwargs gd LE_SEMI_INVULNERABLE_EXIT en = kw_charge_entry gd en"
| "rich_kwargs gd LE_BATON_PASS_TRANSFER en = kw_baton_pass_entry gd en"
| "rich_kwargs gd LE_STAT_COPY en = kw_stat_copy_entry gd en"
| "rich_kwargs gd LE_MOVE_USE en = kw_move_use_entry gd en"
| "rich_kwargs gd LE_CRIT en = kw_crit_entry gd en"
| "rich_kwargs gd LE_CANT_FLINCH en = kw_pokemon_entry gd en"
| "rich_kwargs gd LE_CANT_PARALYSIS en = kw_pokemon_entry gd en"
| "rich_kwargs gd LE_CANT_SLEEP en = kw_pokemon_entry gd en"
| "rich_kwargs gd LE_CANT_FROZEN en = kw_pokemon_entry gd en"
| "rich_kwargs gd LE_CANT_INFATUATION en = kw_pokemon_entry gd en"
| "rich_kwargs gd LE_HIT_SELF_CONFUSION en = kw_hit_self_confusion_entry gd en"
| "rich_kwargs gd LE_MOVE_MISS en = kw_move_miss_entry gd en"
| "rich_kwargs gd LE_STATUS_APPLY en = kw_status_apply_entry gd en"
| "rich_kwargs gd LE_STAT_BOOST en = kw_stat_boost_entry gd en"
| "rich_kwargs gd LE_VOLATILE_APPLY en = kw_volatile_apply_entry gd en"
| "rich_kwargs gd LE_HITCOUNT en = kw_hitcount_entry gd en"
| "rich_kwargs gd LE_DAMAGE en = kw_damage_entry gd en"
| "rich_kwargs gd LE_HEAL en = kw_heal_entry gd en"
| "rich_kwargs gd LE_FAINT en = kw_faint_entry gd en"
| "rich_kwargs gd LE_EXP_GAIN en = kw_exp_gain_entry gd en"
| "rich_kwargs gd LE_LEVEL_UP en = kw_level_up_entry gd en"
| "rich_kwargs gd (LE_OTHER n) en = Inl ValueError"

definition from_cpp :: "game_data \<Rightarrow> rich_entry list \<Rightarrow> capture res" where
  "from_cpp gd rich_log =
     rmap (\<lambda>en. rbind (log_event_of_int (en_event en)) (\<lambda>ev.
       rbind (rich_kwargs gd ev en) (\<lambda>kw. Inr (ev, kw)))) rich_log"

section \<open>Lemmas\<close>

lemma of_event_append [simp]: "of_event (xs @ ys) ev = of_event xs ev @ of_event ys ev"
  by (simp add: of_event_def)

lemma all_of_append [simp]: "all_of (xs @ ys) ev flt = all_of xs ev flt @ all_of ys ev flt"
  by (simp add: all_of_def)

lemma mem_all_of: "kw \<in> set (all_of cap ev flt) \<longleftrightarrow> (ev, kw) \<in> set cap \<and> flt kw"
  by (force simp: all_of_def of_event_def)

lemma fired_iff: "fired cap ev flt \<longleftrightarrow> (\<exists>kw. (ev, kw) \<in> set cap \<and> flt kw)"
  by (metis fired_def list.set_intros(1) list.set_cases mem_all_of neq_Nil_conv)

lemma count_of_handle:
  "count_of (cap_handle cap ev kw) ev' flt = count_of cap ev' flt + (if ev = ev' \<and> flt kw then 1 else 0)"
  by (simp add: count_of_def cap_handle_def all_of_def of_event_def)

text \<open>The damage entries that carry an amount: the only ones \<open>from_cpp\<close> makes.\<close>

definition amounts_present :: "capture \<Rightarrow> bool" where
  "amounts_present cap \<longleftrightarrow> (\<forall>kw. (LE_DAMAGE, kw) \<in> set cap \<longrightarrow> kw_amount kw \<noteq> None)"

lemma from_cpp_entry:
  assumes "from_cpp gd es = Inr cap" "(ev, kw) \<in> set cap"
  shows "\<exists>en \<in> set es. log_event_of_int (en_event en) = Inr ev \<and> rich_kwargs gd ev en = Inr kw"
  using assms unfolding from_cpp_def by (auto dest!: rmap_set simp: rbind_eq_Inr)

lemma kw_damage_entry_fields:
  assumes "kw_damage_entry gd en = Inr kw"
  shows "kw_amount kw = Some (en_amount en)" "kw_defender_side kw = present_opt (en_defender_side en)"
    "kw_attacker_side kw = present_opt (en_attacker_side en)"
    "kw_attacker_slot kw = present_opt (en_attacker_slot en)"
  using assms by (auto simp: kw_damage_entry_def rbind_eq_Inr)

text \<open>
  The rebuilt log is the engine's log. When the rebuilding succeeds it has one event per entry, in the
  same order and with the entry's number; every damage event has an amount, so the sums over it
  never fail; and a field the engine left unset is absent. It succeeds exactly when every entry
  has a known event and its handler accepts it.
\<close>

theorem from_cpp_faithful:
  "((\<exists>cap. from_cpp gd es = Inr cap) \<longleftrightarrow>
      (\<forall>en \<in> set es. \<exists>ev kw. log_event_of_int (en_event en) = Inr ev \<and> rich_kwargs gd ev en = Inr kw))
   \<and> (\<forall>cap. from_cpp gd es = Inr cap \<longrightarrow> length cap = length es
        \<and> (\<forall>i < length es. log_event_of_int (en_event (es ! i)) = Inr (fst (cap ! i)))
        \<and> amounts_present cap
        \<and> (\<forall>i < length es. fst (cap ! i) = LE_DAMAGE \<longrightarrow>
             kw_amount (snd (cap ! i)) = Some (en_amount (es ! i))
             \<and> (en_defender_side (es ! i) = RICH_UNSET \<longrightarrow> kw_defender_side (snd (cap ! i)) = None)))"
proof (intro conjI allI impI)
  show "(\<exists>cap. from_cpp gd es = Inr cap) \<longleftrightarrow>
      (\<forall>en \<in> set es. \<exists>ev kw. log_event_of_int (en_event en) = Inr ev \<and> rich_kwargs gd ev en = Inr kw)"
    unfolding from_cpp_def rmap_total by (auto simp: rbind_eq_Inr)
next
  fix cap assume run: "from_cpp gd es = Inr cap"
  then show "length cap = length es" by (simp add: from_cpp_def rmap_length)
  have at: "log_event_of_int (en_event (es ! i)) = Inr (fst (cap ! i)) \<and>
      rich_kwargs gd (fst (cap ! i)) (es ! i) = Inr (snd (cap ! i))" if "i < length es" for i
    using rmap_nth[OF run[unfolded from_cpp_def] that] by (auto simp: rbind_eq_Inr) (metis fst_conv snd_conv)+
  then show "log_event_of_int (en_event (es ! i)) = Inr (fst (cap ! i))" if "i < length es" for i
    using that by blast
  show "amounts_present cap"
    unfolding amounts_present_def
  proof (intro allI impI)
    fix kw assume "(LE_DAMAGE, kw) \<in> set cap"
    from from_cpp_entry[OF run this] show "kw_amount kw \<noteq> None"
      by (auto dest: kw_damage_entry_fields)
  qed
  fix i assume i: "i < length es" "fst (cap ! i) = LE_DAMAGE"
  with at[OF i(1)] have d: "kw_damage_entry gd (es ! i) = Inr (snd (cap ! i))" by simp
  then show "kw_amount (snd (cap ! i)) = Some (en_amount (es ! i))"
    by (rule kw_damage_entry_fields)
  assume "en_defender_side (es ! i) = RICH_UNSET"
  with d show "kw_defender_side (snd (cap ! i)) = None"
    by (auto dest: kw_damage_entry_fields(2) simp: present_opt_def present_def)
qed

definition sample_entry :: rich_entry where
  "sample_entry = \<lparr>en_event = 45, en_species = 292, en_move = RICH_UNSET, en_side = RICH_UNSET,
     en_amount = 17, en_hp_after = 3, en_attacker_side = 0, en_attacker_slot = 0,
     en_defender_side = 1, en_source_tag = 1, en_volatile_tag = 0, en_status = RICH_UNSET,
     en_stat = RICH_UNSET, en_stages = RICH_UNSET, en_aux0 = RICH_UNSET, en_new_level = RICH_UNSET\<rparr>"

theorem from_cpp_faithful_witness:
  "\<exists>cap. from_cpp sample_data [sample_entry] = Inr cap \<and> length cap = 1
     \<and> kw_amount (snd (cap ! 0)) = Some 17"
proof -
  have ev: "log_event_of_int (en_event sample_entry) = Inr LE_DAMAGE" by code_simp
  moreover have "\<exists>kw. kw_damage_entry sample_data sample_entry = Inr kw"
    by (simp add: kw_damage_entry_def to_species_def sample_data_def sample_entry_def source_tag_str_def
        tag_str_def SOURCE_TAG_STRINGS_def)
  ultimately obtain cap where run: "from_cpp sample_data [sample_entry] = Inr cap"
    using from_cpp_faithful[of sample_data "[sample_entry]"] by auto
  with from_cpp_faithful[of sample_data "[sample_entry]"] ev show ?thesis
    by (auto simp: sample_entry_def)
qed

end
