(* ===== verification/SweepDriver.thy ===== *)
theory SweepDriver
  imports Candidates LogEvents
begin

text \<open>
  The bridge to the C++ engine (\<open>cpp_driver.py\<close>) and the turn driver of the sweep
  (\<open>sweep_driver.py\<close>). The engine itself is a record \<open>engine\<close> of functions, an argument of every
  definition that calls it: a deterministic function of the payload that gives a state or an
  exception, together with the entries it wrote to the registered event log. The JSON text between
  the two sides carries the same data and is not modelled; a payload is a record.
\<close>

section \<open>Payloads\<close>

record damage_luck =
  dl_accuracy_threshold :: rat
  dl_crit_threshold :: rat
  dl_damage_roll :: rat
  dl_proc_threshold :: rat
  dl_secondary_threshold :: rat
  dl_multi_hit_roll :: rat
  dl_rampage_duration_roll :: rat
  dl_psywave_roll :: rat
  dl_flinch_threshold :: rat
  dl_binding_duration_roll :: rat
  dl_wake_threshold :: rat
  dl_defrost_threshold :: rat
  dl_paralysis_threshold :: rat
  dl_confusion_snap_threshold :: rat
  dl_confusion_self_hit_threshold :: rat
  dl_attract_threshold :: rat
  dl_damage_rolls_per_hit :: "rat list option"
  dl_crits_per_hit :: "rat list option"
  dl_random_mode :: bool

definition damage_luck_payload :: "luck_profile \<Rightarrow> damage_luck" where
  "damage_luck_payload p = \<lparr>
     dl_accuracy_threshold = accuracy_threshold p, dl_crit_threshold = crit_threshold p,
     dl_damage_roll = damage_roll p, dl_proc_threshold = proc_threshold p,
     dl_secondary_threshold = secondary_threshold p, dl_multi_hit_roll = multi_hit_roll p,
     dl_rampage_duration_roll = rampage_duration_roll p, dl_psywave_roll = psywave_roll p,
     dl_flinch_threshold = flinch_threshold p, dl_binding_duration_roll = binding_duration_roll p,
     dl_wake_threshold = wake_threshold p, dl_defrost_threshold = defrost_threshold p,
     dl_paralysis_threshold = paralysis_threshold p,
     dl_confusion_snap_threshold = confusion_snap_threshold p,
     dl_confusion_self_hit_threshold = confusion_self_hit_threshold p,
     dl_attract_threshold = attract_threshold p,
     dl_damage_rolls_per_hit = damage_rolls_per_hit p, dl_crits_per_hit = crits_per_hit p,
     dl_random_mode = random_mode p\<rparr>"

record turn_luck =
  tl_quick_claw_threshold :: rat
  tl_secondary_threshold :: rat
  tl_luck_tier :: int
  tl_random_mode :: bool

definition turn_luck_payload :: "luck_profile \<Rightarrow> turn_luck" where
  "turn_luck_payload p = \<lparr>tl_quick_claw_threshold = quick_claw_threshold p,
     tl_secondary_threshold = secondary_threshold p, tl_luck_tier = luck_tier p,
     tl_random_mode = random_mode p\<rparr>"

record action_wire =
  aw_kind :: int
  aw_move_slot :: int
  aw_move_override :: int
  aw_switch_to_slot :: int
  aw_target_side :: int
  aw_target_slot :: int
  aw_mega :: bool
  aw_source_slot :: int

definition action_payload :: "action \<Rightarrow> action_wire" where
  "action_payload a = \<lparr>aw_kind = (case ac_kind a of MOVE \<Rightarrow> 0 | SWITCH \<Rightarrow> 1), aw_move_slot = ac_move_slot a,
     aw_move_override = (case ac_move_override a of None \<Rightarrow> -1 | Some m \<Rightarrow> m),
     aw_switch_to_slot = ac_switch_to_slot a, aw_target_side = ac_target_side a,
     aw_target_slot = int (ac_target_slot a), aw_mega = ac_mega a, aw_source_slot = int (ac_source_slot a)\<rparr>"

datatype actions_wire = OneWire action_wire | ManyWire "action_wire list"

text \<open>
  \<open>_encode_actions\<close>: a missing action is not a sequence, and a missing entry of a sequence has no
  fields.
\<close>

definition encode_actions :: "side_action \<Rightarrow> actions_wire res" where
  "encode_actions acts = (case acts of
       NoAct \<Rightarrow> Inl TypeError
     | One a \<Rightarrow> Inr (OneWire (action_payload a))
     | Many as \<Rightarrow> rbind (rmap (\<lambda>x. case x of None \<Rightarrow> Inl AttributeError | Some a \<Rightarrow> Inr (action_payload a)) as)
                    (\<lambda>ws. Inr (ManyWire ws)))"

record turn_payload =
  tp_state :: battle_state
  tp_action_p0 :: actions_wire
  tp_action_p1 :: actions_wire
  tp_luck_p0 :: damage_luck
  tp_luck_p1 :: damage_luck
  tp_turn_luck_p0 :: turn_luck
  tp_turn_luck_p1 :: turn_luck
  tp_mega_p0 :: bool
  tp_mega_p1 :: bool
  tp_finalize_on_post_faint :: bool
  tp_speed_tie_order :: "(sid \<times> nat) list option"
  tp_luck_p0_slot1 :: "damage_luck option"
  tp_luck_p1_slot1 :: "damage_luck option"
  tp_pre_inject :: "(string \<times> int) list option"

record engine =
  eg_run_one_turn :: "turn_payload \<Rightarrow> battle_state res \<times> rich_entry list"
  eg_apply_switch :: "battle_state \<Rightarrow> sid \<Rightarrow> int \<Rightarrow> nat \<Rightarrow> battle_state res \<times> rich_entry list"
  eg_action_probabilities :: "battle_state \<Rightarrow> sid \<Rightarrow> ((action_wire \<times> rat) list) res"
  eg_post_ko_switch :: "battle_state \<Rightarrow> sid \<Rightarrow> nat option res"

section \<open>Computations that write the event log\<close>

type_synonym 'a run = "'a res \<times> rich_entry list"

definition run_return :: "'a \<Rightarrow> 'a run" where
  "run_return x = (Inr x, [])"

definition run_raise :: "exn \<Rightarrow> 'a run" where
  "run_raise e = (Inl e, [])"

definition run_lift :: "'a res \<Rightarrow> 'a run" where
  "run_lift r = (r, [])"

definition run_bind :: "'a run \<Rightarrow> ('a \<Rightarrow> 'b run) \<Rightarrow> 'b run" where
  "run_bind m f = (case fst m of
       Inl e \<Rightarrow> (Inl e, snd m)
     | Inr x \<Rightarrow> (fst (f x), snd m @ snd (f x)))"

fun run_fold :: "('s \<Rightarrow> 'a \<Rightarrow> 's run) \<Rightarrow> 's \<Rightarrow> 'a list \<Rightarrow> 's run" where
  "run_fold f s [] = run_return s"
| "run_fold f s (x # xs) = run_bind (f s x) (\<lambda>s'. run_fold f s' xs)"

section \<open>One turn through the engine\<close>

definition run_one_turn_cpp :: "engine \<Rightarrow> battle_state \<Rightarrow> side_action \<Rightarrow> side_action
    \<Rightarrow> luck_profile \<Rightarrow> luck_profile \<Rightarrow> luck_profile option \<Rightarrow> luck_profile option
    \<Rightarrow> bool \<Rightarrow> (sid \<times> nat) list option \<Rightarrow> (string \<times> int) list option \<Rightarrow> battle_state run" where
  "run_one_turn_cpp eg st a0 a1 l0 l1 l0s1 l1s1 finalize tie_order inject =
     run_bind (run_lift (encode_actions a0)) (\<lambda>w0.
     run_bind (run_lift (encode_actions a1)) (\<lambda>w1.
       (case eg_run_one_turn eg \<lparr>tp_state = st, tp_action_p0 = w0, tp_action_p1 = w1,
           tp_luck_p0 = damage_luck_payload l0, tp_luck_p1 = damage_luck_payload l1,
           tp_turn_luck_p0 = turn_luck_payload l0, tp_turn_luck_p1 = turn_luck_payload l1,
           tp_mega_p0 = False, tp_mega_p1 = False, tp_finalize_on_post_faint = finalize,
           tp_speed_tie_order = tie_order,
           tp_luck_p0_slot1 = map_option damage_luck_payload l0s1,
           tp_luck_p1_slot1 = map_option damage_luck_payload l1s1, tp_pre_inject = inject\<rparr> of
          (Inl (EngineRuntimeError msg), evs) \<Rightarrow>
             (Inl (if starts_with msg ''unported:'' then UnportedTurn else EngineRuntimeError msg), evs)
        | out \<Rightarrow> out)))"

definition apply_switch_cpp :: "engine \<Rightarrow> battle_state \<Rightarrow> sid \<Rightarrow> int \<Rightarrow> nat \<Rightarrow> battle_state run" where
  "apply_switch_cpp eg st side_idx new_slot source_slot = eg_apply_switch eg st side_idx new_slot source_slot"

text \<open>\<open>engine_select.compute_action_probabilities\<close>: the actions decoded from the binding's answer.\<close>

definition action_of_wire :: "game_data \<Rightarrow> action_wire \<Rightarrow> action res" where
  "action_of_wire gd w =
     rbind (if aw_move_override w \<ge> 0 then rbind (to_move gd (aw_move_override w)) (\<lambda>m. Inr (Some m)) else Inr None) (\<lambda>ovr.
     rbind (if aw_kind w = 0 then Inr MOVE else if aw_kind w = 1 then Inr SWITCH else Inl ValueError) (\<lambda>k.
       Inr \<lparr>ac_kind = k, ac_move_slot = aw_move_slot w,
          ac_target_slot = nat (aw_target_slot w), ac_switch_to_slot = aw_switch_to_slot w, ac_mega = False,
          ac_move_override = ovr,
          ac_source_slot = nat (aw_source_slot w), ac_target_side = aw_target_side w\<rparr>))"

definition compute_action_probabilities :: "game_data \<Rightarrow> engine \<Rightarrow> battle_state \<Rightarrow> sid \<Rightarrow> (action \<times> rat) list res" where
  "compute_action_probabilities gd eg st ai_idx =
     rbind (eg_action_probabilities eg st ai_idx) (\<lambda>ps.
       rmap (\<lambda>x. rbind (action_of_wire gd (fst x)) (\<lambda>a. Inr (a, snd x))) ps)"

section \<open>Sweep configurations\<close>

text \<open>
  Values of an override: Python booleans, numbers, tuples and dictionaries keyed by the slot.
\<close>

datatype pyv = PyBool bool | PyFloat rat | PyInt int | PyTuple "pyv list" | PyDict "(nat \<times> pyv) list"

fun truthy :: "pyv \<Rightarrow> bool" where
  "truthy (PyBool b) = b"
| "truthy (PyFloat r) = (r \<noteq> 0)"
| "truthy (PyInt n) = (n \<noteq> 0)"
| "truthy (PyTuple vs) = (vs \<noteq> [])"
| "truthy (PyDict d) = (d \<noteq> [])"

fun py_float :: "pyv \<Rightarrow> rat res" where
  "py_float (PyBool b) = Inr (if b then 1 else 0)"
| "py_float (PyFloat r) = Inr r"
| "py_float (PyInt n) = Inr (of_int n)"
| "py_float _ = Inl TypeError"

record side_overrides =
  so_crit :: pyv
  so_roll :: pyv
  so_crits_per_hit :: "pyv option"
  so_rolls_per_hit :: "pyv option"
  so_extra_overrides :: "(rng_event \<times> pyv) list"

text \<open>An absent dictionary of extra overrides is the empty one: the code tests its truth value.\<close>

definition default_overrides :: side_overrides where
  "default_overrides = \<lparr>so_crit = PyBool False, so_roll = PyFloat (1 / 2), so_crits_per_hit = None,
     so_rolls_per_hit = None, so_extra_overrides = []\<rparr>"

text \<open>A value to inject before the turn: a move, a status or an integer (the enums are integers).\<close>

datatype pre_value = PV_move move | PV_status status | PV_int int

record sweep_config =
  sc_tie_winner :: sid
  sc_extra_pre_inject :: "(rng_event \<times> pre_value) list"
  sc_side0 :: side_overrides
  sc_side1 :: side_overrides

record sweep_luck =
  sl_p0 :: luck_profile
  sl_p1 :: luck_profile
  sl_p0_slot1 :: "luck_profile option"
  sl_p1_slot1 :: "luck_profile option"

fun pre_int :: "pre_value \<Rightarrow> int" where
  "pre_int (PV_move m) = m"
| "pre_int (PV_status s) = status_int s"
| "pre_int (PV_int n) = n"

datatype pre_type = Ty_Move | Ty_Status | Ty_int

fun has_type :: "pre_value \<Rightarrow> pre_type \<Rightarrow> bool" where
  "has_type (PV_move m) Ty_Move = True"
| "has_type (PV_status s) Ty_Status = True"
| "has_type v Ty_int = True"
| "has_type _ _ = False"

definition PRE_INJECT_EVENT_TABLE :: "(rng_event \<times> string \<times> pre_type) list" where
  "PRE_INJECT_EVENT_TABLE = [
     (METRONOME_MOVE, ''METRONOME_MOVE'', Ty_Move), (SLEEP_TALK_MOVE, ''SLEEP_TALK_MOVE'', Ty_Move),
     (EFFECT_SPORE_WHICH, ''EFFECT_SPORE_WHICH'', Ty_Status), (ACUPRESSURE_STAT, ''ACUPRESSURE_STAT'', Ty_int),
     (ROAR_TARGET, ''ROAR_TARGET'', Ty_int), (TRI_ATTACK_STATUS, ''TRI_ATTACK_STATUS'', Ty_Status)]"

definition pre_inject_payload :: "(rng_event \<times> pre_value) list \<Rightarrow> (string \<times> int) list option res" where
  "pre_inject_payload extra =
     (if extra = [] then Inr None
      else rbind (rmap (\<lambda>x. case map_of PRE_INJECT_EVENT_TABLE (fst x) of
            None \<Rightarrow> Inl ValueError
          | Some (name, ty) \<Rightarrow> if has_type (snd x) ty then Inr (name, pre_int (snd x)) else Inl ValueError) extra)
        (\<lambda>out. Inr (Some out)))"

definition crit_threshold_of :: "pyv \<Rightarrow> rat res" where
  "crit_threshold_of v = (case v of PyBool b \<Rightarrow> Inr (if b then 0 else 101) | _ \<Rightarrow> py_float v)"

section \<open>Profiles from overrides\<close>

text \<open>
  The two keyword dictionaries become the two profiles they are turned into at the end: the
  profile of the side, and the profile of slot 1, absent until something is written to it.
\<close>

type_synonym profiles = "luck_profile \<times> luck_profile option"

definition set_side :: "(luck_profile \<Rightarrow> luck_profile) \<Rightarrow> profiles \<Rightarrow> profiles" where
  "set_side f ps = (f (fst ps), snd ps)"

definition set_slot1 :: "(luck_profile \<Rightarrow> luck_profile) \<Rightarrow> profiles \<Rightarrow> profiles" where
  "set_slot1 f ps = (fst ps, Some (f (case snd ps of None \<Rightarrow> SWEEP_LUCK | Some q \<Rightarrow> q)))"

definition set_slot :: "nat \<Rightarrow> (luck_profile \<Rightarrow> luck_profile) \<Rightarrow> profiles \<Rightarrow> profiles" where
  "set_slot k f ps = (if k = 0 then set_side f ps else set_slot1 f ps)"

text \<open>The converted value of a slot: a scalar or a tuple.\<close>

datatype conv = Scalar rat | Tuple "rat list"

definition apply_slot_keyed :: "(nat \<times> pyv) list \<Rightarrow> (pyv \<Rightarrow> conv res)
    \<Rightarrow> (rat \<Rightarrow> luck_profile \<Rightarrow> luck_profile) \<Rightarrow> (rat list \<Rightarrow> luck_profile \<Rightarrow> luck_profile)
    \<Rightarrow> profiles \<Rightarrow> profiles res" where
  "apply_slot_keyed slot_dict convert scalar_field tuple_field ps =
     rfold (\<lambda>ps x. rbind (convert (snd x)) (\<lambda>c. Inr (case c of
         Tuple rs \<Rightarrow> set_slot (fst x) (tuple_field rs) ps
       | Scalar r \<Rightarrow> set_slot (fst x) (scalar_field r) ps))) ps slot_dict"

text \<open>\<open>_BOOL_EVENT_MAP\<close>: the field that an event sets; the good value is 0 and the bad one 101.\<close>

fun bool_event_field :: "rng_event \<Rightarrow> (rat \<Rightarrow> luck_profile \<Rightarrow> luck_profile) option" where
  "bool_event_field ACCURACY = Some (\<lambda>x. accuracy_threshold_update (\<lambda>_. x))"
| "bool_event_field SECONDARY_FIRES = Some (\<lambda>x. secondary_threshold_update (\<lambda>_. x))"
| "bool_event_field PROC_FIRES = Some (\<lambda>x. proc_threshold_update (\<lambda>_. x))"
| "bool_event_field WAKE = Some (\<lambda>x. wake_threshold_update (\<lambda>_. x))"
| "bool_event_field CONFUSION_SNAP = Some (\<lambda>x. confusion_snap_threshold_update (\<lambda>_. x))"
| "bool_event_field DEFROST = Some (\<lambda>x. defrost_threshold_update (\<lambda>_. x))"
| "bool_event_field CONFUSION_SELF_HIT = Some (\<lambda>x. confusion_self_hit_threshold_update (\<lambda>_. x))"
| "bool_event_field ATTRACT_IMMOBILIZE = Some (\<lambda>x. attract_threshold_update (\<lambda>_. x))"
| "bool_event_field FULL_PARALYSIS = Some (\<lambda>x. paralysis_threshold_update (\<lambda>_. x))"
| "bool_event_field FLINCH = Some (\<lambda>x. flinch_threshold_update (\<lambda>_. x))"
| "bool_event_field QUICK_CLAW = Some (\<lambda>x. quick_claw_threshold_update (\<lambda>_. x))"
| "bool_event_field _ = None"

definition good_bad :: "bool \<Rightarrow> rat" where
  "good_bad b = (if b then 0 else 101)"

definition DEAD_EVENTS :: "rng_event list" where
  "DEAD_EVENTS = [ANCIENT_POWER_BOOST]"

definition CATEGORY_A_EVENTS :: "rng_event list" where
  "CATEGORY_A_EVENTS = [ACTION_SELECT, FORCED_SWITCH, POST_FAINT_SWITCH, METRONOME_MOVE, SLEEP_TALK_MOVE,
     ASSIST_MOVE, ACUPRESSURE_STAT, ROAR_TARGET, EFFECT_SPORE_WHICH, TRI_ATTACK_STATUS, MOODY_STATS,
     STARF_BERRY_STAT, SPEED_TIE, SPEED_TIEBREAKER, RANDOM_TARGET]"

definition no_tuple :: "rat list \<Rightarrow> luck_profile \<Rightarrow> luck_profile" where
  "no_tuple rs p = p"

definition float_or_tuple :: "pyv \<Rightarrow> conv res" where
  "float_or_tuple v = (case v of
       PyTuple vs \<Rightarrow> rbind (rmap py_float vs) (\<lambda>rs. Inr (Tuple rs))
     | _ \<Rightarrow> rbind (py_float v) (\<lambda>r. Inr (Scalar r)))"

definition to_scalar :: "rat res \<Rightarrow> conv res" where
  "to_scalar r = rbind r (\<lambda>x. Inr (Scalar x))"

text \<open>A multi-hit value: a float is the roll itself, anything else its truth value.\<close>

definition multi_hit_value :: "pyv \<Rightarrow> rat" where
  "multi_hit_value v = (case v of PyFloat r \<Rightarrow> r | _ \<Rightarrow> if truthy v then 1 else 0)"

definition apply_crit_override :: "pyv \<Rightarrow> profiles \<Rightarrow> profiles res" where
  "apply_crit_override v ps = (case v of
       PyTuple vs \<Rightarrow> rbind (rmap crit_threshold_of vs) (\<lambda>ts. Inr (set_side (\<lambda>p. p\<lparr>crits_per_hit := Some ts\<rparr>) ps))
     | PyDict d \<Rightarrow> apply_slot_keyed d (\<lambda>v. to_scalar (crit_threshold_of v))
         (\<lambda>x p. p\<lparr>crit_threshold := x\<rparr>) (\<lambda>ts p. p\<lparr>crits_per_hit := Some ts\<rparr>) ps
     | _ \<Rightarrow> rbind (crit_threshold_of v) (\<lambda>x. Inr (set_side (\<lambda>p. p\<lparr>crit_threshold := x\<rparr>) ps)))"

definition apply_bool_override :: "rng_event \<Rightarrow> (rat \<Rightarrow> luck_profile \<Rightarrow> luck_profile) \<Rightarrow> pyv \<Rightarrow> profiles \<Rightarrow> profiles res" where
  "apply_bool_override e field v ps = (case v of
       PyDict d \<Rightarrow>
         if e = QUICK_CLAW then
           (let bs = map (\<lambda>x. truthy (snd x)) d in
            if True \<in> set bs \<and> False \<in> set bs then Inl ValueError
            else rbind (lk bs 0) (\<lambda>b. Inr (set_side (field (good_bad b)) ps)))
         else apply_slot_keyed d (\<lambda>v. Inr (Scalar (good_bad (truthy v)))) field no_tuple ps
     | _ \<Rightarrow> Inr (set_side (field (good_bad (truthy v))) ps))"

definition apply_damage_roll_override :: "pyv \<Rightarrow> profiles \<Rightarrow> profiles res" where
  "apply_damage_roll_override v ps = (case v of
       PyTuple vs \<Rightarrow> rbind (rmap py_float vs) (\<lambda>rs. Inr (set_side (\<lambda>p. p\<lparr>damage_rolls_per_hit := Some rs\<rparr>) ps))
     | PyDict d \<Rightarrow> apply_slot_keyed d float_or_tuple
         (\<lambda>x p. p\<lparr>damage_roll := x\<rparr>) (\<lambda>rs p. p\<lparr>damage_rolls_per_hit := Some rs\<rparr>) ps
     | _ \<Rightarrow> rbind (py_float v) (\<lambda>x. Inr (set_side (\<lambda>p. p\<lparr>damage_roll := x\<rparr>) ps)))"

definition apply_extra_override :: "rng_event \<Rightarrow> pyv \<Rightarrow> profiles \<Rightarrow> profiles res" where
  "apply_extra_override e v ps =
     (if e \<in> set DEAD_EVENTS then Inl ValueError
      else if e \<in> set CATEGORY_A_EVENTS then Inl ValueError
      else if e = CRIT then apply_crit_override v ps
      else case bool_event_field e of
        Some field \<Rightarrow> apply_bool_override e field v ps
      | None \<Rightarrow>
          if e = DAMAGE_ROLL then apply_damage_roll_override v ps
          else if e = PSYWAVE_ROLL then
            (case v of
               PyDict d \<Rightarrow> apply_slot_keyed d (\<lambda>v. to_scalar (py_float v)) (\<lambda>x p. p\<lparr>psywave_roll := x\<rparr>) no_tuple ps
             | _ \<Rightarrow> rbind (py_float v) (\<lambda>x. Inr (set_side (\<lambda>p. p\<lparr>psywave_roll := x\<rparr>) ps)))
          else if e = MULTI_HIT_COUNT then
            (case v of
               PyDict d \<Rightarrow> apply_slot_keyed d (\<lambda>v. Inr (Scalar (multi_hit_value v))) (\<lambda>x p. p\<lparr>multi_hit_roll := x\<rparr>) no_tuple ps
             | _ \<Rightarrow> Inr (set_side (\<lambda>p. p\<lparr>multi_hit_roll := multi_hit_value v\<rparr>) ps))
          else if e = BINDING_DURATION then
            Inr (set_side (\<lambda>p. p\<lparr>binding_duration_roll := (if truthy v then 1 else 0)\<rparr>) ps)
          else if e = RAMPAGE_DURATION then
            Inr (set_side (\<lambda>p. p\<lparr>rampage_duration_roll := (if truthy v then 1 else 0)\<rparr>) ps)
          else Inl ValueError)"

text \<open>The crit and the roll of the side itself. A value that is neither a tuple nor a dictionary is not iterable.\<close>

definition apply_side_crits :: "side_overrides \<Rightarrow> profiles \<Rightarrow> profiles res" where
  "apply_side_crits so ps = (case so_crits_per_hit so of
       None \<Rightarrow> rbind (crit_threshold_of (so_crit so)) (\<lambda>x. Inr (set_side (\<lambda>p. p\<lparr>crit_threshold := x\<rparr>) ps))
     | Some (PyDict d) \<Rightarrow>
         rfold (\<lambda>ps x. case snd x of
             PyTuple vs \<Rightarrow> rbind (rmap crit_threshold_of vs) (\<lambda>ts. Inr (set_slot (fst x) (\<lambda>p. p\<lparr>crits_per_hit := Some ts\<rparr>) ps))
           | v \<Rightarrow> rbind (crit_threshold_of v) (\<lambda>t. Inr (set_slot (fst x) (\<lambda>p. p\<lparr>crit_threshold := t\<rparr>) ps))) ps d
     | Some (PyTuple vs) \<Rightarrow> rbind (rmap crit_threshold_of vs) (\<lambda>ts. Inr (set_side (\<lambda>p. p\<lparr>crits_per_hit := Some ts\<rparr>) ps))
     | Some _ \<Rightarrow> Inl TypeError)"

definition apply_side_rolls :: "side_overrides \<Rightarrow> profiles \<Rightarrow> profiles res" where
  "apply_side_rolls so ps = (case so_rolls_per_hit so of
       None \<Rightarrow> rbind (py_float (so_roll so)) (\<lambda>x. Inr (set_side (\<lambda>p. p\<lparr>damage_roll := x\<rparr>) ps))
     | Some (PyDict d) \<Rightarrow>
         rfold (\<lambda>ps x. case snd x of
             PyTuple vs \<Rightarrow> rbind (rmap py_float vs) (\<lambda>rs. Inr (set_slot (fst x) (\<lambda>p. p\<lparr>damage_rolls_per_hit := Some rs\<rparr>) ps))
           | v \<Rightarrow> rbind (py_float v) (\<lambda>r. Inr (set_slot (fst x) (\<lambda>p. p\<lparr>damage_roll := r\<rparr>) ps))) ps d
     | Some (PyTuple vs) \<Rightarrow> rbind (rmap py_float vs) (\<lambda>rs. Inr (set_side (\<lambda>p. p\<lparr>damage_rolls_per_hit := Some rs\<rparr>) ps))
     | Some _ \<Rightarrow> Inl TypeError)"

definition build_side_profile :: "side_overrides \<Rightarrow> profiles res" where
  "build_side_profile so =
     rbind (apply_side_crits so (SWEEP_LUCK, None)) (\<lambda>ps.
     rbind (apply_side_rolls so ps) (\<lambda>ps.
     rbind (py_float (so_roll so)) (\<lambda>r.
       rfold (\<lambda>ps x. apply_extra_override (fst x) (snd x) ps)
         (set_side (\<lambda>p. p\<lparr>psywave_roll := r\<rparr>) ps) (so_extra_overrides so))))"

definition build_sweep_luck :: "sweep_config \<Rightarrow> sweep_luck res" where
  "build_sweep_luck cfg =
     rbind (pre_inject_payload (sc_extra_pre_inject cfg)) (\<lambda>_.
     rbind (build_side_profile (sc_side0 cfg)) (\<lambda>s0.
     rbind (build_side_profile (sc_side1 cfg)) (\<lambda>s1.
       Inr \<lparr>sl_p0 = fst s0, sl_p1 = fst s1, sl_p0_slot1 = snd s0, sl_p1_slot1 = snd s1\<rparr>)))"

definition build_speed_tie_order :: "battle_state \<Rightarrow> sid \<Rightarrow> (sid \<times> nat) list" where
  "build_speed_tie_order st tie_winner =
     map (\<lambda>k. (tie_winner, k)) [0..<length (sd_active_indices (side_of st tie_winner))]
     @ map (\<lambda>k. (opp tie_winner, k)) [0..<length (sd_active_indices (side_of st (opp tie_winner)))]"

section \<open>The turn driver\<close>

definition side_has_fainted_active :: "side_state \<Rightarrow> bool res" where
  "side_has_fainted_active s = rany (\<lambda>ti. rbind (lk (sd_team s) ti) (\<lambda>p. Inr (pk_fainted p))) (sd_active_indices s)"

definition side_has_living_bench :: "side_state \<Rightarrow> bool" where
  "side_has_living_bench s = (\<exists>x \<in> set (enumerated (sd_team s)). fst x \<notin> set (sd_active_indices s) \<and> \<not> pk_fainted (snd x))"

text \<open>\<open>_side_has_fainted_active(side) and _side_has_living_bench(side)\<close>.\<close>

definition needs_replacement :: "side_state \<Rightarrow> bool res" where
  "needs_replacement s = rbind (side_has_fainted_active s) (\<lambda>b. Inr (b \<and> side_has_living_bench s))"

definition fainted_slots :: "side_state \<Rightarrow> nat list res" where
  "fainted_slots s =
     rbind (rmap (\<lambda>x. rbind (lk (sd_team s) (snd x)) (\<lambda>p. Inr (fst x, pk_fainted p))) (enumerated (sd_active_indices s)))
       (\<lambda>xs. Inr (map fst (filter snd xs)))"

definition action_list :: "side_action \<Rightarrow> action list" where
  "action_list a = (case a of NoAct \<Rightarrow> [] | One x \<Rightarrow> [x] | Many xs \<Rightarrow> List.map_filter id xs)"

text \<open>The replacement switches of one side at a party prompt.\<close>

definition apply_replacements :: "engine \<Rightarrow> battle_state \<Rightarrow> sid \<Rightarrow> side_action \<Rightarrow> battle_state run" where
  "apply_replacements eg st i act =
     run_bind (run_lift (fainted_slots (side_of st i))) (\<lambda>slots.
       let acts = action_list act in
       if length acts < length slots then run_raise ValueError
       else run_fold (\<lambda>s x. apply_switch_cpp eg s i (ac_switch_to_slot (snd x)) (fst x)) st (zip slots acts))"

text \<open>The opponent's replacements after the turn: as many as there are observed switch-ins.\<close>

fun apply_opp_switches :: "engine \<Rightarrow> battle_state \<Rightarrow> nat list \<Rightarrow> action list \<Rightarrow> battle_state run" where
  "apply_opp_switches eg st [] acts = run_return st"
| "apply_opp_switches eg st (k # ks) [] = run_return st"
| "apply_opp_switches eg st (k # ks) (a # as) =
     run_bind (apply_switch_cpp eg st P1 (ac_switch_to_slot a) k) (\<lambda>st'. apply_opp_switches eg st' ks as)"

text \<open>The body of the \<open>try\<close> block.\<close>

definition drive_turn :: "engine \<Rightarrow> battle_state \<Rightarrow> side_action \<Rightarrow> side_action \<Rightarrow> sweep_luck
    \<Rightarrow> (sid \<times> nat) list \<Rightarrow> (string \<times> int) list option \<Rightarrow> action list \<Rightarrow> battle_state run" where
  "drive_turn eg st a0 a1 luck tie_order inject opp_switch_actions =
     run_bind (run_lift (needs_replacement (side_of st P0))) (\<lambda>pf0.
     run_bind (run_lift (needs_replacement (side_of st P1))) (\<lambda>pf1.
       if pf0 \<or> pf1 then
         run_bind (if pf0 then apply_replacements eg st P0 a0 else run_return st) (\<lambda>st1.
           if pf1 then apply_replacements eg st1 P1 a1 else run_return st1)
       else
         run_bind (run_one_turn_cpp eg st a0 a1 (sl_p0 luck) (sl_p1 luck) (sl_p0_slot1 luck) (sl_p1_slot1 luck)
                     True (Some tie_order) inject) (\<lambda>post.
         run_bind (run_lift (needs_replacement (side_of post P0))) (\<lambda>player_needs.
         run_bind (if side_has_living_bench (side_of post P1)
                   then run_lift (fainted_slots (side_of post P1)) else run_return []) (\<lambda>opp_slots.
           if player_needs then run_return post
           else apply_opp_switches eg post opp_slots opp_switch_actions)))))"

text \<open>
  The \<open>except\<close> clauses: an unported turn is fatal, any other exception filters the trial. (The
  deduplicated messages to the error stream are not modelled.)
\<close>

definition catch_trial :: "battle_state run \<Rightarrow> battle_state option run" where
  "catch_trial m = (case fst m of
       Inr st \<Rightarrow> (Inr (Some st), snd m)
     | Inl UnportedTurn \<Rightarrow> (Inl UnportedTurn, snd m)
     | Inl _ \<Rightarrow> (Inr None, snd m))"

definition run_to_decision_boundary :: "engine \<Rightarrow> battle_state \<Rightarrow> side_action \<Rightarrow> side_action
    \<Rightarrow> sweep_config \<Rightarrow> action list \<Rightarrow> battle_state option run" where
  "run_to_decision_boundary eg st a0 a1 cfg opp_switch_actions =
     run_bind (run_lift (build_sweep_luck cfg)) (\<lambda>luck.
     run_bind (run_lift (pre_inject_payload (sc_extra_pre_inject cfg))) (\<lambda>inject.
       catch_trial (drive_turn eg st a0 a1 luck (build_speed_tie_order st (sc_tie_winner cfg)) inject opp_switch_actions)))"

definition run_with_capture :: "game_data \<Rightarrow> engine \<Rightarrow> battle_state \<Rightarrow> side_action \<Rightarrow> side_action
    \<Rightarrow> sweep_config \<Rightarrow> action list \<Rightarrow> (battle_state option \<times> capture) res" where
  "run_with_capture gd eg st a0 a1 cfg opp_switch_actions =
     (case run_to_decision_boundary eg st a0 a1 cfg opp_switch_actions of
        (Inl e, evs) \<Rightarrow> Inl e
      | (Inr r, evs) \<Rightarrow> rbind (from_cpp gd evs) (\<lambda>cap. Inr (r, cap)))"

section \<open>Damage sums\<close>

definition amount_of :: "kwargs \<Rightarrow> int res" where
  "amount_of kw = (case kw_amount kw of None \<Rightarrow> Inl KeyError | Some n \<Rightarrow> Inr n)"

definition on_side :: "sid option \<Rightarrow> kwargs \<Rightarrow> bool" where
  "on_side target_side kw = (case target_side of None \<Rightarrow> True | Some s \<Rightarrow> kw_defender_side kw = Some (sid_int s))"

definition per_hit_damages :: "capture \<Rightarrow> species option \<Rightarrow> sid option \<Rightarrow> int list res" where
  "per_hit_damages cap target_species target_side = (case target_species of
       None \<Rightarrow> Inr []
     | Some sp \<Rightarrow> rmap amount_of (filter (on_side target_side)
         (all_of cap LE_DAMAGE (\<lambda>kw. kw_target kw = Some sp \<and> kw_source kw = Some ''move''))))"

definition sum_damage :: "capture \<Rightarrow> species option \<Rightarrow> sid option \<Rightarrow> int res" where
  "sum_damage cap target_species target_side =
     rbind (per_hit_damages cap target_species target_side) (\<lambda>xs. Inr (sum_list xs))"

definition total_side_move_damage :: "capture \<Rightarrow> sid \<Rightarrow> int res" where
  "total_side_move_damage cap target_side =
     rbind (rmap amount_of (filter (on_side (Some target_side)) (all_of cap LE_DAMAGE (\<lambda>kw. kw_source kw = Some ''move''))))
       (\<lambda>xs. Inr (sum_list xs))"

definition attacker_per_hit_damages :: "capture \<Rightarrow> sid \<Rightarrow> nat \<Rightarrow> int list res" where
  "attacker_per_hit_damages cap attacker_side attacker_slot =
     rmap amount_of (all_of cap LE_DAMAGE (\<lambda>kw. kw_source kw = Some ''move''
       \<and> kw_attacker_side kw = Some (sid_int attacker_side) \<and> kw_attacker_slot kw = Some (int attacker_slot)))"

definition own_damage :: "capture \<Rightarrow> sid \<Rightarrow> nat \<Rightarrow> int res" where
  "own_damage cap attacker_side attacker_slot =
     rbind (attacker_per_hit_damages cap attacker_side attacker_slot) (\<lambda>xs. Inr (sum_list xs))"

definition self_hit_damage :: "capture \<Rightarrow> sid \<Rightarrow> int res" where
  "self_hit_damage cap side =
     rbind (rmap (\<lambda>kw. case kw_damage kw of None \<Rightarrow> Inl KeyError | Some n \<Rightarrow> Inr n)
              (all_of cap LE_HIT_SELF_CONFUSION (\<lambda>kw. kw_side kw = Some (sid_int side))))
       (\<lambda>xs. Inr (sum_list xs))"

section \<open>Overrides reach the resolution\<close>

text \<open>The profile that a slot 1 resolves with: its own one, or the one it would start from.\<close>

definition slot1_profile :: "profiles \<Rightarrow> luck_profile" where
  "slot1_profile ps = (case snd ps of None \<Rightarrow> SWEEP_LUCK | Some q \<Rightarrow> q)"

text \<open>Two profiles that agree on the thresholds of a set of events and on their modes.\<close>

definition agree_on :: "rng_event set \<Rightarrow> luck_profile \<Rightarrow> luck_profile \<Rightarrow> bool" where
  "agree_on E p q \<longleftrightarrow> (\<forall>e \<in> E. event_threshold e q = event_threshold e p)
     \<and> strict q = strict p \<and> random_mode q = random_mode p"

definition agree_profiles :: "rng_event set \<Rightarrow> profiles \<Rightarrow> profiles \<Rightarrow> bool" where
  "agree_profiles E ps qs \<longleftrightarrow> agree_on E (fst ps) (fst qs) \<and> agree_on E (slot1_profile ps) (slot1_profile qs)
     \<and> (snd qs = None \<longrightarrow> snd ps = None)"

lemma agree_on_refl [simp]: "agree_on E p p"
  by (simp add: agree_on_def)

lemma agree_on_trans: "agree_on E p q \<Longrightarrow> agree_on E q r \<Longrightarrow> agree_on E p r"
  by (simp add: agree_on_def)

lemma agree_on_mono: "agree_on E p q \<Longrightarrow> E' \<subseteq> E \<Longrightarrow> agree_on E' p q"
  by (auto simp: agree_on_def)

lemma agree_profiles_refl [simp]: "agree_profiles E ps ps"
  by (simp add: agree_profiles_def)

lemma agree_profiles_trans: "agree_profiles E ps qs \<Longrightarrow> agree_profiles E qs rs \<Longrightarrow> agree_profiles E ps rs"
  by (auto simp: agree_profiles_def intro: agree_on_trans)

lemma agree_set_slot:
  "(\<And>p. agree_on E p (f p)) \<Longrightarrow> agree_profiles E ps (set_slot k f ps)"
  "(\<And>p. agree_on E p (f p)) \<Longrightarrow> agree_profiles E ps (set_side f ps)"
  by (auto simp: agree_profiles_def set_slot_def set_side_def set_slot1_def slot1_profile_def)

lemma agree_set_slotD:
  assumes "set_slot k f ps = qs" and "\<And>p. agree_on E p (f p)"
  shows "agree_profiles E ps qs"
  using agree_set_slot(1)[OF assms(2), of ps k] assms(1) by simp

lemma agree_fold:
  assumes "rfold f ps xs = Inr qs" and "\<And>ps x qs. x \<in> set xs \<Longrightarrow> f ps x = Inr qs \<Longrightarrow> agree_profiles E ps qs"
  shows "agree_profiles E ps qs"
  using assms(1)
proof (rule rfold_invariant)
  show "agree_profiles E ps s'" if "x \<in> set xs" "agree_profiles E ps s" "f s x = Inr s'" for s x s'
    using that assms(2) agree_profiles_trans by blast
qed simp

lemma agree_slot_keyed:
  assumes "apply_slot_keyed d conv sf tf ps = Inr qs"
    and "\<And>x p. agree_on E p (sf x p)" "\<And>xs p. agree_on E p (tf xs p)"
  shows "agree_profiles E ps qs"
  using assms(1) unfolding apply_slot_keyed_def
proof (rule agree_fold)
  fix ps x qs
  assume "rbind (conv (snd x)) (\<lambda>c. Inr (case c of Tuple rs \<Rightarrow> set_slot (fst x) (tf rs) ps
      | Scalar r \<Rightarrow> set_slot (fst x) (sf r) ps)) = Inr qs"
  then obtain c where "qs = (case c of Tuple rs \<Rightarrow> set_slot (fst x) (tf rs) ps | Scalar r \<Rightarrow> set_slot (fst x) (sf r) ps)"
    by (auto simp: rbind_eq_Inr)
  then show "agree_profiles E ps qs"
    using assms(2,3) by (cases c) (simp_all add: agree_set_slot)
qed

text \<open>The field of an event decides that event and no other.\<close>

lemma bool_event_field_other:
  "bool_event_field e = Some fld \<Longrightarrow> e' \<noteq> e \<Longrightarrow> event_threshold e' (fld x p) = event_threshold e' p"
  by (cases e; simp; cases e'; auto)

lemma bool_event_field_modes:
  "bool_event_field e = Some fld \<Longrightarrow> strict (fld x p) = strict p \<and> random_mode (fld x p) = random_mode p"
  by (cases e) auto

lemma bool_event_field_agrees: "bool_event_field e = Some fld \<Longrightarrow> e \<notin> E \<Longrightarrow> agree_on E p (fld x p)"
  by (auto simp: agree_on_def bool_event_field_modes intro!: bool_event_field_other)

lemma bool_event_field_sets: "bool_event_field e = Some fld \<Longrightarrow> event_threshold e (fld x p) = x"
  by (cases e) auto

lemma event_threshold_crit:
  "e \<noteq> CRIT \<Longrightarrow> event_threshold e (p\<lparr>crit_threshold := x\<rparr>) = event_threshold e p"
  by (cases e) simp_all

lemma event_threshold_rolls [simp]:
  "event_threshold e (p\<lparr>crits_per_hit := ts\<rparr>) = event_threshold e p"
  "event_threshold e (p\<lparr>damage_roll := x\<rparr>) = event_threshold e p"
  "event_threshold e (p\<lparr>damage_rolls_per_hit := rs\<rparr>) = event_threshold e p"
  "event_threshold e (p\<lparr>psywave_roll := x\<rparr>) = event_threshold e p"
  "event_threshold e (p\<lparr>multi_hit_roll := x\<rparr>) = event_threshold e p"
  "event_threshold e (p\<lparr>binding_duration_roll := x\<rparr>) = event_threshold e p"
  "event_threshold e (p\<lparr>rampage_duration_roll := x\<rparr>) = event_threshold e p"
  by (cases e; simp)+

lemma agree_roll_fields [simp]:
  "CRIT \<notin> E \<Longrightarrow> agree_on E p (p\<lparr>crit_threshold := x\<rparr>)" "agree_on E p (p\<lparr>crits_per_hit := ts\<rparr>)"
  "agree_on E p (p\<lparr>damage_roll := x\<rparr>)" "agree_on E p (p\<lparr>damage_rolls_per_hit := rs\<rparr>)"
  "agree_on E p (p\<lparr>psywave_roll := x\<rparr>)" "agree_on E p (p\<lparr>multi_hit_roll := x\<rparr>)"
  "agree_on E p (p\<lparr>binding_duration_roll := x\<rparr>)" "agree_on E p (p\<lparr>rampage_duration_roll := x\<rparr>)"
  "agree_on E p (no_tuple us p)"
  by (auto simp: agree_on_def no_tuple_def intro!: event_threshold_crit)

text \<open>An override changes the threshold of its own event only.\<close>

lemma apply_crit_override_agrees: "apply_crit_override v ps = Inr qs \<Longrightarrow> CRIT \<notin> E \<Longrightarrow> agree_profiles E ps qs"
  by (auto simp: apply_crit_override_def rbind_eq_Inr agree_set_slot dest!: agree_slot_keyed[where E = E]
      split: pyv.splits)

lemma apply_bool_override_agrees:
  assumes "apply_bool_override e fld v ps = Inr qs" "bool_event_field e = Some fld" "e \<notin> E"
  shows "agree_profiles E ps qs"
  using assms(1) bool_event_field_agrees[OF assms(2,3)]
  by (auto simp: apply_bool_override_def rbind_eq_Inr agree_set_slot Let_def dest!: agree_slot_keyed[where E = E]
      split: pyv.splits if_splits)

lemma apply_damage_roll_override_agrees: "apply_damage_roll_override v ps = Inr qs \<Longrightarrow> agree_profiles E ps qs"
  by (auto simp: apply_damage_roll_override_def rbind_eq_Inr agree_set_slot dest!: agree_slot_keyed[where E = E]
      split: pyv.splits)

lemma apply_extra_override_agrees:
  assumes "apply_extra_override e v ps = Inr qs" "e \<notin> E"
  shows "agree_profiles E ps qs"
proof (cases "bool_event_field e")
  case (Some fld)
  then have "e \<noteq> CRIT" by auto
  with assms Some show ?thesis
    by (auto simp: apply_extra_override_def intro: apply_bool_override_agrees split: if_splits)
next
  case None
  show ?thesis
  proof (cases "e = CRIT \<or> e = DAMAGE_ROLL")
    case True
    with assms None show ?thesis
      by (auto simp: apply_extra_override_def intro: apply_crit_override_agrees apply_damage_roll_override_agrees
          split: if_splits)
  next
    case False
    with assms None show ?thesis
      by (auto simp: apply_extra_override_def rbind_eq_Inr agree_set_slot dest!: agree_slot_keyed[where E = E]
          split: if_splits pyv.splits)
  qed
qed

lemma side_crits_agree: 
  assumes "apply_side_crits so ps = Inr qs" "CRIT \<notin> E"
  shows "agree_profiles E ps qs"
proof (cases "so_crits_per_hit so")
  case None
  with assms show ?thesis by (auto simp: apply_side_crits_def rbind_eq_Inr agree_set_slot)
next
  case (Some v)
  with assms show ?thesis
    by (cases v) (auto simp: apply_side_crits_def rbind_eq_Inr agree_set_slot assms(2)
        elim!: agree_fold agree_set_slotD split: pyv.splits)
qed

lemma side_rolls_agree:
  assumes "apply_side_rolls so ps = Inr qs"
  shows "agree_profiles E ps qs"
proof (cases "so_rolls_per_hit so")
  case None
  with assms show ?thesis by (auto simp: apply_side_rolls_def rbind_eq_Inr agree_set_slot)
next
  case (Some v)
  with assms show ?thesis
    by (cases v) (auto simp: apply_side_rolls_def rbind_eq_Inr agree_set_slot
        elim!: agree_fold agree_set_slotD split: pyv.splits)
qed

lemma extra_overrides_agree:
  assumes "rfold (\<lambda>ps x. apply_extra_override (fst x) (snd x) ps) ps xs = Inr qs" "E \<inter> fst ` set xs = {}"
  shows "agree_profiles E ps qs"
  using assms(1)
proof (rule agree_fold)
  show "agree_profiles E s s'" if "x \<in> set xs" "apply_extra_override (fst x) (snd x) s = Inr s'" for s x s'
    using that assms(2) by (intro apply_extra_override_agrees[OF that(2)]) auto
qed

text \<open>The part of the profile before the extra overrides.\<close>

lemma build_side_profile_split:
  assumes "build_side_profile so = Inr qs"
  obtains ps where "rfold (\<lambda>ps x. apply_extra_override (fst x) (snd x) ps) ps (so_extra_overrides so) = Inr qs"
    and "\<And>E. CRIT \<notin> E \<Longrightarrow> agree_profiles E (SWEEP_LUCK, None) ps"
proof -
  from assms obtain p1 p2 r where *: "apply_side_crits so (SWEEP_LUCK, None) = Inr p1" "apply_side_rolls so p1 = Inr p2"
    "rfold (\<lambda>ps x. apply_extra_override (fst x) (snd x) ps) (set_side (\<lambda>p. p\<lparr>psywave_roll := r\<rparr>) p2)
       (so_extra_overrides so) = Inr qs"
    by (auto simp: build_side_profile_def rbind_eq_Inr)
  have "agree_profiles E (SWEEP_LUCK, None) (set_side (\<lambda>p. p\<lparr>psywave_roll := r\<rparr>) p2)" if "CRIT \<notin> E" for E
    by (intro agree_profiles_trans[OF side_crits_agree[OF *(1) that]] agree_profiles_trans[OF side_rolls_agree[OF *(2)]]
        agree_set_slot agree_roll_fields)
  with *(3) that show thesis by blast
qed

text \<open>The profile that a source slot resolves with, and the thresholds that a single override writes there.\<close>

definition slot_profile :: "nat \<Rightarrow> profiles \<Rightarrow> luck_profile" where
  "slot_profile k ps = (if k = 0 then fst ps else slot1_profile ps)"

lemma slot_profile_set_slot:
  "(j = 0) = (k = 0) \<Longrightarrow> slot_profile k (set_slot j f ps) = f (slot_profile k ps)"
  "(j = 0) \<noteq> (k = 0) \<Longrightarrow> slot_profile k (set_slot j f ps) = slot_profile k ps"
  "slot_profile 0 (set_side f ps) = f (fst ps)"
  by (auto simp: slot_profile_def slot1_profile_def set_slot_def set_side_def set_slot1_def split: option.splits)

lemma slot_present: "k \<noteq> 0 \<Longrightarrow> snd (set_slot k f ps) \<noteq> None" "snd ps \<noteq> None \<Longrightarrow> snd (set_slot j f ps) \<noteq> None"
  by (auto simp: set_slot_def set_side_def set_slot1_def)

lemma slot_keyed_other:
  assumes "apply_slot_keyed d conv sf tf ps = Inr qs" "\<forall>j \<in> fst ` set d. (j = 0) \<noteq> (k = 0)"
  shows "slot_profile k qs = slot_profile k ps \<and> (snd ps \<noteq> None \<longrightarrow> snd qs \<noteq> None)"
  using assms(1) unfolding apply_slot_keyed_def
proof (rule rfold_invariant)
  fix s x s'
  assume *: "x \<in> set d" "slot_profile k s = slot_profile k ps \<and> (snd ps \<noteq> None \<longrightarrow> snd s \<noteq> None)"
    "rbind (conv (snd x)) (\<lambda>c. Inr (case c of Tuple rs \<Rightarrow> set_slot (fst x) (tf rs) s
      | Scalar r \<Rightarrow> set_slot (fst x) (sf r) s)) = Inr s'"
  from *(3) obtain c where "s' = (case c of Tuple rs \<Rightarrow> set_slot (fst x) (tf rs) s | Scalar r \<Rightarrow> set_slot (fst x) (sf r) s)"
    by (auto simp: rbind_eq_Inr)
  moreover have "(fst x = 0) \<noteq> (k = 0)" using bspec[OF assms(2), of "fst x"] *(1) by simp
  ultimately show "slot_profile k s' = slot_profile k ps \<and> (snd ps \<noteq> None \<longrightarrow> snd s' \<noteq> None)"
    using *(2) slot_profile_set_slot(2)[of "fst x" k _ s] slot_present(2)[of s "fst x"] by (cases c) simp_all
qed simp

lemma apply_slot_keyed_Cons:
  "apply_slot_keyed (x # d) conv sf tf ps = rbind (conv (snd x)) (\<lambda>c. apply_slot_keyed d conv sf tf (case c of
     Tuple rs \<Rightarrow> set_slot (fst x) (tf rs) ps | Scalar r \<Rightarrow> set_slot (fst x) (sf r) ps))"
  by (simp add: apply_slot_keyed_def rbind_assoc)

lemma slot_keyed_sets:
  assumes "apply_slot_keyed d conv sf tf ps = Inr qs" "distinct (map fst d)" "fst ` set d \<subseteq> {0, 1}"
    and "(k, v) \<in> set d" "conv v = Inr (Scalar x)"
  shows "(\<exists>p. slot_profile k qs = sf x p) \<and> (k \<noteq> 0 \<longrightarrow> snd qs \<noteq> None)"
  using assms(1-4)
proof (induction d arbitrary: ps)
  case (Cons y d)
  from Cons.prems(1) obtain c where c: "conv (snd y) = Inr c"
    "apply_slot_keyed d conv sf tf (case c of
     Tuple rs \<Rightarrow> set_slot (fst y) (tf rs) ps | Scalar r \<Rightarrow> set_slot (fst y) (sf r) ps) = Inr qs"
    by (auto simp: apply_slot_keyed_Cons rbind_eq_Inr)
  show ?case
  proof (cases "y = (k, v)")
    case True
    have "\<forall>j \<in> fst ` set d. (j = 0) \<noteq> (k = 0)"
    proof
      fix j assume "j \<in> fst ` set d"
      then have "j \<noteq> k" "j \<in> {0, 1}" "k \<in> {0, 1}" using Cons.prems(2,3) True by auto
      then show "(j = 0) \<noteq> (k = 0)" by auto
    qed
    with True c assms(5) show ?thesis
      using slot_keyed_other[of d conv sf tf "set_slot k (sf x) ps" qs k] slot_present(1)[of k "sf x" ps]
        slot_profile_set_slot(1)[of k k "sf x" ps] by auto
  next
    case False
    with Cons.IH[OF c(2)] Cons.prems(2-4) show ?thesis by auto
  qed
qed simp

text \<open>What a boolean override, for the side or keyed by the slot, asks of slot \<open>k\<close>.\<close>

fun asks :: "pyv \<Rightarrow> nat \<Rightarrow> bool \<Rightarrow> bool" where
  "asks (PyBool b') k b = (k = 0 \<and> b' = b)"
| "asks (PyDict d) k b = (distinct (map fst d) \<and> fst ` set d \<subseteq> {0, 1} \<and> (k, PyBool b) \<in> set d)"
| "asks _ k b = False"

lemma override_sets:
  assumes "apply_extra_override e v ps = Inr qs" "bool_resolver e = Some f" "asks v k b"
    and "e = QUICK_CLAW \<Longrightarrow> k = 0"
  shows "event_threshold e (slot_profile k qs) = (if b then 0 else 101) \<and> (k \<noteq> 0 \<longrightarrow> snd qs \<noteq> None)"
proof (cases "e = CRIT")
  case True
  with assms(1) have *: "apply_crit_override v ps = Inr qs"
    by (simp add: apply_extra_override_def DEAD_EVENTS_def CATEGORY_A_EVENTS_def)
  show ?thesis
  proof (cases v)
    case (PyBool b')
    with * True assms(3) show ?thesis
      by (auto simp: apply_crit_override_def crit_threshold_of_def slot_profile_set_slot)
  next
    case (PyDict d)
    with * have "apply_slot_keyed d (\<lambda>v. to_scalar (crit_threshold_of v))
         (\<lambda>x p. p\<lparr>crit_threshold := x\<rparr>) (\<lambda>ts p. p\<lparr>crits_per_hit := Some ts\<rparr>) ps = Inr qs"
      by (simp add: apply_crit_override_def)
    from slot_keyed_sets[OF this, of k "PyBool b" "if b then 0 else 101"] PyDict assms(3) True show ?thesis
      by (auto simp: crit_threshold_of_def to_scalar_def)
  qed (use assms(3) in auto)
next
  case False
  with assms(2) obtain fld where fld: "bool_event_field e = Some fld" by (cases e) auto
  then have "e \<notin> set DEAD_EVENTS \<and> e \<notin> set CATEGORY_A_EVENTS"
    by (auto simp: DEAD_EVENTS_def CATEGORY_A_EVENTS_def)
  with assms(1) False fld have *: "apply_bool_override e fld v ps = Inr qs"
    by (simp add: apply_extra_override_def)
  show ?thesis
  proof (cases v)
    case (PyBool b')
    with * assms(3) bool_event_field_sets[OF fld] show ?thesis
      by (auto simp: apply_bool_override_def slot_profile_set_slot good_bad_def)
  next
    case (PyDict d)
    show ?thesis
    proof (cases "e = QUICK_CLAW")
      case True
      with assms(3,4) PyDict have k: "k = 0" "(0, PyBool b) \<in> set d" by auto
      have "truthy (snd x) = b" if "x \<in> set d" for x
        using * True PyDict that k(2) by (force simp: apply_bool_override_def Let_def split: if_splits)
      moreover from k(2) have "d \<noteq> []" by auto
      ultimately have "lk (map (\<lambda>x. truthy (snd x)) d) 0 = Inr b" by (cases d) (auto simp: lk_def)
      with * True PyDict k(1) bool_event_field_sets[OF fld] show ?thesis
        by (auto simp: apply_bool_override_def Let_def slot_profile_set_slot good_bad_def split: if_splits)
    next
      case False
      with * PyDict assms(3) slot_keyed_sets[of d "\<lambda>v. Inr (Scalar (good_bad (truthy v)))" fld no_tuple ps qs k
          "PyBool b" "good_bad b"] bool_event_field_sets[OF fld] show ?thesis
        by (auto simp: apply_bool_override_def good_bad_def)
    qed
  qed (use assms(3) in auto)
qed

lemma sweep_modes [simp]: "\<not> strict SWEEP_LUCK" "\<not> random_mode SWEEP_LUCK"
  by (simp_all add: SWEEP_LUCK_def BAD_LUCK_def default_luck_def)

lemma built_profile_modes:
  assumes "build_side_profile so = Inr qs"
  shows "\<not> strict (slot_profile k qs) \<and> \<not> random_mode (slot_profile k qs)"
proof -
  obtain ps where ps: "rfold (\<lambda>ps x. apply_extra_override (fst x) (snd x) ps) ps (so_extra_overrides so) = Inr qs"
    "\<And>E. CRIT \<notin> E \<Longrightarrow> agree_profiles E (SWEEP_LUCK, None) ps"
    using build_side_profile_split[OF assms] by metis
  have "agree_profiles {} (SWEEP_LUCK, None) qs"
    using agree_profiles_trans[OF ps(2)[of "{}"] extra_overrides_agree[OF ps(1), of "{}"]] by simp
  then show ?thesis
    by (auto simp: agree_profiles_def agree_on_def slot_profile_def slot1_profile_def)
qed

lemma built_profile_threshold:
  assumes "build_side_profile so = Inr qs" "distinct (map fst (so_extra_overrides so))"
    and "(e, v) \<in> set (so_extra_overrides so)" "asks v k b" "bool_resolver e = Some f" "e = QUICK_CLAW \<Longrightarrow> k = 0"
  shows "event_threshold e (slot_profile k qs) = (if b then 0 else 101) \<and> (k \<noteq> 0 \<longrightarrow> snd qs \<noteq> None)"
proof -
  let ?step = "\<lambda>ps x. apply_extra_override (fst x) (snd x) ps"
  obtain ps where ps: "rfold ?step ps (so_extra_overrides so) = Inr qs"
    using build_side_profile_split[OF assms(1)] by metis
  obtain xs ys where xs: "so_extra_overrides so = xs @ (e, v) # ys"
    using assms(3) by (metis split_list)
  with ps obtain p1 p2 where p: "apply_extra_override e v p1 = Inr p2" "rfold ?step p2 ys = Inr qs"
    by (auto simp: rfold_append rbind_eq_Inr)
  have "agree_profiles {e} p2 qs"
    using assms(2) xs by (intro extra_overrides_agree[OF p(2)]) auto
  then show ?thesis
    using override_sets[OF p(1) assms(5,4,6)] by (auto simp: agree_profiles_def agree_on_def slot_profile_def)
qed

lemma built_profile_frame:
  assumes "build_side_profile so = Inr qs" "e \<notin> fst ` set (so_extra_overrides so)" "e \<noteq> CRIT"
  shows "event_threshold e (slot_profile k qs) = event_threshold e SWEEP_LUCK"
proof -
  obtain ps where ps: "rfold (\<lambda>ps x. apply_extra_override (fst x) (snd x) ps) ps (so_extra_overrides so) = Inr qs"
    "\<And>E. CRIT \<notin> E \<Longrightarrow> agree_profiles E (SWEEP_LUCK, None) ps"
    using build_side_profile_split[OF assms(1)] by metis
  have "agree_profiles {e} (SWEEP_LUCK, None) qs"
    using assms(2,3) by (intro agree_profiles_trans[OF ps(2) extra_overrides_agree[OF ps(1)]]) auto
  then show ?thesis
    by (auto simp: agree_profiles_def agree_on_def slot_profile_def slot1_profile_def)
qed

section \<open>The contract of the turn driver\<close>

lemma run_bind_simps [simp]:
  "run_bind (Inr x, w) f = (fst (f x), w @ snd (f x))" "run_bind (Inl e, w) f = (Inl e, w)"
  "run_lift r = (r, [])" "run_return x = (Inr x, [])" "run_raise e = (Inl e, [])"
  by (simp_all add: run_bind_def run_lift_def run_return_def run_raise_def)

lemma run_bind_lift [simp]: "run_bind (Inr x, []) f = f x"
  by (simp add: run_bind_def)

lemma build_sweep_luck_inject: "build_sweep_luck cfg = Inr luck \<Longrightarrow> \<exists>ij. pre_inject_payload (sc_extra_pre_inject cfg) = Inr ij"
  by (auto simp: build_sweep_luck_def rbind_eq_Inr)

lemma catch_trial_cases: "(\<exists>r evs. catch_trial m = (Inr r, evs)) \<or> (\<exists>evs. catch_trial m = (Inl UnportedTurn, evs))"
  by (auto simp: catch_trial_def split: sum.splits exn.splits)

lemma fainted_slots_wf:
  assumes "side_wf s"
  shows "fainted_slots s = Inr (filter (\<lambda>k. pk_fainted (sd_team s ! (sd_active_indices s ! k))) [0..<length (sd_active_indices s)])"
proof -
  have "rmap (\<lambda>x. rbind (lk (sd_team s) (snd x)) (\<lambda>p. Inr (fst x, pk_fainted p))) (enumerated (sd_active_indices s))
      = Inr (map (\<lambda>x. (fst x, pk_fainted (sd_team s ! snd x))) (enumerated (sd_active_indices s)))"
    using assms by (intro rmap_Inr_map) (auto simp: side_wf_def set_enumerated lk_def)
  moreover have "enumerated xs = map (\<lambda>k. (k, xs ! k)) [0..<length xs]" for xs :: "nat list"
    by (rule nth_equalityI) (auto simp: enumerated_def)
  ultimately show ?thesis
    by (simp add: fainted_slots_def filter_map comp_def)
qed

lemma apply_replacements_frame:
  "apply_replacements (eg\<lparr>eg_run_one_turn := f\<rparr>) st i act = apply_replacements eg st i act"
proof -
  have "run_fold (\<lambda>s x. apply_switch_cpp (eg\<lparr>eg_run_one_turn := f\<rparr>) s i (ac_switch_to_slot (snd x)) (fst x)) st xs
      = run_fold (\<lambda>s x. apply_switch_cpp eg s i (ac_switch_to_slot (snd x)) (fst x)) st xs" for xs :: "(nat \<times> action) list"
    by (induction xs arbitrary: st) (simp_all add: apply_switch_cpp_def)
  then show ?thesis unfolding apply_replacements_def Let_def by presburger
qed

section \<open>Properties\<close>

text \<open>
  An override of a trial decides the event it names. When a side's overrides name the boolean
  event \<open>e\<close> with the value \<open>b\<close>, for the whole side or for slot \<open>k\<close> in a slot-keyed dictionary, then the profile that
  \<open>_build_side_profile\<close> makes for that slot resolves every chance strictly between 0 and 100 of the event to \<open>b\<close>,
  without a draw and whatever the other overrides are; and an event that no override names keeps the threshold of \<open>SWEEP_LUCK\<close>.
\<close>

theorem override_injects:
  assumes "build_side_profile so = Inr qs" "distinct (map fst (so_extra_overrides so))"
    and "bool_resolver e = Some f" "0 < c" "c < 100"
  shows "((e, v) \<in> set (so_extra_overrides so) \<and> asks v k b \<and> (e = QUICK_CLAW \<longrightarrow> k = 0) \<longrightarrow>
           (\<exists>env'. f c (slot_profile k qs) env = Inr (b, env') \<and> only_warns env env') \<and> (k \<noteq> 0 \<longrightarrow> snd qs \<noteq> None))
     \<and> (e \<notin> fst ` set (so_extra_overrides so) \<and> e \<noteq> CRIT \<longrightarrow>
           event_threshold e (slot_profile k qs) = event_threshold e SWEEP_LUCK)"
  using forced_resolution[OF assms(3-5), of "slot_profile k qs" b env] built_profile_modes[OF assms(1), of k]
    built_profile_threshold[OF assms(1,2) _ _ assms(3), of v k b] built_profile_frame[OF assms(1), of e k]
  by blast

definition sample_overrides :: side_overrides where
  "sample_overrides = \<lparr>so_crit = PyBool False, so_roll = PyFloat 1, so_crits_per_hit = None, so_rolls_per_hit = None,
     so_extra_overrides = [(ACCURACY, PyDict [(0, PyBool True), (1, PyBool False)]), (FLINCH, PyBool True),
       (MULTI_HIT_COUNT, PyFloat (1 / 2))]\<rparr>"

theorem override_injects_witness:
  "\<exists>qs env'. build_side_profile sample_overrides = Inr qs \<and> snd qs \<noteq> None
    \<and> resolve_accuracy (Some 85) (slot_profile 1 qs) quiet_env = Inr (False, env')"
proof -
  obtain qs where qs: "build_side_profile sample_overrides = Inr qs"
    by (simp add: build_side_profile_def sample_overrides_def apply_side_crits_def apply_side_rolls_def crit_threshold_of_def
        apply_extra_override_def DEAD_EVENTS_def CATEGORY_A_EVENTS_def apply_bool_override_def apply_slot_keyed_def)
  show ?thesis
    using override_injects[OF qs, of ACCURACY "\<lambda>c. resolve_accuracy (Some c)" 85
        "PyDict [(0, PyBool True), (1, PyBool False)]" 1 False quiet_env] qs
    by (auto simp: sample_overrides_def)
qed

text \<open>
  C35: the contract of \<open>run_to_decision_boundary\<close>. An invalid configuration raises before the engine is called;
  with a valid one the only exception is an unported turn, every other failure giving no state. At a party prompt (a
  fainted active mon with a living bench) the engine's turn is never run. Otherwise, when the turn leaves the player at a party
  prompt, its state is returned as it is: no replacement of the opponent is applied before the player's choice.
\<close>

theorem decision_boundary_contract:
  fixes eg st a0 a1 cfg sw r
  defines "r \<equiv> run_to_decision_boundary eg st a0 a1 cfg sw"
  shows "(build_sweep_luck cfg = Inl e \<longrightarrow> r = (Inl e, []))
    \<and> (build_sweep_luck cfg = Inr luck \<longrightarrow> (\<exists>x. fst r = Inr x) \<or> fst r = Inl UnportedTurn)
    \<and> (needs_replacement (side_of st P0) = Inr b0 \<and> needs_replacement (side_of st P1) = Inr b1 \<and> (b0 \<or> b1) \<longrightarrow>
        run_to_decision_boundary (eg\<lparr>eg_run_one_turn := g\<rparr>) st a0 a1 cfg sw = r)
    \<and> (build_sweep_luck cfg = Inr luck \<and> pre_inject_payload (sc_extra_pre_inject cfg) = Inr ij
        \<and> needs_replacement (side_of st P0) = Inr False \<and> needs_replacement (side_of st P1) = Inr False
        \<and> run_one_turn_cpp eg st a0 a1 (sl_p0 luck) (sl_p1 luck) (sl_p0_slot1 luck) (sl_p1_slot1 luck) True
            (Some (build_speed_tie_order st (sc_tie_winner cfg))) ij = (Inr post, evs)
        \<and> battle_wf post \<and> needs_replacement (side_of post P0) = Inr True \<longrightarrow> r = (Inr (Some post), evs))"
proof (intro conjI impI)
  show "r = (Inl e, [])" if "build_sweep_luck cfg = Inl e"
    using that by (simp add: r_def run_to_decision_boundary_def)
  show "(\<exists>x. fst r = Inr x) \<or> fst r = Inl UnportedTurn" if ok: "build_sweep_luck cfg = Inr luck"
  proof -
    obtain ij where "pre_inject_payload (sc_extra_pre_inject cfg) = Inr ij"
      using build_sweep_luck_inject[OF ok] by blast
    with ok catch_trial_cases[of "drive_turn eg st a0 a1 luck (build_speed_tie_order st (sc_tie_winner cfg)) ij sw"]
    show ?thesis by (auto simp: r_def run_to_decision_boundary_def)
  qed
  show "run_to_decision_boundary (eg\<lparr>eg_run_one_turn := g\<rparr>) st a0 a1 cfg sw = r"
    if "needs_replacement (side_of st P0) = Inr b0 \<and> needs_replacement (side_of st P1) = Inr b1 \<and> (b0 \<or> b1)"
    using that by (simp add: r_def run_to_decision_boundary_def drive_turn_def apply_replacements_frame)
  show "r = (Inr (Some post), evs)"
    if "build_sweep_luck cfg = Inr luck \<and> pre_inject_payload (sc_extra_pre_inject cfg) = Inr ij
        \<and> needs_replacement (side_of st P0) = Inr False \<and> needs_replacement (side_of st P1) = Inr False
        \<and> run_one_turn_cpp eg st a0 a1 (sl_p0 luck) (sl_p1 luck) (sl_p0_slot1 luck) (sl_p1_slot1 luck) True
            (Some (build_speed_tie_order st (sc_tie_winner cfg))) ij = (Inr post, evs)
        \<and> battle_wf post \<and> needs_replacement (side_of post P0) = Inr True"
    using that fainted_slots_wf[OF battle_wf_side[of post P1]]
    by (simp add: r_def run_to_decision_boundary_def drive_turn_def catch_trial_def)
qed

definition idle_engine :: engine where
  "idle_engine = \<lparr>eg_run_one_turn = \<lambda>p. (Inr (tp_state p), []), eg_apply_switch = \<lambda>st i j k. (Inr st, []),
     eg_action_probabilities = \<lambda>st i. Inr [], eg_post_ko_switch = \<lambda>st i. Inr None\<rparr>"

definition sample_config :: sweep_config where
  "sample_config = \<lparr>sc_tie_winner = P1, sc_extra_pre_inject = [], sc_side0 = default_overrides, sc_side1 = default_overrides\<rparr>"

theorem decision_boundary_contract_witness:
  "\<exists>x. fst (run_to_decision_boundary idle_engine sample_battle (One (move_action 0)) (One (move_action 0)) sample_config []) = Inr x"
proof -
  obtain luck where luck: "build_sweep_luck sample_config = Inr luck"
    by (simp add: build_sweep_luck_def pre_inject_payload_def sample_config_def build_side_profile_def default_overrides_def
        apply_side_crits_def apply_side_rolls_def crit_threshold_of_def)
  have "needs_replacement (side_of sample_battle P0) = Inr False" "needs_replacement (side_of sample_battle P1) = Inr False"
    "fainted_slots (side_of sample_battle P1) = Inr []"
    by code_simp+
  then have "fst (run_to_decision_boundary idle_engine sample_battle (One (move_action 0)) (One (move_action 0)) sample_config [])
      \<noteq> Inl UnportedTurn"
    using luck build_sweep_luck_inject[OF luck]
    by (auto simp: run_to_decision_boundary_def drive_turn_def run_one_turn_cpp_def encode_actions_def idle_engine_def
        catch_trial_def)
  with luck show ?thesis
    using decision_boundary_contract[of sample_config _ idle_engine sample_battle "One (move_action 0)" "One (move_action 0)" "[]" luck]
    by blast
qed

end
