(* ===== verification/SweepReconcile.thy ===== *)
theory SweepReconcile
  imports SweepDriver
begin

text \<open>
  The consistency layer of the sweep (\<open>sweep_reconcile.py\<close>): what the observed messages force on a
  simulated state (level-ups, released bindings, ended rampages), and the checks that compare a
  simulated turn with what was observed: its log, its action order, its HP values and the number of
  HP changes. The distance of \<open>rapidfuzz\<close> is an argument. The texts of the failure reasons are not
  modelled: a check gives its verdict or raises.
\<close>

unbundle bit_operations_syntax

section \<open>Tables\<close>

definition USEDMOVE_ID :: string where
  "USEDMOVE_ID = ''STRINGID_USEDMOVE''"

definition FAINT_MSG_IDS :: "string list" where
  "FAINT_MSG_IDS = [''STRINGID_ATTACKERFAINTED'', ''STRINGID_TARGETFAINTED'']"

definition STATUS_APPLY_IDS :: "(string \<times> status) list" where
  "STATUS_APPLY_IDS = [
     (''STRINGID_PKMNFELLASLEEP'', St_SLEEP), (''STRINGID_PKMNMADESLEEP'', St_SLEEP),
     (''STRINGID_PKMNWASPOISONED'', St_POISON), (''STRINGID_PKMNBADLYPOISONED'', St_TOXIC),
     (''STRINGID_PKMNWASBURNED'', St_BURN), (''STRINGID_PKMNWASFROZEN'', St_FREEZE),
     (''STRINGID_PKMNWASPARALYZED'', St_PARALYSIS), (''STRINGID_PKMNWASPARALYZEDBY'', St_PARALYSIS)]"

definition STAT_ROSE_WITH_NAME_IDS :: "string list" where
  "STAT_ROSE_WITH_NAME_IDS = [''STRINGID_ATTACKERSSTATROSE'', ''STRINGID_DEFENDERSSTATROSE'',
     ''STRINGID_ATTACKERSTATROSTEDRASTICALLY'', ''STRINGID_DEFENDERSTATROSTEDRASTICALLY'',
     ''STRINGID_STATROSEFROMITEM'', ''STRINGID_STATSHARPLYROSEFROMITEM'']"

definition STAT_FELL_WITH_NAME_IDS :: "string list" where
  "STAT_FELL_WITH_NAME_IDS = [''STRINGID_ATTACKERSSTATFELL'', ''STRINGID_DEFENDERSSTATFELL'',
     ''STRINGID_ATTACKERSTATFELLSEVERELY'', ''STRINGID_DEFENDERSTATFELLSEVERELY'',
     ''STRINGID_STATFELLFROMITEM'', ''STRINGID_STATHARSHLYFELLFROMIITEM'']"

definition STAT_USING_ITEM_ID :: string where
  "STAT_USING_ITEM_ID = ''STRINGID_USINGITEMSTATOFPKMNROSE''"

definition STAT_FRAGMENT_IDS :: "string list" where
  "STAT_FRAGMENT_IDS = [''STRINGID_STATROSE'', ''STRINGID_STATSHARPLY'', ''STRINGID_STATFELL'', ''STRINGID_STATHARSHLY'']"

definition STATUS_MULTIVAR_IDS :: "string list" where
  "STATUS_MULTIVAR_IDS = [''STRINGID_PKMNMADESLEEP'', ''STRINGID_PKMNWASPARALYZEDBY'']"

definition BINDING_FREED_ID :: string where
  "BINDING_FREED_ID = ''STRINGID_PKMNFREEDFROM''"

definition RAMPAGE_END_ID :: string where
  "RAMPAGE_END_ID = ''STRINGID_PKMNFATIGUECONFUSION''"

definition HEAL_RESTORE_STRING_IDS :: "string list" where
  "HEAL_RESTORE_STRING_IDS = [''STRINGID_PKMNSITEMRESTOREDHEALTH'', ''STRINGID_PKMNSITEMRESTOREDHPALITTLE'']"

definition CHEEK_POUCH_LABEL :: string where
  "CHEEK_POUCH_LABEL = ''CHEEK POUCH''"

section \<open>Observed level-ups\<close>

definition recalc_stats :: "game_data \<Rightarrow> pokemon_state \<Rightarrow> pokemon_state res" where
  "recalc_stats gd mon =
     rbind (species_stats gd mon) (\<lambda>new_stats.
     rbind (if pk_species mon = Species_SHEDINJA then Inr (1, min 1 (pk_hp mon))
            else rbind (lk new_stats 0) (\<lambda>m. Inr (m, min m (pk_hp mon + (m - pk_max_hp mon))))) (\<lambda>hp.
       Inr (mon\<lparr>pk_stats := new_stats, pk_max_hp := fst hp, pk_hp := snd hp\<rparr>)))"

definition species_name_matches :: "distance \<Rightarrow> game_data \<Rightarrow> string \<Rightarrow> species option \<Rightarrow> bool" where
  "species_name_matches lev gd bare_name sp = (case sp of
       None \<Rightarrow> False
     | Some s \<Rightarrow> (let sn = emulator_species_name gd s in lev (upper bare_name) sn \<le> species_match_threshold sn))"

text \<open>The loop that collects \<open>observed_max\<close>, a dictionary in insertion order.\<close>

definition observe_level :: "(string \<times> int) list \<Rightarrow> match_result \<Rightarrow> (string \<times> int) list res" where
  "observe_level d m =
     (if mr_string_id m = ''STRINGID_PKMNGREWTOLV'' \<and> length (mr_var_values m) \<ge> 2 then
        let name = mr_var_values m ! 0 in
        rbind (parse_int (mr_var_values m ! 1)) (\<lambda>level.
          Inr (if level > (case map_of d name of None \<Rightarrow> 0 | Some n \<Rightarrow> n) then AList.update name level d else d))
      else Inr d)"

definition observed_levels :: "match_result list \<Rightarrow> (string \<times> int) list res" where
  "observed_levels msgs = rfold observe_level [] msgs"

text \<open>One entry of it applied to the team.\<close>

definition apply_levelup :: "distance \<Rightarrow> game_data \<Rightarrow> pokemon_state list \<Rightarrow> string \<times> int \<Rightarrow> pokemon_state list res" where
  "apply_levelup lev gd team nl =
     (case filter (\<lambda>i. species_name_matches lev gd (fst nl) (Some (pk_species (team ! i))) \<and> pk_level (team ! i) < snd nl)
             [0..<length team] of
        [] \<Rightarrow> Inr team
      | [idx] \<Rightarrow>
          let mon = team ! idx in
          rbind (dict_get (gd_species gd) (pk_species mon)) (\<lambda>sp.
          rbind (recalc_stats gd (mon\<lparr>pk_level := snd nl,
                   pk_exp := max (pk_exp mon) (exp_for_level (sp_growth_rate sp) (snd nl))\<rparr>)) (\<lambda>mon'.
            Inr (team[idx := mon'])))
      | _ \<Rightarrow> Inl (SimulationError AmbiguousLevelUp))"

definition apply_observed_levelups :: "distance \<Rightarrow> game_data \<Rightarrow> battle_state \<Rightarrow> match_result list \<Rightarrow> battle_state res" where
  "apply_observed_levelups lev gd st msgs =
     rbind (observed_levels msgs) (\<lambda>d.
     rbind (rfold (apply_levelup lev gd) (sd_team (side_of st P0)) d) (\<lambda>team.
       Inr (if d = [] then st else with_side st P0 ((side_of st P0)\<lparr>sd_team := team\<rparr>))))"

section \<open>Observed releases\<close>

text \<open>The sides named by the messages with a given identifier.\<close>

definition hinted_sides :: "string \<Rightarrow> match_result list \<Rightarrow> sid list" where
  "hinted_sides msg_id msgs = filter (\<lambda>i. \<exists>m \<in> set msgs. mr_string_id m = msg_id \<and> mr_var_values m \<noteq> [] \<and> mr_side_hint m = Some i) [P0, P1]"

text \<open>The loop over the active mons of a side that rewrites the ones with a given timed effect.\<close>

definition rewrite_active :: "volatile_effect \<Rightarrow> (pokemon_state \<Rightarrow> pokemon_state) \<Rightarrow> side_state \<Rightarrow> side_state res" where
  "rewrite_active eff f s =
     rbind (rfold (\<lambda>new_team ti. rbind (lk (sd_team s) ti) (\<lambda>mon.
              Inr (if eff \<in> fst ` set (pk_timed_volatiles mon) then new_team[ti := f mon] else new_team)))
            (sd_team s) (sd_active_indices s))
       (\<lambda>team. Inr (s\<lparr>sd_team := team\<rparr>))"

definition rewrite_sides :: "volatile_effect \<Rightarrow> (pokemon_state \<Rightarrow> pokemon_state) \<Rightarrow> battle_state \<Rightarrow> sid list \<Rightarrow> battle_state res" where
  "rewrite_sides eff f st sides =
     rfold (\<lambda>st' i. rbind (rewrite_active eff f (side_of st i)) (\<lambda>s. Inr (with_side st' i s))) st sides"

definition release_bound :: "pokemon_state \<Rightarrow> pokemon_state" where
  "release_bound mon = mon\<lparr>pk_timed_volatiles :=
     filter (\<lambda>x. fst x \<notin> {VE_BOUND, VE_BOUND_SOURCE_SLOT, VE_BOUND_SOURCE_ID}) (pk_timed_volatiles mon)\<rparr>"

definition end_rampage :: "pokemon_state \<Rightarrow> pokemon_state" where
  "end_rampage mon = mon\<lparr>
     pk_timed_volatiles := filter (\<lambda>x. fst x \<noteq> VE_RAMPAGING) (pk_timed_volatiles mon),
     pk_volatiles := (pk_volatiles mon AND (NOT Volatile_LOCKED_MOVE)) OR Volatile_CONFUSED,
     pk_locked_slot := -1\<rparr>"

definition apply_observed_wrap_release :: "battle_state \<Rightarrow> match_result list \<Rightarrow> battle_state res" where
  "apply_observed_wrap_release st msgs = rewrite_sides VE_BOUND release_bound st (hinted_sides BINDING_FREED_ID msgs)"

definition apply_observed_rampage_end :: "battle_state \<Rightarrow> match_result list \<Rightarrow> battle_state res" where
  "apply_observed_rampage_end st msgs = rewrite_sides VE_RAMPAGING end_rampage st (hinted_sides RAMPAGE_END_ID msgs)"

section \<open>Skeletons\<close>

datatype token_kind = M_token | F_token

definition observed_event_skeleton :: "match_result list \<Rightarrow> (token_kind \<times> sid \<times> string) list" where
  "observed_event_skeleton msgs = List.map_filter (\<lambda>m. case mr_var_values m of
       [] \<Rightarrow> None
     | name # _ \<Rightarrow>
         if mr_string_id m = USEDMOVE_ID then Some (M_token, msg_side m, name)
         else if mr_string_id m \<in> set FAINT_MSG_IDS then Some (F_token, msg_side m, name)
         else None) msgs"

definition sim_event_skeleton :: "capture \<Rightarrow> (token_kind \<times> int option \<times> species option) list" where
  "sim_event_skeleton cap = List.map_filter (\<lambda>x.
       if fst x = LE_MOVE_USE then Some (M_token, None, kw_user (snd x))
       else if fst x = LE_FAINT then Some (F_token, kw_side (snd x), kw_pokemon (snd x))
       else None) cap"

definition tokens_agree :: "distance \<Rightarrow> game_data \<Rightarrow> token_kind \<times> sid \<times> string \<Rightarrow> token_kind \<times> int option \<times> species option \<Rightarrow> bool" where
  "tokens_agree lev gd o_tok s_tok = (case (o_tok, s_tok) of ((ok, os, nm), (sk, ss, sp)) \<Rightarrow>
     ok = sk \<and> (ok = F_token \<longrightarrow> ss = Some (sid_int os) \<and> species_name_matches lev gd nm sp))"

definition faint_skeleton_consistent :: "distance \<Rightarrow> game_data \<Rightarrow> (token_kind \<times> sid \<times> string) list
    \<Rightarrow> (token_kind \<times> int option \<times> species option) list \<Rightarrow> bool" where
  "faint_skeleton_consistent lev gd observed_skel sim_skel =
     (if F_token \<notin> fst ` set observed_skel \<and> F_token \<notin> fst ` set sim_skel then True
      else length observed_skel = length sim_skel
        \<and> list_all (\<lambda>x. tokens_agree lev gd (fst x) (snd x)) (zip observed_skel sim_skel))"

definition status_msg_target :: "match_result \<Rightarrow> (sid \<times> string) option" where
  "status_msg_target m =
     (if mr_var_values m = [] then None
      else if mr_string_id m \<in> set STATUS_MULTIVAR_IDS then
        (if length (mr_var_values m) < 3 then None
         else Some (if msg_is_foe m then P0 else P1, last (mr_var_values m)))
      else Some (msg_side m, hd (mr_var_values m)))"

definition event_attributed_to :: "distance \<Rightarrow> game_data \<Rightarrow> capture \<Rightarrow> log_event \<Rightarrow> sid \<Rightarrow> string \<Rightarrow> (kwargs \<Rightarrow> bool) \<Rightarrow> nat" where
  "event_attributed_to lev gd cap ev side name flt = length (filter (\<lambda>kw. kw_side kw = Some (sid_int side)
     \<and> species_name_matches lev gd name (kw_target kw) \<and> flt kw) (of_event cap ev))"

definition restore_msg_is_cheek_pouch :: "distance \<Rightarrow> match_result \<Rightarrow> bool" where
  "restore_msg_is_cheek_pouch lev m = (case mr_var_values m of
       _ # src # _ \<Rightarrow> lev (upper src) CHEEK_POUCH_LABEL \<le> species_match_threshold CHEEK_POUCH_LABEL
     | _ \<Rightarrow> False)"

section \<open>The log against the messages\<close>

definition PRESENCE_EVENTS :: "(string \<times> log_event) list" where
  "PRESENCE_EVENTS = [
     (''STRINGID_CRITICALHIT'', LE_CRIT), (''STRINGID_PKMNFLINCHED'', LE_CANT_FLINCH),
     (''STRINGID_PKMNISPARALYZED'', LE_CANT_PARALYSIS), (''STRINGID_PKMNFASTASLEEP'', LE_CANT_SLEEP),
     (''STRINGID_PKMNISFROZEN'', LE_CANT_FROZEN), (''STRINGID_PKMNIMMOBILIZEDBYLOVE'', LE_CANT_INFATUATION),
     (''STRINGID_ITHURTCONFUSION'', LE_HIT_SELF_CONFUSION), (''STRINGID_ATTACKMISSED'', LE_MOVE_MISS)]"

definition check_presence :: "capture \<Rightarrow> match_result list \<Rightarrow> bool" where
  "check_presence cap msgs = list_all (\<lambda>x. fst x \<in> mr_string_id ` set msgs \<longrightarrow> fired cap (snd x) (\<lambda>_. True)) PRESENCE_EVENTS"

definition check_status_msg :: "distance \<Rightarrow> game_data \<Rightarrow> capture \<Rightarrow> match_result \<Rightarrow> bool" where
  "check_status_msg lev gd cap m = (case map_of STATUS_APPLY_IDS (mr_string_id m) of
       None \<Rightarrow> True
     | Some stt \<Rightarrow> (case status_msg_target m of
           None \<Rightarrow> fired cap LE_STATUS_APPLY (\<lambda>kw. kw_status kw = Some stt)
         | Some (side, name) \<Rightarrow> event_attributed_to lev gd cap LE_STATUS_APPLY side name (\<lambda>kw. kw_status kw = Some stt) \<ge> 1))"

text \<open>A stat change of the named mon in one direction.\<close>

definition boosted :: "distance \<Rightarrow> game_data \<Rightarrow> capture \<Rightarrow> sid \<Rightarrow> string \<Rightarrow> (int \<Rightarrow> bool) \<Rightarrow> bool" where
  "boosted lev gd cap side name dir = (\<exists>kw \<in> set (of_event cap LE_STAT_BOOST). kw_side kw = Some (sid_int side)
     \<and> species_name_matches lev gd name (kw_target kw) \<and> dir (case kw_stages kw of None \<Rightarrow> 0 | Some n \<Rightarrow> n))"

definition check_stat_msg :: "distance \<Rightarrow> game_data \<Rightarrow> capture \<Rightarrow> match_result \<Rightarrow> bool res" where
  "check_stat_msg lev gd cap m =
     (if mr_string_id m \<in> set STAT_ROSE_WITH_NAME_IDS \<and> mr_var_values m \<noteq> [] then
        Inr (boosted lev gd cap (msg_side m) (hd (mr_var_values m)) (\<lambda>n. n > 0))
      else if mr_string_id m \<in> set STAT_FELL_WITH_NAME_IDS \<and> mr_var_values m \<noteq> [] then
        Inr (boosted lev gd cap (msg_side m) (hd (mr_var_values m)) (\<lambda>n. n < 0))
      else if mr_string_id m = STAT_USING_ITEM_ID then
        (if length (mr_var_values m) \<ge> 3 then
           (case side_of_name_slot m 2 of
              None \<Rightarrow> Inl (SimulationError StatBoostSideUnknown)
            | Some side \<Rightarrow> Inr (boosted lev gd cap side (mr_var_values m ! 2) (\<lambda>n. n > 0)))
         else Inl (SimulationError StatBoostNameMissing))
      else Inr True)"

text \<open>
  A message that is a fragment and no other kind of stat message. A message of the named kinds
  without a name falls through to the later branches, of which it matches none.
\<close>

definition check_stats :: "distance \<Rightarrow> game_data \<Rightarrow> capture \<Rightarrow> match_result list \<Rightarrow> bool res" where
  "check_stats lev gd cap msgs = rall_checks [
     rall (check_stat_msg lev gd cap) msgs,
     Inr ((\<exists>m \<in> set msgs. mr_string_id m \<in> set STAT_FRAGMENT_IDS) \<longrightarrow> fired cap LE_STAT_BOOST (\<lambda>_. True))]"

definition check_confusion_msg :: "distance \<Rightarrow> game_data \<Rightarrow> capture \<Rightarrow> match_result \<Rightarrow> bool" where
  "check_confusion_msg lev gd cap m =
     (if mr_string_id m \<noteq> ''STRINGID_PKMNWASCONFUSED'' then True
      else case mr_var_values m of
        [] \<Rightarrow> fired cap LE_VOLATILE_APPLY (\<lambda>kw. kw_volatile kw = Some ''confused'')
      | name # _ \<Rightarrow> event_attributed_to lev gd cap LE_VOLATILE_APPLY (msg_side m) name (\<lambda>kw. kw_volatile kw = Some ''confused'') \<ge> 1)"

definition check_hit_count :: "distance \<Rightarrow> game_data \<Rightarrow> capture \<Rightarrow> match_result list \<Rightarrow> nat \<Rightarrow> bool res" where
  "check_hit_count lev gd cap msgs i =
     (let m = msgs ! i in
      if mr_string_id m = ''STRINGID_HITXTIMES'' \<and> mr_var_values m \<noteq> [] then
        (case parse_int (hd (mr_var_values m)) of
           Inl _ \<Rightarrow> Inr True
         | Inr expected \<Rightarrow>
             (case find (\<lambda>p. mr_string_id p = USEDMOVE_ID \<and> mr_var_values p \<noteq> []) (rev (take i msgs)) of
                None \<Rightarrow> Inl (SimulationError HitsWithoutMove)
              | Some am \<Rightarrow> Inr (int (length (filter (\<lambda>kw. kw_side kw = Some (sid_int (msg_side am))
                    \<and> species_name_matches lev gd (hd (mr_var_values am)) (kw_user kw)) (of_event cap LE_HITCOUNT))) = expected)))
      else Inr True)"

definition check_no_change :: "capture \<Rightarrow> (int \<times> int) list list \<Rightarrow> species option \<Rightarrow> bool res" where
  "check_no_change cap opponent_hp_deltas opp_species =
     (if list_all (\<lambda>d. d = []) opponent_hp_deltas \<and> opp_species \<noteq> None
      then rbind (total_side_move_damage cap P1) (\<lambda>n. Inr (n = 0)) else Inr True)"

text \<open>Restores: the observed messages of one source per side against the log's heals of that source.\<close>

definition restore_side :: "match_result \<Rightarrow> sid" where
  "restore_side m = (case mr_side_hint m of Some s \<Rightarrow> s | None \<Rightarrow> msg_side m)"

definition observed_restores :: "distance \<Rightarrow> match_result list \<Rightarrow> bool \<Rightarrow> sid \<Rightarrow> nat" where
  "observed_restores lev msgs pouch side = length (filter (\<lambda>m. mr_string_id m \<in> set HEAL_RESTORE_STRING_IDS
     \<and> restore_msg_is_cheek_pouch lev m = pouch \<and> restore_side m = side) msgs)"

definition check_restores :: "distance \<Rightarrow> capture \<Rightarrow> match_result list \<Rightarrow> string \<Rightarrow> bool \<Rightarrow> bool res" where
  "check_restores lev cap msgs src pouch =
     (let obs = observed_restores lev msgs pouch; heals = all_of cap LE_HEAL (\<lambda>kw. kw_source kw = Some src) in
      if obs P0 \<noteq> 0 \<or> obs P1 \<noteq> 0 \<or> heals \<noteq> [] then
        if list_all (\<lambda>kw. kw_side kw \<in> {Some 0, Some 1}) heals
        then Inr (\<forall>i \<in> {P0, P1}. obs i = length (filter (\<lambda>kw. kw_side kw = Some (sid_int i)) heals))
        else Inl (SimulationError HealSideInvalid)
      else Inr True)"

definition check_exp :: "capture \<Rightarrow> match_result list \<Rightarrow> bool res" where
  "check_exp cap msgs =
     (let exp_messages = filter (\<lambda>m. mr_string_id m = ''STRINGID_PKMNGAINEDEXP'') msgs in
      rbind (rmap amount_of (of_event cap LE_EXP_GAIN)) (\<lambda>gains.
        if length exp_messages \<noteq> length gains then Inr False
        else rall (\<lambda>x. rbind (lk (mr_var_values (fst x)) 1) (\<lambda>v. rbind (parse_int v) (\<lambda>n. Inr (n = snd x))))
               (zip exp_messages gains)))"

definition check_levels :: "capture \<Rightarrow> match_result list \<Rightarrow> bool res" where
  "check_levels cap msgs =
     rbind (rmap (\<lambda>m. rbind (lk (mr_var_values m) 1) parse_int)
              (filter (\<lambda>m. mr_string_id m = ''STRINGID_PKMNGREWTOLV'') msgs)) (\<lambda>observed.
     rbind (rmap (\<lambda>kw. case kw_new_level kw of None \<Rightarrow> Inl KeyError | Some n \<Rightarrow> Inr n) (of_event cap LE_LEVEL_UP)) (\<lambda>sim.
       Inr (set sim \<subseteq> set observed)))"

definition check_log_events :: "distance \<Rightarrow> game_data \<Rightarrow> capture \<Rightarrow> match_result list \<Rightarrow> (int \<times> int) list list
    \<Rightarrow> species option \<Rightarrow> bool res" where
  "check_log_events lev gd cap msgs opponent_hp_deltas opp_species = rall_checks [
     Inr (check_presence cap msgs),
     Inr (list_all (check_status_msg lev gd cap) msgs),
     check_stats lev gd cap msgs,
     Inr (list_all (check_confusion_msg lev gd cap) msgs),
     rall (check_hit_count lev gd cap msgs) [0..<length msgs],
     check_no_change cap opponent_hp_deltas opp_species,
     check_restores lev cap msgs ''berry'' False,
     check_restores lev cap msgs ''cheek_pouch'' True,
     check_exp cap msgs,
     check_levels cap msgs,
     Inr (faint_skeleton_consistent lev gd (observed_event_skeleton msgs) (sim_event_skeleton cap))]"

section \<open>Action order and HP\<close>

definition check_action_order :: "capture \<Rightarrow> sid list \<Rightarrow> bool" where
  "check_action_order cap observed_order =
     (if observed_order = [] then True
      else let sim_order = map kw_side (of_event cap LE_MOVE_USE); n = length observed_order in
        if length sim_order < n then False else take n sim_order = map (\<lambda>i. Some (sid_int i)) observed_order)"

definition resolve_record_team_idx :: "battle_state \<Rightarrow> hp_delta_seq \<Rightarrow> nat res" where
  "resolve_record_team_idx st r =
     (let s = side_of st (hd_side r); team = sd_team s in
      if hd_deltas r = [] then Inl IndexError
      else let final_val = snd (last (hd_deltas r));
               matching = filter (\<lambda>i. pk_species (team ! i) = hd_species r) [0..<length team];
               fainted = filter (\<lambda>i. pk_hp (team ! i) = 0) matching
           in case matching of
                [] \<Rightarrow> Inl (SimulationError UnknownRecordSpecies)
              | [i] \<Rightarrow> Inr i
              | _ \<Rightarrow>
                  if final_val = 0 \<and> length fainted = 1 then Inr (hd fainted)
                  else if hd_slot r < length (sd_active_indices s) \<and> sd_active_indices s ! hd_slot r \<in> set matching
                  then Inr (sd_active_indices s ! hd_slot r)
                  else Inl (SimulationError AmbiguousRecordSpecies))"

definition event_target_side :: "kwargs \<Rightarrow> int option" where
  "event_target_side kw = (case kw_defender_side kw of Some s \<Rightarrow> Some s | None \<Rightarrow> kw_side kw)"

text \<open>The signed change of one event, \<open>None\<close> when it is not one of the mon's.\<close>

definition hp_change :: "sid \<Rightarrow> species \<Rightarrow> log_event \<times> kwargs \<Rightarrow> int option" where
  "hp_change side sp x =
     (let kw = snd x;
          spec = (case fst x of
              LE_DAMAGE \<Rightarrow> Some (kw_target kw, kw_amount kw, -1)
            | LE_HEAL \<Rightarrow> Some (kw_target kw, kw_amount kw, 1)
            | LE_HIT_SELF_CONFUSION \<Rightarrow> Some (kw_pokemon kw, kw_damage kw, -1)
            | _ \<Rightarrow> None)
      in case spec of
           None \<Rightarrow> None
         | Some (who, amt, sg) \<Rightarrow>
             let amount = (case amt of None \<Rightarrow> 0 | Some n \<Rightarrow> n) in
             if who \<noteq> Some sp \<or> (event_target_side kw \<noteq> None \<and> event_target_side kw \<noteq> Some (sid_int side)) \<or> amount = 0
             then None else Some (sg * amount))"

definition sim_hp_changes :: "capture \<Rightarrow> sid \<Rightarrow> species \<Rightarrow> int list" where
  "sim_hp_changes cap side sp = List.map_filter (hp_change side sp) cap"

text \<open>The HP values before, between and after the changes, reconstructed backwards from the last one.\<close>

fun trajectory_back :: "int \<Rightarrow> int list \<Rightarrow> int list" where
  "trajectory_back hp [] = [hp]"
| "trajectory_back hp (d # ds) = hp # trajectory_back (hp - d) ds"

definition hp_trajectory :: "int \<Rightarrow> int list \<Rightarrow> int list" where
  "hp_trajectory final_hp changes = rev (trajectory_back final_hp (rev changes))"

text \<open>\<open>_hp_to_k\<close> with its division by zero.\<close>

definition bar_value :: "sid \<Rightarrow> int \<Rightarrow> int \<Rightarrow> int res" where
  "bar_value side max_hp hp = (if side = P0 then Inr hp
     else if hp > 0 \<and> max_hp = 0 then Inl ZeroDivisionError else Inr (hp_to_k hp max_hp))"

definition transitions :: "int list \<Rightarrow> nat" where
  "transitions vs = length (filter (\<lambda>x. fst x \<noteq> snd x) (neighbours vs))"

definition record_count_ok :: "battle_state \<Rightarrow> capture \<Rightarrow> hp_delta_seq \<Rightarrow> bool res" where
  "record_count_ok st cap r =
     (if hd_deltas r = [] then Inr True
      else rbind (resolve_record_team_idx st r) (\<lambda>ti.
        let traj = hp_trajectory (pk_hp (sd_team (side_of st (hd_side r)) ! ti)) (sim_hp_changes cap (hd_side r) (hd_species r)) in
        rbind (bar_value (hd_side r) (hd_max_hp r) (hd traj)) (\<lambda>recon_start.
          if recon_start \<noteq> fst (hd (hd_deltas r)) then Inr True
          else rbind (rmap (bar_value (hd_side r) (hd_max_hp r)) traj) (\<lambda>vs.
            Inr (transitions vs = length (filter (\<lambda>x. fst x \<noteq> snd x) (hd_deltas r)))))))"

definition hp_count_detail :: "battle_state \<Rightarrow> capture \<Rightarrow> hp_delta_seq list \<Rightarrow> bool res" where
  "hp_count_detail st cap hp_deltas = rall (record_count_ok st cap) hp_deltas"

definition record_hp_ok :: "battle_state \<Rightarrow> hp_delta_seq \<Rightarrow> bool res" where
  "record_hp_ok st r =
     (if hd_deltas r = [] then Inr True
      else rbind (resolve_record_team_idx st r) (\<lambda>ti.
        let actual_hp = pk_hp (sd_team (side_of st (hd_side r)) ! ti); final_val = snd (last (hd_deltas r)) in
        if hd_side r = P0 then Inr (actual_hp = final_val)
        else Inr (fst (hp_range final_val (hd_max_hp r)) \<le> actual_hp \<and> actual_hp \<le> snd (hp_range final_val (hd_max_hp r)))))"

definition hp_match_detail :: "battle_state \<Rightarrow> hp_delta_seq list \<Rightarrow> bool res" where
  "hp_match_detail st hp_deltas = rall (record_hp_ok st) hp_deltas"

section \<open>Per-slot views\<close>

record perslot =
  ps_player :: "(int \<times> int) list list"
  ps_opponent :: "(int \<times> int) list list"
  ps_max_hp :: "int list"

definition add_record :: "nat \<Rightarrow> nat \<Rightarrow> perslot \<Rightarrow> hp_delta_seq \<Rightarrow> perslot" where
  "add_record n0 n1 v r =
     (if hd_side r = P0 then
        (if hd_slot r < n0 then v\<lparr>ps_player := (ps_player v)[hd_slot r := hd_deltas r]\<rparr> else v)
      else if hd_slot r < n1 then
        v\<lparr>ps_opponent := (ps_opponent v)[hd_slot r := hd_deltas r], ps_max_hp := (ps_max_hp v)[hd_slot r := hd_max_hp r]\<rparr>
      else v)"

definition fill_max_hp :: "side_state \<Rightarrow> nat \<times> int \<Rightarrow> int" where
  "fill_max_hp s x = (if snd x \<noteq> 0 then snd x
     else let idx = sd_active_indices s ! fst x in
       if idx < length (sd_team s) then (let m = pk_max_hp (sd_team s ! idx) in if m = 0 then 1 else m) else 1)"

definition records_to_perslot :: "hp_delta_seq list \<Rightarrow> battle_state \<Rightarrow> perslot" where
  "records_to_perslot hp_deltas st =
     (let n0 = length (sd_active_indices (side_of st P0)); n1 = length (sd_active_indices (side_of st P1));
          v = foldl (add_record n0 n1) \<lparr>ps_player = replicate n0 [], ps_opponent = replicate n1 [], ps_max_hp = replicate n1 0\<rparr> hp_deltas
      in v\<lparr>ps_max_hp := map (fill_max_hp (side_of st P1)) (enumerated (ps_max_hp v))\<rparr>)"

definition has_fainted_active :: "battle_state \<Rightarrow> bool res" where
  "has_fainted_active st = rany (\<lambda>i. if side_has_living_bench (side_of st i) then side_has_fainted_active (side_of st i) else Inr False) [P0, P1]"

section \<open>Lemmas on level-ups\<close>

lemma recalc_stats_keeps:
  "recalc_stats gd mon = Inr mon' \<Longrightarrow> pk_species mon' = pk_species mon \<and> pk_level mon' = pk_level mon \<and> pk_exp mon' = pk_exp mon"
  by (auto simp: recalc_stats_def rbind_eq_Inr)

lemma apply_levelup_step:
  assumes "apply_levelup lev gd team (name, l) = Inr team'"
  shows "length team' = length team
    \<and> (\<forall>i < length team. pk_species (team' ! i) = pk_species (team ! i) \<and> pk_level (team ! i) \<le> pk_level (team' ! i)
        \<and> (species_name_matches lev gd name (Some (pk_species (team ! i))) \<longrightarrow> l \<le> pk_level (team' ! i)))"
proof -
  let ?low = "\<lambda>i. species_name_matches lev gd name (Some (pk_species (team ! i))) \<and> pk_level (team ! i) < l"
  show ?thesis
  proof (cases "filter ?low [0..<length team]")
    case Nil
    with assms have "team' = team" by (simp add: apply_levelup_def)
    moreover have "\<not> ?low i" if "i < length team" for i
      using Nil that by (simp add: filter_empty_conv)
    ultimately show ?thesis by (auto simp: not_less)
  next
    case (Cons idx rest)
    with assms have rest: "rest = []" by (cases rest) (auto simp: apply_levelup_def)
    with assms Cons obtain sp :: species_data and mon' where mon':
      "recalc_stats gd ((team ! idx)\<lparr>pk_level := l, pk_exp := max (pk_exp (team ! idx)) (exp_for_level (sp_growth_rate sp) l)\<rparr>) = Inr mon'"
      "team' = team[idx := mon']"
      by (simp add: apply_levelup_def Let_def rbind_eq_Inr) blast
    have "set (filter ?low [0..<length team]) = {idx}" by (subst Cons) (simp add: rest)
    then have at: "i < length team \<and> ?low i \<longleftrightarrow> i = idx" for i by (auto simp: set_eq_iff)
    then have idx: "idx < length team" by blast
    have low: "?low i \<longleftrightarrow> i = idx" if "i < length team" for i using at[of i] that by blast
    from recalc_stats_keeps[OF mon'(1)] have keep: "pk_species mon' = pk_species (team ! idx)" "pk_level mon' = l"
      by simp_all
    from low[of idx] idx have "pk_level (team ! idx) < l" by simp
    moreover have "team' ! i = (if i = idx then mon' else team ! i)" if "i < length team" for i
      using that mon'(2) by simp
    moreover have "l \<le> pk_level (team ! i)"
      if "i < length team" "i \<noteq> idx" "species_name_matches lev gd name (Some (pk_species (team ! i)))" for i
      using low[OF that(1)] that by linarith
    moreover have "length team' = length team" using mon'(2) by simp
    ultimately show ?thesis using keep by auto
  qed
qed

lemma apply_levelups_all:
  assumes "rfold (apply_levelup lev gd) team d = Inr team'"
  shows "length team' = length team
    \<and> (\<forall>i < length team. pk_species (team' ! i) = pk_species (team ! i) \<and> pk_level (team ! i) \<le> pk_level (team' ! i)
        \<and> (\<forall>(name, l) \<in> set d. species_name_matches lev gd name (Some (pk_species (team ! i))) \<longrightarrow> l \<le> pk_level (team' ! i)))"
  using assms
proof (induction d arbitrary: team)
  case (Cons nl d)
  obtain name l where nl: "nl = (name, l)" by (cases nl)
  from Cons.prems obtain t1 where t1: "apply_levelup lev gd team (name, l) = Inr t1" "rfold (apply_levelup lev gd) t1 d = Inr team'"
    by (auto simp: nl rbind_eq_Inr)
  note step = apply_levelup_step[OF t1(1)] and ih = Cons.IH[OF t1(2)]
  show ?case
  proof (intro conjI allI impI)
    show "length team' = length team" using step ih by simp
    fix i assume "i < length team"
    with step ih have s: "pk_species (t1 ! i) = pk_species (team ! i)" "pk_level (team ! i) \<le> pk_level (t1 ! i)"
      "species_name_matches lev gd name (Some (pk_species (team ! i))) \<longrightarrow> l \<le> pk_level (t1 ! i)"
      and r: "pk_species (team' ! i) = pk_species (t1 ! i)" "pk_level (t1 ! i) \<le> pk_level (team' ! i)"
      "\<forall>(name, l) \<in> set d. species_name_matches lev gd name (Some (pk_species (t1 ! i))) \<longrightarrow> l \<le> pk_level (team' ! i)"
      by auto
    from s r show "pk_species (team' ! i) = pk_species (team ! i)" "pk_level (team ! i) \<le> pk_level (team' ! i)"
      "\<forall>(name, l) \<in> set (nl # d). species_name_matches lev gd name (Some (pk_species (team ! i))) \<longrightarrow> l \<le> pk_level (team' ! i)"
      by (auto simp: nl)
  qed
qed simp

text \<open>The dictionary of observed levels only grows, and holds every positive observation.\<close>

definition level_in :: "(string \<times> int) list \<Rightarrow> string \<Rightarrow> int \<Rightarrow> bool" where
  "level_in d name l \<longleftrightarrow> (\<exists>l'. map_of d name = Some l' \<and> l \<le> l')"

lemma observe_level_grows:
  assumes "observe_level d m = Inr d'" "level_in d name l"
  shows "level_in d' name l"
  using assms
  by (auto simp: observe_level_def Let_def rbind_eq_Inr level_in_def update_conv' split: if_splits)

lemma observe_level_adds:
  assumes "observe_level d m = Inr d'" "mr_string_id m = ''STRINGID_PKMNGREWTOLV''" "length (mr_var_values m) \<ge> 2"
    and "parse_int (mr_var_values m ! 1) = Inr l" "0 < l"
  shows "level_in d' (mr_var_values m ! 0) l"
  using assms
  by (auto simp: observe_level_def Let_def level_in_def update_conv' split: if_splits option.splits)

lemma observed_levels_all:
  assumes "rfold observe_level d msgs = Inr d'"
  shows "(\<forall>name l. level_in d name l \<longrightarrow> level_in d' name l)
    \<and> (\<forall>m \<in> set msgs. \<forall>l. mr_string_id m = ''STRINGID_PKMNGREWTOLV'' \<and> length (mr_var_values m) \<ge> 2
        \<and> parse_int (mr_var_values m ! 1) = Inr l \<and> 0 < l \<longrightarrow> level_in d' (mr_var_values m ! 0) l)"
  using assms
proof (induction msgs arbitrary: d)
  case (Cons m msgs)
  then obtain d1 where d1: "observe_level d m = Inr d1" "rfold observe_level d1 msgs = Inr d'"
    by (auto simp: rbind_eq_Inr)
  note ih = Cons.IH[OF d1(2)]
  have "level_in d' name l" if "level_in d name l" for name l
    using observe_level_grows[OF d1(1) that] ih by blast
  moreover have "level_in d' (mr_var_values m' ! 0) l"
    if "m' \<in> set (m # msgs)" "mr_string_id m' = ''STRINGID_PKMNGREWTOLV''" "length (mr_var_values m') \<ge> 2"
      "parse_int (mr_var_values m' ! 1) = Inr l" "0 < l" for m' l
    using observe_level_adds[OF d1(1)] ih that by auto
  ultimately show ?case by blast
qed simp

section \<open>Lemmas on releases\<close>

lemma rewrite_active_fold:
  assumes "\<forall>i \<in> set as. i < length team" "length nt = length team"
  shows "\<exists>t. rfold (\<lambda>new_team ti. rbind (lk team ti) (\<lambda>mon.
              Inr (if eff \<in> fst ` set (pk_timed_volatiles mon) then new_team[ti := f mon] else new_team))) nt as = Inr t
       \<and> length t = length team
       \<and> (\<forall>j < length team. t ! j = (if j \<in> set as \<and> eff \<in> fst ` set (pk_timed_volatiles (team ! j)) then f (team ! j) else nt ! j))"
  using assms
proof (induction as arbitrary: nt)
  case (Cons a as)
  let ?nt = "if eff \<in> fst ` set (pk_timed_volatiles (team ! a)) then nt[a := f (team ! a)] else nt"
  have "length ?nt = length team" using Cons.prems by simp
  from Cons.IH[OF _ this] Cons.prems show ?case
    by (auto simp: nth_list_update split: if_splits)
qed simp

definition rewritten :: "volatile_effect \<Rightarrow> (pokemon_state \<Rightarrow> pokemon_state) \<Rightarrow> side_state \<Rightarrow> side_state" where
  "rewritten eff f s = s\<lparr>sd_team := map (\<lambda>j. if j \<in> set (sd_active_indices s) \<and> eff \<in> fst ` set (pk_timed_volatiles (sd_team s ! j))
     then f (sd_team s ! j) else sd_team s ! j) [0..<length (sd_team s)]\<rparr>"

lemma rewrite_active_exact:
  assumes "side_wf s"
  shows "rewrite_active eff f s = Inr (rewritten eff f s)"
proof -
  obtain t where t: "rfold (\<lambda>new_team ti. rbind (lk (sd_team s) ti) (\<lambda>mon.
              Inr (if eff \<in> fst ` set (pk_timed_volatiles mon) then new_team[ti := f mon] else new_team)))
            (sd_team s) (sd_active_indices s) = Inr t" "length t = length (sd_team s)"
       "\<forall>j < length (sd_team s). t ! j = (if j \<in> set (sd_active_indices s)
          \<and> eff \<in> fst ` set (pk_timed_volatiles (sd_team s ! j)) then f (sd_team s ! j) else sd_team s ! j)"
    using rewrite_active_fold[of "sd_active_indices s" "sd_team s" "sd_team s" eff f] assms by (auto simp: side_wf_def)
  have "t = sd_team (rewritten eff f s)"
    using t(2,3) by (intro nth_equalityI) (auto simp: rewritten_def)
  with t(1) show ?thesis by (simp add: rewrite_active_def rewritten_def)
qed

lemma rewritten_none: "\<forall>m. eff \<notin> fst ` set (pk_timed_volatiles (f m)) \<Longrightarrow> rewritten eff g (rewritten eff f s) = rewritten eff f s"
  by (auto simp: rewritten_def intro!: map_cong)

lemma rewritten_frame [simp]:
  "sd_active_indices (rewritten eff f s) = sd_active_indices s" "length (sd_team (rewritten eff f s)) = length (sd_team s)"
  "(rewritten eff f s)\<lparr>sd_team := sd_team s\<rparr> = s"
  by (simp_all add: rewritten_def)

lemma rewritten_wf [simp]: "side_wf (rewritten eff f s) = side_wf s"
  by (simp add: side_wf_def)

text \<open>The whole update: the named sides are rewritten, nothing else changes.\<close>

lemma rewrite_sides_exact:
  assumes "battle_wf st" "distinct sides"
  shows "\<exists>st'. rewrite_sides eff f st sides = Inr st' \<and> st'\<lparr>bs_sides := bs_sides st\<rparr> = st
    \<and> (\<forall>i. side_of st' i = (if i \<in> set sides then rewritten eff f (side_of st i) else side_of st i))"
proof -
  have "\<exists>st'. rfold (\<lambda>st' i. rbind (rewrite_active eff f (side_of st i)) (\<lambda>s. Inr (with_side st' i s))) s0 sides = Inr st'
      \<and> st'\<lparr>bs_sides := bs_sides s0\<rparr> = s0
      \<and> (\<forall>i. side_of st' i = (if i \<in> set sides then rewritten eff f (side_of st i) else side_of s0 i))" for s0
    using assms(2)
  proof (induction sides arbitrary: s0)
    case (Cons i sides)
    let ?s1 = "with_side s0 i (rewritten eff f (side_of st i))"
    obtain st' where st': "rfold (\<lambda>st' i. rbind (rewrite_active eff f (side_of st i)) (\<lambda>s. Inr (with_side st' i s))) ?s1 sides = Inr st'"
      "st'\<lparr>bs_sides := bs_sides ?s1\<rparr> = ?s1"
      "\<forall>j. side_of st' j = (if j \<in> set sides then rewritten eff f (side_of st j) else side_of ?s1 j)"
      using Cons.IH[of ?s1] Cons.prems by auto
    have "st'\<lparr>bs_sides := bs_sides s0\<rparr> = ?s1\<lparr>bs_sides := bs_sides s0\<rparr>"
      by (subst st'(2)[symmetric]) simp
    also have "\<dots> = s0" by (simp add: with_side_def)
    finally show ?case
      using st'(1,3) rewrite_active_exact[OF battle_wf_side[OF assms(1)], of eff f i] by auto
  qed simp
  then show ?thesis by (simp add: rewrite_sides_def)
qed

lemma rewrite_sides_idempotent:
  assumes "battle_wf st" "distinct sides" "rewrite_sides eff f st sides = Inr st'"
    and "\<forall>m. eff \<notin> fst ` set (pk_timed_volatiles (f m))"
  shows "rewrite_sides eff f st' sides = Inr st'"
proof -
  have st': "side_of st' i = (if i \<in> set sides then rewritten eff f (side_of st i) else side_of st i)" for i
    using rewrite_sides_exact[OF assms(1,2), of eff f] assms(3) by auto
  then have wf: "battle_wf st'"
    using battle_wf_side[OF assms(1)] by (simp add: battle_wf_def)
  obtain st'' where st'': "rewrite_sides eff f st' sides = Inr st''" "st''\<lparr>bs_sides := bs_sides st'\<rparr> = st'"
    "\<forall>i. side_of st'' i = (if i \<in> set sides then rewritten eff f (side_of st' i) else side_of st' i)"
    using rewrite_sides_exact[OF wf assms(2), of eff f] by auto
  have "side_of st'' i = side_of st' i" for i
    using st''(3) st' rewritten_none[OF assms(4)] by simp
  from this[of P0] this[of P1] have "bs_sides st'' = bs_sides st'"
    by (simp add: side_of_def prod_eq_iff)
  with st''(1,2) show ?thesis by (metis battle_state.surjective battle_state.update_convs(1))
qed

lemma hinted_sides_spec:
  "distinct (hinted_sides mid msgs)"
  "i \<in> set (hinted_sides mid msgs) \<longleftrightarrow> (\<exists>m \<in> set msgs. mr_string_id m = mid \<and> mr_var_values m \<noteq> [] \<and> mr_side_hint m = Some i)"
  by (cases i; auto simp: hinted_sides_def)+

section \<open>Lemmas on HP records\<close>

lemma resolve_record_team_idx_sound:
  assumes "resolve_record_team_idx st r = Inr i"
  shows "i < length (sd_team (side_of st (hd_side r))) \<and> pk_species (sd_team (side_of st (hd_side r)) ! i) = hd_species r"
proof -
  let ?team = "sd_team (side_of st (hd_side r))"
  let ?matching = "filter (\<lambda>i. pk_species (?team ! i) = hd_species r) [0..<length ?team]"
  have "i \<in> set ?matching"
  proof (cases ?matching)
    case Nil
    with assms show ?thesis by (simp add: resolve_record_team_idx_def Let_def split: if_splits)
  next
    case (Cons j js)
    have hd: "hd fs \<in> set (j # js)" if "fs = filter P (j # js)" "length fs = 1" for fs P
    proof -
      from that have "fs \<noteq> []" by auto
      then have "hd fs \<in> set fs" by simp
      with that(1) show ?thesis by (metis filter_is_subset subsetD)
    qed
    show ?thesis
    proof (cases js)
      case Nil
      with Cons assms show ?thesis by (auto simp: resolve_record_team_idx_def Let_def split: if_splits)
    next
      case (Cons k ks)
      then show ?thesis
        using assms \<open>?matching = j # js\<close> hd[OF refl, of "\<lambda>i. pk_hp (?team ! i) = 0"]
        by (simp add: resolve_record_team_idx_def Let_def split: if_splits)
    qed
  qed
  then show ?thesis by simp
qed

lemma trajectory_back_length [simp]: "length (trajectory_back hp ds) = Suc (length ds)"
  by (induction ds arbitrary: hp) simp_all

lemma trajectory_back_0 [simp]: "trajectory_back hp ds ! 0 = hp"
  by (cases ds) simp_all

lemma trajectory_back_step: "i < length ds \<Longrightarrow> trajectory_back hp ds ! Suc i = trajectory_back hp ds ! i - ds ! i"
proof (induction ds arbitrary: hp i)
  case (Cons d ds)
  then show ?case by (cases i) auto
qed simp

lemma hp_trajectory_step:
  assumes "i < length changes"
  shows "hp_trajectory h changes ! Suc i = hp_trajectory h changes ! i + changes ! i"
proof -
  let ?n = "length changes"
  have a: "hp_trajectory h changes ! j = trajectory_back h (rev changes) ! (?n - j)" if "j \<le> ?n" for j
    using that by (simp add: hp_trajectory_def rev_nth)
  have "trajectory_back h (rev changes) ! Suc (?n - Suc i) = trajectory_back h (rev changes) ! (?n - Suc i) - rev changes ! (?n - Suc i)"
    using assms by (intro trajectory_back_step) simp
  with a[of i] a[of "Suc i"] assms show ?thesis by (simp add: rev_nth Suc_diff_Suc)
qed

lemma hp_trajectory_length [simp]: "length (hp_trajectory h changes) = Suc (length changes)"
  by (simp add: hp_trajectory_def)

lemma transitions_card: "transitions xs = card {i. Suc i < length xs \<and> xs ! i \<noteq> xs ! Suc i}"
proof -
  have "neighbours xs ! i = (xs ! i, xs ! Suc i)" if "Suc i < length xs" for i
    using that by (simp add: neighbours_def nth_tl)
  then have "{i. i < length (neighbours xs) \<and> fst (neighbours xs ! i) \<noteq> snd (neighbours xs ! i)}
      = {i. Suc i < length xs \<and> xs ! i \<noteq> xs ! Suc i}"
    by (auto simp: less_diff_conv)
  then show ?thesis by (simp add: transitions_def length_filter_conv_card)
qed

lemma hp_trajectory_last: "last (hp_trajectory h changes) = h"
  by (cases "rev changes") (simp_all add: hp_trajectory_def last_rev)

section \<open>The changes of a mon's HP in a log\<close>

text \<open>
  The HP change that one logged event makes to the mon \<open>sp\<close> of \<open>side\<close>, stated per kind of event:
  damage takes the amount off its target, a heal adds it, and a mon that hits itself in its confusion
  loses the damage. An event that names a side, by the key of the defender or else by the plain key,
  counts only for a mon of that side.
\<close>

inductive names_side :: "sid \<Rightarrow> kwargs \<Rightarrow> bool" for side where
  defender: "kw_defender_side kw = Some (sid_int side) \<Longrightarrow> names_side side kw"
| plain: "\<lbrakk>kw_defender_side kw = None; kw_side kw = Some (sid_int side)\<rbrakk> \<Longrightarrow> names_side side kw"
| open_side: "\<lbrakk>kw_defender_side kw = None; kw_side kw = None\<rbrakk> \<Longrightarrow> names_side side kw"

inductive changes_mon :: "sid \<Rightarrow> species \<Rightarrow> log_event \<times> kwargs \<Rightarrow> int \<Rightarrow> bool" for side sp where
  damage: "\<lbrakk>kw_target kw = Some sp; names_side side kw; kw_amount kw = Some n; n \<noteq> 0\<rbrakk>
    \<Longrightarrow> changes_mon side sp (LE_DAMAGE, kw) (- n)"
| heal: "\<lbrakk>kw_target kw = Some sp; names_side side kw; kw_amount kw = Some n; n \<noteq> 0\<rbrakk>
    \<Longrightarrow> changes_mon side sp (LE_HEAL, kw) n"
| confusion: "\<lbrakk>kw_pokemon kw = Some sp; names_side side kw; kw_damage kw = Some n; n \<noteq> 0\<rbrakk>
    \<Longrightarrow> changes_mon side sp (LE_HIT_SELF_CONFUSION, kw) (- n)"

lemma names_side_iff:
  "names_side side kw \<longleftrightarrow> event_target_side kw = None \<or> event_target_side kw = Some (sid_int side)"
  by (auto simp: names_side.simps event_target_side_def split: option.splits)

lemma hp_change_iff: "hp_change side sp x = Some d \<longleftrightarrow> changes_mon side sp x d"
proof (cases x)
  case (Pair ev kw)
  show ?thesis
  proof (cases "ev \<in> {LE_DAMAGE, LE_HEAL, LE_HIT_SELF_CONFUSION}")
    case True
    then show ?thesis
      unfolding Pair by (elim insertE emptyE)
        (auto simp: hp_change_def changes_mon.simps names_side_iff Let_def split: option.splits if_splits)
  next
    case False
    then have "hp_change side sp x = None" unfolding Pair hp_change_def Let_def by (cases ev) simp_all
    moreover have "\<not> changes_mon side sp x d" using False unfolding Pair changes_mon.simps by auto
    ultimately show ?thesis by simp
  qed
qed

lemma trajectory_back_snoc:
  "trajectory_back hp (ds @ [d]) = trajectory_back hp ds @ [last (trajectory_back hp ds) - d]"
proof (induction ds arbitrary: hp)
  case (Cons e ds)
  have "trajectory_back (hp - e) ds \<noteq> []" by (cases ds) simp_all
  then show ?case using Cons by simp
qed simp

lemma hp_trajectory_Nil [simp]: "hp_trajectory h [] = [h]"
  by (simp add: hp_trajectory_def)

lemma hp_trajectory_Cons:
  "hp_trajectory h (d # ds) = (hd (hp_trajectory h ds) - d) # hp_trajectory h ds"
  by (simp add: hp_trajectory_def trajectory_back_snoc hd_rev)

lemma transitions_Cons: "xs \<noteq> [] \<Longrightarrow> transitions (x # xs) = (if x = hd xs then 0 else 1) + transitions xs"
  by (cases xs) (simp_all add: transitions_def neighbours_def)

text \<open>
  The HP of the mon before and after every event of the log, one value more than there are events: an
  event that is not one of the mon's repeats the value.
\<close>

definition log_hp :: "int \<Rightarrow> sid \<Rightarrow> species \<Rightarrow> capture \<Rightarrow> int list" where
  "log_hp h side sp cap = hp_trajectory h (map (\<lambda>x. case hp_change side sp x of None \<Rightarrow> 0 | Some d \<Rightarrow> d) cap)"

lemma log_hp_length [simp]: "length (log_hp h side sp cap) = Suc (length cap)"
  by (simp add: log_hp_def)

lemma log_hp_last: "last (log_hp h side sp cap) = h"
  by (simp add: log_hp_def hp_trajectory_last)

lemma log_hp_step:
  assumes "k < length cap"
  shows "changes_mon side sp (cap ! k) d \<Longrightarrow> log_hp h side sp cap ! Suc k = log_hp h side sp cap ! k + d"
    and "(\<And>d. \<not> changes_mon side sp (cap ! k) d) \<Longrightarrow> log_hp h side sp cap ! Suc k = log_hp h side sp cap ! k"
  using assms hp_trajectory_step[of k "map (\<lambda>x. case hp_change side sp x of None \<Rightarrow> 0 | Some d \<Rightarrow> d) cap" h]
  by (auto simp: log_hp_def hp_change_iff[symmetric] split: option.splits)

lemma log_hp_changes:
  "hd (log_hp h side sp cap) = hd (hp_trajectory h (sim_hp_changes cap side sp))
    \<and> transitions (map g (log_hp h side sp cap)) = transitions (map g (hp_trajectory h (sim_hp_changes cap side sp)))"
proof (induction cap)
  case Nil
  then show ?case by (simp add: log_hp_def sim_hp_changes_def map_filter_simps)
next
  case (Cons x cap)
  have ne: "log_hp h side sp cap \<noteq> []" "hp_trajectory h ds \<noteq> []" for ds
    by (simp_all flip: length_greater_0_conv)
  show ?case
  proof (cases "hp_change side sp x")
    case None
    have "log_hp h side sp (x # cap) = hd (log_hp h side sp cap) # log_hp h side sp cap"
      by (simp add: log_hp_def hp_trajectory_Cons None)
    moreover have "sim_hp_changes (x # cap) side sp = sim_hp_changes cap side sp"
      by (simp add: sim_hp_changes_def map_filter_simps None)
    ultimately show ?thesis using Cons.IH ne by (simp add: transitions_Cons hd_map)
  next
    case (Some d)
    have "log_hp h side sp (x # cap) = (hd (log_hp h side sp cap) - d) # log_hp h side sp cap"
      by (simp add: log_hp_def hp_trajectory_Cons Some)
    moreover have "sim_hp_changes (x # cap) side sp = d # sim_hp_changes cap side sp"
      by (simp add: sim_hp_changes_def map_filter_simps Some)
    ultimately show ?thesis using Cons.IH ne by (simp add: hp_trajectory_Cons transitions_Cons hd_map)
  qed
qed

section \<open>What each check of the log means\<close>

lemma mem_of_event: "kw \<in> set (of_event cap ev) \<longleftrightarrow> (ev, kw) \<in> set cap"
  by (force simp: of_event_def)

lemma capture_fired_iff: "fired cap ev flt \<longleftrightarrow> (\<exists>kw. (ev, kw) \<in> set cap \<and> flt kw)"
  by (auto simp: fired_def all_of_def filter_empty_conv mem_of_event)

lemma attributed_iff:
  "1 \<le> event_attributed_to lev gd cap ev side name flt \<longleftrightarrow>
     (\<exists>kw. (ev, kw) \<in> set cap \<and> kw_side kw = Some (sid_int side) \<and> species_name_matches lev gd name (kw_target kw) \<and> flt kw)"
proof -
  have "1 \<le> length xs \<longleftrightarrow> (\<exists>x. x \<in> set xs)" for xs :: "kwargs list" by (cases xs) auto
  then show ?thesis by (auto simp: event_attributed_to_def mem_of_event)
qed

lemma check_status_msg_sound:
  assumes "check_status_msg lev gd cap m" "map_of STATUS_APPLY_IDS (mr_string_id m) = Some stt"
  shows "\<exists>kw. (LE_STATUS_APPLY, kw) \<in> set cap \<and> kw_status kw = Some stt \<and> (\<forall>side name. status_msg_target m = Some (side, name) \<longrightarrow>
    kw_side kw = Some (sid_int side) \<and> species_name_matches lev gd name (kw_target kw))"
proof (cases "status_msg_target m")
  case None
  with assms show ?thesis by (simp add: check_status_msg_def capture_fired_iff)
next
  case (Some sn)
  obtain side name where sn: "sn = (side, name)" by (cases sn)
  with Some assms have "1 \<le> event_attributed_to lev gd cap LE_STATUS_APPLY side name (\<lambda>kw. kw_status kw = Some stt)"
    by (simp add: check_status_msg_def)
  then show ?thesis unfolding attributed_iff using Some sn by auto
qed

lemma check_exp_sound:
  assumes "check_exp cap msgs = Inr True"
  shows "\<exists>amounts. map (\<lambda>m. rbind (lk (mr_var_values m) 1) parse_int) (filter (\<lambda>m. mr_string_id m = ''STRINGID_PKMNGAINEDEXP'') msgs) = map Inr amounts
    \<and> map kw_amount (of_event cap LE_EXP_GAIN) = map Some amounts"
proof -
  let ?ms = "filter (\<lambda>m. mr_string_id m = ''STRINGID_PKMNGAINEDEXP'') msgs"
  from assms obtain gains where g: "rmap amount_of (of_event cap LE_EXP_GAIN) = Inr gains" "length ?ms = length gains"
    "rall (\<lambda>x. rbind (lk (mr_var_values (fst x)) 1) (\<lambda>v. rbind (parse_int v) (\<lambda>n. Inr (n = snd x)))) (zip ?ms gains) = Inr True"
    by (auto simp: check_exp_def Let_def rbind_eq_Inr split: if_splits)
  have "map (\<lambda>m. rbind (lk (mr_var_values m) 1) parse_int) ?ms = map Inr gains"
  proof (rule nth_equalityI)
    fix i assume "i < length (map (\<lambda>m. rbind (lk (mr_var_values m) 1) parse_int) ?ms)"
    then have i: "i < length ?ms" by simp
    then have "zip ?ms gains ! i \<in> set (zip ?ms gains)" using g(2) by (intro nth_mem) simp
    with g(2,3) i have "rbind (lk (mr_var_values (?ms ! i)) 1) (\<lambda>v. rbind (parse_int v) (\<lambda>n. Inr (n = gains ! i))) = Inr True"
      unfolding rall_True by force
    then have "rbind (lk (mr_var_values (?ms ! i)) 1) parse_int = Inr (gains ! i)"
      by (auto simp: rbind_eq_Inr)
    with i g(2) show "map (\<lambda>m. rbind (lk (mr_var_values m) 1) parse_int) ?ms ! i = map Inr gains ! i" by simp
  qed (simp add: g(2))
  moreover have "map kw_amount (of_event cap LE_EXP_GAIN) = map Some gains"
  proof (rule nth_equalityI)
    show "map kw_amount (of_event cap LE_EXP_GAIN) ! i = map Some gains ! i"
      if "i < length (map kw_amount (of_event cap LE_EXP_GAIN))" for i
      using that rmap_length[OF g(1)] rmap_nth[OF g(1), of i] by (auto simp: amount_of_def split: option.splits)
  qed (simp add: rmap_length[OF g(1)])
  ultimately show ?thesis by blast
qed

lemma check_levels_sound:
  assumes "check_levels cap msgs = Inr True" "(LE_LEVEL_UP, kw) \<in> set cap"
  shows "\<exists>m \<in> set msgs. mr_string_id m = ''STRINGID_PKMNGREWTOLV''
    \<and> (\<exists>l. rbind (lk (mr_var_values m) 1) parse_int = Inr l \<and> kw_new_level kw = Some l)"
proof -
  from assms(1) obtain obs sim where
    o: "rmap (\<lambda>m. rbind (lk (mr_var_values m) 1) parse_int) (filter (\<lambda>m. mr_string_id m = ''STRINGID_PKMNGREWTOLV'') msgs) = Inr obs"
    and si: "rmap (\<lambda>kw. case kw_new_level kw of None \<Rightarrow> Inl KeyError | Some n \<Rightarrow> Inr n) (of_event cap LE_LEVEL_UP) = Inr sim"
    and sub: "set sim \<subseteq> set obs"
    by (auto simp: check_levels_def rbind_eq_Inr)
  from assms(2) obtain j where j: "j < length (of_event cap LE_LEVEL_UP)" "of_event cap LE_LEVEL_UP ! j = kw"
    by (metis in_set_conv_nth mem_of_event)
  with rmap_nth[OF si j(1)] rmap_length[OF si] have "kw_new_level kw = Some (sim ! j)" "sim ! j \<in> set sim"
    by (auto split: option.splits)
  moreover from this sub obtain m where "m \<in> set (filter (\<lambda>m. mr_string_id m = ''STRINGID_PKMNGREWTOLV'') msgs)"
    "rbind (lk (mr_var_values m) 1) parse_int = Inr (sim ! j)"
    using rmap_set[OF o] by blast
  ultimately show ?thesis by auto
qed

lemma tokens_agree_faints:
  assumes "length os = length ss" "list_all (\<lambda>x. tokens_agree lev gd (fst x) (snd x)) (zip os ss)"
  shows "map (\<lambda>t. Some (sid_int (fst (snd t)))) (filter (\<lambda>t. fst t = F_token) os)
    = map (\<lambda>t. fst (snd t)) (filter (\<lambda>t. fst t = F_token) ss)"
  using assms
  by (induction os ss rule: list_induct2) (auto simp: tokens_agree_def)

lemma faint_skeleton_faints:
  assumes "faint_skeleton_consistent lev gd os ss"
  shows "map (\<lambda>t. Some (sid_int (fst (snd t)))) (filter (\<lambda>t. fst t = F_token) os)
    = map (\<lambda>t. fst (snd t)) (filter (\<lambda>t. fst t = F_token) ss)"
proof (cases "F_token \<notin> fst ` set os \<and> F_token \<notin> fst ` set ss")
  case True
  then have "filter (\<lambda>t. fst t = F_token) os = []" "filter (\<lambda>t. fst t = F_token) ss = []"
    by (force simp: filter_empty_conv)+
  then show ?thesis by simp
next
  case False
  with assms show ?thesis by (intro tokens_agree_faints) (auto simp: faint_skeleton_consistent_def)
qed

section \<open>Properties\<close>

text \<open>
  Observed level-ups are forced on the player's team, and on nothing else. After
  \<open>_apply_observed_levelups\<close> every mon whose species matches the name of a level-up message is at least at the announced level;
  no mon changes species or loses a level, and the opponent's side is untouched.
\<close>

theorem levelups_applied:
  assumes "apply_observed_levelups lev gd st msgs = Inr st'"
  shows "side_of st' P1 = side_of st P1
    \<and> length (sd_team (side_of st' P0)) = length (sd_team (side_of st P0))
    \<and> (\<forall>i < length (sd_team (side_of st P0)).
        pk_species (sd_team (side_of st' P0) ! i) = pk_species (sd_team (side_of st P0) ! i)
        \<and> pk_level (sd_team (side_of st P0) ! i) \<le> pk_level (sd_team (side_of st' P0) ! i)
        \<and> (\<forall>m \<in> set msgs. \<forall>l. mr_string_id m = ''STRINGID_PKMNGREWTOLV'' \<and> length (mr_var_values m) \<ge> 2
             \<and> parse_int (mr_var_values m ! 1) = Inr l \<and> 0 < l
             \<and> species_name_matches lev gd (mr_var_values m ! 0) (Some (pk_species (sd_team (side_of st P0) ! i)))
             \<longrightarrow> l \<le> pk_level (sd_team (side_of st' P0) ! i)))"
proof -
  from assms obtain d team where d: "rfold observe_level [] msgs = Inr d"
    "rfold (apply_levelup lev gd) (sd_team (side_of st P0)) d = Inr team"
    "st' = (if d = [] then st else with_side st P0 ((side_of st P0)\<lparr>sd_team := team\<rparr>))"
    by (auto simp: apply_observed_levelups_def observed_levels_def rbind_eq_Inr)
  then have team: "sd_team (side_of st' P0) = team" "side_of st' P1 = side_of st P1" by auto
  have seen: "level_in d (mr_var_values m ! 0) l"
    if "m \<in> set msgs" "mr_string_id m = ''STRINGID_PKMNGREWTOLV''" "length (mr_var_values m) \<ge> 2"
      "parse_int (mr_var_values m ! 1) = Inr l" "0 < l" for m l
    using observed_levels_all[OF d(1)] that by blast
  note all = apply_levelups_all[OF d(2)]
  have reach: "l \<le> pk_level (team ! i)"
    if "level_in d name l" "i < length (sd_team (side_of st P0))"
      "species_name_matches lev gd name (Some (pk_species (sd_team (side_of st P0) ! i)))" for name l i
  proof -
    from that(1) obtain l' where "(name, l') \<in> set d" "l \<le> l'" by (auto simp: level_in_def dest: map_of_SomeD)
    with all that(2,3) show ?thesis by fastforce
  qed
  show ?thesis using all team seen reach by blast
qed

definition grew_message :: match_result where
  "grew_message = plain_message ''STRINGID_PKMNGREWTOLV'' [''SHEDINJA'', ''51''] ''SHEDINJA grew to LV. 51!'' None"

definition sample_shedinja :: pokemon_state where
  "sample_shedinja = (sample_mon 292 1)\<lparr>pk_ivs := [0, 0, 0, 0, 0, 0]\<rparr>"

definition shedinja_battle :: battle_state where
  "shedinja_battle = with_side sample_battle P0 (mk_side [sample_shedinja] SINGLES [])"

theorem levelups_applied_witness:
  "\<exists>st'. apply_observed_levelups levenshtein sample_data shedinja_battle [grew_message] = Inr st'
     \<and> 51 \<le> pk_level (sd_team (side_of st' P0) ! 0)"
proof -
  have ok: "isl (apply_observed_levelups levenshtein sample_data shedinja_battle [grew_message]) = False" by code_simp
  then obtain st' where st': "apply_observed_levelups levenshtein sample_data shedinja_battle [grew_message] = Inr st'"
    by (cases "apply_observed_levelups levenshtein sample_data shedinja_battle [grew_message]") auto
  have "length (sd_team (side_of shedinja_battle P0)) = 1" "mr_string_id grew_message = ''STRINGID_PKMNGREWTOLV''"
    "length (mr_var_values grew_message) = 2" "parse_int (mr_var_values grew_message ! 1) = Inr 51"
    "species_name_matches levenshtein sample_data (mr_var_values grew_message ! 0) (Some (pk_species (sd_team (side_of shedinja_battle P0) ! 0)))"
    by code_simp+
  with levelups_applied[OF st'] have "51 \<le> pk_level (sd_team (side_of st' P0) ! 0)" by simp
  with st' show ?thesis by blast
qed

text \<open>
  Observed releases are exact. On a well-formed state both updates succeed; the mons of the sides named by
  \<open>PKMNFREEDFROM\<close> messages that are active and bound lose the binding and its two source entries, those of sides named by \<open>PKMNFATIGUECONFUSION\<close>
  that rampage end it confused and unlocked, and nothing else of the state changes. A second application changes nothing.
\<close>

theorem observed_releases_exact:
  assumes "battle_wf st"
    and "(upd, eff, f, mid) \<in> {(apply_observed_wrap_release, VE_BOUND, release_bound, BINDING_FREED_ID),
                               (apply_observed_rampage_end, VE_RAMPAGING, end_rampage, RAMPAGE_END_ID)}"
  shows "\<exists>st'. upd st msgs = Inr st' \<and> upd st' msgs = Inr st' \<and> st'\<lparr>bs_sides := bs_sides st\<rparr> = st
    \<and> (\<forall>i. (side_of st' i)\<lparr>sd_team := sd_team (side_of st i)\<rparr> = side_of st i
         \<and> length (sd_team (side_of st' i)) = length (sd_team (side_of st i))
         \<and> (\<forall>j < length (sd_team (side_of st i)). sd_team (side_of st' i) ! j =
             (let mon = sd_team (side_of st i) ! j in
              if (\<exists>m \<in> set msgs. mr_string_id m = mid \<and> mr_var_values m \<noteq> [] \<and> mr_side_hint m = Some i)
                 \<and> j \<in> set (sd_active_indices (side_of st i)) \<and> eff \<in> fst ` set (pk_timed_volatiles mon)
              then f mon else mon)))"
proof -
  have upd: "upd st msgs = rewrite_sides eff f st (hinted_sides mid msgs)" for st
    using assms(2) by (auto simp: apply_observed_wrap_release_def apply_observed_rampage_end_def)
  have gone: "\<forall>m. eff \<notin> fst ` set (pk_timed_volatiles (f m))"
    using assms(2) by (auto simp: release_bound_def end_rampage_def)
  obtain st' where st': "upd st msgs = Inr st'" "st'\<lparr>bs_sides := bs_sides st\<rparr> = st"
    "\<forall>i. side_of st' i = (if i \<in> set (hinted_sides mid msgs) then rewritten eff f (side_of st i) else side_of st i)"
    using rewrite_sides_exact[OF assms(1) hinted_sides_spec(1), of eff f mid msgs] upd by auto
  have "upd st' msgs = Inr st'"
    using rewrite_sides_idempotent[OF assms(1) hinted_sides_spec(1) _ gone] st'(1) upd by metis
  moreover have "(side_of st' i)\<lparr>sd_team := sd_team (side_of st i)\<rparr> = side_of st i
      \<and> length (sd_team (side_of st' i)) = length (sd_team (side_of st i))" for i
    using st'(3) by simp
  moreover have "sd_team (side_of st' i) ! j = (let mon = sd_team (side_of st i) ! j in
      if (\<exists>m \<in> set msgs. mr_string_id m = mid \<and> mr_var_values m \<noteq> [] \<and> mr_side_hint m = Some i)
         \<and> j \<in> set (sd_active_indices (side_of st i)) \<and> eff \<in> fst ` set (pk_timed_volatiles mon)
      then f mon else mon)" if "j < length (sd_team (side_of st i))" for i j
    using st'(3) that hinted_sides_spec(2)[of i mid msgs] by (auto simp: rewritten_def Let_def)
  ultimately show ?thesis using st'(1,2) by blast
qed

definition freed_message :: match_result where
  "freed_message = plain_message BINDING_FREED_ID [''SHEDINJA''] ''SHEDINJA was freed from WRAP!'' (Some P0)"

definition bound_battle :: battle_state where
  "bound_battle = with_side sample_battle P0 (mk_side [sample_shedinja\<lparr>pk_timed_volatiles := [(VE_TAUNT, 2), (VE_BOUND, 3)]\<rparr>] SINGLES [])"

theorem observed_releases_exact_witness:
  "\<exists>st'. apply_observed_wrap_release bound_battle [freed_message] = Inr st'
     \<and> pk_timed_volatiles (sd_team (side_of st' P0) ! 0) = [(VE_TAUNT, 2)]"
proof -
  have wf: "battle_wf bound_battle"
    by (simp add: battle_wf_def side_wf_def bound_battle_def mk_side_def side_post_init_def) code_simp
  have *: "length (sd_team (side_of bound_battle P0)) = 1" "0 \<in> set (sd_active_indices (side_of bound_battle P0))"
    "pk_timed_volatiles (sd_team (side_of bound_battle P0) ! 0) = [(VE_TAUNT, 2), (VE_BOUND, 3)]"
    "mr_string_id freed_message = BINDING_FREED_ID" "mr_var_values freed_message \<noteq> []" "mr_side_hint freed_message = Some P0"
    by code_simp+
  from observed_releases_exact[OF wf, of apply_observed_wrap_release VE_BOUND release_bound BINDING_FREED_ID "[freed_message]"]
  obtain st' where st': "apply_observed_wrap_release bound_battle [freed_message] = Inr st'"
    "\<forall>j < length (sd_team (side_of bound_battle P0)). sd_team (side_of st' P0) ! j =
             (let mon = sd_team (side_of bound_battle P0) ! j in
              if (\<exists>m \<in> set [freed_message]. mr_string_id m = BINDING_FREED_ID \<and> mr_var_values m \<noteq> [] \<and> mr_side_hint m = Some P0)
                 \<and> j \<in> set (sd_active_indices (side_of bound_battle P0)) \<and> VE_BOUND \<in> fst ` set (pk_timed_volatiles mon)
              then release_bound mon else mon)"
    by auto
  with * show ?thesis by (auto simp: Let_def release_bound_def)
qed

text \<open>
  C4: the HP check is exact. When every record with deltas resolves to a mon of the simulated state, and the HP of the opponent's mons
  is in range and visible on a bar, \<open>_hp_match_detail\<close> accepts exactly the states in which each player mon has the HP last read
  and each opponent mon draws the number of pixels last read; the mon compared is always one of the record's side and species.
\<close>

theorem hp_match_exact:
  fixes ti :: "hp_delta_seq \<Rightarrow> nat" and st :: battle_state
  defines "hp \<equiv> \<lambda>r. pk_hp (sd_team (side_of st (hd_side r)) ! ti r)"
  assumes "\<And>r. r \<in> set recs \<Longrightarrow> hd_deltas r \<noteq> [] \<Longrightarrow> resolve_record_team_idx st r = Inr (ti r)"
    and "\<And>r. r \<in> set recs \<Longrightarrow> hd_deltas r \<noteq> [] \<Longrightarrow> hd_side r = P1 \<Longrightarrow>
      0 < hd_max_hp r \<and> 0 \<le> hp r \<and> hp r \<le> hd_max_hp r \<and> visible_hp (hp r) (hd_max_hp r)"
  shows "hp_match_detail st recs = Inr (\<forall>r \<in> set recs. hd_deltas r \<noteq> [] \<longrightarrow>
      (if hd_side r = P0 then hp r else hp_to_k (hp r) (hd_max_hp r)) = snd (last (hd_deltas r)))
    \<and> (\<forall>r \<in> set recs. hd_deltas r \<noteq> [] \<longrightarrow>
      ti r < length (sd_team (side_of st (hd_side r))) \<and> pk_species (sd_team (side_of st (hd_side r)) ! ti r) = hd_species r)"
proof
  have "record_hp_ok st r = Inr (hd_deltas r \<noteq> [] \<longrightarrow>
      (if hd_side r = P0 then hp r else hp_to_k (hp r) (hd_max_hp r)) = snd (last (hd_deltas r)))" if "r \<in> set recs" for r
  proof (cases "hd_deltas r = [] \<or> hd_side r = P0")
    case True
    with assms(2)[OF that] show ?thesis by (auto simp: record_hp_ok_def Let_def hp_def)
  next
    case False
    then have "hd_side r = P1" by (cases "hd_side r") auto
    with False assms(2,3)[OF that] hp_range_iff[of "hd_max_hp r" "hp r" "snd (last (hd_deltas r))"]
    show ?thesis by (auto simp: record_hp_ok_def Let_def hp_def)
  qed
  then show "hp_match_detail st recs = Inr (\<forall>r \<in> set recs. hd_deltas r \<noteq> [] \<longrightarrow>
      (if hd_side r = P0 then hp r else hp_to_k (hp r) (hd_max_hp r)) = snd (last (hd_deltas r)))"
    unfolding hp_match_detail_def by (rule rall_Inr)
  show "\<forall>r \<in> set recs. hd_deltas r \<noteq> [] \<longrightarrow>
      ti r < length (sd_team (side_of st (hd_side r))) \<and> pk_species (sd_team (side_of st (hd_side r)) ! ti r) = hd_species r"
    using resolve_record_team_idx_sound[OF assms(2)] by blast
qed

definition sample_record :: hp_delta_seq where
  "sample_record = \<lparr>hd_side = P1, hd_species = 25, hd_slot = 0, hd_deltas = [(48, 30), (30, 48)], hd_max_hp = 100\<rparr>"

theorem hp_match_exact_witness: "hp_match_detail sample_battle [sample_record] = Inr True"
proof -
  have *: "resolve_record_team_idx sample_battle sample_record = Inr 0" "hd_side sample_record = P1" "hd_max_hp sample_record = 100"
    "pk_hp (sd_team (side_of sample_battle P1) ! 0) = 100" "snd (last (hd_deltas sample_record)) = 48" "hp_to_k 100 100 = 48"
    by code_simp+
  show ?thesis
    using hp_match_exact[of "[sample_record]" sample_battle "\<lambda>_. 0"] * by (simp add: visible_hp_def)
qed

text \<open>
  C24: the count of HP changes compares the drawn values of the true history of the mon. The history is
  the HP before and after every event of the log. It ends at the simulated HP; damage to the mon lowers
  it by the amount of the event, a heal raises it, a hit in confusion lowers it by the damage, and every
  other event, also one of the other side's mon of the species, leaves it as it is. For the player the
  drawn values are the HP themselves, for the opponent the pixels of the bar, and the verdict is that
  the drawn value changes at as many events as there are observed deltas that change (a record whose
  start is not the drawn start of the history is not judged).
\<close>

theorem hp_count_exact:
  fixes r :: hp_delta_seq and cap :: capture and st :: battle_state and ti :: nat
  defines "draw \<equiv> (if hd_side r = P0 then (\<lambda>h. h) else (\<lambda>h. hp_to_k h (hd_max_hp r)))"
  assumes "resolve_record_team_idx st r = Inr ti" "0 < hd_max_hp r" "hd_deltas r \<noteq> []"
  shows "\<exists>hist. length hist = Suc (length cap)
    \<and> last hist = pk_hp (sd_team (side_of st (hd_side r)) ! ti)
    \<and> (\<forall>k < length cap. \<forall>d. changes_mon (hd_side r) (hd_species r) (cap ! k) d \<longrightarrow> hist ! Suc k = hist ! k + d)
    \<and> (\<forall>k < length cap. (\<forall>d. \<not> changes_mon (hd_side r) (hd_species r) (cap ! k) d) \<longrightarrow> hist ! Suc k = hist ! k)
    \<and> hp_count_detail st cap [r] = Inr (draw (hd hist) = fst (hd (hd_deltas r)) \<longrightarrow>
        card {k. k < length cap \<and> draw (hist ! k) \<noteq> draw (hist ! Suc k)}
          = length (filter (\<lambda>x. fst x \<noteq> snd x) (hd_deltas r)))"
proof -
  let ?h = "pk_hp (sd_team (side_of st (hd_side r)) ! ti)"
  let ?hist = "log_hp ?h (hd_side r) (hd_species r) cap"
  let ?traj = "hp_trajectory ?h (sim_hp_changes cap (hd_side r) (hd_species r))"
  have bar: "bar_value (hd_side r) (hd_max_hp r) h = Inr (draw h)" for h
    using assms(3) by (simp add: bar_value_def draw_def)
  have "rmap (bar_value (hd_side r) (hd_max_hp r)) ?traj = Inr (map draw ?traj)"
    by (rule rmap_Inr_map) (rule bar)
  then have verdict: "hp_count_detail st cap [r] = Inr (draw (hd ?hist) = fst (hd (hd_deltas r)) \<longrightarrow>
        transitions (map draw ?hist) = length (filter (\<lambda>x. fst x \<noteq> snd x) (hd_deltas r)))"
    using assms(2,4) log_hp_changes[of ?h "hd_side r" "hd_species r" cap draw]
    by (simp add: hp_count_detail_def record_count_ok_def bar Let_def)
  have card: "transitions (map draw ?hist) = card {k. k < length cap \<and> draw (?hist ! k) \<noteq> draw (?hist ! Suc k)}"
    unfolding transitions_card by (rule arg_cong[where f = card]) auto
  show ?thesis
    by (rule exI[of _ ?hist]) (intro conjI allI impI log_hp_length log_hp_last log_hp_step verdict[unfolded card]; blast)
qed

definition sample_capture :: capture where
  "sample_capture = [(LE_DAMAGE, no_kwargs\<lparr>kw_target := Some 25, kw_amount := Some 40, kw_source := Some ''move'', kw_defender_side := Some 1\<rparr>),
     (LE_HEAL, no_kwargs\<lparr>kw_target := Some 25, kw_amount := Some 40, kw_side := Some 1\<rparr>)]"

theorem hp_count_exact_witness: "hp_count_detail sample_battle sample_capture [sample_record] = Inr True"
proof -
  have *: "resolve_record_team_idx sample_battle sample_record = Inr 0" "hd_side sample_record = P1" "hd_max_hp sample_record = 100"
    "pk_hp (sd_team (side_of sample_battle P1) ! 0) = 100" "hd_deltas sample_record = [(48, 30), (30, 48)]"
    "length sample_capture = 2" "hp_to_k 100 100 = 48" "hp_to_k 60 100 = 28" "hd_species sample_record = 25"
    by code_simp+
  have ev: "changes_mon P1 25 (sample_capture ! 0) (- 40)" "changes_mon P1 25 (sample_capture ! 1) 40"
    by (auto simp: sample_capture_def changes_mon.simps names_side.simps no_kwargs_def)
  from hp_count_exact[of sample_battle sample_record 0 sample_capture] * ev obtain hist where
    h: "length hist = 3" "last hist = 100" "hist ! 1 = hist ! 0 - 40" "hist ! 2 = hist ! 1 + 40"
    and run: "hp_count_detail sample_battle sample_capture [sample_record] = Inr (hp_to_k (hd hist) 100 = 48 \<longrightarrow>
        card {k. k < 2 \<and> hp_to_k (hist ! k) 100 \<noteq> hp_to_k (hist ! Suc k) 100} = 2)"
    by (auto simp: numeral_eq_Suc)
  have v: "hist ! 2 = 100" "hist ! 1 = 60" "hist ! 0 = 100"
    using h last_conv_nth[of hist] by (cases "hist = []"; simp)+
  have "{k::nat. k < 2 \<and> hp_to_k (hist ! k) 100 \<noteq> hp_to_k (hist ! Suc k) 100} = {0, 1}"
    using v *(7,8) by (auto simp: less_Suc_eq numeral_2_eq_2)
  then show ?thesis using run by simp
qed

text \<open>
  C23: an accepted log explains the messages. When \<open>check_log_events\<close> accepts, every observed message of the presence table has its
  event in the log, every observed status has a \<open>STATUS_APPLY\<close> event of that status attributed to the named mon, the amounts of the experience messages are those of the log in the same order,
  every simulated level-up was observed, and the faints happen on the same sides in the same order.
\<close>

theorem check_log_events_sound:
  assumes "check_log_events lev gd cap msgs deltas opp_species = Inr True"
  shows "(\<forall>m \<in> set msgs. \<forall>ev. (mr_string_id m, ev) \<in> set PRESENCE_EVENTS \<longrightarrow> (\<exists>kw. (ev, kw) \<in> set cap))
    \<and> (\<forall>m \<in> set msgs. \<forall>stt. map_of STATUS_APPLY_IDS (mr_string_id m) = Some stt \<longrightarrow>
        (\<exists>kw. (LE_STATUS_APPLY, kw) \<in> set cap \<and> kw_status kw = Some stt \<and> (\<forall>side name. status_msg_target m = Some (side, name) \<longrightarrow>
           kw_side kw = Some (sid_int side) \<and> species_name_matches lev gd name (kw_target kw))))
    \<and> (\<exists>amounts. map (\<lambda>m. rbind (lk (mr_var_values m) 1) parse_int) (filter (\<lambda>m. mr_string_id m = ''STRINGID_PKMNGAINEDEXP'') msgs) = map Inr amounts
        \<and> map kw_amount (of_event cap LE_EXP_GAIN) = map Some amounts)
    \<and> (\<forall>kw. (LE_LEVEL_UP, kw) \<in> set cap \<longrightarrow> (\<exists>m \<in> set msgs. mr_string_id m = ''STRINGID_PKMNGREWTOLV''
        \<and> (\<exists>l. rbind (lk (mr_var_values m) 1) parse_int = Inr l \<and> kw_new_level kw = Some l)))
    \<and> map (\<lambda>t. Some (sid_int (fst (snd t)))) (filter (\<lambda>t. fst t = F_token) (observed_event_skeleton msgs))
        = map (\<lambda>t. fst (snd t)) (filter (\<lambda>t. fst t = F_token) (sim_event_skeleton cap))"
proof -
  from assms have p: "check_presence cap msgs" and stt: "list_all (check_status_msg lev gd cap) msgs"
    and ex: "check_exp cap msgs = Inr True" and lv: "check_levels cap msgs = Inr True"
    and sk: "faint_skeleton_consistent lev gd (observed_event_skeleton msgs) (sim_event_skeleton cap)"
    unfolding check_log_events_def rall_checks_True by simp_all
  have "\<exists>kw. (ev, kw) \<in> set cap" if "m \<in> set msgs" "(mr_string_id m, ev) \<in> set PRESENCE_EVENTS" for m ev
    using p that by (force simp: check_presence_def list_all_iff capture_fired_iff)
  moreover have "\<exists>kw. (LE_STATUS_APPLY, kw) \<in> set cap \<and> kw_status kw = Some s \<and> (\<forall>side name. status_msg_target m = Some (side, name) \<longrightarrow>
           kw_side kw = Some (sid_int side) \<and> species_name_matches lev gd name (kw_target kw))"
    if "m \<in> set msgs" "map_of STATUS_APPLY_IDS (mr_string_id m) = Some s" for m s
    using stt that by (intro check_status_msg_sound) (auto simp: list_all_iff)
  ultimately show ?thesis
    using check_exp_sound[OF ex] check_levels_sound[OF lv] faint_skeleton_faints[OF sk] by blast
qed

definition burn_message :: match_result where
  "burn_message = plain_message ''STRINGID_PKMNWASBURNED'' [''SHEDINJA''] ''Foe SHEDINJA was burned!'' (Some P1)"

definition burn_capture :: capture where
  "burn_capture = [(LE_STATUS_APPLY, no_kwargs\<lparr>kw_target := Some 292, kw_status := Some St_BURN, kw_side := Some 1\<rparr>)]"

theorem check_log_events_sound_witness:
  "\<exists>kw. (LE_STATUS_APPLY, kw) \<in> set burn_capture \<and> kw_status kw = Some St_BURN \<and> kw_side kw = Some 1"
proof -
  have ok: "check_log_events levenshtein sample_data burn_capture [burn_message] [] None = Inr True" by code_simp
  have "map_of STATUS_APPLY_IDS (mr_string_id burn_message) = Some St_BURN" "status_msg_target burn_message = Some (P1, ''SHEDINJA'')"
    "sid_int P1 = 1"
    by code_simp+
  with check_log_events_sound[OF ok] show ?thesis by auto
qed

end
