(* ===== verification/SweepActions.thy ===== *)
theory SweepActions
  imports SweepReconcile
begin

text \<open>
  Inference of the actions of a turn from the observed messages (\<open>sweep_actions.py\<close>): which active
  slot each "used" message belongs to, the segments of messages between them, the move or switch of each
  slot, the alternatives the sweep has to try for a slot that no message settles, and the checks
  against the opponent AI's predictions. A slot map is a dictionary from message identities to
  (side, slot). The engine's predictions come from the \<open>engine\<close> argument; the labels of error messages are not modelled.
\<close>

section \<open>Constants\<close>

definition SWITCH_IDS :: "string list" where
  "SWITCH_IDS = [''STRINGID_SWITCHINMON'', ''STRINGID_INTROSENDOUT'', ''STRINGID_PLAYER_SWITCHINMON'', ''STRINGID_PLAYER_INTROSENDOUT'']"

definition CALLED_MOVE_EVENTS :: "(move \<times> rng_event) list" where
  "CALLED_MOVE_EVENTS = [(118, METRONOME_MOVE), (214, SLEEP_TALK_MOVE)]"

definition is_usedmove :: "match_result \<Rightarrow> bool" where
  "is_usedmove m \<longleftrightarrow> mr_string_id m = USEDMOVE_ID \<and> mr_var_values m \<noteq> []"

type_synonym slot_map = "(nat \<times> sid \<times> nat) list"

section \<open>Slots\<close>

definition attacker_match_positions :: "distance \<Rightarrow> game_data \<Rightarrow> sid \<Rightarrow> string \<Rightarrow> battle_state \<Rightarrow> nat list res" where
  "attacker_match_positions lev gd side name st =
     rbind (rmap (\<lambda>x. rbind (lk (sd_team (side_of st side)) (snd x)) (\<lambda>mon. Inr (fst x, name_matches lev gd (upper name) mon)))
              (enumerated (sd_active_indices (side_of st side))))
       (\<lambda>xs. Inr (map fst (filter snd xs)))"

text \<open>The scan of \<open>_slot_for_name\<close> over the sides; \<open>changed\<close> is \<open>hp_changed_by_slot\<close>.\<close>

fun scan_sides :: "distance \<Rightarrow> game_data \<Rightarrow> string \<Rightarrow> battle_state \<Rightarrow> ((sid \<times> nat) \<Rightarrow> bool) option \<Rightarrow> sid list
    \<Rightarrow> (sid \<times> nat) option res" where
  "scan_sides lev gd name st changed [] = Inr None"
| "scan_sides lev gd name st changed (i # sides) =
     rbind (attacker_match_positions lev gd i name st) (\<lambda>positions.
       case positions of
         [] \<Rightarrow> scan_sides lev gd name st changed sides
       | [p] \<Rightarrow> Inr (Some (i, p))
       | _ \<Rightarrow> (case changed of
             None \<Rightarrow> Inl (SimulationError AmbiguousRecipientSlot)
           | Some c \<Rightarrow> (case filter (\<lambda>p. c (i, p)) positions of
                 [p] \<Rightarrow> Inr (Some (i, p))
               | _ \<Rightarrow> Inl (SimulationError AmbiguousRecipientSlot))))"

definition slot_for_name :: "distance \<Rightarrow> game_data \<Rightarrow> string \<Rightarrow> battle_state \<Rightarrow> ((sid \<times> nat) \<Rightarrow> bool) option
    \<Rightarrow> sid option \<Rightarrow> (sid \<times> nat) option res" where
  "slot_for_name lev gd name st changed side_constraint =
     scan_sides lev gd name st changed (case side_constraint of Some i \<Rightarrow> [i] | None \<Rightarrow> [P0, P1])"

definition recipient_slot :: "distance \<Rightarrow> game_data \<Rightarrow> match_result \<Rightarrow> battle_state \<Rightarrow> ((sid \<times> nat) \<Rightarrow> bool) option
    \<Rightarrow> sid option \<Rightarrow> (sid \<times> nat) option res" where
  "recipient_slot lev gd m st changed side_constraint = (case mr_var_values m of
       [] \<Rightarrow> Inr None
     | name # _ \<Rightarrow> slot_for_name lev gd name st changed side_constraint)"

text \<open>The cursor of a side, advanced when both active slots share the attacker's species.\<close>

type_synonym cursor = "sid \<Rightarrow> nat"

definition cursor0 :: cursor where
  "cursor0 = (\<lambda>_. 0)"

definition resolve_attacker_slot :: "distance \<Rightarrow> game_data \<Rightarrow> sid \<Rightarrow> string \<Rightarrow> battle_state \<Rightarrow> cursor \<Rightarrow> (nat \<times> cursor) res" where
  "resolve_attacker_slot lev gd side name st cur =
     rbind (attacker_match_positions lev gd side name st) (\<lambda>positions.
       case positions of
         [] \<Rightarrow> Inl (SimulationError UnknownAttackerSlot)
       | [p] \<Rightarrow> Inr (p, cur)
       | _ \<Rightarrow> Inr (positions ! (cur side mod length positions), cur(side := cur side + 1)))"

definition actor_side :: "distance \<Rightarrow> game_data \<Rightarrow> match_result \<Rightarrow> battle_state \<Rightarrow> sid res" where
  "actor_side lev gd m st = fuzzy_find_side lev gd (hd (mr_var_values m)) st (mr_side_hint m) Actor"

definition slot_map_step :: "distance \<Rightarrow> game_data \<Rightarrow> battle_state \<Rightarrow> slot_map \<times> cursor \<Rightarrow> match_result \<Rightarrow> (slot_map \<times> cursor) res" where
  "slot_map_step lev gd st acc m =
     (if \<not> is_usedmove m then Inr acc
      else rbind (actor_side lev gd m st) (\<lambda>side.
        case resolve_attacker_slot lev gd side (hd (mr_var_values m)) st (snd acc) of
          Inl (SimulationError _) \<Rightarrow> Inr acc
        | Inl e \<Rightarrow> Inl e
        | Inr (slot, cur) \<Rightarrow> Inr (AList.update (mr_oid m) (side, slot) (fst acc), cur)))"

definition build_attacker_slot_map :: "distance \<Rightarrow> game_data \<Rightarrow> match_result list \<Rightarrow> battle_state \<Rightarrow> slot_map res" where
  "build_attacker_slot_map lev gd msgs st =
     rbind (rfold (slot_map_step lev gd st) ([], cursor0) msgs) (\<lambda>acc. Inr (fst acc))"

text \<open>The fan-out: the "used" messages with their side and matching positions, in order.\<close>

definition resolved_attackers :: "distance \<Rightarrow> game_data \<Rightarrow> match_result list \<Rightarrow> battle_state \<Rightarrow> (nat \<times> sid \<times> nat list) list res" where
  "resolved_attackers lev gd msgs st =
     rbind (rmap (\<lambda>m. rbind (actor_side lev gd m st) (\<lambda>side.
                       rbind (attacker_match_positions lev gd side (hd (mr_var_values m)) st) (\<lambda>ps.
                         Inr (mr_oid m, side, ps)))) (filter is_usedmove msgs))
       (\<lambda>xs. Inr (filter (\<lambda>x. snd (snd x) \<noteq> []) xs))"

text \<open>A dictionary comprehension: a later pair with the same key wins, at the place of the first.\<close>

definition dict_of :: "('k \<times> 'v) list \<Rightarrow> ('k \<times> 'v) list" where
  "dict_of xs = foldl (\<lambda>d x. AList.update (fst x) (snd x) d) [] xs"

definition slots_used :: "(nat \<times> sid \<times> nat list) list \<Rightarrow> nat list \<Rightarrow> (sid \<times> nat) list" where
  "slots_used resolved combo = map (\<lambda>x. (fst (snd (fst x)), snd x)) (zip resolved combo)"

definition assignment :: "(nat \<times> sid \<times> nat list) list \<Rightarrow> nat list \<Rightarrow> slot_map" where
  "assignment resolved combo = dict_of (zip (map fst resolved) (slots_used resolved combo))"

fun collect_maps :: "(nat \<times> sid \<times> nat list) list \<Rightarrow> nat list list \<Rightarrow> slot_map list \<Rightarrow> slot_map list" where
  "collect_maps resolved [] maps = maps"
| "collect_maps resolved (c # cs) maps =
     collect_maps resolved cs
       (if distinct (slots_used resolved c) \<and> (\<forall>m \<in> set maps. set m \<noteq> set (assignment resolved c))
        then maps @ [assignment resolved c] else maps)"

definition build_attacker_slot_maps :: "distance \<Rightarrow> game_data \<Rightarrow> match_result list \<Rightarrow> battle_state \<Rightarrow> slot_map list res" where
  "build_attacker_slot_maps lev gd msgs st =
     rbind (resolved_attackers lev gd msgs st) (\<lambda>resolved.
       let maps = collect_maps resolved (product_lists (map (\<lambda>x. snd (snd x)) resolved)) [] in
       if maps = [] then rbind (build_attacker_slot_map lev gd msgs st) (\<lambda>m. Inr [m]) else Inr maps)"

section \<open>Segments and order\<close>

text \<open>A message of the segment in progress goes to the last segment opened; before the first one it is dropped.\<close>

definition append_last :: "'a \<Rightarrow> (sid \<times> nat \<times> 'a list) list \<Rightarrow> (sid \<times> nat \<times> 'a list) list" where
  "append_last m segs = (case rev segs of [] \<Rightarrow> [] | (i, k, ms) # r \<Rightarrow> rev r @ [(i, k, ms @ [m])])"

definition segment_step :: "distance \<Rightarrow> game_data \<Rightarrow> battle_state \<Rightarrow> slot_map option
    \<Rightarrow> (sid \<times> nat \<times> match_result list) list \<times> cursor \<Rightarrow> match_result \<Rightarrow> ((sid \<times> nat \<times> match_result list) list \<times> cursor) res" where
  "segment_step lev gd st sm acc m =
     (if is_usedmove m then
        (case sm of
           Some d \<Rightarrow> (case map_of d (mr_oid m) of
               None \<Rightarrow> Inr acc
             | Some (side, slot) \<Rightarrow> Inr (fst acc @ [(side, slot, [])], snd acc))
         | None \<Rightarrow> rbind (actor_side lev gd m st) (\<lambda>side.
             rbind (resolve_attacker_slot lev gd side (hd (mr_var_values m)) st (snd acc)) (\<lambda>r.
               Inr (fst acc @ [(side, fst r, [])], snd r))))
      else Inr (append_last m (fst acc), snd acc))"

definition segment_flat_messages_by_mover :: "distance \<Rightarrow> game_data \<Rightarrow> match_result list \<Rightarrow> battle_state \<Rightarrow> slot_map option
    \<Rightarrow> (sid \<times> nat \<times> match_result list) list res" where
  "segment_flat_messages_by_mover lev gd msgs st sm =
     rbind (rfold (segment_step lev gd st sm) ([], cursor0) msgs) (\<lambda>acc. Inr (fst acc))"

definition order_step :: "distance \<Rightarrow> game_data \<Rightarrow> battle_state \<Rightarrow> (sid \<times> nat) list \<times> cursor \<Rightarrow> match_result \<Rightarrow> ((sid \<times> nat) list \<times> cursor) res" where
  "order_step lev gd st acc m =
     rbind (actor_side lev gd m st) (\<lambda>side.
     rbind (resolve_attacker_slot lev gd side (hd (mr_var_values m)) st (snd acc)) (\<lambda>r.
       Inr (fst acc @ [(side, fst r)], snd r)))"

definition message_action_order_with_state :: "distance \<Rightarrow> game_data \<Rightarrow> match_result list \<Rightarrow> battle_state \<Rightarrow> slot_map option
    \<Rightarrow> (sid \<times> nat) list res" where
  "message_action_order_with_state lev gd msgs st sm = (case sm of
       Some d \<Rightarrow> Inr (List.map_filter (\<lambda>m. map_of d (mr_oid m)) (filter is_usedmove msgs))
     | None \<Rightarrow> rbind (rfold (order_step lev gd st) ([], cursor0) (filter is_usedmove msgs)) (\<lambda>acc. Inr (fst acc)))"

definition foe_damaged_slots :: "(int \<times> int) list list \<Rightarrow> nat list" where
  "foe_damaged_slots foe_deltas =
     map fst (filter (\<lambda>x. snd x \<noteq> [] \<and> snd (last (snd x)) < fst (hd (snd x))) (enumerated foe_deltas))"

definition add_new :: "match_result list \<Rightarrow> match_result \<Rightarrow> match_result list" where
  "add_new flat m = (if \<exists>x \<in> set flat. mr_same x m then flat else flat @ [m])"

definition sweep_build_flat_messages :: "match_result list \<Rightarrow> action_group list option \<Rightarrow> match_result list" where
  "sweep_build_flat_messages msgs groups = (case groups of
       None \<Rightarrow> msgs
     | Some gs \<Rightarrow> foldl add_new msgs (concat (map (\<lambda>g. ag_primary g # ag_secondaries g) gs)))"

section \<open>Called moves and actions\<close>

definition MOVE_ALIASES :: "(string \<times> move) list" where
  "MOVE_ALIASES = [(''Vice Grip'', 11), (''Natures Madness'', 717), (''Kings Shield'', 588)]"

definition resolve_called_move :: "game_data \<Rightarrow> string \<Rightarrow> move option" where
  "resolve_called_move gd name =
     (let norm = normalise_move_name name; squeeze = filter (\<lambda>c. c \<noteq> CHR ''_'') in
      case safe_move gd norm of
        Some m \<Rightarrow> Some m
      | None \<Rightarrow> (case map_of MOVE_ALIASES (strip name) of
            Some m \<Rightarrow> Some m
          | None \<Rightarrow> map_option snd (find (\<lambda>x. squeeze (fst x) = squeeze norm) (move_members gd))))"

definition acting_action :: "side_action \<Rightarrow> side_action \<Rightarrow> sid \<Rightarrow> nat \<Rightarrow> action option res" where
  "acting_action action0 action1 mover_side source_slot =
     (case (if mover_side = P0 then action0 else action1) of
        NoAct \<Rightarrow> Inr None
      | One a \<Rightarrow> Inr (Some a)
      | Many as \<Rightarrow> if source_slot < length as then Inr (as ! source_slot) else lk as 0)"

definition action_move_enum :: "action \<Rightarrow> sid \<Rightarrow> nat \<Rightarrow> battle_state \<Rightarrow> move option res" where
  "action_move_enum a side slot_pos st =
     (let s = side_of st side in
      if ac_kind a \<noteq> MOVE \<or> ac_move_slot a < 0 \<or> slot_pos \<ge> length (sd_active_indices s) then Inr None
      else rbind (lk (sd_team s) (sd_active_indices s ! slot_pos)) (\<lambda>mon.
        if ac_move_slot a \<ge> int (length (pk_move_ids mon)) then Inr None
        else let mv = pk_move_ids mon ! nat (ac_move_slot a) in Inr (if mv \<noteq> 0 then Some mv else None)))"

definition expand_action_targets :: "game_data \<Rightarrow> action \<Rightarrow> sid \<Rightarrow> nat \<Rightarrow> battle_state \<Rightarrow> nat list
    \<Rightarrow> ((sid \<times> nat) \<times> int) list \<Rightarrow> action list res" where
  "expand_action_targets gd a side slot_pos st foe_dmg hit_count_map =
     (if ac_kind a \<noteq> MOVE then Inr [a]
      else rbind (action_move_enum a side slot_pos st) (\<lambda>mv.
        if move_is_spread gd mv then
          (if (case map_of hit_count_map (side, slot_pos) of None \<Rightarrow> 1 | Some n \<Rightarrow> n) > 1
           then Inl (SimulationError SpreadMultiHit)
           else Inr [a\<lparr>ac_target_slot := 0\<rparr>])
        else if (case mv of None \<Rightarrow> False | Some m \<Rightarrow>
                  (case gd_moves gd m of None \<Rightarrow> False | Some md \<Rightarrow> md_category md = Cat_STATUS)) then Inr [a]
        else Inr (map (\<lambda>t. a\<lparr>ac_target_slot := t\<rparr>) foe_dmg)))"

definition hit_count_map_of :: "(sid \<times> nat) list \<Rightarrow> int list \<Rightarrow> ((sid \<times> nat) \<times> int) list" where
  "hit_count_map_of movers hit_counts = dict_of (zip movers hit_counts)"

definition slot_variants :: "game_data \<Rightarrow> sid \<Rightarrow> battle_state \<Rightarrow> action option list \<Rightarrow> nat list
    \<Rightarrow> ((sid \<times> nat) \<times> int) list \<Rightarrow> nat \<Rightarrow> action list res" where
  "slot_variants gd side st known_slots foe_dmg hcm slot_pos =
     rbind (lk known_slots slot_pos) (\<lambda>known. case known of
         Some a \<Rightarrow> expand_action_targets gd a side slot_pos st foe_dmg hcm
       | None \<Rightarrow> rbind (enumerate_legal_actions gd st side slot_pos) (\<lambda>legal.
           rbind (rmap (\<lambda>a. expand_action_targets gd a side slot_pos st foe_dmg hcm)
                    (if legal = [] then [(move_action 0)\<lparr>ac_source_slot := slot_pos\<rparr>] else legal))
             (\<lambda>vs. Inr (concat vs))))"

definition build_side_candidates :: "game_data \<Rightarrow> sid \<Rightarrow> battle_state \<Rightarrow> action option list
    \<Rightarrow> (int \<times> int) list list \<Rightarrow> (int \<times> int) list list \<Rightarrow> int list \<Rightarrow> (sid \<times> nat) list \<Rightarrow> side_action list res" where
  "build_side_candidates gd side st known_slots opponent_hp_deltas player_hp_deltas hit_counts movers =
     (let n_slots = length (sd_active_indices (side_of st side)) in
      if n_slots = 1 then
        rbind (lk known_slots 0) (\<lambda>known. case known of
            Some a \<Rightarrow> Inr [One a]
          | None \<Rightarrow> rbind (enumerate_legal_actions gd st side 0) (\<lambda>legal.
              Inr (map One (if legal = [] then [move_action 0] else legal))))
      else
        let dmg = foe_damaged_slots (if opp side = P1 then opponent_hp_deltas else player_hp_deltas);
            foe_dmg = (if dmg = [] then [0] else dmg);
            hcm = hit_count_map_of movers hit_counts
        in rbind (rmap (slot_variants gd side st known_slots foe_dmg hcm) [0..<n_slots]) (\<lambda>per_slot.
             Inr (map (\<lambda>combo. Many (map Some combo)) (product_lists per_slot))))"

section \<open>Observed actions\<close>

definition move_name_of :: "match_result \<Rightarrow> string" where
  "move_name_of m = (if length (mr_var_values m) > 1 then mr_var_values m ! 1 else [])"

text \<open>The slot of a "used" message: from the map (\<open>None\<close> when it is not there), or from the cursor.\<close>

definition usedmove_slot :: "distance \<Rightarrow> game_data \<Rightarrow> battle_state \<Rightarrow> slot_map option \<Rightarrow> cursor \<Rightarrow> match_result
    \<Rightarrow> ((sid \<times> nat) option \<times> cursor) res" where
  "usedmove_slot lev gd st sm cur m = (case sm of
       Some d \<Rightarrow> Inr (map_of d (mr_oid m), cur)
     | None \<Rightarrow> rbind (actor_side lev gd m st) (\<lambda>side.
         rbind (resolve_attacker_slot lev gd side (hd (mr_var_values m)) st cur) (\<lambda>r.
           Inr (Some (side, fst r), snd r))))"

type_synonym used_moves = "((sid \<times> nat) \<times> move) list"

definition used_moves_step :: "distance \<Rightarrow> game_data \<Rightarrow> battle_state \<Rightarrow> slot_map option
    \<Rightarrow> used_moves \<times> cursor \<Rightarrow> match_result \<Rightarrow> (used_moves \<times> cursor) res" where
  "used_moves_step lev gd st sm acc m =
     (if \<not> is_usedmove m then Inr acc
      else rbind (usedmove_slot lev gd st sm (snd acc) m) (\<lambda>r. case fst r of
          None \<Rightarrow> Inr (fst acc, snd r)
        | Some k \<Rightarrow>
            if map_of (fst acc) k \<noteq> None then Inr (fst acc, snd r)
            else (case (case mr_metronome_called m of
                      Some c \<Rightarrow> if c \<noteq> Move_NONE then Some c else move_name_to_enum gd (move_name_of m)
                    | None \<Rightarrow> move_name_to_enum gd (move_name_of m)) of
                None \<Rightarrow> Inr (fst acc, snd r)
              | Some mv \<Rightarrow> if mv \<noteq> Move_NONE then Inr (fst acc @ [(k, mv)], snd r) else Inr (fst acc, snd r))))"

definition extract_used_moves_from_groups :: "distance \<Rightarrow> game_data \<Rightarrow> action_group list option \<Rightarrow> battle_state
    \<Rightarrow> match_result list option \<Rightarrow> slot_map option \<Rightarrow> used_moves res" where
  "extract_used_moves_from_groups lev gd groups st flat sm =
     (let flat_list = (case flat of None \<Rightarrow> [] | Some ms \<Rightarrow> ms);
          group_list = (case groups of None \<Rightarrow> [] | Some gs \<Rightarrow> gs);
          scan = (if sm \<noteq> None then flat_list
                  else if group_list \<noteq> [] then concat (map (\<lambda>g. ag_primary g # ag_secondaries g) group_list)
                  else flat_list)
      in rbind (rfold (used_moves_step lev gd st sm) ([], cursor0) scan) (\<lambda>acc. Inr (fst acc)))"

type_synonym known_actions = "sid \<Rightarrow> action option list"

text \<open>
  The state of the loop of \<open>_extract_known_actions\<close>. \<open>ka_bound\<close> says whether the local variable \<open>move_slot\<close> has been assigned: the
  text of the legality error reads it, also on the Struggle path that does not assign it.
\<close>

record known_acc =
  ka_known :: known_actions
  ka_pending :: "sid \<Rightarrow> nat"
  ka_cursor :: cursor
  ka_bound :: bool

text \<open>The action of an observed move: Struggle is no slot of a moveset, any other name has to be close to one.\<close>

definition observed_move :: "distance \<Rightarrow> game_data \<Rightarrow> match_result \<Rightarrow> pokemon_state \<Rightarrow> nat \<Rightarrow> action option" where
  "observed_move lev gd m poke slot =
     (if upper (move_name_of m) = ''STRUGGLE'' then Some (struggle_action\<lparr>ac_source_slot := slot\<rparr>)
      else let ms = fuzzy_find_move_slot lev gd (move_name_of m) poke in
        if ms < 0 then None else Some ((move_action ms)\<lparr>ac_source_slot := slot\<rparr>))"

definition record_move :: "distance \<Rightarrow> game_data \<Rightarrow> battle_state \<Rightarrow> match_result \<Rightarrow> sid \<Rightarrow> nat \<Rightarrow> known_acc \<Rightarrow> known_acc res" where
  "record_move lev gd st m side slot acc =
     rbind (lk (ka_known acc side) slot) (\<lambda>old.
       if old \<noteq> None then Inr acc
       else rbind (lk (sd_active_indices (side_of st side)) slot) (\<lambda>ai.
       rbind (lk (sd_team (side_of st side)) ai) (\<lambda>poke.
         case observed_move lev gd m poke slot of
           None \<Rightarrow> Inl UnreproducibleObservedMoveError
         | Some act \<Rightarrow>
             let bound = (ka_bound acc \<or> upper (move_name_of m) \<noteq> ''STRUGGLE'') in
             rbind (enumerate_legal_actions gd st side slot) (\<lambda>legal.
               if \<exists>a \<in> set legal. ac_kind a = ac_kind act \<and> ac_move_slot a = ac_move_slot act
               then Inr (acc\<lparr>ka_known := (ka_known acc)(side := (ka_known acc side)[slot := Some act]), ka_bound := bound\<rparr>)
               else Inl (if bound then UnreproducibleObservedMoveError else UnboundLocalError)))))"

definition record_switch :: "distance \<Rightarrow> game_data \<Rightarrow> battle_state \<Rightarrow> bool \<Rightarrow> match_result \<Rightarrow> known_acc \<Rightarrow> known_acc res" where
  "record_switch lev gd st battle_start m acc =
     (let side = side_from_constant_name (mr_constant_name m) in
      if battle_start then Inr acc
      else if ka_pending acc side > 0 then Inr (acc\<lparr>ka_pending := (ka_pending acc)(side := ka_pending acc side - 1)\<rparr>)
      else if \<exists>a \<in> set (ka_known acc side). a \<noteq> None then Inr acc
      else rbind (fuzzy_find_team_slot lev gd (if mr_var_values m = [] then [] else last (mr_var_values m)) side st) (\<lambda>ts.
        case ts of
          None \<Rightarrow> Inl (SimulationError SwitchInNotInTeam)
        | Some k \<Rightarrow> rbind (lk (ka_known acc side) 0) (\<lambda>_.
            Inr (acc\<lparr>ka_known := (ka_known acc)(side := (ka_known acc side)[0 := Some (switch_action k)])\<rparr>))))"

definition known_step :: "distance \<Rightarrow> game_data \<Rightarrow> battle_state \<Rightarrow> slot_map option \<Rightarrow> bool \<Rightarrow> known_acc \<Rightarrow> match_result \<Rightarrow> known_acc res" where
  "known_step lev gd st sm battle_start acc m =
     (if mr_string_id m \<in> set FAINT_MSG_IDS then
        Inr (acc\<lparr>ka_pending := (ka_pending acc)(msg_side m := ka_pending acc (msg_side m) + 1)\<rparr>)
      else if mr_string_id m = USEDMOVE_ID then
        (if mr_var_values m = [] then Inr acc
         else case usedmove_slot lev gd st sm (ka_cursor acc) m of
           Inl (SimulationError r) \<Rightarrow> Inr acc
         | Inl e \<Rightarrow> Inl e
         | Inr (None, cur) \<Rightarrow> Inr (acc\<lparr>ka_cursor := cur\<rparr>)
         | Inr (Some (side, slot), cur) \<Rightarrow> record_move lev gd st m side slot (acc\<lparr>ka_cursor := cur\<rparr>))
      else if mr_string_id m \<in> set SWITCH_IDS then record_switch lev gd st battle_start m acc
      else Inr acc)"

definition known_start :: "battle_state \<Rightarrow> known_acc" where
  "known_start st = \<lparr>ka_known = (\<lambda>i. replicate (length (sd_active_indices (side_of st i))) None), ka_pending = (\<lambda>_. 0),
     ka_cursor = cursor0, ka_bound = False\<rparr>"

definition extract_known_actions :: "distance \<Rightarrow> game_data \<Rightarrow> match_result list \<Rightarrow> battle_state \<Rightarrow> slot_map option \<Rightarrow> known_actions res" where
  "extract_known_actions lev gd msgs st sm =
     rbind (rfold (known_step lev gd st sm (\<exists>m \<in> set msgs. mr_string_id m = ''STRINGID_INTROMSG'')) (known_start st) msgs)
       (\<lambda>acc. Inr (ka_known acc))"

definition action_key :: "action \<Rightarrow> action_kind \<times> int" where
  "action_key a = (ac_kind a, if ac_kind a = MOVE then ac_move_slot a else ac_switch_to_slot a)"

definition validate_known_opponent_action :: "game_data \<Rightarrow> engine \<Rightarrow> known_actions \<Rightarrow> battle_state \<Rightarrow> unit res" where
  "validate_known_opponent_action gd eg known st =
     (if \<forall>a \<in> set (known P1). a = None then Inr ()
      else rbind (side_has_fainted_active (side_of st P1)) (\<lambda>fainted.
        if fainted then Inr ()
        else rbind (compute_action_probabilities gd eg st P1) (\<lambda>probs.
          let possible = map (\<lambda>x. action_key (fst x)) (filter (\<lambda>x. snd x > 0) probs) in
          if \<forall>act \<in> set (List.map_filter id (known P1)). action_key act \<in> set possible then Inr ()
          else Inl UnexpectedOpponentActionError)))"

section \<open>Called-move collapse\<close>

definition called_wrapper_move :: "game_data \<Rightarrow> match_result \<Rightarrow> move option" where
  "called_wrapper_move gd m =
     (if mr_string_id m = USEDMOVE_ID \<and> length (mr_var_values m) > 1 then
        (case move_name_to_enum gd (mr_var_values m ! 1) of
           None \<Rightarrow> None
         | Some mv \<Rightarrow> if mv \<in> fst ` set CALLED_MOVE_EVENTS then Some mv else None)
      else None)"

definition same_usedmove_attacker :: "distance \<Rightarrow> game_data \<Rightarrow> match_result \<Rightarrow> match_result \<Rightarrow> battle_state \<Rightarrow> bool res" where
  "same_usedmove_attacker lev gd a b st =
     rbind (actor_side lev gd a st) (\<lambda>sa. rbind (actor_side lev gd b st) (\<lambda>sb. Inr (sa = sb)))"

fun collapse_metronome_calls :: "distance \<Rightarrow> game_data \<Rightarrow> match_result list \<Rightarrow> battle_state \<Rightarrow> match_result list res" where
  "collapse_metronome_calls lev gd [] st = Inr []"
| "collapse_metronome_calls lev gd [m] st = Inr [m]"
| "collapse_metronome_calls lev gd (m # nxt # ms) st =
     rbind (if called_wrapper_move gd m \<noteq> None \<and> mr_string_id nxt = USEDMOVE_ID \<and> length (mr_var_values nxt) > 1
            then same_usedmove_attacker lev gd m nxt st else Inr False) (\<lambda>collapse.
       if collapse then
         (case resolve_called_move gd (mr_var_values nxt ! 1) of
            None \<Rightarrow> Inl (SimulationError CalledMoveUnknown)
          | Some c \<Rightarrow> rbind (collapse_metronome_calls lev gd ms st) (\<lambda>out. Inr (m\<lparr>mr_metronome_called := Some c\<rparr> # out)))
       else rbind (collapse_metronome_calls lev gd (nxt # ms) st) (\<lambda>out. Inr (m # out)))"

section \<open>Opponent switch-ins\<close>

definition opponent_switch_msgs :: "match_result list \<Rightarrow> match_result list" where
  "opponent_switch_msgs msgs = filter (\<lambda>m. mr_string_id m \<in> set SWITCH_IDS \<and> side_from_constant_name (mr_constant_name m) = P1) msgs"

definition incoming_name :: "match_result \<Rightarrow> string" where
  "incoming_name m = (if mr_var_values m = [] then [] else last (mr_var_values m))"

definition opponent_switch_in_actions :: "distance \<Rightarrow> game_data \<Rightarrow> match_result list \<Rightarrow> battle_state \<Rightarrow> action list list res" where
  "opponent_switch_in_actions lev gd msgs st =
     rbind (rmap (\<lambda>m. let slots = fuzzy_find_team_slots lev gd (incoming_name m) P1 st in
              if slots = [] then Inl (SimulationError SwitchInNotInTeam) else Inr slots) (opponent_switch_msgs msgs))
       (\<lambda>per_switch. Inr (map (map switch_action) (product_lists per_switch)))"

section \<open>Counts per mover\<close>

definition on_last :: "('a \<Rightarrow> 'a) \<Rightarrow> 'a list \<Rightarrow> 'a list" where
  "on_last f xs = (if xs = [] then [] else butlast xs @ [f (last xs)])"

definition crit_step :: "distance \<Rightarrow> game_data \<Rightarrow> battle_state \<Rightarrow> nat list \<Rightarrow> match_result \<Rightarrow> nat list res" where
  "crit_step lev gd st counts m =
     (if is_usedmove m then rbind (actor_side lev gd m st) (\<lambda>_. Inr (counts @ [0]))
      else if mr_string_id m = ''STRINGID_CRITICALHIT'' then Inr (on_last Suc counts) else Inr counts)"

definition message_crit_counts_with_state :: "distance \<Rightarrow> game_data \<Rightarrow> match_result list \<Rightarrow> battle_state \<Rightarrow> nat list res" where
  "message_crit_counts_with_state lev gd msgs st = rfold (crit_step lev gd st) [] msgs"

definition hits_value :: "match_result \<Rightarrow> int \<Rightarrow> int" where
  "hits_value m n = (if mr_string_id m = ''STRINGID_HITXTIMES'' \<and> mr_var_values m \<noteq> []
     then (case parse_int (hd (mr_var_values m)) of Inr k \<Rightarrow> k | Inl _ \<Rightarrow> n) else n)"

definition hit_step :: "distance \<Rightarrow> game_data \<Rightarrow> battle_state \<Rightarrow> int list \<Rightarrow> match_result \<Rightarrow> int list res" where
  "hit_step lev gd st counts m =
     (if is_usedmove m then rbind (actor_side lev gd m st) (\<lambda>_. Inr (counts @ [1]))
      else Inr (on_last (hits_value m) counts))"

definition message_hit_counts_with_state :: "distance \<Rightarrow> game_data \<Rightarrow> match_result list \<Rightarrow> battle_state \<Rightarrow> int list res" where
  "message_hit_counts_with_state lev gd msgs st = rfold (hit_step lev gd st) [] msgs"

datatype msg_item = Single match_result | Grouped action_group

definition item_messages :: "msg_item \<Rightarrow> match_result list" where
  "item_messages x = (case x of Single m \<Rightarrow> [m] | Grouped g \<Rightarrow> ag_primary g # ag_secondaries g)"

definition detect_multi_hit :: "msg_item list \<Rightarrow> int \<times> nat" where
  "detect_multi_hit items = foldl (\<lambda>acc m. (hits_value m (fst acc),
     snd acc + (if mr_string_id m = ''STRINGID_CRITICALHIT'' then 1 else 0))) (1, 0) (concat (map item_messages items))"

section \<open>Forced switches and candidate actions\<close>

definition validate_forced_opponent_switch :: "distance \<Rightarrow> game_data \<Rightarrow> engine \<Rightarrow> match_result list \<Rightarrow> battle_state \<Rightarrow> unit res" where
  "validate_forced_opponent_switch lev gd eg msgs st =
     (if length (sd_active_indices (side_of st P1)) > 1 then Inr ()
      else rbind (side_has_fainted_active (side_of st P1)) (\<lambda>fainted.
        if \<not> fainted then Inr ()
        else case opponent_switch_msgs msgs of
          [] \<Rightarrow> Inr ()
        | m # _ \<Rightarrow> rbind (fuzzy_find_team_slot lev gd (incoming_name m) P1 st) (\<lambda>observed. case observed of
              None \<Rightarrow> Inl (SimulationError ForcedSwitchNotInTeam)
            | Some k \<Rightarrow> rbind (eg_post_ko_switch eg st P1) (\<lambda>expected. case expected of
                  None \<Rightarrow> Inr ()
                | Some e \<Rightarrow> if k \<noteq> e then Inl UnexpectedOpponentActionError else Inr ()))))"

definition first_known :: "action option list \<Rightarrow> action option" where
  "first_known as = (case List.map_filter id as of [] \<Rightarrow> None | a # _ \<Rightarrow> Some a)"

text \<open>The replacement of a side at a party prompt: one action, or none for a side without a fainted active mon.\<close>

definition faint_candidates :: "battle_state \<Rightarrow> known_actions \<Rightarrow> bool \<Rightarrow> sid \<Rightarrow> side_action list res" where
  "faint_candidates st known fainted i =
     (if fainted \<and> first_known (known i) = None then Inl (SimulationError PostFaintSwitchMissing)
      else let act = (if fainted then first_known (known i) else None) in
        Inr [if length (sd_active_indices (side_of st i)) = 1
             then (case act of None \<Rightarrow> NoAct | Some a \<Rightarrow> One a) else Many [act]])"

definition sweep_resolve_candidate_actions :: "distance \<Rightarrow> game_data \<Rightarrow> battle_state \<Rightarrow> match_result list \<Rightarrow> known_actions
    \<Rightarrow> (int \<times> int) list list \<Rightarrow> (int \<times> int) list list \<Rightarrow> slot_map option \<Rightarrow> (side_action list \<times> side_action list) res" where
  "sweep_resolve_candidate_actions lev gd st msgs known opponent_hp_deltas player_hp_deltas sm =
     rbind (has_fainted_active st) (\<lambda>post_faint.
       if post_faint then
         if \<exists>m \<in> set msgs. mr_string_id m = USEDMOVE_ID then Inl PostFaintMovePhaseError
         else rbind (fainted_slots (side_of st P0)) (\<lambda>f0. rbind (fainted_slots (side_of st P1)) (\<lambda>f1.
              rbind (faint_candidates st known (f0 \<noteq> []) P0) (\<lambda>c0.
              rbind (faint_candidates st known (f1 \<noteq> []) P1) (\<lambda>c1. Inr (c0, c1)))))
       else
         rbind (message_hit_counts_with_state lev gd msgs st) (\<lambda>hit_counts.
         rbind (message_action_order_with_state lev gd msgs st sm) (\<lambda>movers.
         rbind (build_side_candidates gd P0 st (known P0) opponent_hp_deltas player_hp_deltas hit_counts movers) (\<lambda>c0.
         rbind (build_side_candidates gd P1 st (known P1) opponent_hp_deltas player_hp_deltas hit_counts movers) (\<lambda>c1.
           Inr (c0, c1))))))"

section \<open>Lemmas on slot maps\<close>

lemma dict_of_distinct:
  assumes "distinct (map fst xs)"
  shows "dict_of xs = xs"
proof -
  have "foldl (\<lambda>d x. AList.update (fst x) (snd x) d) d xs = d @ xs" if "fst ` set d \<inter> fst ` set xs = {}" for d
    using assms that
  proof (induction xs arbitrary: d)
    case (Cons x xs)
    have "AList.update (fst x) (snd x) d = d @ [x]"
      using Cons.prems(2) by (induction d) auto
    with Cons.IH[of "d @ [x]"] Cons.prems show ?case by auto
  qed simp
  from this[of "[]"] show ?thesis by (simp add: dict_of_def)
qed

lemma length_slots_used [simp]: "length c = length res \<Longrightarrow> length (slots_used res c) = length res"
  by (simp add: slots_used_def)

lemma assignment_distinct:
  "distinct (map fst res) \<Longrightarrow> length c = length res \<Longrightarrow> assignment res c = zip (map fst res) (slots_used res c)"
  by (simp add: assignment_def dict_of_distinct)

lemma collect_maps_sound:
  "m \<in> set (collect_maps res cs maps) \<Longrightarrow> m \<in> set maps \<or> (\<exists>c \<in> set cs. distinct (slots_used res c) \<and> m = assignment res c)"
proof (induction cs arbitrary: maps)
  case (Cons c cs)
  from Cons.IH[OF Cons.prems[unfolded collect_maps.simps]] show ?case by (auto split: if_splits)
qed simp

lemma collect_maps_keeps: "m \<in> set maps \<Longrightarrow> m \<in> set (collect_maps res cs maps)"
  by (induction cs arbitrary: maps) auto

lemma collect_maps_complete:
  "c \<in> set cs \<Longrightarrow> distinct (slots_used res c) \<Longrightarrow> \<exists>m \<in> set (collect_maps res cs maps). set m = set (assignment res c)"
proof (induction cs arbitrary: maps)
  case (Cons c' cs)
  show ?case
  proof (cases "c \<in> set cs")
    case True
    with Cons show ?thesis by simp
  next
    case False
    with Cons.prems have c: "c' = c" by simp
    show ?thesis
    proof (cases "\<forall>m \<in> set maps. set m \<noteq> set (assignment res c)")
      case True
      with Cons.prems(2) c collect_maps_keeps[of "assignment res c" "maps @ [assignment res c]" res cs] show ?thesis
        by (intro bexI[of _ "assignment res c"]) simp_all
    next
      case False
      then obtain m where m: "m \<in> set maps" "set m = set (assignment res c)" by blast
      with c Cons.prems(2) collect_maps_keeps[OF m(1), of res cs] show ?thesis by auto
    qed
  qed
qed simp

lemma attacker_match_positions_wf:
  assumes "battle_wf st"
  shows "attacker_match_positions lev gd side name st = Inr (filter (\<lambda>k. name_matches lev gd (upper name)
    (sd_team (side_of st side) ! (sd_active_indices (side_of st side) ! k))) [0..<length (sd_active_indices (side_of st side))])"
proof -
  let ?s = "side_of st side"
  have "rmap (\<lambda>x. rbind (lk (sd_team ?s) (snd x)) (\<lambda>mon. Inr (fst x, name_matches lev gd (upper name) mon))) (enumerated (sd_active_indices ?s))
      = Inr (map (\<lambda>x. (fst x, name_matches lev gd (upper name) (sd_team ?s ! snd x))) (enumerated (sd_active_indices ?s)))"
    using battle_wf_side[OF assms, of side]
    by (intro rmap_Inr_map) (auto simp: side_wf_def set_enumerated lk_def)
  moreover have "enumerated (sd_active_indices ?s) = map (\<lambda>k. (k, sd_active_indices ?s ! k)) [0..<length (sd_active_indices ?s)]"
    by (rule nth_equalityI) (auto simp: enumerated_def)
  ultimately show ?thesis
    by (simp add: attacker_match_positions_def filter_map comp_def)
qed

lemma actor_side_hint: "actor_side lev gd m st = Inr i \<Longrightarrow> mr_side_hint m = Some i"
  by (auto simp: actor_side_def fuzzy_find_side_def Let_def rbind_eq_Inr split: option.splits if_splits)

text \<open>The specification of the resolved attackers.\<close>

definition attackers_of :: "distance \<Rightarrow> game_data \<Rightarrow> battle_state \<Rightarrow> match_result list \<Rightarrow> (nat \<times> sid \<times> nat list) list" where
  "attackers_of lev gd st msgs = filter (\<lambda>x. snd (snd x) \<noteq> []) (map (\<lambda>m. let side = the (mr_side_hint m); s = side_of st side in
     (mr_oid m, side, filter (\<lambda>k. name_matches lev gd (upper (hd (mr_var_values m))) (sd_team s ! (sd_active_indices s ! k)))
        [0..<length (sd_active_indices s)])) (filter is_usedmove msgs))"

lemma resolved_attackers_spec:
  assumes "battle_wf st" "resolved_attackers lev gd msgs st = Inr res"
  shows "res = attackers_of lev gd st msgs"
proof -
  let ?f = "\<lambda>m. rbind (actor_side lev gd m st) (\<lambda>side. rbind (attacker_match_positions lev gd side (hd (mr_var_values m)) st) (\<lambda>ps. Inr (mr_oid m, side, ps)))"
  let ?g = "\<lambda>m. let side = the (mr_side_hint m); s = side_of st side in
     (mr_oid m, side, filter (\<lambda>k. name_matches lev gd (upper (hd (mr_var_values m))) (sd_team s ! (sd_active_indices s ! k)))
        [0..<length (sd_active_indices s)])"
  from assms(2) obtain xs where xs: "rmap ?f (filter is_usedmove msgs) = Inr xs" "res = filter (\<lambda>x. snd (snd x) \<noteq> []) xs"
    by (auto simp: resolved_attackers_def rbind_eq_Inr)
  have "?f m = Inr y \<Longrightarrow> y = ?g m" for m y
    using actor_side_hint[of lev gd m st] by (auto simp: rbind_eq_Inr attacker_match_positions_wf[OF assms(1)] Let_def)
  then have "xs = map ?g (filter is_usedmove msgs)"
    using rmap_length[OF xs(1)] rmap_nth[OF xs(1)] by (intro nth_equalityI) auto
  with xs(2) show ?thesis by (simp only: attackers_of_def)
qed

lemma attackers_of_distinct: "distinct (map mr_oid msgs) \<Longrightarrow> distinct (map fst (attackers_of lev gd st msgs))"
proof -
  assume "distinct (map mr_oid msgs)"
  then have "distinct (map mr_oid (filter is_usedmove msgs))" by (rule distinct_map_filter)
  then show ?thesis
    unfolding attackers_of_def by (intro distinct_map_filter) (simp add: comp_def Let_def)
qed

section \<open>Lemmas on segments and counts\<close>

lemma append_last_snoc [simp]: "append_last m (segs @ [(i, k, ms)]) = segs @ [(i, k, ms @ [m])]"
  by (simp add: append_last_def)

lemma append_last_Nil [simp]: "append_last m [] = []"
  by (simp add: append_last_def)

lemma on_last_snoc [simp]: "on_last f (xs @ [x]) = xs @ [f x]" "on_last f [] = []"
  by (simp_all add: on_last_def)

lemma on_last_map_append_last:
  assumes "\<And>ms. g (ms @ [m]) = f (g ms)"
  shows "map (\<lambda>x. g (snd (snd x))) (append_last m segs) = on_last f (map (\<lambda>x. g (snd (snd x))) segs)"
  by (cases segs rule: rev_cases) (use assms in auto)

lemma append_last_heads: "map (\<lambda>x. (fst x, fst (snd x))) (append_last m segs) = map (\<lambda>x. (fst x, fst (snd x))) segs"
  by (cases segs rule: rev_cases) auto

definition is_crit :: "match_result \<Rightarrow> bool" where
  "is_crit m \<longleftrightarrow> mr_string_id m = ''STRINGID_CRITICALHIT''"

lemma segment_step_simps:
  "is_usedmove m \<Longrightarrow> map_of d (mr_oid m) = Some (i, k) \<Longrightarrow>
     segment_step lev gd st (Some d) acc m = Inr (fst acc @ [(i, k, [])], snd acc)"
  "\<not> is_usedmove m \<Longrightarrow> segment_step lev gd st sm acc m = Inr (append_last m (fst acc), snd acc)"
  by (simp_all add: segment_step_def)

lemma segments_aligned:
  assumes "\<forall>m \<in> set msgs. is_usedmove m \<longrightarrow> map_of d (mr_oid m) \<noteq> None"
    and "message_crit_counts_with_state lev gd msgs st = Inr cs" "message_hit_counts_with_state lev gd msgs st = Inr hs"
  shows "\<exists>segs. rfold (segment_step lev gd st (Some d)) ([], cursor0) msgs = Inr (segs, cursor0)
    \<and> message_action_order_with_state lev gd msgs st (Some d) = Inr (map (\<lambda>x. (fst x, fst (snd x))) segs)
    \<and> cs = map (\<lambda>x. length (filter is_crit (snd (snd x)))) segs
    \<and> hs = map (\<lambda>x. foldl (\<lambda>n m. hits_value m n) 1 (snd (snd x))) segs"
  using assms
proof (induction msgs arbitrary: cs hs rule: rev_induct)
  case Nil
  then show ?case by (simp add: message_crit_counts_with_state_def message_hit_counts_with_state_def
      message_action_order_with_state_def List.map_filter_def)
next
  case (snoc m msgs)
  from snoc.prems(2,3) obtain cs0 hs0 where c0: "message_crit_counts_with_state lev gd msgs st = Inr cs0" "crit_step lev gd st cs0 m = Inr cs"
    and h0: "message_hit_counts_with_state lev gd msgs st = Inr hs0" "hit_step lev gd st hs0 m = Inr hs"
    by (auto simp: message_crit_counts_with_state_def message_hit_counts_with_state_def rfold_append rbind_eq_Inr)
  from snoc.IH[OF _ c0(1) h0(1)] snoc.prems(1) obtain segs where
    segs: "rfold (segment_step lev gd st (Some d)) ([], cursor0) msgs = Inr (segs, cursor0)"
    "message_action_order_with_state lev gd msgs st (Some d) = Inr (map (\<lambda>x. (fst x, fst (snd x))) segs)"
    "cs0 = map (\<lambda>x. length (filter is_crit (snd (snd x)))) segs"
    "hs0 = map (\<lambda>x. foldl (\<lambda>n m. hits_value m n) 1 (snd (snd x))) segs"
    by auto
  show ?case
  proof (cases "is_usedmove m")
    case True
    with snoc.prems(1) obtain i k where ik: "map_of d (mr_oid m) = Some (i, k)" by auto
    with True segs c0(2) h0(2) show ?thesis
      by (intro exI[of _ "segs @ [(i, k, [])]"])
        (auto simp: rfold_append segment_step_simps crit_step_def hit_step_def rbind_eq_Inr
          message_action_order_with_state_def List.map_filter_def)
  next
    case False
    have "cs = on_last (\<lambda>n. n + length (filter is_crit [m])) cs0"
      using False c0(2) by (cases cs0 rule: rev_cases) (auto simp: crit_step_def is_crit_def split: if_splits)
    moreover have "hs = on_last (hits_value m) hs0" using False h0(2) by (simp add: hit_step_def)
    ultimately show ?thesis
      using False segs
        on_last_map_append_last[of "\<lambda>ms. length (filter is_crit ms)" m "\<lambda>n. n + length (filter is_crit [m])" segs]
        on_last_map_append_last[of "\<lambda>ms. foldl (\<lambda>n m. hits_value m n) 1 ms" m "hits_value m" segs] append_last_heads[of m segs]
      by (intro exI[of _ "append_last m segs"])
        (auto simp: rfold_append segment_step_simps message_action_order_with_state_def List.map_filter_def)
  qed
qed

section \<open>Lemmas on candidate actions\<close>

lemma expand_action_targets_nonempty:
  assumes "expand_action_targets gd a side k st foe hcm = Inr vs" "foe \<noteq> []"
  shows "vs \<noteq> [] \<and> (\<forall>v \<in> set vs. v\<lparr>ac_target_slot := ac_target_slot a\<rparr> = a)"
  using assms by (auto simp: expand_action_targets_def rbind_eq_Inr split: if_splits)

lemma product_lists_nonempty: "[] \<notin> set xss \<Longrightarrow> product_lists xss \<noteq> []"
proof (induction xss)
  case (Cons xs xss)
  then obtain x ys where "xs = x # ys" by (cases xs) auto
  with Cons show ?case by (cases "product_lists xss") auto
qed simp

lemma slot_variants_nonempty:
  assumes "slot_variants gd side st known foe hcm k = Inr vs" "foe \<noteq> []"
  shows "vs \<noteq> []"
proof -
  from assms(1) obtain kn where kn: "lk known k = Inr kn" by (auto simp: slot_variants_def rbind_eq_Inr)
  show ?thesis
  proof (cases kn)
    case (Some a)
    with assms kn show ?thesis using expand_action_targets_nonempty by (auto simp: slot_variants_def)
  next
    case None
    with assms(1) kn obtain legal vss where
      v: "rmap (\<lambda>a. expand_action_targets gd a side k st foe hcm) (if legal = [] then [(move_action 0)\<lparr>ac_source_slot := k\<rparr>] else legal) = Inr vss"
      "vs = concat vss"
      by (auto simp: slot_variants_def rbind_eq_Inr)
    from rmap_length[OF v(1)] have "vss \<noteq> []" by (cases legal) auto
    moreover have "x \<noteq> []" if "x \<in> set vss" for x
      using rmap_set[OF v(1) that] expand_action_targets_nonempty assms(2) by blast
    ultimately show ?thesis using v(2) by (cases vss) auto
  qed
qed

text \<open>What a variant of a slot is: the known action, or a legal one, up to the target slot.\<close>

definition variant_of :: "game_data \<Rightarrow> battle_state \<Rightarrow> sid \<Rightarrow> nat \<Rightarrow> action option \<Rightarrow> action \<Rightarrow> bool" where
  "variant_of gd st side k known v \<longleftrightarrow> (case known of
       Some a \<Rightarrow> v\<lparr>ac_target_slot := ac_target_slot a\<rparr> = a
     | None \<Rightarrow> (\<exists>legal. enumerate_legal_actions gd st side k = Inr legal
         \<and> (legal = [] \<or> (\<exists>l \<in> set legal. v\<lparr>ac_target_slot := ac_target_slot l\<rparr> = l))))"

lemma slot_variants_sound:
  assumes "slot_variants gd side st known foe hcm k = Inr vs" "foe \<noteq> []" "v \<in> set vs"
  shows "k < length known \<and> variant_of gd st side k (known ! k) v"
proof -
  from assms(1) have k: "k < length known" by (auto simp: slot_variants_def rbind_eq_Inr lk_def split: if_splits)
  show ?thesis
  proof (cases "known ! k")
    case (Some a)
    with assms k show ?thesis using expand_action_targets_nonempty by (auto simp: slot_variants_def variant_of_def)
  next
    case None
    with assms(1) k obtain legal vss where legal: "enumerate_legal_actions gd st side k = Inr legal"
      "rmap (\<lambda>a. expand_action_targets gd a side k st foe hcm) (if legal = [] then [(move_action 0)\<lparr>ac_source_slot := k\<rparr>] else legal) = Inr vss"
      "vs = concat vss"
      by (auto simp: slot_variants_def rbind_eq_Inr)
    from assms(3) legal(3) obtain xs where xs: "xs \<in> set vss" "v \<in> set xs" by auto
    from rmap_set[OF legal(2) xs(1)] obtain a where a: "a \<in> set (if legal = [] then [(move_action 0)\<lparr>ac_source_slot := k\<rparr>] else legal)"
      "expand_action_targets gd a side k st foe hcm = Inr xs" by blast
    have "v\<lparr>ac_target_slot := ac_target_slot a\<rparr> = a"
      using expand_action_targets_nonempty[OF a(2) assms(2)] xs(2) by blast
    with a(1) None legal(1) k show ?thesis
      by (auto simp: variant_of_def split: if_splits)
  qed
qed

lemma build_side_candidates_spec:
  assumes "build_side_candidates gd side st known od pd hs mv = Inr cs"
  defines "n \<equiv> length (sd_active_indices (side_of st side))"
  shows "cs \<noteq> []" "n = 1 \<Longrightarrow> known \<noteq> [] \<and> (\<forall>a. known ! 0 = Some a \<longrightarrow> cs = [One a])"
    "n \<noteq> 1 \<Longrightarrow> x \<in> set cs \<Longrightarrow> \<exists>as. x = Many (map Some as) \<and> length as = n \<and> (\<forall>k < n. variant_of gd st side k (known ! k) (as ! k))"
proof -
  define foe where "foe = (let dmg = foe_damaged_slots (if opp side = P1 then od else pd) in if dmg = [] then [0] else dmg)"
  have foe: "foe \<noteq> []" by (simp add: foe_def Let_def)
  have doubles: "\<exists>per. rmap (slot_variants gd side st known foe (hit_count_map_of mv hs)) [0..<n] = Inr per
      \<and> cs = map (\<lambda>combo. Many (map Some combo)) (product_lists per)" if "n \<noteq> 1"
    using that assms by (auto simp: build_side_candidates_def Let_def foe_def rbind_eq_Inr split: if_splits)
  show "cs \<noteq> []"
  proof (cases "n = 1")
    case True
    with assms show ?thesis by (auto simp: build_side_candidates_def Let_def rbind_eq_Inr split: option.splits if_splits)
  next
    case False
    with doubles obtain per where per: "rmap (slot_variants gd side st known foe (hit_count_map_of mv hs)) [0..<n] = Inr per"
      "cs = map (\<lambda>combo. Many (map Some combo)) (product_lists per)" by blast
    have "[] \<notin> set per" using rmap_set[OF per(1), of "[]"] slot_variants_nonempty[OF _ foe, of gd side st known "hit_count_map_of mv hs" _ "[]"] by auto
    then show ?thesis using per(2) product_lists_nonempty by simp
  qed
  show "known \<noteq> [] \<and> (\<forall>a. known ! 0 = Some a \<longrightarrow> cs = [One a])" if "n = 1"
  proof -
    have b: "build_side_candidates gd side st known od pd hs mv = rbind (lk known 0) (\<lambda>kn. case kn of Some a \<Rightarrow> Inr [One a]
        | None \<Rightarrow> rbind (enumerate_legal_actions gd st side 0) (\<lambda>legal. Inr (map One (if legal = [] then [move_action 0] else legal))))"
      using that by (simp add: build_side_candidates_def Let_def n_def)
    with assms(1) obtain kn where kn: "lk known 0 = Inr kn" by (auto simp: rbind_eq_Inr)
    then have k: "known \<noteq> []" "known ! 0 = kn" by (auto simp: lk_eq_Inr)
    moreover have "cs = [One a]" if "kn = Some a" for a
      using assms(1) b kn that by simp
    ultimately show ?thesis by simp
  qed
  show "\<exists>as. x = Many (map Some as) \<and> length as = n \<and> (\<forall>k < n. variant_of gd st side k (known ! k) (as ! k))"
    if "n \<noteq> 1" "x \<in> set cs"
  proof -
    from doubles[OF that(1)] obtain per where per: "rmap (slot_variants gd side st known foe (hit_count_map_of mv hs)) [0..<n] = Inr per"
      "cs = map (\<lambda>combo. Many (map Some combo)) (product_lists per)" by blast
    with that(2) obtain as where as: "x = Many (map Some as)" "list_all2 (\<lambda>a ys. a \<in> set ys) as per"
      by (auto simp: product_lists_set)
    have len: "length per = n" using rmap_length[OF per(1)] by simp
    have "variant_of gd st side k (known ! k) (as ! k)" if "k < n" for k
      using slot_variants_sound[OF _ foe] rmap_nth[OF per(1), of k] list_all2_nthD2[OF as(2), of k] that len by auto
    with as(1) list_all2_lengthD[OF as(2)] len show ?thesis by auto
  qed
qed

section \<open>The invariant of the known actions\<close>

text \<open>A slot's action is one the candidate's state allows: a move that is legal for that slot, or a switch into the team.\<close>

definition known_ok :: "game_data \<Rightarrow> battle_state \<Rightarrow> known_actions \<Rightarrow> bool" where
  "known_ok gd st known \<longleftrightarrow> (\<forall>i. length (known i) = length (sd_active_indices (side_of st i))
     \<and> (\<forall>k a. k < length (known i) \<and> known i ! k = Some a \<longrightarrow>
         (ac_kind a = MOVE \<and> ac_source_slot a = k \<and> (\<exists>legal. enumerate_legal_actions gd st i k = Inr legal
             \<and> (\<exists>l \<in> set legal. ac_kind l = MOVE \<and> ac_move_slot l = ac_move_slot a)))
         \<or> (k = 0 \<and> (\<exists>j < length (sd_team (side_of st i)). a = switch_action j))))"

lemma known_ok_update:
  assumes "known_ok gd st known"
    and "(ac_kind a = MOVE \<and> ac_source_slot a = k \<and> (\<exists>legal. enumerate_legal_actions gd st i k = Inr legal
             \<and> (\<exists>l \<in> set legal. ac_kind l = MOVE \<and> ac_move_slot l = ac_move_slot a)))
         \<or> (k = 0 \<and> (\<exists>j < length (sd_team (side_of st i)). a = switch_action j))"
  shows "known_ok gd st (known(i := (known i)[k := Some a]))"
  unfolding known_ok_def
proof (intro allI conjI impI)
  fix i' show "length ((known(i := (known i)[k := Some a])) i') = length (sd_active_indices (side_of st i'))"
    using assms(1) by (simp add: known_ok_def)
next
  fix i' k' b
  assume *: "k' < length ((known(i := (known i)[k := Some a])) i') \<and> (known(i := (known i)[k := Some a])) i' ! k' = Some b"
  show "(ac_kind b = MOVE \<and> ac_source_slot b = k' \<and> (\<exists>legal. enumerate_legal_actions gd st i' k' = Inr legal
             \<and> (\<exists>l \<in> set legal. ac_kind l = MOVE \<and> ac_move_slot l = ac_move_slot b)))
         \<or> (k' = 0 \<and> (\<exists>j < length (sd_team (side_of st i')). b = switch_action j))"
  proof (cases "i' = i \<and> k' = k")
    case True
    with * have "b = a" by (metis fun_upd_same length_list_update nth_list_update_eq option.inject)
    with True assms(2) show ?thesis by simp
  next
    case False
    with * have "k' < length (known i') \<and> known i' ! k' = Some b" by (auto split: if_splits)
    with assms(1) show ?thesis unfolding known_ok_def by blast
  qed
qed

lemma move_action_simps [simp]:
  "ac_kind (move_action k) = MOVE" "ac_move_slot (move_action k) = k" "ac_kind struggle_action = MOVE" "ac_kind (mk_action k') = k'"
  "ac_kind (switch_action j) = SWITCH"
  by (simp_all add: move_action_def struggle_action_def mk_action_def switch_action_def)

lemma observed_move_kind: "observed_move lev gd m poke slot = Some act \<Longrightarrow> ac_kind act = MOVE \<and> ac_source_slot act = slot"
  by (auto simp: observed_move_def Let_def split: if_splits)

lemma record_move_ok:
  assumes "record_move lev gd st m side slot acc = Inr acc'" "known_ok gd st (ka_known acc)"
  shows "known_ok gd st (ka_known acc')"
  using assms observed_move_kind[of lev gd m _ slot]
  by (fastforce simp: record_move_def Let_def rbind_eq_Inr split: if_splits option.splits intro!: known_ok_update)

lemma record_switch_ok:
  assumes "record_switch lev gd st bs m acc = Inr acc'" "known_ok gd st (ka_known acc)"
  shows "known_ok gd st (ka_known acc')"
proof (cases "ka_known acc' = ka_known acc")
  case False
  let ?side = "side_from_constant_name (mr_constant_name m)"
  from False assms(1) obtain k where k: "fuzzy_find_team_slot lev gd (if mr_var_values m = [] then [] else last (mr_var_values m)) ?side st = Inr (Some k)"
    "ka_known acc' = (ka_known acc)(?side := (ka_known acc ?side)[0 := Some (switch_action k)])"
    by (auto simp: record_switch_def Let_def rbind_eq_Inr split: if_splits option.splits)
  have "k \<in> set (fuzzy_find_team_slots lev gd (if mr_var_values m = [] then [] else last (mr_var_values m)) ?side st)"
    using k(1) by (auto simp: fuzzy_find_team_slot_def split: list.splits)
  then have "k < length (sd_team (side_of st ?side))" using fuzzy_slots_mem by blast
  then show ?thesis using known_ok_update[OF assms(2), of "switch_action k" 0 ?side] k(2) by auto
qed (use assms in simp)

lemma known_step_ok:
  assumes "known_step lev gd st sm bs acc m = Inr acc'" "known_ok gd st (ka_known acc)"
  shows "known_ok gd st (ka_known acc')"
  using assms record_switch_ok[of lev gd st bs m acc acc'] record_move_ok[of lev gd st m]
  by (fastforce simp: known_step_def split: if_splits sum.splits exn.splits option.splits)

section \<open>Properties\<close>

text \<open>
  C22: the slot maps cover every possible attribution. For messages with distinct identities, \<open>_build_attacker_slot_maps\<close> gives at least one map;
  when some choice of matching active slots uses no slot twice, the maps are exactly those choices (each attacker on the side of its hint, at an active
  position whose species matches its name), otherwise the single map is the cursor's.
\<close>

theorem slot_maps_exact:
  fixes lev :: distance and gd :: game_data and st :: battle_state and msgs :: "match_result list"
  defines "atk \<equiv> attackers_of lev gd st msgs"
  defines "choices \<equiv> {c. list_all2 (\<lambda>p x. p \<in> set (snd (snd x))) c atk \<and> distinct (slots_used atk c)}"
  assumes "battle_wf st" "distinct (map mr_oid msgs)" "build_attacker_slot_maps lev gd msgs st = Inr maps"
  shows "maps \<noteq> [] \<and> (choices \<noteq> {} \<longrightarrow> set ` set maps = (\<lambda>c. set (zip (map fst atk) (slots_used atk c))) ` choices)
    \<and> (choices = {} \<longrightarrow> (\<exists>m. maps = [m] \<and> build_attacker_slot_map lev gd msgs st = Inr m))"
proof -
  let ?cs = "product_lists (map (\<lambda>x. snd (snd x)) atk)"
  from assms(5) obtain res where "resolved_attackers lev gd msgs st = Inr res"
    by (auto simp: build_attacker_slot_maps_def rbind_eq_Inr)
  with resolved_attackers_spec[OF assms(3)] have res: "resolved_attackers lev gd msgs st = Inr atk" by (simp add: atk_def)
  have dist: "distinct (map fst atk)" unfolding atk_def by (rule attackers_of_distinct[OF assms(4)])
  have choices: "choices = {c \<in> set ?cs. distinct (slots_used atk c)}"
    by (auto simp: choices_def product_lists_set list_all2_map2)
  have asg: "assignment atk c = zip (map fst atk) (slots_used atk c)" if "c \<in> choices" for c
    using that dist by (intro assignment_distinct) (auto simp: choices_def dest: list_all2_lengthD)
  have img: "set ` set (collect_maps atk ?cs []) = (\<lambda>c. set (zip (map fst atk) (slots_used atk c))) ` choices"
  proof (intro equalityI subsetI)
    fix X assume "X \<in> set ` set (collect_maps atk ?cs [])"
    then obtain c where "c \<in> choices" "X = set (assignment atk c)"
      using collect_maps_sound[of _ atk ?cs "[]"] by (auto simp: choices)
    with asg show "X \<in> (\<lambda>c. set (zip (map fst atk) (slots_used atk c))) ` choices" by auto
  next
    fix X assume "X \<in> (\<lambda>c. set (zip (map fst atk) (slots_used atk c))) ` choices"
    then obtain c where c: "c \<in> choices" "X = set (assignment atk c)" using asg by auto
    then have "c \<in> set ?cs" "distinct (slots_used atk c)" by (simp_all add: choices)
    from collect_maps_complete[OF this, of "[]"] obtain m where "m \<in> set (collect_maps atk ?cs [])" "set m = set (assignment atk c)"
      by blast
    with c(2) show "X \<in> set ` set (collect_maps atk ?cs [])" by (metis imageI)
  qed
  show ?thesis
  proof (cases "choices = {}")
    case True
    then have "collect_maps atk ?cs [] = []" using img by auto
    with assms(5) res True show ?thesis by (auto simp: build_attacker_slot_maps_def rbind_eq_Inr)
  next
    case False
    then have "collect_maps atk ?cs [] \<noteq> []" using img by auto
    with assms(5) res img False show ?thesis by (simp add: build_attacker_slot_maps_def Let_def)
  qed
qed

definition used_message :: "nat \<Rightarrow> string \<Rightarrow> sid \<Rightarrow> match_result" where
  "used_message oid name side = (plain_message USEDMOVE_ID [name, ''TACKLE''] (name @ '' used TACKLE!'') (Some side))\<lparr>mr_oid := oid\<rparr>"

theorem slot_maps_exact_witness:
  "\<exists>maps. build_attacker_slot_maps levenshtein sample_data [used_message 7 ''SHEDINJA'' P0] shedinja_battle = Inr maps
     \<and> set ` set maps = {{(7, P0, 0)}}"
proof -
  have wf: "battle_wf shedinja_battle" by (simp add: battle_wf_def side_wf_def shedinja_battle_def mk_side_def side_post_init_def) code_simp
  have "isl (build_attacker_slot_maps levenshtein sample_data [used_message 7 ''SHEDINJA'' P0] shedinja_battle) = False" by code_simp
  then obtain maps where maps: "build_attacker_slot_maps levenshtein sample_data [used_message 7 ''SHEDINJA'' P0] shedinja_battle = Inr maps"
    by (cases "build_attacker_slot_maps levenshtein sample_data [used_message 7 ''SHEDINJA'' P0] shedinja_battle") auto
  have atk: "attackers_of levenshtein sample_data shedinja_battle [used_message 7 ''SHEDINJA'' P0] = [(7, P0, [0])]" by code_simp
  have ch: "{c. list_all2 (\<lambda>p x. p \<in> set (snd (snd x))) c [(7 :: nat, P0, [0 :: nat])] \<and> distinct (slots_used [(7, P0, [0])] c)} = {[0]}"
    by (auto simp: list_all2_Cons2 slots_used_def)
  show ?thesis
    using slot_maps_exact[OF wf _ maps] maps by (simp add: atk ch) (simp add: slots_used_def)
qed

text \<open>
  Counts, order and segments agree. When every "used" message has a slot in the map, the action order lists the heads of the segments,
  the critical-hit count of a mover is the number of critical-hit messages of its segment, and its hit count is the last hit count its segment announces (1 without one).
\<close>

theorem movers_aligned:
  assumes "\<forall>m \<in> set msgs. is_usedmove m \<longrightarrow> map_of d (mr_oid m) \<noteq> None"
    and "message_crit_counts_with_state lev gd msgs st = Inr cs" "message_hit_counts_with_state lev gd msgs st = Inr hs"
  shows "\<exists>segs. segment_flat_messages_by_mover lev gd msgs st (Some d) = Inr segs
    \<and> message_action_order_with_state lev gd msgs st (Some d) = Inr (map (\<lambda>x. (fst x, fst (snd x))) segs)
    \<and> cs = map (\<lambda>x. length (filter is_crit (snd (snd x)))) segs
    \<and> hs = map (\<lambda>x. foldl (\<lambda>n m. hits_value m n) 1 (snd (snd x))) segs"
  using segments_aligned[OF assms] by (auto simp: segment_flat_messages_by_mover_def)

theorem movers_aligned_witness:
  "\<exists>segs. segment_flat_messages_by_mover levenshtein sample_data
     [used_message 7 ''SHEDINJA'' P0, plain_message ''STRINGID_CRITICALHIT'' [] ''A critical hit!'' None] shedinja_battle (Some [(7, P0, 0)]) = Inr segs
     \<and> [1] = map (\<lambda>x. length (filter is_crit (snd (snd x)))) segs"
proof -
  let ?ms = "[used_message 7 ''SHEDINJA'' P0, plain_message ''STRINGID_CRITICALHIT'' [] ''A critical hit!'' None]"
  have c: "message_crit_counts_with_state levenshtein sample_data ?ms shedinja_battle = Inr [1]"
    and h: "message_hit_counts_with_state levenshtein sample_data ?ms shedinja_battle = Inr [1]"
    by code_simp+
  have d: "\<forall>m \<in> set ?ms. is_usedmove m \<longrightarrow> map_of [(7 :: nat, P0, 0 :: nat)] (mr_oid m) \<noteq> None" by code_simp
  obtain segs where "segment_flat_messages_by_mover levenshtein sample_data ?ms shedinja_battle (Some [(7, P0, 0)]) = Inr segs"
    "[1] = map (\<lambda>x. length (filter is_crit (snd (snd x)))) segs"
    using movers_aligned[OF d c h] by (elim exE conjE)
  then show ?thesis by (intro exI conjI)
qed

text \<open>
  C5: the actions read off the messages are legal. Every action that \<open>_extract_known_actions\<close> gives for a slot is a move that
  \<open>enumerate_legal_actions\<close> lists for that slot, or a switch to a member of the side's team in slot 0; there is one entry per active slot.
\<close>

theorem known_actions_legal:
  assumes "extract_known_actions lev gd msgs st sm = Inr known"
  shows "known_ok gd st known"
proof -
  from assms obtain acc where acc: "rfold (known_step lev gd st sm (\<exists>m \<in> set msgs. mr_string_id m = ''STRINGID_INTROMSG'')) (known_start st) msgs = Inr acc"
    "known = ka_known acc"
    by (auto simp: extract_known_actions_def rbind_eq_Inr)
  have "known_ok gd st (ka_known acc)"
    using acc(1)
  proof (rule rfold_invariant)
    show "known_ok gd st (ka_known (known_start st))" by (auto simp: known_ok_def known_start_def)
  qed (rule known_step_ok)
  with acc(2) show ?thesis by simp
qed

theorem known_actions_legal_witness:
  "\<exists>known. extract_known_actions levenshtein sample_data [used_message 7 ''SHEDINJA'' P0] shedinja_battle (Some [(7, P0, 0)]) = Inr known
     \<and> known P0 \<noteq> [None] \<and> known_ok sample_data shedinja_battle known"
proof -
  have "isl (extract_known_actions levenshtein sample_data [used_message 7 ''SHEDINJA'' P0] shedinja_battle (Some [(7, P0, 0)])) = False"
    "projr (extract_known_actions levenshtein sample_data [used_message 7 ''SHEDINJA'' P0] shedinja_battle (Some [(7, P0, 0)])) P0 \<noteq> [None]"
    by code_simp+
  then obtain known where "extract_known_actions levenshtein sample_data [used_message 7 ''SHEDINJA'' P0] shedinja_battle (Some [(7, P0, 0)]) = Inr known"
    "known P0 \<noteq> [None]"
    by (cases "extract_known_actions levenshtein sample_data [used_message 7 ''SHEDINJA'' P0] shedinja_battle (Some [(7, P0, 0)])") auto
  with known_actions_legal show ?thesis by blast
qed

text \<open>
  C6: the sweep always has something to try, and tries only what the messages allow. When no active mon has fainted and
  \<open>_sweep_resolve_candidate_actions\<close> returns, both candidate lists are non-empty; a single slot with a known action keeps exactly that action, and in doubles every candidate has one
  action per slot, each the known action of its slot or a legal one of it, up to the target.
\<close>

theorem candidate_actions_sound:
  assumes "sweep_resolve_candidate_actions lev gd st msgs known od pd sm = Inr cands" "has_fainted_active st = Inr False"
    and "n = length (sd_active_indices (side_of st i))" "cs = (if i = P0 then fst cands else snd cands)"
  shows "cs \<noteq> [] \<and> (n = 1 \<longrightarrow> known i \<noteq> [] \<and> (\<forall>a. known i ! 0 = Some a \<longrightarrow> cs = [One a]))
    \<and> (n \<noteq> 1 \<longrightarrow> (\<forall>x \<in> set cs. \<exists>as. x = Many (map Some as) \<and> length as = n \<and> (\<forall>k < n. variant_of gd st i k (known i ! k) (as ! k))))"
proof -
  from assms(1,2) obtain hs mv where "build_side_candidates gd P0 st (known P0) od pd hs mv = Inr (fst cands)"
    "build_side_candidates gd P1 st (known P1) od pd hs mv = Inr (snd cands)"
    by (auto simp: sweep_resolve_candidate_actions_def rbind_eq_Inr)
  then have cs: "build_side_candidates gd i st (known i) od pd hs mv = Inr cs"
    using assms(4) by (cases i) auto
  show ?thesis
    using build_side_candidates_spec(1)[OF cs] build_side_candidates_spec(2,3)[OF cs, folded assms(3)] by blast
qed

theorem candidate_actions_sound_witness:
  "\<exists>cands. sweep_resolve_candidate_actions levenshtein sample_data sample_battle [] (\<lambda>_. [None]) [[]] [[]] None = Inr cands \<and> fst cands \<noteq> []"
proof -
  have ok: "isl (sweep_resolve_candidate_actions levenshtein sample_data sample_battle [] (\<lambda>_. [None]) [[]] [[]] None) = False"
    and f: "has_fainted_active sample_battle = Inr False"
    by code_simp+
  from ok obtain cands where "sweep_resolve_candidate_actions levenshtein sample_data sample_battle [] (\<lambda>_. [None]) [[]] [[]] None = Inr cands"
    by (cases "sweep_resolve_candidate_actions levenshtein sample_data sample_battle [] (\<lambda>_. [None]) [[]] [[]] None") auto
  with candidate_actions_sound[OF this f, of _ P0 "fst cands"] show ?thesis by auto
qed

end
