(* ===== verification/SweepSecondaries.thy ===== *)
theory SweepSecondaries
  imports SweepActions
begin

text \<open>
  Attribution of random outcomes to the observed messages (\<open>sweep_secondaries.py\<close>): which secondary
  effects of a move show up in a message, the overrides those messages force on each side and slot, and
  the combinations of outcomes that no message settles. The three dictionaries the code fills in place (the overrides of the two
  sides and the values injected before the turn) are fields of the injection state.
\<close>

section \<open>Tables\<close>

definition SECONDARY_STATUS_IDS :: "(string \<times> status) list" where
  "SECONDARY_STATUS_IDS = [
     (''STRINGID_PKMNFELLASLEEP'', St_SLEEP), (''STRINGID_PKMNMADESLEEP'', St_SLEEP), (''STRINGID_PKMNWASPOISONED'', St_POISON),
     (''STRINGID_PKMNBADLYPOISONED'', St_TOXIC), (''STRINGID_PKMNWASBURNED'', St_BURN), (''STRINGID_PKMNWASFROZEN'', St_FREEZE),
     (''STRINGID_PKMNWASPARALYZED'', St_PARALYSIS), (''STRINGID_PKMNWASPARALYZEDBY'', St_PARALYSIS)]"

definition STAT_CHANGE_IDS :: "string list" where
  "STAT_CHANGE_IDS = [
     ''STRINGID_STATROSE'', ''STRINGID_STATSHARPLY'', ''STRINGID_STATFELL'', ''STRINGID_STATHARSHLY'',
     ''STRINGID_ATTACKERSSTATROSE'', ''STRINGID_DEFENDERSSTATROSE'', ''STRINGID_ATTACKERSSTATFELL'', ''STRINGID_DEFENDERSSTATFELL'',
     ''STRINGID_ATTACKERSTATROSTEDRASTICALLY'', ''STRINGID_DEFENDERSTATROSTEDRASTICALLY'',
     ''STRINGID_ATTACKERSTATFELLSEVERELY'', ''STRINGID_DEFENDERSTATFELLSEVERELY'',
     ''STRINGID_STATROSEFROMITEM'', ''STRINGID_STATSHARPLYROSEFROMITEM'', ''STRINGID_STATFELLFROMITEM'',
     ''STRINGID_STATHARSHLYFELLFROMIITEM'', ''STRINGID_USINGITEMSTATOFPKMNROSE'']"

definition CONFUSION_APPLY_ID :: string where
  "CONFUSION_APPLY_ID = ''STRINGID_PKMNWASCONFUSED''"

definition CONFUSION_ACTING_ID :: string where
  "CONFUSION_ACTING_ID = ''STRINGID_PKMNISCONFUSED''"

definition TRI_ATTACK_STATUS_MAP :: "(string \<times> status) list" where
  "TRI_ATTACK_STATUS_MAP = [(''STRINGID_PKMNWASBURNED'', St_BURN), (''STRINGID_PKMNWASFROZEN'', St_FREEZE),
     (''STRINGID_PKMNWASPARALYZED'', St_PARALYSIS), (''STRINGID_PKMNWASPARALYZEDBY'', St_PARALYSIS)]"

definition PROC_STATUS_BY_IDS :: "string list" where
  "PROC_STATUS_BY_IDS = [''STRINGID_PKMNWASPARALYZEDBY'', ''STRINGID_PKMNPOISONEDBY'', ''STRINGID_PKMNBURNEDBY'', ''STRINGID_PKMNFROZENBY'']"

definition ACUPRESSURE_STAT_MAP :: "(string \<times> int) list" where
  "ACUPRESSURE_STAT_MAP = [(''ATTACK'', 0), (''DEFENSE'', 1), (''SP. ATK'', 2), (''SP. DEF'', 3),
     (''SPEED'', 4), (''ACCURACY'', 5), (''EVASIVENESS'', 6), (''EVASION'', 6)]"

definition EFFECT_SPORE_BY_STATUS :: "(string \<times> status) list" where
  "EFFECT_SPORE_BY_STATUS = [(''STRINGID_PKMNWASPARALYZEDBY'', St_PARALYSIS), (''STRINGID_PKMNPOISONEDBY'', St_POISON),
     (''STRINGID_PKMNMADESLEEP'', St_SLEEP)]"

definition HIT_ROLL_MIDPOINTS :: "(int \<times> rat) list" where
  "HIT_ROLL_MIDPOINTS = [(2, 175 / 1000), (3, 525 / 1000), (4, 775 / 1000), (5, 925 / 1000)]"

definition Move_TRI_ATTACK :: move where
  "Move_TRI_ATTACK = 161"

definition Ability_EFFECT_SPORE :: ability where
  "Ability_EFFECT_SPORE = 27"

definition Item_QUICK_CLAW :: item where
  "Item_QUICK_CLAW = 217"

section \<open>Secondary effects of a move\<close>

definition attributable_effect :: "move \<Rightarrow> secondary_effect \<Rightarrow> bool" where
  "attributable_effect mv sec \<longleftrightarrow> se_status sec \<noteq> None \<or> se_stat_changes sec \<noteq> [] \<or> se_volatile sec = Some ''confused''
     \<or> mv = Move_TRI_ATTACK"

text \<open>The effects that count: a second effect that is a mere flinch (the fang moves) does not.\<close>

definition counted_effects :: "move_data \<Rightarrow> secondary_effect list" where
  "counted_effects md =
     (case md_secondary md of None \<Rightarrow> [] | Some sec \<Rightarrow> [sec])
     @ (case md_secondary2 md of None \<Rightarrow> []
        | Some sec \<Rightarrow> if se_flinch sec \<and> se_status sec = None \<and> se_stat_changes sec = [] then [] else [sec])"

definition classify_secondaries :: "game_data \<Rightarrow> move \<Rightarrow> secondary_effect list \<times> secondary_effect list" where
  "classify_secondaries gd mv = (case gd_moves gd mv of
       None \<Rightarrow> ([], [])
     | Some md \<Rightarrow> (filter (attributable_effect mv) (counted_effects md),
                   filter (\<lambda>sec. \<not> attributable_effect mv sec) (counted_effects md)))"

definition secondary_match_in_messages :: "match_result list \<Rightarrow> secondary_effect \<Rightarrow> bool" where
  "secondary_match_in_messages msgs sec =
     (if se_status sec \<noteq> None then \<exists>m \<in> set msgs. map_of SECONDARY_STATUS_IDS (mr_string_id m) = se_status sec
      else if se_stat_changes sec \<noteq> [] then \<exists>m \<in> set msgs. mr_string_id m \<in> set STAT_CHANGE_IDS
      else if se_volatile sec = Some ''confused'' then \<exists>m \<in> set msgs. mr_string_id m = CONFUSION_APPLY_ID
      else False)"

definition group_messages :: "action_group \<Rightarrow> match_result list" where
  "group_messages g = ag_primary g # ag_secondaries g"

definition secondary_fired_in_group :: "action_group option \<Rightarrow> secondary_effect \<Rightarrow> bool option" where
  "secondary_fired_in_group grp sec = (case grp of
       None \<Rightarrow> None
     | Some g \<Rightarrow>
         if secondary_match_in_messages (group_messages g) sec then Some True
         else if \<exists>m \<in> set (group_messages g). mr_string_id m = USEDMOVE_ID then Some False
         else None)"

definition secondary_fired_in_flat_messages :: "match_result list \<Rightarrow> secondary_effect \<Rightarrow> bool option" where
  "secondary_fired_in_flat_messages msgs sec =
     (if secondary_match_in_messages msgs sec then Some True
      else if se_status sec \<noteq> None then Some False
      else if se_stat_changes sec \<noteq> [] then Some False
      else if se_volatile sec = Some ''confused'' then Some False
      else None)"

section \<open>Overrides\<close>

type_synonym overrides = "(rng_event \<times> pyv) list"
type_synonym pre_inject = "(rng_event \<times> pre_value) list"

text \<open>\<open>d = ovr.setdefault(event, {})\<close>, then \<open>d[slot] = v\<close> when \<open>d\<close> is a dictionary.\<close>

definition set_slot_override :: "rng_event \<Rightarrow> nat \<Rightarrow> pyv \<Rightarrow> overrides \<Rightarrow> overrides" where
  "set_slot_override e slot v ovr = (case map_of ovr e of
       None \<Rightarrow> AList.update e (PyDict [(slot, v)]) ovr
     | Some (PyDict d) \<Rightarrow> AList.update e (PyDict (AList.update slot v d)) ovr
     | Some _ \<Rightarrow> ovr)"

text \<open>
  The outcome written for the first attributable effect of a move. The update \<open>[source_slot] = fired\<close> of an
  entry that is not a dictionary raises.
\<close>

definition set_secondary :: "nat \<Rightarrow> bool \<Rightarrow> overrides \<Rightarrow> overrides res" where
  "set_secondary slot hit ovr = (case map_of ovr SECONDARY_FIRES of
       None \<Rightarrow> Inr (AList.update SECONDARY_FIRES (PyDict [(slot, PyBool hit)]) ovr)
     | Some (PyDict d) \<Rightarrow> Inr (AList.update SECONDARY_FIRES (PyDict (AList.update slot (PyBool hit) d)) ovr)
     | Some _ \<Rightarrow> Inl TypeError)"

definition fired_outcome :: "action_group option \<Rightarrow> match_result list option \<Rightarrow> secondary_effect \<Rightarrow> bool option" where
  "fired_outcome grp flat sec = (case secondary_fired_in_group grp sec of
       Some b \<Rightarrow> Some b
     | None \<Rightarrow> (case (grp, flat) of (None, Some msgs) \<Rightarrow> secondary_fired_in_flat_messages msgs sec | _ \<Rightarrow> None))"

definition tri_attack_status :: "match_result list \<Rightarrow> status option" where
  "tri_attack_status msgs = (case List.map_filter (\<lambda>m. map_of TRI_ATTACK_STATUS_MAP (mr_string_id m)) msgs of
       [] \<Rightarrow> None | s # _ \<Rightarrow> Some s)"

definition inject_attributable_secondaries :: "game_data \<Rightarrow> overrides \<Rightarrow> pre_inject \<Rightarrow> move \<Rightarrow> action_group option
    \<Rightarrow> nat \<Rightarrow> match_result list option \<Rightarrow> (overrides \<times> pre_inject) res" where
  "inject_attributable_secondaries gd ovr pre mv grp slot flat = (case fst (classify_secondaries gd mv) of
       [] \<Rightarrow> Inr (ovr, pre)
     | sec # _ \<Rightarrow>
         (let outcome = fired_outcome grp flat sec;
              msgs = (case grp of Some g \<Rightarrow> group_messages g | None \<Rightarrow> (case flat of Some ms \<Rightarrow> ms | None \<Rightarrow> []))
          in rbind (case outcome of None \<Rightarrow> Inr ovr | Some b \<Rightarrow> set_secondary slot b ovr) (\<lambda>ovr'.
               Inr (ovr', if mv = Move_TRI_ATTACK \<and> outcome = Some True
                          then (case tri_attack_status msgs of
                                  Some s \<Rightarrow> AList.update TRI_ATTACK_STATUS (PV_status s) pre
                                | None \<Rightarrow> pre)
                          else pre))))"

section \<open>Outcomes read off the messages\<close>

record injection =
  in_ovr :: "sid \<Rightarrow> overrides"
  in_pre :: pre_inject
  in_self_hits :: "(sid \<times> nat) list"
  in_last :: "(sid \<times> nat) option"
  in_acupressure :: "(sid \<times> nat) option"
  in_claws :: "(sid \<times> nat) list"
  in_priority0 :: "(sid \<times> nat) list"

definition no_injection :: injection where
  "no_injection = \<lparr>in_ovr = (\<lambda>_. []), in_pre = [], in_self_hits = [], in_last = None, in_acupressure = None,
     in_claws = [], in_priority0 = []\<rparr>"

definition add_slot :: "(sid \<times> nat) \<Rightarrow> (sid \<times> nat) list \<Rightarrow> (sid \<times> nat) list" where
  "add_slot x xs = (if x \<in> set xs then xs else xs @ [x])"

definition set_scalar :: "sid \<Rightarrow> rng_event \<Rightarrow> pyv \<Rightarrow> injection \<Rightarrow> injection" where
  "set_scalar i e v s = s\<lparr>in_ovr := (in_ovr s)(i := AList.update e v (in_ovr s i))\<rparr>"

definition set_for_slot :: "sid \<Rightarrow> nat \<Rightarrow> rng_event \<Rightarrow> pyv \<Rightarrow> injection \<Rightarrow> injection" where
  "set_for_slot i k e v s = s\<lparr>in_ovr := (in_ovr s)(i := set_slot_override e k v (in_ovr s i))\<rparr>"

text \<open>\<open>_set_acted_override\<close>: a scalar in singles, an entry of the slot in doubles.\<close>

definition set_acted_override :: "battle_state \<Rightarrow> sid \<Rightarrow> nat \<Rightarrow> rng_event \<Rightarrow> pyv \<Rightarrow> injection \<Rightarrow> injection" where
  "set_acted_override st i k e v s =
     (if length (sd_active_indices (side_of st i)) \<le> 1 then set_scalar i e v s else set_for_slot i k e v s)"

definition set_pre :: "rng_event \<Rightarrow> pre_value \<Rightarrow> injection \<Rightarrow> injection" where
  "set_pre e v s = s\<lparr>in_pre := AList.update e v (in_pre s)\<rparr>"

definition slot_or_0 :: "(sid \<times> nat) option \<Rightarrow> nat" where
  "slot_or_0 r = (case r of Some (_, k) \<Rightarrow> k | None \<Rightarrow> 0)"

text \<open>\<open>_name_slot\<close>, and the variant that looks for the name on both sides.\<close>

definition name_slot :: "distance \<Rightarrow> game_data \<Rightarrow> battle_state \<Rightarrow> string \<Rightarrow> sid \<Rightarrow> nat res" where
  "name_slot lev gd st name i =
     (if length (sd_active_indices (side_of st i)) \<le> 1 then Inr 0
      else rbind (slot_for_name lev gd name st None (Some i)) (\<lambda>r. Inr (slot_or_0 r)))"

definition name_slot_anywhere :: "distance \<Rightarrow> game_data \<Rightarrow> battle_state \<Rightarrow> string \<Rightarrow> sid \<Rightarrow> nat res" where
  "name_slot_anywhere lev gd st name i =
     (if length (sd_active_indices (side_of st i)) > 1
      then rbind (slot_for_name lev gd name st None None) (\<lambda>r. Inr (slot_or_0 r)) else Inr 0)"

text \<open>A message that names an acting Pokemon in its first slot: its side, and its slot; without a name it does nothing.\<close>

definition on_actor :: "distance \<Rightarrow> game_data \<Rightarrow> battle_state \<Rightarrow> match_result \<Rightarrow> injection
    \<Rightarrow> (sid \<Rightarrow> injection res) \<Rightarrow> injection res" where
  "on_actor lev gd st m s f = (if mr_var_values m = [] then Inr s else rbind (actor_side lev gd m st) f)"

definition on_actor_slot :: "distance \<Rightarrow> game_data \<Rightarrow> battle_state \<Rightarrow> match_result \<Rightarrow> rng_event \<Rightarrow> bool \<Rightarrow> injection \<Rightarrow> injection res" where
  "on_actor_slot lev gd st m e b s = on_actor lev gd st m s (\<lambda>i.
     rbind (name_slot lev gd st (hd (mr_var_values m)) i) (\<lambda>k. Inr (set_acted_override st i k e (PyBool b) s)))"

definition used_priority :: "game_data \<Rightarrow> move option \<Rightarrow> int" where
  "used_priority gd mv = (case mv of None \<Rightarrow> 0
     | Some m \<Rightarrow> (case gd_moves gd m of None \<Rightarrow> 0 | Some md \<Rightarrow> md_priority md))"

definition used_move_of :: "game_data \<Rightarrow> match_result \<Rightarrow> move option" where
  "used_move_of gd m = (if length (mr_var_values m) > 1 then move_name_to_enum gd (mr_var_values m ! 1) else None)"

definition underscored :: "string \<Rightarrow> string" where
  "underscored s = replace_char CHR '' '' CHR ''_'' (upper s)"

definition inject_usedmove :: "distance \<Rightarrow> game_data \<Rightarrow> battle_state \<Rightarrow> slot_map option \<Rightarrow> match_result \<Rightarrow> injection \<Rightarrow> injection res" where
  "inject_usedmove lev gd st sm m s =
     rbind (case (case sm of None \<Rightarrow> None | Some d \<Rightarrow> map_of d (mr_oid m)) of
         Some entry \<Rightarrow> Inr entry
       | None \<Rightarrow> rbind (actor_side lev gd m st) (\<lambda>i.
           rbind (name_slot_anywhere lev gd st (hd (mr_var_values m)) i) (\<lambda>k. Inr (i, k)))) (\<lambda>atk.
       let acu = (if length (mr_var_values m) > 1 \<and> underscored (mr_var_values m ! 1) = ''ACUPRESSURE'' then Some atk else None);
           mv = used_move_of gd m;
           s1 = s\<lparr>in_last := Some atk, in_acupressure := acu,
                  in_priority0 := (if used_priority gd mv \<le> 0 then add_slot atk (in_priority0 s) else in_priority0 s)\<rparr>
       in Inr (case mr_metronome_called m of
                 None \<Rightarrow> s1
               | Some c \<Rightarrow> set_pre (case mv of None \<Rightarrow> METRONOME_MOVE
                     | Some w \<Rightarrow> (case map_of CALLED_MOVE_EVENTS w of Some e \<Rightarrow> e | None \<Rightarrow> METRONOME_MOVE)) (PV_move c) s1))"

definition inject_proc :: "match_result \<Rightarrow> injection \<Rightarrow> injection" where
  "inject_proc m s = (case in_last s of
       None \<Rightarrow> s
     | Some (i, k) \<Rightarrow>
         (let s1 = set_for_slot i k PROC_FIRES (PyBool True) s in
          case map_of EFFECT_SPORE_BY_STATUS (mr_string_id m) of
            None \<Rightarrow> s1
          | Some x \<Rightarrow> if \<exists>v \<in> set (mr_var_values m). underscored v = ''EFFECT_SPORE''
                      then set_pre EFFECT_SPORE_WHICH (PV_status x) s1 else s1))"

definition inject_fell_asleep :: "battle_state \<Rightarrow> injection \<Rightarrow> injection res" where
  "inject_fell_asleep st s = (case in_last s of
       None \<Rightarrow> Inr s
     | Some (i, k) \<Rightarrow> (case sd_active_indices (side_of st (opp i)) of
           [] \<Rightarrow> Inr s
         | ti # _ \<Rightarrow> rbind (lk (sd_team (side_of st (opp i))) ti) (\<lambda>defender.
             Inr (if pk_ability defender = Ability_EFFECT_SPORE
                  then set_pre EFFECT_SPORE_WHICH (PV_status St_SLEEP) (set_for_slot i k PROC_FIRES (PyBool True) s)
                  else s))))"

text \<open>A confused Pokemon hit itself: the message before names it; failing that, both sides are assumed.\<close>

definition inject_confusion_hit :: "distance \<Rightarrow> game_data \<Rightarrow> battle_state \<Rightarrow> match_result option \<Rightarrow> injection \<Rightarrow> injection res" where
  "inject_confusion_hit lev gd st prev s =
     (case prev of
        Some p \<Rightarrow>
          if mr_string_id p = CONFUSION_ACTING_ID \<and> mr_var_values p \<noteq> [] then
            rbind (actor_side lev gd p st) (\<lambda>i.
            rbind (name_slot lev gd st (hd (mr_var_values p)) i) (\<lambda>k.
              Inr ((set_acted_override st i k CONFUSION_SELF_HIT (PyBool False) s)\<lparr>in_self_hits := add_slot (i, k) (in_self_hits s)\<rparr>)))
          else Inr ((set_scalar P1 CONFUSION_SELF_HIT (PyBool False) (set_scalar P0 CONFUSION_SELF_HIT (PyBool False) s))
                 \<lparr>in_self_hits := add_slot (P1, 0) (add_slot (P0, 0) (in_self_hits s))\<rparr>)
      | None \<Rightarrow> Inr ((set_scalar P1 CONFUSION_SELF_HIT (PyBool False) (set_scalar P0 CONFUSION_SELF_HIT (PyBool False) s))
                 \<lparr>in_self_hits := add_slot (P1, 0) (add_slot (P0, 0) (in_self_hits s))\<rparr>))"

definition inject_stat_rose :: "match_result \<Rightarrow> injection \<Rightarrow> injection" where
  "inject_stat_rose m s =
     (if in_acupressure s \<noteq> None \<and> length (mr_var_values m) \<ge> 2
      then (case map_of ACUPRESSURE_STAT_MAP (strip (upper (mr_var_values m ! 1))) of
              Some n \<Rightarrow> set_pre ACUPRESSURE_STAT (PV_int n) s | None \<Rightarrow> s)
      else s)"

definition inject_quick_claw :: "distance \<Rightarrow> game_data \<Rightarrow> battle_state \<Rightarrow> match_result \<Rightarrow> injection \<Rightarrow> injection res" where
  "inject_quick_claw lev gd st m s = on_actor lev gd st m s (\<lambda>i.
     rbind (name_slot lev gd st (hd (mr_var_values m)) i) (\<lambda>k.
       Inr ((set_for_slot i k QUICK_CLAW (PyBool True) s)\<lparr>in_claws := add_slot (i, k) (in_claws s)\<rparr>)))"

text \<open>\<open>bare_name.split(None, 1)[1]\<close> after a \<open>"FOE "\<close> prefix: nothing but blanks after it raises.\<close>

definition bare_foe_name :: "string \<Rightarrow> string res" where
  "bare_foe_name name =
     (if starts_with (upper name) ''FOE ''
      then (case dropWhile is_space (drop 4 name) of [] \<Rightarrow> Inl IndexError | r \<Rightarrow> Inr r)
      else Inr name)"

definition inject_dragged_out :: "distance \<Rightarrow> game_data \<Rightarrow> battle_state \<Rightarrow> match_result \<Rightarrow> injection \<Rightarrow> injection res" where
  "inject_dragged_out lev gd st m s =
     (if mr_var_values m = [] then Inr s
      else rbind (bare_foe_name (hd (mr_var_values m))) (\<lambda>name.
           rbind (fuzzy_find_team_slot lev gd name (case mr_side_hint m of Some i \<Rightarrow> i | None \<Rightarrow> P0) st) (\<lambda>slot.
             Inr (case slot of None \<Rightarrow> s | Some k \<Rightarrow> set_pre ROAR_TARGET (PV_int (int k)) s))))"

definition inject_hit_times :: "match_result \<Rightarrow> injection \<Rightarrow> injection" where
  "inject_hit_times m s = (case mr_var_values m of
       [] \<Rightarrow> s
     | v # _ \<Rightarrow> (case (parse_int v, in_last s) of
           (Inr n, Some (i, k)) \<Rightarrow> set_for_slot i k MULTI_HIT_COUNT
              (PyFloat (case map_of HIT_ROLL_MIDPOINTS n of Some r \<Rightarrow> r | None \<Rightarrow> 1 / 2)) s
         | _ \<Rightarrow> s))"

definition inject_harvest :: "distance \<Rightarrow> game_data \<Rightarrow> battle_state \<Rightarrow> match_result \<Rightarrow> injection \<Rightarrow> injection res" where
  "inject_harvest lev gd st m s = on_actor lev gd st m s (\<lambda>i.
     rbind (if length (sd_active_indices (side_of st i)) = 1 then Inr 0
            else rbind (slot_for_name lev gd (hd (mr_var_values m)) st None None) (\<lambda>r. Inr (slot_or_0 r))) (\<lambda>k.
       Inr (set_for_slot i k PROC_FIRES (PyBool True) s)))"

text \<open>One turn of the message loop of \<open>inject_non_move_rng\<close>; the message before comes along.\<close>

definition inject_message :: "distance \<Rightarrow> game_data \<Rightarrow> battle_state \<Rightarrow> slot_map option \<Rightarrow> injection
    \<Rightarrow> match_result option \<times> match_result \<Rightarrow> injection res" where
  "inject_message lev gd st sm s pm =
     (let m = snd pm; code = mr_string_id m in
      if is_usedmove m then inject_usedmove lev gd st sm m s
      else if code = ''STRINGID_PKMNISPARALYZED'' then on_actor_slot lev gd st m FULL_PARALYSIS False s
      else if code \<in> set PROC_STATUS_BY_IDS \<or> code = ''STRINGID_PKMNMADESLEEP'' then Inr (inject_proc m s)
      else if code = ''STRINGID_PKMNFELLASLEEP'' then inject_fell_asleep st s
      else if code = ''STRINGID_HARVESTADDITEM'' then inject_harvest lev gd st m s
      else if code = ''STRINGID_PKMNWOKEUP'' then on_actor lev gd st m s (\<lambda>i. Inr (set_scalar i WAKE (PyBool True) s))
      else if code = ''STRINGID_PKMNFASTASLEEP'' then on_actor lev gd st m s (\<lambda>i. Inr (set_scalar i WAKE (PyBool False) s))
      else if code \<in> set [''STRINGID_PKMNWASDEFROSTED'', ''STRINGID_PKMNWASDEFROSTED2'', ''STRINGID_PKMNWASDEFROSTEDBY'']
        then on_actor lev gd st m s (\<lambda>i. Inr (set_scalar i DEFROST (PyBool True) s))
      else if code = ''STRINGID_PKMNISFROZEN'' then on_actor lev gd st m s (\<lambda>i. Inr (set_scalar i DEFROST (PyBool False) s))
      else if code = ''STRINGID_PKMNHEALEDCONFUSION'' then on_actor_slot lev gd st m CONFUSION_SNAP True s
      else if code = ''STRINGID_ITHURTCONFUSION'' then inject_confusion_hit lev gd st (fst pm) s
      else if code = ''STRINGID_PKMNIMMOBILIZEDBYLOVE'' then on_actor_slot lev gd st m ATTRACT_IMMOBILIZE False s
      else if code = ''STRINGID_ATTACKMISSED'' then on_actor_slot lev gd st m ACCURACY False s
      else if code = ''STRINGID_ATTACKERSSTATROSE'' \<or> code = ''STRINGID_DEFENDERSSTATROSE'' then Inr (inject_stat_rose m s)
      else if code = ''STRINGID_QUICKCLAWACTIVATE'' then inject_quick_claw lev gd st m s
      else if code = ''STRINGID_PKMNWASDRAGGEDOUT'' then inject_dragged_out lev gd st m s
      else if code = ''STRINGID_HITXTIMES'' then Inr (inject_hit_times m s)
      else Inr s)"

definition with_previous :: "'a list \<Rightarrow> ('a option \<times> 'a) list" where
  "with_previous xs = zip (None # map Some xs) xs"

text \<open>
  The flinches. The cursor counts the "used" messages so far; the mover of the segment in progress caused the flinch, and must be
  on the other side. The result lists the (side, slot) of the movers whose flinch was seen.
\<close>

definition flinch_recipient :: "distance \<Rightarrow> game_data \<Rightarrow> battle_state \<Rightarrow> ((sid \<times> nat) \<Rightarrow> bool) option \<Rightarrow> match_result
    \<Rightarrow> (sid \<times> nat) option res" where
  "flinch_recipient lev gd st changed m =
     (if mr_side_hint m \<noteq> None
      then rbind (actor_side lev gd m st) (\<lambda>i. recipient_slot lev gd m st changed (Some i))
      else recipient_slot lev gd m st changed None)"

definition flinch_step :: "distance \<Rightarrow> game_data \<Rightarrow> battle_state \<Rightarrow> ((sid \<times> nat) \<Rightarrow> bool) option
    \<Rightarrow> (sid \<times> nat \<times> match_result list) list \<Rightarrow> nat \<times> (sid \<times> nat) list \<Rightarrow> match_result \<Rightarrow> (nat \<times> (sid \<times> nat) list) res" where
  "flinch_step lev gd st changed segs acc m =
     (if mr_string_id m = USEDMOVE_ID then Inr (fst acc + 1, snd acc)
      else if mr_string_id m = ''STRINGID_PKMNFLINCHED'' \<and> mr_var_values m \<noteq> [] then
        rbind (flinch_recipient lev gd st changed m) (\<lambda>r. case r of
            None \<Rightarrow> Inr acc
          | Some (i, k) \<Rightarrow>
              if fst acc = 0 \<or> fst acc - 1 \<ge> length segs then Inr acc
              else let seg = segs ! (fst acc - 1) in
                if fst seg \<noteq> opp i then Inl (SimulationError FlinchAttribution)
                else Inr (fst acc, add_slot (fst seg, fst (snd seg)) (snd acc)))
      else Inr acc)"

definition flinch_slots :: "distance \<Rightarrow> game_data \<Rightarrow> battle_state \<Rightarrow> slot_map option \<Rightarrow> ((sid \<times> nat) \<Rightarrow> bool) option
    \<Rightarrow> match_result list \<Rightarrow> (sid \<times> nat) list res" where
  "flinch_slots lev gd st sm changed msgs =
     rbind (segment_flat_messages_by_mover lev gd msgs st sm) (\<lambda>segs.
     rbind (rfold (flinch_step lev gd st changed segs) (0, []) msgs) (\<lambda>acc. Inr (snd acc)))"

text \<open>A Quick Claw holder that moved without the message did not profit from the item.\<close>

definition silent_claw :: "battle_state \<Rightarrow> injection \<Rightarrow> sid \<times> nat \<Rightarrow> injection res" where
  "silent_claw st s x =
     (let side = side_of st (fst x) in
      if x \<in> set (in_claws s) \<or> snd x \<ge> length (sd_active_indices side) then Inr s
      else rbind (lk (sd_team side) (sd_active_indices side ! snd x)) (\<lambda>mon.
        Inr (if pk_item mon \<noteq> Item_QUICK_CLAW then s
             else case map_of (in_ovr s (fst x)) QUICK_CLAW of
                Some (PyDict d) \<Rightarrow> if map_of d (snd x) = None then set_for_slot (fst x) (snd x) QUICK_CLAW (PyBool False) s else s
              | None \<Rightarrow> set_for_slot (fst x) (snd x) QUICK_CLAW (PyBool False) s
              | Some _ \<Rightarrow> s)))"

definition inject_non_move_rng :: "distance \<Rightarrow> game_data \<Rightarrow> injection \<Rightarrow> match_result list \<Rightarrow> battle_state \<Rightarrow> slot_map option
    \<Rightarrow> ((sid \<times> nat) \<Rightarrow> bool) option \<Rightarrow> injection res" where
  "inject_non_move_rng lev gd s0 msgs st sm changed =
     rbind (rfold (inject_message lev gd st sm) s0 (with_previous msgs)) (\<lambda>s1.
     rbind (flinch_slots lev gd st sm changed msgs) (\<lambda>flinched.
       let s2 = foldl (\<lambda>s x. set_for_slot (fst x) (snd x) FLINCH (PyBool True) s) s1 flinched in
       rfold (silent_claw st) s2 (in_priority0 s2)))"

section \<open>The overrides and combinations of a turn\<close>

text \<open>The movers in the order of \<open>sorted(used_moves.items())\<close>; keys of a dictionary are unique.\<close>

definition slot_key :: "(sid \<times> nat) \<times> move \<Rightarrow> int \<times> nat" where
  "slot_key x = (sid_int (fst (fst x)), snd (fst x))"

definition before :: "int \<times> nat \<Rightarrow> int \<times> nat \<Rightarrow> bool" where
  "before a b \<longleftrightarrow> fst a < fst b \<or> (fst a = fst b \<and> snd a \<le> snd b)"

fun insort_slot :: "(sid \<times> nat) \<times> move \<Rightarrow> used_moves \<Rightarrow> used_moves" where
  "insort_slot x [] = [x]"
| "insort_slot x (y # ys) = (if before (slot_key x) (slot_key y) then x # y # ys else y # insort_slot x ys)"

definition sorted_moves :: "used_moves \<Rightarrow> used_moves" where
  "sorted_moves ums = foldr insort_slot ums []"

definition non_attributable_movers :: "game_data \<Rightarrow> used_moves \<Rightarrow> (sid \<times> nat) list" where
  "non_attributable_movers gd ums = map fst (filter (\<lambda>x. snd (classify_secondaries gd (snd x)) \<noteq> []) (sorted_moves ums))"

definition flinch_forced :: "(sid \<Rightarrow> overrides) \<Rightarrow> sid \<times> nat \<Rightarrow> bool" where
  "flinch_forced ovr x = (case map_of (ovr (fst x)) FLINCH of
       Some (PyDict d) \<Rightarrow> map_of d (snd x) = Some (PyBool True)
     | _ \<Rightarrow> False)"

type_synonym combo = "((sid \<times> nat \<times> rng_event) \<times> bool) list"

definition flinch_combos :: "(sid \<times> nat) list \<Rightarrow> combo list" where
  "flinch_combos movers =
     map (\<lambda>vals. zip (map (\<lambda>x. (fst x, snd x, FLINCH)) movers) vals) (product_lists (map (\<lambda>_. [True, False]) movers))"

definition inject_for :: "game_data \<Rightarrow> used_moves \<Rightarrow> injection \<Rightarrow> sid \<times> nat \<Rightarrow> action_group option \<Rightarrow> match_result list option \<Rightarrow> injection res" where
  "inject_for gd ums s x grp flat = (case map_of ums x of
       None \<Rightarrow> Inr s
     | Some mv \<Rightarrow> rbind (inject_attributable_secondaries gd (in_ovr s (fst x)) (in_pre s) mv grp (snd x) flat) (\<lambda>r.
         Inr (s\<lparr>in_ovr := (in_ovr s)(fst x := fst r), in_pre := snd r\<rparr>)))"

definition inject_group :: "distance \<Rightarrow> game_data \<Rightarrow> battle_state \<Rightarrow> slot_map option \<Rightarrow> used_moves \<Rightarrow> injection \<times> cursor
    \<Rightarrow> action_group \<Rightarrow> (injection \<times> cursor) res" where
  "inject_group lev gd st sm ums acc g =
     (if \<not> is_usedmove (ag_primary g) then Inr acc
      else rbind (usedmove_slot lev gd st sm (snd acc) (ag_primary g)) (\<lambda>r. case fst r of
          None \<Rightarrow> Inr (fst acc, snd r)
        | Some x \<Rightarrow> rbind (inject_for gd ums (fst acc) x (Some g) None) (\<lambda>s. Inr (s, snd r))))"

record sweep_injection =
  si_ovr :: "sid \<Rightarrow> overrides"
  si_pre :: pre_inject
  si_combos :: "combo list"
  si_self_hits :: "(sid \<times> nat) list"

definition build_sweep_injected_overrides :: "distance \<Rightarrow> game_data \<Rightarrow> match_result list \<Rightarrow> battle_state \<Rightarrow> used_moves
    \<Rightarrow> action_group list option \<Rightarrow> slot_map option \<Rightarrow> ((sid \<times> nat) \<Rightarrow> bool) option \<Rightarrow> sweep_injection res" where
  "build_sweep_injected_overrides lev gd msgs st ums groups sm changed =
     rbind (inject_non_move_rng lev gd no_injection msgs st sm changed) (\<lambda>s.
       let combos = flinch_combos (filter (\<lambda>x. \<not> flinch_forced (in_ovr s) x) (non_attributable_movers gd ums)) in
       rbind (if groups \<noteq> None \<and> groups \<noteq> Some []
              then rbind (rfold (inject_group lev gd st sm ums) (s, cursor0) (the groups)) (\<lambda>acc. Inr (fst acc))
              else rbind (segment_flat_messages_by_mover lev gd msgs st sm) (\<lambda>segs.
                     rfold (\<lambda>s seg. inject_for gd ums s (fst seg, fst (snd seg)) None (Some (snd (snd seg)))) s segs)) (\<lambda>s'.
         Inr \<lparr>si_ovr = in_ovr s', si_pre = in_pre s', si_combos = combos, si_self_hits = in_self_hits s'\<rparr>))"

section \<open>Overrides the driver accepts\<close>

text \<open>The shape of an override that \<open>_apply_extra_override\<close> turns into a threshold, and of a value that the payload accepts.\<close>

fun accepted_override :: "rng_event \<times> pyv \<Rightarrow> bool" where
  "accepted_override (e, PyBool b) \<longleftrightarrow> bool_event_field e \<noteq> None"
| "accepted_override (e, PyDict d) \<longleftrightarrow> bool_event_field e \<noteq> None \<and> d \<noteq> [] \<or> e = MULTI_HIT_COUNT"
| "accepted_override (e, v) \<longleftrightarrow> False"

definition accepted_pre :: "rng_event \<times> pre_value \<Rightarrow> bool" where
  "accepted_pre x = (case map_of PRE_INJECT_EVENT_TABLE (fst x) of Some (_, ty) \<Rightarrow> has_type (snd x) ty | None \<Rightarrow> False)"

definition injection_ok :: "(sid \<Rightarrow> overrides) \<Rightarrow> pre_inject \<Rightarrow> bool" where
  "injection_ok ovr pre \<longleftrightarrow> (\<forall>i. \<forall>x \<in> set (ovr i). accepted_override x) \<and> (\<forall>x \<in> set pre. accepted_pre x)"

definition state_ok :: "injection \<Rightarrow> bool" where
  "state_ok s \<longleftrightarrow> injection_ok (in_ovr s) (in_pre s)"

named_theorems inject_ok \<open>steps that keep the injection state acceptable\<close>

lemma update_mem: "x \<in> set (AList.update k v d) \<Longrightarrow> x = (k, v) \<or> x \<in> set d"
  by (induction d) (auto split: if_splits)

lemma update_nonempty [simp]: "AList.update k v d \<noteq> []"
  by (cases d) auto

lemma set_slot_override_ok:
  assumes "\<forall>x \<in> set ovr. accepted_override x" "bool_event_field e \<noteq> None \<or> e = MULTI_HIT_COUNT"
  shows "\<forall>x \<in> set (set_slot_override e k v ovr). accepted_override x"
  using assms by (auto simp: set_slot_override_def dest!: update_mem split: option.splits pyv.splits)

lemma set_secondary_ok:
  assumes "set_secondary k b ovr = Inr ovr'" "\<forall>x \<in> set ovr. accepted_override x"
  shows "\<forall>x \<in> set ovr'. accepted_override x"
  using assms by (auto simp: set_secondary_def dest!: update_mem split: option.splits pyv.splits)

lemma set_for_slot_ok [inject_ok]:
  "state_ok s \<Longrightarrow> bool_event_field e \<noteq> None \<or> e = MULTI_HIT_COUNT \<Longrightarrow> state_ok (set_for_slot i k e v s)"
  using set_slot_override_ok[of "in_ovr s i" e k v] by (auto simp: state_ok_def injection_ok_def set_for_slot_def)

lemma set_scalar_ok [inject_ok]: "state_ok s \<Longrightarrow> bool_event_field e \<noteq> None \<Longrightarrow> state_ok (set_scalar i e (PyBool b) s)"
  by (auto simp: state_ok_def injection_ok_def set_scalar_def dest!: update_mem)

lemma set_pre_ok [inject_ok]: "state_ok s \<Longrightarrow> accepted_pre (e, v) \<Longrightarrow> state_ok (set_pre e v s)"
  by (auto simp: state_ok_def injection_ok_def set_pre_def dest!: update_mem)

lemma set_acted_override_ok [inject_ok]:
  "state_ok s \<Longrightarrow> bool_event_field e \<noteq> None \<Longrightarrow> state_ok (set_acted_override st i k e (PyBool b) s)"
  by (simp add: set_acted_override_def inject_ok)

lemma state_ok_fields [simp]:
  "state_ok (s\<lparr>in_self_hits := x\<rparr>) = state_ok s" "state_ok (s\<lparr>in_claws := y\<rparr>) = state_ok s"
  "state_ok (s\<lparr>in_last := a, in_acupressure := b, in_priority0 := c\<rparr>) = state_ok s"
  by (simp_all add: state_ok_def)

lemma accepted_pre_simps [simp]:
  "accepted_pre (METRONOME_MOVE, PV_move c)" "accepted_pre (SLEEP_TALK_MOVE, PV_move c)"
  "accepted_pre (EFFECT_SPORE_WHICH, PV_status x)" "accepted_pre (ACUPRESSURE_STAT, PV_int n)"
  "accepted_pre (ROAR_TARGET, PV_int n)" "accepted_pre (TRI_ATTACK_STATUS, PV_status x)"
  by (simp_all add: accepted_pre_def PRE_INJECT_EVENT_TABLE_def)

lemma on_actor_ok:
  "on_actor lev gd st m s f = Inr s' \<Longrightarrow> state_ok s \<Longrightarrow> (\<And>i. f i = Inr s' \<Longrightarrow> state_ok s') \<Longrightarrow> state_ok s'"
  by (auto simp: on_actor_def rbind_eq_Inr split: if_splits)

lemma on_actor_slot_ok:
  "on_actor_slot lev gd st m e b s = Inr s' \<Longrightarrow> state_ok s \<Longrightarrow> bool_event_field e \<noteq> None \<Longrightarrow> state_ok s'"
  unfolding on_actor_slot_def by (erule on_actor_ok) (auto simp: rbind_eq_Inr inject_ok)

lemma called_event: "map_of CALLED_MOVE_EVENTS w = Some e \<Longrightarrow> accepted_pre (e, PV_move c)"
  by (auto simp: CALLED_MOVE_EVENTS_def split: if_splits)

lemma inject_usedmove_ok: "inject_usedmove lev gd st sm m s = Inr s' \<Longrightarrow> state_ok s \<Longrightarrow> state_ok s'"
  by (auto simp: inject_usedmove_def rbind_eq_Inr Let_def inject_ok called_event split: option.splits)

lemma inject_proc_ok [inject_ok]: "state_ok s \<Longrightarrow> state_ok (inject_proc m s)"
  by (auto simp: inject_proc_def Let_def inject_ok split: option.splits)

lemma inject_fell_asleep_ok: "inject_fell_asleep st s = Inr s' \<Longrightarrow> state_ok s \<Longrightarrow> state_ok s'"
  by (auto simp: inject_fell_asleep_def rbind_eq_Inr inject_ok split: option.splits list.splits)

lemma inject_confusion_hit_ok: "inject_confusion_hit lev gd st p s = Inr s' \<Longrightarrow> state_ok s \<Longrightarrow> state_ok s'"
  by (auto simp: inject_confusion_hit_def rbind_eq_Inr inject_ok split: option.splits if_splits)

lemma inject_stat_rose_ok [inject_ok]: "state_ok s \<Longrightarrow> state_ok (inject_stat_rose m s)"
  by (auto simp: inject_stat_rose_def inject_ok split: option.splits)

lemma inject_quick_claw_ok: "inject_quick_claw lev gd st m s = Inr s' \<Longrightarrow> state_ok s \<Longrightarrow> state_ok s'"
  unfolding inject_quick_claw_def by (erule on_actor_ok) (auto simp: rbind_eq_Inr inject_ok)

lemma inject_dragged_out_ok: "inject_dragged_out lev gd st m s = Inr s' \<Longrightarrow> state_ok s \<Longrightarrow> state_ok s'"
  by (auto simp: inject_dragged_out_def rbind_eq_Inr inject_ok split: option.splits if_splits)

lemma inject_hit_times_ok [inject_ok]: "state_ok s \<Longrightarrow> state_ok (inject_hit_times m s)"
  by (auto simp: inject_hit_times_def inject_ok split: option.splits list.splits sum.splits)

lemma inject_harvest_ok: "inject_harvest lev gd st m s = Inr s' \<Longrightarrow> state_ok s \<Longrightarrow> state_ok s'"
  unfolding inject_harvest_def by (erule on_actor_ok) (auto simp: rbind_eq_Inr inject_ok)

lemma branchE: "(if c then a else b) = x \<Longrightarrow> (a = x \<Longrightarrow> P) \<Longrightarrow> (b = x \<Longrightarrow> P) \<Longrightarrow> P"
  by (auto split: if_splits)

lemma inject_message_ok:
  assumes "inject_message lev gd st sm s pm = Inr s'" "state_ok s"
  shows "state_ok s'"
proof -
  have scalar: "state_ok s'" if "on_actor lev gd st m s (\<lambda>i. Inr (set_scalar i e (PyBool b) s)) = Inr s'" "bool_event_field e \<noteq> None" for m e b
    by (rule on_actor_ok[OF that(1) assms(2)]) (use that(2) assms(2) in \<open>auto simp: inject_ok\<close>)
  note steps = scalar inject_usedmove_ok inject_fell_asleep_ok inject_confusion_hit_ok inject_quick_claw_ok
    inject_dragged_out_ok inject_harvest_ok on_actor_slot_ok
  show ?thesis
    using assms(1) unfolding inject_message_def Let_def
    by (elim branchE) (use assms(2) in \<open>auto elim: steps simp: inject_ok\<close>)
qed

lemma silent_claw_ok: "silent_claw st s x = Inr s' \<Longrightarrow> state_ok s \<Longrightarrow> state_ok s'"
  by (auto simp: silent_claw_def Let_def rbind_eq_Inr inject_ok split: if_splits option.splits pyv.splits)

lemma foldl_flinch_ok: "state_ok s \<Longrightarrow> state_ok (foldl (\<lambda>s x. set_for_slot (fst x) (snd x) FLINCH (PyBool True) s) s xs)"
  by (induction xs arbitrary: s) (auto simp: inject_ok)

lemma inject_non_move_rng_ok:
  assumes "inject_non_move_rng lev gd s0 msgs st sm changed = Inr s'" "state_ok s0"
  shows "state_ok s'"
proof -
  from assms(1) obtain s1 flinched where s1: "rfold (inject_message lev gd st sm) s0 (with_previous msgs) = Inr s1"
    and s': "rfold (silent_claw st) (foldl (\<lambda>s x. set_for_slot (fst x) (snd x) FLINCH (PyBool True) s) s1 flinched)
        (in_priority0 (foldl (\<lambda>s x. set_for_slot (fst x) (snd x) FLINCH (PyBool True) s) s1 flinched)) = Inr s'"
    by (auto simp: inject_non_move_rng_def rbind_eq_Inr Let_def)
  have "state_ok s1" by (rule rfold_invariant[where P = state_ok, OF s1 assms(2)]) (rule inject_message_ok)
  then have "state_ok (foldl (\<lambda>s x. set_for_slot (fst x) (snd x) FLINCH (PyBool True) s) s1 flinched)" by (rule foldl_flinch_ok)
  show ?thesis by (rule rfold_invariant[where P = state_ok, OF s' \<open>state_ok (foldl _ _ _)\<close>]) (rule silent_claw_ok)
qed

lemma inject_attributable_ok:
  assumes "inject_attributable_secondaries gd ovr pre mv grp k flat = Inr r"
    "\<forall>x \<in> set ovr. accepted_override x" "\<forall>x \<in> set pre. accepted_pre x"
  shows "(\<forall>x \<in> set (fst r). accepted_override x) \<and> (\<forall>x \<in> set (snd r). accepted_pre x)"
proof (cases "fst (classify_secondaries gd mv)")
  case (Cons sec secs)
  have pre: "\<forall>x \<in> set (AList.update TRI_ATTACK_STATUS (PV_status c) pre). accepted_pre x" for c
    using assms(3) by (auto dest!: update_mem)
  from assms(1) Cons obtain ovr' where ovr': "(case fired_outcome grp flat sec of None \<Rightarrow> Inr ovr | Some b \<Rightarrow> set_secondary k b ovr) = Inr ovr'"
    and r: "fst r = ovr'" "\<forall>x \<in> set (snd r). accepted_pre x"
    using pre assms(3) unfolding inject_attributable_secondaries_def Let_def by (auto simp: rbind_eq_Inr split: option.splits if_splits)
  from ovr' assms(2) have "\<forall>x \<in> set ovr'. accepted_override x"
    by (cases "fired_outcome grp flat sec") (auto dest: set_secondary_ok)
  with r show ?thesis by simp
qed (use assms in \<open>auto simp: inject_attributable_secondaries_def\<close>)

lemma inject_for_ok:
  assumes "inject_for gd ums s x grp flat = Inr s'" "state_ok s"
  shows "state_ok s'"
proof (cases "map_of ums x")
  case (Some mv)
  with assms(1) obtain r where r: "inject_attributable_secondaries gd (in_ovr s (fst x)) (in_pre s) mv grp (snd x) flat = Inr r"
    "s' = s\<lparr>in_ovr := (in_ovr s)(fst x := fst r), in_pre := snd r\<rparr>"
    by (auto simp: inject_for_def rbind_eq_Inr)
  with inject_attributable_ok[OF r(1)] assms(2) show ?thesis by (simp add: state_ok_def injection_ok_def)
qed (use assms in \<open>simp add: inject_for_def\<close>)

lemma inject_group_ok:
  "inject_group lev gd st sm ums acc g = Inr acc' \<Longrightarrow> state_ok (fst acc) \<Longrightarrow> state_ok (fst acc')"
  by (auto simp: inject_group_def rbind_eq_Inr inject_for_ok[of gd ums "fst acc"] split: if_splits option.splits)

lemma no_injection_ok: "state_ok no_injection"
  by (simp add: no_injection_def state_ok_def injection_ok_def)

lemma build_injection_ok:
  assumes "build_sweep_injected_overrides lev gd msgs st ums groups sm changed = Inr r"
  shows "injection_ok (si_ovr r) (si_pre r)"
proof -
  from assms obtain s s' where s: "inject_non_move_rng lev gd no_injection msgs st sm changed = Inr s"
    and s': "(if groups \<noteq> None \<and> groups \<noteq> Some []
              then rbind (rfold (inject_group lev gd st sm ums) (s, cursor0) (the groups)) (\<lambda>acc. Inr (fst acc))
              else rbind (segment_flat_messages_by_mover lev gd msgs st sm) (\<lambda>segs.
                     rfold (\<lambda>s seg. inject_for gd ums s (fst seg, fst (snd seg)) None (Some (snd (snd seg)))) s segs)) = Inr s'"
    and r: "si_ovr r = in_ovr s'" "si_pre r = in_pre s'"
    by (auto simp: build_sweep_injected_overrides_def rbind_eq_Inr Let_def)
  have ok: "state_ok s" by (rule inject_non_move_rng_ok[OF s no_injection_ok])
  have "state_ok s'"
  proof (cases "groups \<noteq> None \<and> groups \<noteq> Some []")
    case True
    with s' obtain acc where acc: "rfold (inject_group lev gd st sm ums) (s, cursor0) (the groups) = Inr acc" "s' = fst acc"
      by (auto simp: rbind_eq_Inr)
    have "state_ok (fst acc)"
      by (rule rfold_invariant[where P = "\<lambda>a. state_ok (fst a)", OF acc(1)]) (use ok inject_group_ok in auto)
    with acc(2) show ?thesis by simp
  next
    case False
    with s' obtain segs where segs: "rfold (\<lambda>s seg. inject_for gd ums s (fst seg, fst (snd seg)) None (Some (snd (snd seg)))) s segs = Inr s'"
      by (auto simp: rbind_eq_Inr)
    show ?thesis by (rule rfold_invariant[where P = state_ok, OF segs ok]) (rule inject_for_ok)
  qed
  with r show ?thesis by (simp add: state_ok_def)
qed

lemma slot_keyed_accepts:
  assumes "\<And>x. x \<in> set d \<Longrightarrow> \<exists>c. cv (snd x) = Inr c"
  shows "\<exists>ps'. apply_slot_keyed d cv f g ps = Inr ps'"
  using assms
proof (induction d arbitrary: ps)
  case (Cons x d)
  from Cons.prems[of x] obtain c where "cv (snd x) = Inr c" by auto
  with Cons show ?case by (simp add: apply_slot_keyed_def)
qed (simp add: apply_slot_keyed_def)

lemma bool_event_regular: "bool_event_field e \<noteq> None \<Longrightarrow> e \<notin> set DEAD_EVENTS \<and> e \<notin> set CATEGORY_A_EVENTS \<and> e \<noteq> CRIT"
  by (cases e) (simp_all add: DEAD_EVENTS_def CATEGORY_A_EVENTS_def)

definition mixed_claw :: "rng_event \<times> pyv \<Rightarrow> bool" where
  "mixed_claw x = (case x of (QUICK_CLAW, PyDict d) \<Rightarrow> True \<in> (truthy \<circ> snd) ` set d \<and> False \<in> (truthy \<circ> snd) ` set d | _ \<Rightarrow> False)"

lemma accepted_override_applies:
  assumes "accepted_override (e, v)" "\<not> mixed_claw (e, v)"
  shows "\<exists>ps'. apply_extra_override e v ps = Inr ps'"
proof (cases "bool_event_field e")
  case None
  with assms(1) obtain d where "e = MULTI_HIT_COUNT" "v = PyDict d" by (cases v) auto
  with slot_keyed_accepts[of d "\<lambda>v. Inr (Scalar (multi_hit_value v))"] show ?thesis
    by (auto simp: apply_extra_override_def DEAD_EVENTS_def CATEGORY_A_EVENTS_def)
next
  case (Some field)
  have "\<exists>ps'. apply_bool_override e field v ps = Inr ps'"
  proof (cases v)
    case (PyDict d)
    from assms(1) PyDict Some have d: "d \<noteq> []" by auto
    show ?thesis
    proof (cases "e = QUICK_CLAW")
      case True
      with assms(2) PyDict have "\<not> (True \<in> set (map (\<lambda>x. truthy (snd x)) d) \<and> False \<in> set (map (\<lambda>x. truthy (snd x)) d))"
        by (simp add: mixed_claw_def comp_def image_def)
      with True PyDict d show ?thesis by (simp add: apply_bool_override_def Let_def)
    next
      case False
      with PyDict slot_keyed_accepts[of d "\<lambda>v. Inr (Scalar (good_bad (truthy v)))"] show ?thesis by (simp add: apply_bool_override_def)
    qed
  qed (use assms(1) in \<open>auto simp: apply_bool_override_def\<close>)
  with Some bool_event_regular[of e] show ?thesis by (simp add: apply_extra_override_def)
qed

lemma accepted_overrides_apply:
  assumes "\<forall>x \<in> set ovr. accepted_override x \<and> \<not> mixed_claw x"
  shows "\<exists>ps'. rfold (\<lambda>ps x. apply_extra_override (fst x) (snd x) ps) ps ovr = Inr ps'"
  using assms
proof (induction ovr arbitrary: ps)
  case (Cons x ovr)
  from Cons.prems accepted_override_applies[of "fst x" "snd x" ps] obtain ps1 where "apply_extra_override (fst x) (snd x) ps = Inr ps1" by auto
  with Cons show ?case by simp
qed simp

lemma accepted_pre_payload:
  assumes "\<forall>x \<in> set pre. accepted_pre x"
  shows "\<exists>p. pre_inject_payload pre = Inr p"
proof -
  have "\<exists>ys. rmap (\<lambda>x. case map_of PRE_INJECT_EVENT_TABLE (fst x) of
            None \<Rightarrow> Inl ValueError
          | Some (name, ty) \<Rightarrow> if has_type (snd x) ty then Inr (name, pre_int (snd x)) else Inl ValueError) pre = Inr ys"
    unfolding rmap_total using assms by (auto simp: accepted_pre_def split: option.splits)
  then show ?thesis by (auto simp: pre_inject_payload_def)
qed

section \<open>Combinations\<close>

lemma set_insort_slot [simp]: "set (insort_slot x ys) = insert x (set ys)"
  by (induction ys) auto

lemma distinct_insort_slot: "distinct (map fst (insort_slot x ys)) \<longleftrightarrow> fst x \<notin> fst ` set ys \<and> distinct (map fst ys)"
  by (induction ys) auto

lemma set_sorted_moves [simp]: "set (sorted_moves ums) = set ums"
  by (induction ums) (simp_all add: sorted_moves_def)

lemma distinct_sorted_moves: "distinct (map fst ums) \<Longrightarrow> distinct (map fst (sorted_moves ums))"
proof (induction ums)
  case (Cons x ums)
  then show ?case using set_sorted_moves[of ums] by (simp add: sorted_moves_def distinct_insort_slot)
qed (simp add: sorted_moves_def)

lemma product_lists_bools: "set (product_lists (map (\<lambda>_. [True, False]) xs)) = {bs. length bs = length xs}"
proof -
  have "list_all2 (\<lambda>b ys. b \<in> set ys) bs (map (\<lambda>_. [True, False]) xs) \<longleftrightarrow> length bs = length xs" for bs
    by (auto simp: list_all2_conv_all_nth)
  then show ?thesis by (simp add: product_lists_set)
qed

lemma product_lists_bools_distinct:
  "distinct (product_lists (map (\<lambda>_. [True, False]) xs)) \<and> length (product_lists (map (\<lambda>_. [True, False]) xs)) = 2 ^ length xs"
  by (induction xs) (auto simp: distinct_map inj_on_def)

lemma zip_combo: "length bs = length xs \<Longrightarrow> zip (map (\<lambda>x. (fst x, snd x, FLINCH)) xs) bs = map (\<lambda>x. ((fst x, snd x, FLINCH), f x)) xs \<longleftrightarrow> bs = map f xs"
  by (induction bs xs rule: list_induct2) auto

lemma flinch_combos_set:
  assumes "distinct movers"
  shows "set (flinch_combos movers) = {c. \<exists>f. c = map (\<lambda>x. ((fst x, snd x, FLINCH), f x)) movers}"
proof (intro set_eqI iffI)
  fix c assume "c \<in> set (flinch_combos movers)"
  then obtain bs where bs: "length bs = length movers" "c = zip (map (\<lambda>x. (fst x, snd x, FLINCH)) movers) bs"
    unfolding flinch_combos_def set_map product_lists_bools by auto
  have "bs = map (\<lambda>x. the (map_of (zip movers bs) x)) movers"
    using bs(1) assms by (intro nth_equalityI) (simp_all add: map_of_zip_nth)
  then show "c \<in> {c. \<exists>f. c = map (\<lambda>x. ((fst x, snd x, FLINCH), f x)) movers}"
    using zip_combo[OF bs(1)] bs(2) by blast
next
  fix c :: combo assume "c \<in> {c. \<exists>f. c = map (\<lambda>x. ((fst x, snd x, FLINCH), f x)) movers}"
  then obtain f where "c = map (\<lambda>x. ((fst x, snd x, FLINCH), f x)) movers" by blast
  then have "c = zip (map (\<lambda>x. (fst x, snd x, FLINCH)) movers) (map f movers)"
    using zip_combo[of "map f movers" movers f] by simp
  then show "c \<in> set (flinch_combos movers)"
    unfolding flinch_combos_def set_map product_lists_bools by auto
qed

lemma flinch_combos_distinct: "distinct (flinch_combos movers) \<and> length (flinch_combos movers) = 2 ^ length movers"
proof -
  have "inj_on (zip (map (\<lambda>x. (fst x, snd x, FLINCH)) movers)) {bs. length bs = length movers}"
    by (intro inj_onI) (metis (mono_tags) length_map map_snd_zip mem_Collect_eq)
  then show ?thesis
    using product_lists_bools_distinct[of movers] product_lists_bools[of movers]
    by (simp add: flinch_combos_def distinct_map)
qed

text \<open>
  No message can confirm the secondary of Tri Attack, an effect without a status of its own: \<open>fired\<close> is never true, and the branch that injects
  the status is never taken.
\<close>

lemma tri_attack_never_confirmed:
  assumes "se_status sec = None" "se_stat_changes sec = []" "se_volatile sec \<noteq> Some ''confused''"
  shows "fired_outcome grp flat sec \<noteq> Some True"
  using assms
  by (auto simp: fired_outcome_def secondary_fired_in_group_def secondary_fired_in_flat_messages_def secondary_match_in_messages_def
      split: option.splits if_splits)

section \<open>Properties\<close>

definition flinch_data :: game_data where
  "flinch_data = sample_data\<lparr>gd_moves := (\<lambda>m. if m = 33 then Some (tackle_data\<lparr>md_secondary :=
     Some \<lparr>se_chance = 30, se_status = None, se_flinch = True, se_stat_changes = [], se_volatile = None\<rparr>\<rparr>) else None)\<rparr>"

definition paralysed_message :: match_result where
  "paralysed_message = plain_message ''STRINGID_PKMNISPARALYZED'' [''SHEDINJA''] ''SHEDINJA is paralyzed'' (Some P0)"

text \<open>
  C7: what the messages inject is what the driver takes. Every override that \<open>build_sweep_injected_overrides\<close> gives a side is turned into thresholds by
  \<open>_apply_extra_override\<close> without an exception, whatever the profiles so far, and every value to inject passes the payload's type check, provided no side has a Quick Claw
  seen active in one slot and silent in the other.
\<close>

theorem injected_overrides_accepted:
  assumes "build_sweep_injected_overrides lev gd msgs st ums groups sm changed = Inr r"
    and "\<forall>x \<in> set (si_ovr r i). \<not> mixed_claw x"
  shows "(\<exists>ps'. rfold (\<lambda>ps x. apply_extra_override (fst x) (snd x) ps) ps (si_ovr r i) = Inr ps')
    \<and> (\<exists>p. pre_inject_payload (si_pre r) = Inr p)"
proof -
  from build_injection_ok[OF assms(1)] have "\<forall>x \<in> set (si_ovr r i). accepted_override x" "\<forall>x \<in> set (si_pre r). accepted_pre x"
    by (simp_all add: injection_ok_def)
  with assms(2) accepted_overrides_apply[of "si_ovr r i" ps] accepted_pre_payload[of "si_pre r"] show ?thesis by blast
qed

theorem injected_overrides_accepted_witness:
  "\<exists>r. build_sweep_injected_overrides levenshtein flinch_data [paralysed_message] shedinja_battle [] None None None = Inr r
     \<and> si_ovr r P0 = [(FULL_PARALYSIS, PyBool False)]
     \<and> (\<exists>ps'. rfold (\<lambda>ps x. apply_extra_override (fst x) (snd x) ps) (SWEEP_LUCK, None) (si_ovr r P0) = Inr ps')"
proof -
  let ?b = "build_sweep_injected_overrides levenshtein flinch_data [paralysed_message] shedinja_battle [] None None None"
  have "isl ?b = False" "si_ovr (projr ?b) P0 = [(FULL_PARALYSIS, PyBool False)]"
    by code_simp+
  then obtain r where r: "?b = Inr r" "si_ovr r P0 = [(FULL_PARALYSIS, PyBool False)]"
    by (cases ?b) auto
  have "\<forall>x \<in> set (si_ovr r P0). \<not> mixed_claw x" by (simp add: r(2) mixed_claw_def)
  from injected_overrides_accepted[OF r(1) this] r show ?thesis by blast
qed

text \<open>
  C8: the outcomes that no message settles are enumerated exactly. The combinations that \<open>build_sweep_injected_overrides\<close> returns are, each once, all the
  assignments of a flinch outcome to the movers whose move has a secondary no message can show and whose flinch was not observed: \<open>2 ^ n\<close> of them for \<open>n\<close> such movers.
\<close>

theorem secondary_combos_exact:
  assumes "build_sweep_injected_overrides lev gd msgs st ums groups sm changed = Inr r" and "distinct (map fst ums)"
  shows "\<exists>s movers. inject_non_move_rng lev gd no_injection msgs st sm changed = Inr s \<and> distinct movers
    \<and> set movers = {x. \<exists>mv. (x, mv) \<in> set ums \<and> snd (classify_secondaries gd mv) \<noteq> [] \<and> \<not> flinch_forced (in_ovr s) x}
    \<and> distinct (si_combos r) \<and> length (si_combos r) = 2 ^ length movers
    \<and> set (si_combos r) = {c. \<exists>f. c = map (\<lambda>x. ((fst x, snd x, FLINCH), f x)) movers}"
proof -
  from assms(1) obtain s where s: "inject_non_move_rng lev gd no_injection msgs st sm changed = Inr s"
    and c: "si_combos r = flinch_combos (filter (\<lambda>x. \<not> flinch_forced (in_ovr s) x) (non_attributable_movers gd ums))"
    by (auto simp: build_sweep_injected_overrides_def rbind_eq_Inr Let_def)
  define movers where "movers = filter (\<lambda>x. \<not> flinch_forced (in_ovr s) x) (non_attributable_movers gd ums)"
  have d: "distinct movers"
    using distinct_sorted_moves[OF assms(2)] by (simp add: movers_def non_attributable_movers_def distinct_map_filter)
  have m: "set movers = {x. \<exists>mv. (x, mv) \<in> set ums \<and> snd (classify_secondaries gd mv) \<noteq> [] \<and> \<not> flinch_forced (in_ovr s) x}"
    by (force simp: movers_def non_attributable_movers_def)
  show ?thesis
    using s d m flinch_combos_distinct[of movers] flinch_combos_set[OF d] unfolding c movers_def[symmetric] by blast
qed

theorem secondary_combos_exact_witness:
  "\<exists>r. build_sweep_injected_overrides levenshtein flinch_data [used_message 7 ''SHEDINJA'' P0] shedinja_battle [((P0, 0), 33)] None (Some [(7, P0, 0)]) None = Inr r
     \<and> length (si_combos r) = 2 \<and> distinct (si_combos r)"
proof -
  let ?b = "build_sweep_injected_overrides levenshtein flinch_data [used_message 7 ''SHEDINJA'' P0] shedinja_battle [((P0, 0), 33)] None (Some [(7, P0, 0)]) None"
  have "isl ?b = False" "length (si_combos (projr ?b)) = 2"
    by code_simp+
  then obtain r where r: "?b = Inr r" "length (si_combos r) = 2"
    by (cases ?b) auto
  from secondary_combos_exact[OF r(1)] have "distinct (si_combos r)" by auto
  with r show ?thesis by blast
qed

end
