(* ===== verification/SweepRun.thy ===== *)
theory SweepRun
  imports SweepSecondaries
begin

text \<open>
  The candidate sweep (\<open>sweep_run.py\<close>): the pruning of damage rolls by the bar readings, the configuration of a trial, the
  enumeration of rolls and crits for the movers of a turn, the evaluation of a pair of actions and the top-level
  sweep. The progress messages on the standard output and the clock are not modelled. A Python set of integers is iterated in the order of insertion.
\<close>

section \<open>Pruning by the bar readings\<close>

definition SWEEP_BRANCH_CAP :: nat where
  "SWEEP_BRANCH_CAP = 1000"

text \<open>One entry per damage delta: the reading that anchors its segment, the reading after it, and the index of the segment's first hit.\<close>

fun segment_hits :: "int \<Rightarrow> nat \<Rightarrow> (int \<times> int \<times> nat) list \<Rightarrow> (int \<times> int) list \<Rightarrow> (int \<times> int \<times> nat) list" where
  "segment_hits anchor start hits [] = hits"
| "segment_hits anchor start hits ((frm, to) # ds) =
     (if to > frm then segment_hits to (length hits) hits ds
      else segment_hits anchor start (hits @ [(anchor, to, start)]) ds)"

definition segment_hp_deltas_into_hits :: "(int \<times> int) list \<Rightarrow> (int \<times> int \<times> nat) list" where
  "segment_hp_deltas_into_hits ds = (case ds of [] \<Rightarrow> [] | d # _ \<Rightarrow> segment_hits (fst d) 0 [] ds)"

definition hit_passes_constraint :: "int \<Rightarrow> int \<Rightarrow> int \<Rightarrow> bool \<Rightarrow> int \<Rightarrow> bool" where
  "hit_passes_constraint cumulative anchor new_val use_hp_range opponent_max_hp =
     (if use_hp_range then
        snd (hp_range new_val opponent_max_hp) + cumulative \<ge> fst (hp_range anchor opponent_max_hp)
        \<and> (new_val = 0 \<or> fst (hp_range new_val opponent_max_hp) + cumulative \<le> snd (hp_range anchor opponent_max_hp))
      else if new_val = 0 then anchor - cumulative \<le> 0
      else anchor - cumulative = new_val)"

section \<open>The configuration of a trial\<close>

fun roll_value :: "roll_entry \<Rightarrow> pyv" where
  "roll_value (Roll r) = PyFloat r"
| "roll_value (Rolls rs) = PyTuple (map PyFloat rs)"

fun crit_value :: "crit_entry \<Rightarrow> pyv" where
  "crit_value (Crit b) = PyBool b"
| "crit_value (Crits ts) = PyTuple (map PyFloat ts)"

type_synonym per_slot = "(nat \<times> pyv) list"

definition slots_to_overrides :: "per_slot \<Rightarrow> per_slot \<Rightarrow> overrides \<Rightarrow> side_overrides" where
  "slots_to_overrides rolls crits combo_ovr =
     (if rolls = [] then default_overrides\<lparr>so_extra_overrides := combo_ovr\<rparr>
      else case (if length rolls = 1 then map_of rolls 0 else None) of
        Some roll_val \<Rightarrow>
          (let crit_val = (case map_of crits 0 of Some c \<Rightarrow> c | None \<Rightarrow> PyBool False) in
           (case roll_val of
              PyTuple rs \<Rightarrow> default_overrides\<lparr>
                so_crits_per_hit := Some (PyTuple (case crit_val of PyTuple ts \<Rightarrow> ts | c \<Rightarrow> replicate (length rs) c)),
                so_rolls_per_hit := Some roll_val, so_extra_overrides := combo_ovr\<rparr>
            | _ \<Rightarrow> default_overrides\<lparr>so_crit := crit_val, so_roll := roll_val, so_extra_overrides := combo_ovr\<rparr>))
      | None \<Rightarrow> default_overrides\<lparr>so_rolls_per_hit := Some (PyDict rolls), so_crits_per_hit := Some (PyDict crits),
                  so_extra_overrides := combo_ovr\<rparr>)"

text \<open>The roll and the crit of each mover: decided, current, or a placeholder.\<close>

definition mover_entry :: "partial_candidate \<Rightarrow> nat \<Rightarrow> roll_entry \<Rightarrow> crit_entry \<Rightarrow> nat \<Rightarrow> (roll_entry \<times> crit_entry) res" where
  "mover_entry pc iteration roll crit i =
     (if i < iteration then rbind (lk (pc_rolls pc) i) (\<lambda>r. rbind (lk (pc_crits pc) i) (\<lambda>c. Inr (r, c)))
      else if i = iteration then Inr (roll, crit)
      else Inr (Roll (1 / 2), Crit False))"

definition put_entries :: "(sid \<Rightarrow> per_slot) \<times> (sid \<Rightarrow> per_slot) \<Rightarrow> (sid \<times> nat) \<times> roll_entry \<times> crit_entry
    \<Rightarrow> (sid \<Rightarrow> per_slot) \<times> (sid \<Rightarrow> per_slot)" where
  "put_entries acc x = (case x of ((i, k), r, c) \<Rightarrow>
     ((fst acc)(i := AList.update k (roll_value r) (fst acc i)), (snd acc)(i := AList.update k (crit_value c) (snd acc i))))"

definition make_sweep_config :: "partial_candidate \<Rightarrow> (sid \<times> nat) list \<Rightarrow> nat \<Rightarrow> roll_entry \<Rightarrow> crit_entry \<Rightarrow> sid
    \<Rightarrow> overrides \<Rightarrow> overrides \<Rightarrow> pre_inject \<Rightarrow> (sid \<times> nat \<times> rat) option \<Rightarrow> sweep_config res" where
  "make_sweep_config pc movers iteration roll crit tie_winner combo_ovr_0 combo_ovr_1 injected_pre self_hit_roll =
     rbind (rmap (mover_entry pc iteration roll crit) [0..<length movers]) (\<lambda>entries.
       let acc = foldl put_entries (\<lambda>_. [], \<lambda>_. []) (zip movers entries);
           rolls = (case self_hit_roll of None \<Rightarrow> fst acc
             | Some (i, k, r) \<Rightarrow> (fst acc)(i := AList.update k (PyFloat r) (fst acc i)));
           crits = snd acc
       in Inr \<lparr>sc_tie_winner = tie_winner, sc_extra_pre_inject = injected_pre,
               sc_side0 = slots_to_overrides (rolls P0) (crits P0) combo_ovr_0,
               sc_side1 = slots_to_overrides (rolls P1) (crits P1) combo_ovr_1\<rparr>)"

text \<open>What stays the same for all the trials of a pair of actions and a combination of overrides.\<close>

record trial =
  tr_state :: battle_state
  tr_action0 :: side_action
  tr_action1 :: side_action
  tr_movers :: "(sid \<times> nat) list"
  tr_tie_winner :: sid
  tr_ovr_0 :: overrides
  tr_ovr_1 :: overrides
  tr_pre :: pre_inject
  tr_opp_switches :: "action list"

definition run_trial :: "game_data \<Rightarrow> engine \<Rightarrow> trial \<Rightarrow> partial_candidate \<Rightarrow> nat \<Rightarrow> roll_entry \<Rightarrow> crit_entry
    \<Rightarrow> (sid \<times> nat \<times> rat) option \<Rightarrow> (battle_state option \<times> capture) res" where
  "run_trial gd eg t pc iteration roll crit self_hit_roll =
     rbind (make_sweep_config pc (tr_movers t) iteration roll crit (tr_tie_winner t) (tr_ovr_0 t) (tr_ovr_1 t) (tr_pre t) self_hit_roll)
       (\<lambda>cfg. run_with_capture gd eg (tr_state t) (tr_action0 t) (tr_action1 t) cfg (tr_opp_switches t))"

section \<open>The rolls of one mover\<close>

text \<open>\<open>itertools.combinations\<close>, in its order.\<close>

fun combinations :: "'a list \<Rightarrow> nat \<Rightarrow> 'a list list" where
  "combinations xs 0 = [[]]"
| "combinations [] (Suc k) = []"
| "combinations (x # xs) (Suc k) = map ((#) x) (combinations xs k) @ combinations xs (Suc k)"

definition crit_assignments :: "nat \<Rightarrow> nat \<Rightarrow> rat list list" where
  "crit_assignments n_hits n_crits =
     map (\<lambda>idx. map (\<lambda>i. if i \<in> set idx then 0 else 101) [0..<n_hits]) (combinations [0..<n_hits] n_crits)"

definition roll_of :: "nat \<Rightarrow> rat" where
  "roll_of roll_idx = of_nat roll_idx / 15"

text \<open>The damage that roll \<open>roll_idx\<close> of hit \<open>i\<close> does, the other hits at their lowest roll; \<open>None\<close> when the trial shows none.\<close>

definition trial_damage :: "game_data \<Rightarrow> engine \<Rightarrow> trial \<Rightarrow> partial_candidate \<Rightarrow> nat \<Rightarrow> nat \<Rightarrow> sid \<Rightarrow> nat \<Rightarrow> bool
    \<Rightarrow> rat list \<Rightarrow> nat \<Rightarrow> nat \<Rightarrow> int option res" where
  "trial_damage gd eg t pc iteration n_hits attacker_side attacker_slot apply_hp_prune crit_assignment i roll_idx =
     rbind (if n_hits = 1 then run_trial gd eg t pc iteration (Roll (roll_of roll_idx)) (Crit (crit_assignment ! 0 = 0)) None
            else run_trial gd eg t pc iteration (Rolls (map (\<lambda>j. if j = i then roll_of roll_idx else 0) [0..<n_hits])) (Crits crit_assignment) None)
       (\<lambda>r. case fst r of
          None \<Rightarrow> Inr None
        | Some rs \<Rightarrow> rbind (attacker_per_hit_damages (snd r) attacker_side attacker_slot) (\<lambda>per_hit.
            if length per_hit \<le> i then Inr (if i = 0 \<and> \<not> apply_hp_prune then Some 0 else None)
            else Inr (Some (per_hit ! i))))"

type_synonym roll_map = "(int \<times> rat) list"

text \<open>\<open>hit_roll_map[i]\<close>: the first roll found for each damage. Its keys are \<open>hit_damage_sets[i]\<close>.\<close>

definition discover_hit :: "(nat \<Rightarrow> int option res) \<Rightarrow> roll_map res" where
  "discover_hit damage = rfold (\<lambda>m roll_idx. rbind (damage roll_idx) (\<lambda>d. Inr (case d of
       None \<Rightarrow> m
     | Some dmg \<Rightarrow> if map_of m dmg = None then m @ [(dmg, roll_of roll_idx)] else m))) [] [0..<16]"

text \<open>One more hit for every partial combination of damages that the readings allow.\<close>

definition extend_partials :: "(int \<times> int \<times> nat) list \<Rightarrow> bool \<Rightarrow> bool \<Rightarrow> int \<Rightarrow> nat \<Rightarrow> int list \<Rightarrow> int list list \<Rightarrow> int list list" where
  "extend_partials hits apply_hp_prune use_hp_range max_hp i damages partials =
     concat (map (\<lambda>p. map (\<lambda>d. p @ [d]) (filter (\<lambda>d. \<not> (apply_hp_prune \<and> i < length hits) \<or>
         hit_passes_constraint (sum_list (drop (snd (snd (hits ! i))) p) + d) (fst (hits ! i)) (fst (snd (hits ! i))) use_hp_range max_hp)
       damages)) partials)"

fun damage_combos :: "(int \<times> int \<times> nat) list \<Rightarrow> bool \<Rightarrow> bool \<Rightarrow> int \<Rightarrow> nat \<Rightarrow> int list list \<Rightarrow> int list list \<Rightarrow> int list list" where
  "damage_combos hits prune ranged max_hp i [] partials = partials"
| "damage_combos hits prune ranged max_hp i (ds # rest) partials =
     damage_combos hits prune ranged max_hp (Suc i) rest (extend_partials hits prune ranged max_hp i ds partials)"

definition dedup_first :: "'a list \<Rightarrow> 'a list" where
  "dedup_first xs = foldl (\<lambda>acc x. if x \<in> set acc then acc else acc @ [x]) [] xs"

definition rolls_of_combo :: "roll_map list \<Rightarrow> int list \<Rightarrow> rat list res" where
  "rolls_of_combo maps combo =
     rmap (\<lambda>x. case map_of (fst x) (snd x) of None \<Rightarrow> Inl AssertionError | Some r \<Rightarrow> Inr r) (zip maps combo)"

definition mover_rolls_for :: "game_data \<Rightarrow> engine \<Rightarrow> trial \<Rightarrow> partial_candidate \<Rightarrow> nat \<Rightarrow> nat \<Rightarrow> sid \<Rightarrow> nat
    \<Rightarrow> (int \<times> int) list \<Rightarrow> int \<Rightarrow> bool \<Rightarrow> bool \<Rightarrow> rat list \<Rightarrow> (rat list \<times> rat list) list res" where
  "mover_rolls_for gd eg t pc iteration n_hits side slot hp_deltas max_hp use_hp_range apply_hp_prune crits =
     rbind (rmap (\<lambda>i. discover_hit (trial_damage gd eg t pc iteration n_hits side slot apply_hp_prune crits i)) [0..<n_hits]) (\<lambda>maps.
       if [] \<in> set maps then Inr []
       else rbind (rmap (rolls_of_combo maps)
              (damage_combos (segment_hp_deltas_into_hits hp_deltas) apply_hp_prune use_hp_range max_hp 0 (map (map fst) maps) [[]]))
            (\<lambda>rolls. Inr (dedup_first (map (\<lambda>rs. (rs, crits)) rolls))))"

definition enumerate_mover_rolls :: "game_data \<Rightarrow> engine \<Rightarrow> trial \<Rightarrow> partial_candidate \<Rightarrow> nat \<Rightarrow> nat \<Rightarrow> nat \<Rightarrow> sid \<Rightarrow> nat
    \<Rightarrow> (int \<times> int) list \<Rightarrow> int \<Rightarrow> bool \<Rightarrow> bool \<Rightarrow> (rat list \<times> rat list) list res" where
  "enumerate_mover_rolls gd eg t pc iteration n_hits n_crits side slot hp_deltas max_hp use_hp_range apply_hp_prune =
     rbind (rmap (mover_rolls_for gd eg t pc iteration n_hits side slot hp_deltas max_hp use_hp_range apply_hp_prune)
              (crit_assignments n_hits n_crits)) (\<lambda>rs. Inr (concat rs))"

section \<open>The phase loop\<close>

text \<open>What the loop knows of one mover: the readings of its target, and how many hits and crits were seen.\<close>

record mover_view =
  mv_side :: sid
  mv_attacker :: nat
  mv_hits :: nat
  mv_crits :: nat
  mv_deltas :: "(int \<times> int) list"
  mv_max_hp :: int

definition view_mover :: "trial \<Rightarrow> perslot \<Rightarrow> int list \<Rightarrow> nat list \<Rightarrow> nat \<Rightarrow> mover_view res" where
  "view_mover t ps hit_counts crit_counts iteration =
     rbind (lk (tr_movers t) iteration) (\<lambda>(side, source_slot).
     let n_hits = (if iteration < length hit_counts then hit_counts ! iteration else 1);
         active = sd_active_indices (side_of (tr_state t) side);
         n_crits = (if iteration < length crit_counts then crit_counts ! iteration else 0);
         target_deltas = (if opp side = P1 then ps_opponent ps else ps_player ps)
     in rbind (lk active (if source_slot < length active then source_slot else 0)) (\<lambda>attacker.
        rbind (acting_action (tr_action0 t) (tr_action1 t) side source_slot) (\<lambda>act.
        let target_slot = (case act of None \<Rightarrow> 0 | Some a \<Rightarrow> ac_target_slot a) in
        rbind (lk (ps_max_hp ps) (if target_slot < length (ps_max_hp ps) then target_slot else 0)) (\<lambda>max_hp.
          Inr \<lparr>mv_side = side, mv_attacker = attacker, mv_hits = nat n_hits,
               mv_crits = (if n_hits > 1 then n_crits else if n_crits > 0 then 1 else 0),
               mv_deltas = (if target_slot < length target_deltas then target_deltas ! target_slot else []),
               mv_max_hp = max_hp\<rparr>))))"

text \<open>The partial candidate with one more mover: per-hit lists for a multi-hit move, scalars otherwise.\<close>

definition extend_partial :: "nat \<Rightarrow> bool \<Rightarrow> partial_candidate \<Rightarrow> rat list \<times> rat list \<Rightarrow> partial_candidate res" where
  "extend_partial iteration multi pc x =
     rbind (if multi then Inr (Rolls (fst x), Crits (snd x))
            else rbind (lk (fst x) 0) (\<lambda>r. rbind (lk (snd x) 0) (\<lambda>c. Inr (Roll r, Crit (c = 0))))) (\<lambda>e.
       Inr \<lparr>pc_rolls = pc_rolls pc @ [fst e], pc_crits = pc_crits pc @ [snd e], pc_mover_iteration = iteration + 1\<rparr>)"

definition mover_step :: "game_data \<Rightarrow> engine \<Rightarrow> trial \<Rightarrow> perslot \<Rightarrow> int list \<Rightarrow> nat list \<Rightarrow> partial_candidate list
    \<Rightarrow> nat \<Rightarrow> partial_candidate list res" where
  "mover_step gd eg t ps hit_counts crit_counts active iteration =
     rbind (view_mover t ps hit_counts crit_counts iteration) (\<lambda>v.
     let multi = mv_hits v > 1 in
     rbind (rmap (\<lambda>pc.
         rbind (enumerate_mover_rolls gd eg t pc iteration (mv_hits v) (mv_crits v) (mv_side v) (mv_attacker v)
                  (mv_deltas v) (mv_max_hp v) (opp (mv_side v) = P1) multi)
           (rmap (extend_partial iteration multi pc))) active)
       (\<lambda>xss. Inr (concat xss)))"

text \<open>A survivor: the rolls and crits of the movers, the state and the log of the simulated turn.\<close>

record survivor =
  sv_rolls :: "roll_entry list"
  sv_crits :: "crit_entry list"
  sv_state :: battle_state
  sv_log :: capture

definition mk_survivor :: "partial_candidate \<Rightarrow> battle_state \<Rightarrow> capture \<Rightarrow> survivor" where
  "mk_survivor pc rs cap = \<lparr>sv_rolls = pc_rolls pc, sv_crits = pc_crits pc, sv_state = rs, sv_log = cap\<rparr>"

text \<open>The final simulation of a partial candidate, kept when the order of the moves is the observed one.\<close>

definition final_trial :: "game_data \<Rightarrow> engine \<Rightarrow> trial \<Rightarrow> partial_candidate \<Rightarrow> (sid \<times> nat \<times> rat) option \<Rightarrow> survivor option res" where
  "final_trial gd eg t pc self_hit_roll =
     rbind (run_trial gd eg t pc (length (tr_movers t)) (Roll (1 / 2)) (Crit False) self_hit_roll) (\<lambda>r. Inr (case fst r of
         None \<Rightarrow> None
       | Some rs \<Rightarrow> if check_action_order (snd r) (map fst (tr_movers t)) then Some (mk_survivor pc rs (snd r)) else None))"

text \<open>The sixteen rolls of a confusion self-hit, one survivor per damage.\<close>

definition self_hit_step :: "game_data \<Rightarrow> engine \<Rightarrow> trial \<Rightarrow> sid \<Rightarrow> nat \<Rightarrow> partial_candidate
    \<Rightarrow> int list \<times> survivor list \<Rightarrow> nat \<Rightarrow> (int list \<times> survivor list) res" where
  "self_hit_step gd eg t side slot pc acc roll_idx =
     rbind (final_trial gd eg t pc (Some (side, slot, roll_of roll_idx))) (\<lambda>r. case r of
         None \<Rightarrow> Inr acc
       | Some sv \<Rightarrow> rbind (self_hit_damage (sv_log sv) side) (\<lambda>dmg.
           if dmg \<in> set (fst acc) then Inr acc else Inr (dmg # fst acc, snd acc @ [sv])))"

definition expand_self_hits :: "game_data \<Rightarrow> engine \<Rightarrow> trial \<Rightarrow> (sid \<times> nat) list \<Rightarrow> partial_candidate list \<Rightarrow> survivor list res" where
  "expand_self_hits gd eg t slots active =
     rbind (rmap (\<lambda>x. rbind (rfold (self_hit_step gd eg t (fst (fst x)) (snd (fst x)) (snd x)) ([], []) [0..<16]) (\<lambda>acc. Inr (snd acc)))
              (concat (map (\<lambda>s. map (Pair s) active) slots)))
       (\<lambda>xss. Inr (concat xss))"

definition run_phase_loop :: "game_data \<Rightarrow> engine \<Rightarrow> trial \<Rightarrow> perslot \<Rightarrow> int list \<Rightarrow> nat list \<Rightarrow> (sid \<times> nat) list \<Rightarrow> survivor list res" where
  "run_phase_loop gd eg t ps hit_counts crit_counts self_hit_slots =
     rbind (rfold (mover_step gd eg t ps hit_counts crit_counts) [\<lparr>pc_rolls = [], pc_crits = [], pc_mover_iteration = 0\<rparr>]
              [0..<length (tr_movers t)]) (\<lambda>active.
       if self_hit_slots \<noteq> [] then expand_self_hits gd eg t self_hit_slots active
       else rbind (rmap (\<lambda>pc. final_trial gd eg t pc None) active) (\<lambda>rs. Inr (List.map_filter id rs)))"

section \<open>The evaluation of a pair of actions\<close>

definition active_species :: "battle_state \<Rightarrow> sid \<Rightarrow> species option" where
  "active_species st side = (case sd_active_indices (side_of st side) of
       [] \<Rightarrow> None
     | i # _ \<Rightarrow> if i < length (sd_team (side_of st side)) then Some (pk_species (sd_team (side_of st side) ! i)) else None)"

text \<open>A combination merged over the injected overrides; the observed outcome of a slot wins.\<close>

definition merge_override :: "nat \<Rightarrow> rng_event \<Rightarrow> bool \<Rightarrow> overrides \<Rightarrow> overrides res" where
  "merge_override slot e v ovr = (case map_of ovr e of
       Some (PyDict d) \<Rightarrow> Inr (AList.update e (PyDict (if map_of d slot = None then AList.update slot (PyBool v) d else d)) ovr)
     | None \<Rightarrow> Inr (AList.update e (PyDict [(slot, PyBool v)]) ovr)
     | Some (PyBool False) \<Rightarrow> Inr (AList.update e (PyDict [(slot, PyBool v)]) ovr)
     | Some (PyBool True) \<Rightarrow> Inl (SimulationError ComboOverScalarTrue)
     | Some _ \<Rightarrow> Inr ovr)"

definition merge_combo :: "(sid \<Rightarrow> overrides) \<Rightarrow> combo \<Rightarrow> (sid \<Rightarrow> overrides) res" where
  "merge_combo ovr combo = rfold (\<lambda>ovr x. case x of ((side, slot, e), v) \<Rightarrow>
     rbind (merge_override slot e v (ovr side)) (\<lambda>o'. Inr (ovr(side := o')))) ovr combo"

text \<open>The candidates found so far, the states seen, and the identity of the next candidate.\<close>

record sweep_acc =
  sw_found :: "candidate list"
  sw_seen :: "battle_state list"
  sw_next :: nat

definition sweep_start :: "candidate list \<Rightarrow> sweep_acc" where
  "sweep_start initial = \<lparr>sw_found = [], sw_seen = [], sw_next = Suc (foldr max (map ca_id initial) 0)\<rparr>"

definition rng_sequence_of :: "(sid \<times> nat) list \<Rightarrow> sid \<Rightarrow> survivor \<Rightarrow> (rng_event \<times> rng_value) list res" where
  "rng_sequence_of movers tie_winner sv =
     rbind (rmap (\<lambda>i. rbind (lk (sv_rolls sv) i) (\<lambda>r. rbind (lk (sv_crits sv) i) (\<lambda>c.
              Inr [(DAMAGE_ROLL, RV_roll r), (CRIT, RV_crit c)]))) [0..<length movers])
       (\<lambda>xss. Inr (concat xss @ [(SPEED_TIE, RV_side tie_winner)]))"

definition add_candidate :: "battle_state \<Rightarrow> (rng_event \<times> rng_value) list \<Rightarrow> side_action \<Rightarrow> side_action \<Rightarrow> nat \<Rightarrow> sweep_acc \<Rightarrow> sweep_acc" where
  "add_candidate rs rng a0 a1 parent acc =
     acc\<lparr>sw_found := sw_found acc @ [\<lparr>ca_id = sw_next acc, ca_state = rs, ca_rng_sequence = rng,
            ca_unknown_actions = [(P0, a0), (P1, a1)], ca_parent = Some parent\<rparr>],
         sw_seen := rs # sw_seen acc, sw_next := Suc (sw_next acc)\<rparr>"

text \<open>What the observations of the turn say about a simulated one.\<close>

record observation =
  ob_messages :: "match_result list"
  ob_hp_deltas :: "hp_delta_seq list"
  ob_perslot :: perslot
  ob_opp_species :: "species option"

definition survivor_passes :: "distance \<Rightarrow> game_data \<Rightarrow> observation \<Rightarrow> survivor \<Rightarrow> bool res" where
  "survivor_passes lev gd ob sv = rall_checks [
     hp_match_detail (sv_state sv) (ob_hp_deltas ob),
     hp_count_detail (sv_state sv) (sv_log sv) (ob_hp_deltas ob),
     check_log_events lev gd (sv_log sv) (ob_messages ob) (ps_opponent (ob_perslot ob)) (ob_opp_species ob)]"

definition keep_survivor :: "distance \<Rightarrow> game_data \<Rightarrow> trial \<Rightarrow> observation \<Rightarrow> nat \<Rightarrow> sweep_acc \<Rightarrow> survivor \<Rightarrow> sweep_acc res" where
  "keep_survivor lev gd t ob parent acc sv =
     rbind (survivor_passes lev gd ob sv) (\<lambda>ok.
       if \<not> ok then Inr acc
       else rbind (apply_observed_levelups lev gd (sv_state sv) (ob_messages ob)) (\<lambda>rs.
         if rs \<in> set (sw_seen acc) then Inr acc
         else rbind (rng_sequence_of (tr_movers t) (tr_tie_winner t) sv) (\<lambda>rng.
           Inr (add_candidate rs rng (tr_action0 t) (tr_action1 t) parent acc))))"

definition evaluate_combo :: "distance \<Rightarrow> game_data \<Rightarrow> engine \<Rightarrow> trial \<Rightarrow> (sid \<Rightarrow> overrides) \<Rightarrow> observation \<Rightarrow> int list \<Rightarrow> nat list
    \<Rightarrow> (sid \<times> nat) list \<Rightarrow> nat \<Rightarrow> sweep_acc \<Rightarrow> combo \<Rightarrow> sweep_acc res" where
  "evaluate_combo lev gd eg t inj_ovr ob hit_counts crit_counts self_hit_slots parent acc combo =
     rbind (merge_combo inj_ovr combo) (\<lambda>ovr.
     let t' = t\<lparr>tr_ovr_0 := ovr P0, tr_ovr_1 := ovr P1\<rparr> in
     rbind (run_phase_loop gd eg t' (ob_perslot ob) hit_counts crit_counts self_hit_slots) (\<lambda>survivors.
       rfold (keep_survivor lev gd t' ob parent) acc survivors))"

definition sweep_evaluate_pairs :: "distance \<Rightarrow> game_data \<Rightarrow> engine \<Rightarrow> trial \<Rightarrow> sweep_injection \<Rightarrow> observation \<Rightarrow> int list \<Rightarrow> nat list
    \<Rightarrow> nat \<Rightarrow> sweep_acc \<Rightarrow> sweep_acc res" where
  "sweep_evaluate_pairs lev gd eg t si ob hit_counts crit_counts parent acc =
     rfold (evaluate_combo lev gd eg t (si_ovr si) ob hit_counts crit_counts (si_self_hits si) parent) acc (si_combos si)"

section \<open>The sweep\<close>

text \<open>\<open>try: v = ... except E: continue\<close> around one call of the loop body.\<close>

definition unless_raised :: "exn \<Rightarrow> 's \<Rightarrow> 'a res \<Rightarrow> ('a \<Rightarrow> 's res) \<Rightarrow> 's res" where
  "unless_raised e acc r f = (case r of Inl x \<Rightarrow> if x = e then Inr acc else Inl x | Inr v \<Rightarrow> f v)"

text \<open>
  The collapse of called moves tags the wrapper message in place, so a group that holds the same object sees the tag.
\<close>

definition retag :: "match_result list \<Rightarrow> match_result \<Rightarrow> match_result" where
  "retag msgs m = (case find (\<lambda>x. mr_oid x = mr_oid m) msgs of
       Some x \<Rightarrow> m\<lparr>mr_metronome_called := mr_metronome_called x\<rparr>
     | None \<Rightarrow> m)"

definition retag_group :: "match_result list \<Rightarrow> action_group \<Rightarrow> action_group" where
  "retag_group msgs g = g\<lparr>ag_primary := retag msgs (ag_primary g), ag_secondaries := map (retag msgs) (ag_secondaries g)\<rparr>"

text \<open>The messages the sweep works on: the collapsed ones, the groups, and the flat list without the dropped ones.\<close>

record sweep_input =
  ip_messages :: "match_result list"
  ip_groups :: "action_group list option"
  ip_flat :: "match_result list"

definition prepare_messages :: "distance \<Rightarrow> game_data \<Rightarrow> match_result list \<Rightarrow> candidate list \<Rightarrow> action_group list option \<Rightarrow> sweep_input res" where
  "prepare_messages lev gd msgs initial groups =
     rbind (case initial of [] \<Rightarrow> Inr msgs | c # _ \<Rightarrow> collapse_metronome_calls lev gd msgs (ca_state c)) (\<lambda>kept.
       let groups' = map_option (map (retag_group kept)) groups;
           dropped = filter (\<lambda>k. k \<notin> set (map mr_oid kept)) (map mr_oid msgs)
       in Inr \<lparr>ip_messages = kept, ip_groups = groups',
               ip_flat = filter (\<lambda>m. mr_oid m \<notin> set dropped) (sweep_build_flat_messages kept groups')\<rparr>)"

definition intro_step :: "sweep_acc \<Rightarrow> candidate \<Rightarrow> sweep_acc" where
  "intro_step acc c = (if ca_state c \<in> set (sw_seen acc) then acc else add_candidate (ca_state c) [] NoAct NoAct (ca_id c) acc)"

definition hp_changed_by_slot :: "perslot \<Rightarrow> sid \<times> nat \<Rightarrow> bool" where
  "hp_changed_by_slot ps x =
     (let per = (if fst x = P0 then ps_player ps else ps_opponent ps)
      in snd x < length per \<and> (\<exists>d \<in> set (per ! snd x). fst d \<noteq> snd d))"

text \<open>The part of the loop body that does not depend on the slot map.\<close>

record candidate_view =
  cv_state :: battle_state
  cv_parent :: nat
  cv_perslot :: perslot
  cv_switches :: "action list list"
  cv_crits :: "nat list"
  cv_hits :: "int list"
  cv_slot_maps :: "slot_map list"

definition view_candidate :: "distance \<Rightarrow> game_data \<Rightarrow> sweep_input \<Rightarrow> hp_delta_seq list \<Rightarrow> candidate \<Rightarrow> candidate_view res" where
  "view_candidate lev gd ip hp_deltas c =
     rbind (apply_observed_wrap_release (ca_state c) (ip_messages ip)) (\<lambda>st1.
     rbind (apply_observed_rampage_end st1 (ip_messages ip)) (\<lambda>st.
     rbind (opponent_switch_in_actions lev gd (ip_messages ip) st) (\<lambda>branches.
     rbind (message_crit_counts_with_state lev gd (ip_messages ip) st) (\<lambda>crits.
     rbind (message_hit_counts_with_state lev gd (ip_messages ip) st) (\<lambda>hits.
     rbind (build_attacker_slot_maps lev gd (ip_flat ip) st) (\<lambda>maps.
       Inr \<lparr>cv_state = st, cv_parent = ca_id c, cv_perslot = records_to_perslot hp_deltas st, cv_switches = branches,
            cv_crits = crits, cv_hits = hits, cv_slot_maps = maps\<rparr>))))))"

definition branch_count :: "candidate_view \<Rightarrow> side_action list \<Rightarrow> side_action list \<Rightarrow> sweep_injection \<Rightarrow> nat" where
  "branch_count cv c0 c1 si =
     length (cv_slot_maps cv) * length c0 * length c1 * length (cv_switches cv) * max 1 (length (si_combos si))"

definition observe :: "sweep_input \<Rightarrow> hp_delta_seq list \<Rightarrow> candidate_view \<Rightarrow> observation" where
  "observe ip hp_deltas cv = \<lparr>ob_messages = ip_flat ip, ob_hp_deltas = hp_deltas, ob_perslot = cv_perslot cv,
     ob_opp_species = active_species (cv_state cv) P1\<rparr>"

definition trial_for :: "candidate_view \<Rightarrow> (sid \<times> nat) list \<Rightarrow> sweep_injection \<Rightarrow> side_action \<Rightarrow> side_action \<Rightarrow> action list \<Rightarrow> trial" where
  "trial_for cv movers si a0 a1 switches = \<lparr>tr_state = cv_state cv, tr_action0 = a0, tr_action1 = a1, tr_movers = movers,
     tr_tie_winner = (case movers of [] \<Rightarrow> P0 | m # _ \<Rightarrow> fst m), tr_ovr_0 = si_ovr si P0, tr_ovr_1 = si_ovr si P1,
     tr_pre = si_pre si, tr_opp_switches = switches\<rparr>"

text \<open>The branches of one slot map: pairs of actions and switch-in branches.\<close>

definition sweep_pairs :: "distance \<Rightarrow> game_data \<Rightarrow> engine \<Rightarrow> sweep_input \<Rightarrow> hp_delta_seq list \<Rightarrow> candidate_view \<Rightarrow> (sid \<times> nat) list
    \<Rightarrow> sweep_injection \<Rightarrow> side_action list \<Rightarrow> side_action list \<Rightarrow> sweep_acc \<Rightarrow> sweep_acc res" where
  "sweep_pairs lev gd eg ip hp_deltas cv movers si c0 c1 acc =
     rfold (\<lambda>acc x. case x of (a0, a1, switches) \<Rightarrow>
         sweep_evaluate_pairs lev gd eg (trial_for cv movers si a0 a1 switches) si (observe ip hp_deltas cv) (cv_hits cv) (cv_crits cv)
           (cv_parent cv) acc)
       acc (concat (map (\<lambda>a0. concat (map (\<lambda>a1. map (\<lambda>s. (a0, a1, s)) (cv_switches cv)) c1)) c0))"

definition sweep_slot_map :: "distance \<Rightarrow> game_data \<Rightarrow> engine \<Rightarrow> sweep_input \<Rightarrow> hp_delta_seq list \<Rightarrow> candidate_view
    \<Rightarrow> sweep_acc \<Rightarrow> slot_map \<Rightarrow> sweep_acc res" where
  "sweep_slot_map lev gd eg ip hp_deltas cv acc sm =
     (let st = cv_state cv; msgs = ip_messages ip in
      unless_raised UnreproducibleObservedMoveError acc (extract_known_actions lev gd msgs st (Some sm)) (\<lambda>known.
      unless_raised UnexpectedOpponentActionError acc
        (rbind (validate_known_opponent_action gd eg known st) (\<lambda>_. validate_forced_opponent_switch lev gd eg msgs st)) (\<lambda>_.
      unless_raised PostFaintMovePhaseError acc
        (sweep_resolve_candidate_actions lev gd st msgs known (ps_opponent (cv_perslot cv)) (ps_player (cv_perslot cv)) (Some sm)) (\<lambda>cands.
      rbind (extract_used_moves_from_groups lev gd (ip_groups ip) st (Some (ip_flat ip)) (Some sm)) (\<lambda>ums.
      rbind (build_sweep_injected_overrides lev gd (ip_flat ip) st ums (ip_groups ip) (Some sm) (Some (hp_changed_by_slot (cv_perslot cv)))) (\<lambda>si.
        if branch_count cv (fst cands) (snd cands) si > SWEEP_BRANCH_CAP then Inl (SimulationError BranchCapExceeded)
        else rbind (message_action_order_with_state lev gd msgs st (Some sm)) (\<lambda>movers.
          sweep_pairs lev gd eg ip hp_deltas cv movers si (fst cands) (snd cands) acc)))))))"

definition sweep_candidate :: "distance \<Rightarrow> game_data \<Rightarrow> engine \<Rightarrow> sweep_input \<Rightarrow> hp_delta_seq list \<Rightarrow> sweep_acc \<Rightarrow> candidate \<Rightarrow> sweep_acc res" where
  "sweep_candidate lev gd eg ip hp_deltas acc c =
     rbind (view_candidate lev gd ip hp_deltas c) (\<lambda>cv. rfold (sweep_slot_map lev gd eg ip hp_deltas cv) acc (cv_slot_maps cv))"

definition run_candidate_sweep :: "distance \<Rightarrow> game_data \<Rightarrow> engine \<Rightarrow> match_result list \<Rightarrow> hp_delta_seq list \<Rightarrow> candidate list
    \<Rightarrow> action_group list option \<Rightarrow> candidate list res" where
  "run_candidate_sweep lev gd eg msgs hp_deltas initial groups =
     rbind (prepare_messages lev gd msgs initial groups) (\<lambda>ip.
     rbind (if \<exists>m \<in> set (ip_messages ip). mr_string_id m = ''STRINGID_INTROMSG''
            then Inr (foldl intro_step (sweep_start initial) initial)
            else rfold (sweep_candidate lev gd eg ip hp_deltas) (sweep_start initial) initial) (\<lambda>acc.
       if sw_found acc = [] then Inl (SimulationError NoSurvivors) else Inr (sw_found acc)))"

section \<open>The damages of a multi-hit move\<close>

text \<open>The readings allow damage \<open>d\<close> for hit \<open>i\<close> after the damages \<open>p\<close> of the hits before it.\<close>

definition hit_allowed :: "(int \<times> int \<times> nat) list \<Rightarrow> bool \<Rightarrow> bool \<Rightarrow> int \<Rightarrow> nat \<Rightarrow> int list \<Rightarrow> int \<Rightarrow> bool" where
  "hit_allowed hits prune ranged max_hp i p d \<longleftrightarrow> (prune \<and> i < length hits \<longrightarrow>
     hit_passes_constraint (sum_list (drop (snd (snd (hits ! i))) p) + d) (fst (hits ! i)) (fst (snd (hits ! i))) ranged max_hp)"

lemma set_extend_partials:
  "set (extend_partials hits prune ranged max_hp i ds ps) =
     {p @ [d] | p d. p \<in> set ps \<and> d \<in> set ds \<and> hit_allowed hits prune ranged max_hp i p d}"
  by (force simp: extend_partials_def hit_allowed_def)

lemma damage_combos_step:
  "set (damage_combos hits prune ranged max_hp i dss ps) =
     {p @ q | p q. p \<in> set ps \<and> length q = length dss
       \<and> (\<forall>j < length dss. q ! j \<in> set (dss ! j) \<and> hit_allowed hits prune ranged max_hp (i + j) (p @ take j q) (q ! j))}"
    (is "_ = ?rhs i dss ps")
proof (induction dss arbitrary: i ps)
  case (Cons ds dss)
  have "?rhs (Suc i) dss (extend_partials hits prune ranged max_hp i ds ps) = ?rhs i (ds # dss) ps" (is "?l = ?r")
  proof (intro set_eqI iffI)
    fix x assume "x \<in> ?l"
    then obtain p d q where x: "x = (p @ [d]) @ q" "p \<in> set ps" "d \<in> set ds" "hit_allowed hits prune ranged max_hp i p d" "length q = length dss"
      and q: "\<And>j. j < length dss \<Longrightarrow> q ! j \<in> set (dss ! j) \<and> hit_allowed hits prune ranged max_hp (Suc i + j) ((p @ [d]) @ take j q) (q ! j)"
      unfolding set_extend_partials by blast
    have "(d # q) ! j \<in> set ((ds # dss) ! j) \<and> hit_allowed hits prune ranged max_hp (i + j) (p @ take j (d # q)) ((d # q) ! j)"
      if "j < Suc (length dss)" for j
      using x(3,4) q[of "j - 1"] that by (cases j) auto
    moreover have "x = p @ (d # q)" "length (d # q) = length (ds # dss)" using x by auto
    ultimately show "x \<in> ?r" using x(2) by (smt (verit, best) length_Cons mem_Collect_eq)
  next
    fix x assume "x \<in> ?r"
    then obtain p r where x: "x = p @ r" "p \<in> set ps" "length r = Suc (length dss)"
      and r: "\<And>j. j < Suc (length dss) \<Longrightarrow> r ! j \<in> set ((ds # dss) ! j) \<and> hit_allowed hits prune ranged max_hp (i + j) (p @ take j r) (r ! j)"
      by auto
    from x(3) obtain d q where dq: "r = d # q" "length q = length dss" by (cases r) auto
    have d: "d \<in> set ds" "hit_allowed hits prune ranged max_hp i p d" using r[of 0] dq by auto
    have "q ! j \<in> set (dss ! j) \<and> hit_allowed hits prune ranged max_hp (Suc i + j) ((p @ [d]) @ take j q) (q ! j)" if "j < length dss" for j
      using r[of "Suc j"] that dq by auto
    moreover have "p @ [d] \<in> set (extend_partials hits prune ranged max_hp i ds ps)"
      unfolding set_extend_partials using d x(2) by blast
    moreover have "x = (p @ [d]) @ q" using x(1) dq by simp
    ultimately show "x \<in> ?l" using dq(2) by blast
  qed
  with Cons.IH[of "Suc i" "extend_partials hits prune ranged max_hp i ds ps"] show ?case by simp
qed auto

lemma damage_combos_set:
  "set (damage_combos hits prune ranged max_hp 0 dss [[]]) =
     {q. length q = length dss \<and> (\<forall>j < length dss. q ! j \<in> set (dss ! j) \<and> hit_allowed hits prune ranged max_hp j (take j q) (q ! j))}"
  unfolding damage_combos_step by auto

section \<open>Discovery of the rolls\<close>

text \<open>Roll \<open>idx\<close> is the first of the rolls below \<open>n\<close> that does damage \<open>d\<close>.\<close>

definition first_roll :: "(nat \<Rightarrow> int option res) \<Rightarrow> nat \<Rightarrow> int \<Rightarrow> nat \<Rightarrow> bool" where
  "first_roll damage n d idx \<longleftrightarrow> idx < n \<and> damage idx = Inr (Some d) \<and> (\<forall>k < idx. damage k \<noteq> Inr (Some d))"

lemma first_roll_unique: "first_roll damage n d i \<Longrightarrow> first_roll damage n d j \<Longrightarrow> i = j"
  unfolding first_roll_def by (metis nat_neq_iff)

lemma first_roll_Suc:
  "first_roll damage (Suc n) d idx \<longleftrightarrow>
     first_roll damage n d idx \<or> idx = n \<and> damage n = Inr (Some d) \<and> (\<forall>k. \<not> first_roll damage n d k)"
proof -
  have "\<exists>k. first_roll damage n d k" if "k0 < n" "damage k0 = Inr (Some d)" for k0
    using that by (intro exI[of _ "LEAST k. damage k = Inr (Some d)"])
      (auto simp: first_roll_def intro: LeastI dest: not_less_Least Least_le order.strict_trans1)
  then have "(\<forall>k. \<not> first_roll damage n d k) \<longleftrightarrow> (\<forall>k < n. damage k \<noteq> Inr (Some d))"
    by (metis first_roll_def)
  then show ?thesis by (auto simp: first_roll_def less_Suc_eq)
qed

definition discover_step :: "(nat \<Rightarrow> int option res) \<Rightarrow> roll_map \<Rightarrow> nat \<Rightarrow> roll_map res" where
  "discover_step damage m roll_idx = rbind (damage roll_idx) (\<lambda>d. Inr (case d of
       None \<Rightarrow> m
     | Some dmg \<Rightarrow> if map_of m dmg = None then m @ [(dmg, roll_of roll_idx)] else m))"

lemma discover_upto:
  "rfold (discover_step damage) [] [0..<n] = Inr m \<Longrightarrow>
     map_of m d = Some r \<longleftrightarrow> (\<exists>idx. first_roll damage n d idx \<and> r = roll_of idx)"
proof (induction n arbitrary: m d r)
  case (Suc n)
  from Suc.prems obtain m' where m': "rfold (discover_step damage) [] [0..<n] = Inr m'" and step: "discover_step damage m' n = Inr m"
    by (auto simp: rfold_append rbind_eq_Inr)
  then obtain x where x: "damage n = Inr x"
    and m: "m = (case x of None \<Rightarrow> m' | Some dmg \<Rightarrow> if map_of m' dmg = None then m' @ [(dmg, roll_of n)] else m')"
    by (auto simp: rbind_eq_Inr discover_step_def)
  have none: "map_of m' d = None \<longleftrightarrow> (\<forall>k. \<not> first_roll damage n d k)"
    using Suc.IH[OF m', of d] by (metis not_None_eq)
  have "map_of m d = Some r \<longleftrightarrow> map_of m' d = Some r \<or> (map_of m' d = None \<and> damage n = Inr (Some d) \<and> r = roll_of n)"
    using m x by (auto simp: map_add_def split: option.splits if_splits)
  then show ?case unfolding first_roll_Suc none Suc.IH[OF m', of d] by auto
qed (simp add: first_roll_def)

lemma discover_hit_spec:
  assumes "discover_hit damage = Inr m"
  shows "map_of m d = Some r \<longleftrightarrow> (\<exists>idx. first_roll damage 16 d idx \<and> r = roll_of idx)"
  using discover_upto[of damage 16 m d r] assms unfolding discover_hit_def discover_step_def by simp

lemma discover_hit_keys:
  assumes "discover_hit damage = Inr m"
  shows "d \<in> fst ` set m \<longleftrightarrow> (\<exists>idx. first_roll damage 16 d idx)"
  using discover_hit_spec[OF assms, of d] by (metis map_of_eq_None_iff not_None_eq)

lemma set_dedup_first [simp]: "set (dedup_first xs) = set xs"
proof -
  have "set (foldl (\<lambda>acc x. if x \<in> set acc then acc else acc @ [x]) acc xs) = set acc \<union> set xs" for acc
    by (induction xs arbitrary: acc) auto
  then show ?thesis by (simp add: dedup_first_def)
qed

lemma distinct_dedup_first [simp]: "distinct (dedup_first xs)"
proof -
  have "distinct (foldl (\<lambda>acc x. if x \<in> set acc then acc else acc @ [x]) acc xs)" if "distinct acc" for acc
    using that by (induction xs arbitrary: acc) auto
  then show ?thesis by (simp add: dedup_first_def)
qed

section \<open>Crit assignments\<close>

lemma combinations_length: "ys \<in> set (combinations xs k) \<Longrightarrow> length ys = k \<and> set ys \<subseteq> set xs \<and> (distinct xs \<longrightarrow> distinct ys)"
proof (induction xs k arbitrary: ys rule: combinations.induct)
  case (3 x xs k)
  from 3(3) consider zs where "ys = x # zs" "zs \<in> set (combinations xs k)" | "ys \<in> set (combinations xs (Suc k))" by auto
  then show ?case
  proof cases
    case 1
    with 3(1)[of zs] show ?thesis by auto
  next
    case 2
    with 3(2)[of ys] show ?thesis by auto
  qed
qed auto

lemma combinations_complete: "A \<subseteq> set xs \<Longrightarrow> distinct xs \<Longrightarrow> card A = k \<Longrightarrow> \<exists>ys \<in> set (combinations xs k). set ys = A"
proof (induction xs k arbitrary: A rule: combinations.induct)
  case (1 xs)
  then have "A = {}" using finite_subset[of A "set xs"] by auto
  then show ?case by simp
next
  case (3 x xs k)
  show ?case
  proof (cases "x \<in> A")
    case True
    with 3(3-5) have "A - {x} \<subseteq> set xs" "card (A - {x}) = k" by auto
    with 3(1)[of "A - {x}"] 3(4) obtain ys where "ys \<in> set (combinations xs k)" "set ys = A - {x}" by auto
    with True show ?thesis by (intro bexI[of _ "x # ys"]) auto
  next
    case False
    with 3(3) have "A \<subseteq> set xs" by auto
    with 3(2)[of A] 3(4,5) show ?thesis by auto
  qed
qed auto

text \<open>The assignments: one threshold per hit, 0 for exactly \<open>n_crits\<close> of them and 101 for the others.\<close>

lemma crit_assignments_set:
  "set (crit_assignments n k) = {cs. length cs = n \<and> set cs \<subseteq> {0, 101} \<and> card {i. i < n \<and> cs ! i = 0} = k}"
proof (intro set_eqI iffI)
  fix cs :: "rat list" assume "cs \<in> set (crit_assignments n k)"
  then obtain idx where idx: "idx \<in> set (combinations [0..<n] k)" and cs: "cs = map (\<lambda>i. if i \<in> set idx then 0 else 101) [0..<n]"
    by (auto simp: crit_assignments_def)
  from combinations_length[OF idx] have "length idx = k" "set idx \<subseteq> {..<n}" "distinct idx" by auto
  moreover from this(2) have "{i. i < n \<and> cs ! i = 0} = set idx" by (auto simp: cs split: if_splits)
  ultimately show "cs \<in> {cs. length cs = n \<and> set cs \<subseteq> {0, 101} \<and> card {i. i < n \<and> cs ! i = 0} = k}"
    by (auto simp: cs distinct_card)
next
  fix cs :: "rat list"
  assume *: "cs \<in> {cs. length cs = n \<and> set cs \<subseteq> {0, 101} \<and> card {i. i < n \<and> cs ! i = 0} = k}"
  let ?A = "{i. i < n \<and> cs ! i = 0}"
  have "?A \<subseteq> set [0..<n]" by auto
  from combinations_complete[OF this, of k] * obtain idx where idx: "idx \<in> set (combinations [0..<n] k)" "set idx = ?A" by auto
  have "cs = map (\<lambda>i. if i \<in> set idx then 0 else 101) [0..<n]"
  proof (rule nth_equalityI)
    fix i assume "i < length cs"
    then have "cs ! i \<in> {0, 101}" "i < n" using * by (auto dest: nth_mem)
    then show "cs ! i = map (\<lambda>i. if i \<in> set idx then 0 else 101) [0..<n] ! i" by (auto simp: idx(2))
  qed (use * in simp)
  with idx(1) show "cs \<in> set (crit_assignments n k)" by (auto simp: crit_assignments_def)
qed

section \<open>The rolls of one mover\<close>

text \<open>
  What \<open>_enumerate_mover_rolls\<close> is meant to find: a roll for every hit, the first one with its damage, such that the damages
  agree with the readings.
\<close>

definition rolls_explain :: "(nat \<Rightarrow> nat \<Rightarrow> int option res) \<Rightarrow> nat \<Rightarrow> (int \<times> int \<times> nat) list \<Rightarrow> bool \<Rightarrow> bool \<Rightarrow> int \<Rightarrow> rat list \<Rightarrow> int list \<Rightarrow> bool" where
  "rolls_explain damage n hits prune ranged max_hp rolls ds \<longleftrightarrow> length rolls = n \<and> length ds = n \<and>
     (\<forall>i < n. (\<exists>idx. first_roll (damage i) 16 (ds ! i) idx \<and> rolls ! i = roll_of idx)
        \<and> hit_allowed hits prune ranged max_hp i (take i ds) (ds ! i))"

lemma rolls_of_combo_spec:
  assumes "length combo = length maps"
  shows "rolls_of_combo maps combo = Inr rolls \<longleftrightarrow>
     length rolls = length maps \<and> (\<forall>i < length maps. map_of (maps ! i) (combo ! i) = Some (rolls ! i))"
  using assms
proof (induction maps combo arbitrary: rolls rule: list_induct2')
  case (4 m maps d combo)
  have "rolls_of_combo (m # maps) (d # combo) = Inr rolls \<longleftrightarrow>
      (\<exists>r rs. map_of m d = Some r \<and> rolls_of_combo maps combo = Inr rs \<and> rolls = r # rs)"
    by (auto simp: rolls_of_combo_def rbind_eq_Inr split: option.splits)
  also have "\<dots> \<longleftrightarrow> (\<exists>r rs. map_of m d = Some r \<and> (length rs = length maps \<and> (\<forall>i < length maps. map_of (maps ! i) (combo ! i) = Some (rs ! i))) \<and> rolls = r # rs)"
    using 4 by simp
  also have "\<dots> \<longleftrightarrow> length rolls = length (m # maps) \<and> (\<forall>i < length (m # maps). map_of ((m # maps) ! i) ((d # combo) ! i) = Some (rolls ! i))"
    by (cases rolls) (auto simp: All_less_Suc2)
  finally show ?case .
qed (auto simp: rolls_of_combo_def)

lemma rmap_mem_iff: "rmap f xs = Inr ys \<Longrightarrow> y \<in> set ys \<longleftrightarrow> (\<exists>x \<in> set xs. f x = Inr y)"
  by (induction xs arbitrary: ys) (auto simp: rbind_eq_Inr)

lemma mover_rolls_for_spec:
  fixes gd :: game_data and eg :: engine and t :: trial and pc :: partial_candidate
  assumes "mover_rolls_for gd eg t pc it n side slot deltas max_hp ranged prune crits = Inr out"
  defines "damage \<equiv> \<lambda>i. trial_damage gd eg t pc it n side slot prune crits i"
  shows "x \<in> set out \<longleftrightarrow> snd x = crits \<and> (\<exists>ds. rolls_explain damage n (segment_hp_deltas_into_hits deltas) prune ranged max_hp (fst x) ds)"
    and "distinct out"
proof -
  let ?hits = "segment_hp_deltas_into_hits deltas"
  from assms(1) obtain maps where maps: "rmap (\<lambda>i. discover_hit (damage i)) [0..<n] = Inr maps"
    and out: "(if [] \<in> set maps then Inr [] else rbind (rmap (rolls_of_combo maps) (damage_combos ?hits prune ranged max_hp 0 (map (map fst) maps) [[]]))
            (\<lambda>rolls. Inr (dedup_first (map (\<lambda>rs. (rs, crits)) rolls)))) = Inr out"
    by (auto simp: mover_rolls_for_def damage_def rbind_eq_Inr)
  have len: "length maps = n" using rmap_length[OF maps] by simp
  have disc: "discover_hit (damage i) = Inr (maps ! i)" if "i < n" for i using rmap_nth[OF maps, of i] that by simp
  have explain: "rolls_explain damage n ?hits prune ranged max_hp rolls ds \<longleftrightarrow>
      ds \<in> set (damage_combos ?hits prune ranged max_hp 0 (map (map fst) maps) [[]]) \<and> rolls_of_combo maps ds = Inr rolls" for rolls ds
    unfolding damage_combos_set using discover_hit_spec[OF disc] discover_hit_keys[OF disc]
    by (auto simp: rolls_explain_def rolls_of_combo_spec len)
  show "x \<in> set out \<longleftrightarrow> snd x = crits \<and> (\<exists>ds. rolls_explain damage n ?hits prune ranged max_hp (fst x) ds)"
  proof (cases "[] \<in> set maps")
    case True
    then obtain i where "i < n" "maps ! i = []" by (metis in_set_conv_nth len)
    with discover_hit_spec[OF disc[OF \<open>i < n\<close>]] have "\<not> rolls_explain damage n ?hits prune ranged max_hp rolls ds" for rolls ds
      by (fastforce simp: rolls_explain_def)
    with True out show ?thesis by auto
  next
    case False
    with out obtain rolls where rolls: "rmap (rolls_of_combo maps) (damage_combos ?hits prune ranged max_hp 0 (map (map fst) maps) [[]]) = Inr rolls"
      "out = dedup_first (map (\<lambda>rs. (rs, crits)) rolls)" by (auto simp: rbind_eq_Inr)
    have "x \<in> set out \<longleftrightarrow> snd x = crits \<and> fst x \<in> set rolls" by (cases x) (auto simp: rolls(2))
    also have "\<dots> \<longleftrightarrow> snd x = crits \<and> (\<exists>ds. rolls_explain damage n ?hits prune ranged max_hp (fst x) ds)"
      unfolding rmap_mem_iff[OF rolls(1)] explain by blast
    finally show ?thesis .
  qed
  show "distinct out" using out by (auto simp: rbind_eq_Inr split: if_splits)
qed

section \<open>The readings never reject the truth\<close>

text \<open>The damages of a sequence of HP values as the readings segment it: a rise of the reading is a heal, any other step a hit.\<close>

fun true_damages :: "(int \<Rightarrow> int) \<Rightarrow> int list \<Rightarrow> int list" where
  "true_damages reading (h # h' # hs) =
     (if reading h' > reading h then true_damages reading (h' # hs) else (h - h') # true_damages reading (h' # hs))"
| "true_damages reading hs = []"

lemma true_damage_passes:
  assumes "0 < m" "0 \<le> h" "h \<le> m" "visible_hp h m" "0 \<le> h'" "h' \<le> m" "visible_hp h' m"
  shows "hit_passes_constraint (h - h') (hp_to_k h m) (hp_to_k h' m) True m"
  using bar.damage_window[of m h' h] assms by (auto simp: hit_passes_constraint_def)

lemma exact_damage_passes: "hit_passes_constraint (h - h') h h' False m"
  by (simp add: hit_passes_constraint_def)

text \<open>
  The segmentation keeps the sum of the damages since the anchor equal to the HP lost since then, so a constraint that holds for
  every pair of true values holds for every hit.
\<close>

lemma segment_hits_allow:
  assumes pass: "\<And>a b. a \<in> V \<Longrightarrow> b \<in> V \<Longrightarrow> hit_passes_constraint (a - b) (rd a) (rd b) ranged m"
  shows "ha \<in> V \<Longrightarrow> set (h # rest) \<subseteq> V \<Longrightarrow> length D = length H \<Longrightarrow> start \<le> length D \<Longrightarrow> sum_list (drop start D) = ha - h \<Longrightarrow>
    \<exists>H'. segment_hits (rd ha) start H (neighbours (map rd (h # rest))) = H @ H' \<and> length H' = length (true_damages rd (h # rest))
      \<and> (\<forall>i. length H \<le> i \<and> i < length (H @ H') \<longrightarrow>
            hit_allowed (H @ H') prune ranged m i (take i (D @ true_damages rd (h # rest))) ((D @ true_damages rd (h # rest)) ! i))"
proof (induction rest arbitrary: h ha H D start)
  case Nil
  then show ?case by (intro exI[of _ "[]"]) auto
next
  case (Cons h' rest)
  show ?case
  proof (cases "rd h' > rd h")
    case True
    from Cons.IH[of h' h' D H "length H"] Cons.prems True show ?thesis by simp
  next
    case False
    let ?D = "D @ [h - h']" and ?H = "H @ [(rd ha, rd h', start)]"
    from Cons.IH[of ha h' ?D ?H start] Cons.prems obtain H' where H': "segment_hits (rd ha) start ?H (neighbours (map rd (h' # rest))) = ?H @ H'"
      "length H' = length (true_damages rd (h' # rest))"
      and al: "\<And>i. length ?H \<le> i \<Longrightarrow> i < length (?H @ H') \<Longrightarrow>
          hit_allowed (?H @ H') prune ranged m i (take i (?D @ true_damages rd (h' # rest))) ((?D @ true_damages rd (h' # rest)) ! i)"
      by fastforce
    have here: "hit_allowed (?H @ H') prune ranged m (length H) D (h - h')"
      using Cons.prems pass[of ha h'] by (simp add: hit_allowed_def nth_append)
    have "hit_allowed (?H @ H') prune ranged m i (take i (?D @ true_damages rd (h' # rest))) ((?D @ true_damages rd (h' # rest)) ! i)"
      if "length H \<le> i" "i < length (?H @ H')" for i
    proof (cases "i = length H")
      case True
      with here Cons.prems(3) show ?thesis by (simp add: nth_append)
    qed (use al[of i] that in simp)
    with H' False show ?thesis by (intro exI[of _ "(rd ha, rd h', start) # H'"]) simp
  qed
qed

lemma segmented_truth_allowed:
  assumes "\<And>a b. a \<in> set hs \<Longrightarrow> b \<in> set hs \<Longrightarrow> hit_passes_constraint (a - b) (rd a) (rd b) ranged m" "i < length (true_damages rd hs)"
  defines "hits \<equiv> segment_hp_deltas_into_hits (neighbours (map rd hs))"
  shows "hit_allowed hits prune ranged m i (take i (true_damages rd hs)) (true_damages rd hs ! i)"
proof -
  from assms(2) obtain h h' rest where hs: "hs = h # h' # rest" by (cases "(rd, hs)" rule: true_damages.cases) auto
  then have hits: "hits = segment_hits (rd h) 0 [] (neighbours (map rd (h # h' # rest)))"
    by (simp add: hits_def segment_hp_deltas_into_hits_def)
  from segment_hits_allow[of "set hs" rd ranged m h h "h' # rest" "[]" "[]" 0 prune, OF assms(1)] hs hits assms(2) show ?thesis by auto
qed

section \<open>The sweep collects what its branches yield\<close>

text \<open>
  A step of the sweep adds candidates: \<open>E rs acts parent\<close> says that the step accounts for the state \<open>rs\<close> with these actions and this parent. Every state it accounts for
  is seen afterwards, and every new candidate is one of them, with an identity of its own.
\<close>

definition acc_ok :: "sweep_acc \<Rightarrow> bool" where
  "acc_ok acc \<longleftrightarrow> distinct (map ca_state (sw_found acc)) \<and> ca_state ` set (sw_found acc) = set (sw_seen acc)
     \<and> distinct (map ca_id (sw_found acc)) \<and> (\<forall>c \<in> set (sw_found acc). ca_id c < sw_next acc)"

type_synonym account = "battle_state \<Rightarrow> (sid \<times> side_action) list \<Rightarrow> nat option \<Rightarrow> bool"

definition sweep_adds :: "account \<Rightarrow> sweep_acc \<Rightarrow> sweep_acc \<Rightarrow> bool" where
  "sweep_adds E acc acc' \<longleftrightarrow> (acc_ok acc \<longrightarrow> acc_ok acc') \<and> sw_next acc \<le> sw_next acc'
     \<and> set (sw_seen acc') = set (sw_seen acc) \<union> {rs. \<exists>acts parent. E rs acts parent}
     \<and> (\<forall>c \<in> set (sw_found acc'). c \<in> set (sw_found acc) \<or> E (ca_state c) (ca_unknown_actions c) (ca_parent c) \<and> sw_next acc \<le> ca_id c)"

lemma sweep_adds_same:
  assumes "\<And>rs acts parent. E rs acts parent \<Longrightarrow> rs \<in> set (sw_seen acc)"
  shows "sweep_adds E acc acc"
proof -
  have "set (sw_seen acc) \<union> {rs. \<exists>acts parent. E rs acts parent} = set (sw_seen acc)" using assms by blast
  then show ?thesis by (simp add: sweep_adds_def)
qed

lemma sweep_adds_cong: "sweep_adds E acc acc' \<Longrightarrow> (\<And>rs acts parent. E rs acts parent \<longleftrightarrow> F rs acts parent) \<Longrightarrow> sweep_adds F acc acc'"
  by (simp add: sweep_adds_def)

lemma sweep_adds_trans:
  assumes "sweep_adds E a b" "sweep_adds F b c"
  shows "sweep_adds (\<lambda>rs acts parent. E rs acts parent \<or> F rs acts parent) a c"
proof -
  have "set (sw_seen c) = set (sw_seen a) \<union> {rs. \<exists>acts parent. E rs acts parent \<or> F rs acts parent}"
    using assms unfolding sweep_adds_def by blast
  moreover have "x \<in> set (sw_found a) \<or> (E (ca_state x) (ca_unknown_actions x) (ca_parent x) \<or> F (ca_state x) (ca_unknown_actions x) (ca_parent x)) \<and> sw_next a \<le> ca_id x"
    if "x \<in> set (sw_found c)" for x
    using assms that unfolding sweep_adds_def by (meson order_trans)
  ultimately show ?thesis using assms unfolding sweep_adds_def by auto
qed

lemma sweep_adds_fold:
  assumes "rfold f acc xs = Inr acc'" "\<And>x acc acc'. x \<in> set xs \<Longrightarrow> f acc x = Inr acc' \<Longrightarrow> sweep_adds (E x) acc acc'"
  shows "sweep_adds (\<lambda>rs acts parent. \<exists>x \<in> set xs. E x rs acts parent) acc acc'"
  using assms
proof (induction xs arbitrary: acc)
  case Nil
  then show ?case by (auto intro: sweep_adds_same)
next
  case (Cons x xs)
  from Cons.prems(1) obtain acc1 where "f acc x = Inr acc1" "rfold f acc1 xs = Inr acc'" by (auto simp: rbind_eq_Inr)
  with Cons.prems(2)[of x acc acc1] Cons.IH[of acc1] Cons.prems(2) have "sweep_adds (E x) acc acc1"
    "sweep_adds (\<lambda>rs acts parent. \<exists>x \<in> set xs. E x rs acts parent) acc1 acc'" by auto
  then show ?case by (rule sweep_adds_cong[OF sweep_adds_trans]) auto
qed

lemma sweep_adds_add_candidate:
  assumes "rs \<notin> set (sw_seen acc)"
  shows "sweep_adds (\<lambda>rs' acts parent. rs' = rs \<and> acts = [(P0, a0), (P1, a1)] \<and> parent = Some p) acc (add_candidate rs rng a0 a1 p acc)"
  using assms by (auto simp: sweep_adds_def acc_ok_def add_candidate_def image_iff)

text \<open>A survivor that passes the checks accounts for its state with the observed level-ups.\<close>

definition survivor_accounts :: "distance \<Rightarrow> game_data \<Rightarrow> observation \<Rightarrow> trial \<Rightarrow> nat \<Rightarrow> survivor \<Rightarrow> account" where
  "survivor_accounts lev gd ob t p sv rs acts parent \<longleftrightarrow> hp_match_detail (sv_state sv) (ob_hp_deltas ob) = Inr True
     \<and> hp_count_detail (sv_state sv) (sv_log sv) (ob_hp_deltas ob) = Inr True
     \<and> check_log_events lev gd (sv_log sv) (ob_messages ob) (ps_opponent (ob_perslot ob)) (ob_opp_species ob) = Inr True
     \<and> apply_observed_levelups lev gd (sv_state sv) (ob_messages ob) = Inr rs
     \<and> acts = [(P0, tr_action0 t), (P1, tr_action1 t)] \<and> parent = Some p"

lemma survivor_accounts_passes:
  "survivor_accounts lev gd ob t p sv rs acts parent \<longleftrightarrow> survivor_passes lev gd ob sv = Inr True
     \<and> apply_observed_levelups lev gd (sv_state sv) (ob_messages ob) = Inr rs
     \<and> acts = [(P0, tr_action0 t), (P1, tr_action1 t)] \<and> parent = Some p"
  unfolding survivor_accounts_def survivor_passes_def rall_checks_True by auto

lemma keep_survivor_adds:
  assumes "keep_survivor lev gd t ob p acc sv = Inr acc'"
  shows "sweep_adds (survivor_accounts lev gd ob t p sv) acc acc'"
proof -
  from assms obtain ok where ok: "survivor_passes lev gd ob sv = Inr ok" by (auto simp: keep_survivor_def rbind_eq_Inr)
  show ?thesis
  proof (cases ok)
    case False
    with assms ok have "acc' = acc" by (simp add: keep_survivor_def)
    with ok False show ?thesis by (auto intro: sweep_adds_same simp: survivor_accounts_passes)
  next
    case True
    with assms ok obtain rs where rs: "apply_observed_levelups lev gd (sv_state sv) (ob_messages ob) = Inr rs"
      by (auto simp: keep_survivor_def rbind_eq_Inr)
    have E: "survivor_accounts lev gd ob t p sv rs' acts parent \<longleftrightarrow> rs' = rs \<and> acts = [(P0, tr_action0 t), (P1, tr_action1 t)] \<and> parent = Some p"
      for rs' acts parent using ok True rs by (auto simp: survivor_accounts_passes)
    show ?thesis
    proof (cases "rs \<in> set (sw_seen acc)")
      case seen: True
      with assms ok True rs have "acc' = acc" by (simp add: keep_survivor_def)
      with seen E show ?thesis by (auto intro: sweep_adds_same)
    next
      case False
      with assms ok True rs obtain rng where acc': "acc' = add_candidate rs rng (tr_action0 t) (tr_action1 t) p acc"
        by (auto simp: keep_survivor_def rbind_eq_Inr)
      show ?thesis unfolding acc' by (rule sweep_adds_cong[OF sweep_adds_add_candidate[OF False]]) (simp add: E)
    qed
  qed
qed

text \<open>A trial that the sweep runs for one combination of overrides, and one of its survivors.\<close>

definition combo_trial :: "game_data \<Rightarrow> engine \<Rightarrow> trial \<Rightarrow> (sid \<Rightarrow> overrides) \<Rightarrow> perslot \<Rightarrow> int list \<Rightarrow> nat list \<Rightarrow> (sid \<times> nat) list \<Rightarrow> combo
    \<Rightarrow> trial \<Rightarrow> survivor \<Rightarrow> bool" where
  "combo_trial gd eg t0 inj_ovr ps hits crits self_hits combo t sv \<longleftrightarrow> (\<exists>ovr svs. merge_combo inj_ovr combo = Inr ovr
     \<and> t = t0\<lparr>tr_ovr_0 := ovr P0, tr_ovr_1 := ovr P1\<rparr> \<and> run_phase_loop gd eg t ps hits crits self_hits = Inr svs \<and> sv \<in> set svs)"

lemma evaluate_combo_adds:
  assumes "evaluate_combo lev gd eg t0 inj_ovr ob hits crits self_hits p acc combo = Inr acc'"
  shows "sweep_adds (\<lambda>rs acts parent. \<exists>t sv. combo_trial gd eg t0 inj_ovr (ob_perslot ob) hits crits self_hits combo t sv
           \<and> survivor_accounts lev gd ob t p sv rs acts parent) acc acc'"
proof -
  from assms obtain ovr svs where m: "merge_combo inj_ovr combo = Inr ovr"
    and l: "run_phase_loop gd eg (t0\<lparr>tr_ovr_0 := ovr P0, tr_ovr_1 := ovr P1\<rparr>) (ob_perslot ob) hits crits self_hits = Inr svs"
    and f: "rfold (keep_survivor lev gd (t0\<lparr>tr_ovr_0 := ovr P0, tr_ovr_1 := ovr P1\<rparr>) ob p) acc svs = Inr acc'"
    by (auto simp: evaluate_combo_def rbind_eq_Inr Let_def)
  show ?thesis
    by (rule sweep_adds_cong[OF sweep_adds_fold[OF f keep_survivor_adds]]) (auto simp: combo_trial_def m l)
qed

lemma evaluate_pairs_adds:
  assumes "sweep_evaluate_pairs lev gd eg t0 si ob hits crits p acc = Inr acc'"
  shows "sweep_adds (\<lambda>rs acts parent. \<exists>combo \<in> set (si_combos si). \<exists>t sv.
      combo_trial gd eg t0 (si_ovr si) (ob_perslot ob) hits crits (si_self_hits si) combo t sv \<and> survivor_accounts lev gd ob t p sv rs acts parent) acc acc'"
  using assms unfolding sweep_evaluate_pairs_def by (rule sweep_adds_fold) (rule evaluate_combo_adds)

text \<open>The trials of a pair of actions and a switch-in branch, of a slot map, and of a candidate.\<close>

definition pair_trial :: "game_data \<Rightarrow> engine \<Rightarrow> candidate_view \<Rightarrow> (sid \<times> nat) list \<Rightarrow> sweep_injection \<Rightarrow> side_action list \<Rightarrow> side_action list
    \<Rightarrow> trial \<Rightarrow> survivor \<Rightarrow> bool" where
  "pair_trial gd eg cv movers si c0 c1 t sv \<longleftrightarrow> (\<exists>a0 \<in> set c0. \<exists>a1 \<in> set c1. \<exists>switches \<in> set (cv_switches cv). \<exists>combo \<in> set (si_combos si).
     combo_trial gd eg (trial_for cv movers si a0 a1 switches) (si_ovr si) (cv_perslot cv) (cv_hits cv) (cv_crits cv) (si_self_hits si) combo t sv)"

lemma sweep_pairs_adds:
  assumes "sweep_pairs lev gd eg ip hp_deltas cv movers si c0 c1 acc = Inr acc'"
  shows "sweep_adds (\<lambda>rs acts parent. \<exists>t sv. pair_trial gd eg cv movers si c0 c1 t sv
      \<and> survivor_accounts lev gd (observe ip hp_deltas cv) t (cv_parent cv) sv rs acts parent) acc acc'"
proof -
  let ?E = "\<lambda>x rs acts parent. case x of (a0, a1, switches) \<Rightarrow> \<exists>combo \<in> set (si_combos si). \<exists>t sv.
      combo_trial gd eg (trial_for cv movers si a0 a1 switches) (si_ovr si) (cv_perslot cv) (cv_hits cv) (cv_crits cv) (si_self_hits si) combo t sv
      \<and> survivor_accounts lev gd (observe ip hp_deltas cv) t (cv_parent cv) sv rs acts parent"
  have ps: "ob_perslot (observe ip hp_deltas cv) = cv_perslot cv" by (simp add: observe_def)
  have "sweep_adds (\<lambda>rs acts parent. \<exists>x \<in> set (concat (map (\<lambda>a0. concat (map (\<lambda>a1. map (\<lambda>s. (a0, a1, s)) (cv_switches cv)) c1)) c0)). ?E x rs acts parent) acc acc'"
    by (rule sweep_adds_fold[OF assms[unfolded sweep_pairs_def]]) (auto dest!: evaluate_pairs_adds simp: ps)
  then show ?thesis by (rule sweep_adds_cong) (simp add: pair_trial_def, blast)
qed

definition map_trial :: "distance \<Rightarrow> game_data \<Rightarrow> engine \<Rightarrow> sweep_input \<Rightarrow> candidate_view \<Rightarrow> slot_map \<Rightarrow> trial \<Rightarrow> survivor \<Rightarrow> bool" where
  "map_trial lev gd eg ip cv sm t sv \<longleftrightarrow> (\<exists>known cands ums si movers.
     extract_known_actions lev gd (ip_messages ip) (cv_state cv) (Some sm) = Inr known
     \<and> validate_known_opponent_action gd eg known (cv_state cv) = Inr ()
     \<and> validate_forced_opponent_switch lev gd eg (ip_messages ip) (cv_state cv) = Inr ()
     \<and> sweep_resolve_candidate_actions lev gd (cv_state cv) (ip_messages ip) known (ps_opponent (cv_perslot cv)) (ps_player (cv_perslot cv)) (Some sm) = Inr cands
     \<and> extract_used_moves_from_groups lev gd (ip_groups ip) (cv_state cv) (Some (ip_flat ip)) (Some sm) = Inr ums
     \<and> build_sweep_injected_overrides lev gd (ip_flat ip) (cv_state cv) ums (ip_groups ip) (Some sm) (Some (hp_changed_by_slot (cv_perslot cv))) = Inr si
     \<and> message_action_order_with_state lev gd (ip_messages ip) (cv_state cv) (Some sm) = Inr movers
     \<and> pair_trial gd eg cv movers si (fst cands) (snd cands) t sv)"

lemma unless_raised_Inr:
  "unless_raised e acc r f = Inr x \<longleftrightarrow> (r = Inl e \<and> x = acc) \<or> (\<exists>v. r = Inr v \<and> f v = Inr x)"
  by (auto simp: unless_raised_def split: sum.splits)

lemma sweep_slot_map_adds:
  assumes "sweep_slot_map lev gd eg ip hp_deltas cv acc sm = Inr acc'"
  shows "sweep_adds (\<lambda>rs acts parent. \<exists>t sv. map_trial lev gd eg ip cv sm t sv
      \<and> survivor_accounts lev gd (observe ip hp_deltas cv) t (cv_parent cv) sv rs acts parent) acc acc'"
proof (cases "\<exists>t sv. map_trial lev gd eg ip cv sm t sv")
  case False
  have "sweep_adds (\<lambda>rs acts parent. \<exists>t sv. map_trial lev gd eg ip cv sm t sv
      \<and> survivor_accounts lev gd (observe ip hp_deltas cv) t (cv_parent cv) sv rs acts parent) acc acc'"
    if sp: "sweep_pairs lev gd eg ip hp_deltas cv movers si (fst cands) (snd cands) acc = Inr acc'"
      and no: "\<And>t sv. \<not> pair_trial gd eg cv movers si (fst cands) (snd cands) t sv" for movers si cands
    by (rule sweep_adds_cong[OF sweep_pairs_adds[OF sp]]) (use False no in auto)
  moreover have "sweep_adds (\<lambda>rs acts parent. \<exists>t sv. map_trial lev gd eg ip cv sm t sv
      \<and> survivor_accounts lev gd (observe ip hp_deltas cv) t (cv_parent cv) sv rs acts parent) acc acc"
    using False by (auto intro: sweep_adds_same)
  ultimately show ?thesis
    using assms False unfolding sweep_slot_map_def Let_def unless_raised_Inr map_trial_def
    by (auto simp: rbind_eq_Inr rbind_eq_Inl split: if_splits)
next
  case True
  then obtain known cands ums si movers where eqs:
    "extract_known_actions lev gd (ip_messages ip) (cv_state cv) (Some sm) = Inr known"
    "validate_known_opponent_action gd eg known (cv_state cv) = Inr ()"
    "validate_forced_opponent_switch lev gd eg (ip_messages ip) (cv_state cv) = Inr ()"
    "sweep_resolve_candidate_actions lev gd (cv_state cv) (ip_messages ip) known (ps_opponent (cv_perslot cv)) (ps_player (cv_perslot cv)) (Some sm) = Inr cands"
    "extract_used_moves_from_groups lev gd (ip_groups ip) (cv_state cv) (Some (ip_flat ip)) (Some sm) = Inr ums"
    "build_sweep_injected_overrides lev gd (ip_flat ip) (cv_state cv) ums (ip_groups ip) (Some sm) (Some (hp_changed_by_slot (cv_perslot cv))) = Inr si"
    "message_action_order_with_state lev gd (ip_messages ip) (cv_state cv) (Some sm) = Inr movers"
    unfolding map_trial_def by blast
  from assms have "sweep_pairs lev gd eg ip hp_deltas cv movers si (fst cands) (snd cands) acc = Inr acc'"
    by (simp add: sweep_slot_map_def Let_def unless_raised_def eqs split: if_splits)
  then show ?thesis by (rule sweep_adds_cong[OF sweep_pairs_adds]) (cases cands, simp add: map_trial_def eqs)
qed

text \<open>
  What the sweep accounts for: a trial of one of the initial candidates, a survivor of it that agrees with every observation, and the state it leads to.
\<close>

definition sweep_outcome :: "distance \<Rightarrow> game_data \<Rightarrow> engine \<Rightarrow> sweep_input \<Rightarrow> hp_delta_seq list \<Rightarrow> candidate \<Rightarrow> account" where
  "sweep_outcome lev gd eg ip hp_deltas c rs acts parent \<longleftrightarrow> (\<exists>cv sm t sv. view_candidate lev gd ip hp_deltas c = Inr cv
     \<and> sm \<in> set (cv_slot_maps cv) \<and> map_trial lev gd eg ip cv sm t sv
     \<and> survivor_accounts lev gd (observe ip hp_deltas cv) t (ca_id c) sv rs acts parent)"

lemma sweep_candidate_adds:
  assumes "sweep_candidate lev gd eg ip hp_deltas acc c = Inr acc'"
  shows "sweep_adds (sweep_outcome lev gd eg ip hp_deltas c) acc acc'"
proof -
  from assms obtain cv where cv: "view_candidate lev gd ip hp_deltas c = Inr cv"
    and f: "rfold (sweep_slot_map lev gd eg ip hp_deltas cv) acc (cv_slot_maps cv) = Inr acc'"
    by (auto simp: sweep_candidate_def rbind_eq_Inr)
  from cv have parent: "cv_parent cv = ca_id c" by (auto simp: view_candidate_def rbind_eq_Inr)
  have "sweep_adds (\<lambda>rs acts parent. \<exists>sm \<in> set (cv_slot_maps cv). \<exists>t sv. map_trial lev gd eg ip cv sm t sv
      \<and> survivor_accounts lev gd (observe ip hp_deltas cv) t (cv_parent cv) sv rs acts parent) acc acc'"
    using f by (rule sweep_adds_fold) (rule sweep_slot_map_adds)
  then show ?thesis by (rule sweep_adds_cong) (simp add: sweep_outcome_def cv parent, blast)
qed

lemma sweep_run_adds:
  assumes "rfold (sweep_candidate lev gd eg ip hp_deltas) acc cs = Inr acc'"
  shows "sweep_adds (\<lambda>rs acts parent. \<exists>c \<in> set cs. sweep_outcome lev gd eg ip hp_deltas c rs acts parent) acc acc'"
  using assms by (rule sweep_adds_fold) (rule sweep_candidate_adds)

lemma sweep_start_ok: "acc_ok (sweep_start initial) \<and> sw_seen (sweep_start initial) = [] \<and> sw_found (sweep_start initial) = []"
  by (simp add: sweep_start_def acc_ok_def)

lemma sweep_start_fresh: "c \<in> set initial \<Longrightarrow> ca_id c < sw_next (sweep_start initial)"
  by (induction initial) (auto simp: sweep_start_def)

text \<open>The result of a run: the intro turn, or the fold over the initial candidates.\<close>

lemma run_candidate_sweep_cases:
  assumes "run_candidate_sweep lev gd eg msgs hp_deltas initial groups = Inr out" "prepare_messages lev gd msgs initial groups = Inr ip"
  shows "out \<noteq> [] \<and> (\<exists>acc. sw_found acc = out \<and>
     (if \<exists>m \<in> set (ip_messages ip). mr_string_id m = ''STRINGID_INTROMSG'' then acc = foldl intro_step (sweep_start initial) initial
      else rfold (sweep_candidate lev gd eg ip hp_deltas) (sweep_start initial) initial = Inr acc))"
  using assms unfolding run_candidate_sweep_def by (auto simp: rbind_eq_Inr split: if_splits)

lemma intro_step_adds:
  "sweep_adds (\<lambda>rs acts parent. rs = ca_state c \<and> acts = [(P0, NoAct), (P1, NoAct)] \<and> parent = Some (ca_id c)) acc (intro_step acc c)"
proof (cases "ca_state c \<in> set (sw_seen acc)")
  case False
  from sweep_adds_add_candidate[OF this] False show ?thesis by (simp add: intro_step_def)
qed (auto simp: intro_step_def intro: sweep_adds_same)

lemma intro_fold_adds:
  "sweep_adds (\<lambda>rs acts parent. \<exists>c \<in> set cs. rs = ca_state c \<and> acts = [(P0, NoAct), (P1, NoAct)] \<and> parent = Some (ca_id c)) acc (foldl intro_step acc cs)"
proof -
  have "rfold (\<lambda>acc c. Inr (intro_step acc c)) acc cs = Inr (foldl intro_step acc cs)"
    by (induction cs arbitrary: acc) auto
  then show ?thesis by (rule sweep_adds_fold) (auto simp: intro_step_adds)
qed

section \<open>Properties\<close>

text \<open>
  C2: pruning by the bar never discards what happened. Take the HP values a Pokemon goes through in a multi-hit move, heals between hits included, and the
  readings they give: the true damages, when they are among the damages discovered for the hits, are one of the combinations that survive the pruning. This
  holds for the opponent's bar (every value shown by at least its pixels) and for the exact readings of the player's side.
\<close>

theorem pruning_keeps_truth:
  fixes m :: int and hs :: "int list"
  defines "bar_of \<equiv> \<lambda>h. hp_to_k h m"
  assumes "0 < m" and "\<forall>h \<in> set hs. 0 \<le> h \<and> h \<le> m \<and> visible_hp h m"
    and "list_all2 (\<lambda>d ds. d \<in> set ds) (true_damages bar_of hs) dss" and "list_all2 (\<lambda>d ds. d \<in> set ds) (true_damages id hs) dss'"
  shows "true_damages bar_of hs \<in> set (damage_combos (segment_hp_deltas_into_hits (neighbours (map bar_of hs))) True True m 0 dss [[]])
    \<and> true_damages id hs \<in> set (damage_combos (segment_hp_deltas_into_hits (neighbours (map id hs))) True False m 0 dss' [[]])"
proof (intro conjI)
  have "hit_passes_constraint (a - b) (bar_of a) (bar_of b) True m" if "a \<in> set hs" "b \<in> set hs" for a b
    unfolding bar_of_def using assms(2,3) that by (intro true_damage_passes) auto
  from segmented_truth_allowed[of hs bar_of True m, OF this] assms(4)
  show "true_damages bar_of hs \<in> set (damage_combos (segment_hp_deltas_into_hits (neighbours (map bar_of hs))) True True m 0 dss [[]])"
    unfolding damage_combos_set by (auto simp: list_all2_conv_all_nth)
  from segmented_truth_allowed[of hs id False m] assms(5) exact_damage_passes[of _ _ m]
  show "true_damages id hs \<in> set (damage_combos (segment_hp_deltas_into_hits (neighbours (map id hs))) True False m 0 dss' [[]])"
    unfolding damage_combos_set by (auto simp: list_all2_conv_all_nth)
qed

theorem pruning_keeps_truth_witness:
  "[20, 30] \<in> set (damage_combos (segment_hp_deltas_into_hits (neighbours (map (\<lambda>h. hp_to_k h 96) [90, 70, 80, 50]))) True True 96 0 [[19, 20], [29, 30]] [[]])"
proof -
  have "true_damages (\<lambda>h. hp_to_k h 96) [90, 70, 80, 50] = [20, 30]" "true_damages id [90, 70, 80, 50] = [20, 30]"
    "list_all (\<lambda>h. 0 \<le> h \<and> h \<le> 96 \<and> visible_hp h 96) [90, 70, 80, 50]" by code_simp+
  with pruning_keeps_truth[of 96 "[90, 70, 80, 50]" "[[19, 20], [29, 30]]" "[[20], [30]]"] show ?thesis by simp
qed

text \<open>
  C3: the rolls of a mover are enumerated exactly. A pair of rolls and crit thresholds is returned by \<open>_enumerate_mover_rolls\<close> just when the thresholds put exactly
  the observed number of crits on the hits and there are damages for the hits that agree with the readings, each of which the simulated trial
  does at its roll and at no lower one.
\<close>

theorem mover_rolls_exact:
  assumes "enumerate_mover_rolls gd eg t pc it n k side slot deltas max_hp ranged prune = Inr out"
  shows "(rolls, crits) \<in> set out \<longleftrightarrow>
    (length crits = n \<and> set crits \<subseteq> {0, 101} \<and> card {i. i < n \<and> crits ! i = 0} = k)
    \<and> (\<exists>ds. rolls_explain (trial_damage gd eg t pc it n side slot prune crits) n (segment_hp_deltas_into_hits deltas) prune ranged max_hp rolls ds)"
proof -
  let ?f = "mover_rolls_for gd eg t pc it n side slot deltas max_hp ranged prune"
  from assms obtain outs where outs: "rmap ?f (crit_assignments n k) = Inr outs" "out = concat outs"
    by (auto simp: enumerate_mover_rolls_def rbind_eq_Inr)
  have "(rolls, crits) \<in> set out \<longleftrightarrow> (\<exists>c \<in> set (crit_assignments n k). \<exists>o'. ?f c = Inr o' \<and> (rolls, crits) \<in> set o')"
    unfolding outs(2) set_concat UN_iff Bex_def rmap_mem_iff[OF outs(1)] by blast
  also have "\<dots> \<longleftrightarrow> crits \<in> set (crit_assignments n k) \<and>
      (\<exists>ds. rolls_explain (trial_damage gd eg t pc it n side slot prune crits) n (segment_hp_deltas_into_hits deltas) prune ranged max_hp rolls ds)"
    (is "?l \<longleftrightarrow> ?r")
  proof
    assume ?l
    then obtain c o' where c: "c \<in> set (crit_assignments n k)" "?f c = Inr o'" "(rolls, crits) \<in> set o'" by blast
    with mover_rolls_for_spec(1)[OF c(2), of "(rolls, crits)"] show ?r by auto
  next
    assume r: ?r
    with rmap_total[of ?f "crit_assignments n k"] outs(1) obtain o' where "?f crits = Inr o'" by blast
    with r mover_rolls_for_spec(1)[OF this, of "(rolls, crits)"] show ?l by auto
  qed
  finally show ?thesis unfolding crit_assignments_set by simp
qed

definition quiet_trial :: trial where
  "quiet_trial = \<lparr>tr_state = shedinja_battle, tr_action0 = One (move_action 0), tr_action1 = One (move_action 0), tr_movers = [(P0, 0)],
     tr_tie_winner = P0, tr_ovr_0 = [], tr_ovr_1 = [], tr_pre = [], tr_opp_switches = []\<rparr>"

definition no_partial :: partial_candidate where
  "no_partial = \<lparr>pc_rolls = [], pc_crits = [], pc_mover_iteration = 0\<rparr>"

lemma quiet_damage: "trial_damage sample_data idle_engine quiet_trial no_partial 0 1 P0 0 False [101] 0 idx = Inr (Some 0)"
proof -
  have "needs_replacement (side_of shedinja_battle P0) = Inr False" "needs_replacement (side_of shedinja_battle P1) = Inr False"
    "fainted_slots (side_of shedinja_battle P1) = Inr []"
    by code_simp+
  then show ?thesis
    by (simp add: trial_damage_def run_trial_def quiet_trial_def no_partial_def make_sweep_config_def mover_entry_def put_entries_def slots_to_overrides_def
        run_with_capture_def run_to_decision_boundary_def build_sweep_luck_def pre_inject_payload_def build_side_profile_def default_overrides_def
        apply_side_crits_def apply_side_rolls_def crit_threshold_of_def drive_turn_def run_one_turn_cpp_def encode_actions_def idle_engine_def
        catch_trial_def from_cpp_def attacker_per_hit_damages_def Let_def all_of_def of_event_def)
qed

lemma quiet_rolls: "enumerate_mover_rolls sample_data idle_engine quiet_trial no_partial 0 1 0 P0 0 [] 1 True False = Inr [([0], [101])]"
proof -
  have upt: "[0..<16] = 0 # [1..<16::nat]" by (simp add: upt_conv_Cons)
  have rest: "rfold (\<lambda>m roll_idx. Inr (if map_of m 0 = None then m @ [(0, roll_of roll_idx)] else m)) [(0::int, r)] xs = Inr [(0, r)]" for r xs
    by (induction xs) auto
  have "discover_hit (\<lambda>_. Inr (Some 0)) = Inr [(0, 0)]" unfolding discover_hit_def upt by (simp add: rest roll_of_def)
  moreover have "trial_damage sample_data idle_engine quiet_trial no_partial 0 (Suc 0) P0 0 False [101] 0 = (\<lambda>_. Inr (Some 0))"
    using quiet_damage by (intro ext) simp
  moreover have "crit_assignments (Suc 0) 0 = [[101]]" by (simp add: crit_assignments_def)
  ultimately show ?thesis
    by (simp add: enumerate_mover_rolls_def mover_rolls_for_def extend_partials_def rolls_of_combo_def dedup_first_def)
qed

theorem mover_rolls_exact_witness:
  "\<exists>ds. rolls_explain (trial_damage sample_data idle_engine quiet_trial no_partial 0 1 P0 0 False [101]) 1 [] False True 1 [0] ds"
  using mover_rolls_exact[OF quiet_rolls, of "[0]" "[101]"] by (simp add: segment_hp_deltas_into_hits_def)

text \<open>
  C1: the sweep returns exactly the states the observations allow. When \<open>run_candidate_sweep\<close> returns for a turn that is not the opening of the battle, it returns
  at least one candidate, no two with the same state, and its states are exactly those that some simulated turn leads to: a trial over the slot maps, the resolved actions, the
  switch-in branches and the combinations of an initial candidate, in the observed order of moves, whose HP, number of HP changes and log agree with the observations, with the
  observed level-ups applied. Every candidate names the actions of its trial and the initial candidate it comes from.
\<close>

theorem sweep_exact:
  assumes "run_candidate_sweep lev gd eg msgs hp_deltas initial groups = Inr out"
    and "prepare_messages lev gd msgs initial groups = Inr ip" and "\<forall>m \<in> set (ip_messages ip). mr_string_id m \<noteq> ''STRINGID_INTROMSG''"
  shows "out \<noteq> [] \<and> distinct (map ca_state out)
    \<and> (\<forall>rs. rs \<in> ca_state ` set out \<longleftrightarrow> (\<exists>c \<in> set initial. \<exists>acts parent. sweep_outcome lev gd eg ip hp_deltas c rs acts parent))
    \<and> (\<forall>x \<in> set out. \<exists>c \<in> set initial. sweep_outcome lev gd eg ip hp_deltas c (ca_state x) (ca_unknown_actions x) (ca_parent x))"
proof -
  from run_candidate_sweep_cases[OF assms(1,2)] assms(3) obtain acc where out: "out \<noteq> []" "sw_found acc = out"
    and run: "rfold (sweep_candidate lev gd eg ip hp_deltas) (sweep_start initial) initial = Inr acc" by auto
  note adds = sweep_run_adds[OF run]
  have ok: "acc_ok acc" using adds sweep_start_ok[of initial] unfolding sweep_adds_def by blast
  have "set (sw_seen acc) = {rs. \<exists>acts parent. \<exists>c \<in> set initial. sweep_outcome lev gd eg ip hp_deltas c rs acts parent}"
    using adds sweep_start_ok[of initial] unfolding sweep_adds_def by simp
  moreover have "\<exists>c \<in> set initial. sweep_outcome lev gd eg ip hp_deltas c (ca_state x) (ca_unknown_actions x) (ca_parent x)" if "x \<in> set out" for x
    using adds sweep_start_ok[of initial] that out(2) unfolding sweep_adds_def by auto
  ultimately show ?thesis using ok out unfolding acc_ok_def by auto
qed

definition quiet_candidate :: candidate where
  "quiet_candidate = (sample_candidate 3 None)\<lparr>ca_state := shedinja_battle\<rparr>"

lemma quiet_sweep:
  obtains out where "run_candidate_sweep levenshtein sample_data idle_engine [] [] [quiet_candidate] None = Inr out"
proof -
  have "isl (run_candidate_sweep levenshtein sample_data idle_engine [] [] [quiet_candidate] None) = False"
    by code_simp
  then show ?thesis by (cases "run_candidate_sweep levenshtein sample_data idle_engine [] [] [quiet_candidate] None") (auto intro: that)
qed

lemma quiet_input: "prepare_messages levenshtein sample_data [] [quiet_candidate] None = Inr \<lparr>ip_messages = [], ip_groups = None, ip_flat = []\<rparr>"
  by (simp add: prepare_messages_def sweep_build_flat_messages_def)

theorem sweep_exact_witness:
  "\<exists>out. run_candidate_sweep levenshtein sample_data idle_engine [] [] [quiet_candidate] None = Inr out \<and> out \<noteq> [] \<and> distinct (map ca_state out)"
proof -
  obtain out where out: "run_candidate_sweep levenshtein sample_data idle_engine [] [] [quiet_candidate] None = Inr out" by (rule quiet_sweep)
  from sweep_exact[OF out quiet_input] out show ?thesis by auto
qed

text \<open>
  C21: the lineage of the candidates. Whatever the turn, the candidates that \<open>run_candidate_sweep\<close> returns have distinct states and distinct identities that none of the initial
  candidates has, and the parent of each is one of the initial candidates; on the opening turn the states are exactly those of the initial candidates.
\<close>

theorem sweep_lineage:
  assumes "run_candidate_sweep lev gd eg msgs hp_deltas initial groups = Inr out"
    and "prepare_messages lev gd msgs initial groups = Inr ip"
  shows "distinct (map ca_state out) \<and> distinct (map ca_id out) \<and> ca_id ` set out \<inter> ca_id ` set initial = {}
    \<and> (\<forall>x \<in> set out. \<exists>c \<in> set initial. ca_parent x = Some (ca_id c))
    \<and> ((\<exists>m \<in> set (ip_messages ip). mr_string_id m = ''STRINGID_INTROMSG'') \<longrightarrow> ca_state ` set out = ca_state ` set initial)"
proof -
  let ?intro = "\<exists>m \<in> set (ip_messages ip). mr_string_id m = ''STRINGID_INTROMSG''"
  from run_candidate_sweep_cases[OF assms] obtain acc where out: "sw_found acc = out"
    and run: "if ?intro then acc = foldl intro_step (sweep_start initial) initial
      else rfold (sweep_candidate lev gd eg ip hp_deltas) (sweep_start initial) initial = Inr acc" by blast
  have par: "\<exists>c \<in> set initial. parent = Some (ca_id c)" if "\<exists>c \<in> set initial. sweep_outcome lev gd eg ip hp_deltas c rs acts parent" for rs acts parent
    using that by (auto simp: sweep_outcome_def survivor_accounts_def)
  obtain E where adds: "sweep_adds E (sweep_start initial) acc" and E: "\<And>rs acts parent. E rs acts parent \<Longrightarrow> \<exists>c \<in> set initial. parent = Some (ca_id c)"
    and intro: "?intro \<Longrightarrow> {rs. \<exists>acts parent. E rs acts parent} = ca_state ` set initial"
  proof (cases ?intro)
    case True
    with run have "acc = foldl intro_step (sweep_start initial) initial" by simp
    with that[OF intro_fold_adds[of initial "sweep_start initial", folded this]] show ?thesis by auto
  next
    case False
    with run have "rfold (sweep_candidate lev gd eg ip hp_deltas) (sweep_start initial) initial = Inr acc" by simp
    from that[OF sweep_run_adds[OF this]] par False show ?thesis by blast
  qed
  from adds sweep_start_ok[of initial] have ok: "acc_ok acc" unfolding sweep_adds_def by blast
  have seen: "ca_state ` set out = {rs. \<exists>acts parent. E rs acts parent}"
    using adds sweep_start_ok[of initial] ok out unfolding sweep_adds_def acc_ok_def by auto
  have new: "E (ca_state x) (ca_unknown_actions x) (ca_parent x) \<and> sw_next (sweep_start initial) \<le> ca_id x" if "x \<in> set out" for x
    using adds sweep_start_ok[of initial] that out unfolding sweep_adds_def by auto
  have "ca_id ` set out \<inter> ca_id ` set initial = {}"
    using new sweep_start_fresh[of _ initial] by (fastforce simp: disjoint_iff)
  moreover have "\<exists>c \<in> set initial. ca_parent x = Some (ca_id c)" if "x \<in> set out" for x
    using new[OF that] E by blast
  ultimately show ?thesis using ok out seen intro unfolding acc_ok_def by auto
qed

theorem sweep_lineage_witness:
  "\<exists>out. run_candidate_sweep levenshtein sample_data idle_engine [] [] [quiet_candidate] None = Inr out \<and> (\<forall>x \<in> set out. ca_parent x = Some 3)"
proof -
  obtain out where out: "run_candidate_sweep levenshtein sample_data idle_engine [] [] [quiet_candidate] None = Inr out" by (rule quiet_sweep)
  from sweep_lineage[OF out quiet_input] out show ?thesis by (auto simp: quiet_candidate_def sample_candidate_def)
qed

end
