(* ===== verification/Recorder.thy ===== *)
theory Recorder
  imports SweepRun "HOL-Library.Multiset" "HOL-Library.Char_ord" "HOL-Library.List_Lexorder"
begin

text \<open>
  The flight recorder of the sweep (\<open>sweep_recorder.py\<close>): the session directory with one input and one output or
  error file per boundary, the seam that records a run of the sweep, the loader of a session, the comparison of battle
  states and the replay of a recorded boundary. A file is the data it holds, keyed by the index in its name; writing
  and reading it back keeps every field and gives the objects fresh identities, the parent links being dropped. Of a
  recorded error only the type is kept (its message and its traceback are texts that nothing reads). Of a divergence
  the place is kept, not the two printed values.
\<close>

section \<open>The session directory\<close>

text \<open>The state of a recorder and the files of its directory; \<open>rc_legacy\<close> tells that an input file of the old pickle format is there.\<close>

record boundary_input =
  bi_messages :: "match_result list"
  bi_hp_deltas :: "hp_delta_seq list"
  bi_candidates :: "candidate list"
  bi_groups :: "action_group list option"

record recorder =
  rc_next :: nat
  rc_inputs :: "(nat \<times> boundary_input) list"
  rc_outputs :: "(nat \<times> candidate list) list"
  rc_errors :: "(nat \<times> string) list"
  rc_legacy :: bool

definition create_recorder :: recorder where
  "create_recorder = \<lparr>rc_next = 0, rc_inputs = [], rc_outputs = [], rc_errors = [], rc_legacy = False\<rparr>"

definition strip_parent :: "candidate \<Rightarrow> candidate" where
  "strip_parent c = c\<lparr>ca_parent := None\<rparr>"

text \<open>\<open>type(exc).__name__\<close>.\<close>

fun exn_type :: "exn \<Rightarrow> string" where
  "exn_type IndexError = ''IndexError''"
| "exn_type KeyError = ''KeyError''"
| "exn_type ValueError = ''ValueError''"
| "exn_type TypeError = ''TypeError''"
| "exn_type AttributeError = ''AttributeError''"
| "exn_type AssertionError = ''AssertionError''"
| "exn_type UnboundLocalError = ''UnboundLocalError''"
| "exn_type ZeroDivisionError = ''ZeroDivisionError''"
| "exn_type RuntimeError = ''RuntimeError''"
| "exn_type (EngineRuntimeError s) = ''RuntimeError''"
| "exn_type UnportedTurn = ''UnportedTurn''"
| "exn_type SideHintMissingError = ''SideHintMissingError''"
| "exn_type SideHintContradictionError = ''SideHintContradictionError''"
| "exn_type RosterAmbiguityError = ''RosterAmbiguityError''"
| "exn_type ActorNotActiveError = ''ActorNotActiveError''"
| "exn_type UninjectedRNGError = ''UninjectedRNGError''"
| "exn_type UnexpectedOpponentActionError = ''UnexpectedOpponentActionError''"
| "exn_type UnreproducibleObservedMoveError = ''UnreproducibleObservedMoveError''"
| "exn_type PostFaintMovePhaseError = ''PostFaintMovePhaseError''"
| "exn_type (SimulationError r) = ''SimulationError''"

definition record_input :: "recorder \<Rightarrow> boundary_input \<Rightarrow> recorder \<times> nat" where
  "record_input r b =
     (let idx = rc_next r in
      (r\<lparr>rc_next := Suc idx,
         rc_inputs := AList.update idx (b\<lparr>bi_candidates := map strip_parent (bi_candidates b)\<rparr>) (rc_inputs r)\<rparr>, idx))"

definition record_output :: "nat \<Rightarrow> candidate list \<Rightarrow> recorder \<Rightarrow> recorder" where
  "record_output idx survivors r = r\<lparr>rc_outputs := AList.update idx (map strip_parent survivors) (rc_outputs r)\<rparr>"

definition record_failure :: "nat \<Rightarrow> exn \<Rightarrow> recorder \<Rightarrow> recorder" where
  "record_failure idx e r = r\<lparr>rc_errors := AList.update idx (exn_type e) (rc_errors r)\<rparr>"

definition sweep_boundary :: "distance \<Rightarrow> game_data \<Rightarrow> engine \<Rightarrow> boundary_input \<Rightarrow> candidate list res" where
  "sweep_boundary lev gd eg b = run_candidate_sweep lev gd eg (bi_messages b) (bi_hp_deltas b) (bi_candidates b) (bi_groups b)"

definition record_and_run :: "distance \<Rightarrow> game_data \<Rightarrow> engine \<Rightarrow> recorder \<Rightarrow> boundary_input \<Rightarrow> recorder \<times> candidate list res" where
  "record_and_run lev gd eg r b =
     (let (r', idx) = record_input r b in
      case sweep_boundary lev gd eg b of
        Inl e \<Rightarrow> (record_failure idx e r', Inl e)
      | Inr survivors \<Rightarrow> (record_output idx survivors r', Inr survivors))"

section \<open>Loading a session\<close>

text \<open>\<open>f"{idx:04d}"\<close>, and the name of an input file; the loader sorts the names as strings.\<close>

fun decimal :: "nat \<Rightarrow> string" where
  "decimal n = (if n < 10 then [char_of (48 + n)] else decimal (n div 10) @ [char_of (48 + n mod 10)])"

declare decimal.simps [simp del]

definition padded :: "nat \<Rightarrow> string" where
  "padded n = replicate (4 - length (decimal n)) (CHR ''0'') @ decimal n"

definition input_name :: "nat \<Rightarrow> string" where
  "input_name idx = ''boundary_'' @ padded idx @ ''.input.json''"

text \<open>Decoding makes new objects: an identity is the position of the object in the file.\<close>

definition renumber_messages :: "nat \<Rightarrow> match_result list \<Rightarrow> match_result list" where
  "renumber_messages k ms = map2 (\<lambda>i m. m\<lparr>mr_oid := i\<rparr>) [k..<k + length ms] ms"

definition renumber_candidates :: "candidate list \<Rightarrow> candidate list" where
  "renumber_candidates cs = map2 (\<lambda>i c. c\<lparr>ca_id := i\<rparr>) [0..<length cs] cs"

fun renumber_groups :: "nat \<Rightarrow> action_group list \<Rightarrow> action_group list" where
  "renumber_groups k [] = []"
| "renumber_groups k (g # gs) =
     g\<lparr>ag_primary := (ag_primary g)\<lparr>mr_oid := k\<rparr>, ag_secondaries := renumber_messages (Suc k) (ag_secondaries g)\<rparr>
     # renumber_groups (Suc k + length (ag_secondaries g)) gs"

definition decode_input :: "boundary_input \<Rightarrow> boundary_input" where
  "decode_input b = b\<lparr>bi_messages := renumber_messages 0 (bi_messages b), bi_candidates := renumber_candidates (bi_candidates b),
     bi_groups := map_option (renumber_groups (length (bi_messages b))) (bi_groups b)\<rparr>"

record boundary_record =
  br_index :: nat
  br_inputs :: boundary_input
  br_survivors :: "candidate list option"
  br_error :: "string option"

definition load_boundary :: "recorder \<Rightarrow> nat \<times> boundary_input \<Rightarrow> boundary_record" where
  "load_boundary r x =
     (let out = map_option renumber_candidates (map_of (rc_outputs r) (fst x)) in
      \<lparr>br_index = fst x, br_inputs = decode_input (snd x), br_survivors = out,
       br_error = (if out = None then map_of (rc_errors r) (fst x) else None)\<rparr>)"

definition load_session :: "recorder \<Rightarrow> boundary_record list res" where
  "load_session r =
     (if rc_legacy r then Inl ValueError
      else Inr (map (load_boundary r) (sort_key (\<lambda>x. input_name (fst x)) (rc_inputs r))))"

section \<open>Comparing battle states\<close>

datatype divergence = SideField sid string | TeamLength sid nat | MonField sid nat string

definition SIDE_FIELDS :: "(string \<times> (side_state \<Rightarrow> side_state \<Rightarrow> bool)) list" where
  "SIDE_FIELDS = [
    (''active_indices'', \<lambda>a b. sd_active_indices a = sd_active_indices b),
    (''side_conditions'', \<lambda>a b. sd_side_conditions a = sd_side_conditions b),
    (''mega_used'', \<lambda>a b. sd_mega_used a = sd_mega_used b),
    (''baton_pass_data'', \<lambda>a b. sd_baton_pass_data a = sd_baton_pass_data b),
    (''ally_fainted_last_turn'', \<lambda>a b. sd_ally_fainted_last_turn a = sd_ally_fainted_last_turn b),
    (''wish_pending'', \<lambda>a b. sd_wish_pending a = sd_wish_pending b),
    (''future_sight_pending'', \<lambda>a b. sd_future_sight_pending a = sd_future_sight_pending b),
    (''imprisoned_moves'', \<lambda>a b. sd_imprisoned_moves a = sd_imprisoned_moves b),
    (''redirect_target'', \<lambda>a b. sd_redirect_target a = sd_redirect_target b),
    (''redirect_is_rage_powder'', \<lambda>a b. sd_redirect_is_rage_powder a = sd_redirect_is_rage_powder b)]"

definition MON_SCALAR_FIELDS :: "(string \<times> (pokemon_state \<Rightarrow> pokemon_state \<Rightarrow> bool)) list" where
  "MON_SCALAR_FIELDS = [
    (''species'', \<lambda>a b. pk_species a = pk_species b),
    (''nature'', \<lambda>a b. pk_nature a = pk_nature b),
    (''ivs'', \<lambda>a b. pk_ivs a = pk_ivs b),
    (''gender'', \<lambda>a b. pk_gender a = pk_gender b),
    (''level'', \<lambda>a b. pk_level a = pk_level b),
    (''exp'', \<lambda>a b. pk_exp a = pk_exp b),
    (''ability'', \<lambda>a b. pk_ability a = pk_ability b),
    (''item'', \<lambda>a b. pk_item a = pk_item b),
    (''status'', \<lambda>a b. pk_status a = pk_status b),
    (''move_ids'', \<lambda>a b. pk_move_ids a = pk_move_ids b),
    (''move_pp'', \<lambda>a b. pk_move_pp a = pk_move_pp b),
    (''stats'', \<lambda>a b. pk_stats a = pk_stats b),
    (''max_hp'', \<lambda>a b. pk_max_hp a = pk_max_hp b),
    (''hp'', \<lambda>a b. pk_hp a = pk_hp b),
    (''types'', \<lambda>a b. pk_types a = pk_types b),
    (''stat_stages'', \<lambda>a b. pk_stat_stages a = pk_stat_stages b),
    (''volatiles'', \<lambda>a b. pk_volatiles a = pk_volatiles b),
    (''turns_in_battle'', \<lambda>a b. pk_turns_in_battle a = pk_turns_in_battle b),
    (''toxic_turns'', \<lambda>a b. pk_toxic_turns a = pk_toxic_turns b),
    (''sleep_turns'', \<lambda>a b. pk_sleep_turns a = pk_sleep_turns b),
    (''confusion_turns'', \<lambda>a b. pk_confusion_turns a = pk_confusion_turns b),
    (''is_rest_sleep'', \<lambda>a b. pk_is_rest_sleep a = pk_is_rest_sleep b),
    (''locked_slot'', \<lambda>a b. pk_locked_slot a = pk_locked_slot b),
    (''charging_move_slot'', \<lambda>a b. pk_charging_move_slot a = pk_charging_move_slot b),
    (''sub_hp'', \<lambda>a b. pk_sub_hp a = pk_sub_hp b),
    (''last_used_slot'', \<lambda>a b. pk_last_used_slot a = pk_last_used_slot b),
    (''fainted'', \<lambda>a b. pk_fainted a = pk_fainted b),
    (''has_acted'', \<lambda>a b. pk_has_acted a = pk_has_acted b),
    (''crit_stage'', \<lambda>a b. pk_crit_stage a = pk_crit_stage b),
    (''metronome_count'', \<lambda>a b. pk_metronome_count a = pk_metronome_count b),
    (''metronome_last_move'', \<lambda>a b. pk_metronome_last_move a = pk_metronome_last_move b),
    (''mirror_move_last_move'', \<lambda>a b. pk_mirror_move_last_move a = pk_mirror_move_last_move b),
    (''consumed_berry'', \<lambda>a b. pk_consumed_berry a = pk_consumed_berry b),
    (''took_damage_this_turn'', \<lambda>a b. pk_took_damage_this_turn a = pk_took_damage_this_turn b),
    (''had_stat_lowered_this_turn'', \<lambda>a b. pk_had_stat_lowered_this_turn a = pk_had_stat_lowered_this_turn b),
    (''had_stat_raised_this_turn'', \<lambda>a b. pk_had_stat_raised_this_turn a = pk_had_stat_raised_this_turn b),
    (''last_move_failed'', \<lambda>a b. pk_last_move_failed a = pk_last_move_failed b),
    (''last_physical_damage_taken'', \<lambda>a b. pk_last_physical_damage_taken a = pk_last_physical_damage_taken b),
    (''last_special_damage_taken'', \<lambda>a b. pk_last_special_damage_taken a = pk_last_special_damage_taken b),
    (''last_damage_taken'', \<lambda>a b. pk_last_damage_taken a = pk_last_damage_taken b),
    (''sucker_punch_last_turn'', \<lambda>a b. pk_sucker_punch_last_turn a = pk_sucker_punch_last_turn b),
    (''base_ability'', \<lambda>a b. pk_base_ability a = pk_base_ability b),
    (''saved_ability'', \<lambda>a b. pk_saved_ability a = pk_saved_ability b),
    (''is_mega'', \<lambda>a b. pk_is_mega a = pk_is_mega b),
    (''moves_used'', \<lambda>a b. pk_moves_used a = pk_moves_used b),
    (''rollout_hits'', \<lambda>a b. pk_rollout_hits a = pk_rollout_hits b),
    (''defense_curl_used'', \<lambda>a b. pk_defense_curl_used a = pk_defense_curl_used b),
    (''weight_kg_reduced'', \<lambda>a b. pk_weight_kg_reduced a = pk_weight_kg_reduced b),
    (''protect_counter'', \<lambda>a b. pk_protect_counter a = pk_protect_counter b),
    (''stockpile_count'', \<lambda>a b. pk_stockpile_count a = pk_stockpile_count b),
    (''stockpile_def_boost'', \<lambda>a b. pk_stockpile_def_boost a = pk_stockpile_def_boost b),
    (''stockpile_spd_boost'', \<lambda>a b. pk_stockpile_spd_boost a = pk_stockpile_spd_boost b)]"

definition field_diffs :: "(string \<Rightarrow> divergence) \<Rightarrow> (string \<times> ('a \<Rightarrow> 'a \<Rightarrow> bool)) list \<Rightarrow> 'a \<Rightarrow> 'a \<Rightarrow> divergence list" where
  "field_diffs mk fs a b = map (\<lambda>f. mk (fst f)) (filter (\<lambda>f. \<not> snd f a b) fs)"

definition diff_mons :: "sid \<Rightarrow> nat \<Rightarrow> pokemon_state \<Rightarrow> pokemon_state \<Rightarrow> divergence list" where
  "diff_mons s i a b = field_diffs (MonField s i) MON_SCALAR_FIELDS a b @
     (if pk_timed_volatiles a \<noteq> pk_timed_volatiles b then [MonField s i ''timed_volatiles''] else [])"

definition diff_slot :: "sid \<Rightarrow> side_state \<Rightarrow> side_state \<Rightarrow> nat \<Rightarrow> divergence list" where
  "diff_slot s a b i =
     (if i \<ge> length (sd_team a) \<or> i \<ge> length (sd_team b) then [TeamLength s i]
      else diff_mons s i (sd_team a ! i) (sd_team b ! i))"

definition diff_sides :: "sid \<Rightarrow> side_state \<Rightarrow> side_state \<Rightarrow> divergence list" where
  "diff_sides s a b = field_diffs (SideField s) SIDE_FIELDS a b @
     concat (map (diff_slot s a b) [0..<max (length (sd_team a)) (length (sd_team b))])"

definition diff_battle_states :: "battle_state \<Rightarrow> battle_state \<Rightarrow> divergence list" where
  "diff_battle_states a b =
     diff_sides P0 (fst (bs_sides a)) (fst (bs_sides b)) @ diff_sides P1 (snd (bs_sides a)) (snd (bs_sides b))"

section \<open>Replaying a boundary\<close>

text \<open>\<open>a == b\<close> on dictionaries and on candidates: the parent and the identity do not count.\<close>

definition dict_eq :: "('k \<times> 'v) list \<Rightarrow> ('k \<times> 'v) list \<Rightarrow> bool" where
  "dict_eq a b \<longleftrightarrow> (\<forall>k \<in> set (map fst a) \<union> set (map fst b). map_of a k = map_of b k)"

definition candidate_eq :: "candidate \<Rightarrow> candidate \<Rightarrow> bool" where
  "candidate_eq a b \<longleftrightarrow> ca_state a = ca_state b \<and> ca_rng_sequence a = ca_rng_sequence b \<and> dict_eq (ca_unknown_actions a) (ca_unknown_actions b)"

text \<open>The candidate with the fewest divergences, the first of several; \<open>NoReplayed\<close> when there is none.\<close>

datatype replay_note = NoReplayed | Diverges divergence | ReplaySucceeded string nat | ReplayRaised string string | UnexpectedError string

definition nearest_diff :: "candidate \<Rightarrow> candidate list \<Rightarrow> replay_note list" where
  "nearest_diff c pool =
     (if pool = [] then [NoReplayed]
      else map Diverges (diff_battle_states (ca_state c)
             (ca_state (arg_min_list (\<lambda>r. length (diff_battle_states (ca_state c) (ca_state r))) pool))))"

text \<open>\<open>pop\<close> of the first element that matches.\<close>

fun pop_match :: "('a \<Rightarrow> bool) \<Rightarrow> 'a list \<Rightarrow> 'a list option" where
  "pop_match p [] = None"
| "pop_match p (x # xs) = (if p x then Some xs else map_option (Cons x) (pop_match p xs))"

definition match_step :: "('a \<Rightarrow> 'a \<Rightarrow> bool) \<Rightarrow> 'a list \<times> 'a list \<Rightarrow> 'a \<Rightarrow> 'a list \<times> 'a list" where
  "match_step eq acc c = (case pop_match (eq c) (snd acc) of None \<Rightarrow> (fst acc @ [c], snd acc) | Some rest \<Rightarrow> (fst acc, rest))"

record replay_result =
  rr_passed :: bool
  rr_recorded :: nat
  rr_replayed :: nat
  rr_unmatched_recorded :: "candidate list"
  rr_unmatched_replayed :: "candidate list"
  rr_diffs :: "replay_note list"

definition replay_verdict :: "bool \<Rightarrow> nat \<Rightarrow> nat \<Rightarrow> replay_note list \<Rightarrow> replay_result" where
  "replay_verdict ok recorded replayed ns = \<lparr>rr_passed = ok, rr_recorded = recorded, rr_replayed = replayed,
     rr_unmatched_recorded = [], rr_unmatched_replayed = [], rr_diffs = ns\<rparr>"

definition compare_survivors :: "candidate list \<Rightarrow> candidate list \<Rightarrow> replay_result" where
  "compare_survivors recorded replayed =
     (let (unmatched, remaining) = foldl (match_step candidate_eq) ([], replayed) recorded in
      \<lparr>rr_passed = (unmatched = [] \<and> remaining = []), rr_recorded = length recorded, rr_replayed = length replayed,
       rr_unmatched_recorded = unmatched, rr_unmatched_replayed = remaining,
       rr_diffs = concat (map (\<lambda>c. nearest_diff c replayed) unmatched)\<rparr>)"

text \<open>\<open>except (SimulationError, UninjectedRNGError)\<close>.\<close>

fun replay_catches :: "exn \<Rightarrow> bool" where
  "replay_catches (SimulationError r) = True"
| "replay_catches UninjectedRNGError = True"
| "replay_catches e = False"

definition error_verdict :: "string \<Rightarrow> string option \<Rightarrow> nat \<Rightarrow> replay_result" where
  "error_verdict recorded replayed n =
     (if replayed = Some recorded then replay_verdict True 0 n []
      else replay_verdict False 0 n (case replayed of None \<Rightarrow> [ReplaySucceeded recorded n] | Some t \<Rightarrow> [ReplayRaised recorded t]))"

definition replay_boundary :: "distance \<Rightarrow> game_data \<Rightarrow> engine \<Rightarrow> boundary_record \<Rightarrow> replay_result res" where
  "replay_boundary lev gd eg r =
     (case sweep_boundary lev gd eg (br_inputs r) of
        Inl e \<Rightarrow> if \<not> replay_catches e then Inl e
          else Inr (case br_error r of
              Some t \<Rightarrow> error_verdict t (Some (exn_type e)) 0
            | None \<Rightarrow> replay_verdict False (length (case br_survivors r of None \<Rightarrow> [] | Some cs \<Rightarrow> cs)) 0 [UnexpectedError (exn_type e)])
      | Inr replayed \<Rightarrow> Inr (case br_error r of
              Some t \<Rightarrow> error_verdict t None (length replayed)
            | None \<Rightarrow> compare_survivors (case br_survivors r of None \<Rightarrow> [] | Some cs \<Rightarrow> cs) replayed))"


section \<open>Matching up to an equality\<close>

text \<open>An equality test that compares one key of its arguments, as the equality of a dataclass does.\<close>

locale key_equality =
  fixes eq :: "'a \<Rightarrow> 'a \<Rightarrow> bool" and key :: "'a \<Rightarrow> 'k"
  assumes eq_key: "eq a b \<longleftrightarrow> key a = key b"
begin

definition keys :: "'a list \<Rightarrow> 'k multiset" where
  "keys xs = image_mset key (mset xs)"

lemma keys_simps [simp]: "keys [] = {#}" "keys (x # xs) = add_mset (key x) (keys xs)" "keys (xs @ ys) = keys xs + keys ys"
  by (simp_all add: keys_def)

lemma keys_empty [simp]: "keys xs = {#} \<longleftrightarrow> xs = []"
  by (simp add: keys_def)

lemma pop_match_keys:
  "(case pop_match (eq c) xs of None \<Rightarrow> key c \<notin># keys xs | Some ys \<Rightarrow> keys xs = add_mset (key c) (keys ys))"
  by (induction xs) (auto simp: eq_key split: option.splits)

text \<open>What stays unmatched on each side is the difference of the two multisets.\<close>

lemma match_all:
  "foldl (match_step eq) (unmatched, remaining) cs = (u, r) \<Longrightarrow>
     keys u = keys unmatched + (keys cs - keys remaining) \<and> keys r = keys remaining - keys cs"
proof (induction cs arbitrary: unmatched remaining)
  case (Cons c cs)
  show ?case
  proof (cases "pop_match (eq c) remaining")
    case None
    with pop_match_keys[of c remaining] have new: "key c \<notin># keys remaining" by simp
    from None have "match_step eq (unmatched, remaining) c = (unmatched @ [c], remaining)" by (simp add: match_step_def)
    with Cons.prems have "foldl (match_step eq) (unmatched @ [c], remaining) cs = (u, r)" by simp
    from Cons.IH[OF this] new show ?thesis by (simp add: diff_add_mset_swap add_mset_remove_trivial_If)
  next
    case (Some rest)
    with pop_match_keys[of c remaining] have old: "keys remaining = add_mset (key c) (keys rest)" by simp
    from Some have "match_step eq (unmatched, remaining) c = (unmatched, rest)" by (simp add: match_step_def)
    with Cons.prems have "foldl (match_step eq) (unmatched, rest) cs = (u, r)" by simp
    from Cons.IH[OF this] old show ?thesis by simp
  qed
qed simp

lemma matched_iff:
  assumes "foldl (match_step eq) ([], remaining) cs = (u, r)"
  shows "u = [] \<and> r = [] \<longleftrightarrow> keys cs = keys remaining"
proof -
  from match_all[OF assms] have "keys u = keys cs - keys remaining" "keys r = keys remaining - keys cs" by simp_all
  then have "u = [] \<and> r = [] \<longleftrightarrow> keys cs - keys remaining = {#} \<and> keys remaining - keys cs = {#}"
    using keys_empty[of u] keys_empty[of r] by simp
  also have "\<dots> \<longleftrightarrow> keys cs \<subseteq># keys remaining \<and> keys remaining \<subseteq># keys cs"
    by (simp only: Diff_eq_empty_iff_mset)
  also have "\<dots> \<longleftrightarrow> keys cs = keys remaining" by (auto intro: subset_mset.antisym)
  finally show ?thesis .
qed

end

definition candidate_key :: "candidate \<Rightarrow> battle_state \<times> (rng_event \<times> rng_value) list \<times> (sid \<Rightarrow> side_action option)" where
  "candidate_key c = (ca_state c, ca_rng_sequence c, map_of (ca_unknown_actions c))"

lemma dict_eq_map_of: "dict_eq a b \<longleftrightarrow> map_of a = map_of b"
proof
  assume "dict_eq a b"
  then have eq: "map_of a k = map_of b k" if "k \<in> fst ` set a \<union> fst ` set b" for k using that by (simp add: dict_eq_def)
  show "map_of a = map_of b"
  proof
    fix k
    show "map_of a k = map_of b k"
    proof (cases "k \<in> fst ` set a \<union> fst ` set b")
      case False
      then have "map_of a k = None" "map_of b k = None" by (simp_all add: map_of_eq_None_iff)
      then show ?thesis by simp
    qed (rule eq)
  qed
qed (simp add: dict_eq_def)

interpretation cand: key_equality candidate_eq candidate_key
  by unfold_locales (auto simp: candidate_eq_def candidate_key_def dict_eq_map_of)

text \<open>
  C27: Replaying a boundary. The replay raises exactly when the sweep raises something other than a \<open>SimulationError\<close> or
  an \<open>UninjectedRNGError\<close>, and it raises the same exception. Otherwise a boundary recorded as an error passes exactly
  when the sweep raises an exception of the recorded type, and a boundary recorded with survivors passes exactly when
  the sweep succeeds and the two lists of survivors are equal as multisets of candidates, compared by state, random
  history and actions, whatever their order, identities and parents.
\<close>

theorem replay_passes_iff:
  "map_sum id rr_passed (replay_boundary lev gd eg r) =
     (case sweep_boundary lev gd eg (br_inputs r) of
        Inl e \<Rightarrow> if replay_catches e then Inr (br_error r = Some (exn_type e)) else Inl e
      | Inr out \<Rightarrow> Inr (br_error r = None \<and>
          image_mset candidate_key (mset (case br_survivors r of None \<Rightarrow> [] | Some cs \<Rightarrow> cs)) = image_mset candidate_key (mset out)))"
proof -
  have "rr_passed (compare_survivors cs out) \<longleftrightarrow> image_mset candidate_key (mset cs) = image_mset candidate_key (mset out)" for cs out
  proof -
    obtain u w where f: "foldl (match_step candidate_eq) ([], out) cs = (u, w)" by fastforce
    from cand.matched_iff[OF f] f show ?thesis by (simp add: compare_survivors_def cand.keys_def)
  qed
  then show ?thesis
    by (simp add: replay_boundary_def error_verdict_def replay_verdict_def split: sum.splits option.splits)
qed

section \<open>What the comparison of states sees\<close>

lemma field_diffs_empty [simp]: "field_diffs mk fs a b = [] \<longleftrightarrow> (\<forall>f \<in> set fs. snd f a b)"
  by (auto simp: field_diffs_def filter_empty_conv)

lemma diff_mons_empty: "diff_mons s i a b = [] \<longleftrightarrow> a = b"
proof
  assume none: "diff_mons s i a b = []"
  then have "\<forall>f \<in> set MON_SCALAR_FIELDS. snd f a b" "pk_timed_volatiles a = pk_timed_volatiles b"
    by (simp_all add: diff_mons_def split: if_splits)
  then show "a = b" by (cases a; cases b) (simp add: MON_SCALAR_FIELDS_def)
qed (simp add: diff_mons_def MON_SCALAR_FIELDS_def)

lemma diff_sides_empty: "diff_sides s a b = [] \<longleftrightarrow> a = b\<lparr>sd_format := sd_format a\<rparr>"
proof -
  have team: "(\<forall>i < max (length (sd_team a)) (length (sd_team b)). diff_slot s a b i = []) \<longleftrightarrow> sd_team a = sd_team b"
    (is "?slots \<longleftrightarrow> _")
  proof
    assume slots: ?slots
    have "length (sd_team a) = length (sd_team b)"
    proof (rule ccontr)
      assume "length (sd_team a) \<noteq> length (sd_team b)"
      then consider "length (sd_team a) < length (sd_team b)" | "length (sd_team b) < length (sd_team a)" by linarith
      then show False
        by cases (use slots[rule_format, of "length (sd_team a)"] slots[rule_format, of "length (sd_team b)"] in \<open>simp_all add: diff_slot_def\<close>)
    qed
    moreover have "sd_team a ! i = sd_team b ! i" if "i < length (sd_team a)" "i < length (sd_team b)" for i
      using slots[rule_format, of i] that by (simp add: diff_slot_def diff_mons_empty)
    ultimately show "sd_team a = sd_team b" by (simp add: list_eq_iff_nth_eq)
  qed (simp add: diff_slot_def diff_mons_empty)
  have fields: "(\<forall>f \<in> set SIDE_FIELDS. snd f a b) \<longleftrightarrow> a\<lparr>sd_team := []\<rparr> = b\<lparr>sd_team := [], sd_format := sd_format a\<rparr>"
    by (cases a; cases b) (simp add: SIDE_FIELDS_def)
  have "diff_sides s a b = [] \<longleftrightarrow> (\<forall>f \<in> set SIDE_FIELDS. snd f a b) \<and> sd_team a = sd_team b"
    unfolding diff_sides_def append_is_Nil_conv field_diffs_empty team[symmetric] concat_eq_Nil_conv by auto
  then show ?thesis unfolding fields by (cases a; cases b) auto
qed

text \<open>
  The comparison of two battle states reports nothing exactly when the two sides are equal but for their format:
  every field of every Pokemon, the size of the team and every other field of the side are compared. The weather, the
  terrain, the turn counter and the other fields of the battle itself are not: states that differ only there compare as equal.
\<close>

theorem diff_states_complete:
  "diff_battle_states a b = [] \<longleftrightarrow>
     fst (bs_sides a) = (fst (bs_sides b))\<lparr>sd_format := sd_format (fst (bs_sides a))\<rparr> \<and>
     snd (bs_sides a) = (snd (bs_sides b))\<lparr>sd_format := sd_format (snd (bs_sides a))\<rparr>"
  by (simp add: diff_battle_states_def diff_sides_empty)

section \<open>What a session holds\<close>

lemma decimal_snoc: "0 < m \<Longrightarrow> d < 10 \<Longrightarrow> decimal (10 * m + d) = decimal m @ [char_of (48 + d)]"
  by (simp add: decimal.simps[of "10 * m + d"])

lemma decimal_digit: "d < 10 \<Longrightarrow> decimal d = [char_of (48 + d)]"
  by (simp add: decimal.simps[of d])

lemma four_digits:
  fixes n :: nat
  assumes "n < 10000"
  obtains a b c d where "n = 10 * (10 * (10 * a + b) + c) + d" "a < 10" "b < 10" "c < 10" "d < 10"
proof
  show "n = 10 * (10 * (10 * (n div 10 div 10 div 10) + n div 10 div 10 mod 10) + n div 10 mod 10) + n mod 10" by simp
qed (use assms in auto)

lemma padded_four:
  assumes "a < 10" "b < 10" "c < 10" "d < 10"
  shows "padded (10 * (10 * (10 * a + b) + c) + d) = map (\<lambda>d. char_of (48 + d)) [a, b, c, d]"
proof -
  have z: "CHR ''0'' = char_of (48 + 0 :: nat)" by (simp add: char_of_def bit_0)
  consider "0 < a" | "a = 0" "0 < b" | "a = 0" "b = 0" "0 < c" | "a = 0" "b = 0" "c = 0" by blast
  then show ?thesis
  proof cases
    case 1
    then have "decimal (10 * (10 * (10 * a + b) + c) + d) = map (\<lambda>d. char_of (48 + d)) [a, b, c, d]"
      using assms decimal_snoc[of "10 * (10 * a + b) + c" d] decimal_snoc[of "10 * a + b" c] decimal_snoc[of a b] decimal_digit[of a] by simp
    then show ?thesis by (simp add: padded_def)
  next
    case 2
    then have "decimal (10 * (10 * b + c) + d) = map (\<lambda>d. char_of (48 + d)) [b, c, d]"
      using assms decimal_snoc[of "10 * b + c" d] decimal_snoc[of b c] decimal_digit[of b] by simp
    then show ?thesis using 2 by (simp add: padded_def z)
  next
    case 3
    then have "decimal (10 * c + d) = map (\<lambda>d. char_of (48 + d)) [c, d]"
      using assms decimal_snoc[of c d] decimal_digit[of c] by simp
    then show ?thesis using 3 by (simp add: padded_def z numeral_2_eq_2)
  next
    case 4
    then show ?thesis using assms decimal_digit[of d] by (simp add: padded_def z numeral_3_eq_3)
  qed
qed

lemma digit_char_less: "a < 10 \<Longrightarrow> b < 10 \<Longrightarrow> (char_of (48 + a) :: char) < char_of (48 + b) \<longleftrightarrow> a < (b::nat)"
  by (simp add: less_char_def)

lemma digit_char_eq: "a < 10 \<Longrightarrow> b < 10 \<Longrightarrow> (char_of (48 + a) :: char) = char_of (48 + b) \<longleftrightarrow> a = (b::nat)"
  by (simp add: char_of_eq_iff take_bit_eq_mod)

lemma less_same_prefix: "xs @ ys < xs @ zs \<longleftrightarrow> ys < (zs :: string)"
  by (induction xs) auto

lemma input_name_mono:
  assumes "i < j" "j < 10000"
  shows "input_name i < input_name j"
proof -
  obtain a b c d where i: "i = 10 * (10 * (10 * a + b) + c) + d" and di: "a < 10" "b < 10" "c < 10" "d < 10"
    using assms by (elim four_digits[of i, rotated]) auto
  obtain a' b' c' d' where j: "j = 10 * (10 * (10 * a' + b') + c') + d'" and dj: "a' < 10" "b' < 10" "c' < 10" "d' < 10"
    using assms(2) by (rule four_digits)
  have "a < a' \<or> a = a' \<and> (b < b' \<or> b = b' \<and> (c < c' \<or> c = c' \<and> d < d'))"
    using assms(1) di dj unfolding i j by (cases "a = a'"; cases "b = b'"; cases "c = c'") auto
  then have "padded i @ u < padded j @ u" for u
    unfolding i j padded_four[OF di] padded_four[OF dj] using di dj by (simp add: digit_char_less digit_char_eq)
  then show ?thesis by (simp add: input_name_def less_same_prefix)
qed

text \<open>From the ten-thousandth boundary on the order of the names is not the order of the indices.\<close>

lemma input_name_overflow: "input_name 10000 < input_name 1001"
  by (simp add: input_name_def padded_def decimal.simps less_char_def)

lemma sorted_input_names: "n \<le> 10000 \<Longrightarrow> sorted (map input_name [0..<n])"
  by (auto simp: sorted_wrt_iff_nth_less intro!: less_imp_le[OF input_name_mono])

lemma update_fresh: "k \<notin> fst ` set al \<Longrightarrow> AList.update k v al = al @ [(k, v)]"
  by (induction al) auto

text \<open>The boundaries \<open>bs\<close> run one after the other through the recorder, and the record the loader should give of one of them.\<close>

definition recorded_session :: "distance \<Rightarrow> game_data \<Rightarrow> engine \<Rightarrow> boundary_input list \<Rightarrow> recorder" where
  "recorded_session lev gd eg bs = foldl (\<lambda>r b. fst (record_and_run lev gd eg r b)) create_recorder bs"

definition stripped :: "boundary_input \<Rightarrow> boundary_input" where
  "stripped b = b\<lparr>bi_candidates := map strip_parent (bi_candidates b)\<rparr>"

definition boundary_of :: "distance \<Rightarrow> game_data \<Rightarrow> engine \<Rightarrow> nat \<Rightarrow> boundary_input \<Rightarrow> boundary_record" where
  "boundary_of lev gd eg i b = \<lparr>br_index = i, br_inputs = decode_input (stripped b),
     br_survivors = (case sweep_boundary lev gd eg b of Inl e \<Rightarrow> None | Inr out \<Rightarrow> Some (renumber_candidates (map strip_parent out))),
     br_error = (case sweep_boundary lev gd eg b of Inl e \<Rightarrow> Some (exn_type e) | Inr out \<Rightarrow> None)\<rparr>"

text \<open>The recorder after the boundaries \<open>bs\<close>: every index below the next one has its input and exactly one of output and error.\<close>

definition holds_session :: "distance \<Rightarrow> game_data \<Rightarrow> engine \<Rightarrow> boundary_input list \<Rightarrow> recorder \<Rightarrow> bool" where
  "holds_session lev gd eg bs r \<longleftrightarrow> rc_next r = length bs \<and> \<not> rc_legacy r \<and>
     rc_inputs r = map (\<lambda>i. (i, stripped (bs ! i))) [0..<length bs] \<and>
     (\<forall>i < length bs. map_of (rc_outputs r) i =
        (case sweep_boundary lev gd eg (bs ! i) of Inl e \<Rightarrow> None | Inr out \<Rightarrow> Some (map strip_parent out))) \<and>
     (\<forall>i < length bs. map_of (rc_errors r) i =
        (case sweep_boundary lev gd eg (bs ! i) of Inl e \<Rightarrow> Some (exn_type e) | Inr out \<Rightarrow> None)) \<and>
     (\<forall>i \<ge> length bs. map_of (rc_outputs r) i = None \<and> map_of (rc_errors r) i = None)"

lemma record_keeps_session:
  assumes "holds_session lev gd eg bs r"
  shows "holds_session lev gd eg (bs @ [b]) (fst (record_and_run lev gd eg r b))"
proof -
  have n: "rc_next r = length bs" and inputs: "rc_inputs r = map (\<lambda>i. (i, stripped (bs ! i))) [0..<length bs]"
    using assms by (simp_all add: holds_session_def)
  have ins: "AList.update (length bs) (stripped b) (rc_inputs r) = map (\<lambda>i. (i, stripped ((bs @ [b]) ! i))) [0..<Suc (length bs)]"
    by (subst update_fresh) (auto simp: inputs nth_append)
  show ?thesis
  proof (cases "sweep_boundary lev gd eg b")
    case (Inl e)
    then have "fst (record_and_run lev gd eg r b) = r\<lparr>rc_next := Suc (length bs),
        rc_inputs := AList.update (length bs) (stripped b) (rc_inputs r), rc_errors := AList.update (length bs) (exn_type e) (rc_errors r)\<rparr>"
      by (simp add: record_and_run_def record_input_def record_failure_def Let_def n stripped_def)
    with assms Inl ins show ?thesis by (simp add: holds_session_def update_conv' nth_append less_Suc_eq)
  next
    case (Inr out)
    then have "fst (record_and_run lev gd eg r b) = r\<lparr>rc_next := Suc (length bs),
        rc_inputs := AList.update (length bs) (stripped b) (rc_inputs r), rc_outputs := AList.update (length bs) (map strip_parent out) (rc_outputs r)\<rparr>"
      by (simp add: record_and_run_def record_input_def record_output_def Let_def n stripped_def)
    with assms Inr ins show ?thesis by (simp add: holds_session_def update_conv' nth_append less_Suc_eq)
  qed
qed

lemma holds_recorded: "holds_session lev gd eg bs (recorded_session lev gd eg bs)"
proof (induction bs rule: rev_induct)
  case Nil
  show ?case by (simp add: holds_session_def recorded_session_def create_recorder_def)
next
  case (snoc b bs)
  from record_keeps_session[OF this] show ?case by (simp add: recorded_session_def)
qed

text \<open>
  C26: A session of at most ten thousand boundaries is loaded back in the order it was recorded, one record per boundary:
  the input as it was given, up to fresh object identities and the dropped parent links, and the survivors when the sweep
  returned or the type of the exception when it raised, never both. Recording does not change what the sweep returns or raises.
\<close>

theorem session_records_all:
  assumes "length bs \<le> 10000"
  shows "load_session (recorded_session lev gd eg bs) = Inr (map2 (boundary_of lev gd eg) [0..<length bs] bs)
    \<and> snd (record_and_run lev gd eg r b) = sweep_boundary lev gd eg b"
proof
  let ?r = "recorded_session lev gd eg bs"
  note h = holds_recorded[of lev gd eg bs, unfolded holds_session_def]
  from h have ins: "rc_inputs ?r = map (\<lambda>i. (i, stripped (bs ! i))) [0..<length bs]" by blast
  have "sorted (map (\<lambda>x. input_name (fst x)) (rc_inputs ?r))"
    using sorted_input_names[OF assms] by (simp add: ins o_def)
  then have "load_session ?r = Inr (map (load_boundary ?r) (rc_inputs ?r))"
    using h by (simp add: load_session_def sort_key_id_if_sorted)
  also have "map (load_boundary ?r) (rc_inputs ?r) = map (\<lambda>i. boundary_of lev gd eg i (bs ! i)) [0..<length bs]"
    using h by (auto simp: ins load_boundary_def boundary_of_def split: sum.splits)
  also have "\<dots> = map2 (boundary_of lev gd eg) [0..<length bs] bs" by (rule nth_equalityI) auto
  finally show "load_session ?r = Inr (map2 (boundary_of lev gd eg) [0..<length bs] bs)" .
  show "snd (record_and_run lev gd eg r b) = sweep_boundary lev gd eg b"
    by (simp add: record_and_run_def record_input_def Let_def split: sum.splits)
qed

text \<open>Two boundaries: the battle's introduction, which keeps its candidate, and an observation without candidates, which fails.\<close>

definition intro_boundary :: boundary_input where
  "intro_boundary = \<lparr>bi_messages = [plain_message ''STRINGID_INTROMSG'' [] ''Go'' None], bi_hp_deltas = [],
     bi_candidates = [quiet_candidate], bi_groups = None\<rparr>"

definition empty_boundary :: boundary_input where
  "empty_boundary = \<lparr>bi_messages = [], bi_hp_deltas = [], bi_candidates = [], bi_groups = None\<rparr>"

lemma empty_boundary_fails: "sweep_boundary lev gd eg empty_boundary = Inl (SimulationError NoSurvivors)"
  by (simp add: sweep_boundary_def empty_boundary_def run_candidate_sweep_def prepare_messages_def sweep_start_def)

theorem session_records_all_witness:
  "map_sum id (map (\<lambda>b. (br_index b, br_error b))) (load_session (recorded_session levenshtein sample_data idle_engine [intro_boundary, empty_boundary]))
     = Inr [(0, None), (1, Some ''SimulationError'')]"
proof -
  have "isl (sweep_boundary levenshtein sample_data idle_engine intro_boundary) = False" by code_simp
  then obtain out where "sweep_boundary levenshtein sample_data idle_engine intro_boundary = Inr out"
    by (cases "sweep_boundary levenshtein sample_data idle_engine intro_boundary") auto
  with session_records_all[of "[intro_boundary, empty_boundary]" levenshtein sample_data idle_engine] show ?thesis
    by (simp add: boundary_of_def empty_boundary_fails)
qed

end
