(* ===== verification/LiveLoop.thy ===== *)
theory LiveLoop
  imports Recorder MatcherLaws
begin

text \<open>
  The capture loop of live play (\<open>SCRIPTS/play.py\<close>, \<open>battle_constants.py\<close>): one cycle takes the words of the message box
  and the two HP readings, feeds the stability buffers and the message matcher, records each complete message and, at a
  menu or at the end of the battle, runs the recorded sweep and updates the pool of candidates. The state is what the
  one-element lists of \<open>_do_capture\<close> hold; a cycle gives the new state also when it raises. A message gets its identity when
  it is recorded. Screenshots, OCR and printed text are not modelled: a cycle starts from what they read.
\<close>

section \<open>State and effects\<close>

record live =
  lv_matcher :: matcher
  lv_captures :: "match_result list"
  lv_turn :: "match_result list"
  lv_opp_bufs :: "(string \<times> stability_buffer) list"
  lv_player_bufs :: "(string \<times> stability_buffer) list"
  lv_opp_logs :: "(string \<times> int list) list"
  lv_player_logs :: "(string \<times> int list) list"
  lv_tracker :: "tracker option"
  lv_state :: battle_state
  lv_constraints :: constraints
  lv_recorder :: "recorder option"
  lv_faint_deltas :: "hp_delta_seq list"

text \<open>What a cycle reads: the words, the name and pixel count of the opponent's box, the name and HP of the player's box, the party prompt, and whether the capture is on.\<close>

record reading =
  rd_words :: "string list"
  rd_opp_name :: string
  rd_opp_k :: "int option"
  rd_player_name :: string
  rd_player_hp :: "int option"
  rd_party_prompt :: bool
  rd_active :: bool

datatype live_error = Raised exn | Unmatched matcher_error

type_synonym 'a act = "live \<Rightarrow> (live_error + 'a) \<times> live"

definition act_return :: "'a \<Rightarrow> 'a act" where
  "act_return x lv = (Inr x, lv)"

definition act_bind :: "'a act \<Rightarrow> ('a \<Rightarrow> 'b act) \<Rightarrow> 'b act" where
  "act_bind m f lv = (case m lv of (Inl e, lv') \<Rightarrow> (Inl e, lv') | (Inr x, lv') \<Rightarrow> f x lv')"

definition act_modify :: "(live \<Rightarrow> live) \<Rightarrow> unit act" where
  "act_modify f lv = (Inr (), f lv)"

definition act_lift :: "(live \<Rightarrow> 'a res) \<Rightarrow> 'a act" where
  "act_lift f lv = (case f lv of Inl e \<Rightarrow> (Inl (Raised e), lv) | Inr x \<Rightarrow> (Inr x, lv))"

fun act_each :: "('a \<Rightarrow> unit act) \<Rightarrow> 'a list \<Rightarrow> unit act" where
  "act_each f [] = act_return ()"
| "act_each f (x # xs) = act_bind (f x) (\<lambda>_. act_each f xs)"

section \<open>Message identifiers\<close>

definition MENU_REJECTION_STRING_IDS :: "string list" where
  "MENU_REJECTION_STRING_IDS = [''STRINGID_NOPPLEFT'', ''STRINGID_PKMNMOVEISDISABLED'', ''STRINGID_PKMNCANTUSEMOVETORMENT'',
     ''STRINGID_PKMNCANTUSEMOVETAUNT'', ''STRINGID_PKMNCANTUSEMOVESEALED'']"

definition turn_has_real_action :: "string list \<Rightarrow> bool" where
  "turn_has_real_action ids = list_ex (\<lambda>i. i \<notin> set MENU_REJECTION_STRING_IDS) ids"

definition PLAYER_SWITCH_IN_IDS :: "string list" where
  "PLAYER_SWITCH_IN_IDS = [''STRINGID_PLAYER_SWITCHINMON'', ''STRINGID_PLAYER_INTROSENDOUT'']"

definition OPPONENT_SWITCH_IN_IDS :: "string list" where
  "OPPONENT_SWITCH_IN_IDS = [''STRINGID_SWITCHINMON'', ''STRINGID_INTROSENDOUT'']"

definition OPP_NAME_SLOTS :: "string list" where
  "OPP_NAME_SLOTS = [''B_OPPONENT_MON1_NAME'', ''B_OPPONENT_MON2_NAME'', ''B_BUFF1'']"

definition BATTLE_END_IDS :: "string list" where
  "BATTLE_END_IDS = [''STRINGID_BATTLEEND'', ''STRINGID_PLAYERWHITEOUT'', ''STRINGID_PLAYERWHITEOUT2'']"

definition PLAYER_NAME_SLOTS :: "string list" where
  "PLAYER_NAME_SLOTS = [''B_BUFF1'']"

definition names_in_slots :: "string list \<Rightarrow> match_result \<Rightarrow> string list" where
  "names_in_slots slots r =
     map (\<lambda>x. lower (snd x)) (filter (\<lambda>x. fst x \<in> set slots \<and> snd x \<noteq> []) (zip (mr_slot_labels r) (mr_var_values r)))"

definition extract_opponent_names :: "match_result \<Rightarrow> string list" where
  "extract_opponent_names = names_in_slots OPP_NAME_SLOTS"

definition extract_player_names :: "match_result \<Rightarrow> string list" where
  "extract_player_names = names_in_slots PLAYER_NAME_SLOTS"

section \<open>Names and logs\<close>

definition select_active_opp_klog :: "distance \<Rightarrow> (string \<times> int list) list \<Rightarrow> string \<Rightarrow> int list res" where
  "select_active_opp_klog lev logs active_name =
     (if logs = [] then Inr []
      else let active = lower active_name in
        case map_of logs active of
          Some l \<Rightarrow> Inr l
        | None \<Rightarrow>
            (let best = arg_min_list (\<lambda>x. lev (fst x) active) logs in
             if lev (fst best) active \<le> max 2 (length active div 4) then Inr (snd best) else Inl RuntimeError))"

definition display_name :: "game_data \<Rightarrow> pokemon_state \<Rightarrow> string" where
  "display_name gd p = lower (emulator_species_name gd (pk_species p))"

definition resolve_team_mon :: "distance \<Rightarrow> game_data \<Rightarrow> string \<Rightarrow> pokemon_state list \<Rightarrow> (pokemon_state \<times> nat) res" where
  "resolve_team_mon lev gd name team =
     (let target = lower name in
      case find (\<lambda>i. display_name gd (team ! i) = target) [0..<length team] of
        Some i \<Rightarrow> Inr (team ! i, i)
      | None \<Rightarrow>
          if team = [] then Inl ValueError
          else let best = arg_min_list (\<lambda>i. lev (display_name gd (team ! i)) target) [0..<length team] in
            if lev (display_name gd (team ! best)) target \<le> max 2 (length target div 4) then Inr (team ! best, best) else Inl RuntimeError)"

definition canonical_team_key :: "distance \<Rightarrow> game_data \<Rightarrow> string \<Rightarrow> pokemon_state list \<Rightarrow> string res" where
  "canonical_team_key lev gd name team =
     (if team = [] then Inr (lower name) else rbind (resolve_team_mon lev gd name team) (\<lambda>x. Inr (display_name gd (fst x))))"

text \<open>\<open>d.get(k, default)\<close> and the value \<open>setdefault\<close> gives.\<close>

definition get_or :: "'v \<Rightarrow> (string \<times> 'v) list \<Rightarrow> string \<Rightarrow> 'v" where
  "get_or d kvs k = (case map_of kvs k of None \<Rightarrow> d | Some v \<Rightarrow> v)"

text \<open>A reading of one box: the buffer and, when a new value is confirmed, the log of the mon.\<close>

definition feed_reading :: "string \<Rightarrow> int option \<Rightarrow> (string \<times> stability_buffer) list \<times> (string \<times> int list) list
    \<Rightarrow> (string \<times> stability_buffer) list \<times> (string \<times> int list) list" where
  "feed_reading key v x =
     (let (fired, buf) = sb_update (get_or (new_buffer 2) (fst x) key) v; bufs = AList.update key buf (fst x) in
      if \<not> fired then (bufs, snd x)
      else let l = get_or [] (snd x) key; k = the (sb_confirmed buf) in
        (bufs, AList.update key (if l = [] \<or> last l \<noteq> k then l @ [k] else l) (snd x)))"

definition read_opponent :: "distance \<Rightarrow> game_data \<Rightarrow> reading \<Rightarrow> unit act" where
  "read_opponent lev gd rd =
     (if rd_opp_name rd = [] then act_return ()
      else act_bind (act_lift (\<lambda>lv. canonical_team_key lev gd (lower (rd_opp_name rd)) (sd_team (snd (bs_sides (lv_state lv)))))) (\<lambda>key.
        act_modify (\<lambda>lv. let (bufs, logs) = feed_reading key (rd_opp_k rd) (lv_opp_bufs lv, lv_opp_logs lv)
                         in lv\<lparr>lv_opp_bufs := bufs, lv_opp_logs := logs\<rparr>)))"

definition read_player :: "distance \<Rightarrow> game_data \<Rightarrow> reading \<Rightarrow> unit act" where
  "read_player lev gd rd =
     (if rd_player_name rd = [] then act_return ()
      else act_bind (act_lift (\<lambda>lv. canonical_team_key lev gd (lower (rd_player_name rd)) (sd_team (fst (bs_sides (lv_state lv)))))) (\<lambda>key.
        act_modify (\<lambda>lv. let (bufs, logs) = feed_reading key (rd_player_hp rd) (lv_player_bufs lv, lv_player_logs lv)
                         in lv\<lparr>lv_player_bufs := bufs, lv_player_logs := logs\<rparr>)))"

section \<open>The sweep of a turn\<close>

definition active_opp_name :: "game_data \<Rightarrow> side_state \<Rightarrow> string res" where
  "active_opp_name gd s =
     (let opp_active = (case sd_active_indices s of [] \<Rightarrow> 0 | a # _ \<Rightarrow> a) in
      if sd_active_indices s \<noteq> [] \<and> opp_active \<ge> length (sd_team s) then Inl RuntimeError
      else Inr (if opp_active < length (sd_team s) then species_name gd (pk_species (sd_team s ! opp_active)) else []))"

definition opponent_record :: "distance \<Rightarrow> game_data \<Rightarrow> side_state \<Rightarrow> string \<Rightarrow> (string \<times> int list) list \<Rightarrow> hp_delta_seq list res" where
  "opponent_record lev gd s name logs =
     (let opp_active = (case sd_active_indices s of [] \<Rightarrow> 0 | a # _ \<Rightarrow> a);
          shown = (if opp_active < length (sd_team s) then display_name gd (sd_team s ! opp_active) else name) in
      rbind (select_active_opp_klog lev logs shown) (\<lambda>k_log.
        if length k_log \<ge> 2 \<and> name \<noteq> [] then
          rbind (lk (sd_team s) opp_active) (\<lambda>mon. Inr [\<lparr>hd_side = P1, hd_species = pk_species mon, hd_slot = 0,
            hd_deltas = neighbours k_log, hd_max_hp = pk_max_hp mon\<rparr>])
        else Inr []))"

text \<open>\<open>player_active.index(team_idx) if team_idx in player_active else 0\<close>.\<close>

definition slot_of :: "nat list \<Rightarrow> nat \<Rightarrow> nat" where
  "slot_of active i = (if i \<in> set active then length (takeWhile (\<lambda>a. a \<noteq> i) active) else 0)"

definition player_record :: "distance \<Rightarrow> game_data \<Rightarrow> side_state \<Rightarrow> string \<times> int list \<Rightarrow> hp_delta_seq list res" where
  "player_record lev gd s x =
     (if length (snd x) < 2 then Inr []
      else rbind (resolve_team_mon lev gd (fst x) (sd_team s)) (\<lambda>y.
        Inr [\<lparr>hd_side = P0, hd_species = pk_species (fst y), hd_slot = slot_of (sd_active_indices s) (snd y),
              hd_deltas = neighbours (snd x), hd_max_hp = pk_max_hp (fst y)\<rparr>]))"

definition reseed :: "(string \<times> stability_buffer) list \<Rightarrow> (string \<times> int list) list" where
  "reseed bufs = map (\<lambda>x. (fst x, case sb_confirmed (snd x) of None \<Rightarrow> [] | Some v \<Rightarrow> [v])) bufs"

text \<open>The pool after a successful sweep: \<open>prune_empty\<close>, \<open>update\<close> and \<open>deduplicate\<close>.\<close>

definition next_pool :: "tracker \<Rightarrow> candidate list \<Rightarrow> tracker" where
  "next_pool t new = deduplicate (tk_update (snd (prune_empty t new)) new)"

definition adopt_candidates :: "candidate list \<Rightarrow> live \<Rightarrow> live" where
  "adopt_candidates new lv =
     (let pool = next_pool (case lv_tracker lv of None \<Rightarrow> [] | Some t \<Rightarrow> t) new in
      lv\<lparr>lv_tracker := Some pool, lv_state := (case pool of [] \<Rightarrow> lv_state lv | c # _ \<Rightarrow> ca_state c),
         lv_opp_logs := reseed (lv_opp_bufs lv), lv_player_logs := reseed (lv_player_bufs lv)\<rparr>)"

text \<open>The recorded sweep: the recorder is updated whether the sweep returns or raises.\<close>

definition sweep_recorded :: "distance \<Rightarrow> game_data \<Rightarrow> engine \<Rightarrow> recorder \<Rightarrow> boundary_input \<Rightarrow> candidate list act" where
  "sweep_recorded lev gd eg rec b lv =
     (let (rec', out) = record_and_run lev gd eg rec b in
      (case out of Inl e \<Rightarrow> Inl (Raised e) | Inr new \<Rightarrow> Inr new, lv\<lparr>lv_recorder := Some rec'\<rparr>))"

definition run_turn_sweep :: "distance \<Rightarrow> game_data \<Rightarrow> engine \<Rightarrow> unit act" where
  "run_turn_sweep lev gd eg lv =
     (case (lv_turn lv, lv_tracker lv) of
        (m # ms, Some (c # cs)) \<Rightarrow>
          (case lv_recorder lv of
             None \<Rightarrow> (Inl (Raised RuntimeError), lv)
           | Some rec \<Rightarrow>
               let opp_side = snd (bs_sides (ca_state c)); player_side = fst (bs_sides (ca_state c)) in
               act_bind (act_lift (\<lambda>_. active_opp_name gd opp_side)) (\<lambda>name.
               act_bind (act_lift (\<lambda>lv. Inr (lv_faint_deltas lv))) (\<lambda>fainted.
               act_bind (act_modify (\<lambda>lv. lv\<lparr>lv_faint_deltas := []\<rparr>)) (\<lambda>_.
               act_bind (act_lift (\<lambda>lv. opponent_record lev gd opp_side name (lv_opp_logs lv))) (\<lambda>opp.
               act_bind (act_lift (\<lambda>lv. rmap (player_record lev gd player_side) (lv_player_logs lv))) (\<lambda>own.
               act_bind (sweep_recorded lev gd eg rec \<lparr>bi_messages = m # ms, bi_hp_deltas = fainted @ opp @ concat own,
                   bi_candidates = c # cs, bi_groups = None\<rparr>) (\<lambda>new.
               act_modify (adopt_candidates new))))))) lv)
      | _ \<Rightarrow> (Inr (), lv))"

section \<open>One message\<close>

definition reset_player :: "distance \<Rightarrow> game_data \<Rightarrow> string \<Rightarrow> unit act" where
  "reset_player lev gd name =
     act_bind (act_lift (\<lambda>lv. canonical_team_key lev gd name (sd_team (fst (bs_sides (lv_state lv)))))) (\<lambda>key.
     act_modify (\<lambda>lv. lv\<lparr>lv_player_logs := AList.update key [] (lv_player_logs lv),
       lv_player_bufs := AList.map_entry key sb_reset (lv_player_bufs lv)\<rparr>))"

definition faint_record :: "string \<Rightarrow> live \<Rightarrow> hp_delta_seq list res" where
  "faint_record key lv =
     (let foe = snd (bs_sides (lv_state lv)) in
      case sd_active_indices foe of
        [] \<Rightarrow> Inr []
      | a # _ \<Rightarrow> rbind (lk (sd_team foe) a) (\<lambda>outgoing.
          Inr (case build_faint_record_from_klog (get_or [] (lv_opp_logs lv) key) (pk_species outgoing) (pk_max_hp outgoing) P1 0 of
                 None \<Rightarrow> [] | Some r \<Rightarrow> [r])))"

definition reset_opponent :: "distance \<Rightarrow> game_data \<Rightarrow> string \<Rightarrow> unit act" where
  "reset_opponent lev gd name =
     act_bind (act_lift (\<lambda>lv. canonical_team_key lev gd name (sd_team (snd (bs_sides (lv_state lv)))))) (\<lambda>key.
     act_bind (act_lift (faint_record key)) (\<lambda>recs.
     act_modify (\<lambda>lv. lv\<lparr>lv_faint_deltas := lv_faint_deltas lv @ recs, lv_opp_logs := AList.update key [] (lv_opp_logs lv),
       lv_opp_bufs := AList.map_entry key sb_reset (lv_opp_bufs lv)\<rparr>)))"

definition append_match :: "match_result \<Rightarrow> live \<Rightarrow> live" where
  "append_match r lv =
     (let r' = r\<lparr>mr_oid := length (lv_captures lv)\<rparr>
      in lv\<lparr>lv_captures := lv_captures lv @ [r'], lv_turn := lv_turn lv @ [r']\<rparr>)"

definition clear_turn :: "live \<Rightarrow> live" where
  "clear_turn lv = lv\<lparr>lv_turn := []\<rparr>"

text \<open>\<open>_record_match\<close>: the result tells whether the battle ended.\<close>

definition record_match :: "distance \<Rightarrow> game_data \<Rightarrow> engine \<Rightarrow> match_result \<Rightarrow> bool act" where
  "record_match lev gd eg r =
     act_bind (act_modify (append_match r)) (\<lambda>_.
     act_bind (if mr_string_id r \<in> set PLAYER_SWITCH_IN_IDS then act_each (reset_player lev gd) (extract_player_names r) else act_return ()) (\<lambda>_.
     act_bind (if mr_string_id r \<in> set OPPONENT_SWITCH_IN_IDS then act_each (reset_opponent lev gd) (extract_opponent_names r) else act_return ()) (\<lambda>_.
     if mr_string_id r \<in> set BATTLE_END_IDS
     then act_bind (run_turn_sweep lev gd eg) (\<lambda>_. act_bind (act_modify clear_turn) (\<lambda>_. act_return True))
     else act_return False)))"

definition finalize_turn_boundary :: "distance \<Rightarrow> game_data \<Rightarrow> engine \<Rightarrow> unit act" where
  "finalize_turn_boundary lev gd eg lv =
     (if \<not> turn_has_real_action (map mr_string_id (lv_turn lv)) then (Inr (), clear_turn lv)
      else act_bind (run_turn_sweep lev gd eg) (\<lambda>_. act_modify clear_turn) lv)"

section \<open>One cycle\<close>

definition Move_METRONOME :: move where
  "Move_METRONOME = 118"

definition Move_ASSIST :: move where
  "Move_ASSIST = 274"

definition Move_TRANSFORM :: move where
  "Move_TRANSFORM = 144"

definition Ability_ILLUSION :: ability where
  "Ability_ILLUSION = 149"

definition active_mons :: "battle_state \<Rightarrow> pokemon_state list" where
  "active_mons st = concat (map (\<lambda>s. map (\<lambda>i. sd_team s ! i) (filter (\<lambda>i. i < length (sd_team s)) (sd_active_indices s)))
     [fst (bs_sides st), snd (bs_sides st)])"

definition make_constraints_for_active :: "battle_state \<Rightarrow> constraints \<Rightarrow> constraints" where
  "make_constraints_for_active st base = base\<lparr>
     cn_unconstrained_moves := list_ex (\<lambda>p. Move_METRONOME \<in> set (pk_move_ids p) \<or> Move_ASSIST \<in> set (pk_move_ids p)) (active_mons st),
     cn_unconstrained_names := list_ex (\<lambda>p. Move_TRANSFORM \<in> set (pk_move_ids p) \<or> pk_ability p = Ability_ILLUSION) (active_mons st)\<rparr>"

text \<open>A call of the matcher, which keeps its own state when it raises.\<close>

definition act_matcher :: "(live \<Rightarrow> matcher \<times> (matcher_error + frame_result)) \<Rightarrow> frame_result act" where
  "act_matcher f lv =
     (let (m, out) = f lv in (case out of Inl e \<Rightarrow> Inl (Unmatched e) | Inr x \<Rightarrow> Inr x, lv\<lparr>lv_matcher := m\<rparr>))"

text \<open>At a menu: flush the matcher, record the message, and run the sweep unless the battle ended.\<close>

definition close_turn :: "distance \<Rightarrow> game_data \<Rightarrow> known_names \<Rightarrow> engine \<Rightarrow> bool act" where
  "close_turn lev gd kn eg =
     act_bind (act_matcher (\<lambda>lv. flush_frame lev kn (lv_matcher lv))) (\<lambda>flushed.
     act_bind (case flushed of Finalized r \<Rightarrow> record_match lev gd eg r | _ \<Rightarrow> act_return False) (\<lambda>ended.
     if ended then act_return True
     else act_bind (finalize_turn_boundary lev gd eg) (\<lambda>_. act_return False)))"

definition do_capture :: "distance \<Rightarrow> game_data \<Rightarrow> known_names \<Rightarrow> engine \<Rightarrow> reading \<Rightarrow> (bool \<times> screen_kind option) act" where
  "do_capture lev gd kn eg rd =
     act_bind (read_opponent lev gd rd) (\<lambda>_.
     act_bind (read_player lev gd rd) (\<lambda>_.
     act_bind (act_matcher (\<lambda>lv. process_frame lev kn (lv_matcher lv) (rd_words rd)
                (if rd_words rd = [] then None else Some (make_constraints_for_active (lv_state lv) (lv_constraints lv))))) (\<lambda>result.
     if rd_words rd = [] then
       if rd_party_prompt rd then
         act_bind (if rd_active rd then close_turn lev gd kn eg else act_return False) (\<lambda>ended.
           act_return (ended, if ended then None else Some PARTY_MENU))
       else act_return (False, None)
     else case result of
       Signal k \<Rightarrow>
         act_bind (if k \<noteq> MOVE_SELECT \<and> rd_active rd then close_turn lev gd kn eg else act_return False) (\<lambda>ended. act_return (ended, Some k))
     | NothingYet \<Rightarrow> act_return (False, None)
     | Finalized r \<Rightarrow> act_bind (record_match lev gd eg r) (\<lambda>ended. act_return (ended, None)))))"

section \<open>Starting a battle\<close>

text \<open>\<open>Constraints()\<close>.\<close>

definition no_constraints :: constraints where
  "no_constraints = \<lparr>cn_valid_pokemon = None, cn_valid_moves = None, cn_valid_items = None, cn_valid_abilities = None,
     cn_trainer_name = None, cn_trainer_class = None, cn_unconstrained_moves = False, cn_unconstrained_names = False\<rparr>"

text \<open>The \<open>init_battle\<close> event of \<open>main\<close>, for the state and the constraints that \<open>_build_battle_state\<close> gives. The new candidate's identity is fresh.\<close>

definition initial_candidate :: "nat \<Rightarrow> battle_state \<Rightarrow> candidate" where
  "initial_candidate k st = \<lparr>ca_id = k, ca_state = st, ca_rng_sequence = [], ca_unknown_actions = [], ca_parent = None\<rparr>"

definition init_battle :: "battle_message list \<Rightarrow> battle_state \<Rightarrow> constraints \<Rightarrow> nat \<Rightarrow> live \<Rightarrow> live" where
  "init_battle msgs st cn k lv = lv\<lparr>lv_state := st, lv_constraints := cn, lv_tracker := Some (new_tracker [initial_candidate k st]),
     lv_recorder := Some create_recorder, lv_opp_logs := [], lv_player_logs := [], lv_turn := [],
     lv_matcher := new_matcher msgs, lv_opp_bufs := [], lv_player_bufs := []\<rparr>"

text \<open>The \<open>toggle_capture\<close> event, when it switches the capture on.\<close>

definition start_capture :: "battle_message list \<Rightarrow> live \<Rightarrow> live" where
  "start_capture msgs lv = lv\<lparr>lv_matcher := new_matcher msgs, lv_opp_bufs := [], lv_player_bufs := [], lv_tracker := None,
     lv_opp_logs := [], lv_player_logs := []\<rparr>"

definition power_on :: "battle_message list \<Rightarrow> battle_state \<Rightarrow> constraints \<Rightarrow> live" where
  "power_on msgs stub cn = \<lparr>lv_matcher = new_matcher msgs, lv_captures = [], lv_turn = [], lv_opp_bufs = [], lv_player_bufs = [],
     lv_opp_logs = [], lv_player_logs = [], lv_tracker = None, lv_state = stub, lv_constraints = cn, lv_recorder = None, lv_faint_deltas = []\<rparr>"

text \<open>What the event loop reaches; a cycle that raises ends the program.\<close>

inductive live_reach :: "distance \<Rightarrow> game_data \<Rightarrow> known_names \<Rightarrow> engine \<Rightarrow> battle_message list \<Rightarrow> live \<Rightarrow> bool"
  for lev gd kn eg msgs where
  on: "live_reach lev gd kn eg msgs (power_on msgs stub cn)"
| battle: "live_reach lev gd kn eg msgs lv \<Longrightarrow> live_reach lev gd kn eg msgs (init_battle msgs st cn k lv)"
| toggle: "live_reach lev gd kn eg msgs lv \<Longrightarrow> live_reach lev gd kn eg msgs (start_capture msgs lv)"
| cycle: "live_reach lev gd kn eg msgs lv \<Longrightarrow> live_reach lev gd kn eg msgs (snd (do_capture lev gd kn eg rd lv))"

section \<open>Triples\<close>

text \<open>An action keeps \<open>I\<close> whether it returns or raises, and what it returns satisfies \<open>Q\<close>.\<close>

definition triple :: "(live \<Rightarrow> bool) \<Rightarrow> 'a act \<Rightarrow> ('a \<Rightarrow> bool) \<Rightarrow> bool" where
  "triple I m Q \<longleftrightarrow> (\<forall>lv. I lv \<longrightarrow> I (snd (m lv)) \<and> (\<forall>x. fst (m lv) = Inr x \<longrightarrow> Q x))"

named_theorems triple_rules

lemma triple_return [triple_rules]: "Q x \<Longrightarrow> triple I (act_return x) Q"
  by (simp add: triple_def act_return_def)

lemma triple_bind:
  assumes "triple I m R" "\<And>x. R x \<Longrightarrow> triple I (f x) Q"
  shows "triple I (act_bind m f) Q"
  unfolding triple_def
proof (intro allI impI)
  fix lv
  assume I: "I lv"
  obtain r lv' where m: "m lv = (r, lv')" by fastforce
  with assms(1) I have I': "I lv'" unfolding triple_def by (metis snd_conv)
  show "I (snd (act_bind m f lv)) \<and> (\<forall>x. fst (act_bind m f lv) = Inr x \<longrightarrow> Q x)"
  proof (cases r)
    case (Inl e)
    then show ?thesis using m I' by (simp add: act_bind_def)
  next
    case (Inr x)
    then have "R x" using assms(1) I m unfolding triple_def by (metis fst_conv)
    from assms(2)[OF this] I' have "I (snd (f x lv')) \<and> (\<forall>y. fst (f x lv') = Inr y \<longrightarrow> Q y)" unfolding triple_def by blast
    then show ?thesis using m Inr by (simp add: act_bind_def)
  qed
qed

lemma triple_weaken: "triple I m R \<Longrightarrow> (\<And>x. R x \<Longrightarrow> Q x) \<Longrightarrow> triple I m Q"
  by (simp add: triple_def)

lemma triple_keeps: "triple I m Q \<Longrightarrow> triple I m (\<lambda>_. True)"
  by (simp add: triple_def)

lemma triple_seq [triple_rules]: "triple I m (\<lambda>_. True) \<Longrightarrow> (\<And>x. triple I (f x) Q) \<Longrightarrow> triple I (act_bind m f) Q"
  by (rule triple_bind)

lemma triple_modify [triple_rules]: "(\<And>lv. I lv \<Longrightarrow> I (f lv)) \<Longrightarrow> triple I (act_modify f) (\<lambda>_. True)"
  by (simp add: triple_def act_modify_def)

lemma triple_lift [triple_rules]: "triple I (act_lift f) (\<lambda>_. True)"
  by (simp add: triple_def act_lift_def split: sum.splits)

lemma triple_if [triple_rules]: "(b \<Longrightarrow> triple I m Q) \<Longrightarrow> (\<not> b \<Longrightarrow> triple I k Q) \<Longrightarrow> triple I (if b then m else k) Q"
  by simp

lemma triple_each [triple_rules]: "(\<And>x. triple I (f x) (\<lambda>_. True)) \<Longrightarrow> triple I (act_each f xs) (\<lambda>_. True)"
  by (induction xs) (auto intro: triple_rules)

section \<open>The invariant of the loop\<close>

text \<open>Every index below the next has its input and exactly one of output and error.\<close>

definition session_ok :: "recorder \<Rightarrow> bool" where
  "session_ok r \<longleftrightarrow> map fst (rc_inputs r) = [0..<rc_next r] \<and> \<not> rc_legacy r \<and>
     (\<forall>i. (map_of (rc_outputs r) i \<noteq> None \<or> map_of (rc_errors r) i \<noteq> None) = (i < rc_next r)) \<and>
     (\<forall>i. map_of (rc_outputs r) i = None \<or> map_of (rc_errors r) i = None)"

definition pool_ok :: "tracker \<Rightarrow> bool" where
  "pool_ok t \<longleftrightarrow> t \<noteq> [] \<and> distinct (map ca_state t) \<and> distinct (map ca_id t)"

definition live_ok :: "live \<Rightarrow> bool" where
  "live_ok lv \<longleftrightarrow> (\<exists>p. pends p (lv_matcher lv)) \<and> map mr_oid (lv_captures lv) = [0..<length (lv_captures lv)] \<and>
     (\<exists>old. lv_captures lv = old @ lv_turn lv) \<and>
     (case lv_tracker lv of None \<Rightarrow> True | Some t \<Rightarrow> pool_ok t) \<and>
     (case lv_recorder lv of None \<Rightarrow> True | Some r \<Rightarrow> session_ok r)"

lemma session_ok_create [simp]: "session_ok create_recorder"
  by (simp add: session_ok_def create_recorder_def)

lemma session_ok_run:
  assumes "session_ok r"
  shows "session_ok (fst (record_and_run lev gd eg r b))"
proof -
  have keys: "fst ` set (rc_inputs r) = {0..<rc_next r}" using assms by (metis (no_types) session_ok_def list.set_map set_upt)
  then have ins: "map fst (AList.update (rc_next r) v (rc_inputs r)) = [0..<Suc (rc_next r)]" for v
    using assms by (subst update_fresh) (auto simp: session_ok_def)
  have none: "map_of (rc_outputs r) (rc_next r) = None" "map_of (rc_errors r) (rc_next r) = None"
    using assms unfolding session_ok_def by (meson less_irrefl)+
  show ?thesis
  proof (cases "sweep_boundary lev gd eg b")
    case (Inl e)
    then show ?thesis using assms none ins
      by (auto simp: record_and_run_def record_input_def record_failure_def Let_def session_ok_def update_conv' less_Suc_eq)
  next
    case (Inr out)
    then show ?thesis using assms none ins
      by (auto simp: record_and_run_def record_input_def record_output_def Let_def session_ok_def update_conv' less_Suc_eq)
  qed
qed

lemma sweep_pool:
  assumes "run_candidate_sweep lev gd eg msgs hp_deltas initial groups = Inr out"
  shows "pool_ok out \<and> (\<forall>x \<in> set out. \<exists>c \<in> set initial. ca_parent x = Some (ca_id c))"
proof -
  obtain ip where ip: "prepare_messages lev gd msgs initial groups = Inr ip"
    using assms by (auto simp: run_candidate_sweep_def rbind_eq_Inr)
  let ?intro = "\<exists>m \<in> set (ip_messages ip). mr_string_id m = ''STRINGID_INTROMSG''"
  from run_candidate_sweep_cases[OF assms ip] obtain acc where out: "out \<noteq> []" "sw_found acc = out"
    and run: "if ?intro then acc = foldl intro_step (sweep_start initial) initial
      else rfold (sweep_candidate lev gd eg ip hp_deltas) (sweep_start initial) initial = Inr acc" by blast
  obtain E where adds: "sweep_adds E (sweep_start initial) acc"
    and E: "\<And>rs acts parent. E rs acts parent \<Longrightarrow> \<exists>c \<in> set initial. parent = Some (ca_id c)"
  proof (cases ?intro)
    case True
    with run have "acc = foldl intro_step (sweep_start initial) initial" by simp
    with that[OF intro_fold_adds[of initial "sweep_start initial", folded this]] show ?thesis by auto
  next
    case False
    with run have "rfold (sweep_candidate lev gd eg ip hp_deltas) (sweep_start initial) initial = Inr acc" by simp
    from that[OF sweep_run_adds[OF this]] show ?thesis by (auto simp: sweep_outcome_def survivor_accounts_def)
  qed
  from adds sweep_start_ok[of initial] have "acc_ok acc" unfolding sweep_adds_def by blast
  moreover have "\<exists>c \<in> set initial. ca_parent x = Some (ca_id c)" if "x \<in> set out" for x
  proof -
    have "E (ca_state x) (ca_unknown_actions x) (ca_parent x)"
      using adds sweep_start_ok[of initial] that out(2) unfolding sweep_adds_def by auto
    then show ?thesis by (rule E)
  qed
  ultimately show ?thesis using out by (simp add: acc_ok_def pool_ok_def)
qed

lemma dedup_loop_distinct: "distinct (map ca_state cs) \<Longrightarrow> ca_state ` set cs \<inter> set seen = {} \<Longrightarrow> dedup_loop cs seen = cs"
  by (induction cs arbitrary: seen) auto

lemma next_pool_id: "pool_ok new \<Longrightarrow> next_pool t new = new"
  by (simp add: next_pool_def deduplicate_def tk_update_def pool_ok_def dedup_loop_distinct)

lemma adopt_ok: "pool_ok new \<Longrightarrow> live_ok lv \<Longrightarrow> live_ok (adopt_candidates new lv)"
  by (simp add: live_ok_def adopt_candidates_def next_pool_id Let_def)

lemma sweep_recorded_triple: "session_ok rec \<Longrightarrow> triple live_ok (sweep_recorded lev gd eg rec b) pool_ok"
  using session_ok_run[of rec lev gd eg b]
  by (auto simp: triple_def sweep_recorded_def live_ok_def Let_def record_and_run_def sweep_boundary_def
      dest!: sweep_pool split: prod.splits sum.splits)

lemma run_turn_sweep_triple [triple_rules]: "triple live_ok (run_turn_sweep lev gd eg) (\<lambda>_. True)"
  unfolding triple_def
proof (intro allI impI)
  fix lv
  assume ok: "live_ok lv"
  show "live_ok (snd (run_turn_sweep lev gd eg lv)) \<and> (\<forall>x. fst (run_turn_sweep lev gd eg lv) = Inr x \<longrightarrow> True)"
  proof (cases "\<exists>m ms c cs rec. lv_turn lv = m # ms \<and> lv_tracker lv = Some (c # cs) \<and> lv_recorder lv = Some rec")
    case True
    then obtain m ms c cs rec where lv: "lv_turn lv = m # ms" "lv_tracker lv = Some (c # cs)" "lv_recorder lv = Some rec" by blast
    with ok have "session_ok rec" by (simp add: live_ok_def)
    note sweep = sweep_recorded_triple[OF this, of lev gd eg]
    let ?opp = "snd (bs_sides (ca_state c))" and ?own = "fst (bs_sides (ca_state c))"
    have "triple live_ok (act_bind (act_lift (\<lambda>_. active_opp_name gd ?opp)) (\<lambda>name.
        act_bind (act_lift (\<lambda>lv. Inr (lv_faint_deltas lv))) (\<lambda>fainted.
        act_bind (act_modify (\<lambda>lv. lv\<lparr>lv_faint_deltas := []\<rparr>)) (\<lambda>_.
        act_bind (act_lift (\<lambda>lv. opponent_record lev gd ?opp name (lv_opp_logs lv))) (\<lambda>opp.
        act_bind (act_lift (\<lambda>lv. rmap (player_record lev gd ?own) (lv_player_logs lv))) (\<lambda>own.
        act_bind (sweep_recorded lev gd eg rec \<lparr>bi_messages = m # ms, bi_hp_deltas = fainted @ opp @ concat own,
            bi_candidates = c # cs, bi_groups = None\<rparr>) (\<lambda>new. act_modify (adopt_candidates new)))))))) (\<lambda>_. True)"
      by (rule triple_seq[OF triple_lift] triple_seq[OF triple_modify] triple_bind[OF sweep] triple_modify adopt_ok
          | simp add: live_ok_def)+
    with ok lv show ?thesis by (simp add: run_turn_sweep_def triple_def Let_def)
  next
    case False
    with ok show ?thesis by (auto simp: run_turn_sweep_def split: list.splits option.splits)
  qed
qed

lemma append_match_ok: "live_ok lv \<Longrightarrow> live_ok (append_match r lv)"
  by (auto simp: live_ok_def append_match_def Let_def)

lemma clear_turn_ok: "live_ok lv \<Longrightarrow> live_ok (clear_turn lv)"
  by (simp add: live_ok_def clear_turn_def)

lemma reset_player_triple [triple_rules]: "triple live_ok (reset_player lev gd name) (\<lambda>_. True)"
  unfolding reset_player_def by (intro triple_rules) (simp add: live_ok_def)

lemma reset_opponent_triple [triple_rules]: "triple live_ok (reset_opponent lev gd name) (\<lambda>_. True)"
  unfolding reset_opponent_def by (intro triple_rules) (simp add: live_ok_def)

lemma record_match_triple [triple_rules]: "triple live_ok (record_match lev gd eg r) (\<lambda>_. True)"
  unfolding record_match_def by (intro triple_rules append_match_ok clear_turn_ok) simp_all

lemma finalize_turn_triple [triple_rules]: "triple live_ok (finalize_turn_boundary lev gd eg) (\<lambda>_. True)"
proof -
  have "triple live_ok (act_bind (run_turn_sweep lev gd eg) (\<lambda>_. act_modify clear_turn)) (\<lambda>_. True)"
    by (intro triple_rules clear_turn_ok)
  then show ?thesis by (simp add: triple_def finalize_turn_boundary_def clear_turn_ok)
qed

lemma read_triples [triple_rules]:
  "triple live_ok (read_opponent lev gd rd) (\<lambda>_. True)" "triple live_ok (read_player lev gd rd) (\<lambda>_. True)"
  unfolding read_opponent_def read_player_def
  by (intro triple_rules; simp add: live_ok_def split: prod.splits)+

lemma pends_process: "pends p m \<Longrightarrow> \<exists>q. pends q (fst (process_frame lev kn m ws cn))"
  using exI[of "\<lambda>q. pends q (set_pending ws cn m)", OF set_pending_simps(2)] by (auto simp: process_frame_def split: option.splits)

lemma pends_flush: "pends p m \<Longrightarrow> \<exists>q. pends q (fst (flush_frame lev kn m))"
  by (auto simp: flush_frame_def pends_def reset_matcher_def split: option.splits intro: exI[of _ None])

lemma matcher_triple:
  assumes "\<And>lv. live_ok lv \<Longrightarrow> \<exists>q. pends q (fst (f lv))"
  shows "triple live_ok (act_matcher f) (\<lambda>_. True)"
  unfolding triple_def
proof (intro allI impI)
  fix lv
  assume ok: "live_ok lv"
  obtain m out where f: "f lv = (m, out)" by fastforce
  with assms[OF ok] have "\<exists>q. pends q m" by simp
  with ok f show "live_ok (snd (act_matcher f lv)) \<and> (\<forall>x. fst (act_matcher f lv) = Inr x \<longrightarrow> True)"
    by (simp add: act_matcher_def live_ok_def)
qed

lemma close_turn_triple [triple_rules]: "triple live_ok (close_turn lev gd kn eg) (\<lambda>_. True)"
proof -
  have "triple live_ok (act_matcher (\<lambda>lv. flush_frame lev kn (lv_matcher lv))) (\<lambda>_. True)"
    by (rule matcher_triple) (auto simp: live_ok_def intro: pends_flush)
  moreover have "triple live_ok (case x of Finalized r \<Rightarrow> record_match lev gd eg r | _ \<Rightarrow> act_return False) (\<lambda>_. True)" for x
    by (cases x) (simp_all add: triple_rules)
  ultimately show ?thesis unfolding close_turn_def by (intro triple_rules) simp_all
qed

lemma do_capture_triple: "triple live_ok (do_capture lev gd kn eg rd) (\<lambda>_. True)"
proof -
  let ?process = "\<lambda>lv. process_frame lev kn (lv_matcher lv) (rd_words rd)
    (if rd_words rd = [] then None else Some (make_constraints_for_active (lv_state lv) (lv_constraints lv)))"
  have "triple live_ok (act_matcher ?process) (\<lambda>_. True)"
    by (rule matcher_triple) (auto simp: live_ok_def intro: pends_process)
  moreover have "triple live_ok (case x of Signal k \<Rightarrow>
         act_bind (if k \<noteq> MOVE_SELECT \<and> rd_active rd then close_turn lev gd kn eg else act_return False) (\<lambda>ended. act_return (ended, Some k))
     | NothingYet \<Rightarrow> act_return (False, None)
     | Finalized r \<Rightarrow> act_bind (record_match lev gd eg r) (\<lambda>ended. act_return (ended, None))) (\<lambda>_. True)" for x
    by (cases x) (simp_all add: triple_rules)
  ultimately show ?thesis unfolding do_capture_def by (intro triple_rules) simp_all
qed

lemma live_reach_ok: "live_reach lev gd kn eg msgs lv \<Longrightarrow> live_ok lv"
proof (induction rule: live_reach.induct)
  case (on stub cn)
  show ?case by (auto simp: live_ok_def power_on_def new_matcher_def pends_def intro!: exI[of _ None])
next
  case (battle lv st cn k)
  then show ?case
    by (auto simp: live_ok_def init_battle_def new_matcher_def pends_def new_tracker_def pool_ok_def intro!: exI[of _ None])
next
  case (toggle lv)
  then show ?case by (auto simp: live_ok_def start_capture_def new_matcher_def pends_def intro!: exI[of _ None])
next
  case (cycle lv rd)
  then show ?case using do_capture_triple unfolding triple_def by blast
qed

lemma session_ok_exactly_one:
  assumes "session_ok r" "i < rc_next r"
  shows "(map_of (rc_outputs r) i = None) \<noteq> (map_of (rc_errors r) i = None)"
  using assms unfolding session_ok_def by metis

section \<open>Properties of the loop\<close>

text \<open>
  C11: The invariant of live play. In every state that the event loop reaches, through battles, toggles of the capture and
  capture cycles with any readings, those that raise included: the messages of the current turn have pairwise different
  identities; the pool of candidates is never empty and its candidates have pairwise different states and identities; and
  in the session on disk the boundaries are numbered without gaps and each has exactly one of an output and an error.
\<close>

theorem live_invariant:
  assumes "live_reach lev gd kn eg msgs lv"
  shows "distinct (map mr_oid (lv_turn lv)) \<and>
    (\<forall>t. lv_tracker lv = Some t \<longrightarrow> t \<noteq> [] \<and> distinct (map ca_state t) \<and> distinct (map ca_id t)) \<and>
    (\<forall>r. lv_recorder lv = Some r \<longrightarrow> map fst (rc_inputs r) = [0..<rc_next r] \<and>
       (\<forall>i < rc_next r. (map_of (rc_outputs r) i = None) \<noteq> (map_of (rc_errors r) i = None)))"
proof (intro conjI allI impI)
  note ok = live_reach_ok[OF assms]
  then obtain old where "lv_captures lv = old @ lv_turn lv" "map mr_oid (lv_captures lv) = [0..<length (lv_captures lv)]"
    by (auto simp: live_ok_def)
  then have "distinct (map mr_oid old @ map mr_oid (lv_turn lv))" by (metis distinct_upt map_append)
  then show "distinct (map mr_oid (lv_turn lv))" by simp
  show "t \<noteq> []" "distinct (map ca_state t)" "distinct (map ca_id t)" if "lv_tracker lv = Some t" for t
    using ok that by (simp_all add: live_ok_def pool_ok_def)
  have rec: "session_ok r" if "lv_recorder lv = Some r" for r
    using ok that by (simp add: live_ok_def)
  show "map fst (rc_inputs r) = [0..<rc_next r]" if "lv_recorder lv = Some r" for r
    using rec[OF that] by (simp add: session_ok_def)
  show "(map_of (rc_outputs r) i = None) \<noteq> (map_of (rc_errors r) i = None)" if "lv_recorder lv = Some r" "i < rc_next r" for r i
    by (rule session_ok_exactly_one[OF rec[OF that(1)] that(2)])
qed

theorem live_invariant_witness:
  "distinct (map mr_oid (lv_turn (init_battle [] shedinja_battle no_constraints 0 (power_on [] shedinja_battle no_constraints))))"
proof -
  have "live_reach levenshtein sample_data no_names idle_engine []
      (init_battle [] shedinja_battle no_constraints 0 (power_on [] shedinja_battle no_constraints))"
    by (intro live_reach.battle live_reach.on)
  from live_invariant[OF this] show ?thesis by blast
qed

text \<open>
  C12: The sweep of a turn in live play. When it returns, the pool is what the recorded sweep of exactly the turn's messages
  and the old pool gave, nothing lost: \<open>deduplicate\<close> has nothing to remove. The state shown is that of its first candidate,
  each candidate continues one of the old pool, the session has the boundary's input and output, and the HP records of
  fainted opponents have been used up.
\<close>

theorem turn_sweep_exact:
  assumes "lv_turn lv \<noteq> []" "lv_tracker lv = Some pool" "pool \<noteq> []" "lv_recorder lv = Some r"
    and "run_turn_sweep lev gd eg lv = (Inr (), lv')"
  shows "\<exists>b deltas out. b = \<lparr>bi_messages = lv_turn lv, bi_hp_deltas = lv_faint_deltas lv @ deltas, bi_candidates = pool, bi_groups = None\<rparr> \<and>
    sweep_boundary lev gd eg b = Inr out \<and> lv_tracker lv' = Some out \<and> out \<noteq> [] \<and> lv_state lv' = ca_state (hd out) \<and>
    list_all (\<lambda>x. \<exists>c \<in> set pool. ca_parent x = Some (ca_id c)) out \<and>
    lv_recorder lv' = Some (fst (record_and_run lev gd eg r b)) \<and> lv_faint_deltas lv' = []"
proof -
  obtain m ms where turn: "lv_turn lv = m # ms" using assms(1) by (cases "lv_turn lv") auto
  obtain c cs where pool: "pool = c # cs" using assms(3) by (cases pool) auto
  let ?b = "\<lambda>ds. \<lparr>bi_messages = lv_turn lv, bi_hp_deltas = lv_faint_deltas lv @ ds, bi_candidates = pool, bi_groups = None\<rparr>"
  from assms(2,4,5) turn pool obtain ds out r' where out: "record_and_run lev gd eg r (?b ds) = (r', Inr out)"
    and lv': "lv' = adopt_candidates out (lv\<lparr>lv_faint_deltas := [], lv_recorder := Some r'\<rparr>)"
    by (auto simp: run_turn_sweep_def Let_def act_bind_def act_lift_def act_modify_def sweep_recorded_def split: sum.splits prod.splits)
  have run: "sweep_boundary lev gd eg (?b ds) = Inr out" using out by (auto simp: record_and_run_def Let_def split: sum.splits prod.splits)
  from sweep_pool[OF this[unfolded sweep_boundary_def]]
  have "pool_ok out" "list_all (\<lambda>x. \<exists>c \<in> set pool. ca_parent x = Some (ca_id c)) out" by (simp_all add: list_all_iff)
  moreover from this have "out \<noteq> []" by (simp add: pool_ok_def)
  ultimately show ?thesis using lv' run out
    by (intro exI[of _ "?b ds"] exI[of _ ds] exI[of _ out])
       (auto simp: adopt_candidates_def next_pool_id Let_def neq_Nil_conv)
qed

definition intro_turn :: live where
  "intro_turn = append_match (plain_message ''STRINGID_INTROMSG'' [] ''Go'' None)
     (init_battle [] shedinja_battle no_constraints 0 (power_on [] shedinja_battle no_constraints))"

theorem turn_sweep_exact_witness:
  "\<exists>out lv'. run_turn_sweep levenshtein sample_data idle_engine intro_turn = (Inr (), lv') \<and> lv_tracker lv' = Some out \<and> out \<noteq> []"
proof -
  let ?run = "run_turn_sweep levenshtein sample_data idle_engine intro_turn"
  let ?pool = "new_tracker [initial_candidate 0 shedinja_battle]"
  have "isl (fst ?run) = False" by code_simp
  then obtain lv' where run: "?run = (Inr (), lv')" by (cases ?run; cases "fst ?run") auto
  have "lv_turn intro_turn \<noteq> []" "lv_tracker intro_turn = Some ?pool" "?pool \<noteq> []" "lv_recorder intro_turn = Some create_recorder"
    by (simp_all add: intro_turn_def append_match_def init_battle_def new_tracker_def Let_def)
  from turn_sweep_exact[OF this run] run show ?thesis by blast
qed

end
