(* ===== verification/Wire.thy ===== *)
theory Wire
  imports Recorder
begin

text \<open>
  The connection to the emulator (\<open>emulator/socket_client.py\<close>, \<open>emulator/pokemon_snapshot.py\<close>): framing of messages, commands and
  the 50-field line of a mon. The other end is \<open>mGBASocketServer.lua\<close>. What the socket delivers is a list of outcomes of
  \<open>recv\<close>; \<open>None\<close> is a call that still waits when the list is used up. A text is its UTF-8 bytes, and \<open>decode()\<close> keeps it.
\<close>

section \<open>Frames\<close>

text \<open>One call of \<open>recv\<close>: some bytes (none when the peer closed), a timeout, or an \<open>OSError\<close>.\<close>

datatype recv = Chunk string | Timeout | Broken

datatype wire_error = MGBAConnectionError | SocketTimeout | Malformed exn

definition END_MARK :: string where
  "END_MARK = ''<|END|>''"

definition SUCCESS_PREFIX :: string where
  "SUCCESS_PREFIX = ''<|SUCCESS|>''"

definition ERROR_PREFIX :: string where
  "ERROR_PREFIX = ''<|ERROR|>''"

definition EVENT_PREFIX :: string where
  "EVENT_PREFIX = ''<|EVENT|>''"

text \<open>The index of the first occurrence.\<close>

fun find_sub :: "string \<Rightarrow> string \<Rightarrow> nat option" where
  "find_sub p [] = (if p = [] then Some 0 else None)"
| "find_sub p (c # s) = (if starts_with (c # s) p then Some 0 else map_option Suc (find_sub p s))"

fun recv_until_end :: "string \<Rightarrow> recv list \<Rightarrow> ((wire_error + string) \<times> recv list) option" where
  "recv_until_end buf [] = None"
| "recv_until_end buf (Timeout # rs) = Some (Inl SocketTimeout, rs)"
| "recv_until_end buf (Broken # rs) = Some (Inl MGBAConnectionError, rs)"
| "recv_until_end buf (Chunk c # rs) =
     (if c = [] then Some (Inl MGBAConnectionError, rs)
      else case find_sub END_MARK (buf @ c) of
        Some k \<Rightarrow> Some (Inr (take k (buf @ c)), rs)
      | None \<Rightarrow> recv_until_end (buf @ c) rs)"

section \<open>The client\<close>

record client =
  cl_open :: bool
  cl_sent :: "string list"
  cl_in :: "recv list"
  cl_send_fails :: bool

type_synonym 'a io = "client \<Rightarrow> ((wire_error + 'a) \<times> client) option"

definition io_return :: "'a \<Rightarrow> 'a io" where
  "io_return x c = Some (Inr x, c)"

definition io_fail :: "wire_error \<Rightarrow> 'a io" where
  "io_fail e c = Some (Inl e, c)"

definition io_bind :: "'a io \<Rightarrow> ('a \<Rightarrow> 'b io) \<Rightarrow> 'b io" where
  "io_bind m f c = (case m c of None \<Rightarrow> None | Some (Inl e, c') \<Rightarrow> Some (Inl e, c') | Some (Inr x, c') \<Rightarrow> f x c')"

text \<open>A computation on values whose exception escapes.\<close>

definition io_lift :: "'a res \<Rightarrow> 'a io" where
  "io_lift r = (case r of Inl e \<Rightarrow> io_fail (Malformed e) | Inr x \<Rightarrow> io_return x)"

definition receive :: "string io" where
  "receive c = map_option (\<lambda>(r, rs). (r, c\<lparr>cl_in := rs\<rparr>)) (recv_until_end [] (cl_in c))"

definition raw_send :: "string \<Rightarrow> string io" where
  "raw_send cmd c =
     (if \<not> cl_open c then io_fail MGBAConnectionError c
      else if cl_send_fails c then io_fail MGBAConnectionError c
      else receive (c\<lparr>cl_sent := cl_sent c @ [cmd @ END_MARK]\<rparr>))"

definition check_response :: "string \<Rightarrow> unit io" where
  "check_response response = (if starts_with response ERROR_PREFIX then io_fail MGBAConnectionError else io_return ())"

definition send :: "string \<Rightarrow> unit io" where
  "send cmd = io_bind (raw_send cmd) check_response"

definition send_data :: "string \<Rightarrow> string io" where
  "send_data cmd = io_bind (raw_send cmd) (\<lambda>response.
     if starts_with response ERROR_PREFIX then io_fail MGBAConnectionError
     else if \<not> starts_with response SUCCESS_PREFIX then io_fail MGBAConnectionError
     else io_return (drop (length SUCCESS_PREFIX) response))"

text \<open>\<open>recv_event\<close>: \<open>None\<close> is a timeout.\<close>

definition recv_event :: "string option io" where
  "recv_event c =
     (if \<not> cl_open c then io_fail MGBAConnectionError c
      else case receive c of
        None \<Rightarrow> None
      | Some (Inl SocketTimeout, c') \<Rightarrow> Some (Inr None, c')
      | Some (Inl e, c') \<Rightarrow> Some (Inl e, c')
      | Some (Inr raw, c') \<Rightarrow>
          if starts_with raw EVENT_PREFIX then Some (Inr (Some (drop (length EVENT_PREFIX) raw)), c')
          else io_fail MGBAConnectionError c')"

definition connect :: "bool \<Rightarrow> unit io" where
  "connect accepted c = (if accepted then Some (Inr (), c\<lparr>cl_open := True\<rparr>) else Some (Inl MGBAConnectionError, c))"

definition close :: "client \<Rightarrow> client" where
  "close c = c\<lparr>cl_open := False\<rparr>"

definition screenshot :: "string \<Rightarrow> unit io" where
  "screenshot path = send (''screenshot '' @ path)"

definition add_key :: "string \<Rightarrow> unit io" where
  "add_key key = send (''addKey '' @ key)"

definition clear_key :: "string \<Rightarrow> unit io" where
  "clear_key key = send (''clearKey '' @ key)"

definition tap :: "string \<Rightarrow> unit io" where
  "tap key = send (''tap '' @ key)"

text \<open>\<open>str(n)\<close> for an integer.\<close>

definition int_str :: "int \<Rightarrow> string" where
  "int_str n = (if n < 0 then CHR ''-'' # decimal (nat (- n)) else decimal (nat n))"

definition run_frames :: "int \<Rightarrow> unit io" where
  "run_frames n = send (''runFrames '' @ int_str n)"

definition load_state :: "string \<Rightarrow> unit io" where
  "load_state path = send (''loadstate '' @ path)"

definition save_state :: "string \<Rightarrow> unit io" where
  "save_state path = send (''savestate '' @ path)"

section \<open>Fields\<close>

text \<open>\<open>opt\<close> of \<open>from_wire\<close>, and \<open>bool(int(s))\<close>.\<close>

definition wire_opt :: "string \<Rightarrow> int option res" where
  "wire_opt s = (if s = [] then Inr None else rbind (parse_int s) (\<lambda>n. Inr (Some n)))"

definition wire_bool :: "string \<Rightarrow> bool res" where
  "wire_bool s = rbind (parse_int s) (\<lambda>n. Inr (n \<noteq> 0))"

section \<open>The line of a mon\<close>

record pokemon_snapshot =
  sn_box :: int
  sn_slot :: int
  sn_species :: int
  sn_nickname :: string
  sn_ot_name :: string
  sn_ot_id :: int
  sn_personality :: int
  sn_is_egg :: bool
  sn_is_bad_egg :: bool
  sn_has_species :: bool
  sn_held_item :: int
  sn_experience :: int
  sn_friendship :: int
  sn_pp_bonuses :: int
  sn_moves :: "int list"
  sn_pp :: "int list"
  sn_hp_ev :: int
  sn_atk_ev :: int
  sn_def_ev :: int
  sn_spe_ev :: int
  sn_spa_ev :: int
  sn_spd_ev :: int
  sn_hp_iv :: int
  sn_atk_iv :: int
  sn_def_iv :: int
  sn_spe_iv :: int
  sn_spa_iv :: int
  sn_spd_iv :: int
  sn_nature :: int
  sn_alt_ability :: int
  sn_pokerus :: int
  sn_pokeball :: int
  sn_met_location :: int
  sn_met_level :: int
  sn_met_game :: int
  sn_level :: "int option"
  sn_current_hp :: "int option"
  sn_max_hp :: "int option"
  sn_status :: "int option"
  sn_attack :: "int option"
  sn_defense :: "int option"
  sn_speed :: "int option"
  sn_sp_attack :: "int option"
  sn_sp_defense :: "int option"

definition NFIELDS :: nat where
  "NFIELDS = 50"

text \<open>\<open>s.split(sep)\<close> for a one-character separator.\<close>

fun split_on :: "char \<Rightarrow> string \<Rightarrow> string list" where
  "split_on d [] = [[]]"
| "split_on d (c # s) = (if c = d then [] # split_on d s else case split_on d s of w # ws \<Rightarrow> (c # w) # ws | [] \<Rightarrow> [[c]])"

definition party_mon :: "pokemon_snapshot \<Rightarrow> bool" where
  "party_mon s \<longleftrightarrow> sn_box s = -1"

text \<open>The arguments are evaluated in the order of the fields, so the first malformed field raises.\<close>

definition from_wire :: "string \<Rightarrow> pokemon_snapshot res" where
  "from_wire line =
     (let parts = split_on (CHR ''|'') line; num = (\<lambda>i. parse_int (parts ! i)) in
      if length parts \<noteq> NFIELDS then Inl ValueError
      else rbind (num 0) (\<lambda>box. rbind (num 1) (\<lambda>slot. rbind (num 2) (\<lambda>species.
        rbind (num 5) (\<lambda>ot_id. rbind (num 6) (\<lambda>personality.
        rbind (wire_bool (parts ! 7)) (\<lambda>egg. rbind (wire_bool (parts ! 8)) (\<lambda>bad_egg. rbind (wire_bool (parts ! 9)) (\<lambda>has_species.
        rbind (num 10) (\<lambda>held_item. rbind (num 11) (\<lambda>experience. rbind (num 12) (\<lambda>friendship. rbind (num 13) (\<lambda>pp_bonuses.
        rbind (rmap num [14..<18]) (\<lambda>moves. rbind (rmap num [18..<22]) (\<lambda>pp. 
        rbind (num 22) (\<lambda>hp_ev. rbind (num 23) (\<lambda>atk_ev. rbind (num 24) (\<lambda>def_ev.
        rbind (num 25) (\<lambda>spe_ev. rbind (num 26) (\<lambda>spa_ev. rbind (num 27) (\<lambda>spd_ev.
        rbind (num 28) (\<lambda>hp_iv. rbind (num 29) (\<lambda>atk_iv. rbind (num 30) (\<lambda>def_iv.
        rbind (num 31) (\<lambda>spe_iv. rbind (num 32) (\<lambda>spa_iv. rbind (num 33) (\<lambda>spd_iv.
        rbind (num 34) (\<lambda>nature. rbind (num 35) (\<lambda>alt_ability. rbind (num 36) (\<lambda>pokerus. rbind (num 37) (\<lambda>pokeball.
        rbind (num 38) (\<lambda>met_location. rbind (num 39) (\<lambda>met_level. rbind (num 40) (\<lambda>met_game.
        rbind (wire_opt (parts ! 41)) (\<lambda>level. rbind (wire_opt (parts ! 42)) (\<lambda>current_hp.
        rbind (wire_opt (parts ! 43)) (\<lambda>max_hp. rbind (wire_opt (parts ! 44)) (\<lambda>status.
        rbind (wire_opt (parts ! 45)) (\<lambda>attack. rbind (wire_opt (parts ! 46)) (\<lambda>defense. rbind (wire_opt (parts ! 47)) (\<lambda>speed.
        rbind (wire_opt (parts ! 48)) (\<lambda>sp_attack. rbind (wire_opt (parts ! 49)) (\<lambda>sp_defense.
        Inr \<lparr>sn_box = box, sn_slot = slot, sn_species = species, sn_nickname = parts ! 3, sn_ot_name = parts ! 4,
          sn_ot_id = ot_id, sn_personality = personality, sn_is_egg = egg, sn_is_bad_egg = bad_egg, sn_has_species = has_species,
          sn_held_item = held_item, sn_experience = experience, sn_friendship = friendship, sn_pp_bonuses = pp_bonuses,
          sn_moves = moves, sn_pp = pp, sn_hp_ev = hp_ev, sn_atk_ev = atk_ev, sn_def_ev = def_ev,
          sn_spe_ev = spe_ev, sn_spa_ev = spa_ev, sn_spd_ev = spd_ev, sn_hp_iv = hp_iv, sn_atk_iv = atk_iv, sn_def_iv = def_iv,
          sn_spe_iv = spe_iv, sn_spa_iv = spa_iv, sn_spd_iv = spd_iv, sn_nature = nature, sn_alt_ability = alt_ability,
          sn_pokerus = pokerus, sn_pokeball = pokeball, sn_met_location = met_location, sn_met_level = met_level,
          sn_met_game = met_game, sn_level = level, sn_current_hp = current_hp, sn_max_hp = max_hp, sn_status = status,
          sn_attack = attack, sn_defense = defense, sn_speed = speed, sn_sp_attack = sp_attack, sn_sp_defense = sp_defense\<rparr>)))))))))))))))))))))))))))))))))))))))))))"

definition parse_mons :: "string \<Rightarrow> pokemon_snapshot list res" where
  "parse_mons data = rmap from_wire (filter (\<lambda>l. l \<noteq> []) (split_on (CHR 0x0A) data))"

definition read_party :: "pokemon_snapshot list io" where
  "read_party = io_bind (send_data ''readparty'') (\<lambda>data. io_lift (parse_mons data))"

definition read_box_mon :: "int \<Rightarrow> int \<Rightarrow> pokemon_snapshot option io" where
  "read_box_mon box slot = io_bind (send_data (''readbox '' @ int_str box @ '' '' @ int_str slot)) (\<lambda>data.
     if data = [] then io_return None else io_lift (rbind (from_wire data) (\<lambda>s. Inr (Some s))))"

definition read_all_boxes :: "pokemon_snapshot list io" where
  "read_all_boxes = io_bind (send_data ''readallboxes'') (\<lambda>data. io_lift (parse_mons data))"

definition leftover_exp :: "game_data \<Rightarrow> species \<Rightarrow> pokemon_snapshot \<Rightarrow> int res" where
  "leftover_exp gd sp s = (case sn_level s of
     None \<Rightarrow> Inl ValueError
   | Some l \<Rightarrow> (case gd_species gd sp of
       None \<Rightarrow> Inl KeyError
     | Some d \<Rightarrow> Inr (sn_experience s - exp_for_level (sp_growth_rate d) l)))"

section \<open>What the server writes\<close>

text \<open>
  The fields in the order of \<open>serialize_mon\<close> of the server: \<open>tostring\<close> of each number, the flags as 0 and 1, an empty field for what
  a box mon does not have.
\<close>

definition flag_str :: "bool \<Rightarrow> string" where
  "flag_str b = (if b then ''1'' else ''0'')"

definition opt_str :: "int option \<Rightarrow> string" where
  "opt_str v = (case v of None \<Rightarrow> [] | Some n \<Rightarrow> int_str n)"

definition wire_fields :: "pokemon_snapshot \<Rightarrow> string list" where
  "wire_fields s = map int_str [sn_box s, sn_slot s, sn_species s] @ [sn_nickname s, sn_ot_name s]
     @ map int_str [sn_ot_id s, sn_personality s] @ map flag_str [sn_is_egg s, sn_is_bad_egg s, sn_has_species s]
     @ map int_str [sn_held_item s, sn_experience s, sn_friendship s, sn_pp_bonuses s] @ map int_str (sn_moves s) @ map int_str (sn_pp s)
     @ map int_str [sn_hp_ev s, sn_atk_ev s, sn_def_ev s, sn_spe_ev s, sn_spa_ev s, sn_spd_ev s,
         sn_hp_iv s, sn_atk_iv s, sn_def_iv s, sn_spe_iv s, sn_spa_iv s, sn_spd_iv s, sn_nature s, sn_alt_ability s,
         sn_pokerus s, sn_pokeball s, sn_met_location s, sn_met_level s, sn_met_game s]
     @ map opt_str [sn_level s, sn_current_hp s, sn_max_hp s, sn_status s, sn_attack s, sn_defense s, sn_speed s, sn_sp_attack s, sn_sp_defense s]"

text \<open>\<open>table.concat(ws, sep)\<close>.\<close>

fun join_with :: "char \<Rightarrow> string list \<Rightarrow> string" where
  "join_with d [] = []"
| "join_with d [w] = w"
| "join_with d (w # v # ws) = w @ d # join_with d (v # ws)"

definition wire_line :: "pokemon_snapshot \<Rightarrow> string" where
  "wire_line s = join_with (CHR ''|'') (wire_fields s)"

text \<open>Four moves, and names without a separator.\<close>

definition name_ok :: "string \<Rightarrow> bool" where
  "name_ok w \<longleftrightarrow> CHR ''|'' \<notin> set w \<and> CHR 0x0A \<notin> set w \<and> CHR ''<'' \<notin> set w"

definition snapshot_ok :: "pokemon_snapshot \<Rightarrow> bool" where
  "snapshot_ok s \<longleftrightarrow> length (sn_moves s) = 4 \<and> length (sn_pp s) = 4 \<and> name_ok (sn_nickname s) \<and> name_ok (sn_ot_name s)"

section \<open>Separators and numbers\<close>

lemma split_on_plain: "d \<notin> set w \<Longrightarrow> split_on d w = [w]"
  by (induction w) auto

lemma split_on_cons: "d \<notin> set w \<Longrightarrow> split_on d (w @ d # s) = w # split_on d s"
  by (induction w) (auto split: list.splits)

lemma split_join:
  assumes "ws \<noteq> []" "\<And>w. w \<in> set ws \<Longrightarrow> d \<notin> set w"
  shows "split_on d (join_with d ws) = ws"
  using assms by (induction d ws rule: join_with.induct) (auto simp: split_on_plain split_on_cons)

lemma join_with_set: "set (join_with d ws) \<subseteq> insert d (\<Union> (set ` set ws))"
  by (induction d ws rule: join_with.induct) auto

lemma digit_value_char: "d < 10 \<Longrightarrow> digit_value (char_of (48 + d)) = Some (int d)"
  by (simp add: digit_value_def)

lemma decimal_chars: "c \<in> set (decimal n) \<Longrightarrow> 48 \<le> (of_char c :: nat) \<and> (of_char c :: nat) \<le> 57"
proof (induction n rule: decimal.induct)
  case (1 n)
  show ?case
  proof (cases "n < 10")
    case True
    with 1(2) show ?thesis by (simp add: decimal.simps[of n])
  next
    case False
    with 1 show ?thesis by (auto simp: decimal.simps[of n])
  qed
qed

lemma decimal_nonempty [simp]: "decimal n \<noteq> []"
  by (simp add: decimal.simps[of n])

lemma decimal_digit_value: "c \<in> set (decimal n) \<Longrightarrow> digit_value c \<noteq> None"
  using decimal_chars[of c n] by (simp add: digit_value_def)

lemma parse_digits_append:
  assumes "\<And>c. c \<in> set w \<Longrightarrow> digit_value c \<noteq> None"
  shows "parse_digits (w @ v) acc = parse_digits v (the (parse_digits w acc))"
  using assms
proof (induction w arbitrary: acc)
  case (Cons c w)
  then obtain d where "digit_value c = Some d" by fastforce
  with Cons show ?case by simp
qed simp

lemma parse_unsigned_append:
  assumes "\<And>c. c \<in> set w \<Longrightarrow> digit_value c \<noteq> None" "w \<noteq> []"
  shows "parse_unsigned (w @ v) = parse_digits v (the (parse_unsigned w))"
proof -
  obtain c u where w: "w = c # u" using assms(2) by (cases w) auto
  then obtain d where "digit_value c = Some d" using assms(1)[of c] by auto
  then show ?thesis using parse_digits_append[of u v d] assms(1) w by simp
qed

lemma parse_unsigned_decimal: "parse_unsigned (decimal n) = Some (int n)"
proof (induction n rule: decimal.induct)
  case (1 n)
  show ?case
  proof (cases "n < 10")
    case True
    then show ?thesis by (simp add: decimal.simps[of n] digit_value_char)
  next
    case False
    have "parse_unsigned (decimal n) = parse_unsigned (decimal (n div 10) @ [char_of (48 + n mod 10)])"
      using False by (simp add: decimal.simps[of n])
    also have "\<dots> = parse_digits [char_of (48 + n mod 10)] (the (parse_unsigned (decimal (n div 10))))"
      by (rule parse_unsigned_append) (simp_all add: decimal_digit_value)
    also have "\<dots> = Some (int n)" using 1[OF False] digit_value_char[of "n mod 10"] by (simp add: zdiv_int zmod_int)
    finally show ?thesis .
  qed
qed

lemma strip_id: "(\<And>c. c \<in> set w \<Longrightarrow> \<not> is_space c) \<Longrightarrow> strip w = w"
  unfolding strip_def
  by (metis dropWhile_eq_self_iff hd_in_set rev_rev_ident set_rev)

lemma int_str_chars: "c \<in> set (int_str n) \<Longrightarrow> c = CHR ''-'' \<or> 48 \<le> (of_char c :: nat) \<and> (of_char c :: nat) \<le> 57"
  using decimal_chars by (auto simp: int_str_def split: if_splits)

lemma int_str_no_space: "c \<in> set (int_str n) \<Longrightarrow> \<not> is_space c"
  using int_str_chars[of c n] by (auto simp: is_space_def Let_def)

lemma int_str_separator:
  "CHR ''|'' \<notin> set (int_str n)" "CHR 0x0A \<notin> set (int_str n)" "CHR ''<'' \<notin> set (int_str n)"
  using int_str_chars[of _ n] by force+

text \<open>\<open>int(str(n)) = n\<close>.\<close>

lemma parse_int_str [simp]: "parse_int (int_str n) = Inr n"
proof -
  have strip: "strip (int_str n) = int_str n" by (rule strip_id) (rule int_str_no_space)
  show ?thesis
  proof (cases "n < 0")
    case True
    then show ?thesis using strip by (simp add: parse_int_def int_str_def parse_unsigned_decimal)
  next
    case False
    obtain c t where ct: "decimal (nat n) = c # t" by (meson decimal_nonempty neq_Nil_conv)
    then have "c \<noteq> CHR ''-''" "c \<noteq> CHR ''+''" using decimal_chars[of c "nat n"] by auto
    then show ?thesis using False strip parse_unsigned_decimal[of "nat n"] by (simp add: parse_int_def int_str_def ct del: parse_unsigned.simps)
  qed
qed

lemma int_str_nonempty [simp]: "int_str n \<noteq> []"
  by (simp add: int_str_def)

lemma wire_opt_str [simp]: "wire_opt (opt_str v) = Inr v"
  by (cases v) (simp_all add: wire_opt_def opt_str_def)

lemma wire_bool_str [simp]: "wire_bool (flag_str b) = Inr b"
proof -
  have "flag_str True = int_str 1" "flag_str False = int_str 0" by code_simp+
  then show ?thesis by (cases b) (simp_all add: wire_bool_def)
qed

lemma field_separators:
  assumes "snapshot_ok s" "w \<in> set (wire_fields s)"
  shows "name_ok w"
proof -
  have "name_ok (int_str n)" "name_ok (opt_str v)" "name_ok (flag_str b)" for n v b
    using int_str_separator by (auto simp: name_ok_def opt_str_def flag_str_def split: option.splits)
  with assms show ?thesis by (auto simp: wire_fields_def snapshot_ok_def)
qed

lemma from_wire_line:
  assumes "snapshot_ok s"
  shows "from_wire (wire_line s) = Inr s"
proof -
  have split: "split_on (CHR ''|'') (wire_line s) = wire_fields s"
    unfolding wire_line_def
    by (rule split_join) (use field_separators[OF assms] in \<open>auto simp: name_ok_def wire_fields_def\<close>)
  obtain m0 m1 m2 m3 where moves: "sn_moves s = [m0, m1, m2, m3]"
    using assms by (auto simp: snapshot_ok_def numeral_eq_Suc length_Suc_conv)
  obtain p0 p1 p2 p3 where pp: "sn_pp s = [p0, p1, p2, p3]"
    using assms by (auto simp: snapshot_ok_def numeral_eq_Suc length_Suc_conv)
  show ?thesis
    unfolding from_wire_def split Let_def
    by (simp add: wire_fields_def moves pp NFIELDS_def upt_rec_numeral)
qed

section \<open>Frames and chunks\<close>

lemma starts_with_cut: "length p \<le> length s \<Longrightarrow> starts_with (s @ t) p = starts_with s p"
  by (simp add: starts_with_def)

lemma starts_with_length: "starts_with s p \<Longrightarrow> length p \<le> length s"
  by (metis le_cases starts_with_def take_all_iff)

lemma starts_with_self [simp]: "starts_with (p @ s) p"
  by (simp add: starts_with_def)

lemma find_sub_bound: "find_sub p s = Some k \<Longrightarrow> k + length p \<le> length s"
  by (induction s arbitrary: k) (auto split: if_splits dest: starts_with_length)

lemma find_sub_append: "find_sub p s = Some k \<Longrightarrow> find_sub p (s @ t) = Some k"
proof (induction s arbitrary: k)
  case Nil
  then show ?case by (cases t) (auto simp: starts_with_def split: if_splits)
next
  case (Cons c s)
  from find_sub_bound[OF Cons.prems] have "starts_with ((c # s) @ t) p = starts_with (c # s) p"
    by (intro starts_with_cut) simp
  with Cons show ?case by (auto split: if_splits)
qed

text \<open>However the bytes of a message are cut into chunks, the message is what arrives.\<close>

lemma recv_chunks:
  assumes "find_sub END_MARK (msg @ END_MARK) = Some (length msg)"
    and "buf @ concat cs = msg @ END_MARK" "length buf < length (msg @ END_MARK)" "[] \<notin> set cs"
  shows "recv_until_end buf (map Chunk cs @ rs) = Some (Inr msg, rs)"
  using assms(2-4)
proof (induction cs arbitrary: buf)
  case (Cons c cs)
  show ?case
  proof (cases "find_sub END_MARK (buf @ c)")
    case None
    then have "cs \<noteq> []" using Cons.prems(1) assms(1) by auto
    then have "length (buf @ c) < length (msg @ END_MARK)" using Cons.prems by (cases cs) (auto simp flip: Cons.prems(1))
    with None Cons show ?thesis by (auto simp: eq_commute[of "[]"])
  next
    case (Some k)
    from find_sub_append[OF this, of "concat cs"] Cons.prems(1) assms(1) have k: "k = length msg" by simp
    have len: "length (buf @ c) + length (concat cs) = length (msg @ END_MARK)"
      using arg_cong[OF Cons.prems(1), of length] by simp
    with find_sub_bound[OF Some] k have "length (concat cs) = 0" by (simp only: length_append)
    then have "concat cs = []" by (simp only: length_0_conv)
    with Cons.prems have "cs = []" "buf @ c = msg @ END_MARK" by (cases cs; simp)+
    with Some k Cons.prems(3) show ?thesis by auto
  qed
qed simp

lemma find_end_plain: "CHR ''<'' \<notin> set d \<Longrightarrow> find_sub END_MARK (d @ END_MARK) = Some (length d)"
  by (induction d) (auto simp: END_MARK_def starts_with_def)

lemma find_end_success: "CHR ''<'' \<notin> set d \<Longrightarrow> find_sub END_MARK ((SUCCESS_PREFIX @ d) @ END_MARK) = Some (length (SUCCESS_PREFIX @ d))"
  using find_end_plain[of d] by (simp add: SUCCESS_PREFIX_def) (simp add: END_MARK_def starts_with_def)

lemma wire_line_ok: "snapshot_ok s \<Longrightarrow> CHR 0x0A \<notin> set (wire_line s) \<and> CHR ''<'' \<notin> set (wire_line s) \<and> wire_line s \<noteq> []"
proof -
  assume ok: "snapshot_ok s"
  have "set (wire_line s) \<subseteq> insert (CHR ''|'') (\<Union> (set ` set (wire_fields s)))" unfolding wire_line_def by (rule join_with_set)
  with field_separators[OF ok] have "CHR 0x0A \<notin> set (wire_line s) \<and> CHR ''<'' \<notin> set (wire_line s)" by (fastforce simp: name_ok_def)
  moreover have "wire_line s \<noteq> []" by (simp add: wire_line_def wire_fields_def)
  ultimately show ?thesis by blast
qed

lemma parse_mons_lines:
  assumes "list_all snapshot_ok ss"
  shows "parse_mons (join_with (CHR 0x0A) (map wire_line ss)) = Inr ss"
proof (cases ss)
  case Nil
  then show ?thesis by (simp add: parse_mons_def)
next
  case (Cons s0 ss0)
  have ok: "snapshot_ok s" if "s \<in> set ss" for s using assms that by (simp add: list_all_iff)
  have "split_on (CHR 0x0A) (join_with (CHR 0x0A) (map wire_line ss)) = map wire_line ss"
    by (rule split_join) (use Cons ok wire_line_ok in auto)
  moreover have "filter (\<lambda>l. l \<noteq> []) (map wire_line ss) = map wire_line ss"
    using ok wire_line_ok by (auto simp: filter_id_conv)
  moreover have "rmap from_wire (map wire_line ss) = Inr ss"
    using ok by (induction ss) (auto simp: from_wire_line)
  ultimately show ?thesis by (simp add: parse_mons_def)
qed

lemma receive_chunks:
  assumes "find_sub END_MARK (msg @ END_MARK) = Some (length msg)" "concat cs = msg @ END_MARK" "[] \<notin> set cs"
    and "cl_in c = map Chunk cs @ rs"
  shows "receive c = Some (Inr msg, c\<lparr>cl_in := rs\<rparr>)"
  using recv_chunks[OF assms(1), of "[]" cs rs] assms(2-4) by (simp add: receive_def END_MARK_def)

lemma send_data_chunks:
  assumes "CHR ''<'' \<notin> set d" "concat cs = SUCCESS_PREFIX @ d @ END_MARK" "[] \<notin> set cs" "cl_open c" "\<not> cl_send_fails c"
  shows "send_data cmd (c\<lparr>cl_in := map Chunk cs @ rs\<rparr>) = Some (Inr d, c\<lparr>cl_in := rs, cl_sent := cl_sent c @ [cmd @ END_MARK]\<rparr>)"
proof -
  have run: "receive (c\<lparr>cl_in := map Chunk cs @ rs, cl_sent := cl_sent c @ [cmd @ END_MARK]\<rparr>)
      = Some (Inr (SUCCESS_PREFIX @ d), c\<lparr>cl_in := rs, cl_sent := cl_sent c @ [cmd @ END_MARK]\<rparr>)"
    by (subst receive_chunks[OF find_end_success[OF assms(1)], of cs _ rs]) (use assms(2,3) in simp_all)
  have "\<not> starts_with (SUCCESS_PREFIX @ d) ERROR_PREFIX" by (simp add: starts_with_def SUCCESS_PREFIX_def ERROR_PREFIX_def)
  with run assms(4,5) show ?thesis
    by (simp add: send_data_def raw_send_def io_bind_def io_return_def)
qed

text \<open>Bytes after the end mark in the same chunk are dropped: a second message that arrives with the first is lost.\<close>

lemma receive_drops_second:
  assumes "find_sub END_MARK (msg @ END_MARK) = Some (length msg)"
  shows "receive (c\<lparr>cl_in := [Chunk (msg @ END_MARK @ second)]\<rparr>) = Some (Inr msg, c\<lparr>cl_in := []\<rparr>)"
  using find_sub_append[OF assms, of second] by (simp add: receive_def END_MARK_def)

section \<open>The party over the wire\<close>

lemma read_party_chunks:
  assumes "list_all snapshot_ok ss" "cl_open c" "\<not> cl_send_fails c"
    and "concat chunks = SUCCESS_PREFIX @ join_with (CHR 0x0A) (map wire_line ss) @ END_MARK" "[] \<notin> set chunks"
  shows "read_party (c\<lparr>cl_in := map Chunk chunks @ later\<rparr>)
    = Some (Inr ss, c\<lparr>cl_in := later, cl_sent := cl_sent c @ [''readparty'' @ END_MARK]\<rparr>)"
proof -
  have "set (join_with (CHR 0x0A) (map wire_line ss)) \<subseteq> insert (CHR 0x0A) (\<Union> (set ` set (map wire_line ss)))" by (rule join_with_set)
  moreover have "CHR ''<'' \<notin> set (wire_line s)" if "s \<in> set ss" for s using assms(1) that wire_line_ok by (simp add: list_all_iff)
  ultimately have "CHR ''<'' \<notin> set (join_with (CHR 0x0A) (map wire_line ss))" by fastforce
  from send_data_chunks[OF this assms(4,5,2,3), of "''readparty''" later] show ?thesis
    by (simp add: read_party_def io_bind_def io_lift_def io_return_def parse_mons_lines[OF assms(1)])
qed

text \<open>
  C28: What the server sends is what the client reads. For any party (or none) whose names have no separators, and however the
  bytes of the answer are cut into chunks, \<open>read_party\<close> returns exactly the mons the server serialised, in order, every field
  included; it has sent one framed command and leaves the socket at the byte after the answer.
\<close>

theorem read_party_roundtrip:
  assumes "list_all snapshot_ok ss" "cl_open c" "\<not> cl_send_fails c"
    and "concat chunks = SUCCESS_PREFIX @ join_with (CHR 0x0A) (map wire_line ss) @ END_MARK" "[] \<notin> set chunks"
  shows "read_party (c\<lparr>cl_in := map Chunk chunks @ later\<rparr>)
    = Some (Inr ss, c\<lparr>cl_in := later, cl_sent := cl_sent c @ [''readparty'' @ END_MARK]\<rparr>)"
  using assms by (rule read_party_chunks)

definition sample_snapshot :: pokemon_snapshot where
  "sample_snapshot = \<lparr>sn_box = -1, sn_slot = 0, sn_species = 292, sn_nickname = ''SHEDINJA'', sn_ot_name = ''MAY'', sn_ot_id = 1,
     sn_personality = 2, sn_is_egg = False, sn_is_bad_egg = False, sn_has_species = True, sn_held_item = 0, sn_experience = 1000,
     sn_friendship = 70, sn_pp_bonuses = 0, sn_moves = [33, 0, 0, 0], sn_pp = [35, 0, 0, 0], sn_hp_ev = 0, sn_atk_ev = 0, sn_def_ev = 0,
     sn_spe_ev = 0, sn_spa_ev = 0, sn_spd_ev = 0, sn_hp_iv = 31, sn_atk_iv = 30, sn_def_iv = 29, sn_spe_iv = 28, sn_spa_iv = 27,
     sn_spd_iv = 26, sn_nature = 3, sn_alt_ability = 0, sn_pokerus = 0, sn_pokeball = 4, sn_met_location = 1, sn_met_level = 5,
     sn_met_game = 3, sn_level = Some 10, sn_current_hp = Some 1, sn_max_hp = Some 1, sn_status = Some 0, sn_attack = Some 20,
     sn_defense = Some 18, sn_speed = Some 15, sn_sp_attack = Some 14, sn_sp_defense = Some 13\<rparr>"

definition fresh_client :: client where
  "fresh_client = \<lparr>cl_open = True, cl_sent = [], cl_in = [], cl_send_fails = False\<rparr>"

theorem read_party_roundtrip_witness:
  "map_option fst (read_party (fresh_client\<lparr>cl_in := map Chunk [SUCCESS_PREFIX, wire_line sample_snapshot @ ''<|'', ''END|>''] @ [Timeout]\<rparr>))
     = Some (Inr [sample_snapshot])"
proof -
  have "list_all snapshot_ok [sample_snapshot]" by code_simp
  moreover have "cl_open fresh_client" "\<not> cl_send_fails fresh_client" by (simp_all add: fresh_client_def)
  moreover have "concat [SUCCESS_PREFIX, wire_line sample_snapshot @ ''<|'', ''END|>'']
      = SUCCESS_PREFIX @ join_with (CHR 0x0A) (map wire_line [sample_snapshot]) @ END_MARK" by (simp add: END_MARK_def)
  moreover have "[] \<notin> set [SUCCESS_PREFIX, wire_line sample_snapshot @ ''<|'', ''END|>'']" by (simp add: SUCCESS_PREFIX_def)
  ultimately show ?thesis by (subst read_party_roundtrip[of "[sample_snapshot]"]) simp_all
qed

end
