(* ===== verification/Trainers.thy ===== *)
theory Trainers
  imports Recorder Matcher
begin

text \<open>
  The trainer data (\<open>data/trainer.py\<close>): the text file of the trainer battles, the teams of the damage calculator, and the merge
  of the two. A file is the list of its lines and the calculator's object is given decoded (\<open>extract_setdex\<close> is not modelled).
  The regular expressions are written out as scanners.
\<close>

section \<open>Data\<close>

record trainer_mon =
  tm_name :: string
  tm_level :: int
  tm_item :: "string option"
  tm_moves :: "string list"
  tm_nature :: string
  tm_ability :: string
  tm_ivs :: "(string \<times> int) list"

text \<open>A partner is an index into the roster; \<open>enrich_trainers\<close> puts a name there.\<close>

datatype partner_ref = PIndex nat | PName string

record trainer =
  tr_name :: string
  tr_route :: string
  tr_pokemon :: "trainer_mon list"
  tr_boss :: bool
  tr_double :: bool
  tr_partner :: "partner_ref option"
  tr_tag :: "nat option"

definition mk_trainer :: "string \<Rightarrow> string \<Rightarrow> trainer" where
  "mk_trainer name route = \<lparr>tr_name = name, tr_route = route, tr_pokemon = [], tr_boss = False, tr_double = False,
     tr_partner = None, tr_tag = None\<rparr>"

definition IV_KEY_ORDER :: "string list" where
  "IV_KEY_ORDER = [''hp'', ''at'', ''df'', ''sa'', ''sd'', ''sp'']"

definition DEFAULT_IV :: int where
  "DEFAULT_IV = 31"

definition iv_tuple :: "(string \<times> int) list \<Rightarrow> int list" where
  "iv_tuple ivs = map (\<lambda>k. case map_of ivs k of None \<Rightarrow> DEFAULT_IV | Some v \<Rightarrow> v) IV_KEY_ORDER"

section \<open>Names with annotations\<close>

text \<open>The groups \<open>[...]\<close> of a name, and the name without them.\<close>

function scan_tags :: "string \<Rightarrow> string list \<times> string" where
  "scan_tags [] = ([], [])"
| "scan_tags (c # s) =
     (if c = CHR ''['' \<and> CHR '']'' \<in> set s
      then let t = takeWhile (\<lambda>x. x \<noteq> CHR '']'') s in map_prod (\<lambda>ts. t # ts) id (scan_tags (drop (Suc (length t)) s))
      else map_prod id (\<lambda>r. c # r) (scan_tags s))"
  by pat_completeness auto
termination by (relation "measure length") auto

text \<open>\<open>re.match(r"Double Battle With (.+)", t)\<close>; a later tag replaces an earlier one.\<close>

definition partner_of_tag :: "string \<Rightarrow> string option" where
  "partner_of_tag t = (if starts_with t ''Double Battle With '' then
     (case takeWhile (\<lambda>c. c \<noteq> CHR 0x0A) (drop 19 t) of [] \<Rightarrow> None | r \<Rightarrow> Some (strip r)) else None)"

definition last_partner :: "string list \<Rightarrow> string option" where
  "last_partner ts = foldl (\<lambda>acc t. case partner_of_tag t of None \<Rightarrow> acc | Some p \<Rightarrow> Some p) None ts"

text \<open>\<open>re.sub(r"\s+", " ", s).strip()\<close> joins the words of \<open>s\<close>.\<close>

definition parse_old_name :: "string \<Rightarrow> string \<times> bool \<times> bool \<times> string option" where
  "parse_old_name name = (let (tags, rest) = scan_tags name in
     (join_words (split_words rest), ''Boss'' \<in> set tags, list_ex (\<lambda>t. starts_with t ''Double'') tags, last_partner tags))"

section \<open>Locations\<close>

text \<open>\<open>re.sub(r"\(.*?\)", " ", s)\<close>: a group ends at the next bracket, on the same line.\<close>

function drop_groups :: "string \<Rightarrow> string" where
  "drop_groups [] = []"
| "drop_groups (c # s) =
     (let t = takeWhile (\<lambda>x. x \<noteq> CHR '')'') s in
      if c = CHR ''('' \<and> CHR '')'' \<in> set s \<and> CHR 0x0A \<notin> set t then CHR '' '' # drop_groups (drop (Suc (length t)) s)
      else c # drop_groups s)"
  by pat_completeness auto
termination by (relation "measure length") auto

text \<open>\<open>re.split(r",|permanent", s)[0]\<close>.\<close>

fun before_weather :: "string \<Rightarrow> string" where
  "before_weather [] = []"
| "before_weather (c # s) = (if c = CHR '','' \<or> starts_with (c # s) ''permanent'' then [] else c # before_weather s)"

definition plain_char :: "char \<Rightarrow> bool" where
  "plain_char c = (let n = (of_char c :: nat) in 97 \<le> n \<and> n \<le> 122 \<or> 48 \<le> n \<and> n \<le> 57 \<or> n = 32)"

definition LOC_REPL :: "(string \<times> string) list" where
  "LOC_REPL = [(''vr'', ''victory road''), (''inst'', ''institute'')]"

definition norm_loc :: "string \<Rightarrow> string" where
  "norm_loc s = join_words (map (\<lambda>w. case map_of LOC_REPL w of None \<Rightarrow> w | Some v \<Rightarrow> v)
     (split_words (map (\<lambda>c. if plain_char c then c else CHR '' '') (before_weather (drop_groups (lower s))))))"

definition loc_match :: "string \<Rightarrow> string \<Rightarrow> bool" where
  "loc_match location route = (let a = norm_loc location; b = norm_loc route in
     if a = [] then True
     else if has_substring a b \<or> has_substring b a then True
     else set (split_words a) \<inter> set (split_words b) \<noteq> {})"

text \<open>\<open>re.search(r"#\s*(\d+)", text)\<close>.\<close>

fun trailing_ordinal :: "string \<Rightarrow> nat" where
  "trailing_ordinal [] = 0"
| "trailing_ordinal (c # s) =
     (let ds = takeWhile is_digit (dropWhile is_space s) in
      if c = CHR ''#'' \<and> ds \<noteq> [] then foldl (\<lambda>n d. 10 * n + (of_char d - 48)) 0 ds else trailing_ordinal s)"

section \<open>Joined names\<close>

text \<open>\<open>\w\<close> in the Latin-1 range.\<close>

definition word_char :: "char \<Rightarrow> bool" where
  "word_char c = (let n = (of_char c :: nat) in 48 \<le> n \<and> n \<le> 57 \<or> 65 \<le> n \<and> n \<le> 90 \<or> 97 \<le> n \<and> n \<le> 122 \<or> n = 95
     \<or> n \<in> {170, 178, 179, 181, 185, 186, 188, 189, 190} \<or> 192 \<le> n \<and> n \<noteq> 215 \<and> n \<noteq> 247)"

text \<open>Is there a joiner, \<open>&\<close> or the word \<open>and\<close>, at the head of the text; the flag tells that the character before is of a word. Its length.\<close>

definition joiner_at :: "bool \<Rightarrow> string \<Rightarrow> nat" where
  "joiner_at after_word s =
     (if s \<noteq> [] \<and> hd s = CHR ''&'' then 1
      else if \<not> after_word \<and> starts_with (lower s) ''and'' \<and> \<not> (length s > 3 \<and> word_char (s ! 3)) then 3 else 0)"

fun unify_joiners :: "nat \<Rightarrow> bool \<Rightarrow> string \<Rightarrow> string" where
  "unify_joiners skip w [] = []"
| "unify_joiners (Suc k) w (c # s) = unify_joiners k (word_char c) s"
| "unify_joiners 0 w (c # s) =
     (case joiner_at w (c # s) of
        0 \<Rightarrow> c # unify_joiners 0 (word_char c) s
      | Suc k \<Rightarrow> '' & '' @ unify_joiners k (word_char c) s)"

definition canon_tokens :: "string \<Rightarrow> string list" where
  "canon_tokens s = split_words (lower (unify_joiners 0 False s))"

text \<open>\<open>re.split(joiner, s, maxsplit=1)[0]\<close>: the blanks before the joiner belong to it.\<close>

fun before_joiner :: "bool \<Rightarrow> string \<Rightarrow> string \<Rightarrow> string" where
  "before_joiner w acc [] = acc"
| "before_joiner w acc (c # s) =
     (if joiner_at w (c # s) > 0 then rev (dropWhile is_space (rev acc)) else before_joiner (word_char c) (acc @ [c]) s)"

text \<open>The longest clean name that heads the calculator's name; the first of equally long ones.\<close>

definition better_head :: "string list \<Rightarrow> string list \<Rightarrow> nat \<times> string option \<times> string \<Rightarrow> string \<times> string list \<Rightarrow> nat \<times> string option \<times> string" where
  "better_head ctoks raw best x =
     (let n = length (snd x) in
      if n > length ctoks \<or> n \<le> fst best then best
      else if take n ctoks = snd x then (n, Some (fst x), join_words (drop n raw)) else best)"

definition split_calc_name :: "string \<Rightarrow> (string \<times> string list) list \<Rightarrow> string option \<times> string" where
  "split_calc_name calc_name clean_index =
     (let base = (if ends_with calc_name ''Double'' then rev (dropWhile is_space (rev (take (length calc_name - 6) calc_name))) else calc_name)
      in snd (foldl (\<lambda>best cand. foldl (better_head (canon_tokens cand) (split_words cand)) best clean_index) (0, None, [])
           [base, ''Pokemon '' @ base, ''Team '' @ base]))"

section \<open>The calculator's teams\<close>

record calc_set =
  cs_level :: int
  cs_item :: "string option"
  cs_moves :: "string list"
  cs_nature :: string
  cs_ability :: string
  cs_ivs :: "(string \<times> int) list"
  cs_index :: int

text \<open>\<open>s.get("item") or None\<close>: an empty item is none.\<close>

definition mon_of_set :: "string \<Rightarrow> calc_set \<Rightarrow> trainer_mon" where
  "mon_of_set species s = \<lparr>tm_name = species, tm_level = cs_level s, tm_item = (if cs_item s = Some [] then None else cs_item s),
     tm_moves = cs_moves s, tm_nature = cs_nature s, tm_ability = cs_ability s, tm_ivs = cs_ivs s\<rparr>"

definition add_grouped :: "(string \<times> 'a list) list \<Rightarrow> string \<times> 'a \<Rightarrow> (string \<times> 'a list) list" where
  "add_grouped g x = (case map_of g (fst x) of
     None \<Rightarrow> g @ [(fst x, [snd x])] | Some l \<Rightarrow> AList.update (fst x) (l @ [snd x]) g)"

definition build_calc_trainers :: "(string \<times> (string \<times> calc_set) list) list \<Rightarrow> (string \<times> trainer_mon list) list" where
  "build_calc_trainers setdex =
     map (\<lambda>g. (fst g, map snd (sort_key fst (snd g))))
       (foldl add_grouped [] (concat (map (\<lambda>x. map (\<lambda>y. (strip (fst y), cs_index (snd y), mon_of_set (fst x) (snd y))) (snd x)) setdex)))"

section \<open>Merging the teams into the roster\<close>

definition clean_trainer :: "trainer \<Rightarrow> trainer" where
  "clean_trainer t = (let (clean, boss, double, partner) = parse_old_name (tr_name t) in
     \<lparr>tr_name = clean, tr_route = tr_route t, tr_pokemon = tr_pokemon t, tr_boss = boss, tr_double = double,
      tr_partner = map_option PName partner, tr_tag = None\<rparr>)"

definition positions_by_name :: "trainer list \<Rightarrow> (string \<times> nat list) list" where
  "positions_by_name ts = foldl add_grouped [] (map (\<lambda>x. (tr_name (snd x), fst x)) (enumerated ts))"

record resolved_name =
  rn_clean :: string
  rn_remainder :: string
  rn_ordinal :: nat
  rn_calc_name :: string
  rn_mons :: "trainer_mon list"

definition resolve_calc :: "(string \<times> string list) list \<Rightarrow> string \<times> trainer_mon list \<Rightarrow> string + resolved_name" where
  "resolve_calc clean_index x = (case split_calc_name (fst x) clean_index of
     (None, _) \<Rightarrow> Inl (fst x)
   | (Some clean, remainder) \<Rightarrow> Inr \<lparr>rn_clean = clean, rn_remainder = remainder, rn_ordinal = trailing_ordinal remainder,
       rn_calc_name = fst x, rn_mons = snd x\<rparr>)"

definition inls :: "('a + 'b) list \<Rightarrow> 'a list" where
  "inls xs = concat (map (\<lambda>x. case x of Inl a \<Rightarrow> [a] | Inr _ \<Rightarrow> []) xs)"

definition inrs :: "('a + 'b) list \<Rightarrow> 'b list" where
  "inrs xs = concat (map (\<lambda>x. case x of Inl _ \<Rightarrow> [] | Inr b \<Rightarrow> [b]) xs)"

text \<open>\<open>resolved.sort(key=lambda r: (r[0], r[2]))\<close>: stable, by name and then by ordinal.\<close>

definition sort_resolved :: "resolved_name list \<Rightarrow> resolved_name list" where
  "sort_resolved rs = sort_key rn_clean (sort_key rn_ordinal rs)"

record merge_state =
  ms_roster :: "trainer list"
  ms_claimed :: "nat list"
  ms_unmatched :: "string list"

definition choose_slot :: "(string \<times> nat list) list \<Rightarrow> merge_state \<Rightarrow> resolved_name \<Rightarrow> nat option" where
  "choose_slot by_clean m r =
     (let pool = filter (\<lambda>i. i \<notin> set (ms_claimed m)) (case map_of by_clean (rn_clean r) of None \<Rightarrow> [] | Some l \<Rightarrow> l);
          loc_part = before_joiner False [] (rn_remainder r);
          located = filter (\<lambda>i. loc_match loc_part (tr_route (ms_roster m ! i))) pool;
          has_location = list_ex (\<lambda>w. \<not> list_all is_digit w) (split_words (norm_loc loc_part)) in
      if pool = [] then None
      else if has_location \<and> located = [] then None
      else Some (hd (if located = [] then pool else located)))"

definition merge_step :: "(string \<times> nat list) list \<Rightarrow> merge_state \<Rightarrow> resolved_name \<Rightarrow> merge_state" where
  "merge_step by_clean m r = (case choose_slot by_clean m r of
     None \<Rightarrow> m\<lparr>ms_unmatched := ms_unmatched m @ [rn_calc_name r]\<rparr>
   | Some i \<Rightarrow> m\<lparr>ms_claimed := ms_claimed m @ [i], ms_roster := (ms_roster m)[i := (ms_roster m ! i)\<lparr>tr_pokemon := rn_mons r\<rparr>]\<rparr>)"

definition enrich_trainers :: "trainer list \<Rightarrow> (string \<times> trainer_mon list) list \<Rightarrow> trainer list \<times> string list \<times> nat list" where
  "enrich_trainers old calc =
     (let enriched = map clean_trainer old;
          by_clean = positions_by_name enriched;
          clean_index = map (\<lambda>x. (fst x, canon_tokens (fst x))) by_clean;
          results = map (resolve_calc clean_index) calc;
          m = foldl (merge_step by_clean) \<lparr>ms_roster = enriched, ms_claimed = [], ms_unmatched = inls results\<rparr>
                (sort_resolved (inrs results))
      in (ms_roster m, ms_unmatched m, filter (\<lambda>i. i \<notin> set (ms_claimed m)) [0..<length enriched]))"

section \<open>The text of the trainer battles\<close>

text \<open>
  \<open>re.search(r"\[([^|]+)\|([^\]]+)\]$", s)\<close>: the start of the match and its two groups. From a bracket the first group runs
  to the next bar and the second to the next closing bracket, which has to be the end.
\<close>

definition bracket_here :: "string \<Rightarrow> (string \<times> string) option" where
  "bracket_here s = (case s of [] \<Rightarrow> None | c # t \<Rightarrow>
     let u = takeWhile (\<lambda>x. x \<noteq> CHR ''|'') t; t' = drop (Suc (length u)) t; v = takeWhile (\<lambda>x. x \<noteq> CHR '']'') t' in
     if c = CHR ''['' \<and> u \<noteq> [] \<and> CHR ''|'' \<in> set t \<and> v \<noteq> [] \<and> t' = v @ '']'' then Some (u, v) else None)"

fun bracket_search :: "nat \<Rightarrow> string \<Rightarrow> (nat \<times> string \<times> string) option" where
  "bracket_search k [] = None"
| "bracket_search k (c # s) = (case bracket_here (c # s) of Some g \<Rightarrow> Some (k, g) | None \<Rightarrow> bracket_search (Suc k) s)"

text \<open>\<open>re.match(r"^(.+?)\s+Lv\.(\d+)", s)\<close>: the name, the digits and what follows.\<close>

definition level_here :: "string \<Rightarrow> (string \<times> string) option" where
  "level_here s = (let t = dropWhile is_space s; ds = takeWhile is_digit (drop 3 t) in
     if s \<noteq> [] \<and> is_space (hd s) \<and> starts_with t ''Lv.'' \<and> ds \<noteq> [] then Some (ds, drop (length ds) (drop 3 t)) else None)"

fun level_search :: "string \<Rightarrow> string \<Rightarrow> (string \<times> string \<times> string) option" where
  "level_search pre [] = None"
| "level_search pre (c # s) =
     (if pre = [] then (if c = CHR 0x0A then None else level_search [c] s)
      else case level_here (c # s) of
        Some (ds, rest) \<Rightarrow> Some (pre, ds, rest)
      | None \<Rightarrow> if c = CHR 0x0A then None else level_search (pre @ [c]) s)"

fun split_commas :: "string \<Rightarrow> string \<Rightarrow> string list" where
  "split_commas cur [] = [cur]"
| "split_commas cur (c # s) = (if c = CHR '','' then cur # split_commas [] s else split_commas (cur @ [c]) s)"

definition move_list :: "string \<Rightarrow> string list" where
  "move_list rest = filter (\<lambda>m. m \<noteq> []) (map strip (split_commas [] rest))"

text \<open>The start of the match counts in the stripped line and is applied to the line itself.\<close>

definition parse_text_pokemon_line :: "string \<Rightarrow> trainer_mon res" where
  "parse_text_pokemon_line line =
     (case bracket_search 0 (strip line) of
        None \<Rightarrow> Inl ValueError
      | Some (start, nature, ability) \<Rightarrow>
          (case level_search [] (strip (take start line)) of
             None \<Rightarrow> Inl ValueError
           | Some (name, ds, after) \<Rightarrow>
               rbind (parse_int ds) (\<lambda>level.
               let rest = strip after; mon = (\<lambda>item moves. \<lparr>tm_name = strip name, tm_level = level, tm_item = item, tm_moves = moves,
                     tm_nature = strip nature, tm_ability = strip ability, tm_ivs = []\<rparr>) in
               if starts_with rest ''@'' then
                 if CHR '':'' \<notin> set rest then Inl ValueError
                 else let item = takeWhile (\<lambda>c. c \<noteq> CHR '':'') rest in
                   Inr (mon (Some (strip (tl item))) (move_list (strip (drop (Suc (length item)) rest))))
               else Inr (mon None (move_list rest)))))"

text \<open>The state of the loop; the current trainer is its position in the roster.\<close>

record text_state =
  ts_trainers :: "trainer list"
  ts_route :: string
  ts_current :: "nat option"
  ts_pending_route :: "string option"
  ts_in_separator :: bool
  ts_partner_name :: "string option"
  ts_lead :: "nat option"

definition text_start :: text_state where
  "text_start = \<lparr>ts_trainers = [], ts_route = ''Unknown'', ts_current = None, ts_pending_route = None, ts_in_separator = False,
     ts_partner_name = None, ts_lead = None\<rparr>"

definition separator_line :: "text_state \<Rightarrow> text_state" where
  "separator_line t =
     (if \<not> ts_in_separator t then t\<lparr>ts_in_separator := True, ts_pending_route := None, ts_current := None\<rparr>
      else t\<lparr>ts_in_separator := False, ts_current := None, ts_pending_route := None,
             ts_route := (case ts_pending_route t of None \<Rightarrow> ts_route t | Some r \<Rightarrow> r)\<rparr>)"

definition ally_line :: "text_state \<Rightarrow> text_state res" where
  "ally_line t = (case (ts_partner_name t, ts_lead t) of
     (Some name, Some lead) \<Rightarrow>
       let ally_idx = length (ts_trainers t);
           linked = (ts_trainers t)[lead := (ts_trainers t ! lead)\<lparr>tr_partner := Some (PIndex ally_idx)\<rparr>];
           ally = (mk_trainer name (ts_route t))\<lparr>tr_double := True, tr_partner := Some (PIndex lead)\<rparr>
       in Inr (t\<lparr>ts_trainers := linked @ [ally], ts_current := Some ally_idx, ts_partner_name := None, ts_lead := None\<rparr>)
   | _ \<Rightarrow> Inl ValueError)"

definition mon_line :: "string \<Rightarrow> text_state \<Rightarrow> text_state res" where
  "mon_line line t = (case ts_current t of
     None \<Rightarrow> Inr t
   | Some k \<Rightarrow> rbind (parse_text_pokemon_line line) (\<lambda>mon.
       Inr (t\<lparr>ts_trainers := (ts_trainers t)[k := (ts_trainers t ! k)\<lparr>tr_pokemon := tr_pokemon (ts_trainers t ! k) @ [mon]\<rparr>]\<rparr>)))"

definition header_line :: "string \<Rightarrow> text_state \<Rightarrow> text_state" where
  "header_line body t = (let (clean, boss, double, partner) = parse_old_name body; k = length (ts_trainers t) in
     t\<lparr>ts_trainers := ts_trainers t @ [(mk_trainer clean (ts_route t))\<lparr>tr_boss := boss, tr_double := double\<rparr>],
       ts_current := Some k, ts_lead := Some k, ts_partner_name := partner\<rparr>)"

definition rstrip :: "string \<Rightarrow> string" where
  "rstrip s = rev (dropWhile is_space (rev s))"

definition text_line :: "text_state \<Rightarrow> string \<Rightarrow> text_state res" where
  "text_line t raw =
     (let line = rstrip raw; body = strip line in
      if body = ''------'' then Inr (separator_line t)
      else if ts_in_separator t then Inr (t\<lparr>ts_pending_route := Some body\<rparr>)
      else if body = [] \<or> starts_with body ''- '' then Inr t
      else if body = ''~'' then ally_line t
      else if has_substring ''Lv.'' line then mon_line line t
      else Inr (header_line body t))"

definition parse_trainers_from_text :: "string list \<Rightarrow> trainer list res" where
  "parse_trainers_from_text lines = rbind (rfold text_line text_start lines) (\<lambda>t. Inr (ts_trainers t))"

section \<open>Partners\<close>

text \<open>Partners point at each other, and both fight in a double battle.\<close>

definition linked :: "trainer list \<Rightarrow> nat \<Rightarrow> nat \<Rightarrow> bool" where
  "linked ts i j \<longleftrightarrow> j < length ts \<and> j \<noteq> i \<and> tr_partner (ts ! j) = Some (PIndex i) \<and> tr_double (ts ! i) \<and> tr_double (ts ! j)"

definition partners_linked :: "trainer list \<Rightarrow> bool" where
  "partners_linked ts \<longleftrightarrow> (\<forall>i < length ts. \<forall>p. tr_partner (ts ! i) = Some p \<longrightarrow> (\<exists>j. p = PIndex j \<and> linked ts i j))"

definition text_ok :: "text_state \<Rightarrow> bool" where
  "text_ok t \<longleftrightarrow> partners_linked (ts_trainers t)
     \<and> (case ts_current t of None \<Rightarrow> True | Some k \<Rightarrow> k < length (ts_trainers t))
     \<and> (case ts_lead t of None \<Rightarrow> True | Some k \<Rightarrow> k < length (ts_trainers t) \<and> tr_partner (ts_trainers t ! k) = None
          \<and> (ts_partner_name t \<noteq> None \<longrightarrow> tr_double (ts_trainers t ! k)))"

lemma partners_linkedD:
  assumes "partners_linked ts" "i < length ts" "tr_partner (ts ! i) = Some p"
  obtains j where "p = PIndex j" "linked ts i j"
  using assms unfolding partners_linked_def by blast

lemma partners_snoc:
  assumes "partners_linked ts" "tr_partner t = None"
  shows "partners_linked (ts @ [t])"
  unfolding partners_linked_def
proof (intro allI impI)
  fix i p
  assume i: "i < length (ts @ [t])" and p: "tr_partner ((ts @ [t]) ! i) = Some p"
  have i': "i < length ts"
  proof (rule ccontr)
    assume "\<not> i < length ts"
    with i have "(ts @ [t]) ! i = t" by (simp add: nth_append)
    with p assms(2) show False by simp
  qed
  with p have "tr_partner (ts ! i) = Some p" by (simp add: nth_append)
  with partners_linkedD[OF assms(1) i'] obtain j where "p = PIndex j" "linked ts i j" by metis
  then show "\<exists>j. p = PIndex j \<and> linked (ts @ [t]) i j" using i' by (intro exI[of _ j]) (simp add: linked_def nth_append)
qed

lemma partners_same:
  assumes "partners_linked ts" "length us = length ts"
    and same: "\<And>i. i < length ts \<Longrightarrow> tr_partner (us ! i) = tr_partner (ts ! i) \<and> tr_double (us ! i) = tr_double (ts ! i)"
  shows "partners_linked us"
  unfolding partners_linked_def
proof (intro allI impI)
  fix i p
  assume i: "i < length us" and p: "tr_partner (us ! i) = Some p"
  then have i': "i < length ts" "tr_partner (ts ! i) = Some p" using assms(2) same[of i] by simp_all
  with partners_linkedD[OF assms(1)] obtain j where j: "p = PIndex j" "linked ts i j" by metis
  then have "linked us i j" using same[of i] same[of j] i' assms(2) by (simp add: linked_def)
  with j(1) show "\<exists>j. p = PIndex j \<and> linked us i j" by blast
qed

lemma partners_ally:
  assumes "partners_linked ts" "k < length ts" "tr_partner (ts ! k) = None" "tr_double (ts ! k)" "tr_double a"
  shows "partners_linked (ts[k := (ts ! k)\<lparr>tr_partner := Some (PIndex (length ts))\<rparr>] @ [a\<lparr>tr_partner := Some (PIndex k)\<rparr>])" (is "partners_linked ?us")
  unfolding partners_linked_def
proof (intro allI impI)
  have at_k: "?us ! k = (ts ! k)\<lparr>tr_partner := Some (PIndex (length ts))\<rparr>" using assms(2) by (simp add: nth_append)
  have at_end: "?us ! length ts = a\<lparr>tr_partner := Some (PIndex k)\<rparr>" by (simp add: nth_append)
  have else_same: "?us ! j = ts ! j" if "j < length ts" "j \<noteq> k" for j using that by (simp add: nth_append)
  have both: "linked ?us k (length ts)" "linked ?us (length ts) k"
    using assms(2,4,5) at_k at_end by (simp_all add: linked_def)
  fix i p
  assume i: "i < length ?us" and p: "tr_partner (?us ! i) = Some p"
  consider "i = length ts" | "i = k" | "i < length ts" "i \<noteq> k" using i by (auto simp: less_Suc_eq)
  then show "\<exists>j. p = PIndex j \<and> linked ?us i j"
  proof cases
    case 1
    then show ?thesis using p at_end both by auto
  next
    case 2
    then show ?thesis using p at_k both by auto
  next
    case 3
    then have "tr_partner (ts ! i) = Some p" using p else_same[of i] by simp
    with partners_linkedD[OF assms(1) 3(1)] obtain j where j: "p = PIndex j" "linked ts i j" by metis
    then have "j \<noteq> k" using assms(3) by (auto simp: linked_def)
    then have "linked ?us i j" using j(2) 3 else_same[of i] else_same[of j] by (simp add: linked_def)
    with j(1) show ?thesis by blast
  qed
qed

lemma starts_with_shorter: "starts_with s (p @ q) \<Longrightarrow> starts_with s p"
proof -
  assume "starts_with s (p @ q)"
  then have "take (length p) (take (length p + length q) s) = take (length p) (p @ q)" by (simp add: starts_with_def)
  then show ?thesis by (simp add: starts_with_def)
qed

lemma partner_needs_double: "last_partner ts \<noteq> None \<Longrightarrow> list_ex (\<lambda>t. starts_with t ''Double'') ts"
proof -
  have prefix: "starts_with t ''Double''" if "partner_of_tag t \<noteq> None" for t
  proof -
    have "starts_with t (''Double'' @ '' Battle With '')" using that by (simp add: partner_of_tag_def split: if_splits)
    then show ?thesis by (rule starts_with_shorter)
  qed
  have "foldl (\<lambda>acc t. case partner_of_tag t of None \<Rightarrow> acc | Some p \<Rightarrow> Some p) a ts \<noteq> None \<Longrightarrow>
      a \<noteq> None \<or> list_ex (\<lambda>t. starts_with t ''Double'') ts" for a
  proof (induction ts arbitrary: a)
    case (Cons t ts)
    from Cons.IH[OF Cons.prems[unfolded foldl_Cons]] prefix[of t] show ?case by (auto split: option.splits)
  qed simp
  from this[of None] show "last_partner ts \<noteq> None \<Longrightarrow> list_ex (\<lambda>t. starts_with t ''Double'') ts" by (simp add: last_partner_def)
qed

lemma text_ok_header: "text_ok t \<Longrightarrow> text_ok (header_line body t)"
proof -
  assume ok: "text_ok t"
  obtain tags rest where scan: "scan_tags body = (tags, rest)" by fastforce
  let ?h = "(mk_trainer (join_words (split_words rest)) (ts_route t))\<lparr>tr_boss := ''Boss'' \<in> set tags, tr_double := list_ex (\<lambda>t. starts_with t ''Double'') tags\<rparr>"
  have "partners_linked (ts_trainers t @ [?h])" using ok by (intro partners_snoc) (simp_all add: text_ok_def mk_trainer_def)
  then show ?thesis using partner_needs_double[of tags]
    by (simp add: header_line_def parse_old_name_def scan text_ok_def Let_def mk_trainer_def)
qed

lemma text_ok_ally: "text_ok t \<Longrightarrow> ally_line t = Inr t' \<Longrightarrow> text_ok t'"
proof -
  assume ok: "text_ok t" and run: "ally_line t = Inr t'"
  then obtain name k where pn: "ts_partner_name t = Some name" "ts_lead t = Some k"
    by (auto simp: ally_line_def split: option.splits)
  have "partners_linked ((ts_trainers t)[k := (ts_trainers t ! k)\<lparr>tr_partner := Some (PIndex (length (ts_trainers t)))\<rparr>]
      @ [((mk_trainer name (ts_route t))\<lparr>tr_double := True\<rparr>)\<lparr>tr_partner := Some (PIndex k)\<rparr>])"
    using ok pn by (intro partners_ally) (simp_all add: text_ok_def)
  then show ?thesis using run pn by (auto simp: ally_line_def text_ok_def Let_def)
qed

lemma text_ok_mon: "text_ok t \<Longrightarrow> mon_line line t = Inr t' \<Longrightarrow> text_ok t'"
proof (cases "ts_current t")
  case None
  then show "text_ok t \<Longrightarrow> mon_line line t = Inr t' \<Longrightarrow> text_ok t'" by (simp add: mon_line_def)
next
  case (Some k)
  assume ok: "text_ok t" and run: "mon_line line t = Inr t'"
  then have k: "k < length (ts_trainers t)" using Some by (simp add: text_ok_def)
  from run Some obtain mon where t': "t' = t\<lparr>ts_trainers := (ts_trainers t)[k := (ts_trainers t ! k)\<lparr>tr_pokemon := tr_pokemon (ts_trainers t ! k) @ [mon]\<rparr>]\<rparr>"
    by (auto simp: mon_line_def rbind_eq_Inr)
  then have len: "length (ts_trainers t') = length (ts_trainers t)" by simp
  have same: "tr_partner (ts_trainers t' ! i) = tr_partner (ts_trainers t ! i) \<and> tr_double (ts_trainers t' ! i) = tr_double (ts_trainers t ! i)"
    if "i < length (ts_trainers t)" for i
    using that k t' by (cases "i = k") simp_all
  have "partners_linked (ts_trainers t')"
    by (rule partners_same[of "ts_trainers t"]) (use ok same len in \<open>simp_all add: text_ok_def\<close>)
  moreover have "case ts_lead t of None \<Rightarrow> True | Some l \<Rightarrow> l < length (ts_trainers t') \<and> tr_partner (ts_trainers t' ! l) = None
      \<and> (ts_partner_name t \<noteq> None \<longrightarrow> tr_double (ts_trainers t' ! l))"
  proof (cases "ts_lead t")
    case lead: (Some l)
    then have "l < length (ts_trainers t)" "tr_partner (ts_trainers t ! l) = None" "ts_partner_name t \<noteq> None \<longrightarrow> tr_double (ts_trainers t ! l)"
      using ok by (simp_all add: text_ok_def)
    then show ?thesis using same[of l] len lead by simp
  qed simp
  moreover have "ts_lead t' = ts_lead t" "ts_partner_name t' = ts_partner_name t" "ts_current t' = Some k" using t' Some by simp_all
  ultimately show "text_ok t'" using k len by (cases "ts_lead t") (simp_all add: text_ok_def)
qed

lemma text_ok_separator: "text_ok t \<Longrightarrow> text_ok (separator_line t)"
  by (cases "ts_lead t") (simp_all add: separator_line_def text_ok_def)

lemma text_ok_pending: "text_ok (t\<lparr>ts_pending_route := r\<rparr>) = text_ok t"
  by (cases "ts_lead t"; cases "ts_current t") (simp_all add: text_ok_def)

lemma text_ok_line:
  assumes "text_ok t" "text_line t raw = Inr t'"
  shows "text_ok t'"
  using assms(2) text_ok_header[OF assms(1)] text_ok_ally[OF assms(1)] text_ok_mon[OF assms(1)] text_ok_separator[OF assms(1)]
    assms(1) text_ok_pending[of _ t]
  by (simp add: text_line_def Let_def split: if_splits) auto

lemma text_ok_start: "text_ok text_start"
  by (simp add: text_start_def text_ok_def partners_linked_def)

text \<open>
  The parsed roster of the trainer battles. Whatever the lines of the file, when the parser returns, the partner of a trainer is
  another trainer of the roster whose partner is the first, and both are marked as double battles.
\<close>

theorem roster_partners_linked:
  assumes "parse_trainers_from_text lines = Inr ts" "i < length ts" "tr_partner (ts ! i) = Some p"
  shows "\<exists>j. p = PIndex j \<and> j < length ts \<and> j \<noteq> i \<and> tr_partner (ts ! j) = Some (PIndex i) \<and> tr_double (ts ! i) \<and> tr_double (ts ! j)"
proof -
  from assms(1) obtain t where t: "rfold text_line text_start lines = Inr t" "ts = ts_trainers t"
    by (auto simp: parse_trainers_from_text_def rbind_eq_Inr)
  have "text_ok t" using t(1) text_ok_start text_ok_line by (rule rfold_invariant)
  then have "partners_linked ts" by (simp add: text_ok_def t)
  from partners_linkedD[OF this assms(2,3)] show ?thesis by (auto simp: linked_def)
qed

definition sample_battles :: "string list" where
  "sample_battles = [''------'', ''Route 102'', ''------'', ''Winstrate Vito [Double Battle With Winstrate Vicky]'',
     ''Zigzagoon Lv.12 @Oran Berry: Tackle, Growl [Jolly|Pickup]'', ''~'', ''Poochyena Lv.13 @Oran Berry: Bite [Adamant|Run Away]'']"

theorem roster_partners_linked_witness:
  "\<exists>ts. parse_trainers_from_text sample_battles = Inr ts \<and> tr_partner (ts ! 1) = Some (PIndex 0) \<and> tr_double (ts ! 1)"
proof -
  have "map_sum id (\<lambda>ts. (length ts, map tr_partner ts)) (parse_trainers_from_text sample_battles) = Inr (2, [Some (PIndex 1), Some (PIndex 0)])"
    by code_simp
  then obtain ts where ts: "parse_trainers_from_text sample_battles = Inr ts" "length ts = 2" "map tr_partner ts = [Some (PIndex 1), Some (PIndex 0)]"
    by (cases "parse_trainers_from_text sample_battles") auto
  then have "0 < length ts" "tr_partner (ts ! 0) = Some (PIndex 1)" using nth_map[of 0 ts tr_partner] by simp_all
  from roster_partners_linked[OF ts(1) this] ts(1) show ?thesis by auto
qed

text \<open>A line with leading blanks loses as many characters before the bracket; without an item the colon stays with the first move.\<close>

lemma indented_line_cut:
  "map_sum id tm_moves (parse_text_pokemon_line ''Zigzagoon Lv.12 @Oran Berry: Tackle [Jolly|Pickup]'') = Inr [''Tackle'']"
  "map_sum id tm_moves (parse_text_pokemon_line ''  Zigzagoon Lv.12 @Oran Berry: Tackle [Jolly|Pickup]'') = Inr [''Tackl'']"
  by code_simp+

lemma itemless_line_colon:
  "map_sum id tm_moves (parse_text_pokemon_line ''Zigzagoon Lv.12: Tackle [Jolly|Pickup]'') = Inr ['': Tackle'']"
  by code_simp

section \<open>The merge\<close>

lemma inls_inrs_count: "length (inls xs) + length (inrs xs) = length xs"
  by (induction xs) (auto simp: inls_def inrs_def split: sum.splits)

lemma add_grouped_mem:
  assumes "(k, l) \<in> set (foldl add_grouped g xs)" "v \<in> set l" "distinct (map fst g)"
  shows "(k, v) \<in> set xs \<or> (\<exists>l'. (k, l') \<in> set g \<and> v \<in> set l')"
  using assms
proof (induction xs arbitrary: g)
  case (Cons x xs)
  have d: "distinct (map fst (add_grouped g x))"
    using Cons.prems(3) by (auto simp: add_grouped_def map_of_eq_None_iff distinct_update split: option.splits)
  from Cons.IH[OF _ Cons.prems(2) d] Cons.prems(1)
  consider "(k, v) \<in> set xs" | l' where "(k, l') \<in> set (add_grouped g x)" "v \<in> set l'" by auto
  then show ?case
  proof cases
    case 2
    show ?thesis
    proof (cases "map_of g (fst x)")
      case None
      then show ?thesis using 2 by (auto simp: add_grouped_def)
    next
      case (Some m)
      have "map_of (AList.update (fst x) (m @ [snd x]) g) k = Some l'"
        using 2(1) Some Cons.prems(3) by (simp add: add_grouped_def distinct_update)
      then have "if k = fst x then l' = m @ [snd x] else map_of g k = Some l'" by (simp add: update_conv' split: if_splits)
      then show ?thesis using 2(2) Some by (auto split: if_splits dest: map_of_SomeD)
    qed
  qed auto
qed auto

lemma positions_sound:
  assumes "map_of (positions_by_name ts) n = Some l" "i \<in> set l"
  shows "i < length ts \<and> tr_name (ts ! i) = n"
  using add_grouped_mem[OF map_of_SomeD[OF assms(1)[unfolded positions_by_name_def]] assms(2)]
  by (auto simp: set_enumerated)

text \<open>What a state of the merge has given: position and calculator entry of each team that was placed.\<close>

type_synonym claims = "(nat \<times> string \<times> trainer_mon list) list"

definition place :: "claims \<Rightarrow> nat \<Rightarrow> trainer \<Rightarrow> trainer" where
  "place cs i t = (case map_of cs i of None \<Rightarrow> t | Some x \<Rightarrow> t\<lparr>tr_pokemon := snd x\<rparr>)"

definition merge_ok :: "trainer list \<Rightarrow> (string \<times> trainer_mon list) list \<Rightarrow> string list \<Rightarrow> merge_state \<Rightarrow> claims \<Rightarrow> bool" where
  "merge_ok base seen skipped m cs \<longleftrightarrow> ms_claimed m = map fst cs \<and> distinct (map fst cs) \<and> set (map fst cs) \<subseteq> {..<length base}
     \<and> ms_roster m = map (\<lambda>i. place cs i (base ! i)) [0..<length base]
     \<and> mset (map snd cs) \<subseteq># mset seen
     \<and> mset (map (fst \<circ> snd) cs) + mset (ms_unmatched m) = mset skipped + mset (map fst seen)"

lemma choose_slot_sound:
  assumes "choose_slot (positions_by_name base) m r = Some i"
  shows "i < length base \<and> i \<notin> set (ms_claimed m)"
proof -
  define pool where "pool = filter (\<lambda>i. i \<notin> set (ms_claimed m)) (case map_of (positions_by_name base) (rn_clean r) of None \<Rightarrow> [] | Some l \<Rightarrow> l)"
  define located where "located = filter (\<lambda>i. loc_match (before_joiner False [] (rn_remainder r)) (tr_route (ms_roster m ! i))) pool"
  from assms have "pool \<noteq> [] \<and> i = hd (if located = [] then pool else located)"
    unfolding choose_slot_def Let_def pool_def[symmetric] located_def[symmetric] by (simp split: if_splits)
  moreover have "set located \<subseteq> set pool" by (auto simp: located_def)
  ultimately have "i \<in> set pool" using hd_in_set[of located] hd_in_set[of pool] by (cases "located = []") auto
  then obtain l where "map_of (positions_by_name base) (rn_clean r) = Some l" "i \<in> set l" "i \<notin> set (ms_claimed m)"
    unfolding pool_def by (cases "map_of (positions_by_name base) (rn_clean r)") simp_all
  with positions_sound show ?thesis by blast
qed

lemma merge_step_ok:
  assumes "merge_ok base seen skipped m cs"
  shows "\<exists>cs'. merge_ok base (seen @ [(rn_calc_name r, rn_mons r)]) skipped (merge_step (positions_by_name base) m r) cs'"
proof (cases "choose_slot (positions_by_name base) m r")
  case None
  then have "merge_ok base (seen @ [(rn_calc_name r, rn_mons r)]) skipped (merge_step (positions_by_name base) m r) cs"
    using assms by (auto simp: merge_ok_def merge_step_def intro: subset_mset.order_trans)
  then show ?thesis by blast
next
  case (Some i)
  note i = choose_slot_sound[OF Some]
  let ?cs = "cs @ [(i, rn_calc_name r, rn_mons r)]"
  have fresh: "i \<notin> fst ` set cs" using i assms by (auto simp: merge_ok_def)
  then have none: "map_of cs i = None" by (simp add: map_of_eq_None_iff)
  then have "map_of ?cs j = (if j = i then Some (rn_calc_name r, rn_mons r) else map_of cs j)" for j
    by (cases "map_of cs j") (auto simp: map_add_def)
  then have "place ?cs j (base ! j) = (if j = i then (place cs i (base ! i))\<lparr>tr_pokemon := rn_mons r\<rparr> else place cs j (base ! j))" for j
    using none by (simp add: place_def)
  then have "map (\<lambda>j. place ?cs j (base ! j)) [0..<length base]
      = (map (\<lambda>j. place cs j (base ! j)) [0..<length base])[i := (place cs i (base ! i))\<lparr>tr_pokemon := rn_mons r\<rparr>]"
    using i by (intro nth_equalityI) (simp_all add: nth_list_update)
  then have "merge_ok base (seen @ [(rn_calc_name r, rn_mons r)]) skipped (merge_step (positions_by_name base) m r) ?cs"
    using assms Some i fresh by (auto simp: merge_ok_def merge_step_def)
  then show ?thesis by blast
qed

lemma merge_fold_ok:
  assumes "merge_ok base seen skipped m cs"
  shows "\<exists>cs'. merge_ok base (seen @ map (\<lambda>r. (rn_calc_name r, rn_mons r)) rs) skipped (foldl (merge_step (positions_by_name base)) m rs) cs'"
  using assms
proof (induction rs arbitrary: m cs seen)
  case Nil
  then show ?case by auto
next
  case (Cons r rs)
  from merge_step_ok[OF Cons.prems] obtain cs' where
    "merge_ok base (seen @ [(rn_calc_name r, rn_mons r)]) skipped (merge_step (positions_by_name base) m r) cs'" by blast
  from Cons.IH[OF this] show ?case by simp
qed

lemma subset_add: "A \<subseteq># M \<Longrightarrow> A \<subseteq># add_mset x M"
  by (metis add_mset_add_single mset_subset_eq_add_left subset_mset.order_trans)

lemma resolved_entries:
  "mset (inls (map (resolve_calc ix) calc)) + mset (map rn_calc_name (inrs (map (resolve_calc ix) calc))) = mset (map fst calc)"
  "mset (map (\<lambda>r. (rn_calc_name r, rn_mons r)) (inrs (map (resolve_calc ix) calc))) \<subseteq># mset calc"
  by (induction calc) (auto simp: inls_def inrs_def resolve_calc_def subset_add split: prod.splits option.splits)

lemma mset_sort_resolved [simp]: "mset (sort_resolved rs) = mset rs"
  by (simp add: sort_resolved_def)

text \<open>
  C30: The merge of the calculator's teams into the roster. Every trainer keeps its position, its cleaned name and its route; the team
  of a trainer changes only to a team of the calculator, no team goes to two trainers, and the third result lists exactly the
  trainers without one. Every entry of the calculator is either placed or reported as unmatched, once for each of its occurrences.
\<close>

theorem merge_places_each_once:
  "\<exists>claims. distinct (map fst claims) \<and> mset (map snd claims) \<subseteq># mset calc
    \<and> mset (map (fst \<circ> snd) claims) + mset (fst (snd (enrich_trainers old calc))) = mset (map fst calc)
    \<and> fst (enrich_trainers old calc) = map (\<lambda>i. place claims i (clean_trainer (old ! i))) [0..<length old]
    \<and> snd (snd (enrich_trainers old calc)) = filter (\<lambda>i. i \<notin> fst ` set claims) [0..<length old]
    \<and> fst ` set claims \<subseteq> {..<length old}"
proof -
  let ?base = "map clean_trainer old"
  let ?ix = "map (\<lambda>x. (fst x, canon_tokens (fst x))) (positions_by_name ?base)"
  let ?res = "map (resolve_calc ?ix) calc"
  let ?rs = "sort_resolved (inrs ?res)"
  let ?start = "\<lparr>ms_roster = ?base, ms_claimed = [], ms_unmatched = inls ?res\<rparr>"
  let ?m = "foldl (merge_step (positions_by_name ?base)) ?start ?rs"
  have "merge_ok ?base [] (inls ?res) ?start []"
    using map_nth[of ?base] by (simp add: merge_ok_def place_def del: nth_map)
  from merge_fold_ok[OF this, of ?rs] obtain cs where cs: "merge_ok ?base (map (\<lambda>r. (rn_calc_name r, rn_mons r)) ?rs) (inls ?res) ?m cs" by auto
  have run: "enrich_trainers old calc = (ms_roster ?m, ms_unmatched ?m, filter (\<lambda>i. i \<notin> set (ms_claimed ?m)) [0..<length old])"
    by (simp add: enrich_trainers_def Let_def)
  have "mset (map snd cs) \<subseteq># mset calc"
    using cs resolved_entries(2)[of ?ix calc] by (auto simp: merge_ok_def intro: subset_mset.order_trans)
  moreover have "mset (map (fst \<circ> snd) cs) + mset (ms_unmatched ?m) = mset (map fst calc)"
    using cs resolved_entries(1)[of ?ix calc] by (simp add: merge_ok_def image_mset.compositionality comp_def)
  moreover have "ms_roster ?m = map (\<lambda>i. place cs i (clean_trainer (old ! i))) [0..<length old]"
    using cs by (simp add: merge_ok_def)
  moreover have "distinct (map fst cs)" "ms_claimed ?m = map fst cs" "fst ` set cs \<subseteq> {..<length old}" using cs by (simp_all add: merge_ok_def)
  ultimately show ?thesis unfolding run by (intro exI[of _ cs]) simp
qed

text \<open>A name without annotations has no flags, so the merge clears the flags that the text parser has set.\<close>

lemma scan_tags_plain: "CHR ''['' \<notin> set s \<Longrightarrow> scan_tags s = ([], s)"
  by (induction s) auto

lemma merge_clears_flags:
  assumes "CHR ''['' \<notin> set (tr_name t)"
  shows "\<not> tr_boss (clean_trainer t) \<and> \<not> tr_double (clean_trainer t) \<and> tr_partner (clean_trainer t) = None"
  using assms by (simp add: clean_trainer_def parse_old_name_def scan_tags_plain last_partner_def)

end
