(* ===== verification/EnumTables.thy ===== *)
theory EnumTables
  imports Names "HOL-Library.Multiset"
begin

text \<open>
  The members of the enums \<open>Move\<close>, \<open>Species\<close>, \<open>Item\<close> and \<open>Ability\<close> (\<open>data/moves.py\<close>, \<open>data/species.py\<close>, \<open>data/items.py\<close>,
  \<open>data/abilities.py\<close>) in definition order, with their values. A member whose value was used before is an alias of the first.
\<close>

section \<open>Reading an enum\<close>

text \<open>\<open>Enum.__members__\<close> has the aliases; iterating over the enum does not.\<close>

fun flag_members :: "int list \<Rightarrow> (string \<times> int) list \<Rightarrow> (string \<times> int \<times> bool) list" where
  "flag_members seen [] = []"
| "flag_members seen ((n, v) # rows) = (n, v, v \<notin> set seen) # flag_members (v # seen) rows"

definition enum_members :: "(string \<times> int) list \<Rightarrow> (string \<times> int \<times> bool) list" where
  "enum_members rows = flag_members [] rows"

text \<open>\<open>Enum(v)\<close> raises for a value that no member has.\<close>

definition enum_of_value :: "(string \<times> int) list \<Rightarrow> int \<Rightarrow> int res" where
  "enum_of_value rows v = (if v \<in> snd ` set rows then Inr v else Inl ValueError)"

section \<open>Checks on long lists\<close>

text \<open>Sorting by merging, and ascending lists in one pass: what the checks of the tables evaluate.\<close>

fun merge_asc :: "int list \<Rightarrow> int list \<Rightarrow> int list" where
  "merge_asc [] ys = ys"
| "merge_asc xs [] = xs"
| "merge_asc (x # xs) (y # ys) = (if x \<le> y then x # merge_asc xs (y # ys) else y # merge_asc (x # xs) ys)"

fun merge_pairs :: "int list list \<Rightarrow> int list list" where
  "merge_pairs (xs # ys # zss) = merge_asc xs ys # merge_pairs zss"
| "merge_pairs zss = zss"

lemma length_merge_pairs [simp]: "length (merge_pairs zss) = (length zss + 1) div 2"
  by (induction zss rule: merge_pairs.induct) auto

function merge_runs :: "int list list \<Rightarrow> int list" where
  "merge_runs [] = []"
| "merge_runs [xs] = xs"
| "merge_runs (xs # ys # zss) = merge_runs (merge_pairs (xs # ys # zss))"
  by pat_completeness auto
termination by (relation "measure length") auto

definition msort :: "int list \<Rightarrow> int list" where
  "msort xs = merge_runs (map (\<lambda>x. [x]) xs)"

lemma mset_merge_asc [simp]: "mset (merge_asc xs ys) = mset xs + mset ys"
  by (induction xs ys rule: merge_asc.induct) auto

lemma mset_merge_pairs: "mset (concat (merge_pairs zss)) = mset (concat zss)"
  by (induction zss rule: merge_pairs.induct) auto

lemma mset_merge_runs: "mset (merge_runs zss) = mset (concat zss)"
proof (induction zss rule: merge_runs.induct)
  case (3 xs ys zss)
  then show ?case using mset_merge_pairs[of "xs # ys # zss"] by simp
qed simp_all

lemma mset_msort [simp]: "mset (msort xs) = mset xs"
proof -
  have "concat (map (\<lambda>x. [x]) xs) = xs" by (induction xs) auto
  then show ?thesis by (simp add: msort_def mset_merge_runs)
qed

lemma set_msort [simp]: "set (msort xs) = set xs"
  by (metis mset_msort set_mset_mset)

fun ascending :: "int list \<Rightarrow> bool" where
  "ascending [] = True"
| "ascending [x] = True"
| "ascending (x # y # zs) = (x < y \<and> ascending (y # zs))"

lemma ascending_head: "ascending (x # xs) \<Longrightarrow> y \<in> set xs \<Longrightarrow> x < y"
  by (induction xs arbitrary: x) force+

lemma ascending_distinct: "ascending xs \<Longrightarrow> distinct xs"
proof (induction xs)
  case (Cons x xs)
  then show ?case using ascending_head[OF Cons.prems] by (cases xs) auto
qed simp

lemma distinct_by_sorting: "ascending (msort xs) \<Longrightarrow> distinct xs"
  using ascending_distinct[of "msort xs"] by (metis mset_eq_imp_distinct_iff mset_msort)

text \<open>Inclusion of one ascending list in another.\<close>

fun asc_subset :: "int list \<Rightarrow> int list \<Rightarrow> bool" where
  "asc_subset [] ys = True"
| "asc_subset (x # xs) [] = False"
| "asc_subset (x # xs) (y # ys) = (if x = y then asc_subset xs (y # ys) else asc_subset (x # xs) ys)"

lemma asc_subset_sound: "asc_subset xs ys \<Longrightarrow> set xs \<subseteq> set ys"
  by (induction xs ys rule: asc_subset.induct) (auto split: if_splits)

lemma subset_by_sorting: "asc_subset (msort xs) (msort ys) \<Longrightarrow> set xs \<subseteq> set ys"
  using asc_subset_sound[of "msort xs" "msort ys"] by simp

section \<open>Moves\<close>

definition MOVE_MEMBERS_1 :: "(string \<times> int) list" where
  "MOVE_MEMBERS_1 = [
     (''NONE'', 0), (''POUND'', 1), (''KARATE_CHOP'', 2), (''DOUBLE_SLAP'', 3),
     (''COMET_PUNCH'', 4), (''MEGA_PUNCH'', 5), (''PAY_DAY'', 6), (''FIRE_PUNCH'', 7),
     (''ICE_PUNCH'', 8), (''THUNDER_PUNCH'', 9), (''SCRATCH'', 10), (''VISE_GRIP'', 11),
     (''GUILLOTINE'', 12), (''RAZOR_WIND'', 13), (''SWORDS_DANCE'', 14), (''CUT'', 15),
     (''GUST'', 16), (''WING_ATTACK'', 17), (''WHIRLWIND'', 18), (''FLY'', 19),
     (''BIND'', 20), (''SLAM'', 21), (''VINE_WHIP'', 22), (''STOMP'', 23),
     (''DOUBLE_KICK'', 24), (''MEGA_KICK'', 25), (''JUMP_KICK'', 26), (''ROLLING_KICK'', 27),
     (''SAND_ATTACK'', 28), (''HEADBUTT'', 29), (''HORN_ATTACK'', 30), (''FURY_ATTACK'', 31),
     (''HORN_DRILL'', 32), (''TACKLE'', 33), (''BODY_SLAM'', 34), (''WRAP'', 35),
     (''TAKE_DOWN'', 36), (''THRASH'', 37), (''DOUBLE_EDGE'', 38), (''TAIL_WHIP'', 39),
     (''POISON_STING'', 40), (''TWINEEDLE'', 41), (''PIN_MISSILE'', 42), (''LEER'', 43),
     (''BITE'', 44), (''GROWL'', 45), (''ROAR'', 46), (''SING'', 47),
     (''SUPERSONIC'', 48), (''SONIC_BOOM'', 49), (''DISABLE'', 50), (''ACID'', 51),
     (''EMBER'', 52), (''FLAMETHROWER'', 53), (''WATER_GUN'', 55), (''HYDRO_PUMP'', 56),
     (''SURF'', 57), (''ICE_BEAM'', 58), (''BLIZZARD'', 59), (''PSYBEAM'', 60),
     (''BUBBLE_BEAM'', 61), (''AURORA_BEAM'', 62), (''HYPER_BEAM'', 63), (''PECK'', 64),
     (''DRILL_PECK'', 65), (''SUBMISSION'', 66), (''LOW_KICK'', 67), (''COUNTER'', 68),
     (''SEISMIC_TOSS'', 69), (''STRENGTH'', 70), (''ABSORB'', 71), (''MEGA_DRAIN'', 72),
     (''LEECH_SEED'', 73), (''GROWTH'', 74), (''RAZOR_LEAF'', 75), (''SOLAR_BEAM'', 76),
     (''POISON_POWDER'', 77), (''STUN_SPORE'', 78), (''SLEEP_POWDER'', 79), (''PETAL_DANCE'', 80),
     (''STRING_SHOT'', 81), (''DRAGON_RAGE'', 82), (''FIRE_SPIN'', 83), (''THUNDER_SHOCK'', 84),
     (''THUNDERBOLT'', 85), (''THUNDER_WAVE'', 86), (''THUNDER'', 87), (''ROCK_THROW'', 88),
     (''EARTHQUAKE'', 89), (''FISSURE'', 90), (''DIG'', 91), (''TOXIC'', 92),
     (''CONFUSION'', 93), (''PSYCHIC'', 94), (''HYPNOSIS'', 95), (''MEDITATE'', 96),
     (''AGILITY'', 97), (''QUICK_ATTACK'', 98), (''RAGE'', 99), (''TELEPORT'', 100),
     (''NIGHT_SHADE'', 101), (''SCREECH'', 103), (''DOUBLE_TEAM'', 104), (''RECOVER'', 105),
     (''HARDEN'', 106), (''MINIMIZE'', 107), (''SMOKESCREEN'', 108), (''CONFUSE_RAY'', 109),
     (''DEFENSE_CURL'', 111), (''BARRIER'', 112), (''LIGHT_SCREEN'', 113), (''HAZE'', 114),
     (''REFLECT'', 115), (''FOCUS_ENERGY'', 116), (''METRONOME'', 118), (''MIRROR_MOVE'', 119),
     (''SELF_DESTRUCT'', 120), (''EGG_BOMB'', 121), (''LICK'', 122), (''SMOG'', 123),
     (''SLUDGE'', 124), (''BONE_CLUB'', 125), (''FIRE_BLAST'', 126), (''WATERFALL'', 127),
     (''CLAMP'', 128), (''SWIFT'', 129), (''SKULL_BASH'', 130), (''SPIKE_CANNON'', 131),
     (''CONSTRICT'', 132), (''AMNESIA'', 133), (''KINESIS'', 134), (''SOFT_BOILED'', 135),
     (''HIGH_JUMP_KICK'', 136), (''GLARE'', 137), (''DREAM_EATER'', 138), (''POISON_GAS'', 139),
     (''BARRAGE'', 140), (''LEECH_LIFE'', 141), (''LOVELY_KISS'', 142), (''SKY_ATTACK'', 143),
     (''TRANSFORM'', 144), (''BUBBLE'', 145), (''DIZZY_PUNCH'', 146), (''SPORE'', 147),
     (''FLASH'', 148), (''PSYWAVE'', 149), (''SPLASH'', 150)]"

definition MOVE_MEMBERS_2 :: "(string \<times> int) list" where
  "MOVE_MEMBERS_2 = [
     (''ACID_ARMOR'', 151), (''CRABHAMMER'', 152), (''EXPLOSION'', 153), (''FURY_SWIPES'', 154),
     (''BONEMERANG'', 155), (''REST'', 156), (''ROCK_SLIDE'', 157), (''HYPER_FANG'', 158),
     (''SHARPEN'', 159), (''TRI_ATTACK'', 161), (''SUPER_FANG'', 162), (''SLASH'', 163),
     (''SUBSTITUTE'', 164), (''STRUGGLE'', 165), (''TRIPLE_KICK'', 167), (''THIEF'', 168),
     (''NIGHTMARE'', 171), (''FLAME_WHEEL'', 172), (''SNORE'', 173), (''CURSE'', 174),
     (''FLAIL'', 175), (''AEROBLAST'', 177), (''COTTON_SPORE'', 178), (''REVERSAL'', 179),
     (''POWDER_SNOW'', 181), (''PROTECT'', 182), (''MACH_PUNCH'', 183), (''SCARY_FACE'', 184),
     (''FEINT_ATTACK'', 185), (''SWEET_KISS'', 186), (''BELLY_DRUM'', 187), (''SLUDGE_BOMB'', 188),
     (''MUD_SLAP'', 189), (''OCTAZOOKA'', 190), (''SPIKES'', 191), (''ZAP_CANNON'', 192),
     (''FORESIGHT'', 193), (''DESTINY_BOND'', 194), (''PERISH_SONG'', 195), (''ICY_WIND'', 196),
     (''DETECT'', 197), (''BONE_RUSH'', 198), (''OUTRAGE'', 200), (''SANDSTORM'', 201),
     (''GIGA_DRAIN'', 202), (''ENDURE'', 203), (''CHARM'', 204), (''ROLLOUT'', 205),
     (''FALSE_SWIPE'', 206), (''SWAGGER'', 207), (''MILK_DRINK'', 208), (''SPARK'', 209),
     (''FURY_CUTTER'', 210), (''STEEL_WING'', 211), (''MEAN_LOOK'', 212), (''ATTRACT'', 213),
     (''SLEEP_TALK'', 214), (''HEAL_BELL'', 215), (''RETURN'', 216), (''PRESENT'', 217),
     (''FRUSTRATION'', 218), (''SAFEGUARD'', 219), (''PAIN_SPLIT'', 220), (''SACRED_FIRE'', 221),
     (''MAGNITUDE'', 222), (''DYNAMIC_PUNCH'', 223), (''MEGAHORN'', 224), (''DRAGON_BREATH'', 225),
     (''BATON_PASS'', 226), (''ENCORE'', 227), (''PURSUIT'', 228), (''RAPID_SPIN'', 229),
     (''SWEET_SCENT'', 230), (''IRON_TAIL'', 231), (''METAL_CLAW'', 232), (''VITAL_THROW'', 233),
     (''MORNING_SUN'', 234), (''SYNTHESIS'', 235), (''MOONLIGHT'', 236), (''HIDDEN_POWER'', 237),
     (''HIDDEN_POWER_BUG'', 10001), (''HIDDEN_POWER_DARK'', 10002), (''HIDDEN_POWER_DRAGON'', 10003), (''HIDDEN_POWER_ELECTRIC'', 10004),
     (''HIDDEN_POWER_FIGHTING'', 10005), (''HIDDEN_POWER_FIRE'', 10006), (''HIDDEN_POWER_FLYING'', 10007), (''HIDDEN_POWER_GHOST'', 10008),
     (''HIDDEN_POWER_GRASS'', 10009), (''HIDDEN_POWER_GROUND'', 10010), (''HIDDEN_POWER_ICE'', 10011), (''HIDDEN_POWER_POISON'', 10012),
     (''HIDDEN_POWER_PSYCHIC'', 10013), (''HIDDEN_POWER_ROCK'', 10014), (''HIDDEN_POWER_STEEL'', 10015), (''HIDDEN_POWER_WATER'', 10016),
     (''CROSS_CHOP'', 238), (''TWISTER'', 239), (''RAIN_DANCE'', 240), (''SUNNY_DAY'', 241),
     (''CRUNCH'', 242), (''MIRROR_COAT'', 243), (''PSYCH_UP'', 244), (''EXTREME_SPEED'', 245),
     (''ANCIENT_POWER'', 246), (''SHADOW_BALL'', 247), (''FUTURE_SIGHT'', 248), (''ROCK_SMASH'', 249),
     (''WHIRLPOOL'', 250), (''BEAT_UP'', 251), (''FAKE_OUT'', 252), (''UPROAR'', 253),
     (''STOCKPILE'', 254), (''SPIT_UP'', 255), (''SWALLOW'', 256), (''HEAT_WAVE'', 257),
     (''HAIL'', 258), (''TORMENT'', 259), (''FLATTER'', 260), (''WILL_O_WISP'', 261),
     (''MEMENTO'', 262), (''FACADE'', 263), (''FOCUS_PUNCH'', 264), (''SMELLING_SALTS'', 265),
     (''FOLLOW_ME'', 266), (''NATURE_POWER'', 267), (''TAUNT'', 269), (''HELPING_HAND'', 270),
     (''TRICK'', 271), (''ROLE_PLAY'', 272), (''WISH'', 273), (''ASSIST'', 274),
     (''INGRAIN'', 275), (''SUPERPOWER'', 276), (''MAGIC_COAT'', 277), (''REVENGE'', 279),
     (''BRICK_BREAK'', 280), (''YAWN'', 281), (''KNOCK_OFF'', 282), (''ENDEAVOR'', 283),
     (''ERUPTION'', 284), (''SKILL_SWAP'', 285)]"

definition MOVE_MEMBERS_3 :: "(string \<times> int) list" where
  "MOVE_MEMBERS_3 = [
     (''IMPRISON'', 286), (''SNATCH'', 289), (''SECRET_POWER'', 290), (''DIVE'', 291),
     (''ARM_THRUST'', 292), (''TAIL_GLOW'', 294), (''LUSTER_PURGE'', 295), (''MIST_BALL'', 296),
     (''FEATHER_DANCE'', 297), (''TEETER_DANCE'', 298), (''BLAZE_KICK'', 299), (''ICE_BALL'', 301),
     (''NEEDLE_ARM'', 302), (''SLACK_OFF'', 303), (''HYPER_VOICE'', 304), (''POISON_FANG'', 305),
     (''CRUSH_CLAW'', 306), (''BLAST_BURN'', 307), (''HYDRO_CANNON'', 308), (''METEOR_MASH'', 309),
     (''ASTONISH'', 310), (''WEATHER_BALL'', 311), (''AROMATHERAPY'', 312), (''FAKE_TEARS'', 313),
     (''AIR_CUTTER'', 314), (''OVERHEAT'', 315), (''ODOR_SLEUTH'', 316), (''ROCK_TOMB'', 317),
     (''SILVER_WIND'', 318), (''METAL_SOUND'', 319), (''GRASS_WHISTLE'', 320), (''TICKLE'', 321),
     (''COSMIC_POWER'', 322), (''WATER_SPOUT'', 323), (''SIGNAL_BEAM'', 324), (''SHADOW_PUNCH'', 325),
     (''EXTRASENSORY'', 326), (''SKY_UPPERCUT'', 327), (''SAND_TOMB'', 328), (''SHEER_COLD'', 329),
     (''MUDDY_WATER'', 330), (''BULLET_SEED'', 331), (''AERIAL_ACE'', 332), (''ICICLE_SPEAR'', 333),
     (''IRON_DEFENSE'', 334), (''BLOCK'', 335), (''HOWL'', 336), (''DRAGON_CLAW'', 337),
     (''FRENZY_PLANT'', 338), (''BULK_UP'', 339), (''BOUNCE'', 340), (''MUD_SHOT'', 341),
     (''POISON_TAIL'', 342), (''COVET'', 343), (''VOLT_TACKLE'', 344), (''MAGICAL_LEAF'', 345),
     (''CALM_MIND'', 347), (''LEAF_BLADE'', 348), (''DRAGON_DANCE'', 349), (''ROCK_BLAST'', 350),
     (''SHOCK_WAVE'', 351), (''WATER_PULSE'', 352), (''DOOM_DESIRE'', 353), (''PSYCHO_BOOST'', 354),
     (''ROOST'', 355), (''GRAVITY'', 356), (''WAKE_UP_SLAP'', 358), (''HAMMER_ARM'', 359),
     (''GYRO_BALL'', 360), (''HEALING_WISH'', 361), (''BRINE'', 362), (''NATURAL_GIFT'', 363),
     (''FEINT'', 364), (''PLUCK'', 365), (''TAILWIND'', 366), (''ACUPRESSURE'', 367),
     (''METAL_BURST'', 368), (''U_TURN'', 369), (''CLOSE_COMBAT'', 370), (''PAYBACK'', 371),
     (''ASSURANCE'', 372), (''EMBARGO'', 373), (''FLING'', 374), (''TRUMP_CARD'', 376),
     (''WRING_OUT'', 378), (''POWER_TRICK'', 379), (''LUCKY_CHANT'', 381), (''ME_FIRST'', 382),
     (''COPYCAT'', 383), (''PUNISHMENT'', 386), (''LAST_RESORT'', 387), (''SUCKER_PUNCH'', 389),
     (''TOXIC_SPIKES'', 390), (''AQUA_RING'', 392), (''MAGNET_RISE'', 393), (''FLARE_BLITZ'', 394),
     (''FORCE_PALM'', 395), (''AURA_SPHERE'', 396), (''ROCK_POLISH'', 397), (''POISON_JAB'', 398),
     (''DARK_PULSE'', 399), (''NIGHT_SLASH'', 400), (''AQUA_TAIL'', 401), (''SEED_BOMB'', 402),
     (''AIR_SLASH'', 403), (''X_SCISSOR'', 404), (''BUG_BUZZ'', 405), (''DRAGON_PULSE'', 406),
     (''DRAGON_RUSH'', 407), (''POWER_GEM'', 408), (''DRAIN_PUNCH'', 409), (''VACUUM_WAVE'', 410),
     (''FOCUS_BLAST'', 411), (''ENERGY_BALL'', 412), (''BRAVE_BIRD'', 413), (''EARTH_POWER'', 414),
     (''SWITCHEROO'', 415), (''GIGA_IMPACT'', 416), (''NASTY_PLOT'', 417), (''BULLET_PUNCH'', 418),
     (''AVALANCHE'', 419), (''ICE_SHARD'', 420), (''SHADOW_CLAW'', 421), (''THUNDER_FANG'', 422),
     (''ICE_FANG'', 423), (''FIRE_FANG'', 424), (''SHADOW_SNEAK'', 425), (''MUD_BOMB'', 426),
     (''PSYCHO_CUT'', 427), (''ZEN_HEADBUTT'', 428), (''MIRROR_SHOT'', 429), (''FLASH_CANNON'', 430),
     (''ROCK_CLIMB'', 431), (''DEFOG'', 432), (''TRICK_ROOM'', 433), (''DRACO_METEOR'', 434),
     (''DISCHARGE'', 435), (''LAVA_PLUME'', 436)]"

definition MOVE_MEMBERS_4 :: "(string \<times> int) list" where
  "MOVE_MEMBERS_4 = [
     (''LEAF_STORM'', 437), (''POWER_WHIP'', 438), (''ROCK_WRECKER'', 439), (''CROSS_POISON'', 440),
     (''GUNK_SHOT'', 441), (''IRON_HEAD'', 442), (''MAGNET_BOMB'', 443), (''STONE_EDGE'', 444),
     (''CAPTIVATE'', 445), (''STEALTH_ROCK'', 446), (''GRASS_KNOT'', 447), (''CHATTER'', 448),
     (''JUDGMENT'', 449), (''BUG_BITE'', 450), (''CHARGE_BEAM'', 451), (''WOOD_HAMMER'', 452),
     (''AQUA_JET'', 453), (''ATTACK_ORDER'', 454), (''DEFEND_ORDER'', 455), (''HEAL_ORDER'', 456),
     (''HEAD_SMASH'', 457), (''DOUBLE_HIT'', 458), (''ROAR_OF_TIME'', 459), (''SPACIAL_REND'', 460),
     (''LUNAR_DANCE'', 461), (''CRUSH_GRIP'', 462), (''MAGMA_STORM'', 463), (''DARK_VOID'', 464),
     (''SEED_FLARE'', 465), (''OMINOUS_WIND'', 466), (''HONE_CLAWS'', 468), (''WIDE_GUARD'', 469),
     (''PSYSHOCK'', 473), (''VENOSHOCK'', 474), (''AUTOTOMIZE'', 475), (''RAGE_POWDER'', 476),
     (''TELEKINESIS'', 477), (''SMACK_DOWN'', 479), (''STORM_THROW'', 480), (''FLAME_BURST'', 481),
     (''SLUDGE_WAVE'', 482), (''QUIVER_DANCE'', 483), (''HEAVY_SLAM'', 484), (''SYNCHRONOISE'', 485),
     (''ELECTRO_BALL'', 486), (''SOAK'', 487), (''FLAME_CHARGE'', 488), (''COIL'', 489),
     (''LOW_SWEEP'', 490), (''ACID_SPRAY'', 491), (''FOUL_PLAY'', 492), (''ROUND'', 496),
     (''ECHOED_VOICE'', 497), (''CHIP_AWAY'', 498), (''CLEAR_SMOG'', 499), (''STORED_POWER'', 500),
     (''QUICK_GUARD'', 501), (''ALLY_SWITCH'', 502), (''SCALD'', 503), (''SHELL_SMASH'', 504),
     (''HEAL_PULSE'', 505), (''HEX'', 506), (''SKY_DROP'', 507), (''SHIFT_GEAR'', 508),
     (''CIRCLE_THROW'', 509), (''INCINERATE'', 510), (''ACROBATICS'', 512), (''RETALIATE'', 514),
     (''FINAL_GAMBIT'', 515), (''INFERNO'', 517), (''WATER_PLEDGE'', 518), (''FIRE_PLEDGE'', 519),
     (''GRASS_PLEDGE'', 520), (''VOLT_SWITCH'', 521), (''STRUGGLE_BUG'', 522), (''BULLDOZE'', 523),
     (''FROST_BREATH'', 524), (''DRAGON_TAIL'', 525), (''WORK_UP'', 526), (''ELECTROWEB'', 527),
     (''WILD_CHARGE'', 528), (''DRILL_RUN'', 529), (''DUAL_CHOP'', 530), (''HEART_STAMP'', 531),
     (''HORN_LEECH'', 532), (''SACRED_SWORD'', 533), (''RAZOR_SHELL'', 534), (''HEAT_CRASH'', 535),
     (''LEAF_TORNADO'', 536), (''STEAMROLLER'', 537), (''COTTON_GUARD'', 538), (''NIGHT_DAZE'', 539),
     (''PSYSTRIKE'', 540), (''TAIL_SLAP'', 541), (''HURRICANE'', 542), (''HEAD_CHARGE'', 543),
     (''GEAR_GRIND'', 544), (''SEARING_SHOT'', 545), (''TECHNO_BLAST'', 546), (''RELIC_SONG'', 547),
     (''SECRET_SWORD'', 548), (''GLACIATE'', 549), (''BOLT_STRIKE'', 550), (''BLUE_FLARE'', 551),
     (''FIERY_DANCE'', 552), (''FREEZE_SHOCK'', 553), (''ICE_BURN'', 554), (''SNARL'', 555),
     (''ICICLE_CRASH'', 556), (''V_CREATE'', 557), (''FUSION_FLARE'', 558), (''FUSION_BOLT'', 559),
     (''FLYING_PRESS'', 560), (''MAT_BLOCK'', 561), (''BELCH'', 562), (''STICKY_WEB'', 564),
     (''FELL_STINGER'', 565), (''PHANTOM_FORCE'', 566), (''NOBLE_ROAR'', 568), (''ION_DELUGE'', 569),
     (''PARABOLIC_CHARGE'', 570), (''PETAL_BLIZZARD'', 572), (''FREEZE_DRY'', 573), (''DISARMING_VOICE'', 574),
     (''PARTING_SHOT'', 575), (''DRAINING_KISS'', 577), (''CRAFTY_SHIELD'', 578), (''GRASSY_TERRAIN'', 580),
     (''MISTY_TERRAIN'', 581), (''PLAY_ROUGH'', 583), (''FAIRY_WIND'', 584), (''MOONBLAST'', 585),
     (''BOOMBURST'', 586)]"

definition MOVE_MEMBERS_5 :: "(string \<times> int) list" where
  "MOVE_MEMBERS_5 = [
     (''KING_S_SHIELD'', 588), (''PLAY_NICE'', 589), (''CONFIDE'', 590), (''DIAMOND_STORM'', 591),
     (''STEAM_ERUPTION'', 592), (''HYPERSPACE_HOLE'', 593), (''WATER_SHURIKEN'', 594), (''MYSTICAL_FIRE'', 595),
     (''SPIKY_SHIELD'', 596), (''EERIE_IMPULSE'', 598), (''POWDER'', 600), (''ELECTRIC_TERRAIN'', 604),
     (''DAZZLING_GLEAM'', 605), (''BABY_DOLL_EYES'', 608), (''NUZZLE'', 609), (''HOLD_BACK'', 610),
     (''INFESTATION'', 611), (''POWER_UP_PUNCH'', 612), (''OBLIVION_WING'', 613), (''THOUSAND_ARROWS'', 614),
     (''THOUSAND_WAVES'', 615), (''LAND_S_WRATH'', 616), (''LIGHT_OF_RUIN'', 617), (''ORIGIN_PULSE'', 618),
     (''PRECIPICE_BLADES'', 619), (''DRAGON_ASCENT'', 620), (''HYPERSPACE_FURY'', 621), (''SHORE_UP'', 659),
     (''FIRST_IMPRESSION'', 660), (''BANEFUL_BUNKER'', 661), (''SPIRIT_SHACKLE'', 662), (''DARKEST_LARIAT'', 663),
     (''SPARKLING_ARIA'', 664), (''ICE_HAMMER'', 665), (''FLORAL_HEALING'', 666), (''HIGH_HORSEPOWER'', 667),
     (''STRENGTH_SAP'', 668), (''SOLAR_BLADE'', 669), (''LEAFAGE'', 670), (''SPOTLIGHT'', 671),
     (''TOXIC_THREAD'', 672), (''LASER_FOCUS'', 673), (''THROAT_CHOP'', 675), (''POLLEN_PUFF'', 676),
     (''ANCHOR_SHOT'', 677), (''PSYCHIC_TERRAIN'', 678), (''LUNGE'', 679), (''FIRE_LASH'', 680),
     (''POWER_TRIP'', 681), (''BURN_UP'', 682), (''SMART_STRIKE'', 684), (''REVELATION_DANCE'', 686),
     (''CORE_ENFORCER'', 687), (''TROP_KICK'', 688), (''BEAK_BLAST'', 690), (''CLANGING_SCALES'', 691),
     (''DRAGON_HAMMER'', 692), (''BRUTAL_SWING'', 693), (''AURORA_VEIL'', 694), (''SHELL_TRAP'', 704),
     (''FLEUR_CANNON'', 705), (''PSYCHIC_FANGS'', 706), (''STOMPING_TANTRUM'', 707), (''SHADOW_BONE'', 708),
     (''ACCELEROCK'', 709), (''LIQUIDATION'', 710), (''PRISMATIC_LASER'', 711), (''SPECTRAL_THIEF'', 712),
     (''SUNSTEEL_STRIKE'', 713), (''MOONGEIST_BEAM'', 714), (''TEARFUL_LOOK'', 715), (''ZING_ZAP'', 716),
     (''NATURE_S_MADNESS'', 717), (''MULTI_ATTACK'', 718), (''MIND_BLOWN'', 720), (''PLASMA_FISTS'', 721),
     (''PHOTON_GEYSER'', 722), (''ZIPPY_ZAP'', 729), (''SPLISHY_SPLASH'', 730), (''FLOATY_FALL'', 731),
     (''PIKA_PAPOW'', 732), (''BOUNCY_BUBBLE'', 733), (''BUZZY_BUZZ'', 734), (''SIZZLY_SLIDE'', 735),
     (''GLITZY_GLOW'', 736), (''BADDY_BAD'', 737), (''SAPPY_SEED'', 738), (''FREEZY_FROST'', 739),
     (''SPARKLY_SWIRL'', 740), (''VEEVEE_VOLLEY'', 741), (''DOUBLE_IRON_BASH'', 742), (''MAX_GUARD'', 743),
     (''DYNAMAX_CANNON'', 744), (''SNIPE_SHOT'', 745), (''JAW_LOCK'', 746), (''STUFF_CHEEKS'', 747),
     (''NO_RETREAT'', 748), (''DRAGON_DARTS'', 751), (''OCTOLOCK'', 753), (''BOLT_BEAK'', 754),
     (''FISHIOUS_REND'', 755), (''MAX_FLARE'', 757), (''MAX_FLUTTERBY'', 758), (''MAX_LIGHTNING'', 759),
     (''MAX_STRIKE'', 760), (''MAX_KNUCKLE'', 761), (''MAX_PHANTASM'', 762), (''MAX_HAILSTORM'', 763),
     (''MAX_OOZE'', 764), (''MAX_GEYSER'', 765), (''MAX_AIRSTREAM'', 766), (''MAX_STARFALL'', 767),
     (''MAX_WYRMWIND'', 768), (''MAX_MINDSTORM'', 769), (''MAX_ROCKFALL'', 770), (''MAX_QUAKE'', 771),
     (''MAX_DARKNESS'', 772), (''MAX_OVERGROWTH'', 773), (''MAX_STEELSPIKE'', 774), (''CLANGOROUS_SOUL'', 775),
     (''BODY_PRESS'', 776), (''DECORATE'', 777), (''DRUM_BEATING'', 778), (''SNAP_TRAP'', 779),
     (''PYRO_BALL'', 780), (''BEHEMOTH_BLADE'', 781), (''BEHEMOTH_BASH'', 782), (''AURA_WHEEL'', 783),
     (''BREAKING_SWIPE'', 784), (''BRANCH_POKE'', 785), (''OVERDRIVE'', 786), (''APPLE_ACID'', 787),
     (''GRAV_APPLE'', 788), (''SPIRIT_BREAK'', 789), (''STRANGE_STEAM'', 790)]"

definition MOVE_MEMBERS_6 :: "(string \<times> int) list" where
  "MOVE_MEMBERS_6 = [
     (''LIFE_DEW'', 791), (''OBSTRUCT'', 792), (''FALSE_SURRENDER'', 793), (''METEOR_ASSAULT'', 794),
     (''ETERNABEAM'', 795), (''STEEL_BEAM'', 796), (''EXPANDING_FORCE'', 797), (''STEEL_ROLLER'', 798),
     (''SCALE_SHOT'', 799), (''METEOR_BEAM'', 800), (''SHELL_SIDE_ARM'', 801), (''MISTY_EXPLOSION'', 802),
     (''GRASSY_GLIDE'', 803), (''RISING_VOLTAGE'', 804), (''TERRAIN_PULSE'', 805), (''SKITTER_SMACK'', 806),
     (''BURNING_JEALOUSY'', 807), (''LASH_OUT'', 808), (''POLTERGEIST'', 809), (''COACHING'', 811),
     (''FLIP_TURN'', 812), (''TRIPLE_AXEL'', 813), (''DUAL_WINGBEAT'', 814), (''SCORCHING_SANDS'', 815),
     (''JUNGLE_HEALING'', 816), (''WICKED_BLOW'', 817), (''SURGING_STRIKES'', 818), (''THUNDER_CAGE'', 819),
     (''DRAGON_ENERGY'', 820), (''FREEZING_GLARE'', 821), (''FIERY_WRATH'', 822), (''THUNDEROUS_KICK'', 823),
     (''GLACIAL_LANCE'', 824), (''ASTRAL_BARRAGE'', 825), (''EERIE_SPELL'', 826), (''DIRE_CLAW'', 827),
     (''PSYSHIELD_BASH'', 828), (''STONE_AXE'', 830), (''SPRINGTIDE_STORM'', 831), (''MYSTICAL_POWER'', 832),
     (''RAGING_FURY'', 833), (''WAVE_CRASH'', 834), (''CHLOROBLAST'', 835), (''MOUNTAIN_GALE'', 836),
     (''HEADLONG_RUSH'', 838), (''BARB_BARRAGE'', 839), (''ESPER_WING'', 840), (''BITTER_MALICE'', 841),
     (''TRIPLE_ARROWS'', 843), (''INFERNAL_PARADE'', 844), (''CEASELESS_EDGE'', 845), (''BLEAKWIND_STORM'', 846),
     (''WILDBOLT_STORM'', 847), (''SANDSEAR_STORM'', 848), (''LUNAR_BLESSING'', 849), (''TERA_BLAST'', 851),
     (''SILK_TRAP'', 852), (''AXE_KICK'', 853), (''LAST_RESPECTS'', 854), (''LUMINA_CRASH'', 855),
     (''ORDER_UP'', 856), (''JET_PUNCH'', 857), (''SPIN_OUT'', 859), (''POPULATION_BOMB'', 860),
     (''ICE_SPINNER'', 861), (''GLAIVE_RUSH'', 862), (''SALT_CURE'', 864), (''TRIPLE_DIVE'', 865),
     (''MORTAL_SPIN'', 866), (''KOWTOW_CLEAVE'', 869), (''FLOWER_TRICK'', 870), (''TORCH_SONG'', 871),
     (''AQUA_STEP'', 872), (''RAGING_BULL'', 873), (''MAKE_IT_RAIN'', 874), (''PSYBLADE'', 875),
     (''HYDRO_STEAM'', 876), (''RUINATION'', 877), (''COLLISION_COURSE'', 878), (''ELECTRO_DRIFT'', 879),
     (''SHED_TAIL'', 880), (''POUNCE'', 884), (''TRAILBLAZE'', 885), (''CHILLING_WATER'', 886),
     (''HYPER_DRILL'', 887), (''TWIN_BEAM'', 888), (''RAGE_FIST'', 889), (''ARMOR_CANNON'', 890),
     (''BITTER_BLADE'', 891), (''DOUBLE_SHOCK'', 892), (''GIGATON_HAMMER'', 893), (''COMEUPPANCE'', 894),
     (''AQUA_CUTTER'', 895), (''BLAZING_TORQUE'', 896), (''WICKED_TORQUE'', 897), (''NOXIOUS_TORQUE'', 898),
     (''COMBAT_TORQUE'', 899), (''MAGICAL_TORQUE'', 900), (''BLOOD_MOON'', 901), (''MATCHA_GOTCHA'', 902),
     (''SYRUP_BOMB'', 903), (''IVY_CUDGEL'', 904), (''ELECTRO_SHOT'', 905), (''TERA_STARSTORM'', 906),
     (''FICKLE_BEAM'', 907), (''BURNING_BULWARK'', 908), (''THUNDERCLAP'', 909), (''MIGHTY_CLEAVE'', 910),
     (''TACHYON_CUTTER'', 911), (''HARD_PRESS'', 912), (''ALLURING_VOICE'', 914), (''TEMPER_FLARE'', 915),
     (''SUPERCELL_SLAM'', 916), (''PSYCHIC_NOISE'', 917), (''UPPER_HAND'', 918), (''MALIGNANT_CHAIN'', 919),
     (''NIHIL_LIGHT'', 920), (''G_MAX_BEFUDDLE'', 1000), (''G_MAX_CANNONADE'', 1000), (''G_MAX_CENTIFERNO'', 1000),
     (''G_MAX_CHI_STRIKE'', 1000), (''G_MAX_CUDDLE'', 1000), (''G_MAX_DEPLETION'', 1000), (''G_MAX_DRUM_SOLO'', 1000),
     (''G_MAX_FINALE'', 1000), (''G_MAX_FIREBALL'', 1000), (''G_MAX_FOAM_BURST'', 1000), (''G_MAX_GOLD_RUSH'', 1000),
     (''G_MAX_GRAVITAS'', 1000), (''G_MAX_HYDROSNIPE'', 1000), (''G_MAX_MALODOR'', 1000), (''G_MAX_MELTDOWN'', 1000),
     (''G_MAX_ONE_BLOW'', 1000), (''G_MAX_RAPID_FLOW'', 1000), (''G_MAX_REPLENISH'', 1000), (''G_MAX_RESONANCE'', 1000),
     (''G_MAX_SANDBLAST'', 1000)]"

definition MOVE_MEMBERS_7 :: "(string \<times> int) list" where
  "MOVE_MEMBERS_7 = [
     (''G_MAX_SMITE'', 1000), (''G_MAX_SNOOZE'', 1000), (''G_MAX_STEELSURGE'', 1000), (''G_MAX_STONESURGE'', 1000),
     (''G_MAX_STUN_SHOCK'', 1000), (''G_MAX_SWEETNESS'', 1000), (''G_MAX_TARTNESS'', 1000), (''G_MAX_TERROR'', 1000),
     (''G_MAX_VINE_LASH'', 1000), (''G_MAX_VOLCALITH'', 1000), (''G_MAX_VOLT_CRASH'', 1000), (''G_MAX_WILDFIRE'', 1000),
     (''G_MAX_WIND_RAGE'', 1000)]"

definition MOVE_MEMBERS :: "(string \<times> int) list" where
  "MOVE_MEMBERS = concat [MOVE_MEMBERS_1, MOVE_MEMBERS_2, MOVE_MEMBERS_3, MOVE_MEMBERS_4, MOVE_MEMBERS_5, MOVE_MEMBERS_6, MOVE_MEMBERS_7]"

section \<open>Species\<close>

definition SPECIES_MEMBERS_1 :: "(string \<times> int) list" where
  "SPECIES_MEMBERS_1 = [
     (''BULBASAUR'', 1), (''IVYSAUR'', 2), (''VENUSAUR'', 3), (''VENUSAUR_MEGA'', 906),
     (''CHARMANDER'', 4), (''CHARMELEON'', 5), (''CHARIZARD'', 6), (''CHARIZARD_MEGA_X'', 907),
     (''CHARIZARD_MEGA_Y'', 908), (''SQUIRTLE'', 7), (''WARTORTLE'', 8), (''BLASTOISE'', 9),
     (''BLASTOISE_MEGA'', 909), (''CATERPIE'', 10), (''METAPOD'', 11), (''BUTTERFREE'', 12),
     (''WEEDLE'', 13), (''KAKUNA'', 14), (''BEEDRILL'', 15), (''BEEDRILL_MEGA'', 910),
     (''PIDGEY'', 16), (''PIDGEOTTO'', 17), (''PIDGEOT'', 18), (''PIDGEOT_MEGA'', 911),
     (''RATTATA'', 19), (''RATTATA_ALOLA'', 956), (''RATICATE'', 20), (''RATICATE_ALOLA'', 957),
     (''SPEAROW'', 21), (''FEAROW'', 22), (''EKANS'', 23), (''ARBOK'', 24),
     (''PIKACHU'', 25), (''PIKACHU_COSPLAY'', 1009), (''PIKACHU_ROCK_STAR'', 1010), (''PIKACHU_BELLE'', 1011),
     (''PIKACHU_POP_STAR'', 1012), (''PIKACHU_PHD'', 1013), (''PIKACHU_LIBRE'', 1014), (''PIKACHU_ORIGINAL'', 1015),
     (''PIKACHU_HOENN'', 1016), (''PIKACHU_SINNOH'', 1017), (''PIKACHU_UNOVA'', 1018), (''PIKACHU_KALOS'', 1019),
     (''PIKACHU_ALOLA'', 1020), (''PIKACHU_PARTNER'', 1021), (''PIKACHU_WORLD'', 1022), (''RAICHU'', 26),
     (''RAICHU_ALOLA'', 958), (''SANDSHREW'', 27), (''SANDSHREW_ALOLA'', 959), (''SANDSLASH'', 28),
     (''SANDSLASH_ALOLA'', 960), (''NIDORAN_F'', 29), (''NIDORINA'', 30), (''NIDOQUEEN'', 31),
     (''NIDORAN_M'', 32), (''NIDORINO'', 33), (''NIDOKING'', 34), (''CLEFAIRY'', 35),
     (''CLEFABLE'', 36), (''VULPIX'', 37), (''VULPIX_ALOLA'', 961), (''NINETALES'', 38),
     (''NINETALES_ALOLA'', 962), (''JIGGLYPUFF'', 39), (''WIGGLYTUFF'', 40), (''ZUBAT'', 41),
     (''GOLBAT'', 42), (''ODDISH'', 43), (''GLOOM'', 44), (''VILEPLUME'', 45),
     (''PARAS'', 46), (''PARASECT'', 47), (''VENONAT'', 48), (''VENOMOTH'', 49),
     (''DIGLETT'', 50), (''DIGLETT_ALOLA'', 963), (''DUGTRIO'', 51), (''DUGTRIO_ALOLA'', 964),
     (''MEOWTH'', 52), (''MEOWTH_ALOLA'', 965), (''MEOWTH_GALAR'', 974), (''PERSIAN'', 53),
     (''PERSIAN_ALOLA'', 966), (''PSYDUCK'', 54), (''GOLDUCK'', 55), (''MANKEY'', 56),
     (''PRIMEAPE'', 57), (''GROWLITHE'', 58), (''GROWLITHE_HISUI'', 993), (''ARCANINE'', 59),
     (''ARCANINE_HISUI'', 994), (''POLIWAG'', 60), (''POLIWHIRL'', 61), (''POLIWRATH'', 62),
     (''ABRA'', 63), (''KADABRA'', 64), (''ALAKAZAM'', 65), (''ALAKAZAM_MEGA'', 912),
     (''MACHOP'', 66), (''MACHOKE'', 67), (''MACHAMP'', 68), (''BELLSPROUT'', 69),
     (''WEEPINBELL'', 70), (''VICTREEBEL'', 71), (''TENTACOOL'', 72), (''TENTACRUEL'', 73),
     (''GEODUDE'', 74), (''GEODUDE_ALOLA'', 967), (''GRAVELER'', 75), (''GRAVELER_ALOLA'', 968),
     (''GOLEM'', 76), (''GOLEM_ALOLA'', 969), (''PONYTA'', 77), (''PONYTA_GALAR'', 975),
     (''RAPIDASH'', 78), (''RAPIDASH_GALAR'', 976), (''SLOWPOKE'', 79), (''SLOWPOKE_GALAR'', 977),
     (''SLOWBRO'', 80), (''SLOWBRO_MEGA'', 913), (''SLOWBRO_GALAR'', 978), (''MAGNEMITE'', 81),
     (''MAGNETON'', 82), (''FARFETCH_U2019D'', 83), (''FARFETCH_U2019D_GALAR'', 979), (''DODUO'', 84),
     (''DODRIO'', 85), (''SEEL'', 86), (''DEWGONG'', 87), (''GRIMER'', 88),
     (''GRIMER_ALOLA'', 970), (''MUK'', 89), (''MUK_ALOLA'', 971), (''SHELLDER'', 90),
     (''CLOYSTER'', 91), (''GASTLY'', 92), (''HAUNTER'', 93), (''GENGAR'', 94),
     (''GENGAR_MEGA'', 914), (''ONIX'', 95), (''DROWZEE'', 96), (''HYPNO'', 97),
     (''KRABBY'', 98), (''KINGLER'', 99), (''VOLTORB'', 100), (''VOLTORB_HISUI'', 995),
     (''ELECTRODE'', 101), (''ELECTRODE_HISUI'', 996)]"

definition SPECIES_MEMBERS_2 :: "(string \<times> int) list" where
  "SPECIES_MEMBERS_2 = [
     (''EXEGGCUTE'', 102), (''EXEGGUTOR'', 103), (''EXEGGUTOR_ALOLA'', 972), (''CUBONE'', 104),
     (''MAROWAK'', 105), (''MAROWAK_ALOLA'', 973), (''HITMONLEE'', 106), (''HITMONCHAN'', 107),
     (''LICKITUNG'', 108), (''KOFFING'', 109), (''WEEZING'', 110), (''WEEZING_GALAR'', 980),
     (''RHYHORN'', 111), (''RHYDON'', 112), (''CHANSEY'', 113), (''TANGELA'', 114),
     (''KANGASKHAN'', 115), (''KANGASKHAN_MEGA'', 915), (''HORSEA'', 116), (''SEADRA'', 117),
     (''GOLDEEN'', 118), (''SEAKING'', 119), (''STARYU'', 120), (''STARMIE'', 121),
     (''MR_MIME'', 122), (''MR_MIME_GALAR'', 981), (''SCYTHER'', 123), (''JYNX'', 124),
     (''ELECTABUZZ'', 125), (''MAGMAR'', 126), (''PINSIR'', 127), (''PINSIR_MEGA'', 916),
     (''TAUROS'', 128), (''MAGIKARP'', 129), (''GYARADOS'', 130), (''GYARADOS_MEGA'', 917),
     (''LAPRAS'', 131), (''DITTO'', 132), (''EEVEE'', 133), (''VAPOREON'', 134),
     (''JOLTEON'', 135), (''FLAREON'', 136), (''PORYGON'', 137), (''OMANYTE'', 138),
     (''OMASTAR'', 139), (''KABUTO'', 140), (''KABUTOPS'', 141), (''AERODACTYL'', 142),
     (''AERODACTYL_MEGA'', 918), (''SNORLAX'', 143), (''ARTICUNO'', 144), (''ARTICUNO_GALAR'', 982),
     (''ZAPDOS'', 145), (''ZAPDOS_GALAR'', 983), (''MOLTRES'', 146), (''MOLTRES_GALAR'', 984),
     (''DRATINI'', 147), (''DRAGONAIR'', 148), (''DRAGONITE'', 149), (''MEWTWO'', 150),
     (''MEWTWO_MEGA_X'', 919), (''MEWTWO_MEGA_Y'', 920), (''MEW'', 151), (''CHIKORITA'', 152),
     (''BAYLEEF'', 153), (''MEGANIUM'', 154), (''CYNDAQUIL'', 155), (''QUILAVA'', 156),
     (''TYPHLOSION'', 157), (''TYPHLOSION_HISUI'', 997), (''TOTODILE'', 158), (''CROCONAW'', 159),
     (''FERALIGATR'', 160), (''SENTRET'', 161), (''FURRET'', 162), (''HOOTHOOT'', 163),
     (''NOCTOWL'', 164), (''LEDYBA'', 165), (''LEDIAN'', 166), (''SPINARAK'', 167),
     (''ARIADOS'', 168), (''CROBAT'', 169), (''CHINCHOU'', 170), (''LANTURN'', 171),
     (''PICHU'', 172), (''PICHU_SPIKY_EARED'', 1023), (''CLEFFA'', 173), (''IGGLYBUFF'', 174),
     (''TOGEPI'', 175), (''TOGETIC'', 176), (''NATU'', 177), (''XATU'', 178),
     (''MAREEP'', 179), (''FLAAFFY'', 180), (''AMPHAROS'', 181), (''AMPHAROS_MEGA'', 921),
     (''BELLOSSOM'', 182), (''MARILL'', 183), (''AZUMARILL'', 184), (''SUDOWOODO'', 185),
     (''POLITOED'', 186), (''HOPPIP'', 187), (''SKIPLOOM'', 188), (''JUMPLUFF'', 189),
     (''AIPOM'', 190), (''SUNKERN'', 191), (''SUNFLORA'', 192), (''YANMA'', 193),
     (''WOOPER'', 194), (''QUAGSIRE'', 195), (''ESPEON'', 196), (''UMBREON'', 197),
     (''MURKROW'', 198), (''SLOWKING'', 199), (''SLOWKING_GALAR'', 985), (''MISDREAVUS'', 200),
     (''UNOWN_A'', 201), (''UNOWN_B'', 1024), (''UNOWN_C'', 1025), (''UNOWN_D'', 1026),
     (''UNOWN_E'', 1027), (''UNOWN_F'', 1028), (''UNOWN_G'', 1029), (''UNOWN_H'', 1030),
     (''UNOWN_I'', 1031), (''UNOWN_J'', 1032), (''UNOWN_K'', 1033), (''UNOWN_L'', 1034),
     (''UNOWN_M'', 1035), (''UNOWN_N'', 1036), (''UNOWN_O'', 1037), (''UNOWN_P'', 1038),
     (''UNOWN_Q'', 1039), (''UNOWN_R'', 1040), (''UNOWN_S'', 1041), (''UNOWN_T'', 1042),
     (''UNOWN_U'', 1043), (''UNOWN_V'', 1044), (''UNOWN_W'', 1045), (''UNOWN_X'', 1046),
     (''UNOWN_Y'', 1047), (''UNOWN_Z'', 1048), (''UNOWN_EX'', 1049), (''UNOWN_QUESTION'', 1050),
     (''WOBBUFFET'', 202), (''GIRAFARIG'', 203), (''PINECO'', 204), (''FORRETRESS'', 205),
     (''DUNSPARCE'', 206), (''GLIGAR'', 207)]"

definition SPECIES_MEMBERS_3 :: "(string \<times> int) list" where
  "SPECIES_MEMBERS_3 = [
     (''STEELIX'', 208), (''STEELIX_MEGA'', 922), (''SNUBBULL'', 209), (''GRANBULL'', 210),
     (''QWILFISH'', 211), (''QWILFISH_HISUI'', 998), (''SCIZOR'', 212), (''SCIZOR_MEGA'', 923),
     (''SHUCKLE'', 213), (''HERACROSS'', 214), (''HERACROSS_MEGA'', 924), (''SNEASEL'', 215),
     (''SNEASEL_HISUI'', 999), (''TEDDIURSA'', 216), (''URSARING'', 217), (''SLUGMA'', 218),
     (''MAGCARGO'', 219), (''SWINUB'', 220), (''PILOSWINE'', 221), (''CORSOLA'', 222),
     (''CORSOLA_GALAR'', 986), (''REMORAID'', 223), (''OCTILLERY'', 224), (''DELIBIRD'', 225),
     (''MANTINE'', 226), (''SKARMORY'', 227), (''HOUNDOUR'', 228), (''HOUNDOOM'', 229),
     (''HOUNDOOM_MEGA'', 925), (''KINGDRA'', 230), (''PHANPY'', 231), (''DONPHAN'', 232),
     (''PORYGON2'', 233), (''STANTLER'', 234), (''SMEARGLE'', 235), (''TYROGUE'', 236),
     (''HITMONTOP'', 237), (''SMOOCHUM'', 238), (''ELEKID'', 239), (''MAGBY'', 240),
     (''MILTANK'', 241), (''BLISSEY'', 242), (''RAIKOU'', 243), (''ENTEI'', 244),
     (''SUICUNE'', 245), (''LARVITAR'', 246), (''PUPITAR'', 247), (''TYRANITAR'', 248),
     (''TYRANITAR_MEGA'', 926), (''LUGIA'', 249), (''HO_OH'', 250), (''CELEBI'', 251),
     (''TREECKO'', 252), (''GROVYLE'', 253), (''SCEPTILE'', 254), (''SCEPTILE_MEGA'', 927),
     (''TORCHIC'', 255), (''COMBUSKEN'', 256), (''BLAZIKEN'', 257), (''BLAZIKEN_MEGA'', 928),
     (''MUDKIP'', 258), (''MARSHTOMP'', 259), (''SWAMPERT'', 260), (''SWAMPERT_MEGA'', 929),
     (''POOCHYENA'', 261), (''MIGHTYENA'', 262), (''ZIGZAGOON'', 263), (''ZIGZAGOON_GALAR'', 987),
     (''LINOONE'', 264), (''LINOONE_GALAR'', 988), (''WURMPLE'', 265), (''SILCOON'', 266),
     (''BEAUTIFLY'', 267), (''CASCOON'', 268), (''DUSTOX'', 269), (''LOTAD'', 270),
     (''LOMBRE'', 271), (''LUDICOLO'', 272), (''SEEDOT'', 273), (''NUZLEAF'', 274),
     (''SHIFTRY'', 275), (''TAILLOW'', 276), (''SWELLOW'', 277), (''WINGULL'', 278),
     (''PELIPPER'', 279), (''RALTS'', 280), (''KIRLIA'', 281), (''GARDEVOIR'', 282),
     (''GARDEVOIR_MEGA'', 930), (''SURSKIT'', 283), (''MASQUERAIN'', 284), (''SHROOMISH'', 285),
     (''BRELOOM'', 286), (''SLAKOTH'', 287), (''VIGOROTH'', 288), (''SLAKING'', 289),
     (''NINCADA'', 290), (''NINJASK'', 291), (''SHEDINJA'', 292), (''WHISMUR'', 293),
     (''LOUDRED'', 294), (''EXPLOUD'', 295), (''MAKUHITA'', 296), (''HARIYAMA'', 297),
     (''AZURILL'', 298), (''NOSEPASS'', 299), (''SKITTY'', 300), (''DELCATTY'', 301),
     (''SABLEYE'', 302), (''SABLEYE_MEGA'', 931), (''MAWILE'', 303), (''MAWILE_MEGA'', 932),
     (''ARON'', 304), (''LAIRON'', 305), (''AGGRON'', 306), (''AGGRON_MEGA'', 933),
     (''MEDITITE'', 307), (''MEDICHAM'', 308), (''MEDICHAM_MEGA'', 934), (''ELECTRIKE'', 309),
     (''MANECTRIC'', 310), (''MANECTRIC_MEGA'', 935), (''PLUSLE'', 311), (''MINUN'', 312),
     (''VOLBEAT'', 313), (''ILLUMISE'', 314), (''ROSELIA'', 315), (''GULPIN'', 316),
     (''SWALOT'', 317), (''CARVANHA'', 318), (''SHARPEDO'', 319), (''SHARPEDO_MEGA'', 936),
     (''WAILMER'', 320), (''WAILORD'', 321), (''NUMEL'', 322), (''CAMERUPT'', 323),
     (''CAMERUPT_MEGA'', 937), (''TORKOAL'', 324), (''SPOINK'', 325), (''GRUMPIG'', 326),
     (''SPINDA'', 327), (''TRAPINCH'', 328), (''VIBRAVA'', 329), (''FLYGON'', 330),
     (''CACNEA'', 331), (''CACTURNE'', 332), (''SWABLU'', 333), (''ALTARIA'', 334),
     (''ALTARIA_MEGA'', 938), (''ZANGOOSE'', 335)]"

definition SPECIES_MEMBERS_4 :: "(string \<times> int) list" where
  "SPECIES_MEMBERS_4 = [
     (''SEVIPER'', 336), (''LUNATONE'', 337), (''SOLROCK'', 338), (''BARBOACH'', 339),
     (''WHISCASH'', 340), (''CORPHISH'', 341), (''CRAWDAUNT'', 342), (''BALTOY'', 343),
     (''CLAYDOL'', 344), (''LILEEP'', 345), (''CRADILY'', 346), (''ANORITH'', 347),
     (''ARMALDO'', 348), (''FEEBAS'', 349), (''MILOTIC'', 350), (''CASTFORM'', 351),
     (''CASTFORM_SUNNY'', 1051), (''CASTFORM_RAINY'', 1052), (''CASTFORM_SNOWY'', 1053), (''KECLEON'', 352),
     (''SHUPPET'', 353), (''BANETTE'', 354), (''BANETTE_MEGA'', 939), (''DUSKULL'', 355),
     (''DUSCLOPS'', 356), (''TROPIUS'', 357), (''CHIMECHO'', 358), (''ABSOL'', 359),
     (''ABSOL_MEGA'', 940), (''WYNAUT'', 360), (''SNORUNT'', 361), (''GLALIE'', 362),
     (''GLALIE_MEGA'', 941), (''SPHEAL'', 363), (''SEALEO'', 364), (''WALREIN'', 365),
     (''CLAMPERL'', 366), (''HUNTAIL'', 367), (''GOREBYSS'', 368), (''RELICANTH'', 369),
     (''LUVDISC'', 370), (''BAGON'', 371), (''SHELGON'', 372), (''SALAMENCE'', 373),
     (''SALAMENCE_MEGA'', 942), (''BELDUM'', 374), (''METANG'', 375), (''METAGROSS'', 376),
     (''METAGROSS_MEGA'', 943), (''REGIROCK'', 377), (''REGICE'', 378), (''REGISTEEL'', 379),
     (''LATIAS'', 380), (''LATIAS_MEGA'', 944), (''LATIOS'', 381), (''LATIOS_MEGA'', 945),
     (''KYOGRE'', 382), (''KYOGRE_PRIMAL'', 954), (''GROUDON'', 383), (''GROUDON_PRIMAL'', 955),
     (''RAYQUAZA'', 384), (''RAYQUAZA_MEGA'', 953), (''JIRACHI'', 385), (''DEOXYS'', 386),
     (''DEOXYS_ATTACK'', 1054), (''DEOXYS_DEFENSE'', 1055), (''DEOXYS_SPEED'', 1056), (''TURTWIG'', 387),
     (''GROTLE'', 388), (''TORTERRA'', 389), (''CHIMCHAR'', 390), (''MONFERNO'', 391),
     (''INFERNAPE'', 392), (''PIPLUP'', 393), (''PRINPLUP'', 394), (''EMPOLEON'', 395),
     (''STARLY'', 396), (''STARAVIA'', 397), (''STARAPTOR'', 398), (''BIDOOF'', 399),
     (''BIBAREL'', 400), (''KRICKETOT'', 401), (''KRICKETUNE'', 402), (''SHINX'', 403),
     (''LUXIO'', 404), (''LUXRAY'', 405), (''BUDEW'', 406), (''ROSERADE'', 407),
     (''CRANIDOS'', 408), (''RAMPARDOS'', 409), (''SHIELDON'', 410), (''BASTIODON'', 411),
     (''BURMY'', 412), (''BURMY_SANDY'', 1057), (''BURMY_TRASH'', 1058), (''WORMADAM'', 413),
     (''WORMADAM_SANDY'', 1059), (''WORMADAM_TRASH'', 1060), (''MOTHIM'', 414), (''COMBEE'', 415),
     (''VESPIQUEN'', 416), (''PACHIRISU'', 417), (''BUIZEL'', 418), (''FLOATZEL'', 419),
     (''CHERUBI'', 420), (''CHERRIM'', 421), (''CHERRIM_SUNSHINE'', 1061), (''SHELLOS'', 422),
     (''SHELLOS_WEST'', 1062), (''GASTRODON'', 423), (''GASTRODON_WEST'', 1063), (''AMBIPOM'', 424),
     (''DRIFLOON'', 425), (''DRIFBLIM'', 426), (''BUNEARY'', 427), (''LOPUNNY'', 428),
     (''LOPUNNY_MEGA'', 946), (''MISMAGIUS'', 429), (''HONCHKROW'', 430), (''GLAMEOW'', 431),
     (''PURUGLY'', 432), (''CHINGLING'', 433), (''STUNKY'', 434), (''SKUNTANK'', 435),
     (''BRONZOR'', 436), (''BRONZONG'', 437), (''BONSLY'', 438), (''MIME_JR'', 439),
     (''HAPPINY'', 440), (''CHATOT'', 441), (''SPIRITOMB'', 442), (''GIBLE'', 443),
     (''GABITE'', 444), (''GARCHOMP'', 445), (''GARCHOMP_MEGA'', 947), (''MUNCHLAX'', 446),
     (''RIOLU'', 447), (''LUCARIO'', 448), (''LUCARIO_MEGA'', 948), (''HIPPOPOTAS'', 449),
     (''HIPPOWDON'', 450), (''SKORUPI'', 451), (''DRAPION'', 452), (''CROAGUNK'', 453),
     (''TOXICROAK'', 454), (''CARNIVINE'', 455), (''FINNEON'', 456), (''LUMINEON'', 457),
     (''MANTYKE'', 458), (''SNOVER'', 459)]"

definition SPECIES_MEMBERS_5 :: "(string \<times> int) list" where
  "SPECIES_MEMBERS_5 = [
     (''ABOMASNOW'', 460), (''ABOMASNOW_MEGA'', 949), (''WEAVILE'', 461), (''MAGNEZONE'', 462),
     (''LICKILICKY'', 463), (''RHYPERIOR'', 464), (''TANGROWTH'', 465), (''ELECTIVIRE'', 466),
     (''MAGMORTAR'', 467), (''TOGEKISS'', 468), (''YANMEGA'', 469), (''LEAFEON'', 470),
     (''GLACEON'', 471), (''GLISCOR'', 472), (''MAMOSWINE'', 473), (''PORYGON_Z'', 474),
     (''GALLADE'', 475), (''GALLADE_MEGA'', 950), (''PROBOPASS'', 476), (''DUSKNOIR'', 477),
     (''FROSLASS'', 478), (''ROTOM'', 479), (''ROTOM_HEAT'', 1064), (''ROTOM_WASH'', 1065),
     (''ROTOM_FROST'', 1066), (''ROTOM_FAN'', 1067), (''ROTOM_MOW'', 1068), (''UXIE'', 480),
     (''MESPRIT'', 481), (''AZELF'', 482), (''DIALGA'', 483), (''DIALGA_ORIGIN'', 1069),
     (''PALKIA'', 484), (''PALKIA_ORIGIN'', 1070), (''HEATRAN'', 485), (''REGIGIGAS'', 486),
     (''GIRATINA'', 487), (''GIRATINA_ORIGIN'', 1071), (''CRESSELIA'', 488), (''PHIONE'', 489),
     (''MANAPHY'', 490), (''DARKRAI'', 491), (''SHAYMIN'', 492), (''SHAYMIN_SKY'', 1072),
     (''ARCEUS'', 493), (''ARCEUS_BUG'', 1078), (''ARCEUS_DARK'', 1088), (''ARCEUS_DRAGON'', 1087),
     (''ARCEUS_ELECTRIC'', 1085), (''ARCEUS_FIGHTING'', 1073), (''ARCEUS_FIRE'', 1081), (''ARCEUS_FLYING'', 1074),
     (''ARCEUS_GHOST'', 1079), (''ARCEUS_GRASS'', 1083), (''ARCEUS_GROUND'', 1076), (''ARCEUS_ICE'', 1086),
     (''ARCEUS_POISON'', 1075), (''ARCEUS_PSYCHIC'', 1085), (''ARCEUS_ROCK'', 1077), (''ARCEUS_STEEL'', 1080),
     (''ARCEUS_WATER'', 1082), (''ARCEUS_FAIRY'', 1089), (''VICTINI'', 494), (''SNIVY'', 495),
     (''SERVINE'', 496), (''SERPERIOR'', 497), (''TEPIG'', 498), (''PIGNITE'', 499),
     (''EMBOAR'', 500), (''OSHAWOTT'', 501), (''DEWOTT'', 502), (''SAMUROTT'', 503),
     (''SAMUROTT_HISUI'', 1000), (''PATRAT'', 504), (''WATCHOG'', 505), (''LILLIPUP'', 506),
     (''HERDIER'', 507), (''STOUTLAND'', 508), (''PURRLOIN'', 509), (''LIEPARD'', 510),
     (''PANSAGE'', 511), (''SIMISAGE'', 512), (''PANSEAR'', 513), (''SIMISEAR'', 514),
     (''PANPOUR'', 515), (''SIMIPOUR'', 516), (''MUNNA'', 517), (''MUSHARNA'', 518),
     (''PIDOVE'', 519), (''TRANQUILL'', 520), (''UNFEZANT'', 521), (''BLITZLE'', 522),
     (''ZEBSTRIKA'', 523), (''ROGGENROLA'', 524), (''BOLDORE'', 525), (''GIGALITH'', 526),
     (''WOOBAT'', 527), (''SWOOBAT'', 528), (''DRILBUR'', 529), (''EXCADRILL'', 530),
     (''AUDINO'', 531), (''AUDINO_MEGA'', 951), (''TIMBURR'', 532), (''GURDURR'', 533),
     (''CONKELDURR'', 534), (''TYMPOLE'', 535), (''PALPITOAD'', 536), (''SEISMITOAD'', 537),
     (''THROH'', 538), (''SAWK'', 539), (''SEWADDLE'', 540), (''SWADLOON'', 541),
     (''LEAVANNY'', 542), (''VENIPEDE'', 543), (''WHIRLIPEDE'', 544), (''SCOLIPEDE'', 545),
     (''COTTONEE'', 546), (''WHIMSICOTT'', 547), (''PETILIL'', 548), (''LILLIGANT'', 549),
     (''LILLIGANT_HISUI'', 1001), (''BASCULIN'', 550), (''BASCULIN_BLUE_STRIPED'', 1090), (''BASCULIN_WHITE_STRIPED'', 1091),
     (''SANDILE'', 551), (''KROKOROK'', 552), (''KROOKODILE'', 553), (''DARUMAKA'', 554),
     (''DARUMAKA_GALAR'', 989), (''DARMANITAN'', 555), (''DARMANITAN_ZEN'', 1092), (''DARMANITAN_GALAR'', 990),
     (''DARMANITAN_GALAR_ZEN'', 1093), (''MARACTUS'', 556), (''DWEBBLE'', 557), (''CRUSTLE'', 558),
     (''SCRAGGY'', 559), (''SCRAFTY'', 560), (''SIGILYPH'', 561), (''YAMASK'', 562),
     (''YAMASK_GALAR'', 991), (''COFAGRIGUS'', 563), (''TIRTOUGA'', 564), (''CARRACOSTA'', 565),
     (''ARCHEN'', 566), (''ARCHEOPS'', 567), (''TRUBBISH'', 568), (''GARBODOR'', 569),
     (''ZORUA'', 570), (''ZORUA_HISUI'', 1002)]"

definition SPECIES_MEMBERS_6 :: "(string \<times> int) list" where
  "SPECIES_MEMBERS_6 = [
     (''ZOROARK'', 571), (''ZOROARK_HISUI'', 1003), (''MINCCINO'', 572), (''CINCCINO'', 573),
     (''GOTHITA'', 574), (''GOTHORITA'', 575), (''GOTHITELLE'', 576), (''SOLOSIS'', 577),
     (''DUOSION'', 578), (''REUNICLUS'', 579), (''DUCKLETT'', 580), (''SWANNA'', 581),
     (''VANILLITE'', 582), (''VANILLISH'', 583), (''VANILLUXE'', 584), (''DEERLING'', 585),
     (''DEERLING_SUMMER'', 1094), (''DEERLING_AUTUMN'', 1095), (''DEERLING_WINTER'', 1096), (''SAWSBUCK'', 586),
     (''SAWSBUCK_SUMMER'', 1097), (''SAWSBUCK_AUTUMN'', 1098), (''SAWSBUCK_WINTER'', 1099), (''EMOLGA'', 587),
     (''KARRABLAST'', 588), (''ESCAVALIER'', 589), (''FOONGUS'', 590), (''AMOONGUSS'', 591),
     (''FRILLISH'', 592), (''JELLICENT'', 593), (''ALOMOMOLA'', 594), (''JOLTIK'', 595),
     (''GALVANTULA'', 596), (''FERROSEED'', 597), (''FERROTHORN'', 598), (''KLINK'', 599),
     (''KLANG'', 600), (''KLINKLANG'', 601), (''TYNAMO'', 602), (''EELEKTRIK'', 603),
     (''EELEKTROSS'', 604), (''ELGYEM'', 605), (''BEHEEYEM'', 606), (''LITWICK'', 607),
     (''LAMPENT'', 608), (''CHANDELURE'', 609), (''AXEW'', 610), (''FRAXURE'', 611),
     (''HAXORUS'', 612), (''CUBCHOO'', 613), (''BEARTIC'', 614), (''CRYOGONAL'', 615),
     (''SHELMET'', 616), (''ACCELGOR'', 617), (''STUNFISK'', 618), (''STUNFISK_GALAR'', 992),
     (''MIENFOO'', 619), (''MIENSHAO'', 620), (''DRUDDIGON'', 621), (''GOLETT'', 622),
     (''GOLURK'', 623), (''PAWNIARD'', 624), (''BISHARP'', 625), (''BOUFFALANT'', 626),
     (''RUFFLET'', 627), (''BRAVIARY'', 628), (''BRAVIARY_HISUI'', 1004), (''VULLABY'', 629),
     (''MANDIBUZZ'', 630), (''HEATMOR'', 631), (''DURANT'', 632), (''DEINO'', 633),
     (''ZWEILOUS'', 634), (''HYDREIGON'', 635), (''LARVESTA'', 636), (''VOLCARONA'', 637),
     (''COBALION'', 638), (''TERRAKION'', 639), (''VIRIZION'', 640), (''TORNADUS'', 641),
     (''TORNADUS_THERIAN'', 1100), (''THUNDURUS'', 642), (''THUNDURUS_THERIAN'', 1101), (''RESHIRAM'', 643),
     (''ZEKROM'', 644), (''LANDORUS'', 645), (''LANDORUS_THERIAN'', 1102), (''KYUREM'', 646),
     (''KYUREM_WHITE'', 1104), (''KYUREM_BLACK'', 1105), (''KELDEO'', 647), (''KELDEO_RESOLUTE'', 1106),
     (''MELOETTA'', 648), (''MELOETTA_PIROUETTE'', 1107), (''GENESECT'', 649), (''GENESECT_DOUSE'', 1108),
     (''GENESECT_SHOCK'', 1109), (''GENESECT_BURN'', 1110), (''GENESECT_CHILL'', 1111), (''CHESPIN'', 650),
     (''QUILLADIN'', 651), (''CHESNAUGHT'', 652), (''FENNEKIN'', 653), (''BRAIXEN'', 654),
     (''DELPHOX'', 655), (''FROAKIE'', 656), (''FROGADIER'', 657), (''GRENINJA'', 658),
     (''GRENINJA_BOND'', 1112), (''GRENINJA_ASH'', 1113), (''BUNNELBY'', 659), (''DIGGERSBY'', 660),
     (''FLETCHLING'', 661), (''FLETCHINDER'', 662), (''TALONFLAME'', 663), (''SCATTERBUG'', 664),
     (''SPEWPA'', 665), (''VIVILLON'', 666), (''VIVILLON_1'', 1114), (''VIVILLON_2'', 1115),
     (''VIVILLON_3'', 1116), (''VIVILLON_4'', 1117), (''VIVILLON_5'', 1118), (''VIVILLON_6'', 1119),
     (''VIVILLON_7'', 1120), (''VIVILLON_8'', 1121), (''VIVILLON_9'', 1122), (''VIVILLON_10'', 1123),
     (''VIVILLON_11'', 1124), (''VIVILLON_12'', 1125), (''VIVILLON_13'', 1126), (''VIVILLON_14'', 1127),
     (''VIVILLON_15'', 1128), (''VIVILLON_16'', 1129), (''VIVILLON_17'', 1130), (''VIVILLON_18'', 1131),
     (''VIVILLON_19'', 1132), (''LITLEO'', 667), (''PYROAR'', 668), (''FLABE_U0301BE_U0301'', 669),
     (''FLABE_U0301BE_U0301_1'', 1133), (''FLABE_U0301BE_U0301_2'', 1134), (''FLABE_U0301BE_U0301_3'', 1135), (''FLABE_U0301BE_U0301_4'', 1136),
     (''FLOETTE'', 670), (''FLOETTE_1'', 1137), (''FLOETTE_2'', 1138), (''FLOETTE_3'', 1139),
     (''FLOETTE_4'', 1140), (''FLOETTE_ETERNAL'', 1141)]"

definition SPECIES_MEMBERS_7 :: "(string \<times> int) list" where
  "SPECIES_MEMBERS_7 = [
     (''FLORGES'', 671), (''FLORGES_1'', 1142), (''FLORGES_2'', 1143), (''FLORGES_3'', 1144),
     (''FLORGES_4'', 1145), (''SKIDDO'', 672), (''GOGOAT'', 673), (''PANCHAM'', 674),
     (''PANGORO'', 675), (''FURFROU'', 676), (''FURFROU_1'', 1146), (''FURFROU_2'', 1147),
     (''FURFROU_3'', 1148), (''FURFROU_4'', 1149), (''FURFROU_5'', 1150), (''FURFROU_6'', 1151),
     (''FURFROU_7'', 1152), (''FURFROU_8'', 1153), (''FURFROU_9'', 1154), (''ESPURR'', 677),
     (''MEOWSTIC'', 678), (''MEOWSTIC_F'', 1155), (''HONEDGE'', 679), (''DOUBLADE'', 680),
     (''AEGISLASH'', 681), (''AEGISLASH_BLADE'', 1156), (''SPRITZEE'', 682), (''AROMATISSE'', 683),
     (''SWIRLIX'', 684), (''SLURPUFF'', 685), (''INKAY'', 686), (''MALAMAR'', 687),
     (''BINACLE'', 688), (''BARBARACLE'', 689), (''SKRELP'', 690), (''DRAGALGE'', 691),
     (''CLAUNCHER'', 692), (''CLAWITZER'', 693), (''HELIOPTILE'', 694), (''HELIOLISK'', 695),
     (''TYRUNT'', 696), (''TYRANTRUM'', 697), (''AMAURA'', 698), (''AURORUS'', 699),
     (''SYLVEON'', 700), (''HAWLUCHA'', 701), (''DEDENNE'', 702), (''CARBINK'', 703),
     (''GOOMY'', 704), (''SLIGGOO'', 705), (''SLIGGOO_HISUI'', 1005), (''GOODRA'', 706),
     (''GOODRA_HISUI'', 1006), (''KLEFKI'', 707), (''PHANTUMP'', 708), (''TREVENANT'', 709),
     (''PUMPKABOO'', 710), (''PUMPKABOO_SMALL'', 1157), (''PUMPKABOO_LARGE'', 1158), (''PUMPKABOO_SUPER'', 1159),
     (''GOURGEIST'', 711), (''GOURGEIST_SMALL'', 1160), (''GOURGEIST_LARGE'', 1161), (''GOURGEIST_SUPER'', 1162),
     (''BERGMITE'', 712), (''AVALUGG'', 713), (''AVALUGG_HISUI'', 1007), (''NOIBAT'', 714),
     (''NOIVERN'', 715), (''XERNEAS'', 716), (''XERNEAS_NEUTRAL'', 1163), (''YVELTAL'', 717),
     (''ZYGARDE_AURA_BREAK'', 718), (''ZYGARDE_10_AURA_BREAK'', 1164), (''ZYGARDE_10'', 1165), (''ZYGARDE'', 1166),
     (''ZYGARDE_COMPLETE'', 1167), (''DIANCIE'', 719), (''DIANCIE_MEGA'', 952), (''HOOPA'', 720),
     (''HOOPA_UNBOUND'', 1168), (''VOLCANION'', 721), (''ROWLET'', 722), (''DARTRIX'', 723),
     (''DECIDUEYE'', 724), (''DECIDUEYE_HISUI'', 1008), (''LITTEN'', 725), (''TORRACAT'', 726),
     (''INCINEROAR'', 727), (''POPPLIO'', 728), (''BRIONNE'', 729), (''PRIMARINA'', 730),
     (''PIKIPEK'', 731), (''TRUMBEAK'', 732), (''TOUCANNON'', 733), (''YUNGOOS'', 734),
     (''GUMSHOOS'', 735), (''GRUBBIN'', 736), (''CHARJABUG'', 737), (''VIKAVOLT'', 738),
     (''CRABRAWLER'', 739), (''CRABOMINABLE'', 740), (''ORICORIO'', 741), (''ORICORIO_POM_POM'', 1169),
     (''ORICORIO_PA_U'', 1170), (''ORICORIO_SENSU'', 1171), (''CUTIEFLY'', 742), (''RIBOMBEE'', 743),
     (''ROCKRUFF'', 744), (''ROCKRUFF_DUSK'', 1172), (''LYCANROC'', 745), (''LYCANROC_MIDNIGHT'', 1173),
     (''LYCANROC_DUSK'', 1174), (''WISHIWASHI'', 746), (''WISHIWASHI_SCHOOL'', 1175), (''MAREANIE'', 747),
     (''TOXAPEX'', 748), (''MUDBRAY'', 749), (''MUDSDALE'', 750), (''DEWPIDER'', 751),
     (''ARAQUANID'', 752), (''FOMANTIS'', 753), (''LURANTIS'', 754), (''MORELULL'', 755),
     (''SHIINOTIC'', 756), (''SALANDIT'', 757), (''SALAZZLE'', 758), (''STUFFUL'', 759),
     (''BEWEAR'', 760), (''BOUNSWEET'', 761), (''STEENEE'', 762), (''TSAREENA'', 763),
     (''COMFEY'', 764), (''ORANGURU'', 765), (''PASSIMIAN'', 766), (''WIMPOD'', 767),
     (''GOLISOPOD'', 768), (''SANDYGAST'', 769), (''PALOSSAND'', 770), (''PYUKUMUKU'', 771),
     (''TYPE_NULL'', 772), (''SILVALLY'', 773), (''SILVALLY_BUG'', 1176), (''SILVALLY_DARK'', 1177),
     (''SILVALLY_DRAGON'', 1178), (''SILVALLY_ELECTRIC'', 1179), (''SILVALLY_FAIRY'', 1180), (''SILVALLY_FIGHTING'', 1181),
     (''SILVALLY_FIRE'', 1182), (''SILVALLY_FLYING'', 1183)]"

definition SPECIES_MEMBERS_8 :: "(string \<times> int) list" where
  "SPECIES_MEMBERS_8 = [
     (''SILVALLY_GHOST'', 1184), (''SILVALLY_GRASS'', 1185), (''SILVALLY_GROUND'', 1186), (''SILVALLY_ICE'', 1187),
     (''SILVALLY_POISON'', 1188), (''SILVALLY_PSYCHIC'', 1189), (''SILVALLY_ROCK'', 1190), (''SILVALLY_STEEL'', 1191),
     (''SILVALLY_WATER'', 1192), (''MINIOR'', 774), (''MINIOR_METEOR'', 7740001), (''KOMALA'', 775),
     (''TURTONATOR'', 776), (''TOGEDEMARU'', 777), (''MIMIKYU'', 778), (''MIMIKYU_BUSTED'', 1206),
     (''BRUXISH'', 779), (''DRAMPA'', 780), (''DHELMISE'', 781), (''JANGMO_O'', 782),
     (''HAKAMO_O'', 783), (''KOMMO_O'', 784), (''TAPU_KOKO'', 785), (''TAPU_LELE'', 786),
     (''TAPU_BULU'', 787), (''TAPU_FINI'', 788), (''COSMOG'', 789), (''COSMOEM'', 790),
     (''SOLGALEO'', 791), (''LUNALA'', 792), (''NIHILEGO'', 793), (''BUZZWOLE'', 794),
     (''PHEROMOSA'', 795), (''XURKITREE'', 796), (''CELESTEELA'', 797), (''KARTANA'', 798),
     (''GUZZLORD'', 799), (''NECROZMA'', 800), (''NECROZMA_DUSK_MANE'', 1207), (''NECROZMA_DAWN_WINGS'', 1208),
     (''NECROZMA_ULTRA'', 1209), (''MAGEARNA'', 801), (''MAGEARNA_ORIGINAL'', 1210), (''MARSHADOW'', 802),
     (''POIPOLE'', 803), (''NAGANADEL'', 804), (''STAKATAKA'', 805), (''BLACEPHALON'', 806),
     (''ZERAORA'', 807), (''MELTAN'', 808), (''MELMETAL'', 809), (''GROOKEY'', 810),
     (''THWACKEY'', 811), (''RILLABOOM'', 812), (''SCORBUNNY'', 813), (''RABOOT'', 814),
     (''CINDERACE'', 815), (''SOBBLE'', 816), (''DRIZZILE'', 817), (''INTELEON'', 818),
     (''SKWOVET'', 819), (''GREEDENT'', 820), (''ROOKIDEE'', 821), (''CORVISQUIRE'', 822),
     (''CORVIKNIGHT'', 823), (''BLIPBUG'', 824), (''DOTTLER'', 825), (''ORBEETLE'', 826),
     (''NICKIT'', 827), (''THIEVUL'', 828), (''GOSSIFLEUR'', 829), (''ELDEGOSS'', 830),
     (''WOOLOO'', 831), (''DUBWOOL'', 832), (''CHEWTLE'', 833), (''DREDNAW'', 834),
     (''YAMPER'', 835), (''BOLTUND'', 836), (''ROLYCOLY'', 837), (''CARKOL'', 838),
     (''COALOSSAL'', 839), (''APPLIN'', 840), (''FLAPPLE'', 841), (''APPLETUN'', 842),
     (''SILICOBRA'', 843), (''SANDACONDA'', 844), (''CRAMORANT'', 845), (''CRAMORANT_GULPING'', 1211),
     (''CRAMORANT_GORGING'', 1212), (''ARROKUDA'', 846), (''BARRASKEWDA'', 847), (''TOXEL'', 848),
     (''TOXTRICITY'', 849), (''TOXTRICITY_LOW_KEY'', 1213), (''SIZZLIPEDE'', 850), (''CENTISKORCH'', 851),
     (''CLOBBOPUS'', 852), (''GRAPPLOCT'', 853), (''SINISTEA'', 854), (''SINISTEA_ANTIQUE'', 1214),
     (''POLTEAGEIST'', 855), (''POLTEAGEIST_ANTIQUE'', 1215), (''HATENNA'', 856), (''HATTREM'', 857),
     (''HATTERENE'', 858), (''IMPIDIMP'', 859), (''MORGREM'', 860), (''GRIMMSNARL'', 861),
     (''OBSTAGOON'', 862), (''PERRSERKER'', 863), (''CURSOLA'', 864), (''SIRFETCH_U2019D'', 865),
     (''MR_RIME'', 866), (''RUNERIGUS'', 867), (''MILCERY'', 868), (''ALCREMIE'', 869),
     (''ALCREMIE_1'', 1216), (''ALCREMIE_2'', 1217), (''ALCREMIE_3'', 1218), (''ALCREMIE_4'', 1219),
     (''ALCREMIE_5'', 1220), (''ALCREMIE_6'', 1221), (''ALCREMIE_7'', 1222), (''ALCREMIE_8'', 1223),
     (''FALINKS'', 870), (''PINCURCHIN'', 871), (''SNOM'', 872), (''FROSMOTH'', 873),
     (''STONJOURNER'', 874), (''EISCUE'', 875), (''EISCUE_NOICE'', 1224), (''INDEEDEE'', 876),
     (''INDEEDEE_F'', 1225), (''MORPEKO'', 877), (''MORPEKO_HANGRY'', 1226), (''CUFANT'', 878),
     (''COPPERAJAH'', 879), (''DRACOZOLT'', 880), (''ARCTOZOLT'', 881), (''DRACOVISH'', 882),
     (''ARCTOVISH'', 883), (''DURALUDON'', 884), (''DREEPY'', 885), (''DRAKLOAK'', 886),
     (''DRAGAPULT'', 887), (''ZACIAN'', 888), (''ZACIAN_CROWNED'', 1227), (''ZAMAZENTA'', 889),
     (''ZAMAZENTA_CROWNED'', 1228)]"

definition SPECIES_MEMBERS_9 :: "(string \<times> int) list" where
  "SPECIES_MEMBERS_9 = [
     (''ETERNATUS'', 890), (''ETERNATUS_ETERNAMAX'', 1229), (''KUBFU'', 891), (''URSHIFU'', 892),
     (''URSHIFU_RAPID_STRIKE'', 1230), (''ZARUDE'', 893), (''ZARUDE_DADA'', 1231), (''REGIELEKI'', 894),
     (''REGIDRAGO'', 895), (''GLASTRIER'', 896), (''SPECTRIER'', 897), (''CALYREX'', 898),
     (''CALYREX_ICE'', 1232), (''CALYREX_SHADOW'', 1233), (''WYRDEER'', 899), (''KLEAVOR'', 900),
     (''URSALUNA'', 901), (''BASCULEGION'', 902), (''SNEASLER'', 903), (''OVERQWIL'', 904),
     (''ENAMORUS'', 905), (''ENAMORUS_THERIAN'', 1103)]"

definition SPECIES_MEMBERS :: "(string \<times> int) list" where
  "SPECIES_MEMBERS = concat [SPECIES_MEMBERS_1, SPECIES_MEMBERS_2, SPECIES_MEMBERS_3, SPECIES_MEMBERS_4, SPECIES_MEMBERS_5, SPECIES_MEMBERS_6,
     SPECIES_MEMBERS_7, SPECIES_MEMBERS_8, SPECIES_MEMBERS_9]"

section \<open>Items\<close>

definition ITEM_MEMBERS_1 :: "(string \<times> int) list" where
  "ITEM_MEMBERS_1 = [
     (''NONE'', 0), (''VILE_VIAL'', - 2), (''MASTER_BALL'', 1), (''ULTRA_BALL'', 2),
     (''GREAT_BALL'', 3), (''POKE_BALL'', 4), (''SAFARI_BALL'', 5), (''BERRY_JUICE'', 34),
     (''NET_BALL'', 6), (''DIVE_BALL'', 7), (''NEST_BALL'', 8), (''REPEAT_BALL'', 9),
     (''TIMER_BALL'', 10), (''LUXURY_BALL'', 11), (''PREMIER_BALL'', 12), (''DUSK_BALL'', 13),
     (''HEAL_BALL'', 14), (''QUICK_BALL'', 15), (''CHERISH_BALL'', 16), (''SUN_STONE'', 80),
     (''MOON_STONE'', 81), (''FIRE_STONE'', 82), (''THUNDER_STONE'', 83), (''WATER_STONE'', 84),
     (''LEAF_STONE'', 85), (''RARE_BONE'', 106), (''SHINY_STONE'', 107), (''DUSK_STONE'', 108),
     (''DAWN_STONE'', 109), (''OVAL_STONE'', 110), (''GRISEOUS_ORB'', 112), (''ADAMANT_ORB'', 135),
     (''LUSTROUS_ORB'', 136), (''LEEK'', 259), (''THICK_CLUB'', 260), (''BLUE_ORB'', 41),
     (''RED_ORB'', 40), (''GARCHOMPITE'', 573), (''ABOMASITE'', 575), (''ABSOLITE'', 576),
     (''AERODACTYLITE'', 577), (''AGGRONITE'', 578), (''ALAKAZITE'', 579), (''AMPHAROSITE'', 580),
     (''BANETTITE'', 582), (''BLASTOISINITE'', 583), (''BLAZIKENITE'', 584), (''CHARIZARDITE_X'', 585),
     (''CHARIZARDITE_Y'', 586), (''GARDEVOIRITE'', 587), (''GENGARITE'', 588), (''GYARADOSITE'', 589),
     (''HERACRONITE'', 590), (''HOUNDOOMINITE'', 591), (''KANGASKHANITE'', 592), (''LUCARIONITE'', 594),
     (''MANECTITE'', 596), (''MAWILITE'', 598), (''MEDICHAMITE'', 599), (''PINSIRITE'', 602),
     (''SCIZORITE'', 605), (''TYRANITARITE'', 607), (''VENUSAURITE'', 608), (''SWAMPERTITE'', 612),
     (''SCEPTILITE'', 613), (''SABLENITE'', 614), (''ALTARIANITE'', 615), (''GALLADITE'', 616),
     (''AUDINITE'', 617), (''METAGROSSITE'', 618), (''SHARPEDONITE'', 619), (''SLOWBRONITE'', 620),
     (''STEELIXITE'', 621), (''PIDGEOTITE'', 622), (''GLALITITE'', 623), (''CAMERUPTITE'', 625),
     (''LOPUNNITE'', 626), (''SALAMENCITE'', 627), (''BEEDRILLITE'', 628), (''LATIASITE'', 629),
     (''LATIOSITE'', 630), (''CHERI_BERRY'', 149), (''CHESTO_BERRY'', 150), (''PECHA_BERRY'', 151),
     (''RAWST_BERRY'', 152), (''ASPEAR_BERRY'', 153), (''LEPPA_BERRY'', 154), (''ORAN_BERRY'', 155),
     (''PERSIM_BERRY'', 156), (''LUM_BERRY'', 157), (''SITRUS_BERRY'', 158), (''FIGY_BERRY'', 159),
     (''WIKI_BERRY'', 160), (''MAGO_BERRY'', 161), (''AGUAV_BERRY'', 162), (''IAPAPA_BERRY'', 163),
     (''POMEG_BERRY'', 169), (''KELPSY_BERRY'', 170), (''QUALOT_BERRY'', 171), (''HONDEW_BERRY'', 172),
     (''GREPA_BERRY'', 173), (''TAMATO_BERRY'', 174), (''OCCA_BERRY'', 184), (''PASSHO_BERRY'', 185),
     (''WACAN_BERRY'', 186), (''RINDO_BERRY'', 187), (''YACHE_BERRY'', 188), (''CHOPLE_BERRY'', 189),
     (''KEBIA_BERRY'', 190), (''SHUCA_BERRY'', 191), (''COBA_BERRY'', 192), (''PAYAPA_BERRY'', 193),
     (''TANGA_BERRY'', 194), (''CHARTI_BERRY'', 195), (''KASIB_BERRY'', 196), (''HABAN_BERRY'', 197),
     (''COLBUR_BERRY'', 198), (''BABIRI_BERRY'', 199), (''CHILAN_BERRY'', 200), (''LIECHI_BERRY'', 201),
     (''GANLON_BERRY'', 202), (''SALAC_BERRY'', 203), (''PETAYA_BERRY'', 204), (''APICOT_BERRY'', 205),
     (''LANSAT_BERRY'', 206), (''STARF_BERRY'', 207), (''ENIGMA_BERRY'', 208), (''MICLE_BERRY'', 209),
     (''CUSTAP_BERRY'', 210), (''JABOCA_BERRY'', 211), (''ROWAP_BERRY'', 212), (''BRIGHT_POWDER'', 213),
     (''WHITE_HERB'', 214), (''QUICK_CLAW'', 217), (''MENTAL_HERB'', 219), (''CHOICE_BAND'', 220),
     (''KING_S_ROCK'', 221), (''SILVER_POWDER'', 222), (''SOUL_DEW'', 225), (''FOCUS_BAND'', 230),
     (''SCOPE_LENS'', 232), (''METAL_COAT'', 233), (''LEFTOVERS'', 234), (''DRAGON_SCALE'', 235),
     (''LIGHT_BALL'', 236), (''SOFT_SAND'', 237), (''HARD_STONE'', 238)]"

definition ITEM_MEMBERS_2 :: "(string \<times> int) list" where
  "ITEM_MEMBERS_2 = [
     (''MIRACLE_SEED'', 239), (''BLACK_GLASSES'', 240), (''BLACK_BELT'', 241), (''MAGNET'', 242),
     (''MYSTIC_WATER'', 243), (''SHARP_BEAK'', 244), (''POISON_BARB'', 245), (''NEVER_MELT_ICE'', 246),
     (''SPELL_TAG'', 247), (''TWISTED_SPOON'', 248), (''CHARCOAL'', 249), (''DRAGON_FANG'', 250),
     (''SILK_SCARF'', 251), (''UP_GRADE'', 252), (''SHELL_BELL'', 253), (''WIDE_LENS'', 265),
     (''MUSCLE_BAND'', 266), (''WISE_GLASSES'', 267), (''EXPERT_BELT'', 268), (''LIGHT_CLAY'', 269),
     (''LIFE_ORB'', 270), (''POWER_HERB'', 271), (''TOXIC_ORB'', 272), (''FLAME_ORB'', 273),
     (''FOCUS_SASH'', 275), (''ZOOM_LENS'', 276), (''METRONOME'', 277), (''IRON_BALL'', 278),
     (''LAGGING_TAIL'', 279), (''DESTINY_KNOT'', 280), (''BLACK_SLUDGE'', 281), (''ICY_ROCK'', 282),
     (''SMOOTH_ROCK'', 283), (''HEAT_ROCK'', 284), (''DAMP_ROCK'', 285), (''GRIP_CLAW'', 286),
     (''CHOICE_SCARF'', 287), (''STICKY_BARB'', 288), (''POWER_BRACER'', 289), (''POWER_BELT'', 290),
     (''POWER_LENS'', 291), (''POWER_BAND'', 292), (''POWER_ANKLET'', 293), (''POWER_WEIGHT'', 294),
     (''SHED_SHELL'', 295), (''BIG_ROOT'', 296), (''CHOICE_SPECS'', 297), (''FLAME_PLATE'', 298),
     (''SPLASH_PLATE'', 299), (''ZAP_PLATE'', 300), (''MEADOW_PLATE'', 301), (''ICICLE_PLATE'', 302),
     (''FIST_PLATE'', 303), (''TOXIC_PLATE'', 304), (''EARTH_PLATE'', 305), (''SKY_PLATE'', 306),
     (''MIND_PLATE'', 307), (''INSECT_PLATE'', 308), (''STONE_PLATE'', 309), (''SPOOKY_PLATE'', 310),
     (''DRACO_PLATE'', 311), (''DREAD_PLATE'', 312), (''IRON_PLATE'', 313), (''PROTECTOR'', 321),
     (''ELECTIRIZER'', 322), (''MAGMARIZER'', 323), (''DUBIOUS_DISC'', 324), (''REAPER_CLOTH'', 325),
     (''RAZOR_CLAW'', 326), (''RAZOR_FANG'', 327), (''FAST_BALL'', 492), (''LEVEL_BALL'', 493),
     (''LURE_BALL'', 494), (''HEAVY_BALL'', 495), (''LOVE_BALL'', 496), (''FRIEND_BALL'', 497),
     (''MOON_BALL'', 498), (''SPORT_BALL'', 499), (''PARK_BALL'', 500), (''PRISM_SCALE'', 537),
     (''EVIOLITE'', 538), (''FLOAT_STONE'', 539), (''ROCKY_HELMET'', 540), (''AIR_BALLOON'', 541),
     (''RED_CARD'', 542), (''RING_TARGET'', 543), (''BINDING_BAND'', 544), (''ABSORB_BULB'', 545),
     (''CELL_BATTERY'', 546), (''EJECT_BUTTON'', 547), (''NORMAL_GEM'', 564), (''FIRE_GEM'', 4001),
     (''WATER_GEM'', 4002), (''GRASS_GEM'', 4003), (''ELECTRIC_GEM'', 4004), (''ICE_GEM'', 4005),
     (''FIGHTING_GEM'', 4006), (''POISON_GEM'', 4007), (''GROUND_GEM'', 4008), (''FLYING_GEM'', 4009),
     (''PSYCHIC_GEM'', 4010), (''BUG_GEM'', 4011), (''ROCK_GEM'', 4012), (''GHOST_GEM'', 4013),
     (''DRAGON_GEM'', 4014), (''DARK_GEM'', 4015), (''STEEL_GEM'', 4016), (''FAIRY_GEM'', 4017),
     (''PRETTY_FEATHER'', 571), (''DREAM_BALL'', 576), (''BIG_NUGGET'', 581), (''WEAKNESS_POLICY'', 639),
     (''ASSAULT_VEST'', 640), (''PIXIE_PLATE'', 644), (''LUMINOUS_MOSS'', 648), (''SNOWBALL'', 649),
     (''SAFETY_GOGGLES'', 650), (''ROSELI_BERRY'', 686), (''KEE_BERRY'', 687), (''MARANGA_BERRY'', 688),
     (''BOTTLE_CAP'', 795), (''GOLD_BOTTLE_CAP'', 796), (''ADRENALINE_ORB'', 846), (''ICE_STONE'', 849),
     (''BEAST_BALL'', 851), (''TERRAIN_EXTENDER'', 879), (''PROTECTIVE_PADS'', 880), (''ELECTRIC_SEED'', 881),
     (''PSYCHIC_SEED'', 882), (''MISTY_SEED'', 883), (''GRASSY_SEED'', 884), (''RUSTED_SWORD'', 1103),
     (''RUSTED_SHIELD'', 1104), (''STRAWBERRY_SWEET'', 1109), (''LOVE_SWEET'', 1110), (''BERRY_SWEET'', 1111),
     (''CLOVER_SWEET'', 1112), (''FLOWER_SWEET'', 1113), (''STAR_SWEET'', 1114), (''RIBBON_SWEET'', 1115),
     (''SWEET_APPLE'', 1116), (''TART_APPLE'', 1117), (''THROAT_SPRAY'', 1118), (''EJECT_PACK'', 1119),
     (''HEAVY_DUTY_BOOTS'', 1120), (''BLUNDER_POLICY'', 1121), (''ROOM_SERVICE'', 1122), (''UTILITY_UMBRELLA'', 1123),
     (''CRACKED_POT'', 1253), (''CHIPPED_POT'', 1254)]"

definition ITEM_MEMBERS_3 :: "(string \<times> int) list" where
  "ITEM_MEMBERS_3 = [
     (''GALARICA_CUFF'', 1582), (''GALARICA_WREATH'', 1592), (''ADAMANT_CRYSTAL'', 1777), (''LUSTROUS_GLOBE'', 1778),
     (''GRISEOUS_CORE'', 1779), (''STRANGE_BALL'', 1785), (''MALICIOUS_ARMOR'', 1861), (''PUNCHING_GLOVE'', 1884),
     (''COVERT_CLOAK'', 1885), (''LOADED_DICE'', 1886), (''AUSPICIOUS_ARMOR'', 2344), (''FAIRY_FEATHER'', 2401),
     (''SYRUPY_APPLE'', 2402), (''UNREMARKABLE_TEACUP'', 2403), (''MASTERPIECE_TEACUP'', 2404), (''CORNERSTONE_MASK'', 2406),
     (''WELLSPRING_MASK'', 2407), (''HEARTHFLAME_MASK'', 2408), (''METAL_ALLOY'', 2482), (''FIRE_MEMORY'', 901),
     (''WATER_MEMORY'', 902), (''GRASS_MEMORY'', 903), (''ELECTRIC_MEMORY'', 904), (''ICE_MEMORY'', 905),
     (''FIGHTING_MEMORY'', 906), (''POISON_MEMORY'', 907), (''GROUND_MEMORY'', 908), (''FLYING_MEMORY'', 909),
     (''PSYCHIC_MEMORY'', 910), (''BUG_MEMORY'', 911), (''ROCK_MEMORY'', 912), (''GHOST_MEMORY'', 913),
     (''DRAGON_MEMORY'', 914), (''DARK_MEMORY'', 915), (''STEEL_MEMORY'', 916), (''FAIRY_MEMORY'', 917)]"

definition ITEM_MEMBERS :: "(string \<times> int) list" where
  "ITEM_MEMBERS = concat [ITEM_MEMBERS_1, ITEM_MEMBERS_2, ITEM_MEMBERS_3]"

section \<open>Abilities\<close>

definition ABILITY_MEMBERS_1 :: "(string \<times> int) list" where
  "ABILITY_MEMBERS_1 = [
     (''NONE'', 0), (''NO_ABILITY'', 0), (''STENCH'', 1), (''DRIZZLE'', 2),
     (''SPEED_BOOST'', 3), (''BATTLE_ARMOR'', 4), (''STURDY'', 5), (''DAMP'', 6),
     (''LIMBER'', 7), (''SAND_VEIL'', 8), (''STATIC'', 9), (''VOLT_ABSORB'', 10),
     (''WATER_ABSORB'', 11), (''OBLIVIOUS'', 12), (''CLOUD_NINE'', 13), (''COMPOUND_EYES'', 14),
     (''INSOMNIA'', 15), (''COLOR_CHANGE'', 16), (''IMMUNITY'', 17), (''FLASH_FIRE'', 18),
     (''SHIELD_DUST'', 19), (''OWN_TEMPO'', 20), (''SUCTION_CUPS'', 21), (''INTIMIDATE'', 22),
     (''SHADOW_TAG'', 23), (''ROUGH_SKIN'', 24), (''WONDER_GUARD'', 25), (''LEVITATE'', 26),
     (''EFFECT_SPORE'', 27), (''SYNCHRONIZE'', 28), (''CLEAR_BODY'', 29), (''NATURAL_CURE'', 30),
     (''LIGHTNING_ROD'', 31), (''SERENE_GRACE'', 32), (''SWIFT_SWIM'', 33), (''CHLOROPHYLL'', 34),
     (''ILLUMINATE'', 35), (''TRACE'', 36), (''HUGE_POWER'', 37), (''POISON_POINT'', 38),
     (''INNER_FOCUS'', 39), (''MAGMA_ARMOR'', 40), (''WATER_VEIL'', 41), (''MAGNET_PULL'', 42),
     (''SOUNDPROOF'', 43), (''RAIN_DISH'', 44), (''SAND_STREAM'', 45), (''PRESSURE'', 46),
     (''THICK_FAT'', 47), (''EARLY_BIRD'', 48), (''FLAME_BODY'', 49), (''RUN_AWAY'', 50),
     (''KEEN_EYE'', 51), (''HYPER_CUTTER'', 52), (''PICKUP'', 53), (''TRUANT'', 54),
     (''HUSTLE'', 55), (''CUTE_CHARM'', 56), (''PLUS'', 57), (''MINUS'', 58),
     (''FORECAST'', 59), (''STICKY_HOLD'', 60), (''SHED_SKIN'', 61), (''GUTS'', 62),
     (''MARVEL_SCALE'', 63), (''LIQUID_OOZE'', 64), (''OVERGROW'', 65), (''BLAZE'', 66),
     (''TORRENT'', 67), (''SWARM'', 68), (''ROCK_HEAD'', 69), (''DROUGHT'', 70),
     (''ARENA_TRAP'', 71), (''VITAL_SPIRIT'', 72), (''WHITE_SMOKE'', 73), (''PURE_POWER'', 74),
     (''SHELL_ARMOR'', 75), (''AIR_LOCK'', 76), (''TANGLED_FEET'', 77), (''MOTOR_DRIVE'', 78),
     (''RIVALRY'', 79), (''STEADFAST'', 80), (''SNOW_CLOAK'', 81), (''GLUTTONY'', 82),
     (''ANGER_POINT'', 83), (''UNBURDEN'', 84), (''HEATPROOF'', 85), (''SIMPLE'', 86),
     (''DRY_SKIN'', 87), (''DOWNLOAD'', 88), (''IRON_FIST'', 89), (''POISON_HEAL'', 90),
     (''ADAPTABILITY'', 91), (''SKILL_LINK'', 92), (''HYDRATION'', 93), (''SOLAR_POWER'', 94),
     (''QUICK_FEET'', 95), (''NORMALIZE'', 96), (''SNIPER'', 97), (''MAGIC_GUARD'', 98),
     (''NO_GUARD'', 99), (''STALL'', 100), (''TECHNICIAN'', 101), (''LEAF_GUARD'', 102),
     (''KLUTZ'', 103), (''MOLD_BREAKER'', 104), (''SUPER_LUCK'', 105), (''AFTERMATH'', 106),
     (''ANTICIPATION'', 107), (''FOREWARN'', 108), (''UNAWARE'', 109), (''TINTED_LENS'', 110),
     (''FILTER'', 111), (''SLOW_START'', 112), (''SCRAPPY'', 113), (''STORM_DRAIN'', 114),
     (''ICE_BODY'', 115), (''SOLID_ROCK'', 116), (''SNOW_WARNING'', 117), (''HONEY_GATHER'', 118),
     (''FRISK'', 119), (''RECKLESS'', 120), (''MULTITYPE'', 121), (''FLOWER_GIFT'', 122),
     (''BAD_DREAMS'', 123), (''PICKPOCKET'', 124), (''SHEER_FORCE'', 125), (''CONTRARY'', 126),
     (''UNNERVE'', 127), (''DEFIANT'', 128), (''DEFEATIST'', 129), (''CURSED_BODY'', 130),
     (''HEALER'', 131), (''FRIEND_GUARD'', 132), (''WEAK_ARMOR'', 133), (''HEAVY_METAL'', 134),
     (''LIGHT_METAL'', 135), (''MULTISCALE'', 136), (''TOXIC_BOOST'', 137), (''FLARE_BOOST'', 138),
     (''HARVEST'', 139), (''TELEPATHY'', 140), (''MOODY'', 141), (''OVERCOAT'', 142),
     (''POISON_TOUCH'', 143), (''REGENERATOR'', 144), (''BIG_PECKS'', 145), (''SAND_RUSH'', 146),
     (''WONDER_SKIN'', 147), (''ANALYTIC'', 148)]"

definition ABILITY_MEMBERS_2 :: "(string \<times> int) list" where
  "ABILITY_MEMBERS_2 = [
     (''ILLUSION'', 149), (''IMPOSTER'', 150), (''INFILTRATOR'', 151), (''MUMMY'', 152),
     (''MOXIE'', 153), (''JUSTIFIED'', 154), (''RATTLED'', 155), (''MAGIC_BOUNCE'', 156),
     (''SAP_SIPPER'', 157), (''PRANKSTER'', 158), (''SAND_FORCE'', 159), (''IRON_BARBS'', 160),
     (''ZEN_MODE'', 161), (''VICTORY_STAR'', 162), (''TURBOBLAZE'', 163), (''TERAVOLT'', 164),
     (''AROMA_VEIL'', 165), (''FLOWER_VEIL'', 166), (''CHEEK_POUCH'', 167), (''PROTEAN'', 168),
     (''FUR_COAT'', 169), (''MAGICIAN'', 170), (''BULLETPROOF'', 171), (''COMPETITIVE'', 172),
     (''STRONG_JAW'', 173), (''REFRIGERATE'', 174), (''SWEET_VEIL'', 175), (''STANCE_CHANGE'', 176),
     (''GALE_WINGS'', 177), (''MEGA_LAUNCHER'', 178), (''GRASS_PELT'', 179), (''SYMBIOSIS'', 180),
     (''TOUGH_CLAWS'', 181), (''PIXILATE'', 182), (''GOOEY'', 183), (''AERILATE'', 184),
     (''PARENTAL_BOND'', 185), (''DARK_AURA'', 186), (''FAIRY_AURA'', 187), (''AURA_BREAK'', 188),
     (''PRIMORDIAL_SEA'', 189), (''DESOLATE_LAND'', 190), (''DELTA_STREAM'', 191), (''STAMINA'', 192),
     (''WIMP_OUT'', 193), (''EMERGENCY_EXIT'', 194), (''WATER_COMPACTION'', 195), (''MERCILESS'', 196),
     (''SHIELDS_DOWN'', 197), (''WATER_BUBBLE'', 199), (''STEELWORKER'', 200), (''BERSERK'', 201),
     (''SLUSH_RUSH'', 202), (''LONG_REACH'', 203), (''LIQUID_VOICE'', 204), (''TRIAGE'', 205),
     (''GALVANIZE'', 206), (''SURGE_SURFER'', 207), (''SCHOOLING'', 208), (''DISGUISE'', 209),
     (''BATTLE_BOND'', 210), (''POWER_CONSTRUCT'', 211), (''CORROSION'', 212), (''COMATOSE'', 213),
     (''QUEENLY_MAJESTY'', 214), (''INNARDS_OUT'', 215), (''DANCER'', 216), (''BATTERY'', 217),
     (''FLUFFY'', 218), (''DAZZLING'', 219), (''SOUL_HEART'', 220), (''TANGLING_HAIR'', 221),
     (''RECEIVER'', 222), (''POWER_OF_ALCHEMY'', 223), (''BEAST_BOOST'', 224), (''RKS_SYSTEM'', 225),
     (''ELECTRIC_SURGE'', 226), (''PSYCHIC_SURGE'', 227), (''MISTY_SURGE'', 228), (''GRASSY_SURGE'', 229),
     (''FULL_METAL_BODY'', 230), (''SHADOW_SHIELD'', 231), (''PRISM_ARMOR'', 232), (''NEUROFORCE'', 233),
     (''INTREPID_SWORD'', 234), (''DAUNTLESS_SHIELD'', 235), (''LIBERO'', 236), (''BALL_FETCH'', 237),
     (''COTTON_DOWN'', 238), (''PROPELLER_TAIL'', 239), (''MIRROR_ARMOR'', 240), (''GULP_MISSILE'', 241),
     (''STALWART'', 242), (''STEAM_ENGINE'', 243), (''PUNK_ROCK'', 244), (''SAND_SPIT'', 245),
     (''ICE_SCALES'', 246), (''RIPEN'', 247), (''ICE_FACE'', 248), (''POWER_SPOT'', 249),
     (''MIMICRY'', 250), (''SCREEN_CLEANER'', 251), (''STEELY_SPIRIT'', 252), (''PERISH_BODY'', 253),
     (''WANDERING_SPIRIT'', 254), (''GORILLA_TACTICS'', 255), (''NEUTRALIZING_GAS'', 256), (''PASTEL_VEIL'', 257),
     (''HUNGER_SWITCH'', 258), (''QUICK_DRAW'', 259), (''UNSEEN_FIST'', 260), (''CURIOUS_MEDICINE'', 261),
     (''TRANSISTOR'', 262), (''DRAGON_S_MAW'', 263), (''CHILLING_NEIGH'', 264), (''GRIM_NEIGH'', 265),
     (''AS_ONE_GLASTRIER'', 266), (''AS_ONE_SPECTRIER'', 267), (''LINGERING_AROMA'', 268), (''SEED_SOWER'', 269),
     (''THERMAL_EXCHANGE'', 270), (''ANGER_SHELL'', 271), (''PURIFYING_SALT'', 272), (''WELL_BAKED_BODY'', 273),
     (''WIND_RIDER'', 274), (''GUARD_DOG'', 275), (''ROCKY_PAYLOAD'', 276), (''WIND_POWER'', 277),
     (''ZERO_TO_HERO'', 278), (''COMMANDER'', 279), (''ELECTROMORPHOSIS'', 280), (''PROTOSYNTHESIS'', 281),
     (''QUARK_DRIVE'', 282), (''GOOD_AS_GOLD'', 283), (''BEADS_OF_RUIN'', 284), (''TABLETS_OF_RUIN'', 286),
     (''VESSEL_OF_RUIN'', 287), (''SWORD_OF_RUIN'', 285), (''ORICHALCUM_PULSE'', 288), (''HADRON_ENGINE'', 289),
     (''OPPORTUNIST'', 290), (''CUD_CHEW'', 291), (''SHARPNESS'', 292), (''SUPREME_OVERLORD'', 293),
     (''COSTAR'', 294), (''TOXIC_DEBRIS'', 295), (''ARMOR_TAIL'', 296), (''EARTH_EATER'', 297),
     (''MYCELIUM_MIGHT'', 298), (''HOSPITALITY'', 299)]"

definition ABILITY_MEMBERS_3 :: "(string \<times> int) list" where
  "ABILITY_MEMBERS_3 = [
     (''MIND_S_EYE'', 300), (''EMBODY_ASPECT_TEAL'', 301), (''EMBODY_ASPECT_WELLSPRING'', 302), (''EMBODY_ASPECT_HEARTHFLAME'', 303),
     (''EMBODY_ASPECT_CORNERSTONE'', 304), (''TOXIC_CHAIN'', 305), (''SUPERSWEET_SYRUP'', 306), (''TERA_SHIFT'', 307),
     (''TERA_SHELL'', 308), (''TERAFORM_ZERO'', 309), (''POISON_PUPPETEER'', 310), (''PIERCING_DRILL'', 311),
     (''DRAGONIZE'', 312), (''MEGA_SOL'', 315), (''SPICY_SPRAY'', 318)]"

definition ABILITY_MEMBERS :: "(string \<times> int) list" where
  "ABILITY_MEMBERS = concat [ABILITY_MEMBERS_1, ABILITY_MEMBERS_2, ABILITY_MEMBERS_3]"

section \<open>Values and aliases\<close>

lemma flag_members_values: "map (\<lambda>x. fst (snd x)) (flag_members seen rows) = map snd rows"
  by (induction seen rows rule: flag_members.induct) auto

lemma flag_members_canonical:
  "set (map (\<lambda>x. fst (snd x)) (filter (\<lambda>x. snd (snd x)) (flag_members seen rows))) = snd ` set rows - set seen"
  by (induction seen rows rule: flag_members.induct) (auto split: if_splits)

lemma flag_members_distinct:
  "distinct (map (\<lambda>x. fst (snd x)) (filter (\<lambda>x. snd (snd x)) (flag_members seen rows)))
    \<and> set (map (\<lambda>x. fst (snd x)) (filter (\<lambda>x. snd (snd x)) (flag_members seen rows))) \<inter> set seen = {}"
  by (induction seen rows rule: flag_members.induct) auto

text \<open>Iterating over an enum gives every value of a member exactly once.\<close>

lemma enum_iteration:
  "distinct (map (\<lambda>x. fst (snd x)) (filter (\<lambda>x. snd (snd x)) (enum_members rows)))"
  "set (map (\<lambda>x. fst (snd x)) (filter (\<lambda>x. snd (snd x)) (enum_members rows))) = snd ` set rows"
  using flag_members_distinct[of "[]" rows] flag_members_canonical[of "[]" rows] by (simp_all add: enum_members_def)

end
