(* ===== verification/GbaTables.thy ===== *)
theory GbaTables
  imports EnumTables
begin

text \<open>
  The tables that translate the game's memory (\<open>emulator/gba_moves.py\<close>, \<open>emulator/gba_items.py\<close>, \<open>emulator/gba_abilities.py\<close>): the
  game's move and item numbers and the ability slots of a species. A member of an enum is its value, as in \<open>EnumTables\<close>.
\<close>

section \<open>Move numbers\<close>

definition GBA_MOVE_ROWS_1 :: "(int \<times> move) list" where
  "GBA_MOVE_ROWS_1 = [
     (1, 1), (2, 2), (3, 3), (4, 4), (5, 5), (6, 6), (7, 7), (8, 8), (9, 9), (10, 10),
     (11, 11), (12, 12), (13, 13), (14, 14), (15, 15), (16, 16), (17, 17), (18, 18), (19, 19), (20, 20),
     (21, 21), (22, 22), (23, 23), (24, 24), (25, 25), (26, 26), (27, 27), (28, 28), (29, 29), (30, 30),
     (31, 31), (32, 32), (33, 33), (34, 34), (35, 35), (36, 36), (37, 37), (38, 38), (39, 39), (40, 40),
     (41, 41), (42, 42), (43, 43), (44, 44), (45, 45), (46, 46), (47, 47), (48, 48), (49, 49), (50, 50),
     (51, 51), (52, 52), (53, 53), (55, 55), (56, 56), (57, 57), (58, 58), (59, 59), (60, 60), (61, 61),
     (62, 62), (63, 63), (64, 64), (65, 65), (66, 66), (67, 67), (68, 68), (69, 69), (70, 70), (71, 71),
     (72, 72), (73, 73), (74, 74), (75, 75), (76, 76), (77, 77), (78, 78), (79, 79), (80, 80), (81, 81),
     (82, 82), (83, 83), (84, 84), (85, 85), (86, 86), (87, 87), (88, 88), (89, 89), (90, 90), (91, 91),
     (92, 92), (93, 93), (94, 94), (95, 95), (96, 96), (97, 97), (98, 98), (99, 99), (100, 100), (101, 101),
     (103, 103), (104, 104), (105, 105), (106, 106), (107, 107), (108, 108), (109, 109), (111, 111), (112, 112), (113, 113),
     (114, 114), (115, 115), (116, 116), (118, 118), (119, 119), (120, 120), (121, 121), (122, 122), (123, 123), (124, 124),
     (125, 125), (126, 126), (127, 127), (128, 128), (129, 129), (130, 130), (131, 131), (132, 132), (133, 133), (134, 134),
     (135, 135), (136, 136), (137, 137), (138, 138), (139, 139), (140, 140), (141, 141), (142, 142), (143, 143), (144, 144),
     (145, 145), (146, 146), (147, 147), (148, 148), (149, 149), (150, 150), (151, 151)]"

definition GBA_MOVE_ROWS_2 :: "(int \<times> move) list" where
  "GBA_MOVE_ROWS_2 = [
     (152, 152), (153, 153), (154, 154), (155, 155), (156, 156), (157, 157), (158, 158), (159, 159), (161, 161), (162, 162),
     (163, 163), (164, 164), (165, 165), (167, 167), (168, 168), (171, 171), (172, 172), (173, 173), (174, 174), (175, 175),
     (177, 177), (178, 178), (179, 179), (181, 181), (182, 182), (183, 183), (184, 184), (185, 185), (186, 186), (187, 187),
     (188, 188), (189, 189), (190, 190), (191, 191), (192, 192), (193, 193), (194, 194), (195, 195), (196, 196), (197, 197),
     (198, 198), (200, 200), (201, 201), (202, 202), (203, 203), (204, 204), (205, 205), (206, 206), (207, 207), (208, 208),
     (209, 209), (210, 210), (211, 211), (212, 212), (213, 213), (214, 214), (215, 215), (216, 216), (217, 217), (218, 218),
     (219, 219), (220, 220), (221, 221), (222, 222), (223, 223), (224, 224), (225, 225), (226, 226), (227, 227), (228, 228),
     (229, 229), (230, 230), (231, 231), (232, 232), (233, 233), (234, 234), (235, 235), (236, 236), (237, 237), (238, 238),
     (239, 239), (240, 240), (241, 241), (242, 242), (243, 243), (244, 244), (245, 245), (246, 246), (247, 247), (248, 248),
     (249, 249), (250, 250), (251, 251), (252, 252), (253, 253), (254, 254), (255, 255), (256, 256), (257, 257), (258, 258),
     (259, 259), (260, 260), (261, 261), (262, 262), (263, 263), (264, 264), (265, 265), (266, 266), (267, 267), (269, 269),
     (270, 270), (271, 271), (272, 272), (273, 273), (274, 274), (275, 275), (276, 276), (277, 277), (279, 279), (280, 280),
     (281, 281), (282, 282), (283, 283), (284, 284), (285, 285), (286, 286), (289, 289), (290, 290), (291, 291), (292, 292),
     (294, 294), (295, 295), (296, 296), (297, 297), (298, 298), (299, 299), (301, 301), (302, 302), (303, 303)]"

definition GBA_MOVE_ROWS_3 :: "(int \<times> move) list" where
  "GBA_MOVE_ROWS_3 = [
     (304, 304), (305, 305), (306, 306), (307, 307), (308, 308), (309, 309), (310, 310), (311, 311), (312, 312), (313, 313),
     (314, 314), (315, 315), (316, 316), (317, 317), (318, 318), (319, 319), (320, 320), (321, 321), (322, 322), (323, 323),
     (324, 324), (325, 325), (326, 326), (327, 327), (328, 328), (329, 329), (330, 330), (331, 331), (332, 332), (333, 333),
     (334, 334), (335, 335), (336, 336), (337, 337), (338, 338), (339, 339), (340, 340), (341, 341), (342, 342), (343, 343),
     (344, 344), (345, 345), (347, 347), (348, 348), (349, 349), (350, 350), (351, 351), (352, 352), (353, 353), (354, 354),
     (355, 355), (356, 356), (358, 358), (359, 359), (360, 360), (361, 361), (362, 362), (363, 363), (364, 364), (365, 365),
     (366, 366), (367, 367), (368, 368), (369, 369), (370, 370), (371, 371), (372, 372), (373, 373), (374, 374), (376, 376),
     (378, 378), (379, 379), (381, 381), (382, 382), (383, 383), (386, 386), (387, 387), (389, 389), (390, 390), (392, 392),
     (393, 393), (394, 394), (395, 395), (396, 396), (397, 397), (398, 398), (399, 399), (400, 400), (401, 401), (402, 402),
     (403, 403), (404, 404), (405, 405), (406, 406), (407, 407), (408, 408), (409, 409), (410, 410), (411, 411), (412, 412),
     (413, 413), (414, 414), (415, 415), (416, 416), (417, 417), (418, 418), (419, 419), (420, 420), (421, 421), (422, 422),
     (423, 423), (424, 424), (425, 425), (426, 426), (427, 427), (428, 428), (429, 429), (430, 430), (431, 431), (432, 432),
     (433, 433), (434, 434), (435, 435), (436, 436), (437, 437), (438, 438), (439, 439), (440, 440), (441, 441), (442, 442),
     (443, 443), (444, 444), (445, 445), (446, 446), (447, 447), (448, 448), (449, 449), (450, 450), (451, 451), (452, 452),
     (453, 453), (454, 454)]"

definition GBA_MOVE_ROWS_4 :: "(int \<times> move) list" where
  "GBA_MOVE_ROWS_4 = [
     (455, 455), (456, 456), (457, 457), (458, 458), (459, 459), (460, 460), (461, 461), (462, 462), (463, 463), (464, 464),
     (465, 465), (466, 466), (468, 468), (469, 469), (473, 473), (474, 474), (475, 475), (476, 476), (477, 477), (479, 479),
     (480, 480), (481, 481), (482, 482), (483, 483), (484, 484), (485, 485), (486, 486), (487, 487), (488, 488), (489, 489),
     (490, 490), (491, 491), (492, 492), (496, 496), (497, 497), (498, 498), (499, 499), (500, 500), (501, 501), (502, 502),
     (503, 503), (504, 504), (505, 505), (506, 506), (507, 507), (508, 508), (509, 509), (510, 510), (512, 512), (514, 514),
     (515, 515), (517, 517), (518, 518), (519, 519), (520, 520), (521, 521), (522, 522), (523, 523), (524, 524), (525, 525),
     (526, 526), (527, 527), (528, 528), (529, 529), (530, 530), (531, 531), (532, 532), (533, 533), (534, 534), (535, 535),
     (536, 536), (537, 537), (538, 538), (539, 539), (540, 540), (541, 541), (542, 542), (543, 543), (544, 544), (545, 545),
     (546, 546), (547, 547), (548, 548), (549, 549), (550, 550), (551, 551), (552, 552), (553, 553), (554, 554), (555, 555),
     (556, 556), (557, 557), (558, 558), (559, 559), (560, 560), (561, 561), (562, 562), (564, 564), (565, 565), (566, 566),
     (568, 568), (569, 569), (570, 570), (572, 572), (573, 573), (574, 574), (575, 575), (577, 577), (578, 578), (580, 580),
     (581, 581), (583, 583), (584, 584), (585, 585), (586, 586), (588, 588), (589, 589), (590, 590), (591, 591), (592, 592),
     (593, 593), (594, 594), (595, 595), (596, 596), (598, 598), (600, 600), (604, 604), (605, 605)]"

definition GBA_MOVE_ROWS_5 :: "(int \<times> move) list" where
  "GBA_MOVE_ROWS_5 = [
     (608, 608), (609, 609), (610, 610), (611, 611), (612, 612), (613, 613), (614, 614), (615, 615), (616, 616), (617, 617),
     (618, 618), (619, 619), (620, 620), (621, 621), (622, 659), (623, 660), (624, 661), (625, 662), (626, 663), (627, 664),
     (628, 665), (629, 666), (630, 667), (631, 668), (632, 669), (633, 670), (634, 671), (635, 672), (636, 673), (638, 675),
     (639, 676), (640, 677), (641, 678), (642, 679), (643, 680), (644, 681), (645, 682), (647, 684), (649, 686), (650, 687),
     (651, 688), (653, 690), (654, 691), (655, 692), (656, 693), (657, 694), (658, 704), (659, 705), (660, 706), (661, 707),
     (662, 708), (663, 709), (664, 710), (665, 711), (666, 712), (667, 713), (668, 714), (669, 715), (670, 716), (671, 717),
     (672, 718), (673, 720), (674, 721), (675, 722), (676, 729), (677, 730), (678, 731), (679, 732), (680, 733), (681, 734),
     (682, 735), (683, 736), (684, 737), (685, 738), (686, 739), (687, 740), (688, 741), (689, 742), (690, 744), (691, 745),
     (692, 746), (693, 747), (694, 748), (697, 751), (699, 753), (700, 754), (701, 755), (703, 775), (704, 776), (705, 777),
     (706, 778), (707, 779), (708, 780), (709, 781), (710, 782), (711, 783), (712, 784), (713, 785), (714, 786), (715, 787),
     (716, 788), (717, 789), (718, 790), (719, 791), (720, 792), (721, 793), (722, 794), (723, 795), (724, 796), (725, 797),
     (726, 798), (727, 799), (728, 800), (729, 801), (730, 802), (731, 803), (732, 804), (733, 805), (734, 806), (735, 807),
     (736, 808), (737, 809), (739, 811), (740, 812), (741, 813), (742, 814), (743, 815), (744, 816), (745, 817), (746, 818),
     (747, 819), (748, 820), (749, 821), (750, 822), (751, 823), (752, 824), (753, 825), (754, 826), (755, 827), (756, 828)]"

definition GBA_MOVE_ROWS_6 :: "(int \<times> move) list" where
  "GBA_MOVE_ROWS_6 = [
     (758, 830), (759, 831), (760, 832), (761, 833), (762, 834), (763, 835), (764, 836), (766, 838), (767, 839), (768, 840),
     (769, 841), (771, 843), (772, 844), (773, 845), (774, 846), (775, 847), (776, 848), (777, 849)]"

definition GBA_MOVE_ROWS :: "(int \<times> move) list" where
  "GBA_MOVE_ROWS = concat [GBA_MOVE_ROWS_1, GBA_MOVE_ROWS_2, GBA_MOVE_ROWS_3, GBA_MOVE_ROWS_4, GBA_MOVE_ROWS_5, GBA_MOVE_ROWS_6]"

section \<open>Item numbers\<close>

definition GBA_ITEM_ROWS_1 :: "(int \<times> item) list" where
  "GBA_ITEM_ROWS_1 = [
     (1, 4), (2, 3), (3, 2), (4, 1), (5, 12), (6, 14), (7, 6), (8, 8), (9, 7), (10, 13),
     (11, 10), (12, 15), (13, 9), (14, 11), (15, 493), (16, 494), (17, 498), (18, 497), (19, 496), (20, 492),
     (21, 495), (23, 5), (24, 499), (25, 500), (26, 851), (27, 16), (28, 4), (29, 4), (30, 4), (31, 4),
     (32, 4), (33, 4), (34, 4), (35, 4), (36, 4), (37, 4), (38, 4), (39, 4), (40, 4), (41, 4),
     (42, 4), (43, 4), (44, 4), (45, 4), (46, 4), (47, 4), (48, 4), (49, 4), (50, 4), (51, 4),
     (52, 4), (53, 34), (54, 4), (55, 4), (56, 4), (57, 4), (58, 4), (59, 4), (60, 4), (61, 4),
     (62, 4), (63, 4), (64, 4), (65, 4), (66, 4), (67, 4), (68, 4), (69, 4), (70, 4), (71, 4),
     (72, 4), (73, 4), (74, 4), (75, 4), (76, 4), (77, 4), (78, 4), (79, 4), (80, 4), (81, 4),
     (82, 4), (83, 4), (84, 4), (85, 4), (86, 4), (87, 4), (88, 4), (89, 4), (90, 4), (91, 4),
     (92, 4), (93, 4), (94, 4), (95, 4), (96, 4), (97, 4), (98, 4), (99, 4), (100, 4), (101, 4),
     (102, 4), (103, 4), (104, 4), (105, 4), (106, 4), (107, 4), (108, 4), (109, 4), (110, 4), (111, 4),
     (112, 4), (113, 4), (114, 4), (115, 4), (116, 4), (117, 4), (118, 4), (119, 4), (120, 4), (121, 4),
     (122, 4), (123, 4), (124, 4), (125, 4), (126, 4), (127, 4), (128, 4), (129, 4), (130, 4), (131, 4),
     (132, 4), (133, 795), (134, 4), (135, 4), (136, 4), (137, 4), (138, 4), (139, 4), (140, 4), (141, 4),
     (142, 4), (143, 4), (144, 4), (145, 4), (146, 4), (147, 4), (148, 4), (149, 4), (150, 4), (151, 4)]"

definition GBA_ITEM_ROWS_2 :: "(int \<times> item) list" where
  "GBA_ITEM_ROWS_2 = [
     (152, 4), (153, 4), (154, 106), (155, 4), (156, 4), (157, 4), (158, 4), (159, 4), (160, 4), (161, 4),
     (162, 4), (163, 4), (164, 4), (180, 4), (181, 4), (182, 4), (183, 4), (184, 4), (185, 4), (186, 4),
     (187, 4), (188, 4), (189, 4), (190, 4), (191, 4), (192, 4), (193, 4), (194, 4), (195, 4), (196, 4),
     (197, 4), (198, 4), (211, 82), (212, 84), (213, 83), (214, 85), (215, 849), (216, 80), (217, 81), (218, 107),
     (219, 108), (220, 109), (221, 1116), (222, 1117), (223, 1253), (224, 1254), (225, 1582), (226, 1592), (227, 235), (228, 252),
     (229, 321), (230, 322), (231, 323), (232, 324), (233, 325), (234, 537), (237, 110), (238, 1109), (239, 1110), (240, 1111),
     (241, 1112), (242, 1113), (243, 1114), (244, 1115), (245, 4), (246, 4), (247, 4), (248, 4), (249, 4), (250, 298),
     (251, 299), (252, 300), (253, 301), (254, 302), (255, 303), (256, 304), (257, 305), (258, 306), (259, 307), (260, 308),
     (261, 309), (262, 310), (263, 311), (264, 312), (265, 313), (266, 644), (271, 901), (272, 902), (273, 904), (274, 903),
     (275, 905), (276, 906), (277, 907), (278, 908), (279, 909), (280, 910), (281, 911), (282, 912), (283, 913), (284, 914),
     (285, 915), (286, 916), (287, 917), (288, 1103), (289, 1104), (290, 40), (291, 41), (293, 585), (294, 586), (295, 583),
     (296, 628), (297, 622), (298, 579), (299, 620), (300, 588), (301, 592), (302, 602), (303, 589), (304, 577), (307, 580),
     (308, 621), (309, 605), (310, 590), (311, 591), (312, 607), (313, 613), (314, 584), (315, 612), (316, 587), (317, 614),
     (318, 598), (319, 578), (320, 599), (321, 596), (322, 619), (323, 625), (324, 615), (325, 582), (326, 576), (327, 623),
     (328, 627), (329, 618), (330, 629), (331, 630), (332, 626), (333, 573), (334, 594), (335, 575), (336, 616), (337, 617)]"

definition GBA_ITEM_ROWS_3 :: "(int \<times> item) list" where
  "GBA_ITEM_ROWS_3 = [
     (339, 564), (340, 4001), (341, 4002), (342, 4004), (343, 4003), (344, 4005), (345, 4006), (346, 4007), (347, 4008), (348, 4009),
     (349, 4010), (350, 4011), (351, 4012), (352, 4013), (353, 4014), (354, 4015), (355, 4016), (356, 4017), (393, 259), (394, 260),
     (400, 225), (401, 135), (402, 136), (403, 112), (411, 4), (412, 4), (413, 4), (414, 4), (415, 4), (416, 4),
     (417, 4), (419, 294), (420, 289), (421, 290), (422, 291), (423, 292), (424, 293), (425, 251), (426, 249), (427, 243),
     (428, 242), (429, 239), (430, 246), (431, 241), (432, 245), (433, 237), (434, 244), (435, 248), (436, 222), (437, 238),
     (438, 247), (439, 250), (440, 240), (441, 233), (442, 220), (443, 297), (444, 287), (445, 273), (446, 272), (447, 285),
     (448, 284), (449, 283), (450, 282), (451, 881), (452, 882), (453, 883), (454, 884), (455, 545), (456, 546), (457, 648),
     (458, 649), (459, 213), (460, 214), (461, 4), (462, 217), (463, 4), (464, 219), (465, 221), (466, 4), (467, 4),
     (468, 4), (469, 230), (470, 4), (471, 232), (472, 234), (473, 253), (474, 265), (475, 266), (476, 267), (477, 268),
     (478, 269), (479, 270), (480, 271), (481, 275), (482, 276), (483, 277), (484, 278), (485, 279), (486, 280), (487, 281),
     (488, 286), (489, 288), (490, 295), (491, 296), (492, 326), (493, 327), (494, 538), (495, 539), (496, 540), (497, 541),
     (498, 542), (499, 543), (500, 544), (501, 547), (502, 639), (503, 640), (504, 650), (505, 846), (506, 879), (507, 880),
     (508, 1118), (509, 1119), (510, 1120), (511, 1121), (512, 1122), (513, 1123), (514, 149), (515, 150), (516, 151), (517, 152),
     (518, 153), (519, 154), (520, 155), (521, 156), (522, 157), (523, 158), (524, 159), (525, 160), (526, 161), (527, 162),
     (528, 163), (534, 169), (535, 170), (536, 171), (537, 172), (538, 173), (539, 174), (549, 200), (550, 184), (551, 185)]"

definition GBA_ITEM_ROWS_4 :: "(int \<times> item) list" where
  "GBA_ITEM_ROWS_4 = [
     (552, 186), (553, 187), (554, 188), (555, 189), (556, 190), (557, 191), (558, 192), (559, 193), (560, 194), (561, 195),
     (562, 196), (563, 197), (564, 198), (565, 199), (566, 686), (567, 201), (568, 202), (569, 203), (570, 204), (571, 205),
     (572, 206), (573, 207), (574, 208), (575, 209), (576, 210), (577, 211), (578, 212), (579, 687), (580, 688), (581, 4),
     (582, 4), (583, 4), (584, 4), (585, 4), (586, 4), (587, 4), (588, 4), (589, 4), (590, 4), (591, 4),
     (592, 4), (593, 4), (594, 4), (595, 4), (596, 4), (597, 4), (598, 4), (599, 4), (600, 4), (601, 4),
     (602, 4), (603, 4), (604, 4), (605, 4), (606, 4), (607, 4), (608, 4), (609, 4), (610, 4), (611, 4),
     (612, 4), (613, 4), (614, 4), (615, 4), (616, 4), (617, 4), (618, 4), (619, 4), (620, 4), (621, 4),
     (622, 4), (623, 4), (624, 4), (625, 4), (626, 4), (627, 4), (628, 4), (629, 4), (630, 4), (631, 4),
     (632, 4), (633, 4), (634, 4), (635, 4), (636, 4), (637, 4), (638, 4), (639, 4), (640, 4), (641, 4),
     (642, 4), (643, 4), (644, 4), (645, 4), (646, 4), (647, 4), (648, 4), (649, 4), (650, 4), (651, 4),
     (652, 4), (653, 4), (654, 4), (655, 4), (656, 4), (657, 4), (658, 4), (659, 4), (660, 4), (661, 4),
     (662, 4), (663, 4), (664, 4), (665, 4), (666, 4), (667, 4), (668, 4), (669, 4), (670, 4), (671, 4),
     (672, 4), (673, 4), (674, 4), (675, 4), (676, 4), (677, 4), (678, 4), (679, 4), (680, 4), (681, 4),
     (682, 4), (683, 4), (684, 4), (685, 4), (686, 4), (687, 4), (688, 4), (689, 4), (690, 4), (691, 4),
     (692, 4), (693, 4), (694, 4), (695, 4), (696, 4), (697, 4), (698, 4), (699, 4), (700, 4), (701, 4)]"

definition GBA_ITEM_ROWS_5 :: "(int \<times> item) list" where
  "GBA_ITEM_ROWS_5 = [
     (702, 4), (703, 4), (704, 4), (705, 4), (706, 4), (707, 4), (708, 4), (709, 4), (710, 4), (711, 4),
     (712, 4), (713, 4), (714, 4), (715, 4), (716, 4), (717, 4), (718, 4), (719, 4), (720, 4), (721, 4),
     (722, 4), (723, 4), (724, 4), (725, 4), (726, 4), (727, 4), (728, 4), (729, 4), (730, 4), (731, 4),
     (732, 4), (733, 4), (734, 4), (735, 4), (736, 4), (737, 4), (738, 4), (739, 4), (740, 4), (741, 4),
     (742, 4), (743, 4), (744, 4), (745, 4), (746, 4), (747, 4), (748, 4), (749, 4), (750, 4), (751, 4),
     (752, 4), (753, 4), (754, 4), (755, 4), (756, 4), (757, 4), (758, 4), (759, 4), (760, 4)]"

definition GBA_ITEM_ROWS :: "(int \<times> item) list" where
  "GBA_ITEM_ROWS = concat [GBA_ITEM_ROWS_1, GBA_ITEM_ROWS_2, GBA_ITEM_ROWS_3, GBA_ITEM_ROWS_4, GBA_ITEM_ROWS_5]"

section \<open>Ability slots\<close>

definition SPECIES_ABILITY_ROWS_1 :: "(species \<times> ability list) list" where
  "SPECIES_ABILITY_ROWS_1 = [
     (1, [65, 0, 34]), (2, [65, 0, 34]), (3, [65, 0, 34]), (4, [66, 0, 94]), (5, [66, 0, 94]), (6, [66, 0, 94]),
     (7, [67, 0, 44]), (8, [67, 0, 44]), (9, [67, 0, 44]), (10, [19, 50, 0]), (11, [61, 0, 0]), (12, [14, 0, 110]),
     (13, [19, 50, 50]), (14, [61, 0, 0]), (15, [68, 97, 97]), (16, [51, 0, 0]), (17, [51, 0, 0]), (18, [51, 0, 0]),
     (19, [50, 62, 55]), (20, [50, 62, 55]), (21, [51, 0, 97]), (22, [51, 0, 97]), (23, [22, 0, 61]), (24, [22, 0, 61]),
     (25, [9, 0, 31]), (26, [9, 0, 31]), (27, [8, 0, 146]), (28, [8, 0, 146]), (29, [38, 0, 55]), (30, [38, 0, 55]),
     (31, [38, 0, 125]), (32, [38, 0, 55]), (33, [38, 0, 55]), (34, [38, 0, 125]), (35, [132, 98, 132]), (36, [109, 98, 109]),
     (37, [18, 0, 70]), (38, [18, 0, 70]), (39, [56, 172, 132]), (40, [56, 172, 119]), (41, [39, 0, 151]), (42, [39, 0, 151]),
     (43, [34, 0, 50]), (44, [34, 0, 1]), (45, [34, 0, 27]), (46, [27, 0, 87]), (47, [27, 0, 87]), (48, [14, 110, 50]),
     (49, [19, 110, 147]), (50, [71, 0, 159]), (51, [71, 0, 159]), (52, [53, 101, 127]), (53, [7, 101, 127]), (54, [33, 0, 13]),
     (55, [33, 0, 13]), (56, [72, 83, 128]), (57, [72, 83, 128]), (58, [22, 0, 18]), (59, [22, 0, 18]), (60, [11, 6, 33]),
     (61, [11, 6, 33]), (62, [11, 6, 33]), (63, [28, 39, 98]), (64, [28, 39, 98]), (65, [28, 39, 98]), (66, [62, 99, 80]),
     (67, [62, 99, 80]), (68, [62, 99, 80]), (69, [34, 0, 82]), (70, [34, 0, 82]), (71, [34, 0, 82]), (72, [29, 64, 44]),
     (73, [29, 64, 44]), (74, [69, 5, 8]), (75, [69, 5, 8]), (76, [69, 5, 8]), (77, [49, 0, 18]), (78, [49, 0, 18]),
     (79, [12, 20, 144]), (80, [12, 20, 144]), (81, [42, 148, 5]), (82, [42, 148, 5]), (83, [51, 39, 128]), (84, [50, 48, 77]),
     (85, [50, 48, 77]), (86, [47, 93, 115]), (87, [47, 93, 115]), (88, [143, 60, 143]), (89, [143, 60, 143]), (90, [75, 0, 142]),
     (91, [75, 92, 142]), (92, [26, 0, 0]), (93, [26, 0, 0]), (94, [130, 0, 26]), (95, [69, 133, 5]), (96, [15, 0, 123]),
     (97, [15, 0, 123]), (98, [125, 75, 52]), (99, [125, 75, 52]), (100, [43, 9, 206]), (101, [43, 9, 206]), (102, [34, 0, 139]),
     (103, [34, 0, 139]), (104, [69, 31, 4]), (105, [69, 31, 4]), (106, [7, 120, 84]), (107, [39, 89, 99]), (108, [20, 12, 13]),
     (109, [26, 0, 1]), (110, [26, 0, 256]), (111, [120, 69, 31]), (112, [120, 69, 31]), (113, [30, 32, 131]), (114, [34, 102, 144]),
     (115, [48, 39, 113]), (116, [33, 97, 6]), (117, [38, 97, 6]), (118, [33, 41, 31]), (119, [33, 41, 31]), (120, [30, 0, 148]),
     (121, [30, 0, 148]), (122, [43, 111, 101]), (123, [68, 0, 101]), (124, [12, 108, 87]), (125, [72, 0, 9]), (126, [49, 72, 18]),
     (127, [52, 104, 153]), (128, [22, 0, 125]), (129, [33, 0, 155]), (130, [22, 0, 153]), (131, [11, 75, 93]), (132, [7, 0, 150]),
     (133, [50, 91, 107]), (134, [11, 11, 93]), (135, [10, 10, 95]), (136, [18, 18, 62]), (137, [36, 148, 88]), (138, [33, 75, 133]),
     (139, [33, 75, 133]), (140, [33, 4, 133]), (141, [33, 4, 133]), (142, [69, 127, 46]), (143, [17, 47, 82]), (144, [46, 0, 81]),
     (145, [46, 0, 9]), (146, [46, 0, 49]), (147, [61, 0, 63]), (148, [61, 0, 63]), (149, [39, 0, 136]), (150, [46, 0, 127])]"

definition SPECIES_ABILITY_ROWS_2 :: "(species \<times> ability list) list" where
  "SPECIES_ABILITY_ROWS_2 = [
     (151, [28, 0, 0]), (152, [65, 0, 47]), (153, [65, 0, 47]), (154, [65, 0, 47]), (155, [66, 0, 18]), (156, [66, 0, 18]),
     (157, [66, 0, 18]), (158, [67, 0, 125]), (159, [67, 0, 125]), (160, [67, 0, 125]), (161, [50, 51, 119]), (162, [50, 51, 119]),
     (163, [15, 51, 110]), (164, [15, 51, 110]), (165, [155, 48, 48]), (166, [155, 48, 89]), (167, [68, 15, 97]), (168, [68, 15, 97]),
     (169, [39, 0, 151]), (170, [10, 0, 11]), (171, [10, 0, 11]), (172, [9, 0, 31]), (173, [132, 98, 132]), (174, [56, 172, 132]),
     (175, [105, 32, 55]), (176, [105, 32, 55]), (177, [28, 48, 156]), (178, [28, 48, 156]), (179, [9, 0, 0]), (180, [9, 0, 0]),
     (181, [9, 0, 0]), (182, [34, 0, 131]), (183, [47, 0, 37]), (184, [47, 0, 37]), (185, [5, 69, 69]), (186, [11, 6, 2]),
     (187, [34, 102, 151]), (188, [34, 102, 151]), (189, [34, 102, 151]), (190, [50, 0, 92]), (191, [34, 94, 48]), (192, [34, 94, 48]),
     (193, [14, 0, 3]), (194, [6, 11, 109]), (195, [6, 11, 109]), (196, [28, 28, 156]), (197, [28, 28, 39]), (198, [15, 0, 158]),
     (199, [12, 20, 144]), (200, [26, 0, 0]), (201, [26, 0, 0]), (202, [23, 0, 140]), (203, [39, 48, 157]), (204, [5, 0, 142]),
     (205, [5, 0, 142]), (206, [32, 50, 155]), (207, [52, 0, 17]), (208, [69, 125, 5]), (209, [22, 0, 155]), (210, [22, 0, 95]),
     (211, [22, 0, 33]), (212, [68, 0, 101]), (213, [5, 82, 126]), (214, [68, 62, 153]), (215, [39, 51, 124]), (216, [95, 0, 118]),
     (217, [62, 127, 95]), (218, [40, 49, 133]), (219, [40, 49, 133]), (220, [12, 47, 81]), (221, [12, 47, 81]), (222, [55, 30, 144]),
     (223, [55, 0, 97]), (224, [21, 0, 97]), (225, [72, 55, 15]), (226, [33, 11, 41]), (227, [51, 5, 133]), (228, [48, 127, 18]),
     (229, [48, 127, 18]), (230, [33, 97, 6]), (231, [56, 0, 8]), (232, [5, 4, 8]), (233, [36, 148, 88]), (234, [22, 0, 157]),
     (235, [20, 101, 141]), (236, [62, 80, 72]), (237, [22, 101, 80]), (238, [12, 108, 93]), (239, [72, 0, 9]), (240, [49, 72, 18]),
     (241, [47, 113, 157]), (242, [30, 32, 131]), (243, [46, 0, 39]), (244, [46, 0, 39]), (245, [46, 0, 39]), (246, [62, 0, 8]),
     (247, [61, 0, 0]), (248, [127, 0, 45]), (249, [46, 0, 136]), (250, [46, 0, 144]), (251, [30, 0, 0]), (252, [65, 0, 84]),
     (253, [65, 0, 84]), (254, [65, 0, 84]), (255, [66, 0, 3]), (256, [66, 0, 3]), (257, [66, 0, 3]), (258, [67, 0, 6]),
     (259, [67, 0, 6]), (260, [67, 0, 6]), (261, [50, 0, 155]), (262, [22, 0, 153]), (263, [53, 82, 95]), (264, [53, 82, 95]),
     (265, [19, 0, 50]), (266, [61, 0, 0]), (267, [68, 0, 79]), (268, [61, 0, 0]), (269, [19, 0, 14]), (270, [33, 44, 20]),
     (271, [33, 44, 20]), (272, [33, 44, 20]), (273, [34, 48, 124]), (274, [34, 48, 124]), (275, [34, 48, 124]), (276, [62, 0, 113]),
     (277, [62, 0, 113]), (278, [51, 93, 44]), (279, [51, 2, 44]), (280, [28, 36, 140]), (281, [28, 36, 140]), (282, [28, 36, 140]),
     (283, [33, 0, 44]), (284, [22, 0, 127]), (285, [27, 90, 95]), (286, [27, 90, 101]), (287, [54, 0, 0]), (288, [72, 0, 0]),
     (289, [54, 0, 0]), (290, [14, 0, 50]), (291, [3, 0, 151]), (292, [25, 0, 0]), (293, [43, 0, 155]), (294, [43, 0, 113]),
     (295, [43, 0, 113]), (296, [47, 62, 125]), (297, [47, 62, 125]), (298, [47, 0, 37]), (299, [5, 0, 159]), (300, [96, 0, 0])]"

definition SPECIES_ABILITY_ROWS_3 :: "(species \<times> ability list) list" where
  "SPECIES_ABILITY_ROWS_3 = [
     (301, [96, 0, 0]), (302, [51, 100, 158]), (303, [52, 22, 125]), (304, [134, 69, 5]), (305, [134, 69, 5]), (306, [134, 69, 5]),
     (307, [74, 0, 39]), (308, [74, 0, 39]), (309, [9, 0, 31]), (310, [9, 0, 31]), (311, [57, 0, 31]), (312, [58, 0, 10]),
     (313, [35, 68, 158]), (314, [12, 110, 158]), (315, [30, 38, 102]), (316, [64, 60, 82]), (317, [64, 60, 82]), (318, [24, 0, 3]),
     (319, [24, 0, 3]), (320, [41, 12, 46]), (321, [41, 12, 46]), (322, [12, 86, 20]), (323, [40, 116, 20]), (324, [75, 0, 70]),
     (325, [47, 20, 82]), (326, [47, 20, 82]), (327, [20, 77, 126]), (328, [71, 0, 0]), (329, [26, 0, 0]), (330, [26, 0, 0]),
     (331, [8, 0, 11]), (332, [8, 0, 11]), (333, [30, 0, 13]), (334, [30, 0, 13]), (335, [17, 0, 137]), (336, [61, 0, 151]),
     (337, [26, 0, 0]), (338, [26, 0, 0]), (339, [12, 107, 93]), (340, [12, 107, 93]), (341, [52, 75, 91]), (342, [52, 75, 91]),
     (343, [26, 0, 0]), (344, [26, 0, 0]), (345, [21, 0, 114]), (346, [21, 0, 114]), (347, [4, 0, 33]), (348, [4, 0, 33]),
     (349, [33, 0, 0]), (350, [63, 0, 172]), (351, [59, 0, 0]), (352, [168, 0, 16]), (353, [15, 0, 130]), (354, [15, 0, 130]),
     (355, [26, 0, 119]), (356, [46, 0, 119]), (357, [34, 94, 139]), (358, [26, 0, 0]), (359, [46, 0, 105]), (360, [23, 0, 140]),
     (361, [39, 0, 141]), (362, [39, 0, 141]), (363, [47, 12, 115]), (364, [47, 12, 115]), (365, [47, 12, 115]), (366, [75, 0, 155]),
     (367, [33, 0, 41]), (368, [33, 0, 93]), (369, [33, 69, 5]), (370, [33, 0, 93]), (371, [69, 0, 125]), (372, [69, 0, 142]),
     (373, [22, 0, 153]), (374, [29, 0, 0]), (375, [29, 0, 0]), (376, [29, 0, 0]), (377, [29, 0, 5]), (378, [29, 0, 115]),
     (379, [29, 0, 135]), (380, [26, 0, 0]), (381, [26, 0, 0]), (382, [2, 0, 0]), (383, [70, 0, 0]), (384, [76, 0, 0]),
     (385, [32, 0, 0]), (386, [46, 0, 0]), (387, [65, 69, 75]), (388, [65, 69, 75]), (389, [65, 69, 75]), (390, [66, 89, 72]),
     (391, [66, 89, 72]), (392, [66, 89, 72]), (393, [67, 128, 29]), (394, [67, 128, 29]), (395, [67, 128, 29]), (396, [51, 0, 120]),
     (397, [22, 0, 120]), (398, [22, 0, 120]), (399, [86, 109, 109]), (400, [86, 109, 109]), (401, [61, 0, 50]), (402, [68, 0, 101]),
     (403, [22, 0, 62]), (404, [22, 0, 62]), (405, [22, 0, 62]), (406, [30, 38, 102]), (407, [30, 101, 102]), (408, [104, 0, 125]),
     (409, [104, 0, 125]), (410, [5, 0, 43]), (411, [5, 0, 43]), (412, [61, 0, 142]), (413, [107, 0, 142]), (414, [68, 0, 110]),
     (415, [118, 118, 55]), (416, [127, 0, 46]), (417, [50, 53, 10]), (418, [33, 41, 33]), (419, [33, 41, 33]), (420, [34, 0, 0]),
     (421, [122, 0, 0]), (422, [60, 159, 114]), (423, [60, 159, 114]), (424, [101, 0, 92]), (425, [106, 84, 138]), (426, [106, 84, 138]),
     (427, [56, 7, 7]), (428, [56, 7, 7]), (429, [26, 0, 0]), (430, [15, 0, 105]), (431, [7, 20, 51]), (432, [47, 20, 128]),
     (433, [26, 0, 0]), (434, [51, 106, 1]), (435, [51, 106, 1]), (436, [26, 85, 134]), (437, [26, 85, 134]), (438, [5, 69, 69]),
     (439, [43, 111, 101]), (440, [30, 32, 132]), (441, [51, 77, 145]), (442, [46, 0, 151]), (443, [24, 0, 8]), (444, [24, 0, 8]),
     (445, [24, 0, 8]), (446, [53, 47, 82]), (447, [80, 39, 158]), (448, [80, 39, 154]), (449, [45, 0, 159]), (450, [45, 0, 159])]"

definition SPECIES_ABILITY_ROWS_4 :: "(species \<times> ability list) list" where
  "SPECIES_ABILITY_ROWS_4 = [
     (451, [4, 0, 97]), (452, [4, 0, 97]), (453, [143, 0, 87]), (454, [143, 0, 87]), (455, [26, 0, 0]), (456, [33, 41, 114]),
     (457, [33, 41, 114]), (458, [33, 11, 41]), (459, [43, 0, 117]), (460, [43, 0, 117]), (461, [39, 46, 124]), (462, [42, 148, 5]),
     (463, [20, 12, 13]), (464, [116, 69, 31]), (465, [34, 102, 144]), (466, [72, 0, 78]), (467, [49, 72, 18]), (468, [105, 32, 55]),
     (469, [110, 0, 3]), (470, [102, 102, 34]), (471, [81, 81, 115]), (472, [52, 0, 90]), (473, [12, 47, 81]), (474, [91, 148, 88]),
     (475, [39, 0, 154]), (476, [42, 0, 159]), (477, [46, 0, 119]), (478, [130, 0, 81]), (479, [26, 0, 0]), (480, [26, 0, 0]),
     (481, [26, 0, 0]), (482, [26, 0, 0]), (483, [46, 0, 140]), (484, [46, 0, 140]), (485, [18, 0, 49]), (486, [112, 0, 0]),
     (487, [46, 0, 140]), (488, [26, 0, 0]), (489, [93, 0, 0]), (490, [93, 0, 0]), (491, [123, 0, 0]), (492, [30, 0, 0]),
     (493, [121, 0, 0]), (494, [162, 0, 0]), (495, [65, 0, 126]), (496, [65, 0, 126]), (497, [65, 0, 126]), (498, [66, 0, 47]),
     (499, [66, 0, 47]), (500, [66, 0, 120]), (501, [67, 0, 75]), (502, [67, 0, 75]), (503, [67, 0, 75]), (504, [50, 51, 148]),
     (505, [35, 51, 148]), (506, [72, 50, 113]), (507, [22, 146, 113]), (508, [22, 146, 113]), (509, [7, 84, 158]), (510, [7, 84, 158]),
     (511, [82, 0, 65]), (512, [82, 0, 65]), (513, [82, 0, 66]), (514, [82, 0, 66]), (515, [82, 0, 67]), (516, [82, 0, 67]),
     (517, [28, 0, 140]), (518, [28, 0, 140]), (519, [145, 105, 79]), (520, [145, 105, 79]), (521, [145, 105, 79]), (522, [31, 78, 157]),
     (523, [31, 78, 157]), (524, [133, 29, 5]), (525, [116, 29, 5]), (526, [116, 29, 45]), (527, [109, 103, 86]), (528, [109, 103, 86]),
     (529, [146, 159, 104]), (530, [146, 159, 104]), (531, [131, 0, 144]), (532, [62, 125, 89]), (533, [62, 125, 89]), (534, [62, 125, 89]),
     (535, [33, 143, 11]), (536, [33, 143, 11]), (537, [33, 143, 11]), (538, [104, 39, 62]), (539, [104, 39, 5]), (540, [68, 34, 142]),
     (541, [102, 34, 142]), (542, [68, 34, 142]), (543, [38, 0, 3]), (544, [38, 0, 3]), (545, [38, 0, 3]), (546, [158, 151, 34]),
     (547, [158, 151, 34]), (548, [34, 20, 102]), (549, [34, 0, 20]), (550, [120, 104, 91]), (551, [22, 0, 153]), (552, [22, 0, 153]),
     (553, [22, 0, 153]), (554, [55, 0, 39]), (555, [125, 0, 161]), (556, [34, 0, 114]), (557, [5, 75, 133]), (558, [5, 75, 133]),
     (559, [61, 153, 22]), (560, [61, 153, 22]), (561, [110, 98, 98]), (562, [152, 0, 0]), (563, [152, 0, 0]), (564, [116, 33, 5]),
     (565, [116, 33, 5]), (566, [129, 0, 0]), (567, [129, 0, 0]), (568, [1, 60, 106]), (569, [1, 133, 106]), (570, [149, 0, 0]),
     (571, [149, 0, 0]), (572, [56, 101, 92]), (573, [56, 101, 92]), (574, [119, 172, 23]), (575, [119, 172, 23]), (576, [119, 172, 23]),
     (577, [142, 98, 144]), (578, [142, 98, 144]), (579, [142, 98, 144]), (580, [51, 145, 93]), (581, [51, 145, 93]), (582, [115, 81, 133]),
     (583, [115, 81, 133]), (584, [115, 117, 133]), (585, [34, 0, 32]), (586, [34, 0, 32]), (587, [9, 0, 78]), (588, [99, 61, 61]),
     (589, [142, 75, 75]), (590, [27, 0, 144]), (591, [27, 0, 144]), (592, [130, 0, 11]), (593, [130, 0, 11]), (594, [131, 93, 144]),
     (595, [14, 127, 68]), (596, [14, 127, 68]), (597, [107, 0, 160]), (598, [107, 0, 160]), (599, [57, 58, 29]), (600, [57, 58, 29])]"

definition SPECIES_ABILITY_ROWS_5 :: "(species \<times> ability list) list" where
  "SPECIES_ABILITY_ROWS_5 = [
     (601, [57, 58, 29]), (602, [26, 0, 0]), (603, [26, 0, 0]), (604, [26, 0, 0]), (605, [140, 28, 148]), (606, [140, 28, 148]),
     (607, [23, 49, 18]), (608, [23, 49, 18]), (609, [23, 49, 18]), (610, [79, 104, 127]), (611, [79, 104, 127]), (612, [79, 104, 127]),
     (613, [81, 202, 155]), (614, [81, 202, 33]), (615, [26, 0, 0]), (616, [93, 75, 142]), (617, [93, 60, 84]), (618, [9, 0, 8]),
     (619, [39, 144, 120]), (620, [39, 144, 120]), (621, [24, 125, 104]), (622, [89, 103, 99]), (623, [89, 103, 99]), (624, [128, 39, 46]),
     (625, [128, 39, 46]), (626, [120, 157, 43]), (627, [51, 125, 55]), (628, [51, 125, 128]), (629, [145, 142, 133]), (630, [145, 142, 133]),
     (631, [82, 18, 73]), (632, [68, 55, 54]), (633, [55, 0, 0]), (634, [55, 0, 0]), (635, [26, 0, 0]), (636, [68, 0, 49]),
     (637, [68, 0, 49]), (638, [154, 0, 0]), (639, [154, 0, 0]), (640, [154, 0, 0]), (641, [158, 0, 128]), (642, [158, 0, 128]),
     (643, [163, 0, 0]), (644, [164, 0, 0]), (645, [159, 0, 125]), (646, [46, 0, 0]), (647, [154, 0, 0]), (648, [32, 0, 0]),
     (649, [88, 0, 0]), (650, [65, 0, 171]), (651, [65, 0, 171]), (652, [65, 0, 171]), (653, [66, 0, 98]), (654, [66, 0, 98]),
     (655, [66, 0, 98]), (656, [67, 0, 168]), (657, [67, 0, 168]), (658, [67, 0, 168]), (659, [167, 0, 37]), (660, [167, 0, 37]),
     (661, [51, 0, 177]), (662, [49, 0, 177]), (663, [49, 0, 177]), (664, [19, 14, 132]), (665, [61, 0, 132]), (666, [19, 14, 132]),
     (667, [127, 0, 0]), (668, [127, 0, 0]), (669, [166, 0, 180]), (670, [166, 0, 180]), (671, [166, 0, 180]), (672, [157, 0, 179]),
     (673, [157, 0, 179]), (674, [89, 104, 113]), (675, [89, 104, 113]), (676, [169, 0, 0]), (677, [51, 151, 20]), (678, [51, 151, 158]),
     (679, [99, 0, 0]), (680, [99, 0, 0]), (681, [176, 0, 0]), (682, [131, 0, 165]), (683, [131, 0, 165]), (684, [175, 0, 84]),
     (685, [175, 0, 84]), (686, [126, 21, 151]), (687, [126, 21, 151]), (688, [181, 97, 124]), (689, [181, 97, 124]), (690, [38, 0, 91]),
     (691, [38, 0, 91]), (692, [178, 0, 0]), (693, [178, 0, 0]), (694, [87, 8, 94]), (695, [87, 8, 94]), (696, [173, 0, 5]),
     (697, [173, 0, 69]), (698, [174, 0, 117]), (699, [174, 0, 117]), (700, [56, 56, 182]), (701, [7, 84, 104]), (702, [167, 53, 57]),
     (703, [29, 0, 5]), (704, [183, 93, 157]), (705, [183, 93, 157]), (706, [183, 93, 157]), (707, [158, 0, 170]), (708, [30, 0, 139]),
     (709, [30, 0, 139]), (710, [119, 0, 15]), (711, [119, 0, 15]), (712, [20, 115, 5]), (713, [20, 115, 5]), (714, [119, 151, 140]),
     (715, [119, 151, 140]), (716, [187, 0, 0]), (717, [186, 0, 0]), (718, [188, 0, 0]), (719, [29, 0, 0]), (720, [170, 0, 0]),
     (721, [11, 0, 0]), (722, [65, 0, 203]), (723, [65, 0, 203]), (724, [65, 0, 203]), (725, [66, 0, 22]), (726, [66, 0, 22]),
     (727, [66, 0, 22]), (728, [67, 0, 204]), (729, [67, 0, 204]), (730, [67, 0, 204]), (731, [51, 92, 53]), (732, [51, 92, 53]),
     (733, [51, 92, 125]), (734, [0, 173, 91]), (735, [0, 173, 91]), (736, [68, 0, 0]), (737, [217, 0, 0]), (738, [26, 0, 0]),
     (739, [52, 89, 83]), (740, [52, 89, 83]), (741, [216, 0, 0]), (742, [175, 19, 118]), (743, [175, 19, 118]), (744, [51, 72, 80]),
     (745, [146, 0, 39]), (746, [208, 0, 0]), (747, [196, 7, 144]), (748, [196, 7, 144]), (749, [221, 39, 192]), (750, [221, 39, 192])]"

definition SPECIES_ABILITY_ROWS_6 :: "(species \<times> ability list) list" where
  "SPECIES_ABILITY_ROWS_6 = [
     (751, [199, 0, 0]), (752, [199, 0, 0]), (753, [102, 0, 126]), (754, [102, 0, 126]), (755, [27, 0, 44]), (756, [27, 0, 44]),
     (757, [212, 0, 0]), (758, [212, 0, 0]), (759, [218, 0, 0]), (760, [218, 0, 0]), (761, [175, 12, 102]), (762, [175, 12, 102]),
     (763, [175, 214, 102]), (764, [205, 0, 30]), (765, [39, 140, 180]), (766, [222, 0, 128]), (767, [193, 0, 0]), (768, [194, 0, 0]),
     (769, [195, 0, 8]), (770, [195, 0, 8]), (771, [215, 0, 109]), (772, [4, 0, 0]), (773, [225, 0, 0]), (774, [197, 0, 0]),
     (775, [213, 0, 0]), (776, [75, 0, 0]), (777, [160, 0, 5]), (778, [209, 0, 0]), (779, [219, 173, 173]), (780, [201, 157, 13]),
     (781, [200, 0, 0]), (782, [142, 43, 171]), (783, [142, 43, 171]), (784, [142, 43, 171]), (785, [226, 0, 140]), (786, [227, 0, 140]),
     (787, [229, 0, 140]), (788, [228, 0, 140]), (789, [109, 0, 0]), (790, [5, 0, 0]), (791, [230, 0, 0]), (792, [231, 0, 0]),
     (793, [224, 0, 0]), (794, [224, 0, 0]), (795, [224, 0, 0]), (796, [224, 0, 0]), (797, [224, 0, 0]), (798, [224, 0, 0]),
     (799, [224, 0, 0]), (800, [232, 0, 0]), (801, [220, 0, 0]), (802, [101, 0, 0]), (803, [224, 0, 0]), (804, [224, 0, 0]),
     (805, [224, 0, 0]), (806, [224, 0, 0]), (807, [10, 0, 0]), (808, [42, 0, 0]), (809, [89, 0, 0]), (810, [65, 0, 229]),
     (811, [65, 0, 229]), (812, [65, 0, 229]), (813, [66, 0, 236]), (814, [66, 0, 236]), (815, [66, 0, 236]), (816, [67, 0, 97]),
     (817, [67, 0, 97]), (818, [67, 0, 97]), (819, [167, 0, 82]), (820, [167, 0, 82]), (821, [127, 0, 145]), (822, [127, 0, 145]),
     (823, [240, 0, 240]), (824, [68, 14, 140]), (825, [68, 14, 140]), (826, [68, 14, 140]), (827, [50, 84, 0]), (828, [50, 84, 0]),
     (829, [238, 0, 144]), (830, [238, 0, 144]), (831, [218, 50, 171]), (832, [218, 80, 171]), (833, [173, 75, 33]), (834, [173, 75, 33]),
     (835, [237, 0, 155]), (836, [173, 0, 172]), (837, [243, 85, 18]), (838, [243, 49, 18]), (839, [243, 49, 18]), (840, [247, 82, 171]),
     (841, [247, 82, 55]), (842, [247, 82, 47]), (843, [245, 61, 8]), (844, [245, 61, 8]), (845, [241, 0, 0]), (846, [33, 0, 239]),
     (847, [33, 0, 239]), (848, [155, 9, 103]), (849, [244, 0, 101]), (850, [49, 73, 18]), (851, [49, 73, 18]), (852, [7, 0, 101]),
     (853, [7, 0, 101]), (854, [133, 0, 130]), (855, [133, 0, 130]), (856, [28, 0, 156]), (857, [28, 0, 156]), (858, [28, 0, 156]),
     (859, [158, 0, 124]), (860, [158, 0, 124]), (861, [158, 0, 124]), (862, [120, 62, 128]), (863, [4, 181, 252]), (864, [133, 0, 253]),
     (865, [39, 0, 113]), (866, [77, 251, 115]), (867, [254, 0, 0]), (868, [175, 0, 165]), (869, [175, 0, 165]), (870, [4, 0, 128]),
     (871, [31, 0, 226]), (872, [19, 0, 246]), (873, [19, 0, 246]), (874, [249, 0, 0]), (875, [248, 0, 0]), (876, [39, 28, 227]),
     (877, [258, 0, 0]), (878, [125, 134, 134]), (879, [125, 134, 134]), (880, [10, 55, 146]), (881, [10, 9, 202]), (882, [11, 173, 146]),
     (883, [11, 115, 202]), (884, [135, 134, 242]), (885, [29, 151, 130]), (886, [29, 151, 130]), (887, [29, 151, 130]), (888, [234, 0, 0]),
     (889, [235, 0, 0]), (890, [46, 0, 0]), (891, [39, 0, 0]), (892, [260, 0, 0]), (893, [102, 0, 0]), (894, [262, 0, 0]),
     (895, [263, 0, 0]), (896, [264, 0, 0]), (897, [265, 0, 0]), (898, [127, 0, 0]), (899, [22, 0, 157]), (900, [68, 125, 80])]"

definition SPECIES_ABILITY_ROWS_7 :: "(species \<times> ability list) list" where
  "SPECIES_ABILITY_ROWS_7 = [
     (901, [62, 127, 171]), (902, [33, 104, 91]), (903, [39, 0, 143]), (904, [22, 38, 33]), (905, [131, 0, 126]), (906, [47, 47, 0]),
     (907, [181, 181, 0]), (908, [70, 70, 0]), (909, [178, 178, 0]), (910, [91, 91, 0]), (911, [99, 99, 0]), (912, [36, 36, 0]),
     (913, [75, 75, 0]), (914, [23, 23, 0]), (915, [185, 185, 0]), (916, [184, 184, 0]), (917, [104, 104, 0]), (918, [181, 181, 0]),
     (919, [80, 80, 0]), (920, [15, 15, 0]), (921, [104, 104, 0]), (922, [159, 159, 0]), (923, [101, 101, 0]), (924, [92, 92, 0]),
     (925, [94, 94, 0]), (926, [45, 45, 0]), (927, [31, 31, 0]), (928, [3, 3, 0]), (929, [33, 33, 0]), (930, [182, 182, 0]),
     (931, [156, 156, 0]), (932, [37, 37, 0]), (933, [111, 111, 0]), (934, [74, 74, 0]), (935, [22, 22, 0]), (936, [173, 173, 0]),
     (937, [125, 125, 0]), (938, [182, 182, 0]), (939, [158, 158, 0]), (940, [156, 156, 0]), (941, [174, 174, 0]), (942, [184, 184, 0]),
     (943, [181, 181, 0]), (944, [26, 26, 0]), (945, [26, 26, 0]), (946, [113, 113, 0]), (947, [159, 159, 0]), (948, [91, 91, 0]),
     (949, [117, 117, 0]), (950, [39, 39, 0]), (951, [131, 131, 0]), (952, [156, 156, 0]), (953, [191, 191, 0]), (954, [189, 189, 0]),
     (955, [190, 190, 0]), (956, [82, 55, 47]), (957, [82, 55, 47]), (958, [207, 0, 0]), (959, [202, 0, 81]), (960, [202, 0, 81]),
     (961, [81, 0, 117]), (962, [81, 0, 117]), (963, [8, 221, 159]), (964, [8, 221, 159]), (965, [53, 101, 155]), (966, [169, 101, 155]),
     (967, [42, 69, 206]), (968, [42, 69, 206]), (969, [42, 69, 206]), (970, [143, 82, 223]), (971, [143, 82, 223]), (972, [139, 0, 0]),
     (973, [130, 31, 69]), (974, [50, 181, 127]), (975, [50, 257, 107]), (976, [50, 257, 107]), (977, [82, 20, 144]), (978, [259, 20, 144]),
     (979, [39, 0, 113]), (980, [26, 256, 228]), (981, [72, 251, 115]), (982, [172, 0, 0]), (983, [128, 0, 0]), (984, [201, 0, 0]),
     (985, [261, 20, 144]), (986, [133, 0, 130]), (987, [82, 0, 95]), (988, [82, 0, 95]), (989, [55, 0, 39]), (990, [255, 0, 161]),
     (991, [254, 0, 0]), (992, [250, 0, 0]), (993, [22, 69, 18]), (994, [22, 69, 18]), (995, [106, 9, 43]), (996, [106, 9, 43]),
     (997, [66, 0, 18]), (998, [22, 38, 33]), (999, [39, 0, 143]), (1000, [67, 0, 75]), (1001, [34, 20, 55]), (1002, [149, 0, 0]),
     (1003, [149, 0, 0]), (1004, [51, 125, 128]), (1005, [183, 75, 157]), (1006, [183, 75, 157]), (1007, [173, 115, 5]), (1008, [65, 0, 203]),
     (1009, [9, 0, 31]), (1010, [9, 0, 31]), (1011, [9, 0, 31]), (1012, [9, 0, 31]), (1013, [9, 0, 31]), (1014, [9, 0, 31]),
     (1015, [9, 0, 31]), (1016, [9, 0, 31]), (1017, [9, 0, 31]), (1018, [9, 0, 31]), (1019, [9, 0, 31]), (1020, [9, 0, 31]),
     (1021, [9, 0, 31]), (1022, [9, 0, 31]), (1023, [9, 0, 31]), (1024, [26, 0, 0]), (1025, [26, 0, 0]), (1026, [26, 0, 0]),
     (1027, [26, 0, 0]), (1028, [26, 0, 0]), (1029, [26, 0, 0]), (1030, [26, 0, 0]), (1031, [26, 0, 0]), (1032, [26, 0, 0]),
     (1033, [26, 0, 0]), (1034, [26, 0, 0]), (1035, [26, 0, 0]), (1036, [26, 0, 0]), (1037, [26, 0, 0]), (1038, [26, 0, 0]),
     (1039, [26, 0, 0]), (1040, [26, 0, 0]), (1041, [26, 0, 0]), (1042, [26, 0, 0]), (1043, [26, 0, 0]), (1044, [26, 0, 0]),
     (1045, [26, 0, 0]), (1046, [26, 0, 0]), (1047, [26, 0, 0]), (1048, [26, 0, 0]), (1049, [26, 0, 0]), (1050, [26, 0, 0])]"

definition SPECIES_ABILITY_ROWS_8 :: "(species \<times> ability list) list" where
  "SPECIES_ABILITY_ROWS_8 = [
     (1051, [59, 0, 0]), (1052, [59, 0, 0]), (1053, [59, 0, 0]), (1054, [46, 0, 0]), (1055, [46, 0, 0]), (1056, [46, 0, 0]),
     (1057, [61, 0, 142]), (1058, [61, 0, 142]), (1059, [107, 0, 142]), (1060, [107, 0, 142]), (1061, [122, 0, 0]), (1062, [60, 159, 114]),
     (1063, [60, 159, 114]), (1064, [26, 0, 0]), (1065, [26, 0, 0]), (1066, [26, 0, 0]), (1067, [26, 0, 0]), (1068, [26, 0, 0]),
     (1069, [46, 0, 140]), (1070, [46, 0, 140]), (1071, [26, 0, 0]), (1072, [32, 0, 0]), (1073, [121, 0, 0]), (1074, [121, 0, 0]),
     (1075, [121, 0, 0]), (1076, [121, 0, 0]), (1077, [121, 0, 0]), (1078, [121, 0, 0]), (1079, [121, 0, 0]), (1080, [121, 0, 0]),
     (1081, [121, 0, 0]), (1082, [121, 0, 0]), (1083, [121, 0, 0]), (1085, [121, 0, 0]), (1086, [121, 0, 0]), (1087, [121, 0, 0]),
     (1088, [121, 0, 0]), (1089, [121, 0, 0]), (1090, [69, 104, 91]), (1091, [155, 91, 104]), (1092, [125, 0, 161]), (1093, [255, 0, 161]),
     (1094, [34, 0, 32]), (1095, [34, 0, 32]), (1096, [34, 0, 32]), (1097, [34, 0, 32]), (1098, [34, 0, 32]), (1099, [34, 0, 32]),
     (1100, [144, 0, 0]), (1101, [10, 0, 0]), (1102, [22, 0, 0]), (1103, [142, 0, 0]), (1104, [163, 0, 0]), (1105, [164, 0, 0]),
     (1106, [154, 0, 0]), (1107, [32, 0, 0]), (1108, [88, 0, 0]), (1109, [88, 0, 0]), (1110, [88, 0, 0]), (1111, [88, 0, 0]),
     (1112, [210, 0, 0]), (1113, [210, 0, 0]), (1114, [19, 14, 132]), (1115, [19, 14, 132]), (1116, [19, 14, 132]), (1117, [19, 14, 132]),
     (1118, [19, 14, 132]), (1119, [19, 14, 132]), (1120, [19, 14, 132]), (1121, [19, 14, 132]), (1122, [19, 14, 132]), (1123, [19, 14, 132]),
     (1124, [19, 14, 132]), (1125, [19, 14, 132]), (1126, [19, 14, 132]), (1127, [19, 14, 132]), (1128, [19, 14, 132]), (1129, [19, 14, 132]),
     (1130, [19, 14, 132]), (1131, [19, 14, 132]), (1132, [19, 14, 132]), (1133, [166, 0, 180]), (1134, [166, 0, 180]), (1135, [166, 0, 180]),
     (1136, [166, 0, 180]), (1137, [166, 0, 180]), (1138, [166, 0, 180]), (1139, [166, 0, 180]), (1140, [166, 0, 180]), (1141, [166, 0, 180]),
     (1142, [166, 0, 180]), (1143, [166, 0, 180]), (1144, [166, 0, 180]), (1145, [166, 0, 180]), (1146, [169, 0, 0]), (1147, [169, 0, 0]),
     (1148, [169, 0, 0]), (1149, [169, 0, 0]), (1150, [169, 0, 0]), (1151, [169, 0, 0]), (1152, [169, 0, 0]), (1153, [169, 0, 0]),
     (1154, [169, 0, 0]), (1155, [51, 151, 172]), (1156, [176, 0, 0]), (1157, [119, 0, 15]), (1158, [119, 0, 15]), (1159, [119, 0, 15]),
     (1160, [119, 0, 15]), (1161, [119, 0, 15]), (1162, [119, 0, 15]), (1163, [187, 0, 0]), (1164, [188, 0, 0]), (1165, [211, 0, 0]),
     (1166, [211, 0, 0]), (1167, [211, 0, 0]), (1168, [170, 0, 0]), (1169, [216, 0, 0]), (1170, [216, 0, 0]), (1171, [216, 0, 0]),
     (1172, [20, 0, 0]), (1173, [99, 0, 72]), (1174, [181, 0, 0]), (1175, [208, 0, 0]), (1176, [225, 0, 0]), (1177, [225, 0, 0]),
     (1178, [225, 0, 0]), (1179, [225, 0, 0]), (1180, [225, 0, 0]), (1181, [225, 0, 0]), (1182, [225, 0, 0]), (1183, [225, 0, 0]),
     (1184, [225, 0, 0]), (1185, [225, 0, 0]), (1186, [225, 0, 0]), (1187, [225, 0, 0]), (1188, [225, 0, 0]), (1189, [225, 0, 0]),
     (1190, [225, 0, 0]), (1191, [225, 0, 0]), (1192, [225, 0, 0]), (1206, [209, 0, 0]), (1207, [232, 0, 0]), (1208, [232, 0, 0]),
     (1209, [233, 0, 0]), (1210, [220, 0, 0]), (1211, [241, 0, 0]), (1212, [241, 0, 0]), (1213, [244, 0, 101]), (1214, [133, 0, 130])]"

definition SPECIES_ABILITY_ROWS_9 :: "(species \<times> ability list) list" where
  "SPECIES_ABILITY_ROWS_9 = [
     (1215, [133, 0, 130]), (1216, [175, 0, 165]), (1217, [175, 0, 165]), (1218, [175, 0, 165]), (1219, [175, 0, 165]), (1220, [175, 0, 165]),
     (1221, [175, 0, 165]), (1222, [175, 0, 165]), (1223, [175, 0, 165]), (1224, [248, 0, 0]), (1225, [20, 28, 227]), (1226, [258, 0, 0]),
     (1227, [234, 0, 0]), (1228, [235, 0, 0]), (1229, [46, 0, 0]), (1230, [260, 0, 0]), (1231, [102, 0, 0]), (1232, [266, 0, 0]),
     (1233, [267, 0, 0])]"

definition SPECIES_ABILITY_ROWS :: "(species \<times> ability list) list" where
  "SPECIES_ABILITY_ROWS = concat [SPECIES_ABILITY_ROWS_1, SPECIES_ABILITY_ROWS_2, SPECIES_ABILITY_ROWS_3, SPECIES_ABILITY_ROWS_4, SPECIES_ABILITY_ROWS_5,
     SPECIES_ABILITY_ROWS_6, SPECIES_ABILITY_ROWS_7, SPECIES_ABILITY_ROWS_8, SPECIES_ABILITY_ROWS_9]"

section \<open>The dictionaries\<close>

text \<open>A dictionary display keeps the last value of a key.\<close>

definition GBA_MOVE_MAP :: "int \<Rightarrow> move option" where
  "GBA_MOVE_MAP = map_of (rev GBA_MOVE_ROWS)"

definition GBA_ITEM_MAP :: "int \<Rightarrow> item option" where
  "GBA_ITEM_MAP = map_of (rev GBA_ITEM_ROWS)"

definition SPECIES_ABILITIES :: "species \<Rightarrow> ability list option" where
  "SPECIES_ABILITIES = map_of (rev SPECIES_ABILITY_ROWS)"

section \<open>Well-formedness of the tables\<close>

lemma dict_display: "distinct (map fst rows) \<Longrightarrow> map_of (rev rows) k = Some v \<longleftrightarrow> (k, v) \<in> set rows"
  by (simp add: map_of_eq_Some_iff rev_map[symmetric] del: rev_map)

lemma gba_move_keys: "ascending (map fst GBA_MOVE_ROWS)"
  by code_simp

lemma gba_item_keys: "ascending (map fst GBA_ITEM_ROWS)"
  by code_simp

text \<open>A long table chunk by chunk: ascending keys between two bounds.\<close>

fun within_asc :: "int \<Rightarrow> int \<Rightarrow> int list \<Rightarrow> bool" where
  "within_asc lo hi [] = (lo \<le> hi)"
| "within_asc lo hi (x # xs) = (lo \<le> x \<and> within_asc (x + 1) hi xs)"

lemma within_asc_bounds: "within_asc lo hi xs \<Longrightarrow> x \<in> set xs \<Longrightarrow> lo \<le> x \<and> x < hi"
proof (induction xs arbitrary: lo)
  case (Cons y ys)
  have "y < hi" using Cons.prems(1) by (induction ys arbitrary: y lo) force+
  with Cons show ?case by force
qed simp

lemma within_asc_distinct: "within_asc lo hi xs \<Longrightarrow> distinct xs"
proof (induction xs arbitrary: lo)
  case (Cons x xs)
  then have "within_asc (x + 1) hi xs" by simp
  from Cons.IH[OF this] within_asc_bounds[OF this] show ?case by force
qed simp

lemma within_asc_weaken: "within_asc lo hi xs \<Longrightarrow> lo' \<le> lo \<Longrightarrow> within_asc lo' hi xs"
  by (cases xs) auto

lemma within_asc_join: "within_asc lo m xs \<Longrightarrow> within_asc m hi ys \<Longrightarrow> within_asc lo hi (xs @ ys)"
proof (induction xs arbitrary: lo)
  case Nil
  then show ?case using within_asc_weaken by simp
qed simp

lemma species_ability_rows_1_asc: "within_asc 1 151 (map fst SPECIES_ABILITY_ROWS_1)"
  by code_simp

lemma species_ability_rows_2_asc: "within_asc 151 301 (map fst SPECIES_ABILITY_ROWS_2)"
  by code_simp

lemma species_ability_rows_3_asc: "within_asc 301 451 (map fst SPECIES_ABILITY_ROWS_3)"
  by code_simp

lemma species_ability_rows_4_asc: "within_asc 451 601 (map fst SPECIES_ABILITY_ROWS_4)"
  by code_simp

lemma species_ability_rows_5_asc: "within_asc 601 751 (map fst SPECIES_ABILITY_ROWS_5)"
  by code_simp

lemma species_ability_rows_6_asc: "within_asc 751 901 (map fst SPECIES_ABILITY_ROWS_6)"
  by code_simp

lemma species_ability_rows_7_asc: "within_asc 901 1051 (map fst SPECIES_ABILITY_ROWS_7)"
  by code_simp

lemma species_ability_rows_8_asc: "within_asc 1051 1215 (map fst SPECIES_ABILITY_ROWS_8)"
  by code_simp

lemma species_ability_rows_9_asc: "within_asc 1215 1234 (map fst SPECIES_ABILITY_ROWS_9)"
  by code_simp

lemmas ability_chunks_asc = species_ability_rows_1_asc species_ability_rows_2_asc species_ability_rows_3_asc species_ability_rows_4_asc species_ability_rows_5_asc species_ability_rows_6_asc species_ability_rows_7_asc species_ability_rows_8_asc species_ability_rows_9_asc

lemma ability_keys: "distinct (map fst SPECIES_ABILITY_ROWS)"
proof (rule within_asc_distinct)
  show "within_asc 1 1234 (map fst SPECIES_ABILITY_ROWS)"
    unfolding SPECIES_ABILITY_ROWS_def concat.simps append_Nil2 map_append
    by (intro within_asc_join) (rule ability_chunks_asc)+
qed

lemma gba_move_values: "ascending (msort (map snd GBA_MOVE_ROWS))"
  by code_simp

end
