(* ===== verification/MoveTable.thy ===== *)
theory MoveTable
  imports EnumTables
begin

text \<open>
  The table \<open>MOVE_DATA\<close> of \<open>data/moves.py\<close>: its rows, and the loops that add the tags for contact, sound, bullet, pulse, biting,
  punching and slicing moves.
\<close>

unbundle bit_operations_syntax

section \<open>Rows\<close>

definition Tag_NONE :: int where "Tag_NONE = 0"
definition Tag_DAMAGE :: int where "Tag_DAMAGE = 1"
definition Tag_SETUP :: int where "Tag_SETUP = 2"
definition Tag_RECOVERY :: int where "Tag_RECOVERY = 4"
definition Tag_STATUS :: int where "Tag_STATUS = 8"
definition Tag_PIVOT :: int where "Tag_PIVOT = 16"
definition Tag_HAZARD :: int where "Tag_HAZARD = 32"
definition Tag_SCREEN :: int where "Tag_SCREEN = 64"
definition Tag_CONTACT :: int where "Tag_CONTACT = 128"
definition Tag_SOUND :: int where "Tag_SOUND = 256"
definition Tag_BULLET :: int where "Tag_BULLET = 512"
definition Tag_PULSE :: int where "Tag_PULSE = 1024"
definition Tag_BITING :: int where "Tag_BITING = 2048"
definition Tag_PUNCHING :: int where "Tag_PUNCHING = 4096"
definition Tag_SLICING :: int where "Tag_SLICING = 8192"
definition Tag_POWDER :: int where "Tag_POWDER = 16384"

text \<open>The constructors \<open>SecondaryEffect\<close> and \<open>MoveData\<close>; what a row leaves out has its default.\<close>

definition secondary :: "int \<Rightarrow> status option \<Rightarrow> bool \<Rightarrow> (nat \<times> int \<times> bool) list \<Rightarrow> string option \<Rightarrow> secondary_effect" where
  "secondary chance st flinch changes vol =
     \<lparr>se_chance = chance, se_status = st, se_flinch = flinch, se_stat_changes = changes, se_volatile = vol\<rparr>"

definition move_entry :: "ptype \<Rightarrow> move_category \<Rightarrow> int \<Rightarrow> int option \<Rightarrow> int \<Rightarrow> int \<Rightarrow> move_target \<Rightarrow> int \<Rightarrow> secondary_effect option
    \<Rightarrow> (int \<times> int) option \<Rightarrow> (int \<times> int) option \<Rightarrow> move_data" where
  "move_entry ty cat bp acc pp prio target tags sec drain recoil =
     \<lparr>md_move_type = ty, md_category = cat, md_base_power = bp, md_accuracy = acc, md_pp = pp, md_priority = prio,
      md_target = target, md_tags = tags, md_secondary = sec, md_drain = drain, md_recoil = recoil, md_flags = 0,
      md_min_hits = 1, md_max_hits = 1, md_crit_boost = 0, md_secondary2 = None, md_self_stat_changes = []\<rparr>"

definition MOVE_ROWS_1 :: "(move \<times> move_data) list" where
  "MOVE_ROWS_1 = [
     (0, move_entry T_NORMAL Cat_STATUS 0 None 0 0 MT_SELF Tag_NONE None None None),
     (1, move_entry T_NORMAL Cat_PHYSICAL 40 (Some 100) 35 0 MT_NORMAL Tag_DAMAGE None None None),
     (2, (move_entry T_FIGHTING Cat_PHYSICAL 50 (Some 100) 25 0 MT_NORMAL Tag_DAMAGE None None None)\<lparr>md_crit_boost := 1\<rparr>),
     (3, (move_entry T_NORMAL Cat_PHYSICAL 15 (Some 100) 10 0 MT_NORMAL Tag_DAMAGE None None None)\<lparr>md_min_hits := 2, md_max_hits := 5\<rparr>),
     (4, (move_entry T_NORMAL Cat_PHYSICAL 18 (Some 90) 15 0 MT_NORMAL (Tag_DAMAGE OR Tag_PUNCHING) None None None)\<lparr>md_min_hits := 2, md_max_hits := 5\<rparr>),
     (5, move_entry T_NORMAL Cat_PHYSICAL 80 (Some 100) 20 0 MT_NORMAL (Tag_DAMAGE OR Tag_PUNCHING) None None None),
     (6, move_entry T_NORMAL Cat_PHYSICAL 40 (Some 100) 20 0 MT_NORMAL Tag_DAMAGE None None None),
     (7, move_entry T_FIRE Cat_PHYSICAL 75 (Some 100) 15 0 MT_NORMAL (Tag_DAMAGE OR Tag_PUNCHING) (Some (secondary 10 (Some St_BURN) False [] None)) None None),
     (8, move_entry T_ICE Cat_PHYSICAL 75 (Some 100) 15 0 MT_NORMAL (Tag_DAMAGE OR Tag_PUNCHING) (Some (secondary 10 (Some St_FREEZE) False [] None)) None None),
     (9, move_entry T_ELECTRIC Cat_PHYSICAL 75 (Some 100) 15 0 MT_NORMAL (Tag_DAMAGE OR Tag_PUNCHING) (Some (secondary 10 (Some St_PARALYSIS) False [] None)) None None),
     (10, move_entry T_NORMAL Cat_PHYSICAL 40 (Some 100) 35 0 MT_NORMAL Tag_DAMAGE None None None),
     (11, move_entry T_NORMAL Cat_PHYSICAL 55 (Some 100) 30 0 MT_NORMAL Tag_DAMAGE None None None),
     (12, move_entry T_NORMAL Cat_PHYSICAL 0 (Some 30) 5 0 MT_NORMAL Tag_NONE None None None),
     (13, move_entry T_NORMAL Cat_SPECIAL 80 (Some 100) 10 0 MT_ALL_ADJACENT_FOES Tag_DAMAGE None None None),
     (14, move_entry T_NORMAL Cat_STATUS 0 None 20 0 MT_SELF Tag_SETUP None None None),
     (15, move_entry T_NORMAL Cat_PHYSICAL 50 (Some 100) 30 0 MT_NORMAL Tag_DAMAGE None None None),
     (16, move_entry T_FLYING Cat_SPECIAL 40 (Some 100) 35 0 MT_ANY Tag_DAMAGE None None None),
     (17, move_entry T_FLYING Cat_PHYSICAL 60 (Some 100) 35 0 MT_ANY Tag_DAMAGE None None None),
     (18, move_entry T_NORMAL Cat_STATUS 0 None 20 (- 6) MT_NORMAL Tag_NONE None None None),
     (19, move_entry T_FLYING Cat_PHYSICAL 90 (Some 100) 15 0 MT_ANY Tag_DAMAGE None None None),
     (20, move_entry T_NORMAL Cat_PHYSICAL 15 (Some 100) 20 0 MT_NORMAL Tag_DAMAGE None None None),
     (21, move_entry T_NORMAL Cat_PHYSICAL 80 (Some 90) 20 0 MT_NORMAL Tag_DAMAGE None None None),
     (22, move_entry T_GRASS Cat_PHYSICAL 45 (Some 100) 25 0 MT_NORMAL Tag_DAMAGE None None None),
     (23, move_entry T_NORMAL Cat_PHYSICAL 65 (Some 100) 20 0 MT_NORMAL Tag_DAMAGE (Some (secondary 30 None True [] None)) None None),
     (24, (move_entry T_FIGHTING Cat_PHYSICAL 30 (Some 100) 30 0 MT_NORMAL Tag_DAMAGE None None None)\<lparr>md_min_hits := 2, md_max_hits := 2\<rparr>),
     (25, move_entry T_NORMAL Cat_PHYSICAL 120 (Some 85) 5 0 MT_NORMAL Tag_DAMAGE None None None),
     (26, move_entry T_FIGHTING Cat_PHYSICAL 100 (Some 95) 10 0 MT_NORMAL Tag_DAMAGE None None None),
     (27, move_entry T_FIGHTING Cat_PHYSICAL 60 (Some 100) 15 0 MT_NORMAL Tag_DAMAGE (Some (secondary 30 None True [] None)) None None),
     (28, move_entry T_GROUND Cat_STATUS 0 (Some 100) 5 0 MT_NORMAL Tag_NONE None None None),
     (29, move_entry T_NORMAL Cat_PHYSICAL 70 (Some 100) 15 0 MT_NORMAL Tag_DAMAGE (Some (secondary 30 None True [] None)) None None),
     (30, move_entry T_NORMAL Cat_PHYSICAL 65 (Some 100) 25 0 MT_NORMAL Tag_DAMAGE None None None),
     (31, (move_entry T_NORMAL Cat_PHYSICAL 15 (Some 100) 20 0 MT_NORMAL Tag_DAMAGE None None None)\<lparr>md_min_hits := 2, md_max_hits := 5\<rparr>),
     (32, move_entry T_NORMAL Cat_PHYSICAL 0 (Some 30) 5 0 MT_NORMAL Tag_NONE None None None),
     (33, move_entry T_NORMAL Cat_PHYSICAL 40 (Some 100) 35 0 MT_NORMAL Tag_DAMAGE None None None),
     (34, move_entry T_NORMAL Cat_PHYSICAL 85 (Some 100) 15 0 MT_NORMAL Tag_DAMAGE (Some (secondary 30 (Some St_PARALYSIS) False [] None)) None None),
     (35, move_entry T_NORMAL Cat_PHYSICAL 15 (Some 100) 20 0 MT_NORMAL Tag_DAMAGE None None None),
     (36, move_entry T_NORMAL Cat_PHYSICAL 90 (Some 100) 20 0 MT_NORMAL Tag_DAMAGE None None (Some (1, 4))),
     (37, move_entry T_NORMAL Cat_PHYSICAL 120 (Some 100) 10 0 MT_RANDOM_NORMAL Tag_DAMAGE None None None),
     (38, move_entry T_NORMAL Cat_PHYSICAL 120 (Some 100) 15 0 MT_NORMAL Tag_DAMAGE None None (Some (33, 100))),
     (39, move_entry T_NORMAL Cat_STATUS 0 (Some 100) 30 0 MT_ALL_ADJACENT_FOES Tag_NONE None None None),
     (40, move_entry T_POISON Cat_PHYSICAL 15 (Some 100) 35 0 MT_NORMAL Tag_DAMAGE (Some (secondary 30 (Some St_POISON) False [] None)) None None),
     (41, move_entry T_BUG Cat_PHYSICAL 25 (Some 100) 20 0 MT_NORMAL Tag_DAMAGE (Some (secondary 20 (Some St_POISON) False [] None)) None None),
     (42, (move_entry T_BUG Cat_PHYSICAL 25 (Some 100) 20 0 MT_NORMAL Tag_DAMAGE None None None)\<lparr>md_min_hits := 2, md_max_hits := 5\<rparr>),
     (43, move_entry T_NORMAL Cat_STATUS 0 (Some 100) 10 0 MT_ALL_ADJACENT_FOES Tag_NONE None None None),
     (44, move_entry T_DARK Cat_PHYSICAL 60 (Some 100) 25 0 MT_NORMAL Tag_DAMAGE (Some (secondary 30 None True [] None)) None None),
     (45, move_entry T_NORMAL Cat_STATUS 0 (Some 100) 10 0 MT_ALL_ADJACENT_FOES Tag_NONE None None None),
     (46, move_entry T_NORMAL Cat_STATUS 0 None 20 (- 6) MT_NORMAL Tag_NONE None None None),
     (47, move_entry T_NORMAL Cat_STATUS 0 (Some 70) 15 0 MT_NORMAL Tag_STATUS None None None),
     (48, move_entry T_NORMAL Cat_STATUS 0 (Some 70) 20 0 MT_NORMAL Tag_NONE None None None),
     (49, move_entry T_NORMAL Cat_SPECIAL 0 (Some 100) 20 0 MT_NORMAL Tag_NONE None None None),
     (50, move_entry T_NORMAL Cat_STATUS 0 (Some 100) 20 0 MT_NORMAL Tag_NONE None None None),
     (51, move_entry T_POISON Cat_SPECIAL 40 (Some 100) 30 0 MT_ALL_ADJACENT_FOES Tag_DAMAGE (Some (secondary 10 None False [(3, - 1, False)] None)) None None),
     (52, move_entry T_FIRE Cat_SPECIAL 40 (Some 100) 25 0 MT_NORMAL Tag_DAMAGE (Some (secondary 10 (Some St_BURN) False [] None)) None None),
     (53, move_entry T_FIRE Cat_SPECIAL 90 (Some 100) 15 0 MT_NORMAL Tag_DAMAGE (Some (secondary 10 (Some St_BURN) False [] None)) None None),
     (55, move_entry T_WATER Cat_SPECIAL 40 (Some 100) 25 0 MT_NORMAL Tag_DAMAGE None None None),
     (56, move_entry T_WATER Cat_SPECIAL 110 (Some 85) 5 0 MT_NORMAL Tag_DAMAGE None None None),
     (57, move_entry T_WATER Cat_SPECIAL 90 (Some 100) 15 0 MT_ALL_ADJACENT Tag_DAMAGE None None None),
     (58, move_entry T_ICE Cat_SPECIAL 90 (Some 100) 10 0 MT_NORMAL Tag_DAMAGE (Some (secondary 10 (Some St_FREEZE) False [] None)) None None),
     (59, move_entry T_ICE Cat_SPECIAL 110 (Some 80) 5 0 MT_ALL_ADJACENT_FOES Tag_DAMAGE (Some (secondary 10 (Some St_FREEZE) False [] None)) None None),
     (60, move_entry T_PSYCHIC Cat_SPECIAL 65 (Some 100) 20 0 MT_NORMAL Tag_DAMAGE (Some (secondary 10 None False [] (Some (''confused'')))) None None),
     (61, move_entry T_WATER Cat_SPECIAL 65 (Some 100) 20 0 MT_NORMAL Tag_DAMAGE (Some (secondary 10 None False [(4, - 1, False)] None)) None None),
     (62, move_entry T_ICE Cat_SPECIAL 65 (Some 100) 20 0 MT_NORMAL Tag_DAMAGE (Some (secondary 10 None False [(0, - 1, False)] None)) None None),
     (63, move_entry T_NORMAL Cat_SPECIAL 150 (Some 100) 5 0 MT_NORMAL Tag_DAMAGE None None None),
     (64, move_entry T_FLYING Cat_PHYSICAL 35 (Some 100) 35 0 MT_ANY Tag_DAMAGE None None None),
     (65, move_entry T_FLYING Cat_PHYSICAL 80 (Some 100) 20 0 MT_ANY Tag_DAMAGE None None None),
     (66, move_entry T_FIGHTING Cat_PHYSICAL 80 (Some 100) 20 0 MT_NORMAL Tag_DAMAGE None None (Some (1, 4))),
     (67, move_entry T_FIGHTING Cat_PHYSICAL 0 (Some 100) 20 0 MT_NORMAL Tag_NONE None None None),
     (68, move_entry T_FIGHTING Cat_PHYSICAL 0 (Some 100) 20 (- 5) MT_NORMAL Tag_NONE None None None),
     (69, move_entry T_FIGHTING Cat_PHYSICAL 0 (Some 100) 20 0 MT_NORMAL Tag_NONE None None None),
     (70, move_entry T_NORMAL Cat_PHYSICAL 80 (Some 100) 15 0 MT_NORMAL Tag_DAMAGE None None None),
     (71, move_entry T_GRASS Cat_SPECIAL 40 (Some 100) 25 0 MT_NORMAL Tag_DAMAGE None (Some (1, 2)) None),
     (72, move_entry T_GRASS Cat_SPECIAL 60 (Some 100) 15 0 MT_NORMAL Tag_DAMAGE None (Some (1, 2)) None),
     (73, move_entry T_GRASS Cat_STATUS 0 (Some 100) 10 0 MT_NORMAL Tag_NONE None None None),
     (74, move_entry T_NORMAL Cat_STATUS 0 None 20 0 MT_SELF Tag_SETUP None None None),
     (75, (move_entry T_GRASS Cat_PHYSICAL 55 (Some 100) 25 0 MT_ALL_ADJACENT_FOES Tag_DAMAGE None None None)\<lparr>md_crit_boost := 1\<rparr>),
     (76, move_entry T_GRASS Cat_SPECIAL 120 (Some 100) 10 0 MT_NORMAL Tag_DAMAGE None None None),
     (77, move_entry T_POISON Cat_STATUS 0 (Some 90) 35 0 MT_NORMAL (Tag_STATUS OR Tag_POWDER) None None None),
     (78, move_entry T_GRASS Cat_STATUS 0 (Some 90) 30 0 MT_NORMAL (Tag_STATUS OR Tag_POWDER) None None None),
     (79, move_entry T_GRASS Cat_STATUS 0 (Some 80) 15 0 MT_NORMAL (Tag_STATUS OR Tag_POWDER) None None None),
     (80, move_entry T_GRASS Cat_SPECIAL 120 (Some 100) 10 0 MT_RANDOM_NORMAL Tag_DAMAGE None None None),
     (81, move_entry T_BUG Cat_STATUS 0 (Some 95) 40 0 MT_ALL_ADJACENT_FOES Tag_NONE None None None),
     (82, move_entry T_DRAGON Cat_SPECIAL 0 (Some 100) 10 0 MT_NORMAL Tag_NONE None None None),
     (83, move_entry T_FIRE Cat_SPECIAL 35 (Some 100) 15 0 MT_NORMAL Tag_DAMAGE None None None),
     (84, move_entry T_ELECTRIC Cat_SPECIAL 40 (Some 100) 30 0 MT_NORMAL Tag_DAMAGE (Some (secondary 10 (Some St_PARALYSIS) False [] None)) None None),
     (85, move_entry T_ELECTRIC Cat_SPECIAL 90 (Some 100) 15 0 MT_NORMAL Tag_DAMAGE (Some (secondary 10 (Some St_PARALYSIS) False [] None)) None None),
     (86, move_entry T_ELECTRIC Cat_STATUS 0 (Some 90) 20 0 MT_NORMAL Tag_STATUS None None None),
     (87, move_entry T_ELECTRIC Cat_SPECIAL 110 (Some 80) 10 0 MT_NORMAL Tag_DAMAGE (Some (secondary 30 (Some St_PARALYSIS) False [] None)) None None),
     (88, move_entry T_ROCK Cat_PHYSICAL 50 (Some 100) 15 0 MT_NORMAL Tag_DAMAGE None None None),
     (89, move_entry T_GROUND Cat_PHYSICAL 100 (Some 100) 10 0 MT_ALL_ADJACENT Tag_DAMAGE None None None),
     (90, move_entry T_GROUND Cat_PHYSICAL 0 (Some 30) 5 0 MT_NORMAL Tag_NONE None None None),
     (91, move_entry T_GROUND Cat_PHYSICAL 80 (Some 100) 10 0 MT_NORMAL Tag_DAMAGE None None None),
     (92, move_entry T_POISON Cat_STATUS 0 (Some 90) 10 0 MT_NORMAL Tag_STATUS None None None),
     (93, move_entry T_PSYCHIC Cat_SPECIAL 50 (Some 100) 25 0 MT_NORMAL Tag_DAMAGE (Some (secondary 10 None False [] (Some (''confused'')))) None None),
     (94, move_entry T_PSYCHIC Cat_SPECIAL 90 (Some 100) 10 0 MT_NORMAL Tag_DAMAGE (Some (secondary 10 None False [(3, - 1, False)] None)) None None),
     (95, move_entry T_PSYCHIC Cat_STATUS 0 (Some 70) 20 0 MT_NORMAL Tag_STATUS None None None),
     (96, move_entry T_PSYCHIC Cat_STATUS 0 None 40 0 MT_SELF Tag_SETUP None None None),
     (97, move_entry T_PSYCHIC Cat_STATUS 0 None 30 0 MT_SELF Tag_SETUP None None None),
     (98, move_entry T_NORMAL Cat_PHYSICAL 40 (Some 100) 30 1 MT_NORMAL Tag_DAMAGE None None None),
     (99, move_entry T_NORMAL Cat_PHYSICAL 20 (Some 100) 20 0 MT_NORMAL Tag_DAMAGE None None None)]"

definition MOVE_ROWS_2 :: "(move \<times> move_data) list" where
  "MOVE_ROWS_2 = [
     (100, move_entry T_PSYCHIC Cat_STATUS 0 None 20 (- 6) MT_SELF Tag_PIVOT None None None),
     (101, move_entry T_GHOST Cat_SPECIAL 0 (Some 100) 15 0 MT_NORMAL Tag_NONE None None None),
     (103, move_entry T_NORMAL Cat_STATUS 0 (Some 100) 5 0 MT_NORMAL Tag_NONE None None None),
     (104, move_entry T_NORMAL Cat_STATUS 0 None 15 0 MT_SELF Tag_SETUP None None None),
     (105, move_entry T_NORMAL Cat_STATUS 0 None 5 0 MT_SELF Tag_RECOVERY None None None),
     (106, move_entry T_NORMAL Cat_STATUS 0 None 5 0 MT_SELF Tag_SETUP None None None),
     (107, move_entry T_NORMAL Cat_STATUS 0 None 10 0 MT_SELF Tag_SETUP None None None),
     (108, move_entry T_NORMAL Cat_STATUS 0 (Some 100) 20 0 MT_NORMAL Tag_NONE None None None),
     (109, move_entry T_GHOST Cat_STATUS 0 (Some 100) 10 0 MT_NORMAL Tag_NONE None None None),
     (111, move_entry T_NORMAL Cat_STATUS 0 None 40 0 MT_SELF Tag_SETUP None None None),
     (112, move_entry T_PSYCHIC Cat_STATUS 0 None 20 0 MT_SELF Tag_SETUP None None None),
     (113, move_entry T_PSYCHIC Cat_STATUS 0 None 30 0 MT_NORMAL Tag_SCREEN None None None),
     (114, move_entry T_ICE Cat_STATUS 0 None 30 0 MT_ALL Tag_NONE None None None),
     (115, move_entry T_PSYCHIC Cat_STATUS 0 None 20 0 MT_NORMAL Tag_SCREEN None None None),
     (116, move_entry T_NORMAL Cat_STATUS 0 None 30 0 MT_SELF Tag_SETUP None None None),
     (118, move_entry T_NORMAL Cat_STATUS 0 None 10 0 MT_SELF Tag_NONE None None None),
     (119, move_entry T_FLYING Cat_STATUS 0 None 20 0 MT_NORMAL Tag_NONE None None None),
     (120, move_entry T_NORMAL Cat_PHYSICAL 200 (Some 100) 5 0 MT_ALL_ADJACENT Tag_DAMAGE None None None),
     (121, move_entry T_NORMAL Cat_PHYSICAL 100 (Some 75) 10 0 MT_NORMAL Tag_DAMAGE None None None),
     (122, move_entry T_GHOST Cat_PHYSICAL 40 (Some 100) 30 0 MT_NORMAL Tag_DAMAGE (Some (secondary 30 (Some St_PARALYSIS) False [] None)) None None),
     (123, move_entry T_POISON Cat_SPECIAL 30 (Some 90) 20 0 MT_NORMAL Tag_DAMAGE (Some (secondary 100 (Some St_POISON) False [] None)) None None),
     (124, move_entry T_POISON Cat_SPECIAL 65 (Some 100) 20 0 MT_NORMAL Tag_DAMAGE (Some (secondary 30 (Some St_POISON) False [] None)) None None),
     (125, move_entry T_GROUND Cat_PHYSICAL 65 (Some 100) 20 0 MT_NORMAL Tag_DAMAGE (Some (secondary 10 None True [] None)) None None),
     (126, move_entry T_FIRE Cat_SPECIAL 110 (Some 85) 5 0 MT_NORMAL Tag_DAMAGE (Some (secondary 10 (Some St_BURN) False [] None)) None None),
     (127, move_entry T_WATER Cat_PHYSICAL 80 (Some 100) 15 0 MT_NORMAL Tag_DAMAGE (Some (secondary 20 None True [] None)) None None),
     (128, move_entry T_WATER Cat_PHYSICAL 35 (Some 100) 15 0 MT_NORMAL Tag_DAMAGE None None None),
     (129, move_entry T_NORMAL Cat_SPECIAL 60 None 20 0 MT_ALL_ADJACENT_FOES Tag_DAMAGE None None None),
     (130, move_entry T_NORMAL Cat_PHYSICAL 130 (Some 100) 10 0 MT_NORMAL Tag_DAMAGE None None None),
     (131, move_entry T_NORMAL Cat_PHYSICAL 20 (Some 100) 15 0 MT_NORMAL Tag_DAMAGE None None None),
     (132, move_entry T_NORMAL Cat_PHYSICAL 10 (Some 100) 35 0 MT_NORMAL Tag_DAMAGE (Some (secondary 10 None False [] None)) None None),
     (133, move_entry T_PSYCHIC Cat_STATUS 0 None 20 0 MT_SELF Tag_SETUP None None None),
     (134, move_entry T_PSYCHIC Cat_STATUS 0 (Some 100) 15 0 MT_NORMAL Tag_NONE None None None),
     (135, move_entry T_NORMAL Cat_STATUS 0 None 5 0 MT_SELF Tag_RECOVERY None None None),
     (136, move_entry T_FIGHTING Cat_PHYSICAL 130 (Some 90) 10 0 MT_NORMAL Tag_DAMAGE None None None),
     (137, move_entry T_NORMAL Cat_STATUS 0 (Some 100) 30 0 MT_NORMAL Tag_STATUS None None None),
     (138, move_entry T_PSYCHIC Cat_SPECIAL 100 (Some 100) 15 0 MT_NORMAL Tag_DAMAGE None (Some (1, 2)) None),
     (139, move_entry T_POISON Cat_STATUS 0 (Some 90) 40 0 MT_ALL_ADJACENT_FOES Tag_STATUS None None None),
     (140, move_entry T_NORMAL Cat_PHYSICAL 15 (Some 100) 20 0 MT_NORMAL Tag_DAMAGE None None None),
     (141, move_entry T_BUG Cat_PHYSICAL 80 (Some 100) 10 0 MT_NORMAL Tag_DAMAGE None (Some (1, 2)) None),
     (142, move_entry T_NORMAL Cat_STATUS 0 (Some 80) 10 0 MT_NORMAL Tag_STATUS None None None),
     (143, (move_entry T_FLYING Cat_PHYSICAL 140 (Some 100) 5 0 MT_ANY Tag_DAMAGE (Some (secondary 30 None True [] None)) None None)\<lparr>md_crit_boost := 1\<rparr>),
     (144, move_entry T_NORMAL Cat_STATUS 0 None 10 0 MT_NORMAL Tag_NONE None None None),
     (145, move_entry T_WATER Cat_SPECIAL 40 (Some 100) 30 0 MT_ALL_ADJACENT_FOES Tag_DAMAGE (Some (secondary 10 None False [] None)) None None),
     (146, move_entry T_NORMAL Cat_PHYSICAL 70 (Some 100) 10 0 MT_NORMAL Tag_DAMAGE (Some (secondary 20 None False [] (Some (''confused'')))) None None),
     (147, move_entry T_GRASS Cat_STATUS 0 (Some 100) 15 0 MT_NORMAL (Tag_STATUS OR Tag_POWDER) None None None),
     (148, move_entry T_NORMAL Cat_STATUS 0 (Some 70) 20 0 MT_NORMAL Tag_NONE None None None),
     (149, move_entry T_PSYCHIC Cat_SPECIAL 0 (Some 100) 15 0 MT_NORMAL Tag_NONE None None None),
     (150, move_entry T_NORMAL Cat_STATUS 0 None 40 0 MT_SELF Tag_NONE None None None),
     (151, move_entry T_POISON Cat_STATUS 0 None 20 0 MT_SELF Tag_SETUP None None None),
     (152, (move_entry T_WATER Cat_PHYSICAL 100 (Some 100) 10 0 MT_NORMAL Tag_DAMAGE None None None)\<lparr>md_crit_boost := 1\<rparr>),
     (153, move_entry T_NORMAL Cat_PHYSICAL 250 (Some 100) 5 0 MT_ALL_ADJACENT Tag_DAMAGE None None None),
     (154, (move_entry T_NORMAL Cat_PHYSICAL 18 (Some 90) 15 0 MT_NORMAL Tag_DAMAGE None None None)\<lparr>md_min_hits := 2, md_max_hits := 5\<rparr>),
     (155, (move_entry T_GROUND Cat_PHYSICAL 50 (Some 100) 10 0 MT_NORMAL Tag_DAMAGE None None None)\<lparr>md_min_hits := 2, md_max_hits := 2\<rparr>),
     (156, move_entry T_PSYCHIC Cat_STATUS 0 None 5 0 MT_SELF Tag_RECOVERY None None None),
     (157, move_entry T_ROCK Cat_PHYSICAL 75 (Some 100) 10 0 MT_ALL_ADJACENT_FOES Tag_DAMAGE (Some (secondary 30 None True [] None)) None None),
     (158, move_entry T_NORMAL Cat_PHYSICAL 80 (Some 100) 15 0 MT_NORMAL Tag_DAMAGE (Some (secondary 10 None True [] None)) None None),
     (159, move_entry T_NORMAL Cat_STATUS 0 None 30 0 MT_SELF Tag_SETUP None None None),
     (161, move_entry T_NORMAL Cat_SPECIAL 80 (Some 100) 10 0 MT_NORMAL Tag_DAMAGE (Some (secondary 20 None False [] None)) None None),
     (162, move_entry T_DARK Cat_PHYSICAL 0 (Some 100) 10 0 MT_NORMAL Tag_NONE None None None),
     (163, (move_entry T_NORMAL Cat_PHYSICAL 70 (Some 100) 20 0 MT_NORMAL Tag_DAMAGE None None None)\<lparr>md_crit_boost := 1\<rparr>),
     (164, move_entry T_NORMAL Cat_STATUS 0 None 10 0 MT_SELF Tag_NONE None None None),
     (165, move_entry T_TYPELESS Cat_PHYSICAL 50 None 1 0 MT_RANDOM_NORMAL Tag_DAMAGE None None None),
     (167, move_entry T_FIGHTING Cat_PHYSICAL 10 (Some 90) 10 0 MT_NORMAL Tag_DAMAGE None None None),
     (168, move_entry T_DARK Cat_PHYSICAL 60 (Some 100) 25 0 MT_NORMAL Tag_DAMAGE None None None),
     (171, move_entry T_GHOST Cat_STATUS 0 (Some 100) 15 0 MT_NORMAL Tag_NONE None None None),
     (172, move_entry T_FIRE Cat_PHYSICAL 60 (Some 100) 25 0 MT_NORMAL Tag_DAMAGE (Some (secondary 10 (Some St_BURN) False [] None)) None None),
     (173, move_entry T_NORMAL Cat_SPECIAL 50 (Some 100) 15 0 MT_NORMAL Tag_DAMAGE (Some (secondary 30 None True [] None)) None None),
     (174, move_entry T_GHOST Cat_STATUS 0 None 10 0 MT_NORMAL Tag_SETUP None None None),
     (175, move_entry T_NORMAL Cat_PHYSICAL 0 (Some 100) 15 0 MT_NORMAL Tag_NONE None None None),
     (177, move_entry T_FLYING Cat_SPECIAL 100 (Some 100) 5 0 MT_ANY Tag_DAMAGE None None None),
     (178, move_entry T_GRASS Cat_STATUS 0 (Some 100) 40 0 MT_ALL_ADJACENT_FOES Tag_POWDER None None None),
     (179, move_entry T_FIGHTING Cat_PHYSICAL 0 (Some 100) 15 0 MT_NORMAL Tag_NONE None None None),
     (181, move_entry T_ICE Cat_SPECIAL 40 (Some 100) 25 0 MT_ALL_ADJACENT_FOES Tag_DAMAGE (Some (secondary 10 (Some St_FREEZE) False [] None)) None None),
     (182, move_entry T_NORMAL Cat_STATUS 0 None 10 4 MT_SELF Tag_NONE None None None),
     (183, move_entry T_FIGHTING Cat_PHYSICAL 40 (Some 100) 30 1 MT_NORMAL (Tag_DAMAGE OR Tag_PUNCHING) None None None),
     (184, move_entry T_NORMAL Cat_STATUS 0 (Some 100) 10 0 MT_NORMAL Tag_NONE None None None),
     (185, move_entry T_DARK Cat_PHYSICAL 60 None 20 0 MT_NORMAL Tag_DAMAGE None None None),
     (186, move_entry T_FAIRY Cat_STATUS 0 (Some 80) 10 0 MT_NORMAL Tag_NONE None None None),
     (187, move_entry T_NORMAL Cat_STATUS 0 None 10 0 MT_SELF Tag_SETUP None None None),
     (188, move_entry T_POISON Cat_SPECIAL 90 (Some 100) 10 0 MT_NORMAL Tag_DAMAGE (Some (secondary 30 (Some St_POISON) False [] None)) None None),
     (189, move_entry T_GROUND Cat_SPECIAL 20 (Some 100) 10 0 MT_NORMAL Tag_DAMAGE (Some (secondary 100 None False [(5, - 1, False)] None)) None None),
     (190, move_entry T_WATER Cat_SPECIAL 80 (Some 100) 10 0 MT_NORMAL Tag_DAMAGE (Some (secondary 30 None False [(5, - 1, False)] None)) None None),
     (191, move_entry T_GROUND Cat_STATUS 0 None 20 0 MT_FOE_SIDE Tag_HAZARD None None None),
     (192, move_entry T_ELECTRIC Cat_SPECIAL 120 (Some 50) 5 0 MT_NORMAL Tag_DAMAGE (Some (secondary 100 (Some St_PARALYSIS) False [] None)) None None),
     (193, move_entry T_NORMAL Cat_STATUS 0 None 40 0 MT_NORMAL Tag_NONE None None None),
     (194, move_entry T_GHOST Cat_STATUS 0 None 5 0 MT_SELF Tag_NONE None None None),
     (195, move_entry T_NORMAL Cat_STATUS 0 None 5 0 MT_ALL Tag_NONE None None None),
     (196, move_entry T_ICE Cat_SPECIAL 55 (Some 100) 15 0 MT_ALL_ADJACENT_FOES Tag_DAMAGE (Some (secondary 100 None False [(4, - 1, False)] None)) None None),
     (197, move_entry T_FIGHTING Cat_STATUS 0 None 5 4 MT_SELF Tag_NONE None None None),
     (198, (move_entry T_GROUND Cat_PHYSICAL 25 (Some 90) 10 0 MT_NORMAL Tag_DAMAGE None None None)\<lparr>md_min_hits := 2, md_max_hits := 5\<rparr>),
     (200, move_entry T_DRAGON Cat_PHYSICAL 120 (Some 100) 10 0 MT_RANDOM_NORMAL Tag_DAMAGE None None None),
     (201, move_entry T_ROCK Cat_STATUS 0 None 10 0 MT_ALL Tag_NONE None None None),
     (202, move_entry T_GRASS Cat_SPECIAL 75 (Some 100) 10 0 MT_NORMAL Tag_DAMAGE None (Some (1, 2)) None)]"

definition MOVE_ROWS_3 :: "(move \<times> move_data) list" where
  "MOVE_ROWS_3 = [
     (203, move_entry T_NORMAL Cat_STATUS 0 None 10 4 MT_SELF Tag_SETUP None None None),
     (204, move_entry T_FAIRY Cat_STATUS 0 (Some 100) 5 0 MT_NORMAL Tag_NONE None None None),
     (205, move_entry T_ROCK Cat_PHYSICAL 30 (Some 90) 20 0 MT_NORMAL Tag_DAMAGE None None None),
     (206, move_entry T_NORMAL Cat_PHYSICAL 40 (Some 100) 40 0 MT_NORMAL Tag_DAMAGE None None None),
     (207, move_entry T_NORMAL Cat_STATUS 0 (Some 90) 15 0 MT_NORMAL Tag_SETUP None None None),
     (208, move_entry T_NORMAL Cat_STATUS 0 None 5 0 MT_SELF Tag_RECOVERY None None None),
     (209, move_entry T_ELECTRIC Cat_PHYSICAL 65 (Some 100) 20 0 MT_NORMAL Tag_DAMAGE (Some (secondary 30 (Some St_PARALYSIS) False [] None)) None None),
     (210, move_entry T_BUG Cat_PHYSICAL 40 (Some 95) 20 0 MT_NORMAL Tag_DAMAGE None None None),
     (211, move_entry T_STEEL Cat_PHYSICAL 70 (Some 100) 25 0 MT_NORMAL Tag_DAMAGE (Some (secondary 10 None False [(1, 1, True)] None)) None None),
     (212, move_entry T_NORMAL Cat_STATUS 0 None 5 0 MT_NORMAL Tag_NONE None None None),
     (213, move_entry T_NORMAL Cat_STATUS 0 (Some 100) 15 0 MT_NORMAL Tag_NONE None None None),
     (214, move_entry T_NORMAL Cat_STATUS 0 None 10 0 MT_SELF Tag_NONE None None None),
     (215, move_entry T_NORMAL Cat_STATUS 0 None 5 0 MT_ALLY_SIDE Tag_NONE None None None),
     (216, move_entry T_NORMAL Cat_PHYSICAL 102 (Some 100) 20 0 MT_NORMAL Tag_DAMAGE None None None),
     (217, move_entry T_NORMAL Cat_PHYSICAL 0 (Some 90) 15 0 MT_NORMAL Tag_NONE None None None),
     (218, move_entry T_NORMAL Cat_PHYSICAL 102 (Some 100) 20 0 MT_NORMAL Tag_DAMAGE None None None),
     (219, move_entry T_NORMAL Cat_STATUS 0 None 25 0 MT_NORMAL Tag_NONE None None None),
     (220, move_entry T_NORMAL Cat_STATUS 0 None 20 0 MT_NORMAL Tag_NONE None None None),
     (221, move_entry T_FIRE Cat_PHYSICAL 100 (Some 100) 5 0 MT_NORMAL Tag_DAMAGE (Some (secondary 50 (Some St_BURN) False [] None)) None None),
     (222, move_entry T_GROUND Cat_PHYSICAL 0 (Some 100) 30 0 MT_ALL_ADJACENT Tag_NONE None None None),
     (223, move_entry T_FIGHTING Cat_PHYSICAL 100 (Some 50) 5 0 MT_NORMAL (Tag_DAMAGE OR Tag_PUNCHING) (Some (secondary 100 None False [] (Some (''confused'')))) None None),
     (224, move_entry T_BUG Cat_PHYSICAL 120 (Some 90) 10 0 MT_NORMAL Tag_DAMAGE None None None),
     (225, move_entry T_DRAGON Cat_SPECIAL 60 (Some 100) 20 0 MT_NORMAL Tag_DAMAGE (Some (secondary 30 (Some St_PARALYSIS) False [] None)) None None),
     (226, move_entry T_NORMAL Cat_STATUS 0 None 40 0 MT_SELF Tag_PIVOT None None None),
     (227, move_entry T_NORMAL Cat_STATUS 0 (Some 100) 5 0 MT_NORMAL Tag_NONE None None None),
     (228, move_entry T_DARK Cat_PHYSICAL 40 (Some 100) 20 0 MT_NORMAL Tag_DAMAGE None None None),
     (229, (move_entry T_NORMAL Cat_PHYSICAL 50 (Some 100) 40 0 MT_NORMAL Tag_DAMAGE None None None)\<lparr>md_self_stat_changes := [(4, 1)]\<rparr>),
     (230, move_entry T_NORMAL Cat_STATUS 0 (Some 100) 20 0 MT_ALL_ADJACENT_FOES Tag_NONE None None None),
     (231, move_entry T_STEEL Cat_PHYSICAL 100 (Some 85) 15 0 MT_NORMAL Tag_DAMAGE (Some (secondary 30 None False [(1, - 1, False)] None)) None None),
     (232, move_entry T_STEEL Cat_PHYSICAL 50 (Some 100) 35 0 MT_NORMAL Tag_DAMAGE (Some (secondary 10 None False [(0, 1, True)] None)) None None),
     (233, move_entry T_FIGHTING Cat_PHYSICAL 70 None 10 (- 1) MT_NORMAL Tag_DAMAGE None None None),
     (234, move_entry T_NORMAL Cat_STATUS 0 None 5 0 MT_SELF Tag_RECOVERY None None None),
     (235, move_entry T_GRASS Cat_STATUS 0 None 5 0 MT_SELF Tag_RECOVERY None None None),
     (236, move_entry T_FAIRY Cat_STATUS 0 None 5 0 MT_SELF Tag_RECOVERY None None None),
     (237, move_entry T_NORMAL Cat_SPECIAL 60 (Some 100) 15 0 MT_NORMAL Tag_DAMAGE None None None),
     (10001, move_entry T_BUG Cat_SPECIAL 60 (Some 100) 15 0 MT_NORMAL Tag_DAMAGE None None None),
     (10002, move_entry T_DARK Cat_SPECIAL 60 (Some 100) 15 0 MT_NORMAL Tag_DAMAGE None None None),
     (10003, move_entry T_DRAGON Cat_SPECIAL 60 (Some 100) 15 0 MT_NORMAL Tag_DAMAGE None None None),
     (10004, move_entry T_ELECTRIC Cat_SPECIAL 60 (Some 100) 15 0 MT_NORMAL Tag_DAMAGE None None None),
     (10005, move_entry T_FIGHTING Cat_SPECIAL 60 (Some 100) 15 0 MT_NORMAL Tag_DAMAGE None None None),
     (10006, move_entry T_FIRE Cat_SPECIAL 60 (Some 100) 15 0 MT_NORMAL Tag_DAMAGE None None None),
     (10007, move_entry T_FLYING Cat_SPECIAL 60 (Some 100) 15 0 MT_NORMAL Tag_DAMAGE None None None),
     (10008, move_entry T_GHOST Cat_SPECIAL 60 (Some 100) 15 0 MT_NORMAL Tag_DAMAGE None None None),
     (10009, move_entry T_GRASS Cat_SPECIAL 60 (Some 100) 15 0 MT_NORMAL Tag_DAMAGE None None None),
     (10010, move_entry T_GROUND Cat_SPECIAL 60 (Some 100) 15 0 MT_NORMAL Tag_DAMAGE None None None),
     (10011, move_entry T_ICE Cat_SPECIAL 60 (Some 100) 15 0 MT_NORMAL Tag_DAMAGE None None None),
     (10012, move_entry T_POISON Cat_SPECIAL 60 (Some 100) 15 0 MT_NORMAL Tag_DAMAGE None None None),
     (10013, move_entry T_PSYCHIC Cat_SPECIAL 60 (Some 100) 15 0 MT_NORMAL Tag_DAMAGE None None None),
     (10014, move_entry T_ROCK Cat_SPECIAL 60 (Some 100) 15 0 MT_NORMAL Tag_DAMAGE None None None),
     (10015, move_entry T_STEEL Cat_SPECIAL 60 (Some 100) 15 0 MT_NORMAL Tag_DAMAGE None None None),
     (10016, move_entry T_WATER Cat_SPECIAL 60 (Some 100) 15 0 MT_NORMAL Tag_DAMAGE None None None),
     (238, (move_entry T_FIGHTING Cat_PHYSICAL 100 (Some 90) 5 0 MT_NORMAL Tag_DAMAGE None None None)\<lparr>md_crit_boost := 1\<rparr>),
     (239, move_entry T_DRAGON Cat_SPECIAL 40 (Some 100) 20 0 MT_ALL_ADJACENT_FOES Tag_DAMAGE (Some (secondary 20 None True [] None)) None None),
     (240, move_entry T_WATER Cat_STATUS 0 None 5 0 MT_ALL Tag_NONE None None None),
     (241, move_entry T_FIRE Cat_STATUS 0 None 5 0 MT_ALL Tag_NONE None None None),
     (242, move_entry T_DARK Cat_PHYSICAL 80 (Some 100) 15 0 MT_NORMAL Tag_DAMAGE (Some (secondary 20 None False [(1, - 1, False)] None)) None None),
     (243, move_entry T_PSYCHIC Cat_SPECIAL 0 (Some 100) 20 (- 5) MT_NORMAL Tag_NONE None None None),
     (244, move_entry T_NORMAL Cat_STATUS 0 None 10 0 MT_NORMAL Tag_NONE None None None),
     (245, move_entry T_NORMAL Cat_PHYSICAL 80 (Some 100) 5 2 MT_NORMAL Tag_DAMAGE None None None),
     (246, move_entry T_ROCK Cat_SPECIAL 60 (Some 100) 5 0 MT_NORMAL Tag_DAMAGE (Some (secondary 10 None False [(0, 1, True), (1, 1, True), (2, 1, True), (3, 1, True), (4, 1, True)] None)) None None),
     (247, move_entry T_GHOST Cat_SPECIAL 80 (Some 100) 15 0 MT_NORMAL Tag_DAMAGE (Some (secondary 20 None False [(3, - 1, False)] None)) None None),
     (248, move_entry T_PSYCHIC Cat_SPECIAL 120 (Some 100) 10 0 MT_NORMAL Tag_DAMAGE None None None),
     (249, move_entry T_FIGHTING Cat_PHYSICAL 40 (Some 100) 15 0 MT_NORMAL Tag_DAMAGE (Some (secondary 100 None False [(1, - 1, False)] None)) None None),
     (250, move_entry T_WATER Cat_SPECIAL 35 (Some 100) 15 0 MT_NORMAL Tag_DAMAGE None None None),
     (251, move_entry T_DARK Cat_PHYSICAL 0 (Some 100) 10 0 MT_NORMAL Tag_NONE None None None),
     (252, move_entry T_NORMAL Cat_PHYSICAL 40 (Some 100) 5 3 MT_NORMAL Tag_DAMAGE (Some (secondary 100 None True [] None)) None None),
     (253, move_entry T_NORMAL Cat_SPECIAL 90 (Some 100) 10 0 MT_RANDOM_NORMAL Tag_DAMAGE None None None),
     (254, move_entry T_NORMAL Cat_STATUS 0 None 20 0 MT_SELF Tag_SETUP None None None),
     (255, move_entry T_NORMAL Cat_SPECIAL 0 (Some 100) 10 0 MT_NORMAL Tag_NONE None None None),
     (256, move_entry T_NORMAL Cat_STATUS 0 None 10 0 MT_SELF Tag_RECOVERY None None None),
     (257, move_entry T_FIRE Cat_SPECIAL 95 (Some 100) 10 0 MT_ALL_ADJACENT_FOES Tag_DAMAGE (Some (secondary 10 (Some St_BURN) False [] None)) None None),
     (258, move_entry T_ICE Cat_STATUS 0 None 10 0 MT_ALL Tag_NONE None None None),
     (259, move_entry T_DARK Cat_STATUS 0 (Some 100) 15 0 MT_NORMAL Tag_NONE None None None),
     (260, move_entry T_DARK Cat_STATUS 0 (Some 100) 15 0 MT_NORMAL Tag_SETUP None None None),
     (261, move_entry T_FIRE Cat_STATUS 0 (Some 85) 15 0 MT_NORMAL Tag_STATUS None None None),
     (262, move_entry T_DARK Cat_STATUS 0 (Some 100) 10 0 MT_NORMAL Tag_NONE None None None),
     (263, move_entry T_NORMAL Cat_PHYSICAL 70 (Some 100) 20 0 MT_NORMAL Tag_DAMAGE None None None),
     (264, move_entry T_FIGHTING Cat_PHYSICAL 150 (Some 100) 20 (- 3) MT_NORMAL (Tag_DAMAGE OR Tag_PUNCHING) None None None),
     (265, move_entry T_NORMAL Cat_PHYSICAL 70 (Some 100) 10 0 MT_NORMAL Tag_DAMAGE None None None),
     (266, move_entry T_NORMAL Cat_STATUS 0 None 20 2 MT_SELF Tag_NONE None None None),
     (267, move_entry T_NORMAL Cat_STATUS 0 None 20 0 MT_NORMAL Tag_NONE None None None),
     (269, move_entry T_DARK Cat_STATUS 0 (Some 100) 20 0 MT_NORMAL Tag_NONE None None None),
     (270, move_entry T_NORMAL Cat_STATUS 0 None 20 5 MT_ALLY Tag_NONE None None None),
     (271, move_entry T_PSYCHIC Cat_STATUS 0 (Some 100) 10 0 MT_NORMAL Tag_NONE None None None),
     (272, move_entry T_PSYCHIC Cat_STATUS 0 None 10 0 MT_NORMAL Tag_NONE None None None),
     (273, move_entry T_NORMAL Cat_STATUS 0 None 10 0 MT_SELF Tag_RECOVERY None None None),
     (274, move_entry T_NORMAL Cat_STATUS 0 None 20 0 MT_SELF Tag_NONE None None None),
     (275, move_entry T_GRASS Cat_STATUS 0 None 20 0 MT_SELF Tag_NONE None None None),
     (276, (move_entry T_FIGHTING Cat_PHYSICAL 120 (Some 100) 5 0 MT_NORMAL Tag_DAMAGE None None None)\<lparr>md_self_stat_changes := [(0, - 1), (1, - 1)]\<rparr>),
     (277, move_entry T_PSYCHIC Cat_STATUS 0 None 15 4 MT_SELF Tag_NONE None None None),
     (279, move_entry T_FIGHTING Cat_PHYSICAL 60 (Some 100) 10 (- 4) MT_NORMAL Tag_DAMAGE None None None),
     (280, move_entry T_FIGHTING Cat_PHYSICAL 75 (Some 100) 15 0 MT_NORMAL Tag_DAMAGE None None None),
     (281, move_entry T_NORMAL Cat_STATUS 0 None 10 0 MT_NORMAL Tag_STATUS None None None),
     (282, move_entry T_DARK Cat_PHYSICAL 65 (Some 100) 20 0 MT_NORMAL Tag_DAMAGE None None None),
     (283, move_entry T_NORMAL Cat_PHYSICAL 0 (Some 100) 5 0 MT_NORMAL Tag_NONE None None None),
     (284, move_entry T_FIRE Cat_SPECIAL 150 (Some 100) 5 0 MT_ALL_ADJACENT_FOES Tag_DAMAGE None None None),
     (285, move_entry T_PSYCHIC Cat_STATUS 0 None 10 0 MT_NORMAL Tag_NONE None None None),
     (286, move_entry T_PSYCHIC Cat_STATUS 0 None 10 0 MT_SELF Tag_NONE None None None)]"

definition MOVE_ROWS_4 :: "(move \<times> move_data) list" where
  "MOVE_ROWS_4 = [
     (289, move_entry T_DARK Cat_STATUS 0 None 10 4 MT_SELF Tag_NONE None None None),
     (290, move_entry T_NORMAL Cat_PHYSICAL 70 (Some 100) 20 0 MT_NORMAL Tag_DAMAGE (Some (secondary 30 (Some St_PARALYSIS) False [] None)) None None),
     (291, move_entry T_WATER Cat_PHYSICAL 80 (Some 100) 10 0 MT_NORMAL Tag_DAMAGE None None None),
     (292, (move_entry T_FIGHTING Cat_PHYSICAL 15 (Some 100) 20 0 MT_NORMAL Tag_DAMAGE None None None)\<lparr>md_min_hits := 2, md_max_hits := 5\<rparr>),
     (294, move_entry T_BUG Cat_STATUS 0 None 20 0 MT_SELF Tag_SETUP None None None),
     (295, move_entry T_PSYCHIC Cat_SPECIAL 95 (Some 100) 5 0 MT_NORMAL Tag_DAMAGE (Some (secondary 50 None False [(3, - 1, False)] None)) None None),
     (296, move_entry T_PSYCHIC Cat_SPECIAL 95 (Some 100) 5 0 MT_NORMAL Tag_DAMAGE (Some (secondary 50 None False [(2, - 1, False)] None)) None None),
     (297, move_entry T_FLYING Cat_STATUS 0 (Some 100) 5 0 MT_NORMAL Tag_NONE None None None),
     (298, move_entry T_NORMAL Cat_STATUS 0 (Some 100) 20 0 MT_ALL_ADJACENT Tag_NONE None None None),
     (299, (move_entry T_FIRE Cat_PHYSICAL 85 (Some 100) 10 0 MT_NORMAL Tag_DAMAGE (Some (secondary 10 (Some St_BURN) False [] None)) None None)\<lparr>md_crit_boost := 1\<rparr>),
     (301, move_entry T_ICE Cat_PHYSICAL 30 (Some 90) 20 0 MT_NORMAL Tag_DAMAGE None None None),
     (302, move_entry T_GRASS Cat_PHYSICAL 60 (Some 100) 15 0 MT_NORMAL Tag_DAMAGE (Some (secondary 30 None True [] None)) None None),
     (303, move_entry T_NORMAL Cat_STATUS 0 None 5 0 MT_SELF Tag_RECOVERY None None None),
     (304, move_entry T_NORMAL Cat_SPECIAL 90 (Some 100) 10 0 MT_ALL_ADJACENT_FOES Tag_DAMAGE None None None),
     (305, move_entry T_POISON Cat_PHYSICAL 50 (Some 100) 15 0 MT_NORMAL Tag_DAMAGE (Some (secondary 50 (Some St_TOXIC) False [] None)) None None),
     (306, move_entry T_NORMAL Cat_PHYSICAL 75 (Some 95) 10 0 MT_NORMAL Tag_DAMAGE (Some (secondary 50 None False [(1, - 1, False)] None)) None None),
     (307, move_entry T_FIRE Cat_SPECIAL 150 (Some 90) 5 0 MT_NORMAL Tag_DAMAGE None None None),
     (308, move_entry T_WATER Cat_SPECIAL 150 (Some 100) 5 0 MT_NORMAL Tag_DAMAGE None None None),
     (309, move_entry T_STEEL Cat_PHYSICAL 90 (Some 100) 10 0 MT_NORMAL Tag_DAMAGE (Some (secondary 20 None False [(0, 1, True)] None)) None None),
     (310, move_entry T_GHOST Cat_PHYSICAL 40 (Some 100) 15 0 MT_NORMAL Tag_DAMAGE (Some (secondary 30 None True [] None)) None None),
     (311, move_entry T_NORMAL Cat_SPECIAL 50 (Some 100) 10 0 MT_NORMAL Tag_DAMAGE None None None),
     (312, move_entry T_GRASS Cat_STATUS 0 None 5 0 MT_ALLY_SIDE Tag_NONE None None None),
     (313, move_entry T_DARK Cat_STATUS 0 (Some 100) 5 0 MT_NORMAL Tag_NONE None None None),
     (314, (move_entry T_FLYING Cat_SPECIAL 60 (Some 100) 25 0 MT_ALL_ADJACENT_FOES Tag_DAMAGE None None None)\<lparr>md_crit_boost := 1\<rparr>),
     (315, (move_entry T_FIRE Cat_SPECIAL 130 (Some 100) 5 0 MT_NORMAL Tag_DAMAGE None None None)\<lparr>md_self_stat_changes := [(2, - 2)]\<rparr>),
     (316, move_entry T_NORMAL Cat_STATUS 0 None 40 0 MT_NORMAL Tag_NONE None None None),
     (317, move_entry T_ROCK Cat_PHYSICAL 60 (Some 95) 15 0 MT_NORMAL Tag_DAMAGE (Some (secondary 100 None False [(4, - 1, False)] None)) None None),
     (318, move_entry T_BUG Cat_SPECIAL 60 (Some 100) 5 0 MT_NORMAL Tag_DAMAGE (Some (secondary 10 None False [(0, 1, True), (1, 1, True), (2, 1, True), (3, 1, True), (4, 1, True)] None)) None None),
     (319, move_entry T_STEEL Cat_STATUS 0 (Some 100) 5 0 MT_NORMAL Tag_NONE None None None),
     (320, move_entry T_GRASS Cat_STATUS 0 (Some 70) 15 0 MT_NORMAL Tag_NONE None None None),
     (321, move_entry T_NORMAL Cat_STATUS 0 (Some 100) 10 0 MT_NORMAL Tag_NONE None None None),
     (322, move_entry T_PSYCHIC Cat_STATUS 0 None 20 0 MT_SELF Tag_SETUP None None None),
     (323, move_entry T_WATER Cat_SPECIAL 150 (Some 100) 5 0 MT_ALL_ADJACENT_FOES Tag_DAMAGE None None None),
     (324, move_entry T_BUG Cat_SPECIAL 75 (Some 100) 15 0 MT_NORMAL Tag_DAMAGE (Some (secondary 10 None False [] (Some (''confused'')))) None None),
     (325, move_entry T_GHOST Cat_PHYSICAL 60 None 20 0 MT_NORMAL (Tag_DAMAGE OR Tag_PUNCHING) None None None),
     (326, move_entry T_PSYCHIC Cat_SPECIAL 80 (Some 100) 20 0 MT_NORMAL Tag_DAMAGE (Some (secondary 10 None True [] None)) None None),
     (327, move_entry T_FIGHTING Cat_PHYSICAL 85 (Some 100) 15 0 MT_NORMAL (Tag_DAMAGE OR Tag_PUNCHING) None None None),
     (328, move_entry T_GROUND Cat_PHYSICAL 35 (Some 100) 15 0 MT_NORMAL Tag_DAMAGE None None None),
     (329, move_entry T_ICE Cat_SPECIAL 0 (Some 30) 5 0 MT_NORMAL Tag_NONE None None None),
     (330, move_entry T_WATER Cat_SPECIAL 90 (Some 95) 10 0 MT_ALL_ADJACENT_FOES Tag_DAMAGE (Some (secondary 30 None False [(5, - 1, False)] None)) None None),
     (331, (move_entry T_GRASS Cat_PHYSICAL 25 (Some 100) 30 0 MT_NORMAL Tag_DAMAGE None None None)\<lparr>md_min_hits := 2, md_max_hits := 5\<rparr>),
     (332, move_entry T_FLYING Cat_PHYSICAL 60 None 20 0 MT_ANY Tag_DAMAGE None None None),
     (333, (move_entry T_ICE Cat_PHYSICAL 25 (Some 100) 30 0 MT_NORMAL Tag_DAMAGE None None None)\<lparr>md_min_hits := 2, md_max_hits := 5\<rparr>),
     (334, move_entry T_STEEL Cat_STATUS 0 None 15 0 MT_SELF Tag_SETUP None None None),
     (335, move_entry T_NORMAL Cat_STATUS 0 None 5 0 MT_NORMAL Tag_NONE None None None),
     (336, move_entry T_NORMAL Cat_STATUS 0 None 40 0 MT_ALLY_SIDE Tag_SETUP None None None),
     (337, move_entry T_DRAGON Cat_PHYSICAL 80 (Some 100) 15 0 MT_NORMAL Tag_DAMAGE None None None),
     (338, move_entry T_GRASS Cat_SPECIAL 150 (Some 100) 5 0 MT_NORMAL Tag_DAMAGE None None None),
     (339, move_entry T_FIGHTING Cat_STATUS 0 None 20 0 MT_SELF Tag_SETUP None None None),
     (340, move_entry T_FLYING Cat_PHYSICAL 85 (Some 95) 5 0 MT_ANY Tag_DAMAGE (Some (secondary 30 (Some St_PARALYSIS) False [] None)) None None),
     (341, move_entry T_GROUND Cat_SPECIAL 55 (Some 95) 15 0 MT_NORMAL Tag_DAMAGE (Some (secondary 100 None False [(4, - 1, False)] None)) None None),
     (342, (move_entry T_POISON Cat_PHYSICAL 50 (Some 100) 25 0 MT_NORMAL Tag_DAMAGE (Some (secondary 10 (Some St_POISON) False [] None)) None None)\<lparr>md_crit_boost := 1\<rparr>),
     (343, move_entry T_FAIRY Cat_PHYSICAL 60 (Some 100) 25 0 MT_NORMAL Tag_DAMAGE None None None),
     (344, move_entry T_ELECTRIC Cat_PHYSICAL 120 (Some 100) 15 0 MT_NORMAL Tag_DAMAGE (Some (secondary 10 (Some St_PARALYSIS) False [] None)) None (Some (33, 100))),
     (345, move_entry T_GRASS Cat_SPECIAL 60 None 20 0 MT_NORMAL Tag_DAMAGE None None None),
     (347, move_entry T_PSYCHIC Cat_STATUS 0 None 20 0 MT_SELF Tag_SETUP None None None),
     (348, (move_entry T_GRASS Cat_PHYSICAL 90 (Some 100) 15 0 MT_NORMAL Tag_DAMAGE None None None)\<lparr>md_crit_boost := 1\<rparr>),
     (349, move_entry T_DRAGON Cat_STATUS 0 None 20 0 MT_SELF Tag_SETUP None None None),
     (350, (move_entry T_ROCK Cat_PHYSICAL 25 (Some 100) 10 0 MT_NORMAL Tag_DAMAGE None None None)\<lparr>md_min_hits := 2, md_max_hits := 5\<rparr>),
     (351, move_entry T_ELECTRIC Cat_SPECIAL 60 None 20 0 MT_NORMAL Tag_DAMAGE None None None),
     (352, move_entry T_WATER Cat_SPECIAL 60 (Some 100) 20 0 MT_ANY Tag_DAMAGE (Some (secondary 20 None False [] (Some (''confused'')))) None None),
     (353, move_entry T_STEEL Cat_SPECIAL 140 (Some 100) 5 0 MT_NORMAL Tag_DAMAGE None None None),
     (354, (move_entry T_PSYCHIC Cat_SPECIAL 140 (Some 100) 5 0 MT_NORMAL Tag_DAMAGE None None None)\<lparr>md_self_stat_changes := [(2, - 2)]\<rparr>),
     (355, move_entry T_FLYING Cat_STATUS 0 None 5 0 MT_SELF Tag_RECOVERY None None None),
     (356, move_entry T_PSYCHIC Cat_STATUS 0 None 5 0 MT_ALL Tag_NONE None None None),
     (358, move_entry T_FIGHTING Cat_PHYSICAL 70 (Some 100) 10 0 MT_NORMAL Tag_DAMAGE None None None),
     (359, (move_entry T_FIGHTING Cat_PHYSICAL 100 (Some 100) 10 0 MT_NORMAL (Tag_DAMAGE OR Tag_PUNCHING) None None None)\<lparr>md_self_stat_changes := [(4, - 1)]\<rparr>),
     (360, move_entry T_STEEL Cat_PHYSICAL 0 (Some 100) 5 0 MT_NORMAL Tag_NONE None None None),
     (361, move_entry T_PSYCHIC Cat_STATUS 0 None 10 0 MT_SELF Tag_RECOVERY None None None),
     (362, move_entry T_WATER Cat_SPECIAL 65 (Some 100) 10 0 MT_NORMAL Tag_DAMAGE None None None),
     (363, move_entry T_NORMAL Cat_PHYSICAL 0 (Some 100) 15 0 MT_NORMAL Tag_NONE None None None),
     (364, move_entry T_NORMAL Cat_PHYSICAL 30 (Some 100) 10 2 MT_NORMAL Tag_DAMAGE None None None),
     (365, move_entry T_FLYING Cat_PHYSICAL 60 (Some 100) 20 0 MT_ANY Tag_DAMAGE None None None),
     (366, move_entry T_FLYING Cat_STATUS 0 None 15 0 MT_NORMAL Tag_NONE None None None),
     (367, move_entry T_NORMAL Cat_STATUS 0 None 30 0 MT_SELF Tag_SETUP None None None),
     (368, move_entry T_STEEL Cat_PHYSICAL 0 (Some 100) 10 0 MT_NORMAL Tag_NONE None None None),
     (369, move_entry T_BUG Cat_PHYSICAL 70 (Some 100) 20 0 MT_NORMAL (Tag_DAMAGE OR Tag_PIVOT) None None None),
     (370, (move_entry T_FIGHTING Cat_PHYSICAL 120 (Some 100) 5 0 MT_NORMAL Tag_DAMAGE None None None)\<lparr>md_self_stat_changes := [(1, - 1), (3, - 1)]\<rparr>),
     (371, move_entry T_DARK Cat_PHYSICAL 50 (Some 100) 10 0 MT_NORMAL Tag_DAMAGE None None None),
     (372, move_entry T_DARK Cat_PHYSICAL 60 (Some 100) 10 0 MT_NORMAL Tag_DAMAGE None None None),
     (373, move_entry T_DARK Cat_STATUS 0 (Some 100) 15 0 MT_NORMAL Tag_NONE None None None),
     (374, move_entry T_DARK Cat_PHYSICAL 0 (Some 100) 10 0 MT_NORMAL Tag_NONE None None None),
     (376, move_entry T_NORMAL Cat_SPECIAL 0 None 5 0 MT_NORMAL Tag_NONE None None None),
     (378, move_entry T_NORMAL Cat_SPECIAL 0 (Some 100) 5 0 MT_NORMAL Tag_NONE None None None),
     (379, move_entry T_PSYCHIC Cat_STATUS 0 None 10 0 MT_SELF Tag_NONE None None None),
     (381, move_entry T_NORMAL Cat_STATUS 0 None 30 0 MT_NORMAL Tag_NONE None None None),
     (382, move_entry T_NORMAL Cat_STATUS 0 None 20 0 MT_NORMAL Tag_NONE None None None),
     (383, move_entry T_NORMAL Cat_STATUS 0 None 20 0 MT_SELF Tag_NONE None None None),
     (386, move_entry T_DARK Cat_PHYSICAL 0 (Some 100) 5 0 MT_NORMAL Tag_NONE None None None),
     (387, move_entry T_NORMAL Cat_PHYSICAL 140 (Some 100) 5 0 MT_NORMAL Tag_DAMAGE None None None),
     (389, move_entry T_DARK Cat_PHYSICAL 70 (Some 100) 5 1 MT_NORMAL (Tag_DAMAGE OR Tag_PUNCHING) None None None)]"

definition MOVE_ROWS_5 :: "(move \<times> move_data) list" where
  "MOVE_ROWS_5 = [
     (390, move_entry T_POISON Cat_STATUS 0 None 20 0 MT_FOE_SIDE Tag_HAZARD None None None),
     (392, move_entry T_WATER Cat_STATUS 0 None 20 0 MT_SELF Tag_NONE None None None),
     (393, move_entry T_ELECTRIC Cat_STATUS 0 None 10 0 MT_SELF Tag_NONE None None None),
     (394, move_entry T_FIRE Cat_PHYSICAL 120 (Some 100) 15 0 MT_NORMAL Tag_DAMAGE (Some (secondary 10 (Some St_BURN) False [] None)) None (Some (33, 100))),
     (395, move_entry T_FIGHTING Cat_PHYSICAL 60 (Some 100) 10 0 MT_NORMAL Tag_DAMAGE (Some (secondary 30 (Some St_PARALYSIS) False [] None)) None None),
     (396, move_entry T_FIGHTING Cat_SPECIAL 80 None 20 0 MT_ANY Tag_DAMAGE None None None),
     (397, move_entry T_ROCK Cat_STATUS 0 None 20 0 MT_SELF Tag_SETUP None None None),
     (398, move_entry T_POISON Cat_PHYSICAL 80 (Some 100) 20 0 MT_NORMAL Tag_DAMAGE (Some (secondary 30 (Some St_POISON) False [] None)) None None),
     (399, move_entry T_DARK Cat_SPECIAL 80 (Some 100) 15 0 MT_ANY Tag_DAMAGE (Some (secondary 20 None True [] None)) None None),
     (400, (move_entry T_DARK Cat_PHYSICAL 70 (Some 100) 15 0 MT_NORMAL Tag_DAMAGE None None None)\<lparr>md_crit_boost := 1\<rparr>),
     (401, move_entry T_WATER Cat_PHYSICAL 90 (Some 95) 10 0 MT_NORMAL Tag_DAMAGE None None None),
     (402, move_entry T_GRASS Cat_PHYSICAL 80 (Some 100) 15 0 MT_NORMAL Tag_DAMAGE None None None),
     (403, move_entry T_FLYING Cat_SPECIAL 75 (Some 100) 15 0 MT_ANY Tag_DAMAGE (Some (secondary 30 None True [] None)) None None),
     (404, move_entry T_BUG Cat_PHYSICAL 80 (Some 100) 15 0 MT_NORMAL Tag_DAMAGE None None None),
     (405, move_entry T_BUG Cat_SPECIAL 90 (Some 100) 10 0 MT_NORMAL Tag_DAMAGE (Some (secondary 10 None False [(3, - 1, False)] None)) None None),
     (406, move_entry T_DRAGON Cat_SPECIAL 85 (Some 100) 10 0 MT_ANY Tag_DAMAGE None None None),
     (407, move_entry T_DRAGON Cat_PHYSICAL 100 (Some 85) 10 0 MT_NORMAL Tag_DAMAGE (Some (secondary 20 None True [] None)) None None),
     (408, move_entry T_ROCK Cat_SPECIAL 80 (Some 100) 20 0 MT_NORMAL Tag_DAMAGE None None None),
     (409, move_entry T_FIGHTING Cat_PHYSICAL 75 (Some 100) 10 0 MT_NORMAL (Tag_DAMAGE OR Tag_PUNCHING) None (Some (1, 2)) None),
     (410, move_entry T_FIGHTING Cat_SPECIAL 40 (Some 100) 30 1 MT_NORMAL Tag_DAMAGE None None None),
     (411, move_entry T_FIGHTING Cat_SPECIAL 120 (Some 80) 5 0 MT_NORMAL Tag_DAMAGE (Some (secondary 10 None False [(3, - 1, False)] None)) None None),
     (412, move_entry T_GRASS Cat_SPECIAL 90 (Some 100) 10 0 MT_NORMAL Tag_DAMAGE (Some (secondary 10 None False [(3, - 1, False)] None)) None None),
     (413, move_entry T_FLYING Cat_PHYSICAL 120 (Some 100) 15 0 MT_ANY Tag_DAMAGE None None (Some (33, 100))),
     (414, move_entry T_GROUND Cat_SPECIAL 90 (Some 100) 10 0 MT_NORMAL Tag_DAMAGE (Some (secondary 10 None False [(3, - 1, False)] None)) None None),
     (415, move_entry T_DARK Cat_STATUS 0 (Some 100) 10 0 MT_NORMAL Tag_NONE None None None),
     (416, move_entry T_NORMAL Cat_PHYSICAL 150 (Some 100) 5 0 MT_NORMAL Tag_DAMAGE None None None),
     (417, move_entry T_DARK Cat_STATUS 0 None 20 0 MT_SELF Tag_SETUP None None None),
     (418, move_entry T_STEEL Cat_PHYSICAL 40 (Some 100) 30 1 MT_NORMAL (Tag_DAMAGE OR Tag_PUNCHING) None None None),
     (419, move_entry T_ICE Cat_PHYSICAL 60 (Some 100) 10 (- 4) MT_NORMAL Tag_DAMAGE None None None),
     (420, move_entry T_ICE Cat_PHYSICAL 40 (Some 100) 30 1 MT_NORMAL Tag_DAMAGE None None None),
     (421, (move_entry T_GHOST Cat_PHYSICAL 70 (Some 100) 15 0 MT_NORMAL Tag_DAMAGE None None None)\<lparr>md_crit_boost := 1\<rparr>),
     (422, (move_entry T_ELECTRIC Cat_PHYSICAL 65 (Some 100) 15 0 MT_NORMAL Tag_DAMAGE (Some (secondary 10 (Some St_PARALYSIS) False [] None)) None None)\<lparr>md_secondary2 := (Some (secondary 10 None True [] None))\<rparr>),
     (423, (move_entry T_ICE Cat_PHYSICAL 65 (Some 100) 15 0 MT_NORMAL Tag_DAMAGE (Some (secondary 10 (Some St_FREEZE) False [] None)) None None)\<lparr>md_secondary2 := (Some (secondary 10 None True [] None))\<rparr>),
     (424, (move_entry T_FIRE Cat_PHYSICAL 65 (Some 100) 15 0 MT_NORMAL Tag_DAMAGE (Some (secondary 10 (Some St_BURN) False [] None)) None None)\<lparr>md_secondary2 := (Some (secondary 10 None True [] None))\<rparr>),
     (425, move_entry T_GHOST Cat_PHYSICAL 40 (Some 100) 30 1 MT_NORMAL Tag_DAMAGE None None None),
     (426, move_entry T_GROUND Cat_SPECIAL 65 (Some 100) 10 0 MT_NORMAL Tag_DAMAGE (Some (secondary 20 None False [] None)) None None),
     (427, (move_entry T_PSYCHIC Cat_PHYSICAL 70 (Some 100) 20 0 MT_NORMAL Tag_DAMAGE None None None)\<lparr>md_crit_boost := 1\<rparr>),
     (428, move_entry T_PSYCHIC Cat_PHYSICAL 80 (Some 100) 15 0 MT_NORMAL Tag_DAMAGE (Some (secondary 20 None True [] None)) None None),
     (429, move_entry T_STEEL Cat_SPECIAL 65 (Some 100) 10 0 MT_NORMAL Tag_DAMAGE (Some (secondary 30 None False [(5, - 1, False)] None)) None None),
     (430, move_entry T_STEEL Cat_SPECIAL 80 (Some 100) 10 0 MT_NORMAL Tag_DAMAGE (Some (secondary 10 None False [(3, - 1, False)] None)) None None),
     (431, move_entry T_NORMAL Cat_PHYSICAL 90 (Some 95) 20 0 MT_NORMAL Tag_DAMAGE (Some (secondary 20 None False [] None)) None None),
     (432, move_entry T_FLYING Cat_STATUS 0 None 15 0 MT_NORMAL Tag_NONE None None None),
     (433, move_entry T_PSYCHIC Cat_STATUS 0 None 5 (- 7) MT_ALL Tag_NONE None None None),
     (434, (move_entry T_DRAGON Cat_SPECIAL 130 (Some 100) 5 0 MT_NORMAL Tag_DAMAGE None None None)\<lparr>md_self_stat_changes := [(2, - 2)]\<rparr>),
     (435, move_entry T_ELECTRIC Cat_SPECIAL 80 (Some 100) 15 0 MT_ALL_ADJACENT Tag_DAMAGE (Some (secondary 30 (Some St_PARALYSIS) False [] None)) None None),
     (436, move_entry T_FIRE Cat_SPECIAL 80 (Some 100) 15 0 MT_ALL_ADJACENT Tag_DAMAGE (Some (secondary 30 (Some St_BURN) False [] None)) None None),
     (437, (move_entry T_GRASS Cat_SPECIAL 130 (Some 100) 5 0 MT_NORMAL Tag_DAMAGE None None None)\<lparr>md_self_stat_changes := [(2, - 2)]\<rparr>),
     (438, move_entry T_GRASS Cat_PHYSICAL 120 (Some 90) 10 0 MT_NORMAL Tag_DAMAGE None None None),
     (439, move_entry T_ROCK Cat_PHYSICAL 150 (Some 100) 5 0 MT_NORMAL Tag_DAMAGE None None None),
     (440, (move_entry T_POISON Cat_PHYSICAL 70 (Some 100) 20 0 MT_NORMAL Tag_DAMAGE (Some (secondary 10 (Some St_POISON) False [] None)) None None)\<lparr>md_crit_boost := 1\<rparr>),
     (441, move_entry T_POISON Cat_PHYSICAL 120 (Some 85) 5 0 MT_NORMAL Tag_DAMAGE (Some (secondary 30 (Some St_POISON) False [] None)) None None),
     (442, move_entry T_STEEL Cat_PHYSICAL 80 (Some 100) 15 0 MT_NORMAL Tag_DAMAGE (Some (secondary 30 None True [] None)) None None),
     (443, move_entry T_STEEL Cat_PHYSICAL 60 None 20 0 MT_NORMAL Tag_DAMAGE None None None),
     (444, (move_entry T_ROCK Cat_PHYSICAL 100 (Some 85) 5 0 MT_NORMAL Tag_DAMAGE None None None)\<lparr>md_crit_boost := 1\<rparr>),
     (445, move_entry T_NORMAL Cat_STATUS 0 (Some 100) 5 0 MT_ALL_ADJACENT_FOES Tag_NONE None None None),
     (446, move_entry T_ROCK Cat_STATUS 0 None 20 0 MT_FOE_SIDE Tag_HAZARD None None None),
     (447, move_entry T_GRASS Cat_SPECIAL 0 (Some 100) 20 0 MT_NORMAL Tag_NONE None None None),
     (448, move_entry T_FLYING Cat_SPECIAL 65 (Some 100) 20 0 MT_ANY Tag_DAMAGE (Some (secondary 100 None False [] (Some (''confused'')))) None None),
     (449, move_entry T_NORMAL Cat_SPECIAL 100 (Some 100) 10 0 MT_NORMAL Tag_DAMAGE None None None),
     (450, move_entry T_BUG Cat_PHYSICAL 60 (Some 100) 20 0 MT_NORMAL Tag_DAMAGE None None None),
     (451, move_entry T_ELECTRIC Cat_SPECIAL 40 (Some 100) 10 0 MT_NORMAL Tag_DAMAGE (Some (secondary 100 None False [(2, 1, True)] None)) None None),
     (452, move_entry T_GRASS Cat_PHYSICAL 120 (Some 100) 15 0 MT_NORMAL Tag_DAMAGE None None (Some (33, 100))),
     (453, move_entry T_WATER Cat_PHYSICAL 40 (Some 100) 20 1 MT_NORMAL Tag_DAMAGE None None None),
     (454, (move_entry T_BUG Cat_PHYSICAL 90 (Some 100) 15 0 MT_NORMAL Tag_DAMAGE None None None)\<lparr>md_crit_boost := 1\<rparr>),
     (455, move_entry T_BUG Cat_STATUS 0 None 10 0 MT_SELF Tag_SETUP None None None),
     (456, move_entry T_BUG Cat_STATUS 0 None 10 0 MT_SELF Tag_RECOVERY None None None),
     (457, move_entry T_ROCK Cat_PHYSICAL 150 (Some 85) 5 0 MT_NORMAL Tag_DAMAGE None None (Some (1, 2))),
     (458, (move_entry T_NORMAL Cat_PHYSICAL 35 (Some 100) 10 0 MT_NORMAL Tag_DAMAGE None None None)\<lparr>md_min_hits := 2, md_max_hits := 2\<rparr>),
     (459, move_entry T_DRAGON Cat_SPECIAL 150 (Some 100) 5 0 MT_NORMAL Tag_DAMAGE None None None),
     (460, (move_entry T_DRAGON Cat_SPECIAL 100 (Some 95) 5 0 MT_NORMAL Tag_DAMAGE None None None)\<lparr>md_crit_boost := 1\<rparr>),
     (461, move_entry T_PSYCHIC Cat_STATUS 0 None 10 0 MT_SELF Tag_RECOVERY None None None),
     (462, move_entry T_NORMAL Cat_PHYSICAL 0 (Some 100) 5 0 MT_NORMAL Tag_NONE None None None),
     (463, move_entry T_FIRE Cat_SPECIAL 100 (Some 90) 5 0 MT_NORMAL Tag_DAMAGE None None None),
     (464, move_entry T_DARK Cat_STATUS 0 (Some 80) 10 0 MT_ALL_ADJACENT_FOES Tag_STATUS None None None),
     (465, move_entry T_GRASS Cat_SPECIAL 120 (Some 90) 5 0 MT_NORMAL Tag_DAMAGE (Some (secondary 40 None False [(3, - 2, False)] None)) None None),
     (466, move_entry T_GHOST Cat_SPECIAL 60 (Some 100) 5 0 MT_NORMAL Tag_DAMAGE (Some (secondary 10 None False [] None)) None None),
     (468, move_entry T_DARK Cat_STATUS 0 None 15 0 MT_SELF Tag_SETUP None None None),
     (469, move_entry T_ROCK Cat_STATUS 0 None 10 3 MT_NORMAL Tag_NONE None None None),
     (473, move_entry T_PSYCHIC Cat_SPECIAL 80 (Some 100) 10 0 MT_NORMAL Tag_DAMAGE None None None),
     (474, move_entry T_POISON Cat_SPECIAL 65 (Some 100) 10 0 MT_NORMAL Tag_DAMAGE None None None),
     (475, move_entry T_STEEL Cat_STATUS 0 None 15 0 MT_SELF Tag_SETUP None None None),
     (476, move_entry T_BUG Cat_STATUS 0 None 20 2 MT_SELF Tag_POWDER None None None),
     (477, move_entry T_PSYCHIC Cat_STATUS 0 None 15 0 MT_NORMAL Tag_NONE None None None),
     (479, move_entry T_ROCK Cat_PHYSICAL 50 (Some 100) 15 0 MT_NORMAL Tag_DAMAGE None None None),
     (480, (move_entry T_FIGHTING Cat_PHYSICAL 60 (Some 100) 10 0 MT_NORMAL Tag_DAMAGE None None None)\<lparr>md_crit_boost := 3\<rparr>),
     (481, move_entry T_FIRE Cat_SPECIAL 70 (Some 100) 15 0 MT_NORMAL Tag_DAMAGE None None None),
     (482, move_entry T_POISON Cat_SPECIAL 95 (Some 100) 10 0 MT_ALL_ADJACENT Tag_DAMAGE (Some (secondary 10 (Some St_POISON) False [] None)) None None),
     (483, move_entry T_BUG Cat_STATUS 0 None 20 0 MT_SELF Tag_SETUP None None None),
     (484, move_entry T_STEEL Cat_PHYSICAL 0 (Some 100) 10 0 MT_NORMAL Tag_NONE None None None),
     (485, move_entry T_PSYCHIC Cat_SPECIAL 120 (Some 100) 10 0 MT_ALL_ADJACENT Tag_DAMAGE None None None),
     (486, move_entry T_ELECTRIC Cat_SPECIAL 0 (Some 100) 10 0 MT_NORMAL Tag_NONE None None None),
     (487, move_entry T_WATER Cat_STATUS 0 (Some 100) 20 0 MT_NORMAL Tag_STATUS None None None),
     (488, move_entry T_FIRE Cat_PHYSICAL 50 (Some 100) 20 0 MT_NORMAL Tag_DAMAGE (Some (secondary 100 None False [(4, 1, True)] None)) None None),
     (489, move_entry T_POISON Cat_STATUS 0 None 20 0 MT_SELF Tag_SETUP None None None),
     (490, move_entry T_FIGHTING Cat_PHYSICAL 65 (Some 100) 20 0 MT_NORMAL Tag_DAMAGE (Some (secondary 100 None False [(4, - 1, False)] None)) None None)]"

definition MOVE_ROWS_6 :: "(move \<times> move_data) list" where
  "MOVE_ROWS_6 = [
     (491, move_entry T_POISON Cat_SPECIAL 40 (Some 100) 20 0 MT_NORMAL Tag_DAMAGE (Some (secondary 100 None False [(3, - 2, False)] None)) None None),
     (492, move_entry T_DARK Cat_PHYSICAL 95 (Some 100) 15 0 MT_NORMAL Tag_DAMAGE None None None),
     (496, move_entry T_NORMAL Cat_SPECIAL 60 (Some 100) 15 0 MT_NORMAL Tag_DAMAGE None None None),
     (497, move_entry T_NORMAL Cat_SPECIAL 40 (Some 100) 15 0 MT_NORMAL Tag_DAMAGE None None None),
     (498, move_entry T_NORMAL Cat_PHYSICAL 70 (Some 100) 20 0 MT_NORMAL Tag_DAMAGE None None None),
     (499, move_entry T_POISON Cat_SPECIAL 50 None 15 0 MT_NORMAL Tag_DAMAGE None None None),
     (500, move_entry T_PSYCHIC Cat_SPECIAL 20 (Some 100) 10 0 MT_NORMAL Tag_DAMAGE None None None),
     (501, move_entry T_FIGHTING Cat_STATUS 0 None 15 3 MT_NORMAL Tag_NONE None None None),
     (502, move_entry T_PSYCHIC Cat_STATUS 0 None 15 2 MT_SELF Tag_NONE None None None),
     (503, move_entry T_WATER Cat_SPECIAL 80 (Some 100) 15 0 MT_NORMAL Tag_DAMAGE (Some (secondary 30 (Some St_BURN) False [] None)) None None),
     (504, move_entry T_NORMAL Cat_STATUS 0 None 15 0 MT_SELF Tag_SETUP None None None),
     (505, move_entry T_PSYCHIC Cat_STATUS 0 None 10 0 MT_ANY Tag_RECOVERY None None None),
     (506, move_entry T_GHOST Cat_SPECIAL 65 (Some 100) 10 0 MT_NORMAL Tag_DAMAGE None None None),
     (507, move_entry T_FLYING Cat_PHYSICAL 60 (Some 100) 10 0 MT_ANY Tag_DAMAGE None None None),
     (508, move_entry T_STEEL Cat_STATUS 0 None 10 0 MT_SELF Tag_SETUP None None None),
     (509, move_entry T_FIGHTING Cat_PHYSICAL 60 (Some 95) 10 (- 6) MT_NORMAL Tag_DAMAGE None None None),
     (510, move_entry T_FIRE Cat_SPECIAL 60 (Some 100) 15 0 MT_ALL_ADJACENT_FOES Tag_DAMAGE None None None),
     (512, move_entry T_FLYING Cat_PHYSICAL 55 (Some 100) 15 0 MT_ANY Tag_DAMAGE None None None),
     (514, move_entry T_NORMAL Cat_PHYSICAL 70 (Some 100) 5 0 MT_NORMAL Tag_DAMAGE None None None),
     (515, move_entry T_FIGHTING Cat_SPECIAL 0 (Some 100) 5 0 MT_NORMAL Tag_NONE None None None),
     (517, move_entry T_FIRE Cat_SPECIAL 100 (Some 50) 5 0 MT_NORMAL Tag_DAMAGE (Some (secondary 100 (Some St_BURN) False [] None)) None None),
     (518, move_entry T_WATER Cat_SPECIAL 80 (Some 100) 10 0 MT_NORMAL Tag_DAMAGE None None None),
     (519, move_entry T_FIRE Cat_SPECIAL 80 (Some 100) 10 0 MT_NORMAL Tag_DAMAGE None None None),
     (520, move_entry T_GRASS Cat_SPECIAL 80 (Some 100) 10 0 MT_NORMAL Tag_DAMAGE None None None),
     (521, move_entry T_ELECTRIC Cat_SPECIAL 70 (Some 100) 20 0 MT_NORMAL (Tag_DAMAGE OR Tag_PIVOT) None None None),
     (522, move_entry T_BUG Cat_SPECIAL 50 (Some 100) 10 0 MT_ALL_ADJACENT_FOES Tag_DAMAGE (Some (secondary 100 None False [(2, - 1, False)] None)) None None),
     (523, move_entry T_GROUND Cat_PHYSICAL 60 (Some 100) 20 0 MT_ALL_ADJACENT Tag_DAMAGE (Some (secondary 100 None False [(4, - 1, False)] None)) None None),
     (524, (move_entry T_ICE Cat_SPECIAL 60 (Some 100) 10 0 MT_NORMAL Tag_DAMAGE None None None)\<lparr>md_crit_boost := 3\<rparr>),
     (525, move_entry T_DRAGON Cat_PHYSICAL 60 (Some 95) 10 (- 6) MT_NORMAL Tag_DAMAGE None None None),
     (526, move_entry T_NORMAL Cat_STATUS 0 None 30 0 MT_SELF Tag_SETUP None None None),
     (527, move_entry T_ELECTRIC Cat_SPECIAL 55 (Some 100) 15 0 MT_ALL_ADJACENT_FOES Tag_DAMAGE (Some (secondary 100 None False [(4, - 1, False)] None)) None None),
     (528, move_entry T_ELECTRIC Cat_PHYSICAL 90 (Some 100) 15 0 MT_NORMAL Tag_DAMAGE None None (Some (1, 4))),
     (529, (move_entry T_GROUND Cat_PHYSICAL 80 (Some 100) 10 0 MT_NORMAL Tag_DAMAGE None None None)\<lparr>md_crit_boost := 1\<rparr>),
     (530, (move_entry T_DRAGON Cat_PHYSICAL 40 (Some 100) 15 0 MT_NORMAL Tag_DAMAGE None None None)\<lparr>md_min_hits := 2, md_max_hits := 2\<rparr>),
     (531, move_entry T_PSYCHIC Cat_PHYSICAL 60 (Some 100) 25 0 MT_NORMAL Tag_DAMAGE (Some (secondary 30 None True [] None)) None None),
     (532, move_entry T_GRASS Cat_PHYSICAL 75 (Some 100) 10 0 MT_NORMAL Tag_DAMAGE None (Some (1, 2)) None),
     (533, move_entry T_FIGHTING Cat_PHYSICAL 90 (Some 100) 15 0 MT_NORMAL Tag_DAMAGE None None None),
     (534, move_entry T_WATER Cat_PHYSICAL 75 (Some 100) 10 0 MT_NORMAL Tag_DAMAGE (Some (secondary 50 None False [(1, - 1, False)] None)) None None),
     (535, move_entry T_FIRE Cat_PHYSICAL 0 (Some 100) 10 0 MT_NORMAL Tag_NONE None None None),
     (536, move_entry T_GRASS Cat_SPECIAL 65 (Some 100) 10 0 MT_NORMAL Tag_DAMAGE (Some (secondary 30 None False [] None)) None None),
     (537, move_entry T_BUG Cat_PHYSICAL 65 (Some 100) 20 0 MT_NORMAL Tag_DAMAGE (Some (secondary 30 None True [] None)) None None),
     (538, move_entry T_GRASS Cat_STATUS 0 None 10 0 MT_SELF Tag_SETUP None None None),
     (539, move_entry T_DARK Cat_SPECIAL 85 (Some 100) 10 0 MT_NORMAL Tag_DAMAGE (Some (secondary 30 None False [(5, - 1, False)] None)) None None),
     (540, move_entry T_PSYCHIC Cat_SPECIAL 100 (Some 100) 10 0 MT_NORMAL Tag_DAMAGE None None None),
     (541, (move_entry T_NORMAL Cat_PHYSICAL 25 (Some 100) 10 0 MT_NORMAL Tag_DAMAGE None None None)\<lparr>md_min_hits := 2, md_max_hits := 5\<rparr>),
     (542, move_entry T_FLYING Cat_SPECIAL 110 (Some 80) 10 0 MT_ANY Tag_DAMAGE (Some (secondary 30 None False [] (Some (''confused'')))) None None),
     (543, move_entry T_NORMAL Cat_PHYSICAL 120 (Some 100) 15 0 MT_NORMAL Tag_DAMAGE None None (Some (1, 4))),
     (544, (move_entry T_STEEL Cat_PHYSICAL 50 (Some 100) 15 0 MT_NORMAL Tag_DAMAGE None None None)\<lparr>md_min_hits := 2, md_max_hits := 2\<rparr>),
     (545, move_entry T_FIRE Cat_SPECIAL 100 (Some 100) 5 0 MT_ALL_ADJACENT Tag_DAMAGE (Some (secondary 30 (Some St_BURN) False [] None)) None None),
     (546, move_entry T_NORMAL Cat_SPECIAL 120 (Some 100) 5 0 MT_NORMAL Tag_DAMAGE None None None),
     (547, move_entry T_NORMAL Cat_SPECIAL 75 (Some 100) 10 0 MT_ALL_ADJACENT_FOES Tag_DAMAGE (Some (secondary 10 (Some St_SLEEP) False [] None)) None None),
     (548, move_entry T_FIGHTING Cat_SPECIAL 85 (Some 100) 10 0 MT_NORMAL Tag_DAMAGE None None None),
     (549, move_entry T_ICE Cat_SPECIAL 65 (Some 100) 10 0 MT_ALL_ADJACENT_FOES Tag_DAMAGE (Some (secondary 100 None False [(4, - 1, False)] None)) None None),
     (550, move_entry T_ELECTRIC Cat_PHYSICAL 130 (Some 90) 5 0 MT_NORMAL (Tag_DAMAGE OR Tag_CONTACT) (Some (secondary 20 (Some St_PARALYSIS) False [] None)) None None),
     (551, move_entry T_FIRE Cat_SPECIAL 130 (Some 90) 5 0 MT_NORMAL Tag_DAMAGE (Some (secondary 20 (Some St_BURN) False [] None)) None None),
     (552, move_entry T_FIRE Cat_SPECIAL 80 (Some 100) 10 0 MT_NORMAL Tag_DAMAGE (Some (secondary 50 None False [(2, 1, True)] None)) None None),
     (553, move_entry T_ICE Cat_PHYSICAL 140 (Some 100) 5 0 MT_NORMAL Tag_DAMAGE (Some (secondary 30 (Some St_PARALYSIS) False [] None)) None None),
     (554, move_entry T_ICE Cat_SPECIAL 140 (Some 100) 5 0 MT_NORMAL Tag_DAMAGE (Some (secondary 30 (Some St_BURN) False [] None)) None None),
     (555, move_entry T_DARK Cat_SPECIAL 55 (Some 100) 10 0 MT_ALL_ADJACENT_FOES Tag_DAMAGE (Some (secondary 100 None False [(2, - 1, False)] None)) None None),
     (556, move_entry T_ICE Cat_PHYSICAL 85 (Some 100) 10 0 MT_NORMAL Tag_DAMAGE (Some (secondary 30 None True [] None)) None None),
     (557, (move_entry T_FIRE Cat_PHYSICAL 180 (Some 95) 5 0 MT_NORMAL Tag_DAMAGE None None None)\<lparr>md_self_stat_changes := [(4, - 1), (1, - 1), (3, - 1)]\<rparr>),
     (558, move_entry T_FIRE Cat_SPECIAL 100 (Some 100) 5 0 MT_NORMAL Tag_DAMAGE None None None),
     (559, move_entry T_ELECTRIC Cat_PHYSICAL 100 (Some 100) 5 0 MT_NORMAL Tag_DAMAGE None None None),
     (560, move_entry T_FIGHTING Cat_PHYSICAL 100 (Some 100) 10 0 MT_ANY Tag_DAMAGE None None None),
     (561, move_entry T_FIGHTING Cat_STATUS 0 None 10 0 MT_NORMAL Tag_NONE None None None),
     (562, move_entry T_POISON Cat_SPECIAL 120 (Some 100) 10 0 MT_NORMAL Tag_DAMAGE None None None),
     (564, move_entry T_BUG Cat_STATUS 0 None 20 0 MT_FOE_SIDE Tag_HAZARD None None None),
     (565, move_entry T_BUG Cat_PHYSICAL 50 (Some 100) 25 0 MT_NORMAL Tag_DAMAGE None None None),
     (566, move_entry T_GHOST Cat_PHYSICAL 90 (Some 100) 10 0 MT_NORMAL Tag_DAMAGE None None None),
     (568, move_entry T_NORMAL Cat_STATUS 0 (Some 100) 10 0 MT_NORMAL Tag_NONE None None None),
     (569, move_entry T_ELECTRIC Cat_STATUS 0 None 25 1 MT_ALL Tag_NONE None None None),
     (570, move_entry T_ELECTRIC Cat_SPECIAL 65 (Some 100) 20 0 MT_ALL_ADJACENT Tag_DAMAGE None (Some (1, 2)) None),
     (572, move_entry T_GRASS Cat_PHYSICAL 90 (Some 100) 15 0 MT_ALL_ADJACENT Tag_DAMAGE None None None),
     (573, move_entry T_ICE Cat_SPECIAL 70 (Some 100) 20 0 MT_NORMAL (Tag_DAMAGE OR Tag_STATUS) (Some (secondary 10 (Some St_FREEZE) False [] None)) None None),
     (574, move_entry T_FAIRY Cat_SPECIAL 40 None 15 0 MT_ALL_ADJACENT_FOES Tag_DAMAGE None None None),
     (575, move_entry T_DARK Cat_STATUS 0 (Some 100) 20 0 MT_NORMAL Tag_PIVOT None None None),
     (577, move_entry T_FAIRY Cat_SPECIAL 50 (Some 100) 10 0 MT_NORMAL Tag_DAMAGE None (Some (3, 4)) None),
     (578, move_entry T_FAIRY Cat_STATUS 0 None 10 3 MT_NORMAL Tag_NONE None None None),
     (580, move_entry T_GRASS Cat_STATUS 0 None 10 0 MT_ALL Tag_NONE None None None),
     (581, move_entry T_FAIRY Cat_STATUS 0 None 10 0 MT_ALL Tag_NONE None None None),
     (583, move_entry T_FAIRY Cat_PHYSICAL 90 (Some 100) 10 0 MT_NORMAL Tag_DAMAGE (Some (secondary 10 None False [(0, - 1, False)] None)) None None),
     (584, move_entry T_FAIRY Cat_SPECIAL 40 (Some 100) 30 0 MT_NORMAL Tag_DAMAGE None None None),
     (585, move_entry T_FAIRY Cat_SPECIAL 95 (Some 100) 15 0 MT_NORMAL Tag_DAMAGE (Some (secondary 30 None False [(2, - 1, False)] None)) None None),
     (586, move_entry T_NORMAL Cat_SPECIAL 140 (Some 100) 10 0 MT_ALL_ADJACENT Tag_DAMAGE None None None),
     (588, move_entry T_STEEL Cat_STATUS 0 None 10 4 MT_SELF Tag_NONE None None None),
     (589, move_entry T_NORMAL Cat_STATUS 0 None 10 0 MT_NORMAL Tag_NONE None None None),
     (590, move_entry T_NORMAL Cat_STATUS 0 None 10 0 MT_NORMAL Tag_NONE None None None)]"

definition MOVE_ROWS_7 :: "(move \<times> move_data) list" where
  "MOVE_ROWS_7 = [
     (591, move_entry T_ROCK Cat_PHYSICAL 100 (Some 100) 5 0 MT_ALL_ADJACENT_FOES Tag_DAMAGE None None None),
     (592, move_entry T_WATER Cat_SPECIAL 110 (Some 100) 5 0 MT_NORMAL Tag_DAMAGE (Some (secondary 30 (Some St_BURN) False [] None)) None None),
     (593, move_entry T_PSYCHIC Cat_SPECIAL 80 None 5 0 MT_NORMAL Tag_DAMAGE None None None),
     (594, (move_entry T_WATER Cat_SPECIAL 15 (Some 100) 20 1 MT_NORMAL Tag_DAMAGE None None None)\<lparr>md_min_hits := 2, md_max_hits := 5\<rparr>),
     (595, move_entry T_FIRE Cat_SPECIAL 75 (Some 100) 10 0 MT_NORMAL Tag_DAMAGE (Some (secondary 100 None False [(2, - 1, False)] None)) None None),
     (596, move_entry T_GRASS Cat_STATUS 0 None 10 4 MT_SELF Tag_NONE None None None),
     (598, move_entry T_ELECTRIC Cat_STATUS 0 (Some 100) 5 0 MT_NORMAL Tag_NONE None None None),
     (600, move_entry T_BUG Cat_STATUS 0 (Some 100) 20 1 MT_NORMAL Tag_POWDER None None None),
     (604, move_entry T_ELECTRIC Cat_STATUS 0 None 10 0 MT_ALL Tag_NONE None None None),
     (605, move_entry T_FAIRY Cat_SPECIAL 80 (Some 100) 10 0 MT_ALL_ADJACENT_FOES Tag_DAMAGE None None None),
     (608, move_entry T_FAIRY Cat_STATUS 0 (Some 100) 10 1 MT_NORMAL Tag_NONE None None None),
     (609, move_entry T_ELECTRIC Cat_PHYSICAL 20 (Some 100) 20 0 MT_NORMAL (Tag_DAMAGE OR Tag_STATUS) (Some (secondary 100 (Some St_PARALYSIS) False [] None)) None None),
     (610, move_entry T_NORMAL Cat_PHYSICAL 40 (Some 100) 40 0 MT_NORMAL Tag_DAMAGE None None None),
     (611, move_entry T_BUG Cat_SPECIAL 20 (Some 100) 20 0 MT_NORMAL Tag_DAMAGE None None None),
     (612, move_entry T_FIGHTING Cat_PHYSICAL 40 (Some 100) 20 0 MT_NORMAL (Tag_DAMAGE OR Tag_PUNCHING) (Some (secondary 100 None False [(0, 1, True)] None)) None None),
     (613, move_entry T_FLYING Cat_SPECIAL 80 (Some 100) 10 0 MT_ANY Tag_DAMAGE None (Some (3, 4)) None),
     (614, move_entry T_GROUND Cat_PHYSICAL 90 (Some 100) 10 0 MT_ALL_ADJACENT_FOES Tag_DAMAGE None None None),
     (615, move_entry T_GROUND Cat_PHYSICAL 90 (Some 100) 10 0 MT_ALL_ADJACENT_FOES Tag_DAMAGE None None None),
     (616, move_entry T_GROUND Cat_PHYSICAL 90 (Some 100) 10 0 MT_ALL_ADJACENT_FOES Tag_DAMAGE None None None),
     (617, move_entry T_FAIRY Cat_SPECIAL 140 (Some 100) 5 0 MT_NORMAL Tag_DAMAGE None None (Some (1, 2))),
     (618, move_entry T_WATER Cat_SPECIAL 110 (Some 100) 10 0 MT_ALL_ADJACENT_FOES Tag_DAMAGE None None None),
     (619, move_entry T_GROUND Cat_PHYSICAL 120 (Some 100) 10 0 MT_ALL_ADJACENT_FOES Tag_DAMAGE None None None),
     (620, move_entry T_FLYING Cat_PHYSICAL 120 (Some 100) 5 0 MT_ANY Tag_DAMAGE None None None),
     (621, move_entry T_DARK Cat_PHYSICAL 100 None 5 0 MT_NORMAL Tag_DAMAGE None None None),
     (659, move_entry T_GROUND Cat_STATUS 0 None 5 0 MT_SELF Tag_RECOVERY None None None),
     (660, move_entry T_BUG Cat_PHYSICAL 90 (Some 100) 10 2 MT_NORMAL Tag_DAMAGE None None None),
     (661, move_entry T_POISON Cat_STATUS 0 None 10 4 MT_SELF Tag_NONE None None None),
     (662, move_entry T_GHOST Cat_PHYSICAL 80 (Some 100) 10 0 MT_NORMAL Tag_DAMAGE (Some (secondary 100 None False [] None)) None None),
     (663, move_entry T_DARK Cat_PHYSICAL 85 (Some 100) 10 0 MT_NORMAL Tag_DAMAGE None None None),
     (664, move_entry T_WATER Cat_SPECIAL 90 (Some 100) 10 0 MT_ALL_ADJACENT Tag_DAMAGE (Some (secondary 100 None False [] None)) None None),
     (665, (move_entry T_ICE Cat_PHYSICAL 100 (Some 100) 10 0 MT_NORMAL Tag_DAMAGE None None None)\<lparr>md_self_stat_changes := [(4, - 1)]\<rparr>),
     (666, move_entry T_FAIRY Cat_STATUS 0 None 10 0 MT_NORMAL Tag_RECOVERY None None None),
     (667, move_entry T_GROUND Cat_PHYSICAL 95 (Some 100) 10 0 MT_NORMAL Tag_DAMAGE None None None),
     (668, move_entry T_GRASS Cat_STATUS 0 (Some 100) 10 0 MT_NORMAL Tag_RECOVERY None None None),
     (669, move_entry T_GRASS Cat_PHYSICAL 125 (Some 100) 10 0 MT_NORMAL Tag_DAMAGE None None None),
     (670, move_entry T_GRASS Cat_PHYSICAL 40 (Some 100) 40 0 MT_NORMAL Tag_DAMAGE None None None),
     (671, move_entry T_NORMAL Cat_STATUS 0 None 15 3 MT_NORMAL Tag_NONE None None None),
     (672, move_entry T_POISON Cat_STATUS 0 (Some 100) 20 0 MT_NORMAL Tag_STATUS None None None),
     (673, move_entry T_NORMAL Cat_STATUS 0 None 30 0 MT_SELF Tag_NONE None None None),
     (675, move_entry T_DARK Cat_PHYSICAL 80 (Some 100) 15 0 MT_NORMAL Tag_DAMAGE (Some (secondary 100 None False [] None)) None None),
     (676, move_entry T_BUG Cat_SPECIAL 90 (Some 100) 15 0 MT_NORMAL Tag_DAMAGE None None None),
     (677, move_entry T_STEEL Cat_PHYSICAL 80 (Some 100) 20 0 MT_NORMAL Tag_DAMAGE (Some (secondary 100 None False [] None)) None None),
     (678, move_entry T_PSYCHIC Cat_STATUS 0 None 10 0 MT_ALL Tag_NONE None None None),
     (679, move_entry T_BUG Cat_PHYSICAL 80 (Some 100) 15 0 MT_NORMAL Tag_DAMAGE (Some (secondary 100 None False [(0, - 1, False)] None)) None None),
     (680, move_entry T_FIRE Cat_PHYSICAL 80 (Some 100) 15 0 MT_NORMAL Tag_DAMAGE (Some (secondary 100 None False [(1, - 1, False)] None)) None None),
     (681, move_entry T_DARK Cat_PHYSICAL 20 (Some 100) 10 0 MT_NORMAL Tag_DAMAGE None None None),
     (682, move_entry T_FIRE Cat_SPECIAL 130 (Some 100) 5 0 MT_NORMAL Tag_DAMAGE None None None),
     (684, move_entry T_STEEL Cat_PHYSICAL 70 None 10 0 MT_NORMAL Tag_DAMAGE None None None),
     (686, move_entry T_NORMAL Cat_SPECIAL 90 (Some 100) 15 0 MT_NORMAL Tag_DAMAGE None None None),
     (687, move_entry T_DRAGON Cat_SPECIAL 100 (Some 100) 10 0 MT_ALL_ADJACENT_FOES Tag_DAMAGE None None None),
     (688, move_entry T_GRASS Cat_PHYSICAL 70 (Some 100) 15 0 MT_NORMAL Tag_DAMAGE (Some (secondary 100 None False [(0, - 1, False)] None)) None None),
     (690, move_entry T_FLYING Cat_PHYSICAL 100 (Some 100) 15 (- 3) MT_NORMAL Tag_DAMAGE None None None),
     (691, (move_entry T_DRAGON Cat_SPECIAL 110 (Some 100) 5 0 MT_ALL_ADJACENT_FOES Tag_DAMAGE None None None)\<lparr>md_self_stat_changes := [(1, - 1)]\<rparr>),
     (692, move_entry T_DRAGON Cat_PHYSICAL 90 (Some 100) 15 0 MT_NORMAL Tag_DAMAGE None None None),
     (693, move_entry T_DARK Cat_PHYSICAL 60 (Some 100) 20 0 MT_ALL_ADJACENT Tag_DAMAGE None None None),
     (694, move_entry T_ICE Cat_STATUS 0 None 20 0 MT_NORMAL Tag_SCREEN None None None),
     (704, move_entry T_FIRE Cat_SPECIAL 150 (Some 100) 5 (- 3) MT_ALL_ADJACENT_FOES Tag_DAMAGE None None None),
     (705, move_entry T_FAIRY Cat_SPECIAL 130 (Some 100) 5 0 MT_NORMAL Tag_DAMAGE None None None),
     (706, move_entry T_PSYCHIC Cat_PHYSICAL 85 (Some 100) 10 0 MT_NORMAL Tag_DAMAGE None None None),
     (707, move_entry T_GROUND Cat_PHYSICAL 75 (Some 100) 10 0 MT_NORMAL Tag_DAMAGE None None None),
     (708, move_entry T_GHOST Cat_PHYSICAL 85 (Some 100) 10 0 MT_NORMAL Tag_DAMAGE (Some (secondary 20 None False [(1, - 1, False)] None)) None None),
     (709, move_entry T_ROCK Cat_PHYSICAL 40 (Some 100) 20 1 MT_NORMAL Tag_DAMAGE None None None),
     (710, move_entry T_WATER Cat_PHYSICAL 85 (Some 100) 10 0 MT_NORMAL Tag_DAMAGE (Some (secondary 20 None False [(1, - 1, False)] None)) None None),
     (711, move_entry T_PSYCHIC Cat_SPECIAL 160 (Some 100) 10 0 MT_NORMAL Tag_DAMAGE None None None),
     (712, move_entry T_GHOST Cat_PHYSICAL 90 (Some 100) 10 0 MT_NORMAL Tag_DAMAGE None None None),
     (713, move_entry T_STEEL Cat_PHYSICAL 100 (Some 100) 5 0 MT_NORMAL Tag_DAMAGE None None None),
     (714, move_entry T_GHOST Cat_SPECIAL 100 (Some 100) 5 0 MT_NORMAL Tag_DAMAGE None None None),
     (715, move_entry T_NORMAL Cat_STATUS 0 None 10 0 MT_NORMAL Tag_NONE None None None),
     (716, move_entry T_ELECTRIC Cat_PHYSICAL 80 (Some 100) 10 0 MT_NORMAL Tag_DAMAGE (Some (secondary 30 None True [] None)) None None),
     (717, move_entry T_FAIRY Cat_SPECIAL 0 (Some 100) 10 0 MT_NORMAL Tag_NONE None None None),
     (718, move_entry T_NORMAL Cat_PHYSICAL 120 (Some 100) 10 0 MT_NORMAL Tag_DAMAGE None None None),
     (720, move_entry T_FIRE Cat_SPECIAL 150 (Some 100) 5 0 MT_ALL_ADJACENT Tag_DAMAGE None None None),
     (721, move_entry T_ELECTRIC Cat_PHYSICAL 100 (Some 100) 15 0 MT_NORMAL (Tag_DAMAGE OR Tag_PUNCHING OR Tag_CONTACT) None None None),
     (722, move_entry T_PSYCHIC Cat_SPECIAL 100 (Some 100) 5 0 MT_NORMAL Tag_DAMAGE None None None),
     (729, move_entry T_ELECTRIC Cat_PHYSICAL 80 (Some 100) 10 2 MT_NORMAL Tag_DAMAGE (Some (secondary 100 None False [] None)) None None),
     (730, move_entry T_WATER Cat_SPECIAL 90 (Some 100) 15 0 MT_ALL_ADJACENT_FOES Tag_DAMAGE (Some (secondary 30 (Some St_PARALYSIS) False [] None)) None None),
     (731, move_entry T_FLYING Cat_PHYSICAL 90 (Some 95) 15 0 MT_NORMAL Tag_DAMAGE (Some (secondary 30 None True [] None)) None None),
     (732, move_entry T_ELECTRIC Cat_SPECIAL 0 None 20 0 MT_NORMAL Tag_NONE None None None),
     (733, move_entry T_WATER Cat_SPECIAL 60 (Some 100) 20 0 MT_NORMAL Tag_DAMAGE None (Some (1, 2)) None),
     (734, move_entry T_ELECTRIC Cat_SPECIAL 60 (Some 100) 20 0 MT_NORMAL Tag_DAMAGE (Some (secondary 100 (Some St_PARALYSIS) False [] None)) None None),
     (735, move_entry T_FIRE Cat_PHYSICAL 60 (Some 100) 20 0 MT_NORMAL Tag_DAMAGE (Some (secondary 100 (Some St_BURN) False [] None)) None None),
     (736, move_entry T_PSYCHIC Cat_SPECIAL 80 (Some 95) 15 0 MT_NORMAL Tag_DAMAGE None None None),
     (737, move_entry T_DARK Cat_SPECIAL 80 (Some 95) 15 0 MT_NORMAL Tag_DAMAGE None None None),
     (738, move_entry T_GRASS Cat_PHYSICAL 100 (Some 90) 10 0 MT_NORMAL Tag_DAMAGE None None None),
     (739, move_entry T_ICE Cat_SPECIAL 100 (Some 90) 10 0 MT_NORMAL Tag_DAMAGE None None None),
     (740, move_entry T_FAIRY Cat_SPECIAL 120 (Some 85) 5 0 MT_NORMAL Tag_DAMAGE None None None),
     (741, move_entry T_NORMAL Cat_PHYSICAL 0 None 20 0 MT_NORMAL Tag_NONE None None None),
     (742, (move_entry T_STEEL Cat_PHYSICAL 60 (Some 100) 5 0 MT_NORMAL Tag_DAMAGE (Some (secondary 30 None True [] None)) None None)\<lparr>md_min_hits := 2, md_max_hits := 2\<rparr>),
     (743, move_entry T_NORMAL Cat_STATUS 0 None 10 4 MT_SELF Tag_NONE None None None)]"

definition MOVE_ROWS_8 :: "(move \<times> move_data) list" where
  "MOVE_ROWS_8 = [
     (744, move_entry T_DRAGON Cat_SPECIAL 100 (Some 100) 5 0 MT_NORMAL Tag_DAMAGE None None None),
     (745, (move_entry T_WATER Cat_SPECIAL 80 (Some 100) 15 0 MT_NORMAL Tag_DAMAGE None None None)\<lparr>md_crit_boost := 1\<rparr>),
     (746, move_entry T_DARK Cat_PHYSICAL 80 (Some 100) 10 0 MT_NORMAL Tag_DAMAGE None None None),
     (747, move_entry T_NORMAL Cat_STATUS 0 None 10 0 MT_SELF Tag_SETUP None None None),
     (748, move_entry T_FIGHTING Cat_STATUS 0 None 5 0 MT_SELF Tag_SETUP None None None),
     (751, (move_entry T_DRAGON Cat_PHYSICAL 50 (Some 100) 10 0 MT_NORMAL Tag_DAMAGE None None None)\<lparr>md_min_hits := 2, md_max_hits := 2\<rparr>),
     (753, move_entry T_FIGHTING Cat_STATUS 0 (Some 100) 15 0 MT_NORMAL Tag_NONE None None None),
     (754, move_entry T_ELECTRIC Cat_PHYSICAL 85 (Some 100) 10 0 MT_NORMAL Tag_DAMAGE None None None),
     (755, move_entry T_WATER Cat_PHYSICAL 85 (Some 100) 10 0 MT_NORMAL Tag_DAMAGE None None None),
     (757, move_entry T_FIRE Cat_PHYSICAL 100 None 10 0 MT_NORMAL Tag_DAMAGE None None None),
     (758, move_entry T_BUG Cat_PHYSICAL 10 None 10 0 MT_NORMAL Tag_DAMAGE None None None),
     (759, move_entry T_ELECTRIC Cat_PHYSICAL 10 None 10 0 MT_NORMAL Tag_DAMAGE None None None),
     (760, move_entry T_NORMAL Cat_PHYSICAL 10 None 10 0 MT_NORMAL Tag_DAMAGE None None None),
     (761, move_entry T_FIGHTING Cat_PHYSICAL 10 None 10 0 MT_NORMAL Tag_DAMAGE None None None),
     (762, move_entry T_GHOST Cat_PHYSICAL 10 None 10 0 MT_NORMAL Tag_DAMAGE None None None),
     (763, move_entry T_ICE Cat_PHYSICAL 10 None 10 0 MT_NORMAL Tag_DAMAGE None None None),
     (764, move_entry T_POISON Cat_PHYSICAL 10 None 10 0 MT_NORMAL Tag_DAMAGE None None None),
     (765, move_entry T_WATER Cat_PHYSICAL 10 None 10 0 MT_NORMAL Tag_DAMAGE None None None),
     (766, move_entry T_FLYING Cat_PHYSICAL 10 None 10 0 MT_NORMAL Tag_DAMAGE None None None),
     (767, move_entry T_FAIRY Cat_PHYSICAL 10 None 10 0 MT_NORMAL Tag_DAMAGE None None None),
     (768, move_entry T_DRAGON Cat_PHYSICAL 10 None 10 0 MT_NORMAL Tag_DAMAGE None None None),
     (769, move_entry T_PSYCHIC Cat_PHYSICAL 10 None 10 0 MT_NORMAL Tag_DAMAGE None None None),
     (770, move_entry T_ROCK Cat_PHYSICAL 10 None 10 0 MT_NORMAL Tag_DAMAGE None None None),
     (771, move_entry T_GROUND Cat_PHYSICAL 10 None 10 0 MT_NORMAL Tag_DAMAGE None None None),
     (772, move_entry T_DARK Cat_PHYSICAL 10 None 10 0 MT_NORMAL Tag_DAMAGE None None None),
     (773, move_entry T_GRASS Cat_PHYSICAL 10 None 10 0 MT_NORMAL Tag_DAMAGE None None None),
     (774, move_entry T_STEEL Cat_PHYSICAL 10 None 10 0 MT_NORMAL Tag_DAMAGE None None None),
     (775, move_entry T_DRAGON Cat_STATUS 0 (Some 100) 5 0 MT_SELF Tag_SETUP None None None),
     (776, move_entry T_FIGHTING Cat_PHYSICAL 80 (Some 100) 10 0 MT_NORMAL Tag_DAMAGE None None None),
     (777, move_entry T_FAIRY Cat_STATUS 0 None 15 0 MT_NORMAL Tag_SETUP None None None),
     (778, move_entry T_GRASS Cat_PHYSICAL 80 (Some 100) 10 0 MT_NORMAL Tag_DAMAGE (Some (secondary 100 None False [(4, - 1, False)] None)) None None),
     (779, move_entry T_GRASS Cat_PHYSICAL 35 (Some 100) 15 0 MT_NORMAL Tag_DAMAGE None None None),
     (780, move_entry T_FIRE Cat_PHYSICAL 120 (Some 90) 5 0 MT_NORMAL Tag_DAMAGE (Some (secondary 10 (Some St_BURN) False [] None)) None None),
     (781, move_entry T_STEEL Cat_PHYSICAL 100 (Some 100) 5 0 MT_NORMAL Tag_DAMAGE None None None),
     (782, move_entry T_STEEL Cat_PHYSICAL 100 (Some 100) 5 0 MT_NORMAL Tag_DAMAGE None None None),
     (783, move_entry T_ELECTRIC Cat_PHYSICAL 110 (Some 100) 10 0 MT_NORMAL Tag_DAMAGE (Some (secondary 100 None False [(4, 1, True)] None)) None None),
     (784, move_entry T_DRAGON Cat_PHYSICAL 60 (Some 100) 15 0 MT_ALL_ADJACENT_FOES Tag_DAMAGE (Some (secondary 100 None False [(0, - 1, False)] None)) None None),
     (785, move_entry T_GRASS Cat_PHYSICAL 40 (Some 100) 40 0 MT_NORMAL Tag_DAMAGE None None None),
     (786, move_entry T_ELECTRIC Cat_SPECIAL 80 (Some 100) 10 0 MT_ALL_ADJACENT_FOES Tag_DAMAGE None None None),
     (787, move_entry T_GRASS Cat_SPECIAL 80 (Some 100) 10 0 MT_NORMAL Tag_DAMAGE (Some (secondary 100 None False [(3, - 1, False)] None)) None None),
     (788, move_entry T_GRASS Cat_PHYSICAL 80 (Some 100) 10 0 MT_NORMAL Tag_DAMAGE (Some (secondary 100 None False [(1, - 1, False)] None)) None None),
     (789, move_entry T_FAIRY Cat_PHYSICAL 75 (Some 100) 15 0 MT_NORMAL Tag_DAMAGE (Some (secondary 100 None False [(2, - 1, False)] None)) None None),
     (790, move_entry T_FAIRY Cat_SPECIAL 90 (Some 100) 10 0 MT_NORMAL Tag_DAMAGE (Some (secondary 20 None False [] (Some (''confused'')))) None None),
     (791, move_entry T_WATER Cat_STATUS 0 None 10 0 MT_ALLY_SIDE Tag_RECOVERY None None None),
     (792, move_entry T_DARK Cat_STATUS 0 (Some 100) 10 4 MT_SELF Tag_NONE None None None),
     (793, move_entry T_DARK Cat_PHYSICAL 80 None 10 0 MT_NORMAL Tag_DAMAGE None None None),
     (794, move_entry T_FIGHTING Cat_PHYSICAL 150 (Some 100) 5 0 MT_NORMAL Tag_DAMAGE None None None),
     (795, move_entry T_DRAGON Cat_SPECIAL 160 (Some 90) 5 0 MT_NORMAL Tag_DAMAGE None None None),
     (796, move_entry T_STEEL Cat_SPECIAL 140 (Some 100) 5 0 MT_NORMAL Tag_DAMAGE None None None),
     (797, move_entry T_PSYCHIC Cat_SPECIAL 80 (Some 100) 10 0 MT_NORMAL Tag_DAMAGE None None None),
     (798, move_entry T_STEEL Cat_PHYSICAL 130 (Some 100) 5 0 MT_NORMAL Tag_DAMAGE None None None),
     (799, (move_entry T_DRAGON Cat_PHYSICAL 25 (Some 100) 20 0 MT_NORMAL Tag_DAMAGE None None None)\<lparr>md_min_hits := 2, md_max_hits := 5, md_self_stat_changes := [(1, - 1), (4, 1)]\<rparr>),
     (800, move_entry T_ROCK Cat_SPECIAL 120 (Some 100) 10 0 MT_NORMAL Tag_DAMAGE None None None),
     (801, move_entry T_POISON Cat_SPECIAL 90 (Some 100) 10 0 MT_NORMAL Tag_DAMAGE (Some (secondary 20 (Some St_POISON) False [] None)) None None),
     (802, move_entry T_FAIRY Cat_SPECIAL 200 (Some 100) 5 0 MT_ALL_ADJACENT Tag_DAMAGE None None None),
     (803, move_entry T_GRASS Cat_PHYSICAL 55 (Some 100) 20 0 MT_NORMAL Tag_DAMAGE None None None),
     (804, move_entry T_ELECTRIC Cat_SPECIAL 70 (Some 100) 20 0 MT_NORMAL Tag_DAMAGE None None None),
     (805, move_entry T_NORMAL Cat_SPECIAL 50 (Some 100) 10 0 MT_NORMAL Tag_DAMAGE None None None),
     (806, move_entry T_BUG Cat_PHYSICAL 70 (Some 100) 10 0 MT_NORMAL Tag_DAMAGE (Some (secondary 100 None False [(2, - 1, False)] None)) None None),
     (807, move_entry T_FIRE Cat_SPECIAL 70 (Some 100) 5 0 MT_ALL_ADJACENT_FOES Tag_DAMAGE (Some (secondary 100 None False [] None)) None None),
     (808, move_entry T_DARK Cat_PHYSICAL 75 (Some 100) 5 0 MT_NORMAL Tag_DAMAGE None None None),
     (809, move_entry T_GHOST Cat_PHYSICAL 110 (Some 90) 5 0 MT_NORMAL Tag_DAMAGE None None None),
     (811, move_entry T_FIGHTING Cat_STATUS 0 None 10 0 MT_ALLY Tag_SETUP None None None),
     (812, move_entry T_WATER Cat_PHYSICAL 60 (Some 100) 20 0 MT_NORMAL (Tag_DAMAGE OR Tag_PIVOT) None None None),
     (813, (move_entry T_ICE Cat_PHYSICAL 20 (Some 90) 10 0 MT_NORMAL Tag_DAMAGE None None None)\<lparr>md_min_hits := 3, md_max_hits := 3\<rparr>),
     (814, (move_entry T_FLYING Cat_PHYSICAL 40 (Some 100) 10 0 MT_NORMAL Tag_DAMAGE None None None)\<lparr>md_min_hits := 2, md_max_hits := 2\<rparr>),
     (815, move_entry T_GROUND Cat_SPECIAL 70 (Some 100) 10 0 MT_NORMAL Tag_DAMAGE (Some (secondary 30 (Some St_BURN) False [] None)) None None),
     (816, move_entry T_GRASS Cat_STATUS 0 None 10 0 MT_ALLY_SIDE Tag_RECOVERY None None None),
     (817, (move_entry T_DARK Cat_PHYSICAL 75 (Some 100) 5 0 MT_NORMAL Tag_DAMAGE None None None)\<lparr>md_crit_boost := 3\<rparr>),
     (818, (move_entry T_WATER Cat_PHYSICAL 25 (Some 100) 5 0 MT_NORMAL Tag_DAMAGE None None None)\<lparr>md_min_hits := 3, md_max_hits := 3, md_crit_boost := 3\<rparr>),
     (819, move_entry T_ELECTRIC Cat_SPECIAL 80 (Some 100) 15 0 MT_NORMAL Tag_DAMAGE None None None),
     (820, move_entry T_DRAGON Cat_SPECIAL 150 (Some 100) 5 0 MT_ALL_ADJACENT_FOES Tag_DAMAGE None None None),
     (821, move_entry T_PSYCHIC Cat_SPECIAL 90 (Some 100) 10 0 MT_NORMAL Tag_DAMAGE (Some (secondary 10 (Some St_FREEZE) False [] None)) None None),
     (822, move_entry T_DARK Cat_SPECIAL 90 (Some 100) 10 0 MT_ALL_ADJACENT_FOES Tag_DAMAGE (Some (secondary 20 None True [] None)) None None),
     (823, move_entry T_FIGHTING Cat_PHYSICAL 90 (Some 100) 10 0 MT_NORMAL (Tag_DAMAGE OR Tag_CONTACT) (Some (secondary 100 None False [(1, - 1, False)] None)) None None),
     (824, move_entry T_ICE Cat_PHYSICAL 120 (Some 100) 5 0 MT_ALL_ADJACENT_FOES Tag_DAMAGE None None None),
     (825, move_entry T_GHOST Cat_SPECIAL 120 (Some 100) 5 0 MT_ALL_ADJACENT_FOES Tag_DAMAGE None None None),
     (826, move_entry T_PSYCHIC Cat_SPECIAL 80 (Some 100) 5 0 MT_NORMAL Tag_DAMAGE (Some (secondary 100 None False [] None)) None None),
     (827, move_entry T_POISON Cat_PHYSICAL 80 (Some 100) 15 0 MT_NORMAL Tag_DAMAGE (Some (secondary 50 None False [] None)) None None),
     (828, move_entry T_PSYCHIC Cat_PHYSICAL 70 (Some 90) 10 0 MT_NORMAL Tag_DAMAGE (Some (secondary 100 None False [] None)) None None),
     (830, move_entry T_ROCK Cat_PHYSICAL 65 (Some 90) 15 0 MT_NORMAL Tag_DAMAGE None None None),
     (831, move_entry T_FAIRY Cat_SPECIAL 100 (Some 80) 5 0 MT_ALL_ADJACENT_FOES Tag_DAMAGE (Some (secondary 30 None False [] None)) None None),
     (832, move_entry T_PSYCHIC Cat_SPECIAL 70 (Some 90) 10 0 MT_NORMAL Tag_DAMAGE (Some (secondary 100 None False [] None)) None None),
     (833, move_entry T_FIRE Cat_PHYSICAL 120 (Some 100) 10 0 MT_RANDOM_NORMAL Tag_DAMAGE None None None),
     (834, move_entry T_WATER Cat_PHYSICAL 120 (Some 100) 10 0 MT_NORMAL Tag_DAMAGE None None (Some (33, 100))),
     (835, move_entry T_GRASS Cat_SPECIAL 150 (Some 95) 5 0 MT_NORMAL Tag_DAMAGE None None None),
     (836, move_entry T_ICE Cat_PHYSICAL 100 (Some 85) 10 0 MT_NORMAL Tag_DAMAGE (Some (secondary 30 None True [] None)) None None),
     (838, move_entry T_GROUND Cat_PHYSICAL 120 (Some 100) 5 0 MT_NORMAL Tag_DAMAGE None None None),
     (839, move_entry T_POISON Cat_PHYSICAL 60 (Some 100) 10 0 MT_NORMAL Tag_DAMAGE (Some (secondary 50 (Some St_POISON) False [] None)) None None),
     (840, move_entry T_PSYCHIC Cat_SPECIAL 80 (Some 100) 10 0 MT_NORMAL Tag_DAMAGE (Some (secondary 100 None False [] None)) None None),
     (841, move_entry T_GHOST Cat_SPECIAL 75 (Some 100) 10 0 MT_NORMAL Tag_DAMAGE (Some (secondary 100 None False [] None)) None None),
     (843, move_entry T_FIGHTING Cat_PHYSICAL 90 (Some 100) 10 0 MT_NORMAL Tag_DAMAGE (Some (secondary 50 None False [] None)) None None)]"

definition MOVE_ROWS_9 :: "(move \<times> move_data) list" where
  "MOVE_ROWS_9 = [
     (844, move_entry T_GHOST Cat_SPECIAL 60 (Some 100) 15 0 MT_NORMAL Tag_DAMAGE (Some (secondary 30 (Some St_BURN) False [] None)) None None),
     (845, move_entry T_DARK Cat_PHYSICAL 65 (Some 90) 15 0 MT_NORMAL Tag_DAMAGE None None None),
     (846, move_entry T_FLYING Cat_SPECIAL 100 (Some 80) 10 0 MT_ALL_ADJACENT_FOES Tag_DAMAGE (Some (secondary 30 None False [] None)) None None),
     (847, move_entry T_ELECTRIC Cat_SPECIAL 100 (Some 80) 10 0 MT_ALL_ADJACENT_FOES Tag_DAMAGE (Some (secondary 20 (Some St_PARALYSIS) False [] None)) None None),
     (848, move_entry T_GROUND Cat_SPECIAL 100 (Some 80) 10 0 MT_ALL_ADJACENT_FOES Tag_DAMAGE (Some (secondary 20 (Some St_BURN) False [] None)) None None),
     (849, move_entry T_PSYCHIC Cat_STATUS 0 None 5 0 MT_ALLY_SIDE Tag_RECOVERY None None None),
     (851, move_entry T_NORMAL Cat_SPECIAL 80 (Some 100) 10 0 MT_NORMAL Tag_DAMAGE None None None),
     (852, move_entry T_BUG Cat_STATUS 0 None 10 4 MT_SELF Tag_NONE None None None),
     (853, move_entry T_FIGHTING Cat_PHYSICAL 120 (Some 90) 10 0 MT_NORMAL Tag_DAMAGE (Some (secondary 30 None False [] None)) None None),
     (854, move_entry T_GHOST Cat_PHYSICAL 50 (Some 100) 10 0 MT_NORMAL Tag_DAMAGE None None None),
     (855, move_entry T_PSYCHIC Cat_SPECIAL 80 (Some 100) 10 0 MT_NORMAL Tag_DAMAGE (Some (secondary 100 None False [] None)) None None),
     (856, move_entry T_DRAGON Cat_PHYSICAL 80 (Some 100) 10 0 MT_NORMAL Tag_DAMAGE None None None),
     (857, move_entry T_WATER Cat_PHYSICAL 60 (Some 100) 15 1 MT_NORMAL Tag_DAMAGE None None None),
     (859, move_entry T_STEEL Cat_PHYSICAL 100 (Some 100) 5 0 MT_NORMAL Tag_DAMAGE None None None),
     (860, (move_entry T_NORMAL Cat_PHYSICAL 20 (Some 90) 10 0 MT_NORMAL Tag_DAMAGE None None None)\<lparr>md_max_hits := 10\<rparr>),
     (861, move_entry T_ICE Cat_PHYSICAL 80 (Some 100) 15 0 MT_NORMAL Tag_DAMAGE None None None),
     (862, move_entry T_DRAGON Cat_PHYSICAL 120 (Some 100) 5 0 MT_NORMAL Tag_DAMAGE None None None),
     (864, move_entry T_ROCK Cat_PHYSICAL 40 (Some 100) 15 0 MT_NORMAL Tag_DAMAGE (Some (secondary 100 None False [] None)) None None),
     (865, (move_entry T_WATER Cat_PHYSICAL 30 (Some 95) 10 0 MT_NORMAL Tag_DAMAGE None None None)\<lparr>md_min_hits := 3, md_max_hits := 3\<rparr>),
     (866, move_entry T_POISON Cat_PHYSICAL 30 (Some 100) 15 0 MT_ALL_ADJACENT_FOES Tag_DAMAGE (Some (secondary 100 (Some St_POISON) False [] None)) None None),
     (869, move_entry T_DARK Cat_PHYSICAL 85 None 10 0 MT_NORMAL Tag_DAMAGE None None None),
     (870, move_entry T_GRASS Cat_PHYSICAL 70 None 10 0 MT_NORMAL Tag_DAMAGE None None None),
     (871, move_entry T_FIRE Cat_SPECIAL 80 (Some 100) 10 0 MT_NORMAL Tag_DAMAGE (Some (secondary 100 None False [] None)) None None),
     (872, move_entry T_WATER Cat_PHYSICAL 80 (Some 100) 10 0 MT_NORMAL Tag_DAMAGE (Some (secondary 100 None False [] None)) None None),
     (873, move_entry T_NORMAL Cat_PHYSICAL 90 (Some 100) 10 0 MT_NORMAL Tag_DAMAGE None None None),
     (874, move_entry T_STEEL Cat_SPECIAL 120 (Some 100) 5 0 MT_ALL_ADJACENT_FOES Tag_DAMAGE None None None),
     (875, move_entry T_PSYCHIC Cat_PHYSICAL 80 (Some 100) 15 0 MT_NORMAL Tag_DAMAGE None None None),
     (876, move_entry T_WATER Cat_SPECIAL 80 (Some 100) 15 0 MT_NORMAL Tag_DAMAGE None None None),
     (877, move_entry T_DARK Cat_SPECIAL 0 (Some 90) 10 0 MT_NORMAL Tag_NONE None None None),
     (878, move_entry T_FIGHTING Cat_PHYSICAL 100 (Some 100) 5 0 MT_NORMAL Tag_DAMAGE None None None),
     (879, move_entry T_ELECTRIC Cat_SPECIAL 100 (Some 100) 5 0 MT_NORMAL Tag_DAMAGE None None None),
     (880, move_entry T_NORMAL Cat_STATUS 0 None 10 0 MT_SELF Tag_PIVOT None None None),
     (884, move_entry T_BUG Cat_PHYSICAL 50 (Some 100) 20 0 MT_NORMAL Tag_DAMAGE (Some (secondary 100 None False [] None)) None None),
     (885, move_entry T_GRASS Cat_PHYSICAL 50 (Some 100) 20 0 MT_NORMAL Tag_DAMAGE (Some (secondary 100 None False [] None)) None None),
     (886, move_entry T_WATER Cat_SPECIAL 50 (Some 100) 20 0 MT_NORMAL Tag_DAMAGE (Some (secondary 100 None False [] None)) None None),
     (887, move_entry T_NORMAL Cat_PHYSICAL 100 (Some 100) 5 0 MT_NORMAL Tag_DAMAGE None None None),
     (888, move_entry T_PSYCHIC Cat_SPECIAL 40 (Some 100) 10 0 MT_NORMAL Tag_DAMAGE None None None),
     (889, move_entry T_GHOST Cat_PHYSICAL 50 (Some 100) 10 0 MT_NORMAL Tag_DAMAGE None None None),
     (890, move_entry T_FIRE Cat_SPECIAL 120 (Some 100) 5 0 MT_NORMAL Tag_DAMAGE None None None),
     (891, move_entry T_FIRE Cat_PHYSICAL 90 (Some 100) 10 0 MT_NORMAL Tag_DAMAGE None (Some (1, 2)) None),
     (892, move_entry T_ELECTRIC Cat_PHYSICAL 120 (Some 100) 5 0 MT_NORMAL Tag_DAMAGE None None None),
     (893, move_entry T_STEEL Cat_PHYSICAL 160 (Some 100) 5 0 MT_NORMAL Tag_DAMAGE None None None),
     (894, move_entry T_DARK Cat_PHYSICAL 0 (Some 100) 10 0 MT_NORMAL Tag_NONE None None None),
     (895, (move_entry T_WATER Cat_PHYSICAL 70 (Some 100) 20 0 MT_NORMAL Tag_DAMAGE None None None)\<lparr>md_crit_boost := 1\<rparr>),
     (896, move_entry T_FIRE Cat_PHYSICAL 80 (Some 100) 10 0 MT_NORMAL Tag_DAMAGE (Some (secondary 30 (Some St_BURN) False [] None)) None None),
     (897, move_entry T_DARK Cat_PHYSICAL 80 (Some 100) 10 0 MT_NORMAL Tag_DAMAGE (Some (secondary 10 (Some St_SLEEP) False [] None)) None None),
     (898, move_entry T_POISON Cat_PHYSICAL 100 (Some 100) 10 0 MT_NORMAL Tag_DAMAGE (Some (secondary 30 (Some St_POISON) False [] None)) None None),
     (899, move_entry T_FIGHTING Cat_PHYSICAL 100 (Some 100) 10 0 MT_NORMAL Tag_DAMAGE (Some (secondary 30 (Some St_PARALYSIS) False [] None)) None None),
     (900, move_entry T_FAIRY Cat_PHYSICAL 100 (Some 100) 10 0 MT_NORMAL Tag_DAMAGE (Some (secondary 30 None False [] None)) None None),
     (901, move_entry T_NORMAL Cat_SPECIAL 140 (Some 100) 5 0 MT_NORMAL Tag_DAMAGE None None None),
     (902, move_entry T_GRASS Cat_SPECIAL 80 (Some 90) 15 0 MT_ALL_ADJACENT_FOES Tag_DAMAGE (Some (secondary 20 (Some St_BURN) False [] None)) (Some (1, 2)) None),
     (903, move_entry T_GRASS Cat_SPECIAL 60 (Some 85) 10 0 MT_NORMAL Tag_DAMAGE (Some (secondary 100 None False [] None)) None None),
     (904, move_entry T_GRASS Cat_PHYSICAL 100 (Some 100) 10 0 MT_NORMAL Tag_DAMAGE None None None),
     (905, move_entry T_ELECTRIC Cat_SPECIAL 130 (Some 100) 10 0 MT_NORMAL Tag_DAMAGE None None None),
     (906, move_entry T_NORMAL Cat_SPECIAL 120 (Some 100) 5 0 MT_NORMAL Tag_DAMAGE None None None),
     (907, move_entry T_DRAGON Cat_SPECIAL 80 (Some 100) 5 0 MT_NORMAL Tag_DAMAGE None None None),
     (908, move_entry T_FIRE Cat_STATUS 0 None 10 4 MT_SELF Tag_NONE None None None),
     (909, move_entry T_ELECTRIC Cat_SPECIAL 70 (Some 100) 5 1 MT_NORMAL Tag_DAMAGE None None None),
     (910, move_entry T_ROCK Cat_PHYSICAL 95 (Some 100) 5 0 MT_NORMAL Tag_DAMAGE None None None),
     (911, move_entry T_STEEL Cat_SPECIAL 50 None 10 0 MT_NORMAL Tag_DAMAGE None None None),
     (912, move_entry T_STEEL Cat_PHYSICAL 0 (Some 100) 10 0 MT_NORMAL Tag_NONE None None None),
     (914, move_entry T_FAIRY Cat_SPECIAL 80 (Some 100) 10 0 MT_NORMAL Tag_DAMAGE (Some (secondary 100 None False [] None)) None None),
     (915, move_entry T_FIRE Cat_PHYSICAL 75 (Some 100) 10 0 MT_NORMAL Tag_DAMAGE None None None),
     (916, move_entry T_ELECTRIC Cat_PHYSICAL 100 (Some 95) 15 0 MT_NORMAL Tag_DAMAGE None None None),
     (917, move_entry T_PSYCHIC Cat_SPECIAL 75 (Some 100) 10 0 MT_NORMAL Tag_DAMAGE (Some (secondary 100 None False [] None)) None None),
     (918, move_entry T_FIGHTING Cat_PHYSICAL 65 (Some 100) 15 3 MT_NORMAL Tag_DAMAGE (Some (secondary 100 None True [] None)) None None),
     (919, move_entry T_POISON Cat_SPECIAL 100 (Some 100) 5 0 MT_NORMAL Tag_DAMAGE (Some (secondary 50 (Some St_TOXIC) False [] None)) None None),
     (920, move_entry T_DRAGON Cat_SPECIAL 100 (Some 100) 10 0 MT_ALL_ADJACENT_FOES Tag_DAMAGE None None None),
     (1000, move_entry T_BUG Cat_PHYSICAL 10 None 5 0 MT_NORMAL Tag_DAMAGE None None None),
     (1000, move_entry T_WATER Cat_PHYSICAL 10 None 10 0 MT_NORMAL Tag_DAMAGE None None None),
     (1000, move_entry T_FIRE Cat_PHYSICAL 10 None 5 0 MT_NORMAL Tag_DAMAGE None None None),
     (1000, move_entry T_FIGHTING Cat_PHYSICAL 10 None 5 0 MT_NORMAL Tag_DAMAGE None None None),
     (1000, move_entry T_NORMAL Cat_PHYSICAL 10 None 5 0 MT_NORMAL Tag_DAMAGE None None None),
     (1000, move_entry T_DRAGON Cat_PHYSICAL 10 None 5 0 MT_NORMAL Tag_DAMAGE None None None),
     (1000, move_entry T_GRASS Cat_PHYSICAL 160 None 5 0 MT_NORMAL Tag_DAMAGE None None None),
     (1000, move_entry T_FAIRY Cat_PHYSICAL 10 None 5 0 MT_NORMAL Tag_DAMAGE None None None),
     (1000, move_entry T_FIRE Cat_PHYSICAL 160 None 5 0 MT_NORMAL Tag_DAMAGE None None None),
     (1000, move_entry T_WATER Cat_PHYSICAL 10 None 5 0 MT_NORMAL Tag_DAMAGE None None None),
     (1000, move_entry T_NORMAL Cat_PHYSICAL 10 None 5 0 MT_NORMAL Tag_DAMAGE None None None),
     (1000, move_entry T_PSYCHIC Cat_PHYSICAL 10 None 5 0 MT_NORMAL Tag_DAMAGE None None None),
     (1000, move_entry T_WATER Cat_PHYSICAL 160 None 5 0 MT_NORMAL Tag_DAMAGE None None None),
     (1000, move_entry T_POISON Cat_PHYSICAL 10 None 5 0 MT_NORMAL Tag_DAMAGE None None None),
     (1000, move_entry T_STEEL Cat_PHYSICAL 10 None 5 0 MT_NORMAL Tag_DAMAGE None None None),
     (1000, move_entry T_DARK Cat_PHYSICAL 10 None 5 0 MT_NORMAL Tag_DAMAGE None None None),
     (1000, move_entry T_WATER Cat_PHYSICAL 10 None 5 0 MT_NORMAL Tag_DAMAGE None None None),
     (1000, move_entry T_NORMAL Cat_PHYSICAL 10 None 5 0 MT_NORMAL Tag_DAMAGE None None None),
     (1000, move_entry T_ICE Cat_PHYSICAL 10 None 5 0 MT_NORMAL Tag_DAMAGE None None None),
     (1000, move_entry T_GROUND Cat_PHYSICAL 10 None 5 0 MT_NORMAL Tag_DAMAGE None None None),
     (1000, move_entry T_FAIRY Cat_PHYSICAL 10 None 5 0 MT_NORMAL Tag_DAMAGE None None None),
     (1000, move_entry T_DARK Cat_PHYSICAL 10 None 5 0 MT_NORMAL Tag_DAMAGE None None None),
     (1000, move_entry T_STEEL Cat_PHYSICAL 10 None 5 0 MT_NORMAL Tag_DAMAGE None None None)]"

definition MOVE_ROWS_10 :: "(move \<times> move_data) list" where
  "MOVE_ROWS_10 = [
     (1000, move_entry T_WATER Cat_PHYSICAL 10 None 5 0 MT_NORMAL Tag_DAMAGE None None None),
     (1000, move_entry T_ELECTRIC Cat_PHYSICAL 10 None 10 0 MT_NORMAL Tag_DAMAGE None None None),
     (1000, move_entry T_GRASS Cat_PHYSICAL 10 None 10 0 MT_NORMAL Tag_DAMAGE None None None),
     (1000, move_entry T_GRASS Cat_PHYSICAL 10 None 10 0 MT_NORMAL Tag_DAMAGE None None None),
     (1000, move_entry T_GHOST Cat_PHYSICAL 10 None 10 0 MT_NORMAL Tag_DAMAGE None None None),
     (1000, move_entry T_GRASS Cat_PHYSICAL 10 None 10 0 MT_NORMAL Tag_DAMAGE None None None),
     (1000, move_entry T_ROCK Cat_PHYSICAL 10 None 10 0 MT_NORMAL Tag_DAMAGE None None None),
     (1000, move_entry T_ELECTRIC Cat_PHYSICAL 10 None 10 0 MT_NORMAL Tag_DAMAGE None None None),
     (1000, move_entry T_FIRE Cat_PHYSICAL 10 None 10 0 MT_NORMAL Tag_DAMAGE None None None),
     (1000, move_entry T_FLYING Cat_PHYSICAL 10 None 10 0 MT_NORMAL Tag_DAMAGE None None None)]"

definition MOVE_ROWS :: "(move \<times> move_data) list" where
  "MOVE_ROWS = concat [MOVE_ROWS_1, MOVE_ROWS_2, MOVE_ROWS_3, MOVE_ROWS_4, MOVE_ROWS_5, MOVE_ROWS_6, MOVE_ROWS_7, MOVE_ROWS_8,
     MOVE_ROWS_9, MOVE_ROWS_10]"

section \<open>Tags added by loops\<close>

definition CONTACT_MOVES :: "move list" where
  "CONTACT_MOVES = [709, 512, 332, 677, 453, 872, 401, 292, 372, 310, 419, 853, 20, 44,
     891, 299, 776, 34, 754, 340, 413, 784, 280, 693, 450, 418, 845, 498,
     509, 128, 370, 878, 4, 894, 132, 68, 343, 152, 238, 440, 242, 306,
     462, 15, 663, 91, 827, 291, 146, 458, 742, 24, 892, 3, 38, 620,
     337, 692, 407, 525, 409, 577, 65, 529, 530, 814, 223, 879, 283, 245,
     263, 252, 206, 185, 565, 424, 680, 7, 660, 755, 175, 488, 172, 394,
     812, 19, 560, 264, 395, 492, 218, 31, 210, 154, 544, 416, 862, 447,
     803, 12, 360, 359, 912, 543, 457, 29, 838, 531, 535, 484, 667, 136,
     610, 30, 32, 532, 887, 158, 301, 423, 665, 8, 861, 611, 442, 231,
     746, 857, 26, 2, 282, 869, 808, 387, 348, 141, 122, 710, 67, 490,
     679, 183, 25, 5, 224, 232, 309, 910, 866, 718, 302, 400, 609, 200,
     371, 64, 80, 566, 583, 365, 305, 398, 342, 860, 884, 1, 681, 438,
     612, 875, 706, 828, 386, 228, 98, 99, 889, 873, 229, 534, 514, 216,
     279, 179, 431, 249, 27, 205, 533, 10, 69, 421, 325, 425, 806, 130,
     507, 327, 21, 163, 684, 265, 779, 669, 209, 712, 859, 789, 537, 798,
     211, 23, 707, 830, 480, 70, 165, 66, 389, 713, 162, 916, 276, 818,
     33, 541, 36, 915, 168, 37, 675, 422, 9, 885, 813, 865, 167, 688,
     376, 369, 918, 557, 22, 11, 233, 344, 358, 127, 834, 817, 528, 17,
     452, 35, 378, 404, 428, 716]"

definition SOUND_MOVES :: "string list" where
  "SOUND_MOVES = [''HYPER_VOICE'', ''BUG_BUZZ'', ''BOOMBURST'', ''CHATTER'', ''DISARMING_VOICE'', ''ECHOED_VOICE'',
     ''GRASS_WHISTLE'', ''GROWL'', ''HEAL_BELL'', ''NOBLE_ROAR'', ''OVERDRIVE'', ''PERISH_SONG'',
     ''RELIC_SONG'', ''ROAR'', ''ROUND'', ''SCREECH'', ''SING'', ''SNARL'',
     ''SNORE'', ''SUPERSONIC'', ''UPROAR'', ''SPARKLING_ARIA'', ''EERIE_IMPULSE'', ''CLANGING_SCALES'',
     ''CLANGOROUS_SOUL'', ''PARTING_SHOT'', ''METAL_SOUND'']"

definition BULLET_MOVES :: "string list" where
  "BULLET_MOVES = [''BULLET_SEED'', ''EGG_BOMB'', ''ELECTRO_BALL'', ''ENERGY_BALL'', ''FOCUS_BLAST'', ''GYRO_BALL'',
     ''MAGNET_BOMB'', ''MUD_BOMB'', ''OCTAZOOKA'', ''POLLEN_PUFF'', ''ROCK_BLAST'', ''ROCK_WRECKER'',
     ''SEED_BOMB'', ''SHADOW_BALL'', ''SLUDGE_BOMB'', ''WEATHER_BALL'', ''AURA_SPHERE'', ''PYRO_BALL'']"

definition PULSE_MOVES :: "string list" where
  "PULSE_MOVES = [''AURA_SPHERE'', ''DARK_PULSE'', ''DRAGON_PULSE'', ''HEAL_PULSE'', ''ORIGIN_PULSE'', ''WATER_PULSE'']"

definition BITING_MOVES :: "string list" where
  "BITING_MOVES = [''BITE'', ''CRUNCH'', ''FIRE_FANG'', ''ICE_FANG'', ''THUNDER_FANG'', ''POISON_FANG'',
     ''PSYCHIC_FANGS'', ''HYPER_FANG'', ''JAW_LOCK'', ''FISHIOUS_REND'']"

definition PUNCHING_EXTRA :: "string list" where
  "PUNCHING_EXTRA = [''FORCE_PALM'', ''WAKE_UP_SLAP'', ''DIZZY_PUNCH'', ''WICKED_BLOW'']"

definition SLICING_MOVES :: "string list" where
  "SLICING_MOVES = [''AIR_SLASH'', ''NIGHT_SLASH'', ''LEAF_BLADE'', ''SLASH'', ''PSYCHO_CUT'', ''RAZOR_SHELL'',
     ''SACRED_SWORD'', ''SMART_STRIKE'', ''X_SCISSOR'', ''CROSS_POISON'', ''CEASELESS_EDGE'', ''AQUA_CUTTER'']"

text \<open>One round of a loop: a move without data is passed over.\<close>

definition add_tag :: "int \<Rightarrow> (move \<Rightarrow> move_data option) \<Rightarrow> move \<Rightarrow> (move \<Rightarrow> move_data option)" where
  "add_tag tag d m = (case d m of None \<Rightarrow> d | Some x \<Rightarrow> d(m \<mapsto> x\<lparr>md_tags := md_tags x OR tag\<rparr>))"

text \<open>The names that are members of the enum, \<open>hasattr(Move, name)\<close>.\<close>

definition named_moves :: "string list \<Rightarrow> move list" where
  "named_moves ns = concat (map (\<lambda>n. case map_of MOVE_MEMBERS n of None \<Rightarrow> [] | Some v \<Rightarrow> [v]) ns)"

definition tag_loops :: "(int \<times> move list) list" where
  "tag_loops = [(Tag_CONTACT, CONTACT_MOVES), (Tag_SOUND, named_moves SOUND_MOVES), (Tag_BULLET, named_moves BULLET_MOVES),
     (Tag_PULSE, named_moves PULSE_MOVES), (Tag_BITING, named_moves BITING_MOVES), (Tag_PUNCHING, named_moves PUNCHING_EXTRA),
     (Tag_SLICING, named_moves SLICING_MOVES)]"

definition run_tag_loops :: "(int \<times> move list) list \<Rightarrow> (move \<Rightarrow> move_data option) \<Rightarrow> (move \<Rightarrow> move_data option)" where
  "run_tag_loops loops d = foldl (\<lambda>d l. foldl (add_tag (fst l)) d (snd l)) d loops"

definition MOVE_DATA :: "move \<Rightarrow> move_data option" where
  "MOVE_DATA = run_tag_loops tag_loops (map_of (rev MOVE_ROWS))"

section \<open>Rows are in range\<close>

definition chance_ok :: "secondary_effect option \<Rightarrow> bool" where
  "chance_ok s = (case s of None \<Rightarrow> True | Some e \<Rightarrow> 0 < se_chance e \<and> se_chance e \<le> 100)"

definition part_ok :: "(int \<times> int) option \<Rightarrow> bool" where
  "part_ok f = (case f of None \<Rightarrow> True | Some (n, d) \<Rightarrow> 0 < n \<and> n \<le> d)"

definition accuracy_ok :: "int option \<Rightarrow> bool" where
  "accuracy_ok a = (case a of None \<Rightarrow> True | Some p \<Rightarrow> 0 < p \<and> p \<le> 100)"

definition move_data_ok :: "move_data \<Rightarrow> bool" where
  "move_data_ok d \<longleftrightarrow> 0 \<le> md_base_power d \<and> md_base_power d \<le> 250 \<and> accuracy_ok (md_accuracy d) \<and> 0 \<le> md_pp d \<and> md_pp d \<le> 40
     \<and> - 7 \<le> md_priority d \<and> md_priority d \<le> 5 \<and> chance_ok (md_secondary d) \<and> chance_ok (md_secondary2 d)
     \<and> part_ok (md_drain d) \<and> part_ok (md_recoil d) \<and> 1 \<le> md_min_hits d \<and> md_min_hits d \<le> md_max_hits d \<and> md_max_hits d \<le> 10"

definition move_row_ok :: "move \<times> move_data \<Rightarrow> bool" where
  "move_row_ok r \<longleftrightarrow> move_data_ok (snd r) \<and> (fst r = 0 \<or> 0 < md_pp (snd r))"

lemma move_rows_1_ok: "list_all move_row_ok MOVE_ROWS_1"
  by code_simp

lemma move_rows_2_ok: "list_all move_row_ok MOVE_ROWS_2"
  by code_simp

lemma move_rows_3_ok: "list_all move_row_ok MOVE_ROWS_3"
  by code_simp

lemma move_rows_4_ok: "list_all move_row_ok MOVE_ROWS_4"
  by code_simp

lemma move_rows_5_ok: "list_all move_row_ok MOVE_ROWS_5"
  by code_simp

lemma move_rows_6_ok: "list_all move_row_ok MOVE_ROWS_6"
  by code_simp

lemma move_rows_7_ok: "list_all move_row_ok MOVE_ROWS_7"
  by code_simp

lemma move_rows_8_ok: "list_all move_row_ok MOVE_ROWS_8"
  by code_simp

lemma move_rows_9_ok: "list_all move_row_ok MOVE_ROWS_9"
  by code_simp

lemma move_rows_10_ok: "list_all move_row_ok MOVE_ROWS_10"
  by code_simp

lemmas move_rows_ok = move_rows_1_ok move_rows_2_ok move_rows_3_ok move_rows_4_ok move_rows_5_ok move_rows_6_ok move_rows_7_ok move_rows_8_ok move_rows_9_ok move_rows_10_ok

lemma move_row_in_range: "r \<in> set MOVE_ROWS \<Longrightarrow> move_row_ok r"
  using move_rows_ok by (auto simp: MOVE_ROWS_def list_all_iff)

lemma move_rows_members: "map snd MOVE_MEMBERS = map fst MOVE_ROWS"
  by code_simp

section \<open>What the loops do\<close>

text \<open>The bits the loops add to a move.\<close>

definition added_tags :: "(int \<times> move list) list \<Rightarrow> move \<Rightarrow> int" where
  "added_tags loops m = foldl (OR) 0 (map fst (filter (\<lambda>l. m \<in> set (snd l)) loops))"

lemma add_tag_loop:
  "foldl (add_tag tag) d ms m = map_option (\<lambda>x. if m \<in> set ms then x\<lparr>md_tags := md_tags x OR tag\<rparr> else x) (d m)"
proof (induction ms arbitrary: d)
  case Nil
  then show ?case by (simp add: option.map_ident)
next
  case (Cons k ms)
  have "add_tag tag d k m = (if k = m then map_option (\<lambda>x. x\<lparr>md_tags := md_tags x OR tag\<rparr>) (d m) else d m)"
    by (auto simp: add_tag_def split: option.splits)
  then show ?case by (cases "d m") (auto simp: Cons.IH ac_simps)
qed

lemma or_loop: "foldl (OR) (a :: int) ts = a OR foldl (OR) 0 ts"
proof (induction ts arbitrary: a)
  case (Cons t ts)
  show ?case using Cons[of "a OR t"] Cons[of t] by (simp add: ac_simps)
qed simp

lemma run_tag_loops_exact: "run_tag_loops loops d m = map_option (\<lambda>x. x\<lparr>md_tags := md_tags x OR added_tags loops m\<rparr>) (d m)"
proof (induction loops arbitrary: d)
  case Nil
  then show ?case by (simp add: run_tag_loops_def added_tags_def option.map_ident)
next
  case (Cons l loops)
  have step: "run_tag_loops (l # loops) d m = run_tag_loops loops (foldl (add_tag (fst l)) d (snd l)) m"
    by (simp add: run_tag_loops_def)
  have "added_tags (l # loops) m = (if m \<in> set (snd l) then fst l OR added_tags loops m else added_tags loops m)"
    using or_loop[of "fst l"] by (simp add: added_tags_def)
  then show ?case unfolding step Cons.IH add_tag_loop by (cases "d m") (auto simp: ac_simps)
qed

lemma MOVE_DATA_row:
  assumes "MOVE_DATA m = Some d"
  obtains d0 where "(m, d0) \<in> set MOVE_ROWS" "d = d0\<lparr>md_tags := md_tags d0 OR added_tags tag_loops m\<rparr>"
proof -
  from assms obtain d0 where "map_of (rev MOVE_ROWS) m = Some d0" "d = d0\<lparr>md_tags := md_tags d0 OR added_tags tag_loops m\<rparr>"
    by (auto simp: MOVE_DATA_def run_tag_loops_exact)
  then show ?thesis using that map_of_SomeD[of "rev MOVE_ROWS" m d0] by simp
qed

section \<open>Properties of the table\<close>

text \<open>
  The move table is total and in range. Exactly the members of the enum have data, so a lookup by a member never fails;
  every entry has a base power, an accuracy, PP, a priority, chances, fractions and hit counts within their bounds; and every
  move but \<open>NONE\<close> has PP. The loops over the tag sets change nothing but the tags, and add to a move the tags of exactly the
  sets it is in.
\<close>

theorem move_table_sound:
  "(MOVE_DATA m \<noteq> None) = (m \<in> snd ` set MOVE_MEMBERS)
    \<and> pred_option (\<lambda>d. move_data_ok d \<and> (m = 0 \<or> 0 < md_pp d)) (MOVE_DATA m)
    \<and> MOVE_DATA m = map_option (\<lambda>d. d\<lparr>md_tags := md_tags d OR added_tags tag_loops m\<rparr>) (map_of (rev MOVE_ROWS) m)"
proof -
  have "snd ` set MOVE_MEMBERS = fst ` set MOVE_ROWS" by (metis move_rows_members image_set)
  then have "(MOVE_DATA m \<noteq> None) = (m \<in> snd ` set MOVE_MEMBERS)"
    by (simp add: MOVE_DATA_def run_tag_loops_exact map_of_eq_None_iff)
  moreover have "move_data_ok d \<and> (m = 0 \<or> 0 < md_pp d)" if "MOVE_DATA m = Some d" for d
    using that
  proof (rule MOVE_DATA_row)
    fix d0
    assume "(m, d0) \<in> set MOVE_ROWS" "d = d0\<lparr>md_tags := md_tags d0 OR added_tags tag_loops m\<rparr>"
    then show ?thesis using move_row_in_range[of "(m, d0)"] by (simp add: move_row_ok_def move_data_ok_def)
  qed
  ultimately show ?thesis by (auto simp: pred_option_def MOVE_DATA_def run_tag_loops_exact)
qed

end
