(* ===== verification/SpeciesTable.thy ===== *)
theory SpeciesTable
  imports EnumTables
begin

text \<open>
  The tables \<open>SPECIES_DATA\<close> and \<open>SPECIES_WEIGHTS\<close> of \<open>data/species.py\<close>. Every row of \<open>SPECIES_DATA\<close> leaves the weight at its default.
\<close>

section \<open>Rows\<close>

definition species_entry :: "ptype list \<Rightarrow> int \<Rightarrow> int \<Rightarrow> int \<Rightarrow> int \<Rightarrow> int \<Rightarrow> int \<Rightarrow> rat option \<Rightarrow> growth_rate \<Rightarrow> int \<Rightarrow> species_data" where
  "species_entry types hp atk def spa spd spe male growth yield =
     \<lparr>sp_types = types, sp_base_hp = hp, sp_base_atk = atk, sp_base_def = def, sp_base_spa = spa, sp_base_spd = spd, sp_base_spe = spe,
      sp_male_ratio = male, sp_weight_kg = 0, sp_growth_rate = growth, sp_exp_yield = yield\<rparr>"

definition SPECIES_ROWS_1 :: "(species \<times> species_data) list" where
  "SPECIES_ROWS_1 = [
     (1, species_entry [T_GRASS, T_POISON] 45 49 49 65 65 45 (Some (7 / 8)) MEDIUM_SLOW 64),
     (2, species_entry [T_GRASS, T_POISON] 60 62 63 80 80 60 (Some (7 / 8)) MEDIUM_SLOW 142),
     (3, species_entry [T_GRASS, T_POISON] 80 82 83 100 100 80 (Some (7 / 8)) MEDIUM_SLOW 263),
     (906, species_entry [T_GRASS, T_POISON] 80 100 123 122 120 80 (Some (7 / 8)) MEDIUM_SLOW 313),
     (4, species_entry [T_FIRE] 39 52 43 60 50 65 (Some (7 / 8)) MEDIUM_SLOW 62),
     (5, species_entry [T_FIRE] 58 64 58 80 65 80 (Some (7 / 8)) MEDIUM_SLOW 142),
     (6, species_entry [T_FIRE, T_FLYING] 78 84 78 109 85 100 (Some (7 / 8)) MEDIUM_SLOW 267),
     (907, species_entry [T_FIRE, T_DRAGON] 78 130 111 130 85 100 (Some (7 / 8)) MEDIUM_SLOW 317),
     (908, species_entry [T_FIRE, T_FLYING] 78 104 78 159 115 100 (Some (7 / 8)) MEDIUM_SLOW 317),
     (7, species_entry [T_WATER] 44 48 65 50 64 43 (Some (7 / 8)) MEDIUM_SLOW 63),
     (8, species_entry [T_WATER] 59 63 80 65 80 58 (Some (7 / 8)) MEDIUM_SLOW 142),
     (9, species_entry [T_WATER] 79 83 100 85 105 78 (Some (7 / 8)) MEDIUM_SLOW 265),
     (909, species_entry [T_WATER] 79 103 120 135 115 78 (Some (7 / 8)) MEDIUM_SLOW 315),
     (10, species_entry [T_BUG] 45 30 35 20 20 45 (Some (1 / 2)) MEDIUM_FAST 39),
     (11, species_entry [T_BUG] 50 20 55 25 25 30 (Some (1 / 2)) MEDIUM_FAST 72),
     (12, species_entry [T_BUG, T_FLYING] 60 45 50 90 80 70 (Some (1 / 2)) MEDIUM_FAST 198),
     (13, species_entry [T_BUG, T_POISON] 40 35 30 20 20 50 (Some (1 / 2)) MEDIUM_FAST 39),
     (14, species_entry [T_BUG, T_POISON] 45 25 50 25 25 35 (Some (1 / 2)) MEDIUM_FAST 72),
     (15, species_entry [T_BUG, T_POISON] 65 90 40 45 80 75 (Some (1 / 2)) MEDIUM_FAST 198),
     (910, species_entry [T_BUG, T_POISON] 65 150 40 15 80 145 (Some (1 / 2)) MEDIUM_FAST 248),
     (16, species_entry [T_NORMAL, T_FLYING] 40 45 40 35 35 56 (Some (1 / 2)) MEDIUM_SLOW 50),
     (17, species_entry [T_NORMAL, T_FLYING] 63 60 55 50 50 71 (Some (1 / 2)) MEDIUM_SLOW 122),
     (18, species_entry [T_NORMAL, T_FLYING] 83 80 75 70 70 101 (Some (1 / 2)) MEDIUM_SLOW 240),
     (911, species_entry [T_NORMAL, T_FLYING] 83 80 80 135 80 121 (Some (1 / 2)) MEDIUM_SLOW 290),
     (19, species_entry [T_NORMAL] 30 56 35 25 35 72 (Some (1 / 2)) MEDIUM_FAST 51),
     (956, species_entry [T_DARK, T_NORMAL] 30 56 35 25 35 72 (Some (1 / 2)) MEDIUM_FAST 51),
     (20, species_entry [T_NORMAL] 55 81 60 50 70 97 (Some (1 / 2)) MEDIUM_FAST 145),
     (957, species_entry [T_DARK, T_NORMAL] 75 71 70 40 80 77 (Some (1 / 2)) MEDIUM_FAST 145),
     (21, species_entry [T_NORMAL, T_FLYING] 40 60 30 31 31 70 (Some (1 / 2)) MEDIUM_FAST 52),
     (22, species_entry [T_NORMAL, T_FLYING] 65 90 65 61 61 100 (Some (1 / 2)) MEDIUM_FAST 155),
     (23, species_entry [T_POISON] 35 60 44 40 54 55 (Some (1 / 2)) MEDIUM_FAST 58),
     (24, species_entry [T_POISON] 60 95 69 65 79 80 (Some (1 / 2)) MEDIUM_FAST 157),
     (25, species_entry [T_ELECTRIC] 35 55 40 50 50 90 (Some (1 / 2)) MEDIUM_FAST 112),
     (1009, species_entry [T_ELECTRIC] 35 55 40 50 50 90 (Some 0) MEDIUM_FAST 112),
     (1010, species_entry [T_ELECTRIC] 35 55 40 50 50 90 (Some 0) MEDIUM_FAST 112),
     (1011, species_entry [T_ELECTRIC] 35 55 40 50 50 90 (Some 0) MEDIUM_FAST 112),
     (1012, species_entry [T_ELECTRIC] 35 55 40 50 50 90 (Some 0) MEDIUM_FAST 112),
     (1013, species_entry [T_ELECTRIC] 35 55 40 50 50 90 (Some 0) MEDIUM_FAST 112),
     (1014, species_entry [T_ELECTRIC] 35 55 40 50 50 90 (Some 0) MEDIUM_FAST 112),
     (1015, species_entry [T_ELECTRIC] 35 55 40 50 50 90 (Some 1) MEDIUM_FAST 112),
     (1016, species_entry [T_ELECTRIC] 35 55 40 50 50 90 (Some 1) MEDIUM_FAST 112),
     (1017, species_entry [T_ELECTRIC] 35 55 40 50 50 90 (Some 1) MEDIUM_FAST 112),
     (1018, species_entry [T_ELECTRIC] 35 55 40 50 50 90 (Some 1) MEDIUM_FAST 112),
     (1019, species_entry [T_ELECTRIC] 35 55 40 50 50 90 (Some 1) MEDIUM_FAST 112),
     (1020, species_entry [T_ELECTRIC] 35 55 40 50 50 90 (Some 1) MEDIUM_FAST 112),
     (1021, species_entry [T_ELECTRIC] 35 55 40 50 50 90 (Some 1) MEDIUM_FAST 151),
     (1022, species_entry [T_ELECTRIC] 35 55 40 50 50 90 (Some 1) MEDIUM_FAST 112),
     (26, species_entry [T_ELECTRIC] 60 90 55 90 80 110 (Some (1 / 2)) MEDIUM_FAST 243),
     (958, species_entry [T_ELECTRIC, T_PSYCHIC] 60 85 50 95 85 110 (Some (1 / 2)) MEDIUM_FAST 243),
     (27, species_entry [T_GROUND] 50 75 85 20 30 40 (Some (1 / 2)) MEDIUM_FAST 60),
     (959, species_entry [T_ICE, T_STEEL] 50 75 90 10 35 40 (Some (1 / 2)) MEDIUM_FAST 60),
     (28, species_entry [T_GROUND] 75 100 110 45 55 65 (Some (1 / 2)) MEDIUM_FAST 158),
     (960, species_entry [T_ICE, T_STEEL] 75 100 120 25 65 65 (Some (1 / 2)) MEDIUM_FAST 158),
     (29, species_entry [T_POISON] 55 47 52 40 40 41 (Some 0) MEDIUM_SLOW 55),
     (30, species_entry [T_POISON] 70 62 67 55 55 56 (Some 0) MEDIUM_SLOW 128),
     (31, species_entry [T_POISON, T_GROUND] 90 92 87 75 85 76 (Some 0) MEDIUM_SLOW 253),
     (32, species_entry [T_POISON] 46 57 40 40 40 50 (Some 1) MEDIUM_SLOW 55),
     (33, species_entry [T_POISON] 61 72 57 55 55 65 (Some 1) MEDIUM_SLOW 128),
     (34, species_entry [T_POISON, T_GROUND] 81 102 77 85 75 85 (Some 1) MEDIUM_SLOW 253),
     (35, species_entry [T_FAIRY] 70 45 48 60 65 35 (Some (1 / 4)) FAST 113),
     (36, species_entry [T_FAIRY] 95 70 73 95 90 60 (Some (1 / 4)) FAST 242),
     (37, species_entry [T_FIRE] 38 41 40 50 65 65 (Some (1 / 4)) MEDIUM_FAST 60),
     (961, species_entry [T_ICE] 38 41 40 50 65 65 (Some (1 / 4)) MEDIUM_FAST 60),
     (38, species_entry [T_FIRE] 73 76 75 81 100 100 (Some (1 / 4)) MEDIUM_FAST 177),
     (962, species_entry [T_ICE, T_FAIRY] 73 67 75 81 100 109 (Some (1 / 4)) MEDIUM_FAST 177),
     (39, species_entry [T_NORMAL, T_FAIRY] 115 45 20 45 25 20 (Some (1 / 4)) FAST 95),
     (40, species_entry [T_NORMAL, T_FAIRY] 140 70 45 85 50 45 (Some (1 / 4)) FAST 218),
     (41, species_entry [T_POISON, T_FLYING] 40 45 35 30 40 55 (Some (1 / 2)) MEDIUM_FAST 49),
     (42, species_entry [T_POISON, T_FLYING] 75 80 70 65 75 90 (Some (1 / 2)) MEDIUM_FAST 159),
     (43, species_entry [T_GRASS, T_POISON] 45 50 55 75 65 30 (Some (1 / 2)) MEDIUM_SLOW 64),
     (44, species_entry [T_GRASS, T_POISON] 60 65 70 85 75 40 (Some (1 / 2)) MEDIUM_SLOW 138),
     (45, species_entry [T_GRASS, T_POISON] 75 80 85 110 90 50 (Some (1 / 2)) MEDIUM_SLOW 245),
     (46, species_entry [T_BUG, T_GRASS] 35 70 55 45 55 25 (Some (1 / 2)) MEDIUM_FAST 57),
     (47, species_entry [T_BUG, T_GRASS] 60 95 80 60 80 30 (Some (1 / 2)) MEDIUM_FAST 142),
     (48, species_entry [T_BUG, T_POISON] 60 55 50 40 55 45 (Some (1 / 2)) MEDIUM_FAST 61),
     (49, species_entry [T_BUG, T_POISON] 70 65 60 90 75 90 (Some (1 / 2)) MEDIUM_FAST 158),
     (50, species_entry [T_GROUND] 10 55 25 35 45 95 (Some (1 / 2)) MEDIUM_FAST 53),
     (963, species_entry [T_GROUND, T_STEEL] 10 55 30 35 45 90 (Some (1 / 2)) MEDIUM_FAST 53),
     (51, species_entry [T_GROUND] 35 100 50 50 70 120 (Some (1 / 2)) MEDIUM_FAST 149),
     (964, species_entry [T_GROUND, T_STEEL] 35 100 60 50 70 110 (Some (1 / 2)) MEDIUM_FAST 149),
     (52, species_entry [T_NORMAL] 40 45 35 40 40 90 (Some (1 / 2)) MEDIUM_FAST 58),
     (965, species_entry [T_DARK] 40 35 35 50 40 90 (Some (1 / 2)) MEDIUM_FAST 58),
     (974, species_entry [T_STEEL] 50 65 55 40 40 40 (Some (1 / 2)) MEDIUM_FAST 58),
     (53, species_entry [T_NORMAL] 65 70 60 65 65 115 (Some (1 / 2)) MEDIUM_FAST 154),
     (966, species_entry [T_DARK] 65 60 60 75 65 115 (Some (1 / 2)) MEDIUM_FAST 154),
     (54, species_entry [T_WATER] 50 52 48 65 50 55 (Some (1 / 2)) MEDIUM_FAST 64),
     (55, species_entry [T_WATER] 80 82 78 95 80 85 (Some (1 / 2)) MEDIUM_FAST 175),
     (56, species_entry [T_FIGHTING] 40 80 35 35 45 70 (Some (1 / 2)) MEDIUM_FAST 61),
     (57, species_entry [T_FIGHTING] 65 105 60 60 70 95 (Some (1 / 2)) MEDIUM_FAST 159),
     (58, species_entry [T_FIRE] 55 70 45 70 50 60 (Some (3 / 4)) SLOW 70),
     (993, species_entry [T_FIRE, T_ROCK] 60 75 45 65 50 55 (Some (3 / 4)) SLOW 70),
     (59, species_entry [T_FIRE] 90 110 80 100 80 95 (Some (3 / 4)) SLOW 194),
     (994, species_entry [T_FIRE, T_ROCK] 95 115 80 95 80 90 (Some (3 / 4)) SLOW 194),
     (60, species_entry [T_WATER] 40 50 40 40 40 90 (Some (1 / 2)) MEDIUM_SLOW 60),
     (61, species_entry [T_WATER] 65 65 65 50 50 90 (Some (1 / 2)) MEDIUM_SLOW 135),
     (62, species_entry [T_WATER, T_FIGHTING] 90 95 95 70 90 70 (Some (1 / 2)) MEDIUM_SLOW 255),
     (63, species_entry [T_PSYCHIC] 25 20 15 105 55 90 (Some (3 / 4)) MEDIUM_SLOW 62),
     (64, species_entry [T_PSYCHIC] 40 35 30 120 70 105 (Some (3 / 4)) MEDIUM_SLOW 140),
     (65, species_entry [T_PSYCHIC] 55 50 45 135 95 120 (Some (3 / 4)) MEDIUM_SLOW 250),
     (912, species_entry [T_PSYCHIC] 55 50 65 175 105 150 (Some (3 / 4)) MEDIUM_SLOW 300),
     (66, species_entry [T_FIGHTING] 70 80 50 35 35 35 (Some (3 / 4)) MEDIUM_SLOW 61),
     (67, species_entry [T_FIGHTING] 80 100 70 50 60 45 (Some (3 / 4)) MEDIUM_SLOW 142),
     (68, species_entry [T_FIGHTING] 90 130 80 65 85 55 (Some (3 / 4)) MEDIUM_SLOW 253),
     (69, species_entry [T_GRASS, T_POISON] 50 75 35 70 30 40 (Some (1 / 2)) MEDIUM_SLOW 60),
     (70, species_entry [T_GRASS, T_POISON] 65 90 50 85 45 55 (Some (1 / 2)) MEDIUM_SLOW 137),
     (71, species_entry [T_GRASS, T_POISON] 80 105 65 100 70 70 (Some (1 / 2)) MEDIUM_SLOW 245),
     (72, species_entry [T_WATER, T_POISON] 40 40 35 50 100 70 (Some (1 / 2)) SLOW 67),
     (73, species_entry [T_WATER, T_POISON] 80 70 65 80 120 100 (Some (1 / 2)) SLOW 180),
     (74, species_entry [T_ROCK, T_GROUND] 40 80 100 30 30 20 (Some (1 / 2)) MEDIUM_SLOW 60),
     (967, species_entry [T_ROCK, T_ELECTRIC] 40 80 100 30 30 20 (Some (1 / 2)) MEDIUM_SLOW 60),
     (75, species_entry [T_ROCK, T_GROUND] 55 95 115 45 45 35 (Some (1 / 2)) MEDIUM_SLOW 137),
     (968, species_entry [T_ROCK, T_ELECTRIC] 55 95 115 45 45 35 (Some (1 / 2)) MEDIUM_SLOW 137),
     (76, species_entry [T_ROCK, T_GROUND] 80 120 130 55 65 45 (Some (1 / 2)) MEDIUM_SLOW 248),
     (969, species_entry [T_ROCK, T_ELECTRIC] 80 120 130 55 65 45 (Some (1 / 2)) MEDIUM_SLOW 248),
     (77, species_entry [T_FIRE] 50 85 55 65 65 90 (Some (1 / 2)) MEDIUM_FAST 82),
     (975, species_entry [T_PSYCHIC] 50 85 55 65 65 90 (Some (1 / 2)) MEDIUM_FAST 82),
     (78, species_entry [T_FIRE] 65 100 70 80 80 105 (Some (1 / 2)) MEDIUM_FAST 175),
     (976, species_entry [T_PSYCHIC, T_FAIRY] 65 100 70 80 80 105 (Some (1 / 2)) MEDIUM_FAST 175),
     (79, species_entry [T_WATER, T_PSYCHIC] 90 65 65 40 40 15 (Some (1 / 2)) MEDIUM_FAST 63),
     (977, species_entry [T_PSYCHIC] 90 65 65 40 40 15 (Some (1 / 2)) MEDIUM_FAST 63),
     (80, species_entry [T_WATER, T_PSYCHIC] 95 75 110 100 80 30 (Some (1 / 2)) MEDIUM_FAST 172),
     (913, species_entry [T_WATER, T_PSYCHIC] 95 75 180 130 80 30 (Some (1 / 2)) MEDIUM_FAST 207),
     (978, species_entry [T_POISON, T_PSYCHIC] 95 100 95 100 70 30 (Some (1 / 2)) MEDIUM_FAST 172),
     (81, species_entry [T_ELECTRIC, T_STEEL] 25 35 70 95 55 45 None MEDIUM_FAST 65),
     (82, species_entry [T_ELECTRIC, T_STEEL] 50 60 95 120 70 70 None MEDIUM_FAST 163),
     (83, species_entry [T_NORMAL, T_FLYING] 52 90 55 58 62 60 (Some (1 / 2)) MEDIUM_FAST 132),
     (979, species_entry [T_FIGHTING] 52 95 55 58 62 55 (Some (1 / 2)) MEDIUM_FAST 132),
     (84, species_entry [T_NORMAL, T_FLYING] 35 85 45 35 35 75 (Some (1 / 2)) MEDIUM_FAST 62),
     (85, species_entry [T_NORMAL, T_FLYING] 60 110 70 60 60 110 (Some (1 / 2)) MEDIUM_FAST 165),
     (86, species_entry [T_WATER] 65 45 55 45 70 45 (Some (1 / 2)) MEDIUM_FAST 65),
     (87, species_entry [T_WATER, T_ICE] 90 70 80 70 95 70 (Some (1 / 2)) MEDIUM_FAST 166),
     (88, species_entry [T_POISON] 80 80 50 40 50 25 (Some (1 / 2)) MEDIUM_FAST 65),
     (970, species_entry [T_POISON, T_DARK] 80 80 50 40 50 25 (Some (1 / 2)) MEDIUM_FAST 65),
     (89, species_entry [T_POISON] 105 105 75 65 100 50 (Some (1 / 2)) MEDIUM_FAST 175),
     (971, species_entry [T_POISON, T_DARK] 105 105 75 65 100 50 (Some (1 / 2)) MEDIUM_FAST 175),
     (90, species_entry [T_WATER] 30 65 100 45 25 40 (Some (1 / 2)) SLOW 61),
     (91, species_entry [T_WATER, T_ICE] 50 95 180 85 45 70 (Some (1 / 2)) SLOW 184),
     (92, species_entry [T_GHOST, T_POISON] 30 35 30 100 35 80 (Some (1 / 2)) MEDIUM_SLOW 62),
     (93, species_entry [T_GHOST, T_POISON] 45 50 45 115 55 95 (Some (1 / 2)) MEDIUM_SLOW 142),
     (94, species_entry [T_GHOST, T_POISON] 60 65 60 130 75 110 (Some (1 / 2)) MEDIUM_SLOW 250),
     (914, species_entry [T_GHOST, T_POISON] 60 65 80 170 95 130 (Some (1 / 2)) MEDIUM_SLOW 300),
     (95, species_entry [T_ROCK, T_GROUND] 35 45 160 30 45 70 (Some (1 / 2)) MEDIUM_FAST 77),
     (96, species_entry [T_PSYCHIC] 60 48 45 43 90 42 (Some (1 / 2)) MEDIUM_FAST 66),
     (97, species_entry [T_PSYCHIC] 85 73 70 73 115 67 (Some (1 / 2)) MEDIUM_FAST 169),
     (98, species_entry [T_WATER] 30 105 90 25 25 50 (Some (1 / 2)) MEDIUM_FAST 65),
     (99, species_entry [T_WATER] 55 130 115 50 50 75 (Some (1 / 2)) MEDIUM_FAST 166),
     (100, species_entry [T_ELECTRIC] 40 30 50 55 55 100 None MEDIUM_FAST 66),
     (995, species_entry [T_ELECTRIC, T_GRASS] 40 30 50 55 55 100 None MEDIUM_FAST 66),
     (101, species_entry [T_ELECTRIC] 60 50 70 80 80 150 None MEDIUM_FAST 172),
     (996, species_entry [T_ELECTRIC, T_GRASS] 60 50 70 80 80 150 None MEDIUM_FAST 172)]"

definition SPECIES_ROWS_2 :: "(species \<times> species_data) list" where
  "SPECIES_ROWS_2 = [
     (102, species_entry [T_GRASS, T_PSYCHIC] 60 40 80 60 45 40 (Some (1 / 2)) SLOW 65),
     (103, species_entry [T_GRASS, T_PSYCHIC] 95 95 85 125 75 55 (Some (1 / 2)) SLOW 186),
     (972, species_entry [T_GRASS, T_DRAGON] 95 105 85 125 75 45 (Some (1 / 2)) SLOW 186),
     (104, species_entry [T_GROUND] 50 50 95 40 50 35 (Some (1 / 2)) MEDIUM_FAST 64),
     (105, species_entry [T_GROUND] 60 80 110 50 80 45 (Some (1 / 2)) MEDIUM_FAST 149),
     (973, species_entry [T_FIRE, T_GHOST] 60 80 110 50 80 45 (Some (1 / 2)) MEDIUM_FAST 149),
     (106, species_entry [T_FIGHTING] 50 120 53 35 110 87 (Some 1) MEDIUM_FAST 159),
     (107, species_entry [T_FIGHTING] 50 105 79 35 110 76 (Some 1) MEDIUM_FAST 159),
     (108, species_entry [T_NORMAL] 90 55 75 60 75 30 (Some (1 / 2)) MEDIUM_FAST 77),
     (109, species_entry [T_POISON] 40 65 95 60 45 35 (Some (1 / 2)) MEDIUM_FAST 68),
     (110, species_entry [T_POISON] 65 90 120 85 70 60 (Some (1 / 2)) MEDIUM_FAST 172),
     (980, species_entry [T_POISON, T_FAIRY] 65 90 120 85 70 60 (Some (1 / 2)) MEDIUM_FAST 172),
     (111, species_entry [T_GROUND, T_ROCK] 80 85 95 30 30 25 (Some (1 / 2)) SLOW 69),
     (112, species_entry [T_GROUND, T_ROCK] 105 130 120 45 45 40 (Some (1 / 2)) SLOW 170),
     (113, species_entry [T_NORMAL] 250 5 5 35 105 50 (Some 0) FAST 395),
     (114, species_entry [T_GRASS] 65 55 115 100 40 60 (Some (1 / 2)) MEDIUM_FAST 87),
     (115, species_entry [T_NORMAL] 105 95 80 40 80 90 (Some 0) MEDIUM_FAST 172),
     (915, species_entry [T_NORMAL] 105 125 100 60 100 100 (Some 0) MEDIUM_FAST 207),
     (116, species_entry [T_WATER] 30 40 70 70 25 60 (Some (1 / 2)) MEDIUM_FAST 59),
     (117, species_entry [T_WATER] 55 65 95 95 45 85 (Some (1 / 2)) MEDIUM_FAST 154),
     (118, species_entry [T_WATER] 45 67 60 35 50 63 (Some (1 / 2)) MEDIUM_FAST 64),
     (119, species_entry [T_WATER] 80 92 65 65 80 68 (Some (1 / 2)) MEDIUM_FAST 158),
     (120, species_entry [T_WATER] 30 45 55 70 55 85 None SLOW 68),
     (121, species_entry [T_WATER, T_PSYCHIC] 60 75 85 100 85 115 None SLOW 182),
     (122, species_entry [T_PSYCHIC, T_FAIRY] 40 45 65 100 120 90 (Some (1 / 2)) MEDIUM_FAST 161),
     (981, species_entry [T_ICE, T_PSYCHIC] 50 65 65 90 90 100 (Some (1 / 2)) MEDIUM_FAST 161),
     (123, species_entry [T_BUG, T_FLYING] 70 110 80 55 80 105 (Some (1 / 2)) MEDIUM_FAST 100),
     (124, species_entry [T_ICE, T_PSYCHIC] 65 50 35 115 95 95 (Some 0) MEDIUM_FAST 159),
     (125, species_entry [T_ELECTRIC] 65 83 57 95 85 105 (Some (3 / 4)) MEDIUM_FAST 172),
     (126, species_entry [T_FIRE] 65 95 57 100 85 93 (Some (3 / 4)) MEDIUM_FAST 173),
     (127, species_entry [T_BUG] 65 125 100 55 70 85 (Some (1 / 2)) SLOW 175),
     (916, species_entry [T_BUG, T_FLYING] 65 155 120 65 90 105 (Some (1 / 2)) SLOW 210),
     (128, species_entry [T_NORMAL] 75 100 95 40 70 110 (Some 1) SLOW 172),
     (129, species_entry [T_WATER] 20 10 55 15 20 80 (Some (1 / 2)) SLOW 40),
     (130, species_entry [T_WATER, T_FLYING] 95 125 79 60 100 81 (Some (1 / 2)) SLOW 189),
     (917, species_entry [T_WATER, T_DARK] 95 155 109 70 130 81 (Some (1 / 2)) SLOW 224),
     (131, species_entry [T_WATER, T_ICE] 130 85 80 85 95 60 (Some (1 / 2)) SLOW 187),
     (132, species_entry [T_NORMAL] 48 48 48 48 48 48 None MEDIUM_FAST 101),
     (133, species_entry [T_NORMAL] 55 55 50 45 65 55 (Some (7 / 8)) MEDIUM_FAST 87),
     (134, species_entry [T_WATER] 130 65 60 110 95 65 (Some (7 / 8)) MEDIUM_FAST 184),
     (135, species_entry [T_ELECTRIC] 65 65 60 110 95 130 (Some (7 / 8)) MEDIUM_FAST 184),
     (136, species_entry [T_FIRE] 65 130 60 95 110 65 (Some (7 / 8)) MEDIUM_FAST 184),
     (137, species_entry [T_NORMAL] 65 60 70 85 75 40 None MEDIUM_FAST 79),
     (138, species_entry [T_ROCK, T_WATER] 35 40 100 90 55 35 (Some (7 / 8)) MEDIUM_FAST 71),
     (139, species_entry [T_ROCK, T_WATER] 70 60 125 115 70 55 (Some (7 / 8)) MEDIUM_FAST 173),
     (140, species_entry [T_ROCK, T_WATER] 30 80 90 55 45 55 (Some (7 / 8)) MEDIUM_FAST 71),
     (141, species_entry [T_ROCK, T_WATER] 60 115 105 65 70 80 (Some (7 / 8)) MEDIUM_FAST 173),
     (142, species_entry [T_ROCK, T_FLYING] 80 105 65 60 75 130 (Some (7 / 8)) SLOW 180),
     (918, species_entry [T_ROCK, T_FLYING] 80 135 85 70 95 150 (Some (7 / 8)) SLOW 215),
     (143, species_entry [T_NORMAL] 160 110 65 65 110 30 (Some (7 / 8)) SLOW 189),
     (144, species_entry [T_ICE, T_FLYING] 90 85 100 95 125 85 None SLOW 290),
     (982, species_entry [T_PSYCHIC, T_FLYING] 90 85 85 125 100 95 None SLOW 290),
     (145, species_entry [T_ELECTRIC, T_FLYING] 90 90 85 125 90 100 None SLOW 290),
     (983, species_entry [T_FIGHTING, T_FLYING] 90 125 90 85 90 100 None SLOW 290),
     (146, species_entry [T_FIRE, T_FLYING] 90 100 90 125 85 90 None SLOW 290),
     (984, species_entry [T_DARK, T_FLYING] 90 85 90 100 125 90 None SLOW 290),
     (147, species_entry [T_DRAGON] 41 64 45 50 50 50 (Some (1 / 2)) SLOW 60),
     (148, species_entry [T_DRAGON] 61 84 65 70 70 70 (Some (1 / 2)) SLOW 147),
     (149, species_entry [T_DRAGON, T_FLYING] 91 134 95 100 100 80 (Some (1 / 2)) SLOW 300),
     (150, species_entry [T_PSYCHIC] 106 110 90 154 90 130 None SLOW 340),
     (919, species_entry [T_PSYCHIC, T_FIGHTING] 106 190 100 154 100 130 None SLOW 390),
     (920, species_entry [T_PSYCHIC] 106 150 70 194 120 140 None SLOW 390),
     (151, species_entry [T_PSYCHIC] 100 100 100 100 100 100 None MEDIUM_SLOW 300),
     (152, species_entry [T_GRASS] 45 49 65 49 65 45 (Some (7 / 8)) MEDIUM_SLOW 64),
     (153, species_entry [T_GRASS] 60 62 80 63 80 60 (Some (7 / 8)) MEDIUM_SLOW 142),
     (154, species_entry [T_GRASS] 80 82 100 83 100 80 (Some (7 / 8)) MEDIUM_SLOW 263),
     (155, species_entry [T_FIRE] 39 52 43 60 50 65 (Some (7 / 8)) MEDIUM_SLOW 62),
     (156, species_entry [T_FIRE] 58 64 58 80 65 80 (Some (7 / 8)) MEDIUM_SLOW 142),
     (157, species_entry [T_FIRE] 78 84 78 109 85 100 (Some (7 / 8)) MEDIUM_SLOW 267),
     (997, species_entry [T_FIRE, T_GHOST] 73 84 78 119 85 95 (Some (7 / 8)) MEDIUM_SLOW 267),
     (158, species_entry [T_WATER] 50 65 64 44 48 43 (Some (7 / 8)) MEDIUM_SLOW 63),
     (159, species_entry [T_WATER] 65 80 80 59 63 58 (Some (7 / 8)) MEDIUM_SLOW 142),
     (160, species_entry [T_WATER] 85 105 100 79 83 78 (Some (7 / 8)) MEDIUM_SLOW 265),
     (161, species_entry [T_NORMAL] 35 46 34 35 45 20 (Some (1 / 2)) MEDIUM_FAST 43),
     (162, species_entry [T_NORMAL] 85 76 64 45 55 90 (Some (1 / 2)) MEDIUM_FAST 145),
     (163, species_entry [T_NORMAL, T_FLYING] 60 30 30 36 56 50 (Some (1 / 2)) MEDIUM_FAST 52),
     (164, species_entry [T_NORMAL, T_FLYING] 100 50 50 86 96 70 (Some (1 / 2)) MEDIUM_FAST 158),
     (165, species_entry [T_BUG, T_FLYING] 40 20 30 40 80 55 (Some (1 / 2)) FAST 53),
     (166, species_entry [T_BUG, T_FLYING] 55 35 50 55 110 85 (Some (1 / 2)) FAST 137),
     (167, species_entry [T_BUG, T_POISON] 40 60 40 40 40 30 (Some (1 / 2)) FAST 50),
     (168, species_entry [T_BUG, T_POISON] 70 90 70 60 70 40 (Some (1 / 2)) FAST 140),
     (169, species_entry [T_POISON, T_FLYING] 85 90 80 70 80 130 (Some (1 / 2)) MEDIUM_FAST 268),
     (170, species_entry [T_WATER, T_ELECTRIC] 75 38 38 56 56 67 (Some (1 / 2)) SLOW 66),
     (171, species_entry [T_WATER, T_ELECTRIC] 125 58 58 76 76 67 (Some (1 / 2)) SLOW 161),
     (172, species_entry [T_ELECTRIC] 20 40 15 35 35 60 (Some (1 / 2)) MEDIUM_FAST 41),
     (1023, species_entry [T_ELECTRIC] 20 40 15 35 35 60 (Some (1 / 2)) MEDIUM_FAST 41),
     (173, species_entry [T_FAIRY] 50 25 28 45 55 15 (Some (1 / 4)) FAST 44),
     (174, species_entry [T_NORMAL, T_FAIRY] 90 30 15 40 20 15 (Some (1 / 4)) FAST 42),
     (175, species_entry [T_FAIRY] 35 20 65 40 65 20 (Some (7 / 8)) FAST 49),
     (176, species_entry [T_FAIRY, T_FLYING] 55 40 85 80 105 40 (Some (7 / 8)) FAST 142),
     (177, species_entry [T_PSYCHIC, T_FLYING] 40 50 45 70 45 70 (Some (1 / 2)) MEDIUM_FAST 64),
     (178, species_entry [T_PSYCHIC, T_FLYING] 65 75 70 95 70 95 (Some (1 / 2)) MEDIUM_FAST 165),
     (179, species_entry [T_ELECTRIC] 55 40 40 65 45 35 (Some (1 / 2)) MEDIUM_SLOW 56),
     (180, species_entry [T_ELECTRIC] 70 55 55 80 60 45 (Some (1 / 2)) MEDIUM_SLOW 128),
     (181, species_entry [T_ELECTRIC] 90 75 85 115 90 55 (Some (1 / 2)) MEDIUM_SLOW 255),
     (921, species_entry [T_ELECTRIC, T_DRAGON] 90 95 105 165 110 45 (Some (1 / 2)) MEDIUM_SLOW 305),
     (182, species_entry [T_GRASS] 75 80 95 90 100 50 (Some (1 / 2)) MEDIUM_SLOW 245),
     (183, species_entry [T_WATER, T_FAIRY] 70 20 50 20 50 40 (Some (1 / 2)) FAST 88),
     (184, species_entry [T_WATER, T_FAIRY] 100 50 80 60 80 50 (Some (1 / 2)) FAST 210),
     (185, species_entry [T_ROCK] 70 100 115 30 65 30 (Some (1 / 2)) MEDIUM_FAST 144),
     (186, species_entry [T_WATER] 90 75 75 90 100 70 (Some (1 / 2)) MEDIUM_SLOW 250),
     (187, species_entry [T_GRASS, T_FLYING] 35 35 40 35 55 50 (Some (1 / 2)) MEDIUM_SLOW 50),
     (188, species_entry [T_GRASS, T_FLYING] 55 45 50 45 65 80 (Some (1 / 2)) MEDIUM_SLOW 119),
     (189, species_entry [T_GRASS, T_FLYING] 75 55 70 55 95 110 (Some (1 / 2)) MEDIUM_SLOW 230),
     (190, species_entry [T_NORMAL] 55 70 55 40 55 85 (Some (1 / 2)) FAST 72),
     (191, species_entry [T_GRASS] 30 30 30 30 30 30 (Some (1 / 2)) MEDIUM_SLOW 36),
     (192, species_entry [T_GRASS] 75 75 55 105 85 30 (Some (1 / 2)) MEDIUM_SLOW 149),
     (193, species_entry [T_BUG, T_FLYING] 65 65 45 75 45 95 (Some (1 / 2)) MEDIUM_FAST 78),
     (194, species_entry [T_WATER, T_GROUND] 55 45 45 25 25 15 (Some (1 / 2)) MEDIUM_FAST 42),
     (195, species_entry [T_WATER, T_GROUND] 95 85 85 65 65 35 (Some (1 / 2)) MEDIUM_FAST 151),
     (196, species_entry [T_PSYCHIC] 65 65 60 130 95 110 (Some (7 / 8)) MEDIUM_FAST 184),
     (197, species_entry [T_DARK] 95 65 110 60 130 65 (Some (7 / 8)) MEDIUM_FAST 184),
     (198, species_entry [T_DARK, T_FLYING] 60 85 42 85 42 91 (Some (1 / 2)) MEDIUM_SLOW 81),
     (199, species_entry [T_WATER, T_PSYCHIC] 95 75 80 100 110 30 (Some (1 / 2)) MEDIUM_FAST 172),
     (985, species_entry [T_POISON, T_PSYCHIC] 95 65 80 110 110 30 (Some (1 / 2)) MEDIUM_FAST 172),
     (200, species_entry [T_GHOST] 60 60 60 85 85 85 (Some (1 / 2)) FAST 87),
     (201, species_entry [T_PSYCHIC] 48 72 48 72 48 48 None MEDIUM_FAST 118),
     (1024, species_entry [T_PSYCHIC] 48 72 48 72 48 48 None MEDIUM_FAST 118),
     (1025, species_entry [T_PSYCHIC] 48 72 48 72 48 48 None MEDIUM_FAST 118),
     (1026, species_entry [T_PSYCHIC] 48 72 48 72 48 48 None MEDIUM_FAST 118),
     (1027, species_entry [T_PSYCHIC] 48 72 48 72 48 48 None MEDIUM_FAST 118),
     (1028, species_entry [T_PSYCHIC] 48 72 48 72 48 48 None MEDIUM_FAST 118),
     (1029, species_entry [T_PSYCHIC] 48 72 48 72 48 48 None MEDIUM_FAST 118),
     (1030, species_entry [T_PSYCHIC] 48 72 48 72 48 48 None MEDIUM_FAST 118),
     (1031, species_entry [T_PSYCHIC] 48 72 48 72 48 48 None MEDIUM_FAST 118),
     (1032, species_entry [T_PSYCHIC] 48 72 48 72 48 48 None MEDIUM_FAST 118),
     (1033, species_entry [T_PSYCHIC] 48 72 48 72 48 48 None MEDIUM_FAST 118),
     (1034, species_entry [T_PSYCHIC] 48 72 48 72 48 48 None MEDIUM_FAST 118),
     (1035, species_entry [T_PSYCHIC] 48 72 48 72 48 48 None MEDIUM_FAST 118),
     (1036, species_entry [T_PSYCHIC] 48 72 48 72 48 48 None MEDIUM_FAST 118),
     (1037, species_entry [T_PSYCHIC] 48 72 48 72 48 48 None MEDIUM_FAST 118),
     (1038, species_entry [T_PSYCHIC] 48 72 48 72 48 48 None MEDIUM_FAST 118),
     (1039, species_entry [T_PSYCHIC] 48 72 48 72 48 48 None MEDIUM_FAST 118),
     (1040, species_entry [T_PSYCHIC] 48 72 48 72 48 48 None MEDIUM_FAST 118),
     (1041, species_entry [T_PSYCHIC] 48 72 48 72 48 48 None MEDIUM_FAST 118),
     (1042, species_entry [T_PSYCHIC] 48 72 48 72 48 48 None MEDIUM_FAST 118),
     (1043, species_entry [T_PSYCHIC] 48 72 48 72 48 48 None MEDIUM_FAST 118),
     (1044, species_entry [T_PSYCHIC] 48 72 48 72 48 48 None MEDIUM_FAST 118),
     (1045, species_entry [T_PSYCHIC] 48 72 48 72 48 48 None MEDIUM_FAST 118),
     (1046, species_entry [T_PSYCHIC] 48 72 48 72 48 48 None MEDIUM_FAST 118),
     (1047, species_entry [T_PSYCHIC] 48 72 48 72 48 48 None MEDIUM_FAST 118),
     (1048, species_entry [T_PSYCHIC] 48 72 48 72 48 48 None MEDIUM_FAST 118),
     (1049, species_entry [T_PSYCHIC] 48 72 48 72 48 48 None MEDIUM_FAST 118),
     (1050, species_entry [T_PSYCHIC] 48 72 48 72 48 48 None MEDIUM_FAST 118),
     (202, species_entry [T_PSYCHIC] 190 33 58 33 58 33 (Some (1 / 2)) MEDIUM_FAST 142),
     (203, species_entry [T_NORMAL, T_PSYCHIC] 70 80 65 90 65 85 (Some (1 / 2)) MEDIUM_FAST 159),
     (204, species_entry [T_BUG] 50 65 90 35 35 15 (Some (1 / 2)) MEDIUM_FAST 58),
     (205, species_entry [T_BUG, T_STEEL] 75 90 140 60 60 40 (Some (1 / 2)) MEDIUM_FAST 163),
     (206, species_entry [T_NORMAL] 100 70 70 65 65 45 (Some (1 / 2)) MEDIUM_FAST 145),
     (207, species_entry [T_GROUND, T_FLYING] 65 75 105 35 65 85 (Some (1 / 2)) MEDIUM_SLOW 86)]"

definition SPECIES_ROWS_3 :: "(species \<times> species_data) list" where
  "SPECIES_ROWS_3 = [
     (208, species_entry [T_STEEL, T_GROUND] 75 85 200 55 65 30 (Some (1 / 2)) MEDIUM_FAST 179),
     (922, species_entry [T_STEEL, T_GROUND] 75 125 230 55 95 30 (Some (1 / 2)) MEDIUM_FAST 214),
     (209, species_entry [T_FAIRY] 60 80 50 40 40 30 (Some (1 / 4)) FAST 60),
     (210, species_entry [T_FAIRY] 90 120 75 60 60 45 (Some (1 / 4)) FAST 158),
     (211, species_entry [T_WATER, T_POISON] 65 95 85 55 55 85 (Some (1 / 2)) MEDIUM_FAST 88),
     (998, species_entry [T_DARK, T_POISON] 65 95 85 55 55 85 (Some (1 / 2)) MEDIUM_FAST 88),
     (212, species_entry [T_BUG, T_STEEL] 70 130 100 55 80 65 (Some (1 / 2)) MEDIUM_FAST 175),
     (923, species_entry [T_BUG, T_STEEL] 70 150 140 65 100 75 (Some (1 / 2)) MEDIUM_FAST 210),
     (213, species_entry [T_BUG, T_ROCK] 20 10 230 10 230 5 (Some (1 / 2)) MEDIUM_SLOW 177),
     (214, species_entry [T_BUG, T_FIGHTING] 80 125 75 40 95 85 (Some (1 / 2)) SLOW 175),
     (924, species_entry [T_BUG, T_FIGHTING] 80 185 115 40 105 75 (Some (1 / 2)) SLOW 210),
     (215, species_entry [T_DARK, T_ICE] 55 95 55 35 75 115 (Some (1 / 2)) MEDIUM_SLOW 86),
     (999, species_entry [T_FIGHTING, T_POISON] 55 95 55 35 75 115 (Some (1 / 2)) MEDIUM_SLOW 86),
     (216, species_entry [T_NORMAL] 60 80 50 50 50 40 (Some (1 / 2)) MEDIUM_FAST 66),
     (217, species_entry [T_NORMAL] 90 130 75 75 75 55 (Some (1 / 2)) MEDIUM_FAST 175),
     (218, species_entry [T_FIRE] 40 40 40 70 40 20 (Some (1 / 2)) MEDIUM_FAST 50),
     (219, species_entry [T_FIRE, T_ROCK] 60 50 120 90 80 30 (Some (1 / 2)) MEDIUM_FAST 151),
     (220, species_entry [T_ICE, T_GROUND] 50 50 40 30 30 50 (Some (1 / 2)) SLOW 50),
     (221, species_entry [T_ICE, T_GROUND] 100 100 80 60 60 50 (Some (1 / 2)) SLOW 158),
     (222, species_entry [T_WATER, T_ROCK] 65 55 95 65 95 35 (Some (1 / 4)) FAST 144),
     (986, species_entry [T_GHOST] 60 55 100 65 100 30 (Some (1 / 4)) FAST 144),
     (223, species_entry [T_WATER] 35 65 35 65 35 65 (Some (1 / 2)) MEDIUM_FAST 60),
     (224, species_entry [T_WATER] 75 105 75 105 75 45 (Some (1 / 2)) MEDIUM_FAST 168),
     (225, species_entry [T_ICE, T_FLYING] 45 55 45 65 45 75 (Some (1 / 2)) FAST 116),
     (226, species_entry [T_WATER, T_FLYING] 85 40 70 80 140 70 (Some (1 / 2)) SLOW 170),
     (227, species_entry [T_STEEL, T_FLYING] 65 80 140 40 70 70 (Some (1 / 2)) SLOW 163),
     (228, species_entry [T_DARK, T_FIRE] 45 60 30 80 50 65 (Some (1 / 2)) SLOW 66),
     (229, species_entry [T_DARK, T_FIRE] 75 90 50 110 80 95 (Some (1 / 2)) SLOW 175),
     (925, species_entry [T_DARK, T_FIRE] 75 90 90 140 90 115 (Some (1 / 2)) SLOW 210),
     (230, species_entry [T_WATER, T_DRAGON] 75 95 95 95 95 85 (Some (1 / 2)) MEDIUM_FAST 270),
     (231, species_entry [T_GROUND] 90 60 60 40 40 40 (Some (1 / 2)) MEDIUM_FAST 66),
     (232, species_entry [T_GROUND] 90 120 120 60 60 50 (Some (1 / 2)) MEDIUM_FAST 175),
     (233, species_entry [T_NORMAL] 85 80 90 105 95 60 None MEDIUM_FAST 180),
     (234, species_entry [T_NORMAL] 73 95 62 85 65 85 (Some (1 / 2)) SLOW 163),
     (235, species_entry [T_NORMAL] 55 20 35 20 45 75 (Some (1 / 2)) FAST 88),
     (236, species_entry [T_FIGHTING] 35 35 35 35 35 35 (Some 1) MEDIUM_FAST 42),
     (237, species_entry [T_FIGHTING] 50 95 95 35 110 70 (Some 1) MEDIUM_FAST 159),
     (238, species_entry [T_ICE, T_PSYCHIC] 45 30 15 85 65 65 (Some 0) MEDIUM_FAST 61),
     (239, species_entry [T_ELECTRIC] 45 63 37 65 55 95 (Some (3 / 4)) MEDIUM_FAST 72),
     (240, species_entry [T_FIRE] 45 75 37 70 55 83 (Some (3 / 4)) MEDIUM_FAST 73),
     (241, species_entry [T_NORMAL] 95 80 105 40 70 100 (Some 0) SLOW 172),
     (242, species_entry [T_NORMAL] 255 10 10 75 135 55 (Some 0) FAST 635),
     (243, species_entry [T_ELECTRIC] 90 85 75 115 100 115 None SLOW 290),
     (244, species_entry [T_FIRE] 115 115 85 90 75 100 None SLOW 290),
     (245, species_entry [T_WATER] 100 75 115 90 115 85 None SLOW 290),
     (246, species_entry [T_ROCK, T_GROUND] 50 64 50 45 50 41 (Some (1 / 2)) SLOW 60),
     (247, species_entry [T_ROCK, T_GROUND] 70 84 70 65 70 51 (Some (1 / 2)) SLOW 144),
     (248, species_entry [T_ROCK, T_DARK] 100 134 110 95 100 61 (Some (1 / 2)) SLOW 300),
     (926, species_entry [T_ROCK, T_DARK] 100 164 150 95 120 71 (Some (1 / 2)) SLOW 350),
     (249, species_entry [T_PSYCHIC, T_FLYING] 106 90 130 90 154 110 None SLOW 340),
     (250, species_entry [T_FIRE, T_FLYING] 106 130 90 110 154 90 None SLOW 340),
     (251, species_entry [T_PSYCHIC, T_GRASS] 100 100 100 100 100 100 None MEDIUM_SLOW 300),
     (252, species_entry [T_GRASS] 40 45 35 65 55 70 (Some (7 / 8)) MEDIUM_SLOW 62),
     (253, species_entry [T_GRASS] 50 65 45 85 65 95 (Some (7 / 8)) MEDIUM_SLOW 142),
     (254, species_entry [T_GRASS] 70 85 65 105 85 120 (Some (7 / 8)) MEDIUM_SLOW 265),
     (927, species_entry [T_GRASS, T_DRAGON] 70 110 75 145 85 145 (Some (7 / 8)) MEDIUM_SLOW 315),
     (255, species_entry [T_FIRE] 45 60 40 70 50 45 (Some (7 / 8)) MEDIUM_SLOW 62),
     (256, species_entry [T_FIRE, T_FIGHTING] 60 85 60 85 60 55 (Some (7 / 8)) MEDIUM_SLOW 142),
     (257, species_entry [T_FIRE, T_FIGHTING] 80 120 70 110 70 80 (Some (7 / 8)) MEDIUM_SLOW 265),
     (928, species_entry [T_FIRE, T_FIGHTING] 80 160 80 130 80 100 (Some (7 / 8)) MEDIUM_SLOW 315),
     (258, species_entry [T_WATER] 50 70 50 50 50 40 (Some (7 / 8)) MEDIUM_SLOW 62),
     (259, species_entry [T_WATER, T_GROUND] 70 85 70 60 70 50 (Some (7 / 8)) MEDIUM_SLOW 142),
     (260, species_entry [T_WATER, T_GROUND] 100 110 90 85 90 60 (Some (7 / 8)) MEDIUM_SLOW 268),
     (929, species_entry [T_WATER, T_GROUND] 100 150 110 95 110 70 (Some (7 / 8)) MEDIUM_SLOW 318),
     (261, species_entry [T_DARK] 35 55 35 30 30 35 (Some (1 / 2)) MEDIUM_FAST 56),
     (262, species_entry [T_DARK] 70 90 70 60 60 70 (Some (1 / 2)) MEDIUM_FAST 147),
     (263, species_entry [T_NORMAL] 38 30 41 30 41 60 (Some (1 / 2)) MEDIUM_FAST 56),
     (987, species_entry [T_DARK, T_NORMAL] 38 30 41 30 41 60 (Some (1 / 2)) MEDIUM_FAST 56),
     (264, species_entry [T_NORMAL] 78 70 61 50 61 100 (Some (1 / 2)) MEDIUM_FAST 147),
     (988, species_entry [T_DARK, T_NORMAL] 78 70 61 50 61 100 (Some (1 / 2)) MEDIUM_FAST 147),
     (265, species_entry [T_BUG] 45 45 35 20 30 20 (Some (1 / 2)) MEDIUM_FAST 56),
     (266, species_entry [T_BUG] 50 35 55 25 25 15 (Some (1 / 2)) MEDIUM_FAST 72),
     (267, species_entry [T_BUG, T_FLYING] 60 70 50 100 50 65 (Some (1 / 2)) MEDIUM_FAST 198),
     (268, species_entry [T_BUG] 50 35 55 25 25 15 (Some (1 / 2)) MEDIUM_FAST 72),
     (269, species_entry [T_BUG, T_POISON] 60 50 70 50 90 65 (Some (1 / 2)) MEDIUM_FAST 193),
     (270, species_entry [T_WATER, T_GRASS] 40 30 30 40 50 30 (Some (1 / 2)) MEDIUM_SLOW 44),
     (271, species_entry [T_WATER, T_GRASS] 60 50 50 60 70 50 (Some (1 / 2)) MEDIUM_SLOW 119),
     (272, species_entry [T_WATER, T_GRASS] 80 70 70 90 100 70 (Some (1 / 2)) MEDIUM_SLOW 240),
     (273, species_entry [T_GRASS] 40 40 50 30 30 30 (Some (1 / 2)) MEDIUM_SLOW 44),
     (274, species_entry [T_GRASS, T_DARK] 70 70 40 60 40 60 (Some (1 / 2)) MEDIUM_SLOW 119),
     (275, species_entry [T_GRASS, T_DARK] 90 100 60 90 60 80 (Some (1 / 2)) MEDIUM_SLOW 240),
     (276, species_entry [T_NORMAL, T_FLYING] 40 55 30 30 30 85 (Some (1 / 2)) MEDIUM_SLOW 54),
     (277, species_entry [T_NORMAL, T_FLYING] 60 85 60 75 50 125 (Some (1 / 2)) MEDIUM_SLOW 159),
     (278, species_entry [T_WATER, T_FLYING] 40 30 30 55 30 85 (Some (1 / 2)) MEDIUM_FAST 54),
     (279, species_entry [T_WATER, T_FLYING] 60 50 100 95 70 65 (Some (1 / 2)) MEDIUM_FAST 154),
     (280, species_entry [T_PSYCHIC, T_FAIRY] 28 25 25 45 35 40 (Some (1 / 2)) SLOW 40),
     (281, species_entry [T_PSYCHIC, T_FAIRY] 38 35 35 65 55 50 (Some (1 / 2)) SLOW 97),
     (282, species_entry [T_PSYCHIC, T_FAIRY] 68 65 65 125 115 80 (Some (1 / 2)) SLOW 259),
     (930, species_entry [T_PSYCHIC, T_FAIRY] 68 85 65 165 135 100 (Some (1 / 2)) SLOW 309),
     (283, species_entry [T_BUG, T_WATER] 40 30 32 50 52 65 (Some (1 / 2)) MEDIUM_FAST 54),
     (284, species_entry [T_BUG, T_FLYING] 70 60 62 100 82 80 (Some (1 / 2)) MEDIUM_FAST 159),
     (285, species_entry [T_GRASS] 60 40 60 40 60 35 (Some (1 / 2)) FLUCTUATING 59),
     (286, species_entry [T_GRASS, T_FIGHTING] 60 130 80 60 60 70 (Some (1 / 2)) FLUCTUATING 161),
     (287, species_entry [T_NORMAL] 60 60 60 35 35 30 (Some (1 / 2)) SLOW 56),
     (288, species_entry [T_NORMAL] 80 80 80 55 55 90 (Some (1 / 2)) SLOW 154),
     (289, species_entry [T_NORMAL] 150 160 100 95 65 100 (Some (1 / 2)) SLOW 285),
     (290, species_entry [T_BUG, T_GROUND] 31 45 90 30 30 40 (Some (1 / 2)) ERRATIC 53),
     (291, species_entry [T_BUG, T_FLYING] 61 90 45 50 50 160 (Some (1 / 2)) ERRATIC 160),
     (292, species_entry [T_BUG, T_GHOST] 1 90 45 30 30 40 None ERRATIC 83),
     (293, species_entry [T_NORMAL] 64 51 23 51 23 28 (Some (1 / 2)) MEDIUM_SLOW 48),
     (294, species_entry [T_NORMAL] 84 71 43 71 43 48 (Some (1 / 2)) MEDIUM_SLOW 126),
     (295, species_entry [T_NORMAL] 104 91 63 91 73 68 (Some (1 / 2)) MEDIUM_SLOW 245),
     (296, species_entry [T_FIGHTING] 72 60 30 20 30 25 (Some (3 / 4)) FLUCTUATING 47),
     (297, species_entry [T_FIGHTING] 144 120 60 40 60 50 (Some (3 / 4)) FLUCTUATING 166),
     (298, species_entry [T_NORMAL, T_FAIRY] 50 20 40 20 40 20 (Some (1 / 4)) FAST 38),
     (299, species_entry [T_ROCK] 30 45 135 45 90 30 (Some (1 / 2)) MEDIUM_FAST 75),
     (300, species_entry [T_NORMAL] 50 45 45 35 35 50 (Some (1 / 4)) FAST 52),
     (301, species_entry [T_NORMAL] 70 65 65 55 55 90 (Some (1 / 4)) FAST 140),
     (302, species_entry [T_DARK, T_GHOST] 50 75 75 65 65 50 (Some (1 / 2)) MEDIUM_SLOW 133),
     (931, species_entry [T_DARK, T_GHOST] 50 85 125 85 115 20 (Some (1 / 2)) MEDIUM_SLOW 168),
     (303, species_entry [T_STEEL, T_FAIRY] 50 85 85 55 55 50 (Some (1 / 2)) FAST 133),
     (932, species_entry [T_STEEL, T_FAIRY] 50 105 125 55 95 50 (Some (1 / 2)) FAST 168),
     (304, species_entry [T_STEEL, T_ROCK] 50 70 100 40 40 30 (Some (1 / 2)) SLOW 66),
     (305, species_entry [T_STEEL, T_ROCK] 60 90 140 50 50 40 (Some (1 / 2)) SLOW 151),
     (306, species_entry [T_STEEL, T_ROCK] 70 110 180 60 60 50 (Some (1 / 2)) SLOW 265),
     (933, species_entry [T_STEEL] 70 140 230 60 80 50 (Some (1 / 2)) SLOW 315),
     (307, species_entry [T_FIGHTING, T_PSYCHIC] 30 40 55 40 55 60 (Some (1 / 2)) MEDIUM_FAST 56),
     (308, species_entry [T_FIGHTING, T_PSYCHIC] 60 60 75 60 75 80 (Some (1 / 2)) MEDIUM_FAST 144),
     (934, species_entry [T_FIGHTING, T_PSYCHIC] 60 100 85 80 85 100 (Some (1 / 2)) MEDIUM_FAST 179),
     (309, species_entry [T_ELECTRIC] 40 45 40 65 40 65 (Some (1 / 2)) SLOW 59),
     (310, species_entry [T_ELECTRIC] 70 75 60 105 60 105 (Some (1 / 2)) SLOW 166),
     (935, species_entry [T_ELECTRIC] 70 75 80 135 80 135 (Some (1 / 2)) SLOW 201),
     (311, species_entry [T_ELECTRIC] 60 50 40 85 75 95 (Some (1 / 2)) MEDIUM_FAST 142),
     (312, species_entry [T_ELECTRIC] 60 40 50 75 85 95 (Some (1 / 2)) MEDIUM_FAST 142),
     (313, species_entry [T_BUG] 65 73 75 47 85 85 (Some 1) ERRATIC 151),
     (314, species_entry [T_BUG] 65 47 75 73 85 85 (Some 0) FLUCTUATING 151),
     (315, species_entry [T_GRASS, T_POISON] 50 60 45 100 80 65 (Some (1 / 2)) MEDIUM_SLOW 140),
     (316, species_entry [T_POISON] 70 43 53 43 53 40 (Some (1 / 2)) FLUCTUATING 60),
     (317, species_entry [T_POISON] 100 73 83 73 83 55 (Some (1 / 2)) FLUCTUATING 163),
     (318, species_entry [T_WATER, T_DARK] 45 90 20 65 20 65 (Some (1 / 2)) SLOW 61),
     (319, species_entry [T_WATER, T_DARK] 70 120 40 95 40 95 (Some (1 / 2)) SLOW 161),
     (936, species_entry [T_WATER, T_DARK] 70 140 70 110 65 105 (Some (1 / 2)) SLOW 196),
     (320, species_entry [T_WATER] 130 70 35 70 35 60 (Some (1 / 2)) FLUCTUATING 80),
     (321, species_entry [T_WATER] 170 90 45 90 45 60 (Some (1 / 2)) FLUCTUATING 175),
     (322, species_entry [T_FIRE, T_GROUND] 60 60 40 65 45 35 (Some (1 / 2)) MEDIUM_FAST 61),
     (323, species_entry [T_FIRE, T_GROUND] 70 100 70 105 75 40 (Some (1 / 2)) MEDIUM_FAST 161),
     (937, species_entry [T_FIRE, T_GROUND] 70 120 100 145 105 20 (Some (1 / 2)) MEDIUM_FAST 196),
     (324, species_entry [T_FIRE] 70 85 140 85 70 20 (Some (1 / 2)) MEDIUM_FAST 165),
     (325, species_entry [T_PSYCHIC] 60 25 35 70 80 60 (Some (1 / 2)) FAST 66),
     (326, species_entry [T_PSYCHIC] 80 45 65 90 110 80 (Some (1 / 2)) FAST 165),
     (327, species_entry [T_NORMAL] 60 60 60 60 60 60 (Some (1 / 2)) FAST 126),
     (328, species_entry [T_GROUND] 45 100 45 45 45 10 (Some (1 / 2)) MEDIUM_SLOW 58),
     (329, species_entry [T_GROUND, T_DRAGON] 50 70 50 50 50 70 (Some (1 / 2)) MEDIUM_SLOW 119),
     (330, species_entry [T_GROUND, T_DRAGON] 80 100 80 80 80 100 (Some (1 / 2)) MEDIUM_SLOW 260),
     (331, species_entry [T_GRASS] 50 85 40 85 40 35 (Some (1 / 2)) MEDIUM_SLOW 67),
     (332, species_entry [T_GRASS, T_DARK] 70 115 60 115 60 55 (Some (1 / 2)) MEDIUM_SLOW 166),
     (333, species_entry [T_NORMAL, T_FLYING] 45 40 60 40 75 50 (Some (1 / 2)) ERRATIC 62),
     (334, species_entry [T_DRAGON, T_FLYING] 75 70 90 70 105 80 (Some (1 / 2)) ERRATIC 172),
     (938, species_entry [T_DRAGON, T_FAIRY] 75 110 110 110 105 80 (Some (1 / 2)) ERRATIC 207),
     (335, species_entry [T_NORMAL] 73 115 60 60 60 90 (Some (1 / 2)) ERRATIC 160)]"

definition SPECIES_ROWS_4 :: "(species \<times> species_data) list" where
  "SPECIES_ROWS_4 = [
     (336, species_entry [T_POISON] 73 100 60 100 60 65 (Some (1 / 2)) FLUCTUATING 160),
     (337, species_entry [T_ROCK, T_PSYCHIC] 90 55 65 95 85 70 None FAST 161),
     (338, species_entry [T_ROCK, T_PSYCHIC] 90 95 85 55 65 70 None FAST 161),
     (339, species_entry [T_WATER, T_GROUND] 50 48 43 46 41 60 (Some (1 / 2)) MEDIUM_FAST 58),
     (340, species_entry [T_WATER, T_GROUND] 110 78 73 76 71 60 (Some (1 / 2)) MEDIUM_FAST 164),
     (341, species_entry [T_WATER] 43 80 65 50 35 35 (Some (1 / 2)) FLUCTUATING 62),
     (342, species_entry [T_WATER, T_DARK] 63 120 85 90 55 55 (Some (1 / 2)) FLUCTUATING 164),
     (343, species_entry [T_GROUND, T_PSYCHIC] 40 40 55 40 70 55 None MEDIUM_FAST 60),
     (344, species_entry [T_GROUND, T_PSYCHIC] 60 70 105 70 120 75 None MEDIUM_FAST 175),
     (345, species_entry [T_ROCK, T_GRASS] 66 41 77 61 87 23 (Some (7 / 8)) ERRATIC 71),
     (346, species_entry [T_ROCK, T_GRASS] 86 81 97 81 107 43 (Some (7 / 8)) ERRATIC 173),
     (347, species_entry [T_ROCK, T_BUG] 45 95 50 40 50 75 (Some (7 / 8)) ERRATIC 71),
     (348, species_entry [T_ROCK, T_BUG] 75 125 100 70 80 45 (Some (7 / 8)) ERRATIC 173),
     (349, species_entry [T_WATER] 20 15 20 10 55 80 (Some (1 / 2)) ERRATIC 40),
     (350, species_entry [T_WATER] 95 60 79 100 125 81 (Some (1 / 2)) ERRATIC 189),
     (351, species_entry [T_NORMAL] 70 70 70 70 70 70 (Some (1 / 2)) MEDIUM_FAST 147),
     (1051, species_entry [T_FIRE] 70 70 70 70 70 70 (Some (1 / 2)) MEDIUM_FAST 147),
     (1052, species_entry [T_WATER] 70 70 70 70 70 70 (Some (1 / 2)) MEDIUM_FAST 147),
     (1053, species_entry [T_ICE] 70 70 70 70 70 70 (Some (1 / 2)) MEDIUM_FAST 147),
     (352, species_entry [T_NORMAL] 60 90 70 60 120 40 (Some (1 / 2)) MEDIUM_SLOW 154),
     (353, species_entry [T_GHOST] 44 75 35 63 33 45 (Some (1 / 2)) FAST 59),
     (354, species_entry [T_GHOST] 64 115 65 83 63 65 (Some (1 / 2)) FAST 159),
     (939, species_entry [T_GHOST] 64 165 75 93 83 75 (Some (1 / 2)) FAST 194),
     (355, species_entry [T_GHOST] 20 40 90 30 90 25 (Some (1 / 2)) FAST 59),
     (356, species_entry [T_GHOST] 40 70 130 60 130 25 (Some (1 / 2)) FAST 159),
     (357, species_entry [T_GRASS, T_FLYING] 99 68 83 72 87 51 (Some (1 / 2)) SLOW 161),
     (358, species_entry [T_PSYCHIC] 75 50 80 95 90 65 (Some (1 / 2)) FAST 159),
     (359, species_entry [T_DARK] 65 130 60 75 60 75 (Some (1 / 2)) MEDIUM_SLOW 163),
     (940, species_entry [T_DARK] 65 150 60 115 60 115 (Some (1 / 2)) MEDIUM_SLOW 198),
     (360, species_entry [T_PSYCHIC] 95 23 48 23 48 23 (Some (1 / 2)) MEDIUM_FAST 52),
     (361, species_entry [T_ICE] 50 50 50 50 50 50 (Some (1 / 2)) MEDIUM_FAST 60),
     (362, species_entry [T_ICE] 80 80 80 80 80 80 (Some (1 / 2)) MEDIUM_FAST 168),
     (941, species_entry [T_ICE] 80 120 80 120 80 100 (Some (1 / 2)) MEDIUM_FAST 203),
     (363, species_entry [T_ICE, T_WATER] 70 40 50 55 50 25 (Some (1 / 2)) MEDIUM_SLOW 58),
     (364, species_entry [T_ICE, T_WATER] 90 60 70 75 70 45 (Some (1 / 2)) MEDIUM_SLOW 144),
     (365, species_entry [T_ICE, T_WATER] 110 80 90 95 90 65 (Some (1 / 2)) MEDIUM_SLOW 265),
     (366, species_entry [T_WATER] 35 64 85 74 55 32 (Some (1 / 2)) ERRATIC 69),
     (367, species_entry [T_WATER] 55 104 105 94 75 52 (Some (1 / 2)) ERRATIC 170),
     (368, species_entry [T_WATER] 55 84 105 114 75 52 (Some (1 / 2)) ERRATIC 170),
     (369, species_entry [T_WATER, T_ROCK] 100 90 130 45 65 55 (Some (7 / 8)) SLOW 170),
     (370, species_entry [T_WATER] 43 30 55 40 65 97 (Some (1 / 4)) FAST 116),
     (371, species_entry [T_DRAGON] 45 75 60 40 30 50 (Some (1 / 2)) SLOW 60),
     (372, species_entry [T_DRAGON] 65 95 100 60 50 50 (Some (1 / 2)) SLOW 147),
     (373, species_entry [T_DRAGON, T_FLYING] 95 135 80 110 80 100 (Some (1 / 2)) SLOW 300),
     (942, species_entry [T_DRAGON, T_FLYING] 95 145 130 120 90 120 (Some (1 / 2)) SLOW 350),
     (374, species_entry [T_STEEL, T_PSYCHIC] 40 55 80 35 60 30 None SLOW 60),
     (375, species_entry [T_STEEL, T_PSYCHIC] 60 75 100 55 80 50 None SLOW 147),
     (376, species_entry [T_STEEL, T_PSYCHIC] 80 135 130 95 90 70 None SLOW 300),
     (943, species_entry [T_STEEL, T_PSYCHIC] 80 145 150 105 110 110 None SLOW 350),
     (377, species_entry [T_ROCK] 80 100 200 50 100 50 None SLOW 290),
     (378, species_entry [T_ICE] 80 50 100 100 200 50 None SLOW 290),
     (379, species_entry [T_STEEL] 80 75 150 75 150 50 None SLOW 290),
     (380, species_entry [T_DRAGON, T_PSYCHIC] 80 80 90 110 130 110 (Some 0) SLOW 300),
     (944, species_entry [T_DRAGON, T_PSYCHIC] 80 100 120 140 150 110 (Some 0) SLOW 350),
     (381, species_entry [T_DRAGON, T_PSYCHIC] 80 90 80 130 110 110 (Some 1) SLOW 300),
     (945, species_entry [T_DRAGON, T_PSYCHIC] 80 130 100 160 120 110 (Some 1) SLOW 350),
     (382, species_entry [T_WATER] 100 100 90 150 140 90 None SLOW 335),
     (954, species_entry [T_WATER] 100 150 90 180 160 90 None SLOW 385),
     (383, species_entry [T_GROUND] 100 150 140 100 90 90 None SLOW 335),
     (955, species_entry [T_GROUND, T_FIRE] 100 180 160 150 90 90 None SLOW 385),
     (384, species_entry [T_DRAGON, T_FLYING] 105 150 90 150 90 95 None SLOW 340),
     (953, species_entry [T_DRAGON, T_FLYING] 105 180 100 180 100 115 None SLOW 390),
     (385, species_entry [T_STEEL, T_PSYCHIC] 100 100 100 100 100 100 None SLOW 300),
     (386, species_entry [T_PSYCHIC] 50 150 50 150 50 150 None SLOW 300),
     (1054, species_entry [T_PSYCHIC] 50 180 20 180 20 150 None SLOW 300),
     (1055, species_entry [T_PSYCHIC] 50 70 160 70 160 90 None SLOW 300),
     (1056, species_entry [T_PSYCHIC] 50 95 90 95 90 180 None SLOW 300),
     (387, species_entry [T_GRASS] 55 68 64 45 55 31 (Some (7 / 8)) MEDIUM_SLOW 64),
     (388, species_entry [T_GRASS] 75 89 85 55 65 36 (Some (7 / 8)) MEDIUM_SLOW 142),
     (389, species_entry [T_GRASS, T_GROUND] 95 109 105 75 85 56 (Some (7 / 8)) MEDIUM_SLOW 263),
     (390, species_entry [T_FIRE] 44 58 44 58 44 61 (Some (7 / 8)) MEDIUM_SLOW 62),
     (391, species_entry [T_FIRE, T_FIGHTING] 64 78 52 78 52 81 (Some (7 / 8)) MEDIUM_SLOW 142),
     (392, species_entry [T_FIRE, T_FIGHTING] 76 104 71 104 71 108 (Some (7 / 8)) MEDIUM_SLOW 267),
     (393, species_entry [T_WATER] 53 51 53 61 56 40 (Some (7 / 8)) MEDIUM_SLOW 63),
     (394, species_entry [T_WATER] 64 66 68 81 76 50 (Some (7 / 8)) MEDIUM_SLOW 142),
     (395, species_entry [T_WATER, T_STEEL] 84 86 88 111 101 60 (Some (7 / 8)) MEDIUM_SLOW 265),
     (396, species_entry [T_NORMAL, T_FLYING] 40 55 30 30 30 60 (Some (1 / 2)) MEDIUM_SLOW 49),
     (397, species_entry [T_NORMAL, T_FLYING] 55 75 50 40 40 80 (Some (1 / 2)) MEDIUM_SLOW 119),
     (398, species_entry [T_NORMAL, T_FLYING] 85 120 70 50 60 100 (Some (1 / 2)) MEDIUM_SLOW 243),
     (399, species_entry [T_NORMAL] 59 45 40 35 40 31 (Some (1 / 2)) MEDIUM_FAST 50),
     (400, species_entry [T_NORMAL, T_WATER] 79 85 60 55 60 71 (Some (1 / 2)) MEDIUM_FAST 144),
     (401, species_entry [T_BUG] 37 25 41 25 41 25 (Some (1 / 2)) MEDIUM_SLOW 39),
     (402, species_entry [T_BUG] 77 85 51 55 51 65 (Some (1 / 2)) MEDIUM_SLOW 134),
     (403, species_entry [T_ELECTRIC] 45 65 34 40 34 45 (Some (1 / 2)) MEDIUM_SLOW 53),
     (404, species_entry [T_ELECTRIC] 60 85 49 60 49 60 (Some (1 / 2)) MEDIUM_SLOW 127),
     (405, species_entry [T_ELECTRIC] 80 120 79 95 79 70 (Some (1 / 2)) MEDIUM_SLOW 262),
     (406, species_entry [T_GRASS, T_POISON] 40 30 35 50 70 55 (Some (1 / 2)) MEDIUM_SLOW 56),
     (407, species_entry [T_GRASS, T_POISON] 60 70 65 125 105 90 (Some (1 / 2)) MEDIUM_SLOW 258),
     (408, species_entry [T_ROCK] 67 125 40 30 30 58 (Some (7 / 8)) ERRATIC 70),
     (409, species_entry [T_ROCK] 97 165 60 65 50 58 (Some (7 / 8)) ERRATIC 173),
     (410, species_entry [T_ROCK, T_STEEL] 30 42 118 42 88 30 (Some (7 / 8)) ERRATIC 70),
     (411, species_entry [T_ROCK, T_STEEL] 60 52 168 47 138 30 (Some (7 / 8)) ERRATIC 173),
     (412, species_entry [T_BUG] 40 29 45 29 45 36 (Some (1 / 2)) MEDIUM_FAST 45),
     (1057, species_entry [T_BUG] 40 29 45 29 45 36 (Some (1 / 2)) MEDIUM_FAST 45),
     (1058, species_entry [T_BUG] 40 29 45 29 45 36 (Some (1 / 2)) MEDIUM_FAST 45),
     (413, species_entry [T_BUG, T_GRASS] 60 59 85 79 105 36 (Some 0) MEDIUM_FAST 148),
     (1059, species_entry [T_BUG, T_GROUND] 60 79 105 59 85 36 (Some 0) MEDIUM_FAST 148),
     (1060, species_entry [T_BUG, T_STEEL] 60 69 95 69 95 36 (Some 0) MEDIUM_FAST 148),
     (414, species_entry [T_BUG, T_FLYING] 70 94 50 94 50 66 (Some 1) MEDIUM_FAST 148),
     (415, species_entry [T_BUG, T_FLYING] 30 30 42 30 42 70 (Some (7 / 8)) MEDIUM_SLOW 49),
     (416, species_entry [T_BUG, T_FLYING] 70 80 102 80 102 40 (Some 0) MEDIUM_SLOW 166),
     (417, species_entry [T_ELECTRIC] 60 45 70 45 90 95 (Some (1 / 2)) MEDIUM_FAST 142),
     (418, species_entry [T_WATER] 55 65 35 60 30 85 (Some (1 / 2)) MEDIUM_FAST 66),
     (419, species_entry [T_WATER] 85 105 55 85 50 115 (Some (1 / 2)) MEDIUM_FAST 173),
     (420, species_entry [T_GRASS] 45 35 45 62 53 35 (Some (1 / 2)) MEDIUM_FAST 55),
     (421, species_entry [T_GRASS] 70 60 70 87 78 85 (Some (1 / 2)) MEDIUM_FAST 158),
     (1061, species_entry [T_GRASS] 70 60 70 87 78 85 (Some (1 / 2)) MEDIUM_FAST 158),
     (422, species_entry [T_WATER] 76 48 48 57 62 34 (Some (1 / 2)) MEDIUM_FAST 65),
     (1062, species_entry [T_WATER] 76 48 48 57 62 34 (Some (1 / 2)) MEDIUM_FAST 65),
     (423, species_entry [T_WATER, T_GROUND] 111 83 68 92 82 39 (Some (1 / 2)) MEDIUM_FAST 166),
     (1063, species_entry [T_WATER, T_GROUND] 111 83 68 92 82 39 (Some (1 / 2)) MEDIUM_FAST 166),
     (424, species_entry [T_NORMAL] 75 100 66 60 66 115 (Some (1 / 2)) FAST 169),
     (425, species_entry [T_GHOST, T_FLYING] 90 50 34 60 44 70 (Some (1 / 2)) FLUCTUATING 70),
     (426, species_entry [T_GHOST, T_FLYING] 150 80 44 90 54 80 (Some (1 / 2)) FLUCTUATING 174),
     (427, species_entry [T_NORMAL] 55 66 44 44 56 85 (Some (1 / 2)) MEDIUM_FAST 70),
     (428, species_entry [T_NORMAL] 65 76 84 54 96 105 (Some (1 / 2)) MEDIUM_FAST 168),
     (946, species_entry [T_NORMAL, T_FIGHTING] 65 136 94 54 96 135 (Some (1 / 2)) MEDIUM_FAST 203),
     (429, species_entry [T_GHOST] 60 60 60 105 105 105 (Some (1 / 2)) FAST 173),
     (430, species_entry [T_DARK, T_FLYING] 100 125 52 105 52 71 (Some (1 / 2)) MEDIUM_SLOW 177),
     (431, species_entry [T_NORMAL] 49 55 42 42 37 85 (Some (1 / 4)) FAST 62),
     (432, species_entry [T_NORMAL] 71 82 64 64 59 112 (Some (1 / 4)) FAST 158),
     (433, species_entry [T_PSYCHIC] 45 30 50 65 50 45 (Some (1 / 2)) FAST 57),
     (434, species_entry [T_POISON, T_DARK] 63 63 47 41 41 74 (Some (1 / 2)) MEDIUM_FAST 66),
     (435, species_entry [T_POISON, T_DARK] 103 93 67 71 61 84 (Some (1 / 2)) MEDIUM_FAST 168),
     (436, species_entry [T_STEEL, T_PSYCHIC] 57 24 86 24 86 23 None MEDIUM_FAST 60),
     (437, species_entry [T_STEEL, T_PSYCHIC] 67 89 116 79 116 33 None MEDIUM_FAST 175),
     (438, species_entry [T_ROCK] 50 80 95 10 45 10 (Some (1 / 2)) MEDIUM_FAST 58),
     (439, species_entry [T_PSYCHIC, T_FAIRY] 20 25 45 70 90 60 (Some (1 / 2)) MEDIUM_FAST 62),
     (440, species_entry [T_NORMAL] 100 5 5 15 65 30 (Some 0) FAST 110),
     (441, species_entry [T_NORMAL, T_FLYING] 76 65 45 92 42 91 (Some (1 / 2)) MEDIUM_SLOW 144),
     (442, species_entry [T_GHOST, T_DARK] 50 92 108 92 108 35 (Some (1 / 2)) MEDIUM_FAST 170),
     (443, species_entry [T_DRAGON, T_GROUND] 58 70 45 40 45 42 (Some (1 / 2)) SLOW 60),
     (444, species_entry [T_DRAGON, T_GROUND] 68 90 65 50 55 82 (Some (1 / 2)) SLOW 144),
     (445, species_entry [T_DRAGON, T_GROUND] 108 130 95 80 85 102 (Some (1 / 2)) SLOW 300),
     (947, species_entry [T_DRAGON, T_GROUND] 108 170 115 120 95 92 (Some (1 / 2)) SLOW 350),
     (446, species_entry [T_NORMAL] 135 85 40 40 85 5 (Some (7 / 8)) SLOW 78),
     (447, species_entry [T_FIGHTING] 40 70 40 35 40 60 (Some (7 / 8)) MEDIUM_SLOW 57),
     (448, species_entry [T_FIGHTING, T_STEEL] 70 110 70 115 70 90 (Some (7 / 8)) MEDIUM_SLOW 184),
     (948, species_entry [T_FIGHTING, T_STEEL] 70 145 88 140 70 112 (Some (7 / 8)) MEDIUM_SLOW 219),
     (449, species_entry [T_GROUND] 68 72 78 38 42 32 (Some (1 / 2)) SLOW 66),
     (450, species_entry [T_GROUND] 108 112 118 68 72 47 (Some (1 / 2)) SLOW 184),
     (451, species_entry [T_POISON, T_BUG] 40 50 90 30 55 65 (Some (1 / 2)) SLOW 66),
     (452, species_entry [T_POISON, T_DARK] 70 90 110 60 75 95 (Some (1 / 2)) SLOW 175),
     (453, species_entry [T_POISON, T_FIGHTING] 48 61 40 61 40 50 (Some (1 / 2)) MEDIUM_FAST 60),
     (454, species_entry [T_POISON, T_FIGHTING] 83 106 65 86 65 85 (Some (1 / 2)) MEDIUM_FAST 172),
     (455, species_entry [T_GRASS] 74 100 72 90 72 46 (Some (1 / 2)) SLOW 159),
     (456, species_entry [T_WATER] 49 49 56 49 61 66 (Some (1 / 2)) ERRATIC 66),
     (457, species_entry [T_WATER] 69 69 76 69 86 91 (Some (1 / 2)) ERRATIC 161),
     (458, species_entry [T_WATER, T_FLYING] 45 20 50 60 120 50 (Some (1 / 2)) SLOW 69),
     (459, species_entry [T_GRASS, T_ICE] 60 62 50 62 60 40 (Some (1 / 2)) SLOW 67)]"

definition SPECIES_ROWS_5 :: "(species \<times> species_data) list" where
  "SPECIES_ROWS_5 = [
     (460, species_entry [T_GRASS, T_ICE] 90 92 75 92 85 60 (Some (1 / 2)) SLOW 173),
     (949, species_entry [T_GRASS, T_ICE] 90 132 105 132 105 30 (Some (1 / 2)) SLOW 208),
     (461, species_entry [T_DARK, T_ICE] 70 120 65 45 85 125 (Some (1 / 2)) MEDIUM_SLOW 179),
     (462, species_entry [T_ELECTRIC, T_STEEL] 70 70 115 130 90 60 None MEDIUM_FAST 268),
     (463, species_entry [T_NORMAL] 110 85 95 80 95 50 (Some (1 / 2)) MEDIUM_FAST 180),
     (464, species_entry [T_GROUND, T_ROCK] 115 140 130 55 55 40 (Some (1 / 2)) SLOW 268),
     (465, species_entry [T_GRASS] 100 100 125 110 50 50 (Some (1 / 2)) MEDIUM_FAST 187),
     (466, species_entry [T_ELECTRIC] 75 123 67 95 85 95 (Some (3 / 4)) MEDIUM_FAST 270),
     (467, species_entry [T_FIRE] 75 95 67 125 95 83 (Some (3 / 4)) MEDIUM_FAST 270),
     (468, species_entry [T_FAIRY, T_FLYING] 85 50 95 120 115 80 (Some (7 / 8)) FAST 273),
     (469, species_entry [T_BUG, T_FLYING] 86 76 86 116 56 95 (Some (1 / 2)) MEDIUM_FAST 180),
     (470, species_entry [T_GRASS] 65 110 130 60 65 95 (Some (7 / 8)) MEDIUM_FAST 184),
     (471, species_entry [T_ICE] 65 60 110 130 95 65 (Some (7 / 8)) MEDIUM_FAST 184),
     (472, species_entry [T_GROUND, T_FLYING] 75 95 125 45 75 95 (Some (1 / 2)) MEDIUM_SLOW 179),
     (473, species_entry [T_ICE, T_GROUND] 110 130 80 70 60 80 (Some (1 / 2)) SLOW 265),
     (474, species_entry [T_NORMAL] 85 80 70 135 75 90 None MEDIUM_FAST 268),
     (475, species_entry [T_PSYCHIC, T_FIGHTING] 68 125 65 65 115 80 (Some 1) SLOW 259),
     (950, species_entry [T_PSYCHIC, T_FIGHTING] 68 165 95 65 115 110 (Some 1) SLOW 309),
     (476, species_entry [T_ROCK, T_STEEL] 60 55 145 75 150 40 (Some (1 / 2)) MEDIUM_FAST 184),
     (477, species_entry [T_GHOST] 45 100 135 65 135 45 (Some (1 / 2)) FAST 263),
     (478, species_entry [T_ICE, T_GHOST] 70 80 70 80 70 110 (Some 0) MEDIUM_FAST 168),
     (479, species_entry [T_ELECTRIC, T_GHOST] 50 50 77 95 77 91 None MEDIUM_FAST 154),
     (1064, species_entry [T_ELECTRIC, T_FIRE] 50 65 107 105 107 86 None MEDIUM_FAST 182),
     (1065, species_entry [T_ELECTRIC, T_WATER] 50 65 107 105 107 86 None MEDIUM_FAST 182),
     (1066, species_entry [T_ELECTRIC, T_ICE] 50 65 107 105 107 86 None MEDIUM_FAST 182),
     (1067, species_entry [T_ELECTRIC, T_FLYING] 50 65 107 105 107 86 None MEDIUM_FAST 182),
     (1068, species_entry [T_ELECTRIC, T_GRASS] 50 65 107 105 107 86 None MEDIUM_FAST 182),
     (480, species_entry [T_PSYCHIC] 75 75 130 75 130 95 None SLOW 290),
     (481, species_entry [T_PSYCHIC] 80 105 105 105 105 80 None SLOW 290),
     (482, species_entry [T_PSYCHIC] 75 125 70 125 70 115 None SLOW 290),
     (483, species_entry [T_STEEL, T_DRAGON] 100 120 120 150 100 90 None SLOW 340),
     (1069, species_entry [T_STEEL, T_DRAGON] 100 100 120 150 120 90 None SLOW 340),
     (484, species_entry [T_WATER, T_DRAGON] 90 120 100 150 120 100 None SLOW 340),
     (1070, species_entry [T_WATER, T_DRAGON] 90 100 100 150 120 120 None SLOW 340),
     (485, species_entry [T_FIRE, T_STEEL] 91 90 106 130 106 77 (Some (1 / 2)) SLOW 300),
     (486, species_entry [T_NORMAL] 110 160 110 80 110 100 None SLOW 335),
     (487, species_entry [T_GHOST, T_DRAGON] 150 100 120 100 120 90 None SLOW 340),
     (1071, species_entry [T_GHOST, T_DRAGON] 150 120 100 120 100 90 None SLOW 340),
     (488, species_entry [T_PSYCHIC] 120 70 110 75 120 85 (Some 0) SLOW 300),
     (489, species_entry [T_WATER] 80 80 80 80 80 80 None SLOW 240),
     (490, species_entry [T_WATER] 100 100 100 100 100 100 None SLOW 300),
     (491, species_entry [T_DARK] 70 90 90 135 90 125 None SLOW 300),
     (492, species_entry [T_GRASS] 100 100 100 100 100 100 None MEDIUM_SLOW 300),
     (1072, species_entry [T_GRASS, T_FLYING] 100 103 75 120 75 127 None MEDIUM_SLOW 300),
     (493, species_entry [T_NORMAL] 120 120 120 120 120 120 None SLOW 360),
     (1078, species_entry [T_BUG] 120 120 120 120 120 120 None SLOW 360),
     (1088, species_entry [T_DARK] 120 120 120 120 120 120 None SLOW 360),
     (1087, species_entry [T_DRAGON] 120 120 120 120 120 120 None SLOW 360),
     (1085, species_entry [T_ELECTRIC] 120 120 120 120 120 120 None SLOW 360),
     (1089, species_entry [T_FAIRY] 120 120 120 120 120 120 None SLOW 360),
     (1073, species_entry [T_FIGHTING] 120 120 120 120 120 120 None SLOW 360),
     (1081, species_entry [T_FIRE] 120 120 120 120 120 120 None SLOW 360),
     (1074, species_entry [T_FLYING] 120 120 120 120 120 120 None SLOW 360),
     (1079, species_entry [T_GHOST] 120 120 120 120 120 120 None SLOW 360),
     (1083, species_entry [T_GRASS] 120 120 120 120 120 120 None SLOW 360),
     (1076, species_entry [T_GROUND] 120 120 120 120 120 120 None SLOW 360),
     (1086, species_entry [T_ICE] 120 120 120 120 120 120 None SLOW 360),
     (1075, species_entry [T_POISON] 120 120 120 120 120 120 None SLOW 360),
     (1085, species_entry [T_PSYCHIC] 120 120 120 120 120 120 None SLOW 360),
     (1077, species_entry [T_ROCK] 120 120 120 120 120 120 None SLOW 360),
     (1080, species_entry [T_STEEL] 120 120 120 120 120 120 None SLOW 360),
     (1082, species_entry [T_WATER] 120 120 120 120 120 120 None SLOW 360),
     (494, species_entry [T_PSYCHIC, T_FIRE] 100 100 100 100 100 100 None SLOW 300),
     (495, species_entry [T_GRASS] 45 45 55 45 55 63 (Some (7 / 8)) MEDIUM_SLOW 62),
     (496, species_entry [T_GRASS] 60 60 75 60 75 83 (Some (7 / 8)) MEDIUM_SLOW 145),
     (497, species_entry [T_GRASS] 75 75 95 75 95 113 (Some (7 / 8)) MEDIUM_SLOW 264),
     (498, species_entry [T_FIRE] 65 63 45 45 45 45 (Some (7 / 8)) MEDIUM_SLOW 62),
     (499, species_entry [T_FIRE, T_FIGHTING] 90 93 55 70 55 55 (Some (7 / 8)) MEDIUM_SLOW 146),
     (500, species_entry [T_FIRE, T_FIGHTING] 110 123 65 100 65 65 (Some (7 / 8)) MEDIUM_SLOW 264),
     (501, species_entry [T_WATER] 55 55 45 63 45 45 (Some (7 / 8)) MEDIUM_SLOW 62),
     (502, species_entry [T_WATER] 75 75 60 83 60 60 (Some (7 / 8)) MEDIUM_SLOW 145),
     (503, species_entry [T_WATER] 95 100 85 108 70 70 (Some (7 / 8)) MEDIUM_SLOW 264),
     (1000, species_entry [T_WATER, T_DARK] 90 108 80 100 65 85 (Some (7 / 8)) MEDIUM_SLOW 264),
     (504, species_entry [T_NORMAL] 45 55 39 35 39 42 (Some (1 / 2)) MEDIUM_FAST 51),
     (505, species_entry [T_NORMAL] 60 85 69 60 69 77 (Some (1 / 2)) MEDIUM_FAST 147),
     (506, species_entry [T_NORMAL] 45 60 45 25 45 55 (Some (1 / 2)) MEDIUM_SLOW 55),
     (507, species_entry [T_NORMAL] 65 80 65 35 65 60 (Some (1 / 2)) MEDIUM_SLOW 130),
     (508, species_entry [T_NORMAL] 85 110 90 45 90 80 (Some (1 / 2)) MEDIUM_SLOW 250),
     (509, species_entry [T_DARK] 41 50 37 50 37 66 (Some (1 / 2)) MEDIUM_FAST 56),
     (510, species_entry [T_DARK] 64 88 50 88 50 106 (Some (1 / 2)) MEDIUM_FAST 156),
     (511, species_entry [T_GRASS] 50 53 48 53 48 64 (Some (7 / 8)) MEDIUM_FAST 63),
     (512, species_entry [T_GRASS] 75 98 63 98 63 101 (Some (7 / 8)) MEDIUM_FAST 174),
     (513, species_entry [T_FIRE] 50 53 48 53 48 64 (Some (7 / 8)) MEDIUM_FAST 63),
     (514, species_entry [T_FIRE] 75 98 63 98 63 101 (Some (7 / 8)) MEDIUM_FAST 174),
     (515, species_entry [T_WATER] 50 53 48 53 48 64 (Some (7 / 8)) MEDIUM_FAST 63),
     (516, species_entry [T_WATER] 75 98 63 98 63 101 (Some (7 / 8)) MEDIUM_FAST 174),
     (517, species_entry [T_PSYCHIC] 76 25 45 67 55 24 (Some (1 / 2)) FAST 58),
     (518, species_entry [T_PSYCHIC] 116 55 85 107 95 29 (Some (1 / 2)) FAST 170),
     (519, species_entry [T_NORMAL, T_FLYING] 50 55 50 36 30 43 (Some (1 / 2)) MEDIUM_SLOW 53),
     (520, species_entry [T_NORMAL, T_FLYING] 62 77 62 50 42 65 (Some (1 / 2)) MEDIUM_SLOW 125),
     (521, species_entry [T_NORMAL, T_FLYING] 80 115 80 65 55 93 (Some (1 / 2)) MEDIUM_SLOW 244),
     (522, species_entry [T_ELECTRIC] 45 60 32 50 32 76 (Some (1 / 2)) MEDIUM_FAST 59),
     (523, species_entry [T_ELECTRIC] 75 100 63 80 63 116 (Some (1 / 2)) MEDIUM_FAST 174),
     (524, species_entry [T_ROCK] 55 75 85 25 25 15 (Some (1 / 2)) MEDIUM_SLOW 56),
     (525, species_entry [T_ROCK] 70 105 105 50 40 20 (Some (1 / 2)) MEDIUM_SLOW 137),
     (526, species_entry [T_ROCK] 85 135 130 60 80 25 (Some (1 / 2)) MEDIUM_SLOW 258),
     (527, species_entry [T_PSYCHIC, T_FLYING] 65 45 43 55 43 72 (Some (1 / 2)) MEDIUM_FAST 65),
     (528, species_entry [T_PSYCHIC, T_FLYING] 67 57 55 77 55 114 (Some (1 / 2)) MEDIUM_FAST 149),
     (529, species_entry [T_GROUND] 60 85 40 30 45 68 (Some (1 / 2)) MEDIUM_FAST 66),
     (530, species_entry [T_GROUND, T_STEEL] 110 135 60 50 65 88 (Some (1 / 2)) MEDIUM_FAST 178),
     (531, species_entry [T_NORMAL] 103 60 86 60 86 50 (Some (1 / 2)) FAST 390),
     (951, species_entry [T_NORMAL, T_FAIRY] 103 60 126 80 126 50 (Some (1 / 2)) FAST 425),
     (532, species_entry [T_FIGHTING] 75 80 55 25 35 35 (Some (3 / 4)) MEDIUM_SLOW 61),
     (533, species_entry [T_FIGHTING] 85 105 85 40 50 40 (Some (3 / 4)) MEDIUM_SLOW 142),
     (534, species_entry [T_FIGHTING] 105 140 95 55 65 45 (Some (3 / 4)) MEDIUM_SLOW 253),
     (535, species_entry [T_WATER] 50 50 40 50 40 64 (Some (1 / 2)) MEDIUM_SLOW 59),
     (536, species_entry [T_WATER, T_GROUND] 75 65 55 65 55 69 (Some (1 / 2)) MEDIUM_SLOW 134),
     (537, species_entry [T_WATER, T_GROUND] 105 95 75 85 75 74 (Some (1 / 2)) MEDIUM_SLOW 255),
     (538, species_entry [T_FIGHTING] 120 100 85 30 85 45 (Some 1) MEDIUM_FAST 163),
     (539, species_entry [T_FIGHTING] 75 125 75 30 75 85 (Some 1) MEDIUM_FAST 163),
     (540, species_entry [T_BUG, T_GRASS] 45 53 70 40 60 42 (Some (1 / 2)) MEDIUM_SLOW 62),
     (541, species_entry [T_BUG, T_GRASS] 55 63 90 50 80 42 (Some (1 / 2)) MEDIUM_SLOW 133),
     (542, species_entry [T_BUG, T_GRASS] 75 103 80 70 80 92 (Some (1 / 2)) MEDIUM_SLOW 250),
     (543, species_entry [T_BUG, T_POISON] 30 45 59 30 39 57 (Some (1 / 2)) MEDIUM_SLOW 52),
     (544, species_entry [T_BUG, T_POISON] 40 55 99 40 79 47 (Some (1 / 2)) MEDIUM_SLOW 126),
     (545, species_entry [T_BUG, T_POISON] 60 100 89 55 69 112 (Some (1 / 2)) MEDIUM_SLOW 243),
     (546, species_entry [T_GRASS, T_FAIRY] 40 27 60 37 50 66 (Some (1 / 2)) MEDIUM_FAST 56),
     (547, species_entry [T_GRASS, T_FAIRY] 60 67 85 77 75 116 (Some (1 / 2)) MEDIUM_FAST 168),
     (548, species_entry [T_GRASS] 45 35 50 70 50 30 (Some 0) MEDIUM_FAST 56),
     (549, species_entry [T_GRASS] 70 60 75 110 75 90 (Some 0) MEDIUM_FAST 168),
     (1001, species_entry [T_GRASS, T_FIGHTING] 70 105 75 50 75 105 (Some 0) MEDIUM_FAST 168),
     (550, species_entry [T_WATER] 70 92 65 80 55 98 (Some (1 / 2)) MEDIUM_FAST 161),
     (1090, species_entry [T_WATER] 70 92 65 80 55 98 (Some (1 / 2)) MEDIUM_FAST 161),
     (1091, species_entry [T_WATER] 70 92 65 80 55 98 (Some (1 / 2)) MEDIUM_FAST 161),
     (551, species_entry [T_GROUND, T_DARK] 50 72 35 35 35 65 (Some (1 / 2)) MEDIUM_SLOW 58),
     (552, species_entry [T_GROUND, T_DARK] 60 82 45 45 45 74 (Some (1 / 2)) MEDIUM_SLOW 123),
     (553, species_entry [T_GROUND, T_DARK] 95 117 80 65 70 92 (Some (1 / 2)) MEDIUM_SLOW 260),
     (554, species_entry [T_FIRE] 70 90 45 15 45 50 (Some (1 / 2)) MEDIUM_SLOW 63),
     (989, species_entry [T_ICE] 70 90 45 15 45 50 (Some (1 / 2)) MEDIUM_SLOW 63),
     (555, species_entry [T_FIRE] 105 140 55 30 55 95 (Some (1 / 2)) MEDIUM_SLOW 168),
     (1092, species_entry [T_FIRE, T_PSYCHIC] 105 30 105 140 105 55 (Some (1 / 2)) MEDIUM_SLOW 189),
     (990, species_entry [T_ICE] 105 140 55 30 55 95 (Some (1 / 2)) MEDIUM_SLOW 168),
     (1093, species_entry [T_ICE, T_FIRE] 105 160 55 30 55 135 (Some (1 / 2)) MEDIUM_SLOW 189),
     (556, species_entry [T_GRASS] 75 86 67 106 67 60 (Some (1 / 2)) MEDIUM_FAST 161),
     (557, species_entry [T_BUG, T_ROCK] 50 65 85 35 35 55 (Some (1 / 2)) MEDIUM_FAST 65),
     (558, species_entry [T_BUG, T_ROCK] 70 105 125 65 75 45 (Some (1 / 2)) MEDIUM_FAST 170),
     (559, species_entry [T_DARK, T_FIGHTING] 50 75 70 35 70 48 (Some (1 / 2)) MEDIUM_FAST 70),
     (560, species_entry [T_DARK, T_FIGHTING] 65 90 115 45 115 58 (Some (1 / 2)) MEDIUM_FAST 171),
     (561, species_entry [T_PSYCHIC, T_FLYING] 72 58 80 103 80 97 (Some (1 / 2)) MEDIUM_FAST 172),
     (562, species_entry [T_GHOST] 38 30 85 55 65 30 (Some (1 / 2)) MEDIUM_FAST 61),
     (991, species_entry [T_GROUND, T_GHOST] 38 55 85 30 65 30 (Some (1 / 2)) MEDIUM_FAST 61),
     (563, species_entry [T_GHOST] 58 50 145 95 105 30 (Some (1 / 2)) MEDIUM_FAST 169),
     (564, species_entry [T_WATER, T_ROCK] 54 78 103 53 45 22 (Some (7 / 8)) MEDIUM_FAST 71),
     (565, species_entry [T_WATER, T_ROCK] 74 108 133 83 65 32 (Some (7 / 8)) MEDIUM_FAST 173),
     (566, species_entry [T_ROCK, T_FLYING] 55 112 45 74 45 70 (Some (7 / 8)) MEDIUM_FAST 71),
     (567, species_entry [T_ROCK, T_FLYING] 75 140 65 112 65 110 (Some (7 / 8)) MEDIUM_FAST 177),
     (568, species_entry [T_POISON] 50 50 62 40 62 65 (Some (1 / 2)) MEDIUM_FAST 66),
     (569, species_entry [T_POISON] 80 95 82 60 82 75 (Some (1 / 2)) MEDIUM_FAST 166),
     (570, species_entry [T_DARK] 40 65 40 80 40 65 (Some (7 / 8)) MEDIUM_SLOW 66),
     (1002, species_entry [T_NORMAL, T_GHOST] 35 60 40 85 40 70 (Some (7 / 8)) MEDIUM_SLOW 66)]"

definition SPECIES_ROWS_6 :: "(species \<times> species_data) list" where
  "SPECIES_ROWS_6 = [
     (571, species_entry [T_DARK] 60 105 60 120 60 105 (Some (7 / 8)) MEDIUM_SLOW 179),
     (1003, species_entry [T_NORMAL, T_GHOST] 55 100 60 125 60 110 (Some (7 / 8)) MEDIUM_SLOW 179),
     (572, species_entry [T_NORMAL] 55 50 40 40 40 75 (Some (1 / 4)) FAST 60),
     (573, species_entry [T_NORMAL] 75 95 60 65 60 115 (Some (1 / 4)) FAST 165),
     (574, species_entry [T_PSYCHIC] 45 30 50 55 65 45 (Some (1 / 4)) MEDIUM_SLOW 58),
     (575, species_entry [T_PSYCHIC] 60 45 70 75 85 55 (Some (1 / 4)) MEDIUM_SLOW 137),
     (576, species_entry [T_PSYCHIC] 70 55 95 95 110 65 (Some (1 / 4)) MEDIUM_SLOW 245),
     (577, species_entry [T_PSYCHIC] 45 30 40 105 50 20 (Some (1 / 2)) MEDIUM_SLOW 58),
     (578, species_entry [T_PSYCHIC] 65 40 50 125 60 30 (Some (1 / 2)) MEDIUM_SLOW 130),
     (579, species_entry [T_PSYCHIC] 110 65 75 125 85 30 (Some (1 / 2)) MEDIUM_SLOW 245),
     (580, species_entry [T_WATER, T_FLYING] 62 44 50 44 50 55 (Some (1 / 2)) MEDIUM_FAST 61),
     (581, species_entry [T_WATER, T_FLYING] 75 87 63 87 63 98 (Some (1 / 2)) MEDIUM_FAST 166),
     (582, species_entry [T_ICE] 36 50 50 65 60 44 (Some (1 / 2)) SLOW 61),
     (583, species_entry [T_ICE] 51 65 65 80 75 59 (Some (1 / 2)) SLOW 138),
     (584, species_entry [T_ICE] 71 95 85 110 95 79 (Some (1 / 2)) SLOW 268),
     (585, species_entry [T_NORMAL, T_GRASS] 60 60 50 40 50 75 (Some (1 / 2)) MEDIUM_FAST 67),
     (1094, species_entry [T_NORMAL, T_GRASS] 60 60 50 40 50 75 (Some (1 / 2)) MEDIUM_FAST 67),
     (1095, species_entry [T_NORMAL, T_GRASS] 60 60 50 40 50 75 (Some (1 / 2)) MEDIUM_FAST 67),
     (1096, species_entry [T_NORMAL, T_GRASS] 60 60 50 40 50 75 (Some (1 / 2)) MEDIUM_FAST 67),
     (586, species_entry [T_NORMAL, T_GRASS] 80 100 70 60 70 95 (Some (1 / 2)) MEDIUM_FAST 166),
     (1097, species_entry [T_NORMAL, T_GRASS] 80 100 70 60 70 95 (Some (1 / 2)) MEDIUM_FAST 166),
     (1098, species_entry [T_NORMAL, T_GRASS] 80 100 70 60 70 95 (Some (1 / 2)) MEDIUM_FAST 166),
     (1099, species_entry [T_NORMAL, T_GRASS] 80 100 70 60 70 95 (Some (1 / 2)) MEDIUM_FAST 166),
     (587, species_entry [T_ELECTRIC, T_FLYING] 55 75 60 75 60 103 (Some (1 / 2)) MEDIUM_FAST 150),
     (588, species_entry [T_BUG] 50 75 45 40 45 60 (Some (1 / 2)) MEDIUM_FAST 63),
     (589, species_entry [T_BUG, T_STEEL] 70 135 105 60 105 20 (Some (1 / 2)) MEDIUM_FAST 173),
     (590, species_entry [T_GRASS, T_POISON] 69 55 45 55 55 15 (Some (1 / 2)) MEDIUM_FAST 59),
     (591, species_entry [T_GRASS, T_POISON] 114 85 70 85 80 30 (Some (1 / 2)) MEDIUM_FAST 162),
     (592, species_entry [T_WATER, T_GHOST] 55 40 50 65 85 40 (Some (1 / 2)) MEDIUM_FAST 67),
     (593, species_entry [T_WATER, T_GHOST] 100 60 70 85 105 60 (Some (1 / 2)) MEDIUM_FAST 168),
     (594, species_entry [T_WATER] 165 75 80 40 45 65 (Some (1 / 2)) FAST 165),
     (595, species_entry [T_BUG, T_ELECTRIC] 50 47 50 57 50 65 (Some (1 / 2)) MEDIUM_FAST 64),
     (596, species_entry [T_BUG, T_ELECTRIC] 70 77 60 97 60 108 (Some (1 / 2)) MEDIUM_FAST 165),
     (597, species_entry [T_GRASS, T_STEEL] 44 50 91 24 86 10 (Some (1 / 2)) MEDIUM_FAST 61),
     (598, species_entry [T_GRASS, T_STEEL] 74 94 131 54 116 20 (Some (1 / 2)) MEDIUM_FAST 171),
     (599, species_entry [T_STEEL] 40 55 70 45 60 30 None MEDIUM_SLOW 60),
     (600, species_entry [T_STEEL] 60 80 95 70 85 50 None MEDIUM_SLOW 154),
     (601, species_entry [T_STEEL] 60 100 115 70 85 90 None MEDIUM_SLOW 260),
     (602, species_entry [T_ELECTRIC] 35 55 40 45 40 60 (Some (1 / 2)) SLOW 55),
     (603, species_entry [T_ELECTRIC] 65 85 70 75 70 40 (Some (1 / 2)) SLOW 142),
     (604, species_entry [T_ELECTRIC] 85 115 80 105 80 50 (Some (1 / 2)) SLOW 258),
     (605, species_entry [T_PSYCHIC] 55 55 55 85 55 30 (Some (1 / 2)) MEDIUM_FAST 67),
     (606, species_entry [T_PSYCHIC] 75 75 75 125 95 40 (Some (1 / 2)) MEDIUM_FAST 170),
     (607, species_entry [T_GHOST, T_FIRE] 50 30 55 65 55 20 (Some (1 / 2)) MEDIUM_SLOW 55),
     (608, species_entry [T_GHOST, T_FIRE] 60 40 60 95 60 55 (Some (1 / 2)) MEDIUM_SLOW 130),
     (609, species_entry [T_GHOST, T_FIRE] 60 55 90 145 90 80 (Some (1 / 2)) MEDIUM_SLOW 260),
     (610, species_entry [T_DRAGON] 46 87 60 30 40 57 (Some (1 / 2)) SLOW 64),
     (611, species_entry [T_DRAGON] 66 117 70 40 50 67 (Some (1 / 2)) SLOW 144),
     (612, species_entry [T_DRAGON] 76 147 90 60 70 97 (Some (1 / 2)) SLOW 270),
     (613, species_entry [T_ICE] 55 70 40 60 40 40 (Some (1 / 2)) MEDIUM_FAST 61),
     (614, species_entry [T_ICE] 95 130 80 70 80 50 (Some (1 / 2)) MEDIUM_FAST 177),
     (615, species_entry [T_ICE] 80 50 50 95 135 105 None MEDIUM_FAST 180),
     (616, species_entry [T_BUG] 50 40 85 40 65 25 (Some (1 / 2)) MEDIUM_FAST 61),
     (617, species_entry [T_BUG] 80 70 40 100 60 145 (Some (1 / 2)) MEDIUM_FAST 173),
     (618, species_entry [T_GROUND, T_ELECTRIC] 109 66 84 81 99 32 (Some (1 / 2)) MEDIUM_FAST 165),
     (992, species_entry [T_GROUND, T_STEEL] 109 81 99 66 84 32 (Some (1 / 2)) MEDIUM_FAST 165),
     (619, species_entry [T_FIGHTING] 45 85 50 55 50 65 (Some (1 / 2)) MEDIUM_SLOW 70),
     (620, species_entry [T_FIGHTING] 65 125 60 95 60 105 (Some (1 / 2)) MEDIUM_SLOW 179),
     (621, species_entry [T_DRAGON] 77 120 90 60 90 48 (Some (1 / 2)) MEDIUM_FAST 170),
     (622, species_entry [T_GROUND, T_GHOST] 59 74 50 35 50 35 None MEDIUM_FAST 61),
     (623, species_entry [T_GROUND, T_GHOST] 89 124 80 55 80 55 None MEDIUM_FAST 169),
     (624, species_entry [T_DARK, T_STEEL] 45 85 70 40 40 60 (Some (1 / 2)) MEDIUM_FAST 68),
     (625, species_entry [T_DARK, T_STEEL] 65 125 100 60 70 70 (Some (1 / 2)) MEDIUM_FAST 172),
     (626, species_entry [T_NORMAL] 95 110 95 40 95 55 (Some (1 / 2)) MEDIUM_FAST 172),
     (627, species_entry [T_NORMAL, T_FLYING] 70 83 50 37 50 60 (Some 1) SLOW 70),
     (628, species_entry [T_NORMAL, T_FLYING] 100 123 75 57 75 80 (Some 1) SLOW 179),
     (1004, species_entry [T_PSYCHIC, T_FLYING] 110 83 70 112 70 65 (Some 1) SLOW 179),
     (629, species_entry [T_DARK, T_FLYING] 70 55 75 45 65 60 (Some 0) SLOW 74),
     (630, species_entry [T_DARK, T_FLYING] 110 65 105 55 95 80 (Some 0) SLOW 179),
     (631, species_entry [T_FIRE] 85 97 66 105 66 65 (Some (1 / 2)) MEDIUM_FAST 169),
     (632, species_entry [T_BUG, T_STEEL] 58 109 112 48 48 109 (Some (1 / 2)) MEDIUM_FAST 169),
     (633, species_entry [T_DARK, T_DRAGON] 52 65 50 45 50 38 (Some (1 / 2)) SLOW 60),
     (634, species_entry [T_DARK, T_DRAGON] 72 85 70 65 70 58 (Some (1 / 2)) SLOW 147),
     (635, species_entry [T_DARK, T_DRAGON] 92 105 90 125 90 98 (Some (1 / 2)) SLOW 300),
     (636, species_entry [T_BUG, T_FIRE] 55 85 55 50 55 60 (Some (1 / 2)) SLOW 72),
     (637, species_entry [T_BUG, T_FIRE] 85 60 65 135 105 100 (Some (1 / 2)) SLOW 275),
     (638, species_entry [T_STEEL, T_FIGHTING] 91 90 129 90 72 108 None SLOW 290),
     (639, species_entry [T_ROCK, T_FIGHTING] 91 129 90 72 90 108 None SLOW 290),
     (640, species_entry [T_GRASS, T_FIGHTING] 91 90 72 90 129 108 None SLOW 290),
     (641, species_entry [T_FLYING] 79 115 70 125 80 111 (Some 1) SLOW 290),
     (1100, species_entry [T_FLYING] 79 100 80 110 90 121 (Some 1) SLOW 290),
     (642, species_entry [T_ELECTRIC, T_FLYING] 79 115 70 125 80 111 (Some 1) SLOW 290),
     (1101, species_entry [T_ELECTRIC, T_FLYING] 79 105 70 145 80 101 (Some 1) SLOW 290),
     (643, species_entry [T_DRAGON, T_FIRE] 100 120 100 150 120 90 None SLOW 340),
     (644, species_entry [T_DRAGON, T_ELECTRIC] 100 150 120 120 100 90 None SLOW 340),
     (645, species_entry [T_GROUND, T_FLYING] 89 125 90 115 80 101 (Some 1) SLOW 300),
     (1102, species_entry [T_GROUND, T_FLYING] 89 145 90 105 80 91 (Some 1) SLOW 300),
     (646, species_entry [T_DRAGON, T_ICE] 125 130 90 130 90 95 None SLOW 330),
     (1105, species_entry [T_DRAGON, T_ICE] 125 170 100 120 90 95 None SLOW 350),
     (1104, species_entry [T_DRAGON, T_ICE] 125 120 90 170 100 95 None SLOW 350),
     (647, species_entry [T_WATER, T_FIGHTING] 91 72 90 129 90 108 None SLOW 290),
     (1106, species_entry [T_WATER, T_FIGHTING] 91 72 90 129 90 108 None SLOW 290),
     (648, species_entry [T_NORMAL, T_PSYCHIC] 100 77 77 128 128 90 None SLOW 300),
     (1107, species_entry [T_NORMAL, T_FIGHTING] 100 128 90 77 77 128 None SLOW 300),
     (649, species_entry [T_BUG, T_STEEL] 71 120 95 120 95 99 None SLOW 300),
     (1108, species_entry [T_BUG, T_STEEL] 71 120 95 120 95 99 None SLOW 300),
     (1109, species_entry [T_BUG, T_STEEL] 71 120 95 120 95 99 None SLOW 300),
     (1110, species_entry [T_BUG, T_STEEL] 71 120 95 120 95 99 None SLOW 300),
     (1111, species_entry [T_BUG, T_STEEL] 71 120 95 120 95 99 None SLOW 300),
     (650, species_entry [T_GRASS] 56 61 65 48 45 38 (Some (7 / 8)) MEDIUM_SLOW 63),
     (651, species_entry [T_GRASS] 61 78 95 56 58 57 (Some (7 / 8)) MEDIUM_SLOW 142),
     (652, species_entry [T_GRASS, T_FIGHTING] 88 107 122 74 75 64 (Some (7 / 8)) MEDIUM_SLOW 265),
     (653, species_entry [T_FIRE] 40 45 40 62 60 60 (Some (7 / 8)) MEDIUM_SLOW 61),
     (654, species_entry [T_FIRE] 59 59 58 90 70 73 (Some (7 / 8)) MEDIUM_SLOW 143),
     (655, species_entry [T_FIRE, T_PSYCHIC] 75 69 72 114 100 104 (Some (7 / 8)) MEDIUM_SLOW 267),
     (656, species_entry [T_WATER] 41 56 40 62 44 71 (Some (7 / 8)) MEDIUM_SLOW 63),
     (657, species_entry [T_WATER] 54 63 52 83 56 97 (Some (7 / 8)) MEDIUM_SLOW 142),
     (658, species_entry [T_WATER, T_DARK] 72 95 67 103 71 122 (Some (7 / 8)) MEDIUM_SLOW 265),
     (1112, species_entry [T_WATER, T_DARK] 72 95 67 103 71 122 (Some 1) MEDIUM_SLOW 265),
     (1113, species_entry [T_WATER, T_DARK] 72 145 67 153 71 132 (Some 1) MEDIUM_SLOW 320),
     (659, species_entry [T_NORMAL] 38 36 38 32 36 57 (Some (1 / 2)) MEDIUM_FAST 47),
     (660, species_entry [T_NORMAL, T_GROUND] 85 56 77 50 77 78 (Some (1 / 2)) MEDIUM_FAST 148),
     (661, species_entry [T_NORMAL, T_FLYING] 45 50 43 40 38 62 (Some (1 / 2)) MEDIUM_SLOW 56),
     (662, species_entry [T_FIRE, T_FLYING] 62 73 55 56 52 84 (Some (1 / 2)) MEDIUM_SLOW 134),
     (663, species_entry [T_FIRE, T_FLYING] 78 81 71 74 69 126 (Some (1 / 2)) MEDIUM_SLOW 175),
     (664, species_entry [T_BUG] 38 35 40 27 25 35 (Some (1 / 2)) MEDIUM_FAST 40),
     (665, species_entry [T_BUG] 45 22 60 27 30 29 (Some (1 / 2)) MEDIUM_FAST 75),
     (666, species_entry [T_BUG, T_FLYING] 80 52 50 90 50 89 (Some (1 / 2)) MEDIUM_FAST 206),
     (1114, species_entry [T_BUG, T_FLYING] 80 52 50 90 50 89 (Some (1 / 2)) MEDIUM_FAST 206),
     (1115, species_entry [T_BUG, T_FLYING] 80 52 50 90 50 89 (Some (1 / 2)) MEDIUM_FAST 206),
     (1116, species_entry [T_BUG, T_FLYING] 80 52 50 90 50 89 (Some (1 / 2)) MEDIUM_FAST 206),
     (1117, species_entry [T_BUG, T_FLYING] 80 52 50 90 50 89 (Some (1 / 2)) MEDIUM_FAST 206),
     (1118, species_entry [T_BUG, T_FLYING] 80 52 50 90 50 89 (Some (1 / 2)) MEDIUM_FAST 206),
     (1119, species_entry [T_BUG, T_FLYING] 80 52 50 90 50 89 (Some (1 / 2)) MEDIUM_FAST 206),
     (1120, species_entry [T_BUG, T_FLYING] 80 52 50 90 50 89 (Some (1 / 2)) MEDIUM_FAST 206),
     (1121, species_entry [T_BUG, T_FLYING] 80 52 50 90 50 89 (Some (1 / 2)) MEDIUM_FAST 206),
     (1122, species_entry [T_BUG, T_FLYING] 80 52 50 90 50 89 (Some (1 / 2)) MEDIUM_FAST 206),
     (1123, species_entry [T_BUG, T_FLYING] 80 52 50 90 50 89 (Some (1 / 2)) MEDIUM_FAST 206),
     (1124, species_entry [T_BUG, T_FLYING] 80 52 50 90 50 89 (Some (1 / 2)) MEDIUM_FAST 206),
     (1125, species_entry [T_BUG, T_FLYING] 80 52 50 90 50 89 (Some (1 / 2)) MEDIUM_FAST 206),
     (1126, species_entry [T_BUG, T_FLYING] 80 52 50 90 50 89 (Some (1 / 2)) MEDIUM_FAST 206),
     (1127, species_entry [T_BUG, T_FLYING] 80 52 50 90 50 89 (Some (1 / 2)) MEDIUM_FAST 206),
     (1128, species_entry [T_BUG, T_FLYING] 80 52 50 90 50 89 (Some (1 / 2)) MEDIUM_FAST 206),
     (1129, species_entry [T_BUG, T_FLYING] 80 52 50 90 50 89 (Some (1 / 2)) MEDIUM_FAST 206),
     (1130, species_entry [T_BUG, T_FLYING] 80 52 50 90 50 89 (Some (1 / 2)) MEDIUM_FAST 206),
     (1131, species_entry [T_BUG, T_FLYING] 80 52 50 90 50 89 (Some (1 / 2)) MEDIUM_FAST 206),
     (1132, species_entry [T_BUG, T_FLYING] 80 52 50 90 50 89 (Some (1 / 2)) MEDIUM_FAST 206),
     (667, species_entry [T_FIRE, T_NORMAL] 62 50 58 73 54 72 (Some (1 / 8)) MEDIUM_SLOW 74),
     (668, species_entry [T_FIRE, T_NORMAL] 86 68 72 109 66 106 (Some (1 / 8)) MEDIUM_SLOW 177),
     (669, species_entry [T_FAIRY] 44 38 39 61 79 42 (Some 0) MEDIUM_FAST 61),
     (1133, species_entry [T_FAIRY] 44 38 39 61 79 42 (Some 0) MEDIUM_FAST 61),
     (1134, species_entry [T_FAIRY] 44 38 39 61 79 42 (Some 0) MEDIUM_FAST 61),
     (1135, species_entry [T_FAIRY] 44 38 39 61 79 42 (Some 0) MEDIUM_FAST 61),
     (1136, species_entry [T_FAIRY] 44 38 39 61 79 42 (Some 0) MEDIUM_FAST 61),
     (670, species_entry [T_FAIRY] 54 45 47 75 98 52 (Some 0) MEDIUM_FAST 130),
     (1137, species_entry [T_FAIRY] 54 45 47 75 98 52 (Some 0) MEDIUM_FAST 130),
     (1138, species_entry [T_FAIRY] 54 45 47 75 98 52 (Some 0) MEDIUM_FAST 130),
     (1139, species_entry [T_FAIRY] 54 45 47 75 98 52 (Some 0) MEDIUM_FAST 130),
     (1140, species_entry [T_FAIRY] 54 45 47 75 98 52 (Some 0) MEDIUM_FAST 130),
     (1141, species_entry [T_FAIRY] 74 65 67 125 128 92 (Some 0) MEDIUM_FAST 243)]"

definition SPECIES_ROWS_7 :: "(species \<times> species_data) list" where
  "SPECIES_ROWS_7 = [
     (671, species_entry [T_FAIRY] 78 65 68 112 154 75 (Some 0) MEDIUM_FAST 276),
     (1142, species_entry [T_FAIRY] 78 65 68 112 154 75 (Some 0) MEDIUM_FAST 276),
     (1143, species_entry [T_FAIRY] 78 65 68 112 154 75 (Some 0) MEDIUM_FAST 276),
     (1144, species_entry [T_FAIRY] 78 65 68 112 154 75 (Some 0) MEDIUM_FAST 276),
     (1145, species_entry [T_FAIRY] 78 65 68 112 154 75 (Some 0) MEDIUM_FAST 276),
     (672, species_entry [T_GRASS] 66 65 48 62 57 52 (Some (1 / 2)) MEDIUM_FAST 70),
     (673, species_entry [T_GRASS] 123 100 62 97 81 68 (Some (1 / 2)) MEDIUM_FAST 186),
     (674, species_entry [T_FIGHTING] 67 82 62 46 48 43 (Some (1 / 2)) MEDIUM_FAST 70),
     (675, species_entry [T_FIGHTING, T_DARK] 95 124 78 69 71 58 (Some (1 / 2)) MEDIUM_FAST 173),
     (676, species_entry [T_NORMAL] 75 80 60 65 90 102 (Some (1 / 2)) MEDIUM_FAST 165),
     (1146, species_entry [T_NORMAL] 75 80 60 65 90 102 (Some (1 / 2)) MEDIUM_FAST 165),
     (1147, species_entry [T_NORMAL] 75 80 60 65 90 102 (Some (1 / 2)) MEDIUM_FAST 165),
     (1148, species_entry [T_NORMAL] 75 80 60 65 90 102 (Some (1 / 2)) MEDIUM_FAST 165),
     (1149, species_entry [T_NORMAL] 75 80 60 65 90 102 (Some (1 / 2)) MEDIUM_FAST 165),
     (1150, species_entry [T_NORMAL] 75 80 60 65 90 102 (Some (1 / 2)) MEDIUM_FAST 165),
     (1151, species_entry [T_NORMAL] 75 80 60 65 90 102 (Some (1 / 2)) MEDIUM_FAST 165),
     (1152, species_entry [T_NORMAL] 75 80 60 65 90 102 (Some (1 / 2)) MEDIUM_FAST 165),
     (1153, species_entry [T_NORMAL] 75 80 60 65 90 102 (Some (1 / 2)) MEDIUM_FAST 165),
     (1154, species_entry [T_NORMAL] 75 80 60 65 90 102 (Some (1 / 2)) MEDIUM_FAST 165),
     (677, species_entry [T_PSYCHIC] 62 48 54 63 60 68 (Some (1 / 2)) MEDIUM_FAST 71),
     (678, species_entry [T_PSYCHIC] 74 48 76 83 81 104 (Some 1) MEDIUM_FAST 163),
     (1155, species_entry [T_PSYCHIC] 74 48 76 83 81 104 (Some 0) MEDIUM_FAST 163),
     (679, species_entry [T_STEEL, T_GHOST] 45 80 100 35 37 28 (Some (1 / 2)) MEDIUM_FAST 65),
     (680, species_entry [T_STEEL, T_GHOST] 59 110 150 45 49 35 (Some (1 / 2)) MEDIUM_FAST 157),
     (681, species_entry [T_STEEL, T_GHOST] 60 50 140 50 140 60 (Some (1 / 2)) MEDIUM_FAST 250),
     (1156, species_entry [T_STEEL, T_GHOST] 60 140 50 140 50 60 (Some (1 / 2)) MEDIUM_FAST 250),
     (682, species_entry [T_FAIRY] 78 52 60 63 65 23 (Some (1 / 2)) MEDIUM_FAST 68),
     (683, species_entry [T_FAIRY] 101 72 72 99 89 29 (Some (1 / 2)) MEDIUM_FAST 162),
     (684, species_entry [T_FAIRY] 62 48 66 59 57 49 (Some (1 / 2)) MEDIUM_FAST 68),
     (685, species_entry [T_FAIRY] 82 80 86 85 75 72 (Some (1 / 2)) MEDIUM_FAST 168),
     (686, species_entry [T_DARK, T_PSYCHIC] 53 54 53 37 46 45 (Some (1 / 2)) MEDIUM_FAST 58),
     (687, species_entry [T_DARK, T_PSYCHIC] 86 92 88 68 75 73 (Some (1 / 2)) MEDIUM_FAST 169),
     (688, species_entry [T_ROCK, T_WATER] 42 52 67 39 56 50 (Some (1 / 2)) MEDIUM_FAST 61),
     (689, species_entry [T_ROCK, T_WATER] 72 105 115 54 86 68 (Some (1 / 2)) MEDIUM_FAST 175),
     (690, species_entry [T_POISON, T_WATER] 50 60 60 60 60 30 (Some (1 / 2)) MEDIUM_FAST 64),
     (691, species_entry [T_POISON, T_DRAGON] 65 75 90 97 123 44 (Some (1 / 2)) MEDIUM_FAST 173),
     (692, species_entry [T_WATER] 50 53 62 58 63 44 (Some (1 / 2)) SLOW 66),
     (693, species_entry [T_WATER] 71 73 88 120 89 59 (Some (1 / 2)) SLOW 100),
     (694, species_entry [T_ELECTRIC, T_NORMAL] 44 38 33 61 43 70 (Some (1 / 2)) MEDIUM_FAST 58),
     (695, species_entry [T_ELECTRIC, T_NORMAL] 62 55 52 109 94 109 (Some (1 / 2)) MEDIUM_FAST 168),
     (696, species_entry [T_ROCK, T_DRAGON] 58 89 77 45 45 48 (Some (7 / 8)) MEDIUM_FAST 72),
     (697, species_entry [T_ROCK, T_DRAGON] 82 121 119 69 59 71 (Some (7 / 8)) MEDIUM_FAST 182),
     (698, species_entry [T_ROCK, T_ICE] 77 59 50 67 63 46 (Some (7 / 8)) MEDIUM_FAST 72),
     (699, species_entry [T_ROCK, T_ICE] 123 77 72 99 92 58 (Some (7 / 8)) MEDIUM_FAST 104),
     (700, species_entry [T_FAIRY] 95 65 65 110 130 60 (Some (7 / 8)) MEDIUM_FAST 184),
     (701, species_entry [T_FIGHTING, T_FLYING] 78 92 75 74 63 118 (Some (1 / 2)) MEDIUM_FAST 175),
     (702, species_entry [T_ELECTRIC, T_FAIRY] 67 58 57 81 67 101 (Some (1 / 2)) MEDIUM_FAST 151),
     (703, species_entry [T_ROCK, T_FAIRY] 50 50 150 50 150 50 None SLOW 100),
     (704, species_entry [T_DRAGON] 45 50 35 55 75 40 (Some (1 / 2)) SLOW 60),
     (705, species_entry [T_DRAGON] 68 75 53 83 113 60 (Some (1 / 2)) SLOW 158),
     (1005, species_entry [T_STEEL, T_DRAGON] 58 75 83 83 113 40 (Some (1 / 2)) SLOW 158),
     (706, species_entry [T_DRAGON] 90 100 70 110 150 80 (Some (1 / 2)) SLOW 300),
     (1006, species_entry [T_STEEL, T_DRAGON] 80 100 100 110 150 60 (Some (1 / 2)) SLOW 300),
     (707, species_entry [T_STEEL, T_FAIRY] 57 80 91 80 87 75 (Some (1 / 2)) FAST 165),
     (708, species_entry [T_GHOST, T_GRASS] 43 70 48 50 60 38 (Some (1 / 2)) MEDIUM_FAST 62),
     (709, species_entry [T_GHOST, T_GRASS] 85 110 76 65 82 56 (Some (1 / 2)) MEDIUM_FAST 166),
     (710, species_entry [T_GHOST, T_GRASS] 49 66 70 44 55 51 (Some (1 / 2)) MEDIUM_FAST 67),
     (1157, species_entry [T_GHOST, T_GRASS] 44 66 70 44 55 56 (Some (1 / 2)) MEDIUM_FAST 67),
     (1158, species_entry [T_GHOST, T_GRASS] 54 66 70 44 55 46 (Some (1 / 2)) MEDIUM_FAST 67),
     (1159, species_entry [T_GHOST, T_GRASS] 59 66 70 44 55 41 (Some (1 / 2)) MEDIUM_FAST 67),
     (711, species_entry [T_GHOST, T_GRASS] 65 90 122 58 75 84 (Some (1 / 2)) MEDIUM_FAST 173),
     (1160, species_entry [T_GHOST, T_GRASS] 55 85 122 58 75 99 (Some (1 / 2)) MEDIUM_FAST 173),
     (1161, species_entry [T_GHOST, T_GRASS] 75 95 122 58 75 69 (Some (1 / 2)) MEDIUM_FAST 173),
     (1162, species_entry [T_GHOST, T_GRASS] 85 100 122 58 75 54 (Some (1 / 2)) MEDIUM_FAST 173),
     (712, species_entry [T_ICE] 55 69 85 32 35 28 (Some (1 / 2)) MEDIUM_FAST 61),
     (713, species_entry [T_ICE] 95 117 184 44 46 28 (Some (1 / 2)) MEDIUM_FAST 180),
     (1007, species_entry [T_ICE, T_ROCK] 95 127 184 34 36 38 (Some (1 / 2)) MEDIUM_FAST 180),
     (714, species_entry [T_FLYING, T_DRAGON] 40 30 35 45 40 55 (Some (1 / 2)) MEDIUM_FAST 49),
     (715, species_entry [T_FLYING, T_DRAGON] 85 70 80 97 80 123 (Some (1 / 2)) MEDIUM_FAST 187),
     (716, species_entry [T_FAIRY] 126 131 95 131 98 99 None SLOW 340),
     (1163, species_entry [T_FAIRY] 126 131 95 131 98 99 None SLOW 340),
     (717, species_entry [T_DARK, T_FLYING] 126 131 95 131 98 99 None SLOW 340),
     (1166, species_entry [T_DRAGON, T_GROUND] 108 100 121 81 95 95 None SLOW 300),
     (718, species_entry [T_DRAGON, T_GROUND] 108 100 121 81 95 95 None SLOW 300),
     (1165, species_entry [T_DRAGON, T_GROUND] 54 100 71 61 85 115 None SLOW 243),
     (1164, species_entry [T_DRAGON, T_GROUND] 54 100 71 61 85 115 None SLOW 243),
     (1167, species_entry [T_DRAGON, T_GROUND] 216 100 121 91 95 85 None SLOW 354),
     (719, species_entry [T_ROCK, T_FAIRY] 50 100 150 100 150 50 None SLOW 300),
     (952, species_entry [T_ROCK, T_FAIRY] 50 160 110 160 110 110 None SLOW 350),
     (720, species_entry [T_PSYCHIC, T_GHOST] 80 110 60 150 130 70 None SLOW 300),
     (1168, species_entry [T_PSYCHIC, T_DARK] 80 160 60 170 130 80 None SLOW 340),
     (721, species_entry [T_FIRE, T_WATER] 80 110 120 130 90 70 None SLOW 300),
     (722, species_entry [T_GRASS, T_FLYING] 68 55 55 50 50 42 (Some (7 / 8)) MEDIUM_SLOW 64),
     (723, species_entry [T_GRASS, T_FLYING] 78 75 75 70 70 52 (Some (7 / 8)) MEDIUM_SLOW 147),
     (724, species_entry [T_GRASS, T_GHOST] 78 107 75 100 100 70 (Some (7 / 8)) MEDIUM_SLOW 265),
     (1008, species_entry [T_GRASS, T_FIGHTING] 88 112 80 95 95 60 (Some (7 / 8)) MEDIUM_SLOW 265),
     (725, species_entry [T_FIRE] 45 65 40 60 40 70 (Some (7 / 8)) MEDIUM_SLOW 64),
     (726, species_entry [T_FIRE] 65 85 50 80 50 90 (Some (7 / 8)) MEDIUM_SLOW 147),
     (727, species_entry [T_FIRE, T_DARK] 95 115 90 80 90 60 (Some (7 / 8)) MEDIUM_SLOW 265),
     (728, species_entry [T_WATER] 50 54 54 66 56 40 (Some (7 / 8)) MEDIUM_SLOW 64),
     (729, species_entry [T_WATER] 60 69 69 91 81 50 (Some (7 / 8)) MEDIUM_SLOW 147),
     (730, species_entry [T_WATER, T_FAIRY] 80 74 74 126 116 60 (Some (7 / 8)) MEDIUM_SLOW 265),
     (731, species_entry [T_NORMAL, T_FLYING] 35 75 30 30 30 65 (Some (1 / 2)) MEDIUM_FAST 53),
     (732, species_entry [T_NORMAL, T_FLYING] 55 85 50 40 50 75 (Some (1 / 2)) MEDIUM_FAST 124),
     (733, species_entry [T_NORMAL, T_FLYING] 80 120 75 75 75 60 (Some (1 / 2)) MEDIUM_FAST 243),
     (734, species_entry [T_NORMAL] 48 70 30 30 30 45 (Some (1 / 2)) MEDIUM_FAST 51),
     (735, species_entry [T_NORMAL] 88 110 60 55 60 45 (Some (1 / 2)) MEDIUM_FAST 146),
     (736, species_entry [T_BUG] 47 62 45 55 45 46 (Some (1 / 2)) MEDIUM_FAST 60),
     (737, species_entry [T_BUG, T_ELECTRIC] 57 82 95 55 75 36 (Some (1 / 2)) MEDIUM_FAST 140),
     (738, species_entry [T_BUG, T_ELECTRIC] 77 70 90 145 75 43 (Some (1 / 2)) MEDIUM_FAST 250),
     (739, species_entry [T_FIGHTING] 47 82 57 42 47 63 (Some (1 / 2)) MEDIUM_FAST 68),
     (740, species_entry [T_FIGHTING, T_ICE] 97 132 77 62 67 43 (Some (1 / 2)) MEDIUM_FAST 167),
     (741, species_entry [T_FIRE, T_FLYING] 75 70 70 98 70 93 (Some (1 / 4)) MEDIUM_FAST 167),
     (1169, species_entry [T_ELECTRIC, T_FLYING] 75 70 70 98 70 93 (Some (1 / 4)) MEDIUM_FAST 167),
     (1170, species_entry [T_PSYCHIC, T_FLYING] 75 70 70 98 70 93 (Some (1 / 4)) MEDIUM_FAST 167),
     (1171, species_entry [T_GHOST, T_FLYING] 75 70 70 98 70 93 (Some (1 / 4)) MEDIUM_FAST 167),
     (742, species_entry [T_BUG, T_FAIRY] 40 45 40 55 40 84 (Some (1 / 2)) MEDIUM_FAST 61),
     (743, species_entry [T_BUG, T_FAIRY] 60 55 60 95 70 124 (Some (1 / 2)) MEDIUM_FAST 162),
     (744, species_entry [T_ROCK] 45 65 40 30 40 60 (Some (1 / 2)) MEDIUM_FAST 56),
     (1172, species_entry [T_ROCK] 45 65 40 30 40 60 (Some (1 / 2)) MEDIUM_FAST 56),
     (745, species_entry [T_ROCK] 75 115 65 55 65 112 (Some (1 / 2)) MEDIUM_FAST 170),
     (1173, species_entry [T_ROCK] 85 115 75 55 75 82 (Some (1 / 2)) MEDIUM_FAST 170),
     (1174, species_entry [T_ROCK] 75 117 65 55 65 110 (Some (1 / 2)) MEDIUM_FAST 170),
     (746, species_entry [T_WATER] 45 20 20 25 25 40 (Some (1 / 2)) FAST 61),
     (1175, species_entry [T_WATER] 45 140 130 140 135 30 (Some (1 / 2)) FAST 217),
     (747, species_entry [T_POISON, T_WATER] 50 53 62 43 52 45 (Some (1 / 2)) MEDIUM_FAST 61),
     (748, species_entry [T_POISON, T_WATER] 50 63 152 53 142 35 (Some (1 / 2)) MEDIUM_FAST 173),
     (749, species_entry [T_GROUND] 70 100 70 45 55 45 (Some (1 / 2)) MEDIUM_FAST 77),
     (750, species_entry [T_GROUND] 100 125 100 55 85 35 (Some (1 / 2)) MEDIUM_FAST 175),
     (751, species_entry [T_WATER, T_BUG] 38 40 52 40 72 27 (Some (1 / 2)) MEDIUM_FAST 54),
     (752, species_entry [T_WATER, T_BUG] 68 70 92 50 132 42 (Some (1 / 2)) MEDIUM_FAST 159),
     (753, species_entry [T_GRASS] 40 55 35 50 35 35 (Some (1 / 2)) MEDIUM_FAST 50),
     (754, species_entry [T_GRASS] 70 105 90 80 90 45 (Some (1 / 2)) MEDIUM_FAST 168),
     (755, species_entry [T_GRASS, T_FAIRY] 40 35 55 65 75 15 (Some (1 / 2)) MEDIUM_FAST 57),
     (756, species_entry [T_GRASS, T_FAIRY] 60 45 80 90 100 30 (Some (1 / 2)) MEDIUM_FAST 142),
     (757, species_entry [T_POISON, T_FIRE] 48 44 40 71 40 77 (Some (7 / 8)) MEDIUM_FAST 64),
     (758, species_entry [T_POISON, T_FIRE] 68 64 60 111 60 117 (Some 0) MEDIUM_FAST 168),
     (759, species_entry [T_NORMAL, T_FIGHTING] 70 75 50 45 50 50 (Some (1 / 2)) MEDIUM_FAST 68),
     (760, species_entry [T_NORMAL, T_FIGHTING] 120 125 80 55 60 60 (Some (1 / 2)) MEDIUM_FAST 175),
     (761, species_entry [T_GRASS] 42 30 38 30 38 32 (Some 0) MEDIUM_SLOW 42),
     (762, species_entry [T_GRASS] 52 40 48 40 48 62 (Some 0) MEDIUM_SLOW 102),
     (763, species_entry [T_GRASS] 72 120 98 50 98 72 (Some 0) MEDIUM_SLOW 255),
     (764, species_entry [T_FAIRY] 51 52 90 82 110 100 (Some (1 / 4)) FAST 170),
     (765, species_entry [T_NORMAL, T_PSYCHIC] 90 60 80 90 110 60 (Some (1 / 2)) SLOW 172),
     (766, species_entry [T_FIGHTING] 100 120 90 40 60 80 (Some (1 / 2)) SLOW 172),
     (767, species_entry [T_BUG, T_WATER] 25 35 40 20 30 80 (Some (1 / 2)) MEDIUM_FAST 46),
     (768, species_entry [T_BUG, T_WATER] 75 125 140 60 90 40 (Some (1 / 2)) MEDIUM_FAST 186),
     (769, species_entry [T_GHOST, T_GROUND] 55 55 80 70 45 15 (Some (1 / 2)) MEDIUM_FAST 64),
     (770, species_entry [T_GHOST, T_GROUND] 85 75 110 100 75 35 (Some (1 / 2)) MEDIUM_FAST 168),
     (771, species_entry [T_WATER] 55 60 130 30 130 5 (Some (1 / 2)) FAST 144),
     (772, species_entry [T_NORMAL] 95 95 95 95 95 59 None SLOW 107),
     (773, species_entry [T_NORMAL] 95 95 95 95 95 95 None SLOW 285),
     (1176, species_entry [T_BUG] 95 95 95 95 95 95 None SLOW 285),
     (1177, species_entry [T_DARK] 95 95 95 95 95 95 None SLOW 285),
     (1178, species_entry [T_DRAGON] 95 95 95 95 95 95 None SLOW 285),
     (1179, species_entry [T_ELECTRIC] 95 95 95 95 95 95 None SLOW 285),
     (1180, species_entry [T_FAIRY] 95 95 95 95 95 95 None SLOW 285),
     (1181, species_entry [T_FIGHTING] 95 95 95 95 95 95 None SLOW 285),
     (1182, species_entry [T_FIRE] 95 95 95 95 95 95 None SLOW 285),
     (1183, species_entry [T_FLYING] 95 95 95 95 95 95 None SLOW 285)]"

definition SPECIES_ROWS_8 :: "(species \<times> species_data) list" where
  "SPECIES_ROWS_8 = [
     (1184, species_entry [T_GHOST] 95 95 95 95 95 95 None SLOW 285),
     (1185, species_entry [T_GRASS] 95 95 95 95 95 95 None SLOW 285),
     (1186, species_entry [T_GROUND] 95 95 95 95 95 95 None SLOW 285),
     (1187, species_entry [T_ICE] 95 95 95 95 95 95 None SLOW 285),
     (1188, species_entry [T_POISON] 95 95 95 95 95 95 None SLOW 285),
     (1189, species_entry [T_PSYCHIC] 95 95 95 95 95 95 None SLOW 285),
     (1190, species_entry [T_ROCK] 95 95 95 95 95 95 None SLOW 285),
     (1191, species_entry [T_STEEL] 95 95 95 95 95 95 None SLOW 285),
     (1192, species_entry [T_WATER] 95 95 95 95 95 95 None SLOW 285),
     (774, species_entry [T_ROCK, T_FLYING] 60 100 60 100 60 120 None MEDIUM_FAST 175),
     (7740001, species_entry [T_ROCK, T_FLYING] 60 60 100 60 100 60 None MEDIUM_FAST 154),
     (775, species_entry [T_NORMAL] 65 115 65 75 95 65 (Some (1 / 2)) SLOW 168),
     (776, species_entry [T_FIRE, T_DRAGON] 60 78 135 91 85 36 (Some (1 / 2)) MEDIUM_FAST 170),
     (777, species_entry [T_ELECTRIC, T_STEEL] 65 98 63 40 73 96 (Some (1 / 2)) MEDIUM_FAST 152),
     (778, species_entry [T_GHOST, T_FAIRY] 55 90 80 50 105 96 (Some (1 / 2)) MEDIUM_FAST 167),
     (1206, species_entry [T_GHOST, T_FAIRY] 55 90 80 50 105 96 (Some (1 / 2)) MEDIUM_FAST 167),
     (779, species_entry [T_WATER, T_PSYCHIC] 68 105 70 70 70 92 (Some (1 / 2)) MEDIUM_FAST 166),
     (780, species_entry [T_NORMAL, T_DRAGON] 78 60 85 135 91 36 (Some (1 / 2)) MEDIUM_FAST 170),
     (781, species_entry [T_GHOST, T_GRASS] 70 131 100 86 90 40 None MEDIUM_FAST 181),
     (782, species_entry [T_DRAGON] 45 55 65 45 45 45 (Some (1 / 2)) SLOW 60),
     (783, species_entry [T_DRAGON, T_FIGHTING] 55 75 90 65 70 65 (Some (1 / 2)) SLOW 147),
     (784, species_entry [T_DRAGON, T_FIGHTING] 75 110 125 100 105 85 (Some (1 / 2)) SLOW 300),
     (785, species_entry [T_ELECTRIC, T_FAIRY] 70 115 85 95 75 130 None SLOW 285),
     (786, species_entry [T_PSYCHIC, T_FAIRY] 70 85 75 130 115 95 None SLOW 285),
     (787, species_entry [T_GRASS, T_FAIRY] 70 130 115 85 95 75 None SLOW 285),
     (788, species_entry [T_WATER, T_FAIRY] 70 75 115 95 130 85 None SLOW 285),
     (789, species_entry [T_PSYCHIC] 43 29 31 29 31 37 None SLOW 40),
     (790, species_entry [T_PSYCHIC] 43 29 131 29 131 37 None SLOW 140),
     (791, species_entry [T_PSYCHIC, T_STEEL] 137 137 107 113 89 97 None SLOW 340),
     (792, species_entry [T_PSYCHIC, T_GHOST] 137 113 89 137 107 97 None SLOW 340),
     (793, species_entry [T_ROCK, T_POISON] 109 53 47 127 131 103 None SLOW 285),
     (794, species_entry [T_BUG, T_FIGHTING] 107 139 139 53 53 79 None SLOW 285),
     (795, species_entry [T_BUG, T_FIGHTING] 71 137 37 137 37 151 None SLOW 285),
     (796, species_entry [T_ELECTRIC] 83 89 71 173 71 83 None SLOW 285),
     (797, species_entry [T_STEEL, T_FLYING] 97 101 103 107 101 61 None SLOW 285),
     (798, species_entry [T_GRASS, T_STEEL] 59 181 131 59 31 109 None SLOW 285),
     (799, species_entry [T_DARK, T_DRAGON] 223 101 53 97 53 43 None SLOW 285),
     (800, species_entry [T_PSYCHIC] 97 107 101 127 89 79 None SLOW 300),
     (1207, species_entry [T_PSYCHIC, T_STEEL] 97 157 127 113 109 77 None SLOW 340),
     (1208, species_entry [T_PSYCHIC, T_GHOST] 97 113 109 157 127 77 None SLOW 340),
     (1209, species_entry [T_PSYCHIC, T_DRAGON] 97 167 97 167 97 129 None SLOW 377),
     (801, species_entry [T_STEEL, T_FAIRY] 80 95 115 130 115 65 None SLOW 300),
     (1210, species_entry [T_STEEL, T_FAIRY] 80 95 115 130 115 65 None SLOW 300),
     (802, species_entry [T_FIGHTING, T_GHOST] 90 125 80 90 90 125 None SLOW 300),
     (803, species_entry [T_POISON] 67 73 67 73 67 73 None SLOW 210),
     (804, species_entry [T_POISON, T_DRAGON] 73 73 73 127 73 121 None SLOW 270),
     (805, species_entry [T_ROCK, T_STEEL] 61 131 211 53 101 13 None SLOW 285),
     (806, species_entry [T_FIRE, T_GHOST] 53 127 53 151 79 107 None SLOW 285),
     (807, species_entry [T_ELECTRIC] 88 112 75 102 80 143 None SLOW 300),
     (808, species_entry [T_STEEL] 46 65 65 55 35 34 None SLOW 150),
     (809, species_entry [T_STEEL] 135 143 143 80 65 34 None SLOW 300),
     (810, species_entry [T_GRASS] 50 65 50 40 40 65 (Some (7 / 8)) MEDIUM_SLOW 62),
     (811, species_entry [T_GRASS] 70 85 70 55 60 80 (Some (7 / 8)) MEDIUM_SLOW 147),
     (812, species_entry [T_GRASS] 100 125 90 60 70 85 (Some (7 / 8)) MEDIUM_SLOW 265),
     (813, species_entry [T_FIRE] 50 71 40 40 40 69 (Some (7 / 8)) MEDIUM_SLOW 62),
     (814, species_entry [T_FIRE] 65 86 60 55 60 94 (Some (7 / 8)) MEDIUM_SLOW 147),
     (815, species_entry [T_FIRE] 80 116 75 65 75 119 (Some (7 / 8)) MEDIUM_SLOW 265),
     (816, species_entry [T_WATER] 50 40 40 70 40 70 (Some (7 / 8)) MEDIUM_SLOW 62),
     (817, species_entry [T_WATER] 65 60 55 95 55 90 (Some (7 / 8)) MEDIUM_SLOW 147),
     (818, species_entry [T_WATER] 70 85 65 125 65 120 (Some (7 / 8)) MEDIUM_SLOW 265),
     (819, species_entry [T_NORMAL] 70 55 55 35 35 25 (Some (1 / 2)) MEDIUM_FAST 55),
     (820, species_entry [T_NORMAL] 120 95 95 55 75 20 (Some (1 / 2)) MEDIUM_FAST 161),
     (821, species_entry [T_FLYING] 38 47 35 33 35 57 (Some (1 / 2)) MEDIUM_SLOW 49),
     (822, species_entry [T_FLYING] 68 67 55 43 55 77 (Some (1 / 2)) MEDIUM_SLOW 128),
     (823, species_entry [T_FLYING, T_STEEL] 98 87 105 53 85 67 (Some (1 / 2)) MEDIUM_SLOW 248),
     (824, species_entry [T_BUG] 25 20 20 25 45 45 (Some (1 / 2)) MEDIUM_FAST 36),
     (825, species_entry [T_BUG, T_PSYCHIC] 50 35 80 50 90 30 (Some (1 / 2)) MEDIUM_FAST 117),
     (826, species_entry [T_BUG, T_PSYCHIC] 60 45 110 80 120 90 (Some (1 / 2)) MEDIUM_FAST 253),
     (827, species_entry [T_DARK] 40 28 28 47 52 50 (Some (1 / 2)) FAST 49),
     (828, species_entry [T_DARK] 70 58 58 87 92 90 (Some (1 / 2)) FAST 159),
     (829, species_entry [T_GRASS] 40 40 60 40 60 10 (Some (1 / 2)) MEDIUM_FAST 50),
     (830, species_entry [T_GRASS] 60 50 90 80 120 60 (Some (1 / 2)) MEDIUM_FAST 161),
     (831, species_entry [T_NORMAL] 42 40 55 40 45 48 (Some (1 / 2)) MEDIUM_FAST 122),
     (832, species_entry [T_NORMAL] 72 80 100 60 90 88 (Some (1 / 2)) MEDIUM_FAST 172),
     (833, species_entry [T_WATER] 50 64 50 38 38 44 (Some (1 / 2)) MEDIUM_FAST 57),
     (834, species_entry [T_WATER, T_ROCK] 90 115 90 48 68 74 (Some (1 / 2)) MEDIUM_FAST 170),
     (835, species_entry [T_ELECTRIC] 59 45 50 40 50 26 (Some (1 / 2)) FAST 54),
     (836, species_entry [T_ELECTRIC] 69 90 60 90 60 121 (Some (1 / 2)) FAST 172),
     (837, species_entry [T_ROCK] 30 40 50 40 50 30 (Some (1 / 2)) MEDIUM_SLOW 48),
     (838, species_entry [T_ROCK, T_FIRE] 80 60 90 60 70 50 (Some (1 / 2)) MEDIUM_SLOW 144),
     (839, species_entry [T_ROCK, T_FIRE] 110 80 120 80 90 30 (Some (1 / 2)) MEDIUM_SLOW 255),
     (840, species_entry [T_GRASS, T_DRAGON] 40 40 80 40 40 20 (Some (1 / 2)) ERRATIC 52),
     (841, species_entry [T_GRASS, T_DRAGON] 70 110 80 95 60 70 (Some (1 / 2)) ERRATIC 170),
     (842, species_entry [T_GRASS, T_DRAGON] 110 85 80 100 80 30 (Some (1 / 2)) ERRATIC 170),
     (843, species_entry [T_GROUND] 52 57 75 35 50 46 (Some (1 / 2)) MEDIUM_FAST 63),
     (844, species_entry [T_GROUND] 72 107 125 65 70 71 (Some (1 / 2)) MEDIUM_FAST 179),
     (845, species_entry [T_FLYING, T_WATER] 70 85 55 85 95 85 (Some (1 / 2)) MEDIUM_FAST 166),
     (1211, species_entry [T_FLYING, T_WATER] 70 85 55 85 95 85 (Some (1 / 2)) MEDIUM_FAST 166),
     (1212, species_entry [T_FLYING, T_WATER] 70 85 55 85 95 85 (Some (1 / 2)) MEDIUM_FAST 166),
     (846, species_entry [T_WATER] 41 63 40 40 30 66 (Some (1 / 2)) SLOW 56),
     (847, species_entry [T_WATER] 61 123 60 60 50 136 (Some (1 / 2)) SLOW 172),
     (848, species_entry [T_ELECTRIC, T_POISON] 40 38 35 54 35 40 (Some (1 / 2)) MEDIUM_SLOW 48),
     (849, species_entry [T_ELECTRIC, T_POISON] 75 98 70 114 70 75 (Some (1 / 2)) MEDIUM_SLOW 176),
     (1213, species_entry [T_ELECTRIC, T_POISON] 75 98 70 114 70 75 (Some (1 / 2)) MEDIUM_SLOW 176),
     (850, species_entry [T_FIRE, T_BUG] 50 65 45 50 50 45 (Some (1 / 2)) MEDIUM_FAST 61),
     (851, species_entry [T_FIRE, T_BUG] 100 115 65 90 90 65 (Some (1 / 2)) MEDIUM_FAST 184),
     (852, species_entry [T_FIGHTING] 50 68 60 50 50 32 (Some (1 / 2)) MEDIUM_SLOW 62),
     (853, species_entry [T_FIGHTING] 80 118 90 70 80 42 (Some (1 / 2)) MEDIUM_SLOW 168),
     (854, species_entry [T_GHOST] 40 45 45 74 54 50 None MEDIUM_FAST 62),
     (1214, species_entry [T_GHOST] 40 45 45 74 54 50 None MEDIUM_FAST 62),
     (855, species_entry [T_GHOST] 60 65 65 134 114 70 None MEDIUM_FAST 178),
     (1215, species_entry [T_GHOST] 60 65 65 134 114 70 None MEDIUM_FAST 178),
     (856, species_entry [T_PSYCHIC] 42 30 45 56 53 39 (Some 0) SLOW 53),
     (857, species_entry [T_PSYCHIC] 57 40 65 86 73 49 (Some 0) SLOW 130),
     (858, species_entry [T_PSYCHIC, T_FAIRY] 57 90 95 136 103 29 (Some 0) SLOW 255),
     (859, species_entry [T_DARK, T_FAIRY] 45 45 30 55 40 50 (Some 1) MEDIUM_FAST 53),
     (860, species_entry [T_DARK, T_FAIRY] 65 60 45 75 55 70 (Some 1) MEDIUM_FAST 130),
     (861, species_entry [T_DARK, T_FAIRY] 95 120 65 95 75 60 (Some 1) MEDIUM_FAST 255),
     (862, species_entry [T_DARK, T_NORMAL] 93 90 101 60 81 95 (Some (1 / 2)) MEDIUM_FAST 260),
     (863, species_entry [T_STEEL] 70 110 100 50 60 50 (Some (1 / 2)) MEDIUM_FAST 154),
     (864, species_entry [T_GHOST] 60 95 50 145 130 30 (Some (1 / 4)) FAST 179),
     (865, species_entry [T_FIGHTING] 62 135 95 68 82 65 (Some (1 / 2)) MEDIUM_FAST 177),
     (866, species_entry [T_ICE, T_PSYCHIC] 80 85 75 110 100 70 (Some (1 / 2)) MEDIUM_FAST 182),
     (867, species_entry [T_GROUND, T_GHOST] 58 95 145 50 105 30 (Some (1 / 2)) MEDIUM_FAST 169),
     (868, species_entry [T_FAIRY] 45 40 40 50 61 34 (Some 0) MEDIUM_FAST 54),
     (869, species_entry [T_FAIRY] 65 60 75 110 121 64 (Some 0) MEDIUM_FAST 173),
     (1216, species_entry [T_FAIRY] 65 60 75 110 121 64 (Some 0) MEDIUM_FAST 173),
     (1217, species_entry [T_FAIRY] 65 60 75 110 121 64 (Some 0) MEDIUM_FAST 173),
     (1218, species_entry [T_FAIRY] 65 60 75 110 121 64 (Some 0) MEDIUM_FAST 173),
     (1219, species_entry [T_FAIRY] 65 60 75 110 121 64 (Some 0) MEDIUM_FAST 173),
     (1220, species_entry [T_FAIRY] 65 60 75 110 121 64 (Some 0) MEDIUM_FAST 173),
     (1221, species_entry [T_FAIRY] 65 60 75 110 121 64 (Some 0) MEDIUM_FAST 173),
     (1222, species_entry [T_FAIRY] 65 60 75 110 121 64 (Some 0) MEDIUM_FAST 173),
     (1223, species_entry [T_FAIRY] 65 60 75 110 121 64 (Some 0) MEDIUM_FAST 173),
     (870, species_entry [T_FIGHTING] 65 100 100 70 60 75 None MEDIUM_FAST 165),
     (871, species_entry [T_ELECTRIC] 48 101 95 91 85 15 (Some (1 / 2)) MEDIUM_FAST 152),
     (872, species_entry [T_ICE, T_BUG] 30 25 35 45 30 20 (Some (1 / 2)) MEDIUM_FAST 37),
     (873, species_entry [T_ICE, T_BUG] 70 65 60 125 90 65 (Some (1 / 2)) MEDIUM_FAST 166),
     (874, species_entry [T_ROCK] 100 125 135 20 20 70 (Some (1 / 2)) SLOW 165),
     (875, species_entry [T_ICE] 75 80 110 65 90 50 (Some (1 / 2)) SLOW 165),
     (1224, species_entry [T_ICE] 75 80 70 65 50 130 (Some (1 / 2)) SLOW 165),
     (876, species_entry [T_PSYCHIC, T_NORMAL] 60 65 55 105 95 95 (Some 1) FAST 166),
     (1225, species_entry [T_PSYCHIC, T_NORMAL] 70 55 65 95 105 85 (Some 0) FAST 166),
     (877, species_entry [T_ELECTRIC, T_DARK] 58 95 58 70 58 97 (Some (1 / 2)) MEDIUM_FAST 153),
     (1226, species_entry [T_ELECTRIC, T_DARK] 58 95 58 70 58 97 (Some (1 / 2)) MEDIUM_FAST 153),
     (878, species_entry [T_STEEL] 72 80 49 40 49 40 (Some (1 / 2)) MEDIUM_FAST 66),
     (879, species_entry [T_STEEL] 122 130 69 80 69 30 (Some (1 / 2)) MEDIUM_FAST 175),
     (880, species_entry [T_ELECTRIC, T_DRAGON] 90 100 90 80 70 75 None SLOW 177),
     (881, species_entry [T_ELECTRIC, T_ICE] 90 100 90 90 80 55 None SLOW 177),
     (882, species_entry [T_WATER, T_DRAGON] 90 90 100 70 80 75 None SLOW 177),
     (883, species_entry [T_WATER, T_ICE] 90 90 100 80 90 55 None SLOW 177),
     (884, species_entry [T_STEEL, T_DRAGON] 70 95 115 120 50 85 (Some (1 / 2)) MEDIUM_FAST 187),
     (885, species_entry [T_DRAGON, T_GHOST] 28 60 30 40 30 82 (Some (1 / 2)) SLOW 54),
     (886, species_entry [T_DRAGON, T_GHOST] 68 80 50 60 50 102 (Some (1 / 2)) SLOW 144),
     (887, species_entry [T_DRAGON, T_GHOST] 88 120 75 100 75 142 (Some (1 / 2)) SLOW 300),
     (888, species_entry [T_FAIRY] 92 120 115 80 115 138 None SLOW 335),
     (1227, species_entry [T_FAIRY, T_STEEL] 92 150 115 80 115 148 None SLOW 360),
     (889, species_entry [T_FIGHTING] 92 120 115 80 115 138 None SLOW 335),
     (1228, species_entry [T_FIGHTING, T_STEEL] 92 120 140 80 140 128 None SLOW 360),
     (890, species_entry [T_POISON, T_DRAGON] 140 85 95 145 95 130 None SLOW 345)]"

definition SPECIES_ROWS_9 :: "(species \<times> species_data) list" where
  "SPECIES_ROWS_9 = [
     (1229, species_entry [T_POISON, T_DRAGON] 255 115 250 125 250 130 None SLOW 563),
     (891, species_entry [T_FIGHTING] 60 90 60 53 50 72 (Some (7 / 8)) SLOW 77),
     (892, species_entry [T_FIGHTING, T_DARK] 100 130 100 63 60 97 (Some (7 / 8)) SLOW 275),
     (1230, species_entry [T_FIGHTING, T_WATER] 100 130 100 63 60 97 (Some (7 / 8)) SLOW 275),
     (893, species_entry [T_DARK, T_GRASS] 105 120 105 70 95 105 None SLOW 300),
     (1231, species_entry [T_DARK, T_GRASS] 105 120 105 70 95 105 None SLOW 300),
     (894, species_entry [T_ELECTRIC] 80 100 50 100 50 200 None SLOW 290),
     (895, species_entry [T_DRAGON] 200 100 50 100 50 80 None SLOW 290),
     (896, species_entry [T_ICE] 100 145 130 65 110 30 None SLOW 290),
     (897, species_entry [T_GHOST] 100 65 60 145 80 130 None SLOW 290),
     (898, species_entry [T_PSYCHIC, T_GRASS] 100 80 80 80 80 80 None SLOW 250),
     (1232, species_entry [T_PSYCHIC, T_ICE] 100 165 150 85 130 50 None SLOW 340),
     (1233, species_entry [T_PSYCHIC, T_GHOST] 100 85 80 165 100 150 None SLOW 340),
     (899, species_entry [T_NORMAL, T_PSYCHIC] 103 105 72 105 75 65 (Some (1 / 2)) SLOW 184),
     (900, species_entry [T_BUG, T_ROCK] 70 135 95 45 70 85 (Some (1 / 2)) MEDIUM_FAST 175),
     (901, species_entry [T_GROUND, T_NORMAL] 130 140 105 45 80 50 (Some (1 / 2)) MEDIUM_FAST 193),
     (902, species_entry [T_WATER, T_GHOST] 120 112 65 80 75 78 (Some 1) MEDIUM_FAST 186),
     (903, species_entry [T_FIGHTING, T_POISON] 80 130 60 40 80 120 (Some (1 / 2)) MEDIUM_SLOW 179),
     (904, species_entry [T_DARK, T_POISON] 85 115 95 65 65 85 (Some (1 / 2)) MEDIUM_FAST 102),
     (905, species_entry [T_FAIRY, T_FLYING] 74 115 70 135 80 106 (Some 0) SLOW 290),
     (1103, species_entry [T_FAIRY, T_FLYING] 74 115 110 135 100 46 (Some 0) SLOW 290)]"

definition SPECIES_ROWS :: "(species \<times> species_data) list" where
  "SPECIES_ROWS = concat [SPECIES_ROWS_1, SPECIES_ROWS_2, SPECIES_ROWS_3, SPECIES_ROWS_4, SPECIES_ROWS_5, SPECIES_ROWS_6, SPECIES_ROWS_7,
     SPECIES_ROWS_8, SPECIES_ROWS_9]"

section \<open>Weights\<close>

definition SPECIES_WEIGHTS_1 :: "(species \<times> rat) list" where
  "SPECIES_WEIGHTS_1 = [
     (1, 69 / 10), (2, 13), (3, 100), (4, 17 / 2), (5, 19), (6, 181 / 2), (7, 9), (8, 45 / 2), (9, 171 / 2), (10, 29 / 10),
     (11, 99 / 10), (12, 32), (13, 16 / 5), (14, 10), (15, 59 / 2), (16, 9 / 5), (17, 30), (18, 79 / 2), (19, 7 / 2), (20, 37 / 2),
     (21, 2), (22, 38), (23, 69 / 10), (24, 65), (25, 6), (26, 30), (27, 12), (28, 59 / 2), (29, 7), (30, 20),
     (31, 60), (32, 9), (33, 39 / 2), (34, 62), (35, 15 / 2), (36, 40), (37, 99 / 10), (38, 199 / 10), (39, 11 / 2), (40, 12),
     (41, 15 / 2), (42, 55), (43, 27 / 5), (44, 43 / 5), (45, 93 / 5), (46, 27 / 5), (47, 59 / 2), (48, 30), (49, 25 / 2), (50, 4 / 5),
     (51, 333 / 10), (52, 21 / 5), (53, 32), (54, 98 / 5), (55, 383 / 5), (56, 28), (57, 32), (58, 19), (59, 155), (60, 62 / 5),
     (61, 20), (62, 54), (63, 39 / 2), (64, 113 / 2), (65, 48), (66, 39 / 2), (67, 141 / 2), (68, 130), (69, 4), (70, 32 / 5),
     (71, 31 / 2), (72, 91 / 2), (73, 55), (74, 20), (75, 105), (76, 300), (77, 30), (78, 95), (79, 36), (80, 157 / 2),
     (81, 6), (82, 60), (83, 15), (84, 196 / 5), (85, 426 / 5), (86, 90), (87, 120), (88, 30), (89, 30), (90, 4),
     (91, 265 / 2), (92, 1 / 10), (93, 1 / 10), (94, 81 / 2), (95, 210), (96, 162 / 5), (97, 378 / 5), (98, 13 / 2), (99, 60), (100, 52 / 5),
     (101, 333 / 5), (102, 5 / 2), (103, 120), (104, 13 / 2), (105, 45), (106, 249 / 5), (107, 251 / 5), (108, 131 / 2), (109, 1), (110, 19 / 2),
     (111, 115), (112, 120), (113, 173 / 5), (114, 35), (115, 80), (116, 8), (117, 25), (118, 15), (119, 39), (120, 69 / 2),
     (121, 80), (122, 109 / 2), (123, 56), (124, 203 / 5), (125, 30), (126, 89 / 2), (127, 55), (128, 442 / 5), (129, 10), (130, 235),
     (131, 220), (132, 4), (133, 13 / 2), (134, 29), (135, 49 / 2), (136, 25), (137, 73 / 2), (138, 15 / 2), (139, 35), (140, 23 / 2),
     (141, 81 / 2), (142, 59), (143, 460), (144, 277 / 5), (145, 263 / 5), (146, 60), (147, 33 / 10), (148, 33 / 2), (149, 210), (150, 122),
     (151, 4), (152, 32 / 5), (153, 79 / 5), (154, 201 / 2), (155, 79 / 10), (156, 19), (157, 159 / 2), (158, 19 / 2), (159, 25), (160, 444 / 5),
     (161, 6), (162, 65 / 2), (163, 106 / 5), (164, 204 / 5), (165, 54 / 5), (166, 178 / 5), (167, 17 / 2), (168, 67 / 2), (169, 75), (170, 12),
     (171, 45 / 2), (172, 2), (173, 3), (174, 1), (175, 3 / 2), (176, 16 / 5), (177, 2), (178, 15), (179, 39 / 5), (180, 133 / 10),
     (181, 123 / 2), (182, 29 / 5), (183, 17 / 2), (184, 57 / 2), (185, 38), (186, 339 / 10), (187, 1 / 2), (188, 1), (189, 3), (190, 23 / 2),
     (191, 9 / 5), (192, 17 / 2), (193, 38), (194, 17 / 2), (195, 75), (196, 53 / 2), (197, 27), (198, 21 / 10), (199, 159 / 2), (200, 1),
     (201, 5), (202, 57 / 2), (203, 83 / 2), (204, 36 / 5), (205, 629 / 5), (206, 14), (207, 324 / 5), (208, 400), (209, 39 / 5), (210, 487 / 10),
     (211, 39 / 10), (212, 118), (213, 41 / 2), (214, 54), (215, 28), (216, 44 / 5), (217, 629 / 5), (218, 35), (219, 55), (220, 13 / 2),
     (221, 279 / 5), (222, 5), (223, 12), (224, 57 / 2), (225, 16), (226, 220), (227, 101 / 2), (228, 54 / 5), (229, 35), (230, 152),
     (231, 67 / 2), (232, 120), (233, 65 / 2), (234, 356 / 5), (235, 58), (236, 21), (237, 48), (238, 6), (239, 47 / 2), (240, 107 / 5),
     (241, 151 / 2), (242, 234 / 5), (243, 178), (244, 198), (245, 187), (246, 72), (247, 152), (248, 202), (249, 216), (250, 199),
     (251, 5), (252, 5), (253, 108 / 5), (254, 261 / 5), (255, 5 / 2), (256, 39 / 2), (257, 52), (258, 38 / 5), (259, 28), (260, 819 / 10),
     (261, 68 / 5), (262, 37), (263, 35 / 2), (264, 65 / 2), (265, 18 / 5), (266, 10), (267, 142 / 5), (268, 23 / 2), (269, 158 / 5), (270, 13 / 5),
     (271, 65 / 2), (272, 55), (273, 4), (274, 28), (275, 298 / 5), (276, 23 / 10), (277, 99 / 5), (278, 19 / 2), (279, 28), (280, 33 / 5),
     (281, 101 / 5), (282, 242 / 5), (283, 17 / 10), (284, 18 / 5), (285, 9 / 2), (286, 196 / 5), (287, 24), (288, 93 / 2), (289, 261 / 2), (290, 11 / 2),
     (291, 12), (292, 6 / 5), (293, 163 / 10), (294, 81 / 2), (295, 84), (296, 432 / 5), (297, 1269 / 5), (298, 2), (299, 97), (300, 11)]"

definition SPECIES_WEIGHTS_2 :: "(species \<times> rat) list" where
  "SPECIES_WEIGHTS_2 = [
     (301, 163 / 5), (302, 11), (303, 23 / 2), (304, 60), (305, 120), (306, 360), (307, 56 / 5), (308, 63 / 2), (309, 76 / 5), (310, 201 / 5),
     (311, 21 / 5), (312, 21 / 5), (313, 177 / 10), (314, 177 / 10), (315, 2), (316, 103 / 10), (317, 80), (318, 104 / 5), (319, 444 / 5), (320, 130),
     (321, 398), (322, 24), (323, 220), (324, 402 / 5), (325, 153 / 5), (326, 143 / 2), (327, 5), (328, 15), (329, 153 / 10), (330, 82),
     (331, 513 / 10), (332, 387 / 5), (333, 6 / 5), (334, 103 / 5), (335, 403 / 10), (336, 105 / 2), (337, 168), (338, 154), (339, 19 / 10), (340, 118 / 5),
     (341, 23 / 2), (342, 164 / 5), (343, 43 / 2), (344, 108), (345, 119 / 5), (346, 302 / 5), (347, 25 / 2), (348, 341 / 5), (349, 37 / 5), (350, 162),
     (351, 4 / 5), (352, 22), (353, 23 / 10), (354, 25 / 2), (355, 15), (356, 153 / 5), (357, 100), (358, 1), (359, 47), (360, 14),
     (361, 84 / 5), (362, 513 / 2), (363, 79 / 2), (364, 438 / 5), (365, 753 / 5), (366, 105 / 2), (367, 27), (368, 113 / 5), (369, 117 / 5), (370, 87 / 10),
     (371, 421 / 10), (372, 221 / 2), (373, 513 / 5), (374, 476 / 5), (375, 405 / 2), (376, 550), (377, 230), (378, 175), (379, 205), (380, 40),
     (381, 60), (382, 352), (383, 950), (384, 413 / 2), (385, 11 / 10), (386, 304 / 5), (387, 51 / 5), (388, 97), (389, 310), (390, 31 / 5),
     (391, 22), (392, 55), (393, 26 / 5), (394, 23), (395, 169 / 2), (396, 2), (397, 31 / 2), (398, 249 / 10), (399, 20), (400, 63 / 2),
     (401, 11 / 5), (402, 51 / 2), (403, 19 / 2), (404, 61 / 2), (405, 42), (406, 6 / 5), (407, 29 / 2), (408, 63 / 2), (409, 205 / 2), (410, 57),
     (411, 299 / 2), (412, 17 / 5), (413, 13 / 2), (414, 233 / 10), (415, 11 / 2), (416, 77 / 2), (417, 39 / 10), (418, 59 / 2), (419, 67 / 2), (420, 33 / 10),
     (421, 93 / 10), (422, 63 / 10), (423, 299 / 10), (424, 203 / 10), (425, 6 / 5), (426, 15), (427, 11 / 2), (428, 333 / 10), (429, 22 / 5), (430, 273 / 10),
     (431, 39 / 10), (432, 219 / 5), (433, 3 / 5), (434, 96 / 5), (435, 38), (436, 121 / 2), (437, 187), (438, 15), (439, 13), (440, 122 / 5),
     (441, 19 / 10), (442, 108), (443, 41 / 2), (444, 56), (445, 95), (446, 105), (447, 101 / 5), (448, 54), (449, 99 / 2), (450, 300),
     (451, 12), (452, 123 / 2), (453, 23), (454, 222 / 5), (455, 27), (456, 7), (457, 24), (458, 65), (459, 101 / 2), (460, 271 / 2),
     (461, 34), (462, 180), (463, 140), (464, 1414 / 5), (465, 643 / 5), (466, 693 / 5), (467, 68), (468, 38), (469, 103 / 2), (470, 51 / 2),
     (471, 259 / 10), (472, 85 / 2), (473, 291), (474, 34), (475, 52), (476, 340), (477, 533 / 5), (478, 133 / 5), (479, 3 / 10), (480, 3 / 10),
     (481, 3 / 10), (482, 3 / 10), (483, 683), (484, 336), (485, 430), (486, 420), (487, 750), (488, 428 / 5), (489, 31 / 10), (490, 7 / 5),
     (491, 101 / 2), (492, 21 / 10), (493, 320), (494, 4), (495, 81 / 10), (496, 16), (497, 63), (498, 99 / 10), (499, 111 / 2), (500, 150),
     (501, 59 / 10), (502, 49 / 2), (503, 473 / 5), (504, 58 / 5), (505, 27), (506, 41 / 10), (507, 147 / 10), (508, 61), (509, 101 / 10), (510, 75 / 2),
     (511, 21 / 2), (512, 61 / 2), (513, 11), (514, 28), (515, 27 / 2), (516, 29), (517, 233 / 10), (518, 121 / 2), (519, 21 / 10), (520, 15),
     (521, 29), (522, 149 / 5), (523, 159 / 2), (524, 18), (525, 102), (526, 260), (527, 21 / 10), (528, 21 / 2), (529, 17 / 2), (530, 202 / 5),
     (531, 31), (532, 25 / 2), (533, 40), (534, 87), (535, 9 / 2), (536, 17), (537, 62), (538, 111 / 2), (539, 51), (540, 5 / 2),
     (541, 73 / 10), (542, 41 / 2), (543, 53 / 10), (544, 117 / 2), (545, 401 / 2), (546, 3 / 5), (547, 33 / 5), (548, 33 / 5), (549, 163 / 10), (550, 18),
     (551, 76 / 5), (552, 167 / 5), (553, 963 / 10), (554, 75 / 2), (555, 929 / 10), (556, 28), (557, 29 / 2), (558, 200), (559, 59 / 5), (560, 30),
     (561, 14), (562, 3 / 2), (563, 153 / 2), (564, 33 / 2), (565, 81), (566, 19 / 2), (567, 32), (568, 31), (569, 1073 / 10), (570, 25 / 2),
     (571, 811 / 10), (572, 29 / 5), (573, 15 / 2), (574, 29 / 5), (575, 18), (576, 44), (577, 1), (578, 8), (579, 201 / 10), (580, 11 / 2),
     (581, 121 / 5), (582, 57 / 10), (583, 41), (584, 115 / 2), (585, 39 / 2), (586, 185 / 2), (587, 5), (588, 59 / 10), (589, 33), (590, 1),
     (591, 21 / 2), (592, 33), (593, 135), (594, 158 / 5), (595, 3 / 5), (596, 143 / 10), (597, 94 / 5), (598, 110), (599, 21), (600, 51)]"

definition SPECIES_WEIGHTS_3 :: "(species \<times> rat) list" where
  "SPECIES_WEIGHTS_3 = [
     (601, 81), (602, 3 / 10), (603, 22), (604, 161 / 2), (605, 9), (606, 69 / 2), (607, 31 / 10), (608, 13), (609, 343 / 10), (610, 18),
     (611, 36), (612, 211 / 2), (613, 17 / 2), (614, 260), (615, 148), (616, 77 / 10), (617, 253 / 10), (618, 11), (619, 20), (620, 71 / 2),
     (621, 139), (622, 92), (623, 330), (624, 51 / 5), (625, 70), (626, 473 / 5), (627, 21 / 2), (628, 41), (629, 9), (630, 79 / 2),
     (631, 58), (632, 33), (633, 173 / 10), (634, 50), (635, 160), (636, 144 / 5), (637, 46), (638, 250), (639, 260), (640, 200),
     (641, 63), (642, 61), (643, 330), (644, 345), (645, 68), (646, 325), (647, 97 / 2), (648, 13 / 2), (649, 165 / 2), (650, 9),
     (651, 29), (652, 90), (653, 47 / 5), (654, 29 / 2), (655, 39), (656, 7), (657, 109 / 10), (658, 40), (659, 5), (660, 212 / 5),
     (661, 17 / 10), (662, 16), (663, 49 / 2), (664, 5 / 2), (665, 42 / 5), (666, 17), (667, 27 / 2), (668, 163 / 2), (669, 1 / 10), (670, 9 / 10),
     (671, 10), (672, 31), (673, 91), (674, 8), (675, 136), (676, 28), (677, 7 / 2), (678, 17 / 2), (679, 2), (680, 9 / 2),
     (681, 53), (682, 1 / 2), (683, 31 / 2), (684, 7 / 2), (685, 5), (686, 7 / 2), (687, 47), (688, 31), (689, 96), (690, 73 / 10),
     (691, 163 / 2), (692, 83 / 10), (693, 353 / 10), (694, 6), (695, 21), (696, 26), (697, 270), (698, 126 / 5), (699, 225), (700, 47 / 2),
     (701, 43 / 2), (702, 11 / 5), (703, 57 / 10), (704, 14 / 5), (705, 35 / 2), (706, 301 / 2), (707, 3), (708, 7), (709, 71), (710, 5),
     (711, 25 / 2), (712, 199 / 2), (713, 505), (714, 8), (715, 85), (716, 215), (717, 203), (718, 305), (719, 44 / 5), (720, 9),
     (721, 195), (722, 3 / 2), (723, 16), (724, 183 / 5), (725, 43 / 10), (726, 25), (727, 83), (728, 15 / 2), (729, 35 / 2), (730, 44),
     (731, 6 / 5), (732, 74 / 5), (733, 26), (734, 6), (735, 71 / 5), (736, 22 / 5), (737, 21 / 2), (738, 45), (739, 7), (740, 180),
     (741, 17 / 5), (742, 1 / 5), (743, 1 / 2), (744, 46 / 5), (745, 25), (746, 3 / 10), (747, 8), (748, 29 / 2), (749, 110), (750, 920),
     (751, 4), (752, 82), (753, 3 / 2), (754, 37 / 2), (755, 3 / 2), (756, 23 / 2), (757, 24 / 5), (758, 111 / 5), (759, 34 / 5), (760, 135),
     (761, 16 / 5), (762, 41 / 5), (763, 107 / 5), (764, 3 / 10), (765, 76), (766, 414 / 5), (767, 12), (768, 108), (769, 70), (770, 250),
     (771, 6 / 5), (772, 241 / 2), (773, 201 / 2), (774, 40), (775, 199 / 10), (776, 212), (777, 33 / 10), (778, 7 / 10), (779, 19), (780, 185),
     (781, 210), (782, 297 / 10), (783, 47), (784, 391 / 5), (785, 41 / 2), (786, 93 / 5), (787, 91 / 2), (788, 106 / 5), (789, 1 / 10), (790, 9999 / 10),
     (791, 230), (792, 120), (793, 111 / 2), (794, 1668 / 5), (795, 25), (796, 100), (797, 9999 / 10), (798, 1 / 10), (799, 888), (800, 230),
     (801, 161 / 2), (802, 111 / 5), (803, 9 / 5), (804, 150), (805, 820), (806, 13), (807, 89 / 2), (808, 8), (809, 800), (810, 5),
     (811, 14), (812, 90), (813, 9 / 2), (814, 9), (815, 33), (816, 4), (817, 23 / 2), (818, 226 / 5), (819, 5 / 2), (820, 6),
     (821, 9 / 5), (822, 16), (823, 75), (824, 8), (825, 39 / 2), (826, 204 / 5), (827, 89 / 10), (828, 199 / 10), (829, 11 / 5), (830, 5 / 2),
     (831, 6), (832, 43), (833, 17 / 2), (834, 231 / 2), (835, 27 / 2), (836, 34), (837, 12), (838, 78), (839, 621 / 2), (840, 1 / 2),
     (841, 1), (842, 13), (843, 38 / 5), (844, 131 / 2), (845, 18), (846, 1), (847, 30), (848, 11), (849, 40), (850, 1),
     (851, 120), (852, 4), (853, 39), (854, 1 / 5), (855, 2 / 5), (856, 17 / 5), (857, 24 / 5), (858, 51 / 10), (859, 11 / 2), (860, 25 / 2),
     (861, 61), (862, 46), (863, 28), (864, 2 / 5), (865, 117), (866, 291 / 5), (867, 333 / 5), (868, 3 / 10), (869, 1 / 2), (870, 62),
     (871, 1), (872, 19 / 5), (873, 42), (874, 520), (875, 89), (876, 28), (877, 3), (878, 100), (879, 650), (880, 190),
     (881, 150), (882, 215), (883, 175), (884, 40), (885, 2), (886, 11), (887, 50), (888, 110), (889, 210), (890, 950),
     (891, 12), (892, 105), (893, 70), (894, 145), (895, 200), (896, 800), (897, 89 / 2), (898, 77 / 10), (899, 951 / 10), (900, 89)]"

definition SPECIES_WEIGHTS_4 :: "(species \<times> rat) list" where
  "SPECIES_WEIGHTS_4 = [
     (901, 290), (902, 110), (903, 43), (904, 121 / 2), (905, 48), (906, 311 / 2), (907, 221 / 2), (908, 201 / 2), (909, 1011 / 10), (910, 81 / 2),
     (911, 101 / 2), (912, 48), (913, 120), (914, 81 / 2), (915, 100), (916, 59), (917, 305), (918, 79), (919, 127), (920, 33),
     (921, 123 / 2), (922, 740), (923, 125), (924, 125 / 2), (925, 99 / 2), (926, 255), (927, 276 / 5), (928, 52), (929, 102), (930, 242 / 5),
     (931, 161), (932, 47 / 2), (933, 395), (934, 63 / 2), (935, 44), (936, 1303 / 10), (937, 641 / 2), (938, 103 / 5), (939, 13), (940, 49),
     (941, 1751 / 5), (942, 563 / 5), (943, 9429 / 10), (944, 52), (945, 70), (946, 283 / 10), (947, 95), (948, 115 / 2), (949, 185), (950, 282 / 5),
     (951, 32), (952, 139 / 5), (953, 392), (954, 430), (955, 9997 / 10), (956, 19 / 5), (957, 51 / 2), (958, 21), (959, 40), (960, 55),
     (961, 99 / 10), (962, 199 / 10), (963, 1), (964, 333 / 5), (965, 21 / 5), (966, 33), (967, 203 / 10), (968, 110), (969, 316), (970, 42),
     (971, 52), (972, 2078 / 5), (973, 34), (974, 15 / 2), (975, 24), (976, 80), (977, 36), (978, 141 / 2), (979, 42), (980, 16),
     (981, 284 / 5), (982, 509 / 10), (983, 291 / 5), (984, 66), (985, 159 / 2), (986, 1 / 2), (987, 35 / 2), (988, 65 / 2), (989, 40), (990, 120),
     (991, 3 / 2), (992, 41 / 2), (993, 227 / 10), (994, 168), (995, 13), (996, 71), (997, 349 / 5), (998, 39 / 10), (999, 27), (1000, 291 / 5),
     (1001, 96 / 5), (1002, 25 / 2), (1003, 73), (1004, 217 / 5), (1005, 137 / 2), (1006, 3341 / 10), (1007, 1312 / 5), (1008, 37), (1009, 6), (1010, 6),
     (1011, 6), (1012, 6), (1013, 6), (1014, 6), (1015, 6), (1016, 6), (1017, 6), (1018, 6), (1019, 6), (1020, 6),
     (1021, 6), (1022, 6), (1023, 2), (1024, 5), (1025, 5), (1026, 5), (1027, 5), (1028, 5), (1029, 5), (1030, 5),
     (1031, 5), (1032, 5), (1033, 5), (1034, 5), (1035, 5), (1036, 5), (1037, 5), (1038, 5), (1039, 5), (1040, 5),
     (1041, 5), (1042, 5), (1043, 5), (1044, 5), (1045, 5), (1046, 5), (1047, 5), (1048, 5), (1049, 5), (1050, 5),
     (1051, 4 / 5), (1052, 4 / 5), (1053, 4 / 5), (1054, 304 / 5), (1055, 304 / 5), (1056, 304 / 5), (1057, 17 / 5), (1058, 17 / 5), (1059, 13 / 2), (1060, 13 / 2),
     (1061, 93 / 10), (1062, 63 / 10), (1063, 299 / 10), (1064, 3 / 10), (1065, 3 / 10), (1066, 3 / 10), (1067, 3 / 10), (1068, 3 / 10), (1069, 850), (1070, 660),
     (1071, 650), (1072, 26 / 5), (1073, 320), (1074, 320), (1075, 320), (1076, 320), (1077, 320), (1078, 320), (1079, 320), (1080, 320),
     (1081, 320), (1082, 320), (1083, 320), (1085, 320), (1086, 320), (1087, 320), (1088, 320), (1089, 320), (1090, 18), (1091, 18),
     (1092, 929 / 10), (1093, 120), (1094, 39 / 2), (1095, 39 / 2), (1096, 39 / 2), (1097, 185 / 2), (1098, 185 / 2), (1099, 185 / 2), (1100, 63), (1101, 61),
     (1102, 68), (1103, 48), (1104, 325), (1105, 325), (1106, 97 / 2), (1107, 13 / 2), (1108, 165 / 2), (1109, 165 / 2), (1110, 165 / 2), (1111, 165 / 2),
     (1112, 40), (1113, 40), (1114, 17), (1115, 17), (1116, 17), (1117, 17), (1118, 17), (1119, 17), (1120, 17), (1121, 17),
     (1122, 17), (1123, 17), (1124, 17), (1125, 17), (1126, 17), (1127, 17), (1128, 17), (1129, 17), (1130, 17), (1131, 17),
     (1132, 17), (1133, 1 / 10), (1134, 1 / 10), (1135, 1 / 10), (1136, 1 / 10), (1137, 9 / 10), (1138, 9 / 10), (1139, 9 / 10), (1140, 9 / 10), (1141, 9 / 10),
     (1142, 10), (1143, 10), (1144, 10), (1145, 10), (1146, 28), (1147, 28), (1148, 28), (1149, 28), (1150, 28), (1151, 28),
     (1152, 28), (1153, 28), (1154, 28), (1155, 17 / 2), (1156, 53), (1157, 7 / 2), (1158, 15 / 2), (1159, 15), (1160, 19 / 2), (1161, 14),
     (1162, 39), (1163, 215), (1164, 67 / 2), (1165, 67 / 2), (1166, 305), (1167, 610), (1168, 490), (1169, 17 / 5), (1170, 17 / 5), (1171, 17 / 5),
     (1172, 46 / 5), (1173, 25), (1174, 25), (1175, 393 / 5), (1176, 201 / 2), (1177, 201 / 2), (1178, 201 / 2), (1179, 201 / 2), (1180, 201 / 2), (1181, 201 / 2),
     (1182, 201 / 2), (1183, 201 / 2), (1184, 201 / 2), (1185, 201 / 2), (1186, 201 / 2), (1187, 201 / 2), (1188, 201 / 2), (1189, 201 / 2), (1190, 201 / 2), (1191, 201 / 2),
     (1192, 201 / 2), (1206, 7 / 10), (1207, 460), (1208, 350), (1209, 230), (1210, 161 / 2), (1211, 18), (1212, 18), (1213, 40), (1214, 1 / 5)]"

definition SPECIES_WEIGHTS_5 :: "(species \<times> rat) list" where
  "SPECIES_WEIGHTS_5 = [
     (1215, 2 / 5), (1216, 1 / 2), (1217, 1 / 2), (1218, 1 / 2), (1219, 1 / 2), (1220, 1 / 2), (1221, 1 / 2), (1222, 1 / 2), (1223, 1 / 2), (1224, 89),
     (1225, 28), (1226, 3), (1227, 355), (1228, 785), (1229, 0), (1230, 105), (1231, 70), (1232, 8091 / 10), (1233, 268 / 5), (7740001, 40)]"

definition SPECIES_WEIGHTS :: "(species \<times> rat) list" where
  "SPECIES_WEIGHTS = concat [SPECIES_WEIGHTS_1, SPECIES_WEIGHTS_2, SPECIES_WEIGHTS_3, SPECIES_WEIGHTS_4, SPECIES_WEIGHTS_5]"

section \<open>The dictionary\<close>

definition SPECIES_DATA :: "species \<Rightarrow> species_data option" where
  "SPECIES_DATA = map_of (rev SPECIES_ROWS)"

section \<open>Rows are in range\<close>

definition base_ok :: "int \<Rightarrow> bool" where
  "base_ok b \<longleftrightarrow> 1 \<le> b \<and> b \<le> 255"

definition ratio_ok :: "rat option \<Rightarrow> bool" where
  "ratio_ok r = (case r of None \<Rightarrow> True | Some q \<Rightarrow> 0 \<le> q \<and> q \<le> 1)"

definition species_data_ok :: "species_data \<Rightarrow> bool" where
  "species_data_ok d \<longleftrightarrow> base_ok (sp_base_hp d) \<and> base_ok (sp_base_atk d) \<and> base_ok (sp_base_def d) \<and> base_ok (sp_base_spa d)
     \<and> base_ok (sp_base_spd d) \<and> base_ok (sp_base_spe d) \<and> sp_types d \<noteq> [] \<and> length (sp_types d) \<le> 2 \<and> distinct (sp_types d)
     \<and> ratio_ok (sp_male_ratio d) \<and> 0 < sp_exp_yield d"

definition species_row_ok :: "species \<times> species_data \<Rightarrow> bool" where
  "species_row_ok r \<longleftrightarrow> species_data_ok (snd r)"

lemma species_rows_1_ok: "list_all species_row_ok SPECIES_ROWS_1"
  by code_simp

lemma species_rows_2_ok: "list_all species_row_ok SPECIES_ROWS_2"
  by code_simp

lemma species_rows_3_ok: "list_all species_row_ok SPECIES_ROWS_3"
  by code_simp

lemma species_rows_4_ok: "list_all species_row_ok SPECIES_ROWS_4"
  by code_simp

lemma species_rows_5_ok: "list_all species_row_ok SPECIES_ROWS_5"
  by code_simp

lemma species_rows_6_ok: "list_all species_row_ok SPECIES_ROWS_6"
  by code_simp

lemma species_rows_7_ok: "list_all species_row_ok SPECIES_ROWS_7"
  by code_simp

lemma species_rows_8_ok: "list_all species_row_ok SPECIES_ROWS_8"
  by code_simp

lemma species_rows_9_ok: "list_all species_row_ok SPECIES_ROWS_9"
  by code_simp

lemmas species_rows_ok = species_rows_1_ok species_rows_2_ok species_rows_3_ok species_rows_4_ok species_rows_5_ok species_rows_6_ok species_rows_7_ok species_rows_8_ok species_rows_9_ok

lemma species_row_in_range: "r \<in> set SPECIES_ROWS \<Longrightarrow> species_row_ok r"
  using species_rows_ok by (auto simp: SPECIES_ROWS_def list_all_iff)

text \<open>The keys of the rows are in the order of the enum, but for a few, and some are at the border of another chunk.\<close>

lemma species_rows_1_keys: "map fst SPECIES_ROWS_1 = [
     1, 2, 3, 906, 4, 5, 6, 907, 908, 7, 8, 9, 909, 10, 11, 12, 13, 14, 15, 910,
     16, 17, 18, 911, 19, 956, 20, 957, 21, 22, 23, 24, 25, 1009, 1010, 1011, 1012, 1013, 1014, 1015,
     1016, 1017, 1018, 1019, 1020, 1021, 1022, 26, 958, 27, 959, 28, 960, 29, 30, 31, 32, 33, 34, 35,
     36, 37, 961, 38, 962, 39, 40, 41, 42, 43, 44, 45, 46, 47, 48, 49, 50, 963, 51, 964,
     52, 965, 974, 53, 966, 54, 55, 56, 57, 58, 993, 59, 994, 60, 61, 62, 63, 64, 65, 912,
     66, 67, 68, 69, 70, 71, 72, 73, 74, 967, 75, 968, 76, 969, 77, 975, 78, 976, 79, 977,
     80, 913, 978, 81, 82, 83, 979, 84, 85, 86, 87, 88, 970, 89, 971, 90, 91, 92, 93, 94,
     914, 95, 96, 97, 98, 99, 100, 995, 101, 996]"
  by (simp only: SPECIES_ROWS_1_def list.map fst_conv)

lemma species_rows_2_keys: "map fst SPECIES_ROWS_2 = [
     102, 103, 972, 104, 105, 973, 106, 107, 108, 109, 110, 980, 111, 112, 113, 114, 115, 915, 116, 117,
     118, 119, 120, 121, 122, 981, 123, 124, 125, 126, 127, 916, 128, 129, 130, 917, 131, 132, 133, 134,
     135, 136, 137, 138, 139, 140, 141, 142, 918, 143, 144, 982, 145, 983, 146, 984, 147, 148, 149, 150,
     919, 920, 151, 152, 153, 154, 155, 156, 157, 997, 158, 159, 160, 161, 162, 163, 164, 165, 166, 167,
     168, 169, 170, 171, 172, 1023, 173, 174, 175, 176, 177, 178, 179, 180, 181, 921, 182, 183, 184, 185,
     186, 187, 188, 189, 190, 191, 192, 193, 194, 195, 196, 197, 198, 199, 985, 200, 201, 1024, 1025, 1026,
     1027, 1028, 1029, 1030, 1031, 1032, 1033, 1034, 1035, 1036, 1037, 1038, 1039, 1040, 1041, 1042, 1043, 1044, 1045, 1046,
     1047, 1048, 1049, 1050, 202, 203, 204, 205, 206, 207]"
  by (simp only: SPECIES_ROWS_2_def list.map fst_conv)

lemma species_rows_3_keys: "map fst SPECIES_ROWS_3 = [
     208, 922, 209, 210, 211, 998, 212, 923, 213, 214, 924, 215, 999, 216, 217, 218, 219, 220, 221, 222,
     986, 223, 224, 225, 226, 227, 228, 229, 925, 230, 231, 232, 233, 234, 235, 236, 237, 238, 239, 240,
     241, 242, 243, 244, 245, 246, 247, 248, 926, 249, 250, 251, 252, 253, 254, 927, 255, 256, 257, 928,
     258, 259, 260, 929, 261, 262, 263, 987, 264, 988, 265, 266, 267, 268, 269, 270, 271, 272, 273, 274,
     275, 276, 277, 278, 279, 280, 281, 282, 930, 283, 284, 285, 286, 287, 288, 289, 290, 291, 292, 293,
     294, 295, 296, 297, 298, 299, 300, 301, 302, 931, 303, 932, 304, 305, 306, 933, 307, 308, 934, 309,
     310, 935, 311, 312, 313, 314, 315, 316, 317, 318, 319, 936, 320, 321, 322, 323, 937, 324, 325, 326,
     327, 328, 329, 330, 331, 332, 333, 334, 938, 335]"
  by (simp only: SPECIES_ROWS_3_def list.map fst_conv)

lemma species_rows_4_keys: "map fst SPECIES_ROWS_4 = [
     336, 337, 338, 339, 340, 341, 342, 343, 344, 345, 346, 347, 348, 349, 350, 351, 1051, 1052, 1053, 352,
     353, 354, 939, 355, 356, 357, 358, 359, 940, 360, 361, 362, 941, 363, 364, 365, 366, 367, 368, 369,
     370, 371, 372, 373, 942, 374, 375, 376, 943, 377, 378, 379, 380, 944, 381, 945, 382, 954, 383, 955,
     384, 953, 385, 386, 1054, 1055, 1056, 387, 388, 389, 390, 391, 392, 393, 394, 395, 396, 397, 398, 399,
     400, 401, 402, 403, 404, 405, 406, 407, 408, 409, 410, 411, 412, 1057, 1058, 413, 1059, 1060, 414, 415,
     416, 417, 418, 419, 420, 421, 1061, 422, 1062, 423, 1063, 424, 425, 426, 427, 428, 946, 429, 430, 431,
     432, 433, 434, 435, 436, 437, 438, 439, 440, 441, 442, 443, 444, 445, 947, 446, 447, 448, 948, 449,
     450, 451, 452, 453, 454, 455, 456, 457, 458, 459]"
  by (simp only: SPECIES_ROWS_4_def list.map fst_conv)

lemma species_rows_5_keys: "map fst SPECIES_ROWS_5 = [
     460, 949, 461, 462, 463, 464, 465, 466, 467, 468, 469, 470, 471, 472, 473, 474, 475, 950, 476, 477,
     478, 479, 1064, 1065, 1066, 1067, 1068, 480, 481, 482, 483, 1069, 484, 1070, 485, 486, 487, 1071, 488, 489,
     490, 491, 492, 1072, 493, 1078, 1088, 1087, 1085, 1089, 1073, 1081, 1074, 1079, 1083, 1076, 1086, 1075, 1085, 1077,
     1080, 1082, 494, 495, 496, 497, 498, 499, 500, 501, 502, 503, 1000, 504, 505, 506, 507, 508, 509, 510,
     511, 512, 513, 514, 515, 516, 517, 518, 519, 520, 521, 522, 523, 524, 525, 526, 527, 528, 529, 530,
     531, 951, 532, 533, 534, 535, 536, 537, 538, 539, 540, 541, 542, 543, 544, 545, 546, 547, 548, 549,
     1001, 550, 1090, 1091, 551, 552, 553, 554, 989, 555, 1092, 990, 1093, 556, 557, 558, 559, 560, 561, 562,
     991, 563, 564, 565, 566, 567, 568, 569, 570, 1002]"
  by (simp only: SPECIES_ROWS_5_def list.map fst_conv)

lemma species_rows_6_keys: "map fst SPECIES_ROWS_6 = [
     571, 1003, 572, 573, 574, 575, 576, 577, 578, 579, 580, 581, 582, 583, 584, 585, 1094, 1095, 1096, 586,
     1097, 1098, 1099, 587, 588, 589, 590, 591, 592, 593, 594, 595, 596, 597, 598, 599, 600, 601, 602, 603,
     604, 605, 606, 607, 608, 609, 610, 611, 612, 613, 614, 615, 616, 617, 618, 992, 619, 620, 621, 622,
     623, 624, 625, 626, 627, 628, 1004, 629, 630, 631, 632, 633, 634, 635, 636, 637, 638, 639, 640, 641,
     1100, 642, 1101, 643, 644, 645, 1102, 646, 1105, 1104, 647, 1106, 648, 1107, 649, 1108, 1109, 1110, 1111, 650,
     651, 652, 653, 654, 655, 656, 657, 658, 1112, 1113, 659, 660, 661, 662, 663, 664, 665, 666, 1114, 1115,
     1116, 1117, 1118, 1119, 1120, 1121, 1122, 1123, 1124, 1125, 1126, 1127, 1128, 1129, 1130, 1131, 1132, 667, 668, 669,
     1133, 1134, 1135, 1136, 670, 1137, 1138, 1139, 1140, 1141]"
  by (simp only: SPECIES_ROWS_6_def list.map fst_conv)

lemma species_rows_7_keys: "map fst SPECIES_ROWS_7 = [
     671, 1142, 1143, 1144, 1145, 672, 673, 674, 675, 676, 1146, 1147, 1148, 1149, 1150, 1151, 1152, 1153, 1154, 677,
     678, 1155, 679, 680, 681, 1156, 682, 683, 684, 685, 686, 687, 688, 689, 690, 691, 692, 693, 694, 695,
     696, 697, 698, 699, 700, 701, 702, 703, 704, 705, 1005, 706, 1006, 707, 708, 709, 710, 1157, 1158, 1159,
     711, 1160, 1161, 1162, 712, 713, 1007, 714, 715, 716, 1163, 717, 1166, 718, 1165, 1164, 1167, 719, 952, 720,
     1168, 721, 722, 723, 724, 1008, 725, 726, 727, 728, 729, 730, 731, 732, 733, 734, 735, 736, 737, 738,
     739, 740, 741, 1169, 1170, 1171, 742, 743, 744, 1172, 745, 1173, 1174, 746, 1175, 747, 748, 749, 750, 751,
     752, 753, 754, 755, 756, 757, 758, 759, 760, 761, 762, 763, 764, 765, 766, 767, 768, 769, 770, 771,
     772, 773, 1176, 1177, 1178, 1179, 1180, 1181, 1182, 1183]"
  by (simp only: SPECIES_ROWS_7_def list.map fst_conv)

lemma species_rows_8_keys: "map fst SPECIES_ROWS_8 = [
     1184, 1185, 1186, 1187, 1188, 1189, 1190, 1191, 1192, 774, 7740001, 775, 776, 777, 778, 1206, 779, 780, 781, 782,
     783, 784, 785, 786, 787, 788, 789, 790, 791, 792, 793, 794, 795, 796, 797, 798, 799, 800, 1207, 1208,
     1209, 801, 1210, 802, 803, 804, 805, 806, 807, 808, 809, 810, 811, 812, 813, 814, 815, 816, 817, 818,
     819, 820, 821, 822, 823, 824, 825, 826, 827, 828, 829, 830, 831, 832, 833, 834, 835, 836, 837, 838,
     839, 840, 841, 842, 843, 844, 845, 1211, 1212, 846, 847, 848, 849, 1213, 850, 851, 852, 853, 854, 1214,
     855, 1215, 856, 857, 858, 859, 860, 861, 862, 863, 864, 865, 866, 867, 868, 869, 1216, 1217, 1218, 1219,
     1220, 1221, 1222, 1223, 870, 871, 872, 873, 874, 875, 1224, 876, 1225, 877, 1226, 878, 879, 880, 881, 882,
     883, 884, 885, 886, 887, 888, 1227, 889, 1228, 890]"
  by (simp only: SPECIES_ROWS_8_def list.map fst_conv)

lemma species_rows_9_keys: "map fst SPECIES_ROWS_9 = [
     1229, 891, 892, 1230, 893, 1231, 894, 895, 896, 897, 898, 1232, 1233, 899, 900, 901, 902, 903, 904, 905,
     1103]"
  by (simp only: SPECIES_ROWS_9_def list.map fst_conv)

lemma species_members_1_values: "map snd SPECIES_MEMBERS_1 = [
     1, 2, 3, 906, 4, 5, 6, 907, 908, 7, 8, 9, 909, 10, 11, 12, 13, 14, 15, 910,
     16, 17, 18, 911, 19, 956, 20, 957, 21, 22, 23, 24, 25, 1009, 1010, 1011, 1012, 1013, 1014, 1015,
     1016, 1017, 1018, 1019, 1020, 1021, 1022, 26, 958, 27, 959, 28, 960, 29, 30, 31, 32, 33, 34, 35,
     36, 37, 961, 38, 962, 39, 40, 41, 42, 43, 44, 45, 46, 47, 48, 49, 50, 963, 51, 964,
     52, 965, 974, 53, 966, 54, 55, 56, 57, 58, 993, 59, 994, 60, 61, 62, 63, 64, 65, 912,
     66, 67, 68, 69, 70, 71, 72, 73, 74, 967, 75, 968, 76, 969, 77, 975, 78, 976, 79, 977,
     80, 913, 978, 81, 82, 83, 979, 84, 85, 86, 87, 88, 970, 89, 971, 90, 91, 92, 93, 94,
     914, 95, 96, 97, 98, 99, 100, 995, 101, 996]"
  by (simp only: SPECIES_MEMBERS_1_def list.map snd_conv)

lemma species_members_2_values: "map snd SPECIES_MEMBERS_2 = [
     102, 103, 972, 104, 105, 973, 106, 107, 108, 109, 110, 980, 111, 112, 113, 114, 115, 915, 116, 117,
     118, 119, 120, 121, 122, 981, 123, 124, 125, 126, 127, 916, 128, 129, 130, 917, 131, 132, 133, 134,
     135, 136, 137, 138, 139, 140, 141, 142, 918, 143, 144, 982, 145, 983, 146, 984, 147, 148, 149, 150,
     919, 920, 151, 152, 153, 154, 155, 156, 157, 997, 158, 159, 160, 161, 162, 163, 164, 165, 166, 167,
     168, 169, 170, 171, 172, 1023, 173, 174, 175, 176, 177, 178, 179, 180, 181, 921, 182, 183, 184, 185,
     186, 187, 188, 189, 190, 191, 192, 193, 194, 195, 196, 197, 198, 199, 985, 200, 201, 1024, 1025, 1026,
     1027, 1028, 1029, 1030, 1031, 1032, 1033, 1034, 1035, 1036, 1037, 1038, 1039, 1040, 1041, 1042, 1043, 1044, 1045, 1046,
     1047, 1048, 1049, 1050, 202, 203, 204, 205, 206, 207]"
  by (simp only: SPECIES_MEMBERS_2_def list.map snd_conv)

lemma species_members_3_values: "map snd SPECIES_MEMBERS_3 = [
     208, 922, 209, 210, 211, 998, 212, 923, 213, 214, 924, 215, 999, 216, 217, 218, 219, 220, 221, 222,
     986, 223, 224, 225, 226, 227, 228, 229, 925, 230, 231, 232, 233, 234, 235, 236, 237, 238, 239, 240,
     241, 242, 243, 244, 245, 246, 247, 248, 926, 249, 250, 251, 252, 253, 254, 927, 255, 256, 257, 928,
     258, 259, 260, 929, 261, 262, 263, 987, 264, 988, 265, 266, 267, 268, 269, 270, 271, 272, 273, 274,
     275, 276, 277, 278, 279, 280, 281, 282, 930, 283, 284, 285, 286, 287, 288, 289, 290, 291, 292, 293,
     294, 295, 296, 297, 298, 299, 300, 301, 302, 931, 303, 932, 304, 305, 306, 933, 307, 308, 934, 309,
     310, 935, 311, 312, 313, 314, 315, 316, 317, 318, 319, 936, 320, 321, 322, 323, 937, 324, 325, 326,
     327, 328, 329, 330, 331, 332, 333, 334, 938, 335]"
  by (simp only: SPECIES_MEMBERS_3_def list.map snd_conv)

lemma species_members_4_values: "map snd SPECIES_MEMBERS_4 = [
     336, 337, 338, 339, 340, 341, 342, 343, 344, 345, 346, 347, 348, 349, 350, 351, 1051, 1052, 1053, 352,
     353, 354, 939, 355, 356, 357, 358, 359, 940, 360, 361, 362, 941, 363, 364, 365, 366, 367, 368, 369,
     370, 371, 372, 373, 942, 374, 375, 376, 943, 377, 378, 379, 380, 944, 381, 945, 382, 954, 383, 955,
     384, 953, 385, 386, 1054, 1055, 1056, 387, 388, 389, 390, 391, 392, 393, 394, 395, 396, 397, 398, 399,
     400, 401, 402, 403, 404, 405, 406, 407, 408, 409, 410, 411, 412, 1057, 1058, 413, 1059, 1060, 414, 415,
     416, 417, 418, 419, 420, 421, 1061, 422, 1062, 423, 1063, 424, 425, 426, 427, 428, 946, 429, 430, 431,
     432, 433, 434, 435, 436, 437, 438, 439, 440, 441, 442, 443, 444, 445, 947, 446, 447, 448, 948, 449,
     450, 451, 452, 453, 454, 455, 456, 457, 458, 459]"
  by (simp only: SPECIES_MEMBERS_4_def list.map snd_conv)

lemma species_members_5_values: "map snd SPECIES_MEMBERS_5 = [
     460, 949, 461, 462, 463, 464, 465, 466, 467, 468, 469, 470, 471, 472, 473, 474, 475, 950, 476, 477,
     478, 479, 1064, 1065, 1066, 1067, 1068, 480, 481, 482, 483, 1069, 484, 1070, 485, 486, 487, 1071, 488, 489,
     490, 491, 492, 1072, 493, 1078, 1088, 1087, 1085, 1073, 1081, 1074, 1079, 1083, 1076, 1086, 1075, 1085, 1077, 1080,
     1082, 1089, 494, 495, 496, 497, 498, 499, 500, 501, 502, 503, 1000, 504, 505, 506, 507, 508, 509, 510,
     511, 512, 513, 514, 515, 516, 517, 518, 519, 520, 521, 522, 523, 524, 525, 526, 527, 528, 529, 530,
     531, 951, 532, 533, 534, 535, 536, 537, 538, 539, 540, 541, 542, 543, 544, 545, 546, 547, 548, 549,
     1001, 550, 1090, 1091, 551, 552, 553, 554, 989, 555, 1092, 990, 1093, 556, 557, 558, 559, 560, 561, 562,
     991, 563, 564, 565, 566, 567, 568, 569, 570, 1002]"
  by (simp only: SPECIES_MEMBERS_5_def list.map snd_conv)

lemma species_members_6_values: "map snd SPECIES_MEMBERS_6 = [
     571, 1003, 572, 573, 574, 575, 576, 577, 578, 579, 580, 581, 582, 583, 584, 585, 1094, 1095, 1096, 586,
     1097, 1098, 1099, 587, 588, 589, 590, 591, 592, 593, 594, 595, 596, 597, 598, 599, 600, 601, 602, 603,
     604, 605, 606, 607, 608, 609, 610, 611, 612, 613, 614, 615, 616, 617, 618, 992, 619, 620, 621, 622,
     623, 624, 625, 626, 627, 628, 1004, 629, 630, 631, 632, 633, 634, 635, 636, 637, 638, 639, 640, 641,
     1100, 642, 1101, 643, 644, 645, 1102, 646, 1104, 1105, 647, 1106, 648, 1107, 649, 1108, 1109, 1110, 1111, 650,
     651, 652, 653, 654, 655, 656, 657, 658, 1112, 1113, 659, 660, 661, 662, 663, 664, 665, 666, 1114, 1115,
     1116, 1117, 1118, 1119, 1120, 1121, 1122, 1123, 1124, 1125, 1126, 1127, 1128, 1129, 1130, 1131, 1132, 667, 668, 669,
     1133, 1134, 1135, 1136, 670, 1137, 1138, 1139, 1140, 1141]"
  by (simp only: SPECIES_MEMBERS_6_def list.map snd_conv)

lemma species_members_7_values: "map snd SPECIES_MEMBERS_7 = [
     671, 1142, 1143, 1144, 1145, 672, 673, 674, 675, 676, 1146, 1147, 1148, 1149, 1150, 1151, 1152, 1153, 1154, 677,
     678, 1155, 679, 680, 681, 1156, 682, 683, 684, 685, 686, 687, 688, 689, 690, 691, 692, 693, 694, 695,
     696, 697, 698, 699, 700, 701, 702, 703, 704, 705, 1005, 706, 1006, 707, 708, 709, 710, 1157, 1158, 1159,
     711, 1160, 1161, 1162, 712, 713, 1007, 714, 715, 716, 1163, 717, 718, 1164, 1165, 1166, 1167, 719, 952, 720,
     1168, 721, 722, 723, 724, 1008, 725, 726, 727, 728, 729, 730, 731, 732, 733, 734, 735, 736, 737, 738,
     739, 740, 741, 1169, 1170, 1171, 742, 743, 744, 1172, 745, 1173, 1174, 746, 1175, 747, 748, 749, 750, 751,
     752, 753, 754, 755, 756, 757, 758, 759, 760, 761, 762, 763, 764, 765, 766, 767, 768, 769, 770, 771,
     772, 773, 1176, 1177, 1178, 1179, 1180, 1181, 1182, 1183]"
  by (simp only: SPECIES_MEMBERS_7_def list.map snd_conv)

lemma species_members_8_values: "map snd SPECIES_MEMBERS_8 = [
     1184, 1185, 1186, 1187, 1188, 1189, 1190, 1191, 1192, 774, 7740001, 775, 776, 777, 778, 1206, 779, 780, 781, 782,
     783, 784, 785, 786, 787, 788, 789, 790, 791, 792, 793, 794, 795, 796, 797, 798, 799, 800, 1207, 1208,
     1209, 801, 1210, 802, 803, 804, 805, 806, 807, 808, 809, 810, 811, 812, 813, 814, 815, 816, 817, 818,
     819, 820, 821, 822, 823, 824, 825, 826, 827, 828, 829, 830, 831, 832, 833, 834, 835, 836, 837, 838,
     839, 840, 841, 842, 843, 844, 845, 1211, 1212, 846, 847, 848, 849, 1213, 850, 851, 852, 853, 854, 1214,
     855, 1215, 856, 857, 858, 859, 860, 861, 862, 863, 864, 865, 866, 867, 868, 869, 1216, 1217, 1218, 1219,
     1220, 1221, 1222, 1223, 870, 871, 872, 873, 874, 875, 1224, 876, 1225, 877, 1226, 878, 879, 880, 881, 882,
     883, 884, 885, 886, 887, 888, 1227, 889, 1228]"
  by (simp only: SPECIES_MEMBERS_8_def list.map snd_conv)

lemma species_members_9_values: "map snd SPECIES_MEMBERS_9 = [
     890, 1229, 891, 892, 1230, 893, 1231, 894, 895, 896, 897, 898, 1232, 1233, 899, 900, 901, 902, 903, 904,
     905, 1103]"
  by (simp only: SPECIES_MEMBERS_9_def list.map snd_conv)

lemmas species_values = species_members_1_values species_members_2_values species_members_3_values species_members_4_values species_members_5_values species_members_6_values species_members_7_values species_members_8_values species_members_9_values

lemmas species_keys = species_rows_1_keys species_rows_2_keys species_rows_3_keys species_rows_4_keys species_rows_5_keys species_rows_6_keys species_rows_7_keys species_rows_8_keys species_rows_9_keys

fun same_but :: "int list \<Rightarrow> int list \<Rightarrow> int list \<Rightarrow> bool" where
  "same_but ms [] [] = True"
| "same_but ms (x # xs) [] = (x \<in> set ms \<and> same_but ms xs [])"
| "same_but ms [] (y # ys) = (y \<in> set ms \<and> same_but ms [] ys)"
| "same_but ms (x # xs) (y # ys) = (if x = y then same_but ms xs ys else if x \<in> set ms then same_but ms xs (y # ys)
     else y \<in> set ms \<and> same_but ms (x # xs) ys)"

lemma same_but_sound: "same_but ms xs ys \<Longrightarrow> set xs \<union> set ms = set ys \<union> set ms"
  by (induction ms xs ys rule: same_but.induct) (auto split: if_splits)

lemma same_but_concat: "list_all2 (same_but ms) xss yss \<Longrightarrow> set (concat xss) \<union> set ms = set (concat yss) \<union> set ms"
proof (induction rule: list_all2_induct)
  case (Cons xs xss ys yss)
  have "set (concat (xs # xss)) \<union> set ms = (set xs \<union> set ms) \<union> (set (concat xss) \<union> set ms)" by auto
  also have "\<dots> = (set ys \<union> set ms) \<union> (set (concat yss) \<union> set ms)" using same_but_sound[OF Cons.hyps(1)] Cons.IH by simp
  finally show ?case by auto
qed simp

definition moved_species :: "int list" where
  "moved_species = [890, 1089, 1105, 1165, 1166]"

lemma same_1: "same_but moved_species (map snd SPECIES_MEMBERS_1) (map fst SPECIES_ROWS_1)"
  unfolding species_keys species_values by code_simp

lemma same_2: "same_but moved_species (map snd SPECIES_MEMBERS_2) (map fst SPECIES_ROWS_2)"
  unfolding species_keys species_values by code_simp

lemma same_3: "same_but moved_species (map snd SPECIES_MEMBERS_3) (map fst SPECIES_ROWS_3)"
  unfolding species_keys species_values by code_simp

lemma same_4: "same_but moved_species (map snd SPECIES_MEMBERS_4) (map fst SPECIES_ROWS_4)"
  unfolding species_keys species_values by code_simp

lemma same_5: "same_but moved_species (map snd SPECIES_MEMBERS_5) (map fst SPECIES_ROWS_5)"
  unfolding species_keys species_values by code_simp

lemma same_6: "same_but moved_species (map snd SPECIES_MEMBERS_6) (map fst SPECIES_ROWS_6)"
  unfolding species_keys species_values by code_simp

lemma same_7: "same_but moved_species (map snd SPECIES_MEMBERS_7) (map fst SPECIES_ROWS_7)"
  unfolding species_keys species_values by code_simp

lemma same_8: "same_but moved_species (map snd SPECIES_MEMBERS_8) (map fst SPECIES_ROWS_8)"
  unfolding species_keys species_values by code_simp

lemma same_9: "same_but moved_species (map snd SPECIES_MEMBERS_9) (map fst SPECIES_ROWS_9)"
  unfolding species_keys species_values by code_simp

lemmas same_chunks = same_1 same_2 same_3 same_4 same_5 same_6 same_7 same_8 same_9

lemma moved_are_members: "list_all (\<lambda>m. m \<in> set (map snd SPECIES_MEMBERS)) moved_species"
  unfolding SPECIES_MEMBERS_def map_concat list.map species_values moved_species_def by simp

lemma moved_are_rows: "list_all (\<lambda>m. m \<in> set (map fst SPECIES_ROWS)) moved_species"
  unfolding SPECIES_ROWS_def map_concat list.map species_keys moved_species_def by simp

lemma species_total: "(SPECIES_DATA sp \<noteq> None) = (sp \<in> snd ` set SPECIES_MEMBERS)"
proof -
  have "set (map snd SPECIES_MEMBERS) = set (map fst SPECIES_ROWS)"
  proof -
    have "list_all2 (same_but moved_species)
        [map snd SPECIES_MEMBERS_1, map snd SPECIES_MEMBERS_2, map snd SPECIES_MEMBERS_3, map snd SPECIES_MEMBERS_4, map snd SPECIES_MEMBERS_5, map snd SPECIES_MEMBERS_6, map snd SPECIES_MEMBERS_7, map snd SPECIES_MEMBERS_8, map snd SPECIES_MEMBERS_9]
        [map fst SPECIES_ROWS_1, map fst SPECIES_ROWS_2, map fst SPECIES_ROWS_3, map fst SPECIES_ROWS_4, map fst SPECIES_ROWS_5, map fst SPECIES_ROWS_6, map fst SPECIES_ROWS_7, map fst SPECIES_ROWS_8, map fst SPECIES_ROWS_9]"
      using same_chunks by (simp only: list_all2_Cons list_all2_Nil simp_thms)
    from same_but_concat[OF this]
    have "set (map snd SPECIES_MEMBERS) \<union> set moved_species = set (map fst SPECIES_ROWS) \<union> set moved_species"
      by (simp only: SPECIES_MEMBERS_def SPECIES_ROWS_def map_concat list.map)
    then show ?thesis using moved_are_members moved_are_rows by (auto simp: list_all_iff)
  qed
  then show ?thesis by (simp add: SPECIES_DATA_def map_of_eq_None_iff)
qed

lemma species_in_range: "SPECIES_DATA sp = Some d \<Longrightarrow> species_data_ok d"
  using species_row_in_range[of "(sp, d)"] map_of_SomeD[of "rev SPECIES_ROWS" sp d]
  by (simp add: SPECIES_DATA_def species_row_ok_def)

text \<open>Two members of the enum share the value 1085, so the last of their rows is the data of both.\<close>

lemma arceus_forms_merged: "{(''ARCEUS_ELECTRIC'', 1085), (''ARCEUS_PSYCHIC'', 1085)} \<subseteq> set SPECIES_MEMBERS"
  by (simp add: SPECIES_MEMBERS_def SPECIES_MEMBERS_5_def)

lemma dict_chunk: "k \<notin> set (map fst zs) \<Longrightarrow> map_of (rev (xs @ ys @ zs)) k = (case map_of (rev ys) k of None \<Rightarrow> map_of (rev xs) k | v \<Rightarrow> v)"
proof -
  assume "k \<notin> set (map fst zs)"
  then have "map_of (rev zs) k = None" by (simp add: map_of_eq_None_iff)
  then show ?thesis by (simp add: map_add_def split: option.splits)
qed

lemma arceus_electric_types: "map_option sp_types (SPECIES_DATA 1085) = Some [T_PSYCHIC]"
proof -
  let ?before = "concat [SPECIES_ROWS_1, SPECIES_ROWS_2, SPECIES_ROWS_3, SPECIES_ROWS_4]"
  let ?after = "concat [SPECIES_ROWS_6, SPECIES_ROWS_7, SPECIES_ROWS_8, SPECIES_ROWS_9]"
  have rows: "SPECIES_ROWS = ?before @ SPECIES_ROWS_5 @ ?after" by (simp add: SPECIES_ROWS_def)
  have "1085 \<notin> set (map fst ?after)" unfolding map_concat list.map species_keys by simp
  from dict_chunk[OF this, of ?before SPECIES_ROWS_5]
  have "SPECIES_DATA 1085 = (case map_of (rev SPECIES_ROWS_5) 1085 of None \<Rightarrow> map_of (rev ?before) 1085 | v \<Rightarrow> v)"
    by (simp only: SPECIES_DATA_def rows)
  moreover have "map_option sp_types (map_of (rev SPECIES_ROWS_5) 1085) = Some [T_PSYCHIC]" by code_simp
  ultimately show ?thesis by (auto split: option.splits)
qed

section \<open>Stats\<close>

text \<open>The stat formula on base values of the table.\<close>

lemma quotient_bounds:
  fixes b iv l :: int
  assumes "1 \<le> b" "b \<le> 255" "0 \<le> iv" "iv \<le> 31" "1 \<le> l" "l \<le> 100"
  shows "0 \<le> (2 * b + iv) * l div 100" "(2 * b + iv) * l div 100 \<le> 541"
proof -
  have "(2 * b + iv) * l \<le> 541 * 100" using assms by (intro mult_mono) auto
  then show "(2 * b + iv) * l div 100 \<le> 541" by linarith
  show "0 \<le> (2 * b + iv) * l div 100" using assms by (simp add: pos_imp_zdiv_nonneg_iff)
qed

lemma floor_scaled:
  assumes "5 \<le> n" "n \<le> 546" "q \<in> {9 / 10, 1, 11 / 10 :: rat}"
  shows "1 \<le> \<lfloor>rat_of_int n * q\<rfloor>" "\<lfloor>rat_of_int n * q\<rfloor> \<le> 600"
proof -
  have n: "rat_of_int n \<ge> 5" "rat_of_int n \<le> 546" using assms(1,2) by simp_all
  have q: "9 / 10 \<le> q" "q \<le> 11 / 10" using assms(3) by auto
  have "5 * (9 / 10) \<le> rat_of_int n * q" using n q by (intro mult_mono) auto
  then have "rat_of_int n * q \<ge> 1" by simp
  then show "1 \<le> \<lfloor>rat_of_int n * q\<rfloor>" by (simp add: le_floor_iff)
  have "rat_of_int n * q \<le> 546 * (11 / 10)" using n q by (intro mult_mono) auto
  then have "rat_of_int n * q < 601" by simp
  then show "\<lfloor>rat_of_int n * q\<rfloor> \<le> 600" by (simp add: floor_le_iff)
qed

lemma compute_stat_bounds:
  assumes "base_ok b" "0 \<le> iv" "iv \<le> 31" "1 \<le> l" "l \<le> 100"
  shows "1 \<le> compute_stat s b iv nt l" "compute_stat s b iv nt l \<le> 651"
proof -
  note q = quotient_bounds[of b iv l]
  let ?n = "(2 * b + iv) * l div 100 + 5"
  have n: "5 \<le> ?n" "?n \<le> 546" using q assms by (auto simp: base_ok_def)
  have "boost_multiplier (NATURE_DATA nt) \<in> {9 / 10, 1, 11 / 10}" "lower_multiplier (NATURE_DATA nt) \<in> {9 / 10, 1, 11 / 10}"
    by (simp_all add: boost_multiplier_def lower_multiplier_def)
  note up = floor_scaled[OF n this(1)] and down = floor_scaled[OF n this(2)]
  show "1 \<le> compute_stat s b iv nt l" "compute_stat s b iv nt l \<le> 651"
    using q assms n up down by (auto simp: compute_stat_def Let_def base_ok_def)
qed

end
