(* ===== verification/BattleSetup.thy ===== *)
theory BattleSetup
  imports LiveLoop Wire Trainers GbaTables MoveTable SpeciesTable
begin

text \<open>
  How a battle starts (\<open>SCRIPTS/play.py\<close>, the part up to \<open>_make_stub_battle_state\<close>, with the aliases of
  \<open>data/name_aliases.py\<close>): the party read from the emulator and the trainer of the roster become the two sides of a battle
  state, and the names on both sides become the constraints of the message matcher. The tables are the program's own.
\<close>

section \<open>Names\<close>

text \<open>The data the program runs with.\<close>

definition RUN_AND_BUN :: game_data where
  "RUN_AND_BUN = \<lparr>gd_moves = MOVE_DATA, gd_species = SPECIES_DATA,
     gd_move_names = enum_members MOVE_MEMBERS, gd_species_names = enum_members SPECIES_MEMBERS\<rparr>"

definition SPECIES_ALIASES :: "(string \<times> species) list" where
  "SPECIES_ALIASES = [
     (''Farfetchd'', 83), (''Farfetchd_Galarian'', 979), (''Sirfetchd'', 865), (''Linoone_Galarian'', 988),
     (''Zigzagoon_Galarian'', 987), (''Dugtrio_Alolan'', 964), (''Graveler_Alolan'', 968), (''Golem_Alolan'', 969),
     (''Persian_Alolan'', 966), (''Raichu_Alolan'', 958), (''Slowbro_Galarian'', 978), (''Slowking_Galarian'', 985),
     (''Rapidash_Galarian'', 976), (''Exeggutor_Alolan'', 972), (''Muk_Alolan'', 971), (''Weezing_Galarian'', 980),
     (''Marowak_Alolan'', 973), (''Ninetales_Alolan'', 962), (''Sandslash_Alolan'', 960), (''Raticate_Alolan'', 957),
     (''Mr_Mime_Galarian'', 981), (''Articuno_Galarian'', 982), (''Zapdos_Galarian'', 983), (''Moltres_Galarian'', 984),
     (''Corsola_Galarian'', 986), (''Meowstic_Female'', 1155), (''Indeedee_Female'', 1225),
     (''Floette_Eternal_Flower'', 1141), (''Wormadam_Trash_Cloak'', 1060), (''Wormadam_Sandy_Cloak'', 1059),
     (''Greninja_Battle_Bond'', 1112), (''Oricorio_Pau'', 1170), (''Urshifu_Rapid_Strike_Style'', 1230),
     (''Avalugg_Hisuian'', 1007), (''Arcanine_Hisuian'', 994), (''Samurott_Hisuian'', 1000), (''Decidueye_Hisuian'', 1008),
     (''Typhlosion_Hisuian'', 997), (''Zoroark_Hisuian'', 1003), (''Electrode_Hisuian'', 996), (''Goodra_Hisuian'', 1006),
     (''Braviary_Hisuian'', 1004), (''Lilligant_Hisuian'', 1001), (''Darmanitan_Galarian'', 990),
     (''Calyrex_Ice_Rider'', 1232), (''Pikachu_World_Cap'', 1022), (''Zygarde_50_Power_Construct'', 1166)]"

definition ITEM_ALIASES :: "(string \<times> item) list" where
  "ITEM_ALIASES = [(''Kings Rock'', 221)]"

definition ABILITY_ALIASES :: "(string \<times> ability) list" where
  "ABILITY_ALIASES = [(''As One (Glastrier)'', 266)]"

text \<open>\<open>Nature(n)\<close> and the members of the enum, whose values are their positions.\<close>

definition NATURE_MEMBERS :: "(string \<times> nature) list" where
  "NATURE_MEMBERS = [(''HARDY'', HARDY), (''LONELY'', LONELY), (''BRAVE'', BRAVE), (''ADAMANT'', ADAMANT), (''NAUGHTY'', NAUGHTY),
     (''BOLD'', BOLD), (''DOCILE'', DOCILE), (''RELAXED'', RELAXED), (''IMPISH'', IMPISH), (''LAX'', LAX),
     (''TIMID'', TIMID), (''HASTY'', HASTY), (''SERIOUS'', SERIOUS), (''JOLLY'', JOLLY), (''NAIVE'', NAIVE),
     (''MODEST'', MODEST), (''MILD'', MILD), (''QUIET'', QUIET), (''BASHFUL'', BASHFUL), (''RASH'', RASH),
     (''CALM'', CALM), (''GENTLE'', GENTLE), (''SASSY'', SASSY), (''CAREFUL'', CAREFUL), (''QUIRKY'', QUIRKY)]"

definition nature_of_int :: "int \<Rightarrow> nature res" where
  "nature_of_int n = (if 0 \<le> n \<and> n < 25 then Inr (snd (NATURE_MEMBERS ! nat n)) else Inl ValueError)"

text \<open>An alias of the raw name first, then the member with the normalised name; no default is ever given.\<close>

definition member_key :: "string \<Rightarrow> string" where
  "member_key name = replace_char (CHR ''-'') (CHR ''_'') (replace_char (CHR '' '') (CHR ''_'') (upper name))"

definition lookup_enum :: "(string \<times> 'v) list \<Rightarrow> (string \<times> 'v) list \<Rightarrow> string \<Rightarrow> 'v res" where
  "lookup_enum aliases members name = (case map_of aliases name of
     Some v \<Rightarrow> Inr v
   | None \<Rightarrow> (case map_of members (member_key name) of Some v \<Rightarrow> Inr v | None \<Rightarrow> Inl ValueError))"

text \<open>\<open>member.name\<close>: the first member with the value.\<close>

definition enum_name :: "(string \<times> int) list \<Rightarrow> int \<Rightarrow> string" where
  "enum_name rows v = (case find (\<lambda>x. snd x = v) rows of Some x \<Rightarrow> fst x | None \<Rightarrow> [])"

section \<open>A mon of the party\<close>

definition gba_status_to_engine :: "int \<Rightarrow> status" where
  "gba_status_to_engine s =
     (if s AND 0x07 \<noteq> 0 then St_SLEEP
      else if s AND 0x80 \<noteq> 0 then St_TOXIC
      else if s AND 0x40 \<noteq> 0 then St_PARALYSIS
      else if s AND 0x20 \<noteq> 0 then St_FREEZE
      else if s AND 0x10 \<noteq> 0 then St_BURN
      else if s AND 0x08 \<noteq> 0 then St_POISON
      else St_NONE)"

definition resolve_ability :: "species \<Rightarrow> int \<Rightarrow> ability" where
  "resolve_ability sp alt_ability =
     (let slots = (case SPECIES_ABILITIES sp of Some l \<Rightarrow> l | None \<Rightarrow> [Ability_NONE, Ability_NONE, Ability_NONE]);
          ability = (if 0 \<le> alt_ability \<and> alt_ability < int (length slots) then slots ! nat alt_ability else Ability_NONE)
      in if ability = Ability_NONE \<and> alt_ability \<noteq> 0 then slots ! 0 else ability)"

definition move_from_gba_id :: "int \<Rightarrow> move res" where
  "move_from_gba_id i = (if i = 0 then Inr Move_NONE else case GBA_MOVE_MAP i of Some m \<Rightarrow> Inr m | None \<Rightarrow> Inl ValueError)"

text \<open>The level: a party mon stores it, for a box mon it comes from the experience.\<close>

definition snapshot_level :: "pokemon_snapshot \<Rightarrow> species \<Rightarrow> int res" where
  "snapshot_level snap sp = (case sn_level snap of
     Some l \<Rightarrow> Inr l
   | None \<Rightarrow> rbind (dict_get SPECIES_DATA sp) (\<lambda>d. level_from_exp (sp_growth_rate d) (sn_experience snap)))"

definition snapshot_to_pokemon_state :: "pokemon_snapshot \<Rightarrow> pokemon_state res" where
  "snapshot_to_pokemon_state snap =
     rbind (enum_of_value SPECIES_MEMBERS (sn_species snap)) (\<lambda>sp.
     rbind (nature_of_int (sn_nature snap)) (\<lambda>nt.
     rbind (snapshot_level snap sp) (\<lambda>level.
     rbind (rmap move_from_gba_id (sn_moves snap)) (\<lambda>move_ids.
     pokemon_post_init RUN_AND_BUN None None (sn_current_hp snap) None
       ((pokemon_defaults sp nt [sn_hp_iv snap, sn_atk_iv snap, sn_def_iv snap, sn_spa_iv snap, sn_spd_iv snap, sn_spe_iv snap] MALE)
          \<lparr>pk_level := level, pk_exp := sn_experience snap, pk_ability := resolve_ability sp (sn_alt_ability snap),
           pk_item := (case GBA_ITEM_MAP (sn_held_item snap) of Some i \<Rightarrow> i | None \<Rightarrow> Item_NONE),
           pk_status := gba_status_to_engine (case sn_status snap of Some s \<Rightarrow> s | None \<Rightarrow> 0),
           pk_move_ids := move_ids, pk_move_pp := sn_pp snap\<rparr>)))))"

text \<open>Eggs and empty slots are skipped.\<close>

definition snapshots_to_states :: "pokemon_snapshot list \<Rightarrow> pokemon_state list res" where
  "snapshots_to_states snaps = rmap snapshot_to_pokemon_state (filter (\<lambda>s. \<not> sn_is_egg s \<and> sn_has_species s) snaps)"

section \<open>A mon of a trainer\<close>

definition max_pp :: "int \<Rightarrow> int" where
  "max_pp base_pp = base_pp + (base_pp div 5) * 3"

definition pad_moves :: "move list \<Rightarrow> move list" where
  "pad_moves ms = take 4 (ms @ replicate (4 - length ms) Move_NONE)"

text \<open>The PP of a slot: the first has the PP Ups, an empty one none.\<close>

definition slot_pp :: "nat \<times> move \<Rightarrow> int res" where
  "slot_pp x = (if snd x = Move_NONE then Inr 0
     else rbind (dict_get MOVE_DATA (snd x)) (\<lambda>d. Inr (if fst x = 0 then max_pp (md_pp d) else md_pp d)))"

definition trainer_pokemon_to_state :: "trainer_mon \<Rightarrow> pokemon_state res" where
  "trainer_pokemon_to_state tp =
     rbind (lookup_enum SPECIES_ALIASES SPECIES_MEMBERS (tm_name tp)) (\<lambda>sp.
     rbind (lookup_enum [] NATURE_MEMBERS (tm_nature tp)) (\<lambda>nt.
     rbind (if tm_ability tp = [] then Inr Ability_NONE else lookup_enum ABILITY_ALIASES ABILITY_MEMBERS (tm_ability tp)) (\<lambda>ab.
     rbind (case tm_item tp of None \<Rightarrow> Inr Item_NONE | Some [] \<Rightarrow> Inr Item_NONE | Some (c # s) \<Rightarrow> lookup_enum ITEM_ALIASES ITEM_MEMBERS (c # s)) (\<lambda>it.
     rbind (rmap (\<lambda>m. if m = [] then Inr Move_NONE else lookup_enum MOVE_ALIASES MOVE_MEMBERS m) (tm_moves tp)) (\<lambda>raw.
     rbind (rmap slot_pp (enumerated (pad_moves raw))) (\<lambda>pps.
     pokemon_post_init RUN_AND_BUN None None None None
       ((pokemon_defaults sp nt (iv_tuple (tm_ivs tp)) MALE)
          \<lparr>pk_level := tm_level tp, pk_ability := ab, pk_item := it, pk_move_ids := pad_moves raw, pk_move_pp := pps\<rparr>)))))))"

section \<open>The battle\<close>

text \<open>\<open>re.sub(r"\s*\[[^\]]*\]\s*$", "", name)\<close>: only a last group is cut, from the leftmost place where it matches.\<close>

definition last_group_at :: "string \<Rightarrow> bool" where
  "last_group_at s = (case dropWhile is_space s of [] \<Rightarrow> False | c # t \<Rightarrow>
     c = CHR ''['' \<and> CHR '']'' \<in> set t \<and> list_all is_space (drop (Suc (length (takeWhile (\<lambda>x. x \<noteq> CHR '']'') t))) t))"

fun cut_last_group :: "string \<Rightarrow> string" where
  "cut_last_group [] = []"
| "cut_last_group (c # s) = (if last_group_at (c # s) then [] else c # cut_last_group s)"

text \<open>\<open>rsplit(" ", 1)\<close> of the display name.\<close>

definition split_trainer_name :: "string \<Rightarrow> string \<times> string" where
  "split_trainer_name name =
     (let display = strip (cut_last_group name); tail = rev (takeWhile (\<lambda>c. c \<noteq> CHR '' '') (rev display)) in
      if CHR '' '' \<in> set display then (take (length display - Suc (length tail)) display, tail) else (display, []))"

definition valid_pokemon_names :: "pokemon_state list \<Rightarrow> string list" where
  "valid_pokemon_names ms = map (\<lambda>m. upper (emulator_species_name RUN_AND_BUN (pk_species m))) ms"

definition none_if_empty :: "'a list \<Rightarrow> 'a list option" where
  "none_if_empty xs = (if xs = [] then None else Some xs)"

definition battle_constraints :: "string \<Rightarrow> pokemon_state list \<Rightarrow> constraints" where
  "battle_constraints name ms = no_constraints\<lparr>
     cn_trainer_class := Some (fst (split_trainer_name name)), cn_trainer_name := Some (snd (split_trainer_name name)),
     cn_valid_pokemon := none_if_empty (valid_pokemon_names ms),
     cn_valid_items := none_if_empty (map upper (filter (\<lambda>n. n \<noteq> ''NONE'') (map (\<lambda>m. enum_name ITEM_MEMBERS (pk_item m)) ms))),
     cn_valid_abilities := none_if_empty (map upper (filter (\<lambda>n. n \<noteq> ''NONE'') (map (\<lambda>m. enum_name ABILITY_MEMBERS (pk_ability m)) ms))),
     cn_valid_moves := none_if_empty (map (\<lambda>v. replace_char (CHR ''_'') (CHR '' '') (enum_name MOVE_MEMBERS v))
        (filter (\<lambda>v. v \<noteq> Move_NONE) (concat (map pk_move_ids ms))))\<rparr>"

definition battle_of_teams :: "pokemon_state list \<Rightarrow> pokemon_state list \<Rightarrow> int \<Rightarrow> battle_state" where
  "battle_of_teams player opponent level_cap =
     (mk_battle (mk_side player SINGLES [0]) (mk_side opponent SINGLES [0]) SINGLES)\<lparr>bs_level_cap := Some level_cap\<rparr>"

text \<open>The roster is what \<open>load_trainers\<close> gives. A negative index counts from the end.\<close>

definition build_battle_state :: "trainer list \<Rightarrow> int \<Rightarrow> int \<Rightarrow> (battle_state \<times> constraints) io" where
  "build_battle_state trainers opponent_idx level_cap =
     io_bind (io_lift (rbind (lki trainers opponent_idx) (\<lambda>t. rbind (rmap trainer_pokemon_to_state (tr_pokemon t)) (\<lambda>ms. Inr (t, ms))))) (\<lambda>(t, opponent).
     io_bind read_party (\<lambda>snaps.
     io_bind (io_lift (snapshots_to_states snaps)) (\<lambda>player.
     io_return (battle_of_teams player opponent level_cap, battle_constraints (tr_name t) (opponent @ player)))))"

definition make_stub_battle_state :: battle_state where
  "make_stub_battle_state = mk_battle (mk_side [] SINGLES []) (mk_side [] SINGLES []) SINGLES"

section \<open>Abilities\<close>

definition ability_row_ok :: "species \<times> ability list \<Rightarrow> bool" where
  "ability_row_ok r \<longleftrightarrow> length (snd r) = 3 \<and> (hd (snd r) \<noteq> Ability_NONE \<or> fst r = 734 \<or> fst r = 735)"

lemma ability_rows_1_ok: "list_all ability_row_ok SPECIES_ABILITY_ROWS_1"
  by code_simp

lemma ability_rows_2_ok: "list_all ability_row_ok SPECIES_ABILITY_ROWS_2"
  by code_simp

lemma ability_rows_3_ok: "list_all ability_row_ok SPECIES_ABILITY_ROWS_3"
  by code_simp

lemma ability_rows_4_ok: "list_all ability_row_ok SPECIES_ABILITY_ROWS_4"
  by code_simp

lemma ability_rows_5_ok: "list_all ability_row_ok SPECIES_ABILITY_ROWS_5"
  by code_simp

lemma ability_rows_6_ok: "list_all ability_row_ok SPECIES_ABILITY_ROWS_6"
  by code_simp

lemma ability_rows_7_ok: "list_all ability_row_ok SPECIES_ABILITY_ROWS_7"
  by code_simp

lemma ability_rows_8_ok: "list_all ability_row_ok SPECIES_ABILITY_ROWS_8"
  by code_simp

lemma ability_rows_9_ok: "list_all ability_row_ok SPECIES_ABILITY_ROWS_9"
  by code_simp

lemmas ability_rows_ok = ability_rows_1_ok ability_rows_2_ok ability_rows_3_ok ability_rows_4_ok ability_rows_5_ok ability_rows_6_ok ability_rows_7_ok ability_rows_8_ok ability_rows_9_ok

lemma ability_row:
  assumes "SPECIES_ABILITIES sp = Some l"
  shows "length l = 3 \<and> (l ! 0 \<noteq> Ability_NONE \<or> sp = 734 \<or> sp = 735)"
proof -
  have "list_all ability_row_ok SPECIES_ABILITY_ROWS"
    unfolding SPECIES_ABILITY_ROWS_def by (simp only: concat.simps list_all_append list.pred_inject ability_rows_ok simp_thms)
  moreover have "(sp, l) \<in> set SPECIES_ABILITY_ROWS"
    using assms map_of_SomeD[of "rev SPECIES_ABILITY_ROWS"] by (simp add: SPECIES_ABILITIES_def)
  ultimately have "ability_row_ok (sp, l)" by (simp only: list_all_iff)
  then show ?thesis by (cases l) (auto simp: ability_row_ok_def)
qed

lemma empty_first_slots: "SPECIES_ABILITIES 734 = Some [0, 173, 91]" "SPECIES_ABILITIES 735 = Some [0, 173, 91]"
proof -
  have "{(734, [0, 173, 91]), (735, [0, 173, 91])} \<subseteq> set SPECIES_ABILITY_ROWS_5" by (simp add: SPECIES_ABILITY_ROWS_5_def)
  then have "{(734, [0, 173, 91]), (735, [0, 173, 91])} \<subseteq> set SPECIES_ABILITY_ROWS" by (auto simp: SPECIES_ABILITY_ROWS_def)
  then show "SPECIES_ABILITIES 734 = Some [0, 173, 91]" "SPECIES_ABILITIES 735 = Some [0, 173, 91]"
    unfolding SPECIES_ABILITIES_def dict_display[OF ability_keys] by simp_all
qed

text \<open>
  The ability of a mon. A species of the table gets the ability in the slot the game reports, or the first one when that slot is
  empty or out of range; the result is never \<open>NONE\<close>, with the exception of two species whose first slot the table leaves empty,
  and then only when the slot is neither 1 nor 2. A species that is not in the table has no ability.
\<close>

theorem resolve_ability_exact:
  "resolve_ability sp alt = (case SPECIES_ABILITIES sp of None \<Rightarrow> Ability_NONE
     | Some l \<Rightarrow> if alt \<in> {0, 1, 2} \<and> l ! nat alt \<noteq> Ability_NONE then l ! nat alt else l ! 0)
   \<and> (resolve_ability sp alt = Ability_NONE) = (SPECIES_ABILITIES sp = None \<or> sp \<in> {734, 735} \<and> alt \<notin> {1, 2})"
proof (cases "SPECIES_ABILITIES sp")
  case None
  then show ?thesis by (auto simp: resolve_ability_def Let_def nth_Cons' split: if_splits)
next
  case (Some l)
  note row = ability_row[OF Some]
  have alt: "(0 \<le> alt \<and> alt < 3) = (alt \<in> {0, 1, 2})" by auto
  have eq: "resolve_ability sp alt = (if alt \<in> {0, 1, 2} \<and> l ! nat alt \<noteq> Ability_NONE then l ! nat alt else l ! 0)"
    using row Some alt by (auto simp: resolve_ability_def Let_def)
  show ?thesis
  proof (cases "sp = 734 \<or> sp = 735")
    case True
    then have "l = [0, 173, 91]" using Some empty_first_slots by auto
    then show ?thesis using Some True unfolding eq by auto
  next
    case False
    then show ?thesis using Some row unfolding eq by auto
  qed
qed

section \<open>Conversions that succeed\<close>

lemma RUN_AND_BUN_species [simp]: "gd_species RUN_AND_BUN = SPECIES_DATA"
  by (simp add: RUN_AND_BUN_def)

lemma species_member_data: "sp \<in> snd ` set SPECIES_MEMBERS \<Longrightarrow> \<exists>d. SPECIES_DATA sp = Some d"
  using species_total[of sp] by auto

lemma species_stats_total:
  assumes "gd_species gd (pk_species p) = Some d" "length (pk_ivs p) = 6"
  shows "\<exists>st. species_stats gd p = Inr st"
proof -
  let ?bases = "[sp_base_hp d, sp_base_atk d, sp_base_def d, sp_base_spa d, sp_base_spd d, sp_base_spe d]"
  have "\<exists>ys. rmap (\<lambda>i. rbind (lk (pk_ivs p) i) (\<lambda>iv. Inr (compute_stat (all_stats ! i) (?bases ! i) iv (pk_nature p) (pk_level p)))) [0..<6] = Inr ys"
    unfolding rmap_total using assms(2) by auto
  then show ?thesis using assms(1) by (auto simp: species_stats_def dict_get_def Let_def)
qed

lemma post_init_total:
  assumes "SPECIES_DATA (pk_species p) = Some d" "length (pk_ivs p) = 6"
  shows "\<exists>q. pokemon_post_init RUN_AND_BUN None None hp None p = Inr q"
proof -
  from species_stats_total[of RUN_AND_BUN p d] assms obtain st where st: "species_stats RUN_AND_BUN p = Inr st" by auto
  then show ?thesis using assms species_stats_length[OF st] by (auto simp: pokemon_post_init_def dict_get_def Let_def)
qed

definition snapshot_convertible :: "pokemon_snapshot \<Rightarrow> bool" where
  "snapshot_convertible s \<longleftrightarrow> sn_species s \<in> snd ` set SPECIES_MEMBERS \<and> 0 \<le> sn_nature s \<and> sn_nature s < 25
     \<and> (case sn_level s of None \<Rightarrow> 0 \<le> sn_experience s | Some _ \<Rightarrow> True)
     \<and> list_all (\<lambda>m. m = 0 \<or> m \<in> fst ` set GBA_MOVE_ROWS) (sn_moves s)"

lemma move_from_gba_id_cases: "move_from_gba_id m = Inl ValueError \<or> (\<exists>v. move_from_gba_id m = Inr v)"
  by (auto simp: move_from_gba_id_def split: option.splits)

lemma move_from_gba_id_Inr: "(\<exists>v. move_from_gba_id m = Inr v) \<longleftrightarrow> m = 0 \<or> m \<in> fst ` set GBA_MOVE_ROWS"
  using map_of_eq_None_iff[of "rev GBA_MOVE_ROWS" m] by (auto simp: move_from_gba_id_def GBA_MOVE_MAP_def split: option.splits)

lemma gba_moves_cases:
  "rmap move_from_gba_id ms = (if list_all (\<lambda>m. m = 0 \<or> m \<in> fst ` set GBA_MOVE_ROWS) ms
     then Inr (map (\<lambda>m. projr (move_from_gba_id m)) ms) else Inl ValueError)"
proof (induction ms)
  case (Cons m ms)
  then show ?case using move_from_gba_id_cases[of m] move_from_gba_id_Inr[of m] by (auto split: if_splits)
qed simp

lemma snapshot_level_cases:
  assumes "SPECIES_DATA sp = Some d"
  shows "case sn_level s of None \<Rightarrow> 0 \<le> sn_experience s | Some _ \<Rightarrow> True \<Longrightarrow> \<exists>l. snapshot_level s sp = Inr l"
    and "\<not> (case sn_level s of None \<Rightarrow> 0 \<le> sn_experience s | Some _ \<Rightarrow> True) \<Longrightarrow> snapshot_level s sp = Inl ValueError"
  using assms by (auto simp: snapshot_level_def dict_get_def level_from_exp_def split: option.splits)

lemma snapshot_conversion:
  "(if snapshot_convertible s then \<exists>p. snapshot_to_pokemon_state s = Inr p else snapshot_to_pokemon_state s = Inl ValueError)"
proof (cases "sn_species s \<in> snd ` set SPECIES_MEMBERS \<and> 0 \<le> sn_nature s \<and> sn_nature s < 25")
  case True
  from species_member_data[of "sn_species s"] True obtain d where d: "SPECIES_DATA (sn_species s) = Some d" by auto
  show ?thesis
  proof (cases "case sn_level s of None \<Rightarrow> 0 \<le> sn_experience s | Some _ \<Rightarrow> True")
    case level: True
    from snapshot_level_cases(1)[OF d level] obtain l where l: "snapshot_level s (sn_species s) = Inr l" by blast
    have "snapshot_convertible s = list_all (\<lambda>m. m = 0 \<or> m \<in> fst ` set GBA_MOVE_ROWS) (sn_moves s)"
      using True level by (simp only: snapshot_convertible_def simp_thms)
    then show ?thesis
      using True d l by (auto simp: snapshot_to_pokemon_state_def enum_of_value_def nature_of_int_def gba_moves_cases
          pokemon_defaults_def intro!: post_init_total)
  next
    case False
    then have "\<not> snapshot_convertible s" by (simp only: snapshot_convertible_def simp_thms)
    then show ?thesis using True snapshot_level_cases(2)[OF d False]
      by (simp add: snapshot_to_pokemon_state_def enum_of_value_def nature_of_int_def)
  qed
next
  case False
  then have "\<not> snapshot_convertible s" by (auto simp only: snapshot_convertible_def simp_thms)
  then show ?thesis using False by (auto simp: snapshot_to_pokemon_state_def enum_of_value_def nature_of_int_def)
qed

text \<open>
  C32: What the conversion of a memory snapshot can raise. It gives a state exactly for a snapshot with a species and a nature of the
  enums, experience that is not negative where the level has to come from it, and move identifiers of the table; for any other
  it raises a \<open>ValueError\<close>, never another exception: no lookup in the tables of species, moves, items or abilities can fail.
\<close>

theorem snapshot_conversion_exact:
  "(if snapshot_convertible s then \<exists>p. snapshot_to_pokemon_state s = Inr p else snapshot_to_pokemon_state s = Inl ValueError)"
  by (rule snapshot_conversion)

section \<open>The built battle\<close>

definition ivs_ok :: "int list \<Rightarrow> bool" where
  "ivs_ok ivs \<longleftrightarrow> length ivs = 6 \<and> list_all (\<lambda>v. 0 \<le> v \<and> v \<le> 31) ivs"

definition level_ok :: "int \<Rightarrow> bool" where
  "level_ok l \<longleftrightarrow> 1 \<le> l \<and> l \<le> 100"

text \<open>What the game and the data files promise of a mon.\<close>

definition snapshot_in_range :: "pokemon_snapshot \<Rightarrow> bool" where
  "snapshot_in_range s \<longleftrightarrow> ivs_ok [sn_hp_iv s, sn_atk_iv s, sn_def_iv s, sn_spa_iv s, sn_spd_iv s, sn_spe_iv s]
     \<and> length (sn_moves s) = 4 \<and> pred_option level_ok (sn_level s)"

definition trainer_mon_in_range :: "trainer_mon \<Rightarrow> bool" where
  "trainer_mon_in_range t \<longleftrightarrow> level_ok (tm_level t) \<and> list_all (\<lambda>x. 0 \<le> snd x \<and> snd x \<le> 31) (tm_ivs t)"

definition mon_ok :: "pokemon_state \<Rightarrow> bool" where
  "mon_ok p \<longleftrightarrow> pk_species p \<in> snd ` set SPECIES_MEMBERS \<and> level_ok (pk_level p)
     \<and> length (pk_stats p) = 6 \<and> list_all (\<lambda>v. 1 \<le> v \<and> v \<le> 651) (pk_stats p) \<and> pk_max_hp p = pk_stats p ! 0
     \<and> pk_types p \<noteq> [] \<and> length (pk_types p) \<le> 2
     \<and> length (pk_move_ids p) = 4 \<and> set (pk_move_ids p) \<subseteq> snd ` set MOVE_MEMBERS
     \<and> pk_base_ability p = pk_ability p"

definition opponent_ok :: "pokemon_state \<Rightarrow> bool" where
  "opponent_ok p \<longleftrightarrow> pk_hp p = pk_max_hp p \<and> length (pk_move_pp p) = 4
     \<and> list_all (\<lambda>(m, n). (if m = Move_NONE then n = 0 else 0 < n \<and> n \<le> 64)) (zip (pk_move_ids p) (pk_move_pp p))"

lemma level_from_exp_bounds:
  assumes "level_from_exp g e = Inr l"
  shows "level_ok l"
proof -
  have loop: "level_loop g e cs l0 \<in> insert l0 (set cs)" for cs l0
    by (induction cs arbitrary: l0) auto
  have "l = level_loop g e [2..100] 1"
    using assms unfolding level_from_exp_def by (cases "e < 0") (simp_all only: if_True if_False sum.inject sum.distinct)
  with loop[of "[2..100]" 1] have "l \<in> insert 1 {2..100}" by (simp only: set_upto)
  then show ?thesis by (auto simp: level_ok_def)
qed

lemma species_stats_bounds:
  assumes "species_stats RUN_AND_BUN p = Inr st" "ivs_ok (pk_ivs p)" "level_ok (pk_level p)"
  shows "list_all (\<lambda>v. 1 \<le> v \<and> v \<le> 651) st"
proof -
  from assms(1) obtain d where d: "SPECIES_DATA (pk_species p) = Some d"
    by (cases "SPECIES_DATA (pk_species p)") (simp_all add: species_stats_def dict_get_def)
  let ?bases = "[sp_base_hp d, sp_base_atk d, sp_base_def d, sp_base_spa d, sp_base_spd d, sp_base_spe d]"
  let ?f = "\<lambda>i. rbind (lk (pk_ivs p) i) (\<lambda>iv. Inr (compute_stat (BattleState.all_stats ! i) (?bases ! i) iv (pk_nature p) (pk_level p)))"
  from assms(1) d obtain ys where ys: "rmap ?f [0..<6] = Inr ys" "st = (if pk_species p = Species_SHEDINJA then 1 # tl ys else ys)"
    unfolding species_stats_def Let_def by (simp add: dict_get_def rbind_eq_Inr del: upt_rec_numeral) blast
  have bases: "base_ok (?bases ! i)" if "i < 6" for i
  proof -
    have "list_all base_ok ?bases" using species_in_range[OF d] by (simp add: species_data_ok_def)
    with that show ?thesis unfolding list_all_length by simp
  qed
  have "1 \<le> v \<and> v \<le> 651" if "v \<in> set ys" for v
  proof -
    from rmap_set[OF ys(1) that] obtain i where i: "i < 6" "?f i = Inr v" by auto
    then have len: "i < length (pk_ivs p)" using assms(2) by (simp add: ivs_ok_def)
    then have "v = compute_stat (BattleState.all_stats ! i) (?bases ! i) (pk_ivs p ! i) (pk_nature p) (pk_level p)" using i(2) by simp
    moreover have "0 \<le> pk_ivs p ! i \<and> pk_ivs p ! i \<le> 31" using assms(2) len by (simp add: ivs_ok_def list_all_length)
    ultimately show ?thesis using compute_stat_bounds[OF bases[OF i(1)]] assms(3) by (simp add: level_ok_def)
  qed
  moreover have "set (tl ys) \<subseteq> set ys" by (cases ys) auto
  ultimately show ?thesis using ys(2) by (auto simp: list_all_iff)
qed

text \<open>What the constructor of a mon guarantees, with any current HP.\<close>

lemma post_init_facts:
  assumes "pokemon_post_init RUN_AND_BUN None None hp None p = Inr q" "ivs_ok (pk_ivs p)" "level_ok (pk_level p)"
  shows "length (pk_stats q) = 6" "list_all (\<lambda>v. 1 \<le> v \<and> v \<le> 651) (pk_stats q)" "pk_max_hp q = pk_stats q ! 0"
    "pk_hp q = (case hp of Some h \<Rightarrow> h | None \<Rightarrow> pk_max_hp q)" "pk_types q \<noteq> []" "length (pk_types q) \<le> 2"
    "pk_species q = pk_species p" "pk_level q = pk_level p" "pk_move_ids q = pk_move_ids p" "pk_move_pp q = pk_move_pp p"
    "pk_base_ability p = Ability_NONE \<Longrightarrow> pk_base_ability q = pk_ability q"
proof -
  from assms(1) obtain st d where st: "species_stats RUN_AND_BUN p = Inr st" and d: "SPECIES_DATA (pk_species p) = Some d"
    by (auto simp: pokemon_post_init_def Let_def rbind_eq_Inr dict_get_def split: option.splits)
  note len = species_stats_length[OF st] and bounds = species_stats_bounds[OF st assms(2,3)]
  have ok: "sp_types d \<noteq> []" "length (sp_types d) \<le> 2" using species_in_range[OF d] by (simp_all add: species_data_ok_def)
  define ab where "ab = (if pk_species p = Species_SHEDINJA \<and> pk_ability p = Ability_NONE then Ability_WONDER_GUARD else pk_ability p)"
  have q: "q = p\<lparr>pk_stats := st, pk_ability := ab, pk_max_hp := st ! 0, pk_hp := (case hp of Some h \<Rightarrow> h | None \<Rightarrow> st ! 0),
      pk_types := sp_types d, pk_base_ability := (if pk_base_ability p = Ability_NONE \<and> ab \<noteq> Ability_NONE then ab else pk_base_ability p)\<rparr>"
    using assms(1) st d len unfolding pokemon_post_init_def Let_def ab_def[symmetric] by (simp add: dict_get_def)
  show "length (pk_stats q) = 6" "list_all (\<lambda>v. 1 \<le> v \<and> v \<le> 651) (pk_stats q)" "pk_max_hp q = pk_stats q ! 0"
    "pk_types q \<noteq> []" "length (pk_types q) \<le> 2"
    "pk_species q = pk_species p" "pk_level q = pk_level p" "pk_move_ids q = pk_move_ids p" "pk_move_pp q = pk_move_pp p"
    using len bounds ok by (simp_all add: q)
  show "pk_hp q = (case hp of Some h \<Rightarrow> h | None \<Rightarrow> pk_max_hp q)" by (cases hp) (simp_all add: q)
  show "pk_base_ability p = Ability_NONE \<Longrightarrow> pk_base_ability q = pk_ability q" by (auto simp add: q)
qed

text \<open>The moves and the PP of a trainer's mon.\<close>

lemma lookup_enum_member: "lookup_enum al mem n = Inr v \<Longrightarrow> v \<in> snd ` set al \<or> v \<in> snd ` set mem"
  by (auto simp: lookup_enum_def split: option.splits dest!: map_of_SomeD intro: rev_image_eqI)

text \<open>The values of the moves, without the names.\<close>

lemma move_members_1_values: "map snd MOVE_MEMBERS_1 = [
     0, 1, 2, 3, 4, 5, 6, 7, 8, 9, 10, 11, 12, 13, 14, 15, 16, 17, 18, 19,
     20, 21, 22, 23, 24, 25, 26, 27, 28, 29, 30, 31, 32, 33, 34, 35, 36, 37, 38, 39,
     40, 41, 42, 43, 44, 45, 46, 47, 48, 49, 50, 51, 52, 53, 55, 56, 57, 58, 59, 60,
     61, 62, 63, 64, 65, 66, 67, 68, 69, 70, 71, 72, 73, 74, 75, 76, 77, 78, 79, 80,
     81, 82, 83, 84, 85, 86, 87, 88, 89, 90, 91, 92, 93, 94, 95, 96, 97, 98, 99, 100,
     101, 103, 104, 105, 106, 107, 108, 109, 111, 112, 113, 114, 115, 116, 118, 119, 120, 121, 122, 123,
     124, 125, 126, 127, 128, 129, 130, 131, 132, 133, 134, 135, 136, 137, 138, 139, 140, 141, 142, 143,
     144, 145, 146, 147, 148, 149, 150]"
  by (simp only: MOVE_MEMBERS_1_def list.map snd_conv)

lemma move_members_2_values: "map snd MOVE_MEMBERS_2 = [
     151, 152, 153, 154, 155, 156, 157, 158, 159, 161, 162, 163, 164, 165, 167, 168, 171, 172, 173, 174,
     175, 177, 178, 179, 181, 182, 183, 184, 185, 186, 187, 188, 189, 190, 191, 192, 193, 194, 195, 196,
     197, 198, 200, 201, 202, 203, 204, 205, 206, 207, 208, 209, 210, 211, 212, 213, 214, 215, 216, 217,
     218, 219, 220, 221, 222, 223, 224, 225, 226, 227, 228, 229, 230, 231, 232, 233, 234, 235, 236, 237,
     10001, 10002, 10003, 10004, 10005, 10006, 10007, 10008, 10009, 10010, 10011, 10012, 10013, 10014, 10015, 10016, 238, 239, 240, 241,
     242, 243, 244, 245, 246, 247, 248, 249, 250, 251, 252, 253, 254, 255, 256, 257, 258, 259, 260, 261,
     262, 263, 264, 265, 266, 267, 269, 270, 271, 272, 273, 274, 275, 276, 277, 279, 280, 281, 282, 283,
     284, 285]"
  by (simp only: MOVE_MEMBERS_2_def list.map snd_conv)

lemma move_members_3_values: "map snd MOVE_MEMBERS_3 = [
     286, 289, 290, 291, 292, 294, 295, 296, 297, 298, 299, 301, 302, 303, 304, 305, 306, 307, 308, 309,
     310, 311, 312, 313, 314, 315, 316, 317, 318, 319, 320, 321, 322, 323, 324, 325, 326, 327, 328, 329,
     330, 331, 332, 333, 334, 335, 336, 337, 338, 339, 340, 341, 342, 343, 344, 345, 347, 348, 349, 350,
     351, 352, 353, 354, 355, 356, 358, 359, 360, 361, 362, 363, 364, 365, 366, 367, 368, 369, 370, 371,
     372, 373, 374, 376, 378, 379, 381, 382, 383, 386, 387, 389, 390, 392, 393, 394, 395, 396, 397, 398,
     399, 400, 401, 402, 403, 404, 405, 406, 407, 408, 409, 410, 411, 412, 413, 414, 415, 416, 417, 418,
     419, 420, 421, 422, 423, 424, 425, 426, 427, 428, 429, 430, 431, 432, 433, 434, 435, 436]"
  by (simp only: MOVE_MEMBERS_3_def list.map snd_conv)

lemma move_members_4_values: "map snd MOVE_MEMBERS_4 = [
     437, 438, 439, 440, 441, 442, 443, 444, 445, 446, 447, 448, 449, 450, 451, 452, 453, 454, 455, 456,
     457, 458, 459, 460, 461, 462, 463, 464, 465, 466, 468, 469, 473, 474, 475, 476, 477, 479, 480, 481,
     482, 483, 484, 485, 486, 487, 488, 489, 490, 491, 492, 496, 497, 498, 499, 500, 501, 502, 503, 504,
     505, 506, 507, 508, 509, 510, 512, 514, 515, 517, 518, 519, 520, 521, 522, 523, 524, 525, 526, 527,
     528, 529, 530, 531, 532, 533, 534, 535, 536, 537, 538, 539, 540, 541, 542, 543, 544, 545, 546, 547,
     548, 549, 550, 551, 552, 553, 554, 555, 556, 557, 558, 559, 560, 561, 562, 564, 565, 566, 568, 569,
     570, 572, 573, 574, 575, 577, 578, 580, 581, 583, 584, 585, 586]"
  by (simp only: MOVE_MEMBERS_4_def list.map snd_conv)

lemma move_members_5_values: "map snd MOVE_MEMBERS_5 = [
     588, 589, 590, 591, 592, 593, 594, 595, 596, 598, 600, 604, 605, 608, 609, 610, 611, 612, 613, 614,
     615, 616, 617, 618, 619, 620, 621, 659, 660, 661, 662, 663, 664, 665, 666, 667, 668, 669, 670, 671,
     672, 673, 675, 676, 677, 678, 679, 680, 681, 682, 684, 686, 687, 688, 690, 691, 692, 693, 694, 704,
     705, 706, 707, 708, 709, 710, 711, 712, 713, 714, 715, 716, 717, 718, 720, 721, 722, 729, 730, 731,
     732, 733, 734, 735, 736, 737, 738, 739, 740, 741, 742, 743, 744, 745, 746, 747, 748, 751, 753, 754,
     755, 757, 758, 759, 760, 761, 762, 763, 764, 765, 766, 767, 768, 769, 770, 771, 772, 773, 774, 775,
     776, 777, 778, 779, 780, 781, 782, 783, 784, 785, 786, 787, 788, 789, 790]"
  by (simp only: MOVE_MEMBERS_5_def list.map snd_conv)

lemma move_members_6_values: "map snd MOVE_MEMBERS_6 = [
     791, 792, 793, 794, 795, 796, 797, 798, 799, 800, 801, 802, 803, 804, 805, 806, 807, 808, 809, 811,
     812, 813, 814, 815, 816, 817, 818, 819, 820, 821, 822, 823, 824, 825, 826, 827, 828, 830, 831, 832,
     833, 834, 835, 836, 838, 839, 840, 841, 843, 844, 845, 846, 847, 848, 849, 851, 852, 853, 854, 855,
     856, 857, 859, 860, 861, 862, 864, 865, 866, 869, 870, 871, 872, 873, 874, 875, 876, 877, 878, 879,
     880, 884, 885, 886, 887, 888, 889, 890, 891, 892, 893, 894, 895, 896, 897, 898, 899, 900, 901, 902,
     903, 904, 905, 906, 907, 908, 909, 910, 911, 912, 914, 915, 916, 917, 918, 919, 920, 1000, 1000, 1000,
     1000, 1000, 1000, 1000, 1000, 1000, 1000, 1000, 1000, 1000, 1000, 1000, 1000, 1000, 1000, 1000, 1000]"
  by (simp only: MOVE_MEMBERS_6_def list.map snd_conv)

lemma move_members_7_values: "map snd MOVE_MEMBERS_7 = [
     1000, 1000, 1000, 1000, 1000, 1000, 1000, 1000, 1000, 1000, 1000, 1000, 1000]"
  by (simp only: MOVE_MEMBERS_7_def list.map snd_conv)

lemmas move_values = move_members_1_values move_members_2_values move_members_3_values move_members_4_values move_members_5_values move_members_6_values move_members_7_values

lemma alias_members:
  "snd ` set SPECIES_ALIASES \<subseteq> snd ` set SPECIES_MEMBERS"
  "snd ` set MOVE_ALIASES \<subseteq> snd ` set MOVE_MEMBERS"
proof -
  have in_1: "asc_subset [957, 1022, 958, 960, 962, 964, 966, 994, 968, 969, 976, 978, 83, 979, 971, 996] (map snd SPECIES_MEMBERS_1)"
    unfolding species_values by code_simp
  have in_2: "asc_subset [972, 973, 980, 981, 982, 983, 984, 997, 985] (map snd SPECIES_MEMBERS_2)"
    unfolding species_values by code_simp
  have in_3: "asc_subset [986, 987, 988] (map snd SPECIES_MEMBERS_3)"
    unfolding species_values by code_simp
  have in_4: "asc_subset [1059, 1060] (map snd SPECIES_MEMBERS_4)"
    unfolding species_values by code_simp
  have in_5: "asc_subset [1000, 1001, 990] (map snd SPECIES_MEMBERS_5)"
    unfolding species_values by code_simp
  have in_6: "asc_subset [1003, 1004, 1112, 1141] (map snd SPECIES_MEMBERS_6)"
    unfolding species_values by code_simp
  have in_7: "asc_subset [1155, 1006, 1007, 1166, 1008, 1170] (map snd SPECIES_MEMBERS_7)"
    unfolding species_values by code_simp
  have in_8: "asc_subset [865, 1225] (map snd SPECIES_MEMBERS_8)"
    unfolding species_values by code_simp
  have in_9: "asc_subset [1230, 1232] (map snd SPECIES_MEMBERS_9)"
    unfolding species_values by code_simp
  note parts = in_1 in_2 in_3 in_4 in_5 in_6 in_7 in_8 in_9
  have "snd ` set SPECIES_ALIASES \<subseteq> \<Union> (set ` {[957, 1022, 958, 960, 962, 964, 966, 994, 968, 969, 976, 978, 83, 979, 971, 996], [972, 973, 980, 981, 982, 983, 984, 997, 985], [986, 987, 988], [1059, 1060], [1000, 1001, 990], [1003, 1004, 1112, 1141], [1155, 1006, 1007, 1166, 1008, 1170], [865, 1225], [1230, 1232]})"
    unfolding SPECIES_ALIASES_def by simp
  also have "\<dots> \<subseteq> snd ` set SPECIES_MEMBERS" using parts[THEN asc_subset_sound] unfolding SPECIES_MEMBERS_def by auto
  finally show "snd ` set SPECIES_ALIASES \<subseteq> snd ` set SPECIES_MEMBERS" .
  have "{(''VISE_GRIP'', 11), (''NATURE_S_MADNESS'', 717), (''KING_S_SHIELD'', 588)} \<subseteq> set MOVE_MEMBERS"
    by (simp add: MOVE_MEMBERS_def MOVE_MEMBERS_1_def MOVE_MEMBERS_4_def MOVE_MEMBERS_5_def)
  then show "snd ` set MOVE_ALIASES \<subseteq> snd ` set MOVE_MEMBERS" by (force simp: MOVE_ALIASES_def)
qed

lemma MOVE_DATA_pp:
  assumes "m \<in> snd ` set MOVE_MEMBERS" "m \<noteq> Move_NONE"
  shows "\<exists>d. MOVE_DATA m = Some d \<and> 0 < md_pp d \<and> md_pp d \<le> 40"
proof -
  have "snd ` set MOVE_MEMBERS = fst ` set MOVE_ROWS" by (metis move_rows_members image_set)
  then have "MOVE_DATA m \<noteq> None" using assms(1) by (simp add: MOVE_DATA_def run_tag_loops_exact map_of_eq_None_iff)
  then obtain d where d: "MOVE_DATA m = Some d" by blast
  then show ?thesis
  proof (rule MOVE_DATA_row)
    fix d0
    assume "(m, d0) \<in> set MOVE_ROWS" "d = d0\<lparr>md_tags := md_tags d0 OR added_tags tag_loops m\<rparr>"
    then show ?thesis using move_row_in_range[of "(m, d0)"] d assms(2) by (simp add: move_row_ok_def move_data_ok_def)
  qed
qed

lemma max_pp_bounds: "0 < n \<Longrightarrow> n \<le> 40 \<Longrightarrow> 0 < max_pp n \<and> max_pp n \<le> 64"
  unfolding max_pp_def by presburger

lemma slot_pp_bounds:
  assumes "m \<in> snd ` set MOVE_MEMBERS"
  shows "\<exists>n. slot_pp (i, m) = Inr n \<and> (if m = Move_NONE then n = 0 else 0 < n \<and> n \<le> 64)"
proof (cases "m = Move_NONE")
  case False
  from MOVE_DATA_pp[OF assms False] obtain d where "MOVE_DATA m = Some d" "0 < md_pp d" "md_pp d \<le> 40" by blast
  then show ?thesis using False max_pp_bounds[of "md_pp d"] by (auto simp: slot_pp_def dict_get_def)
qed (simp add: slot_pp_def)

lemma pad_moves_length [simp]: "length (pad_moves ms) = 4"
  by (simp add: pad_moves_def)

lemma none_member: "Move_NONE \<in> snd ` set MOVE_MEMBERS"
proof -
  have "(''NONE'', 0) \<in> set MOVE_MEMBERS" by (simp add: MOVE_MEMBERS_def MOVE_MEMBERS_1_def)
  then show ?thesis by force
qed

lemma pad_moves_members: "set ms \<subseteq> snd ` set MOVE_MEMBERS \<Longrightarrow> set (pad_moves ms) \<subseteq> snd ` set MOVE_MEMBERS"
proof -
  assume ms: "set ms \<subseteq> snd ` set MOVE_MEMBERS"
  have "set (pad_moves ms) \<subseteq> set (ms @ replicate (4 - length ms) Move_NONE)" unfolding pad_moves_def by (rule set_take_subset)
  also have "\<dots> \<subseteq> insert Move_NONE (set ms)" by auto
  also have "\<dots> \<subseteq> snd ` set MOVE_MEMBERS" using ms none_member by blast
  finally show ?thesis .
qed

lemma iv_tuple_ok: "list_all (\<lambda>x. 0 \<le> snd x \<and> snd x \<le> 31) ivs \<Longrightarrow> ivs_ok (iv_tuple ivs)"
proof -
  assume ivs: "list_all (\<lambda>x. 0 \<le> snd x \<and> snd x \<le> 31) ivs"
  have "0 \<le> (case map_of ivs k of None \<Rightarrow> DEFAULT_IV | Some v \<Rightarrow> v) \<and> (case map_of ivs k of None \<Rightarrow> DEFAULT_IV | Some v \<Rightarrow> v) \<le> 31" for k
    using ivs map_of_SomeD[of ivs k] by (cases "map_of ivs k") (force simp: DEFAULT_IV_def list_all_iff)+
  then show ?thesis by (simp add: ivs_ok_def iv_tuple_def list_all_iff) (simp add: IV_KEY_ORDER_def)
qed

lemma trainer_pokemon_ok:
  assumes "trainer_pokemon_to_state tp = Inr q" "trainer_mon_in_range tp"
  shows "mon_ok q \<and> opponent_ok q"
proof -
  from assms(1) obtain sp nt ab it raw pps where
    sp: "lookup_enum SPECIES_ALIASES SPECIES_MEMBERS (tm_name tp) = Inr sp"
    and raw: "rmap (\<lambda>m. if m = [] then Inr Move_NONE else lookup_enum MOVE_ALIASES MOVE_MEMBERS m) (tm_moves tp) = Inr raw"
    and pps: "rmap slot_pp (enumerated (pad_moves raw)) = Inr pps"
    and q: "pokemon_post_init RUN_AND_BUN None None None None ((pokemon_defaults sp nt (iv_tuple (tm_ivs tp)) MALE)
          \<lparr>pk_level := tm_level tp, pk_ability := ab, pk_item := it, pk_move_ids := pad_moves raw, pk_move_pp := pps\<rparr>) = Inr q"
    unfolding trainer_pokemon_to_state_def rbind_eq_Inr by blast
  have ranges: "ivs_ok (iv_tuple (tm_ivs tp))" "level_ok (tm_level tp)" using assms(2) iv_tuple_ok by (simp_all add: trainer_mon_in_range_def)
  note facts = post_init_facts[OF q, simplified pokemon_defaults_def, simplified, OF ranges]
  have species: "sp \<in> snd ` set SPECIES_MEMBERS" using lookup_enum_member[OF sp] alias_members(1) by blast
  have "v \<in> snd ` set MOVE_MEMBERS" if v: "v \<in> set raw" for v
  proof -
    from rmap_set[OF raw v] obtain m where "(if m = [] then Inr Move_NONE else lookup_enum MOVE_ALIASES MOVE_MEMBERS m) = Inr v" by blast
    then show ?thesis using none_member lookup_enum_member[of MOVE_ALIASES MOVE_MEMBERS m v] alias_members(2) by (auto split: if_splits)
  qed
  then have moves: "set (pad_moves raw) \<subseteq> snd ` set MOVE_MEMBERS" using pad_moves_members by blast
  have len: "length pps = 4" using rmap_length[OF pps] by simp
  have pp: "list_all (\<lambda>(m, n). (if m = Move_NONE then n = 0 else 0 < n \<and> n \<le> 64)) (zip (pad_moves raw) pps)"
  proof (unfold list_all_length, intro allI impI)
    fix i assume "i < length (zip (pad_moves raw) pps)"
    then have i: "i < 4" using len by simp
    have nth: "enumerated (pad_moves raw) ! i = (i, pad_moves raw ! i)" using i by (simp add: enumerated_def)
    have "slot_pp (i, pad_moves raw ! i) = Inr (pps ! i)" using rmap_nth[OF pps, of i] i nth by simp
    moreover have "pad_moves raw ! i \<in> snd ` set MOVE_MEMBERS" using moves i nth_mem[of i "pad_moves raw"] by auto
    ultimately show "case zip (pad_moves raw) pps ! i of (m, n) \<Rightarrow> if m = Move_NONE then n = 0 else 0 < n \<and> n \<le> 64"
      using slot_pp_bounds[of "pad_moves raw ! i" i] i len by auto
  qed
  show ?thesis unfolding mon_ok_def opponent_ok_def using facts species moves len pp ranges by simp
qed

lemma gba_moves_are_moves: "snd ` set GBA_MOVE_ROWS \<subseteq> snd ` set MOVE_MEMBERS"
proof -
  have in_1: "asc_subset (map snd GBA_MOVE_ROWS_1) (map snd MOVE_MEMBERS_1 @ map snd MOVE_MEMBERS_2)"
    unfolding move_values by code_simp
  have in_2: "asc_subset (map snd GBA_MOVE_ROWS_2) (map snd MOVE_MEMBERS_2 @ map snd MOVE_MEMBERS_3)"
    unfolding move_values by code_simp
  have in_3: "asc_subset (map snd GBA_MOVE_ROWS_3) (map snd MOVE_MEMBERS_3 @ map snd MOVE_MEMBERS_4)"
    unfolding move_values by code_simp
  have in_4: "asc_subset (map snd GBA_MOVE_ROWS_4) (map snd MOVE_MEMBERS_4 @ map snd MOVE_MEMBERS_5)"
    unfolding move_values by code_simp
  have in_5: "asc_subset (map snd GBA_MOVE_ROWS_5) (map snd MOVE_MEMBERS_5 @ map snd MOVE_MEMBERS_6)"
    unfolding move_values by code_simp
  have in_6: "asc_subset (map snd GBA_MOVE_ROWS_6) (map snd MOVE_MEMBERS_6)"
    unfolding move_values by code_simp
  show ?thesis
    using asc_subset_sound[OF in_1] asc_subset_sound[OF in_2] asc_subset_sound[OF in_3] asc_subset_sound[OF in_4] asc_subset_sound[OF in_5] asc_subset_sound[OF in_6] unfolding GBA_MOVE_ROWS_def MOVE_MEMBERS_def by auto
qed

lemma snapshot_species: "snapshot_to_pokemon_state s = Inr q \<Longrightarrow> pk_species q = sn_species s"
  by (auto simp: snapshot_to_pokemon_state_def pokemon_post_init_def pokemon_defaults_def enum_of_value_def rbind_eq_Inr Let_def split: if_splits)

lemma snapshot_state_ok:
  assumes "snapshot_to_pokemon_state s = Inr q" "snapshot_in_range s"
  shows "mon_ok q \<and> pk_hp q = (case sn_current_hp s of Some h \<Rightarrow> h | None \<Rightarrow> pk_max_hp q) \<and> \<not> pk_fainted q"
proof -
  from assms(1) obtain nt l ms where
    sp: "enum_of_value SPECIES_MEMBERS (sn_species s) = Inr (sn_species s)"
    and l: "snapshot_level s (sn_species s) = Inr l"
    and ms: "rmap move_from_gba_id (sn_moves s) = Inr ms"
    and q: "pokemon_post_init RUN_AND_BUN None None (sn_current_hp s) None
       ((pokemon_defaults (sn_species s) nt [sn_hp_iv s, sn_atk_iv s, sn_def_iv s, sn_spa_iv s, sn_spd_iv s, sn_spe_iv s] MALE)
          \<lparr>pk_level := l, pk_exp := sn_experience s, pk_ability := resolve_ability (sn_species s) (sn_alt_ability s),
           pk_item := (case GBA_ITEM_MAP (sn_held_item s) of Some i \<Rightarrow> i | None \<Rightarrow> Item_NONE),
           pk_status := gba_status_to_engine (case sn_status s of Some s \<Rightarrow> s | None \<Rightarrow> 0),
           pk_move_ids := ms, pk_move_pp := sn_pp s\<rparr>) = Inr q"
    unfolding snapshot_to_pokemon_state_def rbind_eq_Inr by (auto simp: enum_of_value_def split: if_splits)
  have level: "level_ok l"
    using l assms(2) level_from_exp_bounds by (auto simp: snapshot_level_def snapshot_in_range_def rbind_eq_Inr split: option.splits)
  have ivs: "ivs_ok [sn_hp_iv s, sn_atk_iv s, sn_def_iv s, sn_spa_iv s, sn_spd_iv s, sn_spe_iv s]"
    using assms(2) by (simp only: snapshot_in_range_def simp_thms)
  note facts = post_init_facts[OF q, simplified pokemon_defaults_def, simplified, OF ivs level]
  have "pk_fainted q = False" using q by (auto simp: pokemon_post_init_def pokemon_defaults_def Let_def rbind_eq_Inr)
  moreover have "set ms \<subseteq> snd ` set MOVE_MEMBERS"
  proof
    fix v assume "v \<in> set ms"
    from rmap_set[OF ms this] obtain i where "move_from_gba_id i = Inr v" by blast
    then have "v = Move_NONE \<or> v \<in> snd ` set GBA_MOVE_ROWS"
      using map_of_SomeD[of "rev GBA_MOVE_ROWS" i v] by (auto simp: move_from_gba_id_def GBA_MOVE_MAP_def intro: rev_image_eqI split: if_splits option.splits)
    then show "v \<in> snd ` set MOVE_MEMBERS" using none_member gba_moves_are_moves by blast
  qed
  moreover have "sn_species s \<in> snd ` set SPECIES_MEMBERS" using sp by (simp add: enum_of_value_def split: if_splits)
  moreover have "length ms = 4" using rmap_length[OF ms] assms(2) by (simp add: snapshot_in_range_def)
  ultimately show ?thesis unfolding mon_ok_def using facts level by simp
qed

lemma io_bind_Inr: "io_bind m f c = Some (Inr y, c') \<longleftrightarrow> (\<exists>x c1. m c = Some (Inr x, c1) \<and> f x c1 = Some (Inr y, c'))"
  by (auto simp: io_bind_def split: option.splits sum.splits)

lemma io_lift_Inr: "io_lift r c = Some (Inr y, c') \<longleftrightarrow> r = Inr y \<and> c' = c"
  by (auto simp: io_lift_def io_return_def io_fail_def split: sum.splits)

lemma build_battle_state_Inr:
  "build_battle_state trainers i cap c = Some (Inr (st, cn), c') \<longleftrightarrow>
     (\<exists>t opponent snaps player. lki trainers i = Inr t \<and> rmap trainer_pokemon_to_state (tr_pokemon t) = Inr opponent
        \<and> read_party c = Some (Inr snaps, c') \<and> snapshots_to_states snaps = Inr player
        \<and> st = battle_of_teams player opponent cap \<and> cn = battle_constraints (tr_name t) (opponent @ player))"
  by (auto simp: build_battle_state_def io_bind_Inr io_lift_Inr io_return_def rbind_eq_Inr)

lemma battle_of_teams_sides [simp]:
  "sd_team (side_of (battle_of_teams pl op cap) P0) = pl" "sd_team (side_of (battle_of_teams pl op cap) P1) = op"
  "sd_active_indices (side_of (battle_of_teams pl op cap) s) = [0]" "bs_level_cap (battle_of_teams pl op cap) = Some cap"
  by (simp_all add: battle_of_teams_def mk_battle_def mk_side_def side_post_init_def side_of_def split: sid.split)

text \<open>
  C16: The battle that is built. When the levels and the individual values of the data are in their ranges, every mon of both sides is
  complete and in range: six stats between 1 and 651, the first being its maximum HP, one or two types, four moves of the enum;
  the player's mons are the party without eggs and empty slots, in order; a mon of the opponent starts at full HP, with between 1 and 64 PP for
  each move and none for an empty slot. Both sides start with their first mon, so the state is well formed exactly when no team
  is empty, and the matcher's species constraint is the list of the names the emulator shows for them.
\<close>

theorem built_battle_sound:
  assumes "build_battle_state trainers i cap c = Some (Inr (st, cn), c')"
    and "read_party c = Some (Inr snaps, c1)" "list_all snapshot_in_range snaps"
    and "list_all (\<lambda>t. list_all trainer_mon_in_range (tr_pokemon t)) trainers"
  shows "list_all mon_ok (sd_team (side_of st P0)) \<and> list_all (\<lambda>p. mon_ok p \<and> opponent_ok p) (sd_team (side_of st P1))
    \<and> map pk_species (sd_team (side_of st P0)) = map sn_species (filter (\<lambda>s. \<not> sn_is_egg s \<and> sn_has_species s) snaps)
    \<and> battle_wf st = (sd_team (side_of st P0) \<noteq> [] \<and> sd_team (side_of st P1) \<noteq> []) \<and> bs_level_cap st = Some cap
    \<and> cn_valid_pokemon cn = none_if_empty (map (\<lambda>p. upper (emulator_species_name RUN_AND_BUN (pk_species p)))
        (sd_team (side_of st P1) @ sd_team (side_of st P0)))"
proof -
  let ?kept = "filter (\<lambda>s. \<not> sn_is_egg s \<and> sn_has_species s) snaps"
  from assms(1,2) obtain t opponent player where t: "lki trainers i = Inr t" and opp: "rmap trainer_pokemon_to_state (tr_pokemon t) = Inr opponent"
    and pl: "rmap snapshot_to_pokemon_state ?kept = Inr player"
    and st: "st = battle_of_teams player opponent cap" and cn: "cn = battle_constraints (tr_name t) (opponent @ player)"
    by (auto simp: build_battle_state_Inr snapshots_to_states_def)
  have "list_all trainer_mon_in_range (tr_pokemon t)" using lki_eq_Inr_mem[OF t] assms(4) by (simp add: list_all_iff)
  then have one: "list_all (\<lambda>p. mon_ok p \<and> opponent_ok p) opponent"
    using rmap_set[OF opp] trainer_pokemon_ok by (fastforce simp: list_all_iff)
  have two: "list_all mon_ok player" using rmap_set[OF pl] snapshot_state_ok assms(3) by (fastforce simp: list_all_iff)
  have "map pk_species player = map sn_species ?kept"
  proof (rule nth_equalityI)
    show "length (map pk_species player) = length (map sn_species ?kept)" using rmap_length[OF pl] by simp
    fix k assume "k < length (map pk_species player)"
    then have k: "k < length ?kept" using rmap_length[OF pl] by simp
    from rmap_nth[OF pl k] have "pk_species (player ! k) = sn_species (?kept ! k)" by (rule snapshot_species)
    then show "map pk_species player ! k = map sn_species ?kept ! k" using k rmap_length[OF pl] by simp
  qed
  with one two show ?thesis
    by (auto simp: st cn battle_wf_def side_wf_def battle_constraints_def valid_pokemon_names_def no_constraints_def)
qed

definition sample_roster :: "trainer list" where
  "sample_roster = [(mk_trainer ''Bird Keeper Wade'' ''Route 119'')\<lparr>tr_pokemon :=
     [\<lparr>tm_name = ''Farfetchd'', tm_level = 30, tm_item = Some ''Kings Rock'', tm_moves = [''Vice Grip''], tm_nature = ''Adamant'',
       tm_ability = [], tm_ivs = [(''at'', 20)]\<rparr>]\<rparr>]"

lemma sample_roster_converts: "\<exists>ms. rmap trainer_pokemon_to_state (tr_pokemon (hd sample_roster)) = Inr ms"
proof -
  have names: "lookup_enum SPECIES_ALIASES SPECIES_MEMBERS ''Farfetchd'' = Inr 83" "lookup_enum [] NATURE_MEMBERS ''Adamant'' = Inr ADAMANT"
    "lookup_enum ITEM_ALIASES ITEM_MEMBERS ''Kings Rock'' = Inr 221" "lookup_enum MOVE_ALIASES MOVE_MEMBERS ''Vice Grip'' = Inr 11"
    by (simp_all add: lookup_enum_def SPECIES_ALIASES_def ITEM_ALIASES_def MOVE_ALIASES_def) code_simp
  have "11 \<in> snd ` set MOVE_ALIASES" "83 \<in> snd ` set SPECIES_ALIASES" by (simp_all add: MOVE_ALIASES_def SPECIES_ALIASES_def)
  then obtain n d where n: "slot_pp (0, 11) = Inr n" and d: "SPECIES_DATA 83 = Some d"
    using alias_members slot_pp_bounds[of 11 0] species_member_data[of 83] by blast
  have slots: "enumerated (pad_moves [11]) = [(0, 11), (1, 0), (2, 0), (3, 0)]" by code_simp
  have empty: "slot_pp (k, 0) = Inr 0" for k by (simp add: slot_pp_def)
  let ?p = "(pokemon_defaults 83 ADAMANT (iv_tuple [(''at'', 20)]) MALE)
    \<lparr>pk_level := 30, pk_ability := Ability_NONE, pk_item := 221, pk_move_ids := pad_moves [11], pk_move_pp := [n, 0, 0, 0]\<rparr>"
  have "trainer_pokemon_to_state (hd (tr_pokemon (hd sample_roster))) = pokemon_post_init RUN_AND_BUN None None None None ?p"
    by (simp add: trainer_pokemon_to_state_def sample_roster_def mk_trainer_def names slots n empty)
  moreover have "\<exists>q. pokemon_post_init RUN_AND_BUN None None None None ?p = Inr q"
    by (rule post_init_total[of _ d]) (simp_all add: d pokemon_defaults_def iv_tuple_def IV_KEY_ORDER_def)
  ultimately show ?thesis by (auto simp: sample_roster_def mk_trainer_def)
qed

theorem built_battle_sound_witness:
  "\<exists>st cn c'. build_battle_state sample_roster 0 60 (fresh_client\<lparr>cl_in := map Chunk [SUCCESS_PREFIX, wire_line sample_snapshot @ END_MARK]\<rparr>) = Some (Inr (st, cn), c')
     \<and> list_all mon_ok (sd_team (side_of st P0)) \<and> list_all (\<lambda>p. mon_ok p \<and> opponent_ok p) (sd_team (side_of st P1))
     \<and> map pk_species (sd_team (side_of st P0)) = [292]"
proof -
  let ?c = "fresh_client\<lparr>cl_in := map Chunk [SUCCESS_PREFIX, wire_line sample_snapshot @ END_MARK]\<rparr>"
  have "list_all snapshot_ok [sample_snapshot]" by code_simp
  moreover have "cl_open fresh_client" "\<not> cl_send_fails fresh_client" by (simp_all add: fresh_client_def)
  moreover have "[] \<notin> set [SUCCESS_PREFIX, wire_line sample_snapshot @ END_MARK]" by (simp add: SUCCESS_PREFIX_def END_MARK_def)
  ultimately have "\<exists>c1. read_party ?c = Some (Inr [sample_snapshot], c1)"
    using read_party_chunks[of "[sample_snapshot]" fresh_client "[SUCCESS_PREFIX, wire_line sample_snapshot @ END_MARK]" "[]"] by simp
  then obtain c1 where c1: "read_party ?c = Some (Inr [sample_snapshot], c1)" by blast
  have "(''SHEDINJA'', 292) \<in> set SPECIES_MEMBERS" by (simp add: SPECIES_MEMBERS_def SPECIES_MEMBERS_3_def)
  moreover have "(33, 33) \<in> set GBA_MOVE_ROWS" by (simp add: GBA_MOVE_ROWS_def GBA_MOVE_ROWS_1_def)
  ultimately have "snapshot_convertible sample_snapshot" by (force simp: snapshot_convertible_def sample_snapshot_def)
  then obtain p where p: "snapshot_to_pokemon_state sample_snapshot = Inr p" using snapshot_conversion[of sample_snapshot] by auto
  then have "snapshots_to_states [sample_snapshot] = Inr [p]" by (simp add: snapshots_to_states_def sample_snapshot_def)
  moreover have "lki sample_roster 0 = Inr (hd sample_roster)" by (simp add: lki_def sample_roster_def)
  ultimately obtain st cn where run: "build_battle_state sample_roster 0 60 ?c = Some (Inr (st, cn), c1)"
    using sample_roster_converts c1 by (auto simp: build_battle_state_Inr)
  have "list_all snapshot_in_range [sample_snapshot]" by (simp add: snapshot_in_range_def sample_snapshot_def ivs_ok_def level_ok_def)
  moreover have "list_all (\<lambda>t. list_all trainer_mon_in_range (tr_pokemon t)) sample_roster" by code_simp
  ultimately show ?thesis using built_battle_sound[OF run c1] run by (auto simp: sample_snapshot_def)
qed

text \<open>A mon with no HP left is not marked as fainted.\<close>

lemma fainted_not_marked:
  assumes "snapshot_to_pokemon_state s = Inr q" "snapshot_in_range s" "sn_current_hp s = Some 0"
  shows "pk_hp q = 0 \<and> \<not> pk_fainted q"
  using snapshot_state_ok[OF assms(1,2)] assms(3) by simp

text \<open>Before a battle has been started, the first send-out of an opponent that is read ends in an \<open>IndexError\<close>: the stub has active slots and no team.\<close>

lemma stub_send_out_raises:
  assumes "lv_state lv = make_stub_battle_state"
  shows "reset_opponent lev gd name lv = (Inl (Raised IndexError), lv)"
  using assms by (simp add: reset_opponent_def act_bind_def act_lift_def canonical_team_key_def resolve_team_mon_def faint_record_def
      make_stub_battle_state_def mk_battle_def mk_side_def side_post_init_def Let_def)

end
