(* ===== verification/Fonts.thy ===== *)
theory Fonts
  imports Matcher "HOL-Library.Sublist"
begin

text \<open>
  Template matching of text on the screen (\<open>vision/font_matcher.py\<close>). The fonts come from the files of the decompiled game, which
  are arguments: the text of \<open>charmap.txt\<close> and \<open>fonts.c\<close> and the palette indices of the font images. A bitmap is the
  list of its rows; an image is the list of its rows of RGB pixels. The regular expressions are written out.
\<close>

section \<open>Fonts\<close>

type_synonym bitmap = "bool list list"
type_synonym image = "(nat \<times> nat \<times> nat) list list"

record font_config =
  fc_widths_name :: "string option"
  fc_fixed_advance :: nat
  fc_cell_w :: nat
  fc_cell_h :: nat
  fc_ncols :: nat
  fc_row_start :: nat
  fc_row_end :: nat

definition FONT_CONFIGS :: "(string \<times> font_config) list" where
  "FONT_CONFIGS = [
     (''small'', \<lparr>fc_widths_name = Some ''gFontSmallLatinGlyphWidths'', fc_fixed_advance = 0, fc_cell_w = 16, fc_cell_h = 16, fc_ncols = 16, fc_row_start = 4, fc_row_end = 11\<rparr>),
     (''normal'', \<lparr>fc_widths_name = Some ''gFontNormalLatinGlyphWidths'', fc_fixed_advance = 0, fc_cell_w = 16, fc_cell_h = 16, fc_ncols = 16, fc_row_start = 3, fc_row_end = 14\<rparr>),
     (''narrow'', \<lparr>fc_widths_name = Some ''gFontNarrowLatinGlyphWidths'', fc_fixed_advance = 0, fc_cell_w = 16, fc_cell_h = 16, fc_ncols = 16, fc_row_start = 3, fc_row_end = 14\<rparr>),
     (''bold'', \<lparr>fc_widths_name = None, fc_fixed_advance = 8, fc_cell_w = 8, fc_cell_h = 16, fc_ncols = 16, fc_row_start = 9, fc_row_end = 15\<rparr>)]"

record font_files =
  ff_charmap :: string
  ff_fonts_c :: string
  ff_png :: "string \<Rightarrow> nat list list"
  ff_status_icons :: "nat list list"

record font =
  fo_templates :: "(string \<times> bitmap) list"
  fo_advances :: "(string \<times> nat) list"

section \<open>Parsing the files of the game\<close>

definition hex_value :: "char \<Rightarrow> nat option" where
  "hex_value c = (let n = (of_char c :: nat) in
     if 48 \<le> n \<and> n \<le> 57 then Some (n - 48)
     else if 65 \<le> n \<and> n \<le> 70 then Some (n - 55)
     else if 97 \<le> n \<and> n \<le> 102 then Some (n - 87) else None)"

definition hex_number :: "string \<Rightarrow> nat" where
  "hex_number ds = foldl (\<lambda>a c. 16 * a + (case hex_value c of Some v \<Rightarrow> v | None \<Rightarrow> 0)) 0 ds"

definition hex_digits :: "string \<Rightarrow> string" where
  "hex_digits s = takeWhile (\<lambda>c. hex_value c \<noteq> None) s"

text \<open>\<open>\s*(?:0[xX])?([0-9A-Fa-f]+)\<close>; the prefix is skipped when digits follow it.\<close>

definition hex_here :: "string \<Rightarrow> nat option" where
  "hex_here s =
     (let t = dropWhile is_space s;
          u = (case t of a # b # rest \<Rightarrow> if a = CHR ''0'' \<and> (b = CHR ''x'' \<or> b = CHR ''X'') \<and> hex_digits rest \<noteq> [] then rest else t | _ \<Rightarrow> t)
      in if hex_digits u = [] then None else Some (hex_number (hex_digits u)))"

text \<open>\<open>.*=\<close> is greedy: the last equals sign that digits follow.\<close>

fun last_assigned :: "string \<Rightarrow> nat option" where
  "last_assigned [] = None"
| "last_assigned (c # s) = (case last_assigned s of Some v \<Rightarrow> Some v | None \<Rightarrow> if c = CHR ''='' then hex_here s else None)"

definition charmap_line :: "string \<Rightarrow> (string \<times> nat) option" where
  "charmap_line line = (case line of
     q # c # r # rest \<Rightarrow> if q = CHR 0x27 \<and> r = CHR 0x27 then map_option (\<lambda>v. ([c], v)) (last_assigned rest) else None
   | _ \<Rightarrow> None)"

text \<open>\<open>splitlines\<close>, up to empty lines, which match nothing.\<close>

definition line_break :: "char \<Rightarrow> bool" where
  "line_break c = (let n = (of_char c :: nat) in (10 \<le> n \<and> n \<le> 13) \<or> (28 \<le> n \<and> n \<le> 30) \<or> n = 133)"

fun text_lines :: "string \<Rightarrow> string \<Rightarrow> string list" where
  "text_lines cur [] = [cur]"
| "text_lines cur (c # s) = (if line_break c then cur # text_lines [] s else text_lines (cur @ [c]) s)"

text \<open>\<open>^LV\s*=\s*([0-9A-Fa-f]+)\<close> at the start of a line.\<close>

definition level_entry_here :: "string \<Rightarrow> nat option" where
  "level_entry_here s =
     (if \<not> starts_with s ''LV'' then None
      else case dropWhile is_space (drop 2 s) of
        [] \<Rightarrow> None
      | c # t \<Rightarrow> let ds = hex_digits (dropWhile is_space t) in if c = CHR ''='' \<and> ds \<noteq> [] then Some (hex_number ds) else None)"

fun level_entry :: "bool \<Rightarrow> string \<Rightarrow> nat option" where
  "level_entry at_start [] = None"
| "level_entry at_start (c # s) = (case (if at_start then level_entry_here (c # s) else None) of
     Some v \<Rightarrow> Some v | None \<Rightarrow> level_entry (c = CHR 0x0A) s)"

definition parse_charmap :: "string \<Rightarrow> (string \<times> nat) list" where
  "parse_charmap file =
     (let m = foldl (\<lambda>m l. case charmap_line l of Some (k, v) \<Rightarrow> AList.update k v m | None \<Rightarrow> m) [] (text_lines [] file)
      in case level_entry True file of Some v \<Rightarrow> AList.update ''Lv'' v m | None \<Rightarrow> m)"

text \<open>\<open>\s*=\s*\{([^}]+)\}\<close> after a closing bracket.\<close>

definition braces_here :: "string \<Rightarrow> string option" where
  "braces_here s = (case dropWhile is_space s of
     [] \<Rightarrow> None
   | e # t \<Rightarrow> if e \<noteq> CHR ''='' then None else (case dropWhile is_space t of
       [] \<Rightarrow> None
     | b # u \<Rightarrow> let body = takeWhile (\<lambda>c. c \<noteq> CHR ''}'') u in
         if b = CHR ''{'' \<and> body \<noteq> [] \<and> CHR ''}'' \<in> set u then Some body else None))"

fun after_bracket :: "string \<Rightarrow> string option" where
  "after_bracket [] = None"
| "after_bracket (c # s) = (case (if c = CHR '']'' then braces_here s else None) of Some b \<Rightarrow> Some b | None \<Rightarrow> after_bracket s)"

fun find_array :: "string \<Rightarrow> string \<Rightarrow> string option" where
  "find_array name [] = None"
| "find_array name (c # s) = (case (if starts_with (c # s) (name @ ''['') then after_bracket (drop (Suc (length name)) (c # s)) else None) of
     Some b \<Rightarrow> Some b | None \<Rightarrow> find_array name s)"

definition digits_value :: "string \<Rightarrow> nat" where
  "digits_value ds = foldl (\<lambda>a c. 10 * a + (of_char c - 48)) 0 ds"

text \<open>\<open>re.findall(r"\d+", s)\<close>.\<close>

fun digit_runs :: "string \<Rightarrow> string \<Rightarrow> nat list" where
  "digit_runs cur [] = (if cur = [] then [] else [digits_value cur])"
| "digit_runs cur (c # s) = (if is_digit c then digit_runs (cur @ [c]) s
     else (if cur = [] then [] else [digits_value cur]) @ digit_runs [] s)"

definition parse_glyph_widths :: "string \<Rightarrow> string \<Rightarrow> nat list res" where
  "parse_glyph_widths file name = (case find_array name file of Some b \<Rightarrow> Inr (digit_runs [] b) | None \<Rightarrow> Inl ValueError)"

section \<open>Templates\<close>

definition extract_template :: "nat list list \<Rightarrow> nat \<Rightarrow> nat \<Rightarrow> font_config \<Rightarrow> bitmap" where
  "extract_template pixels glyph_idx advance cfg =
     (let x0 = (glyph_idx mod fc_ncols cfg) * fc_cell_w cfg; y0 = (glyph_idx div fc_ncols cfg) * fc_cell_h cfg in
      map (\<lambda>row. map (\<lambda>v. v = 1) (take (advance - 1) (drop x0 row)))
        (take (fc_row_end cfg - fc_row_start cfg) (drop (y0 + fc_row_start cfg) pixels)))"

definition advance_for :: "font_config \<Rightarrow> nat list \<Rightarrow> nat \<Rightarrow> nat option" where
  "advance_for cfg widths idx = (case fc_widths_name cfg of
     Some _ \<Rightarrow> if idx < length widths \<and> widths ! idx \<ge> 2 then Some (widths ! idx) else None
   | None \<Rightarrow> Some (fc_fixed_advance cfg))"

definition load_font :: "font_files \<Rightarrow> string \<Rightarrow> font res" where
  "load_font files name = (case map_of FONT_CONFIGS name of
     None \<Rightarrow> Inl KeyError
   | Some cfg \<Rightarrow>
       rbind (case fc_widths_name cfg of Some n \<Rightarrow> parse_glyph_widths (ff_fonts_c files) n | None \<Rightarrow> Inr []) (\<lambda>widths.
       let entries = concat (map (\<lambda>(c, idx). case advance_for cfg widths idx of None \<Rightarrow> [] | Some adv \<Rightarrow> [(c, idx, adv)])
                       (parse_charmap (ff_charmap files)))
       in Inr \<lparr>fo_templates = map (\<lambda>(c, idx, adv). (c, extract_template (ff_png files name) idx adv cfg)) entries,
               fo_advances = map (\<lambda>(c, idx, adv). (c, adv)) entries\<rparr>))"

definition STATUS_SPRITE_ROWS :: "(string \<times> nat) list" where
  "STATUS_SPRITE_ROWS = [(''PSN'', 0), (''PAR'', 8), (''SLP'', 16), (''FRZ'', 24), (''BRN'', 32), (''FNT'', 48)]"

definition load_status_sprites :: "font_files \<Rightarrow> (string \<times> bitmap) list" where
  "load_status_sprites files = map (\<lambda>(name, y0). (name, map (\<lambda>row. map (\<lambda>v. v = 2) (take 32 row)) (take 8 (drop y0 (ff_status_icons files))))) STATUS_SPRITE_ROWS"

section \<open>Scanning\<close>

definition is_text :: "nat \<times> nat \<times> nat \<Rightarrow> bool" where
  "is_text p \<longleftrightarrow> p = (255, 255, 255) \<or> p = (74, 74, 74) \<or> p = (66, 66, 66)"

definition binarize :: "image \<Rightarrow> bitmap" where
  "binarize img = map (map is_text) img"

record glyph =
  gl_text :: string
  gl_tmpl :: bitmap
  gl_adv :: nat

definition bm_width :: "bitmap \<Rightarrow> nat" where
  "bm_width b = (case b of [] \<Rightarrow> 0 | row # _ \<Rightarrow> length row)"

definition ink :: "bitmap \<Rightarrow> nat" where
  "ink b = sum_list (map (\<lambda>row. length (filter id row)) b)"

text \<open>The ink of column \<open>x\<close> over the first \<open>h\<close> rows.\<close>

definition column_ink :: "nat \<Rightarrow> bitmap \<Rightarrow> nat \<Rightarrow> nat" where
  "column_ink h b x = length (filter (\<lambda>row. row ! x) (take h b))"

definition glyph_of :: "font \<Rightarrow> string \<Rightarrow> glyph list" where
  "glyph_of f c = (if c = '' '' then [] else case (map_of (fo_templates f) c, map_of (fo_advances f) c) of
     (Some tmpl, Some adv) \<Rightarrow> if ink tmpl = 0 then [] else [\<lparr>gl_text = c, gl_tmpl = tmpl, gl_adv = adv\<rparr>]
   | _ \<Rightarrow> [])"

definition candidate_glyphs :: "font list \<Rightarrow> string list \<Rightarrow> glyph list" where
  "candidate_glyphs fonts chars = concat (map (\<lambda>f. concat (map (glyph_of f) chars)) fonts)"

definition space_width :: "font list \<Rightarrow> string list \<Rightarrow> nat option" where
  "space_width fonts chars = (if '' '' \<in> set chars
     then (case List.find (\<lambda>f. map_of (fo_advances f) '' '' \<noteq> None) fonts of None \<Rightarrow> None | Some f \<Rightarrow> map_of (fo_advances f) '' '')
     else None)"

text \<open>The candidate fits, its first column has as much ink as the bits there, and all its pixels agree.\<close>

definition glyph_at :: "bitmap \<Rightarrow> nat \<Rightarrow> nat \<Rightarrow> glyph \<Rightarrow> bool" where
  "glyph_at bits w x g \<longleftrightarrow> x + bm_width (gl_tmpl g) \<le> w
     \<and> column_ink (length (gl_tmpl g)) bits x = column_ink (length (gl_tmpl g)) (gl_tmpl g) 0
     \<and> map (\<lambda>row. take (bm_width (gl_tmpl g)) (drop x row)) (take (length (gl_tmpl g)) bits) = gl_tmpl g"

definition needs_space :: "nat option \<Rightarrow> string list \<Rightarrow> nat \<Rightarrow> bool" where
  "needs_space space_w out gap = (case space_w of None \<Rightarrow> False | Some n \<Rightarrow> out \<noteq> [] \<and> n \<le> gap)"

definition gap_reached :: "nat option \<Rightarrow> nat \<Rightarrow> bool" where
  "gap_reached max_gap gap = (case max_gap of None \<Rightarrow> False | Some m \<Rightarrow> m \<le> gap)"

text \<open>The loop over the columns; \<open>None\<close> is a scan that does not end.\<close>

partial_function (option) scan :: "glyph list \<Rightarrow> nat option \<Rightarrow> nat option \<Rightarrow> bitmap \<Rightarrow> nat \<Rightarrow> nat \<Rightarrow> nat \<Rightarrow> string list \<Rightarrow> string list option" where
  "scan cands space_w max_gap bits w x gap out =
     (if w \<le> x \<or> gap_reached max_gap gap then Some out
      else case List.find (glyph_at bits w x) cands of
        Some g \<Rightarrow> scan cands space_w max_gap bits w (x + gl_adv g) 0 ((if needs_space space_w out gap then out @ ['' ''] else out) @ [gl_text g])
      | None \<Rightarrow> scan cands space_w max_gap bits w (x + 1) (gap + 1) out)"

declare scan.simps [code]

definition match_text :: "font list \<Rightarrow> string list \<Rightarrow> nat option \<Rightarrow> image \<Rightarrow> string option" where
  "match_text fonts chars max_gap img =
     (let cands = candidate_glyphs fonts chars; binary = binarize img; h = foldl max 0 (map (\<lambda>g. length (gl_tmpl g)) cands) in
      if cands = [] \<or> length binary < h then Some []
      else let bits = take h binary in map_option concat (scan cands (space_width fonts chars) max_gap bits (bm_width bits) 0 0 []))"

definition singletons :: "string \<Rightarrow> string list" where
  "singletons s = map (\<lambda>c. [c]) s"

text \<open>A sprite matches when all its pixels are set in the crop, one pixel from the left edge.\<close>

definition covers :: "bitmap \<Rightarrow> bitmap \<Rightarrow> bool" where
  "covers crop tmpl \<longleftrightarrow> list_all2 (\<lambda>r q. list_all2 (\<lambda>a b. b \<longrightarrow> a) r q) crop tmpl"

definition match_status_region :: "font_files \<Rightarrow> font \<Rightarrow> image \<Rightarrow> string option" where
  "match_status_region files small img =
     (let binary = binarize img; crop = map (\<lambda>row. take 32 (drop 1 row)) (take 8 binary) in
      case (if 33 \<le> bm_width binary \<and> 8 \<le> length binary
            then List.find (\<lambda>x. ink (snd x) \<noteq> 0 \<and> covers crop (snd x)) (load_status_sprites files) else None) of
        Some x \<Rightarrow> Some (fst x)
      | None \<Rightarrow> match_text [small] (''Lv'' # singletons ''0123456789'') None img)"

section \<open>The scan ends\<close>

lemma scan_terminates:
  assumes "list_all (\<lambda>g. 0 < gl_adv g) cands"
  shows "\<exists>r. scan cands space_w max_gap bits w x gap out = Some r"
proof (induction "w - x" arbitrary: x gap out rule: less_induct)
  case less
  show ?case
  proof (cases "w \<le> x \<or> gap_reached max_gap gap")
    case True
    then show ?thesis by (subst scan.simps) simp
  next
    case False
    show ?thesis
    proof (cases "List.find (glyph_at bits w x) cands")
      case None
      then show ?thesis using False less[of "x + 1"] by (subst scan.simps) auto
    next
      case (Some g)
      then have "0 < gl_adv g" using assms by (auto simp: find_Some_iff list_all_length)
      then have "w - (x + gl_adv g) < w - x" using False by linarith
      from less[OF this] show ?thesis using Some False by (subst scan.simps) auto
    qed
  qed
qed

lemma loaded_advances:
  assumes "load_font files name = Inr f" "(c, adv) \<in> set (fo_advances f)"
  shows "2 \<le> adv"
proof -
  from assms(1) obtain cfg where cfg: "map_of FONT_CONFIGS name = Some cfg" by (auto simp: load_font_def split: option.splits)
  have "2 \<le> fc_fixed_advance cfg \<or> fc_widths_name cfg \<noteq> None" using map_of_SomeD[OF cfg] by (auto simp: FONT_CONFIGS_def)
  then have "advance_for cfg widths idx = Some v \<Longrightarrow> 2 \<le> v" for widths idx v by (auto simp: advance_for_def split: option.splits if_splits)
  then show ?thesis using assms cfg by (fastforce simp: load_font_def rbind_eq_Inr Let_def split: option.splits)
qed

lemma glyph_of_adv: "g \<in> set (glyph_of f c) \<Longrightarrow> map_of (fo_advances f) c = Some (gl_adv g)"
  by (auto simp: glyph_of_def split: if_splits option.splits)

text \<open>A font of two letters and a space, for examples.\<close>

definition cell_pixels :: "string \<Rightarrow> nat list" where
  "cell_pixels s = map (\<lambda>c. if c = CHR ''#'' then 1 else 0) s"

definition demo_files :: font_files where
  "demo_files = \<lparr>
     ff_charmap = '' '' @ [CHR 0x0A] @ [CHR 0x27] @ '' '' @ [CHR 0x27] @ '' = 00'' @ [CHR 0x0A] @ [CHR 0x27] @ ''A'' @ [CHR 0x27] @ ''  = 01'' @ [CHR 0x0A]
       @ [CHR 0x27] @ ''B'' @ [CHR 0x27] @ '' = 02'' @ [CHR 0x0A],
     ff_fonts_c = ''const u8 gFontSmallLatinGlyphWidths[] = { 3, 4, 4 }; u8 gFontNormalLatinGlyphWidths[3] = {3, 5, 5}; u8 gFontNarrowLatinGlyphWidths[3] = {3};'',
     ff_png = (\<lambda>_. replicate 4 [] @ map cell_pixels [
       ''                 #              #                '',
       ''                # #             ##               '',
       ''                # #             # #              '',
       ''                ###             ##               '',
       ''                # #             # #              '',
       ''                # #             # #              '',
       ''                # #             ##               ''] @ replicate 5 []),
     ff_status_icons = []\<rparr>"

definition bits_of :: "string list \<Rightarrow> bitmap" where
  "bits_of rows = map (map (\<lambda>c. c = CHR ''#'')) rows"

definition demo_A :: glyph where
  "demo_A = \<lparr>gl_text = ''A'', gl_tmpl = bits_of ['' # '', ''# #'', ''# #'', ''###'', ''# #'', ''# #'', ''# #''], gl_adv = 4\<rparr>"

definition demo_B :: glyph where
  "demo_B = \<lparr>gl_text = ''B'', gl_tmpl = bits_of [''#  '', ''## '', ''# #'', ''## '', ''# #'', ''# #'', ''## ''], gl_adv = 4\<rparr>"

definition demo_font :: font where
  "demo_font = projr (load_font demo_files ''small'')"

definition painted :: "bitmap \<Rightarrow> image" where
  "painted b = map (map (\<lambda>v. if v then (255, 255, 255) else (40, 40, 40))) b"

definition demo_items :: "glyph option list" where
  "demo_items = [Some demo_A, None, Some demo_B, Some demo_A]"

lemma demo_loaded: "load_font demo_files ''small'' = Inr demo_font"
proof -
  have "isl (load_font demo_files ''small'') = False" by code_simp
  then show ?thesis by (cases "load_font demo_files ''small''") (simp_all add: demo_font_def)
qed

text \<open>For the fonts that the game's files give, whatever is on the image, every glyph advances the scan: it returns a text.\<close>

lemma match_text_total:
  assumes "list_all (\<lambda>f. \<exists>files name. load_font files name = Inr f) fonts"
  shows "\<exists>s. match_text fonts chars max_gap img = Some s"
proof -
  have "list_all (\<lambda>g. 0 < gl_adv g) (candidate_glyphs fonts chars)"
    using assms loaded_advances map_of_SomeD[OF glyph_of_adv] by (fastforce simp: candidate_glyphs_def list_all_iff)
  from scan_terminates[OF this] show ?thesis by (auto simp: match_text_def Let_def)
qed

section \<open>Reading back what was drawn\<close>

text \<open>Templates as the fonts have them: of one height and rectangular, with ink in the first column, and one column narrower than the advance.\<close>

definition glyph_ok :: "nat \<Rightarrow> glyph \<Rightarrow> bool" where
  "glyph_ok h g \<longleftrightarrow> length (gl_tmpl g) = h \<and> 0 < bm_width (gl_tmpl g) \<and> gl_adv g = Suc (bm_width (gl_tmpl g))
     \<and> list_all (\<lambda>row. length row = bm_width (gl_tmpl g)) (gl_tmpl g) \<and> list_ex (\<lambda>row. row ! 0) (gl_tmpl g)"

text \<open>Some row tells the template from the drawn glyph with the blank column that follows it.\<close>

definition told_apart :: "glyph \<Rightarrow> glyph \<Rightarrow> bool" where
  "told_apart a g \<longleftrightarrow> list_ex (\<lambda>(r, q). \<not> prefix r (q @ [False]) \<and> \<not> prefix (q @ [False]) r) (zip (gl_tmpl a) (gl_tmpl g))"

definition glyphs_ok :: "nat \<Rightarrow> glyph list \<Rightarrow> bool" where
  "glyphs_ok h gs \<longleftrightarrow> list_all (glyph_ok h) gs \<and> sorted_wrt told_apart gs"

text \<open>A line of glyphs and spaces, drawn row by row.\<close>

definition cell_row :: "nat \<Rightarrow> nat \<Rightarrow> glyph option \<Rightarrow> bool list" where
  "cell_row sp i it = (case it of None \<Rightarrow> replicate sp False | Some g \<Rightarrow> gl_tmpl g ! i @ [False])"

definition drawn_row :: "nat \<Rightarrow> glyph option list \<Rightarrow> nat \<Rightarrow> bool list" where
  "drawn_row sp items i = concat (map (cell_row sp i) items)"

definition drawn :: "nat \<Rightarrow> nat \<Rightarrow> nat \<Rightarrow> nat \<Rightarrow> glyph option list \<Rightarrow> bitmap" where
  "drawn h sp l m items = map (\<lambda>i. replicate l False @ drawn_row sp items i @ replicate m False) [0..<h]"

definition text_of :: "glyph option list \<Rightarrow> string" where
  "text_of items = concat (map (\<lambda>it. case it of None \<Rightarrow> '' '' | Some g \<Rightarrow> gl_text g) items)"

text \<open>Spaces only between glyphs, and one at a time.\<close>

fun tidy :: "glyph option list \<Rightarrow> bool" where
  "tidy [] = True"
| "tidy [it] = (it \<noteq> None)"
| "tidy (None # its) = False"
| "tidy (Some g # None # its) = (its \<noteq> [] \<and> tidy its)"
| "tidy (Some g # Some k # its) = tidy (Some k # its)"

text \<open>The check of the first column only saves work: it never rejects a match.\<close>

lemma column_check_exact:
  assumes "glyph_ok h g"
  shows "glyph_at bits w x g \<longleftrightarrow> x + bm_width (gl_tmpl g) \<le> w
    \<and> map (\<lambda>row. take (bm_width (gl_tmpl g)) (drop x row)) (take h bits) = gl_tmpl g"
proof -
  let ?n = "bm_width (gl_tmpl g)"
  have len: "length (gl_tmpl g) = h" "0 < ?n" using assms by (simp_all add: glyph_ok_def)
  have "column_ink h bits x = column_ink h (gl_tmpl g) 0" if eq: "map (\<lambda>row. take ?n (drop x row)) (take h bits) = gl_tmpl g"
  proof -
    have "take ?n (drop x row) ! 0 = row ! x" if "row \<in> set (take h bits)" for row
    proof -
      have "take ?n (drop x row) \<in> set (gl_tmpl g)" using that by (subst eq[symmetric]) simp
      then have "length (take ?n (drop x row)) = ?n" using assms by (auto simp: glyph_ok_def list_all_iff)
      then show ?thesis using len(2) by (cases "x < length row") auto
    qed
    then have "filter (\<lambda>row. take ?n (drop x row) ! 0) (take h bits) = filter (\<lambda>row. row ! x) (take h bits)" by (intro filter_cong) auto
    moreover have "take h (gl_tmpl g) = map (\<lambda>row. take ?n (drop x row)) (take h bits)" using eq len(1) by simp
    ultimately show ?thesis by (simp add: column_ink_def filter_map comp_def)
  qed
  then show ?thesis using len by (auto simp: glyph_at_def)
qed

text \<open>What is left of the rows from column \<open>x\<close> on.\<close>

definition rest_is :: "nat \<Rightarrow> nat \<Rightarrow> bitmap \<Rightarrow> nat \<Rightarrow> (nat \<Rightarrow> bool list) \<Rightarrow> bool" where
  "rest_is h w bits x f \<longleftrightarrow> length bits = h \<and> 0 < h \<and> x \<le> w \<and> (\<forall>i<h. length (bits ! i) = w \<and> drop x (bits ! i) = f i)"

lemma rest_is_drop:
  assumes "rest_is h w bits x (\<lambda>i. u i @ f i)" "\<And>i. i < h \<Longrightarrow> length (u i) = n"
  shows "rest_is h w bits (x + n) f \<and> x + n \<le> w"
proof -
  have "drop (x + n) (bits ! i) = f i" if "i < h" for i
  proof -
    have "drop n (drop x (bits ! i)) = f i" using assms that by (simp add: rest_is_def)
    then show ?thesis by (simp add: add.commute)
  qed
  moreover have "x + n \<le> w"
  proof -
    have "0 < h" "length (drop x (bits ! 0)) = n + length (f 0)" "length (bits ! 0) = w" "x \<le> w" using assms by (auto simp: rest_is_def)
    then show ?thesis by simp
  qed
  ultimately show ?thesis using assms(1) by (simp add: rest_is_def)
qed

lemma glyph_ok_row: "glyph_ok h g \<Longrightarrow> i < h \<Longrightarrow> length (gl_tmpl g ! i) = bm_width (gl_tmpl g)"
  by (auto simp: glyph_ok_def list_all_length)

lemma glyph_at_rows:
  assumes "glyph_ok h g" "rest_is h w bits x f"
  shows "glyph_at bits w x g \<longleftrightarrow> x + bm_width (gl_tmpl g) \<le> w \<and> (\<forall>i<h. take (bm_width (gl_tmpl g)) (f i) = gl_tmpl g ! i)"
  using assms by (auto simp: column_check_exact[OF assms(1)] rest_is_def glyph_ok_def list_eq_iff_nth_eq[of "map _ _"])

lemma blank_column:
  assumes "glyph_ok h g" "rest_is h w bits x (\<lambda>i. False # f i)"
  shows "\<not> glyph_at bits w x g"
proof
  assume "glyph_at bits w x g"
  then have rows: "\<forall>i<h. take (bm_width (gl_tmpl g)) (False # f i) = gl_tmpl g ! i" using glyph_at_rows[OF assms] by simp
  from assms(1) obtain i where "i < h" "gl_tmpl g ! i ! 0" "0 < bm_width (gl_tmpl g)" by (auto simp: glyph_ok_def list_ex_length)
  then show False using rows by (metis nth_Cons_0 nth_take)
qed

lemma not_mistaken:
  assumes "glyph_ok h a" "glyph_ok h g" "told_apart a g" "rest_is h w bits x (\<lambda>i. gl_tmpl g ! i @ False # f i)"
  shows "\<not> glyph_at bits w x a"
proof
  assume "glyph_at bits w x a"
  then have rows: "\<forall>i<h. take (bm_width (gl_tmpl a)) (gl_tmpl g ! i @ False # f i) = gl_tmpl a ! i"
    using glyph_at_rows[OF assms(1,4)] by simp
  from assms(1-3) obtain i where i: "i < h" "\<not> prefix (gl_tmpl a ! i) (gl_tmpl g ! i @ [False])" "\<not> prefix (gl_tmpl g ! i @ [False]) (gl_tmpl a ! i)"
    by (auto simp: told_apart_def glyph_ok_def list_ex_length)
  have "prefix (gl_tmpl a ! i) (gl_tmpl g ! i @ False # f i)" using rows i(1) take_is_prefix by metis
  moreover have "prefix (gl_tmpl g ! i @ [False]) (gl_tmpl g ! i @ False # f i)" by simp
  ultimately show False using i(2,3) prefix_same_cases by blast
qed

lemma find_skip: "List.find P us = None \<Longrightarrow> List.find P (us @ vs) = List.find P vs"
  by (induction us) (auto split: if_splits)

lemma glyph_found:
  assumes "glyphs_ok h cands" "g \<in> set cands" "rest_is h w bits x (\<lambda>i. gl_tmpl g ! i @ False # f i)"
  shows "List.find (glyph_at bits w x) cands = Some g"
proof -
  from assms(2) obtain us vs where cands: "cands = us @ g # vs" by (meson split_list)
  have ok: "glyph_ok h g" "\<And>a. a \<in> set us \<Longrightarrow> glyph_ok h a \<and> told_apart a g"
    using assms(1) by (auto simp: cands glyphs_ok_def list_all_iff sorted_wrt_append)
  have "x + bm_width (gl_tmpl g) \<le> w" using rest_is_drop[OF assms(3)] glyph_ok_row[OF ok(1)] by blast
  then have "glyph_at bits w x g" using glyph_at_rows[OF ok(1) assms(3)] glyph_ok_row[OF ok(1)] by simp
  moreover have "List.find (glyph_at bits w x) us = None" using not_mistaken[OF _ ok(1) _ assms(3)] ok(2) by (auto simp: find_None_iff)
  ultimately show ?thesis by (simp add: cands find_skip)
qed

lemma scan_glyph:
  assumes "glyphs_ok h cands" "g \<in> set cands" "rest_is h w bits x (\<lambda>i. gl_tmpl g ! i @ False # f i)"
  shows "rest_is h w bits (x + gl_adv g) f"
    and "scan cands sw None bits w x gap out
       = scan cands sw None bits w (x + gl_adv g) 0 ((if needs_space sw out gap then out @ ['' ''] else out) @ [gl_text g])"
proof -
  have ok: "glyph_ok h g" using assms(1,2) by (auto simp: glyphs_ok_def list_all_iff)
  have "rest_is h w bits x (\<lambda>i. (gl_tmpl g ! i @ [False]) @ f i)" using assms(3) by simp
  from rest_is_drop[OF this, of "gl_adv g"] have step: "rest_is h w bits (x + gl_adv g) f" "x + gl_adv g \<le> w" "0 < gl_adv g"
    using glyph_ok_row[OF ok] ok by (auto simp: glyph_ok_def)
  show "rest_is h w bits (x + gl_adv g) f" by (rule step(1))
  show "scan cands sw None bits w x gap out
       = scan cands sw None bits w (x + gl_adv g) 0 ((if needs_space sw out gap then out @ ['' ''] else out) @ [gl_text g])"
    using step glyph_found[OF assms] by (subst scan.simps) (simp add: gap_reached_def)
qed

lemma scan_blanks:
  assumes "glyphs_ok h cands" "rest_is h w bits x (\<lambda>i. replicate n False @ f i)"
  shows "rest_is h w bits (x + n) f \<and> scan cands sw None bits w x gap out = scan cands sw None bits w (x + n) (gap + n) out"
  using assms(2)
proof (induction n arbitrary: x gap)
  case 0
  then show ?case by simp
next
  case (Suc n)
  have rest: "rest_is h w bits x (\<lambda>i. False # replicate n False @ f i)" using Suc.prems by simp
  then have step: "rest_is h w bits (x + 1) (\<lambda>i. replicate n False @ f i)" "x + 1 \<le> w"
    using rest_is_drop[of h w bits x "\<lambda>_. [False]" _ 1] by auto
  have "List.find (glyph_at bits w x) cands = None"
    using assms(1) blank_column[OF _ rest] by (auto simp: find_None_iff glyphs_ok_def list_all_iff)
  then have "scan cands sw None bits w x gap out = scan cands sw None bits w (x + 1) (gap + 1) out"
    using step by (subst scan.simps) (simp add: gap_reached_def)
  then show ?case using Suc.IH[OF step(1)] by simp
qed

lemma scan_end:
  assumes "glyphs_ok h cands" "rest_is h w bits x (\<lambda>i. replicate m False)"
  shows "scan cands sw None bits w x gap out = Some out"
proof -
  have "rest_is h w bits (x + m) (\<lambda>i. [])" "scan cands sw None bits w x gap out = scan cands sw None bits w (x + m) (gap + m) out"
    using scan_blanks[OF assms(1), of w bits x m "\<lambda>i. []"] assms(2) by auto
  moreover from this(1) have "w \<le> x + m" by (auto simp: rest_is_def)
  ultimately show ?thesis by (subst (asm) (2) scan.simps) simp
qed

definition tokens :: "glyph option list \<Rightarrow> string list" where
  "tokens items = map (\<lambda>it. case it of None \<Rightarrow> '' '' | Some g \<Rightarrow> gl_text g) items"

lemma scan_reads_items:
  assumes "glyphs_ok h cands" "(sw = Some sp \<and> 0 < sp) \<or> (sw = None \<and> None \<notin> set items)"
    and "tidy items" "Some ` set cands \<union> {None} \<supseteq> set items"
    and "rest_is h w bits x (\<lambda>i. drawn_row sp items i @ replicate m False)"
  shows "scan cands sw None bits w x gap out = Some (out @ (if items \<noteq> [] \<and> needs_space sw out gap then ['' ''] else []) @ tokens items)"
  using assms(2-)
proof (induction items arbitrary: x gap out rule: tidy.induct)
  case 1
  then show ?case using scan_end[OF assms(1)] by (simp add: drawn_row_def tokens_def)
next
  case (2 it)
  then obtain g where it: "it = Some g" "g \<in> set cands" by auto
  have "rest_is h w bits x (\<lambda>i. gl_tmpl g ! i @ False # replicate m False)" using 2 it by (simp add: drawn_row_def cell_row_def)
  note step = scan_glyph[OF assms(1) it(2) this]
  show ?case by (simp add: step(2) scan_end[OF assms(1) step(1)] it tokens_def)
next
  case (3 v va)
  then show ?case by simp
next
  case (4 g its)
  then have g: "g \<in> set cands" and sw: "sw = Some sp" by auto
  have "rest_is h w bits x (\<lambda>i. gl_tmpl g ! i @ False # replicate sp False @ drawn_row sp its i @ replicate m False)"
    using 4 by (simp add: drawn_row_def cell_row_def)
  note step = scan_glyph[OF assms(1) g this]
  note blanks = scan_blanks[OF assms(1) step(1)]
  show ?case using 4 blanks by (simp add: step(2) "4.IH" sw tokens_def needs_space_def)
next
  case (5 g k its)
  then have g: "g \<in> set cands" by auto
  have "rest_is h w bits x (\<lambda>i. gl_tmpl g ! i @ False # drawn_row sp (Some k # its) i @ replicate m False)"
    using 5 by (simp add: drawn_row_def cell_row_def)
  note step = scan_glyph[OF assms(1) g this]
  show ?case using 5 step(1) by (auto simp: step(2) "5.IH" tokens_def needs_space_def)
qed

lemma tallest:
  assumes "list_all (\<lambda>g. length (gl_tmpl g) = h) cands" "cands \<noteq> []"
  shows "foldl max 0 (map (\<lambda>g. length (gl_tmpl g)) cands) = h"
proof -
  have same: "foldl max k (map (\<lambda>g. length (gl_tmpl g)) gs) = h" if "k = h" "list_all (\<lambda>g. length (gl_tmpl g) = h) gs" for k gs
    using that by (induction gs) auto
  from assms show ?thesis using same[of h "tl cands"] by (cases cands) auto
qed

lemma drawn_length: "i < h \<Longrightarrow> list_all (\<lambda>it. case it of None \<Rightarrow> True | Some g \<Rightarrow> glyph_ok h g) items
  \<Longrightarrow> length (drawn_row sp items i) = sum_list (map (\<lambda>it. case it of None \<Rightarrow> sp | Some g \<Rightarrow> Suc (bm_width (gl_tmpl g))) items)"
  by (induction items) (auto simp: drawn_row_def cell_row_def glyph_ok_row split: option.splits)

lemma drawn_rest:
  assumes "glyphs_ok h cands" "0 < h" "Some ` set cands \<union> {None} \<supseteq> set items"
  shows "rest_is h (bm_width (drawn h sp l m items)) (drawn h sp l m items) 0 (\<lambda>i. replicate l False @ drawn_row sp items i @ replicate m False)"
proof -
  have "list_all (\<lambda>it. case it of None \<Rightarrow> True | Some g \<Rightarrow> glyph_ok h g) items"
    using assms(1,3) by (auto simp: glyphs_ok_def list_all_iff split: option.splits)
  then obtain n where n: "\<And>i. i < h \<Longrightarrow> length (drawn_row sp items i) = n" using drawn_length by blast
  have "drawn h sp l m items = (replicate l False @ drawn_row sp items 0 @ replicate m False)
      # map (\<lambda>i. replicate l False @ drawn_row sp items i @ replicate m False) [Suc 0..<h]"
    using assms(2) by (simp add: drawn_def upt_conv_Cons)
  then have "bm_width (drawn h sp l m items) = l + n + m" using n[OF assms(2)] by (simp add: bm_width_def)
  then show ?thesis using assms(2) n by (simp add: rest_is_def drawn_def)
qed

text \<open>
  C14: Text recognition reads back what was drawn: when the glyphs of the fonts are rectangular, begin with ink and can be told apart by
  some row, an image that shows glyphs one blank column apart, single spaces of the font's width between them, and any number
  of blank columns on both sides is read as exactly the text that was drawn.
\<close>

theorem match_text_reads_back:
  assumes "candidate_glyphs fonts chars = cands" "glyphs_ok h cands" "cands \<noteq> []"
    and "set items \<subseteq> Some ` set cands \<union> {None}" "tidy items"
    and "(space_width fonts chars = Some sp \<and> 0 < sp) \<or> (space_width fonts chars = None \<and> None \<notin> set items)"
    and "take h (binarize img) = drawn h sp l m items"
  shows "match_text fonts chars None img = Some (text_of items)"
proof -
  let ?bits = "drawn h sp l m items"
  have "list_all (glyph_ok h) cands" using assms(2) by (simp add: glyphs_ok_def)
  then have h: "0 < h" "foldl max 0 (map (\<lambda>g. length (gl_tmpl g)) cands) = h"
    using assms(3) tallest[OF _ assms(3)] by (cases cands; auto simp: list_all_iff glyph_ok_def list_ex_length)+
  note rest = drawn_rest[OF assms(2) h(1) assms(4), of sp l m]
  note blanks = scan_blanks[OF assms(2) rest]
  then have at: "rest_is h (bm_width ?bits) ?bits l (\<lambda>i. drawn_row sp items i @ replicate m False)" by simp
  have "scan cands (space_width fonts chars) None ?bits (bm_width ?bits) 0 0 [] = Some (tokens items)"
    using blanks scan_reads_items[OF assms(2,6,5,4) at] by (simp add: needs_space_def split: option.splits)
  moreover have "\<not> length (binarize img) < h" using arg_cong[OF assms(7), of length] by (simp add: drawn_def)
  ultimately show ?thesis using assms(1,3,7) h(2) by (simp add: match_text_def Let_def tokens_def text_of_def)
qed

theorem match_text_reads_back_witness:
  "match_text [demo_font] (singletons ''A B'') None (painted (drawn 7 3 2 5 demo_items)) = Some ''A BA''"
proof -
  have a: "candidate_glyphs [demo_font] (singletons ''A B'') = [demo_A, demo_B]" by code_simp
  have b: "glyphs_ok 7 [demo_A, demo_B]" by code_simp
  have c: "set demo_items \<subseteq> Some ` set [demo_A, demo_B] \<union> {None}" by (simp add: demo_items_def)
  have d: "tidy demo_items" by code_simp
  have e: "space_width [demo_font] (singletons ''A B'') = Some 3" by code_simp
  have f: "take 7 (binarize (painted (drawn 7 3 2 5 demo_items))) = drawn 7 3 2 5 demo_items" by code_simp
  have "text_of demo_items = ''A BA''" by code_simp
  then show ?thesis using match_text_reads_back[OF a b _ c d _ f] e by simp
qed

end
