(* ===== verification/BattleInput.thy ===== *)
theory BattleInput
  imports LiveLoop Wire
begin

text \<open>
  Battle input (\<open>emulator/battle_input.py\<close>): the key presses for a move and for a member of the party, the matching of species
  names with the names read from the party screen, and the handler of a menu. The waits between presses are not modelled.
  Reading the party screen is an argument, a computation on the socket that gives the members it saw. The handler returns
  the name of the pending switch; an exception ends the program, so what it leaves pending then does not matter.
\<close>

section \<open>Keys\<close>

definition press :: "string \<Rightarrow> unit io" where
  "press key = io_bind (add_key key) (\<lambda>_. clear_key key)"

definition press_held :: "string \<Rightarrow> unit io" where
  "press_held key = io_bind (add_key key) (\<lambda>_. clear_key key)"

fun io_times :: "nat \<Rightarrow> unit io \<Rightarrow> unit io" where
  "io_times 0 m = io_return ()"
| "io_times (Suc n) m = io_bind m (\<lambda>_. io_times n m)"

definition send_move_input :: "nat \<Rightarrow> unit io" where
  "send_move_input move_slot =
     io_bind (press ''a'') (\<lambda>_.
     io_bind (press_held ''up'') (\<lambda>_.
     io_bind (press_held ''left'') (\<lambda>_.
     io_bind (io_times (move_slot div 2) (press_held ''down'')) (\<lambda>_.
     io_bind (io_times (move_slot mod 2) (press_held ''right'')) (\<lambda>_.
     press ''a'')))))"

section \<open>Party members\<close>

record party_member =
  pm_name :: "string option"
  pm_level :: "int option"
  pm_hp_current :: "int option"
  pm_hp_max :: "int option"
  pm_status :: "string option"
  pm_raw_text :: string
  pm_slot_index :: nat

definition FORM_SUFFIXES :: "string list" where
  "FORM_SUFFIXES = [''_GALAR'', ''_ALOLA'', ''_HISUI'', ''_PALDEA'', ''_GMAX'', ''_MEGA_X'', ''_MEGA_Y'', ''_MEGA'']"

text \<open>The end of the pattern is the end of the text or a line feed that ends it.\<close>

definition cut_suffix :: "string \<Rightarrow> string" where
  "cut_suffix s = (case find (\<lambda>x. ends_with s x) FORM_SUFFIXES of
     Some x \<Rightarrow> take (length s - length x) s
   | None \<Rightarrow> (case find (\<lambda>x. ends_with s (x @ [CHR 0x0A])) FORM_SUFFIXES of
       Some x \<Rightarrow> take (length s - Suc (length x)) s @ [CHR 0x0A]
     | None \<Rightarrow> s))"

definition strip_form_suffix :: "string option \<Rightarrow> string" where
  "strip_form_suffix name = (case name of None \<Rightarrow> [] | Some n \<Rightarrow> cut_suffix (upper n))"

definition alphanumeric :: "char \<Rightarrow> bool" where
  "alphanumeric c = (let n = (of_char c :: nat) in (65 \<le> n \<and> n \<le> 90) \<or> (48 \<le> n \<and> n \<le> 57))"

definition normalize_name :: "string option \<Rightarrow> string" where
  "normalize_name name = (case name of None \<Rightarrow> [] | Some n \<Rightarrow> filter alphanumeric (strip_form_suffix (Some n)))"

text \<open>An equal name wins; otherwise the first of the closest, when it is close enough.\<close>

definition find_member_by_name :: "distance \<Rightarrow> party_member list \<Rightarrow> string \<Rightarrow> party_member res" where
  "find_member_by_name lev members wanted =
     (let target = normalize_name (Some wanted) in
      case find (\<lambda>m. normalize_name (pm_name m) = target) members of
        Some m \<Rightarrow> Inr m
      | None \<Rightarrow>
          if members = [] then Inl ValueError
          else let best = arg_min_list (\<lambda>m. lev (normalize_name (pm_name m)) target) members in
            if lev (normalize_name (pm_name best)) target \<le> max 2 (length target div 4) then Inr best else Inl RuntimeError)"

definition send_party_selection :: "distance \<Rightarrow> party_member list \<Rightarrow> string \<Rightarrow> unit io" where
  "send_party_selection lev members target_species =
     io_bind (io_lift (find_member_by_name lev members target_species)) (\<lambda>target.
     io_bind (io_times (pm_slot_index target) (press_held ''down'')) (\<lambda>_.
     io_bind (press ''a'') (\<lambda>_.
     press ''a'')))"

section \<open>The handler of a menu\<close>

fun index_of :: "'a \<Rightarrow> 'a list \<Rightarrow> nat option" where
  "index_of x [] = None"
| "index_of x (y # ys) = (if x = y then Some 0 else map_option Suc (index_of x ys))"

definition handle_option_select :: "game_data \<Rightarrow> rat \<Rightarrow> nat \<Rightarrow> battle_state \<Rightarrow> string option io" where
  "handle_option_select gd u k st =
     io_bind (io_lift (choose_battle_action gd u k st)) (\<lambda>action. case action of
       Use m \<Rightarrow>
         io_bind (io_lift (active_mon (side_of st P0) 0)) (\<lambda>active. case index_of m (pk_move_ids active) of
           None \<Rightarrow> io_lift (Inl RuntimeError)
         | Some slot \<Rightarrow> io_bind (send_move_input slot) (\<lambda>_. io_return None))
     | SwitchTo sp \<Rightarrow>
         io_bind (press_held ''down'') (\<lambda>_.
         io_bind (press ''a'') (\<lambda>_.
         io_return (Some (species_name gd sp)))))"

definition forced_target :: "game_data \<Rightarrow> nat \<Rightarrow> battle_state \<Rightarrow> string res" where
  "forced_target gd k st = rbind (choose_forced_switch k st) (\<lambda>d. case d of
     SwitchTo sp \<Rightarrow> Inr (species_name gd sp) | Use m \<Rightarrow> Inl RuntimeError)"

definition handle_party_menu :: "distance \<Rightarrow> game_data \<Rightarrow> nat \<Rightarrow> party_member list io \<Rightarrow> battle_state \<Rightarrow> string option \<Rightarrow> string option io" where
  "handle_party_menu lev gd k read_members st pending =
     io_bind read_members (\<lambda>members.
     io_bind (case pending of Some name \<Rightarrow> io_return name | None \<Rightarrow> io_lift (forced_target gd k st)) (\<lambda>name.
     io_bind (send_party_selection lev members name) (\<lambda>_.
     io_return None)))"

definition handle_battle_screen :: "distance \<Rightarrow> game_data \<Rightarrow> rat \<Rightarrow> nat \<Rightarrow> party_member list io \<Rightarrow> screen_kind \<Rightarrow> battle_state
    \<Rightarrow> string option \<Rightarrow> string option io" where
  "handle_battle_screen lev gd u k read_members kind st pending = (case kind of
     OPTION_SELECT \<Rightarrow> handle_option_select gd u k st
   | PARTY_MENU \<Rightarrow> handle_party_menu lev gd k read_members st pending
   | _ \<Rightarrow> io_return pending)"

section \<open>What is sent\<close>

text \<open>A computation that sends exactly these frames when it returns, and that fails on the socket or not at all.\<close>

definition sends :: "'a io \<Rightarrow> string list \<Rightarrow> bool" where
  "sends m fs \<longleftrightarrow> (\<forall>c r c'. m c = Some (r, c') \<longrightarrow>
     (case r of Inl e \<Rightarrow> e = MGBAConnectionError \<or> e = SocketTimeout | Inr _ \<Rightarrow> cl_sent c' = cl_sent c @ fs))"

definition press_frames :: "string \<Rightarrow> string list" where
  "press_frames key = [''addKey '' @ key @ END_MARK, ''clearKey '' @ key @ END_MARK]"

named_theorems sends_rules

lemma sendsD: "sends m fs \<Longrightarrow> m c = Some (Inr x, c') \<Longrightarrow> cl_sent c' = cl_sent c @ fs"
  unfolding sends_def by fastforce

lemma sendsD_error: "sends m fs \<Longrightarrow> m c = Some (Inl e, c') \<Longrightarrow> e = MGBAConnectionError \<or> e = SocketTimeout"
  unfolding sends_def by fastforce

lemma sends_return [sends_rules]: "sends (io_return x) []"
  by (simp add: sends_def io_return_def)

lemma sends_bind [sends_rules]:
  assumes "sends m fs" "\<And>x. sends (f x) gs"
  shows "sends (io_bind m f) (fs @ gs)"
proof -
  have "case r of Inl e \<Rightarrow> e = MGBAConnectionError \<or> e = SocketTimeout | Inr _ \<Rightarrow> cl_sent c' = cl_sent c @ fs @ gs"
    if run: "io_bind m f c = Some (r, c')" for c r c'
  proof (cases "m c")
    case None
    then show ?thesis using run by (simp add: io_bind_def)
  next
    case (Some p)
    obtain y c1 where p: "p = (y, c1)" by (cases p)
    show ?thesis
    proof (cases y)
      case (Inl e)
      then show ?thesis using run Some p sendsD_error[OF assms(1), of c e c1] by (auto simp: io_bind_def)
    next
      case (Inr x)
      then have rest: "f x c1 = Some (r, c')" using run Some p by (simp add: io_bind_def)
      have "cl_sent c1 = cl_sent c @ fs" using sendsD[OF assms(1)] Some p Inr by simp
      then show ?thesis using sendsD[OF assms(2)[of x]] sendsD_error[OF assms(2)[of x]] rest by (cases r) auto
    qed
  qed
  then show ?thesis unfolding sends_def by blast
qed

lemma recv_errors: "recv_until_end buf rs = Some (Inl e, rs') \<Longrightarrow> e = MGBAConnectionError \<or> e = SocketTimeout"
  by (induction buf rs rule: recv_until_end.induct) (auto split: if_splits option.splits)

lemma sends_raw: "sends (raw_send cmd) [cmd @ END_MARK]"
proof -
  have "case r of Inl e \<Rightarrow> e = MGBAConnectionError \<or> e = SocketTimeout | Inr _ \<Rightarrow> cl_sent c' = cl_sent c @ [cmd @ END_MARK]"
    if "raw_send cmd c = Some (r, c')" for c r c'
    using that recv_errors by (cases r) (auto simp: raw_send_def receive_def io_fail_def split: if_splits)
  then show ?thesis unfolding sends_def by blast
qed

lemma sends_send: "sends (send cmd) [cmd @ END_MARK]"
proof -
  have "sends (check_response x) []" for x by (simp add: check_response_def sends_def io_fail_def io_return_def)
  from sends_bind[OF sends_raw this] show ?thesis by (simp add: send_def)
qed

lemma sends_press [sends_rules]: "sends (press key) (press_frames key)" "sends (press_held key) (press_frames key)"
  using sends_bind[OF sends_send sends_send, of "''addKey '' @ key" "''clearKey '' @ key"]
  by (simp_all add: press_def press_held_def press_frames_def add_key_def clear_key_def)

lemma sends_times [sends_rules]: "sends m fs \<Longrightarrow> sends (io_times n m) (concat (replicate n fs))"
  by (induction n) (auto intro: sends_rules)

definition move_keys :: "nat \<Rightarrow> string list" where
  "move_keys slot = [''up'', ''left''] @ replicate (slot div 2) ''down'' @ replicate (slot mod 2) ''right''"

lemma sends_move: "sends (send_move_input slot) (concat (map press_frames (''a'' # move_keys slot @ [''a''])))"
proof -
  have "sends (send_move_input slot) (press_frames ''a'' @ press_frames ''up'' @ press_frames ''left''
      @ concat (replicate (slot div 2) (press_frames ''down'')) @ concat (replicate (slot mod 2) (press_frames ''right'')) @ press_frames ''a'')"
    unfolding send_move_input_def by (intro sends_rules)
  then show ?thesis by (simp add: move_keys_def map_replicate)
qed

section \<open>The move menu\<close>

text \<open>
  The menu is the game's; the code relies on a grid of two columns that shows \<open>n\<close> moves, where a step stays inside and does
  not wrap: \<open>up\<close> and \<open>left\<close> stop at the edge, \<open>down\<close> and \<open>right\<close> go to a place that holds a move.
\<close>

definition no_wrap_grid :: "nat \<Rightarrow> (string \<Rightarrow> nat \<times> nat \<Rightarrow> nat \<times> nat) \<Rightarrow> bool" where
  "no_wrap_grid n step \<longleftrightarrow> (\<forall>r c. c < 2 \<and> 2 * r + c < n \<longrightarrow>
     step ''up'' (r, c) = (r - 1, c) \<and> step ''left'' (r, c) = (r, c - 1)
     \<and> (2 * (r + 1) + c < n \<longrightarrow> step ''down'' (r, c) = (r + 1, c))
     \<and> (c = 0 \<and> 2 * r + 1 < n \<longrightarrow> step ''right'' (r, c) = (r, 1)))"

definition run_keys :: "(string \<Rightarrow> nat \<times> nat \<Rightarrow> nat \<times> nat) \<Rightarrow> nat \<times> nat \<Rightarrow> string list \<Rightarrow> nat \<times> nat" where
  "run_keys step cur keys = foldl (\<lambda>cur k. step k cur) cur keys"

lemma run_keys_move:
  assumes grid: "no_wrap_grid n step" and n: "n \<le> 4" and slot: "slot < n" and cur: "c < 2" "2 * r + c < n"
  shows "run_keys step (r, c) (move_keys slot) = (slot div 2, slot mod 2)"
proof -
  have step: "step ''up'' (r, c) = (r - 1, c)" "step ''left'' (r, c) = (r, c - 1)"
      "2 * (r + 1) + c < n \<Longrightarrow> step ''down'' (r, c) = (r + 1, c)" "c = 0 \<Longrightarrow> 2 * r + 1 < n \<Longrightarrow> step ''right'' (r, c) = (r, 1)"
    if "c < 2" "2 * r + c < n" for r c
    using grid that unfolding no_wrap_grid_def by blast+
  have "r \<le> 1" using cur n by simp
  then have home: "step ''left'' (step ''up'' (r, c)) = (0, 0)" using step[of c r] step[of c 0] cur by simp
  have "slot \<in> {0, 1, 2, 3}" using slot n by auto
  moreover have "1 < n \<Longrightarrow> step ''right'' (0, 0) = (0, 1)" using step(4)[of 0 0] by simp
  moreover have "2 < n \<Longrightarrow> step ''down'' (0, 0) = (1, 0)" using step(3)[of 0 0] by simp
  moreover have "3 < n \<Longrightarrow> step ''right'' (1, 0) = (1, 1)" using step(4)[of 0 1] by simp
  ultimately show ?thesis using home slot by (auto simp: run_keys_def move_keys_def)
qed

lemma index_of_Some: "index_of x xs = Some i \<Longrightarrow> i < length xs \<and> xs ! i = x"
  by (induction xs arbitrary: i) (auto split: if_splits)

lemma index_of_member: "x \<in> set xs \<Longrightarrow> \<exists>i. index_of x xs = Some i"
  by (induction xs) auto

lemma decided_move:
  assumes "choose_battle_action gd u k st = Inr (Use m)" "active_mon (side_of st P0) 0 = Inr p"
  shows "m \<in> set (pk_move_ids p) \<and> m \<noteq> Move_NONE"
proof -
  from assms(1) obtain ms where ms: "available_moves st = Inr ms" "ms \<noteq> []" "m = choice k ms"
    by (auto simp: choose_battle_action_def rbind_eq_Inr split: if_splits)
  then have "m \<in> set ms" using choice_mem by simp
  with mem_available[OF ms(1)] assms(2) show ?thesis by (auto dest: set_zip_leftD)
qed

text \<open>
  C13: The move the policy decides on is the move that is entered. When the menu of the battle is handled and the decision is a move,
  the handler fails at most on the socket: the lookup of the move among those of the active mon succeeds. When it returns, it
  has sent the presses of one \<open>A\<close>, some arrows and one \<open>A\<close>, each key released before the next, and the arrows take the cursor of the move
  grid from wherever it was left to the slot that holds the move.
\<close>

theorem policy_move_entered:
  assumes "choose_battle_action gd u k st = Inr (Use m)" "active_mon (side_of st P0) 0 = Inr p"
    and "pk_move_ids p = ms @ replicate (4 - length ms) Move_NONE" "length ms \<le> 4"
    and "no_wrap_grid (length ms) step" "col < 2" "2 * row + col < length ms"
    and "handle_battle_screen lev gd u k reader OPTION_SELECT st pending c = Some (res, c')"
  shows "case res of Inl e \<Rightarrow> e = MGBAConnectionError \<or> e = SocketTimeout
    | Inr left \<Rightarrow> left = None \<and> (\<exists>keys. cl_sent c' = cl_sent c @ concat (map press_frames (''a'' # keys @ [''a'']))
        \<and> (case run_keys step (row, col) keys of (r, l) \<Rightarrow> ms ! (2 * r + l) = m))"
proof -
  note m = decided_move[OF assms(1,2)]
  obtain slot where slot: "index_of m (pk_move_ids p) = Some slot" using index_of_member[OF conjunct1[OF m]] by blast
  note at = index_of_Some[OF slot]
  have "slot < length ms"
  proof (rule ccontr)
    assume "\<not> slot < length ms"
    then have "slot - length ms < 4 - length ms" using at assms(3) by auto
    with \<open>\<not> slot < length ms\<close> have "pk_move_ids p ! slot = Move_NONE" using assms(3) by (simp add: nth_append)
    then show False using at m by simp
  qed
  then have held: "ms ! slot = m" using at assms(3) by (simp add: nth_append)
  have run: "io_bind (send_move_input slot) (\<lambda>_. io_return None) c = Some (res, c')"
    using assms(8) by (simp add: handle_battle_screen_def handle_option_select_def assms(1,2) slot io_bind_def io_lift_def io_return_def)
  have sent: "sends (io_bind (send_move_input slot) (\<lambda>_. io_return (None :: string option)))
      (concat (map press_frames (''a'' # move_keys slot @ [''a''])) @ [])"
    by (intro sends_bind sends_move sends_return)
  have keys: "run_keys step (row, col) (move_keys slot) = (slot div 2, slot mod 2)"
    by (rule run_keys_move[OF assms(5,4) \<open>slot < length ms\<close> assms(6,7)])
  show ?thesis
  proof (cases res)
    case (Inl e)
    then show ?thesis using sendsD_error[OF sent] run by auto
  next
    case (Inr left)
    have "left = None" using run Inr by (auto simp: io_bind_def io_return_def split: option.splits prod.splits sum.splits)
    moreover have "cl_sent c' = cl_sent c @ concat (map press_frames (''a'' # move_keys slot @ [''a'']))" using sendsD[OF sent] run Inr by fastforce
    ultimately show ?thesis using Inr keys held by (auto intro!: exI[of _ "move_keys slot"])
  qed
qed

definition three_moves :: battle_state where
  "three_moves = mk_battle (mk_side [(sample_mon 1 100)\<lparr>pk_move_ids := [10, 22, 33, 0], pk_move_pp := [5, 5, 5, 0]\<rparr>] SINGLES [])
     (mk_side [sample_mon 25 100] SINGLES []) SINGLES"

definition all_tackle :: game_data where
  "all_tackle = sample_data\<lparr>gd_moves := (\<lambda>_. Some tackle_data)\<rparr>"

definition clamped :: "nat \<Rightarrow> string \<Rightarrow> nat \<times> nat \<Rightarrow> nat \<times> nat" where
  "clamped n key x = (case x of (r, c) \<Rightarrow>
     if key = ''up'' then (r - 1, c) else if key = ''left'' then (r, c - 1)
     else if key = ''down'' then (if 2 * (r + 1) + c < n then (r + 1, c) else x)
     else if key = ''right'' then (if c = 0 \<and> 2 * r + 1 < n then (r, 1) else x) else x)"

theorem policy_move_entered_witness:
  "\<exists>c' keys. handle_battle_screen levenshtein all_tackle 1 2 (io_return []) OPTION_SELECT three_moves None
       (fresh_client\<lparr>cl_in := replicate 10 (Chunk (SUCCESS_PREFIX @ END_MARK))\<rparr>) = Some (Inr None, c')
     \<and> cl_sent c' = concat (map press_frames (''a'' # keys @ [''a'']))
     \<and> (case run_keys (clamped 3) (0, 1) keys of (r, l) \<Rightarrow> [10, 22, 33] ! (2 * r + l) = (33 :: move))"
proof -
  let ?p = "(sample_mon 1 100)\<lparr>pk_move_ids := [10, 22, 33, 0], pk_move_pp := [5, 5, 5, 0]\<rparr>"
  let ?c = "fresh_client\<lparr>cl_in := replicate 10 (Chunk (SUCCESS_PREFIX @ END_MARK))\<rparr>"
  have d: "choose_battle_action all_tackle 1 2 three_moves = Inr (Use 33)" by code_simp
  have p: "active_mon (side_of three_moves P0) 0 = Inr ?p" by code_simp
  have moves: "pk_move_ids ?p = [10, 22, 33] @ replicate (4 - length [10, 22, 33 :: int]) Move_NONE" by simp
  have grid: "no_wrap_grid (length [10, 22, 33 :: int]) (clamped 3)" by (simp add: no_wrap_grid_def clamped_def)
  have run: "map_option fst (handle_battle_screen levenshtein all_tackle 1 2 (io_return []) OPTION_SELECT three_moves None ?c) = Some (Inr None)"
    by code_simp
  then obtain c' where c': "handle_battle_screen levenshtein all_tackle 1 2 (io_return []) OPTION_SELECT three_moves None ?c = Some (Inr None, c')" by auto
  have start: "cl_sent ?c = []" by (simp add: fresh_client_def)
  from policy_move_entered[OF d p moves _ grid _ _ c', of 1 0] obtain keys where
    "cl_sent c' = cl_sent ?c @ concat (map press_frames (''a'' # keys @ [''a'']))"
    "case run_keys (clamped 3) (0, 1) keys of (r, l) \<Rightarrow> [10, 22, 33] ! (2 * r + l) = (33 :: move)" by auto
  then show ?thesis using c' unfolding start append_Nil by (intro exI[of _ c'] exI[of _ keys] conjI) 
qed

section \<open>The party menu\<close>

lemma sends_party_selection:
  assumes "find_member_by_name lev members wanted = Inr m"
  shows "sends (send_party_selection lev members wanted) (concat (map press_frames (replicate (pm_slot_index m) ''down'' @ [''a'', ''a''])))"
proof -
  have "send_party_selection lev members wanted = io_bind (io_times (pm_slot_index m) (press_held ''down'')) (\<lambda>_. io_bind (press ''a'') (\<lambda>_. press ''a''))"
    by (rule ext) (simp add: send_party_selection_def assms io_lift_def io_return_def io_bind_def)
  moreover have "sends (io_bind (io_times (pm_slot_index m) (press_held ''down'')) (\<lambda>_. io_bind (press ''a'') (\<lambda>_. press ''a'')))
      (concat (replicate (pm_slot_index m) (press_frames ''down'')) @ press_frames ''a'' @ press_frames ''a'')"
    by (intro sends_rules)
  ultimately show ?thesis by (simp add: map_replicate)
qed

text \<open>Which member is found: the first with the normalised name, and otherwise one of the closest, within the threshold.\<close>

lemma find_member_exact:
  assumes "find_member_by_name lev members wanted = Inr m"
  shows "m \<in> set members \<and> (normalize_name (pm_name m) = normalize_name (Some wanted)
    \<or> lev (normalize_name (pm_name m)) (normalize_name (Some wanted)) \<le> max 2 (length (normalize_name (Some wanted)) div 4)
      \<and> list_all (\<lambda>x. lev (normalize_name (pm_name m)) (normalize_name (Some wanted)) \<le> lev (normalize_name (pm_name x)) (normalize_name (Some wanted))) members)"
proof (cases "find (\<lambda>m. normalize_name (pm_name m) = normalize_name (Some wanted)) members")
  case None
  let ?f = "\<lambda>m. lev (normalize_name (pm_name m)) (normalize_name (Some wanted))"
  from None assms have m: "members \<noteq> []" "m = arg_min_list ?f members" "?f m \<le> max 2 (length (normalize_name (Some wanted)) div 4)"
    by (auto simp: find_member_by_name_def Let_def split: if_splits)
  have "?f m \<le> ?f x" if "x \<in> set members" for x
    using that f_arg_min_list_f[OF m(1), of ?f] by (simp add: m(2))
  then show ?thesis using m arg_min_list_in[OF m(1)] by (simp add: list_all_iff)
next
  case (Some x)
  then have "m = x" using assms by (simp add: find_member_by_name_def Let_def)
  then show ?thesis using Some by (auto simp: find_Some_iff)
qed

text \<open>
  Some forms have a name on the party screen that is not found: their suffix is not in the pattern, so the name of the enum
  is too far from the name that is shown.
\<close>

definition shown_as :: "string \<Rightarrow> party_member" where
  "shown_as n = \<lparr>pm_name = Some n, pm_level = None, pm_hp_current = None, pm_hp_max = None, pm_status = None, pm_raw_text = [], pm_slot_index = 0\<rparr>"

lemma forms_not_found:
  "find_member_by_name levenshtein [shown_as ''Wormadam''] ''WORMADAM_TRASH'' = Inl RuntimeError"
  "find_member_by_name levenshtein [shown_as ''Urshifu''] ''URSHIFU_RAPID_STRIKE'' = Inl RuntimeError"
  "find_member_by_name levenshtein [shown_as ''Farfetchd''] ''FARFETCH_U2019D'' = Inl RuntimeError"
  by code_simp+

end
