(* ===== verification/Ocr.thy ===== *)
theory Ocr
  imports Fonts BattleInput
begin

text \<open>
  Reading the battle screen (\<open>vision/ocr.py\<close>, \<open>vision/regions.py\<close>, \<open>vision/capture.py\<close>, \<open>vision/reader.py\<close>)
  on top of the text matcher of \<open>Fonts\<close>. An image is the list of its rows of red, green and blue values: the screenshots of the
  emulator have no alpha channel, and no image here is empty. A crop reads black outside the image and raises when its right edge is left of
  its left edge or its lower edge above its upper one, as in the imaging library. The regular expressions are written out; a word of \<open>\b[A-Z]{3}\b\<close> is a maximal run of word
  characters. \<open>None\<close> is a text scan that does not end.
\<close>

section \<open>Regions\<close>

type_synonym region = "nat \<times> nat \<times> nat \<times> nat"

definition BATTLE_MESSAGE :: region where "BATTLE_MESSAGE = (4, 112, 232, 46)"
definition PLAYER_HP :: region where "PLAYER_HP = (140, 75, 85, 30)"
definition OPPONENT_HP_BAR :: region where "OPPONENT_HP_BAR = (15, 18, 90, 20)"
definition OPPONENT_HP_BAR_PIXELS :: region where "OPPONENT_HP_BAR_PIXELS = (52 - 16, 35 - 19, 50, 1)"
definition PARTY_MENU :: region where "PARTY_MENU = (0, 0, 240, 130)"

definition SLOT_DISTANCE :: nat where "SLOT_DISTANCE = 24"

definition PARTY_SLOTS :: "region list" where
  "PARTY_SLOTS = [
     (19, 36, 65, 38),
     (110, 13 + SLOT_DISTANCE * 0, 126, 20),
     (110, 13 + SLOT_DISTANCE * 1, 126, 20),
     (110, 13 + SLOT_DISTANCE * 2, 126, 20),
     (110, 13 + SLOT_DISTANCE * 3, 126, 20),
     (110, 13 + SLOT_DISTANCE * 4, 126, 20)]"

definition PARTY_SLOT_NAME :: region where "PARTY_SLOT_NAME = (9, 3, 50, 7)"
definition PARTY_SLOT_STATUS :: region where "PARTY_SLOT_STATUS = (14, 12, 36, 9)"
definition PARTY_SLOT_HP_CURRENT :: region where "PARTY_SLOT_HP_CURRENT = (28, 29, 14, 7)"
definition PARTY_SLOT_HP_MAX :: region where "PARTY_SLOT_HP_MAX = (47, 29, 17, 7)"
definition PARTY_SLOT_ROW_NAME :: region where "PARTY_SLOT_ROW_NAME = (2, 2, 48, 7)"
definition PARTY_SLOT_ROW_STATUS :: region where "PARTY_SLOT_ROW_STATUS = (5, 11, 34, 7)"
definition PARTY_SLOT_ROW_HP_CURRENT :: region where "PARTY_SLOT_ROW_HP_CURRENT = (85, 11, 17, 7)"
definition PARTY_SLOT_ROW_HP_MAX :: region where "PARTY_SLOT_ROW_HP_MAX = (108, 11, 15, 7)"

section \<open>Parsing recognised text\<close>

definition leading_digits :: "string \<Rightarrow> nat option" where
  "leading_digits s = (let ds = takeWhile is_digit s in if ds = [] then None else Some (digits_value ds))"

text \<open>\<open>re.search\<close>: the first position at which the pattern matches.\<close>

fun search :: "(string \<Rightarrow> 'a option) \<Rightarrow> string \<Rightarrow> 'a option" where
  "search p [] = p []"
| "search p (c # s) = (case p (c # s) of Some v \<Rightarrow> Some v | None \<Rightarrow> search p s)"

definition level_here :: "string \<Rightarrow> nat option" where
  "level_here s = (if lower (take 2 s) = ''lv'' then leading_digits (dropWhile is_space (drop 2 s)) else None)"

definition parse_level :: "string \<Rightarrow> nat option" where
  "parse_level s = search level_here s"

definition parse_first_int :: "string \<Rightarrow> nat option" where
  "parse_first_int s = search leading_digits s"

definition fraction_here :: "string \<Rightarrow> (nat \<times> nat) option" where
  "fraction_here s = (case leading_digits s of
     None \<Rightarrow> None
   | Some a \<Rightarrow> (case dropWhile is_space (dropWhile is_digit s) of
       [] \<Rightarrow> None
     | c # t \<Rightarrow> if c = CHR ''/'' then map_option (Pair a) (leading_digits (dropWhile is_space t)) else None))"

definition parse_hp_fraction :: "string \<Rightarrow> nat option \<times> nat option" where
  "parse_hp_fraction s = (case search fraction_here s of Some (a, b) \<Rightarrow> (Some a, Some b) | None \<Rightarrow> (None, None))"

definition STATUS_TOKENS :: "string list" where
  "STATUS_TOKENS = [''PSN'', ''BRN'', ''SLP'', ''FRZ'', ''PAR'', ''TOX'', ''FNT'']"

definition NAME_SKIP :: "string list" where
  "NAME_SKIP = [''HP'', ''LVL'', ''LV'', ''THE'', ''MON'', ''BAG'', ''RUN'']"

definition upper_letter :: "char \<Rightarrow> bool" where
  "upper_letter c = (let n = (of_char c :: nat) in 65 \<le> n \<and> n \<le> 90)"

definition ascii_letter :: "char \<Rightarrow> bool" where
  "ascii_letter c = (let n = (of_char c :: nat) in (65 \<le> n \<and> n \<le> 90) \<or> (97 \<le> n \<and> n \<le> 122))"

text \<open>\<open>\w\<close> on the first 256 characters.\<close>

definition word_char :: "char \<Rightarrow> bool" where
  "word_char c = (let n = (of_char c :: nat) in ascii_letter c \<or> is_digit c \<or> n = 95 \<or> n = 170 \<or> n = 178 \<or> n = 179 \<or> n = 181 \<or> n = 185 \<or> n = 186
     \<or> (188 \<le> n \<and> n \<le> 190) \<or> (192 \<le> n \<and> n \<noteq> 215 \<and> n \<noteq> 247))"

fun word_runs :: "string \<Rightarrow> string \<Rightarrow> string list" where
  "word_runs cur [] = (if cur = [] then [] else [cur])"
| "word_runs cur (c # s) = (if word_char c then word_runs (cur @ [c]) s else (if cur = [] then [] else [cur]) @ word_runs [] s)"

definition extract_status :: "string \<Rightarrow> string option" where
  "extract_status s = List.find (\<lambda>w. length w = 3 \<and> list_all upper_letter w \<and> w \<in> set STATUS_TOKENS) (word_runs [] s)"

definition name_word :: "string \<Rightarrow> bool" where
  "name_word w \<longleftrightarrow> 3 \<le> length w \<and> upper_letter (hd w) \<and> list_all ascii_letter (tl w)"

definition extract_name :: "string \<Rightarrow> string option" where
  "extract_name s = List.find (\<lambda>w. name_word w \<and> upper w \<notin> set (map upper (STATUS_TOKENS @ NAME_SKIP))) (word_runs [] s)"

definition cut_before :: "string \<Rightarrow> string \<Rightarrow> string" where
  "cut_before p s = (case find_sub p s of None \<Rightarrow> s | Some i \<Rightarrow> take i s)"

definition name_before_level :: "string \<Rightarrow> string option" where
  "name_before_level s = extract_name (cut_before ''Lv'' s)"

section \<open>Crops\<close>

definition img_width :: "'a list list \<Rightarrow> nat" where
  "img_width img = (case img of [] \<Rightarrow> 0 | row # _ \<Rightarrow> length row)"

definition pixel_at :: "image \<Rightarrow> nat \<Rightarrow> nat \<Rightarrow> nat \<times> nat \<times> nat" where
  "pixel_at img x y = (if y < length img \<and> x < length (img ! y) then img ! y ! x else (0, 0, 0))"

definition crop :: "image \<Rightarrow> region \<Rightarrow> image" where
  "crop img r = (case r of (x, y, w, h) \<Rightarrow> map (\<lambda>j. map (\<lambda>i. pixel_at img i j) [x..<x + w]) [y..<y + h])"

text \<open>A crop with a computed width and height; \<open>crop\<close> is the one whose extents are not negative.\<close>

definition crop_box :: "image \<Rightarrow> nat \<Rightarrow> nat \<Rightarrow> int \<Rightarrow> int \<Rightarrow> image res" where
  "crop_box img x y w h = (if w < 0 \<or> h < 0 then Inl ValueError else Inr (crop img (x, y, nat w, nat h)))"

text \<open>A text scan of a crop that may raise.\<close>

definition scan_crop :: "font list \<Rightarrow> string list \<Rightarrow> image res \<Rightarrow> string res option" where
  "scan_crop fonts chars img = (case img of Inl e \<Rightarrow> Some (Inl e) | Inr i \<Rightarrow> map_option Inr (match_text fonts chars None i))"

text \<open>\<open>v = m\<close> for a step that may raise and may not end.\<close>

definition then_read :: "'a res option \<Rightarrow> ('a \<Rightarrow> 'b res option) \<Rightarrow> 'b res option" where
  "then_read m f = (case m of None \<Rightarrow> None | Some (Inl e) \<Rightarrow> Some (Inl e) | Some (Inr x) \<Rightarrow> f x)"

section \<open>Readers\<close>

record loaded_fonts =
  lf_files :: font_files
  lf_small :: font
  lf_normal :: font
  lf_narrow :: font

definition ALPHA_CHARS :: string where
  "ALPHA_CHARS = ''ABCDEFGHIJKLMNOPQRSTUVWXYZabcdefghijklmnopqrstuvwxyz''"

definition DIGIT_CHARS :: string where
  "DIGIT_CHARS = ''0123456789''"

definition ALPHA_NUM_CHARS :: string where
  "ALPHA_NUM_CHARS = ALPHA_CHARS @ DIGIT_CHARS @ ''!'' @ [CHR 0x27] @ ''?.,- /()'' @ [CHR 0xE9]"

definition HPBOX_NAME_CHARS :: "string list" where
  "HPBOX_NAME_CHARS = ''Lv'' # singletons ALPHA_CHARS"

definition LEVEL_CHARS :: "string list" where
  "LEVEL_CHARS = ''Lv'' # singletons DIGIT_CHARS"

text \<open>Both rows are cropped before either is read.\<close>

definition read_battle_message :: "loaded_fonts \<Rightarrow> image \<Rightarrow> string res option" where
  "read_battle_message lf img =
     (let row1 = crop_box img 4 12 (int (img_width img) - 8) 11; row2 = crop_box img 4 28 (int (img_width img) - 8) 11;
          read = scan_crop [lf_normal lf, lf_narrow lf] (singletons ALPHA_NUM_CHARS) in
      then_read (Some row1) (\<lambda>_. then_read (Some row2) (\<lambda>_.
      then_read (read row1) (\<lambda>row1. then_read (read row2) (\<lambda>row2. Some (Inr (strip (strip row1 @ '' '' @ strip row2))))))))"

record player_info =
  pi_name :: "string option"
  pi_level :: "nat option"
  pi_hp_current :: "nat option"
  pi_hp_max :: "nat option"
  pi_status :: "string option"

definition read_player_info :: "loaded_fonts \<Rightarrow> image \<Rightarrow> player_info option" where
  "read_player_info lf img =
     (let row = crop img (0, 4, img_width img, 7) in
      Option.bind (match_text [lf_small lf] HPBOX_NAME_CHARS None row) (\<lambda>name_text.
      Option.bind (match_text [lf_small lf] LEVEL_CHARS None row) (\<lambda>level_text.
      Option.bind (match_text [lf_small lf] (singletons (DIGIT_CHARS @ ''/'')) None (crop img (55, 22, 25, 7))) (\<lambda>hp_text.
      Some \<lparr>pi_name = name_before_level name_text, pi_level = parse_level level_text, pi_hp_current = fst (parse_hp_fraction hp_text),
            pi_hp_max = snd (parse_hp_fraction hp_text), pi_status = None\<rparr>))))"

record opponent_info =
  oi_name :: "string option"
  oi_level :: "nat option"
  oi_status :: "string option"

definition read_opponent_info :: "loaded_fonts \<Rightarrow> image \<Rightarrow> opponent_info option" where
  "read_opponent_info lf img =
     (let row = crop img (0, 3, img_width img, 7) in
      Option.bind (match_text [lf_small lf] HPBOX_NAME_CHARS None row) (\<lambda>name_text.
      Option.bind (match_text [lf_small lf] LEVEL_CHARS None row) (\<lambda>level_text.
      Some \<lparr>oi_name = name_before_level name_text, oi_level = parse_level level_text, oi_status = None\<rparr>)))"

definition PARTY_PROMPT_CORE :: "nat \<times> nat \<times> nat" where
  "PARTY_PROMPT_CORE = (99, 99, 99)"

definition remap_prompt :: "image \<Rightarrow> image" where
  "remap_prompt img = map (map (\<lambda>p. if p = PARTY_PROMPT_CORE then (255, 255, 255) else (0, 0, 0))) img"

text \<open>The offsets in turn; the rows from an offset on.\<close>

fun prompt_from :: "loaded_fonts \<Rightarrow> image \<Rightarrow> nat list \<Rightarrow> bool res option" where
  "prompt_from lf img [] = Some (Inr False)"
| "prompt_from lf img (y # ys) =
     then_read (scan_crop [lf_normal lf] (singletons (ALPHA_CHARS @ '' .''))
         (crop_box img 0 y (int (img_width img)) (int (length img) - int y))) (\<lambda>t.
       if has_substring ''choose'' (lower t) \<and> has_substring ''pok'' (lower t) then Some (Inr True) else prompt_from lf img ys)"

definition read_party_prompt :: "loaded_fonts \<Rightarrow> image \<Rightarrow> bool res option" where
  "read_party_prompt lf img = prompt_from lf (remap_prompt img) [0..<5]"

text \<open>\<open>repr\<close> of a text of letters and digits.\<close>

definition quoted :: "string \<Rightarrow> string" where
  "quoted s = [CHR 0x27] @ s @ [CHR 0x27]"

definition read_party_slot :: "loaded_fonts \<Rightarrow> nat \<Rightarrow> image \<Rightarrow> party_member list option" where
  "read_party_slot lf i img =
     (let (r_name, r_status, r_cur, r_max) =
        (if i = 0 then (PARTY_SLOT_NAME, PARTY_SLOT_STATUS, PARTY_SLOT_HP_CURRENT, PARTY_SLOT_HP_MAX)
         else (PARTY_SLOT_ROW_NAME, PARTY_SLOT_ROW_STATUS, PARTY_SLOT_ROW_HP_CURRENT, PARTY_SLOT_ROW_HP_MAX)) in
      Option.bind (match_text [lf_small lf] (singletons ALPHA_CHARS) None (crop img r_name)) (\<lambda>name_text.
      Option.bind (match_status_region (lf_files lf) (lf_small lf) (crop img r_status)) (\<lambda>status_text.
      Option.bind (match_text [lf_small lf] (singletons DIGIT_CHARS) None (crop img r_cur)) (\<lambda>cur_text.
      Option.bind (match_text [lf_small lf] (singletons DIGIT_CHARS) None (crop img r_max)) (\<lambda>max_text.
      Some (if extract_name name_text \<noteq> None \<or> parse_first_int cur_text \<noteq> None
        then [\<lparr>pm_name = extract_name name_text, pm_level = map_option int (parse_level status_text),
               pm_hp_current = map_option int (parse_first_int cur_text), pm_hp_max = map_option int (parse_first_int max_text),
               pm_status = extract_status status_text,
               pm_raw_text = ''name='' @ quoted name_text @ '' status='' @ quoted status_text @ '' cur='' @ quoted cur_text @ '' max='' @ quoted max_text,
               pm_slot_index = i\<rparr>]
        else []))))))"

fun read_party_from :: "loaded_fonts \<Rightarrow> nat \<Rightarrow> image list \<Rightarrow> party_member list option" where
  "read_party_from lf i [] = Some []"
| "read_party_from lf i (img # imgs) =
     Option.bind (read_party_slot lf i img) (\<lambda>ms. Option.bind (read_party_from lf (Suc i) imgs) (\<lambda>rest. Some (ms @ rest)))"

definition read_party_menu :: "loaded_fonts \<Rightarrow> image list \<Rightarrow> party_member list option" where
  "read_party_menu lf imgs = read_party_from lf 0 imgs"

section \<open>Capturing the screen\<close>

datatype capture_error = RegionEmptyError | ScreenMismatchError

record screen_capture =
  sc_frame :: "image option"
  sc_frame_time :: rat

definition FRAME_CACHE_TTL :: rat where
  "FRAME_CACHE_TTL = 1 / 10"

definition new_capture :: screen_capture where
  "new_capture = \<lparr>sc_frame = None, sc_frame_time = 0\<rparr>"

definition invalidate :: "screen_capture \<Rightarrow> screen_capture" where
  "invalidate s = s\<lparr>sc_frame := None\<rparr>"

text \<open>\<open>now\<close> is the clock and \<open>screen\<close> what the emulator shows at that moment.\<close>

definition current_frame :: "screen_capture \<Rightarrow> rat \<Rightarrow> image \<Rightarrow> screen_capture \<times> image" where
  "current_frame s now screen = (case sc_frame s of
     Some f \<Rightarrow> if FRAME_CACHE_TTL < now - sc_frame_time s then (s\<lparr>sc_frame := Some screen, sc_frame_time := now\<rparr>, screen) else (s, f)
   | None \<Rightarrow> (s\<lparr>sc_frame := Some screen, sc_frame_time := now\<rparr>, screen))"

definition capture :: "screen_capture \<Rightarrow> rat \<Rightarrow> image \<Rightarrow> region \<Rightarrow> screen_capture \<times> (capture_error + image)" where
  "capture s now screen r = (case r of (x, y, w, h) \<Rightarrow>
     if w = 0 \<or> h = 0 then (s, Inl RegionEmptyError)
     else map_prod id (\<lambda>f. Inr (crop f r)) (current_frame s now screen))"

text \<open>The conversion to grey is the imaging library's.\<close>

definition check_region :: "(nat \<times> nat \<times> nat \<Rightarrow> nat) \<Rightarrow> image \<Rightarrow> (capture_error + unit)" where
  "check_region luma img =
     (if img_width img = 0 \<or> length img = 0 then Inl ScreenMismatchError
      else let gs = map luma (concat img) in
        if foldl min (hd gs) gs = foldl max (hd gs) gs then Inl ScreenMismatchError else Inr ())"

definition reader_capture :: "(nat \<times> nat \<times> nat \<Rightarrow> nat) \<Rightarrow> screen_capture \<Rightarrow> rat \<Rightarrow> image \<Rightarrow> region \<Rightarrow> screen_capture \<times> (capture_error + image)" where
  "reader_capture luma s now screen r = (case capture s now screen r of
     (s', Inl e) \<Rightarrow> (s', Inl e)
   | (s', Inr img) \<Rightarrow> (s', case check_region luma img of Inl e \<Rightarrow> Inl e | Inr _ \<Rightarrow> Inr img))"

section \<open>One capture cycle\<close>

text \<open>The grabs of a cycle: the clock, the screen at that moment and the region of each.\<close>

fun grabs :: "screen_capture \<Rightarrow> (rat \<times> image \<times> region) list \<Rightarrow> screen_capture \<times> (capture_error + image list)" where
  "grabs s [] = (s, Inr [])"
| "grabs s ((now, screen, r) # gs) = (case capture s now screen r of
     (s', Inl e) \<Rightarrow> (s', Inl e)
   | (s', Inr img) \<Rightarrow> (case grabs s' gs of (s'', Inl e) \<Rightarrow> (s'', Inl e) | (s'', Inr imgs) \<Rightarrow> (s'', Inr (img # imgs))))"

text \<open>The six slots of the party menu, from one frame after the invalidation.\<close>

definition read_party_members :: "loaded_fonts \<Rightarrow> screen_capture \<Rightarrow> (rat \<times> image) list \<Rightarrow> screen_capture \<times> (capture_error + party_member list option)" where
  "read_party_members lf s shots = (case grabs s (map (\<lambda>((now, screen), r). (now, screen, r)) (zip shots PARTY_SLOTS)) of
     (s', Inl e) \<Rightarrow> (s', Inl e)
   | (s', Inr imgs) \<Rightarrow> (s', Inr (read_party_menu lf imgs)))"

definition PROMPT_BOX :: region where "PROMPT_BOX = (7, 138, 95, 13)"

definition bar_pixels :: "image \<Rightarrow> pixel list" where
  "bar_pixels img = map (\<lambda>(r, g, b). (int r, int g, int b)) (concat (crop img OPPONENT_HP_BAR_PIXELS))"

definition or_empty :: "string option \<Rightarrow> string" where
  "or_empty n = (case n of None \<Rightarrow> [] | Some s \<Rightarrow> s)"

text \<open>The texts and the bar of the four crops; the prompt is only looked for when there is no message.\<close>

definition read_screen :: "loaded_fonts \<Rightarrow> bool \<Rightarrow> image \<Rightarrow> image \<Rightarrow> image \<Rightarrow> image \<Rightarrow> reading res option" where
  "read_screen lf active img player_img opp_img prompt_img =
     then_read (read_battle_message lf img) (\<lambda>t.
     Option.bind (read_player_info lf player_img) (\<lambda>player.
     Option.bind (read_opponent_info lf opp_img) (\<lambda>opp.
     then_read (Some (read_opponent_hp_bar (bar_pixels opp_img) None)) (\<lambda>bar.
     then_read (if split_words t = [] then read_party_prompt lf prompt_img else Some (Inr False)) (\<lambda>prompt.
       Some (Inr \<lparr>rd_words = split_words t, rd_opp_name = or_empty (oi_name opp), rd_opp_k = rd_k bar, rd_player_name = or_empty (pi_name player),
            rd_player_hp = map_option int (pi_hp_current player), rd_party_prompt = prompt, rd_active = active\<rparr>))))))"

section \<open>Every grab of a cycle sees one frame\<close>

definition proper_region :: "region \<Rightarrow> bool" where
  "proper_region r = (case r of (x, y, w, h) \<Rightarrow> 0 < w \<and> 0 < h)"

lemma grabs_cached:
  assumes "sc_frame s = Some f" "list_all (\<lambda>(now, screen, r). now - sc_frame_time s \<le> FRAME_CACHE_TTL \<and> proper_region r) gs"
  shows "grabs s gs = (s, Inr (map (\<lambda>(now, screen, r). crop f r) gs))"
  using assms(2)
proof (induction gs)
  case (Cons g gs)
  obtain now screen x y w h where g: "g = (now, screen, x, y, w, h)" by (metis prod_cases6)
  have "capture s now screen (x, y, w, h) = (s, Inr (crop f (x, y, w, h)))"
    using Cons.prems assms(1) by (auto simp: g capture_def current_frame_def proper_region_def)
  then show ?case using Cons by (simp add: g)
qed simp

text \<open>
  After an invalidation the grabs of one cycle show one and the same fresh frame, whatever the screen has become since, provided the
  last of them comes no later than the lifetime of the cache after the first began.
\<close>

theorem cycle_shares_frame:
  assumes "proper_region r" "list_all (\<lambda>(now, screen, r). now - t \<le> FRAME_CACHE_TTL \<and> proper_region r) gs"
  shows "snd (grabs (invalidate s) ((t, frame, r) # gs)) = Inr (crop frame r # map (\<lambda>(now, screen, r). crop frame r) gs)"
proof -
  let ?s = "s\<lparr>sc_frame := Some frame, sc_frame_time := t\<rparr>"
  have "capture (invalidate s) t frame r = (?s, Inr (crop frame r))"
    using assms(1) by (cases r) (simp add: capture_def current_frame_def invalidate_def proper_region_def)
  moreover have "grabs ?s gs = (?s, Inr (map (\<lambda>(now, screen, r). crop frame r) gs))"
    by (rule grabs_cached) (use assms(2) in simp_all)
  ultimately show ?thesis by simp
qed

theorem cycle_shares_frame_witness:
  "snd (grabs (invalidate \<lparr>sc_frame = Some [[(9, 9, 9)]], sc_frame_time = 1\<rparr>)
     [(2, [[(1, 2, 3), (4, 5, 6)]], (0, 0, 1, 1)), (41 / 20, [[(7, 7, 7)]], (1, 0, 1, 1))])
   = Inr [[[(1, 2, 3)]], [[(4, 5, 6)]]]"
  using cycle_shares_frame[of "(0, 0, 1, 1)" 2 "[(41 / 20, [[(7, 7, 7)]], (1, 0, 1, 1))]"
      "\<lparr>sc_frame = Some [[(9, 9, 9)]], sc_frame_time = 1\<rparr>" "[[(1, 2, 3), (4, 5, 6)]]"]
  by (simp add: proper_region_def FRAME_CACHE_TTL_def crop_def pixel_at_def)

text \<open>The time of a frame is read before the screenshot is taken: a slow screenshot makes the next grab of the cycle take another one.\<close>

lemma slow_screenshot_splits:
  "snd (grabs (invalidate s) [(0, [[(1, 1, 1)]], (0, 0, 1, 1)), (3 / 20, [[(2, 2, 2)]], (0, 0, 1, 1))]) = Inr [[[(1, 1, 1)]], [[(2, 2, 2)]]]"
  by (simp add: capture_def current_frame_def invalidate_def FRAME_CACHE_TTL_def crop_def pixel_at_def)

section \<open>A reading always comes back\<close>

definition fonts_loaded :: "loaded_fonts \<Rightarrow> bool" where
  "fonts_loaded lf \<longleftrightarrow> load_font (lf_files lf) ''small'' = Inr (lf_small lf) \<and> load_font (lf_files lf) ''normal'' = Inr (lf_normal lf)
     \<and> load_font (lf_files lf) ''narrow'' = Inr (lf_narrow lf)"

lemma loaded_match:
  assumes "fonts_loaded lf" "set fs \<subseteq> {lf_small lf, lf_normal lf, lf_narrow lf}"
  shows "\<exists>s. match_text fs chars g img = Some s"
proof (rule match_text_total)
  show "list_all (\<lambda>f. \<exists>files name. load_font files name = Inr f) fs" using assms unfolding fonts_loaded_def list_all_iff by blast
qed

lemma some_bind: "\<exists>a. m = Some a \<Longrightarrow> (\<And>a. \<exists>b. f a = Some b) \<Longrightarrow> \<exists>b. Option.bind m f = Some b"
  by auto

lemma then_read_simps [simp]:
  "then_read (Some (Inr x)) f = f x" "then_read (Some (Inl e)) f = Some (Inl e)" "then_read None f = None"
  by (simp_all add: then_read_def)

lemma crop_length [simp]: "length (crop img (x, y, w, h)) = h"
  by (simp add: crop_def)

lemma crop_width [simp]: "0 < h \<Longrightarrow> img_width (crop img (x, y, w, h)) = w"
  by (simp add: crop_def img_width_def upt_conv_Cons)

lemma remap_sizes [simp]: "length (remap_prompt img) = length img" "img_width (remap_prompt img) = img_width img"
  by (simp_all add: remap_prompt_def img_width_def split: list.split)

lemma prompt_total: "fonts_loaded lf \<Longrightarrow> list_all (\<lambda>y. y \<le> length img) ys \<Longrightarrow> \<exists>b. prompt_from lf img ys = Some (Inr b)"
proof (induction ys)
  case (Cons y ys)
  obtain t where t: "match_text [lf_normal lf] (singletons (ALPHA_CHARS @ '' .'')) None
      (crop img (0, y, img_width img, nat (int (length img) - int y))) = Some t"
    using loaded_match[OF Cons.prems(1), of "[lf_normal lf]"] by fastforce
  then show ?case using Cons by (auto simp: scan_crop_def crop_box_def)
qed auto

lemma readers_total:
  assumes "fonts_loaded lf"
  shows "\<exists>p. read_player_info lf img = Some p" "\<exists>q. read_opponent_info lf img = Some q"
proof -
  show "\<exists>p. read_player_info lf img = Some p"
    unfolding read_player_info_def Let_def by (intro some_bind loaded_match[OF assms]) auto
  show "\<exists>q. read_opponent_info lf img = Some q"
    unfolding read_opponent_info_def Let_def by (intro some_bind loaded_match[OF assms]) auto
qed

lemma message_read:
  assumes "8 \<le> img_width img"
    and "match_text [lf_normal lf, lf_narrow lf] (singletons ALPHA_NUM_CHARS) None (crop img (4, 12, img_width img - 8, 11)) = Some row1"
    and "match_text [lf_normal lf, lf_narrow lf] (singletons ALPHA_NUM_CHARS) None (crop img (4, 28, img_width img - 8, 11)) = Some row2"
  shows "read_battle_message lf img = Some (Inr (strip (strip row1 @ '' '' @ strip row2)))"
proof -
  have w: "nat (int (img_width img) - 8) = img_width img - 8" by simp
  show ?thesis using assms by (simp add: read_battle_message_def crop_box_def scan_crop_def w)
qed

text \<open>A message box of fewer than eight columns has no rows to read: its crops raise.\<close>

lemma narrow_message_raises: "img_width img < 8 \<Longrightarrow> read_battle_message lf img = Some (Inl ValueError)"
  by (simp add: read_battle_message_def crop_box_def)

lemma bar_pixels_length: "length (bar_pixels img) = 50"
  by (simp add: bar_pixels_def crop_def OPPONENT_HP_BAR_PIXELS_def length_concat)

lemma bar_read:
  assumes "length px = 50"
  shows "\<exists>r. read_opponent_hp_bar px None = Inr r
    \<and> (classify_pixel (hd px) \<noteq> White \<and> classify_pixel (last px) \<noteq> White \<longrightarrow> rd_k r = None)"
proof -
  have "px \<noteq> []" using assms by auto
  then have "hd px = px ! 0" "last px = px ! 49" using assms by (simp_all add: hd_conv_nth last_conv_nth)
  then show ?thesis using assms
    by (auto simp: read_opponent_hp_bar_def lki_def rbind_def no_reading_def split: option.splits sum.splits)
qed

lemma name_read: "or_empty (name_before_level s) = [] \<or> name_word (or_empty (name_before_level s))"
proof (cases "name_before_level s")
  case (Some w)
  then have "name_word w" by (auto simp: name_before_level_def extract_name_def find_Some_iff)
  then show ?thesis by (simp add: Some or_empty_def)
qed (simp add: or_empty_def)

lemma nothing_recognised: "split_words (strip (strip [] @ '' '' @ strip [])) = []" "name_before_level [] = None" "parse_hp_fraction [] = (None, None)"
  by code_simp+

text \<open>
  C31: Whatever the emulator shows in the four grabs of a cycle, reading the crops ends, raises nothing and gives the loop a reading that says
  no more than the scans: the words are those of the two rows of the message box, the player's HP is the fraction of its scan, a name is a
  capitalised word of the text before the level sign; where a scan recognises nothing there is no message, no name and no HP, where
  the opponent's bar has no white end there is no bar value, and the party prompt is only reported without a message.
\<close>

theorem screen_reading_total:
  assumes "fonts_loaded lf"
  shows "\<exists>rd row1 row2 box hp foe.
      read_screen lf active (crop f1 BATTLE_MESSAGE) (crop f2 PLAYER_HP) (crop f3 OPPONENT_HP_BAR) (crop f4 PROMPT_BOX) = Some (Inr rd)
    \<and> match_text [lf_normal lf, lf_narrow lf] (singletons ALPHA_NUM_CHARS) None (crop (crop f1 BATTLE_MESSAGE) (4, 12, 224, 11)) = Some row1
    \<and> match_text [lf_normal lf, lf_narrow lf] (singletons ALPHA_NUM_CHARS) None (crop (crop f1 BATTLE_MESSAGE) (4, 28, 224, 11)) = Some row2
    \<and> match_text [lf_small lf] HPBOX_NAME_CHARS None (crop (crop f2 PLAYER_HP) (0, 4, 85, 7)) = Some box
    \<and> match_text [lf_small lf] (singletons (DIGIT_CHARS @ ''/'')) None (crop (crop f2 PLAYER_HP) (55, 22, 25, 7)) = Some hp
    \<and> match_text [lf_small lf] HPBOX_NAME_CHARS None (crop (crop f3 OPPONENT_HP_BAR) (0, 3, 90, 7)) = Some foe
    \<and> rd_words rd = split_words (strip (strip row1 @ '' '' @ strip row2)) \<and> (row1 = [] \<and> row2 = [] \<longrightarrow> rd_words rd = [])
    \<and> (rd_player_name rd = [] \<or> name_word (rd_player_name rd)) \<and> (box = [] \<longrightarrow> rd_player_name rd = [])
    \<and> (rd_opp_name rd = [] \<or> name_word (rd_opp_name rd)) \<and> (foe = [] \<longrightarrow> rd_opp_name rd = [])
    \<and> rd_player_hp rd = map_option int (fst (parse_hp_fraction hp)) \<and> (hp = [] \<longrightarrow> rd_player_hp rd = None)
    \<and> (classify_pixel (hd (bar_pixels (crop f3 OPPONENT_HP_BAR))) \<noteq> White
        \<and> classify_pixel (last (bar_pixels (crop f3 OPPONENT_HP_BAR))) \<noteq> White \<longrightarrow> rd_opp_k rd = None)
    \<and> (rd_party_prompt rd \<longrightarrow> rd_words rd = []) \<and> rd_active rd = active"
proof -
  have w: "img_width (crop f1 BATTLE_MESSAGE) = 232" "img_width (crop f2 PLAYER_HP) = 85" "img_width (crop f3 OPPONENT_HP_BAR) = 90"
    "length (crop f4 PROMPT_BOX) = 13"
    by (simp_all add: BATTLE_MESSAGE_def PLAYER_HP_def OPPONENT_HP_BAR_def PROMPT_BOX_def)
  have scans: "\<exists>s. match_text fs chars None img = Some s" if "set fs \<subseteq> {lf_small lf, lf_normal lf, lf_narrow lf}" for fs chars img
    using loaded_match[OF assms that] .
  obtain row1 where row1: "match_text [lf_normal lf, lf_narrow lf] (singletons ALPHA_NUM_CHARS) None (crop (crop f1 BATTLE_MESSAGE) (4, 12, 224, 11)) = Some row1"
    using scans by fastforce
  obtain row2 where row2: "match_text [lf_normal lf, lf_narrow lf] (singletons ALPHA_NUM_CHARS) None (crop (crop f1 BATTLE_MESSAGE) (4, 28, 224, 11)) = Some row2"
    using scans by fastforce
  obtain box where box: "match_text [lf_small lf] HPBOX_NAME_CHARS None (crop (crop f2 PLAYER_HP) (0, 4, 85, 7)) = Some box" using scans by fastforce
  obtain lv where lv: "match_text [lf_small lf] LEVEL_CHARS None (crop (crop f2 PLAYER_HP) (0, 4, 85, 7)) = Some lv" using scans by fastforce
  obtain hp where hp: "match_text [lf_small lf] (singletons (DIGIT_CHARS @ ''/'')) None (crop (crop f2 PLAYER_HP) (55, 22, 25, 7)) = Some hp" using scans by fastforce
  obtain foe where foe: "match_text [lf_small lf] HPBOX_NAME_CHARS None (crop (crop f3 OPPONENT_HP_BAR) (0, 3, 90, 7)) = Some foe" using scans by fastforce
  obtain flv where flv: "match_text [lf_small lf] LEVEL_CHARS None (crop (crop f3 OPPONENT_HP_BAR) (0, 3, 90, 7)) = Some flv" using scans by fastforce
  obtain prompt where prompt: "read_party_prompt lf (crop f4 PROMPT_BOX) = Some (Inr prompt)"
    using prompt_total[OF assms, of "remap_prompt (crop f4 PROMPT_BOX)" "[0..<5]"] by (auto simp: read_party_prompt_def w list_all_iff)
  obtain bar where bar: "read_opponent_hp_bar (bar_pixels (crop f3 OPPONENT_HP_BAR)) None = Inr bar"
    "classify_pixel (hd (bar_pixels (crop f3 OPPONENT_HP_BAR))) \<noteq> White
       \<and> classify_pixel (last (bar_pixels (crop f3 OPPONENT_HP_BAR))) \<noteq> White \<longrightarrow> rd_k bar = None"
    using bar_read[OF bar_pixels_length] by blast
  define t where "t = strip (strip row1 @ '' '' @ strip row2)"
  define rd where "rd = \<lparr>rd_words = split_words t, rd_opp_name = or_empty (name_before_level foe), rd_opp_k = rd_k bar, rd_player_name = or_empty (name_before_level box),
    rd_player_hp = map_option int (fst (parse_hp_fraction hp)), rd_party_prompt = (split_words t = [] \<and> prompt), rd_active = active\<rparr>"
  have sel: "rd_words rd = split_words t" "rd_opp_name rd = or_empty (name_before_level foe)" "rd_opp_k rd = rd_k bar"
    "rd_player_name rd = or_empty (name_before_level box)" "rd_player_hp rd = map_option int (fst (parse_hp_fraction hp))"
    "rd_party_prompt rd \<longrightarrow> split_words t = []" "rd_active rd = active"
    by (simp_all add: rd_def)
  have msg: "read_battle_message lf (crop f1 BATTLE_MESSAGE) = Some (Inr t)"
    using message_read[of "crop f1 BATTLE_MESSAGE"] row1 row2 unfolding t_def by (simp add: w)
  have player: "read_player_info lf (crop f2 PLAYER_HP) = Some \<lparr>pi_name = name_before_level box, pi_level = parse_level lv,
      pi_hp_current = fst (parse_hp_fraction hp), pi_hp_max = snd (parse_hp_fraction hp), pi_status = None\<rparr>"
    by (simp add: read_player_info_def Let_def w box lv hp)
  have opp: "read_opponent_info lf (crop f3 OPPONENT_HP_BAR) = Some \<lparr>oi_name = name_before_level foe, oi_level = parse_level flv, oi_status = None\<rparr>"
    by (simp add: read_opponent_info_def Let_def w foe flv)
  have run: "read_screen lf active (crop f1 BATTLE_MESSAGE) (crop f2 PLAYER_HP) (crop f3 OPPONENT_HP_BAR) (crop f4 PROMPT_BOX) = Some (Inr rd)"
    by (simp add: read_screen_def msg player opp prompt bar(1) rd_def)
  have empty: "row1 = [] \<and> row2 = [] \<longrightarrow> split_words t = []" "box = [] \<longrightarrow> or_empty (name_before_level box) = []"
    "foe = [] \<longrightarrow> or_empty (name_before_level foe) = []" "hp = [] \<longrightarrow> map_option int (fst (parse_hp_fraction hp)) = None"
    using nothing_recognised unfolding t_def or_empty_def by auto
  show ?thesis
    by (rule exI[of _ rd], rule exI[of _ row1], rule exI[of _ row2], rule exI[of _ box], rule exI[of _ hp], rule exI[of _ foe])
      (intro conjI run row1 row2 box hp foe, unfold sel, (rule empty name_read bar(2) sel(6) refl | simp only: t_def)+)
qed

lemma projr_Inr_if: "\<not> isl r \<Longrightarrow> r = Inr (projr r)"
  by (cases r) auto

definition demo_fonts :: loaded_fonts where
  "demo_fonts = \<lparr>lf_files = demo_files, lf_small = projr (load_font demo_files ''small''), lf_normal = projr (load_font demo_files ''normal''),
     lf_narrow = projr (load_font demo_files ''narrow'')\<rparr>"

lemma demo_fonts_loaded: "fonts_loaded demo_fonts"
proof -
  have "list_all (\<lambda>n. \<not> isl (load_font demo_files n)) [''small'', ''normal'', ''narrow'']" by code_simp
  then show ?thesis by (simp add: fonts_loaded_def demo_fonts_def projr_Inr_if)
qed

text \<open>The screen of the emulator, 240 by 160 pixels, all black.\<close>

definition black_screen :: image where
  "black_screen = replicate 160 (replicate 240 (0, 0, 0))"

lemma black_crop:
  assumes "\<And>x y. pixel_at img x y = c"
  shows "set (concat (crop img r)) \<subseteq> {c}"
  using assms by (cases r) (auto simp: crop_def)

lemma black_pixels:
  assumes "\<And>x y. pixel_at img x y = (0, 0, 0)"
  shows "pixel_at (crop img r) x y = (0, 0, 0)"
proof (cases "y < length (crop img r) \<and> x < length (crop img r ! y)")
  case True
  then have "crop img r ! y ! x \<in> set (concat (crop img r))" unfolding set_concat by (blast intro: nth_mem)
  then show ?thesis using True black_crop[OF assms, of r] by (auto simp: pixel_at_def)
qed (auto simp: pixel_at_def)

theorem screen_reading_total_witness:
  "\<exists>rd. read_screen demo_fonts True (crop black_screen BATTLE_MESSAGE) (crop black_screen PLAYER_HP) (crop black_screen OPPONENT_HP_BAR)
       (crop black_screen PROMPT_BOX) = Some (Inr rd) \<and> rd_active rd \<and> rd_opp_k rd = None"
proof -
  have at: "pixel_at black_screen x y = (0, 0, 0)" for x y
    by (cases "y < 160"; cases "x < 240") (simp_all add: pixel_at_def black_screen_def)
  have "set (bar_pixels (crop black_screen OPPONENT_HP_BAR)) \<subseteq> {(0, 0, 0)}"
    unfolding bar_pixels_def using black_crop[OF black_pixels[OF at], of OPPONENT_HP_BAR OPPONENT_HP_BAR_PIXELS] by fastforce
  moreover have "bar_pixels (crop black_screen OPPONENT_HP_BAR) \<noteq> []" using bar_pixels_length[of "crop black_screen OPPONENT_HP_BAR"] by force
  ultimately have ends: "hd (bar_pixels (crop black_screen OPPONENT_HP_BAR)) = (0, 0, 0)" "last (bar_pixels (crop black_screen OPPONENT_HP_BAR)) = (0, 0, 0)"
    using hd_in_set last_in_set by blast+
  have "classify_pixel (0, 0, 0) \<noteq> White" by code_simp
  with ends screen_reading_total[OF demo_fonts_loaded, of True black_screen black_screen black_screen black_screen] show ?thesis by auto
qed

section \<open>What the player's box says\<close>

lemma find_level: "\<not> has_substring ''Lv'' name \<Longrightarrow> find_sub ''Lv'' (name @ ''Lv'' @ junk) = Some (length name)"
proof (induction name)
  case (Cons c name)
  then show ?case by (cases name) (auto simp: starts_with_def)
qed (simp add: starts_with_def)

lemma word_runs_word: "list_all word_char w \<Longrightarrow> word_runs cur w = (if cur @ w = [] then [] else [cur @ w])"
  by (induction w arbitrary: cur) auto

lemma name_word_chars: "name_word w \<Longrightarrow> list_all word_char w"
  by (cases w) (auto simp: name_word_def upper_letter_def ascii_letter_def word_char_def list_all_iff Let_def)

lemma name_before_level_exact:
  assumes "name_word name" "upper name \<notin> set (map upper (STATUS_TOKENS @ NAME_SKIP))" "\<not> has_substring ''Lv'' name"
  shows "name_before_level (name @ ''Lv'' @ junk) = Some name"
proof -
  have "word_runs [] name = [name]" using word_runs_word[OF name_word_chars[OF assms(1)], of "[]"] assms(1) by (auto simp: name_word_def)
  then show ?thesis using assms find_level[OF assms(3), of junk] by (simp add: name_before_level_def cut_before_def extract_name_def)
qed

lemma decimal_all_digits: "list_all is_digit (decimal n)"
  using decimal_chars by (auto simp: list_all_iff is_digit_def)

lemma digits_value_decimal: "digits_value (decimal n) = n"
proof (induction n rule: decimal.induct)
  case (1 n)
  have "(of_char (char_of (48 + n mod 10) :: char) :: nat) = 48 + n mod 10" by (simp add: of_char_of)
  with 1 show ?case by (cases "n < 10") (simp_all add: decimal.simps[of n] digits_value_def)
qed

lemma leading_decimal:
  assumes "rest = [] \<or> \<not> is_digit (hd rest)"
  shows "leading_digits (decimal n @ rest) = Some n" "dropWhile is_digit (decimal n @ rest) = rest"
proof -
  have "takeWhile is_digit (decimal n @ rest) = decimal n" "dropWhile is_digit (decimal n @ rest) = rest"
    using assms decimal_all_digits[of n] by (cases rest; simp add: list_all_iff takeWhile_append dropWhile_append)+
  then show "leading_digits (decimal n @ rest) = Some n" "dropWhile is_digit (decimal n @ rest) = rest"
    by (simp_all add: leading_digits_def digits_value_decimal)
qed

lemma no_space_decimal: "dropWhile is_space (decimal n @ rest) = decimal n @ rest"
proof -
  obtain c t where "decimal n = c # t" by (meson decimal_nonempty neq_Nil_conv)
  moreover from this have "\<not> is_space c" using decimal_chars[of c n] by (auto simp: is_space_def)
  ultimately show ?thesis by simp
qed

lemma parse_level_exact:
  assumes "list_all is_digit pre"
  shows "parse_level (pre @ ''Lv'' @ decimal n) = Some n"
  using assms
proof (induction pre)
  case Nil
  have "lower (take 2 (''Lv'' @ decimal n)) = ''lv''" by (simp add: numeral_2_eq_2) code_simp
  then show ?case using leading_decimal(1)[of "[]" n] no_space_decimal[of n "[]"] by (simp add: parse_level_def level_here_def)
next
  case (Cons c pre)
  have "lower_char c \<noteq> CHR ''l''" using Cons.prems by (auto simp: is_digit_def lower_char_def Let_def)
  then have "level_here (c # u) = None" for u by (simp add: level_here_def lower_def numeral_2_eq_2)
  with Cons show ?case by (simp add: parse_level_def)
qed

lemma parse_hp_fraction_exact: "parse_hp_fraction (decimal a @ ''/'' @ decimal b) = (Some a, Some b)"
proof -
  have slash: "\<not> is_digit (CHR ''/'')" "\<not> is_space (CHR ''/'')" by code_simp+
  obtain c t where ct: "decimal a = c # t" by (meson decimal_nonempty neq_Nil_conv)
  have "fraction_here (decimal a @ ''/'' @ decimal b) = Some (a, b)"
    using slash leading_decimal[of "''/'' @ decimal b" a] leading_decimal(1)[of "[]" b] no_space_decimal[of b "[]"]
    by (simp add: fraction_here_def)
  then show ?thesis by (simp add: parse_hp_fraction_def ct)
qed

text \<open>
  C33: The player's box is read exactly: when the scans of its texts give the name, the level sign and digits, and the fraction of HP, the
  result is that name, level and HP - whatever the name scan makes of the digits after the level sign, and whatever letters of the
  name the level scan takes for digits.
\<close>

theorem player_box_read_back:
  assumes "match_text [lf_small lf] HPBOX_NAME_CHARS None (crop img (0, 4, img_width img, 7)) = Some (name @ ''Lv'' @ junk)"
    and "match_text [lf_small lf] LEVEL_CHARS None (crop img (0, 4, img_width img, 7)) = Some (pre @ ''Lv'' @ decimal level)"
    and "match_text [lf_small lf] (singletons (DIGIT_CHARS @ ''/'')) None (crop img (55, 22, 25, 7)) = Some (decimal a @ ''/'' @ decimal b)"
    and "name_word name" "upper name \<notin> set (map upper (STATUS_TOKENS @ NAME_SKIP))" "\<not> has_substring ''Lv'' name" "list_all is_digit pre"
  shows "read_player_info lf img
    = Some \<lparr>pi_name = Some name, pi_level = Some level, pi_hp_current = Some a, pi_hp_max = Some b, pi_status = None\<rparr>"
  using assms(1-3) name_before_level_exact[OF assms(4-6), of junk] parse_level_exact[OF assms(7), of level] parse_hp_fraction_exact[of a b]
  by (simp add: read_player_info_def Let_def)

text \<open>A box whose glyphs are single columns, the level's zero drawn like the letter O.\<close>

definition column_cells :: "nat list \<Rightarrow> nat list list" where
  "column_cells codes = map (\<lambda>r. concat (map (\<lambda>c. (c div 2 ^ r mod 2) # replicate 15 0) codes)) [0..<7]"

definition box_files :: font_files where
  "box_files = \<lparr>
     ff_charmap = concat (map (\<lambda>(c, n). [CHR 0x27, c, CHR 0x27] @ '' = '' @ [n] @ [CHR 0x0A])
         [(CHR ''M'', CHR ''0''), (CHR ''e'', CHR ''1''), (CHR ''w'', CHR ''2''), (CHR ''O'', CHR ''4''),
          (CHR ''0'', CHR ''4''), (CHR ''1'', CHR ''5''), (CHR ''7'', CHR ''6''), (CHR ''/'', CHR ''7'')]) @ ''LV = 3'' @ [CHR 0x0A],
     ff_fonts_c = ''gFontSmallLatinGlyphWidths[] = {2,2,2,2,2,2,2,2}'',
     ff_png = (\<lambda>_. replicate 4 [] @ column_cells [1, 2, 4, 8, 16, 32, 64, 3]),
     ff_status_icons = []\<rparr>"

definition box_fonts :: loaded_fonts where
  "box_fonts = \<lparr>lf_files = box_files, lf_small = projr (load_font box_files ''small''), lf_normal = \<lparr>fo_templates = [], fo_advances = []\<rparr>,
     lf_narrow = \<lparr>fo_templates = [], fo_advances = []\<rparr>\<rparr>"

definition column_row :: "nat \<Rightarrow> nat list \<Rightarrow> (nat \<times> nat \<times> nat) list" where
  "column_row r codes = concat (map (\<lambda>c. [if c div 2 ^ r mod 2 = 1 then (66, 66, 66) else (0, 0, 0), (0, 0, 0)]) codes)"

definition dark :: "nat \<Rightarrow> (nat \<times> nat \<times> nat) list" where
  "dark n = replicate n (0, 0, 0)"

definition demo_box :: image where
  "demo_box = replicate 4 (dark 61) @ map (\<lambda>r. column_row r [1, 2, 4, 8, 32, 16, 0] @ dark 47) [0..<7] @ replicate 11 (dark 61)
     @ map (\<lambda>r. dark 55 @ column_row r [32, 3, 64]) [0..<7]"

theorem player_box_read_back_witness:
  "read_player_info box_fonts demo_box
   = Some \<lparr>pi_name = Some ''Mew'', pi_level = Some 10, pi_hp_current = Some 1, pi_hp_max = Some 7, pi_status = None\<rparr>"
proof -
  have a: "match_text [lf_small box_fonts] HPBOX_NAME_CHARS None (crop demo_box (0, 4, img_width demo_box, 7)) = Some (''Mew'' @ ''Lv'' @ ''O'')" by code_simp
  have b: "match_text [lf_small box_fonts] LEVEL_CHARS None (crop demo_box (0, 4, img_width demo_box, 7)) = Some ([] @ ''Lv'' @ decimal 10)" by code_simp
  have c: "match_text [lf_small box_fonts] (singletons (DIGIT_CHARS @ ''/'')) None (crop demo_box (55, 22, 25, 7)) = Some (decimal 1 @ ''/'' @ decimal 7)" by code_simp
  have "name_word ''Mew''" "upper ''Mew'' \<notin> set (map upper (STATUS_TOKENS @ NAME_SKIP))" "\<not> has_substring ''Lv'' ''Mew''" "list_all is_digit []"
    by code_simp+
  from player_box_read_back[OF a b c this] show ?thesis .
qed

section \<open>A screen that shows nothing\<close>

definition blank_box :: "nat \<Rightarrow> nat \<Rightarrow> image" where
  "blank_box w h = replicate h (replicate w (0, 0, 0))"

lemma crop_blank: "x + w \<le> a \<Longrightarrow> y + h \<le> b \<Longrightarrow> crop (blank_box a b) (x, y, w, h) = blank_box w h"
  by (rule nth_equalityI) (auto simp: crop_def blank_box_def pixel_at_def intro!: nth_equalityI)

lemma blank_player:
  "read_player_info box_fonts (blank_box 85 30)
   = Some \<lparr>pi_name = None, pi_level = None, pi_hp_current = None, pi_hp_max = None, pi_status = None\<rparr>"
  by code_simp

lemma blank_opponent: "read_opponent_info box_fonts (blank_box 90 20) = Some \<lparr>oi_name = None, oi_level = None, oi_status = None\<rparr>" by code_simp

lemma blank_bar: "read_opponent_hp_bar (bar_pixels (blank_box 90 20)) None = Inr no_reading" by code_simp

lemma no_glyphs: "candidate_glyphs fs chars = [] \<Longrightarrow> match_text fs chars gap img = Some []"
  by (simp add: match_text_def)

lemma blank_message: "read_battle_message box_fonts (blank_box 232 46) = Some (Inr [])"
proof -
  have "candidate_glyphs [lf_normal box_fonts, lf_narrow box_fonts] (singletons ALPHA_NUM_CHARS) = []" by code_simp
  from message_read[OF _ no_glyphs[OF this] no_glyphs[OF this], of "blank_box 232 46"]
  have "read_battle_message box_fonts (blank_box 232 46) = Some (Inr (strip (strip [] @ '' '' @ strip [])))"
    by (simp add: blank_box_def img_width_def numeral_eq_Suc)
  moreover have "strip (strip [] @ '' '' @ strip []) = []" by code_simp
  ultimately show ?thesis by simp
qed

lemma blank_prompt: "read_party_prompt box_fonts (blank_box 95 13) = Some (Inr False)"
proof -
  have "candidate_glyphs [lf_normal box_fonts] (singletons (ALPHA_CHARS @ '' .'')) = []" by code_simp
  note none = no_glyphs[OF this]
  have "\<not> has_substring ''choose'' (lower [])" by code_simp
  then have "list_all (\<lambda>y. y \<le> length img) ys \<Longrightarrow> prompt_from box_fonts img ys = Some (Inr False)" for img ys
    by (induction ys) (simp_all add: scan_crop_def crop_box_def none)
  then show ?thesis by (simp add: read_party_prompt_def blank_box_def list_all_iff)
qed

lemma blank_reading:
  "read_screen box_fonts active (blank_box 232 46) (blank_box 85 30) (blank_box 90 20) (blank_box 95 13)
   = Some (Inr \<lparr>rd_words = [], rd_opp_name = [], rd_opp_k = None, rd_player_name = [], rd_player_hp = None, rd_party_prompt = False, rd_active = active\<rparr>)"
proof -
  have "split_words [] = []" by code_simp
  then show ?thesis
    by (simp add: read_screen_def blank_message blank_player blank_opponent blank_bar blank_prompt no_reading_def or_empty_def)
qed

end
