(* ===== verification/PlayLoop.thy ===== *)
theory PlayLoop
  imports BattleSetup Ocr
begin

text \<open>
  The event loop of \<open>SCRIPTS/play.py\<close> (\<open>main\<close>, from the connection to the emulator on): one iteration receives an event over the
  socket and toggles the capture, starts a battle, saves a state or, on a timeout, runs a capture cycle, handles a menu that
  has just appeared and presses \<open>B\<close> to advance the text. The screen is grabbed through the frame cache of \<open>Ocr\<close>, which asks the
  emulator for a screenshot when its frame is missing or too old. The clock, the random draws, what the emulator shows and what the
  user types are the inputs of an iteration. The files that are written are lists of what was written.
\<close>

section \<open>State\<close>

text \<open>What the loop runs with: the arguments of the components, the roster, and the numbers of the configuration file.\<close>

record world =
  wd_lev :: distance
  wd_data :: game_data
  wd_names :: known_names
  wd_engine :: engine
  wd_messages :: "battle_message list"
  wd_trainers :: "trainer list"
  wd_opponent_index :: int
  wd_level_cap :: int
  wd_states_dir :: string
  wd_fonts :: loaded_fonts

record session =
  ps_live :: live
  ps_client :: client
  ps_screen :: screen_capture
  ps_active :: bool
  ps_last_capture :: rat
  ps_last_screen :: "screen_kind option"
  ps_last_b :: rat
  ps_pending :: "string option"
  ps_training :: "(battle_state \<times> pokemon_state list) list"

text \<open>
  The inputs of one iteration: the times that \<open>time.time()\<close> gives, for each grab of the screen, in order, the monotonic clock, the temporary
  file and what the emulator shows, the draws of the policy, the typed name and whether its folder exists. The capture cycle makes the grabs 0 to 3,
  the reading of the party menu the grabs 4 to 9.
\<close>

record grab =
  gr_now :: rat
  gr_path :: string
  gr_screen :: image

record tick =
  ti_now :: rat
  ti_captured_at :: rat
  ti_b_now :: rat
  ti_b_at :: rat
  ti_grab :: "nat \<Rightarrow> grab"
  ti_unit :: rat
  ti_draw :: nat
  ti_fresh :: nat
  ti_typed :: string
  ti_exists :: bool

datatype play_error = OnSocket wire_error | OnScreen capture_error | OnReading exn | InCapture live_error | BadName | FolderExists

type_synonym outcome = "(play_error + unit) \<times> session"

definition CAPTURE_INTERVAL :: rat where
  "CAPTURE_INTERVAL = 4 / 100"

definition B_PRESS_INTERVAL :: rat where
  "B_PRESS_INTERVAL = 5 / 10"

definition start_session :: "world \<Rightarrow> client \<Rightarrow> session" where
  "start_session w c = \<lparr>ps_live = power_on (wd_messages w) make_stub_battle_state no_constraints, ps_client = c, ps_screen = new_capture, ps_active = False,
     ps_last_capture = 0, ps_last_screen = None, ps_last_b = 0, ps_pending = None, ps_training = []\<rparr>"

text \<open>A computation on the socket, run on the session's client.\<close>

definition on_socket :: "'a io \<Rightarrow> session \<Rightarrow> ('a \<Rightarrow> session \<Rightarrow> outcome option) \<Rightarrow> outcome option" where
  "on_socket m s f = (case m (ps_client s) of
     None \<Rightarrow> None
   | Some (Inl e, c) \<Rightarrow> Some (Inl (OnSocket e), s\<lparr>ps_client := c\<rparr>)
   | Some (Inr x, c) \<Rightarrow> f x (s\<lparr>ps_client := c\<rparr>))"

section \<open>Grabs of the screen\<close>

text \<open>\<open>ScreenCapture.capture\<close>: the emulator is asked for a screenshot unless the cached frame is young enough.\<close>

definition needs_screenshot :: "screen_capture \<Rightarrow> rat \<Rightarrow> bool" where
  "needs_screenshot sc now \<longleftrightarrow> sc_frame sc = None \<or> FRAME_CACHE_TTL < now - sc_frame_time sc"

definition take_grab :: "grab \<Rightarrow> region \<Rightarrow> session \<Rightarrow> (image \<Rightarrow> session \<Rightarrow> outcome option) \<Rightarrow> outcome option" where
  "take_grab g r s f =
     (let cut = (\<lambda>s. case capture (ps_screen s) (gr_now g) (gr_screen g) r of
          (sc, Inl e) \<Rightarrow> Some (Inl (OnScreen e), s\<lparr>ps_screen := sc\<rparr>)
        | (sc, Inr img) \<Rightarrow> f img (s\<lparr>ps_screen := sc\<rparr>)) in
      if proper_region r \<and> needs_screenshot (ps_screen s) (gr_now g) then on_socket (screenshot (gr_path g)) s (\<lambda>_. cut) else cut s)"

fun take_grabs :: "(grab \<times> region) list \<Rightarrow> session \<Rightarrow> (image list \<Rightarrow> session \<Rightarrow> outcome option) \<Rightarrow> outcome option" where
  "take_grabs [] s f = f [] s"
| "take_grabs ((g, r) # gs) s f = take_grab g r s (\<lambda>img s. take_grabs gs s (\<lambda>imgs. f (img # imgs)))"

definition drop_frame :: "session \<Rightarrow> session" where
  "drop_frame s = s\<lparr>ps_screen := invalidate (ps_screen s)\<rparr>"

section \<open>Events\<close>

definition toggle_capture :: "world \<Rightarrow> session \<Rightarrow> session" where
  "toggle_capture w s =
     (if \<not> ps_active s
      then s\<lparr>ps_active := True, ps_live := start_capture (wd_messages w) (ps_live s), ps_last_capture := 0, ps_last_screen := None,
             ps_last_b := 0, ps_pending := None\<rparr>
      else s\<lparr>ps_active := False, ps_last_screen := None, ps_pending := None\<rparr>)"

definition begin_battle :: "world \<Rightarrow> tick \<Rightarrow> session \<Rightarrow> outcome option" where
  "begin_battle w t s =
     on_socket (build_battle_state (wd_trainers w) (wd_opponent_index w) (wd_level_cap w)) s (\<lambda>(st, cn) s.
       Some (Inr (), s\<lparr>ps_live := init_battle (wd_messages w) st cn (ti_fresh t) (ps_live s), ps_active := True, ps_last_capture := 0,
         ps_last_screen := None, ps_last_b := 0, ps_pending := None\<rparr>))"

text \<open>A folder name: not empty and without separators.\<close>

definition valid_name :: "string \<Rightarrow> bool" where
  "valid_name n \<longleftrightarrow> n \<noteq> [] \<and> CHR ''/'' \<notin> set n \<and> CHR 0x5C \<notin> set n"

definition save_state_event :: "world \<Rightarrow> tick \<Rightarrow> session \<Rightarrow> outcome option" where
  "save_state_event w t s =
     (let name = strip (ti_typed t) in
      if \<not> valid_name name then Some (Inl BadName, s)
      else if ti_exists t then Some (Inl FolderExists, s)
      else on_socket (save_state (wd_states_dir w @ ''/'' @ name @ ''/'' @ name @ ''.ss1'')) s (\<lambda>_ s. Some (Inr (), s)))"

definition save_training_event :: "world \<Rightarrow> tick \<Rightarrow> session \<Rightarrow> outcome option" where
  "save_training_event w t s =
     (let name = strip (ti_typed t) in
      if \<not> valid_name name then Some (Inl BadName, s)
      else if ti_exists t then Some (Inl FolderExists, s)
      else on_socket (build_battle_state (wd_trainers w) (wd_opponent_index w) (wd_level_cap w)) s (\<lambda>(st, _) s.
        on_socket (io_bind read_all_boxes (\<lambda>snaps. io_lift (snapshots_to_states snaps))) s (\<lambda>box s.
          Some (Inr (), s\<lparr>ps_training := ps_training s @ [(st, box)]\<rparr>))))"

text \<open>
  The capture cycle: the cached frame is dropped, the four regions are grabbed before any of them is read, and the reading goes to the
  capture.
\<close>

definition CYCLE_REGIONS :: "region list" where
  "CYCLE_REGIONS = [BATTLE_MESSAGE, PLAYER_HP, OPPONENT_HP_BAR, PROMPT_BOX]"

definition cycle_grabs :: "tick \<Rightarrow> (grab \<times> region) list" where
  "cycle_grabs t = zip (map (ti_grab t) [0..<4]) CYCLE_REGIONS"

definition read_grabs :: "world \<Rightarrow> bool \<Rightarrow> image list \<Rightarrow> reading res option" where
  "read_grabs w active imgs = (case imgs of
     [img, player_img, opp_img, prompt_img] \<Rightarrow> read_screen (wd_fonts w) active img player_img opp_img prompt_img
   | _ \<Rightarrow> None)"

definition process_grabs :: "world \<Rightarrow> tick \<Rightarrow> (bool \<times> screen_kind option \<Rightarrow> session \<Rightarrow> outcome option) \<Rightarrow> image list \<Rightarrow> session \<Rightarrow> outcome option" where
  "process_grabs w t f imgs s = (case read_grabs w (ps_active s) imgs of
       None \<Rightarrow> None
     | Some (Inl e) \<Rightarrow> Some (Inl (OnReading e), s)
     | Some (Inr rd) \<Rightarrow>
         (case do_capture (wd_lev w) (wd_data w) (wd_names w) (wd_engine w) rd (ps_live s) of
            (Inl e, lv) \<Rightarrow> Some (Inl (InCapture e), s\<lparr>ps_live := lv, ps_last_capture := ti_captured_at t\<rparr>)
          | (Inr x, lv) \<Rightarrow> f x (s\<lparr>ps_live := lv, ps_last_capture := ti_captured_at t\<rparr>)))"

definition capture_cycle :: "world \<Rightarrow> tick \<Rightarrow> session \<Rightarrow> (bool \<times> screen_kind option \<Rightarrow> session \<Rightarrow> outcome option) \<Rightarrow> outcome option" where
  "capture_cycle w t s f = take_grabs (cycle_grabs t) (drop_frame s) (process_grabs w t f)"

definition input_menu :: "screen_kind option \<Rightarrow> bool" where
  "input_menu k \<longleftrightarrow> k = Some OPTION_SELECT \<or> k = Some screen_kind.PARTY_MENU"

text \<open>The answer to a menu that has just appeared. The party menu is grabbed anew, slot by slot, and read before anything is sent.\<close>

definition menu_grabs :: "tick \<Rightarrow> (grab \<times> region) list" where
  "menu_grabs t = zip (map (ti_grab t) [4..<10]) PARTY_SLOTS"

definition answer_menu :: "world \<Rightarrow> tick \<Rightarrow> screen_kind \<Rightarrow> party_member list \<Rightarrow> session \<Rightarrow> outcome option" where
  "answer_menu w t kind members s =
     on_socket (handle_battle_screen (wd_lev w) (wd_data w) (ti_unit t) (ti_draw t) (io_return members) kind (lv_state (ps_live s)) (ps_pending s)) s
       (\<lambda>pending s. Some (Inr (), s\<lparr>ps_pending := pending, ps_last_screen := Some kind\<rparr>))"

definition open_menu :: "world \<Rightarrow> tick \<Rightarrow> screen_kind \<Rightarrow> session \<Rightarrow> outcome option" where
  "open_menu w t kind s =
     (if kind = screen_kind.PARTY_MENU
      then take_grabs (menu_grabs t) (drop_frame s) (\<lambda>imgs s. case read_party_menu (wd_fonts w) imgs of
          None \<Rightarrow> None
        | Some members \<Rightarrow> answer_menu w t kind members s)
      else answer_menu w t kind [] s)"

definition after_capture :: "world \<Rightarrow> tick \<Rightarrow> bool \<times> screen_kind option \<Rightarrow> session \<Rightarrow> outcome option" where
  "after_capture w t x s = (case x of (battle_ended, kind) \<Rightarrow>
     if battle_ended then Some (Inr (), s\<lparr>ps_active := False, ps_last_screen := None\<rparr>)
     else if input_menu kind \<and> ps_last_screen s \<noteq> kind then open_menu w t (the kind) s
     else Some (Inr (), s\<lparr>ps_last_screen := kind\<rparr>))"

definition advance_text :: "tick \<Rightarrow> session \<Rightarrow> outcome option" where
  "advance_text t s =
     (if ps_active s \<and> ps_last_screen s = None \<and> ti_b_now t - ps_last_b s \<ge> B_PRESS_INTERVAL
      then on_socket (press ''b'') s (\<lambda>_ s. Some (Inr (), s\<lparr>ps_last_b := ti_b_at t\<rparr>))
      else Some (Inr (), s))"

definition on_timeout :: "world \<Rightarrow> tick \<Rightarrow> session \<Rightarrow> outcome option" where
  "on_timeout w t s =
     (case (if ps_active s \<and> ti_now t - ps_last_capture s \<ge> CAPTURE_INTERVAL
            then capture_cycle w t s (after_capture w t) else Some (Inr (), s)) of
        None \<Rightarrow> None
      | Some (Inl e, s) \<Rightarrow> Some (Inl e, s)
      | Some (Inr _, s) \<Rightarrow> advance_text t s)"

definition play_step :: "world \<Rightarrow> tick \<Rightarrow> session \<Rightarrow> outcome option" where
  "play_step w t s = on_socket recv_event s (\<lambda>event s.
     if event = Some ''toggle_capture'' then Some (Inr (), toggle_capture w s)
     else if event = Some ''init_battle'' then begin_battle w t s
     else if event = Some ''save_state'' then save_state_event w t s
     else if event = Some ''save_training_data'' then save_training_event w t s
     else if event = None then on_timeout w t s
     else Some (Inr (), s))"

text \<open>The sessions the loop goes through; an exception ends it, and its last session counts.\<close>

inductive play_reach :: "world \<Rightarrow> client \<Rightarrow> session \<Rightarrow> bool" for w c0 where
  start: "play_reach w c0 (start_session w c0)"
| step: "play_reach w c0 s \<Longrightarrow> play_step w t s = Some (r, s') \<Longrightarrow> play_reach w c0 s'"

section \<open>The invariant of the loop\<close>

definition play_ok :: "world \<Rightarrow> session \<Rightarrow> bool" where
  "play_ok w s \<longleftrightarrow> live_reach (wd_lev w) (wd_data w) (wd_names w) (wd_engine w) (wd_messages w) (ps_live s)
     \<and> (ps_active s \<or> ps_last_screen s = None)"

lemma play_ok_client [simp]: "play_ok w (s\<lparr>ps_client := c\<rparr>) = play_ok w s"
  by (simp add: play_ok_def)

lemma play_ok_screen [simp]: "play_ok w (s\<lparr>ps_screen := sc\<rparr>) = play_ok w s" "play_ok w (drop_frame s) = play_ok w s"
  by (simp_all add: play_ok_def drop_frame_def)

lemma drop_frame_sel [simp]:
  "ps_active (drop_frame s) = ps_active s" "ps_live (drop_frame s) = ps_live s" "ps_client (drop_frame s) = ps_client s"
  "ps_last_screen (drop_frame s) = ps_last_screen s" "ps_last_b (drop_frame s) = ps_last_b s" "ps_last_capture (drop_frame s) = ps_last_capture s"
  by (simp_all add: drop_frame_def)

lemma on_socket_ok:
  assumes "on_socket m s f = Some (r, s')" "play_ok w s"
    and "\<And>x c r s'. f x (s\<lparr>ps_client := c\<rparr>) = Some (r, s') \<Longrightarrow> play_ok w s'"
  shows "play_ok w s'"
  using assms by (auto simp: on_socket_def split: option.splits prod.splits sum.splits)

lemma toggle_ok: "play_ok w s \<Longrightarrow> play_ok w (toggle_capture w s)"
  by (auto simp: toggle_capture_def play_ok_def intro: live_reach.toggle)

lemma begin_battle_ok: "begin_battle w t s = Some (r, s') \<Longrightarrow> play_ok w s \<Longrightarrow> play_ok w s'"
  unfolding begin_battle_def by (erule on_socket_ok) (auto simp: play_ok_def intro: live_reach.battle)

lemma save_state_ok: "save_state_event w t s = Some (r, s') \<Longrightarrow> play_ok w s \<Longrightarrow> play_ok w s'"
  by (auto simp: save_state_event_def Let_def split: if_splits elim!: on_socket_ok)

lemma save_training_ok:
  assumes "save_training_event w t s = Some (r, s')" "play_ok w s"
  shows "play_ok w s'"
proof (cases "\<not> valid_name (strip (ti_typed t)) \<or> ti_exists t")
  case True
  then show ?thesis using assms by (auto simp: save_training_event_def Let_def split: if_splits)
next
  case False
  then have "on_socket (build_battle_state (wd_trainers w) (wd_opponent_index w) (wd_level_cap w)) s (\<lambda>(st, _) s.
        on_socket (io_bind read_all_boxes (\<lambda>snaps. io_lift (snapshots_to_states snaps))) s (\<lambda>box s.
          Some (Inr (), s\<lparr>ps_training := ps_training s @ [(st, box)]\<rparr>))) = Some (r, s')"
    using assms(1) by (simp add: save_training_event_def Let_def)
  then show ?thesis using assms(2)
    by (elim on_socket_ok) (auto simp: play_ok_def split: prod.splits elim!: on_socket_ok[unfolded play_ok_def])
qed

text \<open>Grabs change nothing but the client and the cached frame.\<close>

lemma take_grab_ok:
  assumes "take_grab g r s f = Some (y, s')" "play_ok w s"
    and "\<And>img c sc y s'. f img (s\<lparr>ps_client := c, ps_screen := sc\<rparr>) = Some (y, s') \<Longrightarrow> play_ok w s'"
  shows "play_ok w s'"
proof -
  have same: "s\<lparr>ps_screen := sc\<rparr> = s\<lparr>ps_client := ps_client s, ps_screen := sc\<rparr>" for sc by simp
  have cont: "play_ok w s'" if "f img (s\<lparr>ps_screen := sc\<rparr>) = Some (y, s')" for img sc y s'
    using assms(3) that unfolding same by blast
  show ?thesis
  proof (cases "proper_region r \<and> needs_screenshot (ps_screen s) (gr_now g)")
    case True
    then show ?thesis using assms unfolding take_grab_def Let_def
      by (auto elim!: on_socket_ok split: prod.splits sum.splits)
  next
    case False
    then show ?thesis using assms(1,2) cont unfolding take_grab_def Let_def by (auto split: prod.splits sum.splits)
  qed
qed

lemma take_grabs_ok:
  assumes "take_grabs gs s f = Some (y, s')" "play_ok w s"
    and "\<And>imgs c sc y s'. f imgs (s\<lparr>ps_client := c, ps_screen := sc\<rparr>) = Some (y, s') \<Longrightarrow> play_ok w s'"
  shows "play_ok w s'"
  using assms
proof (induction gs arbitrary: s f y s')
  case Nil
  have "s = s\<lparr>ps_client := ps_client s, ps_screen := ps_screen s\<rparr>" by simp
  then show ?case using Nil by (metis take_grabs.simps(1))
next
  case (Cons x gs)
  obtain g q where x: "x = (g, q)" by (cases x)
  show ?case
  proof (rule take_grab_ok[OF Cons.prems(1)[unfolded x take_grabs.simps] Cons.prems(2)])
    fix img c sc y1 s1
    assume "take_grabs gs (s\<lparr>ps_client := c, ps_screen := sc\<rparr>) (\<lambda>imgs. f (img # imgs)) = Some (y1, s1)"
    then show "play_ok w s1"
    proof (rule Cons.IH)
      show "play_ok w (s\<lparr>ps_client := c, ps_screen := sc\<rparr>)" using Cons.prems(2) by simp
      show "play_ok w s2" if "f (img # imgs) (s\<lparr>ps_client := c, ps_screen := sc, ps_client := c', ps_screen := sc'\<rparr>) = Some (y2, s2)" for imgs c' sc' y2 s2
        using Cons.prems(3)[of "img # imgs" sc' c'] that by simp
    qed
  qed
qed

lemma answer_menu_ok: "answer_menu w t kind members s = Some (y, s') \<Longrightarrow> play_ok w s \<Longrightarrow> ps_active s \<Longrightarrow> play_ok w s'"
  by (auto simp: answer_menu_def play_ok_def on_socket_def split: option.splits prod.splits sum.splits)

lemma open_menu_ok:
  assumes "open_menu w t kind s = Some (y, s')" "play_ok w s" "ps_active s"
  shows "play_ok w s'"
proof (cases "kind = screen_kind.PARTY_MENU")
  case True
  then have "take_grabs (menu_grabs t) (drop_frame s) (\<lambda>imgs s. case read_party_menu (wd_fonts w) imgs of
      None \<Rightarrow> None | Some members \<Rightarrow> answer_menu w t kind members s) = Some (y, s')"
    using assms(1) unfolding open_menu_def True by simp
  then show ?thesis
  proof (rule take_grabs_ok)
    show "play_ok w (drop_frame s)" using assms(2) by simp
  next
    fix imgs c sc y s'
    assume "(case read_party_menu (wd_fonts w) imgs of None \<Rightarrow> None
      | Some members \<Rightarrow> answer_menu w t kind members (drop_frame s\<lparr>ps_client := c, ps_screen := sc\<rparr>)) = Some (y, s')"
    then show "play_ok w s'" using assms(2,3) by (auto elim!: answer_menu_ok split: option.splits)
  qed
next
  case False
  then show ?thesis using assms answer_menu_ok by (simp add: open_menu_def)
qed

lemma after_capture_ok:
  assumes "after_capture w t x s = Some (y, s')" "play_ok w s" "ps_active s"
  shows "play_ok w s'"
proof -
  obtain ended kind where x: "x = (ended, kind)" by (cases x)
  show ?thesis
  proof (cases "\<not> ended \<and> input_menu kind \<and> ps_last_screen s \<noteq> kind")
    case True
    then have "open_menu w t (the kind) s = Some (y, s')" using assms(1) x by (simp add: after_capture_def)
    then show ?thesis using assms(2,3) by (rule open_menu_ok)
  next
    case False
    then show ?thesis using assms x by (auto simp: after_capture_def play_ok_def split: if_splits)
  qed
qed

lemma process_grabs_cases:
  assumes "process_grabs w t f imgs s = Some (y, s')"
  shows "(\<exists>e. y = Inl (OnReading e) \<and> s' = s)
    \<or> (\<exists>rd z lv. do_capture (wd_lev w) (wd_data w) (wd_names w) (wd_engine w) rd (ps_live s) = (z, lv)
        \<and> (let s1 = s\<lparr>ps_live := lv, ps_last_capture := ti_captured_at t\<rparr> in
             (\<exists>e. z = Inl e \<and> y = Inl (InCapture e) \<and> s' = s1) \<or> (\<exists>x. z = Inr x \<and> f x s1 = Some (y, s'))))"
proof -
  obtain q where q: "read_grabs w (ps_active s) imgs = Some q" using assms by (auto simp: process_grabs_def split: option.splits)
  show ?thesis
  proof (cases q)
    case (Inl e)
    then show ?thesis using assms q by (auto simp: process_grabs_def)
  next
    case (Inr rd)
    obtain z lv where run: "do_capture (wd_lev w) (wd_data w) (wd_names w) (wd_engine w) rd (ps_live s) = (z, lv)" by fastforce
    show ?thesis
      by (rule disjI2, rule exI[of _ rd], rule exI[of _ z], rule exI[of _ lv]) (use assms q Inr run in \<open>cases z; simp add: process_grabs_def Let_def\<close>)
  qed
qed

lemma process_grabs_ok:
  assumes "process_grabs w t (after_capture w t) imgs s = Some (y, s')" "play_ok w s" "ps_active s"
  shows "play_ok w s'"
proof -
  have ok: "play_ok w (s\<lparr>ps_live := snd (do_capture (wd_lev w) (wd_data w) (wd_names w) (wd_engine w) rd (ps_live s)), ps_last_capture := ti_captured_at t\<rparr>)" for rd
    using assms(2) by (auto simp: play_ok_def intro: live_reach.cycle)
  from process_grabs_cases[OF assms(1)] consider (failed) "s' = s"
    | (run) rd z lv where "do_capture (wd_lev w) (wd_data w) (wd_names w) (wd_engine w) rd (ps_live s) = (z, lv)"
      "s' = s\<lparr>ps_live := lv, ps_last_capture := ti_captured_at t\<rparr>
       \<or> (\<exists>x. after_capture w t x (s\<lparr>ps_live := lv, ps_last_capture := ti_captured_at t\<rparr>) = Some (y, s'))"
    unfolding Let_def by blast
  then show ?thesis
  proof cases
    case failed
    then show ?thesis using assms(2) by simp
  next
    case run
    then show ?thesis using ok[of rd] assms(3) after_capture_ok by auto
  qed
qed

lemma capture_cycle_ok:
  assumes "capture_cycle w t s (after_capture w t) = Some (y, s')" "play_ok w s" "ps_active s"
  shows "play_ok w s'"
  using assms(1) unfolding capture_cycle_def
  by (rule take_grabs_ok) (use assms(2,3) in \<open>auto elim!: process_grabs_ok\<close>)

lemma advance_text_ok: "advance_text t s = Some (r, s') \<Longrightarrow> play_ok w s \<Longrightarrow> play_ok w s'"
  by (auto simp: advance_text_def play_ok_def on_socket_def split: if_splits option.splits prod.splits sum.splits)

lemma on_timeout_ok:
  assumes "on_timeout w t s = Some (r, s')" "play_ok w s"
  shows "play_ok w s'"
proof -
  define first where "first = (if ps_active s \<and> ti_now t - ps_last_capture s \<ge> CAPTURE_INTERVAL
      then capture_cycle w t s (after_capture w t) else Some (Inr (), s))"
  have ok: "play_ok w s1" if "first = Some (y, s1)" for y s1
    using that assms(2) capture_cycle_ok[of w t s y s1] by (auto simp: first_def split: if_splits)
  show ?thesis
  proof (cases first)
    case None
    then show ?thesis using assms(1) by (simp add: on_timeout_def first_def)
  next
    case (Some z)
    then show ?thesis using assms(1) ok advance_text_ok unfolding on_timeout_def first_def[symmetric]
      by (cases z; cases "fst z") auto
  qed
qed

lemma play_step_ok:
  assumes "play_step w t s = Some (r, s')" "play_ok w s"
  shows "play_ok w s'"
  using assms(1) unfolding play_step_def
  by (rule on_socket_ok[OF _ assms(2)])
    (use assms(2) toggle_ok begin_battle_ok save_state_ok save_training_ok on_timeout_ok in \<open>force split: if_splits\<close>)

lemma play_reach_ok: "play_reach w c0 s \<Longrightarrow> play_ok w s"
proof (induction rule: play_reach.induct)
  case start
  then show ?case by (simp add: play_ok_def start_session_def live_reach.on)
next
  case (step s t r s')
  then show ?case using play_step_ok by blast
qed

section \<open>What the loop sends\<close>

text \<open>A computation that only appends to what was sent.\<close>

definition extends :: "'a io \<Rightarrow> bool" where
  "extends m \<longleftrightarrow> (\<forall>c r c'. m c = Some (r, c') \<longrightarrow> (\<exists>fs. cl_sent c' = cl_sent c @ fs))"

named_theorems extends_rules

lemma extendsD: "extends m \<Longrightarrow> m c = Some (r, c') \<Longrightarrow> \<exists>fs. cl_sent c' = cl_sent c @ fs"
  unfolding extends_def by blast

lemma extends_return [extends_rules]: "extends (io_return x)"
  by (simp add: extends_def io_return_def)

lemma extends_lift [extends_rules]: "extends (io_lift r)"
  by (simp add: extends_def io_lift_def io_fail_def io_return_def split: sum.splits)

lemma extends_bind [extends_rules]:
  assumes "extends m" "\<And>x. extends (f x)"
  shows "extends (io_bind m f)"
proof -
  have "\<exists>fs. cl_sent c' = cl_sent c @ fs" if run: "io_bind m f c = Some (r, c')" for c r c'
  proof -
    from run obtain y c1 where m: "m c = Some (y, c1)" by (auto simp: io_bind_def split: option.splits)
    from extendsD[OF assms(1) m] obtain fs where fs: "cl_sent c1 = cl_sent c @ fs" by blast
    show ?thesis
    proof (cases y)
      case (Inl e)
      then show ?thesis using run m fs by (simp add: io_bind_def)
    next
      case (Inr x)
      then have "f x c1 = Some (r, c')" using run m by (simp add: io_bind_def)
      from extendsD[OF assms(2) this] fs show ?thesis by auto
    qed
  qed
  then show ?thesis unfolding extends_def by blast
qed

lemma extends_send [extends_rules]: "extends (send cmd)"
proof -
  have "extends (raw_send cmd)" by (auto simp: extends_def raw_send_def receive_def io_fail_def split: if_splits)
  moreover have "extends (check_response x)" for x by (simp add: extends_def check_response_def io_fail_def io_return_def)
  ultimately show ?thesis unfolding send_def by (rule extends_bind)
qed

lemma extends_times [extends_rules]: "extends m \<Longrightarrow> extends (io_times n m)"
  by (induction n) (auto intro: extends_rules)

lemma extends_press [extends_rules]: "extends (press key)" "extends (press_held key)"
  by (auto simp: press_def press_held_def add_key_def clear_key_def intro!: extends_rules)

lemma extends_handler:
  assumes "extends reader"
  shows "extends (handle_battle_screen lev gd u k reader kind st pending)"
proof (cases kind)
  case OPTION_SELECT
  then show ?thesis
    by (auto simp: handle_battle_screen_def handle_option_select_def send_move_input_def intro!: extends_rules split: decision.split option.split)
next
  case MOVE_SELECT
  then show ?thesis by (simp add: handle_battle_screen_def extends_rules)
next
  case PARTY_MENU
  then show ?thesis using assms
    by (auto simp: handle_battle_screen_def handle_party_menu_def send_party_selection_def intro!: extends_rules split: option.split)
qed

lemma sends_screenshot: "sends (screenshot path) [''screenshot '' @ path @ END_MARK]"
  using sends_send[of "''screenshot '' @ path"] by (simp add: screenshot_def)

lemma advance_text_frames:
  assumes "advance_text t s = Some (Inr (), s')"
  shows "cl_sent (ps_client s') = cl_sent (ps_client s)
      @ (if ps_active s' \<and> ps_last_screen s' = None \<and> B_PRESS_INTERVAL \<le> ti_b_now t - ps_last_b s then press_frames ''b'' else [])
    \<and> ps_active s' = ps_active s \<and> ps_last_screen s' = ps_last_screen s"
  using assms sendsD[OF sends_press(1)[of "''b''"]]
  by (auto simp: advance_text_def on_socket_def split: if_splits option.splits prod.splits sum.splits)

text \<open>
  The grabs that ask for a screenshot, stated on the clock alone: the first one when there is no frame, and each one that comes more than a tenth of a
  second after the last of them.
\<close>

fun renewals :: "rat option \<Rightarrow> grab list \<Rightarrow> grab list" where
  "renewals since [] = []"
| "renewals since (g # gs) = (if since = None \<or> 1 / 10 < gr_now g - the since then g # renewals (Some (gr_now g)) gs else renewals since gs)"

definition shot_frame :: "grab \<Rightarrow> string" where
  "shot_frame g = ''screenshot '' @ gr_path g @ END_MARK"

definition frame_age :: "screen_capture \<Rightarrow> rat option" where
  "frame_age sc = (case sc_frame sc of None \<Rightarrow> None | Some _ \<Rightarrow> Some (sc_frame_time sc))"

lemma needs_screenshot_age: "needs_screenshot sc now \<longleftrightarrow> frame_age sc = None \<or> 1 / 10 < now - the (frame_age sc)"
  by (simp add: needs_screenshot_def frame_age_def FRAME_CACHE_TTL_def split: option.split)

lemma frame_age_dropped [simp]: "frame_age (ps_screen (drop_frame s)) = None"
  by (simp add: drop_frame_def frame_age_def invalidate_def)

lemma renewals_Nil: "list_all (\<lambda>g. gr_now g - u \<le> 1 / 10) gs \<Longrightarrow> renewals (Some u) gs = []"
  by (induction gs) simp_all

lemma renewals_subset: "set (renewals since gs) \<subseteq> set gs" "length (renewals since gs) \<le> length gs"
  by (induction gs arbitrary: since) (auto simp: le_SucI)

lemma capture_age:
  assumes "capture sc now screen q = (sc', Inr img)"
  shows "frame_age sc' = (if needs_screenshot sc now then Some now else frame_age sc)"
  using assms by (cases "sc_frame sc")
    (auto simp: capture_def current_frame_def frame_age_def needs_screenshot_def split: prod.splits if_splits)

lemma take_grab_frames:
  assumes "take_grab g q s f = Some (Inr (), s')" "proper_region q"
  obtains img c sc where "f img (s\<lparr>ps_client := c, ps_screen := sc\<rparr>) = Some (Inr (), s')"
    "cl_sent c = cl_sent (ps_client s) @ (if needs_screenshot (ps_screen s) (gr_now g) then [shot_frame g] else [])"
    "frame_age sc = (if needs_screenshot (ps_screen s) (gr_now g) then Some (gr_now g) else frame_age (ps_screen s))"
proof (cases "needs_screenshot (ps_screen s) (gr_now g)")
  case True
  then obtain c sc img where shot: "screenshot (gr_path g) (ps_client s) = Some (Inr (), c)"
    and cut: "capture (ps_screen s) (gr_now g) (gr_screen g) q = (sc, Inr img)"
    and rest: "f img (s\<lparr>ps_client := c, ps_screen := sc\<rparr>) = Some (Inr (), s')"
    using assms by (auto simp: take_grab_def Let_def on_socket_def split: option.splits prod.splits sum.splits)
  have "cl_sent c = cl_sent (ps_client s) @ [shot_frame g]" using sendsD[OF sends_screenshot shot] by (simp add: shot_frame_def)
  then show thesis using that[OF rest] capture_age[OF cut] True by simp
next
  case False
  then obtain sc img where cut: "capture (ps_screen s) (gr_now g) (gr_screen g) q = (sc, Inr img)"
    and rest: "f img (s\<lparr>ps_client := ps_client s, ps_screen := sc\<rparr>) = Some (Inr (), s')"
    using assms by (auto simp: take_grab_def Let_def split: prod.splits sum.splits)
  show thesis using that[OF rest] capture_age[OF cut] False by simp
qed

lemma take_grabs_frames:
  assumes "take_grabs gs s f = Some (Inr (), s')" "list_all (\<lambda>x. proper_region (snd x)) gs"
  shows "\<exists>imgs c sc. f imgs (s\<lparr>ps_client := c, ps_screen := sc\<rparr>) = Some (Inr (), s')
    \<and> cl_sent c = cl_sent (ps_client s) @ map shot_frame (renewals (frame_age (ps_screen s)) (map fst gs))"
  using assms
proof (induction gs arbitrary: s f)
  case Nil
  have "s = s\<lparr>ps_client := ps_client s, ps_screen := ps_screen s\<rparr>" by simp
  then show ?case using Nil by (metis append_Nil2 list.simps(8) renewals.simps(1) take_grabs.simps(1))
next
  case (Cons x gs)
  obtain g q where x: "x = (g, q)" by (cases x)
  from Cons.prems x have step: "take_grab g q s (\<lambda>img s. take_grabs gs s (\<lambda>imgs. f (img # imgs))) = Some (Inr (), s')" "proper_region q" by simp_all
  from step obtain img c sc where rest: "take_grabs gs (s\<lparr>ps_client := c, ps_screen := sc\<rparr>) (\<lambda>imgs. f (img # imgs)) = Some (Inr (), s')"
    and sent: "cl_sent c = cl_sent (ps_client s) @ (if needs_screenshot (ps_screen s) (gr_now g) then [shot_frame g] else [])"
    and age: "frame_age sc = (if needs_screenshot (ps_screen s) (gr_now g) then Some (gr_now g) else frame_age (ps_screen s))"
    by (rule take_grab_frames)
  from Cons.IH[OF rest] Cons.prems(2) obtain imgs c' sc' where "f (img # imgs) (s\<lparr>ps_client := c', ps_screen := sc'\<rparr>) = Some (Inr (), s')"
    "cl_sent c' = cl_sent c @ map shot_frame (renewals (frame_age sc) (map fst gs))" by auto
  moreover have "(if needs_screenshot (ps_screen s) (gr_now g) then [shot_frame g] else []) @ map shot_frame (renewals (frame_age sc) (map fst gs))
      = map shot_frame (renewals (frame_age (ps_screen s)) (map fst (x # gs)))"
    using age by (simp add: x needs_screenshot_age)
  ultimately show ?case using sent by (metis append_assoc)
qed

lemma grab_regions:
  "list_all (\<lambda>x. proper_region (snd x)) (cycle_grabs t)" "map fst (cycle_grabs t) = map (ti_grab t) [0..<4]"
  "list_all (\<lambda>x. proper_region (snd x)) (menu_grabs t)" "map fst (menu_grabs t) = map (ti_grab t) [4..<10]"
  by (simp_all add: cycle_grabs_def menu_grabs_def CYCLE_REGIONS_def PARTY_SLOTS_def BATTLE_MESSAGE_def PLAYER_HP_def OPPONENT_HP_BAR_def PROMPT_BOX_def
      proper_region_def numeral_eq_Suc upt_rec)

lemma answer_menu_frames:
  assumes "answer_menu w t kind members s = Some (Inr (), s')"
  shows "\<exists>keys. cl_sent (ps_client s') = cl_sent (ps_client s) @ keys \<and> ps_last_b s' = ps_last_b s
    \<and> ps_active s' = ps_active s \<and> ps_last_screen s' = Some kind"
proof -
  let ?m = "handle_battle_screen (wd_lev w) (wd_data w) (ti_unit t) (ti_draw t) (io_return members) kind (lv_state (ps_live s)) (ps_pending s)"
  from assms obtain pending c where run: "?m (ps_client s) = Some (Inr pending, c)"
    and s': "s' = s\<lparr>ps_client := c, ps_pending := pending, ps_last_screen := Some kind\<rparr>"
    by (auto simp: answer_menu_def on_socket_def split: option.splits prod.splits sum.splits)
  from extendsD[OF extends_handler[OF extends_return] run] show ?thesis using s' by auto
qed

lemma open_menu_frames:
  assumes "open_menu w t kind s = Some (Inr (), s')"
  shows "\<exists>keys. cl_sent (ps_client s') = cl_sent (ps_client s)
      @ map shot_frame (if kind = screen_kind.PARTY_MENU then renewals None (map (ti_grab t) [4..<10]) else []) @ keys
    \<and> ps_last_b s' = ps_last_b s \<and> ps_active s' = ps_active s \<and> ps_last_screen s' = Some kind"
proof (cases "kind = screen_kind.PARTY_MENU")
  case True
  then have "take_grabs (menu_grabs t) (drop_frame s) (\<lambda>imgs s. case read_party_menu (wd_fonts w) imgs of
      None \<Rightarrow> None | Some members \<Rightarrow> answer_menu w t kind members s) = Some (Inr (), s')"
    using assms unfolding open_menu_def True by simp
  from take_grabs_frames[OF this grab_regions(3)] obtain imgs c sc members where
    answer: "answer_menu w t kind members (drop_frame s\<lparr>ps_client := c, ps_screen := sc\<rparr>) = Some (Inr (), s')"
    and sent: "cl_sent c = cl_sent (ps_client s) @ map shot_frame (renewals None (map (ti_grab t) [4..<10]))"
    by (auto simp: grab_regions split: option.splits)
  from answer_menu_frames[OF answer] sent True show ?thesis by auto
next
  case False
  then show ?thesis using assms answer_menu_frames[of w t kind "[]" s s'] by (simp add: open_menu_def)
qed

text \<open>A menu that the iteration has just found, and answers.\<close>

definition menu_appeared :: "session \<Rightarrow> session \<Rightarrow> bool" where
  "menu_appeared s s' \<longleftrightarrow> input_menu (ps_last_screen s') \<and> ps_last_screen s' \<noteq> ps_last_screen s"

lemma after_capture_frames:
  assumes "after_capture w t x s = Some (Inr (), s1)"
  shows "\<exists>keys. cl_sent (ps_client s1) = cl_sent (ps_client s)
      @ map shot_frame (if menu_appeared s s1 \<and> ps_last_screen s1 = Some screen_kind.PARTY_MENU then renewals None (map (ti_grab t) [4..<10]) else []) @ keys
    \<and> ps_last_b s1 = ps_last_b s \<and> (keys = [] \<or> menu_appeared s s1)"
proof -
  obtain ended kind where x: "x = (ended, kind)" by (cases x)
  show ?thesis
  proof (cases "\<not> ended \<and> input_menu kind \<and> ps_last_screen s \<noteq> kind")
    case True
    then obtain k where k: "kind = Some k" by (auto simp: input_menu_def)
    have "open_menu w t k s = Some (Inr (), s1)" using assms x True k by (simp add: after_capture_def)
    from open_menu_frames[OF this] obtain keys where keys: "cl_sent (ps_client s1) = cl_sent (ps_client s)
        @ map shot_frame (if k = screen_kind.PARTY_MENU then renewals None (map (ti_grab t) [4..<10]) else []) @ keys"
      "ps_last_b s1 = ps_last_b s" "ps_last_screen s1 = Some k" by blast
    have "menu_appeared s s1" using True k keys(3) by (auto simp: menu_appeared_def)
    then show ?thesis using keys by (intro exI[of _ keys]) (simp del: upt_conv_Cons)
  next
    case False
    then have "ps_client s1 = ps_client s \<and> ps_last_b s1 = ps_last_b s \<and> \<not> menu_appeared s s1"
      using assms x by (auto simp: after_capture_def menu_appeared_def input_menu_def split: if_splits)
    then show ?thesis by simp
  qed
qed

lemma capture_cycle_frames:
  assumes "capture_cycle w t s (after_capture w t) = Some (Inr (), s1)"
  shows "\<exists>keys. cl_sent (ps_client s1) = cl_sent (ps_client s) @ map shot_frame (renewals None (map (ti_grab t) [0..<4]))
      @ map shot_frame (if menu_appeared s s1 \<and> ps_last_screen s1 = Some screen_kind.PARTY_MENU then renewals None (map (ti_grab t) [4..<10]) else []) @ keys
    \<and> ps_last_b s1 = ps_last_b s \<and> (keys = [] \<or> menu_appeared s s1)"
proof -
  from take_grabs_frames[OF assms[unfolded capture_cycle_def] grab_regions(1)] obtain imgs c sc where
    grabbed: "process_grabs w t (after_capture w t) imgs (drop_frame s\<lparr>ps_client := c, ps_screen := sc\<rparr>) = Some (Inr (), s1)"
    and sent: "cl_sent c = cl_sent (ps_client s) @ map shot_frame (renewals None (map (ti_grab t) [0..<4]))"
    by (auto simp: grab_regions)
  from process_grabs_cases[OF grabbed] obtain x lv where
    rest: "after_capture w t x (drop_frame s\<lparr>ps_client := c, ps_screen := sc, ps_live := lv, ps_last_capture := ti_captured_at t\<rparr>) = Some (Inr (), s1)"
    unfolding Let_def by auto
  from after_capture_frames[OF rest] sent show ?thesis by (auto simp: menu_appeared_def)
qed

text \<open>
  C15: What an iteration without an event sends. With the capture off it sends nothing. With the capture on and the interval passed, it asks for a
  screenshot at the first of the four grabs and at each further one that comes more than a tenth of a second after the last it asked for - one
  to four in all, and one when the four come within a tenth of a second; before the interval it asks for none. For a menu it asks for more and sends keys only
  when that menu has just appeared, so a menu that stays on the screen is answered once, and only the party menu is grabbed again. And it presses \<open>B\<close> exactly
  when no menu is on the screen, the capture is still on and the interval has passed, so never on a menu.
\<close>

theorem input_discipline:
  assumes "on_timeout w t s = Some (Inr (), s')"
  shows "\<exists>shots menu_shots keys. cl_sent (ps_client s') = cl_sent (ps_client s) @ map shot_frame (shots @ menu_shots) @ keys
      @ (if ps_active s' \<and> ps_last_screen s' = None \<and> B_PRESS_INTERVAL \<le> ti_b_now t - ps_last_b s then press_frames ''b'' else [])
    \<and> (let due = (ps_active s \<and> CAPTURE_INTERVAL \<le> ti_now t - ps_last_capture s) in
         shots = (if due then renewals None (map (ti_grab t) [0..<4]) else [])
       \<and> (due \<longrightarrow> hd shots = ti_grab t 0 \<and> length shots \<in> {1..4})
       \<and> (due \<and> (\<forall>k < 4. gr_now (ti_grab t k) - gr_now (ti_grab t 0) \<le> 1 / 10) \<longrightarrow> shots = [ti_grab t 0])
       \<and> menu_shots = (if due \<and> menu_appeared s s' \<and> ps_last_screen s' = Some screen_kind.PARTY_MENU
            then renewals None (map (ti_grab t) [4..<10]) else [])
       \<and> (keys = [] \<or> due \<and> menu_appeared s s'))
    \<and> (ps_active s \<or> \<not> ps_active s' \<and> ps_last_screen s' = ps_last_screen s)"
proof -
  have four: "map (ti_grab t) [0..<4] = ti_grab t 0 # map (ti_grab t) [1..<4]" by (simp add: upt_rec[of 0])
  have first: "hd (renewals None (map (ti_grab t) [0..<4])) = ti_grab t 0 \<and> length (renewals None (map (ti_grab t) [0..<4])) \<in> {1..4}"
    using renewals_subset(2)[of "Some (gr_now (ti_grab t 0))" "map (ti_grab t) [1..<4]"] unfolding four by simp
  have young: "renewals None (map (ti_grab t) [0..<4]) = [ti_grab t 0]" if "\<forall>k < 4. gr_now (ti_grab t k) - gr_now (ti_grab t 0) \<le> 1 / 10"
    unfolding four renewals.simps using that by (simp add: renewals_Nil list_all_iff)
  show ?thesis
  proof (cases "ps_active s \<and> CAPTURE_INTERVAL \<le> ti_now t - ps_last_capture s")
    case False
    then have "advance_text t s = Some (Inr (), s')" using assms(1) by (auto simp: on_timeout_def)
    from advance_text_frames[OF this] False show ?thesis by (intro exI[of _ "[]"]) (auto simp: Let_def)
  next
    case True
    then obtain s1 where cycle: "capture_cycle w t s (after_capture w t) = Some (Inr (), s1)" and b: "advance_text t s1 = Some (Inr (), s')"
      using assms(1) by (auto simp: on_timeout_def split: option.splits prod.splits sum.splits)
    have same: "menu_appeared s s1 = menu_appeared s s'" "ps_last_screen s1 = ps_last_screen s'"
      using advance_text_frames[OF b] by (auto simp: menu_appeared_def)
    from capture_cycle_frames[OF cycle] obtain keys where keys: "cl_sent (ps_client s1) = cl_sent (ps_client s) @ map shot_frame (renewals None (map (ti_grab t) [0..<4]))
      @ map shot_frame (if menu_appeared s s' \<and> ps_last_screen s' = Some screen_kind.PARTY_MENU then renewals None (map (ti_grab t) [4..<10]) else []) @ keys"
      "ps_last_b s1 = ps_last_b s" "keys = [] \<or> menu_appeared s s'"
      unfolding same by blast
    show ?thesis
      by (rule exI[of _ "renewals None (map (ti_grab t) [0..<4])"],
          rule exI[of _ "if menu_appeared s s' \<and> ps_last_screen s' = Some screen_kind.PARTY_MENU then renewals None (map (ti_grab t) [4..<10]) else []"],
          rule exI[of _ keys])
        (use True keys advance_text_frames[OF b] first young in \<open>simp add: Let_def\<close>)
  qed
qed

text \<open>
  The invariant of the event loop, whatever events, screens and answers come in, exceptions included. The live state
  is one that the capture cycle can reach, so that it keeps its own invariant: turns, pool and recorded session are consistent. While the capture is off no menu counts as handled, so
  the first menu after it is switched on is answered.
\<close>

theorem play_loop_invariant:
  assumes "play_reach w c0 s"
  shows "live_ok (ps_live s) \<and> (ps_active s \<or> ps_last_screen s = None)"
proof -
  note ok = play_reach_ok[OF assms, unfolded play_ok_def]
  show ?thesis using live_reach_ok[OF conjunct1[OF ok]] conjunct2[OF ok] by simp
qed

section \<open>Witnesses\<close>

definition sample_world :: world where
  "sample_world = \<lparr>wd_lev = levenshtein, wd_data = sample_data, wd_names = no_names, wd_engine = idle_engine, wd_messages = [],
     wd_trainers = [], wd_opponent_index = 0, wd_level_cap = 50, wd_states_dir = ''States'', wd_fonts = box_fonts\<rparr>"

text \<open>A blank screen, with three grabs in time and a fourth that comes too late for the cached frame.\<close>

definition sample_grab :: "nat \<Rightarrow> grab" where
  "sample_grab k = \<lparr>gr_now = (if k < 2 then 2 else if k = 2 then 201 / 100 else 215 / 100),
     gr_path = (if k = 0 then ''a.png'' else ''b.png''), gr_screen = blank_box 240 160\<rparr>"

definition blank_tick :: tick where
  "blank_tick = \<lparr>ti_now = 1, ti_captured_at = 1, ti_b_now = 1, ti_b_at = 1, ti_grab = sample_grab, ti_unit = 1, ti_draw = 0, ti_fresh = 0,
     ti_typed = [], ti_exists = False\<rparr>"

definition ok_reply :: recv where
  "ok_reply = Chunk (SUCCESS_PREFIX @ END_MARK)"

definition ready_client :: "nat \<Rightarrow> string list \<Rightarrow> client" where
  "ready_client n sent = fresh_client\<lparr>cl_in := replicate n ok_reply, cl_sent := sent\<rparr>"

definition capturing :: session where
  "capturing = toggle_capture sample_world (start_session sample_world (ready_client 4 []))"

lemma sample_cycle:
  "take_grabs (cycle_grabs blank_tick) (drop_frame capturing) f
   = f [blank_box 232 46, blank_box 85 30, blank_box 90 20, blank_box 95 13]
       (capturing\<lparr>ps_client := ready_client 2 [''screenshot a.png'' @ END_MARK, ''screenshot b.png'' @ END_MARK],
          ps_screen := \<lparr>sc_frame = Some (blank_box 240 160), sc_frame_time = 215 / 100\<rparr>\<rparr>)"
proof -
  have grabs: "cycle_grabs blank_tick = [(sample_grab 0, BATTLE_MESSAGE), (sample_grab 1, PLAYER_HP), (sample_grab 2, OPPONENT_HP_BAR), (sample_grab 3, PROMPT_BOX)]"
    by (simp add: cycle_grabs_def blank_tick_def CYCLE_REGIONS_def numeral_eq_Suc upt_rec)
  define c3 where "c3 = ready_client 3 [''screenshot a.png'' @ END_MARK]"
  define c2 where "c2 = ready_client 2 [''screenshot a.png'' @ END_MARK, ''screenshot b.png'' @ END_MARK]"
  have shots: "screenshot ''a.png'' (ready_client 4 []) = Some (Inr (), c3)" "screenshot ''b.png'' c3 = Some (Inr (), c2)"
    unfolding c3_def c2_def by code_simp+
  have start: "ps_client capturing = ready_client 4 []"
    by (simp add: capturing_def toggle_capture_def start_session_def)
  have screen: "ps_screen capturing\<lparr>sc_frame := x, sc_frame_time := y\<rparr> = \<lparr>sc_frame = x, sc_frame_time = y\<rparr>" for x y
    by (simp add: capturing_def toggle_capture_def start_session_def new_capture_def)
  have boxes: "crop (blank_box 240 160) BATTLE_MESSAGE = blank_box 232 46" "crop (blank_box 240 160) PLAYER_HP = blank_box 85 30"
    "crop (blank_box 240 160) OPPONENT_HP_BAR = blank_box 90 20" "crop (blank_box 240 160) PROMPT_BOX = blank_box 95 13"
    by (simp_all add: BATTLE_MESSAGE_def PLAYER_HP_def OPPONENT_HP_BAR_def PROMPT_BOX_def crop_blank)
  have regions: "proper_region BATTLE_MESSAGE" "proper_region PLAYER_HP" "proper_region OPPONENT_HP_BAR" "proper_region PROMPT_BOX"
    by (simp_all add: proper_region_def BATTLE_MESSAGE_def PLAYER_HP_def OPPONENT_HP_BAR_def PROMPT_BOX_def)
  have cut: "capture sc now screen q = map_prod id (\<lambda>f. Inr (crop f q)) (current_frame sc now screen)" if "proper_region q" for sc now screen q
    using that by (cases q) (simp add: capture_def proper_region_def)
  show ?thesis unfolding c2_def[symmetric]
    by (simp add: grabs take_grab_def Let_def on_socket_def drop_frame_def invalidate_def needs_screenshot_def current_frame_def FRAME_CACHE_TTL_def
        sample_grab_def cut regions boxes shots start screen)
qed

theorem input_discipline_witness:
  "\<exists>s'. on_timeout sample_world blank_tick capturing = Some (Inr (), s')
     \<and> cl_sent (ps_client s') = [''screenshot a.png'' @ END_MARK, ''screenshot b.png'' @ END_MARK] @ press_frames ''b''"
proof -
  let ?rd = "\<lparr>rd_words = [], rd_opp_name = [], rd_opp_k = None, rd_player_name = [], rd_player_hp = None, rd_party_prompt = False, rd_active = True\<rparr>"
  let ?c = "ready_client 2 [''screenshot a.png'' @ END_MARK, ''screenshot b.png'' @ END_MARK]"
  have on: "ps_active capturing \<and> ps_last_screen capturing = None \<and> CAPTURE_INTERVAL \<le> ti_now blank_tick - ps_last_capture capturing
      \<and> B_PRESS_INTERVAL \<le> ti_b_now blank_tick - ps_last_b capturing \<and> cl_sent (ps_client capturing) = []" by code_simp
  have "fst (do_capture levenshtein sample_data no_names idle_engine ?rd (ps_live capturing)) = Inr (False, None)" by code_simp
  then obtain lv where live: "do_capture levenshtein sample_data no_names idle_engine ?rd (ps_live capturing) = (Inr (False, None), lv)"
    by (metis prod.collapse)
  have "map_option fst (press ''b'' ?c) = Some (Inr ())" by code_simp
  then obtain c where b: "press ''b'' ?c = Some (Inr (), c)" by auto
  have "\<exists>s'. on_timeout sample_world blank_tick capturing = Some (Inr (), s') \<and> ps_active s' \<and> ps_last_screen s' = None"
    using on live b
    by (simp add: on_timeout_def capture_cycle_def process_grabs_def sample_cycle read_grabs_def blank_reading after_capture_def input_menu_def advance_text_def on_socket_def
        sample_world_def)
  then obtain s' where s': "on_timeout sample_world blank_tick capturing = Some (Inr (), s')" "ps_active s'" "ps_last_screen s' = None" by blast
  have shots: "map shot_frame (renewals None (map (ti_grab blank_tick) [0..<4])) = [''screenshot a.png'' @ END_MARK, ''screenshot b.png'' @ END_MARK]"
    by (simp add: blank_tick_def sample_grab_def shot_frame_def numeral_eq_Suc upt_rec)
  from input_discipline[OF s'(1)] s'(2,3) on shots s'(1) show ?thesis
    by (auto simp: Let_def menu_appeared_def input_menu_def)
qed

theorem play_loop_invariant_witness:
  "\<exists>s. play_reach sample_world (fresh_client\<lparr>cl_in := [Chunk (EVENT_PREFIX @ ''toggle_capture'' @ END_MARK)]\<rparr>) s \<and> ps_active s \<and> live_ok (ps_live s)"
proof -
  let ?c = "fresh_client\<lparr>cl_in := [Chunk (EVENT_PREFIX @ ''toggle_capture'' @ END_MARK)]\<rparr>"
  have "map_option (\<lambda>x. ps_active (snd x)) (play_step sample_world blank_tick (start_session sample_world ?c)) = Some True" by code_simp
  then obtain r s where s: "play_step sample_world blank_tick (start_session sample_world ?c) = Some (r, s)" "ps_active s" by auto
  then have "play_reach sample_world ?c s" using play_reach.intros by blast
  with s(2) play_loop_invariant[OF this] show ?thesis by blast
qed

end
