(* ===== verification/Generation.thy ===== *)
theory Generation
  imports BattleSetup
begin

text \<open>
  The generator of random battles (\<open>battle_gen.py\<close>). Its two tables, the learnsets and the abilities of the species, are generated
  files and are an argument. The draws are those of \<open>Rng\<close>: a stream of numbers for \<open>random()\<close> and of indices for \<open>choice\<close>,
  \<open>sample\<close> and \<open>randint\<close>. A sample draws from what is left; the stones of a species are in the order of their table.
\<close>

section \<open>Tables\<close>

record learn_entry =
  le_levelup :: "int option"
  le_tm :: bool
  le_tutor :: bool
  le_egg :: bool

record ability_entry =
  ae_normal :: "string list"
  ae_hidden :: "string list"

record gen_tables =
  gt_learnsets :: "(string \<times> (string \<times> learn_entry) list) list"
  gt_abilities :: "(string \<times> ability_entry) list"

definition CURATED_NAMES :: "string list" where
  "CURATED_NAMES = [
     ''SITRUS_BERRY'', ''LUM_BERRY'', ''ORAN_BERRY'', ''CHERI_BERRY'', ''CHESTO_BERRY'', ''PECHA_BERRY'', ''RAWST_BERRY'',
     ''ASPEAR_BERRY'', ''LEPPA_BERRY'', ''PERSIM_BERRY'', ''FIGY_BERRY'', ''WIKI_BERRY'', ''MAGO_BERRY'', ''AGUAV_BERRY'',
     ''IAPAPA_BERRY'', ''LIECHI_BERRY'', ''GANLON_BERRY'', ''SALAC_BERRY'', ''PETAYA_BERRY'', ''APICOT_BERRY'', ''LANSAT_BERRY'',
     ''STARF_BERRY'', ''CUSTAP_BERRY'', ''KEE_BERRY'', ''MARANGA_BERRY'', ''OCCA_BERRY'', ''PASSHO_BERRY'', ''WACAN_BERRY'',
     ''RINDO_BERRY'', ''YACHE_BERRY'', ''CHOPLE_BERRY'', ''KEBIA_BERRY'', ''SHUCA_BERRY'', ''COBA_BERRY'', ''PAYAPA_BERRY'',
     ''TANGA_BERRY'', ''CHARTI_BERRY'', ''KASIB_BERRY'', ''HABAN_BERRY'', ''COLBUR_BERRY'', ''BABIRI_BERRY'', ''CHILAN_BERRY'',
     ''ROSELI_BERRY'', ''NORMAL_GEM'', ''FIRE_GEM'', ''WATER_GEM'', ''GRASS_GEM'', ''ELECTRIC_GEM'', ''ICE_GEM'', ''FIGHTING_GEM'',
     ''POISON_GEM'', ''GROUND_GEM'', ''FLYING_GEM'', ''PSYCHIC_GEM'', ''BUG_GEM'', ''ROCK_GEM'', ''GHOST_GEM'', ''DRAGON_GEM'',
     ''DARK_GEM'', ''STEEL_GEM'', ''FAIRY_GEM'', ''LEFTOVERS'', ''LIFE_ORB'', ''FOCUS_SASH'', ''FOCUS_BAND'', ''CHOICE_BAND'',
     ''CHOICE_SPECS'', ''CHOICE_SCARF'', ''ASSAULT_VEST'', ''EVIOLITE'', ''BLACK_SLUDGE'', ''ROCKY_HELMET'', ''QUICK_CLAW'', ''WIDE_LENS'',
     ''SCOPE_LENS'', ''EXPERT_BELT'', ''MUSCLE_BAND'', ''WISE_GLASSES'', ''KING_S_ROCK'', ''RAZOR_CLAW'', ''RAZOR_FANG'',
     ''BRIGHT_POWDER'', ''LAGGING_TAIL'', ''IRON_BALL'', ''AIR_BALLOON'', ''WHITE_HERB'', ''POWER_HERB'', ''BIG_ROOT'', ''LIGHT_CLAY'',
     ''DAMP_ROCK'', ''HEAT_ROCK'', ''SMOOTH_ROCK'', ''ICY_ROCK'', ''METRONOME'', ''TOXIC_ORB'', ''FLAME_ORB'', ''STICKY_BARB'',
     ''RED_CARD'', ''EJECT_BUTTON'', ''SAFETY_GOGGLES'', ''PROTECTIVE_PADS'', ''THROAT_SPRAY'', ''ADRENALINE_ORB'', ''BLUNDER_POLICY'',
     ''WEAKNESS_POLICY'', ''CHARCOAL'', ''MYSTIC_WATER'', ''MIRACLE_SEED'', ''MAGNET'', ''TWISTED_SPOON'', ''NEVER_MELT_ICE'',
     ''BLACK_BELT'', ''BLACK_GLASSES'', ''SHARP_BEAK'', ''POISON_BARB'', ''SOFT_SAND'', ''HARD_STONE'', ''SILK_SCARF'', ''SILVER_POWDER'',
     ''SPELL_TAG'', ''DRAGON_FANG'', ''METAL_COAT'']"

definition build_general_items :: "item list res" where
  "build_general_items =
     (if list_ex (\<lambda>n. map_of ITEM_MEMBERS n = None) CURATED_NAMES then Inl ValueError
      else rmap (dict_get (map_of ITEM_MEMBERS)) CURATED_NAMES)"

definition GENERAL_ITEMS :: "item list" where
  "GENERAL_ITEMS = (case build_general_items of Inr xs \<Rightarrow> xs | Inl _ \<Rightarrow> [])"

definition species_mega_stones :: "species \<Rightarrow> item list" where
  "species_mega_stones sp = map fst (filter (\<lambda>x. snd x = sp) MEGA_PRE_SPECIES)"

definition CORPUS_BANNED_SPECIES :: "string list" where
  "CORPUS_BANNED_SPECIES = [''GOLISOPOD'', ''WIMPOD'']"

definition generatable :: "gen_tables \<Rightarrow> string \<Rightarrow> bool" where
  "generatable tb name \<longleftrightarrow> (case map_of (gt_abilities tb) name of None \<Rightarrow> False | Some e \<Rightarrow> ae_normal e \<noteq> [])
     \<and> (case map_of SPECIES_MEMBERS name of None \<Rightarrow> False | Some s \<Rightarrow> SPECIES_DATA s \<noteq> None)"

definition generatable_species :: "gen_tables \<Rightarrow> string list" where
  "generatable_species tb = sort (filter (generatable tb) (map fst (gt_learnsets tb)))"

definition corpus_species_pool :: "gen_tables \<Rightarrow> string list" where
  "corpus_species_pool tb = filter (\<lambda>s. s \<notin> set CORPUS_BANNED_SPECIES) (generatable_species tb)"

section \<open>Moves\<close>

definition player_move_weight :: "learn_entry \<Rightarrow> int \<Rightarrow> rat" where
  "player_move_weight info level =
     (let best = (case le_levelup info of Some l \<Rightarrow> if l \<le> level then 1 else 0 | None \<Rightarrow> 0) in
      if le_tm info \<or> le_tutor info then max best (1 / 2) else best)"

definition add_candidate_move :: "int \<Rightarrow> bool \<Rightarrow> (move \<times> rat) list \<Rightarrow> string \<times> learn_entry \<Rightarrow> (move \<times> rat) list" where
  "add_candidate_move level is_player res x = (case map_of MOVE_MEMBERS (fst x) of
     None \<Rightarrow> res
   | Some m \<Rightarrow>
       if is_player then (let w = player_move_weight (snd x) level in if 0 < w then AList.update m w res else res)
       else AList.update m 1 res)"

definition move_candidate_weights :: "gen_tables \<Rightarrow> string \<Rightarrow> int \<Rightarrow> bool \<Rightarrow> (move \<times> rat) list res" where
  "move_candidate_weights tb name level is_player = (case map_of (gt_learnsets tb) name of
     None \<Rightarrow> Inl KeyError
   | Some ls \<Rightarrow> Inr (foldl (add_candidate_move level is_player) [] ls))"

definition rng_lift :: "'a res \<Rightarrow> 'a rng" where
  "rng_lift r env = rbind r (\<lambda>x. Inr (x, env))"

text \<open>\<open>choices(xs, k=1)[0]\<close>.\<close>

definition draw_uniform :: "'a list \<Rightarrow> 'a rng" where
  "draw_uniform xs = rng_bind draw_unit (\<lambda>u. rng_lift (lki xs \<lfloor>u * of_nat (length xs)\<rfloor>))"

definition pop_move :: "move \<Rightarrow> (move \<times> rat) list \<Rightarrow> (move \<times> rat) list" where
  "pop_move m xs = takeWhile (\<lambda>x. fst x \<noteq> m) xs @ tl (dropWhile (\<lambda>x. fst x \<noteq> m) xs)"

text \<open>The loop that draws up to \<open>n\<close> more moves.\<close>

fun draw_more :: "nat \<Rightarrow> (move \<times> rat) list \<Rightarrow> move list rng" where
  "draw_more 0 xs = rng_return []"
| "draw_more (Suc n) xs = (if xs = [] then rng_return []
     else rng_bind (draw_weighted (map fst xs) (map snd xs)) (\<lambda>pick.
          rng_bind (draw_more n (pop_move pick xs)) (\<lambda>ms. rng_return (pick # ms))))"

definition damaging_moves :: "move list \<Rightarrow> move list res" where
  "damaging_moves ms = rbind (rmap (\<lambda>m. rbind (dict_get MOVE_DATA m) (\<lambda>d. Inr (m, md_category d))) ms)
     (\<lambda>cs. Inr (map fst (filter (\<lambda>x. snd x = Cat_PHYSICAL \<or> snd x = Cat_SPECIAL) cs)))"

definition base_pp :: "move \<Rightarrow> int res" where
  "base_pp m = (if m = Move_NONE then Inr 0 else rbind (dict_get MOVE_DATA m) (\<lambda>d. Inr (md_pp d)))"

definition sample_moves :: "gen_tables \<Rightarrow> string \<Rightarrow> int \<Rightarrow> bool \<Rightarrow> (move list \<times> int list) rng" where
  "sample_moves tb name level is_player =
     rng_bind (rng_lift (move_candidate_weights tb name level is_player)) (\<lambda>weights.
     if weights = [] then rng_lift (Inl ValueError)
     else rng_bind (rng_lift (damaging_moves (map fst weights))) (\<lambda>damaging.
          rng_bind (if damaging \<noteq> []
                    then rng_bind (draw_uniform damaging) (\<lambda>first.
                         rng_bind (draw_more 3 (filter (\<lambda>x. fst x \<noteq> first) weights)) (\<lambda>ms. rng_return (first # ms)))
                    else draw_more 4 weights) (\<lambda>chosen.
          let move_ids = chosen @ replicate (4 - length chosen) Move_NONE in
          rng_bind (rng_lift (rmap base_pp move_ids)) (\<lambda>pps. rng_return (move_ids, pps)))))"

section \<open>A mon\<close>

definition count_category :: "move_category \<Rightarrow> move list \<Rightarrow> nat res" where
  "count_category c ms = rbind (rmap (\<lambda>m. if m = Move_NONE then Inr False else rbind (dict_get MOVE_DATA m) (\<lambda>d. Inr (md_category d = c))) ms)
     (\<lambda>bs. Inr (length (filter id bs)))"

definition optimized_nature :: "gen_tables \<Rightarrow> string \<Rightarrow> move list \<Rightarrow> nature rng" where
  "optimized_nature tb name move_ids =
     rng_bind (rng_lift (rbind (dict_get (map_of (gt_learnsets tb)) name) (\<lambda>_. dict_get (map_of SPECIES_MEMBERS) name))) (\<lambda>sp.
     rng_bind (rng_lift (dict_get SPECIES_DATA sp)) (\<lambda>d.
     rng_bind (if sp_base_atk d \<noteq> sp_base_spa d then rng_return (sp_base_spa d < sp_base_atk d)
               else rng_lift (rbind (count_category Cat_PHYSICAL move_ids) (\<lambda>phys.
                    rbind (count_category Cat_SPECIAL move_ids) (\<lambda>spec. Inr (spec \<le> phys))))) (\<lambda>boost_physical.
     if boost_physical then draw_choice [ADAMANT, JOLLY] else draw_choice [MODEST, TIMID])))"

definition sample_item :: "species \<Rightarrow> bool \<Rightarrow> item rng" where
  "sample_item sp is_player =
     rng_bind (if is_player then rng_bind draw_unit (\<lambda>u. rng_return (u < 1 / 5)) else rng_return False) (\<lambda>bare.
     if bare then rng_return Item_NONE else draw_choice (GENERAL_ITEMS @ species_mega_stones sp))"

definition sample_gender :: "string \<Rightarrow> gender rng" where
  "sample_gender name =
     rng_bind (rng_lift (rbind (dict_get (map_of SPECIES_MEMBERS) name) (dict_get SPECIES_DATA))) (\<lambda>d.
     case sp_male_ratio d of
       None \<Rightarrow> rng_return GENDERLESS
     | Some r \<Rightarrow> rng_bind draw_unit (\<lambda>u. rng_return (if u < r then MALE else FEMALE)))"

definition generate_mon :: "gen_tables \<Rightarrow> string \<Rightarrow> int \<Rightarrow> bool \<Rightarrow> pokemon_state rng" where
  "generate_mon tb name level is_player =
     rng_bind (rng_lift (dict_get (map_of (gt_abilities tb)) name)) (\<lambda>entry.
     rng_bind (rng_lift (dict_get (map_of SPECIES_MEMBERS) name)) (\<lambda>sp.
     rng_bind (sample_moves tb name level is_player) (\<lambda>(move_ids, move_pp).
     rng_bind (if is_player then draw_choice (map snd NATURE_MEMBERS) else optimized_nature tb name move_ids) (\<lambda>nt.
     let legal = (if is_player then ae_normal entry else ae_normal entry @ ae_hidden entry) in
     if legal = [] then rng_lift (Inl ValueError)
     else rng_bind (draw_choice legal) (\<lambda>ability_name.
          rng_bind (rng_lift (dict_get (map_of ABILITY_MEMBERS) ability_name)) (\<lambda>ab.
          rng_bind (sample_item sp is_player) (\<lambda>it.
          rng_bind (sample_gender name) (\<lambda>g.
          rng_lift (pokemon_post_init RUN_AND_BUN None None None None
            ((pokemon_defaults sp nt [31, 31, 31, 31, 31, 31] g)
               \<lparr>pk_level := level, pk_ability := ab, pk_item := it, pk_move_ids := move_ids, pk_move_pp := move_pp\<rparr>))))))))))"

section \<open>Teams and battles\<close>

definition draw_below :: "nat \<Rightarrow> nat rng" where
  "draw_below n = draw_choice [0..<n]"

definition draw_randint :: "int \<Rightarrow> int \<Rightarrow> int rng" where
  "draw_randint a b = rng_bind (draw_below (nat (b - a + 1))) (\<lambda>i. rng_return (a + int i))"

fun draw_sample :: "nat \<Rightarrow> 'a list \<Rightarrow> 'a list rng" where
  "draw_sample 0 xs = rng_return []"
| "draw_sample (Suc k) xs = rng_bind (draw_below (length xs)) (\<lambda>i.
     rng_bind (draw_sample k (take i xs @ drop (Suc i) xs)) (\<lambda>ys. rng_return (xs ! i # ys)))"

fun rng_map :: "('a \<Rightarrow> 'b rng) \<Rightarrow> 'a list \<Rightarrow> 'b list rng" where
  "rng_map f [] = rng_return []"
| "rng_map f (x # xs) = rng_bind (f x) (\<lambda>y. rng_bind (rng_map f xs) (\<lambda>ys. rng_return (y # ys)))"

definition generate_team :: "gen_tables \<Rightarrow> nat \<Rightarrow> int \<Rightarrow> bool \<Rightarrow> string list option \<Rightarrow> pokemon_state list rng" where
  "generate_team tb k level is_player species_pool =
     (let pool = (case species_pool of None \<Rightarrow> generatable_species tb | Some p \<Rightarrow> p) in
      if length pool < k then rng_lift (Inl ValueError)
      else rng_bind (draw_sample k pool) (rng_map (\<lambda>name. generate_mon tb name level is_player)))"

definition generate_battle :: "gen_tables \<Rightarrow> int \<Rightarrow> int \<Rightarrow> nat \<Rightarrow> nat \<Rightarrow> string list option \<Rightarrow> battle_state rng" where
  "generate_battle tb player_level opp_level player_size opp_size species_pool =
     rng_bind (generate_team tb player_size player_level True species_pool) (\<lambda>player_team.
     rng_bind (generate_team tb opp_size opp_level False species_pool) (\<lambda>opp_team.
     rng_return (mk_battle (mk_side player_team SINGLES []) (mk_side opp_team SINGLES []) SINGLES)))"

record battle_params =
  bp_player_level :: int
  bp_opp_level :: int
  bp_player_size :: int
  bp_opp_size :: int

definition make_random_battle :: "gen_tables \<Rightarrow> (battle_state \<times> battle_params) rng" where
  "make_random_battle tb =
     rng_bind (draw_randint 5 100) (\<lambda>pl.
     rng_bind (draw_randint 5 100) (\<lambda>ol.
     rng_bind (draw_randint 1 6) (\<lambda>ps.
     rng_bind (draw_randint 1 6) (\<lambda>os.
     rng_bind (generate_battle tb pl ol (nat ps) (nat os) (Some (corpus_species_pool tb))) (\<lambda>st.
     rng_return (st, \<lparr>bp_player_level = pl, bp_opp_level = ol, bp_player_size = ps, bp_opp_size = os\<rparr>))))))"

section \<open>Total correctness of draws\<close>

text \<open>The streams as the generator gives them.\<close>

definition fair_draws :: "rng_env \<Rightarrow> bool" where
  "fair_draws env \<longleftrightarrow> (\<forall>n. 0 \<le> re_unit env n \<and> re_unit env n < 1) \<and> (\<forall>n k. 0 < k \<longrightarrow> re_below env n k < k)"

text \<open>A computation that always returns, with a result that satisfies \<open>Q\<close>.\<close>

definition yields :: "'a rng \<Rightarrow> ('a \<Rightarrow> bool) \<Rightarrow> bool" where
  "yields m Q \<longleftrightarrow> (\<forall>env. fair_draws env \<longrightarrow> (\<exists>x env'. m env = Inr (x, env') \<and> fair_draws env' \<and> Q x))"

named_theorems yields_rules

lemma yields_return [yields_rules]: "Q x \<Longrightarrow> yields (rng_return x) Q"
  by (simp add: yields_def rng_return_def)

lemma yields_bind: "yields m P \<Longrightarrow> (\<And>x. P x \<Longrightarrow> yields (f x) Q) \<Longrightarrow> yields (rng_bind m f) Q"
  by (fastforce simp: yields_def rng_bind_def)

lemma yields_lift [yields_rules]: "r = Inr x \<Longrightarrow> Q x \<Longrightarrow> yields (rng_lift r) Q"
  by (simp add: yields_def rng_lift_def)

lemma yields_weaken: "yields m P \<Longrightarrow> (\<And>x. P x \<Longrightarrow> Q x) \<Longrightarrow> yields m Q"
  unfolding yields_def by blast

lemma yields_unit: "yields draw_unit (\<lambda>u. 0 \<le> u \<and> u < 1)"
  by (auto simp: yields_def draw_unit_def fair_draws_def)

lemma yields_choice: "xs \<noteq> [] \<Longrightarrow> yields (draw_choice xs) (\<lambda>x. x \<in> set xs)"
  by (auto simp: yields_def draw_choice_def fair_draws_def lk_def)

lemma yields_below: "0 < n \<Longrightarrow> yields (draw_below n) (\<lambda>i. i < n)"
  using yields_choice[of "[0..<n]"] by (simp add: draw_below_def)

lemma yields_randint: "a \<le> b \<Longrightarrow> yields (draw_randint a b) (\<lambda>i. a \<le> i \<and> i \<le> b)"
  unfolding draw_randint_def by (rule yields_bind[OF yields_below]) (auto intro!: yields_return)

lemma yields_uniform:
  assumes "xs \<noteq> []"
  shows "yields (draw_uniform xs) (\<lambda>x. x \<in> set xs)"
  unfolding draw_uniform_def
proof (rule yields_bind[OF yields_unit])
  fix u :: rat
  assume u: "0 \<le> u \<and> u < 1"
  let ?i = "\<lfloor>u * of_nat (length xs)\<rfloor>"
  have "u * of_nat (length xs) < of_nat (length xs)" using u assms by simp
  then have i: "0 \<le> ?i" "nat ?i < length xs" using u assms by (auto simp: nat_less_iff floor_less_iff)
  then have "lki xs ?i = Inr (xs ! nat ?i)" by (simp add: lki_def)
  then show "yields (rng_lift (lki xs ?i)) (\<lambda>x. x \<in> set xs)" using i(2) by (intro yields_lift) auto
qed

lemma pick_cumulative_total: "length ws = length xs \<Longrightarrow> xs \<noteq> [] \<Longrightarrow> \<exists>x \<in> set xs. pick_cumulative xs ws acc u = Inr x"
  by (induction xs ws acc u rule: pick_cumulative.induct) auto

lemma yields_weighted:
  assumes "length ws = length xs" "xs \<noteq> []"
  shows "yields (draw_weighted xs ws) (\<lambda>x. x \<in> set xs)"
  unfolding draw_weighted_def
proof (rule yields_bind[OF yields_unit])
  fix u :: rat
  obtain x where "x \<in> set xs" "pick_cumulative xs ws 0 (u * sum_list ws) = Inr x" using pick_cumulative_total[OF assms] by blast
  then show "yields (\<lambda>env. rbind (pick_cumulative xs ws 0 (u * sum_list ws)) (\<lambda>x. Inr (x, env))) (\<lambda>x. x \<in> set xs)"
    by (simp add: yields_def)
qed

lemma yields_map: "(\<And>x. x \<in> set xs \<Longrightarrow> yields (f x) (P x)) \<Longrightarrow> yields (rng_map f xs) (\<lambda>ys. list_all2 P xs ys)"
proof (induction xs)
  case (Cons x xs)
  have "yields (f x) (P x)" "yields (rng_map f xs) (\<lambda>ys. list_all2 P xs ys)" using Cons by simp_all
  then show ?case unfolding rng_map.simps by (auto intro!: yields_bind yields_return elim: yields_weaken)
qed (simp add: yields_return)

lemma yields_sample:
  assumes "k \<le> length xs" "distinct xs"
  shows "yields (draw_sample k xs) (\<lambda>ys. length ys = k \<and> distinct ys \<and> set ys \<subseteq> set xs)"
  using assms
proof (induction k arbitrary: xs)
  case (Suc k)
  show ?case unfolding draw_sample.simps
  proof (rule yields_bind[OF yields_below])
    show "0 < length xs" using Suc.prems by auto
  next
    fix i
    assume i: "i < length xs"
    let ?rest = "take i xs @ drop (Suc i) xs"
    obtain us y vs where xs: "xs = us @ y # vs" "length us = i" using id_take_nth_drop[OF i] i by (metis length_take min.absorb4)
    then have rest: "k \<le> length ?rest" "distinct ?rest" "xs ! i \<notin> set ?rest" "set ?rest \<subseteq> set xs" "xs ! i \<in> set xs"
      using Suc.prems by (auto simp: nth_append)
    show "yields (rng_bind (draw_sample k ?rest) (\<lambda>ys. rng_return (xs ! i # ys))) (\<lambda>ys. length ys = Suc k \<and> distinct ys \<and> set ys \<subseteq> set xs)"
      by (rule yields_bind[OF Suc.IH[OF rest(1,2)]], rule yields_return) (use rest in auto)
  qed
qed (simp add: yields_return)

section \<open>Legal moves\<close>

text \<open>A move a mon may know: the player's by level, machine or tutor, the opponent's also as an egg move.\<close>

definition offers :: "int \<Rightarrow> bool \<Rightarrow> string \<times> learn_entry \<Rightarrow> move \<Rightarrow> bool" where
  "offers level is_player x m \<longleftrightarrow> map_of MOVE_MEMBERS (fst x) = Some m
     \<and> (is_player \<longrightarrow> (\<exists>l. le_levelup (snd x) = Some l \<and> l \<le> level) \<or> le_tm (snd x) \<or> le_tutor (snd x))"

definition learnable :: "gen_tables \<Rightarrow> string \<Rightarrow> int \<Rightarrow> bool \<Rightarrow> move \<Rightarrow> bool" where
  "learnable tb name level is_player m \<longleftrightarrow> (\<exists>ls. map_of (gt_learnsets tb) name = Some ls \<and> (\<exists>x \<in> set ls. offers level is_player x m))"

definition damaging :: "move \<Rightarrow> bool" where
  "damaging m \<longleftrightarrow> (\<exists>d. MOVE_DATA m = Some d \<and> (md_category d = Cat_PHYSICAL \<or> md_category d = Cat_SPECIAL))"

definition moves_legal :: "gen_tables \<Rightarrow> string \<Rightarrow> int \<Rightarrow> bool \<Rightarrow> move list \<Rightarrow> bool" where
  "moves_legal tb name level is_player ids \<longleftrightarrow> (\<exists>real. ids = real @ replicate (4 - length real) Move_NONE \<and> distinct real
     \<and> set real \<subseteq> Collect (learnable tb name level is_player) \<and> length real = min 4 (card (Collect (learnable tb name level is_player)))
     \<and> ((\<exists>m. learnable tb name level is_player m \<and> damaging m) \<longrightarrow> (\<exists>m \<in> set real. damaging m)))"

lemma player_weight_positive: "0 < player_move_weight e level \<longleftrightarrow> (\<exists>l. le_levelup e = Some l \<and> l \<le> level) \<or> le_tm e \<or> le_tutor e"
  by (auto simp: player_move_weight_def Let_def split: option.splits)

lemma add_candidate_cases:
  "(\<exists>m w. add_candidate_move level is_player res x = AList.update m w res \<and> Collect (offers level is_player x) = {m})
   \<or> (add_candidate_move level is_player res x = res \<and> Collect (offers level is_player x) = {})"
proof (cases "map_of MOVE_MEMBERS (fst x)")
  case None
  then show ?thesis by (simp add: add_candidate_move_def offers_def)
next
  case (Some m)
  then show ?thesis
    by (cases "is_player \<and> \<not> 0 < player_move_weight (snd x) level")
      (auto simp: add_candidate_move_def offers_def Let_def player_weight_positive)
qed

lemma add_candidate_keys:
  "fst ` set (add_candidate_move level is_player res x) = fst ` set res \<union> Collect (offers level is_player x)"
  "distinct (map fst res) \<Longrightarrow> distinct (map fst (add_candidate_move level is_player res x))"
proof -
  let ?new = "add_candidate_move level is_player res x"
  consider (put) m w where "?new = AList.update m w res" "Collect (offers level is_player x) = {m}"
    | (skip) "?new = res" "Collect (offers level is_player x) = {}"
    using add_candidate_cases[of level is_player res x] by blast
  then have "fst ` set ?new = fst ` set res \<union> Collect (offers level is_player x) \<and> (distinct (map fst res) \<longrightarrow> distinct (map fst ?new))"
  proof cases
    case put
    then show ?thesis by (simp add: AList.dom_update AList.distinct_update)
  next
    case skip
    then show ?thesis by auto
  qed
  then show "fst ` set ?new = fst ` set res \<union> Collect (offers level is_player x)"
    "distinct (map fst res) \<Longrightarrow> distinct (map fst ?new)" by simp_all
qed

lemma candidate_keys:
  "distinct (map fst res) \<Longrightarrow> distinct (map fst (foldl (add_candidate_move level is_player) res ls))
   \<and> fst ` set (foldl (add_candidate_move level is_player) res ls) = fst ` set res \<union> {m. \<exists>x \<in> set ls. offers level is_player x m}"
  by (induction ls arbitrary: res) (auto simp: add_candidate_keys)

lemma candidate_weights:
  assumes "map_of (gt_learnsets tb) name = Some ls"
  obtains ws where "move_candidate_weights tb name level is_player = Inr ws" "distinct (map fst ws)"
    "fst ` set ws = Collect (learnable tb name level is_player)"
proof -
  let ?ws = "foldl (add_candidate_move level is_player) [] ls"
  have "fst ` set ?ws = Collect (learnable tb name level is_player)" "distinct (map fst ?ws)"
    using candidate_keys[of "[]" level is_player ls] assms by (auto simp: learnable_def)
  then show ?thesis using that[of ?ws] assms by (simp add: move_candidate_weights_def)
qed

lemma learnable_member: "learnable tb name level is_player m \<Longrightarrow> m \<in> snd ` set MOVE_MEMBERS"
  by (auto simp: learnable_def offers_def dest!: map_of_SomeD intro: rev_image_eqI)

lemma member_data: "m \<in> snd ` set MOVE_MEMBERS \<Longrightarrow> \<exists>d. MOVE_DATA m = Some d"
proof -
  assume m: "m \<in> snd ` set MOVE_MEMBERS"
  have "snd ` set MOVE_MEMBERS = fst ` set MOVE_ROWS" by (metis move_rows_members image_set)
  then have "MOVE_DATA m \<noteq> None" using m by (simp add: MOVE_DATA_def run_tag_loops_exact map_of_eq_None_iff)
  then show ?thesis by blast
qed

lemma damaging_moves_exact:
  assumes "set ms \<subseteq> snd ` set MOVE_MEMBERS"
  shows "damaging_moves ms = Inr (filter damaging ms)"
proof -
  have cats: "rmap (\<lambda>m. rbind (dict_get MOVE_DATA m) (\<lambda>d. Inr (m, md_category d))) ms = Inr (map (\<lambda>m. (m, md_category (the (MOVE_DATA m)))) ms)"
    using assms
  proof (induction ms)
    case (Cons m ms)
    then obtain d where "MOVE_DATA m = Some d" using member_data by auto
    then show ?case using Cons by (simp add: dict_get_def)
  qed simp
  have "filter damaging ms = filter (\<lambda>m. md_category (the (MOVE_DATA m)) = Cat_PHYSICAL \<or> md_category (the (MOVE_DATA m)) = Cat_SPECIAL) ms"
  proof (rule filter_cong)
    fix m
    assume "m \<in> set ms"
    then obtain d where "MOVE_DATA m = Some d" using assms member_data by blast
    then show "damaging m \<longleftrightarrow> md_category (the (MOVE_DATA m)) = Cat_PHYSICAL \<or> md_category (the (MOVE_DATA m)) = Cat_SPECIAL"
      by (simp add: damaging_def)
  qed simp
  then show ?thesis by (simp add: damaging_moves_def cats filter_map comp_def)
qed

lemma pop_move_keys:
  assumes "distinct (map fst xs)" "m \<in> fst ` set xs"
  shows "map fst (pop_move m xs) = remove1 m (map fst xs)"
  using assms
proof (induction xs)
  case (Cons x xs)
  then show ?case by (cases "fst x = m") (auto simp: pop_move_def)
qed simp

lemma yields_draw_more:
  assumes "distinct (map fst xs)"
  shows "yields (draw_more n xs) (\<lambda>ms. length ms = min n (length xs) \<and> distinct ms \<and> set ms \<subseteq> fst ` set xs)"
  using assms
proof (induction n arbitrary: xs)
  case (Suc n)
  show ?case
  proof (cases "xs = []")
    case False
    have "yields (rng_bind (draw_weighted (map fst xs) (map snd xs)) (\<lambda>pick. rng_bind (draw_more n (pop_move pick xs)) (\<lambda>ms. rng_return (pick # ms))))
      (\<lambda>ms. length ms = min (Suc n) (length xs) \<and> distinct ms \<and> set ms \<subseteq> fst ` set xs)"
    proof (rule yields_bind[OF yields_weighted])
      fix m
      assume m: "m \<in> set (map fst xs)"
      have keys: "map fst (pop_move m xs) = remove1 m (map fst xs)" using pop_move_keys[OF Suc.prems] m by simp
      have "set (map fst (pop_move m xs)) = set (map fst xs) - {m}" unfolding keys using Suc.prems by (rule set_remove1_eq)
      then have rest: "fst ` set (pop_move m xs) = fst ` set xs - {m}" by simp
      have uniq: "distinct (map fst (pop_move m xs))" unfolding keys using Suc.prems by (rule distinct_remove1)
      have len: "Suc (length (pop_move m xs)) = length xs" using False arg_cong[OF keys, of length] m by (simp add: length_remove1)
      show "yields (rng_bind (draw_more n (pop_move m xs)) (\<lambda>ms. rng_return (m # ms)))
        (\<lambda>ms. length ms = min (Suc n) (length xs) \<and> distinct ms \<and> set ms \<subseteq> fst ` set xs)"
        by (rule yields_bind[OF Suc.IH[OF uniq]], rule yields_return) (use rest len[symmetric] m in auto)
    qed (use False in simp_all)
    then show ?thesis using False by simp
  qed (simp add: yields_return)
qed (simp add: yields_return)

definition pp_legal :: "move list \<Rightarrow> int list \<Rightarrow> bool" where
  "pp_legal ids pps \<longleftrightarrow> list_all2 (\<lambda>m n. if m = Move_NONE then n = 0 else (\<exists>d. MOVE_DATA m = Some d \<and> n = md_pp d)) ids pps"

lemma base_pp_one:
  assumes "m \<in> insert Move_NONE (snd ` set MOVE_MEMBERS)"
  obtains n where "base_pp m = Inr n" "if m = Move_NONE then n = 0 else (\<exists>d. MOVE_DATA m = Some d \<and> n = md_pp d)"
proof (cases "m = Move_NONE")
  case False
  then obtain d where "MOVE_DATA m = Some d" using assms member_data by blast
  then show ?thesis using that[of "md_pp d"] False by (simp add: base_pp_def dict_get_def)
qed (use that[of 0] in \<open>simp add: base_pp_def\<close>)

lemma base_pp_total: "set ms \<subseteq> insert Move_NONE (snd ` set MOVE_MEMBERS) \<Longrightarrow> \<exists>pps. rmap base_pp ms = Inr pps \<and> pp_legal ms pps"
proof (induction ms)
  case (Cons m ms)
  then obtain pps where pps: "rmap base_pp ms = Inr pps" "pp_legal ms pps" by auto
  have "m \<in> insert Move_NONE (snd ` set MOVE_MEMBERS)" using Cons.prems by simp
  from base_pp_one[OF this] obtain n where n: "base_pp m = Inr n"
    "if m = Move_NONE then n = 0 else (\<exists>d. MOVE_DATA m = Some d \<and> n = md_pp d)" by blast
  have "rmap base_pp (m # ms) = Inr (n # pps)" using n(1) pps(1) by simp
  moreover have "pp_legal (m # ms) (n # pps)" using n(2) pps(2) by (simp only: pp_legal_def list.rel_inject simp_thms)
  ultimately show ?case by blast
qed (simp add: pp_legal_def)

lemma yields_sample_moves:
  assumes "map_of (gt_learnsets tb) name = Some ls" "\<exists>m. learnable tb name level is_player m"
  shows "yields (sample_moves tb name level is_player) (\<lambda>(ids, pps). moves_legal tb name level is_player ids \<and> pp_legal ids pps)"
proof -
  let ?can = "Collect (learnable tb name level is_player)"
  obtain ws where ws: "move_candidate_weights tb name level is_player = Inr ws" "distinct (map fst ws)" "fst ` set ws = ?can"
    using candidate_weights[OF assms(1)] by blast
  have ne: "ws \<noteq> []" using ws(3) assms(2) by auto
  have members: "set (map fst ws) \<subseteq> snd ` set MOVE_MEMBERS" using ws(3) learnable_member by auto
  have count: "length ws = card ?can" using ws(2,3) distinct_card[of "map fst ws"] by simp
  let ?good = "\<lambda>ms. length ms = min 4 (card ?can) \<and> distinct ms \<and> set ms \<subseteq> ?can \<and> ((\<exists>m \<in> ?can. damaging m) \<longrightarrow> (\<exists>m \<in> set ms. damaging m))"
  let ?draw = "if filter damaging (map fst ws) \<noteq> [] then rng_bind (draw_uniform (filter damaging (map fst ws))) (\<lambda>first.
      rng_bind (draw_more 3 (filter (\<lambda>x. fst x \<noteq> first) ws)) (\<lambda>ms. rng_return (first # ms))) else draw_more 4 ws"
  have draw: "yields ?draw ?good"
  proof (cases "filter damaging (map fst ws) = []")
    case True
    then have "\<not> (\<exists>m \<in> ?can. damaging m)" unfolding ws(3)[symmetric] by (auto simp: filter_empty_conv)
    then have "yields (draw_more 4 ws) ?good" by (intro yields_weaken[OF yields_draw_more[OF ws(2)]]) (simp add: count ws(3))
    then show ?thesis using True by simp
  next
    case False
    have "yields (rng_bind (draw_uniform (filter damaging (map fst ws))) (\<lambda>first.
      rng_bind (draw_more 3 (filter (\<lambda>x. fst x \<noteq> first) ws)) (\<lambda>ms. rng_return (first # ms)))) ?good"
    proof (rule yields_bind[OF yields_uniform[OF False]])
      fix m
      assume m: "m \<in> set (filter damaging (map fst ws))"
      let ?rest = "filter (\<lambda>x. fst x \<noteq> m) ws"
      have keys: "map fst ?rest = filter (\<lambda>y. y \<noteq> m) (map fst ws)" by (simp add: filter_map comp_def)
      have uniq: "distinct (map fst ?rest)" unfolding keys using ws(2) by simp
      have rest: "fst ` set ?rest = ?can - {m}" using ws(3) by auto
      have "length ?rest = card (?can - {m})" using distinct_card[OF uniq] rest by simp
      moreover have m': "m \<in> ?can" "damaging m" using m ws(3) by auto
      moreover have "0 < card ?can" using count ne by (metis length_greater_0_conv)
      ultimately have len: "Suc (length ?rest) = card ?can" by (simp add: card_Diff_singleton)
      show "yields (rng_bind (draw_more 3 ?rest) (\<lambda>ms. rng_return (m # ms))) ?good"
        by (rule yields_bind[OF yields_draw_more[OF uniq]], rule yields_return) (use rest len[symmetric] m' in auto)
    qed
    then show ?thesis using False by simp
  qed
  show ?thesis unfolding sample_moves_def
  proof (rule yields_bind[OF yields_lift[where Q="\<lambda>x. x = ws", OF ws(1) refl]], simp only: ne if_False,
      rule yields_bind[OF yields_lift[where Q="\<lambda>x. x = filter damaging (map fst ws)", OF damaging_moves_exact[OF members] refl]],
      simp only:, rule yields_bind[OF draw])
    fix ms
    assume ms: "?good ms"
    let ?ids = "ms @ replicate (4 - length ms) Move_NONE"
    have "set ?ids \<subseteq> insert Move_NONE (snd ` set MOVE_MEMBERS)" using ms learnable_member by auto
    then obtain pps where pps: "rmap base_pp ?ids = Inr pps" "pp_legal ?ids pps" using base_pp_total by blast
    have legal: "moves_legal tb name level is_player ?ids" unfolding moves_legal_def using ms by blast
    show "yields (let move_ids = ?ids in rng_bind (rng_lift (rmap base_pp move_ids)) (\<lambda>pps. rng_return (move_ids, pps)))
      (\<lambda>(ids, pps). moves_legal tb name level is_player ids \<and> pp_legal ids pps)"
      unfolding Let_def by (rule yields_bind[OF yields_lift[where Q="\<lambda>x. x = pps", OF pps(1) refl]], rule yields_return) (simp add: legal pps)
  qed
qed

section \<open>The item pool\<close>

text \<open>The pool in the order of the enum, in groups, so that the import check is one pass over the members.\<close>

definition pool_1 :: "string list" where
  "pool_1 = [
     ''CHERI_BERRY'', ''CHESTO_BERRY'', ''PECHA_BERRY'', ''RAWST_BERRY'', ''ASPEAR_BERRY'', ''LEPPA_BERRY'', ''ORAN_BERRY'',
     ''PERSIM_BERRY'', ''LUM_BERRY'', ''SITRUS_BERRY'', ''FIGY_BERRY'', ''WIKI_BERRY'', ''MAGO_BERRY'']"

definition pool_2 :: "string list" where
  "pool_2 = [
     ''AGUAV_BERRY'', ''IAPAPA_BERRY'', ''OCCA_BERRY'', ''PASSHO_BERRY'', ''WACAN_BERRY'', ''RINDO_BERRY'', ''YACHE_BERRY'',
     ''CHOPLE_BERRY'', ''KEBIA_BERRY'', ''SHUCA_BERRY'', ''COBA_BERRY'', ''PAYAPA_BERRY'', ''TANGA_BERRY'']"

definition pool_3 :: "string list" where
  "pool_3 = [
     ''CHARTI_BERRY'', ''KASIB_BERRY'', ''HABAN_BERRY'', ''COLBUR_BERRY'', ''BABIRI_BERRY'', ''CHILAN_BERRY'', ''LIECHI_BERRY'',
     ''GANLON_BERRY'', ''SALAC_BERRY'', ''PETAYA_BERRY'', ''APICOT_BERRY'', ''LANSAT_BERRY'', ''STARF_BERRY'']"

definition pool_4 :: "string list" where
  "pool_4 = [
     ''CUSTAP_BERRY'', ''BRIGHT_POWDER'', ''WHITE_HERB'', ''QUICK_CLAW'', ''CHOICE_BAND'', ''KING_S_ROCK'', ''SILVER_POWDER'',
     ''FOCUS_BAND'', ''SCOPE_LENS'', ''METAL_COAT'', ''LEFTOVERS'', ''SOFT_SAND'', ''HARD_STONE'']"

definition pool_5 :: "string list" where
  "pool_5 = [
     ''MIRACLE_SEED'', ''BLACK_GLASSES'', ''BLACK_BELT'', ''MAGNET'', ''MYSTIC_WATER'', ''SHARP_BEAK'', ''POISON_BARB'',
     ''NEVER_MELT_ICE'', ''SPELL_TAG'', ''TWISTED_SPOON'', ''CHARCOAL'', ''DRAGON_FANG'', ''SILK_SCARF'', ''WIDE_LENS'', ''MUSCLE_BAND'',
     ''WISE_GLASSES'', ''EXPERT_BELT'', ''LIGHT_CLAY'']"

definition pool_6 :: "string list" where
  "pool_6 = [
     ''LIFE_ORB'', ''POWER_HERB'', ''TOXIC_ORB'', ''FLAME_ORB'', ''FOCUS_SASH'', ''METRONOME'', ''IRON_BALL'', ''LAGGING_TAIL'',
     ''BLACK_SLUDGE'', ''ICY_ROCK'', ''SMOOTH_ROCK'', ''HEAT_ROCK'', ''DAMP_ROCK'', ''CHOICE_SCARF'', ''STICKY_BARB'', ''BIG_ROOT'',
     ''CHOICE_SPECS'', ''RAZOR_CLAW'']"

definition pool_7 :: "string list" where
  "pool_7 = [
     ''RAZOR_FANG'', ''EVIOLITE'', ''ROCKY_HELMET'', ''AIR_BALLOON'', ''RED_CARD'', ''EJECT_BUTTON'', ''NORMAL_GEM'', ''FIRE_GEM'',
     ''WATER_GEM'', ''GRASS_GEM'', ''ELECTRIC_GEM'', ''ICE_GEM'', ''FIGHTING_GEM'', ''POISON_GEM'', ''GROUND_GEM'', ''FLYING_GEM'',
     ''PSYCHIC_GEM'', ''BUG_GEM'']"

definition pool_8 :: "string list" where
  "pool_8 = [
     ''ROCK_GEM'', ''GHOST_GEM'', ''DRAGON_GEM'', ''DARK_GEM'', ''STEEL_GEM'', ''FAIRY_GEM'', ''WEAKNESS_POLICY'', ''ASSAULT_VEST'',
     ''SAFETY_GOGGLES'', ''ROSELI_BERRY'', ''KEE_BERRY'', ''MARANGA_BERRY'', ''ADRENALINE_ORB'', ''PROTECTIVE_PADS'', ''THROAT_SPRAY'',
     ''BLUNDER_POLICY'']"

fun in_order :: "string list \<Rightarrow> (string \<times> int) list \<Rightarrow> bool" where
  "in_order [] ys \<longleftrightarrow> True"
| "in_order (x # xs) [] \<longleftrightarrow> False"
| "in_order (x # xs) (y # ys) \<longleftrightarrow> (if x = fst y then in_order xs ys else in_order (x # xs) ys)"

lemma in_order_keys: "in_order xs ys \<Longrightarrow> set xs \<subseteq> fst ` set ys"
  by (induction xs ys rule: in_order.induct) (auto split: if_splits)

lemma pool_numbers_1: "in_order (pool_1 @ pool_2 @ pool_3 @ pool_4) ITEM_MEMBERS_1"
  by code_simp

lemma pool_numbers_2: "in_order (pool_5 @ pool_6 @ pool_7 @ pool_8) ITEM_MEMBERS_2"
  by code_simp

lemma pool_complete: "list_all (\<lambda>n. n \<in> set pool_1 \<or> n \<in> set pool_2 \<or> n \<in> set pool_3 \<or> n \<in> set pool_4
    \<or> n \<in> set pool_5 \<or> n \<in> set pool_6 \<or> n \<in> set pool_7 \<or> n \<in> set pool_8) CURATED_NAMES"
  by code_simp

lemma curated_items: "n \<in> set CURATED_NAMES \<Longrightarrow> \<exists>v. map_of ITEM_MEMBERS n = Some v"
proof -
  assume "n \<in> set CURATED_NAMES"
  then have "n \<in> set (pool_1 @ pool_2 @ pool_3 @ pool_4) \<or> n \<in> set (pool_5 @ pool_6 @ pool_7 @ pool_8)"
    using pool_complete by (auto simp: list_all_iff)
  then have "n \<in> fst ` set ITEM_MEMBERS"
    using in_order_keys[OF pool_numbers_1] in_order_keys[OF pool_numbers_2] by (auto simp: ITEM_MEMBERS_def)
  then show ?thesis by (metis map_of_eq_None_iff not_None_eq)
qed

lemma general_items_built: "build_general_items = Inr GENERAL_ITEMS" "GENERAL_ITEMS \<noteq> []"
proof -
  have "\<not> list_ex (\<lambda>n. map_of ITEM_MEMBERS n = None) CURATED_NAMES" using curated_items by (auto simp: list_ex_iff)
  moreover have "\<exists>vs. rmap (dict_get (map_of ITEM_MEMBERS)) CURATED_NAMES = Inr vs"
    unfolding rmap_total using curated_items by (auto simp: dict_get_def split: option.splits)
  ultimately show built: "build_general_items = Inr GENERAL_ITEMS" by (auto simp: GENERAL_ITEMS_def build_general_items_def)
  then have "length GENERAL_ITEMS = length CURATED_NAMES" by (auto simp: build_general_items_def dest: rmap_length split: if_splits)
  then show "GENERAL_ITEMS \<noteq> []" by (auto simp: CURATED_NAMES_def)
qed

section \<open>Generated battles are legal\<close>

definition offered_abilities :: "gen_tables \<Rightarrow> string \<Rightarrow> bool \<Rightarrow> string list" where
  "offered_abilities tb name is_player = (case map_of (gt_abilities tb) name of
     None \<Rightarrow> [] | Some e \<Rightarrow> if is_player then ae_normal e else ae_normal e @ ae_hidden e)"

definition nature_legal :: "species_data \<Rightarrow> nature \<Rightarrow> bool" where
  "nature_legal d nt \<longleftrightarrow> nt \<in> {ADAMANT, JOLLY, MODEST, TIMID} \<and> (sp_base_spa d < sp_base_atk d \<longrightarrow> nt \<in> {ADAMANT, JOLLY})
     \<and> (sp_base_atk d < sp_base_spa d \<longrightarrow> nt \<in> {MODEST, TIMID})"

definition mon_legal :: "gen_tables \<Rightarrow> int \<Rightarrow> bool \<Rightarrow> string \<Rightarrow> pokemon_state \<Rightarrow> bool" where
  "mon_legal tb level is_player name p \<longleftrightarrow> map_of SPECIES_MEMBERS name = Some (pk_species p) \<and> pk_level p = level
     \<and> moves_legal tb name level is_player (pk_move_ids p) \<and> pp_legal (pk_move_ids p) (pk_move_pp p)
     \<and> (\<exists>n \<in> set (offered_abilities tb name is_player). map_of ABILITY_MEMBERS n = Some (pk_ability p))
     \<and> (pk_item p \<in> set GENERAL_ITEMS \<union> set (species_mega_stones (pk_species p)) \<or> (is_player \<and> pk_item p = Item_NONE))
     \<and> (is_player \<or> (\<exists>d. SPECIES_DATA (pk_species p) = Some d \<and> nature_legal d (pk_nature p)))
     \<and> pk_ivs p = replicate 6 31 \<and> pk_hp p = pk_max_hp p \<and> \<not> pk_fainted p"

text \<open>What the generated files promise: unique keys, abilities of the enum, and a move of the player at level 5 for every species.\<close>

definition tables_ok :: "gen_tables \<Rightarrow> bool" where
  "tables_ok tb \<longleftrightarrow> distinct (map fst (gt_learnsets tb))
     \<and> list_all (\<lambda>(name, ls). generatable tb name \<longrightarrow>
          list_ex (\<lambda>x. (case map_of MOVE_MEMBERS (fst x) of None \<Rightarrow> False | Some _ \<Rightarrow> 0 < player_move_weight (snd x) 5)) ls
        \<and> list_all (\<lambda>n. case map_of ABILITY_MEMBERS n of None \<Rightarrow> False | Some a \<Rightarrow> a \<noteq> Ability_NONE) (offered_abilities tb name False))
       (gt_learnsets tb)"

lemma yields_nature:
  assumes "map_of (gt_learnsets tb) name = Some ls" "map_of SPECIES_MEMBERS name = Some sp" "SPECIES_DATA sp = Some d"
    and "set ids \<subseteq> insert Move_NONE (snd ` set MOVE_MEMBERS)"
  shows "yields (optimized_nature tb name ids) (nature_legal d)"
proof -
  have count: "\<exists>n. count_category c ids = Inr n" for c
  proof -
    have "\<exists>ys. rmap (\<lambda>m. if m = Move_NONE then Inr False else rbind (dict_get MOVE_DATA m) (\<lambda>d. Inr (md_category d = c))) ids = Inr ys"
      unfolding rmap_total
    proof
      fix m
      assume "m \<in> set ids"
      then have "m = Move_NONE \<or> (\<exists>d. MOVE_DATA m = Some d)" using assms(4) member_data by blast
      then show "\<exists>y. (if m = Move_NONE then Inr False else rbind (dict_get MOVE_DATA m) (\<lambda>d. Inr (md_category d = c))) = Inr y"
        by (auto simp: dict_get_def)
    qed
    then show ?thesis by (auto simp: count_category_def)
  qed
  obtain i j where ij: "count_category Cat_PHYSICAL ids = Inr i" "count_category Cat_SPECIAL ids = Inr j" using count by meson
  have sp: "rbind (dict_get (map_of (gt_learnsets tb)) name) (\<lambda>_. dict_get (map_of SPECIES_MEMBERS) name) = Inr sp"
    using assms(1,2) by (simp add: dict_get_def)
  have d: "dict_get SPECIES_DATA sp = Inr d" using assms(3) by (simp add: dict_get_def)
  show ?thesis unfolding optimized_nature_def
  proof (rule yields_bind[OF yields_lift[where Q="\<lambda>x. x = sp", OF sp refl]], simp only:,
      rule yields_bind[OF yields_lift[where Q="\<lambda>x. x = d", OF d refl]], simp only:,
      rule yields_bind[where P="\<lambda>b. (sp_base_spa d < sp_base_atk d \<longrightarrow> b) \<and> (sp_base_atk d < sp_base_spa d \<longrightarrow> \<not> b)"])
    show "yields (if sp_base_atk d \<noteq> sp_base_spa d then rng_return (sp_base_spa d < sp_base_atk d)
        else rng_lift (rbind (count_category Cat_PHYSICAL ids) (\<lambda>phys. rbind (count_category Cat_SPECIAL ids) (\<lambda>spec. Inr (spec \<le> phys)))))
      (\<lambda>b. (sp_base_spa d < sp_base_atk d \<longrightarrow> b) \<and> (sp_base_atk d < sp_base_spa d \<longrightarrow> \<not> b))"
      using ij yields_lift[OF refl, of "\<lambda>b. (sp_base_spa d < sp_base_atk d \<longrightarrow> b) \<and> (sp_base_atk d < sp_base_spa d \<longrightarrow> \<not> b)" "j \<le> i"]
      by (auto intro!: yields_return)
  next
    fix b
    assume "(sp_base_spa d < sp_base_atk d \<longrightarrow> b) \<and> (sp_base_atk d < sp_base_spa d \<longrightarrow> \<not> b)"
    then show "yields (if b then draw_choice [ADAMANT, JOLLY] else draw_choice [MODEST, TIMID]) (nature_legal d)"
      by (auto intro!: yields_weaken[OF yields_choice] simp: nature_legal_def)
  qed
qed

lemma yields_item:
  "yields (sample_item sp is_player) (\<lambda>i. i \<in> set GENERAL_ITEMS \<union> set (species_mega_stones sp) \<or> (is_player \<and> i = Item_NONE))"
  unfolding sample_item_def
proof (rule yields_bind[where P="\<lambda>b. b \<longrightarrow> is_player"])
  show "yields (if is_player then rng_bind draw_unit (\<lambda>u. rng_return (u < 1 / 5)) else rng_return False) (\<lambda>b. b \<longrightarrow> is_player)"
    by (auto intro!: yields_bind[OF yields_unit] yields_return)
next
  fix b
  assume "b \<longrightarrow> is_player"
  then show "yields (if b then rng_return Item_NONE else draw_choice (GENERAL_ITEMS @ species_mega_stones sp))
      (\<lambda>i. i \<in> set GENERAL_ITEMS \<union> set (species_mega_stones sp) \<or> (is_player \<and> i = Item_NONE))"
    using general_items_built(2) by (auto intro!: yields_return yields_weaken[OF yields_choice])
qed

lemma yields_gender:
  assumes "map_of SPECIES_MEMBERS name = Some sp" "SPECIES_DATA sp = Some d"
  shows "yields (sample_gender name) (\<lambda>_. True)"
proof -
  have d: "rbind (dict_get (map_of SPECIES_MEMBERS) name) (dict_get SPECIES_DATA) = Inr d" using assms by (simp add: dict_get_def)
  show ?thesis unfolding sample_gender_def
    by (rule yields_bind[OF yields_lift[where Q="\<lambda>x. x = d", OF d refl]])
      (auto split: option.splits intro!: yields_return yields_bind[OF yields_unit])
qed

lemma post_init_keeps:
  assumes "pokemon_post_init gd None None None None p = Inr q" "pk_ability p \<noteq> Ability_NONE"
  shows "pk_ability q = pk_ability p" "pk_item q = pk_item p" "pk_nature q = pk_nature p" "pk_ivs q = pk_ivs p" "pk_fainted q = pk_fainted p"
    "pk_species q = pk_species p" "pk_level q = pk_level p" "pk_move_ids q = pk_move_ids p" "pk_move_pp q = pk_move_pp p" "pk_hp q = pk_max_hp q"
  using assms by (auto simp: pokemon_post_init_def Let_def rbind_eq_Inr)

lemma legal_ids_members: "moves_legal tb name level is_player ids \<Longrightarrow> set ids \<subseteq> insert Move_NONE (snd ` set MOVE_MEMBERS)"
  using learnable_member by (fastforce simp: moves_legal_def)

lemma yields_post_init:
  assumes "SPECIES_DATA sp = Some d" "ab \<noteq> Ability_NONE"
  shows "yields (rng_lift (pokemon_post_init RUN_AND_BUN None None None None ((pokemon_defaults sp nt [31, 31, 31, 31, 31, 31] g)
      \<lparr>pk_level := level, pk_ability := ab, pk_item := it, pk_move_ids := ids, pk_move_pp := pps\<rparr>)))
    (\<lambda>p. pk_species p = sp \<and> pk_level p = level \<and> pk_move_ids p = ids \<and> pk_move_pp p = pps \<and> pk_ability p = ab \<and> pk_item p = it
       \<and> pk_nature p = nt \<and> pk_ivs p = replicate 6 31 \<and> pk_hp p = pk_max_hp p \<and> \<not> pk_fainted p)"
proof -
  let ?p = "(pokemon_defaults sp nt [31, 31, 31, 31, 31, 31] g)
      \<lparr>pk_level := level, pk_ability := ab, pk_item := it, pk_move_ids := ids, pk_move_pp := pps\<rparr>"
  obtain q where q: "pokemon_post_init RUN_AND_BUN None None None None ?p = Inr q"
    using post_init_total[of ?p d None] assms(1) by (auto simp: pokemon_defaults_def)
  from post_init_keeps[OF q] assms(2) show ?thesis
    by (intro yields_lift[OF q]) (simp add: pokemon_defaults_def numeral_eq_Suc)
qed

lemma yields_finish:
  assumes "map_of SPECIES_MEMBERS name = Some sp" "SPECIES_DATA sp = Some d" "moves_legal tb name level is_player ids" "pp_legal ids pps"
    and "is_player \<or> nature_legal d nt" "n \<in> set (offered_abilities tb name is_player)" "map_of ABILITY_MEMBERS n = Some ab" "ab \<noteq> Ability_NONE"
  shows "yields (rng_bind (rng_lift (dict_get (map_of ABILITY_MEMBERS) n)) (\<lambda>ab.
      rng_bind (sample_item sp is_player) (\<lambda>it. rng_bind (sample_gender name) (\<lambda>g.
      rng_lift (pokemon_post_init RUN_AND_BUN None None None None ((pokemon_defaults sp nt [31, 31, 31, 31, 31, 31] g)
           \<lparr>pk_level := level, pk_ability := ab, pk_item := it, pk_move_ids := ids, pk_move_pp := pps\<rparr>))))))
    (mon_legal tb level is_player name)"
proof -
  have get: "dict_get (map_of ABILITY_MEMBERS) n = Inr ab" using assms(7) by (simp add: dict_get_def)
  show ?thesis
  proof (rule yields_bind[OF yields_lift[where Q="\<lambda>x. x = ab", OF get refl]], simp only:,
      rule yields_bind[OF yields_item], rule yields_bind[OF yields_gender[OF assms(1,2)]], rule yields_weaken[OF yields_post_init[OF assms(2,8)]])
    fix it and p :: pokemon_state
    assume it: "it \<in> set GENERAL_ITEMS \<union> set (species_mega_stones sp) \<or> (is_player \<and> it = Item_NONE)"
      and p: "pk_species p = sp \<and> pk_level p = level \<and> pk_move_ids p = ids \<and> pk_move_pp p = pps \<and> pk_ability p = ab \<and> pk_item p = it
        \<and> pk_nature p = nt \<and> pk_ivs p = replicate 6 31 \<and> pk_hp p = pk_max_hp p \<and> \<not> pk_fainted p"
    then show "mon_legal tb level is_player name p" unfolding mon_legal_def using assms by blast
  qed
qed

lemma yields_mon:
  assumes "tables_ok tb" "name \<in> set (generatable_species tb)" "5 \<le> level"
  shows "yields (generate_mon tb name level is_player) (mon_legal tb level is_player name)"
proof -
  obtain ls where ls: "(name, ls) \<in> set (gt_learnsets tb)" and gen: "generatable tb name" using assms(2) by (auto simp: generatable_species_def)
  then have ls': "map_of (gt_learnsets tb) name = Some ls" using assms(1) by (auto simp: tables_ok_def intro: map_of_is_SomeI)
  obtain e where e: "map_of (gt_abilities tb) name = Some e" "ae_normal e \<noteq> []" using gen by (auto simp: generatable_def split: option.splits)
  obtain sp d where sp: "map_of SPECIES_MEMBERS name = Some sp" and d: "SPECIES_DATA sp = Some d"
    using gen by (auto simp: generatable_def split: option.splits)
  have ok: "list_ex (\<lambda>x. (case map_of MOVE_MEMBERS (fst x) of None \<Rightarrow> False | Some _ \<Rightarrow> 0 < player_move_weight (snd x) 5)) ls"
    "list_all (\<lambda>n. case map_of ABILITY_MEMBERS n of None \<Rightarrow> False | Some a \<Rightarrow> a \<noteq> Ability_NONE) (offered_abilities tb name False)"
    using assms(1) ls gen by (auto simp: tables_ok_def list_all_iff)
  obtain x m where "x \<in> set ls" "map_of MOVE_MEMBERS (fst x) = Some m" "0 < player_move_weight (snd x) 5"
    using ok(1) by (auto simp: list_ex_iff split: option.splits)
  then have "offers level is_player x m" using assms(3) by (auto simp: offers_def player_weight_positive)
  then have some: "\<exists>m. learnable tb name level is_player m" using ls' \<open>x \<in> set ls\<close> by (auto simp: learnable_def)
  let ?legal = "if is_player then ae_normal e else ae_normal e @ ae_hidden e"
  have offered: "offered_abilities tb name is_player = ?legal" "?legal \<noteq> []" using e by (simp_all add: offered_abilities_def)
  have abilities: "\<exists>a. map_of ABILITY_MEMBERS n = Some a \<and> a \<noteq> Ability_NONE" if "n \<in> set ?legal" for n
    using ok(2) e(1) that by (fastforce simp: offered_abilities_def list_all_iff split: option.splits if_splits)
  have gets: "dict_get (map_of (gt_abilities tb)) name = Inr e" "dict_get (map_of SPECIES_MEMBERS) name = Inr sp"
    using e(1) sp by (simp_all add: dict_get_def)
  let ?nature = "\<lambda>nt. is_player \<or> nature_legal d nt"
  show ?thesis unfolding generate_mon_def
  proof (rule yields_bind[OF yields_lift[where Q="\<lambda>x. x = e", OF gets(1) refl]], simp only:,
      rule yields_bind[OF yields_lift[where Q="\<lambda>x. x = sp", OF gets(2) refl]], simp only:,
      rule yields_bind[OF yields_sample_moves[OF ls' some]], clarify)
    fix ids pps
    assume legal: "moves_legal tb name level is_player ids" "pp_legal ids pps"
    have nature: "yields (if is_player then draw_choice (map snd NATURE_MEMBERS) else optimized_nature tb name ids) ?nature"
      using yields_nature[OF ls' sp d legal_ids_members[OF legal(1)]]
      by (auto intro!: yields_weaken[OF yields_choice] yields_weaken[of "optimized_nature tb name ids"] simp: NATURE_MEMBERS_def)
    show "yields (rng_bind (if is_player then draw_choice (map snd NATURE_MEMBERS) else optimized_nature tb name ids) (\<lambda>nt.
       let legal = ?legal in if legal = [] then rng_lift (Inl ValueError)
       else rng_bind (draw_choice legal) (\<lambda>ability_name. rng_bind (rng_lift (dict_get (map_of ABILITY_MEMBERS) ability_name)) (\<lambda>ab.
          rng_bind (sample_item sp is_player) (\<lambda>it. rng_bind (sample_gender name) (\<lambda>g.
          rng_lift (pokemon_post_init RUN_AND_BUN None None None None ((pokemon_defaults sp nt [31, 31, 31, 31, 31, 31] g)
               \<lparr>pk_level := level, pk_ability := ab, pk_item := it, pk_move_ids := ids, pk_move_pp := pps\<rparr>))))))))
      (mon_legal tb level is_player name)"
    proof (rule yields_bind[OF nature], unfold Let_def if_not_P[OF offered(2)], rule yields_bind[OF yields_choice[OF offered(2)]])
      fix nt n
      assume nt: "?nature nt" and n: "n \<in> set ?legal"
      obtain ab where ab: "map_of ABILITY_MEMBERS n = Some ab" "ab \<noteq> Ability_NONE" using abilities[OF n] by blast
      have n': "n \<in> set (offered_abilities tb name is_player)" unfolding offered(1) by (rule n)
      show "yields (rng_bind (rng_lift (dict_get (map_of ABILITY_MEMBERS) n)) (\<lambda>ab.
          rng_bind (sample_item sp is_player) (\<lambda>it. rng_bind (sample_gender name) (\<lambda>g.
          rng_lift (pokemon_post_init RUN_AND_BUN None None None None ((pokemon_defaults sp nt [31, 31, 31, 31, 31, 31] g)
               \<lparr>pk_level := level, pk_ability := ab, pk_item := it, pk_move_ids := ids, pk_move_pp := pps\<rparr>))))))
        (mon_legal tb level is_player name)" by (rule yields_finish[OF sp d legal nt n' ab])
    qed
  qed
qed

definition team_legal :: "gen_tables \<Rightarrow> nat \<Rightarrow> int \<Rightarrow> bool \<Rightarrow> string list \<Rightarrow> pokemon_state list \<Rightarrow> bool" where
  "team_legal tb k level is_player pool team \<longleftrightarrow>
     (\<exists>names. length names = k \<and> distinct names \<and> set names \<subseteq> set pool \<and> list_all2 (mon_legal tb level is_player) names team)"

lemma pool_distinct: "tables_ok tb \<Longrightarrow> distinct (corpus_species_pool tb) \<and> set (corpus_species_pool tb) \<subseteq> set (generatable_species tb)"
  by (auto simp: tables_ok_def corpus_species_pool_def generatable_species_def)

lemma yields_team:
  assumes "tables_ok tb" "5 \<le> level" "k \<le> length (corpus_species_pool tb)"
  shows "yields (generate_team tb k level is_player (Some (corpus_species_pool tb))) (team_legal tb k level is_player (corpus_species_pool tb))"
proof -
  let ?pool = "corpus_species_pool tb"
  note pool = pool_distinct[OF assms(1)]
  have "yields (rng_bind (draw_sample k ?pool) (rng_map (\<lambda>name. generate_mon tb name level is_player))) (team_legal tb k level is_player ?pool)"
  proof (rule yields_bind[OF yields_sample[OF assms(3)]])
    fix names
    assume names: "length names = k \<and> distinct names \<and> set names \<subseteq> set ?pool"
    then have "yields (rng_map (\<lambda>name. generate_mon tb name level is_player) names) (list_all2 (mon_legal tb level is_player) names)"
      using pool by (intro yields_map yields_mon[OF assms(1) _ assms(2)]) blast
    then show "yields (rng_map (\<lambda>name. generate_mon tb name level is_player) names) (team_legal tb k level is_player ?pool)"
      by (rule yields_weaken) (use names in \<open>auto simp: team_legal_def\<close>)
  qed (use pool in simp)
  then show ?thesis using assms(3) by (simp add: generate_team_def)
qed

definition params_ok :: "battle_params \<Rightarrow> bool" where
  "params_ok bp \<longleftrightarrow> 5 \<le> bp_player_level bp \<and> bp_player_level bp \<le> 100 \<and> 5 \<le> bp_opp_level bp \<and> bp_opp_level bp \<le> 100
     \<and> 1 \<le> bp_player_size bp \<and> bp_player_size bp \<le> 6 \<and> 1 \<le> bp_opp_size bp \<and> bp_opp_size bp \<le> 6"

definition battle_legal :: "gen_tables \<Rightarrow> battle_params \<Rightarrow> battle_state \<Rightarrow> bool" where
  "battle_legal tb bp st \<longleftrightarrow>
     team_legal tb (nat (bp_player_size bp)) (bp_player_level bp) True (corpus_species_pool tb) (sd_team (side_of st P0))
     \<and> team_legal tb (nat (bp_opp_size bp)) (bp_opp_level bp) False (corpus_species_pool tb) (sd_team (side_of st P1))
     \<and> sd_active_indices (side_of st P0) = [0] \<and> sd_active_indices (side_of st P1) = [0]"

lemma yields_battle:
  assumes "tables_ok tb" "5 \<le> pl" "5 \<le> ol" "i \<le> length (corpus_species_pool tb)" "j \<le> length (corpus_species_pool tb)"
  shows "yields (generate_battle tb pl ol i j (Some (corpus_species_pool tb))) (\<lambda>st.
    team_legal tb i pl True (corpus_species_pool tb) (sd_team (side_of st P0)) \<and> team_legal tb j ol False (corpus_species_pool tb) (sd_team (side_of st P1))
     \<and> sd_active_indices (side_of st P0) = [0] \<and> sd_active_indices (side_of st P1) = [0])"
  unfolding generate_battle_def
  by (rule yields_bind[OF yields_team[OF assms(1,2,4)]], rule yields_bind[OF yields_team[OF assms(1,3,5)]], rule yields_return)
    (simp add: mk_battle_def mk_side_def side_post_init_def side_of_def)

lemma yields_random_battle:
  assumes "tables_ok tb" "6 \<le> length (corpus_species_pool tb)"
  shows "yields (make_random_battle tb) (\<lambda>(st, bp). params_ok bp \<and> battle_legal tb bp st)"
  unfolding make_random_battle_def
proof (intro yields_bind[OF yields_randint])
  fix pl ol ps os :: int
  assume r: "5 \<le> pl \<and> pl \<le> 100" "5 \<le> ol \<and> ol \<le> 100" "1 \<le> ps \<and> ps \<le> 6" "1 \<le> os \<and> os \<le> 6"
  then have sizes: "nat ps \<le> length (corpus_species_pool tb)" "nat os \<le> length (corpus_species_pool tb)" using assms(2) by linarith+
  have levels: "5 \<le> pl" "5 \<le> ol" using r by simp_all
  show "yields (rng_bind (generate_battle tb pl ol (nat ps) (nat os) (Some (corpus_species_pool tb))) (\<lambda>st.
     rng_return (st, \<lparr>bp_player_level = pl, bp_opp_level = ol, bp_player_size = ps, bp_opp_size = os\<rparr>)))
     (\<lambda>(st, bp). params_ok bp \<and> battle_legal tb bp st)"
    by (rule yields_bind[OF yields_battle[OF assms(1) levels sizes]], rule yields_return) (use r in \<open>simp add: params_ok_def battle_legal_def\<close>)
qed simp_all

text \<open>
  C17: The generator of random battles never fails and only makes legal battles, whatever the draws: the levels are from 5 to 100 and the teams
  of 1 to 6 mons of distinct species of the pool, without the banned ones; every mon knows distinct moves it may learn on its side, as many as
  there are up to four, one of them damaging when any is, with their full PP; its ability is one of the species', hidden ones
  for the opponent only; only a player's mon may lack an item; an opponent's nature boosts its stronger attack or its speed.
\<close>

theorem random_battle_legal:
  assumes "tables_ok tb" "6 \<le> length (corpus_species_pool tb)" "fair_draws env"
  shows "\<exists>st bp env'. make_random_battle tb env = Inr ((st, bp), env') \<and> params_ok bp \<and> battle_legal tb bp st"
  using yields_random_battle[OF assms(1,2)] assms(3) by (fastforce simp: yields_def)

text \<open>Six species with one move each.\<close>

definition sample_tables :: gen_tables where
  "sample_tables = (let names = [''BULBASAUR'', ''IVYSAUR'', ''VENUSAUR'', ''CHARMANDER'', ''CHARMELEON'', ''CHARIZARD''] in \<lparr>
     gt_learnsets = map (\<lambda>n. (n, [(''POUND'', \<lparr>le_levelup = Some 1, le_tm = False, le_tutor = False, le_egg = False\<rparr>)])) names,
     gt_abilities = map (\<lambda>n. (n, \<lparr>ae_normal = [''STENCH''], ae_hidden = [''DRIZZLE'']\<rparr>)) names\<rparr>)"

definition sample_draws :: rng_env where
  "sample_draws = \<lparr>re_eps = 0, re_warn_stack = [], re_warn_log = [], re_recorder = None, re_unit = (\<lambda>n. of_nat (n mod 7) / 7),
     re_below = (\<lambda>n k. (n * 5 + 3) mod k), re_pos = 0\<rparr>"

lemma first_chunk:
  "map_of SPECIES_MEMBERS_1 n = Some v \<Longrightarrow> map_of SPECIES_MEMBERS n = Some v"
  "map_of MOVE_MEMBERS_1 n = Some v \<Longrightarrow> map_of MOVE_MEMBERS n = Some v"
  "map_of ABILITY_MEMBERS_1 n = Some v \<Longrightarrow> map_of ABILITY_MEMBERS n = Some v"
  by (simp_all add: SPECIES_MEMBERS_def MOVE_MEMBERS_def ABILITY_MEMBERS_def)

lemma sample_members:
  "map_of SPECIES_MEMBERS ''BULBASAUR'' = Some 1" "map_of SPECIES_MEMBERS ''IVYSAUR'' = Some 2" "map_of SPECIES_MEMBERS ''VENUSAUR'' = Some 3"
  "map_of SPECIES_MEMBERS ''CHARMANDER'' = Some 4" "map_of SPECIES_MEMBERS ''CHARMELEON'' = Some 5" "map_of SPECIES_MEMBERS ''CHARIZARD'' = Some 6"
  "map_of MOVE_MEMBERS ''POUND'' = Some 1" "map_of ABILITY_MEMBERS ''STENCH'' = Some 1" "map_of ABILITY_MEMBERS ''DRIZZLE'' = Some 2"
  by (rule first_chunk; simp add: SPECIES_MEMBERS_1_def MOVE_MEMBERS_1_def ABILITY_MEMBERS_1_def)+

lemma member_species: "map_of SPECIES_MEMBERS n = Some sp \<Longrightarrow> SPECIES_DATA sp \<noteq> None"
  using species_member_data by (fastforce dest!: map_of_SomeD)

lemma sample_generatable: "list_all (generatable sample_tables) (map fst (gt_learnsets sample_tables))"
  using sample_members(1-6)[THEN member_species] by (simp add: generatable_def sample_tables_def Let_def sample_members)

lemma sample_tables_ok: "tables_ok sample_tables" "length (corpus_species_pool sample_tables) = 6"
proof -
  show "tables_ok sample_tables"
    by (simp add: tables_ok_def sample_tables_def Let_def offered_abilities_def sample_members player_move_weight_def)
  have all: "filter (generatable sample_tables) (map fst (gt_learnsets sample_tables)) = map fst (gt_learnsets sample_tables)"
    using sample_generatable by (simp add: filter_id_conv list_all_iff del: map_map)
  have "filter (\<lambda>s. s \<notin> set CORPUS_BANNED_SPECIES) (map fst (gt_learnsets sample_tables)) = map fst (gt_learnsets sample_tables)"
    by (simp add: sample_tables_def Let_def CORPUS_BANNED_SPECIES_def)
  then show "length (corpus_species_pool sample_tables) = 6"
    by (simp add: corpus_species_pool_def generatable_species_def all filter_sort) (simp add: sample_tables_def Let_def)
qed

theorem random_battle_legal_witness:
  "\<exists>st bp env'. make_random_battle sample_tables sample_draws = Inr ((st, bp), env') \<and> params_ok bp \<and> battle_legal sample_tables bp st"
proof -
  have "fair_draws sample_draws" by (simp add: fair_draws_def sample_draws_def divide_less_eq)
  with sample_tables_ok show ?thesis by (intro random_battle_legal) simp_all
qed

end
