(* ===== verification/Known.thy ===== *)
theory Known
  imports BattleSetup
begin

text \<open>
  The names that the matcher accepts without constraints (\<open>known_values.py\<close>). A set is the list of its members in the order of the
  source. The signs for male and female, which are not among the 256 characters of the model, are coded as 8B and 8C.
\<close>

section \<open>The sets\<close>

definition POKEMON_NAMES_1 :: "string list" where
  "POKEMON_NAMES_1 = [
     ''ABRA'', ''ABSOL'', ''AERODACTYL'', ''AGGRON'', ''AIPOM'', ''ALAKAZAM'', ''ALTARIA'', ''AMPHAROS'', ''ANORITH'', ''ARBOK'', ''ARCANINE'',
     ''ARIADOS'', ''ARMALDO'', ''ARON'', ''ARTICUNO'', ''AZUMARILL'', ''AZURILL'', ''BAGON'', ''BALTOY'', ''BANETTE'', ''BARBOACH'', ''BAYLEEF'',
     ''BEAUTIFLY'', ''BEEDRILL'', ''BELDUM'', ''BELLOSSOM'', ''BELLSPROUT'', ''BLASTOISE'', ''BLAZIKEN'', ''BLISSEY'', ''BRELOOM'', ''BULBASAUR'',
     ''BUTTERFREE'', ''CACNEA'', ''CACTURNE'', ''CAMERUPT'', ''CARVANHA'', ''CASCOON'', ''CASTFORM'', ''CATERPIE'', ''CELEBI'', ''CHANSEY'',
     ''CHARIZARD'', ''CHARMANDER'', ''CHARMELEON'', ''CHIKORITA'', ''CHIMECHO'', ''CHINCHOU'', ''CLAMPERL'', ''CLAYDOL'', ''CLEFABLE'', ''CLEFAIRY'',
     ''CLEFFA'', ''CLOYSTER'', ''COMBUSKEN'', ''CORPHISH'', ''CORSOLA'', ''CRADILY'', ''CRAWDAUNT'', ''CROBAT'', ''CROCONAW'', ''CUBONE'',
     ''CYNDAQUIL'', ''DELCATTY'', ''DELIBIRD'', ''DEOXYS'', ''DEWGONG'', ''DIGLETT'', ''DITTO'', ''DODRIO'', ''DODUO'', ''DONPHAN'', ''DRAGONAIR'',
     ''DRAGONITE'', ''DRATINI'', ''DROWZEE'', ''DUGTRIO'', ''DUNSPARCE'', ''DUSCLOPS'', ''DUSKULL'', ''DUSTOX'', ''EEVEE'', ''EKANS'',
     ''ELECTABUZZ'', ''ELECTRIKE'', ''ELECTRODE'', ''ELEKID'', ''ENTEI'', ''ESPEON'', ''EXEGGCUTE'', ''EXEGGUTOR'', ''EXPLOUD'',
     ''FARFETCH'' @ [CHR 0x27] @ ''D'', ''FEAROW'', ''FEEBAS'', ''FERALIGATR'', ''FLAAFFY'', ''FLAREON'', ''FLYGON'', ''FORRETRESS'', ''FURRET'',
     ''GARDEVOIR'', ''GASTLY'', ''GENGAR'', ''GEODUDE'', ''GIRAFARIG'', ''GLALIE'', ''GLIGAR'', ''GLOOM'', ''GOLBAT'', ''GOLDEEN'', ''GOLDUCK'',
     ''GOLEM'', ''GOREBYSS'', ''GRANBULL'', ''GRAVELER'', ''GRIMER'', ''GROUDON'', ''GROVYLE'', ''GROWLITHE'', ''GRUMPIG'', ''GULPIN'', ''GYARADOS'',
     ''HARIYAMA'', ''HAUNTER'', ''HERACROSS'', ''HITMONCHAN'', ''HITMONLEE'', ''HITMONTOP'', ''HO-OH'', ''HOOTHOOT'', ''HOPPIP'', ''HORSEA'',
     ''HOUNDOOM'', ''HOUNDOUR'', ''HUNTAIL'', ''HYPNO'', ''IGGLYBUFF'', ''ILLUMISE'', ''IVYSAUR'']"

definition POKEMON_NAMES_2 :: "string list" where
  "POKEMON_NAMES_2 = [
     ''JIGGLYPUFF'', ''JIRACHI'', ''JOLTEON'', ''JUMPLUFF'', ''JYNX'', ''KABUTO'', ''KABUTOPS'', ''KADABRA'', ''KAKUNA'', ''KANGASKHAN'',
     ''KECLEON'', ''KINGDRA'', ''KINGLER'', ''KIRLIA'', ''KOFFING'', ''KRABBY'', ''KYOGRE'', ''LAIRON'', ''LANTURN'', ''LAPRAS'', ''LARVITAR'',
     ''LATIAS'', ''LATIOS'', ''LEDIAN'', ''LEDYBA'', ''LICKITUNG'', ''LILEEP'', ''LINOONE'', ''LOMBRE'', ''LOTAD'', ''LOUDRED'', ''LUDICOLO'',
     ''LUGIA'', ''LUNATONE'', ''LUVDISC'', ''MACHAMP'', ''MACHOKE'', ''MACHOP'', ''MAGBY'', ''MAGCARGO'', ''MAGIKARP'', ''MAGMAR'', ''MAGNEMITE'',
     ''MAGNETON'', ''MAKUHITA'', ''MANECTRIC'', ''MANKEY'', ''MANTINE'', ''MAREEP'', ''MARILL'', ''MAROWAK'', ''MARSHTOMP'', ''MASQUERAIN'',
     ''MAWILE'', ''MEDICHAM'', ''MEDITITE'', ''MEGANIUM'', ''MEOWTH'', ''METAGROSS'', ''METANG'', ''METAPOD'', ''MEW'', ''MEWTWO'', ''MIGHTYENA'',
     ''MILOTIC'', ''MILTANK'', ''MINUN'', ''MISDREAVUS'', ''MOLTRES'', ''MR. MIME'', ''MUDKIP'', ''MUK'', ''MURKROW'', ''NATU'', ''NIDOKING'',
     ''NIDOQUEEN'', ''NIDORAN'' @ [CHR 0x8C], ''NIDORAN'' @ [CHR 0x8B], ''NIDORINA'', ''NIDORINO'', ''NINCADA'', ''NINETALES'', ''NINJASK'',
     ''NOCTOWL'', ''NOSEPASS'', ''NUMEL'', ''NUZLEAF'', ''OCTILLERY'', ''ODDISH'', ''OMANYTE'', ''OMASTAR'', ''ONIX'', ''PARAS'', ''PARASECT'',
     ''PELIPPER'', ''PERSIAN'', ''PHANPY'', ''PICHU'', ''PIDGEOT'', ''PIDGEOTTO'', ''PIDGEY'', ''PIKACHU'', ''PILOSWINE'', ''PINECO'', ''PINSIR'',
     ''PLUSLE'', ''POLITOED'', ''POLIWAG'', ''POLIWHIRL'', ''POLIWRATH'', ''PONYTA'', ''POOCHYENA'', ''PORYGON'', ''PORYGON2'', ''PRIMEAPE'',
     ''PSYDUCK'', ''PUPITAR'', ''QUAGSIRE'', ''QUILAVA'', ''QWILFISH'', ''RAICHU'', ''RAIKOU'', ''RALTS'', ''RAPIDASH'', ''RATICATE'', ''RATTATA'',
     ''RAYQUAZA'', ''REGICE'', ''REGIROCK'', ''REGISTEEL'', ''RELICANTH'', ''REMORAID'', ''RHYDON'', ''RHYHORN'', ''ROSELIA'', ''SABLEYE'',
     ''SALAMENCE'', ''SANDSHREW'', ''SANDSLASH'', ''SCEPTILE'']"

definition POKEMON_NAMES_3 :: "string list" where
  "POKEMON_NAMES_3 = [
     ''SCIZOR'', ''SCYTHER'', ''SEADRA'', ''SEAKING'', ''SEALEO'', ''SEEDOT'', ''SEEL'', ''SENTRET'', ''SEVIPER'', ''SHARPEDO'', ''SHEDINJA'',
     ''SHELGON'', ''SHELLDER'', ''SHIFTRY'', ''SHROOMISH'', ''SHUCKLE'', ''SHUPPET'', ''SILCOON'', ''SKARMORY'', ''SKIPLOOM'', ''SKITTY'',
     ''SLAKING'', ''SLAKOTH'', ''SLOWBRO'', ''SLOWKING'', ''SLOWPOKE'', ''SLUGMA'', ''SMEARGLE'', ''SMOOCHUM'', ''SNEASEL'', ''SNORLAX'',
     ''SNORUNT'', ''SNUBBULL'', ''SOLROCK'', ''SPEAROW'', ''SPHEAL'', ''SPINARAK'', ''SPINDA'', ''SPOINK'', ''SQUIRTLE'', ''STANTLER'', ''STARMIE'',
     ''STARYU'', ''STEELIX'', ''SUDOWOODO'', ''SUICUNE'', ''SUNFLORA'', ''SUNKERN'', ''SURSKIT'', ''SWABLU'', ''SWALOT'', ''SWAMPERT'', ''SWELLOW'',
     ''SWINUB'', ''TAILLOW'', ''TANGELA'', ''TAUROS'', ''TEDDIURSA'', ''TENTACOOL'', ''TENTACRUEL'', ''TOGEPI'', ''TOGETIC'', ''TORCHIC'',
     ''TORKOAL'', ''TOTODILE'', ''TRAPINCH'', ''TREECKO'', ''TROPIUS'', ''TYPHLOSION'', ''TYRANITAR'', ''TYROGUE'', ''UMBREON'', ''UNOWN'',
     ''URSARING'', ''VAPOREON'', ''VENOMOTH'', ''VENONAT'', ''VENUSAUR'', ''VIBRAVA'', ''VICTREEBEL'', ''VIGOROTH'', ''VILEPLUME'', ''VOLBEAT'',
     ''VOLTORB'', ''VULPIX'', ''WAILMER'', ''WAILORD'', ''WALREIN'', ''WARTORTLE'', ''WEEDLE'', ''WEEPINBELL'', ''WEEZING'', ''WHISCASH'',
     ''WHISMUR'', ''WIGGLYTUFF'', ''WINGULL'', ''WOBBUFFET'', ''WOOPER'', ''WURMPLE'', ''WYNAUT'', ''XATU'', ''YANMA'', ''ZANGOOSE'', ''ZAPDOS'',
     ''ZIGZAGOON'', ''ZUBAT'']"

definition EMERALD_POKEMON_NAMES :: "string list" where
  "EMERALD_POKEMON_NAMES = concat [POKEMON_NAMES_1, POKEMON_NAMES_2, POKEMON_NAMES_3]"

definition all_species_display_names :: "string list" where
  "all_species_display_names = map (\<lambda>x. upper (emulator_species_name RUN_AND_BUN (snd x))) SPECIES_MEMBERS"

definition POKEMON_NAMES :: "string list" where
  "POKEMON_NAMES = EMERALD_POKEMON_NAMES @ all_species_display_names"

definition MOVE_NAMES_1 :: "string list" where
  "MOVE_NAMES_1 = [
     ''ABSORB'', ''ACID'', ''ACID ARMOR'', ''AERIAL ACE'', ''AEROBLAST'', ''AGILITY'', ''AIR CUTTER'', ''AMNESIA'', ''ANCIENTPOWER'', ''ARM THRUST'',
     ''AROMATHERAPY'', ''ASSIST'', ''ASTONISH'', ''ATTRACT'', ''AURORA BEAM'', ''BARRAGE'', ''BARRIER'', ''BATON PASS'', ''BEAT UP'', ''BELLY DRUM'',
     ''BIND'', ''BITE'', ''BLAST BURN'', ''BLAZE KICK'', ''BLIZZARD'', ''BLOCK'', ''BODY SLAM'', ''BONE CLUB'', ''BONE RUSH'', ''BONEMERANG'',
     ''BOUNCE'', ''BRICK BREAK'', ''BUBBLE'', ''BUBBLEBEAM'', ''BULK UP'', ''BULLET SEED'', ''CALM MIND'', ''CAMOUFLAGE'', ''CHARGE'', ''CHARM'',
     ''CLAMP'', ''COMET PUNCH'', ''CONFUSE RAY'', ''CONFUSION'', ''CONSTRICT'', ''CONVERSION'', ''CONVERSION 2'', ''COSMIC POWER'', ''COTTON SPORE'',
     ''COUNTER'', ''COVET'', ''CRABHAMMER'', ''CROSS CHOP'', ''CRUNCH'', ''CRUSH CLAW'', ''CURSE'', ''CUT'', ''DEFENSE CURL'', ''DESTINY BOND'',
     ''DETECT'', ''DIG'', ''DISABLE'', ''DIVE'', ''DIZZY PUNCH'', ''DOOM DESIRE'', ''DOUBLE KICK'', ''DOUBLE TEAM'', ''DOUBLE-EDGE'', ''DOUBLESLAP'',
     ''DRAGON CLAW'', ''DRAGON DANCE'', ''DRAGON RAGE'', ''DRAGONBREATH'', ''DREAM EATER'', ''DRILL PECK'', ''DYNAMICPUNCH'', ''EARTHQUAKE'',
     ''EGG BOMB'', ''EMBER'', ''ENCORE'', ''ENDEAVOR'', ''ENDURE'', ''ERUPTION'', ''EXPLOSION'', ''EXTRASENSORY'', ''EXTREMESPEED'', ''FACADE'',
     ''FAINT ATTACK'', ''FAKE OUT'', ''FAKE TEARS'', ''FALSE SWIPE'', ''FEATHERDANCE'', ''FIRE BLAST'', ''FIRE PUNCH'', ''FIRE SPIN'', ''FISSURE'',
     ''FLAIL'', ''FLAME WHEEL'', ''FLAMETHROWER'', ''FLASH'', ''FLATTER'', ''FLY'', ''FOCUS ENERGY'', ''FOCUS PUNCH'', ''FOLLOW ME'', ''FORESIGHT'',
     ''FRENZY PLANT'', ''FRUSTRATION'', ''FURY ATTACK'', ''FURY CUTTER'', ''FURY SWIPES'', ''FUTURE SIGHT'', ''GIGA DRAIN'', ''GLARE'',
     ''GRASSWHISTLE'', ''GROWL'', ''GROWTH'', ''GRUDGE'', ''GUILLOTINE'', ''GUST'', ''HAIL'', ''HARDEN'', ''HAZE'', ''HEADBUTT'', ''HEAL BELL'',
     ''HEAT WAVE'', ''HELPING HAND'', ''HI JUMP KICK'', ''HIDDEN POWER'', ''HORN ATTACK'', ''HORN DRILL'', ''HOWL'', ''HYDRO CANNON'',
     ''HYDRO PUMP'', ''HYPER BEAM'', ''HYPER FANG'', ''HYPER VOICE'', ''HYPNOSIS'', ''ICE BALL'', ''ICE BEAM'']"

definition MOVE_NAMES_2 :: "string list" where
  "MOVE_NAMES_2 = [
     ''ICE PUNCH'', ''ICICLE SPEAR'', ''ICY WIND'', ''IMPRISON'', ''INGRAIN'', ''IRON DEFENSE'', ''IRON TAIL'', ''JUMP KICK'', ''KARATE CHOP'',
     ''KINESIS'', ''KNOCK OFF'', ''LEAF BLADE'', ''LEECH LIFE'', ''LEECH SEED'', ''LEER'', ''LICK'', ''LIGHT SCREEN'', ''LOCK-ON'', ''LOVELY KISS'',
     ''LOW KICK'', ''LUSTER PURGE'', ''MACH PUNCH'', ''MAGIC COAT'', ''MAGICAL LEAF'', ''MAGNITUDE'', ''MEAN LOOK'', ''MEDITATE'', ''MEGA DRAIN'',
     ''MEGA KICK'', ''MEGA PUNCH'', ''MEGAHORN'', ''MEMENTO'', ''METAL CLAW'', ''METAL SOUND'', ''METEOR MASH'', ''METRONOME'', ''MILK DRINK'',
     ''MIMIC'', ''MIND READER'', ''MINIMIZE'', ''MIRROR COAT'', ''MIRROR MOVE'', ''MIST'', ''MIST BALL'', ''MOONLIGHT'', ''MORNING SUN'',
     ''MUD SHOT'', ''MUD SPORT'', ''MUD-SLAP'', ''MUDDY WATER'', ''NATURE POWER'', ''NEEDLE ARM'', ''NIGHT SHADE'', ''NIGHTMARE'', ''OCTAZOOKA'',
     ''ODOR SLEUTH'', ''OUTRAGE'', ''OVERHEAT'', ''PAIN SPLIT'', ''PAY DAY'', ''PECK'', ''PERISH SONG'', ''PETAL DANCE'', ''PIN MISSILE'',
     ''POISON FANG'', ''POISON GAS'', ''POISON STING'', ''POISON TAIL'', ''POISONPOWDER'', ''POUND'', ''POWDER SNOW'', ''PRESENT'', ''PROTECT'',
     ''PSYBEAM'', ''PSYCH UP'', ''PSYCHIC'', ''PSYCHO BOOST'', ''PSYWAVE'', ''PURSUIT'', ''QUICK ATTACK'', ''RAGE'', ''RAIN DANCE'', ''RAPID SPIN'',
     ''RAZOR LEAF'', ''RAZOR WIND'', ''RECOVER'', ''RECYCLE'', ''REFLECT'', ''REFRESH'', ''REST'', ''RETURN'', ''REVENGE'', ''REVERSAL'', ''ROAR'',
     ''ROCK BLAST'', ''ROCK SLIDE'', ''ROCK SMASH'', ''ROCK THROW'', ''ROCK TOMB'', ''ROLE PLAY'', ''ROLLING KICK'', ''ROLLOUT'', ''SACRED FIRE'',
     ''SAFEGUARD'', ''SAND TOMB'', ''SAND-ATTACK'', ''SANDSTORM'', ''SCARY FACE'', ''SCRATCH'', ''SCREECH'', ''SECRET POWER'', ''SEISMIC TOSS'',
     ''SELFDESTRUCT'', ''SHADOW BALL'', ''SHADOW PUNCH'', ''SHARPEN'', ''SHEER COLD'', ''SHOCK WAVE'', ''SIGNAL BEAM'', ''SILVER WIND'', ''SING'',
     ''SKETCH'', ''SKILL SWAP'', ''SKULL BASH'', ''SKY ATTACK'', ''SKY UPPERCUT'', ''SLACK OFF'', ''SLAM'', ''SLASH'', ''SLEEP POWDER'',
     ''SLEEP TALK'', ''SLUDGE'', ''SLUDGE BOMB'', ''SMELLINGSALT'', ''SMOG'', ''SMOKESCREEN'', ''SNATCH'', ''SNORE'', ''SOFTBOILED'', ''SOLARBEAM'']"

definition MOVE_NAMES_3 :: "string list" where
  "MOVE_NAMES_3 = [
     ''SONICBOOM'', ''SPARK'', ''SPIDER WEB'', ''SPIKE CANNON'', ''SPIKES'', ''SPIT UP'', ''SPITE'', ''SPLASH'', ''SPORE'', ''STEEL WING'',
     ''STOCKPILE'', ''STOMP'', ''STRENGTH'', ''STRING SHOT'', ''STRUGGLE'', ''STUN SPORE'', ''SUBMISSION'', ''SUBSTITUTE'', ''SUNNY DAY'',
     ''SUPER FANG'', ''SUPERPOWER'', ''SUPERSONIC'', ''SURF'', ''SWAGGER'', ''SWALLOW'', ''SWEET KISS'', ''SWEET SCENT'', ''SWIFT'',
     ''SWORDS DANCE'', ''SYNTHESIS'', ''TACKLE'', ''TAIL GLOW'', ''TAIL WHIP'', ''TAKE DOWN'', ''TAUNT'', ''TEETER DANCE'', ''TELEPORT'', ''THIEF'',
     ''THRASH'', ''THUNDER'', ''THUNDER WAVE'', ''THUNDERBOLT'', ''THUNDERPUNCH'', ''THUNDERSHOCK'', ''TICKLE'', ''TORMENT'', ''TOXIC'',
     ''TRANSFORM'', ''TRI ATTACK'', ''TRICK'', ''TRIPLE KICK'', ''TWINEEDLE'', ''TWISTER'', ''UPROAR'', ''VICEGRIP'', ''VINE WHIP'', ''VITAL THROW'',
     ''VOLT TACKLE'', ''WATER GUN'', ''WATER PULSE'', ''WATER SPORT'', ''WATER SPOUT'', ''WATERFALL'', ''WEATHER BALL'', ''WHIRLPOOL'',
     ''WHIRLWIND'', ''WILL-O-WISP'', ''WING ATTACK'', ''WISH'', ''WITHDRAW'', ''WRAP'', ''YAWN'', ''ZAP CANNON'']"

definition EMERALD_MOVE_NAMES :: "string list" where
  "EMERALD_MOVE_NAMES = concat [MOVE_NAMES_1, MOVE_NAMES_2, MOVE_NAMES_3]"

definition all_move_display_names :: "string list" where
  "all_move_display_names = map (replace_char (CHR ''_'') (CHR '' '')) (filter (\<lambda>n. n \<noteq> ''NONE'') (map (\<lambda>x. enum_name MOVE_MEMBERS (snd x)) MOVE_MEMBERS))"

definition MOVE_NAMES :: "string list" where
  "MOVE_NAMES = EMERALD_MOVE_NAMES @ all_move_display_names"

definition ITEM_NAMES_1 :: "string list" where
  "ITEM_NAMES_1 = [
     ''ACRO BIKE'', ''AGUAV BERRY'', ''AMULET COIN'', ''ANTIDOTE'', ''APICOT BERRY'', ''ASPEAR BERRY'', ''AURORATICKET'', ''AWAKENING'',
     ''BASEMENT KEY'', ''BEAD MAIL'', ''BELUE BERRY'', ''BERRY JUICE'', ''BERRY POUCH'', ''BICYCLE'', ''BIG MUSHROOM'', ''BIG PEARL'',
     ''BIKE VOUCHER'', ''BLACK BELT'', ''BLACK FLUTE'', ''BLACKGLASSES'', ''BLUE FLUTE'', ''BLUE ORB'', ''BLUE SCARF'', ''BLUE SHARD'',
     ''BLUK BERRY'', ''BRIGHTPOWDER'', ''BURN HEAL'', ''CALCIUM'', ''CARBOS'', ''CARD KEY'', ''CHARCOAL'', ''CHERI BERRY'', ''CHESTO BERRY'',
     ''CHOICE BAND'', ''CLAW FOSSIL'', ''CLEANSE TAG'', ''COIN CASE'', ''CONTEST PASS'', ''CORNN BERRY'', ''DEEPSEASCALE'', ''DEEPSEATOOTH'',
     ''DEVON GOODS'', ''DEVON SCOPE'', ''DIRE HIT'', ''DIVE BALL'', ''DOME FOSSIL'', ''DRAGON FANG'', ''DRAGON SCALE'', ''DREAM MAIL'',
     ''DURIN BERRY'', ''ELIXIR'', ''ENERGY ROOT'', ''ENERGYPOWDER'', ''ENIGMA BERRY'', ''EON TICKET'', ''ESCAPE ROPE'', ''ETHER'', ''EVERSTONE'',
     ''EXP. SHARE'', ''FAB MAIL'', ''FAME CHECKER'', ''FIGY BERRY'', ''FIRE STONE'', ''FLUFFY TAIL'', ''FOCUS BAND'', ''FRESH WATER'', ''FULL HEAL'',
     ''FULL RESTORE'', ''GANLON BERRY'', ''GLITTER MAIL'', ''GO-GOGGLES'', ''GOLD TEETH'', ''GOOD ROD'', ''GREAT BALL'', ''GREEN SCARF'',
     ''GREEN SHARD'', ''GREPA BERRY'', ''GUARD SPEC.'', ''HARBOR MAIL'', ''HARD STONE'', ''HEAL POWDER'', ''HEART SCALE'', ''HELIX FOSSIL'',
     ''HM01'', ''HM02'', ''HM03'', ''HM04'', ''HM05'', ''HM06'', ''HM07'', ''HM08'', ''HONDEW BERRY'', ''HP UP'', ''HYPER POTION'', ''IAPAPA BERRY'',
     ''ICE HEAL'', ''IRON'', ''ITEMFINDER'', ''KELPSY BERRY'', ''KING'' @ [CHR 0x27] @ ''S ROCK'', ''LANSAT BERRY'', ''LAVA COOKIE'',
     ''LAX INCENSE'', ''LEAF STONE'', ''LEFTOVERS'', ''LEMONADE'', ''LEPPA BERRY'', ''LETTER'', ''LIECHI BERRY'', ''LIFT KEY'', ''LIGHT BALL'',
     ''LUCKY EGG'', ''LUCKY PUNCH'', ''LUM BERRY'', ''LUXURY BALL'', ''MACH BIKE'', ''MACHO BRACE'', ''MAGMA EMBLEM'', ''MAGNET'', ''MAGO BERRY'',
     ''MAGOST BERRY'', ''MASTER BALL'', ''MAX ELIXIR'', ''MAX ETHER'', ''MAX POTION'', ''MAX REPEL'', ''MAX REVIVE'', ''MECH MAIL'', ''MENTAL HERB'',
     ''METAL COAT'', ''METAL POWDER'', ''METEORITE'', ''MIRACLE SEED'', ''MOOMOO MILK'', ''MOON STONE'', ''MYSTIC WATER'', ''MYSTICTICKET'',
     ''NANAB BERRY'', ''NEST BALL'', ''NET BALL'']"

definition ITEM_NAMES_2 :: "string list" where
  "ITEM_NAMES_2 = [
     ''NEVERMELTICE'', ''NOMEL BERRY'', ''NUGGET'', ''OAK'' @ [CHR 0x27] @ ''S PARCEL'', ''OLD AMBER'', ''OLD ROD'', ''OLD SEA MAP'', ''ORAN BERRY'',
     ''ORANGE MAIL'', ''PAMTRE BERRY'', ''PARLYZ HEAL'', ''PEARL'', ''PECHA BERRY'', ''PERSIM BERRY'', ''PETAYA BERRY'', ''PINAP BERRY'',
     ''PINK SCARF'', ''POISON BARB'', ''POK'' @ [CHR 0xE9] @ '' BALL'', ''POK'' @ [CHR 0xE9] @ '' DOLL'', ''POK'' @ [CHR 0xE9] @ '' FLUTE'',
     ''POMEG BERRY'', ''POTION'', ''POWDER JAR'', ''PP MAX'', ''PP UP'', ''PREMIER BALL'', ''PROTEIN'', ''QUALOT BERRY'', ''QUICK CLAW'',
     ''RABUTA BERRY'', ''RAINBOW PASS'', ''RARE CANDY'', ''RAWST BERRY'', ''RAZZ BERRY'', ''RED FLUTE'', ''RED ORB'', ''RED SCARF'', ''RED SHARD'',
     ''REPEAT BALL'', ''REPEL'', ''RETRO MAIL'', ''REVIVAL HERB'', ''REVIVE'', ''RM. 1 KEY'', ''RM. 2 KEY'', ''RM. 4 KEY'', ''RM. 6 KEY'',
     ''ROOT FOSSIL'', ''RUBY'', ''S.S. TICKET'', ''SACRED ASH'', ''SAFARI BALL'', ''SALAC BERRY'', ''SAPPHIRE'', ''SCANNER'', ''SCOPE LENS'',
     ''SEA INCENSE'', ''SECRET KEY'', ''SHADOW MAIL'', ''SHARP BEAK'', ''SHELL BELL'', ''SHOAL SALT'', ''SHOAL SHELL'', ''SILK SCARF'',
     ''SILPH SCOPE'', ''SILVERPOWDER'', ''SITRUS BERRY'', ''SMOKE BALL'', ''SODA POP'', ''SOFT SAND'', ''SOOT SACK'', ''SOOTHE BELL'', ''SOUL DEW'',
     ''SPELL TAG'', ''SPELON BERRY'', ''STAR PIECE'', ''STARDUST'', ''STARF BERRY'', ''STICK'', ''STORAGE KEY'', ''SUN STONE'', ''SUPER POTION'',
     ''SUPER REPEL'', ''SUPER ROD'', ''TAMATO BERRY'', ''TEA'', ''TEACHY TV'', ''THICK CLUB'', ''THUNDERSTONE'', ''TIMER BALL'', ''TINYMUSHROOM'',
     ''TM CASE'', ''TM01'', ''TM02'', ''TM03'', ''TM04'', ''TM05'', ''TM06'', ''TM07'', ''TM08'', ''TM09'', ''TM10'', ''TM11'', ''TM12'', ''TM13'',
     ''TM14'', ''TM15'', ''TM16'', ''TM17'', ''TM18'', ''TM19'', ''TM20'', ''TM21'', ''TM22'', ''TM23'', ''TM24'', ''TM25'', ''TM26'', ''TM27'',
     ''TM28'', ''TM29'', ''TM30'', ''TM31'', ''TM32'', ''TM33'', ''TM34'', ''TM35'', ''TM36'', ''TM37'', ''TM38'', ''TM39'', ''TM40'', ''TM41'',
     ''TM42'', ''TM43'', ''TM44'', ''TM45'', ''TM46'', ''TM47'']"

definition ITEM_NAMES_3 :: "string list" where
  "ITEM_NAMES_3 = [
     ''TM48'', ''TM49'', ''TM50'', ''TOWN MAP'', ''TRI-PASS'', ''TROPIC MAIL'', ''TWISTEDSPOON'', ''ULTRA BALL'', ''UP-GRADE'', ''VS SEEKER'',
     ''WAILMER PAIL'', ''WATER STONE'', ''WATMEL BERRY'', ''WAVE MAIL'', ''WEPEAR BERRY'', ''WHITE FLUTE'', ''WHITE HERB'', ''WIKI BERRY'',
     ''WOOD MAIL'', ''X ACCURACY'', ''X ATTACK'', ''X DEFEND'', ''X SPECIAL'', ''X SPEED'', ''YELLOW FLUTE'', ''YELLOW SCARF'', ''YELLOW SHARD'',
     ''ZINC'']"

definition ITEM_NAMES :: "string list" where
  "ITEM_NAMES = concat [ITEM_NAMES_1, ITEM_NAMES_2, ITEM_NAMES_3]"

definition ABILITY_NAMES_1 :: "string list" where
  "ABILITY_NAMES_1 = [
     ''AIR LOCK'', ''ARENA TRAP'', ''BATTLE ARMOR'', ''BLAZE'', ''CACOPHONY'', ''CHLOROPHYLL'', ''CLEAR BODY'', ''CLOUD NINE'', ''COLOR CHANGE'',
     ''COMPOUNDEYES'', ''CUTE CHARM'', ''DAMP'', ''DRIZZLE'', ''DROUGHT'', ''EARLY BIRD'', ''EFFECT SPORE'', ''FLAME BODY'', ''FLASH FIRE'',
     ''FORECAST'', ''GUTS'', ''HUGE POWER'', ''HUSTLE'', ''HYPER CUTTER'', ''ILLUMINATE'', ''IMMUNITY'', ''INNER FOCUS'', ''INSOMNIA'',
     ''INTIMIDATE'', ''KEEN EYE'', ''LEVITATE'', ''LIGHTNINGROD'', ''LIMBER'', ''LIQUID OOZE'', ''MAGMA ARMOR'', ''MAGNET PULL'', ''MARVEL SCALE'',
     ''MINUS'', ''NATURAL CURE'', ''OBLIVIOUS'', ''OVERGROW'', ''OWN TEMPO'', ''PICKUP'', ''PLUS'', ''POISON POINT'', ''PRESSURE'', ''PURE POWER'',
     ''RAIN DISH'', ''ROCK HEAD'', ''ROUGH SKIN'', ''RUN AWAY'', ''SAND STREAM'', ''SAND VEIL'', ''SERENE GRACE'', ''SHADOW TAG'', ''SHED SKIN'',
     ''SHELL ARMOR'', ''SHIELD DUST'', ''SOUNDPROOF'', ''SPEED BOOST'', ''STATIC'', ''STENCH'', ''STICKY HOLD'', ''STURDY'', ''SUCTION CUPS'',
     ''SWARM'', ''SWIFT SWIM'', ''SYNCHRONIZE'', ''THICK FAT'', ''TORRENT'', ''TRACE'', ''TRUANT'', ''VITAL SPIRIT'', ''VOLT ABSORB'',
     ''WATER ABSORB'', ''WATER VEIL'', ''WHITE SMOKE'', ''WONDER GUARD'']"

definition ABILITY_NAMES :: "string list" where
  "ABILITY_NAMES = concat [ABILITY_NAMES_1]"

definition TRAINER_CLASS_NAMES_1 :: "string list" where
  "TRAINER_CLASS_NAMES_1 = [
     ''AQUA ADMIN'', ''AQUA LEADER'', ''ARENA TYCOON'', ''AROMA LADY'', ''BATTLE GIRL'', ''BEAUTY'', ''BIRD KEEPER'', ''BLACK BELT'',
     ''BUG CATCHER'', ''BUG MANIAC'', ''CAMPER'', ''CHAMPION'', ''COLLECTOR'', ''COOLTRAINER'', ''DOME ACE'', ''DRAGON TAMER'', ''ELITE FOUR'',
     ''EXPERT'', ''FACTORY HEAD'', ''FISHERMAN'', ''GENTLEMAN'', ''GUITARIST'', ''HEX MANIAC'', ''HIKER'', ''INTERVIEWER'', ''KINDLER'', ''LADY'',
     ''LASS'', ''LEADER'', ''MAGMA ADMIN'', ''MAGMA LEADER'', ''NINJA BOY'', ''OLD COUPLE'', ''PALACE MAVEN'', ''PARASOL LADY'', ''PICNICKER'',
     ''PIKE QUEEN'', ''PKMN BREEDER'', ''PKMN RANGER'', ''PKMN TRAINER'', ''POK'' @ [CHR 0xE9] @ ''FAN'', ''POK'' @ [CHR 0xE9] @ ''MANIAC'',
     ''PSYCHIC'', ''PYRAMID KING'', ''RICH BOY'', ''RUIN MANIAC'', ''SAILOR'', ''SALON MAIDEN'', ''SCHOOL KID'', ''SIS AND BRO'', ''SR. AND JR.'',
     ''SWIMMER'' @ [CHR 0x8C], ''SWIMMER'' @ [CHR 0x8B], ''TEAM AQUA'', ''TEAM MAGMA'', ''TRIATHLETE'', ''TUBER'', ''TWINS'', ''WINSTRATE'',
     ''YOUNG COUPLE'', ''YOUNGSTER'']"

definition TRAINER_CLASS_NAMES :: "string list" where
  "TRAINER_CLASS_NAMES = concat [TRAINER_CLASS_NAMES_1]"

definition TRAINER_NAMES_1 :: "string list" where
  "TRAINER_NAMES_1 = [
     ''Aqua Admin Matt'', ''Aqua Admin Shelly'', ''Aqua Leader Archie'', ''Aroma Lady Daisy'', ''Battle Girl Cyndy'', ''Battle Girl Danielle'',
     ''Battle Girl Helene'', ''Battle Girl Jocelyn'', ''Battle Girl Laura'', ''Battle Girl Lilith'', ''Battle Girl Luna'', ''Battle Girl Reyna'',
     ''Battle Girl Vivian'', ''Beauty Bridget'', ''Beauty Jessica'', ''Beauty Johanna'', ''Beauty Thalia'', ''Beauty Tiffany'',
     ''Bird Keeper Aidan'', ''Bird Keeper Alex'', ''Bird Keeper Beck'', ''Bird Keeper Camden'', ''Bird Keeper Coby'', ''Bird Keeper Colin'',
     ''Bird Keeper Darius'', ''Bird Keeper Elijah'', ''Bird Keeper Hugh'', ''Bird Keeper Jared'', ''Bird Keeper Josue'', ''Bird Keeper Perry'',
     ''Bird Keeper Presley'', ''Bird Keeper Robert'', ''Black Belt Atsushi'', ''Black Belt Cristian'', ''Black Belt Daisuke'', ''Black Belt Hawk'',
     ''Black Belt Hitoshi'', ''Black Belt Kiyo'', ''Black Belt Koichi'', ''Black Belt Nob'', ''Black Belt Rhett'', ''Black Belt Takao'',
     ''Black Belt Zander'', ''Bug Catcher Davis'', ''Bug Catcher Doug'', ''Bug Catcher Greg'', ''Bug Catcher Jose'', ''Bug Catcher Kent'',
     ''Bug Catcher Lyle'', ''Bug Catcher Rick'', ''Bug Maniac Brent'', ''Bug Maniac James'', ''Bug Maniac Jeffrey'', ''Bug Maniac Taylor'',
     ''Camper Beau'', ''Camper Branden'', ''Camper Drew'', ''Camper Ethan'', ''Camper Flint'', ''Camper Gavi'', ''Camper Lawrence'', ''Camper Merc'',
     ''Camper Travis'', ''Camper Tyron'', ''Champion Wallace'', ''Collector Edwin'', ''Collector Hector'', ''Collector John'',
     ''Cool Trainer Alexa'', ''Cool Trainer Alexia'', ''Cool Trainer Berke'', ''Cool Trainer Brooke'', ''Cool Trainer Carolina'',
     ''Cool Trainer Caroline'', ''Cool Trainer Cristin'', ''Cool Trainer Darcy'', ''Cool Trainer Edgar'', ''Cool Trainer Felix'',
     ''Cool Trainer George'', ''Cool Trainer Gerald'', ''Cool Trainer Gian'', ''Cool Trainer Gustavo'', ''Cool Trainer Halle'',
     ''Cool Trainer Hope'', ''Cool Trainer Jennifer'', ''Cool Trainer Jody'', ''Cool Trainer Jonathan'', ''Cool Trainer Julie'',
     ''Cool Trainer Katelynn'', ''Cool Trainer Marley'', ''Cool Trainer Mary'', ''Cool Trainer Michelle'', ''Cool Trainer Parker'',
     ''Cool Trainer Quincy'', ''Cool Trainer Randall'', ''Cool Trainer Ruben'', ''Cool Trainer Samuel'', ''Cool Trainer Shannon'',
     ''Cool Trainer Specter'', ''Cool Trainer Tammy'', ''Cool Trainer Warren'', ''Cool Trainer Wendy'', ''Cool Trainer Wilton'',
     ''Dragon Tamer Aaron'', ''Dragon Tamer Nicolas'', ''Dumbass Soupercell'', ''Elite Four Drake'', ''Elite Four Glacia'', ''Elite Four Phoebe'',
     ''Elite Four Sidney'', ''Expert Donald'', ''Expert Kevin'', ''Expert Makayla'', ''Expert Mollie'', ''Expert Nancy'', ''Expert Paxton'',
     ''Expert Timothy'', ''Fisherman Andrew'', ''Fisherman Barny'', ''Fisherman Bill'', ''Fisherman Carter'', ''Fisherman Claude'',
     ''Fisherman Dale'', ''Fisherman Darian'', ''Fisherman Elliot'', ''Fisherman Henry'', ''Fisherman Ivan'', ''Fisherman Jonah'', ''Fisherman Kai'',
     ''Fisherman Nolan'', ''Fisherman Phil'', ''Fisherman Roger'', ''Fisherman Ronald'', ''Fisherman Wade'', ''Fisherman Wayne'',
     ''Gentleman Clifford'', ''Gentleman Walter'', ''Guitarist Brian'', ''Guitarist Dalton'', ''Guitarist Fernando'']"

definition TRAINER_NAMES_2 :: "string list" where
  "TRAINER_NAMES_2 = [
     ''Guitarist Kirk'', ''Guitarist Shawn'', ''Hex Maniac Gongas'', ''Hex Maniac Kathleen'', ''Hex Maniac Leah'', ''Hex Maniac Tasha'',
     ''Hex Maniac Valerie'', ''Hiker Brice'', ''Hiker Clark'', ''Hiker Devan'', ''Hiker Eli'', ''Hiker Eric'', ''Hiker Lenny'', ''Hiker Lucas'',
     ''Hiker Marc'', ''Hiker Mike'', ''Hiker Trent'', ''Interviewer Gabby & Ty'', ''Kindler Axle'', ''Kindler Bernie'', ''Kindler Bryant'',
     ''Kindler Cole'', ''Kindler Hayden'', ''Kindler Jace'', ''Kindler Jeff'', ''Kindler Keegan'', ''Lady Brianna'', ''Lady Cindy'', ''Lady Daphne'',
     ''Lady Sarah'', ''Lass Andrea'', ''Lass Crissy'', ''Lass Haley'', ''Lass Janice'', ''Lass Pearl'', ''Lass Tiana'', ''Leader Brawly'',
     ''Leader Flannery'', ''Leader Juan'', ''Leader Liza'', ''Leader Norman'', ''Leader Roxanne'', ''Leader Tate'', ''Leader Wattson'',
     ''Leader Winona'', ''Magma Admin Courtney'', ''Magma Admin Tabitha'', ''Magma Leader Maxie'', ''Ninja Boy Gren'', ''Ninja Boy Jack'',
     ''Ninja Boy Jinra'', ''Ninja Boy Jonas'', ''Ninja Boy Keigo'', ''Ninja Boy Lao'', ''Ninja Boy Lung'', ''Ninja Boy Riley'',
     ''Ninja Boy Takashi'', ''Ninja Boy Yasu'', ''Old Couple John & Jay'', ''Parasol Lady Angelica'', ''Parasol Lady Clarissa'',
     ''Parasol Lady Koko'', ''Parasol Lady Madeline'', ''Picnicker Angelina'', ''Picnicker Ashley'', ''Picnicker Bianca'', ''Picnicker Carol'',
     ''Picnicker Charlotte'', ''Picnicker Diana'', ''Picnicker Irene'', ''Picnicker Sophie'', ''Pokemon Breeder Corgi'',
     ''Pokemon Breeder Gabrielle'', ''Pokemon Breeder Isaac'', ''Pokemon Breeder Lydia'', ''Pokemon Breeder Myles'', ''Pokemon Breeder Pat'',
     ''Pokemon Ranger Catherine'', ''Pokemon Ranger Jackson'', ''Pokemon Ranger Jenna'', ''Pokemon Ranger Lorenzo'', ''Pokemon Ranger Lydian'',
     ''Pokemon Trainer Chelle'', ''Pokemon Trainer May'', ''Pokemon Trainer Steven'', ''Pokemon Trainer Wally'',
     ''Pok'' @ [CHR 0xE9] @ ''fan Bethany'', ''Pok'' @ [CHR 0xE9] @ ''fan Isabel'', ''Pok'' @ [CHR 0xE9] @ ''fan Miguel'',
     ''Pok'' @ [CHR 0xE9] @ ''fan Vanessa'', ''Pok'' @ [CHR 0xE9] @ ''maniac Hambino'', ''Pok'' @ [CHR 0xE9] @ ''maniac Mark'',
     ''Pok'' @ [CHR 0xE9] @ ''maniac Steve'', ''Pok'' @ [CHR 0xE9] @ ''maniac Wyatt'', ''Psychic Alix'', ''Psychic Blake'', ''Psychic Brandi'',
     ''Psychic Cameron'', ''Psychic Cedric'', ''Psychic Edward'', ''Psychic Hannah'', ''Psychic Jacki'', ''Psychic Jaclyn'', ''Psychic Kayla'',
     ''Psychic Marlene'', ''Psychic Preston'', ''Psychic Virgil'', ''Psychic William'', ''Rich Boy Braw'', ''Rich Boy Dawson'', ''Rich Boy Santos'',
     ''Rich Boy Winston'', ''Ruin Maniac Bryan'', ''Ruin Maniac Chip'', ''Ruin Maniac Foster'', ''Ruin Maniac Garrison'', ''Ruin Maniac Georgie'',
     ''Ruin Maniac Rigger'', ''Sailor Brenden'', ''Sailor Duncan'', ''Sailor Dwayne'', ''Sailor Edmond'', ''Sailor Ernest'', ''Sailor Hudson'',
     ''Sailor Kelvin'', ''School Kid Jerry'', ''School Kid Karen'', ''Sis And Bro Lila & Roy'', ''Sis And Bro Lisa & Ray'',
     ''Sis And Bro Reli & Ian'', ''Sr. And Jr. Anna & Meg'', ''Sr. And Jr. Kim & Iris'', ''Sr. And Jr. Tyra & Ivy'',
     ''Swimmer'' @ [CHR 0x8C] @ '' Alice'', ''Swimmer'' @ [CHR 0x8C] @ '' Beth'', ''Swimmer'' @ [CHR 0x8C] @ '' Beverly'',
     ''Swimmer'' @ [CHR 0x8C] @ '' Brenda'', ''Swimmer'' @ [CHR 0x8C] @ '' Carlee'', ''Swimmer'' @ [CHR 0x8C] @ '' Dana'',
     ''Swimmer'' @ [CHR 0x8C] @ '' Debra'']"

definition TRAINER_NAMES_3 :: "string list" where
  "TRAINER_NAMES_3 = [
     ''Swimmer'' @ [CHR 0x8C] @ '' Denise'', ''Swimmer'' @ [CHR 0x8C] @ '' Grace'', ''Swimmer'' @ [CHR 0x8C] @ '' Imani'',
     ''Swimmer'' @ [CHR 0x8C] @ '' Kara'', ''Swimmer'' @ [CHR 0x8C] @ '' Katie'', ''Swimmer'' @ [CHR 0x8C] @ '' Kyla'',
     ''Swimmer'' @ [CHR 0x8C] @ '' Laurel'', ''Swimmer'' @ [CHR 0x8C] @ '' Missy'', ''Swimmer'' @ [CHR 0x8C] @ '' Nikki'',
     ''Swimmer'' @ [CHR 0x8C] @ '' Rose'', ''Swimmer'' @ [CHR 0x8C] @ '' Sharon'', ''Swimmer'' @ [CHR 0x8C] @ '' Sienna'',
     ''Swimmer'' @ [CHR 0x8C] @ '' Susie'', ''Swimmer'' @ [CHR 0x8C] @ '' Tanya'', ''Swimmer'' @ [CHR 0x8C] @ '' Tara'',
     ''Swimmer'' @ [CHR 0x8C] @ '' Tisha'', ''Swimmer'' @ [CHR 0x8B] @ '' Barry'', ''Swimmer'' @ [CHR 0x8B] @ '' Chad'',
     ''Swimmer'' @ [CHR 0x8B] @ '' Clarence'', ''Swimmer'' @ [CHR 0x8B] @ '' Cranberry'', ''Swimmer'' @ [CHR 0x8B] @ '' Darrin'',
     ''Swimmer'' @ [CHR 0x8B] @ '' David'', ''Swimmer'' @ [CHR 0x8B] @ '' Dean'', ''Swimmer'' @ [CHR 0x8B] @ '' Dominik'',
     ''Swimmer'' @ [CHR 0x8B] @ '' Douglas'', ''Swimmer'' @ [CHR 0x8B] @ '' Franklin'', ''Swimmer'' @ [CHR 0x8B] @ '' Herman'',
     ''Swimmer'' @ [CHR 0x8B] @ '' Jaiden'', ''Swimmer'' @ [CHR 0x8B] @ '' Jerome'', ''Swimmer'' @ [CHR 0x8B] @ '' Leonardo'',
     ''Swimmer'' @ [CHR 0x8B] @ '' Luis'', ''Swimmer'' @ [CHR 0x8B] @ '' Matthew'', ''Swimmer'' @ [CHR 0x8B] @ '' Nolen'',
     ''Swimmer'' @ [CHR 0x8B] @ '' Reed'', ''Swimmer'' @ [CHR 0x8B] @ '' Richard'', ''Swimmer'' @ [CHR 0x8B] @ '' Rodney'',
     ''Swimmer'' @ [CHR 0x8B] @ '' Roland'', ''Swimmer'' @ [CHR 0x8B] @ '' Santiago'', ''Swimmer'' @ [CHR 0x8B] @ '' Stan'',
     ''Swimmer'' @ [CHR 0x8B] @ '' Tony'', ''Swimmer'' @ [CHR 0x8B] @ '' Zappator'', ''Team Aqua Grunt'', ''Team Aqua Grunt Jazz'',
     ''Team Magma Grunt'', ''Team Magma Grunt Zerk'', ''Triathlete Abigail'', ''Triathlete Alyssa'', ''Triathlete Anthony'', ''Triathlete Aubrey'',
     ''Triathlete Benjamin'', ''Triathlete Camron'', ''Triathlete Chase'', ''Triathlete Darren'', ''Triathlete Dylan'', ''Triathlete Isabella'',
     ''Triathlete Isaiah'', ''Triathlete Isobel'', ''Triathlete Jacob'', ''Triathlete Jasmine'', ''Triathlete Julio'', ''Triathlete Katelyn'',
     ''Triathlete Kyra'', ''Triathlete Maria'', ''Triathlete Mikey'', ''Triathlete Pablo'', ''Triathlete Xayah'', ''Tuber Austina'',
     ''Tuber Chandler'', ''Tuber Charlie'', ''Tuber Gwen'', ''Tuber Hailey'', ''Tuber Lola'', ''Tuber Ricky'', ''Tuber Simon'', ''Twins Amy & Liv'',
     ''Twins Gina & Mia'', ''Twins Miu & Yuki'', ''Twins Tori & Tia'', ''Winstrate Vicky'', ''Winstrate Victor'', ''Winstrate Victoria'',
     ''Winstrate Vito'', ''Winstrate Vivi'', ''Young Couple Brian&Casey'', ''Young Couple Dez & Luke'', ''Young Couple Kira & Dan'',
     ''Young Couple Mel & Paul'', ''Youngster Allen'', ''Youngster Ben'', ''Youngster Calvin'', ''Youngster Demetrius'', ''Youngster Jaylen'',
     ''Youngster Joey'', ''Youngster Josh'', ''Youngster Tommy'']"

definition TRAINER_NAMES :: "string list" where
  "TRAINER_NAMES = concat [TRAINER_NAMES_1, TRAINER_NAMES_2, TRAINER_NAMES_3]"

text \<open>The names the matcher runs with.\<close>

definition PROGRAM_NAMES :: known_names where
  "PROGRAM_NAMES = \<lparr>kn_pokemon = POKEMON_NAMES, kn_moves = MOVE_NAMES, kn_items = ITEM_NAMES, kn_abilities = ABILITY_NAMES,
     kn_trainer_classes = TRAINER_CLASS_NAMES, kn_trainers = TRAINER_NAMES\<rparr>"

section \<open>Fuzzy membership\<close>

lemma best_match_fold:
  assumes "v \<in> set known" "word_cost lev w v = 0" "0 < fst best"
  shows "\<exists>k \<in> set known. snd (foldl (\<lambda>best v. let d = word_cost lev w v in if d < fst best then (d, Some v) else best) best known) = Some k
    \<and> word_cost lev w k = 0"
  using assms
proof (induction known arbitrary: best)
  case (Cons x known)
  let ?f = "\<lambda>best v. let d = word_cost lev w v in if d < fst best then (d, Some v) else best"
  have stay: "foldl ?f (0, o1) ks = (0, o1)" for o1 ks by (induction ks) simp_all
  show ?case
  proof (cases "word_cost lev w x = 0")
    case True
    then show ?thesis using Cons.prems(3) stay by simp
  next
    case False
    then have rest: "v \<in> set known" "0 < fst (?f best x)" using Cons.prems by (auto simp: Let_def)
    from Cons.IH[OF rest(1) Cons.prems(2) rest(2)] show ?thesis by auto
  qed
qed simp

lemma best_match_known:
  assumes "\<And>x. lev x x = 0" "k \<in> set known" "lower k = lower w"
  shows "best_match lev w known \<noteq> None"
  using best_match_fold[OF assms(2), of lev w "(max_edits (length w) + 1, None)"] assms(1,3)
  by (auto simp: best_match_def word_cost_def)

section \<open>The names of the engine are accepted\<close>

definition single_word :: "string \<Rightarrow> bool" where
  "single_word v \<longleftrightarrow> v \<noteq> [] \<and> list_all (\<lambda>c. \<not> is_space c) v"

lemma split_single: "list_all (\<lambda>c. \<not> is_space c) v \<Longrightarrow> split_from cur v = (if cur @ v = [] then [] else [cur @ v])"
  by (induction v arbitrary: cur) auto

lemma split_foe_word: "single_word v \<Longrightarrow> split_words (''Foe '' @ v) = [''Foe'', v]"
  by (simp add: split_words_def split_single single_word_def is_space_def)

lemma lower_upper: "lower (upper s) = lower s"
  by (induction s) (auto simp: lower_def upper_def lower_char_def upper_char_def Let_def of_char_of)

lemma species_known:
  assumes "\<And>x. lev x x = 0" "sp \<in> snd ` set SPECIES_MEMBERS" "lower v = lower (emulator_species_name RUN_AND_BUN sp)"
  shows "best_match lev v (kn_pokemon PROGRAM_NAMES) \<noteq> None"
proof (rule best_match_known[OF assms(1)])
  show "upper (emulator_species_name RUN_AND_BUN sp) \<in> set (kn_pokemon PROGRAM_NAMES)"
    using assms(2) by (auto simp: PROGRAM_NAMES_def POKEMON_NAMES_def all_species_display_names_def)
qed (simp add: lower_upper assms(3))

lemma move_known:
  assumes "\<And>x. lev x x = 0" "m \<in> snd ` set MOVE_MEMBERS" "enum_name MOVE_MEMBERS m \<noteq> ''NONE''"
    and "lower v = lower (replace_char (CHR ''_'') (CHR '' '') (enum_name MOVE_MEMBERS m))"
  shows "best_match lev v (kn_moves PROGRAM_NAMES) \<noteq> None"
proof (rule best_match_known[OF assms(1)])
  show "replace_char (CHR ''_'') (CHR '' '') (enum_name MOVE_MEMBERS m) \<in> set (kn_moves PROGRAM_NAMES)"
    using assms(2,3) by (auto simp: PROGRAM_NAMES_def MOVE_NAMES_def all_move_display_names_def)
qed (simp add: assms(4))

text \<open>
  C34: Without constraints the matcher accepts the names of the engine, in any case: the name that stands for each species when it is
  one word, with or without "Foe" in front, and the name of each move, whatever distance function is used, as long as equal
  texts are at distance 0.
\<close>

theorem engine_names_accepted:
  assumes "\<forall>x. lev x x = 0"
  shows "(sp \<in> snd ` set SPECIES_MEMBERS \<and> lower v = lower (emulator_species_name RUN_AND_BUN sp) \<and> single_word v
      \<longrightarrow> validate_one lev PROGRAM_NAMES v VC_POKEMON_NAME None \<and> validate_one lev PROGRAM_NAMES (''Foe '' @ v) VC_POKEMON_NAME None)
    \<and> (m \<in> snd ` set MOVE_MEMBERS \<and> enum_name MOVE_MEMBERS m \<noteq> ''NONE'' \<and> w \<noteq> []
       \<and> lower w = lower (replace_char (CHR ''_'') (CHR '' '') (enum_name MOVE_MEMBERS m))
      \<longrightarrow> validate_one lev PROGRAM_NAMES w VC_MOVE_NAME None)"
proof (intro conjI impI; elim conjE)
  assume sp: "sp \<in> snd ` set SPECIES_MEMBERS" "lower v = lower (emulator_species_name RUN_AND_BUN sp)" and v: "single_word v"
  have known: "best_match lev v (kn_pokemon PROGRAM_NAMES) \<noteq> None" by (rule species_known[OF _ sp]) (simp add: assms)
  have one: "split_words v = [v]" using v by (simp add: split_words_def split_single single_word_def)
  then show "validate_one lev PROGRAM_NAMES v VC_POKEMON_NAME None"
    using known v by (simp add: validate_one_def validate_pokemon_name_def strip_foe_def single_word_def)
  show "validate_one lev PROGRAM_NAMES (''Foe '' @ v) VC_POKEMON_NAME None"
    using known split_foe_word[OF v] assms
    by (simp add: validate_one_def validate_pokemon_name_def strip_foe_def FOE_PREFIX_def word_cost_def)
next
  assume m: "m \<in> snd ` set MOVE_MEMBERS" "enum_name MOVE_MEMBERS m \<noteq> ''NONE''"
    "lower w = lower (replace_char (CHR ''_'') (CHR '' '') (enum_name MOVE_MEMBERS m))" and w: "w \<noteq> []"
  have "best_match lev w (kn_moves PROGRAM_NAMES) \<noteq> None" by (rule move_known[OF _ m]) (simp add: assms)
  then show "validate_one lev PROGRAM_NAMES w VC_MOVE_NAME None" using w by (simp add: validate_one_def)
qed

lemma bulbasaur: "emulator_species_name RUN_AND_BUN 1 = ''BULBASAUR''"
proof -
  have "\<exists>rest. SPECIES_MEMBERS = (''BULBASAUR'', 1) # rest" by (simp add: SPECIES_MEMBERS_def SPECIES_MEMBERS_1_def)
  then obtain rest where rows: "SPECIES_MEMBERS = (''BULBASAUR'', 1) # rest" by blast
  have "map_of SPECIES_TO_EMULATOR_NAME 1 = None" by (simp add: SPECIES_TO_EMULATOR_NAME_def)
  then show ?thesis by (simp add: emulator_species_name_def species_name_def RUN_AND_BUN_def enum_members_def rows)
qed

lemma pound: "enum_name MOVE_MEMBERS 1 = ''POUND''"
proof -
  have "\<exists>rest. MOVE_MEMBERS = (''NONE'', 0) # (''POUND'', 1) # rest" by (simp add: MOVE_MEMBERS_def MOVE_MEMBERS_1_def)
  then obtain rest where rows: "MOVE_MEMBERS = (''NONE'', 0) # (''POUND'', 1) # rest" by blast
  show ?thesis by (simp add: enum_name_def rows)
qed

theorem engine_names_accepted_witness:
  "validate_one levenshtein PROGRAM_NAMES ''Bulbasaur'' VC_POKEMON_NAME None \<and> validate_one levenshtein PROGRAM_NAMES ''Foe Bulbasaur'' VC_POKEMON_NAME None
   \<and> validate_one levenshtein PROGRAM_NAMES ''Pound'' VC_MOVE_NAME None"
proof -
  have members: "(''BULBASAUR'', 1) \<in> set SPECIES_MEMBERS" "(''POUND'', 1) \<in> set MOVE_MEMBERS"
    by (simp_all add: SPECIES_MEMBERS_def SPECIES_MEMBERS_1_def MOVE_MEMBERS_def MOVE_MEMBERS_1_def)
  have texts: "lower ''Bulbasaur'' = lower ''BULBASAUR''" "lower ''Pound'' = lower (replace_char (CHR ''_'') (CHR '' '') ''POUND'')"
    "single_word ''Bulbasaur''" by code_simp+
  have dist: "\<forall>x. levenshtein x x = 0" by (simp add: lev.dist_zero)
  have one: "1 \<in> snd ` set SPECIES_MEMBERS" "1 \<in> snd ` set MOVE_MEMBERS" using members by force+
  show ?thesis using engine_names_accepted[of levenshtein 1 "''Bulbasaur''" 1 "''Pound''"] dist one texts by (simp add: bulbasaur pound)
qed

text \<open>A species name of two words is rejected without constraints, although it is what the screen shows.\<close>

lemma two_word_name_rejected: "\<not> validate_one levenshtein kn ''Mr. Mime'' VC_POKEMON_NAME None"
proof -
  have "split_words ''Mr. Mime'' = [''Mr.'', ''Mime'']" by code_simp
  moreover have "word_cost levenshtein ''Mr.'' FOE_PREFIX = 3" "max_edits (length FOE_PREFIX) = 1" by code_simp+
  ultimately show ?thesis by (simp add: validate_one_def validate_pokemon_name_def strip_foe_def)
qed

end
