(* ===== verification/ItemTable.thy ===== *)
theory ItemTable
  imports BattleSetup
begin

text \<open>
  The rows of the item data (\<open>data/items.py\<close>): the display name of every item and the type and power of Natural Gift. An item is its
  number, as in \<open>EnumTables\<close>.
\<close>

section \<open>Display names\<close>

definition ITEM_ROWS_1 :: "(item \<times> string) list" where
  "ITEM_ROWS_1 = [
     (0, ''None''), (34, ''Berry Juice''), (- 2, ''Vile Vial''), (1, ''Master Ball''), (2, ''Ultra Ball''),
     (3, ''Great Ball''), (4, ''Poke Ball''), (5, ''Safari Ball''), (6, ''Net Ball''), (7, ''Dive Ball''),
     (8, ''Nest Ball''), (9, ''Repeat Ball''), (10, ''Timer Ball''), (11, ''Luxury Ball''), (12, ''Premier Ball''),
     (13, ''Dusk Ball''), (14, ''Heal Ball''), (15, ''Quick Ball''), (16, ''Cherish Ball''), (80, ''Sun Stone''),
     (81, ''Moon Stone''), (82, ''Fire Stone''), (83, ''Thunder Stone''), (84, ''Water Stone''), (85, ''Leaf Stone''),
     (106, ''Rare Bone''), (107, ''Shiny Stone''), (108, ''Dusk Stone''), (109, ''Dawn Stone''), (110, ''Oval Stone''),
     (112, ''Griseous Orb''), (135, ''Adamant Orb''), (136, ''Lustrous Orb''), (259, ''Leek''), (260, ''Thick Club''),
     (149, ''Cheri Berry''), (150, ''Chesto Berry''), (151, ''Pecha Berry''), (152, ''Rawst Berry''), (153, ''Aspear Berry''),
     (154, ''Leppa Berry''), (155, ''Oran Berry''), (156, ''Persim Berry''), (157, ''Lum Berry''), (158, ''Sitrus Berry''),
     (159, ''Figy Berry''), (160, ''Wiki Berry''), (161, ''Mago Berry''), (162, ''Aguav Berry''), (163, ''Iapapa Berry''),
     (169, ''Pomeg Berry''), (170, ''Kelpsy Berry''), (171, ''Qualot Berry''), (172, ''Hondew Berry''), (173, ''Grepa Berry''),
     (174, ''Tamato Berry''), (184, ''Occa Berry''), (185, ''Passho Berry''), (186, ''Wacan Berry''), (187, ''Rindo Berry''),
     (188, ''Yache Berry''), (189, ''Chople Berry''), (190, ''Kebia Berry''), (191, ''Shuca Berry''), (192, ''Coba Berry''),
     (193, ''Payapa Berry''), (194, ''Tanga Berry''), (195, ''Charti Berry''), (196, ''Kasib Berry''), (197, ''Haban Berry''),
     (198, ''Colbur Berry''), (199, ''Babiri Berry''), (200, ''Chilan Berry''), (201, ''Liechi Berry''), (202, ''Ganlon Berry''),
     (203, ''Salac Berry''), (204, ''Petaya Berry''), (205, ''Apicot Berry''), (206, ''Lansat Berry''), (207, ''Starf Berry''),
     (208, ''Enigma Berry''), (209, ''Micle Berry''), (210, ''Custap Berry''), (211, ''Jaboca Berry''), (212, ''Rowap Berry''),
     (213, ''Bright Powder''), (214, ''White Herb''), (217, ''Quick Claw''), (219, ''Mental Herb''), (220, ''Choice Band''),
     (221, ''King's Rock''), (222, ''Silver Powder''), (225, ''Soul Dew''), (230, ''Focus Band''), (232, ''Scope Lens''),
     (233, ''Metal Coat''), (234, ''Leftovers''), (235, ''Dragon Scale''), (236, ''Light Ball''), (237, ''Soft Sand''),
     (238, ''Hard Stone''), (239, ''Miracle Seed''), (240, ''Black Glasses''), (241, ''Black Belt''), (242, ''Magnet''),
     (243, ''Mystic Water''), (244, ''Sharp Beak''), (245, ''Poison Barb''), (246, ''Never-Melt Ice''), (247, ''Spell Tag''),
     (248, ''Twisted Spoon''), (249, ''Charcoal''), (250, ''Dragon Fang''), (251, ''Silk Scarf''), (252, ''Up-Grade''),
     (253, ''Shell Bell''), (265, ''Wide Lens''), (266, ''Muscle Band''), (267, ''Wise Glasses''), (268, ''Expert Belt''),
     (269, ''Light Clay''), (270, ''Life Orb''), (271, ''Power Herb''), (272, ''Toxic Orb''), (273, ''Flame Orb''),
     (275, ''Focus Sash''), (276, ''Zoom Lens''), (277, ''Metronome''), (278, ''Iron Ball''), (279, ''Lagging Tail''),
     (280, ''Destiny Knot''), (281, ''Black Sludge''), (282, ''Icy Rock''), (283, ''Smooth Rock''), (284, ''Heat Rock''),
     (285, ''Damp Rock''), (286, ''Grip Claw''), (287, ''Choice Scarf''), (288, ''Sticky Barb''), (289, ''Power Bracer''),
     (290, ''Power Belt''), (291, ''Power Lens''), (292, ''Power Band''), (293, ''Power Anklet''), (294, ''Power Weight''),
     (295, ''Shed Shell''), (296, ''Big Root''), (297, ''Choice Specs''), (298, ''Flame Plate''), (299, ''Splash Plate'')]"

definition ITEM_ROWS_2 :: "(item \<times> string) list" where
  "ITEM_ROWS_2 = [
     (300, ''Zap Plate''), (301, ''Meadow Plate''), (302, ''Icicle Plate''), (303, ''Fist Plate''), (304, ''Toxic Plate''),
     (305, ''Earth Plate''), (306, ''Sky Plate''), (307, ''Mind Plate''), (308, ''Insect Plate''), (309, ''Stone Plate''),
     (310, ''Spooky Plate''), (311, ''Draco Plate''), (312, ''Dread Plate''), (313, ''Iron Plate''), (321, ''Protector''),
     (322, ''Electirizer''), (323, ''Magmarizer''), (324, ''Dubious Disc''), (325, ''Reaper Cloth''), (326, ''Razor Claw''),
     (327, ''Razor Fang''), (492, ''Fast Ball''), (493, ''Level Ball''), (494, ''Lure Ball''), (495, ''Heavy Ball''),
     (496, ''Love Ball''), (497, ''Friend Ball''), (498, ''Moon Ball''), (499, ''Sport Ball''), (500, ''Park Ball''),
     (537, ''Prism Scale''), (538, ''Eviolite''), (539, ''Float Stone''), (540, ''Rocky Helmet''), (541, ''Air Balloon''),
     (542, ''Red Card''), (543, ''Ring Target''), (544, ''Binding Band''), (545, ''Absorb Bulb''), (546, ''Cell Battery''),
     (547, ''Eject Button''), (564, ''Normal Gem''), (4001, ''Fire Gem''), (4002, ''Water Gem''), (4003, ''Grass Gem''),
     (4004, ''Electric Gem''), (4005, ''Ice Gem''), (4006, ''Fighting Gem''), (4007, ''Poison Gem''), (4008, ''Ground Gem''),
     (4009, ''Flying Gem''), (4010, ''Psychic Gem''), (4011, ''Bug Gem''), (4012, ''Rock Gem''), (4013, ''Ghost Gem''),
     (4014, ''Dragon Gem''), (4015, ''Dark Gem''), (4016, ''Steel Gem''), (4017, ''Fairy Gem''), (571, ''Pretty Feather''),
     (576, ''Dream Ball''), (581, ''Big Nugget''), (639, ''Weakness Policy''), (640, ''Assault Vest''), (644, ''Pixie Plate''),
     (648, ''Luminous Moss''), (649, ''Snowball''), (650, ''Safety Goggles''), (686, ''Roseli Berry''), (687, ''Kee Berry''),
     (688, ''Maranga Berry''), (795, ''Bottle Cap''), (796, ''Gold Bottle Cap''), (846, ''Adrenaline Orb''), (849, ''Ice Stone''),
     (851, ''Beast Ball''), (879, ''Terrain Extender''), (880, ''Protective Pads''), (881, ''Electric Seed''), (882, ''Psychic Seed''),
     (883, ''Misty Seed''), (884, ''Grassy Seed''), (1103, ''Rusted Sword''), (1104, ''Rusted Shield''), (1109, ''Strawberry Sweet''),
     (1110, ''Love Sweet''), (1111, ''Berry Sweet''), (1112, ''Clover Sweet''), (1113, ''Flower Sweet''), (1114, ''Star Sweet''),
     (1115, ''Ribbon Sweet''), (1116, ''Sweet Apple''), (1117, ''Tart Apple''), (1118, ''Throat Spray''), (1119, ''Eject Pack''),
     (1120, ''Heavy-Duty Boots''), (1121, ''Blunder Policy''), (1122, ''Room Service''), (1123, ''Utility Umbrella''), (1253, ''Cracked Pot''),
     (1254, ''Chipped Pot''), (1582, ''Galarica Cuff''), (1592, ''Galarica Wreath''), (1777, ''Adamant Crystal''), (1778, ''Lustrous Globe''),
     (1779, ''Griseous Core''), (1785, ''Strange Ball''), (1861, ''Malicious Armor''), (1884, ''Punching Glove''), (1885, ''Covert Cloak''),
     (1886, ''Loaded Dice''), (2344, ''Auspicious Armor''), (2401, ''Fairy Feather''), (2402, ''Syrupy Apple''), (2403, ''Unremarkable Teacup''),
     (2404, ''Masterpiece Teacup''), (2406, ''Cornerstone Mask''), (2407, ''Wellspring Mask''), (2408, ''Hearthflame Mask''), (2482, ''Metal Alloy''),
     (901, ''Fire Memory''), (902, ''Water Memory''), (903, ''Grass Memory''), (904, ''Electric Memory''), (905, ''Ice Memory''),
     (906, ''Fighting Memory''), (907, ''Poison Memory''), (908, ''Ground Memory''), (909, ''Flying Memory''), (910, ''Psychic Memory''),
     (911, ''Bug Memory''), (912, ''Rock Memory''), (913, ''Ghost Memory''), (914, ''Dragon Memory''), (915, ''Dark Memory''),
     (916, ''Steel Memory''), (917, ''Fairy Memory''), (41, ''Blue Orb''), (40, ''Red Orb''), (573, ''Garchompite''),
     (575, ''Abomasite''), (576, ''Absolite''), (577, ''Aerodactylite''), (578, ''Aggronite''), (579, ''Alakazite''),
     (580, ''Ampharosite''), (582, ''Banettite'')]"

definition ITEM_ROWS_3 :: "(item \<times> string) list" where
  "ITEM_ROWS_3 = [
     (583, ''Blastoisinite''), (584, ''Blazikenite''), (585, ''Charizardite X''), (586, ''Charizardite Y''), (587, ''Gardevoirite''),
     (588, ''Gengarite''), (589, ''Gyaradosite''), (590, ''Heracronite''), (591, ''Houndoominite''), (592, ''Kangaskhanite''),
     (594, ''Lucarionite''), (596, ''Manectite''), (598, ''Mawilite''), (599, ''Medichamite''), (602, ''Pinsirite''),
     (605, ''Scizorite''), (607, ''Tyranitarite''), (608, ''Venusaurite''), (612, ''Swampertite''), (613, ''Sceptilite''),
     (614, ''Sablenite''), (615, ''Altarianite''), (616, ''Galladite''), (617, ''Audinite''), (618, ''Metagrossite''),
     (619, ''Sharpedonite''), (620, ''Slowbronite''), (621, ''Steelixite''), (622, ''Pidgeotite''), (623, ''Glalitite''),
     (625, ''Cameruptite''), (626, ''Lopunnite''), (627, ''Salamencite''), (628, ''Beedrillite''), (629, ''Latiasite''),
     (630, ''Latiosite'')]"

definition ITEM_ROWS :: "(item \<times> string) list" where
  "ITEM_ROWS = concat [ITEM_ROWS_1, ITEM_ROWS_2, ITEM_ROWS_3]"

definition ITEM_DATA :: "item \<Rightarrow> string option" where
  "ITEM_DATA = map_of (rev ITEM_ROWS)"

section \<open>Berries\<close>

definition NATURAL_GIFT_ROWS_1 :: "(item \<times> ptype \<times> nat) list" where
  "NATURAL_GIFT_ROWS_1 = [
     (149, T_FIRE, 60), (150, T_WATER, 60), (151, T_ELECTRIC, 60), (152, T_GRASS, 60), (153, T_ICE, 60),
     (154, T_FIGHTING, 60), (155, T_POISON, 60), (156, T_GROUND, 60), (157, T_FLYING, 80), (158, T_PSYCHIC, 80),
     (159, T_FIRE, 80), (160, T_WATER, 80), (161, T_GRASS, 80), (162, T_DRAGON, 80), (163, T_DARK, 80),
     (184, T_FIRE, 80), (185, T_WATER, 80), (186, T_ELECTRIC, 80), (187, T_GRASS, 80), (188, T_ICE, 80),
     (189, T_FIGHTING, 80), (190, T_POISON, 80), (191, T_GROUND, 80), (192, T_FLYING, 80), (193, T_PSYCHIC, 80),
     (194, T_BUG, 80), (195, T_ROCK, 80), (196, T_GHOST, 80), (197, T_DRAGON, 80), (198, T_DARK, 80),
     (199, T_STEEL, 80), (200, T_NORMAL, 80), (686, T_FAIRY, 80), (201, T_GRASS, 100), (202, T_ICE, 100),
     (203, T_FIGHTING, 100), (204, T_POISON, 100), (205, T_GROUND, 100), (206, T_FLYING, 100), (207, T_PSYCHIC, 100),
     (210, T_GHOST, 100), (209, T_ROCK, 100), (211, T_DRAGON, 100), (212, T_DARK, 100), (687, T_FAIRY, 100),
     (688, T_DARK, 100), (208, T_BUG, 100)]"

definition NATURAL_GIFT_ROWS :: "(item \<times> ptype \<times> nat) list" where
  "NATURAL_GIFT_ROWS = concat [NATURAL_GIFT_ROWS_1]"

definition NATURAL_GIFT_TABLE :: "item \<Rightarrow> (ptype \<times> nat) option" where
  "NATURAL_GIFT_TABLE = map_of (rev NATURAL_GIFT_ROWS)"

definition BERRY_ITEMS :: "item list" where
  "BERRY_ITEMS = map snd (filter (\<lambda>m. drop (length (fst m) - 6) (fst m) = ''_BERRY'') ITEM_MEMBERS)"

section \<open>Names and members\<close>

text \<open>The member that a display name stands for. One name has an apostrophe, which the member does not.\<close>

definition named_member :: "string \<Rightarrow> string" where
  "named_member n = (if n = ''King's Rock'' then ''KING_S_ROCK'' else member_key n)"

text \<open>The normalisation on the bits of a character, for evaluation.\<close>

fun key_char :: "char \<Rightarrow> char" where
  "key_char (Char b0 b1 b2 b3 b4 b5 b6 b7) =
     (if \<not> b7 \<and> b6 \<and> b5 \<and> (b0 \<or> b1 \<or> b2 \<or> b3 \<or> b4) \<and> \<not> (b4 \<and> b3 \<and> (b2 \<or> (b1 \<and> b0))) then Char b0 b1 b2 b3 b4 False b6 b7
      else if \<not> b7 \<and> \<not> b6 \<and> b5 \<and> \<not> b4 \<and> \<not> b1 \<and> (if b3 then b2 \<and> b0 else \<not> b2 \<and> \<not> b0) then CHR ''_''
      else Char b0 b1 b2 b3 b4 b5 b6 b7)"

lemma key_char_exact:
  "(let d = upper_char c; e = (if d = CHR '' '' then CHR ''_'' else d) in if e = CHR ''-'' then CHR ''_'' else e) = key_char c"
proof (cases c)
  case (Char b0 b1 b2 b3 b4 b5 b6 b7)
  then show ?thesis
    by (cases b0; cases b1; cases b2; cases b3; cases b4; cases b5; cases b6; cases b7; simp add: upper_char_def char_of_def bit_0)
qed

lemma member_key_alt: "member_key n = map key_char n"
  by (simp add: member_key_def replace_char_def upper_def key_char_exact[symmetric] Let_def)

lemma named_member_alt: "named_member = (\<lambda>n. if n = ''King's Rock'' then ''KING_S_ROCK'' else map key_char n)"
  by (simp add: named_member_def member_key_alt fun_eq_iff)

lemma rows_follow_members:
  "map (\<lambda>r. (named_member (snd r), fst r)) ITEM_ROWS = concat [take 1 (drop 0 ITEM_MEMBERS),
     take 1 (drop 7 ITEM_MEMBERS),
     take 6 (drop 1 ITEM_MEMBERS),
     take 27 (drop 8 ITEM_MEMBERS),
     take 252 (drop 81 ITEM_MEMBERS),
     take 46 (drop 35 ITEM_MEMBERS)]"
  unfolding named_member_alt by code_simp

text \<open>Names as numbers, so that they can be sorted: five bits of each character.\<close>

fun add_char :: "char \<Rightarrow> int \<Rightarrow> int" where
  "add_char (Char b0 b1 b2 b3 b4 b5 b6 b7) n = n * 32 + of_bool b4 * 16 + of_bool b3 * 8 + of_bool b2 * 4 + of_bool b1 * 2 + of_bool b0"

definition name_code :: "string \<Rightarrow> int" where
  "name_code s = foldl (\<lambda>n c. add_char c n) 0 s"

lemma name_codes_ascending: "ascending (msort (map (\<lambda>m. name_code (fst m)) ITEM_MEMBERS))"
  by code_simp

lemma item_names_distinct: "distinct (map fst ITEM_MEMBERS)"
proof -
  have "distinct (map name_code (map fst ITEM_MEMBERS))"
    using distinct_by_sorting[OF name_codes_ascending] by (simp add: comp_def)
  then show ?thesis by (rule distinct_map[THEN iffD1, THEN conjunct1])
qed

lemma row_member:
  assumes "(it, n) \<in> set ITEM_ROWS"
  shows "(named_member n, it) \<in> set ITEM_MEMBERS"
proof -
  have "(named_member n, it) \<in> set (map (\<lambda>r. (named_member (snd r), fst r)) ITEM_ROWS)" using assms by force
  then show ?thesis unfolding rows_follow_members by (auto dest!: in_set_takeD in_set_dropD)
qed

lemma item_ids_covered: "asc_subset (msort (map snd ITEM_MEMBERS)) (msort (map fst ITEM_ROWS))"
  by code_simp

lemma apostrophe_refused: "lookup_enum ITEM_ALIASES ITEM_MEMBERS ''King's Rock'' = Inl ValueError"
  by code_simp

lemma alias_not_displayed: "\<forall>a \<in> set ITEM_ALIASES. fst a \<notin> snd ` set ITEM_ROWS"
proof -
  have "list_all (\<lambda>r. snd r \<noteq> ''Kings Rock'') ITEM_ROWS" by code_simp
  then show ?thesis by (auto simp: ITEM_ALIASES_def list_all_iff)
qed

lemma member_has_row: "snd ` set ITEM_MEMBERS = fst ` set ITEM_ROWS"
proof
  show "fst ` set ITEM_ROWS \<subseteq> snd ` set ITEM_MEMBERS" using row_member by force
  show "snd ` set ITEM_MEMBERS \<subseteq> fst ` set ITEM_ROWS"
    using subset_by_sorting[of "map snd ITEM_MEMBERS" "map fst ITEM_ROWS"] item_ids_covered by simp
qed

text \<open>
  The display name of an item stands for the item. Every item of the enum has a display name, and a trainer's item that is written with the display name
  resolves to the item with that number (Dream Ball and Absolite have one number); the only exception is King's Rock, whose apostrophe is not in the name of the member:
  it is refused, and found under the alias without it.
\<close>

theorem item_names_resolve:
  assumes "(it, n) \<in> set ITEM_ROWS"
  shows "it \<in> snd ` set ITEM_MEMBERS \<and> ITEM_DATA it \<noteq> None
    \<and> lookup_enum ITEM_ALIASES ITEM_MEMBERS n = (if n = ''King's Rock'' then Inl ValueError else Inr it)"
proof -
  note member = row_member[OF assms]
  have "it \<in> fst ` set ITEM_ROWS" using image_eqI[OF _ assms, of it fst] by simp
  then have "ITEM_DATA it \<noteq> None" by (simp add: ITEM_DATA_def map_of_eq_None_iff)
  moreover have "lookup_enum ITEM_ALIASES ITEM_MEMBERS n = (if n = ''King's Rock'' then Inl ValueError else Inr it)"
  proof (cases "n = ''King's Rock''")
    case True
    then show ?thesis using apostrophe_refused by simp
  next
    case False
    then have "map_of ITEM_MEMBERS (member_key n) = Some it"
      using member item_names_distinct by (simp add: named_member_def)
    moreover have "n \<in> snd ` set ITEM_ROWS" using image_eqI[OF _ assms, of n snd] by simp
    then have "n \<notin> fst ` set ITEM_ALIASES" using alias_not_displayed by blast
    then have "map_of ITEM_ALIASES n = None" by (simp add: map_of_eq_None_iff)
    ultimately show ?thesis using False by (simp add: lookup_enum_def)
  qed
  ultimately show ?thesis using member by force
qed

theorem item_names_resolve_witness:
  "lookup_enum ITEM_ALIASES ITEM_MEMBERS ''Leftovers'' = Inr 234 \<and> ITEM_DATA 234 \<noteq> None"
proof -
  have "list_ex (\<lambda>r. r = (234, ''Leftovers'')) ITEM_ROWS" by code_simp
  then have "(234, ''Leftovers'') \<in> set ITEM_ROWS" by (auto simp: list_ex_iff)
  from item_names_resolve[OF this] show ?thesis by simp
qed

text \<open>Natural Gift: the rows are berries, each once, with one of the three powers.\<close>

lemma gift_rows_sound:
  "set (map fst NATURAL_GIFT_ROWS) \<subseteq> set BERRY_ITEMS \<and> ascending (msort (map fst NATURAL_GIFT_ROWS)) \<and> list_all (\<lambda>r. snd (snd r) \<in> {60, 80, 100}) NATURAL_GIFT_ROWS"
proof -
  have "asc_subset (msort (map fst NATURAL_GIFT_ROWS)) (msort BERRY_ITEMS)" by code_simp
  moreover have "ascending (msort (map fst NATURAL_GIFT_ROWS))" by code_simp
  moreover have "list_all (\<lambda>r. snd (snd r) \<in> {60, 80, 100}) NATURAL_GIFT_ROWS" by code_simp
  ultimately show ?thesis using subset_by_sorting by blast
qed

end
