(* ===== verification/TrainerText.thy ===== *)
theory TrainerText
  imports Trainers Wire
begin

text \<open>
  The printed form of the trainer data (\<open>Pokemon.__str__\<close> and \<open>Trainer.__str__\<close> of \<open>data/trainer.py\<close>), which is the format of the text file,
  against the parser of a line in \<open>Trainers\<close>.
\<close>

section \<open>The printed form\<close>

definition comma_joined :: "string list \<Rightarrow> string" where
  "comma_joined xs = (case xs of [] \<Rightarrow> [] | x # ys \<Rightarrow> x @ concat (map (\<lambda>y. '', '' @ y) ys))"

text \<open>The IVs as Python prints the dictionary. The text of a trainer is the list of its lines.\<close>

definition iv_text :: "(string \<times> int) list \<Rightarrow> string" where
  "iv_text ivs = ''{'' @ comma_joined (map (\<lambda>x. [CHR 0x27] @ fst x @ [CHR 0x27] @ '': '' @ int_str (snd x)) ivs) @ ''}''"

definition mon_str :: "trainer_mon \<Rightarrow> string" where
  "mon_str p =
     (let item = (case tm_item p of None \<Rightarrow> [] | Some i \<Rightarrow> if i = [] then [] else '' @'' @ i);
          moves = (if tm_moves p = [] then [] else '': '' @ comma_joined (tm_moves p));
          ivs = (if tm_ivs p = [] then [] else '' IVs'' @ iv_text (tm_ivs p)) in
      ''  '' @ tm_name p @ '' Lv.'' @ int_str (tm_level p) @ item @ moves @ '' ['' @ tm_nature p @ ''|'' @ tm_ability p @ '']'' @ ivs)"

definition partner_text :: "partner_ref \<Rightarrow> string" where
  "partner_text r = (case r of PIndex n \<Rightarrow> decimal n | PName s \<Rightarrow> s)"

definition trainer_str :: "trainer \<Rightarrow> string list" where
  "trainer_str t =
     (let flags = (if tr_boss t then '' [Boss]'' else []) @ (if tr_double t then '' [Double]'' else []);
          partner = (case tr_partner t of None \<Rightarrow> [] | Some r \<Rightarrow> '' partner='' @ partner_text r);
          tag = (case tr_tag t of None \<Rightarrow> [] | Some n \<Rightarrow> '' tag='' @ decimal n) in
      (tr_name t @ '' ('' @ tr_route t @ '')'' @ flags @ partner @ tag) # map mon_str (tr_pokemon t))"

section \<open>Trimmed texts\<close>

definition trimmed :: "string \<Rightarrow> bool" where
  "trimmed s \<longleftrightarrow> s \<noteq> [] \<and> \<not> is_space (hd s) \<and> \<not> is_space (last s)"

lemma dropWhile_stops: "s \<noteq> [] \<Longrightarrow> \<not> P (hd s) \<Longrightarrow> dropWhile P s = s"
  by (cases s) simp_all

lemma strip_trimmed: "trimmed s \<Longrightarrow> strip s = s"
  by (simp add: strip_def trimmed_def dropWhile_stops hd_rev)

lemma strip_before: "is_space c \<Longrightarrow> strip (c # s) = strip s"
  by (simp add: strip_def)

lemma strip_after: "trimmed s \<Longrightarrow> strip (s @ '' '') = s"
  by (simp add: strip_def trimmed_def dropWhile_stops hd_rev is_space_def Let_def)

lemma trimmed_append: "trimmed a \<Longrightarrow> trimmed b \<Longrightarrow> trimmed (a @ m @ b)"
  by (simp add: trimmed_def)

section \<open>The scanners on a printed line\<close>

lemma bracket_not_here: "c \<noteq> CHR ''['' \<Longrightarrow> bracket_here (c # s) = None"
  by (simp add: bracket_here_def Let_def)

lemma bracket_skipped: "CHR ''['' \<notin> set pre \<Longrightarrow> bracket_search k (pre @ s) = bracket_search (k + length pre) s"
  by (induction pre arbitrary: k) (auto simp: bracket_not_here)

lemma bracket_found:
  assumes "nature \<noteq> []" "CHR ''|'' \<notin> set nature" "ability \<noteq> []" "CHR '']'' \<notin> set ability"
  shows "bracket_search k (''['' @ nature @ ''|'' @ ability @ '']'') = Some (k, nature, ability)"
proof -
  have "takeWhile (\<lambda>x. x \<noteq> CHR ''|'') (nature @ ''|'' @ ability @ '']'') = nature" using assms(2) by (induction nature) auto
  moreover have "takeWhile (\<lambda>x. x \<noteq> CHR '']'') (ability @ '']'') = ability" using assms(4) by (induction ability) auto
  ultimately have "bracket_here (''['' @ nature @ ''|'' @ ability @ '']'') = Some (nature, ability)"
    using assms(1,3) by (simp add: bracket_here_def Let_def)
  then show ?thesis by simp
qed

lemma no_level_here:
  assumes "w \<noteq> []" "\<not> is_space (last w)" "\<not> has_substring ''Lv.'' w"
  shows "level_here (w @ '' '' @ rest) = None"
proof -
  let ?u = "dropWhile is_space w"
  have "last w \<in> set w" using assms(1) by simp
  then have u: "dropWhile is_space (w @ '' '' @ rest) = ?u @ '' '' @ rest" "?u \<noteq> []"
    using assms(2) dropWhile_append1[of "last w" w is_space] by (simp, metis dropWhile_eq_Nil_conv)
  have sub: "\<not> has_substring ''Lv.'' ?u" using assms(3) by (induction w) auto
  have "\<not> starts_with (?u @ '' '' @ rest) ''Lv.''"
  proof (cases "length ?u < 3")
    case True
    then consider a where "?u = [a]" | a b where "?u = [a, b]" using u(2) by (cases ?u; cases "tl ?u"; force simp: less_Suc_eq numeral_3_eq_3)
    then show ?thesis by cases (simp_all add: starts_with_def)
  next
    case False
    then have "starts_with (?u @ '' '' @ rest) ''Lv.'' = starts_with ?u ''Lv.''" by (simp add: starts_with_def)
    moreover have "has_substring ''Lv.'' ?u" if "starts_with ?u ''Lv.''" using that u(2) by (cases ?u) auto
    ultimately show ?thesis using sub by blast
  qed
  then show ?thesis using u(1) by (simp add: level_here_def Let_def)
qed

lemma level_found:
  assumes "u = [] \<or> \<not> is_space (last u)" "\<not> has_substring ''Lv.'' u" "CHR 0x0A \<notin> set u" "pre \<noteq> []"
    "ds \<noteq> []" "list_all is_digit ds" "rest = [] \<or> \<not> is_digit (hd rest)"
  shows "level_search pre (u @ '' Lv.'' @ ds @ rest) = Some (pre @ u, ds, rest)"
  using assms(1-4)
proof (induction u arbitrary: pre)
  case Nil
  have "takeWhile is_digit (ds @ rest) = ds" using assms(6,7) by (cases rest) (auto simp: list_all_iff takeWhile_append)
  then have "level_here ('' Lv.'' @ ds @ rest) = Some (ds, rest)"
    using assms(5) by (simp add: level_here_def Let_def is_space_def starts_with_def)
  then show ?case using Nil.prems(4) by simp
next
  case (Cons c u)
  have "level_here ((c # u) @ '' '' @ (''Lv.'' @ ds @ rest)) = None" using Cons.prems by (intro no_level_here) auto
  moreover have "level_search (pre @ [c]) (u @ '' Lv.'' @ ds @ rest) = Some (pre @ c # u, ds, rest)"
    using Cons.prems Cons.IH[of "pre @ [c]"] by (auto split: if_splits)
  ultimately show ?case using Cons.prems(3,4) by auto
qed

lemma commas_split: "CHR '','' \<notin> set a \<Longrightarrow> split_commas cur (a @ CHR '','' # s) = (cur @ a) # split_commas [] s"
  by (induction a arbitrary: cur) auto

lemma commas_none: "CHR '','' \<notin> set a \<Longrightarrow> split_commas cur a = [cur @ a]"
  by (induction a arbitrary: cur) auto

definition move_text :: "string \<Rightarrow> bool" where
  "move_text m \<longleftrightarrow> trimmed m \<and> CHR '','' \<notin> set m \<and> CHR ''['' \<notin> set m"

lemma moves_split:
  assumes "move_text m" "list_all move_text ms"
  shows "split_commas [] (m @ concat (map (\<lambda>y. '', '' @ y) ms)) = m # map (\<lambda>y. CHR '' '' # y) ms"
  using assms
proof (induction ms arbitrary: m)
  case Nil
  then show ?case by (simp add: commas_none move_text_def)
next
  case (Cons y ms)
  have "CHR '','' \<notin> set m" using Cons.prems(1) by (simp add: move_text_def)
  then have "split_commas [] (m @ concat (map (\<lambda>y. '', '' @ y) (y # ms))) = m # split_commas [] (CHR '' '' # y @ concat (map (\<lambda>y. '', '' @ y) ms))"
    using commas_split[of m "[]"] by simp
  moreover have "split_commas [CHR '' ''] (y @ r) = (case split_commas [] (y @ r) of [] \<Rightarrow> [] | z # zs \<Rightarrow> (CHR '' '' # z) # zs)" for r
  proof -
    have "split_commas (c # cur) t = (case split_commas cur t of [] \<Rightarrow> [] | z # zs \<Rightarrow> (c # z) # zs)" for c cur t
      by (induction t arbitrary: cur) simp_all
    then show ?thesis by simp
  qed
  ultimately show ?case using Cons.IH[of y] Cons.prems(2) by simp
qed

lemma moves_read:
  assumes "list_all move_text ms" "ms \<noteq> []"
  shows "move_list (comma_joined ms) = ms"
proof -
  obtain m rest where ms: "ms = m # rest" using assms(2) by (cases ms) auto
  have all: "move_text m" "list_all move_text rest" using assms(1) by (simp_all add: ms)
  have "strip (CHR '' '' # y) = y" if "y \<in> set rest" for y
    using all(2) that by (simp add: list_all_iff move_text_def strip_trimmed strip_before is_space_def Let_def)
  then have "map strip (m # map (\<lambda>y. CHR '' '' # y) rest) = m # rest"
    using all(1) by (simp add: move_text_def strip_trimmed map_idI)
  moreover have "filter (\<lambda>y. y \<noteq> []) (m # rest) = m # rest"
    using all by (auto simp: move_text_def trimmed_def list_all_iff)
  ultimately show ?thesis using moves_split[OF all] by (simp only: move_list_def comma_joined_def ms list.case)
qed

lemma joined_trimmed:
  assumes "list_all move_text ms" "ms \<noteq> []"
  shows "trimmed (comma_joined ms) \<and> CHR ''['' \<notin> set (comma_joined ms)"
proof -
  obtain m rest where ms: "ms = m # rest" using assms(2) by (cases ms) auto
  have "trimmed (m @ concat (map (\<lambda>y. '', '' @ y) rest))"
  proof (cases rest rule: rev_cases)
    case Nil
    then show ?thesis using assms(1) by (simp add: ms move_text_def)
  next
    case (snoc ys y)
    have "trimmed m" "trimmed y" using assms(1) by (simp_all add: ms snoc move_text_def)
    then show ?thesis using trimmed_append[of m y "concat (map (\<lambda>y. '', '' @ y) ys) @ '', ''"] by (simp add: snoc)
  qed
  moreover have "CHR ''['' \<notin> set (m @ concat (map (\<lambda>y. '', '' @ y) rest))" using assms(1) by (auto simp: ms move_text_def list_all_iff)
  ultimately show ?thesis by (simp only: ms comma_joined_def list.case simp_thms)
qed

section \<open>The round trip\<close>

definition printable :: "trainer_mon \<Rightarrow> bool" where
  "printable p \<longleftrightarrow> trimmed (tm_name p) \<and> CHR 0x0A \<notin> set (tm_name p) \<and> CHR ''['' \<notin> set (tm_name p) \<and> \<not> has_substring ''Lv.'' (tm_name p)
     \<and> 0 \<le> tm_level p \<and> list_all move_text (tm_moves p)
     \<and> (case tm_item p of None \<Rightarrow> tm_moves p = [] | Some i \<Rightarrow> trimmed i \<and> CHR '':'' \<notin> set i \<and> CHR ''['' \<notin> set i \<and> tm_moves p \<noteq> [])
     \<and> trimmed (tm_nature p) \<and> CHR ''|'' \<notin> set (tm_nature p) \<and> trimmed (tm_ability p) \<and> CHR '']'' \<notin> set (tm_ability p) \<and> tm_ivs p = []"

definition rest_text :: "trainer_mon \<Rightarrow> string" where
  "rest_text p = (case tm_item p of None \<Rightarrow> [] | Some i \<Rightarrow> '' @'' @ i @ '': '' @ comma_joined (tm_moves p))"

lemma printed_line:
  assumes "printable p"
  shows "drop 2 (mon_str p) = (tm_name p @ '' Lv.'' @ int_str (tm_level p) @ rest_text p) @ '' '' @ ''['' @ tm_nature p @ ''|'' @ tm_ability p @ '']''"
  using assms by (auto simp: mon_str_def Let_def printable_def rest_text_def trimmed_def split: option.splits)

lemma level_digits: "0 \<le> n \<Longrightarrow> int_str n \<noteq> [] \<and> list_all is_digit (int_str n)"
  by (auto simp: int_str_def list_all_iff is_digit_def Let_def dest: decimal_chars)

lemma digits_trimmed: "ds \<noteq> [] \<Longrightarrow> list_all is_digit ds \<Longrightarrow> trimmed ds \<and> CHR ''['' \<notin> set ds"
proof -
  assume ds: "ds \<noteq> []" "list_all is_digit ds"
  have d: "\<not> is_space c" "c \<noteq> CHR ''[''" if "is_digit c" for c using that by (auto simp: is_digit_def is_space_def Let_def)
  have "is_digit (hd ds)" "is_digit (last ds)" using ds by (simp_all add: list_all_iff)
  then show ?thesis using ds d by (auto simp: trimmed_def list_all_iff)
qed

lemma head_text:
  assumes "printable p"
  shows "trimmed (tm_name p @ '' Lv.'' @ int_str (tm_level p) @ rest_text p)
    \<and> CHR ''['' \<notin> set (tm_name p @ '' Lv.'' @ int_str (tm_level p) @ rest_text p)"
proof -
  have name: "trimmed (tm_name p)" "CHR ''['' \<notin> set (tm_name p)" using assms by (simp_all add: printable_def)
  have ds: "trimmed (int_str (tm_level p))" "CHR ''['' \<notin> set (int_str (tm_level p))"
    using assms level_digits digits_trimmed by (simp_all add: printable_def)
  show ?thesis
  proof (cases "tm_item p")
    case None
    then show ?thesis using name ds trimmed_append[of "tm_name p" "int_str (tm_level p)" "'' Lv.''"] by (simp add: rest_text_def)
  next
    case (Some i)
    have i: "CHR ''['' \<notin> set i" "tm_moves p \<noteq> []" "list_all move_text (tm_moves p)" using assms Some by (simp_all add: printable_def)
    note joined = joined_trimmed[OF i(3,2)]
    show ?thesis using name ds i(1) joined
        trimmed_append[of "tm_name p" "comma_joined (tm_moves p)" "'' Lv.'' @ int_str (tm_level p) @ '' @'' @ i @ '': ''"] by (simp add: rest_text_def Some)
  qed
qed

lemma name_found:
  assumes "printable p"
  shows "level_search [] (tm_name p @ '' Lv.'' @ int_str (tm_level p) @ rest_text p) = Some (tm_name p, int_str (tm_level p), rest_text p)"
proof -
  obtain c u where cu: "tm_name p = c # u" using assms by (cases "tm_name p") (simp_all add: printable_def trimmed_def)
  have u: "u = [] \<or> \<not> is_space (last u)" "\<not> has_substring ''Lv.'' u" "CHR 0x0A \<notin> set u" "c \<noteq> CHR 0x0A"
    using assms by (auto simp: printable_def trimmed_def cu)
  have ds: "int_str (tm_level p) \<noteq> []" "list_all is_digit (int_str (tm_level p))" using assms level_digits by (simp_all add: printable_def)
  have "rest_text p = [] \<or> \<not> is_digit (hd (rest_text p))" by (simp add: rest_text_def is_digit_def split: option.split)
  from level_found[OF u(1-3) not_Cons_self2 ds this, of c] show ?thesis using u(4) by (simp add: cu)
qed

lemma strip_Nil: "strip [] = []"
  by (simp add: strip_def)

lemma moves_Nil: "move_list [] = []"
  by (simp add: move_list_def strip_Nil)

lemma item_read:
  assumes "printable p" "tm_item p = Some i"
  shows "strip (rest_text p) = CHR ''@'' # i @ '': '' @ comma_joined (tm_moves p)"
    and "takeWhile (\<lambda>c. c \<noteq> CHR '':'') (CHR ''@'' # i @ '': '' @ comma_joined (tm_moves p)) = CHR ''@'' # i"
    and "strip (CHR '' '' # comma_joined (tm_moves p)) = comma_joined (tm_moves p)"
proof -
  have i: "trimmed i" "CHR '':'' \<notin> set i" "list_all move_text (tm_moves p)" "tm_moves p \<noteq> []" using assms by (simp_all add: printable_def)
  note joined = joined_trimmed[OF i(3,4)]
  have "trimmed ''@''" by (simp add: trimmed_def is_space_def)
  then have "trimmed (CHR ''@'' # i @ '': '' @ comma_joined (tm_moves p))"
    using joined trimmed_append[of "''@''" "comma_joined (tm_moves p)" "i @ '': ''"] by simp
  then show "strip (rest_text p) = CHR ''@'' # i @ '': '' @ comma_joined (tm_moves p)"
    by (simp add: rest_text_def assms(2) strip_before is_space_def strip_trimmed)
  show "takeWhile (\<lambda>c. c \<noteq> CHR '':'') (CHR ''@'' # i @ '': '' @ comma_joined (tm_moves p)) = CHR ''@'' # i"
    using i(2) by (induction i) auto
  show "strip (CHR '' '' # comma_joined (tm_moves p)) = comma_joined (tm_moves p)"
    using joined by (simp add: strip_before is_space_def strip_trimmed)
qed

text \<open>
  C29: the printed form of a mon, without its indentation, is read back. For a mon with an item and moves, or with neither, whose texts are trimmed and do
  not contain the separators of the format, and whose IVs are the default, parsing what \<open>__str__\<close> prints gives the mon again.
\<close>

theorem trainer_line_roundtrip:
  assumes "printable p"
  shows "parse_text_pokemon_line (drop 2 (mon_str p)) = Inr p"
proof -
  let ?head = "tm_name p @ '' Lv.'' @ int_str (tm_level p) @ rest_text p"
  let ?line = "(?head @ '' '') @ ''['' @ tm_nature p @ ''|'' @ tm_ability p @ '']''"
  have line: "drop 2 (mon_str p) = ?line" using printed_line[OF assms] by simp
  have texts: "trimmed (tm_name p)" "trimmed (tm_nature p)" "trimmed (tm_ability p)" "CHR ''|'' \<notin> set (tm_nature p)" "CHR '']'' \<notin> set (tm_ability p)" "tm_ivs p = []"
    using assms by (simp_all add: printable_def)
  note head = head_text[OF assms]
  have "trimmed '']''" by (simp add: trimmed_def is_space_def)
  then have "trimmed ?line" using head trimmed_append[of ?head "'']''" "'' [''@ tm_nature p @ ''|'' @ tm_ability p"] by simp
  then have stripped: "strip ?line = ?line" by (rule strip_trimmed)
  have "CHR ''['' \<notin> set (?head @ '' '')" using head by simp
  from bracket_skipped[OF this, of 0] have bracket: "bracket_search 0 ?line = Some (length (?head @ '' ''), tm_nature p, tm_ability p)"
    using bracket_found texts by (simp add: trimmed_def)
  have start: "take (length (?head @ '' '')) ?line = ?head @ '' ''" by (rule append_eq_conv_conj[THEN iffD1, THEN conjunct1, OF refl, symmetric])
  have name: "level_search [] (strip (take (length (?head @ '' '')) ?line)) = Some (tm_name p, int_str (tm_level p), rest_text p)"
    unfolding start strip_after[OF conjunct1[OF head]] by (rule name_found[OF assms])
  show ?thesis
  proof (cases "tm_item p")
    case None
    then have "rest_text p = []" and moves: "tm_moves p = []" using assms by (simp_all add: rest_text_def printable_def)
    then have rest: "strip (rest_text p) = []" by (simp add: strip_Nil)
    show ?thesis
      unfolding line parse_text_pokemon_line_def stripped bracket option.case prod.case name
      by (auto simp: rest moves_Nil moves texts strip_trimmed None starts_with_def Let_def intro!: trainer_mon.equality)
  next
    case (Some i)
    have moves: "move_list (comma_joined (tm_moves p)) = tm_moves p" using assms Some moves_read by (simp add: printable_def)
    have "strip i = i" using assms Some by (simp add: printable_def strip_trimmed)
    then show ?thesis
      unfolding line parse_text_pokemon_line_def stripped bracket option.case prod.case name
      using item_read[OF assms Some] moves by (auto simp: texts strip_trimmed Some starts_with_def Let_def intro!: trainer_mon.equality)
  qed
qed

theorem trainer_line_roundtrip_witness:
  "parse_text_pokemon_line ''Mr. Mime Lv.12 @Oran Berry: Tackle, U-turn [Jolly|Soundproof]''
    = Inr \<lparr>tm_name = ''Mr. Mime'', tm_level = 12, tm_item = Some ''Oran Berry'', tm_moves = [''Tackle'', ''U-turn''], tm_nature = ''Jolly'', tm_ability = ''Soundproof'', tm_ivs = []\<rparr>"
proof -
  let ?p = "\<lparr>tm_name = ''Mr. Mime'', tm_level = 12, tm_item = Some ''Oran Berry'', tm_moves = [''Tackle'', ''U-turn''], tm_nature = ''Jolly'', tm_ability = ''Soundproof'', tm_ivs = []\<rparr>"
  have "printable ?p" by code_simp
  moreover have "drop 2 (mon_str ?p) = ''Mr. Mime Lv.12 @Oran Berry: Tackle, U-turn [Jolly|Soundproof]''" by code_simp
  ultimately show ?thesis using trainer_line_roundtrip[of ?p] by simp
qed

end
