(* ===== verification/Traces.thy ===== *)
theory Traces
  imports SweepIO "HOL-Library.Char_ord" "HOL-Library.List_Lexorder"
begin

text \<open>
  Golden traces (\<open>golden_trace.py\<close>): the records of a trace file, their decoding and the validator. A record is the JSON value of a line.
  Comparisons are those of Python on JSON values: numbers, of which the booleans are two, and texts. The text that \<open>json.dumps\<close> gives
  for the event of a record is the argument \<open>dumps\<close>.
\<close>

section \<open>Records\<close>

definition FORMAT_VERSION :: int where "FORMAT_VERSION = 1"

text \<open>\<open>rec[k]\<close> and \<open>rec.get(k)\<close>.\<close>

definition rec_item :: "string \<Rightarrow> json \<Rightarrow> json res" where
  "rec_item k r = (case r of
     JObj kvs \<Rightarrow> (case map_of kvs k of Some v \<Rightarrow> Inr v | None \<Rightarrow> Inl KeyError)
   | _ \<Rightarrow> Inl TypeError)"

definition rec_get :: "string \<Rightarrow> json \<Rightarrow> json res" where
  "rec_get k r = (case r of
     JObj kvs \<Rightarrow> Inr (case map_of kvs k of Some v \<Rightarrow> v | None \<Rightarrow> JNull)
   | _ \<Rightarrow> Inl AttributeError)"

definition decode_state :: "enum_members \<Rightarrow> json \<Rightarrow> pyobj res" where
  "decode_state members r = rbind (rec_get ''t'' r) (\<lambda>t.
     if t = JStr ''header'' then rbind (rec_item ''initial_state'' r) (from_jsonable members)
     else if t = JStr ''snapshot'' then rbind (rec_item ''state'' r) (from_jsonable members)
     else if t = JStr ''end'' then rbind (rec_item ''final_state'' r) (from_jsonable members)
     else Inl ValueError)"

section \<open>Comparisons\<close>

fun number :: "json \<Rightarrow> rat option" where
  "number (JBool b) = Some (if b then 1 else 0)"
| "number (JInt n) = Some (of_int n)"
| "number (JFloat q) = Some q"
| "number _ = None"

text \<open>\<open>a < b\<close>.\<close>

definition json_less :: "json \<Rightarrow> json \<Rightarrow> bool res" where
  "json_less a b = (case (number a, number b) of
     (Some x, Some y) \<Rightarrow> Inr (x < y)
   | _ \<Rightarrow> (case (a, b) of (JStr s, JStr t) \<Rightarrow> Inr (s < t) | _ \<Rightarrow> Inl TypeError))"

text \<open>The part of a dictionary key that is a turn: equal numbers are one key, lists and dictionaries are none.\<close>

definition turn_key :: "json \<Rightarrow> json res" where
  "turn_key t = (case number t of Some q \<Rightarrow> Inr (JFloat q) | None \<Rightarrow> (case t of JNull \<Rightarrow> Inr t | JStr _ \<Rightarrow> Inr t | _ \<Rightarrow> Inl TypeError))"

section \<open>The validator\<close>

type_synonym occ_key = "json \<times> string"

record trace_state =
  ts_rng_seq :: json
  ts_turn :: json
  ts_rng_next :: "occ_key \<Rightarrow> nat"
  ts_answer_next :: "occ_key \<Rightarrow> nat"
  ts_before_seq :: json

definition trace_start :: trace_state where
  "trace_start = \<lparr>ts_rng_seq = JNull, ts_turn = JNull, ts_rng_next = (\<lambda>_. 0), ts_answer_next = (\<lambda>_. 0), ts_before_seq = JNull\<rparr>"

text \<open>\<open>prev is not None and bad(prev)\<close> raises.\<close>

definition unless_bad :: "json \<Rightarrow> bool res \<Rightarrow> unit res" where
  "unless_bad prev bad = (if prev = JNull then Inr () else rbind bad (\<lambda>b. if b then Inl ValueError else Inr ()))"

definition check_turn :: "json \<Rightarrow> trace_state \<Rightarrow> trace_state res" where
  "check_turn r s = rbind (rec_get ''turn'' r) (\<lambda>turn.
     if turn = JNull then Inr s
     else rbind (unless_bad (ts_turn s) (json_less turn (ts_turn s))) (\<lambda>_. Inr (s\<lparr>ts_turn := turn\<rparr>)))"

definition check_before :: "json \<Rightarrow> trace_state \<Rightarrow> trace_state res" where
  "check_before r s = rbind (rec_item ''before_seq'' r) (\<lambda>b.
     rbind (unless_bad (ts_before_seq s) (json_less b (ts_before_seq s))) (\<lambda>_. Inr (s\<lparr>ts_before_seq := b\<rparr>)))"

text \<open>\<open>seq <= prev\<close> for values that compare.\<close>

definition json_at_most :: "json \<Rightarrow> json \<Rightarrow> bool res" where
  "json_at_most a b = rbind (json_less b a) (\<lambda>x. Inr (\<not> x))"

definition check_seq :: "json \<Rightarrow> trace_state \<Rightarrow> trace_state res" where
  "check_seq r s = rbind (rec_item ''seq'' r) (\<lambda>q.
     rbind (unless_bad (ts_rng_seq s) (json_at_most q (ts_rng_seq s))) (\<lambda>_. Inr (s\<lparr>ts_rng_seq := q\<rparr>)))"

text \<open>The key of an event, and the check that the occurrences of a key are counted without gaps.\<close>

definition event_key :: "(json \<Rightarrow> string) \<Rightarrow> bool \<Rightarrow> json \<Rightarrow> occ_key res" where
  "event_key dumps plain r = rbind (rec_item ''event'' r) (\<lambda>e. rbind (rec_item ''turn'' r) (\<lambda>t. rbind (turn_key t) (\<lambda>k.
     Inr (k, case e of JStr s \<Rightarrow> if plain then s else dumps e | _ \<Rightarrow> dumps e))))"

definition check_occurrence :: "occ_key res \<Rightarrow> json \<Rightarrow> (occ_key \<Rightarrow> nat) \<Rightarrow> (occ_key \<Rightarrow> nat) res" where
  "check_occurrence key r count = rbind key (\<lambda>k. rbind (rec_item ''occurrence'' r) (\<lambda>occ.
     if number occ \<noteq> Some (of_nat (count k)) then Inl ValueError else Inr (count(k := count k + 1))))"

definition unhashable :: "json \<Rightarrow> bool" where
  "unhashable j = (case j of JList _ \<Rightarrow> True | JObj _ \<Rightarrow> True | _ \<Rightarrow> False)"

definition validate_record :: "(json \<Rightarrow> string) \<Rightarrow> trace_state \<Rightarrow> json \<Rightarrow> trace_state res" where
  "validate_record dumps s r = rbind (rec_get ''t'' r) (\<lambda>t.
     if unhashable t then Inl TypeError
     else if t \<notin> JStr ` {''header'', ''rng'', ''answer'', ''snapshot'', ''end''} then Inl ValueError
     else rbind (check_turn r s) (\<lambda>s.
       if t = JStr ''rng'' then rbind (check_seq r s) (\<lambda>s.
         rbind (check_occurrence (event_key dumps False r) r (ts_rng_next s)) (\<lambda>n. Inr (s\<lparr>ts_rng_next := n\<rparr>)))
       else if t = JStr ''answer'' then rbind (check_before r s) (\<lambda>s.
         rbind (check_occurrence (event_key dumps True r) r (ts_answer_next s)) (\<lambda>n. Inr (s\<lparr>ts_answer_next := n\<rparr>)))
       else if t = JStr ''snapshot'' then check_before r s
       else Inr s))"

definition has_type :: "string \<Rightarrow> json \<Rightarrow> bool res" where
  "has_type k r = rbind (rec_get ''t'' r) (\<lambda>t. Inr (t = JStr k))"

text \<open>The one index at which the records have the type, which must be \<open>pos\<close>.\<close>

definition only_at :: "string \<Rightarrow> nat \<Rightarrow> json list \<Rightarrow> unit res" where
  "only_at k pos records = rbind (rmap (has_type k) records) (\<lambda>bs.
     if filter (\<lambda>i. bs ! i) [0..<length bs] = [pos] then Inr () else Inl ValueError)"

definition validate_trace :: "(json \<Rightarrow> string) \<Rightarrow> json list \<Rightarrow> unit res" where
  "validate_trace dumps records =
     (if records = [] then Inl ValueError
      else rbind (only_at ''header'' 0 records) (\<lambda>_.
      rbind (rec_get ''format_version'' (hd records)) (\<lambda>v.
      if number v \<noteq> Some (of_int FORMAT_VERSION) then Inl ValueError
      else rbind (only_at ''end'' (length records - 1) records) (\<lambda>_.
      rbind (rfold (validate_record dumps) trace_start (butlast (tl records))) (\<lambda>_. Inr ())))))"

section \<open>What a valid trace is\<close>

text \<open>The fields of a record as the recorder writes them.\<close>

definition kind_of :: "json \<Rightarrow> string" where
  "kind_of r = (case rec_get ''t'' r of Inr (JStr k) \<Rightarrow> k | _ \<Rightarrow> [])"

definition int_field :: "string \<Rightarrow> json \<Rightarrow> int option" where
  "int_field k r = (case rec_item k r of Inr (JInt n) \<Rightarrow> Some n | _ \<Rightarrow> None)"

definition written :: "json \<Rightarrow> bool" where
  "written r \<longleftrightarrow> (\<exists>kvs. r = JObj kvs)
     \<and> (kind_of r \<in> {''rng'', ''answer''} \<longrightarrow> int_field ''turn'' r \<noteq> None \<and> int_field ''occurrence'' r \<noteq> None \<and> (\<exists>e. rec_item ''event'' r = Inr e))
     \<and> (kind_of r = ''rng'' \<longrightarrow> int_field ''seq'' r \<noteq> None)
     \<and> (kind_of r \<in> {''answer'', ''snapshot''} \<longrightarrow> int_field ''before_seq'' r \<noteq> None)
     \<and> (int_field ''turn'' r \<noteq> None \<or> rec_item ''turn'' r = Inl KeyError)"

definition occurrence_key :: "(json \<Rightarrow> string) \<Rightarrow> json \<Rightarrow> int \<times> string" where
  "occurrence_key dumps r = (the (int_field ''turn'' r), case rec_item ''event'' r of
     Inr (JStr s) \<Rightarrow> if kind_of r = ''answer'' then s else dumps (JStr s) | Inr e \<Rightarrow> dumps e | Inl _ \<Rightarrow> [])"

definition same_event :: "(json \<Rightarrow> string) \<Rightarrow> json \<Rightarrow> json \<Rightarrow> bool" where
  "same_event dumps r q \<longleftrightarrow> kind_of q = kind_of r \<and> occurrence_key dumps q = occurrence_key dumps r"

definition turns :: "json list \<Rightarrow> int list" where
  "turns rs = List.map_filter (int_field ''turn'') rs"

definition seqs :: "json list \<Rightarrow> int list" where
  "seqs rs = List.map_filter (int_field ''seq'') (filter (\<lambda>r. kind_of r = ''rng'') rs)"

definition before_seqs :: "json list \<Rightarrow> int list" where
  "before_seqs rs = List.map_filter (int_field ''before_seq'') (filter (\<lambda>r. kind_of r \<in> {''answer'', ''snapshot''}) rs)"

text \<open>The body: turns and driver positions never decrease, sequence numbers increase, and each event is counted from 0 within its turn.\<close>

definition body_ok :: "(json \<Rightarrow> string) \<Rightarrow> json list \<Rightarrow> bool" where
  "body_ok dumps rs \<longleftrightarrow> (\<forall>r \<in> set rs. kind_of r \<in> {''rng'', ''answer'', ''snapshot''})
     \<and> sorted (turns rs) \<and> sorted_wrt (<) (seqs rs) \<and> sorted (before_seqs rs)
     \<and> (\<forall>i < length rs. kind_of (rs ! i) \<in> {''rng'', ''answer''} \<longrightarrow>
          int_field ''occurrence'' (rs ! i) = Some (int (length (filter (same_event dumps (rs ! i)) (take i rs)))))"

definition trace_ok :: "(json \<Rightarrow> string) \<Rightarrow> json list \<Rightarrow> bool" where
  "trace_ok dumps records \<longleftrightarrow> (\<exists>h body e. records = h # body @ [e] \<and> kind_of h = ''header'' \<and> kind_of e = ''end''
     \<and> (case rec_item ''format_version'' h of Inr v \<Rightarrow> number v = Some 1 | Inl _ \<Rightarrow> False) \<and> body_ok dumps body)"

section \<open>The validator is exact\<close>

text \<open>The state of the loop after a body.\<close>

definition last_or_null :: "int list \<Rightarrow> json" where
  "last_or_null xs = (if xs = [] then JNull else JInt (last xs))"

definition counted :: "(json \<Rightarrow> string) \<Rightarrow> string \<Rightarrow> json list \<Rightarrow> occ_key \<Rightarrow> nat" where
  "counted dumps k rs key = length (filter (\<lambda>r. kind_of r = k \<and> (JFloat (of_int (fst (occurrence_key dumps r))), snd (occurrence_key dumps r)) = key) rs)"

definition state_after :: "(json \<Rightarrow> string) \<Rightarrow> json list \<Rightarrow> trace_state" where
  "state_after dumps rs = \<lparr>ts_rng_seq = last_or_null (seqs rs), ts_turn = last_or_null (turns rs), ts_rng_next = counted dumps ''rng'' rs,
     ts_answer_next = counted dumps ''answer'' rs, ts_before_seq = last_or_null (before_seqs rs)\<rparr>"

lemma state_after_Nil: "state_after dumps [] = trace_start"
  by (simp add: state_after_def trace_start_def last_or_null_def seqs_def turns_def before_seqs_def counted_def map_filter_def fun_eq_iff)

text \<open>What the record has to satisfy after a body.\<close>

definition next_ok :: "(json \<Rightarrow> string) \<Rightarrow> json list \<Rightarrow> json \<Rightarrow> bool" where
  "next_ok dumps rs r \<longleftrightarrow> kind_of r \<in> {''header'', ''rng'', ''answer'', ''snapshot'', ''end''}
     \<and> (\<forall>t. int_field ''turn'' r = Some t \<longrightarrow> turns rs = [] \<or> last (turns rs) \<le> t)
     \<and> (kind_of r = ''rng'' \<longrightarrow> seqs rs = [] \<or> last (seqs rs) < the (int_field ''seq'' r))
     \<and> (kind_of r \<in> {''answer'', ''snapshot''} \<longrightarrow> before_seqs rs = [] \<or> last (before_seqs rs) \<le> the (int_field ''before_seq'' r))
     \<and> (kind_of r \<in> {''rng'', ''answer''} \<longrightarrow> int_field ''occurrence'' r = Some (int (length (filter (same_event dumps r) rs))))"

lemma int_field_item: "int_field k r = Some n \<longleftrightarrow> rec_item k r = Inr (JInt n)"
  by (auto simp: int_field_def split: sum.splits json.splits)

lemma check_turn_exact:
  assumes "written r"
  shows "check_turn r s = (case int_field ''turn'' r of
     None \<Rightarrow> Inr s
   | Some t \<Rightarrow> rbind (unless_bad (ts_turn s) (json_less (JInt t) (ts_turn s))) (\<lambda>_. Inr (s\<lparr>ts_turn := JInt t\<rparr>)))"
proof -
  obtain kvs where r: "r = JObj kvs" using assms by (auto simp: written_def)
  show ?thesis
  proof (cases "int_field ''turn'' r")
    case None
    then have "rec_item ''turn'' r = Inl KeyError" using assms by (simp add: written_def)
    then show ?thesis using None by (auto simp: check_turn_def rec_get_def rec_item_def r split: option.splits)
  next
    case (Some t)
    then have "rec_item ''turn'' r = Inr (JInt t)" by (simp add: int_field_item)
    then show ?thesis using Some by (auto simp: check_turn_def rec_get_def rec_item_def r split: option.splits)
  qed
qed

lemma last_or_null_snoc [simp]: "last_or_null (xs @ [n]) = JInt n"
  by (simp add: last_or_null_def)

lemma less_last: "unless_bad (last_or_null xs) (json_less (JInt n) (last_or_null xs)) = (if xs = [] \<or> last xs \<le> n then Inr () else Inl ValueError)"
  by (auto simp: unless_bad_def last_or_null_def json_less_def)

lemma at_most_last: "unless_bad (last_or_null xs) (json_at_most (JInt n) (last_or_null xs)) = (if xs = [] \<or> last xs < n then Inr () else Inl ValueError)"
  by (auto simp: unless_bad_def last_or_null_def json_less_def json_at_most_def)

lemma append_lists:
  "turns (rs @ [r]) = turns rs @ (case int_field ''turn'' r of None \<Rightarrow> [] | Some t \<Rightarrow> [t])"
  "seqs (rs @ [r]) = seqs rs @ (if kind_of r = ''rng'' then (case int_field ''seq'' r of None \<Rightarrow> [] | Some t \<Rightarrow> [t]) else [])"
  "before_seqs (rs @ [r]) = before_seqs rs @
     (if kind_of r \<in> {''answer'', ''snapshot''} then (case int_field ''before_seq'' r of None \<Rightarrow> [] | Some t \<Rightarrow> [t]) else [])"
  by (simp_all add: turns_def seqs_def before_seqs_def map_filter_def split: option.split)

definition model_key :: "(json \<Rightarrow> string) \<Rightarrow> json \<Rightarrow> occ_key" where
  "model_key dumps r = (JFloat (of_int (fst (occurrence_key dumps r))), snd (occurrence_key dumps r))"

lemma model_key_eq: "model_key dumps q = model_key dumps r \<longleftrightarrow> occurrence_key dumps q = occurrence_key dumps r"
  by (auto simp: model_key_def prod_eq_iff)

lemma counted_alt: "counted dumps k rs key = length (filter (\<lambda>q. kind_of q = k \<and> model_key dumps q = key) rs)"
  by (simp add: counted_def model_key_def)

lemma counted_same: "counted dumps (kind_of r) rs (model_key dumps r) = length (filter (same_event dumps r) rs)"
proof -
  have "same_event dumps r = (\<lambda>q. kind_of q = kind_of r \<and> occurrence_key dumps q = occurrence_key dumps r)"
    by (simp add: same_event_def fun_eq_iff)
  then show ?thesis by (simp add: counted_alt model_key_eq)
qed

lemma counted_append:
  "counted dumps k (rs @ [r]) = (if kind_of r = k then (counted dumps k rs)(model_key dumps r := counted dumps k rs (model_key dumps r) + 1) else counted dumps k rs)"
  by (auto simp: counted_alt fun_eq_iff)

lemma event_key_exact:
  assumes "written r" "kind_of r \<in> {''rng'', ''answer''}"
  shows "event_key dumps (kind_of r = ''answer'') r = Inr (model_key dumps r)"
proof -
  obtain t e where "int_field ''turn'' r = Some t" "rec_item ''event'' r = Inr e" using assms by (auto simp: written_def)
  moreover from this(1) have "rec_item ''turn'' r = Inr (JInt t)" by (simp add: int_field_item)
  ultimately show ?thesis by (simp add: event_key_def turn_key_def model_key_def occurrence_key_def split: json.splits)
qed

lemma check_occurrence_exact:
  assumes "written r" "kind_of r \<in> {''rng'', ''answer''}" "count = counted dumps (kind_of r) rs"
  shows "check_occurrence (event_key dumps (kind_of r = ''answer'') r) r count
    = (if int_field ''occurrence'' r = Some (int (length (filter (same_event dumps r) rs))) then Inr (counted dumps (kind_of r) (rs @ [r])) else Inl ValueError)"
proof -
  obtain n where n: "int_field ''occurrence'' r = Some n" using assms by (auto simp: written_def)
  then have "rec_item ''occurrence'' r = Inr (JInt n)" by (simp add: int_field_item)
  moreover have "(of_int n :: rat) = of_nat m \<longleftrightarrow> n = int m" for m by (metis of_int_eq_iff of_int_of_nat_eq)
  ultimately show ?thesis
    by (simp add: check_occurrence_def event_key_exact[OF assms(1,2)] n assms(3) counted_append counted_same)
qed

lemma kind_type: "written r \<Longrightarrow> kind_of r \<noteq> [] \<Longrightarrow> rec_get ''t'' r = Inr (JStr (kind_of r))"
  by (auto simp: kind_of_def split: sum.splits json.splits)

lemma validate_record_exact:
  assumes "written r" "kind_of r \<noteq> []"
  shows "validate_record dumps (state_after dumps rs) r = (if next_ok dumps rs r then Inr (state_after dumps (rs @ [r])) else Inl ValueError)"
proof (cases "kind_of r \<in> {''header'', ''rng'', ''answer'', ''snapshot'', ''end''}")
  case False
  then show ?thesis using kind_type[OF assms] by (auto simp: validate_record_def unhashable_def next_ok_def)
next
  case True
  let ?k = "kind_of r"
  let ?s = "state_after dumps rs"
  have t: "rec_get ''t'' r = Inr (JStr ?k)" using kind_type[OF assms] by simp
  have turn_ok: "check_turn r ?s = (if \<forall>t. int_field ''turn'' r = Some t \<longrightarrow> turns rs = [] \<or> last (turns rs) \<le> t
      then Inr (?s\<lparr>ts_turn := last_or_null (turns (rs @ [r]))\<rparr>) else Inl ValueError)"
    using less_last by (auto simp: check_turn_exact[OF assms(1)] state_after_def append_lists split: option.splits)
  have before: "check_before r s = (if before_seqs rs = [] \<or> last (before_seqs rs) \<le> the (int_field ''before_seq'' r)
      then Inr (s\<lparr>ts_before_seq := last_or_null (before_seqs (rs @ [r]))\<rparr>) else Inl ValueError)"
    if "?k \<in> {''answer'', ''snapshot''}" "ts_before_seq s = last_or_null (before_seqs rs)" for s
  proof -
    have "int_field ''before_seq'' r \<noteq> None" using assms(1) that(1) unfolding written_def by blast
    then obtain b where b: "int_field ''before_seq'' r = Some b" by blast
    then have item: "rec_item ''before_seq'' r = Inr (JInt b)" by (simp add: int_field_item)
    show ?thesis using that less_last[of "before_seqs rs" b]
      by (simp add: check_before_def item b append_lists)
  qed
  have seq: "check_seq r s = (if seqs rs = [] \<or> last (seqs rs) < the (int_field ''seq'' r)
      then Inr (s\<lparr>ts_rng_seq := last_or_null (seqs (rs @ [r]))\<rparr>) else Inl ValueError)"
    if "?k = ''rng''" "ts_rng_seq s = last_or_null (seqs rs)" for s
  proof -
    have "int_field ''seq'' r \<noteq> None" using assms(1) that(1) unfolding written_def by blast
    then obtain b where b: "int_field ''seq'' r = Some b" by blast
    then have item: "rec_item ''seq'' r = Inr (JInt b)" by (simp add: int_field_item)
    show ?thesis using that at_most_last[of "seqs rs" b]
      by (simp add: check_seq_def item b append_lists)
  qed
  note turn_after = turn_ok[unfolded state_after_def]
  consider "?k = ''rng''" | "?k = ''answer''" | "?k = ''snapshot''" | "?k = ''header'' \<or> ?k = ''end''" using True by auto
  then show ?thesis
  proof cases
    case 1
    then show ?thesis
      using seq check_occurrence_exact[OF assms(1), of "counted dumps ''rng'' rs" dumps rs]
      by (auto simp: validate_record_def t turn_after unhashable_def next_ok_def state_after_def append_lists counted_append)
  next
    case 2
    then show ?thesis
      using before check_occurrence_exact[OF assms(1), of "counted dumps ''answer'' rs" dumps rs]
      by (auto simp: validate_record_def t turn_after unhashable_def next_ok_def state_after_def append_lists counted_append)
  next
    case 3
    then show ?thesis using before
      by (auto simp: validate_record_def t turn_after unhashable_def next_ok_def state_after_def append_lists counted_append)
  next
    case 4
    then show ?thesis
      by (auto simp: validate_record_def t turn_after unhashable_def next_ok_def state_after_def append_lists counted_append)
  qed
qed


lemma validate_record_iff:
  assumes "written r"
  shows "validate_record dumps (state_after dumps rs) r = Inr s \<longleftrightarrow> next_ok dumps rs r \<and> s = state_after dumps (rs @ [r])"
proof (cases "kind_of r = []")
  case False
  then show ?thesis using validate_record_exact[OF assms False] by auto
next
  case True
  obtain kvs where "r = JObj kvs" using assms by (auto simp: written_def)
  then obtain t where t: "rec_get ''t'' r = Inr t" by (simp add: rec_get_def)
  then have "t \<notin> JStr ` {''header'', ''rng'', ''answer'', ''snapshot'', ''end''}" using True by (auto simp: kind_of_def)
  then show ?thesis using True t by (auto simp: validate_record_def next_ok_def)
qed

lemma sorted_snoc_last:
  fixes xs :: "int list"
  shows "sorted (xs @ [n]) \<longleftrightarrow> sorted xs \<and> (xs = [] \<or> last xs \<le> n)"
  by (induction xs rule: rev_induct) (fastforce simp: sorted_append)+

lemma increasing_snoc_last:
  fixes xs :: "int list"
  shows "sorted_wrt (<) (xs @ [n]) \<longleftrightarrow> sorted_wrt (<) xs \<and> (xs = [] \<or> last xs < n)"
  by (induction xs rule: rev_induct) (fastforce simp: sorted_wrt_append)+

lemma occurrences_snoc:
  "(\<forall>i < length (rs @ [r]). P ((rs @ [r]) ! i) (take i (rs @ [r]))) \<longleftrightarrow> (\<forall>i < length rs. P (rs ! i) (take i rs)) \<and> P r rs"
  by (simp add: less_Suc_eq all_conj_distrib imp_conjL nth_append imp_disjL)

lemma turns_snoc: "sorted (turns (rs @ [r])) \<longleftrightarrow> sorted (turns rs) \<and> (\<forall>t. int_field ''turn'' r = Some t \<longrightarrow> turns rs = [] \<or> last (turns rs) \<le> t)"
  by (auto simp: append_lists sorted_snoc_last simp del: sorted_append split: option.split)

lemma seqs_snoc:
  assumes "written r"
  shows "sorted_wrt (<) (seqs (rs @ [r])) \<longleftrightarrow> sorted_wrt (<) (seqs rs)
    \<and> (kind_of r = ''rng'' \<longrightarrow> seqs rs = [] \<or> last (seqs rs) < the (int_field ''seq'' r))"
proof (cases "kind_of r = ''rng''")
  case True
  then have "int_field ''seq'' r \<noteq> None" using assms unfolding written_def by blast
  then obtain q where q: "int_field ''seq'' r = Some q" by blast
  show ?thesis using True increasing_snoc_last[of "seqs rs" q] by (simp add: append_lists q)
qed (simp add: append_lists)

lemma before_seqs_snoc:
  assumes "written r"
  shows "sorted (before_seqs (rs @ [r])) \<longleftrightarrow> sorted (before_seqs rs)
    \<and> (kind_of r \<in> {''answer'', ''snapshot''} \<longrightarrow> before_seqs rs = [] \<or> last (before_seqs rs) \<le> the (int_field ''before_seq'' r))"
proof (cases "kind_of r \<in> {''answer'', ''snapshot''}")
  case True
  then have "int_field ''before_seq'' r \<noteq> None" using assms unfolding written_def by blast
  then obtain q where q: "int_field ''before_seq'' r = Some q" by blast
  have "before_seqs (rs @ [r]) = before_seqs rs @ [q]" using True by (simp only: append_lists q if_True option.case)
  then show ?thesis using True sorted_snoc_last[of "before_seqs rs" q] by (simp only: q option.sel simp_thms)
next
  case False
  then have "before_seqs (rs @ [r]) = before_seqs rs" by (simp only: append_lists if_False append_Nil2)
  then show ?thesis using False by simp
qed

lemma body_ok_snoc:
  assumes "written r" "kind_of r \<notin> {''header'', ''end''}"
  shows "body_ok dumps (rs @ [r]) \<longleftrightarrow> body_ok dumps rs \<and> next_ok dumps rs r"
proof -
  note occurrences = occurrences_snoc[of rs r "\<lambda>q before. kind_of q \<in> {''rng'', ''answer''} \<longrightarrow>
      int_field ''occurrence'' q = Some (int (length (filter (same_event dumps q) before)))"]
  have kinds: "(\<forall>q \<in> set (rs @ [r]). kind_of q \<in> {''rng'', ''answer'', ''snapshot''})
    \<longleftrightarrow> (\<forall>q \<in> set rs. kind_of q \<in> {''rng'', ''answer'', ''snapshot''}) \<and> kind_of r \<in> {''header'', ''rng'', ''answer'', ''snapshot'', ''end''}"
    using assms(2) by auto
  show ?thesis unfolding body_ok_def next_ok_def turns_snoc seqs_snoc[OF assms(1)] before_seqs_snoc[OF assms(1)] occurrences kinds by (rule iffI; (elim conjE); (intro conjI); assumption)
qed

lemma body_exact:
  assumes "\<forall>r \<in> set rs. written r \<and> kind_of r \<notin> {''header'', ''end''}"
  shows "rfold (validate_record dumps) trace_start rs = Inr s \<longleftrightarrow> body_ok dumps rs \<and> s = state_after dumps rs"
  using assms
proof (induction rs arbitrary: s rule: rev_induct)
  case Nil
  show ?case by (auto simp: state_after_Nil[symmetric] body_ok_def seqs_def turns_def before_seqs_def map_filter_def)
next
  case (snoc r rs)
  have "rfold (validate_record dumps) trace_start (rs @ [r]) = Inr s
    \<longleftrightarrow> (\<exists>s'. rfold (validate_record dumps) trace_start rs = Inr s' \<and> validate_record dumps s' r = Inr s)"
    by (cases "rfold (validate_record dumps) trace_start rs"; cases "validate_record dumps (projr (rfold (validate_record dumps) trace_start rs)) r")
      (simp_all add: rfold_append)
  also have "\<dots> \<longleftrightarrow> body_ok dumps rs \<and> next_ok dumps rs r \<and> s = state_after dumps (rs @ [r])"
    using snoc validate_record_iff[of r dumps rs s] by auto
  finally show ?case using snoc.prems body_ok_snoc[of r dumps rs] by auto
qed

section \<open>The property\<close>

lemma type_exact:
  assumes "written r" "k \<noteq> []"
  shows "has_type k r = Inr (kind_of r = k)"
  using assms by (auto simp: has_type_def kind_of_def written_def rec_get_def split: json.splits)

lemma types_exact: "k \<noteq> [] \<Longrightarrow> \<forall>r \<in> set rs. written r \<Longrightarrow> rmap (has_type k) rs = Inr (map (\<lambda>r. kind_of r = k) rs)"
  by (induction rs) (simp_all add: type_exact)

lemma only_at_exact:
  assumes "k \<noteq> []" "\<forall>r \<in> set rs. written r" "pos < length rs"
  shows "only_at k pos rs = Inr () \<longleftrightarrow> (\<forall>i < length rs. kind_of (rs ! i) = k \<longleftrightarrow> i = pos)"
proof -
  have "filter (\<lambda>i. kind_of (rs ! i) = k) [0..<length rs] = [pos] \<longleftrightarrow> (\<forall>i < length rs. kind_of (rs ! i) = k \<longleftrightarrow> i = pos)" (is "?l \<longleftrightarrow> ?r")
  proof
    assume ?l
    then have "{i \<in> set [0..<length rs]. kind_of (rs ! i) = k} = {pos}" by (metis set_filter list.set(1,2))
    then show ?r by (auto simp: set_eq_iff)
  next
    assume ?r
    then have "filter (\<lambda>i. kind_of (rs ! i) = k) [0..<length rs] = filter (\<lambda>i. i = pos) [0..<length rs]" by (intro filter_cong) auto
    also have "\<dots> = [pos]"
    proof -
      have "[0..<length rs] = [0..<pos] @ pos # [Suc pos..<length rs]"
        using assms(3) upt_add_eq_append[of 0 pos "length rs - pos"] by (simp add: upt_conv_Cons)
      moreover have "filter (\<lambda>i. i = pos) [0..<pos] = []" "filter (\<lambda>i. i = pos) [Suc pos..<length rs] = []" by (auto simp: filter_empty_conv)
      ultimately show ?thesis by simp
    qed
    finally show ?l .
  qed
  moreover have "filter (\<lambda>i. map (\<lambda>r. kind_of r = k) rs ! i) [0..<length rs] = filter (\<lambda>i. kind_of (rs ! i) = k) [0..<length rs]"
    by (intro filter_cong) auto
  ultimately show ?thesis by (simp add: only_at_def types_exact[OF assms(1,2)])
qed

lemma records_shape:
  "(\<exists>h b e. rs = h # b @ [e] \<and> A h \<and> B e \<and> C b) \<and> P (hd rs) \<and> Q (butlast (tl rs))
    \<longleftrightarrow> (\<exists>h b e. rs = h # b @ [e] \<and> A h \<and> B e \<and> C b \<and> P h \<and> Q b)"
  by auto

text \<open>The header is the first record and the only one, and the end the last.\<close>

lemma frame_exact:
  assumes "records \<noteq> []"
  shows "(\<forall>i < length records. kind_of (records ! i) = ''header'' \<longleftrightarrow> i = 0) \<and> (\<forall>i < length records. kind_of (records ! i) = ''end'' \<longleftrightarrow> i = length records - 1)
    \<longleftrightarrow> (\<exists>h body e. records = h # body @ [e] \<and> kind_of h = ''header'' \<and> kind_of e = ''end'' \<and> (\<forall>r \<in> set body. kind_of r \<notin> {''header'', ''end''}))"
    (is "?header \<and> ?end \<longleftrightarrow> ?r")
proof
  assume l: "?header \<and> ?end"
  obtain h rest where records: "records = h # rest" using assms by (cases records) auto
  have "kind_of h = ''header''" using conjunct1[OF l, THEN spec, of 0] by (simp add: records)
  moreover have "rest \<noteq> []" using conjunct2[OF l, THEN spec, of 0] calculation by (auto simp: records)
  then obtain body e where rest: "rest = body @ [e]" by (metis append_butlast_last_id)
  moreover have "kind_of e = ''end''" using conjunct2[OF l, THEN spec, of "Suc (length body)"] by (simp add: records rest nth_append)
  moreover have "\<forall>r \<in> set body. kind_of r \<notin> {''header'', ''end''}"
  proof
    fix r assume "r \<in> set body"
    then obtain i where "i < length body" "r = body ! i" by (metis in_set_conv_nth)
    then show "kind_of r \<notin> {''header'', ''end''}"
      using conjunct1[OF l, THEN spec, of "Suc i"] conjunct2[OF l, THEN spec, of "Suc i"] by (simp add: records rest nth_append)
  qed
  moreover have "records = h # body @ [e]" by (simp add: records rest)
  ultimately have "records = h # body @ [e] \<and> kind_of h = ''header'' \<and> kind_of e = ''end'' \<and> (\<forall>r \<in> set body. kind_of r \<notin> {''header'', ''end''})"
    by (intro conjI)
  then show ?r by (intro exI)
next
  assume ?r
  then obtain h body e where r: "records = h # body @ [e]" "kind_of h = ''header''" "kind_of e = ''end''" "\<forall>r \<in> set body. kind_of r \<notin> {''header'', ''end''}"
    by blast
  then have body: "kind_of (body ! i) \<notin> {''header'', ''end''}" if "i < length body" for i using that nth_mem by blast
  have at: "kind_of (records ! i) = (if i = 0 then ''header'' else if i = Suc (length body) then ''end'' else kind_of (body ! (i - 1)))"
    if "i < length records" for i
    using that by (cases i) (auto simp: r(1-3) nth_append less_Suc_eq)
  have inner: "kind_of (body ! (i - 1)) \<notin> {''header'', ''end''}" if "i < length records" "i \<noteq> 0" "i \<noteq> Suc (length body)" for i
    using that by (intro body) (simp add: r(1))
  have "kind_of (records ! i) = ''header'' \<longleftrightarrow> i = 0" if "i < length records" for i using at[OF that] inner[OF that] by simp
  moreover have "kind_of (records ! i) = ''end'' \<longleftrightarrow> i = length records - 1" if "i < length records" for i
    using at[OF that] inner[OF that] r(1) by simp
  ultimately show "?header \<and> ?end" by blast
qed

lemma version_exact:
  assumes "written h"
  shows "(case rec_get ''format_version'' h of Inr v \<Rightarrow> number v = Some 1 | Inl _ \<Rightarrow> False)
    = (case rec_item ''format_version'' h of Inr v \<Rightarrow> number v = Some 1 | Inl _ \<Rightarrow> False)"
proof -
  obtain kvs where "h = JObj kvs" using assms by (auto simp: written_def)
  then show ?thesis by (simp add: rec_get_def rec_item_def split: option.split)
qed

lemma validate_alt:
  assumes "\<forall>r \<in> set records. written r" "records \<noteq> []"
  shows "validate_trace dumps records = Inr () \<longleftrightarrow>
    ((\<forall>i < length records. kind_of (records ! i) = ''header'' \<longleftrightarrow> i = 0) \<and> (\<forall>i < length records. kind_of (records ! i) = ''end'' \<longleftrightarrow> i = length records - 1))
    \<and> (case rec_get ''format_version'' (hd records) of Inr v \<Rightarrow> number v = Some 1 | Inl _ \<Rightarrow> False)
    \<and> (\<exists>s. rfold (validate_record dumps) trace_start (butlast (tl records)) = Inr s)"
proof -
  have "0 < length records" "length records - 1 < length records" using assms(2) by simp_all
  note only = only_at_exact[of "''header''", OF _ assms(1) this(1)] only_at_exact[of "''end''", OF _ assms(1) this(2)]
  have "validate_trace dumps records = Inr () \<longleftrightarrow> (only_at ''header'' 0 records = Inr () \<and> only_at ''end'' (length records - 1) records = Inr ())
    \<and> (case rec_get ''format_version'' (hd records) of Inr v \<Rightarrow> number v = Some 1 | Inl _ \<Rightarrow> False)
    \<and> (\<exists>s. rfold (validate_record dumps) trace_start (butlast (tl records)) = Inr s)"
    using assms(2)
    by (cases "only_at ''header'' 0 records"; cases "only_at ''end'' (length records - 1) records"; cases "rec_get ''format_version'' (hd records)";
        cases "rfold (validate_record dumps) trace_start (butlast (tl records))") (simp_all add: validate_trace_def FORMAT_VERSION_def)
  then show ?thesis using only by simp
qed

text \<open>
  C20: the validator of golden traces is exact. Records whose numeric fields are integers, as the recorder writes them, pass if and only if they
  are a header of the current format version, a body and an end, such that in the body the turns and the positions of the driver's
  records never decrease, the sequence numbers of the random events strictly increase, and the occurrence of every random event and of
  every answer is the number of its earlier occurrences in its turn.
\<close>

theorem validate_trace_exact:
  assumes "\<forall>r \<in> set records. written r"
  shows "validate_trace dumps records = Inr () \<longleftrightarrow> trace_ok dumps records"
proof (cases "records = []")
  case True
  then show ?thesis by (simp add: validate_trace_def trace_ok_def)
next
  case False
  have "validate_trace dumps records = Inr () \<longleftrightarrow> (\<exists>h body e. records = h # body @ [e] \<and> kind_of h = ''header'' \<and> kind_of e = ''end''
      \<and> (\<forall>r \<in> set body. kind_of r \<notin> {''header'', ''end''}) \<and> (case rec_get ''format_version'' h of Inr v \<Rightarrow> number v = Some 1 | Inl _ \<Rightarrow> False)
      \<and> (\<exists>s. rfold (validate_record dumps) trace_start body = Inr s))"
    unfolding validate_alt[OF assms False] frame_exact[OF False]
    by (rule records_shape[where P = "\<lambda>h. case rec_get ''format_version'' h of Inr v \<Rightarrow> number v = Some 1 | Inl _ \<Rightarrow> False"
      and Q = "\<lambda>body. \<exists>s. rfold (validate_record dumps) trace_start body = Inr s"])
  also have "\<dots> \<longleftrightarrow> trace_ok dumps records"
  proof -
    have "(\<forall>r \<in> set body. kind_of r \<notin> {''header'', ''end''}) \<and> (case rec_get ''format_version'' h of Inr v \<Rightarrow> number v = Some 1 | Inl _ \<Rightarrow> False)
        \<and> (\<exists>s. rfold (validate_record dumps) trace_start body = Inr s)
      \<longleftrightarrow> (case rec_item ''format_version'' h of Inr v \<Rightarrow> number v = Some 1 | Inl _ \<Rightarrow> False) \<and> body_ok dumps body"
      if "records = h # body @ [e]" for h body e
    proof -
      have "\<forall>r \<in> set body. written r" "written h" using assms that by auto
      moreover have "\<forall>r \<in> set body. kind_of r \<notin> {''header'', ''end''}" if "body_ok dumps body"
        using that unfolding body_ok_def by fastforce
      ultimately show ?thesis using body_exact[of body dumps] version_exact by blast
    qed
    then show ?thesis unfolding trace_ok_def by (simp only: cong: conj_cong)
  qed
  finally show ?thesis .
qed

definition sample_trace :: "json list" where
  "sample_trace =
    [JObj [(''t'', JStr ''header''), (''format_version'', JInt 1)],
     JObj [(''t'', JStr ''answer''), (''turn'', JInt 0), (''event'', JStr ''choose''), (''occurrence'', JInt 0), (''before_seq'', JInt 0)],
     JObj [(''t'', JStr ''rng''), (''turn'', JInt 0), (''event'', JStr ''crit''), (''occurrence'', JInt 0), (''seq'', JInt 0)],
     JObj [(''t'', JStr ''rng''), (''turn'', JInt 0), (''event'', JStr ''crit''), (''occurrence'', JInt 1), (''seq'', JInt 1)],
     JObj [(''t'', JStr ''snapshot''), (''before_seq'', JInt 2)],
     JObj [(''t'', JStr ''rng''), (''turn'', JInt 1), (''event'', JStr ''crit''), (''occurrence'', JInt 0), (''seq'', JInt 2)],
     JObj [(''t'', JStr ''end'')]]"

theorem validate_trace_exact_witness:
  "trace_ok (\<lambda>_. ''crit'') sample_trace \<and> \<not> trace_ok (\<lambda>_. ''crit'') (remove1 (sample_trace ! 2) sample_trace)"
proof -
  have "written r" if "r \<in> set sample_trace" for r
    using that by (auto simp: sample_trace_def written_def kind_of_def rec_get_def int_field_def rec_item_def)
  moreover have "set (remove1 (sample_trace ! 2) sample_trace) \<subseteq> set sample_trace" by (rule set_remove1_subset)
  moreover have "validate_trace (\<lambda>_. ''crit'') sample_trace = Inr ()" by code_simp
  moreover have "validate_trace (\<lambda>_. ''crit'') (remove1 (sample_trace ! 2) sample_trace) \<noteq> Inr ()" by code_simp
  ultimately show ?thesis
    using validate_trace_exact[of sample_trace "\<lambda>_. ''crit''"] validate_trace_exact[of "remove1 (sample_trace ! 2) sample_trace" "\<lambda>_. ''crit''"]
    by blast
qed

end
