(* ===== verification/Replay.thy ===== *)
theory Replay
  imports SweepDriver Fonts Traces
begin

text \<open>
  Replay of golden traces (\<open>trace_replay.py\<close>, with the reader of \<open>golden_trace.py\<close>): a trace file becomes the battle it starts from and the
  random outcomes and answers that the engine is forced to take. The text of a file and the parser of its lines are arguments.
\<close>

section \<open>Python values\<close>

definition PLAIN_ENUMS :: "string list" where "PLAIN_ENUMS = [''RNGEvent'', ''LuckGroup'']"

text \<open>\<open>x.k\<close>: a member of an enum has a name and a value, an instance its fields.\<close>

definition py_attr :: "enum_members \<Rightarrow> string \<Rightarrow> pyobj \<Rightarrow> pyobj res" where
  "py_attr members k x = (case x of
     OEnum cls v \<Rightarrow>
       if k = ''value'' then Inr (case v of EInt n \<Rightarrow> OInt n | EStr s \<Rightarrow> OStr s)
       else if k = ''name'' then Inr (case members cls v of Some (Some n) \<Rightarrow> OStr n | _ \<Rightarrow> ONone)
       else Inl AttributeError
   | OData cls fs \<Rightarrow> (case map_of fs k of Some v \<Rightarrow> Inr v | None \<Rightarrow> Inl AttributeError)
   | _ \<Rightarrow> Inl AttributeError)"

definition has_attr :: "enum_members \<Rightarrow> string \<Rightarrow> pyobj \<Rightarrow> bool" where
  "has_attr members k x = (case py_attr members k x of Inr _ \<Rightarrow> True | Inl _ \<Rightarrow> False)"

text \<open>\<open>int(x)\<close> and \<open>bool(x)\<close>.\<close>

definition py_int :: "pyobj \<Rightarrow> int res" where
  "py_int x = (case x of
     OInt n \<Rightarrow> Inr n
   | OBool b \<Rightarrow> Inr (if b then 1 else 0)
   | OFloat r \<Rightarrow> Inr (if 0 \<le> r then \<lfloor>r\<rfloor> else \<lceil>r\<rceil>)
   | OStr s \<Rightarrow> parse_int s
   | OEnum cls (EInt n) \<Rightarrow> if cls \<in> set PLAIN_ENUMS then Inl TypeError else Inr n
   | _ \<Rightarrow> Inl TypeError)"

definition py_bool :: "pyobj \<Rightarrow> bool" where
  "py_bool x = (case x of
     ONone \<Rightarrow> False
   | OBool b \<Rightarrow> b
   | OInt n \<Rightarrow> n \<noteq> 0
   | OFloat r \<Rightarrow> r \<noteq> 0
   | OStr s \<Rightarrow> s \<noteq> []
   | OEnum cls (EInt n) \<Rightarrow> cls \<in> set PLAIN_ENUMS \<or> n \<noteq> 0
   | OTuple xs \<Rightarrow> xs \<noteq> [] | OFrozen xs \<Rightarrow> xs \<noteq> [] | OList xs \<Rightarrow> xs \<noteq> []
   | ODict kvs \<Rightarrow> kvs \<noteq> []
   | _ \<Rightarrow> True)"

text \<open>The keys that are equal to a number, \<open>x[n]\<close>, and the items of an iteration.\<close>

definition equals_int :: "int \<Rightarrow> pyobj \<Rightarrow> bool" where
  "equals_int n x = (case x of
     OInt m \<Rightarrow> m = n
   | OBool b \<Rightarrow> n = (if b then 1 else 0)
   | OFloat r \<Rightarrow> r = of_int n
   | OEnum cls (EInt m) \<Rightarrow> cls \<notin> set PLAIN_ENUMS \<and> m = n
   | _ \<Rightarrow> False)"

definition nth_res :: "'a list \<Rightarrow> nat \<Rightarrow> 'a res" where
  "nth_res xs n = (if n < length xs then Inr (xs ! n) else Inl IndexError)"

definition py_item :: "nat \<Rightarrow> pyobj \<Rightarrow> pyobj res" where
  "py_item n x = (case x of
     OList xs \<Rightarrow> nth_res xs n
   | OTuple xs \<Rightarrow> nth_res xs n
   | OStr s \<Rightarrow> nth_res (map (\<lambda>c. OStr [c]) s) n
   | ODict kvs \<Rightarrow> (case List.find (\<lambda>kv. equals_int (int n) (fst kv)) kvs of Some kv \<Rightarrow> Inr (snd kv) | None \<Rightarrow> Inl KeyError)
   | _ \<Rightarrow> Inl TypeError)"

definition py_iter :: "pyobj \<Rightarrow> pyobj list res" where
  "py_iter x = (case x of
     OList xs \<Rightarrow> Inr xs
   | OTuple xs \<Rightarrow> Inr xs
   | OFrozen xs \<Rightarrow> Inr xs
   | OStr s \<Rightarrow> Inr (map (\<lambda>c. OStr [c]) s)
   | ODict kvs \<Rightarrow> Inr (map fst kvs)
   | _ \<Rightarrow> Inl TypeError)"

definition py_dict :: "(string \<times> pyobj) list \<Rightarrow> pyobj" where
  "py_dict kvs = ODict (map (\<lambda>kv. (OStr (fst kv), snd kv)) kvs)"

section \<open>Reading\<close>

definition read_trace :: "(string \<Rightarrow> json res) \<Rightarrow> string \<Rightarrow> json list res" where
  "read_trace loads content = rmap loads (filter (\<lambda>l. l \<noteq> []) (map strip (text_lines [] content)))"

section \<open>The random events\<close>

text \<open>The members of \<open>RNGEvent\<close> in order; their values count from 1.\<close>

definition RNG_EVENTS :: "(rng_event \<times> string) list" where
  "RNG_EVENTS = [(ACCURACY, ''ACCURACY''), (CRIT, ''CRIT''), (SECONDARY_FIRES, ''SECONDARY_FIRES''), (PROC_FIRES, ''PROC_FIRES''),
     (DAMAGE_ROLL, ''DAMAGE_ROLL''), (PSYWAVE_ROLL, ''PSYWAVE_ROLL''), (MULTI_HIT_COUNT, ''MULTI_HIT_COUNT''), (WAKE, ''WAKE''),
     (CONFUSION_SNAP, ''CONFUSION_SNAP''), (DEFROST, ''DEFROST''), (CONFUSION_SELF_HIT, ''CONFUSION_SELF_HIT''),
     (ATTRACT_IMMOBILIZE, ''ATTRACT_IMMOBILIZE''), (FULL_PARALYSIS, ''FULL_PARALYSIS''), (FLINCH, ''FLINCH''), (QUICK_CLAW, ''QUICK_CLAW''),
     (ANCIENT_POWER_BOOST, ''ANCIENT_POWER_BOOST''), (BINDING_DURATION, ''BINDING_DURATION''), (RAMPAGE_DURATION, ''RAMPAGE_DURATION''),
     (ACTION_SELECT, ''ACTION_SELECT''), (FORCED_SWITCH, ''FORCED_SWITCH''), (POST_FAINT_SWITCH, ''POST_FAINT_SWITCH''),
     (METRONOME_MOVE, ''METRONOME_MOVE''), (SLEEP_TALK_MOVE, ''SLEEP_TALK_MOVE''), (ASSIST_MOVE, ''ASSIST_MOVE''),
     (ACUPRESSURE_STAT, ''ACUPRESSURE_STAT''), (ROAR_TARGET, ''ROAR_TARGET''), (EFFECT_SPORE_WHICH, ''EFFECT_SPORE_WHICH''),
     (TRI_ATTACK_STATUS, ''TRI_ATTACK_STATUS''), (MOODY_STATS, ''MOODY_STATS''), (STARF_BERRY_STAT, ''STARF_BERRY_STAT''),
     (SPEED_TIE, ''SPEED_TIE''), (SPEED_TIEBREAKER, ''SPEED_TIEBREAKER''), (RANDOM_TARGET, ''RANDOM_TARGET'')]"

definition event_value :: "rng_event \<Rightarrow> int" where
  "event_value e = int (length (takeWhile (\<lambda>x. fst x \<noteq> e) RNG_EVENTS)) + 1"

definition event_member :: "rng_event \<Rightarrow> pyobj" where
  "event_member e = OEnum ''RNGEvent'' (EInt (event_value e))"

section \<open>Records\<close>

record rng_entry =
  re_turn :: json
  re_event :: pyobj
  re_occurrence :: json
  re_outcome :: pyobj

record answer_entry =
  an_turn :: json
  an_event :: pyobj
  an_side :: int
  an_i0 :: pyobj
  an_i1 :: int
  an_p0 :: pyobj
  an_p1 :: pyobj

text \<open>An outcome that is a member of an enum becomes its number.\<close>

definition plain_outcome :: "enum_members \<Rightarrow> pyobj \<Rightarrow> pyobj res" where
  "plain_outcome members x = (case py_attr members ''value'' x of
     Inr v \<Rightarrow> rbind (py_int v) (\<lambda>n. Inr (OInt n))
   | Inl _ \<Rightarrow> Inr x)"

definition convert_rng_record :: "enum_members \<Rightarrow> json \<Rightarrow> rng_entry res" where
  "convert_rng_record members r = rbind (rec_item ''event'' r) (\<lambda>raw. rbind (from_jsonable members raw) (\<lambda>event.
     rbind (py_attr members ''value'' event) (\<lambda>value. rbind (rec_item ''outcome'' r) (\<lambda>raw. rbind (from_jsonable members raw) (\<lambda>outcome.
     rbind (plain_outcome members outcome) (\<lambda>out. rbind (rec_item ''turn'' r) (\<lambda>turn. rbind (rec_item ''occurrence'' r) (\<lambda>occ.
       Inr \<lparr>re_turn = turn, re_event = value, re_occurrence = occ, re_outcome = out\<rparr>))))))))"

text \<open>\<open>action_payload\<close> of a decoded action.\<close>

definition payload_of :: "enum_members \<Rightarrow> pyobj \<Rightarrow> pyobj res" where
  "payload_of members a = rbind (py_attr members ''move_override'' a) (\<lambda>override.
     rbind (if override = ONone then Inr (-1) else py_int override) (\<lambda>override.
     rbind (rbind (py_attr members ''kind'' a) py_int) (\<lambda>kind. rbind (py_attr members ''move_slot'' a) (\<lambda>move_slot.
     rbind (py_attr members ''switch_to_slot'' a) (\<lambda>switch. rbind (py_attr members ''target_side'' a) (\<lambda>target_side.
     rbind (py_attr members ''target_slot'' a) (\<lambda>target_slot. rbind (py_attr members ''mega'' a) (\<lambda>mega.
     rbind (py_attr members ''source_slot'' a) (\<lambda>source_slot.
       Inr (py_dict [(''kind'', OInt kind), (''move_slot'', move_slot), (''move_override'', OInt override), (''switch_to_slot'', switch),
         (''target_side'', target_side), (''target_slot'', target_slot), (''mega'', OBool (py_bool mega)), (''source_slot'', source_slot)]))))))))))"

definition encode_answer_actions :: "enum_members \<Rightarrow> pyobj \<Rightarrow> pyobj res" where
  "encode_answer_actions members x =
     (if x = ONone then Inr ONone else rbind (py_iter x) (\<lambda>as. rbind (rmap (payload_of members) as) (\<lambda>ps. Inr (OList ps))))"

definition make_action_select :: "enum_members \<Rightarrow> json \<Rightarrow> json \<Rightarrow> answer_entry res" where
  "make_action_select members turn raw = rbind (from_jsonable members raw) (\<lambda>answer. rbind (py_item 0 answer) (\<lambda>side0. rbind (py_item 1 answer) (\<lambda>side1.
     rbind (encode_answer_actions members side0) (\<lambda>p0. rbind (encode_answer_actions members side1) (\<lambda>p1.
       Inr \<lparr>an_turn = turn, an_event = OInt (event_value ACTION_SELECT), an_side = -1, an_i0 = OInt (-1), an_i1 = -1, an_p0 = p0, an_p1 = p1\<rparr>)))))"

definition switch_entry :: "enum_members \<Rightarrow> json \<Rightarrow> int \<Rightarrow> int \<times> pyobj \<Rightarrow> answer_entry list res" where
  "switch_entry members turn event x = (case x of (si, slot) \<Rightarrow>
     if slot = ONone then Inr []
     else rbind (if has_attr members ''switch_to_slot'' slot then py_attr members ''switch_to_slot'' slot else rbind (py_int slot) (\<lambda>n. Inr (OInt n))) (\<lambda>idx.
       Inr [\<lparr>an_turn = turn, an_event = OInt event, an_side = si, an_i0 = idx, an_i1 = -1, an_p0 = ONone, an_p1 = ONone\<rparr>]))"

definition split_switch_answer :: "enum_members \<Rightarrow> json \<Rightarrow> int \<Rightarrow> json \<Rightarrow> answer_entry list res" where
  "split_switch_answer members turn event raw = rbind (from_jsonable members raw) (\<lambda>answer. rbind (py_item 0 answer) (\<lambda>slot0.
     rbind (py_item 1 answer) (\<lambda>slot1. rbind (rmap (switch_entry members turn event) [(0, slot0), (1, slot1)]) (\<lambda>es. Inr (concat es)))))"

text \<open>\<open>int(x.value)\<close> where there is a value, else \<open>int(x)\<close>.\<close>

definition answer_int :: "enum_members \<Rightarrow> pyobj \<Rightarrow> int res" where
  "answer_int members x = (case py_attr members ''value'' x of Inr v \<Rightarrow> py_int v | Inl _ \<Rightarrow> py_int x)"

definition make_rng_answer :: "enum_members \<Rightarrow> json \<Rightarrow> pyobj \<Rightarrow> pyobj \<Rightarrow> json \<Rightarrow> answer_entry res" where
  "make_rng_answer members turn value event raw = rbind (from_jsonable members raw) (\<lambda>answer.
     rbind (if event = event_member MOODY_STATS
            then rbind (py_item 0 answer) (\<lambda>boost. rbind (py_item 1 answer) (\<lambda>drop.
              rbind (answer_int members boost) (\<lambda>i0. rbind (answer_int members drop) (\<lambda>i1. Inr (i0, i1)))))
            else rbind (answer_int members answer) (\<lambda>i0. Inr (i0, -1))) (\<lambda>(i0, i1).
       Inr \<lparr>an_turn = turn, an_event = value, an_side = -1, an_i0 = OInt i0, an_i1 = i1, an_p0 = ONone, an_p1 = ONone\<rparr>))"

text \<open>The event of an answer: a text stands for itself, anything else is decoded and has a name and a value.\<close>

definition answer_event :: "enum_members \<Rightarrow> json \<Rightarrow> (pyobj \<times> (pyobj \<times> pyobj) option) res" where
  "answer_event members raw = (case raw of
     JStr s \<Rightarrow> Inr (OStr s, None)
   | _ \<Rightarrow> rbind (from_jsonable members raw) (\<lambda>event. rbind (py_attr members ''name'' event) (\<lambda>name. rbind (py_attr members ''value'' event) (\<lambda>value.
            Inr (name, Some (event, value))))))"

definition convert_answer_record :: "enum_members \<Rightarrow> json \<Rightarrow> answer_entry list res" where
  "convert_answer_record members r = rbind (rec_item ''turn'' r) (\<lambda>turn. rbind (rec_item ''event'' r) (\<lambda>raw. rbind (answer_event members raw) (\<lambda>(name, event).
     if name = OStr ''ACTION_SELECT'' then rbind (rec_item ''answer'' r) (\<lambda>a. rbind (make_action_select members turn a) (\<lambda>e. Inr [e]))
     else if name = OStr ''FORCED_SWITCH'' then rbind (rec_item ''answer'' r) (split_switch_answer members turn (event_value FORCED_SWITCH))
     else if name = OStr ''POST_FAINT_SWITCH'' then rbind (rec_item ''answer'' r) (split_switch_answer members turn (event_value POST_FAINT_SWITCH))
     else (case event of
         None \<Rightarrow> Inl ValueError
       | Some (event, value) \<Rightarrow>
           if \<not> hashable event then Inl TypeError
           else if event = event_member SPEED_TIE then Inl ValueError
           else rbind (rec_item ''answer'' r) (\<lambda>a. rbind (make_rng_answer members turn value event a) (\<lambda>e. Inr [e]))))))"

section \<open>The whole trace\<close>

record forced_trace =
  ft_rng :: "rng_entry list"
  ft_answers :: "answer_entry list"

record converted_trace =
  ct_initial :: pyobj
  ct_forced :: forced_trace
  ct_fingerprint :: json
  ct_winner :: json
  ct_turn_count :: json

definition convert_record :: "enum_members \<Rightarrow> forced_trace \<Rightarrow> json \<Rightarrow> forced_trace res" where
  "convert_record members ft r = rbind (rec_get ''t'' r) (\<lambda>t.
     if t = JStr ''rng'' then rbind (convert_rng_record members r) (\<lambda>e. Inr (ft\<lparr>ft_rng := ft_rng ft @ [e]\<rparr>))
     else if t = JStr ''answer'' then rbind (convert_answer_record members r) (\<lambda>es. Inr (ft\<lparr>ft_answers := ft_answers ft @ es\<rparr>))
     else Inr ft)"

definition convert_records :: "enum_members \<Rightarrow> json list \<Rightarrow> converted_trace res" where
  "convert_records members records =
     (if records = [] then Inl ValueError
      else rbind (rec_get ''t'' (hd records)) (\<lambda>t. if t \<noteq> JStr ''header'' then Inl ValueError
      else rbind (rec_get ''t'' (last records)) (\<lambda>t. if t \<noteq> JStr ''end'' then Inl ValueError
      else rbind (rec_item ''initial_state'' (hd records)) (\<lambda>raw. rbind (from_jsonable members raw) (\<lambda>initial.
      rbind (rfold (convert_record members) \<lparr>ft_rng = [], ft_answers = []\<rparr> (butlast (tl records))) (\<lambda>ft.
      rbind (rec_item ''fingerprint'' (last records)) (\<lambda>fingerprint. rbind (rec_item ''winner'' (last records)) (\<lambda>winner.
      rbind (rec_item ''turn_count'' (last records)) (\<lambda>turns.
        Inr \<lparr>ct_initial = initial, ct_forced = ft, ct_fingerprint = fingerprint, ct_winner = winner, ct_turn_count = turns\<rparr>)))))))))"

definition convert_trace :: "enum_members \<Rightarrow> (string \<Rightarrow> json res) \<Rightarrow> string \<Rightarrow> converted_trace res" where
  "convert_trace members loads content = rbind (read_trace loads content) (convert_records members)"

section \<open>What a recorded battle says\<close>

text \<open>
  A record of the driver with what it recorded: a random outcome, the actions of both sides, the switches of both sides, a random choice that the driver was
  asked for, a snapshot. A side switches to a slot, given as a number or as a switch action, or not at all; a drawn move is a member of \<open>Move\<close>, a drawn
  target a number.
\<close>

datatype bench_choice = ToSlot int | ToAction action

datatype recorded =
    Rolled rng_event pyobj
  | Acted "action list option" "action list option"
  | Switched bool "bench_choice option" "bench_choice option"
  | Drawn rng_event pyobj
  | Moody pyobj pyobj
  | Pictured pyobj

text \<open>With the fields that the driver adds: the place in the sequence of outcomes, the phase of the driver, and for an outcome the side and the slot it is for.\<close>

record trace_item =
  ti_turn :: int
  ti_occurrence :: int
  ti_seq :: int
  ti_phase :: string
  ti_side :: "int option"
  ti_slot :: "int option"
  ti_body :: recorded

definition action_obj :: "action \<Rightarrow> pyobj" where
  "action_obj a = OData ''Action'' [(''kind'', OEnum ''ActionKind'' (EInt (case ac_kind a of MOVE \<Rightarrow> 0 | SWITCH \<Rightarrow> 1))), (''move_slot'', OInt (ac_move_slot a)),
     (''target_slot'', OInt (int (ac_target_slot a))), (''switch_to_slot'', OInt (ac_switch_to_slot a)), (''mega'', OBool (ac_mega a)),
     (''move_override'', case ac_move_override a of None \<Rightarrow> ONone | Some m \<Rightarrow> OEnum ''Move'' (EInt m)), (''source_slot'', OInt (int (ac_source_slot a))),
     (''target_side'', OInt (ac_target_side a))]"

definition optional :: "('a \<Rightarrow> pyobj) \<Rightarrow> 'a option \<Rightarrow> pyobj" where
  "optional f x = (case x of None \<Rightarrow> ONone | Some a \<Rightarrow> f a)"

definition actions_obj :: "action list option \<Rightarrow> pyobj" where
  "actions_obj = optional (\<lambda>as. OList (map action_obj as))"

fun choice_obj :: "bench_choice \<Rightarrow> pyobj" where
  "choice_obj (ToSlot i) = OInt i"
| "choice_obj (ToAction a) = action_obj a"

text \<open>The records as the JSON lines of the trace, with the keys of every object in alphabetical order, as the writer sorts them.\<close>

definition encoded :: "enum_members \<Rightarrow> pyobj \<Rightarrow> json" where
  "encoded members x = (case to_jsonable members x of Inr j \<Rightarrow> j | Inl _ \<Rightarrow> JNull)"

definition or_null :: "('a \<Rightarrow> json) \<Rightarrow> 'a option \<Rightarrow> json" where
  "or_null f x = (case x of None \<Rightarrow> JNull | Some a \<Rightarrow> f a)"

definition action_json :: "enum_members \<Rightarrow> action \<Rightarrow> json" where
  "action_json members a = JObj [(''__type__'', JStr ''Action''), (''fields'', JObj [
     (''kind'', encoded members (OEnum ''ActionKind'' (EInt (case ac_kind a of MOVE \<Rightarrow> 0 | SWITCH \<Rightarrow> 1)))), (''mega'', JBool (ac_mega a)),
     (''move_override'', or_null (\<lambda>m. encoded members (OEnum ''Move'' (EInt m))) (ac_move_override a)), (''move_slot'', JInt (ac_move_slot a)),
     (''source_slot'', JInt (int (ac_source_slot a))), (''switch_to_slot'', JInt (ac_switch_to_slot a)), (''target_side'', JInt (ac_target_side a)),
     (''target_slot'', JInt (int (ac_target_slot a)))])]"

definition actions_json :: "enum_members \<Rightarrow> action list option \<Rightarrow> json" where
  "actions_json members = or_null (\<lambda>as. JList (map (action_json members) as))"

fun choice_json :: "enum_members \<Rightarrow> bench_choice \<Rightarrow> json" where
  "choice_json members (ToSlot i) = JInt i"
| "choice_json members (ToAction a) = action_json members a"

fun answer_json :: "enum_members \<Rightarrow> recorded \<Rightarrow> json" where
  "answer_json members (Acted a b) = JList [actions_json members a, actions_json members b]"
| "answer_json members (Switched forced a b) = JObj [(''__tuple__'', JList [or_null (choice_json members) a, or_null (choice_json members) b])]"
| "answer_json members (Drawn e x) = encoded members x"
| "answer_json members (Moody up down) = JObj [(''__tuple__'', JList [encoded members up, encoded members down])]"
| "answer_json members (Rolled e x) = encoded members x"
| "answer_json members (Pictured x) = encoded members x"

fun event_json :: "enum_members \<Rightarrow> recorded \<Rightarrow> json" where
  "event_json members (Acted a b) = JStr ''ACTION_SELECT''"
| "event_json members (Switched forced a b) = JStr (if forced then ''FORCED_SWITCH'' else ''POST_FAINT_SWITCH'')"
| "event_json members (Drawn e x) = encoded members (event_member e)"
| "event_json members (Moody up down) = encoded members (event_member MOODY_STATS)"
| "event_json members (Rolled e x) = encoded members (event_member e)"
| "event_json members (Pictured x) = JNull"

definition record_json :: "enum_members \<Rightarrow> trace_item \<Rightarrow> json" where
  "record_json members x = (case ti_body x of
     Rolled _ _ \<Rightarrow> JObj [(''event'', event_json members (ti_body x)), (''occurrence'', JInt (ti_occurrence x)), (''outcome'', answer_json members (ti_body x)),
       (''phase'', JStr (ti_phase x)), (''seq'', JInt (ti_seq x)), (''side'', or_null JInt (ti_side x)), (''slot'', or_null JInt (ti_slot x)),
       (''t'', JStr ''rng''), (''turn'', JInt (ti_turn x))]
   | Pictured _ \<Rightarrow> JObj [(''before_seq'', JInt (ti_seq x)), (''state'', answer_json members (ti_body x)), (''t'', JStr ''snapshot''), (''turn'', JInt (ti_turn x))]
   | _ \<Rightarrow> JObj [(''answer'', answer_json members (ti_body x)), (''before_seq'', JInt (ti_seq x)), (''event'', event_json members (ti_body x)),
       (''occurrence'', JInt (ti_occurrence x)), (''phase'', JStr (ti_phase x)), (''t'', JStr ''answer''), (''turn'', JInt (ti_turn x))])"

record trace_header =
  th_engine :: json
  th_flatten_eps :: json
  th_gen_params :: json
  th_git_commit :: json
  th_luck_0 :: json
  th_luck_1 :: json
  th_seed :: json
  th_snapshot_every :: json

definition header_json :: "enum_members \<Rightarrow> trace_header \<Rightarrow> pyobj \<Rightarrow> json" where
  "header_json members h st = JObj [(''engine'', th_engine h), (''flatten_eps'', th_flatten_eps h), (''format_version'', JInt FORMAT_VERSION),
     (''gen_params'', th_gen_params h), (''git_commit'', th_git_commit h), (''initial_state'', encoded members st), (''luck_0'', th_luck_0 h),
     (''luck_1'', th_luck_1 h), (''seed'', th_seed h), (''snapshot_every'', th_snapshot_every h), (''t'', JStr ''header'')]"

record trace_end =
  te_final_state :: json
  te_fingerprint :: json
  te_steps :: json
  te_turn_count :: json
  te_winner :: json

definition end_json :: "trace_end \<Rightarrow> json" where
  "end_json e = JObj [(''final_state'', te_final_state e), (''fingerprint'', te_fingerprint e), (''steps'', te_steps e), (''t'', JStr ''end''),
     (''turn_count'', te_turn_count e), (''winner'', te_winner e)]"

text \<open>What the engine is forced to.\<close>

definition wire_dict :: "action_wire \<Rightarrow> pyobj" where
  "wire_dict w = py_dict [(''kind'', OInt (aw_kind w)), (''move_slot'', OInt (aw_move_slot w)), (''move_override'', OInt (aw_move_override w)),
     (''switch_to_slot'', OInt (aw_switch_to_slot w)), (''target_side'', OInt (aw_target_side w)), (''target_slot'', OInt (aw_target_slot w)),
     (''mega'', OBool (aw_mega w)), (''source_slot'', OInt (aw_source_slot w))]"

definition forced_actions :: "action list option \<Rightarrow> pyobj" where
  "forced_actions = optional (\<lambda>as. OList (map (wire_dict \<circ> action_payload) as))"

definition plain_answer :: "int \<Rightarrow> rng_event \<Rightarrow> int \<Rightarrow> int \<Rightarrow> int \<Rightarrow> answer_entry" where
  "plain_answer turn e side i0 i1 =
     \<lparr>an_turn = JInt turn, an_event = OInt (event_value e), an_side = side, an_i0 = OInt i0, an_i1 = i1, an_p0 = ONone, an_p1 = ONone\<rparr>"

definition forced_outcomes :: "trace_item \<Rightarrow> rng_entry list" where
  "forced_outcomes x = (case ti_body x of
     Rolled e out \<Rightarrow> [\<lparr>re_turn = JInt (ti_turn x), re_event = OInt (event_value e), re_occurrence = JInt (ti_occurrence x),
                      re_outcome = (case out of OEnum cls (EInt n) \<Rightarrow> OInt n | _ \<Rightarrow> out)\<rparr>]
   | _ \<Rightarrow> [])"

text \<open>A switch is the number of the slot, a choice a number or the value of a member.\<close>

fun choice_slot :: "bench_choice \<Rightarrow> int" where
  "choice_slot (ToSlot i) = i"
| "choice_slot (ToAction a) = ac_switch_to_slot a"

fun drawn_number :: "pyobj \<Rightarrow> int" where
  "drawn_number (OEnum cls (EInt n)) = n"
| "drawn_number (OInt n) = n"
| "drawn_number _ = 0"

definition side_switch :: "int \<Rightarrow> rng_event \<Rightarrow> int \<Rightarrow> bench_choice option \<Rightarrow> answer_entry list" where
  "side_switch turn e side c = (case c of None \<Rightarrow> [] | Some c \<Rightarrow> [plain_answer turn e side (choice_slot c) (-1)])"

definition forced_answers :: "trace_item \<Rightarrow> answer_entry list" where
  "forced_answers x = (case ti_body x of
     Acted a b \<Rightarrow> [(plain_answer (ti_turn x) ACTION_SELECT (-1) (-1) (-1))\<lparr>an_p0 := forced_actions a, an_p1 := forced_actions b\<rparr>]
   | Switched forced a b \<Rightarrow> (let e = (if forced then FORCED_SWITCH else POST_FAINT_SWITCH) in
       side_switch (ti_turn x) e 0 a @ side_switch (ti_turn x) e 1 b)
   | Drawn e c \<Rightarrow> [plain_answer (ti_turn x) e (-1) (drawn_number c) (-1)]
   | Moody up down \<Rightarrow> [plain_answer (ti_turn x) MOODY_STATS (-1) (drawn_number up) (drawn_number down)]
   | _ \<Rightarrow> [])"

text \<open>The enum classes have the members that the records use.\<close>

definition members_ok :: "enum_members \<Rightarrow> bool" where
  "members_ok members \<longleftrightarrow> (\<forall>x \<in> set RNG_EVENTS. members ''RNGEvent'' (EInt (event_value (fst x))) = Some (Some (snd x)))
     \<and> members ''ActionKind'' (EInt 0) \<noteq> None \<and> members ''ActionKind'' (EInt 1) \<noteq> None"

definition action_ok :: "enum_members \<Rightarrow> action \<Rightarrow> bool" where
  "action_ok members a \<longleftrightarrow> (case ac_move_override a of None \<Rightarrow> True | Some m \<Rightarrow> members ''Move'' (EInt m) \<noteq> None)"

definition actions_ok :: "enum_members \<Rightarrow> action list option \<Rightarrow> bool" where
  "actions_ok members x = (case x of None \<Rightarrow> True | Some as \<Rightarrow> list_all (action_ok members) as)"

fun choice_ok :: "enum_members \<Rightarrow> bench_choice option \<Rightarrow> bool" where
  "choice_ok members (Some (ToAction a)) \<longleftrightarrow> action_ok members a"
| "choice_ok members _ \<longleftrightarrow> True"

fun drawn_ok :: "enum_members \<Rightarrow> pyobj \<Rightarrow> bool" where
  "drawn_ok members (OEnum cls (EInt n)) \<longleftrightarrow> cls \<in> set ENUM_REGISTRY \<and> members cls (EInt n) \<noteq> None"
| "drawn_ok members (OInt n) \<longleftrightarrow> True"
| "drawn_ok members _ \<longleftrightarrow> False"

fun recordable :: "enum_members \<Rightarrow> recorded \<Rightarrow> bool" where
  "recordable members (Acted a b) \<longleftrightarrow> actions_ok members a \<and> actions_ok members b"
| "recordable members (Switched forced a b) \<longleftrightarrow> choice_ok members a \<and> choice_ok members b"
| "recordable members (Drawn e c) \<longleftrightarrow> e \<notin> {ACTION_SELECT, FORCED_SWITCH, POST_FAINT_SWITCH, MOODY_STATS} \<and> drawn_ok members c"
| "recordable members (Moody up down) \<longleftrightarrow> drawn_ok members up \<and> drawn_ok members down"
| "recordable members (Rolled e x) \<longleftrightarrow> (case x of
     OBool _ \<Rightarrow> True | OInt _ \<Rightarrow> True | OFloat _ \<Rightarrow> True | OEnum cls (EInt n) \<Rightarrow> cls \<in> set ENUM_REGISTRY \<and> members cls (EInt n) \<noteq> None | _ \<Rightarrow> False)"
| "recordable members (Pictured x) \<longleftrightarrow> True"

definition speed_tie :: "trace_item \<Rightarrow> bool" where
  "speed_tie x = (case ti_body x of Drawn SPEED_TIE _ \<Rightarrow> True | _ \<Rightarrow> False)"

section \<open>Decoding gives back what was recorded\<close>

lemma decode_encoded: "encodable members x \<Longrightarrow> from_jsonable members (encoded members x) = Inr (strip_parents x)"
  using codec_roundtrip_obj[of members x] by (auto simp: encoded_def)

lemma event_listed: "\<exists>n. (e, n) \<in> set RNG_EVENTS"
  by (cases e) (simp_all add: RNG_EVENTS_def)

lemma event_values: "map (event_value \<circ> fst) RNG_EVENTS = [1..33]"
  by code_simp

lemma event_value_inj: "event_value e = event_value e' \<longleftrightarrow> e = e'"
proof
  assume eq: "event_value e = event_value e'"
  obtain n n' where listed: "(e, n) \<in> set RNG_EVENTS" "(e', n') \<in> set RNG_EVENTS" using event_listed by blast
  have inj: "inj_on (event_value \<circ> fst) (set RNG_EVENTS)" using event_values by (metis distinct_map distinct_upto)
  have "(e, n) = (e', n')" by (rule inj_onD[OF inj _ listed]) (simp add: eq)
  then show "e = e'" by simp
qed simp

lemma event_decoded:
  assumes "members_ok members"
  shows "from_jsonable members (encoded members (event_member e)) = Inr (event_member e)"
proof -
  obtain n where "(e, n) \<in> set RNG_EVENTS" using event_listed by blast
  then have "encodable members (event_member e)" using assms by (fastforce simp: members_ok_def event_member_def ENUM_REGISTRY_def)
  from decode_encoded[OF this] show ?thesis by (simp add: event_member_def)
qed

lemma enum_decoded:
  "cls \<in> set ENUM_REGISTRY \<Longrightarrow> members cls v \<noteq> None \<Longrightarrow> from_jsonable members (encoded members (OEnum cls v)) = Inr (OEnum cls v)"
  using decode_encoded[of members "OEnum cls v"] by simp

lemma encoded_atoms [simp]:
  "encoded members ONone = JNull" "encoded members (OInt n) = JInt n" "encoded members (OStr s) = JStr s"
  by (simp_all add: encoded_def)

lemma action_decoded:
  assumes "members_ok members" "action_ok members a"
  shows "from_jsonable members (action_json members a) = Inr (action_obj a)"
proof -
  have kind: "from_jsonable members (encoded members (OEnum ''ActionKind'' (EInt k))) = Inr (OEnum ''ActionKind'' (EInt k))" if "k \<in> {0, 1}" for k
    using assms(1) that by (intro enum_decoded) (auto simp: members_ok_def ENUM_REGISTRY_def)
  have move: "from_jsonable members (encoded members (OEnum ''Move'' (EInt m))) = Inr (OEnum ''Move'' (EInt m))" if "ac_move_override a = Some m" for m
    using assms(2) that by (intro enum_decoded) (auto simp: action_ok_def ENUM_REGISTRY_def)
  show ?thesis
    by (cases "ac_kind a"; cases "ac_move_override a")
      (simp_all add: action_json_def action_obj_def or_null_def kind move has_key_def DATACLASS_REGISTRY_def reconstruct_dataclass_def CONSTRUCTOR_FIELDS_def call_constructor_def)
qed

lemma actions_decoded:
  assumes "members_ok members" "actions_ok members x"
  shows "from_jsonable members (actions_json members x) = Inr (actions_obj x)"
proof (cases x)
  case (Some as)
  have "rmap (from_jsonable members) (map (action_json members) as) = Inr (map action_obj as)"
    using assms Some by (induction as arbitrary: x) (auto simp: action_decoded actions_ok_def)
  then show ?thesis by (simp add: Some actions_json_def actions_obj_def or_null_def optional_def)
qed (simp add: actions_json_def actions_obj_def or_null_def optional_def)

lemma choice_decoded:
  assumes "members_ok members" "choice_ok members c"
  shows "from_jsonable members (or_null (choice_json members) c) = Inr (optional choice_obj c)"
  using assms action_decoded by (cases "(members, c)" rule: choice_ok.cases) (auto simp: or_null_def optional_def)

lemma drawn_decoded: "drawn_ok members c \<Longrightarrow> from_jsonable members (encoded members c) = Inr c"
  by (cases "(members, c)" rule: drawn_ok.cases) (auto simp: enum_decoded)

lemma drawn_value: "drawn_ok members c \<Longrightarrow> answer_int members c = Inr (drawn_number c)"
  by (cases "(members, c)" rule: drawn_ok.cases) (auto simp: answer_int_def py_attr_def py_int_def)

lemma payload_refines: "payload_of members (action_obj a) = Inr (wire_dict (action_payload a))"
  by (cases "ac_kind a"; cases "ac_move_override a")
    (simp_all add: payload_of_def action_obj_def py_attr_def py_int_def py_bool_def wire_dict_def action_payload_def PLAIN_ENUMS_def)

lemma actions_converted: "encode_answer_actions members (actions_obj x) = Inr (forced_actions x)"
proof (cases x)
  case (Some as)
  have "rmap (payload_of members) (map action_obj as) = Inr (map (wire_dict \<circ> action_payload) as)"
    by (induction as) (simp_all add: payload_refines)
  then show ?thesis by (simp add: Some encode_answer_actions_def actions_obj_def forced_actions_def optional_def py_iter_def)
qed (simp add: encode_answer_actions_def actions_obj_def forced_actions_def optional_def)

lemma member_value: "py_attr members ''value'' (event_member e) = Inr (OInt (event_value e))"
  by (simp add: py_attr_def event_member_def)

lemma rng_record_converted:
  assumes "members_ok members" "recordable members (ti_body x)" "ti_body x = Rolled e out"
  shows "convert_rng_record members (record_json members x) = Inr (hd (forced_outcomes x))"
proof -
  have out: "from_jsonable members (encoded members out) = Inr out"
    using decode_encoded[of members out] assms(2,3) by (cases out) (auto split: enum_value.splits)
  have "plain_outcome members out = Inr (case out of OEnum cls (EInt n) \<Rightarrow> OInt n | _ \<Rightarrow> out)"
    using assms(2,3) by (cases out) (auto simp: plain_outcome_def py_attr_def py_int_def split: enum_value.splits)
  then show ?thesis
    by (simp add: convert_rng_record_def record_json_def rec_item_def event_decoded[OF assms(1)] out member_value forced_outcomes_def assms(3))
qed

lemma texts_distinct: "event_member e \<noteq> OStr s"
  by (simp add: event_member_def)

lemma event_of_member:
  assumes "members_ok members" "(e, n) \<in> set RNG_EVENTS"
  shows "answer_event members (encoded members (event_member e)) = Inr (OStr n, Some (event_member e, OInt (event_value e)))"
proof -
  have name: "members ''RNGEvent'' (EInt (event_value e)) = Some (Some n)" using assms by (fastforce simp: members_ok_def)
  have "\<exists>kvs. encoded members (event_member e) = JObj kvs" by (simp add: encoded_def event_member_def)
  then show ?thesis
    using event_decoded[OF assms(1), of e] by (auto simp: answer_event_def event_member_def py_attr_def name)
qed

lemma switch_entry_of:
  "switch_entry members (JInt turn) (event_value e) (side, optional choice_obj c) = Inr (side_switch turn e side c)"
proof (cases c)
  case (Some d)
  then show ?thesis
    by (cases d) (simp_all add: switch_entry_def optional_def side_switch_def plain_answer_def has_attr_def py_attr_def py_int_def action_obj_def)
qed (simp add: switch_entry_def optional_def side_switch_def)

lemma acted_converted:
  assumes "members_ok members" "actions_ok members a" "actions_ok members b" "ti_body x = Acted a b"
  shows "convert_answer_record members (record_json members x) = Inr (forced_answers x)"
  using assms(1-3)
  by (simp add: convert_answer_record_def record_json_def rec_item_def answer_event_def make_action_select_def py_item_def nth_res_def
      actions_decoded actions_converted forced_answers_def plain_answer_def assms(4))

lemma switched_converted:
  assumes "members_ok members" "choice_ok members a" "choice_ok members b" "ti_body x = Switched forced a b"
  shows "convert_answer_record members (record_json members x) = Inr (forced_answers x)"
proof -
  have "from_jsonable members (answer_json members (ti_body x)) = Inr (OTuple [optional choice_obj a, optional choice_obj b])"
    by (simp add: assms(4) has_key_def choice_decoded[OF assms(1,2)] choice_decoded[OF assms(1,3)])
  then show ?thesis
    by (cases forced) (simp_all add: convert_answer_record_def record_json_def rec_item_def answer_event_def split_switch_answer_def py_item_def nth_res_def
        switch_entry_of forced_answers_def Let_def assms(4) del: answer_json.simps from_jsonable.simps)
qed

lemma moody_converted:
  assumes "members_ok members" "drawn_ok members up" "drawn_ok members down" "ti_body x = Moody up down"
  shows "convert_answer_record members (record_json members x) = Inr (forced_answers x)"
proof -
  have n: "(MOODY_STATS, ''MOODY_STATS'') \<in> set RNG_EVENTS" by (simp add: RNG_EVENTS_def)
  have d: "from_jsonable members (answer_json members (ti_body x)) = Inr (OTuple [up, down])"
    by (simp add: assms(4) has_key_def drawn_decoded[OF assms(2)] drawn_decoded[OF assms(3)])
  have h: "hashable (event_member MOODY_STATS)" "event_member MOODY_STATS \<noteq> event_member SPEED_TIE"
    by (simp_all add: event_member_def event_value_inj)
  show ?thesis using d
    by (simp add: convert_answer_record_def record_json_def rec_item_def event_of_member[OF assms(1) n] h make_rng_answer_def py_item_def nth_res_def
        drawn_value[OF assms(2)] drawn_value[OF assms(3)] forced_answers_def plain_answer_def assms(4) del: answer_json.simps from_jsonable.simps)
qed

lemma drawn_converted:
  assumes "members_ok members" "recordable members (ti_body x)" "ti_body x = Drawn e c"
  shows "convert_answer_record members (record_json members x) = (if e = SPEED_TIE then Inl ValueError else Inr (forced_answers x))"
proof -
  obtain n where n: "(e, n) \<in> set RNG_EVENTS" using event_listed by blast
  have names: "n \<noteq> ''ACTION_SELECT'' \<and> n \<noteq> ''FORCED_SWITCH'' \<and> n \<noteq> ''POST_FAINT_SWITCH''"
    using n assms(2,3) by (cases e) (simp_all add: RNG_EVENTS_def)
  have ok: "drawn_ok members c" "e \<noteq> MOODY_STATS" using assms(2,3) by simp_all
  have h: "hashable (event_member e)" "event_member e = event_member e' \<longleftrightarrow> e = e'" for e'
    by (simp_all add: event_member_def event_value_inj)
  show ?thesis using ok(2) names
    by (simp add: convert_answer_record_def record_json_def rec_item_def event_of_member[OF assms(1) n] h make_rng_answer_def drawn_decoded[OF ok(1)]
        drawn_value[OF ok(1)] forced_answers_def plain_answer_def assms(3))
qed

lemma record_converted:
  assumes "members_ok members" "recordable members (ti_body x)"
  shows "convert_record members ft (record_json members x) = (if speed_tie x then Inl ValueError
    else Inr \<lparr>ft_rng = ft_rng ft @ forced_outcomes x, ft_answers = ft_answers ft @ forced_answers x\<rparr>)"
proof -
  have kind: "rec_get ''t'' (record_json members x) = Inr (JStr (case ti_body x of Rolled _ _ \<Rightarrow> ''rng'' | Pictured _ \<Rightarrow> ''snapshot'' | _ \<Rightarrow> ''answer''))"
    by (cases "ti_body x") (simp_all add: record_json_def rec_get_def)
  show ?thesis
  proof (cases "ti_body x")
    case (Rolled e out)
    have "forced_outcomes x = [hd (forced_outcomes x)]" by (simp add: Rolled forced_outcomes_def)
    then show ?thesis
      using rng_record_converted[OF assms Rolled] kind by (simp add: Rolled convert_record_def speed_tie_def forced_answers_def)
  next
    case (Acted a b)
    with assms(2) have "actions_ok members a" "actions_ok members b" by simp_all
    from acted_converted[OF assms(1) this Acted] show ?thesis using kind by (simp add: Acted convert_record_def speed_tie_def forced_outcomes_def)
  next
    case (Switched forced a b)
    with assms(2) have "choice_ok members a" "choice_ok members b" by simp_all
    from switched_converted[OF assms(1) this Switched] show ?thesis using kind by (simp add: Switched convert_record_def speed_tie_def forced_outcomes_def)
  next
    case (Drawn e c)
    have "speed_tie x \<longleftrightarrow> e = SPEED_TIE" by (simp add: Drawn speed_tie_def split: rng_event.split)
    then show ?thesis using drawn_converted[OF assms Drawn] kind by (simp add: Drawn convert_record_def forced_outcomes_def)
  next
    case (Moody up down)
    with assms(2) have "drawn_ok members up" "drawn_ok members down" by simp_all
    from moody_converted[OF assms(1) this Moody] show ?thesis using kind by (simp add: Moody convert_record_def speed_tie_def forced_outcomes_def)
  next
    case (Pictured y)
    then show ?thesis using kind by (simp add: convert_record_def speed_tie_def forced_outcomes_def forced_answers_def)
  qed
qed

lemma body_converted:
  assumes "members_ok members" "\<forall>x \<in> set items. recordable members (ti_body x)"
  shows "rfold (convert_record members) ft (map (record_json members) items) = (if \<exists>x \<in> set items. speed_tie x then Inl ValueError
    else Inr \<lparr>ft_rng = ft_rng ft @ concat (map forced_outcomes items), ft_answers = ft_answers ft @ concat (map forced_answers items)\<rparr>)"
  using assms(2) by (induction items arbitrary: ft) (auto simp: record_converted[OF assms(1)])

lemma records_converted:
  assumes "members_ok members" "encodable members st" "\<forall>x \<in> set items. recordable members (ti_body x)"
  shows "convert_records members (header_json members h st # map (record_json members) items @ [end_json e])
    = (if \<exists>x \<in> set items. speed_tie x then Inl ValueError
       else Inr \<lparr>ct_initial = strip_parents st,
         ct_forced = \<lparr>ft_rng = concat (map forced_outcomes items), ft_answers = concat (map forced_answers items)\<rparr>,
         ct_fingerprint = te_fingerprint e, ct_winner = te_winner e, ct_turn_count = te_turn_count e\<rparr>)"
  by (simp add: convert_records_def header_json_def end_json_def rec_get_def rec_item_def decode_encoded[OF assms(2)] body_converted[OF assms(1,3)])

text \<open>The lines of a file that a printer of JSON values writes.\<close>

definition one_line :: "string \<Rightarrow> bool" where
  "one_line l \<longleftrightarrow> l \<noteq> [] \<and> strip l = l \<and> list_all (\<lambda>c. \<not> line_break c) l"

definition file_text :: "string list \<Rightarrow> string" where
  "file_text ls = concat (map (\<lambda>l. l @ [CHR 0x0A]) ls)"

lemma text_lines_line: "list_all (\<lambda>c. \<not> line_break c) l \<Longrightarrow> text_lines cur (l @ CHR 0x0A # s) = (cur @ l) # text_lines [] s"
  by (induction l arbitrary: cur) (simp_all add: line_break_def)

lemma file_lines: "list_all one_line ls \<Longrightarrow> text_lines [] (file_text ls) = ls @ [[]]"
  by (induction ls) (simp_all add: file_text_def one_line_def text_lines_line)

lemma file_read:
  assumes "\<forall>r \<in> set records. one_line (dumps r) \<and> loads (dumps r) = Inr r"
  shows "read_trace loads (file_text (map dumps records)) = Inr records"
proof -
  have "list_all one_line (map dumps records)" using assms by (simp add: list_all_iff)
  moreover have "filter (\<lambda>l. l \<noteq> []) (map strip (map dumps records)) = map dumps records" "strip [] = []"
    using assms by (induction records) (simp_all add: one_line_def strip_def)
  moreover have "rmap loads (map dumps records) = Inr records" using assms by (induction records) simp_all
  ultimately show ?thesis by (simp add: read_trace_def file_lines)
qed

text \<open>
  C18: the conversion of a golden trace gives back the recorded battle. For the file of a trace with the records as the driver writes them, the encoded state,
  the random outcomes, the actions, the switches (a tuple with the slot of each side or nothing) and the random choices (a number or, for a move, the member of
  \<open>Move\<close>) of a battle, in any number and order and with their place, phase, side and slot, the result is the initial state without its links to parents, exactly
  the outcomes and the answers of the records in their order with the turn of each (an action as the payload of the engine, a switch as one entry for each side
  that switches, side 0 first, a member as its value), and the closing data; snapshots add nothing; and a trace in which the winner of a speed tie was asked for
  is refused.
\<close>

theorem convert_trace_exact:
  assumes "members_ok members" "encodable members st" "\<forall>x \<in> set items. recordable members (ti_body x)"
    and "records = header_json members h st # map (record_json members) items @ [end_json e]"
    and "\<forall>r \<in> set records. one_line (dumps r) \<and> loads (dumps r) = Inr r"
  shows "convert_trace members loads (file_text (map dumps records))
    = (if \<exists>x \<in> set items. speed_tie x then Inl ValueError
       else Inr \<lparr>ct_initial = strip_parents st,
         ct_forced = \<lparr>ft_rng = concat (map forced_outcomes items), ft_answers = concat (map forced_answers items)\<rparr>,
         ct_fingerprint = te_fingerprint e, ct_winner = te_winner e, ct_turn_count = te_turn_count e\<rparr>)"
proof -
  have "convert_trace members loads (file_text (map dumps records)) = convert_records members records"
    by (simp only: convert_trace_def file_read[of records dumps loads, OF assms(5)] rbind_Inr)
  then show ?thesis unfolding assms(4) by (simp only: records_converted[OF assms(1-3)])
qed

text \<open>
  Records of the traces \<open>scenario_called_two_turn\<close> and \<open>scenario_baton_pass_bound\<close> of the test fixtures: the actions of the first turn, a tie-breaking draw,
  the move that Metronome calls, and a switch after a Baton Pass.
\<close>

definition sample_members :: enum_members where
  "sample_members cls v = (if cls = ''RNGEvent''
     then (case v of EInt n \<Rightarrow> map_option Some (map_of (map (\<lambda>x. (event_value (fst x), snd x)) RNG_EVENTS) n) | EStr _ \<Rightarrow> None)
     else if cls = ''ActionKind'' then (if v = EInt 0 then Some (Some ''MOVE'') else if v = EInt 1 then Some (Some ''SWITCH'') else None)
     else if cls = ''Move'' then (if v = EInt 76 then Some (Some ''SOLAR_BEAM'') else None)
     else None)"

definition trace_entry :: "int \<Rightarrow> int \<Rightarrow> int \<Rightarrow> string \<Rightarrow> recorded \<Rightarrow> trace_item" where
  "trace_entry turn occ seq phase body = \<lparr>ti_turn = turn, ti_occurrence = occ, ti_seq = seq, ti_phase = phase, ti_side = None, ti_slot = None, ti_body = body\<rparr>"

definition sample_items :: "trace_item list" where
  "sample_items = [trace_entry 1 0 0 ''AWAIT_ACTIONS'' (Acted (Some [move_action 0]) (Some [move_action 0])),
     trace_entry 1 0 0 ''queue_build'' (Rolled SPEED_TIEBREAKER (OFloat (2614807599517638 / 10 ^ 16))),
     trace_entry 1 0 2 ''AWAIT_SUB_MOVE'' (Drawn METRONOME_MOVE (OEnum ''Move'' (EInt 76))),
     trace_entry 2 0 7 ''AWAIT_FORCED_SWITCH'' (Switched True (Some (ToSlot 1)) None)]"

definition sample_action_json :: json where
  "sample_action_json = JObj [(''__type__'', JStr ''Action''), (''fields'', JObj [
     (''kind'', JObj [(''__enum__'', JStr ''ActionKind''), (''name'', JStr ''MOVE''), (''value'', JInt 0)]), (''mega'', JBool False), (''move_override'', JNull),
     (''move_slot'', JInt 0), (''source_slot'', JInt 0), (''switch_to_slot'', JInt (-1)), (''target_side'', JInt (-1)), (''target_slot'', JInt 0)])]"

lemma fixture_records: "map (record_json sample_members) sample_items =
    [JObj [(''answer'', JList [JList [sample_action_json], JList [sample_action_json]]), (''before_seq'', JInt 0), (''event'', JStr ''ACTION_SELECT''),
       (''occurrence'', JInt 0), (''phase'', JStr ''AWAIT_ACTIONS''), (''t'', JStr ''answer''), (''turn'', JInt 1)],
     JObj [(''event'', JObj [(''__enum__'', JStr ''RNGEvent''), (''name'', JStr ''SPEED_TIEBREAKER''), (''value'', JInt 32)]), (''occurrence'', JInt 0),
       (''outcome'', JFloat (2614807599517638 / 10 ^ 16)), (''phase'', JStr ''queue_build''), (''seq'', JInt 0), (''side'', JNull), (''slot'', JNull),
       (''t'', JStr ''rng''), (''turn'', JInt 1)],
     JObj [(''answer'', JObj [(''__enum__'', JStr ''Move''), (''name'', JStr ''SOLAR_BEAM''), (''value'', JInt 76)]), (''before_seq'', JInt 2),
       (''event'', JObj [(''__enum__'', JStr ''RNGEvent''), (''name'', JStr ''METRONOME_MOVE''), (''value'', JInt 22)]), (''occurrence'', JInt 0),
       (''phase'', JStr ''AWAIT_SUB_MOVE''), (''t'', JStr ''answer''), (''turn'', JInt 1)],
     JObj [(''answer'', JObj [(''__tuple__'', JList [JInt 1, JNull])]), (''before_seq'', JInt 7), (''event'', JStr ''FORCED_SWITCH''), (''occurrence'', JInt 0),
       (''phase'', JStr ''AWAIT_FORCED_SWITCH''), (''t'', JStr ''answer''), (''turn'', JInt 2)]]"
  by code_simp

definition sample_header :: trace_header where
  "sample_header = \<lparr>th_engine = JStr ''python'', th_flatten_eps = JFloat 0, th_gen_params = JObj [(''scenario'', JStr ''called_two_turn'')],
     th_git_commit = JStr ''fe0d32119dc7a7de5ff03825556181a02f68b8c1'', th_luck_0 = JStr ''RANDOM'', th_luck_1 = JStr ''RANDOM'', th_seed = JInt 90000,
     th_snapshot_every = JInt 1\<rparr>"

definition sample_end :: trace_end where
  "sample_end = \<lparr>te_final_state = JNull, te_fingerprint = JStr ''f'', te_steps = JInt 1, te_turn_count = JInt 2, te_winner = JInt 0\<rparr>"

definition sample_records :: "json list" where
  "sample_records = header_json sample_members sample_header ONone # map (record_json sample_members) sample_items @ [end_json sample_end]"

definition sample_dumps :: "json \<Rightarrow> string" where
  "sample_dumps r = replicate (length (takeWhile (\<lambda>q. q \<noteq> r) sample_records) + 1) CHR ''x''"

definition sample_loads :: "string \<Rightarrow> json res" where
  "sample_loads l = Inr (sample_records ! (length l - 1))"

lemma sample_codec: "r \<in> set sample_records \<Longrightarrow> one_line (sample_dumps r) \<and> sample_loads (sample_dumps r) = Inr r"
proof -
  assume r: "r \<in> set sample_records"
  have sp: "\<not> is_space CHR ''x''" by code_simp
  have drop: "dropWhile is_space (replicate n CHR ''x'') = replicate n CHR ''x''" for n
    by (cases n) (simp_all only: replicate.simps dropWhile.simps sp if_False)
  have x: "\<not> line_break CHR ''x''" "strip (replicate n CHR ''x'') = replicate n CHR ''x''" for n
    by code_simp (simp only: strip_def drop rev_replicate)
  obtain xs ys where split: "sample_records = xs @ r # ys" "r \<notin> set xs"
    using split_list_first[OF r] by blast
  then have "takeWhile (\<lambda>q. q \<noteq> r) sample_records = xs"
    unfolding split(1) by (subst takeWhile_append2) auto
  then have "sample_dumps r = replicate (Suc (length xs)) CHR ''x''" "sample_loads (replicate (Suc (length xs)) CHR ''x'') = Inr r"
    by (simp_all only: sample_dumps_def sample_loads_def length_replicate split(1) nth_append_length Suc_eq_plus1 add_diff_cancel_right')
  then show ?thesis using x by (simp add: one_line_def list_all_iff del: replicate.simps)
qed

theorem convert_trace_exact_witness:
  "\<exists>c. convert_trace sample_members sample_loads (file_text (map sample_dumps sample_records)) = Inr c
     \<and> ft_answers (ct_forced c) = [(plain_answer 1 ACTION_SELECT (-1) (-1) (-1))\<lparr>an_p0 := forced_actions (Some [move_action 0]), an_p1 := forced_actions (Some [move_action 0])\<rparr>,
          plain_answer 1 METRONOME_MOVE (-1) 76 (-1), plain_answer 2 FORCED_SWITCH 0 1 (-1)]"
proof -
  have "members_ok sample_members" by code_simp
  moreover have "\<forall>x \<in> set sample_items. recordable sample_members (ti_body x)" by code_simp
  moreover have "\<forall>r \<in> set sample_records. one_line (sample_dumps r) \<and> sample_loads (sample_dumps r) = Inr r" using sample_codec by blast
  moreover have "\<not> (\<exists>x \<in> set sample_items. speed_tie x)" by code_simp
  moreover have "concat (map forced_answers sample_items) = [(plain_answer 1 ACTION_SELECT (-1) (-1) (-1))\<lparr>an_p0 := forced_actions (Some [move_action 0]), an_p1 := forced_actions (Some [move_action 0])\<rparr>,
      plain_answer 1 METRONOME_MOVE (-1) 76 (-1), plain_answer 2 FORCED_SWITCH 0 1 (-1)]"
    by (simp add: sample_items_def trace_entry_def forced_answers_def side_switch_def)
  ultimately show ?thesis
    using convert_trace_exact[of sample_members ONone sample_items sample_records sample_header sample_end sample_dumps sample_loads]
    by (simp add: sample_records_def)
qed

end
