(* ===== verification/Aggregate.thy ===== *)
theory Aggregate
  imports Candidates Traces
begin

text \<open>
  The gate over the output of the solver's reference checks (\<open>SCRIPTS/rcheck_aggregate.py\<close>): parsing and cross-checking of the shard files,
  the merged report and the exit code. A file is the list of its lines; the parser of a line is an argument that fails on a text that is not
  JSON. Counters are keyed by values up to the equality of Python, under which equal numbers are one key.
\<close>

section \<open>Classifications\<close>

definition CLASSES :: "string list" where
  "CLASSES = [''THROWN'', ''REFEREE_INDET'', ''SOUND_AGREE_WIN'', ''SOUND_AGREE_LOSS'', ''HARD_FAIL_B_WIN'', ''HARD_FAIL_PESSIMAL_LOSS'',
     ''SOUND_UNKNOWN_ON_LOSS'', ''CONSERVATIVE_TAGGED'', ''CONSERVATIVE_UNTAGGED'']"

definition HARD_FAIL_CLASSES :: "string list" where
  "HARD_FAIL_CLASSES = [''HARD_FAIL_B_WIN'', ''HARD_FAIL_PESSIMAL_LOSS'']"

definition CACHE_FIELDS :: "string list" where
  "CACHE_FIELDS = [''edge_hits'', ''edge_misses'', ''memo_hits'', ''memo_stores'', ''memo_suppressed'', ''memo_containment_missed'']"

definition PP_CANON_FIELDS :: "string list" where
  "PP_CANON_FIELDS = [''canonical_repeats'', ''pp_horizon_used'', ''audit_expands'', ''pp_audit_rejects'']"

definition TELEMETRY_FIELDS :: "string list" where
  "TELEMETRY_FIELDS = [''buckets_visited'', ''expand_calls'', ''replays'', ''oracle_leaves'', ''max_depth'']"

section \<open>Percentiles\<close>

definition percentile :: "rat list \<Rightarrow> rat \<Rightarrow> rat" where
  "percentile vals pct =
     (if vals = [] then 0
      else if length vals = 1 then vals ! 0
      else (let rank = pct / 100 * of_nat (length vals - 1); lo = nat \<lfloor>rank\<rfloor>; hi = min (lo + 1) (length vals - 1); frac = rank - of_nat lo in
        vals ! lo * (1 - frac) + vals ! hi * frac))"

record percentiles =
  pc_p50 :: rat
  pc_p90 :: rat
  pc_p99 :: rat
  pc_n :: nat

definition pctiles :: "rat list \<Rightarrow> percentiles" where
  "pctiles vals = (let s = sort vals in \<lparr>pc_p50 = percentile s 50, pc_p90 = percentile s 90, pc_p99 = percentile s 99, pc_n = length s\<rparr>)"

section \<open>One shard file\<close>

definition in_text :: "string \<Rightarrow> string \<Rightarrow> bool" where
  "in_text k s \<longleftrightarrow> list_ex (\<lambda>i. take (length k) (drop i s) = k) [0..<Suc (length s)]"

text \<open>\<open>k in obj\<close> and \<open>d.get(k, default)\<close>.\<close>

definition json_contains :: "string \<Rightarrow> json \<Rightarrow> bool res" where
  "json_contains k obj = (case obj of
     JObj kvs \<Rightarrow> Inr (map_of kvs k \<noteq> None)
   | JList xs \<Rightarrow> Inr (JStr k \<in> set xs)
   | JStr s \<Rightarrow> Inr (in_text k s)
   | _ \<Rightarrow> Inl TypeError)"

definition json_get :: "string \<Rightarrow> json \<Rightarrow> json \<Rightarrow> json res" where
  "json_get k fallback obj = (case obj of
     JObj kvs \<Rightarrow> Inr (case map_of kvs k of Some v \<Rightarrow> v | None \<Rightarrow> fallback)
   | _ \<Rightarrow> Inl AttributeError)"

text \<open>A value that takes part in arithmetic.\<close>

definition json_number :: "json \<Rightarrow> rat res" where
  "json_number j = (case number j of Some q \<Rightarrow> Inr q | None \<Rightarrow> Inl TypeError)"

definition shard_line :: "(string \<Rightarrow> json option) \<Rightarrow> json list \<times> json \<Rightarrow> string \<Rightarrow> (json list \<times> json) res" where
  "shard_line loads st line = (let l = strip line in
     if l = [] then Inr st
     else (case loads l of
         None \<Rightarrow> Inl IntegrityError
       | Some obj \<Rightarrow> rbind (json_contains ''summary'' obj) (\<lambda>is_summary.
           if is_summary then (if snd st \<noteq> JNull then Inl IntegrityError else rbind (rec_item ''summary'' obj) (\<lambda>s. Inr (fst st, s)))
           else if snd st \<noteq> JNull then Inl IntegrityError
           else Inr (fst st @ [obj], snd st))))"

text \<open>The bin of a record: one more in the bin of its class.\<close>

type_synonym bins = "string \<Rightarrow> nat"

definition count_class :: "bins \<Rightarrow> json \<Rightarrow> bins res" where
  "count_class bins r = rbind (rec_item ''classification'' r) (\<lambda>cls.
     if unhashable cls then Inl TypeError
     else (case cls of JStr c \<Rightarrow> if c \<in> set CLASSES then Inr (bins(c := bins c + 1)) else Inl IntegrityError | _ \<Rightarrow> Inl IntegrityError))"

definition check_bin :: "json \<Rightarrow> bins \<Rightarrow> string \<Rightarrow> unit res" where
  "check_bin summary bins c = rbind (rec_item ''bins'' summary) (\<lambda>b. rbind (json_get c (JInt 0) b) (\<lambda>embedded.
     if number embedded \<noteq> Some (of_nat (bins c)) then Inl IntegrityError else Inr ()))"

definition hard_count :: "bins \<Rightarrow> nat" where
  "hard_count bins = sum_list (map bins HARD_FAIL_CLASSES)"

definition parse_shard_file :: "(string \<Rightarrow> json option) \<Rightarrow> string list \<Rightarrow> (json list \<times> json) res" where
  "parse_shard_file loads ls = rbind (rfold (shard_line loads) ([], JNull) ls) (\<lambda>(records, summary).
     if summary = JNull then Inl IntegrityError
     else rbind (rec_item ''n'' summary) (\<lambda>n.
       if number n \<noteq> Some (of_nat (length records)) then Inl IntegrityError
       else rbind (rfold count_class (\<lambda>_. 0) records) (\<lambda>bins.
         rbind (rmap (check_bin summary bins) CLASSES) (\<lambda>_. rbind (json_get ''hard_fails'' (JInt 0) summary) (\<lambda>hard.
           if number hard \<noteq> Some (of_nat (hard_count bins)) then Inl IntegrityError else Inr (records, summary))))))"

section \<open>The merged report\<close>

type_synonym 'a counter = "(json \<times> 'a) list"

text \<open>\<open>d[k] += n\<close> and \<open>d[k].append(v)\<close> on a dictionary with a default.\<close>

definition adjust :: "'a \<Rightarrow> ('a \<Rightarrow> 'a) \<Rightarrow> 'k \<Rightarrow> ('k \<times> 'a) list \<Rightarrow> ('k \<times> 'a) list" where
  "adjust fallback f k d = AList.update k (f (case map_of d k of Some v \<Rightarrow> v | None \<Rightarrow> fallback)) d"

record timing =
  tm_pessimal :: "rat list"
  tm_b :: "rat list"
  tm_exact :: "rat list"
  tm_total :: "rat list"

definition no_timing :: timing where "no_timing = \<lparr>tm_pessimal = [], tm_b = [], tm_exact = [], tm_total = []\<rparr>"

definition add_timing :: "rat \<Rightarrow> rat \<Rightarrow> rat \<Rightarrow> timing \<Rightarrow> timing" where
  "add_timing p b e t = \<lparr>tm_pessimal = tm_pessimal t @ [p], tm_b = tm_b t @ [b], tm_exact = tm_exact t @ [e], tm_total = tm_total t @ [p + b + e]\<rparr>"

type_synonym series = "string \<Rightarrow> rat list"

record totals =
  ag_n :: nat
  ag_hard :: nat
  ag_bins :: bins
  ag_class_bins :: "bins counter"
  ag_seed_bins :: "bins counter"
  ag_thrown :: "rat counter"
  ag_concessions :: "(string \<times> rat) list"
  ag_untagged :: "rat counter"
  ag_timing :: timing
  ag_class_timing :: "timing counter"
  ag_telemetry :: series
  ag_cache :: series
  ag_pp :: series

definition no_totals :: totals where
  "no_totals = \<lparr>ag_n = 0, ag_hard = 0, ag_bins = (\<lambda>_. 0), ag_class_bins = [], ag_seed_bins = [], ag_thrown = [], ag_concessions = [], ag_untagged = [],
     ag_timing = no_timing, ag_class_timing = [], ag_telemetry = (\<lambda>_. []), ag_cache = (\<lambda>_. []), ag_pp = (\<lambda>_. [])\<rparr>"

definition json_true :: "json \<Rightarrow> bool" where
  "json_true j = (case j of JNull \<Rightarrow> False | JBool b \<Rightarrow> b | JInt n \<Rightarrow> n \<noteq> 0 | JFloat q \<Rightarrow> q \<noteq> 0 | JStr s \<Rightarrow> s \<noteq> [] | JList xs \<Rightarrow> xs \<noteq> [] | JObj kvs \<Rightarrow> kvs \<noteq> [])"

definition plus_one :: "string \<Rightarrow> bins \<Rightarrow> bins" where "plus_one c b = b(c := b c + 1)"

text \<open>The bins: the class is one of the bins, since the shard has been checked.\<close>

definition tally :: "json \<Rightarrow> totals \<Rightarrow> totals res" where
  "tally r a = rbind (rec_item ''classification'' r) (\<lambda>cls. rbind (rec_item ''klass'' r) (\<lambda>klass. rbind (rec_item ''seed'' r) (\<lambda>seed.
     case cls of
       JStr c \<Rightarrow> if c \<notin> set CLASSES then Inl KeyError
         else rbind (turn_key klass) (\<lambda>klass. rbind (turn_key seed) (\<lambda>seed.
           Inr (a\<lparr>ag_bins := plus_one c (ag_bins a), ag_class_bins := adjust (\<lambda>_. 0) (plus_one c) klass (ag_class_bins a),
             ag_seed_bins := adjust (\<lambda>_. 0) (plus_one c) seed (ag_seed_bins a), ag_hard := ag_hard a + (if c \<in> set HARD_FAIL_CLASSES then 1 else 0)\<rparr>)))
     | _ \<Rightarrow> Inl (if unhashable cls then TypeError else KeyError))))"

definition add_concession :: "(string \<times> rat) list \<Rightarrow> string \<times> json \<Rightarrow> (string \<times> rat) list res" where
  "add_concession d x = rbind (json_number (snd x)) (\<lambda>q. Inr (adjust 0 (\<lambda>v. v + q) (fst x) d))"

definition json_items :: "json \<Rightarrow> (string \<times> json) list res" where
  "json_items j = (case j of JObj kvs \<Rightarrow> Inr kvs | _ \<Rightarrow> Inl AttributeError)"

definition tally_pipeline :: "json \<Rightarrow> totals \<Rightarrow> totals res" where
  "tally_pipeline r a = rbind (rec_item ''classification'' r) (\<lambda>cls. rbind (rec_item ''pipeline'' r) (\<lambda>pl. rbind (json_get ''thrown'' JNull pl) (\<lambda>thrown.
     if json_true thrown then rbind (rec_item ''key'' thrown) (\<lambda>k. rbind (turn_key k) (\<lambda>k. Inr (a\<lparr>ag_thrown := adjust 0 (\<lambda>n. n + 1) k (ag_thrown a)\<rparr>)))
     else rbind (rbind (json_get ''concessions'' (JObj []) pl) json_items) (\<lambda>items. rbind (rfold add_concession (ag_concessions a) items) (\<lambda>concessions.
       if cls = JStr ''CONSERVATIVE_UNTAGGED''
       then rbind (json_get ''b_reason'' (JStr ''None'') pl) (\<lambda>k. rbind (turn_key k) (\<lambda>k.
         Inr (a\<lparr>ag_concessions := concessions, ag_untagged := adjust 0 (\<lambda>n. n + 1) k (ag_untagged a)\<rparr>)))
       else Inr (a\<lparr>ag_concessions := concessions\<rparr>))))))"

definition number_item :: "string \<Rightarrow> json \<Rightarrow> rat res" where
  "number_item k r = rbind (rec_item k r) json_number"

definition tally_timing :: "json \<Rightarrow> totals \<Rightarrow> totals res" where
  "tally_timing r a = rbind (rec_item ''timing_us'' r) (\<lambda>t. rbind (number_item ''pessimal'' t) (\<lambda>p. rbind (number_item ''b'' t) (\<lambda>b.
     rbind (number_item ''exact'' t) (\<lambda>e. rbind (rbind (rec_item ''klass'' r) turn_key) (\<lambda>klass.
       Inr (a\<lparr>ag_timing := add_timing p b e (ag_timing a), ag_class_timing := adjust no_timing (add_timing p b e) klass (ag_class_timing a)\<rparr>))))))"

text \<open>The counters of the fields, which are optional or whose absence is an error.\<close>

definition add_field :: "exn option \<Rightarrow> json \<Rightarrow> series \<Rightarrow> string \<Rightarrow> series res" where
  "add_field missing tel s k = rbind (json_contains k tel) (\<lambda>present.
     if present then rbind (number_item k tel) (\<lambda>q. Inr (s(k := s k @ [q])))
     else (case missing of None \<Rightarrow> Inr s | Some e \<Rightarrow> Inl e))"

definition tally_telemetry :: "json \<Rightarrow> totals \<Rightarrow> totals res" where
  "tally_telemetry r a = rbind (json_get ''telemetry'' (JObj []) r) (\<lambda>tel. rbind (rfold (add_field None tel) (ag_telemetry a) TELEMETRY_FIELDS) (\<lambda>telemetry.
     rbind (rec_item ''pipeline'' r) (\<lambda>pl. rbind (json_get ''thrown'' JNull pl) (\<lambda>thrown. rbind (json_get ''b_ran'' JNull pl) (\<lambda>b_ran.
       if \<not> json_true thrown \<and> json_true b_ran
       then rbind (rfold (add_field (Some IntegrityError) tel) (ag_cache a) CACHE_FIELDS) (\<lambda>cache.
         rbind (rfold (add_field (Some IntegrityError) tel) (ag_pp a) PP_CANON_FIELDS) (\<lambda>pp.
           Inr (a\<lparr>ag_telemetry := telemetry, ag_cache := cache, ag_pp := pp\<rparr>)))
       else Inr (a\<lparr>ag_telemetry := telemetry\<rparr>))))))"

definition add_record :: "totals \<Rightarrow> json \<Rightarrow> totals res" where
  "add_record a r = rbind (tally r (a\<lparr>ag_n := ag_n a + 1\<rparr>)) (\<lambda>a. rbind (tally_pipeline r a) (\<lambda>a. rbind (tally_timing r a) (tally_telemetry r)))"

definition add_shard :: "(string \<Rightarrow> json option) \<Rightarrow> totals \<Rightarrow> string list \<Rightarrow> totals res" where
  "add_shard loads a ls = rbind (parse_shard_file loads ls) (\<lambda>(records, summary). rfold add_record a records)"

record cache_report =
  ca_b_ran :: nat
  ca_sums :: "string \<Rightarrow> rat"
  ca_hit_rate :: rat
  ca_per_field :: "(string \<times> rat \<times> percentiles) list"

definition series_report :: "string list \<Rightarrow> series \<Rightarrow> (string \<times> rat \<times> percentiles) list" where
  "series_report ks s = map (\<lambda>k. (k, sum_list (s k), pctiles (s k))) ks"

definition ratio :: "rat \<Rightarrow> rat \<Rightarrow> rat" where
  "ratio a b = (if b = 0 then 0 else a / b)"

definition cache_of :: "series \<Rightarrow> cache_report" where
  "cache_of s = (let hits = sum_list (s ''edge_hits''); misses = sum_list (s ''edge_misses'') in
     \<lparr>ca_b_ran = length (s ''edge_hits''), ca_sums = (\<lambda>k. sum_list (s k)), ca_hit_rate = ratio hits (hits + misses), ca_per_field = series_report CACHE_FIELDS s\<rparr>)"

record timing_report =
  tr_pessimal :: percentiles
  tr_b :: percentiles
  tr_exact :: percentiles
  tr_total :: percentiles

definition timing_report_of :: "timing \<Rightarrow> timing_report" where
  "timing_report_of t = \<lparr>tr_pessimal = pctiles (tm_pessimal t), tr_b = pctiles (tm_b t), tr_exact = pctiles (tm_exact t), tr_total = pctiles (tm_total t)\<rparr>"

record report =
  rp_shards :: nat
  rp_n :: nat
  rp_hard_fails :: nat
  rp_bins :: "(string \<times> nat) list"
  rp_class_bins :: "bins counter"
  rp_seed_bins :: "bins counter"
  rp_thrown :: "rat counter"
  rp_concessions :: "(string \<times> rat) list"
  rp_untagged :: "rat counter"
  rp_indet :: nat
  rp_indet_rate :: rat
  rp_timing :: timing_report
  rp_class_timing :: "timing_report counter"
  rp_telemetry :: "(string \<times> rat \<times> percentiles) list"
  rp_cache :: cache_report
  rp_pp_b_ran :: nat
  rp_pp :: "(string \<times> rat \<times> percentiles) list"

definition report_of :: "nat \<Rightarrow> totals \<Rightarrow> report" where
  "report_of shards a = \<lparr>rp_shards = shards, rp_n = ag_n a, rp_hard_fails = ag_hard a, rp_bins = map (\<lambda>c. (c, ag_bins a c)) CLASSES,
     rp_class_bins = ag_class_bins a, rp_seed_bins = ag_seed_bins a, rp_thrown = ag_thrown a, rp_concessions = ag_concessions a, rp_untagged = ag_untagged a,
     rp_indet = ag_bins a ''REFEREE_INDET'', rp_indet_rate = ratio (of_nat (ag_bins a ''REFEREE_INDET'')) (of_nat (ag_n a)),
     rp_timing = timing_report_of (ag_timing a), rp_class_timing = map (\<lambda>x. (fst x, timing_report_of (snd x))) (ag_class_timing a),
     rp_telemetry = series_report TELEMETRY_FIELDS (ag_telemetry a), rp_cache = cache_of (ag_cache a),
     rp_pp_b_ran = length (ag_pp a ''canonical_repeats''), rp_pp = series_report PP_CANON_FIELDS (ag_pp a)\<rparr>"

definition expected :: "int option \<Rightarrow> nat \<Rightarrow> unit res" where
  "expected want n = (case want of None \<Rightarrow> Inr () | Some k \<Rightarrow> if k = int n then Inr () else Inl IntegrityError)"

definition aggregate :: "(string \<Rightarrow> json option) \<Rightarrow> string list list \<Rightarrow> int option \<Rightarrow> int option \<Rightarrow> report res" where
  "aggregate loads files expect_shards expect_n = rbind (expected expect_shards (length files)) (\<lambda>_.
     rbind (rfold (add_shard loads) no_totals files) (\<lambda>a. rbind (expected expect_n (ag_n a)) (\<lambda>_. Inr (report_of (length files) a))))"

text \<open>The exit code of a run over shard files. The files are those that the patterns match.\<close>

definition run_gate :: "(string \<Rightarrow> json option) \<Rightarrow> string list list \<Rightarrow> int option \<Rightarrow> int option \<Rightarrow> int res" where
  "run_gate loads files expect_shards expect_n =
     (if files = [] then Inr 1
      else (case aggregate loads files expect_shards expect_n of
          Inl IntegrityError \<Rightarrow> Inr 1
        | Inl e \<Rightarrow> Inl e
        | Inr report \<Rightarrow> Inr (if 0 < rp_hard_fails report then 1 else 0)))"

section \<open>The self-test\<close>

text \<open>The fixtures; \<open>dumps\<close> writes a value on one line.\<close>

definition or_object :: "json option \<Rightarrow> json" where
  "or_object j = (case j of Some v \<Rightarrow> if json_true v then v else JObj [] | None \<Rightarrow> JObj [])"

definition make_record :: "string \<Rightarrow> int \<Rightarrow> int \<Rightarrow> string \<Rightarrow> json option \<Rightarrow> json option \<Rightarrow> string \<Rightarrow> int \<times> int \<times> int \<Rightarrow> json option \<Rightarrow> json" where
  "make_record klass seed index classification thrown concessions b_reason timing telemetry =
     (let pipeline = (case thrown of
          None \<Rightarrow> JObj [(''verdict'', JStr ''UNKNOWN''), (''b_ran'', JBool True), (''b_reason'', JStr b_reason), (''concessions'', or_object concessions), (''thrown'', JNull)]
        | Some t \<Rightarrow> JObj [(''verdict'', JNull), (''b_ran'', JBool False), (''thrown'', t)]);
          counters = JObj [(''buckets_visited'', JInt 5), (''expand_calls'', JInt 3), (''replays'', JInt 2), (''oracle_leaves'', JInt 10), (''max_depth'', JInt 4),
            (''edge_hits'', JInt 1), (''edge_misses'', JInt 3), (''memo_hits'', JInt 0), (''memo_stores'', JInt 2), (''memo_suppressed'', JInt 0),
            (''memo_containment_missed'', JInt 0), (''canonical_repeats'', JInt 0), (''pp_horizon_used'', JInt 0), (''audit_expands'', JInt 0), (''pp_audit_rejects'', JInt 0)]
      in case timing of (t0, t1, t2) \<Rightarrow>
        JObj [(''klass'', JStr klass), (''seed'', JInt seed), (''index'', JInt index), (''shard'', JObj [(''k'', JInt 0), (''of'', JInt 1)]),
          (''classification'', JStr classification), (''pipeline'', pipeline), (''exact'', JObj [(''verdict'', JStr ''WIN''), (''reason'', JStr ''None'')]),
          (''timing_us'', JObj [(''pessimal'', JInt t0), (''b'', JInt t1), (''exact'', JInt t2)]),
          (''telemetry'', case telemetry of Some v \<Rightarrow> if json_true v then v else counters | None \<Rightarrow> counters)])"

definition plain_record :: "string \<Rightarrow> int \<Rightarrow> int \<Rightarrow> string \<Rightarrow> json" where
  "plain_record klass seed index classification = make_record klass seed index classification None None ''None'' (10, 20, 30) None"

definition write_bin :: "bins \<Rightarrow> json \<Rightarrow> bins res" where
  "write_bin b r = rbind (rec_item ''classification'' r) (\<lambda>cls.
     if unhashable cls then Inl TypeError
     else (case cls of JStr c \<Rightarrow> if c \<in> set CLASSES then Inr (b(c := b c + 1)) else Inl KeyError | _ \<Rightarrow> Inl KeyError))"

definition json_line :: "(json \<Rightarrow> string) \<Rightarrow> json \<Rightarrow> string" where
  "json_line dumps v = dumps v @ [CHR 0x0A]"

definition write_shard :: "(json \<Rightarrow> string) \<Rightarrow> json list \<Rightarrow> string list res" where
  "write_shard dumps rs = rbind (rfold write_bin (\<lambda>_. 0) rs) (\<lambda>b.
     rbind (if rs = [] then Inr (JStr ''uniform'') else rec_item ''klass'' (hd rs)) (\<lambda>klass.
       Inr (map (json_line dumps) rs @ [json_line dumps (JObj [(''summary'', JObj [(''klass'', klass), (''seed'', JInt 1),
         (''shard'', JObj [(''k'', JInt 0), (''of'', JInt 1)]), (''n'', JInt (int (length rs))), (''bins'', JObj (map (\<lambda>c. (c, JInt (int (b c)))) CLASSES)),
         (''throw_census'', JObj []), (''concession_histogram'', JObj []), (''hard_fails'', JInt (int (hard_count b)))])])])))"

text \<open>A fixture that has to be refused.\<close>

definition refused :: "report res \<Rightarrow> bool res" where
  "refused r = (case r of Inr _ \<Rightarrow> Inr False | Inl IntegrityError \<Rightarrow> Inr True | Inl e \<Rightarrow> Inl e)"

definition corrupt_summary :: json where
  "corrupt_summary = JObj [(''summary'', JObj [(''klass'', JStr ''uniform''), (''seed'', JInt 5), (''shard'', JObj [(''k'', JInt 0), (''of'', JInt 1)]),
     (''n'', JInt 1), (''bins'', JObj (map (\<lambda>c. (c, JInt 0)) CLASSES)), (''throw_census'', JObj []), (''concession_histogram'', JObj []), (''hard_fails'', JInt 0)])]"

definition selftest :: "(string \<Rightarrow> json option) \<Rightarrow> (json \<Rightarrow> string) \<Rightarrow> int res" where
  "selftest loads dumps =
     rbind (write_shard dumps [plain_record ''uniform'' 1 0 ''SOUND_AGREE_WIN'',
        make_record ''uniform'' 1 1 ''CONSERVATIVE_UNTAGGED'' None None ''DepthCap'' (10, 20, 30) None]) (\<lambda>s0.
     rbind (write_shard dumps [plain_record ''berry'' 1 2 ''REFEREE_INDET'', plain_record ''berry'' 1 3 ''SOUND_AGREE_WIN'']) (\<lambda>s1.
     rbind (aggregate loads [s0, s1] None None) (\<lambda>rep.
     rbind (case map_of (rp_untagged rep) (JStr ''DepthCap'') of Some q \<Rightarrow> Inr q | None \<Rightarrow> Inl KeyError) (\<lambda>depth_cap.
     rbind (write_shard dumps (map (\<lambda>i. make_record ''uniform'' 2 (int i) ''SOUND_AGREE_WIN'' None None ''None'' (int i, 0, 0) None) [1..<101])) (\<lambda>t.
     rbind (aggregate loads [t] None None) (\<lambda>rep2.
     rbind (write_shard dumps [plain_record ''uniform'' 3 0 ''HARD_FAIL_B_WIN'']) (\<lambda>hf.
     rbind (run_gate loads [hf] None None) (\<lambda>rc.
     rbind (refused (aggregate loads [[json_line dumps (plain_record ''uniform'' 4 0 ''SOUND_AGREE_WIN'')]] None None)) (\<lambda>missing.
     rbind (refused (aggregate loads [[json_line dumps (plain_record ''uniform'' 5 0 ''SOUND_AGREE_WIN''), json_line dumps corrupt_summary]] None None)) (\<lambda>corrupt.
     rbind (run_gate loads [s0] None None) (\<lambda>rc_clean.
       Inr (if list_all id [rp_n rep = 4, map_of (rp_bins rep) ''SOUND_AGREE_WIN'' = Some 2, depth_cap = 1, \<bar>rp_indet_rate rep - 1 / 4\<bar> < 1 / 10 ^ 9,
              \<bar>pc_p50 (tr_pessimal (rp_timing rep2)) - 505 / 10\<bar> < 1, \<bar>pc_p90 (tr_pessimal (rp_timing rep2)) - 901 / 10\<bar> < 1,
              rc = 1, missing, corrupt, rc_clean = 0] then 0 else 1))))))))))))"

text \<open>The script: \<open>--selftest\<close> runs the self-test in place of the gate, whatever files are given.\<close>

definition main :: "(string \<Rightarrow> json option) \<Rightarrow> (json \<Rightarrow> string) \<Rightarrow> bool \<Rightarrow> string list list \<Rightarrow> int option \<Rightarrow> int option \<Rightarrow> int res" where
  "main loads dumps selftest_flag files expect_shards expect_n =
     (if selftest_flag then selftest loads dumps else run_gate loads files expect_shards expect_n)"

section \<open>Percentiles are between the extremes\<close>

lemma convex_between:
  fixes a b :: rat
  assumes "a \<le> b" "0 \<le> t" "t \<le> 1"
  shows "a \<le> a * (1 - t) + b * t" "a * (1 - t) + b * t \<le> b"
proof -
  have "0 \<le> (b - a) * t" "(b - a) * t \<le> (b - a) * 1" using assms by (simp, intro mult_left_mono) auto
  then show "a \<le> a * (1 - t) + b * t" "a * (1 - t) + b * t \<le> b" by (simp_all add: algebra_simps)
qed

lemma floor_between:
  fixes q :: rat
  assumes "0 \<le> q"
  shows "of_nat (nat \<lfloor>q\<rfloor>) \<le> q" "0 \<le> q - of_nat (nat \<lfloor>q\<rfloor>)" "q - of_nat (nat \<lfloor>q\<rfloor>) \<le> 1"
proof -
  have "rat_of_nat (nat \<lfloor>q\<rfloor>) = of_int \<lfloor>q\<rfloor>" using assms by simp
  then show "of_nat (nat \<lfloor>q\<rfloor>) \<le> q" "0 \<le> q - of_nat (nat \<lfloor>q\<rfloor>)" "q - of_nat (nat \<lfloor>q\<rfloor>) \<le> 1"
    using floor_correct[of q] by linarith+
qed

lemma percentile_bounds:
  assumes "sorted vals" "vals \<noteq> []" "0 \<le> pct" "pct \<le> 100"
  shows "hd vals \<le> percentile vals pct \<and> percentile vals pct \<le> last vals"
proof (cases "length vals = 1")
  case True
  then show ?thesis by (cases vals) (auto simp: percentile_def)
next
  case False
  let ?m = "length vals - 1"
  let ?rank = "pct / 100 * of_nat ?m"
  let ?lo = "nat \<lfloor>?rank\<rfloor>"
  let ?hi = "min (?lo + 1) ?m"
  have "0 \<le> ?rank" using assms(3) by simp
  note lo = floor_between[OF this]
  have "?rank \<le> 1 * of_nat ?m" using assms(4) by (intro mult_right_mono) simp_all
  with lo(1) have "(of_nat ?lo :: rat) \<le> of_nat ?m" by linarith
  then have "?lo \<le> ?m" by (simp only: of_nat_le_iff)
  moreover have "0 < length vals" using assms(2) by simp
  ultimately have index: "?lo < length vals" "?hi < length vals" "?lo \<le> ?hi" by linarith+
  have "vals ! ?lo \<le> vals ! ?hi" by (rule sorted_nth_mono[OF assms(1) index(3,2)])
  note between = convex_between[OF this lo(2,3)]
  have "hd vals \<le> vals ! ?lo" unfolding hd_conv_nth[OF assms(2)] by (rule sorted_nth_mono[OF assms(1) le0 index(1)])
  moreover have "vals ! ?hi \<le> last vals" unfolding last_conv_nth[OF assms(2)] using index(2) by (intro sorted_nth_mono[OF assms(1)]) linarith+
  moreover have "percentile vals pct = vals ! ?lo * (1 - (?rank - of_nat ?lo)) + vals ! ?hi * (?rank - of_nat ?lo)"
    using False assms(2) by (simp only: percentile_def Let_def if_False)
  ultimately show ?thesis using between by linarith
qed

section \<open>What an accepted shard is\<close>

definition class_of :: "json \<Rightarrow> string" where
  "class_of r = (case rec_item ''classification'' r of Inr (JStr c) \<Rightarrow> c | _ \<Rightarrow> [])"

text \<open>The records of a file: the JSON values of its lines, without the summaries.\<close>

definition record_lines :: "(string \<Rightarrow> json option) \<Rightarrow> string list \<Rightarrow> json list" where
  "record_lines loads ls = filter (\<lambda>v. json_contains ''summary'' v = Inr False) (List.map_filter loads (filter (\<lambda>l. l \<noteq> []) (map strip ls)))"

lemma record_lines_Cons:
  "record_lines loads (l # ls) = (if strip l = [] then record_lines loads ls else case loads (strip l) of
     None \<Rightarrow> record_lines loads ls
   | Some obj \<Rightarrow> if json_contains ''summary'' obj = Inr False then obj # record_lines loads ls else record_lines loads ls)"
  by (simp add: record_lines_def map_filter_simps split: option.split)

lemma shard_lines_read: "rfold (shard_line loads) st ls = Inr (rs, s) \<Longrightarrow> rs = fst st @ record_lines loads ls"
proof (induction ls arbitrary: st)
  case Nil
  then show ?case by (auto simp: record_lines_def map_filter_simps)
next
  case (Cons l ls)
  from Cons.prems obtain st' where st': "shard_line loads st l = Inr st'" and rest: "rfold (shard_line loads) st' ls = Inr (rs, s)"
    by (auto simp: rbind_eq_Inr)
  have "fst st' @ record_lines loads ls = fst st @ record_lines loads (l # ls)"
    using st' by (auto simp: shard_line_def Let_def record_lines_Cons rbind_eq_Inr split: if_splits option.splits)
  with Cons.IH[OF rest] show ?case by simp
qed

lemma counted_classes:
  "rfold count_class b rs = Inr b' \<Longrightarrow> (\<forall>r \<in> set rs. class_of r \<in> set CLASSES) \<and> (\<forall>c. b' c = b c + length (filter (\<lambda>r. class_of r = c) rs))"
proof (induction rs arbitrary: b)
  case (Cons r rs)
  from Cons.prems obtain b1 where b1: "count_class b r = Inr b1" and rest: "rfold count_class b1 rs = Inr b'" by (auto simp: rbind_eq_Inr)
  obtain c where c: "rec_item ''classification'' r = Inr (JStr c)" "c \<in> set CLASSES" "b1 = b(c := b c + 1)"
    using b1 by (auto simp: count_class_def rbind_eq_Inr unhashable_def split: json.splits if_splits)
  from c(1) have "class_of r = c" by (simp add: class_of_def)
  then show ?case using Cons.IH[OF rest] c(2,3) by (auto simp: less_Suc_eq)
qed simp

lemma shard_accepted:
  assumes "parse_shard_file loads ls = Inr (rs, s)"
  shows "rs = record_lines loads ls \<and> s \<noteq> JNull \<and> (\<forall>r \<in> set rs. class_of r \<in> set CLASSES)"
proof -
  obtain bins where "rfold (shard_line loads) ([], JNull) ls = Inr (rs, s)" "s \<noteq> JNull" "rfold count_class (\<lambda>_. 0) rs = Inr bins"
    using assms by (auto simp: parse_shard_file_def rbind_eq_Inr split: if_splits)
  then show ?thesis using shard_lines_read[of loads "([], JNull)" ls rs s] counted_classes[of "\<lambda>_. 0" rs bins] by simp
qed

text \<open>
  The summary of a shard agrees with its records: the number of records, the number in each class, where
  a class that the summary leaves out has none, and the number of hard failures.
\<close>

definition summary_agrees :: "json \<Rightarrow> json list \<Rightarrow> bool" where
  "summary_agrees s rs \<longleftrightarrow> (\<exists>kvs n bins.
     s = JObj kvs
     \<and> map_of kvs ''n'' = Some n \<and> number n = Some (of_nat (length rs))
     \<and> map_of kvs ''bins'' = Some (JObj bins)
     \<and> (\<forall>c \<in> set CLASSES. case map_of bins c of
           None \<Rightarrow> (\<forall>r \<in> set rs. class_of r \<noteq> c)
         | Some v \<Rightarrow> number v = Some (of_nat (length (filter (\<lambda>r. class_of r = c) rs))))
     \<and> (case map_of kvs ''hard_fails'' of
           None \<Rightarrow> (\<forall>r \<in> set rs. class_of r \<notin> set HARD_FAIL_CLASSES)
         | Some v \<Rightarrow> number v = Some (of_nat (length (filter (\<lambda>r. class_of r \<in> set HARD_FAIL_CLASSES) rs)))))"

text \<open>A well-formed file: every line that is not blank is JSON, and the last one closes it with its summary.\<close>

definition closed_by :: "(string \<Rightarrow> json option) \<Rightarrow> string list \<Rightarrow> json \<Rightarrow> bool" where
  "closed_by loads ls s \<longleftrightarrow> (\<exists>vs kvs. map loads (filter (\<lambda>l. l \<noteq> []) (map strip ls)) = map Some (vs @ [JObj kvs])
     \<and> map_of kvs ''summary'' = Some s \<and> s \<noteq> JNull)"

lemma shard_lines_closed:
  "rfold (shard_line loads) st ls = Inr (rs, s) \<Longrightarrow>
     (if snd st \<noteq> JNull then s = snd st \<and> filter (\<lambda>l. l \<noteq> []) (map strip ls) = []
      else s = JNull \<or> closed_by loads ls s)"
proof (induction ls arbitrary: st)
  case Nil
  then show ?case by auto
next
  case (Cons l ls)
  from Cons.prems obtain st' where st': "shard_line loads st l = Inr st'" and rest: "rfold (shard_line loads) st' ls = Inr (rs, s)"
    by (auto simp: rbind_eq_Inr)
  note IH = Cons.IH[OF rest]
  show ?case
  proof (cases "strip l = []")
    case True
    then have "st' = st" using st' by (simp add: shard_line_def)
    moreover have "closed_by loads (l # ls) s = closed_by loads ls s" using True by (simp add: closed_by_def)
    ultimately show ?thesis using IH True by simp
  next
    case False
    with st' obtain obj where obj: "loads (strip l) = Some obj" and fresh: "snd st = JNull"
      and step: "st' = (fst st @ [obj], JNull) \<or> (\<exists>kvs s'. obj = JObj kvs \<and> map_of kvs ''summary'' = Some s' \<and> st' = (fst st, s'))"
      by (auto simp: shard_line_def Let_def rbind_eq_Inr rec_item_def split: if_splits option.splits json.splits)
    have close: "closed_by loads (l # ls) s" if "closed_by loads ls s"
    proof -
      from that obtain vs kvs where "map loads (filter (\<lambda>l. l \<noteq> []) (map strip ls)) = map Some (vs @ [JObj kvs])"
        "map_of kvs ''summary'' = Some s" "s \<noteq> JNull" by (auto simp: closed_by_def)
      then show ?thesis unfolding closed_by_def using False obj by (intro exI[of _ "obj # vs"] exI[of _ kvs]) simp
    qed
    have last: "closed_by loads (l # ls) s" if "obj = JObj kvs" "map_of kvs ''summary'' = Some s" "s \<noteq> JNull"
      "filter (\<lambda>l. l \<noteq> []) (map strip ls) = []" for kvs
      unfolding closed_by_def using that obj False by (intro exI[of _ "[]"] exI[of _ kvs]) simp
    show ?thesis using step IH fresh close last by (auto split: if_splits)
  qed
qed

lemma bins_checked:
  assumes "rmap (check_bin (JObj kvs) bins) CLASSES = Inr us"
  shows "\<exists>bs. map_of kvs ''bins'' = Some (JObj bs) \<and> (\<forall>c \<in> set CLASSES.
     case map_of bs c of None \<Rightarrow> bins c = 0 | Some v \<Rightarrow> number v = Some (of_nat (bins c)))"
proof -
  have each: "\<exists>bs. map_of kvs ''bins'' = Some (JObj bs) \<and> (case map_of bs c of None \<Rightarrow> bins c = 0 | Some v \<Rightarrow> number v = Some (of_nat (bins c)))"
    if "c \<in> set CLASSES" for c
  proof -
    have "\<exists>u. check_bin (JObj kvs) bins c = Inr u" using assms that rmap_total[of "check_bin (JObj kvs) bins" CLASSES] by blast
    then show ?thesis
      by (auto simp: check_bin_def rec_item_def json_get_def rbind_eq_Inr split: option.splits json.splits if_splits)
  qed
  have "''THROWN'' \<in> set CLASSES" by (simp add: CLASSES_def)
  from each[OF this] obtain bs where bs: "map_of kvs ''bins'' = Some (JObj bs)" by blast
  with each show ?thesis by (intro exI[of _ bs]) auto
qed

lemma length_filter_two:
  "a \<noteq> b \<Longrightarrow> length (filter (\<lambda>r. f r = a) rs) + length (filter (\<lambda>r. f r = b) rs) = length (filter (\<lambda>r. f r \<in> {a, b}) rs)"
  by (induction rs) auto

lemma hard_count_classes:
  assumes "\<forall>c. bins c = length (filter (\<lambda>r. class_of r = c) rs)"
  shows "hard_count bins = length (filter (\<lambda>r. class_of r \<in> set HARD_FAIL_CLASSES) rs)"
  using length_filter_two[of "''HARD_FAIL_B_WIN''" "''HARD_FAIL_PESSIMAL_LOSS''" class_of rs] assms
  by (simp add: hard_count_def HARD_FAIL_CLASSES_def)

lemma shard_summary:
  assumes "parse_shard_file loads ls = Inr (rs, s)"
  shows "closed_by loads ls s \<and> summary_agrees s rs"
proof -
  obtain bins n us hard where lines: "rfold (shard_line loads) ([], JNull) ls = Inr (rs, s)" and s: "s \<noteq> JNull"
    and n: "rec_item ''n'' s = Inr n" "number n = Some (of_nat (length rs))"
    and bins: "rfold count_class (\<lambda>_. 0) rs = Inr bins" "rmap (check_bin s bins) CLASSES = Inr us"
    and hard: "json_get ''hard_fails'' (JInt 0) s = Inr hard" "number hard = Some (of_nat (hard_count bins))"
    using assms by (auto simp: parse_shard_file_def rbind_eq_Inr split: if_splits)
  from n(1) obtain kvs where kvs: "s = JObj kvs" "map_of kvs ''n'' = Some n"
    by (auto simp: rec_item_def split: json.splits option.splits)
  have count: "\<forall>c. bins c = length (filter (\<lambda>r. class_of r = c) rs)"
    using counted_classes[OF bins(1)] by simp
  obtain bs where bs: "map_of kvs ''bins'' = Some (JObj bs)"
    "\<forall>c \<in> set CLASSES. case map_of bs c of None \<Rightarrow> bins c = 0 | Some v \<Rightarrow> number v = Some (of_nat (bins c))"
    using bins_checked bins(2) unfolding kvs(1) by blast
  have "\<forall>c \<in> set CLASSES. case map_of bs c of None \<Rightarrow> (\<forall>r \<in> set rs. class_of r \<noteq> c)
      | Some v \<Rightarrow> number v = Some (of_nat (length (filter (\<lambda>r. class_of r = c) rs)))"
    using bs(2) count by (auto simp: filter_empty_conv split: option.splits)
  moreover have "case map_of kvs ''hard_fails'' of None \<Rightarrow> (\<forall>r \<in> set rs. class_of r \<notin> set HARD_FAIL_CLASSES)
      | Some v \<Rightarrow> number v = Some (of_nat (length (filter (\<lambda>r. class_of r \<in> set HARD_FAIL_CLASSES) rs)))"
    using hard unfolding kvs(1) hard_count_classes[OF count]
    by (auto simp: json_get_def filter_empty_conv split: option.splits)
  ultimately have "summary_agrees s rs" unfolding summary_agrees_def using kvs n(2) bs(1) by blast
  then show ?thesis using shard_lines_closed[OF lines] s by simp
qed

section \<open>The report counts every record\<close>

text \<open>The counts that the exit code depends on.\<close>

definition core :: "totals \<Rightarrow> nat \<times> nat \<times> bins" where "core a = (ag_n a, ag_hard a, ag_bins a)"

lemma core_tally:
  assumes "tally r a = Inr a'"
  shows "core a' = (ag_n a, ag_hard a + (if class_of r \<in> set HARD_FAIL_CLASSES then 1 else 0), plus_one (class_of r) (ag_bins a))"
proof -
  obtain cls klass seed where cls: "rec_item ''classification'' r = Inr cls"
    and rest: "(case cls of
       JStr c \<Rightarrow> if c \<notin> set CLASSES then Inl KeyError
         else rbind (turn_key klass) (\<lambda>klass. rbind (turn_key seed) (\<lambda>seed.
           Inr (a\<lparr>ag_bins := plus_one c (ag_bins a), ag_class_bins := adjust (\<lambda>_. 0) (plus_one c) klass (ag_class_bins a),
             ag_seed_bins := adjust (\<lambda>_. 0) (plus_one c) seed (ag_seed_bins a), ag_hard := ag_hard a + (if c \<in> set HARD_FAIL_CLASSES then 1 else 0)\<rparr>)))
     | _ \<Rightarrow> Inl (if unhashable cls then TypeError else KeyError)) = Inr a'"
    using assms unfolding tally_def by (elim rbind_InrE)
  obtain c where c: "cls = JStr c" using rest by (cases cls) simp_all
  have "c \<in> set CLASSES" using rest c by (simp split: if_split_asm)
  with rest c obtain k q where "a' = a\<lparr>ag_bins := plus_one c (ag_bins a), ag_class_bins := adjust (\<lambda>_. 0) (plus_one c) k (ag_class_bins a),
      ag_seed_bins := adjust (\<lambda>_. 0) (plus_one c) q (ag_seed_bins a), ag_hard := ag_hard a + (if c \<in> set HARD_FAIL_CLASSES then 1 else 0)\<rparr>"
    by (auto elim!: rbind_InrE)
  then show ?thesis by (simp add: core_def class_of_def cls c)
qed

lemma core_pipeline:
  assumes "tally_pipeline r a = Inr a'"
  shows "core a' = core a"
proof -
  obtain cls pl thrown where rest: "(if json_true thrown
       then rbind (rec_item ''key'' thrown) (\<lambda>k. rbind (turn_key k) (\<lambda>k. Inr (a\<lparr>ag_thrown := adjust 0 (\<lambda>n. n + 1) k (ag_thrown a)\<rparr>)))
       else rbind (rbind (json_get ''concessions'' (JObj []) pl) json_items) (\<lambda>items. rbind (rfold add_concession (ag_concessions a) items) (\<lambda>concessions.
         if cls = JStr ''CONSERVATIVE_UNTAGGED''
         then rbind (json_get ''b_reason'' (JStr ''None'') pl) (\<lambda>k. rbind (turn_key k) (\<lambda>k.
           Inr (a\<lparr>ag_concessions := concessions, ag_untagged := adjust 0 (\<lambda>n. n + 1) k (ag_untagged a)\<rparr>)))
         else Inr (a\<lparr>ag_concessions := concessions\<rparr>)))) = Inr a'"
    using assms unfolding tally_pipeline_def by (elim rbind_InrE)
  show ?thesis
  proof (cases "json_true thrown")
    case True
    then show ?thesis using rest by (auto elim!: rbind_InrE simp: core_def)
  next
    case False
    then show ?thesis
    proof (cases "cls = JStr ''CONSERVATIVE_UNTAGGED''")
      case True
      with False show ?thesis using rest by (simp only: if_False if_True) (auto elim!: rbind_InrE simp: core_def)
    next
      case other: False
      with False show ?thesis using rest by (simp only: if_False) (auto elim!: rbind_InrE simp: core_def)
    qed
  qed
qed

lemma core_timing: "tally_timing r a = Inr a' \<Longrightarrow> core a' = core a"
  unfolding tally_timing_def by (auto elim!: rbind_InrE simp: core_def)

lemma core_telemetry: "tally_telemetry r a = Inr a' \<Longrightarrow> core a' = core a"
  unfolding tally_telemetry_def by (auto elim!: rbind_InrE simp: core_def split: if_splits)

lemma core_record:
  assumes "add_record a r = Inr a'"
  shows "core a' = (ag_n a + 1, ag_hard a + (if class_of r \<in> set HARD_FAIL_CLASSES then 1 else 0), plus_one (class_of r) (ag_bins a))"
  using assms core_tally core_pipeline core_timing core_telemetry by (fastforce simp: add_record_def rbind_eq_Inr)

definition hard_records :: "json list \<Rightarrow> nat" where
  "hard_records rs = length (filter (\<lambda>r. class_of r \<in> set HARD_FAIL_CLASSES) rs)"

lemma records_counted:
  "rfold add_record a rs = Inr a' \<Longrightarrow> ag_n a' = ag_n a + length rs \<and> ag_hard a' = ag_hard a + hard_records rs"
proof (induction rs arbitrary: a)
  case (Cons r rs)
  from Cons.prems obtain a1 where a1: "add_record a r = Inr a1" and rest: "rfold add_record a1 rs = Inr a'" by (auto simp: rbind_eq_Inr)
  show ?case using Cons.IH[OF rest] core_record[OF a1] by (simp add: core_def hard_records_def)
qed (simp add: hard_records_def)

lemma shards_counted:
  "rfold (add_shard loads) a files = Inr a' \<Longrightarrow>
     (\<forall>ls \<in> set files. \<exists>s. parse_shard_file loads ls = Inr (record_lines loads ls, s))
     \<and> ag_n a' = ag_n a + (\<Sum>ls\<leftarrow>files. length (record_lines loads ls)) \<and> ag_hard a' = ag_hard a + (\<Sum>ls\<leftarrow>files. hard_records (record_lines loads ls))"
proof (induction files arbitrary: a)
  case (Cons ls files)
  from Cons.prems obtain a0 where a0: "add_shard loads a ls = Inr a0" and rest: "rfold (add_shard loads) a0 files = Inr a'"
    by (auto elim!: rbind_InrE)
  from a0 obtain rs s where p: "parse_shard_file loads ls = Inr (rs, s)" and a1: "rfold add_record a rs = Inr a0"
    by (auto elim!: rbind_InrE simp: add_shard_def)
  have "rs = record_lines loads ls" using shard_accepted[OF p] by simp
  then show ?case using Cons.IH[OF rest] records_counted[OF a1] p by auto
qed simp

text \<open>
  C19: the gate does not let a soundness failure through. When the script, run without \<open>--selftest\<close>, exits with 0, there is at least one shard
  file; every line of a file that is not blank is JSON and the last one closes the file with a summary whose number of records, count of each class
  and number of hard failures are those of the record lines; every record line of every file has a known class that is not a hard failure; and the
  numbers of shards and of matchups are the expected ones, where they are given.
\<close>

theorem gate_passes_sound:
  assumes "main loads dumps False files expect_shards expect_n = Inr 0"
  shows "files \<noteq> []
    \<and> (\<forall>ls \<in> set files. \<exists>s. closed_by loads ls s \<and> summary_agrees s (record_lines loads ls))
    \<and> (\<forall>ls \<in> set files. \<exists>s. parse_shard_file loads ls = Inr (record_lines loads ls, s))
    \<and> (\<forall>ls \<in> set files. \<forall>r \<in> set (record_lines loads ls). class_of r \<in> set CLASSES - set HARD_FAIL_CLASSES)
    \<and> (\<forall>k. expect_shards = Some k \<longrightarrow> k = int (length files))
    \<and> (\<forall>n. expect_n = Some n \<longrightarrow> n = int (\<Sum>ls\<leftarrow>files. length (record_lines loads ls)))"
proof -
  from assms obtain rp where rp: "files \<noteq> []" "aggregate loads files expect_shards expect_n = Inr rp" "rp_hard_fails rp = 0"
    by (auto simp: main_def run_gate_def split: if_splits sum.splits exn.splits)
  from rp(2) obtain a where a: "rfold (add_shard loads) no_totals files = Inr a" "expected expect_shards (length files) = Inr ()" "expected expect_n (ag_n a) = Inr ()"
    "rp = report_of (length files) a"
    by (auto simp: aggregate_def rbind_eq_Inr)
  note counted = shards_counted[OF a(1)]
  have "hard_records (record_lines loads ls) = 0" if "ls \<in> set files" for ls
    using counted rp(3) that by (simp add: a(4) report_of_def no_totals_def)
  then have "class_of r \<notin> set HARD_FAIL_CLASSES" if "ls \<in> set files" "r \<in> set (record_lines loads ls)" for ls r
    using that by (fastforce simp: hard_records_def filter_empty_conv)
  moreover have "class_of r \<in> set CLASSES" if "ls \<in> set files" "r \<in> set (record_lines loads ls)" for ls r
    using that counted shard_accepted by blast
  moreover have "\<exists>s. closed_by loads ls s \<and> summary_agrees s (record_lines loads ls)" if "ls \<in> set files" for ls
    using that counted shard_summary by blast
  ultimately show ?thesis using rp(1) counted a(2,3) by (auto simp: expected_def no_totals_def split: option.splits if_splits)
qed

text \<open>The flag takes precedence: the self-test's verdict does not depend on the files.\<close>

lemma selftest_ignores_files: "main loads dumps True files expect_shards expect_n = main loads dumps True [] None None"
  by (simp add: main_def)

definition sample_record :: "string \<Rightarrow> json" where
  "sample_record cls = JObj [(''klass'', JStr ''uniform''), (''seed'', JInt 1), (''index'', JInt 0), (''classification'', JStr cls),
     (''pipeline'', JObj [(''b_ran'', JBool False), (''thrown'', JNull)]), (''timing_us'', JObj [(''pessimal'', JInt 10), (''b'', JInt 20), (''exact'', JInt 30)])]"

definition sample_summary :: "string \<Rightarrow> int \<Rightarrow> json" where
  "sample_summary cls hard = JObj [(''summary'', JObj [(''n'', JInt 1), (''bins'', JObj [(cls, JInt 1)]), (''hard_fails'', JInt hard)])]"

definition sample_parser :: "string \<Rightarrow> json option" where
  "sample_parser l = (if l = ''win'' then Some (sample_record ''SOUND_AGREE_WIN'') else if l = ''win summary'' then Some (sample_summary ''SOUND_AGREE_WIN'' 0)
     else if l = ''fail'' then Some (sample_record ''HARD_FAIL_B_WIN'') else if l = ''fail summary'' then Some (sample_summary ''HARD_FAIL_B_WIN'' 1) else None)"

theorem gate_passes_sound_witness:
  "main sample_parser (\<lambda>_. []) False [[''win'', '''', ''win summary'']] (Some 1) (Some 1) = Inr 0
    \<and> main sample_parser (\<lambda>_. []) False [[''win'', ''win summary''], [''fail'', ''fail summary'']] None None = Inr 1
    \<and> main sample_parser (\<lambda>_. []) False [[''win'', ''win'', ''win summary'']] None None = Inr 1
    \<and> list_all (\<lambda>r. class_of r \<notin> set HARD_FAIL_CLASSES) (record_lines sample_parser [''win'', '''', ''win summary''])
    \<and> (\<exists>s. summary_agrees s (record_lines sample_parser [''win'', '''', ''win summary'']))"
proof -
  have run: "main sample_parser (\<lambda>_. []) False [[''win'', '''', ''win summary'']] (Some 1) (Some 1) = Inr 0" by code_simp
  note sound = gate_passes_sound[OF run]
  have "list_all (\<lambda>r. class_of r \<notin> set HARD_FAIL_CLASSES) (record_lines sample_parser [''win'', '''', ''win summary''])"
    "\<exists>s. summary_agrees s (record_lines sample_parser [''win'', '''', ''win summary''])"
    using sound by (auto simp: list_all_iff)
  moreover have "main sample_parser (\<lambda>_. []) False [[''win'', ''win summary''], [''fail'', ''fail summary'']] None None = Inr 1"
    "main sample_parser (\<lambda>_. []) False [[''win'', ''win'', ''win summary'']] None None = Inr 1" by code_simp+
  ultimately show ?thesis using run by blast
qed

end
