(* ===== verification/Spec2Isabelle.thy ===== *)
theory Spec2Isabelle
  imports SweepIO MessageTable PlayLoop Ocr Generation Known ItemTable TrainerText Replay Aggregate
begin

text \<open>
  A verification development of the live-play side of NuzlockeAI (\<open>src/liveplay\<close>).

  \<^bold>\<open>The program.\<close> The program watches a Pokemon battle on an emulator screen and keeps a pool of candidate battle states.
  Each turn it reads the message box and the HP bars, cuts the readings into a list of matched messages, groups and HP
  records, and runs the candidate sweep: for every candidate state it works out which actions the messages allow, which
  random outcomes they settle and which they leave open, simulates each combination in a native battle engine under
  injected luck, and keeps the resulting states that agree with everything observed. The pool is then deduplicated and
  pruned, and a policy chooses the next action. Every sweep can be recorded to disk and replayed.

  \<^bold>\<open>The theories\<close>, in the order of the data flow, with the files under \<open>src/liveplay\<close> they model:

  \<^item> \<open>Prelude\<close>: exceptions and fallible computations (\<open>exn\<close>, \<open>res\<close>, \<open>rbind\<close>, \<open>rmap\<close>, \<open>rfold\<close>), indexing that may raise
    (\<open>lk\<close>, \<open>lki\<close>), association lists as dictionaries, and the generic lemmas.
  \<^item> \<open>HpBar\<close> (\<open>hp_stability.py\<close>, \<open>vision/hp_bar.py\<close>, \<open>hp_delta.py\<close>): the bar reader on a row of pixels, the stability buffer,
    the HP interval of a pixel count and the trajectory of a faint. The locale \<open>bar_reading\<close> states what a bar promises.
    Shown: the interval holds exactly the HP values that draw the count, a reading is sound, the filter refines "the last value seen often enough in a row".
  \<^item> \<open>StatData\<close> (\<open>data/status.py\<close>, \<open>natures.py\<close>, \<open>types.py\<close>, \<open>growth_rate.py\<close>): stats, natures, the type chart, the experience curves.
  \<^item> \<open>BattleState\<close> (\<open>state/pokemon.py\<close>, \<open>side.py\<close>, \<open>battle.py\<close>, \<open>data/mega.py\<close>): the state as records, with the defaults and
    the post-initialisation of the dataclasses.
  \<^item> \<open>Actions\<close> (\<open>actions.py\<close>, \<open>battle_policy.py\<close>): \<open>enumerate_legal_actions\<close> and the random policy over explicit draws. The
    locale \<open>action_enumerator\<close> states what a policy needs of the enumeration. The rules of selection, PP, Gravity, Taunt, trapping and
    locks, are stated on their own as \<open>legal_action\<close>. Shown: the enumeration lists exactly the legal actions, each once when the choice is free, and a switch is found when one is offered.
  \<^item> \<open>RngTrace\<close> (\<open>rng_trace.py\<close>): the recorder of random outcomes as a state machine with checkpoints and rollbacks, an
    inductive step relation, reachability, unique keys and the exactness of a rollback.
  \<^item> \<open>Rng\<close> (\<open>rng.py\<close>): luck profiles, strict and warning modes, every resolve function over a stream of draws. The locales
    \<open>injectable_event\<close> and \<open>threshold_event\<close> state how an event follows its threshold.
  \<^item> \<open>LogEvents\<close> (\<open>logger.py\<close>, parts of \<open>cpp_driver.py\<close>): the log of an engine turn and the queries on it.
  \<^item> \<open>Names\<close> (\<open>data/moves.py\<close>, \<open>data/name_aliases.py\<close>, \<open>state_transition.py\<close>): fuzzy names of moves and species, and the
    resolution of a message's actor to a side and a team slot. The locale \<open>string_metric\<close> has the laws of the distance; it is interpreted on the program's own \<open>levenshtein\<close>, proved equal to the edit distance.
  \<^item> \<open>Candidates\<close> (\<open>battle_types.py\<close>, \<open>candidate.py\<close>, \<open>candidate_tracker.py\<close>): messages, candidates with identities, the pool.
  \<^item> \<open>SweepDriver\<close> (\<open>cpp_driver.py\<close>, \<open>sweep_driver.py\<close>, \<open>engine_select.py\<close>): the injection payload, the driver that takes the
    engine to the next decision of the player, luck from overrides, damage sums. Shown: the contract of
    \<open>run_to_decision_boundary\<close> and that an override decides the event it names.
  \<^item> \<open>SweepReconcile\<close> (\<open>sweep_reconcile.py\<close>): the checks of a simulated turn against the observed HP and messages, and the
    observed facts forced on a state. Shown: the HP checks are exact for the drawn values, the count of changes is that of the mon's own HP history
    over the events of the log (\<open>changes_mon\<close>), an accepted log explains the messages.
  \<^item> \<open>SweepActions\<close> (\<open>sweep_actions.py\<close>): slot maps of attackers, segments of messages per mover, known actions, candidate
    actions. Shown: all attributions are covered, known actions are legal, candidates are what the messages allow.
  \<^item> \<open>SweepSecondaries\<close> (\<open>sweep_secondaries.py\<close>): which random outcomes the messages settle. Shown: what is injected is
    accepted by the driver, and the open outcomes are enumerated exactly.
  \<^item> \<open>SweepRun\<close> (\<open>sweep_run.py\<close>): pruning by bar readings, enumeration of rolls and crits, the phase loop, the sweep. Shown: pruning
    never discards what happened, the rolls are enumerated exactly, the sweep returns exactly the states that some
    admissible simulation reaches and the observations allow, each once, with its lineage.
  \<^item> \<open>SweepIO\<close> (\<open>sweep_io.py\<close>): the JSON codec over a universe of Python values; round trip and refusals.
  \<^item> \<open>Recorder\<close> (\<open>sweep_recorder.py\<close>): the session on disk, replay and comparison. The locale \<open>key_equality\<close> carries the
    matching of survivors. Shown: a session is loaded back completely and in order, a replay passes exactly when the survivors agree as multisets.
  \<^item> \<open>Alignment\<close>, \<open>Matcher\<close>, \<open>MatcherLaws\<close> (\<open>battle_message_matcher.py\<close>): the matcher of message texts. The locale \<open>layered\<close>
    has the laws of the transitions of the dynamic programming, under which the table holds least costs and the walk
    along the parents ends; \<open>strict_ranking\<close> has those of the comparison of templates. Shown: a template aligns at least cost, the stream of captures is cut into
    complete messages, the prefix variants are all there, the best template wins.
  \<^item> \<open>MessageTable\<close> (\<open>battle_messages.py\<close>): the 530 messages, and that each fits the matcher's templates.
  \<^item> \<open>LiveLoop\<close> (\<open>SCRIPTS/play.py\<close>, \<open>battle_constants.py\<close>): the capture cycle of the live loop, from the readings of a screen to the
    recorded sweep of a turn. Shown: the invariant of the loop's state and what a closed turn hands to the sweep.
  \<^item> \<open>Wire\<close> (\<open>emulator/socket_client.py\<close>, \<open>pokemon_snapshot.py\<close>): frames, commands and snapshots. Shown: a party that the server
    writes is read back, however the bytes are cut into chunks.
  \<^item> \<open>EnumTables\<close>, \<open>GbaTables\<close>, \<open>MoveTable\<close>, \<open>SpeciesTable\<close> (\<open>data/moves.py\<close>, \<open>species.py\<close>, \<open>items.py\<close>, \<open>abilities.py\<close>,
    \<open>emulator/gba_*.py\<close>): the members of the enums and the rows of the tables. Shown: every move and species has a row, with values in range.
  \<^item> \<open>Trainers\<close> (\<open>data/trainer.py\<close>): the text of the trainer battles, the calculator's teams and their merge. Shown: partners
    of a parsed roster are linked both ways, the merge places every team at most once and reports the rest.
  \<^item> \<open>BattleSetup\<close> (\<open>SCRIPTS/play.py\<close>, \<open>data/name_aliases.py\<close>): party snapshots and trainer data become a battle state. Shown: which
    snapshots can be converted, and that a built battle has values in range on both sides.
  \<^item> \<open>BattleInput\<close> (\<open>emulator/battle_input.py\<close>): key presses over the socket and the two menus. Shown: the move that the policy chose
    is the one that the keys enter, from every position of the cursor.
  \<^item> \<open>PlayLoop\<close> (\<open>SCRIPTS/play.py\<close>, \<open>main\<close>): the event loop of a session, with its grabs of the screen through the frame
    cache. Shown: its invariant, which grabs ask for a screenshot, and that keys are only pressed while capturing.
  \<^item> \<open>Fonts\<close> (\<open>vision/font_matcher.py\<close>): the fonts from the files of the game and the scan of an image for their glyphs. Shown: the
    scan ends, and it reads back a drawn line.
  \<^item> \<open>Ocr\<close> (\<open>vision/ocr.py\<close>, \<open>regions.py\<close>, \<open>capture.py\<close>, \<open>reader.py\<close>): the readers of the boxes and the frame cache. Shown: the screen
    is always read, with nothing in the reading that the scans do not show, a box is read exactly, the grabs of a cycle share a frame.
  \<^item> \<open>Known\<close> (\<open>known_values.py\<close>): the names that are accepted without constraints. Shown: every display name of the engine's species and
    moves is accepted.
  \<^item> \<open>ItemTable\<close> (\<open>data/items.py\<close>): the rows of the item data. Shown: the display name of an item resolves to that item, with one exception.
  \<^item> \<open>TrainerText\<close> (\<open>data/trainer.py\<close>): the printed form of the trainer data. Shown: a printed mon is read back by the parser of the text file.
  \<^item> \<open>Generation\<close> (\<open>battle_gen.py\<close>): random battles. Shown: for every outcome of the draws a generated battle is legal (moves that the
    species learns, without repetition, with a damaging one where there is one, abilities, items, natures and sizes in range).
  \<^item> \<open>Traces\<close> (\<open>golden_trace.py\<close>): the records of a golden trace and their validator. Shown: the validator accepts exactly the well-formed traces.
  \<^item> \<open>Replay\<close> (\<open>trace_replay.py\<close>): the conversion of a trace to the outcomes that the engine is forced to take, over the codec of \<open>SweepIO\<close>. The records have the shape of
    the traces in the test fixtures. Shown: it gives back the recorded battle, and refuses one in which a speed tie was asked for.
  \<^item> \<open>Aggregate\<close> (\<open>SCRIPTS/rcheck_aggregate.py\<close>): the gate over the solver's reference checks, and its self-test. Shown: it passes no hard failure and no
    file whose summary differs from its records, and its percentiles lie between the extremes.

  \<^bold>\<open>How code becomes a definition.\<close> A dataclass is a record, an enumeration a datatype, except that species, moves, items and
  abilities are their integer identifiers. A dictionary is an association list in insertion order and a set that is
  iterated is a list. Floats that are probabilities, thresholds and weights are rationals. Python's unbounded integers are
  \<open>int\<close>; indices that are never negative are \<open>nat\<close>. An exception is a value of \<open>exn\<close>. Where the code
  compares objects by \<open>id()\<close>, the objects carry an identity (\<open>mr_oid\<close>, \<open>ca_id\<close>). Randomness is an explicit stream of draws.

  \<^bold>\<open>Arguments.\<close> These are arguments of the definitions that use them: the native battle engine (\<open>engine\<close>, a record of
  its entry points), the distance function of the \<open>rapidfuzz\<close> package (\<open>distance\<close>), the tables of species and
  moves (\<open>game_data\<close>, with the program's own in \<open>BattleSetup\<close>), the sets of known names (\<open>known_names\<close>, the program's own in \<open>Known\<close>), the files of the decompiled
  game that hold its fonts (\<open>font_files\<close>), the files of learnsets and abilities (\<open>gen_tables\<close>), the printer and the parser of a JSON line
  (\<open>dumps\<close>, \<open>loads\<close>) and the bytes that arrive on the socket (\<open>client\<close>). Witnesses use \<open>idle_engine\<close>, \<open>levenshtein\<close>, \<open>sample_data\<close> and \<open>no_names\<close>.

  \<^bold>\<open>Loops and bounds.\<close> Loops are structural recursions, folds or recursions with a measure, so there is no fuel. Two loops of
  the code could run forever in principle, the walk along the parents of the alignment table and the scan of an image, which stays where it is after
  a glyph without width: they are partial functions and proved to end, the scan for the fonts that are loaded from files. The cost that stands for infinity in the alignment is the code's \<open>10 ^ 9\<close>. A session is loaded in
  order up to 10000 boundaries, the width of the index in the file names.

  \<^bold>\<open>Not modelled.\<close> The battle engine itself (C++), the decoding of image files (an image is its rows of red, green and blue values; the emulator's
  screenshots have no alpha channel), the emulator process, pauses,
  the printed logs, reports and error texts, the other scripts (\<open>SCRIPTS\<close>), and the JavaScript source of the calculator data.
\<close>

end
